(* ===== verification/Prelude.thy ===== *)
theory Prelude
  imports Complex_Main "HOL-Library.Word" "HOL-Library.AList" "HOL-Library.Log_Nat"
    "HOL-Library.Sublist" "HOL-Library.Multiset"
begin

text \<open>
  What every component shares: Python values and dictionaries, the string functions the sources
  call, the arithmetic of \<^verbatim>\<open>decimal.Decimal\<close> in its default context, stable sorting by a key,
  \<^verbatim>\<open>uuid.UUID\<close> as a 128-bit word, and exceptions as the left side of a sum. The generic
  lemmas are collected in \<open>dict_simps\<close>, \<open>dec_simps\<close> and \<open>step_simps\<close>.

  Conventions. A \<^verbatim>\<open>datetime\<close> is an \<open>int\<close> of microseconds since the epoch, so that
  \<^verbatim>\<open>total_seconds\<close> is a division by \<open>10^6\<close>. A \<^verbatim>\<open>float\<close> that is only compared is a \<open>rat\<close>.
  A finite \<^verbatim>\<open>Decimal\<close> that is only computed with is a \<open>rat\<close>: sums and products of the
  \<^verbatim>\<open>Numeric\<close> columns have far fewer than 28 digits and are exact, a quotient is rounded to the
  28 digits of the context by \<open>dec_div\<close>. Strings are ASCII.
\<close>

named_theorems dict_simps \<open>reading dictionaries after an update\<close>
named_theorems dec_simps \<open>decimal arithmetic\<close>
named_theorems step_simps \<open>what one step leaves unchanged\<close>

section \<open>Errors as values\<close>

text \<open>An exception carries the name of its class and its message.\<close>

datatype exn = Exn (exn_class: string) (exn_message: string)

type_synonym 'a result = "exn + 'a"

definition value_error :: "string \<Rightarrow> 'a result" where
  "value_error m = Inl (Exn ''ValueError'' m)"

definition is_ok :: "'a result \<Rightarrow> bool" where
  "is_ok r = (case r of Inl _ \<Rightarrow> False | Inr _ \<Rightarrow> True)"

lemma is_ok_simps [simp]: "is_ok (Inr x)" "\<not> is_ok (Inl e)" "\<not> is_ok (value_error m)"
  by (simp_all add: is_ok_def value_error_def)

lemma is_ok_iff: "is_ok r \<longleftrightarrow> (\<exists>x. r = Inr x)"
  by (cases r) simp_all

lemma value_error_neq [simp]: "value_error m \<noteq> Inr x" "Inr x \<noteq> value_error m"
  by (simp_all add: value_error_def)

definition bind_Inr :: "'a result \<Rightarrow> ('a \<Rightarrow> 'b result) \<Rightarrow> 'b result" where
  "bind_Inr r f = (case r of Inl e \<Rightarrow> Inl e | Inr x \<Rightarrow> f x)"

definition map_Inr :: "('a \<Rightarrow> 'b) \<Rightarrow> 'a result \<Rightarrow> 'b result" where
  "map_Inr f r = (case r of Inl e \<Rightarrow> Inl e | Inr x \<Rightarrow> Inr (f x))"

lemma bind_Inr_simps [simp]: "bind_Inr (Inl e) f = Inl e" "bind_Inr (Inr x) f = f x" "map_Inr g (Inl e) = Inl e" "map_Inr g (Inr x) = Inr (g x)"
  by (simp_all add: bind_Inr_def map_Inr_def)

lemma bind_Inr_eq: "bind_Inr r f = Inr y \<longleftrightarrow> (\<exists>x. r = Inr x \<and> f x = Inr y)"
  by (cases r) simp_all

lemma map_Inr_eq: "map_Inr f r = Inr y \<longleftrightarrow> (\<exists>x. r = Inr x \<and> y = f x)"
  by (cases r) auto

fun map_result :: "('a \<Rightarrow> 'b result) \<Rightarrow> 'a list \<Rightarrow> 'b list result" where
  "map_result f [] = Inr []"
| "map_result f (x # xs) = (case f x of Inl e \<Rightarrow> Inl e
     | Inr y \<Rightarrow> (case map_result f xs of Inl e \<Rightarrow> Inl e | Inr ys \<Rightarrow> Inr (y # ys)))"

lemma map_result_Inr: "map_result f xs = Inr ys \<Longrightarrow> y \<in> set ys \<longleftrightarrow> (\<exists>x\<in>set xs. f x = Inr y)"
  by (induction xs arbitrary: ys) (auto split: sum.splits)

lemma map_result_total: "list_all (\<lambda>x. is_ok (f x)) xs \<Longrightarrow> \<exists>ys. map_result f xs = Inr ys"
  by (induction xs) (auto simp: is_ok_iff)

section \<open>Strings\<close>

definition upper_char :: "char \<Rightarrow> char" where
  "upper_char c =
     (if 97 \<le> (of_char c :: nat) \<and> (of_char c :: nat) \<le> 122 then char_of (of_char c - (32::nat)) else c)"

definition lower_char :: "char \<Rightarrow> char" where
  "lower_char c =
     (if 65 \<le> (of_char c :: nat) \<and> (of_char c :: nat) \<le> 90 then char_of (of_char c + (32::nat)) else c)"

definition py_upper :: "string \<Rightarrow> string" where
  "py_upper s = map upper_char s"

definition py_lower :: "string \<Rightarrow> string" where
  "py_lower s = map lower_char s"

definition is_upper_letter :: "char \<Rightarrow> bool" where
  "is_upper_letter c \<longleftrightarrow> 65 \<le> (of_char c :: nat) \<and> (of_char c :: nat) \<le> 90"

definition is_lower_letter :: "char \<Rightarrow> bool" where
  "is_lower_letter c \<longleftrightarrow> 97 \<le> (of_char c :: nat) \<and> (of_char c :: nat) \<le> 122"

definition is_digit :: "char \<Rightarrow> bool" where
  "is_digit c \<longleftrightarrow> 48 \<le> (of_char c :: nat) \<and> (of_char c :: nat) \<le> 57"

definition is_alnum :: "char \<Rightarrow> bool" where
  "is_alnum c \<longleftrightarrow> is_upper_letter c \<or> is_lower_letter c \<or> is_digit c"

definition is_space :: "char \<Rightarrow> bool" where
  "is_space c \<longleftrightarrow> of_char c = (32::nat) \<or> (9 \<le> (of_char c :: nat) \<and> (of_char c :: nat) \<le> 13)
     \<or> (28 \<le> (of_char c :: nat) \<and> (of_char c :: nat) \<le> 31)"

definition py_strip :: "string \<Rightarrow> string" where
  "py_strip s = rev (dropWhile is_space (rev (dropWhile is_space s)))"

definition startswith :: "string \<Rightarrow> string \<Rightarrow> bool" where
  "startswith s p = prefix p s"

text \<open>\<^verbatim>\<open>s.replace("Z", "+00:00")\<close>.\<close>

definition replace_z :: "string \<Rightarrow> string" where
  "replace_z s = concat (map (\<lambda>c. if c = CHR ''Z'' then ''+00:00'' else [c]) s)"

text \<open>The substring test \<^verbatim>\<open>pattern in text\<close>.\<close>

fun py_in :: "string \<Rightarrow> string \<Rightarrow> bool" where
  "py_in p [] = (p = [])"
| "py_in p (c # s) = (prefix p (c # s) \<or> py_in p s)"

lemma of_char_upper_char:
  "(of_char (upper_char c) :: nat) =
     (if 97 \<le> (of_char c :: nat) \<and> (of_char c :: nat) \<le> 122 then of_char c - 32 else of_char c)"
  by (auto simp: upper_char_def)

lemma upper_char_idem [simp]: "upper_char (upper_char c) = upper_char c"
  unfolding upper_char_def [of "upper_char c"] using of_char_upper_char [of c]
  by (auto simp: upper_char_def)

lemma py_upper_idem [simp]: "py_upper (py_upper s) = py_upper s"
  by (simp add: py_upper_def)

lemma length_py_upper [simp]: "length (py_upper s) = length s"
  by (simp add: py_upper_def)

lemma py_upper_Nil_iff [simp]: "py_upper s = [] \<longleftrightarrow> s = []"
  by (simp add: py_upper_def)

lemma startswith_refl [simp]: "startswith s s" and startswith_Nil [simp]: "startswith s []"
  by (simp_all add: startswith_def)

subsection \<open>Decimal numerals\<close>

definition digit_char :: "nat \<Rightarrow> char" where
  "digit_char d = char_of (48 + d)"

fun show_nat :: "nat \<Rightarrow> string" where
  "show_nat n = (if n < 10 then [digit_char n] else show_nat (n div 10) @ [digit_char (n mod 10)])"

declare show_nat.simps [simp del]

definition show_int :: "int \<Rightarrow> string" where
  "show_int i = (if i < 0 then CHR ''-'' # show_nat (nat (- i)) else show_nat (nat i))"

text \<open>An exception of the web framework carries its status in its class.\<close>

definition http_raise :: "int \<Rightarrow> string \<Rightarrow> 'a result" where
  "http_raise status detail = Inl (Exn (''HTTPException '' @ show_int status) detail)"

definition digit_value :: "char \<Rightarrow> nat" where
  "digit_value c = of_char c - 48"

definition read_nat :: "string \<Rightarrow> nat" where
  "read_nat s = foldl (\<lambda>n c. 10 * n + digit_value c) 0 s"

lemma digit_value_digit_char [simp]: "d < 10 \<Longrightarrow> digit_value (digit_char d) = d"
  by (simp add: digit_value_def digit_char_def)

lemma read_nat_show_nat [simp]: "read_nat (show_nat n) = n"
proof (induction n rule: show_nat.induct)
  case (1 n)
  then show ?case
    by (subst show_nat.simps) (auto simp: read_nat_def)
qed

lemma show_nat_inj [simp]: "show_nat m = show_nat n \<longleftrightarrow> m = n"
  by (metis read_nat_show_nat)

lemma is_digit_digit_char [simp]: "d < 10 \<Longrightarrow> is_digit (digit_char d)"
  by (simp add: is_digit_def digit_char_def)

lemma show_nat_digits: "c \<in> set (show_nat n) \<Longrightarrow> is_digit c"
proof (induction n rule: show_nat.induct)
  case (1 n)
  then show ?case
    by (subst (asm) (2) show_nat.simps) (auto split: if_splits)
qed

lemma minus_not_digit [simp]: "\<not> is_digit CHR ''-''" and colon_not_digit [simp]: "\<not> is_digit CHR '':''"
  by (simp_all add: is_digit_def)

lemma show_int_inj [simp]: "show_int i = show_int j \<longleftrightarrow> i = j"
proof -
  have minus: "CHR ''-'' # s \<noteq> show_nat n" for s n
    using show_nat_digits [of "CHR ''-''" n] by (metis list.set_intros(1) minus_not_digit)
  show ?thesis
    by (auto simp: show_int_def minus minus [symmetric])
qed

lemma show_int_no_colon: "CHR '':'' \<notin> set (show_int i)"
  using show_nat_digits [of "CHR '':''"] by (auto simp: show_int_def)

section \<open>Decimal arithmetic\<close>

text \<open>
  \<open>Dec c e\<close> is the finite \<^verbatim>\<open>Decimal\<close> of coefficient \<open>c\<close> and exponent \<open>e\<close>, the pair Python keeps
  (\<^verbatim>\<open>Decimal("2650")\<close> and \<^verbatim>\<open>Decimal("2650.0")\<close> are equal numbers and print differently).
\<close>

datatype decimal = Dec int int | DInfinity bool | DNaN

definition dval :: "decimal \<Rightarrow> rat" where
  "dval d = (case d of Dec c e \<Rightarrow> of_int c * 10 powi e | _ \<Rightarrow> 0)"

definition is_finite_dec :: "decimal \<Rightarrow> bool" where
  "is_finite_dec d = (case d of Dec _ _ \<Rightarrow> True | _ \<Rightarrow> False)"

lemma dval_Dec [simp]: "dval (Dec c e) = of_int c * 10 powi e"
  by (simp add: dval_def)

lemma is_finite_dec_simps [simp]:
  "is_finite_dec (Dec c e)" "\<not> is_finite_dec (DInfinity s)" "\<not> is_finite_dec DNaN"
  by (simp_all add: is_finite_dec_def)

subsection \<open>Rounding\<close>

definition round_half_even :: "rat \<Rightarrow> int" where
  "round_half_even x =
     (let f = \<lfloor>x\<rfloor>; d = x - of_int f in
      if d < 1 / 2 then f else if d > 1 / 2 then f + 1 else if even f then f else f + 1)"

lemma round_half_even_error: "\<bar>of_int (round_half_even x) - x\<bar> \<le> 1 / 2"
proof -
  define d where "d = x - of_int \<lfloor>x\<rfloor>"
  have d: "0 \<le> d" "d < 1" and x: "x = of_int \<lfloor>x\<rfloor> + d" unfolding d_def by linarith+
  have r: "round_half_even x = (if d < 1 / 2 then \<lfloor>x\<rfloor> else if d > 1 / 2 then \<lfloor>x\<rfloor> + 1
      else if even \<lfloor>x\<rfloor> then \<lfloor>x\<rfloor> else \<lfloor>x\<rfloor> + 1)"
    by (simp only: round_half_even_def Let_def d_def)
  have "\<bar>of_int (round_half_even x) - (of_int \<lfloor>x\<rfloor> + d)\<bar> \<le> 1 / 2"
    using d by (auto simp: r)
  then show ?thesis using x by simp
qed

lemma round_half_even_of_int [simp]: "round_half_even (of_int n) = n"
  by (simp add: round_half_even_def)

text \<open>
  The exponent of the leading digit of \<open>x\<close>: the number of digits of the numerator minus that of
  the denominator, or one less.
\<close>

definition dec_digits :: "nat \<Rightarrow> nat" where
  "dec_digits n = floorlog 10 n"

definition dec_lead :: "rat \<Rightarrow> int" where
  "dec_lead x =
     (let (p, q) = quotient_of \<bar>x\<bar>;
          k = int (dec_digits (nat p)) - int (dec_digits (nat q)) in
      if \<bar>x\<bar> \<ge> 10 powi k then k else k - 1)"

definition dec_prec :: int where
  "dec_prec = 28"

text \<open>Rounding to the 28 significant digits of the default context, \<^verbatim>\<open>ROUND_HALF_EVEN\<close>.\<close>

definition dec_round :: "rat \<Rightarrow> rat" where
  "dec_round x =
     (if x = 0 then 0
      else let u = 10 powi (dec_lead x - (dec_prec - 1)) in of_int (round_half_even (x / u)) * u)"

definition dec_div :: "rat \<Rightarrow> rat \<Rightarrow> rat" where
  "dec_div a b = dec_round (a / b)"

lemma dec_round_0 [simp, dec_simps]: "dec_round 0 = 0"
  by (simp add: dec_round_def)

lemma dec_digits_lower:
  assumes "0 < n" shows "(10::rat) powi (int (dec_digits n) - 1) \<le> of_nat n"
proof -
  have "10 ^ (floorlog 10 n - 1) \<le> n"
    using assms floorlog_bounds [of n 10] by simp
  then have "(10::rat) ^ (floorlog 10 n - 1) \<le> of_nat n"
    by (metis of_nat_le_iff of_nat_numeral of_nat_power)
  moreover have "floorlog 10 n > 0" using assms by (simp add: floorlog_def)
  ultimately show ?thesis
    by (simp add: dec_digits_def power_int_def nat_diff_distrib)
qed

lemma dec_digits_upper:
  "of_nat n < (10::rat) powi (int (dec_digits n))" if "0 < n"
proof -
  have "n < 10 ^ floorlog 10 n" using that floorlog_bounds [of n 10] by simp
  then have "of_nat n < (10::rat) ^ floorlog 10 n"
    by (metis of_nat_less_iff of_nat_numeral of_nat_power)
  then show ?thesis by (simp add: dec_digits_def power_int_def)
qed

lemma dec_lead_le:
  assumes "x \<noteq> 0" shows "10 powi dec_lead x \<le> \<bar>x\<bar>"
proof -
  obtain p q where pq: "quotient_of \<bar>x\<bar> = (p, q)" by (metis surj_pair)
  have q: "q > 0" and xeq: "\<bar>x\<bar> = of_int p / of_int q"
    using quotient_of_denom_pos [OF pq] quotient_of_div [OF pq] by auto
  have p: "p > 0"
  proof -
    have "0 < of_int p / (of_int q :: rat)" using assms xeq by (metis zero_less_abs_iff)
    with q show ?thesis by (simp add: zero_less_divide_iff)
  qed
  define k where "k = int (dec_digits (nat p)) - int (dec_digits (nat q))"
  have "10 powi (k - 1) \<le> \<bar>x\<bar>"
  proof -
    have a: "(10::rat) powi (int (dec_digits (nat p)) - 1) \<le> of_int p"
      using dec_digits_lower [of "nat p"] p by simp
    have b: "of_int q < (10::rat) powi int (dec_digits (nat q))"
      using dec_digits_upper [of "nat q"] q by simp
    have "(10::rat) powi (k - 1) = 10 powi (int (dec_digits (nat p)) - 1) / 10 powi int (dec_digits (nat q))"
    proof -
      have "k - 1 = int (dec_digits (nat p)) - 1 - int (dec_digits (nat q))" by (simp add: k_def)
      then show ?thesis by (metis power_int_diff rel_simps(76) zero_neq_numeral)
    qed
    also have "\<dots> \<le> of_int p / of_int q"
      using a b p q by (intro frac_le) auto
    finally show ?thesis by (simp add: xeq)
  qed
  then show ?thesis
    by (auto simp: dec_lead_def pq k_def Let_def)
qed

lemma dec_round_error: "\<bar>dec_round x - x\<bar> \<le> \<bar>x\<bar> / (2 * 10 ^ 27)"
proof (cases "x = 0")
  case False
  define u :: rat where "u = 10 powi (dec_lead x - (dec_prec - 1))"
  have u: "u > 0" by (simp add: u_def)
  have r: "dec_round x = of_int (round_half_even (x / u)) * u"
    using False by (simp add: dec_round_def Let_def u_def)
  have "dec_round x - x = (of_int (round_half_even (x / u)) - x / u) * u"
    using u by (simp add: r field_simps)
  then have "\<bar>dec_round x - x\<bar> = \<bar>of_int (round_half_even (x / u)) - x / u\<bar> * u"
    using u by (simp add: abs_mult)
  also have "\<dots> \<le> 1 / 2 * u"
    using u round_half_even_error by (intro mult_right_mono) auto
  also have "u = 10 powi dec_lead x / 10 ^ 27"
    using power_int_diff [of "10 :: rat" "dec_lead x" 27] by (simp add: u_def dec_prec_def)
  also have "1 / 2 * (10 powi dec_lead x / 10 ^ 27) \<le> \<bar>x\<bar> / (2 * 10 ^ 27)"
    using dec_lead_le [OF False] by (simp add: field_simps)
  finally show ?thesis .
qed simp

text \<open>A number of at most 28 digits is left alone.\<close>

lemma dec_round_exact:
  assumes "\<bar>c\<bar> < 10 ^ 28" shows "dec_round (of_int c * 10 powi d) = of_int c * 10 powi d"
proof (cases "c = 0")
  case False
  define x :: rat where "x = of_int c * 10 powi d"
  define e where "e = dec_lead x - (dec_prec - 1)"
  have x0: "x \<noteq> 0" using False by (simp add: x_def)
  have "e \<le> d"
  proof (rule ccontr)
    assume "\<not> e \<le> d"
    then have "10 powi (d + 28) \<le> (10::rat) powi dec_lead x"
      by (intro power_int_increasing) (auto simp: e_def dec_prec_def)
    also have "\<dots> \<le> \<bar>x\<bar>" by (rule dec_lead_le [OF x0])
    also have "\<bar>x\<bar> = of_int \<bar>c\<bar> * 10 powi d" by (simp add: x_def abs_mult)
    finally have "(10::rat) powi 28 \<le> of_int \<bar>c\<bar>"
      by (simp add: power_int_add mult.commute)
    then have "(of_int (10 ^ 28) :: rat) \<le> of_int \<bar>c\<bar>" by simp
    with assms show False by (simp only: of_int_le_iff)
  qed
  have "x / 10 powi e = of_int (c * 10 ^ nat (d - e))"
  proof -
    have "(10::rat) powi d = 10 powi (d - e) * 10 powi e" by (simp flip: power_int_add)
    also have "(10::rat) powi (d - e) = 10 ^ nat (d - e)" using \<open>e \<le> d\<close> by (simp add: power_int_def)
    finally show ?thesis by (simp add: x_def)
  qed
  then have "of_int (round_half_even (x / 10 powi e)) * 10 powi e = x"
    by (metis nonzero_eq_divide_eq power_int_not_zero round_half_even_of_int zero_neq_numeral)
  then show ?thesis using x0 by (simp add: dec_round_def Let_def e_def x_def [symmetric])
qed simp

lemma dec_round_of_int [dec_simps]: "\<bar>c\<bar> < 10 ^ 28 \<Longrightarrow> dec_round (of_int c) = of_int c"
  using dec_round_exact [of c 0] by simp

text \<open>
  Rounding the quotient of two integers of at most 13 digits never moves it across an integer, so
  that the floor of a rounded quotient is the floor of the quotient.
\<close>

lemma floor_dec_div:
  assumes a: "0 \<le> a" "a \<le> 10 ^ 13" and b: "0 < b" "b \<le> 10 ^ 13"
  shows "\<lfloor>dec_div (of_int a) (of_int b)\<rfloor> = \<lfloor>of_int a / of_int b :: rat\<rfloor>"
proof -
  define x :: rat where "x = of_int a / of_int b"
  define n where "n = a div b"
  have fl: "\<lfloor>x\<rfloor> = n" by (simp add: x_def n_def floor_divide_of_int_eq)
  have a': "(of_int a :: rat) \<le> 10 ^ 13" using a by (metis of_int_le_iff of_int_numeral of_int_power)
  have b': "0 < (of_int b :: rat)" "(of_int b :: rat) \<le> 10 ^ 13"
    using b by (simp, metis of_int_le_iff of_int_numeral of_int_power)
  have b1: "1 \<le> (of_int b :: rat)" using b by simp
  have "x \<le> of_int a" using a b1 by (simp add: x_def divide_le_eq mult_le_cancel_left1)
  with a' have x13: "0 \<le> x" "x \<le> 10 ^ 13" using a b by (auto simp: x_def)
  define eps :: rat where "eps = 1 / (2 * 10 ^ 14)"
  have err: "\<bar>dec_round x - x\<bar> \<le> eps"
    using dec_round_error [of x] x13 by (simp add: eps_def)
  have small: "eps < 1 / of_int b" using b' by (simp add: eps_def field_simps)
  have ab: "of_int a = of_int n * of_int b + (of_int (a mod b) :: rat)"
    by (metis div_mult_mod_eq n_def of_int_add of_int_mult)
  have xeq: "x = of_int n + of_int (a mod b) / of_int b"
    using b' by (simp add: x_def ab add_divide_distrib)
  have hi: "dec_round x < of_int n + 1"
  proof -
    have "a mod b + 1 \<le> b" using b by (simp add: add1_zle_eq)
    then have "of_int (a mod b) + 1 \<le> (of_int b :: rat)"
      by (metis of_int_1 of_int_add of_int_le_iff)
    then have "of_int (a mod b) / of_int b + 1 / of_int b \<le> (1::rat)"
      using b' by (simp add: add_divide_distrib [symmetric])
    with err small xeq show ?thesis by linarith
  qed
  have lo: "of_int n \<le> dec_round x"
  proof (cases "a mod b = 0")
    case True
    then have "x = of_int n" using xeq by simp
    moreover have "\<bar>n\<bar> < 10 ^ 28"
    proof -
      have "0 \<le> n" using a b by (simp add: n_def pos_imp_zdiv_nonneg_iff)
      moreover have "n \<le> a" using \<open>x \<le> of_int a\<close> fl by (metis floor_mono floor_of_int)
      ultimately show ?thesis using a by simp
    qed
    ultimately show ?thesis by (simp add: dec_round_of_int)
  next
    case False
    then have "1 \<le> a mod b" using b pos_mod_sign [of b a] by linarith
    then have "1 / of_int b \<le> of_int (a mod b) / (of_int b :: rat)"
      using b' by (intro divide_right_mono) auto
    with err small xeq show ?thesis by linarith
  qed
  have "\<lfloor>dec_round x\<rfloor> = n" using lo hi by (simp add: floor_eq_iff)
  then show ?thesis by (simp add: dec_div_def fl x_def [symmetric])
qed

subsection \<open>Printing with a fixed number of decimals\<close>

definition pad_left :: "nat \<Rightarrow> string \<Rightarrow> string" where
  "pad_left k s = replicate (k - length s) (CHR ''0'') @ s"

text \<open>
  A \<^verbatim>\<open>Numeric(_, k)\<close> column prints with \<open>k\<close> decimals, and so does the format \<^verbatim>\<open>.kf\<close>.
\<close>

definition show_fixed :: "nat \<Rightarrow> rat \<Rightarrow> string" where
  "show_fixed k x = (
     let n = round_half_even (x * 10 ^ k); m = nat \<bar>n\<bar> in
     (if n < 0 then ''-'' else []) @ show_nat (m div 10 ^ k) @
     (if k = 0 then [] else ''.'' @ pad_left k (show_nat (m mod 10 ^ k))))"

section \<open>Values and dictionaries\<close>

text \<open>
  The JSON values that contexts and payloads hold. \<open>PDec d\<close> is the string a \<^verbatim>\<open>Decimal\<close> is dumped
  to by \<^verbatim>\<open>model_dump(mode="json")\<close>; \<^verbatim>\<open>Decimal(str(...))\<close> reads the same coefficient and exponent
  back, and two such strings are equal exactly when the pairs are. \<open>PNum x\<close> is the string of a
  finite \<^verbatim>\<open>Decimal\<close> the program computed, kept by its value, and \<open>PTime t\<close> the string
  \<^verbatim>\<open>isoformat\<close> gives for an instant; no other string reads as a number or as an instant. A dictionary keeps its
  insertion order, and \<open>dict_set\<close> updates in place or appends, as Python's does.
\<close>

datatype pyval = PNone | PBool bool | PInt int | PDec decimal | PNum rat | PTime int | PStr string
  | PList "pyval list" | PDict "(string \<times> pyval) list"

type_synonym dict = "(string \<times> pyval) list"

definition dict_get :: "dict \<Rightarrow> string \<Rightarrow> pyval" where
  "dict_get d k = (case map_of d k of None \<Rightarrow> PNone | Some v \<Rightarrow> v)"

definition dict_has :: "dict \<Rightarrow> string \<Rightarrow> bool" where
  "dict_has d k \<longleftrightarrow> map_of d k \<noteq> None"

definition dict_set :: "string \<Rightarrow> pyval \<Rightarrow> dict \<Rightarrow> dict" where
  "dict_set = AList.update"

definition truthy :: "pyval \<Rightarrow> bool" where
  "truthy v = (case v of PNone \<Rightarrow> False | PBool b \<Rightarrow> b | PInt i \<Rightarrow> i \<noteq> 0 | PDec _ \<Rightarrow> True
     | PNum _ \<Rightarrow> True | PTime _ \<Rightarrow> True | PStr s \<Rightarrow> s \<noteq> [] | PList xs \<Rightarrow> xs \<noteq> [] | PDict d \<Rightarrow> d \<noteq> [])"

text \<open>\<^verbatim>\<open>a or b\<close>.\<close>

definition or_value :: "pyval \<Rightarrow> pyval \<Rightarrow> pyval" where
  "or_value a b = (if truthy a then a else b)"

text \<open>
  \<^verbatim>\<open>str(value)\<close>. Identifiers are texts or integers; what Python prints for the other kinds of values is a
  parameter.
\<close>

definition text_of :: "(pyval \<Rightarrow> string) \<Rightarrow> pyval \<Rightarrow> string" where
  "text_of other v = (case v of PStr s \<Rightarrow> s | PInt i \<Rightarrow> show_int i | PNone \<Rightarrow> ''None''
     | PBool b \<Rightarrow> if b then ''True'' else ''False'' | _ \<Rightarrow> other v)"

text \<open>\<^verbatim>\<open>Decimal(str(v))\<close> and \<^verbatim>\<open>datetime.fromisoformat(v)\<close>.\<close>

definition to_decimal :: "pyval \<Rightarrow> decimal result" where
  "to_decimal v = (case v of PDec d \<Rightarrow> Inr d | PInt i \<Rightarrow> Inr (Dec i 0)
     | _ \<Rightarrow> Inl (Exn ''InvalidOperation'' ''conversion syntax''))"

definition to_number :: "pyval \<Rightarrow> rat result" where
  "to_number v = (case v of PNum x \<Rightarrow> Inr x
     | PDec d \<Rightarrow> (if is_finite_dec d then Inr (dval d) else Inl (Exn ''InvalidOperation'' ''not finite''))
     | PInt i \<Rightarrow> Inr (of_int i) | _ \<Rightarrow> Inl (Exn ''InvalidOperation'' ''conversion syntax''))"

definition to_instant :: "pyval \<Rightarrow> int result" where
  "to_instant v = (case v of PTime t \<Rightarrow> Inr t | PStr s \<Rightarrow> value_error (''Invalid isoformat string: '' @ s)
     | _ \<Rightarrow> Inl (Exn ''TypeError'' ''fromisoformat: argument must be str''))"

text \<open>\<^verbatim>\<open>d[key]\<close> raises where \<^verbatim>\<open>d.get(key)\<close> gives \<^verbatim>\<open>None\<close>.\<close>

definition dict_item :: "dict \<Rightarrow> string \<Rightarrow> pyval result" where
  "dict_item d k = (case map_of d k of None \<Rightarrow> Inl (Exn ''KeyError'' k) | Some v \<Rightarrow> Inr v)"

definition str_item :: "dict \<Rightarrow> string \<Rightarrow> string result" where
  "str_item p k = (case dict_item p k of Inr (PStr s) \<Rightarrow> Inr s | _ \<Rightarrow> Inl (Exn ''KeyError'' k))"

definition int_item :: "dict \<Rightarrow> string \<Rightarrow> int result" where
  "int_item p k = (case dict_item p k of Inr (PInt s) \<Rightarrow> Inr s | _ \<Rightarrow> Inl (Exn ''KeyError'' k))"

definition str_val :: "pyval \<Rightarrow> string option" where
  "str_val v = (case v of PStr s \<Rightarrow> Some s | _ \<Rightarrow> None)"

definition dec_val :: "pyval \<Rightarrow> decimal option" where
  "dec_val v = (case v of PDec d \<Rightarrow> Some d | _ \<Rightarrow> None)"

definition list_val :: "pyval \<Rightarrow> pyval list" where
  "list_val v = (case v of PList xs \<Rightarrow> xs | _ \<Rightarrow> [])"

definition opt_str :: "string option \<Rightarrow> pyval" where
  "opt_str x = (case x of None \<Rightarrow> PNone | Some s \<Rightarrow> PStr s)"

definition opt_dec :: "decimal option \<Rightarrow> pyval" where
  "opt_dec x = (case x of None \<Rightarrow> PNone | Some d \<Rightarrow> PDec d)"

lemma map_of_dict_set [dict_simps]: "map_of (dict_set k v d) = (map_of d)(k \<mapsto> v)"
  by (simp add: dict_set_def update_conv' fun_eq_iff)

lemma dict_get_set [dict_simps]: "dict_get (dict_set k v d) j = (if j = k then v else dict_get d j)"
  by (simp add: dict_get_def map_of_dict_set)

lemma dict_has_set [dict_simps]: "dict_has (dict_set k v d) j \<longleftrightarrow> j = k \<or> dict_has d j"
  by (simp add: dict_has_def map_of_dict_set)

lemma dict_get_absent: "\<not> dict_has d k \<Longrightarrow> dict_get d k = PNone"
  by (simp add: dict_get_def dict_has_def)

lemma distinct_dict_set [simp]: "distinct (map fst d) \<Longrightarrow> distinct (map fst (dict_set k v d))"
  by (simp add: dict_set_def distinct_update)

section \<open>Lists\<close>

text \<open>
  \<^verbatim>\<open>sorted(xs, key=k, reverse=True)\<close> keeps the order of elements of equal key, as
  \<^verbatim>\<open>sorted(xs, key=k)\<close> does.
\<close>

definition sorted_by :: "('a \<Rightarrow> int) \<Rightarrow> 'a list \<Rightarrow> 'a list" where
  "sorted_by k xs = sort_key k xs"

definition sorted_by_desc :: "('a \<Rightarrow> int) \<Rightarrow> 'a list \<Rightarrow> 'a list" where
  "sorted_by_desc k xs = sort_key (\<lambda>x. - k x) xs"

lemma set_sorted_by [simp]: "set (sorted_by k xs) = set xs" "set (sorted_by_desc k xs) = set xs"
  by (simp_all add: sorted_by_def sorted_by_desc_def)

lemma length_sorted_by [simp]:
  "length (sorted_by k xs) = length xs" "length (sorted_by_desc k xs) = length xs"
  by (simp_all add: sorted_by_def sorted_by_desc_def)

lemma mset_sorted_by_desc [simp]: "mset (sorted_by_desc k xs) = mset xs"
  by (simp add: sorted_by_desc_def)

lemma sorted_sorted_by_desc: "sorted (map (\<lambda>x. - k x) (sorted_by_desc k xs))"
  by (simp add: sorted_by_desc_def)

text \<open>\<^verbatim>\<open>list(dict.fromkeys(xs))\<close>: the first occurrence of every element, in order.\<close>

definition from_keys :: "'a list \<Rightarrow> 'a list" where
  "from_keys xs = rev (remdups (rev xs))"

lemma set_from_keys [simp]: "set (from_keys xs) = set xs"
  and distinct_from_keys [simp]: "distinct (from_keys xs)"
  by (simp_all add: from_keys_def)

lemma from_keys_Nil_iff [simp]: "from_keys xs = [] \<longleftrightarrow> xs = []"
  by (simp add: from_keys_def)

lemma find_SomeD: "find P xs = Some x \<Longrightarrow> x \<in> set xs \<and> P x"
  by (auto simp: find_Some_iff)

definition max_list_int :: "int list \<Rightarrow> int \<Rightarrow> int" where
  "max_list_int xs d = (if xs = [] then d else Max (set xs))"

lemma max_list_int_code [code]:
  "max_list_int xs d = (case xs of [] \<Rightarrow> d | y # ys \<Rightarrow> fold max ys y)"
  by (cases xs) (simp_all add: max_list_int_def Max.set_eq_fold del: list.set)

lemma max_list_int_ge: "x \<in> set xs \<Longrightarrow> x \<le> max_list_int xs d"
  by (auto simp: max_list_int_def)

section \<open>Identifiers\<close>

text \<open>A \<^verbatim>\<open>uuid.UUID\<close> is a 128-bit number; \<^verbatim>\<open>str\<close> prints 32 hexadecimal digits in five groups.\<close>

type_synonym uuid = "128 word"

definition hex_char :: "nat \<Rightarrow> char" where
  "hex_char d = char_of (if d < 10 then 48 + d else 87 + d)"

primrec hex_digits :: "nat \<Rightarrow> nat \<Rightarrow> string" where
  "hex_digits 0 v = []"
| "hex_digits (Suc n) v = hex_digits n (v div 16) @ [hex_char (v mod 16)]"

definition uuid_hex :: "uuid \<Rightarrow> string" where
  "uuid_hex u = hex_digits 32 (unat u)"

definition str_uuid :: "uuid \<Rightarrow> string" where
  "str_uuid u =
     (let h = uuid_hex u in
      take 8 h @ ''-'' @ take 4 (drop 8 h) @ ''-'' @ take 4 (drop 12 h) @ ''-'' @
      take 4 (drop 16 h) @ ''-'' @ drop 20 h)"

lemma length_hex_digits [simp]: "length (hex_digits n v) = n"
  by (induction n arbitrary: v) auto

lemma hex_char_inj: "a < 16 \<Longrightarrow> b < 16 \<Longrightarrow> hex_char a = hex_char b \<longleftrightarrow> a = b"
proof -
  assume ab: "a < 16" "b < 16"
  have "hex_char a = hex_char b \<Longrightarrow> (of_char (hex_char a) :: nat) = of_char (hex_char b)" by simp
  with ab show ?thesis by (auto simp: hex_char_def split: if_splits)
qed

lemma hex_digits_inj: "v < 16 ^ n \<Longrightarrow> w < 16 ^ n \<Longrightarrow> hex_digits n v = hex_digits n w \<Longrightarrow> v = w"
proof (induction n arbitrary: v w)
  case (Suc n)
  then have "v div 16 = w div 16" and "v mod 16 = w mod 16"
    by (auto simp: hex_char_inj less_mult_imp_div_less mult.commute)
  then show ?case by (metis div_mult_mod_eq)
qed simp

lemma uuid_hex_inj: "uuid_hex u = uuid_hex v \<Longrightarrow> u = v"
proof -
  have "unat (x :: uuid) < 16 ^ 32" for x
  proof -
    have "unat x < 2 ^ LENGTH(128)" by (rule unsigned_less)
    then show ?thesis by simp
  qed
  then show "uuid_hex u = uuid_hex v \<Longrightarrow> u = v"
    unfolding uuid_hex_def by (metis hex_digits_inj word_unat_eq_iff)
qed

lemma uuid_parts:
  "take 8 h @ take 4 (drop 8 h) @ take 4 (drop 12 h) @ take 4 (drop 16 h) @ drop 20 h = h"
proof -
  have "take 4 (drop 16 h) @ drop 20 h = drop 16 h"
    using append_take_drop_id [of 4 "drop 16 h"] by (simp del: append_take_drop_id)
  moreover have "take 4 (drop 12 h) @ drop 16 h = drop 12 h"
    using append_take_drop_id [of 4 "drop 12 h"] by (simp del: append_take_drop_id)
  moreover have "take 4 (drop 8 h) @ drop 12 h = drop 8 h"
    using append_take_drop_id [of 4 "drop 8 h"] by (simp del: append_take_drop_id)
  ultimately show ?thesis by (simp only: append_take_drop_id)
qed

lemma str_uuid_inj [simp]: "str_uuid u = str_uuid v \<longleftrightarrow> u = v"
proof
  assume eq: "str_uuid u = str_uuid v"
  have len: "length (uuid_hex x) = 32" for x by (simp add: uuid_hex_def)
  have "take 8 (uuid_hex u) = take 8 (uuid_hex v)
      \<and> take 4 (drop 8 (uuid_hex u)) = take 4 (drop 8 (uuid_hex v))
      \<and> take 4 (drop 12 (uuid_hex u)) = take 4 (drop 12 (uuid_hex v))
      \<and> take 4 (drop 16 (uuid_hex u)) = take 4 (drop 16 (uuid_hex v))
      \<and> drop 20 (uuid_hex u) = drop 20 (uuid_hex v)"
    using eq by (simp add: str_uuid_def Let_def len)
  then have "uuid_hex u = uuid_hex v" by (metis uuid_parts)
  then show "u = v" by (rule uuid_hex_inj)
qed simp

lemma hex_char_no_colon: "d < 16 \<Longrightarrow> hex_char d \<noteq> CHR '':''"
proof -
  assume "d < 16"
  then have "(of_char (hex_char d) :: nat) \<noteq> 58" by (auto simp: hex_char_def)
  then show "hex_char d \<noteq> CHR '':''" by auto
qed

lemma hex_digits_no_colon: "CHR '':'' \<notin> set (hex_digits n v)"
proof (induction n arbitrary: v)
  case (Suc n)
  then show ?case using hex_char_no_colon [of "v mod 16"] by auto
qed simp

lemma str_uuid_no_colon: "CHR '':'' \<notin> set (str_uuid u)"
  using hex_digits_no_colon [of 32 "unat u"]
  by (auto simp: str_uuid_def uuid_hex_def Let_def dest!: in_set_takeD in_set_dropD)

text \<open>
  \<^verbatim>\<open>uuid.UUID(s)\<close>: hyphens are dropped and 32 hexadecimal digits are read. The braces and the
  \<^verbatim>\<open>urn:uuid:\<close> prefix it also accepts never occur here.
\<close>

definition hex_value :: "char \<Rightarrow> nat option" where
  "hex_value c = (let n = of_char c in
     if 48 \<le> n \<and> n \<le> 57 then Some (n - 48)
     else if 97 \<le> n \<and> n \<le> 102 then Some (n - 87)
     else if 65 \<le> n \<and> n \<le> 70 then Some (n - 55) else None)"

definition parse_uuid :: "string \<Rightarrow> uuid result" where
  "parse_uuid s = (let h = filter (\<lambda>c. c \<noteq> CHR ''-'') s; ds = map hex_value h in
     if length h \<noteq> 32 \<or> None \<in> set ds then value_error ''badly formed hexadecimal UUID string''
     else Inr (of_nat (foldl (\<lambda>v d. 16 * v + the d) 0 ds)))"

lemma hex_value_hex_char: "d < 16 \<Longrightarrow> hex_value (hex_char d) = Some d"
  by (auto simp: hex_value_def hex_char_def Let_def)

lemma map_hex_value_digits:
  "map hex_value (hex_digits n v) = map Some (map (\<lambda>i. v div 16 ^ (n - 1 - i) mod 16) [0..<n])"
proof (induction n arbitrary: v)
  case (Suc n)
  have "v div 16 div 16 ^ (n - 1 - i) mod 16 = v div 16 ^ (n - i) mod 16" if "i < n" for i
  proof -
    have "n - i = Suc (n - 1 - i)" using that by simp
    then show ?thesis by (simp add: div_mult2_eq)
  qed
  then show ?case using Suc [of "v div 16"] by (auto simp: hex_value_hex_char)
qed simp

lemma foldl_hex_digits: "v < 16 ^ n \<Longrightarrow> foldl (\<lambda>v d. 16 * v + the d) 0 (map hex_value (hex_digits n v)) = v"
proof (induction n arbitrary: v)
  case (Suc n)
  then have "v div 16 < 16 ^ n" by (simp add: less_mult_imp_div_less mult.commute)
  from Suc.IH [OF this] show ?case by (simp add: hex_value_hex_char)
qed simp

lemma hex_digits_no_hyphen: "filter (\<lambda>c. c \<noteq> CHR ''-'') (hex_digits n v) = hex_digits n v"
proof (induction n arbitrary: v)
  case (Suc n)
  have "hex_char (v mod 16) \<noteq> CHR ''-''"
  proof
    assume "hex_char (v mod 16) = CHR ''-''"
    then have "hex_value (hex_char (v mod 16)) = None" by (simp add: hex_value_def)
    then show False by (simp add: hex_value_hex_char)
  qed
  with Suc show ?case by simp
qed simp

lemma drop_hyphens: "filter (\<lambda>c. c \<noteq> CHR ''-'') (str_uuid u) = uuid_hex u"
proof -
  define h where "h = uuid_hex u"
  have no: "\<And>c. c \<in> set h \<Longrightarrow> c \<noteq> CHR ''-''"
    using hex_digits_no_hyphen [of 32 "unat u"] unfolding h_def uuid_hex_def filter_id_conv by blast
  have t: "filter (\<lambda>c. c \<noteq> CHR ''-'') (take n (drop m h)) = take n (drop m h)" for n m
    by (rule filter_True) (use no in \<open>auto dest: in_set_takeD in_set_dropD\<close>)
  have d: "filter (\<lambda>c. c \<noteq> CHR ''-'') (drop m h) = drop m h" for m
    by (rule filter_True) (use no in \<open>auto dest: in_set_dropD\<close>)
  have t0: "filter (\<lambda>c. c \<noteq> CHR ''-'') (take 8 h) = take 8 h" using t [of 8 0] by simp
  have "filter (\<lambda>c. c \<noteq> CHR ''-'') (str_uuid u)
      = take 8 h @ take 4 (drop 8 h) @ take 4 (drop 12 h) @ take 4 (drop 16 h) @ drop 20 h"
    unfolding str_uuid_def h_def [symmetric] Let_def filter_append t d t0 by simp
  then show ?thesis by (simp only: uuid_parts h_def)
qed

lemma parse_str_uuid [simp]: "parse_uuid (str_uuid u) = Inr u"
proof -
  have "None \<notin> set (map hex_value (uuid_hex u))"
    unfolding uuid_hex_def map_hex_value_digits by auto
  moreover have "foldl (\<lambda>v d. 16 * v + the d) 0 (map hex_value (uuid_hex u)) = unat u"
  proof -
    have "unat u < 2 ^ LENGTH(128)" by (rule unsigned_less)
    then show ?thesis unfolding uuid_hex_def by (intro foldl_hex_digits) simp
  qed
  ultimately show ?thesis by (simp add: parse_uuid_def drop_hyphens Let_def uuid_hex_def)
qed

section \<open>Transition systems\<close>

text \<open>
  The contract every state machine of the development discharges: what holds at the start and is
  kept by every step holds in every state that can be reached.
\<close>

locale invariant_system =
  fixes init :: "'s \<Rightarrow> bool"
    and step :: "'s \<Rightarrow> 's \<Rightarrow> bool"
    and inv :: "'s \<Rightarrow> bool"
  assumes init_inv: "init s \<Longrightarrow> inv s"
    and step_inv: "inv s \<Longrightarrow> step s t \<Longrightarrow> inv t"
begin

lemma steps_inv: "step\<^sup>*\<^sup>* s t \<Longrightarrow> inv s \<Longrightarrow> inv t"
  by (induction rule: rtranclp_induct) (auto intro: step_inv)

lemma reachable_inv: "init s \<Longrightarrow> step\<^sup>*\<^sup>* s t \<Longrightarrow> inv t"
  using steps_inv init_inv by blast

end

text \<open>
  The contract of a simulation: every step from a state that abstracts to \<open>a\<close> is matched by
  steps of the abstract machine. It then holds for whole runs.
\<close>

locale forward_simulation =
  fixes step :: "'s \<Rightarrow> 's \<Rightarrow> bool"
    and astep :: "'a \<Rightarrow> 'a \<Rightarrow> bool"
    and rel :: "'s \<Rightarrow> 'a \<Rightarrow> bool"
  assumes simulate: "rel s a \<Longrightarrow> step s t \<Longrightarrow> \<exists>b. astep\<^sup>*\<^sup>* a b \<and> rel t b"
begin

lemma simulate_run: "step\<^sup>*\<^sup>* s t \<Longrightarrow> rel s a \<Longrightarrow> \<exists>b. astep\<^sup>*\<^sup>* a b \<and> rel t b"
proof (induction rule: rtranclp_induct)
  case (step t u)
  then obtain b where b: "astep\<^sup>*\<^sup>* a b" "rel t b" by blast
  with simulate step.hyps(2) obtain c where "astep\<^sup>*\<^sup>* b c" "rel u c" by blast
  with b(1) show ?case by (meson rtranclp_trans)
qed blast

end

end
