(* ===== verification/Engine.thy ===== *)
theory Engine
  imports Prelude
begin

text \<open>
  The signal engine of \<^verbatim>\<open>copy_trading/engine.py\<close>: parsed signals, the execution policy of a route,
  \<^verbatim>\<open>validate_signal\<close>, a chain of early returns in the order of the source, and the take-profit
  legs of an opening. \<open>tradeable\<close> is the order-free specification that the chain decides.
\<close>

section \<open>Data\<close>

datatype signal_action = Open_market | Place_pending | Modify_sl_tp | Break_even | Partial_close
  | Full_close | Cancel_pending | Additional_tp | Status_only

definition action_value :: "signal_action \<Rightarrow> string" where
  "action_value a = (case a of Open_market \<Rightarrow> ''open_market'' | Place_pending \<Rightarrow> ''place_pending''
     | Modify_sl_tp \<Rightarrow> ''modify_sl_tp'' | Break_even \<Rightarrow> ''break_even''
     | Partial_close \<Rightarrow> ''partial_close'' | Full_close \<Rightarrow> ''full_close''
     | Cancel_pending \<Rightarrow> ''cancel_pending'' | Additional_tp \<Rightarrow> ''additional_tp''
     | Status_only \<Rightarrow> ''status_only'')"

definition all_actions :: "signal_action list" where
  "all_actions = [Open_market, Place_pending, Modify_sl_tp, Break_even, Partial_close, Full_close,
     Cancel_pending, Additional_tp, Status_only]"

text \<open>\<^verbatim>\<open>SignalAction(value)\<close>: the member of that value, or a \<^verbatim>\<open>ValueError\<close>.\<close>

definition signal_action_of :: "string \<Rightarrow> signal_action result" where
  "signal_action_of v = (case filter (\<lambda>a. action_value a = v) all_actions of
     [] \<Rightarrow> value_error (v @ '' is not a valid SignalAction'') | a # _ \<Rightarrow> Inr a)"

record parsed_signal =
  ps_action :: signal_action
  ps_symbol :: "string option"
  ps_direction :: "string option"
  ps_entry :: "decimal option"
  ps_entry_high :: "decimal option"
  ps_stop_loss :: "decimal option"
  ps_take_profits :: "decimal list"
  ps_close_fraction :: "decimal option"
  ps_age_seconds :: rat
  ps_confidence :: rat

datatype minimum_fields = Direction_symbol | Direction_symbol_entry | Direction_symbol_sl
  | Direction_symbol_tp | Direction_symbol_sl_tp

record route_execution_policy =
  pol_minimum_fields :: minimum_fields
  pol_confidence_threshold :: rat
  pol_market_freshness_seconds :: rat
  pol_pending_orders_enabled :: bool
  pol_allow_sl_tp_updates :: bool
  pol_allow_break_even :: bool
  pol_allow_partial_close :: bool
  pol_allow_full_close :: bool
  pol_allow_pending_cancel :: bool
  pol_allow_additional_tp :: bool

record validation_result =
  vr_accepted :: bool
  vr_reason :: "string option"
  vr_advisory :: "string option"

record take_profit_leg =
  leg_take_profit :: rat
  leg_lot :: rat

datatype take_profit_mode = TP_all | TP_lowest | TP_highest

datatype lot_distribution = Split_total | Fixed_each

section \<open>Validation\<close>

definition signal_prices :: "parsed_signal \<Rightarrow> decimal list" where
  "signal_prices s =
     map the (filter (\<lambda>x. x \<noteq> None) [ps_entry s, ps_entry_high s, ps_stop_loss s]) @ ps_take_profits s"

definition bad_price :: "decimal \<Rightarrow> bool" where
  "bad_price d \<longleftrightarrow> \<not> is_finite_dec d \<or> dval d \<le> 0"

definition prices_conflict :: "parsed_signal \<Rightarrow> bool" where
  "prices_conflict s = (case ps_stop_loss s of None \<Rightarrow> False | Some sl \<Rightarrow>
     (ps_direction s = Some ''buy'' \<and> list_ex (\<lambda>t. dval t \<le> dval sl) (ps_take_profits s))
     \<or> (ps_direction s = Some ''sell'' \<and> list_ex (\<lambda>t. dval t \<ge> dval sl) (ps_take_profits s)))"

definition entry_range_inverted :: "parsed_signal \<Rightarrow> bool" where
  "entry_range_inverted s = (case (ps_entry s, ps_entry_high s) of
     (Some e, Some h) \<Rightarrow> dval e > dval h | _ \<Rightarrow> False)"

definition action_permitted :: "signal_action \<Rightarrow> route_execution_policy \<Rightarrow> bool" where
  "action_permitted a p = (case a of
       Modify_sl_tp \<Rightarrow> pol_allow_sl_tp_updates p
     | Break_even \<Rightarrow> pol_allow_break_even p
     | Partial_close \<Rightarrow> pol_allow_partial_close p
     | Full_close \<Rightarrow> pol_allow_full_close p
     | Cancel_pending \<Rightarrow> pol_allow_pending_cancel p
     | Additional_tp \<Rightarrow> pol_allow_additional_tp p
     | _ \<Rightarrow> True)"

definition required_missing :: "parsed_signal \<Rightarrow> minimum_fields \<Rightarrow> bool" where
  "required_missing s m = (
     let base = ps_direction s = None \<or> ps_symbol s = None in
     case m of
       Direction_symbol \<Rightarrow> base
     | Direction_symbol_entry \<Rightarrow> base \<or> ps_entry s = None
     | Direction_symbol_sl \<Rightarrow> base \<or> ps_stop_loss s = None
     | Direction_symbol_tp \<Rightarrow> base \<or> ps_take_profits s = []
     | Direction_symbol_sl_tp \<Rightarrow> base \<or> ps_stop_loss s = None \<or> ps_take_profits s = [])"

definition reject :: "string \<Rightarrow> string option \<Rightarrow> validation_result" where
  "reject r adv = \<lparr>vr_accepted = False, vr_reason = Some r, vr_advisory = adv\<rparr>"

definition accept :: "string option \<Rightarrow> validation_result" where
  "accept adv = \<lparr>vr_accepted = True, vr_reason = None, vr_advisory = adv\<rparr>"

definition validate_signal :: "parsed_signal \<Rightarrow> route_execution_policy \<Rightarrow> validation_result" where
  "validate_signal s p = (
     let adv = (if ps_confidence s < pol_confidence_threshold p then Some ''AI confidence is low.'' else None);
         a = ps_action s
     in
     if a = Status_only then reject ''Status updates do not perform broker actions.'' adv
     else if a = Place_pending \<and> ps_entry s = None
       then reject ''Pending order is waiting for an entry price.'' adv
     else if a = Additional_tp \<and> ps_take_profits s = []
       then reject ''Additional take profit is waiting for a target price.'' adv
     else if list_ex bad_price (signal_prices s)
       then reject ''Trade prices must be positive finite numbers.'' adv
     else if ps_stop_loss s \<noteq> None \<and> ps_take_profits s \<noteq> [] \<and> prices_conflict s
       then reject ''Stop loss and take profit conflict with trade direction.'' adv
     else if entry_range_inverted s
       then reject ''Entry range minimum cannot exceed its maximum.'' adv
     else if a = Partial_close \<and> (case ps_close_fraction s of None \<Rightarrow> True | Some f \<Rightarrow> \<not> is_finite_dec f)
       then reject ''Partial close needs a percentage between 0% and 100%.'' adv
     else if a = Partial_close \<and> \<not> (case ps_close_fraction s of None \<Rightarrow> False | Some f \<Rightarrow> 0 < dval f \<and> dval f \<le> 1)
       then reject ''Partial close must be greater than 0% and at most 100%.'' adv
     else if a = Open_market \<and> ps_age_seconds s > pol_market_freshness_seconds p
       then reject ''Signal is too old for immediate entry.'' adv
     else if a = Place_pending \<and> \<not> pol_pending_orders_enabled p
       then reject ''Pending orders are disabled for this route.'' adv
     else if \<not> action_permitted a p
       then reject ''This broker action is disabled for this route.'' adv
     else if a \<in> {Open_market, Place_pending} \<and> ps_direction s \<notin> {Some ''buy'', Some ''sell''}
       then reject ''Signal is waiting for a buy or sell direction.'' adv
     else if a \<in> {Open_market, Place_pending} \<and> required_missing s (pol_minimum_fields p)
       then reject ''Signal is waiting for required trade details.'' adv
     else accept adv)"

section \<open>Take-profit legs\<close>

definition selected_take_profits :: "take_profit_mode \<Rightarrow> rat list \<Rightarrow> rat list" where
  "selected_take_profits m tps = (case m of
       TP_lowest \<Rightarrow> [Min (set tps)]
     | TP_highest \<Rightarrow> [Max (set tps)]
     | TP_all \<Rightarrow> tps)"

definition build_tp_legs ::
  "rat \<Rightarrow> rat list \<Rightarrow> take_profit_mode \<Rightarrow> lot_distribution \<Rightarrow> take_profit_leg list" where
  "build_tp_legs fixed_lot tps mode distribution = (
     if tps = [] then []
     else let sel = selected_take_profits mode tps;
              lot = (if distribution = Split_total \<and> length sel > 1
                     then dec_div fixed_lot (of_nat (length sel)) else fixed_lot)
          in map (\<lambda>tp. \<lparr>leg_take_profit = tp, leg_lot = lot\<rparr>) sel)"

section \<open>Lemmas\<close>

lemma signal_action_of_value [simp]: "signal_action_of (action_value a) = Inr a"
  by (cases a) (simp_all add: signal_action_of_def all_actions_def action_value_def)

lemma action_value_inj [simp]: "action_value a = action_value b \<longleftrightarrow> a = b"
  by (metis signal_action_of_value sum.inject(2))

lemma reject_simps [simp]: "\<not> vr_accepted (reject r adv)" "vr_reason (reject r adv) = Some r"
  "vr_advisory (reject r adv) = adv"
  by (simp_all add: reject_def)

lemma accept_simps [simp]: "vr_accepted (accept adv)" "vr_reason (accept adv) = None"
  "vr_advisory (accept adv) = adv"
  by (simp_all add: accept_def)

lemma accepted_if_reject:
  "vr_accepted (if b then reject r adv else v) \<longleftrightarrow> \<not> b \<and> vr_accepted v"
  by simp

text \<open>The order-free specification: what a signal that may reach a broker satisfies.\<close>

definition prices_sound :: "parsed_signal \<Rightarrow> bool" where
  "prices_sound s \<longleftrightarrow> (\<forall>d \<in> set (signal_prices s). is_finite_dec d \<and> 0 < dval d)"

definition protection_sound :: "parsed_signal \<Rightarrow> bool" where
  "protection_sound s \<longleftrightarrow> (\<forall>sl tp. ps_stop_loss s = Some sl \<longrightarrow> tp \<in> set (ps_take_profits s) \<longrightarrow>
     (ps_direction s = Some ''buy'' \<longrightarrow> dval sl < dval tp) \<and>
     (ps_direction s = Some ''sell'' \<longrightarrow> dval tp < dval sl))"

definition opening_complete :: "parsed_signal \<Rightarrow> route_execution_policy \<Rightarrow> bool" where
  "opening_complete s p \<longleftrightarrow>
     ps_direction s \<in> {Some ''buy'', Some ''sell''} \<and> ps_symbol s \<noteq> None \<and>
     (pol_minimum_fields p = Direction_symbol_entry \<longrightarrow> ps_entry s \<noteq> None) \<and>
     (pol_minimum_fields p \<in> {Direction_symbol_sl, Direction_symbol_sl_tp} \<longrightarrow> ps_stop_loss s \<noteq> None) \<and>
     (pol_minimum_fields p \<in> {Direction_symbol_tp, Direction_symbol_sl_tp} \<longrightarrow> ps_take_profits s \<noteq> [])"

definition tradeable :: "parsed_signal \<Rightarrow> route_execution_policy \<Rightarrow> bool" where
  "tradeable s p \<longleftrightarrow>
     ps_action s \<noteq> Status_only \<and> prices_sound s \<and> protection_sound s \<and>
     (\<forall>e h. ps_entry s = Some e \<longrightarrow> ps_entry_high s = Some h \<longrightarrow> dval e \<le> dval h) \<and>
     action_permitted (ps_action s) p \<and>
     (ps_action s = Place_pending \<longrightarrow> ps_entry s \<noteq> None \<and> pol_pending_orders_enabled p) \<and>
     (ps_action s = Additional_tp \<longrightarrow> ps_take_profits s \<noteq> []) \<and>
     (ps_action s = Partial_close \<longrightarrow>
        (\<exists>f. ps_close_fraction s = Some f \<and> is_finite_dec f \<and> 0 < dval f \<and> dval f \<le> 1)) \<and>
     (ps_action s = Open_market \<longrightarrow> ps_age_seconds s \<le> pol_market_freshness_seconds p) \<and>
     (ps_action s \<in> {Open_market, Place_pending} \<longrightarrow> opening_complete s p)"

lemma bad_price_iff: "bad_price d \<longleftrightarrow> \<not> (is_finite_dec d \<and> 0 < dval d)"
  by (auto simp: bad_price_def not_less)

lemma list_ex_bad_price: "list_ex bad_price (signal_prices s) \<longleftrightarrow> \<not> prices_sound s"
  by (auto simp: prices_sound_def bad_price_iff list_ex_iff)

lemma prices_conflict_iff:
  "ps_stop_loss s \<noteq> None \<and> ps_take_profits s \<noteq> [] \<and> prices_conflict s \<longleftrightarrow> \<not> protection_sound s"
  by (cases "ps_stop_loss s") (auto simp: prices_conflict_def protection_sound_def list_ex_iff not_le not_less)

lemma entry_range_inverted_iff:
  "entry_range_inverted s \<longleftrightarrow>
     \<not> (\<forall>e h. ps_entry s = Some e \<longrightarrow> ps_entry_high s = Some h \<longrightarrow> dval e \<le> dval h)"
  by (auto simp: entry_range_inverted_def not_le split: option.splits)

lemma opening_complete_iff:
  "opening_complete s p \<longleftrightarrow>
     ps_direction s \<in> {Some ''buy'', Some ''sell''} \<and> \<not> required_missing s (pol_minimum_fields p)"
  by (cases "pol_minimum_fields p") (auto simp: opening_complete_def required_missing_def Let_def)

lemma close_fraction_iff:
  "(\<exists>f. x = Some f \<and> is_finite_dec f \<and> 0 < dval f \<and> dval f \<le> 1) \<longleftrightarrow>
     \<not> (case x of None \<Rightarrow> True | Some f \<Rightarrow> \<not> is_finite_dec f) \<and>
     (case x of None \<Rightarrow> False | Some f \<Rightarrow> 0 < dval f \<and> dval f \<le> 1)"
  by (cases x) auto

lemmas validation_iffs = list_ex_bad_price prices_conflict_iff entry_range_inverted_iff
  opening_complete_iff close_fraction_iff

lemma validate_signal_tradeable: "vr_accepted (validate_signal s p) \<longleftrightarrow> tradeable s p"
  unfolding validate_signal_def tradeable_def Let_def validation_iffs accepted_if_reject
  by (cases "ps_action s") (simp_all add: not_less, blast+)

lemma length_build_tp_legs:
  "tps \<noteq> [] \<Longrightarrow> length (build_tp_legs l tps m d) = (if m = TP_all then length tps else 1)"
  by (cases m) (simp_all add: build_tp_legs_def selected_take_profits_def Let_def)

lemma build_tp_legs_Nil_iff [simp]: "build_tp_legs l tps m d = [] \<longleftrightarrow> tps = []"
  by (cases m) (simp_all add: build_tp_legs_def selected_take_profits_def Let_def)

lemma set_selected_take_profits: "tps \<noteq> [] \<Longrightarrow> set (selected_take_profits m tps) \<subseteq> set tps"
  by (cases m) (simp_all add: selected_take_profits_def)

section \<open>Properties\<close>

text \<open>
  Property C10. The chain of early returns of \<^verbatim>\<open>validate_signal\<close> accepts a signal exactly when the
  order-free specification holds: it is not a status update, all its prices are positive and
  finite, its stop loss lies on the losing side of every take profit, its entry range is not
  inverted, the route permits the action, a pending order has an entry and is enabled, a partial
  close has a fraction in (0, 1], a market order is fresh, and an opening has a direction, a symbol
  and the fields the route demands.
\<close>

theorem validate_signal_correct: "vr_accepted (validate_signal s p) \<longleftrightarrow> tradeable s p"
  by (rule validate_signal_tradeable)

end
