(* ===== verification/Symbols.thy ===== *)
theory Symbols
  imports Prelude "HOL-Library.List_Lexorder" "HOL-Library.Char_ord"
begin

text \<open>
  Broker symbols, \<^verbatim>\<open>copy_trading/symbols.py\<close>: the normal form of a symbol name, the mapping of a
  signal's symbol to the broker's catalogue, and the volume a broker accepts.
\<close>

section \<open>Data\<close>

datatype trade_mode = TM_int int | TM_str string

record broker_symbol =
  sym_name :: string
  sym_contract_size :: rat
  sym_spread :: int
  sym_trade_mode :: trade_mode
  sym_visible :: bool
  sym_min_volume :: rat
  sym_max_volume :: rat
  sym_volume_step :: rat
  sym_filling_modes :: "string list"
  sym_execution_mode :: "string option"
  sym_point :: rat

text \<open>A MetaApi specification: absent keys are \<open>None\<close>.\<close>

record metaapi_specification =
  spec_symbol :: string
  spec_contractSize :: "rat option"
  spec_spread :: "int option"
  spec_tradeMode :: "trade_mode option"
  spec_visible :: "bool option"
  spec_minVolume :: "rat option"
  spec_maxVolume :: "rat option"
  spec_volumeStep :: "rat option"
  spec_fillingModes :: "string list option"
  spec_executionMode :: "string option"
  spec_point :: "rat option"

text \<open>\<^verbatim>\<open>value or default\<close> on numbers: \<^verbatim>\<open>None\<close> and zero are replaced.\<close>

definition num_or :: "'a::zero option \<Rightarrow> 'a \<Rightarrow> 'a" where
  "num_or x d = (case x of None \<Rightarrow> d | Some v \<Rightarrow> if v = 0 then d else v)"

section \<open>Operations\<close>

definition broker_symbol_from_metaapi :: "metaapi_specification \<Rightarrow> broker_symbol" where
  "broker_symbol_from_metaapi sp = \<lparr>
     sym_name = spec_symbol sp,
     sym_contract_size = num_or (spec_contractSize sp) 0,
     sym_spread = num_or (spec_spread sp) 0,
     sym_trade_mode = (case spec_tradeMode sp of None \<Rightarrow> TM_str ''SYMBOL_TRADE_MODE_DISABLED'' | Some m \<Rightarrow> m),
     sym_visible = (case spec_visible sp of None \<Rightarrow> True | Some b \<Rightarrow> b),
     sym_min_volume = num_or (spec_minVolume sp) (1 / 100),
     sym_max_volume = num_or (spec_maxVolume sp) 100,
     sym_volume_step = num_or (spec_volumeStep sp) (1 / 100),
     sym_filling_modes = (case spec_fillingModes sp of None \<Rightarrow> [] | Some ms \<Rightarrow> ms),
     sym_execution_mode = spec_executionMode sp,
     sym_point = num_or (spec_point sp) (1 / 100000)\<rparr>"

text \<open>
  \<^verbatim>\<open>bounded / symbol.volume_step\<close> raises \<^verbatim>\<open>DivisionByZero\<close> for a zero step, or
  \<^verbatim>\<open>InvalidOperation\<close> when the dividend is zero too.
\<close>

definition normalize_volume :: "rat \<Rightarrow> broker_symbol \<Rightarrow> rat result" where
  "normalize_volume volume sy = (
     let bounded = min (max volume (sym_min_volume sy)) (sym_max_volume sy) in
     if sym_volume_step sy = 0
     then Inl (Exn (if bounded = 0 then ''InvalidOperation'' else ''DivisionByZero'') [])
     else let steps = \<lfloor>dec_div bounded (sym_volume_step sy)\<rfloor>;
              normalized = of_int steps * sym_volume_step sy
          in Inr (max (sym_min_volume sy) (min normalized (sym_max_volume sy))))"

definition symbol_aliases :: "(string \<times> string) list" where
  "symbol_aliases = [(''GOLD'', ''XAUUSD''), (''SILVER'', ''XAGUSD''), (''BTC'', ''BTCUSD'')]"

definition normalize_symbol :: "string \<Rightarrow> string" where
  "normalize_symbol v = (
     let normalized = filter (\<lambda>c. is_upper_letter c \<or> is_digit c) (py_upper v) in
     case map_of symbol_aliases normalized of None \<Rightarrow> normalized | Some s \<Rightarrow> s)"

definition disabled_modes :: "trade_mode list" where
  "disabled_modes = [TM_int 0, TM_int 3, TM_str ''SYMBOL_TRADE_MODE_DISABLED'',
     TM_str ''SYMBOL_TRADE_MODE_CLOSEONLY'']"

definition tradable_symbols :: "broker_symbol list \<Rightarrow> broker_symbol list" where
  "tradable_symbols symbols = filter (\<lambda>sy. sym_trade_mode sy \<notin> set disabled_modes) symbols"

fun join_names :: "string list \<Rightarrow> string" where
  "join_names [] = []"
| "join_names [n] = n"
| "join_names (n # ns) = n @ '', '' @ join_names ns"

definition norm_len :: "broker_symbol \<Rightarrow> nat" where
  "norm_len sy = length (normalize_symbol (sym_name sy))"

definition resolve_symbol :: "string \<Rightarrow> broker_symbol list \<Rightarrow> broker_symbol result" where
  "resolve_symbol requested symbols = (
     let target = normalize_symbol requested;
         tradable = tradable_symbols symbols;
         exact = filter (\<lambda>sy. normalize_symbol (sym_name sy) = target) tradable in
     if length exact = 1 then Inr (hd exact)
     else if length exact > 1
       then value_error (''Multiple tradable broker symbols exactly match '' @ requested @ ''.'')
     else let matches = filter (\<lambda>sy. startswith (normalize_symbol (sym_name sy)) target) tradable in
     if matches = [] then value_error (''No tradable broker symbol matches '' @ requested @ ''.'')
     else let shortest = Min (set (map norm_len matches));
              closest = filter (\<lambda>sy. norm_len sy = shortest) matches in
     if length closest \<noteq> 1
     then value_error (''Broker symbol mapping for '' @ requested @ '' is ambiguous: ''
            @ join_names (sort (map sym_name closest)) @ ''.'')
     else Inr (hd closest))"

section \<open>Lemmas\<close>

lemma normalize_symbol_idem: "normalize_symbol (normalize_symbol v) = normalize_symbol v"
proof -
  define n where "n = filter (\<lambda>c. is_upper_letter c \<or> is_digit c) (py_upper v)"
  have keep: "upper_char c = c" if "c \<in> set n" for c
    using that by (auto simp: n_def upper_char_def is_upper_letter_def is_digit_def)
  then have "py_upper n = n" by (simp add: py_upper_def map_idI)
  then have nn: "filter (\<lambda>c. is_upper_letter c \<or> is_digit c) (py_upper n) = n"
    by (simp add: n_def)
  show ?thesis
  proof (cases "map_of symbol_aliases n")
    case None
    then show ?thesis by (simp add: normalize_symbol_def n_def [symmetric] nn)
  next
    case (Some s)
    then have "s \<in> {''XAUUSD'', ''XAGUSD'', ''BTCUSD''}"
      by (auto simp: symbol_aliases_def split: if_splits)
    moreover have "normalize_symbol s = s" if "s \<in> {''XAUUSD'', ''XAGUSD'', ''BTCUSD''}" for s
      using that by (auto simp: normalize_symbol_def symbol_aliases_def py_upper_def upper_char_def
          is_upper_letter_def is_digit_def)
    ultimately show ?thesis using Some by (simp add: normalize_symbol_def n_def [symmetric])
  qed
qed

lemma filter_mset_hd:
  assumes "mset xs = mset ys" "length (filter P xs) = 1"
  shows "hd (filter P xs) = hd (filter P ys)"
proof -
  have "mset (filter P xs) = mset (filter P ys)" using assms by simp
  moreover obtain x where "filter P xs = [x]" using assms(2) by (metis One_nat_def length_0_conv length_Suc_conv)
  ultimately show ?thesis by (simp del: mset_filter)
qed

lemma length_filter_mset: "mset xs = mset ys \<Longrightarrow> length (filter P xs) = length (filter P ys)"
  by (metis mset_filter size_mset)

lemma sort_map_mset: "mset xs = mset ys \<Longrightarrow> sort (map f xs) = sort (map f (ys :: 'a list))"
  for f :: "'a \<Rightarrow> 'b::linorder"
  by (metis mset_map properties_for_sort sorted_sort mset_sort)

lemma set_singleton_hd: "length xs = 1 \<Longrightarrow> set xs = {hd xs}"
  by (cases xs) auto

definition prefix_matches :: "string \<Rightarrow> broker_symbol list \<Rightarrow> broker_symbol list" where
  "prefix_matches r symbols =
     filter (\<lambda>x. startswith (normalize_symbol (sym_name x)) (normalize_symbol r)) (tradable_symbols symbols)"

definition exact_matches :: "string \<Rightarrow> broker_symbol list \<Rightarrow> broker_symbol list" where
  "exact_matches r symbols =
     filter (\<lambda>x. normalize_symbol (sym_name x) = normalize_symbol r) (tradable_symbols symbols)"

definition closest_matches :: "string \<Rightarrow> broker_symbol list \<Rightarrow> broker_symbol list" where
  "closest_matches r symbols =
     filter (\<lambda>x. norm_len x = Min (set (map norm_len (prefix_matches r symbols)))) (prefix_matches r symbols)"

lemma resolve_symbol_unfold:
  "resolve_symbol r symbols = (
     if length (exact_matches r symbols) = 1 then Inr (hd (exact_matches r symbols))
     else if length (exact_matches r symbols) > 1
       then value_error (''Multiple tradable broker symbols exactly match '' @ r @ ''.'')
     else if prefix_matches r symbols = [] then value_error (''No tradable broker symbol matches '' @ r @ ''.'')
     else if length (closest_matches r symbols) \<noteq> 1
     then value_error (''Broker symbol mapping for '' @ r @ '' is ambiguous: ''
            @ join_names (sort (map sym_name (closest_matches r symbols))) @ ''.'')
     else Inr (hd (closest_matches r symbols)))"
  by (simp add: resolve_symbol_def exact_matches_def prefix_matches_def closest_matches_def Let_def
      del: One_nat_def)

lemma prefix_matches_len: "x \<in> set (prefix_matches r symbols) \<Longrightarrow> length (normalize_symbol r) \<le> norm_len x"
  by (auto simp: prefix_matches_def norm_len_def startswith_def prefix_length_le)

lemma exact_iff_shortest:
  "x \<in> set (exact_matches r symbols) \<longleftrightarrow>
     x \<in> set (prefix_matches r symbols) \<and> norm_len x = length (normalize_symbol r)"
  by (auto simp: exact_matches_def prefix_matches_def norm_len_def startswith_def prefix_def)

lemma resolve_symbol_shortest:
  assumes "resolve_symbol r symbols = Inr sy"
  shows "sy \<in> set (prefix_matches r symbols) \<and>
     (\<forall>x \<in> set (prefix_matches r symbols). x \<noteq> sy \<longrightarrow> norm_len sy < norm_len x)"
proof (cases "length (exact_matches r symbols) = 1")
  case True
  then have ex: "set (exact_matches r symbols) = {sy}"
    using assms set_singleton_hd by (fastforce simp: resolve_symbol_unfold)
  then have sy: "sy \<in> set (prefix_matches r symbols)" "norm_len sy = length (normalize_symbol r)"
    using exact_iff_shortest [of sy] by auto
  moreover have "norm_len sy < norm_len x" if "x \<in> set (prefix_matches r symbols)" "x \<noteq> sy" for x
    using that ex exact_iff_shortest [of x] prefix_matches_len [OF that(1)] sy(2) by force
  ultimately show ?thesis by blast
next
  case False
  then have one: "length (closest_matches r symbols) = 1" and hd: "hd (closest_matches r symbols) = sy"
    using assms by (auto simp: resolve_symbol_unfold split: if_splits)
  then have cl: "set (closest_matches r symbols) = {sy}" using set_singleton_hd by blast
  have "norm_len sy < norm_len x" if x: "x \<in> set (prefix_matches r symbols)" "x \<noteq> sy" for x
  proof -
    have min: "Min (set (map norm_len (prefix_matches r symbols))) \<le> norm_len x" using x(1) by simp
    have "norm_len sy = Min (set (map norm_len (prefix_matches r symbols)))"
      using cl by (auto simp: closest_matches_def)
    moreover have "norm_len x \<noteq> Min (set (map norm_len (prefix_matches r symbols)))"
      using cl x by (auto simp: closest_matches_def)
    ultimately show ?thesis using min by simp
  qed
  moreover have "sy \<in> set (prefix_matches r symbols)" using cl by (auto simp: closest_matches_def)
  ultimately show ?thesis by blast
qed

lemma matches_perm:
  assumes "mset xs = mset ys"
  shows "mset (exact_matches r xs) = mset (exact_matches r ys)"
    and "mset (prefix_matches r xs) = mset (prefix_matches r ys)"
    and "mset (closest_matches r xs) = mset (closest_matches r ys)"
proof -
  show p: "mset (prefix_matches r xs) = mset (prefix_matches r ys)"
    using assms by (simp add: prefix_matches_def tradable_symbols_def)
  then have "set (prefix_matches r xs) = set (prefix_matches r ys)" by (metis set_mset_mset)
  with p show "mset (closest_matches r xs) = mset (closest_matches r ys)"
    by (simp add: closest_matches_def)
  show "mset (exact_matches r xs) = mset (exact_matches r ys)"
    using assms by (simp add: exact_matches_def tradable_symbols_def)
qed

lemma hd_perm: "mset xs = mset ys \<Longrightarrow> length xs = 1 \<Longrightarrow> hd xs = hd ys"
  by (cases xs) auto

lemma normalize_volume_ok: "sym_volume_step sy \<noteq> 0 \<Longrightarrow> is_ok (normalize_volume v sy)"
  by (simp add: normalize_volume_def Let_def)

lemma normalize_volume_bounds:
  "normalize_volume v sy = Inr w \<Longrightarrow> sym_min_volume sy \<le> sym_max_volume sy \<Longrightarrow>
     sym_min_volume sy \<le> w \<and> w \<le> sym_max_volume sy"
  by (auto simp: normalize_volume_def Let_def split: if_splits)

text \<open>A concrete catalogue entry, for the witnesses.\<close>

definition sample_symbol :: "string \<Rightarrow> broker_symbol" where
  "sample_symbol n = \<lparr>sym_name = n, sym_contract_size = 100, sym_spread = 12,
     sym_trade_mode = TM_str ''SYMBOL_TRADE_MODE_FULL'', sym_visible = True,
     sym_min_volume = 1 / 100, sym_max_volume = 100, sym_volume_step = 1 / 100,
     sym_filling_modes = [], sym_execution_mode = None, sym_point = 1 / 100\<rparr>"

section \<open>Properties\<close>

text \<open>
  A resolved symbol is tradable, its normal form extends the requested one, and every
  other tradable symbol that does so is strictly longer: the choice is never a guess among equals.
\<close>

theorem resolve_symbol_unique_shortest:
  assumes "resolve_symbol requested symbols = Inr sy"
  shows "sy \<in> set symbols \<and> sym_trade_mode sy \<notin> set disabled_modes
    \<and> startswith (normalize_symbol (sym_name sy)) (normalize_symbol requested)
    \<and> (\<forall>other \<in> set symbols. other \<noteq> sy \<longrightarrow> sym_trade_mode other \<notin> set disabled_modes \<longrightarrow>
         startswith (normalize_symbol (sym_name other)) (normalize_symbol requested) \<longrightarrow>
         length (normalize_symbol (sym_name sy)) < length (normalize_symbol (sym_name other)))"
  using resolve_symbol_shortest [OF assms]
  by (auto simp: prefix_matches_def tradable_symbols_def norm_len_def)

theorem resolve_symbol_unique_shortest_witness:
  "sample_symbol ''XAUUSDm'' \<in> set [sample_symbol ''XAUUSDm'', sample_symbol ''XAUUSD.raw'']
    \<and> length (normalize_symbol ''XAUUSDm'') < length (normalize_symbol ''XAUUSD.raw'')"
proof -
  have r: "resolve_symbol ''gold'' [sample_symbol ''XAUUSDm'', sample_symbol ''XAUUSD.raw'']
      = Inr (sample_symbol ''XAUUSDm'')" by code_simp
  have n: "sample_symbol ''XAUUSD.raw'' \<noteq> sample_symbol ''XAUUSDm''"
    "sym_trade_mode (sample_symbol ''XAUUSD.raw'') \<notin> set disabled_modes"
    "startswith (normalize_symbol (sym_name (sample_symbol ''XAUUSD.raw''))) (normalize_symbol ''gold'')"
    by code_simp+
  show ?thesis
    using resolve_symbol_unique_shortest [OF r] n by (simp add: sample_symbol_def)
qed

text \<open>
  The outcome does not depend on the order in which the broker lists its catalogue,
  and neither does the message of an error.
\<close>

theorem resolve_symbol_order_independent:
  assumes "mset symbols = mset symbols'"
  shows "resolve_symbol requested symbols = resolve_symbol requested symbols'"
proof -
  note m = matches_perm [OF assms, of requested]
  have l: "length (exact_matches requested symbols) = length (exact_matches requested symbols')"
      "length (closest_matches requested symbols) = length (closest_matches requested symbols')"
    using m by (metis size_mset)+
  have "prefix_matches requested symbols = [] \<longleftrightarrow> prefix_matches requested symbols' = []"
    using m(2) by (metis mset_zero_iff)
  then show ?thesis
    unfolding resolve_symbol_unfold using l m hd_perm sort_map_mset [OF m(3), of sym_name] by auto
qed

theorem resolve_symbol_order_independent_witness:
  "resolve_symbol ''EURUSD'' [sample_symbol ''EURUSD.b'', sample_symbol ''EURUSD.a'']
   = resolve_symbol ''EURUSD'' [sample_symbol ''EURUSD.a'', sample_symbol ''EURUSD.b'']"
  by (rule resolve_symbol_order_independent) simp



end
