(* ===== verification/Risk.thy ===== *)
theory Risk
  imports Engine Symbols
begin

text \<open>
  Sizing and account limits, \<^verbatim>\<open>copy_trading/execution.py\<close>: the volume a signal stands for, the legs
  it is split into, and the checks of an account policy. A refusal is a \<open>risk_error\<close>;
  \<open>risk_message\<close> is the text of the \<^verbatim>\<open>ValueError\<close> the source raises.
\<close>

section \<open>Volumes and legs\<close>

definition opening_actions :: "signal_action list" where
  "opening_actions = [Open_market, Place_pending, Additional_tp]"

definition calculate_signal_volume ::
  "rat \<Rightarrow> nat \<Rightarrow> take_profit_mode \<Rightarrow> lot_distribution \<Rightarrow> rat" where
  "calculate_signal_volume fixed_lot tp_count mode distribution = (
     let selected_count = (if mode \<in> {TP_lowest, TP_highest} then 1 else max 1 tp_count) in
     if distribution = Split_total then fixed_lot else fixed_lot * of_nat selected_count)"

definition signal_volume_for_action ::
  "signal_action \<Rightarrow> rat \<Rightarrow> nat \<Rightarrow> take_profit_mode \<Rightarrow> lot_distribution \<Rightarrow> rat" where
  "signal_volume_for_action a fixed_lot tp_count mode distribution =
     (if a \<notin> set opening_actions then 0
      else calculate_signal_volume fixed_lot tp_count mode distribution)"

definition intent_legs_for_action ::
  "signal_action \<Rightarrow> rat \<Rightarrow> rat list \<Rightarrow> take_profit_mode \<Rightarrow> lot_distribution \<Rightarrow> take_profit_leg option list" where
  "intent_legs_for_action a fixed_lot tps mode distribution = (
     if a \<notin> set opening_actions then [None]
     else case build_tp_legs fixed_lot tps mode distribution of [] \<Rightarrow> [None] | legs \<Rightarrow> map Some legs)"

section \<open>Account limits\<close>

datatype risk_error = Per_trade_maximum rat | Total_exposure rat | Open_position_maximum int
  | Not_in_allowed_list string | Blocked_symbol string | Equity_unavailable
  | Daily_loss_reached rat | Drawdown_reached rat

definition risk_message :: "risk_error \<Rightarrow> string" where
  "risk_message e = (case e of
       Per_trade_maximum m \<Rightarrow> ''Trade size would exceed the per-trade maximum of '' @ show_fixed 4 m @ ''.''
     | Total_exposure m \<Rightarrow> ''Trade would exceed the total copied exposure limit of '' @ show_fixed 4 m @ ''.''
     | Open_position_maximum n \<Rightarrow> ''Trade would exceed the open-position maximum of '' @ show_int n @ ''.''
     | Not_in_allowed_list s \<Rightarrow> s @ '' is not in this account's allowed-symbol list.''
     | Blocked_symbol s \<Rightarrow> s @ '' is blocked for this account.''
     | Equity_unavailable \<Rightarrow>
         ''Live account equity is unavailable, so equity-based safety limits cannot be checked.''
     | Daily_loss_reached m \<Rightarrow> ''Account equity has reached the daily loss limit of '' @ show_fixed 2 m @ ''.''
     | Drawdown_reached m \<Rightarrow> ''Account equity has reached the drawdown limit of '' @ show_fixed 2 m @ ''%.'')"

definition ensure_exposure_within_limit :: "rat \<Rightarrow> rat \<Rightarrow> rat \<Rightarrow> unit result" where
  "ensure_exposure_within_limit current_exposure signal_volume maximum =
     (if signal_volume > maximum \<or> current_exposure + signal_volume > maximum
      then value_error (''Copied exposure would exceed the account maximum of '' @ show_fixed 4 maximum @ ''.'')
      else Inr ())"

definition matches_symbol_list :: "string \<Rightarrow> string list \<Rightarrow> bool" where
  "matches_symbol_list symbol configured =
     list_ex (\<lambda>c. startswith (normalize_symbol symbol) (normalize_symbol c))
       (filter (\<lambda>c. py_strip c \<noteq> []) configured)"

record risk_input =
  ri_symbol :: string
  ri_signal_volume :: rat
  ri_current_exposure :: rat
  ri_current_positions :: nat
  ri_equity :: "rat option"
  ri_daily_equity_anchor :: "rat option"
  ri_peak_equity :: "rat option"
  ri_max_lot_per_trade :: rat
  ri_max_total_lot :: rat
  ri_max_open_positions :: int
  ri_daily_loss_limit :: "rat option"
  ri_max_drawdown_percent :: "rat option"
  ri_allowed_symbols :: "string list"
  ri_blocked_symbols :: "string list"

definition daily_loss_hit :: "risk_input \<Rightarrow> rat \<Rightarrow> bool" where
  "daily_loss_hit r equity = (case (ri_daily_loss_limit r, ri_daily_equity_anchor r) of
     (Some l, Some anchor) \<Rightarrow> anchor - equity \<ge> l | _ \<Rightarrow> False)"

definition drawdown_hit :: "risk_input \<Rightarrow> rat \<Rightarrow> bool" where
  "drawdown_hit r equity = (case (ri_max_drawdown_percent r, ri_peak_equity r) of
     (Some d, Some peak) \<Rightarrow> peak > 0 \<and> dec_div (peak - equity) peak * 100 \<ge> d | _ \<Rightarrow> False)"

definition ensure_account_risk_within_limits :: "risk_input \<Rightarrow> risk_error + unit" where
  "ensure_account_risk_within_limits r = (
     if ri_signal_volume r > ri_max_lot_per_trade r then Inl (Per_trade_maximum (ri_max_lot_per_trade r))
     else if ri_current_exposure r + ri_signal_volume r > ri_max_total_lot r
       then Inl (Total_exposure (ri_max_total_lot r))
     else if int (ri_current_positions r) \<ge> ri_max_open_positions r
       then Inl (Open_position_maximum (ri_max_open_positions r))
     else if ri_allowed_symbols r \<noteq> [] \<and> \<not> matches_symbol_list (ri_symbol r) (ri_allowed_symbols r)
       then Inl (Not_in_allowed_list (ri_symbol r))
     else if matches_symbol_list (ri_symbol r) (ri_blocked_symbols r)
       then Inl (Blocked_symbol (ri_symbol r))
     else case ri_equity r of
       None \<Rightarrow> if ri_daily_loss_limit r \<noteq> None \<or> ri_max_drawdown_percent r \<noteq> None
               then Inl Equity_unavailable else Inr ()
     | Some equity \<Rightarrow>
         if daily_loss_hit r equity then Inl (Daily_loss_reached (the (ri_daily_loss_limit r)))
         else if drawdown_hit r equity then Inl (Drawdown_reached (the (ri_max_drawdown_percent r)))
         else Inr ())"

section \<open>Lemmas\<close>

lemma risk_limits:
  assumes "ensure_account_risk_within_limits r = Inr ()"
  shows "ri_signal_volume r \<le> ri_max_lot_per_trade r"
    and "ri_current_exposure r + ri_signal_volume r \<le> ri_max_total_lot r"
    and "int (ri_current_positions r) < ri_max_open_positions r"
    and "\<not> matches_symbol_list (ri_symbol r) (ri_blocked_symbols r)"
    and "ri_allowed_symbols r = [] \<or> matches_symbol_list (ri_symbol r) (ri_allowed_symbols r)"
  using assms by (auto simp: ensure_account_risk_within_limits_def split: if_splits)

definition leg_volume :: "rat \<Rightarrow> take_profit_leg option \<Rightarrow> rat" where
  "leg_volume fixed_lot leg = (case leg of None \<Rightarrow> fixed_lot | Some l \<Rightarrow> leg_lot l)"

lemma sum_list_replicate_rat: "sum_list (replicate n (x::rat)) = of_nat n * x"
  by (induction n) (simp_all add: algebra_simps)

lemma map_const_replicate: "map (\<lambda>_. c) xs = replicate (length xs) c"
  by (induction xs) auto

lemma dec_div_sum_error:
  assumes "0 < n" "0 \<le> l"
  shows "\<bar>of_nat n * dec_div l (of_nat n) - l\<bar> \<le> l / (2 * 10 ^ 27)"
proof -
  have n: "(0::rat) < of_nat n" using assms by simp
  have "of_nat n * dec_div l (of_nat n) - l = of_nat n * (dec_round (l / of_nat n) - l / of_nat n)"
    using n by (simp add: dec_div_def field_simps)
  then have "\<bar>of_nat n * dec_div l (of_nat n) - l\<bar> = of_nat n * \<bar>dec_round (l / of_nat n) - l / of_nat n\<bar>"
    using n by (simp add: abs_mult)
  also have "\<dots> \<le> of_nat n * (\<bar>l / of_nat n\<bar> / (2 * 10 ^ 27))"
    using n by (intro mult_left_mono dec_round_error) auto
  also have "\<dots> = l / (2 * 10 ^ 27)" using n assms by simp
  finally show ?thesis .
qed

lemma leg_volumes_total:
  "sum_list (map (leg_volume l) (intent_legs_for_action a l tps m d)) =
     (if a \<in> set opening_actions \<and> tps \<noteq> [] \<and> d = Split_total \<and> m = TP_all \<and> length tps > 1
      then of_nat (length tps) * dec_div l (of_nat (length tps))
      else if a \<in> set opening_actions \<and> tps \<noteq> [] \<and> m = TP_all then of_nat (length tps) * l else l)"
  by (cases m; cases tps)
    (auto simp: intent_legs_for_action_def build_tp_legs_def selected_take_profits_def Let_def
      leg_volume_def comp_def map_const_replicate sum_list_replicate_rat algebra_simps)

lemma leg_volumes_fixed:
  "a \<in> set opening_actions \<Longrightarrow>
     sum_list (map (leg_volume l) (intent_legs_for_action a l tps m Fixed_each))
       = signal_volume_for_action a l (length tps) m Fixed_each"
  unfolding leg_volumes_total signal_volume_for_action_def calculate_signal_volume_def Let_def
  by (cases m; cases tps) simp_all

lemma leg_volumes_split:
  "a \<in> set opening_actions \<Longrightarrow>
     sum_list (map (leg_volume l) (intent_legs_for_action a l tps m Split_total))
       = (if m = TP_all \<and> length tps > 1 then of_nat (length tps) * dec_div l (of_nat (length tps)) else l)"
  unfolding leg_volumes_total by (cases m; cases tps) auto

section \<open>Properties\<close>

text \<open>
  The volume that the account limits are checked against is the volume the legs of the
  signal ask for: the legs of a fixed-lot route add up to it exactly, and splitting one lot over
  several targets loses at most one part in \<open>2 * 10^27\<close> to the rounding of the division.
\<close>

theorem leg_volumes_match_signal_volume:
  assumes "a \<in> set opening_actions" and "0 \<le> fixed_lot"
  shows "\<bar>sum_list (map (leg_volume fixed_lot) (intent_legs_for_action a fixed_lot tps m d))
           - signal_volume_for_action a fixed_lot (length tps) m d\<bar> \<le> fixed_lot / (2 * 10 ^ 27)
    \<and> (d = Fixed_each \<longrightarrow>
         sum_list (map (leg_volume fixed_lot) (intent_legs_for_action a fixed_lot tps m d))
           = signal_volume_for_action a fixed_lot (length tps) m d)"
proof (cases d)
  case Fixed_each
  then show ?thesis using leg_volumes_fixed [OF assms(1)] assms(2) by simp
next
  case Split_total
  have "signal_volume_for_action a fixed_lot (length tps) m d = fixed_lot"
    using assms(1) Split_total by (simp add: signal_volume_for_action_def calculate_signal_volume_def)
  moreover have "\<bar>of_nat (length tps) * dec_div fixed_lot (of_nat (length tps)) - fixed_lot\<bar>
      \<le> fixed_lot / (2 * 10 ^ 27)" if "length tps > 1"
    using that assms(2) by (intro dec_div_sum_error) auto
  ultimately show ?thesis
    unfolding Split_total leg_volumes_split [OF assms(1)] using assms(2) by auto
qed

theorem leg_volumes_match_signal_volume_witness:
  "\<bar>sum_list (map (leg_volume (1 / 10)) (intent_legs_for_action Open_market (1 / 10) [2660, 2670, 2680] TP_all Split_total))
     - signal_volume_for_action Open_market (1 / 10) 3 TP_all Split_total\<bar> \<le> (1 / 10) / (2 * 10 ^ 27)"
  using leg_volumes_match_signal_volume [of Open_market "1 / 10" "[2660, 2670, 2680]" TP_all Split_total]
  by (simp add: opening_actions_def numeral_3_eq_3)

end
