(* ===== verification/Tables.thy ===== *)
theory Tables
  imports Prelude
begin

text \<open>
  Tables as lists of rows: reading a row by its key, writing it back, changing some of its columns, and
  the contract the tables of all databases of the development keep.
\<close>

section \<open>Reading and writing rows\<close>

text \<open>
  \<^verbatim>\<open>db.get(Row, key)\<close>, and writing a changed row back. The rows of a table have distinct keys, so
  the first row with a key is the only one.
\<close>

definition row_get :: "('r \<Rightarrow> 'k) \<Rightarrow> 'k \<Rightarrow> 'r list \<Rightarrow> 'r option" where
  "row_get key k rows = find (\<lambda>r. key r = k) rows"

definition row_put :: "('r \<Rightarrow> 'k) \<Rightarrow> 'r \<Rightarrow> 'r list \<Rightarrow> 'r list" where
  "row_put key r rows = map (\<lambda>x. if key x = key r then r else x) rows"

text \<open>\<^verbatim>\<open>scalar_one_or_none\<close> raises on more than one row.\<close>

definition scalar_one_or_none :: "'r list \<Rightarrow> 'r option result" where
  "scalar_one_or_none rows = (case rows of [] \<Rightarrow> Inr None | [r] \<Rightarrow> Inr (Some r)
     | _ \<Rightarrow> Inl (Exn ''MultipleResultsFound'' ''Multiple rows were found when one or none was required''))"

text \<open>
  Assigning columns of a loaded row: the update changes those columns of the stored row and nothing
  else of it.
\<close>

definition row_modify :: "('r \<Rightarrow> 'k) \<Rightarrow> 'k \<Rightarrow> ('r \<Rightarrow> 'r) \<Rightarrow> 'r list \<Rightarrow> 'r list" where
  "row_modify key k f rows = map (\<lambda>x. if key x = k then f x else x) rows"

lemma row_get_append [simp]:
  "row_get key k (xs @ [r]) = (case row_get key k xs of Some x \<Rightarrow> Some x | None \<Rightarrow> if key r = k then Some r else None)"
  by (induction xs) (simp_all add: row_get_def)

lemma row_get_None: "row_get key k xs = None \<longleftrightarrow> k \<notin> key ` set xs"
  by (auto simp: row_get_def find_None_iff)

section \<open>The contract of a table\<close>

text \<open>
  A table promises that a row is found under its key, that writing a row keeps the keys and every
  other row, and that a row of a new key can be added.
\<close>

locale keyed_table =
  fixes key :: "'r \<Rightarrow> 'k"
    and rows :: "'d \<Rightarrow> 'r list"
    and rows_update :: "('r list \<Rightarrow> 'r list) \<Rightarrow> 'd \<Rightarrow> 'd"
    and get :: "'d \<Rightarrow> 'k \<Rightarrow> 'r option"
    and put :: "'r \<Rightarrow> 'd \<Rightarrow> 'd"
  assumes get_row: "get d k = row_get key k (rows d)"
    and put_row: "put r d = rows_update (row_put key r) d"
    and rows_rows_update: "rows (rows_update f d) = f (rows d)"
begin

lemma rows_put: "rows (put r d) = row_put key r (rows d)"
  by (simp add: put_row rows_rows_update)

lemma keys_put: "map key (rows (put r d)) = map key (rows d)"
  by (simp add: rows_put row_put_def)

lemma length_put: "length (rows (put r d)) = length (rows d)"
  by (simp add: rows_put row_put_def)

lemma get_Some: "get d k = Some r \<Longrightarrow> r \<in> set (rows d) \<and> key r = k"
  by (auto simp: get_row row_get_def find_Some_iff)

lemma get_None: "get d k = None \<longleftrightarrow> k \<notin> key ` set (rows d)"
  by (auto simp: get_row row_get_def find_None_iff)

lemma get_unique: "distinct (map key (rows d)) \<Longrightarrow> r \<in> set (rows d) \<Longrightarrow> get d (key r) = Some r"
proof -
  assume d: "distinct (map key (rows d))" and r: "r \<in> set (rows d)"
  obtain x where x: "get d (key r) = Some x" using r get_None by fastforce
  then have "x \<in> set (rows d)" "key x = key r" using get_Some by blast+
  with d r have "x = r" by (auto simp: distinct_map inj_on_def)
  with x show ?thesis by simp
qed

lemma get_put: "get d k \<noteq> None \<Longrightarrow> get (put r d) k = (if k = key r then Some r else get d k)"
proof -
  have "find (\<lambda>x. key x = k) xs \<noteq> None \<Longrightarrow>
      find (\<lambda>x. key x = k) (row_put key r xs) = (if k = key r then Some r else find (\<lambda>x. key x = k) xs)" for xs
    by (induction xs) (auto simp: row_put_def)
  then show "get d k \<noteq> None \<Longrightarrow> get (put r d) k = (if k = key r then Some r else get d k)"
    by (simp add: get_row row_get_def rows_put)
qed

lemma get_put_None: "get d k = None \<Longrightarrow> get (put r d) k = None"
  using keys_put [of r d] by (metis get_None image_set)

lemma get_put_other: "k \<noteq> key r \<Longrightarrow> get (put r d) k = get d k"
  using get_put [of d k r] get_put_None [of d k r] by (cases "get d k = None") simp_all

lemma in_put: "x \<in> set (rows (put r d)) \<Longrightarrow> x = r \<or> x \<in> set (rows d)"
  by (auto simp: rows_put row_put_def split: if_splits)

lemma put_in: "x \<in> set (rows d) \<Longrightarrow> key x \<noteq> key r \<Longrightarrow> x \<in> set (rows (put r d))"
  by (auto simp: rows_put row_put_def image_iff)

end

text \<open>A table whose rows are also changed column by column.\<close>

locale modified_table = keyed_table key rows rows_update get put
  for key :: "'r \<Rightarrow> 'k" and rows :: "'d \<Rightarrow> 'r list" and rows_update :: "('r list \<Rightarrow> 'r list) \<Rightarrow> 'd \<Rightarrow> 'd"
    and get :: "'d \<Rightarrow> 'k \<Rightarrow> 'r option" and put :: "'r \<Rightarrow> 'd \<Rightarrow> 'd" +
  fixes modify :: "'k \<Rightarrow> ('r \<Rightarrow> 'r) \<Rightarrow> 'd \<Rightarrow> 'd"
  assumes modify_row: "modify k f d = rows_update (row_modify key k f) d"
begin

lemma rows_modify: "rows (modify k f d) = row_modify key k f (rows d)"
  by (simp add: modify_row rows_rows_update)

lemma keys_modify: "(\<And>x. key (f x) = key x) \<Longrightarrow> map key (rows (modify k f d)) = map key (rows d)"
  by (simp add: rows_modify row_modify_def)

lemma get_modify: "(\<And>x. key (f x) = key x) \<Longrightarrow>
    get (modify k f d) j = (if j = k then map_option f (get d j) else get d j)"
proof -
  assume key: "\<And>x. key (f x) = key x"
  have "find (\<lambda>x. key x = j) (row_modify key k f xs) =
      (if j = k then map_option f (find (\<lambda>x. key x = j) xs) else find (\<lambda>x. key x = j) xs)" for xs
    using key by (induction xs) (auto simp: row_modify_def)
  then show ?thesis by (simp add: get_row row_get_def rows_modify)
qed

end

end
