(* ===== verification/Models.thy ===== *)
theory Models
  imports Engine Tables
begin

text \<open>
  The rows of \<^verbatim>\<open>copy_trading/models.py\<close> and the database they live in. An enumeration is a datatype,
  a mapped class a record with the columns the workers read or write, and the database a record
  of row lists. Rows are read and written by their primary key through \<open>keyed_table\<close>, whose laws
  are proved once and hold for every table. Nested JSON that is only displayed (the details and
  the encrypted text of an activity) is left out.
\<close>

section \<open>Enumerations\<close>

datatype telegram_connection_state = TC_pending | TC_ready | TC_reauthentication_required | TC_disconnected

datatype telegram_source_type = Src_channel | Src_group

datatype telegram_source_state = Source_draft | Source_learning | Source_ready | Source_active | Source_paused
  | Source_unsupported | Source_advisory | Source_failed_retryable

datatype copy_route_state = Route_draft | Route_ready | Route_active | Route_paused
  | Route_reauthentication_required | Route_unsupported | Route_target_unavailable | Route_needs_attention

datatype copy_trading_connection_state = Conn_submitted | Conn_provisioning | Conn_deploying
  | Conn_connecting | Conn_synchronizing | Conn_ready | Conn_invalid_credentials | Conn_server_not_found
  | Conn_provisioning_failed | Conn_broker_disconnected | Conn_synchronization_failed
  | Conn_trading_disabled | Conn_deleting | Conn_deleted

datatype copy_activity_level = Level_info | Level_success | Level_warning | Level_error

datatype signal_thread_state = Thread_assembling | Thread_complete | Thread_validated
  | Thread_executing | Thread_succeeded | Thread_expired | Thread_skipped | Thread_rejected | Thread_failed

datatype trade_intent_state = Intent_created | Intent_submitted | Intent_confirmed | Intent_uncertain
  | Intent_reconciling | Intent_retryable | Intent_failed

datatype signal_conversation_state = Conv_active | Conv_completed | Conv_expired | Conv_ambiguous

datatype route_assembly_state = Asm_assembling | Asm_ready | Asm_executing | Asm_completed
  | Asm_expired | Asm_skipped | Asm_failed

datatype dead_letter_state = DL_pending | DL_replayed | DL_resolved

datatype worker_health_state = Worker_healthy | Worker_degraded | Worker_failed

section \<open>Tables\<close>

record copy_trading_user_settings =
  us_user_id :: uuid
  us_is_paused :: bool

record copy_trading_connection =
  cn_id :: uuid
  cn_user_id :: uuid
  cn_display_name :: string
  cn_broker_login :: string
  cn_broker_server :: string
  cn_platform :: string
  cn_encrypted_trader_password :: "string option"
  cn_provisioning_transaction_id :: string
  cn_metaapi_account_id :: "string option"
  cn_state :: copy_trading_connection_state
  cn_last_error_code :: "string option"
  cn_last_error_message :: "string option"
  cn_symbol_catalog_fingerprint :: "string option"
  cn_symbol_catalog_refreshed_at :: "int option"
  cn_last_health_at :: "int option"
  cn_is_paused :: bool

record telegram_source =
  src_id :: uuid
  src_user_id :: uuid
  src_connection_id :: uuid
  src_telegram_chat_id :: int
  src_source_type :: telegram_source_type
  src_state :: telegram_source_state
  src_is_paused :: bool

record copy_account_policy =
  cap_id :: uuid
  cap_user_id :: uuid
  cap_connection_id :: "uuid option"
  cap_max_lot :: rat
  cap_max_lot_per_trade :: rat
  cap_max_open_positions :: int
  cap_daily_loss_limit :: "rat option"
  cap_max_drawdown_percent :: "rat option"
  cap_allowed_symbols :: "string list"
  cap_blocked_symbols :: "string list"
  cap_market_signal_max_age_seconds :: int
  cap_max_spread_points :: "int option"
  cap_max_slippage_points :: "int option"
  cap_max_quote_age_seconds :: int
  cap_high_spread_behavior :: string
  cap_trading_start_hour_utc :: "int option"
  cap_trading_end_hour_utc :: "int option"
  cap_daily_equity_anchor :: "rat option"
  cap_daily_equity_anchor_date :: "int option"
  cap_peak_equity :: "rat option"
  cap_is_paused :: bool

record copy_route =
  rt_id :: uuid
  rt_user_id :: uuid
  rt_source_id :: uuid
  rt_target_connection_id :: "uuid option"
  rt_magic_number :: int
  rt_state :: copy_route_state
  rt_paused_from_state :: "copy_route_state option"
  rt_fixed_lot :: rat
  rt_take_profit_mode :: take_profit_mode
  rt_lot_distribution :: lot_distribution
  rt_pending_orders_enabled :: bool
  rt_minimum_fields :: minimum_fields
  rt_assembly_window_seconds :: "int option"
  rt_process_all_group_authors :: bool
  rt_notify_success :: bool
  rt_notify_failure :: bool
  rt_semantic_duplicate_window_seconds :: int
  rt_allow_sl_tp_updates :: bool
  rt_allow_break_even :: bool
  rt_allow_additional_tp :: bool
  rt_allow_partial_close :: bool
  rt_allow_full_close :: bool
  rt_allow_pending_cancel :: bool
  rt_unsafe_minimum_confirmed_at :: "int option"

record copy_activity_event =
  act_user_id :: uuid
  act_route_id :: "uuid option"
  act_source_id :: "uuid option"
  act_connection_id :: "uuid option"
  act_correlation_id :: string
  act_action :: string
  act_level :: copy_activity_level
  act_title :: string
  act_body :: "string option"

text \<open>An entry of \<^verbatim>\<open>message_references\<close>.\<close>

record message_reference =
  ref_connection_id :: string
  ref_chat_id :: int
  ref_message_id :: int
  ref_revision :: int

record signal_thread =
  th_id :: uuid
  th_source_id :: uuid
  th_correlation_id :: string
  th_state :: signal_thread_state
  th_symbol :: "string option"
  th_direction :: "string option"
  th_context :: dict
  th_message_references :: "message_reference list"
  th_assembly_deadline :: int

record signal_conversation =
  conv_id :: uuid
  conv_source_id :: uuid
  conv_legacy_thread_id :: uuid
  conv_correlation_id :: string
  conv_state :: signal_conversation_state
  conv_reply_root_message_id :: "int option"
  conv_explicit_reference :: "string option"
  conv_symbol :: "string option"
  conv_direction :: "string option"
  conv_context :: dict
  conv_last_message_id :: int
  conv_last_message_revision :: int
  conv_updated_at :: int

record route_signal_assembly =
  asm_id :: uuid
  asm_conversation_id :: uuid
  asm_route_id :: uuid
  asm_state :: route_assembly_state
  asm_context :: dict
  asm_message_references :: "message_reference list"
  asm_generation :: int
  asm_opening_action :: "string option"
  asm_opening_intent_id :: "uuid option"
  asm_terminal_reason :: "string option"
  asm_assembly_deadline :: int
  asm_accepted_at :: "int option"
  asm_completed_at :: "int option"

text \<open>\<^verbatim>\<open>validation_result\<close> of a parsed action is kept by its four entries.\<close>

record parsed_action =
  pa_id :: uuid
  pa_thread_id :: uuid
  pa_route_id :: uuid
  pa_telegram_message_id :: int
  pa_action_type :: string
  pa_revision :: int
  pa_confidence :: rat
  pa_payload :: dict
  pa_accepted :: bool
  pa_reason :: "string option"
  pa_advisory :: "string option"
  pa_assembly_id :: uuid

record trade_intent =
  ti_id :: uuid
  ti_user_id :: uuid
  ti_route_id :: uuid
  ti_connection_id :: "uuid option"
  ti_parsed_action_id :: uuid
  ti_idempotency_key :: string
  ti_client_order_id :: "string option"
  ti_state :: trade_intent_state
  ti_request_payload :: dict
  ti_broker_result :: dict
  ti_attempt_count :: int
  ti_last_error_code :: "string option"
  ti_submitted_at :: "int option"
  ti_resolved_at :: "int option"
  ti_created_at :: int

record copied_trade =
  ct_id :: uuid
  ct_route_id :: uuid
  ct_thread_id :: uuid
  ct_intent_id :: uuid
  ct_connection_id :: "uuid option"
  ct_magic_number :: int
  ct_route_comment :: string
  ct_signal_symbol :: string
  ct_broker_symbol :: string
  ct_broker_order_id :: "string option"
  ct_broker_deal_id :: "string option"
  ct_broker_position_id :: "string option"
  ct_lifecycle_state :: string
  ct_original_volume :: "rat option"
  ct_current_volume :: "rat option"
  ct_stop_loss :: "rat option"
  ct_take_profit :: "rat option"
  ct_broker_synced_at :: "int option"
  ct_created_at :: int

record symbol_mapping =
  sm_id :: uuid
  sm_route_id :: uuid
  sm_connection_id :: uuid
  sm_normalized_signal_symbol :: string
  sm_broker_symbol :: string
  sm_catalog_version :: string

record copy_dead_letter =
  dl_user_id :: "uuid option"
  dl_source_stream :: string
  dl_consumer_group :: string
  dl_source_message_id :: string
  dl_event_type :: string
  dl_correlation_id :: string
  dl_idempotency_key :: string
  dl_attempts :: int
  dl_error_code :: string
  dl_error_message :: string
  dl_state :: dead_letter_state

record copy_worker_health =
  wh_worker_role :: string
  wh_instance_id :: string
  wh_state :: worker_health_state
  wh_heartbeat_at :: int
  wh_stream_lag :: int
  wh_pending_count :: int
  wh_last_error :: "string option"

record copy_execution_metric =
  em_user_id :: uuid
  em_route_id :: uuid
  em_intent_id :: uuid
  em_correlation_id :: string
  em_action :: string
  em_symbol :: pyval
  em_status :: string
  em_telegram_at :: "int option"
  em_ingested_at :: "int option"
  em_validated_at :: "int option"
  em_submitted_at :: "int option"
  em_resolved_at :: "int option"
  em_ingestion_ms :: "int option"
  em_assembly_ms :: "int option"
  em_broker_ms :: "int option"
  em_total_ms :: "int option"

datatype notification_type = Notify_info | Notify_success | Notify_warning | Notify_error

record notification =
  nt_user_id :: uuid
  nt_type :: notification_type
  nt_title :: string
  nt_body :: "string option"
  nt_link :: "string option"

record db =
  db_settings :: "copy_trading_user_settings list"
  db_connections :: "copy_trading_connection list"
  db_sources :: "telegram_source list"
  db_policies :: "copy_account_policy list"
  db_routes :: "copy_route list"
  db_activities :: "copy_activity_event list"
  db_threads :: "signal_thread list"
  db_conversations :: "signal_conversation list"
  db_assemblies :: "route_signal_assembly list"
  db_actions :: "parsed_action list"
  db_intents :: "trade_intent list"
  db_trades :: "copied_trade list"
  db_mappings :: "symbol_mapping list"
  db_metrics :: "copy_execution_metric list"
  db_dead_letters :: "copy_dead_letter list"
  db_notifications :: "notification list"

definition empty_db :: db where
  "empty_db = \<lparr>db_settings = [], db_connections = [], db_sources = [], db_policies = [], db_routes = [],
     db_activities = [], db_threads = [], db_conversations = [], db_assemblies = [], db_actions = [],
     db_intents = [], db_trades = [], db_mappings = [], db_metrics = [], db_dead_letters = [], db_notifications = []\<rparr>"

section \<open>Reading and writing rows\<close>

definition active_lifecycle :: "string \<Rightarrow> bool" where
  "active_lifecycle s \<longleftrightarrow> s = ''open'' \<or> s = ''pending''"

definition active_assembly_state :: "route_assembly_state \<Rightarrow> bool" where
  "active_assembly_state s \<longleftrightarrow> s = Asm_assembling \<or> s = Asm_ready \<or> s = Asm_executing"

definition get_source :: "db \<Rightarrow> uuid \<Rightarrow> telegram_source option" where
  "get_source d k = row_get src_id k (db_sources d)"

definition get_settings :: "db \<Rightarrow> uuid \<Rightarrow> copy_trading_user_settings option" where
  "get_settings d k = row_get us_user_id k (db_settings d)"

definition get_route :: "db \<Rightarrow> uuid \<Rightarrow> copy_route option" where
  "get_route d k = row_get rt_id k (db_routes d)"

definition get_connection :: "db \<Rightarrow> uuid option \<Rightarrow> copy_trading_connection option" where
  "get_connection d k = (case k of None \<Rightarrow> None | Some i \<Rightarrow> row_get cn_id i (db_connections d))"

definition get_conversation :: "db \<Rightarrow> uuid \<Rightarrow> signal_conversation option" where
  "get_conversation d k = row_get conv_id k (db_conversations d)"

definition get_thread :: "db \<Rightarrow> uuid \<Rightarrow> signal_thread option" where
  "get_thread d k = row_get th_id k (db_threads d)"

definition get_assembly :: "db \<Rightarrow> uuid \<Rightarrow> route_signal_assembly option" where
  "get_assembly d k = row_get asm_id k (db_assemblies d)"

definition get_action :: "db \<Rightarrow> uuid \<Rightarrow> parsed_action option" where
  "get_action d k = row_get pa_id k (db_actions d)"

definition get_intent :: "db \<Rightarrow> uuid \<Rightarrow> trade_intent option" where
  "get_intent d k = row_get ti_id k (db_intents d)"

definition put_route :: "copy_route \<Rightarrow> db \<Rightarrow> db" where
  "put_route r = db_routes_update (row_put rt_id r)"

definition put_connection :: "copy_trading_connection \<Rightarrow> db \<Rightarrow> db" where
  "put_connection r = db_connections_update (row_put cn_id r)"

definition put_policy :: "copy_account_policy \<Rightarrow> db \<Rightarrow> db" where
  "put_policy r = db_policies_update (row_put cap_id r)"

definition put_conversation :: "signal_conversation \<Rightarrow> db \<Rightarrow> db" where
  "put_conversation r = db_conversations_update (row_put conv_id r)"

definition put_thread :: "signal_thread \<Rightarrow> db \<Rightarrow> db" where
  "put_thread r = db_threads_update (row_put th_id r)"

definition put_assembly :: "route_signal_assembly \<Rightarrow> db \<Rightarrow> db" where
  "put_assembly r = db_assemblies_update (row_put asm_id r)"

definition put_intent :: "trade_intent \<Rightarrow> db \<Rightarrow> db" where
  "put_intent r = db_intents_update (row_put ti_id r)"

definition put_trade :: "copied_trade \<Rightarrow> db \<Rightarrow> db" where
  "put_trade r = db_trades_update (row_put ct_id r)"

definition modify_intent :: "uuid \<Rightarrow> (trade_intent \<Rightarrow> trade_intent) \<Rightarrow> db \<Rightarrow> db" where
  "modify_intent k f = db_intents_update (row_modify ti_id k f)"

definition modify_connection :: "uuid \<Rightarrow> (copy_trading_connection \<Rightarrow> copy_trading_connection) \<Rightarrow> db \<Rightarrow> db" where
  "modify_connection k f = db_connections_update (row_modify cn_id k f)"

definition modify_policy :: "uuid \<Rightarrow> (copy_account_policy \<Rightarrow> copy_account_policy) \<Rightarrow> db \<Rightarrow> db" where
  "modify_policy k f = db_policies_update (row_modify cap_id k f)"

definition modify_trade :: "uuid \<Rightarrow> (copied_trade \<Rightarrow> copied_trade) \<Rightarrow> db \<Rightarrow> db" where
  "modify_trade k f = db_trades_update (row_modify ct_id k f)"

definition policy_for :: "db \<Rightarrow> uuid option \<Rightarrow> copy_account_policy option result" where
  "policy_for d cid = scalar_one_or_none
     (filter (\<lambda>p. cid \<noteq> None \<and> cap_connection_id p = cid) (db_policies d))"

text \<open>
  The copied trades that are open or pending on the account of a connection, and their exposure;
  a volume of zero falls back to the original volume, as \<^verbatim>\<open>current_volume or original_volume\<close> does.
\<close>

definition active_trades_on :: "db \<Rightarrow> uuid option \<Rightarrow> copied_trade list" where
  "active_trades_on d cid = filter (\<lambda>t. active_lifecycle (ct_lifecycle_state t) \<and>
     (case get_route d (ct_route_id t) of None \<Rightarrow> False
      | Some r \<Rightarrow> cid \<noteq> None \<and> rt_target_connection_id r = cid)) (db_trades d)"

definition trade_volume :: "copied_trade \<Rightarrow> rat" where
  "trade_volume t = (case ct_current_volume t of
       Some v \<Rightarrow> if v \<noteq> 0 then v else (case ct_original_volume t of None \<Rightarrow> 0 | Some w \<Rightarrow> w)
     | None \<Rightarrow> (case ct_original_volume t of None \<Rightarrow> 0 | Some w \<Rightarrow> w))"

definition exposure :: "copied_trade list \<Rightarrow> rat" where
  "exposure ts = sum_list (map trade_volume ts)"

section \<open>The tables\<close>

interpretation intents: modified_table ti_id db_intents db_intents_update get_intent put_intent modify_intent
  by unfold_locales (simp_all add: get_intent_def put_intent_def modify_intent_def)

interpretation routes: keyed_table rt_id db_routes db_routes_update get_route put_route
  by unfold_locales (simp_all add: get_route_def put_route_def)

interpretation conversations:
  keyed_table conv_id db_conversations db_conversations_update get_conversation put_conversation
  by unfold_locales (simp_all add: get_conversation_def put_conversation_def)

interpretation threads: keyed_table th_id db_threads db_threads_update get_thread put_thread
  by unfold_locales (simp_all add: get_thread_def put_thread_def)

interpretation assemblies: keyed_table asm_id db_assemblies db_assemblies_update get_assembly put_assembly
  by unfold_locales (simp_all add: get_assembly_def put_assembly_def)

interpretation connections: keyed_table cn_id db_connections db_connections_update
  "\<lambda>d k. get_connection d (Some k)" put_connection
  by unfold_locales (simp_all add: get_connection_def put_connection_def)

lemma put_frame [step_simps]:
  "db_intents (put_route r d) = db_intents d" "db_intents (put_connection c d) = db_intents d"
  "db_intents (put_policy p d) = db_intents d" "db_intents (put_conversation v d) = db_intents d"
  "db_intents (put_thread t d) = db_intents d" "db_intents (put_assembly a d) = db_intents d"
  "db_intents (put_trade ct d) = db_intents d"
  "db_routes (put_intent i d) = db_routes d" "db_routes (put_connection c d) = db_routes d"
  "db_routes (put_policy p d) = db_routes d" "db_routes (put_conversation v d) = db_routes d"
  "db_routes (put_thread t d) = db_routes d" "db_routes (put_assembly a d) = db_routes d"
  "db_routes (put_trade ct d) = db_routes d"
  by (simp_all add: put_route_def put_connection_def put_policy_def put_conversation_def put_thread_def
      put_assembly_def put_intent_def put_trade_def)

end
