(* ===== verification/Streams.thy ===== *)
theory Streams
  imports Models
begin

text \<open>
  Events and streams, \<^verbatim>\<open>copy_trading/streams.py\<close>, and execution telemetry,
  \<^verbatim>\<open>copy_trading/telemetry.py\<close>. An event travels through Redis as string fields; \<open>dumps\<close> and
  \<open>loads\<close> stand for \<^verbatim>\<open>json.dumps\<close> and \<^verbatim>\<open>json.loads\<close>. A published event is appended to its stream;
  the trimming of a stream beyond ten thousand entries is not modelled.
\<close>

section \<open>Events\<close>

datatype stream_name = S_metaapi_provisioning | S_telegram_commands | S_telegram_messages
  | S_signal_actions | S_execution_intents | S_outcomes | S_dead_letters

definition stream_value :: "stream_name \<Rightarrow> string" where
  "stream_value s = (case s of S_metaapi_provisioning \<Rightarrow> ''copy:metaapi:provisioning''
     | S_telegram_commands \<Rightarrow> ''copy:telegram:commands'' | S_telegram_messages \<Rightarrow> ''copy:telegram:messages''
     | S_signal_actions \<Rightarrow> ''copy:signal:actions'' | S_execution_intents \<Rightarrow> ''copy:execution:intents''
     | S_outcomes \<Rightarrow> ''copy:outcomes'' | S_dead_letters \<Rightarrow> ''copy:dead-letters'')"

definition all_streams :: "stream_name list" where
  "all_streams = [S_metaapi_provisioning, S_telegram_commands, S_telegram_messages, S_signal_actions,
     S_execution_intents, S_outcomes, S_dead_letters]"

definition stream_name_of :: "string \<Rightarrow> stream_name result" where
  "stream_name_of v = (case find (\<lambda>s. stream_value s = v) all_streams of
     None \<Rightarrow> value_error (v @ '' is not a valid StreamName'') | Some s \<Rightarrow> Inr s)"

record copy_event =
  ev_event_id :: string
  ev_stream :: stream_name
  ev_event_type :: string
  ev_correlation_id :: string
  ev_idempotency_key :: string
  ev_occurred_at :: pyval
  ev_payload :: dict

text \<open>\<^verbatim>\<open>CopyEvent.new\<close>: the identifier is a fresh \<^verbatim>\<open>uuid4\<close> and the time the clock's, both arguments here.\<close>

definition new_event ::
  "uuid \<Rightarrow> int \<Rightarrow> stream_name \<Rightarrow> string \<Rightarrow> string \<Rightarrow> dict \<Rightarrow> string \<Rightarrow> copy_event" where
  "new_event u now stream event_type correlation_id payload idempotency_key =
     \<lparr>ev_event_id = str_uuid u, ev_stream = stream, ev_event_type = event_type,
      ev_correlation_id = correlation_id, ev_idempotency_key = idempotency_key,
      ev_occurred_at = PTime now, ev_payload = payload\<rparr>"

datatype field_value = F_text string | F_time pyval

type_synonym fields = "(string \<times> field_value) list"

definition to_fields :: "(dict \<Rightarrow> string) \<Rightarrow> copy_event \<Rightarrow> fields" where
  "to_fields dumps e =
     [(''event_id'', F_text (ev_event_id e)), (''stream'', F_text (stream_value (ev_stream e))),
      (''event_type'', F_text (ev_event_type e)), (''correlation_id'', F_text (ev_correlation_id e)),
      (''idempotency_key'', F_text (ev_idempotency_key e)), (''occurred_at'', F_time (ev_occurred_at e)),
      (''payload'', F_text (dumps (ev_payload e)))]"

definition text_field :: "fields \<Rightarrow> string \<Rightarrow> string result" where
  "text_field f k = (case map_of f k of Some (F_text s) \<Rightarrow> Inr s | _ \<Rightarrow> Inl (Exn ''KeyError'' k))"

definition time_field :: "fields \<Rightarrow> string \<Rightarrow> pyval result" where
  "time_field f k = (case map_of f k of Some (F_time t) \<Rightarrow> Inr t | Some (F_text s) \<Rightarrow> Inr (PStr s)
     | None \<Rightarrow> Inl (Exn ''KeyError'' k))"

definition from_fields :: "(string \<Rightarrow> dict result) \<Rightarrow> fields \<Rightarrow> copy_event result" where
  "from_fields loads f = (
     case text_field f ''event_id'' of Inl e \<Rightarrow> Inl e | Inr event_id \<Rightarrow>
     case text_field f ''stream'' of Inl e \<Rightarrow> Inl e | Inr stream_text \<Rightarrow>
     case stream_name_of stream_text of Inl e \<Rightarrow> Inl e | Inr stream \<Rightarrow>
     case text_field f ''event_type'' of Inl e \<Rightarrow> Inl e | Inr event_type \<Rightarrow>
     case text_field f ''correlation_id'' of Inl e \<Rightarrow> Inl e | Inr correlation_id \<Rightarrow>
     case text_field f ''idempotency_key'' of Inl e \<Rightarrow> Inl e | Inr idempotency_key \<Rightarrow>
     case time_field f ''occurred_at'' of Inl e \<Rightarrow> Inl e | Inr occurred_at \<Rightarrow>
     case text_field f ''payload'' of Inl e \<Rightarrow> Inl e | Inr text \<Rightarrow>
     case loads text of Inl e \<Rightarrow> Inl e | Inr payload \<Rightarrow>
     Inr \<lparr>ev_event_id = event_id, ev_stream = stream, ev_event_type = event_type,
          ev_correlation_id = correlation_id, ev_idempotency_key = idempotency_key,
          ev_occurred_at = occurred_at, ev_payload = payload\<rparr>)"

section \<open>Telemetry\<close>

text \<open>
  \<^verbatim>\<open>round\<close> rounds ties to even; the milliseconds are computed exactly here, where the source
  multiplies a float.
\<close>

definition parse_time :: "pyval \<Rightarrow> int option" where
  "parse_time v = (case v of PTime t \<Rightarrow> Some t | _ \<Rightarrow> None)"

definition elapsed :: "int option \<Rightarrow> int option \<Rightarrow> int option" where
  "elapsed start stop = (case (start, stop) of
     (Some a, Some b) \<Rightarrow> Some (max 0 (round_half_even (of_int (b - a) / 1000))) | _ \<Rightarrow> None)"

definition dict_val :: "pyval \<Rightarrow> dict" where
  "dict_val v = (case v of PDict d \<Rightarrow> d | _ \<Rightarrow> [])"

definition str_or :: "pyval \<Rightarrow> string \<Rightarrow> string" where
  "str_or v d = (case v of PStr s \<Rightarrow> if s = [] then d else s | _ \<Rightarrow> d)"

definition execution_metric :: "trade_intent \<Rightarrow> copy_route \<Rightarrow> string \<Rightarrow> int option \<Rightarrow> int \<Rightarrow> copy_execution_metric" where
  "execution_metric i route status resolved_arg now = (
     let timing = dict_val (dict_get (ti_request_payload i) ''_telemetry'');
         telegram_at = parse_time (dict_get timing ''telegram_at'');
         ingested_at = parse_time (dict_get timing ''ingested_at'');
         validated_at = parse_time (dict_get timing ''validated_at'');
         resolved_at = (case resolved_arg of Some t \<Rightarrow> Some t
           | None \<Rightarrow> (case ti_resolved_at i of Some t \<Rightarrow> Some t | None \<Rightarrow> Some now)) in
     \<lparr>em_user_id = ti_user_id i, em_route_id = rt_id route, em_intent_id = ti_id i,
      em_correlation_id = str_or (dict_get timing ''correlation_id'') [],
      em_action = str_or (dict_get (ti_request_payload i) ''action'') ''unknown'',
      em_symbol = dict_get (ti_request_payload i) ''symbol'', em_status = status,
      em_telegram_at = telegram_at, em_ingested_at = ingested_at, em_validated_at = validated_at,
      em_submitted_at = ti_submitted_at i, em_resolved_at = resolved_at,
      em_ingestion_ms = elapsed telegram_at ingested_at, em_assembly_ms = elapsed ingested_at validated_at,
      em_broker_ms = elapsed (ti_submitted_at i) resolved_at, em_total_ms = elapsed telegram_at resolved_at\<rparr>)"

definition record_execution_metric ::
  "db \<Rightarrow> trade_intent \<Rightarrow> copy_route \<Rightarrow> string \<Rightarrow> int option \<Rightarrow> int \<Rightarrow> db \<times> copy_execution_metric" where
  "record_execution_metric d i route status resolved_arg now = (
     case find (\<lambda>m. em_intent_id m = ti_id i) (db_metrics d) of
       Some m \<Rightarrow> (d, m)
     | None \<Rightarrow> let m = execution_metric i route status resolved_arg now in
         (d \<lparr>db_metrics := db_metrics d @ [m]\<rparr>, m))"

definition percentile :: "int list \<Rightarrow> rat \<Rightarrow> int option" where
  "percentile xs percent = (if xs = [] then None
     else let ordered = sort xs; n = int (length xs) - 1;
              index = min n (max 0 (round_half_even (of_int n * percent))) in
          Some (ordered ! nat index))"

section \<open>Lemmas\<close>

lemma stream_name_of_value [simp]: "stream_name_of (stream_value s) = Inr s"
  by (cases s) (simp_all add: stream_name_of_def all_streams_def stream_value_def)

lemma record_metric_frame [step_simps]:
  "db_intents (fst (record_execution_metric d i r s t now)) = db_intents d"
  "db_routes (fst (record_execution_metric d i r s t now)) = db_routes d"
  "db_connections (fst (record_execution_metric d i r s t now)) = db_connections d"
  "db_trades (fst (record_execution_metric d i r s t now)) = db_trades d"
  by (simp_all add: record_execution_metric_def Let_def split: option.split)

lemma metrics_distinct:
  "distinct (map em_intent_id (db_metrics d)) \<Longrightarrow>
     distinct (map em_intent_id (db_metrics (fst (record_execution_metric d i r s t now))))"
  by (auto simp: record_execution_metric_def execution_metric_def Let_def find_None_iff split: option.split)

lemma round_half_even_mono: "x \<le> y \<Longrightarrow> round_half_even x \<le> round_half_even y"
proof -
  assume xy: "x \<le> y"
  have r: "\<lfloor>z\<rfloor> \<le> round_half_even z" "round_half_even z \<le> \<lfloor>z\<rfloor> + 1" for z :: rat
    by (auto simp: round_half_even_def Let_def)
  show ?thesis
  proof (cases "\<lfloor>x\<rfloor> = \<lfloor>y\<rfloor>")
    case False
    then have "\<lfloor>x\<rfloor> + 1 \<le> \<lfloor>y\<rfloor>" using floor_mono [OF xy] by linarith
    with r show ?thesis by (meson order_trans)
  next
    case True
    then show ?thesis using xy by (auto simp: round_half_even_def Let_def)
  qed
qed

lemma sort_at: "y \<in> set xs \<Longrightarrow> \<exists>i. i < length (sort xs) \<and> y = sort xs ! i"
proof -
  assume "y \<in> set xs"
  then have "y \<in> set (sort xs)" by simp
  then show ?thesis unfolding in_set_conv_nth by blast
qed

lemma sort_first: "xs \<noteq> [] \<Longrightarrow> sort xs ! 0 = Min (set xs)" for xs :: "'a::linorder list"
proof (rule Min_eqI [symmetric])
  assume "xs \<noteq> []"
  then show "sort xs ! 0 \<in> set xs" using nth_mem [of 0 "sort xs"] by simp
  show "sort xs ! 0 \<le> y" if "y \<in> set xs" for y
    using sort_at [OF that] by (auto intro: sorted_nth_mono)
qed simp

lemma sort_last: "xs \<noteq> [] \<Longrightarrow> sort xs ! (length xs - 1) = Max (set xs)" for xs :: "'a::linorder list"
proof (rule Max_eqI [symmetric])
  assume "xs \<noteq> []"
  then show "sort xs ! (length xs - 1) \<in> set xs" using nth_mem [of "length xs - 1" "sort xs"] by simp
  fix y assume "y \<in> set xs"
  then obtain i where "i < length (sort xs)" "y = sort xs ! i" using sort_at by blast
  then show "y \<le> sort xs ! (length xs - 1)" by (simp add: sorted_nth_mono)
qed simp

section \<open>Properties\<close>

text \<open>
  Property C15. An event read back from the fields it was published with is the event itself,
  whenever the JSON library reads back the payload it wrote.
\<close>

theorem event_roundtrip:
  assumes "loads (dumps (ev_payload e)) = Inr (ev_payload e)"
  shows "from_fields loads (to_fields dumps e) = Inr e"
  using assms by (simp add: from_fields_def to_fields_def text_field_def time_field_def)

theorem event_roundtrip_witness:
  "from_fields (\<lambda>s. if s = ''{}'' then Inr [] else value_error s)
     (to_fields (\<lambda>d. if d = [] then ''{}'' else [])
       (new_event 5 0 S_execution_intents ''intent.execute'' ''c'' [] ''k''))
   = Inr (new_event 5 0 S_execution_intents ''intent.execute'' ''c'' [] ''k'')"
  by (rule event_roundtrip) (simp add: new_event_def)

text \<open>
  A percentile of a non-empty list is one of its values; it grows with the percentage,
  is the smallest value at 0 and the largest at 1.
\<close>

theorem percentile_correct:
  assumes "xs \<noteq> []"
  shows "(\<exists>v. percentile xs p = Some v \<and> v \<in> set xs)
    \<and> (p \<le> q \<longrightarrow> the (percentile xs p) \<le> the (percentile xs q))
    \<and> percentile xs 0 = Some (Min (set xs)) \<and> percentile xs 1 = Some (Max (set xs))"
proof -
  define n where "n = int (length xs) - 1"
  define ix where "ix = (\<lambda>p. nat (min n (max 0 (round_half_even (of_int n * p)))))"
  have n0: "0 \<le> n" using assms by (cases xs) (auto simp: n_def)
  have val: "percentile xs p = Some (sort xs ! ix p)" for p
    using assms by (simp add: percentile_def n_def ix_def Let_def)
  have ix: "ix p < length (sort xs)" for p
  proof -
    have "ix p \<le> nat n" unfolding ix_def by (rule nat_mono) simp
    also have "\<dots> < length xs" using assms by (cases xs) (simp_all add: n_def)
    finally show ?thesis by simp
  qed
  have mono: "ix p \<le> ix q" if "p \<le> q" for p q
  proof -
    have "round_half_even (of_int n * p) \<le> round_half_even (of_int n * q)"
      using that n0 by (intro round_half_even_mono mult_left_mono) auto
    then show ?thesis unfolding ix_def by (intro nat_mono) linarith
  qed
  have "sort xs ! ix p \<in> set xs" for p using nth_mem [OF ix] by simp
  moreover have "sort xs ! ix p \<le> sort xs ! ix q" if "p \<le> q"
    using mono [OF that] ix by (intro sorted_nth_mono) auto
  moreover have "sort xs ! 0 = Min (set xs)" "sort xs ! nat n = Max (set xs)"
  proof -
    have "nat n = length xs - 1" by (simp add: n_def)
    then show "sort xs ! 0 = Min (set xs)" "sort xs ! nat n = Max (set xs)"
      using sort_first [OF assms] sort_last [OF assms] by simp_all
  qed
  moreover have "ix 0 = 0" using n0 round_half_even_of_int [of 0] by (simp add: ix_def)
  moreover have "ix 1 = nat n" using n0 by (simp add: ix_def)
  ultimately show ?thesis by (simp add: val)
qed

theorem percentile_correct_witness: "percentile [30, 10, 20] 0 = Some 10 \<and> percentile [30, 10, 20] 1 = Some 30"
  using percentile_correct [of "[30, 10, 20]" 0 1] by simp

end
