(* ===== verification/Delivery.thy ===== *)
theory Delivery
  imports Streams
begin

text \<open>
  Delivery of events, \<^verbatim>\<open>copy_trading/delivery.py\<close> and the \<^verbatim>\<open>StreamWorker\<close> of
  \<^verbatim>\<open>worker_runtime.py\<close>. The keyed executor is a step relation whose steps are the critical sections
  of \<^verbatim>\<open>submit\<close> and \<^verbatim>\<open>_drain\<close>, interleaved in any order; the worker's treatment of one message is a
  function of the state of Redis, of the dead-letter table and of a handler it calls.
\<close>

section \<open>Delivery results\<close>

datatype delivery_disposition = Disp_success | Disp_retry | Disp_dead_letter

record delivery_result =
  dr_disposition :: delivery_disposition
  dr_error_code :: "string option"
  dr_message :: "string option"

definition delivery_success :: delivery_result where
  "delivery_success = \<lparr>dr_disposition = Disp_success, dr_error_code = None, dr_message = None\<rparr>"

definition delivery_retry :: "string \<Rightarrow> string \<Rightarrow> delivery_result" where
  "delivery_retry code msg = \<lparr>dr_disposition = Disp_retry, dr_error_code = Some code, dr_message = Some msg\<rparr>"

definition delivery_dead_letter :: "string \<Rightarrow> string \<Rightarrow> delivery_result" where
  "delivery_dead_letter code msg = \<lparr>dr_disposition = Disp_dead_letter, dr_error_code = Some code, dr_message = Some msg\<rparr>"

definition normalize_delivery_result :: "delivery_result option \<Rightarrow> delivery_result" where
  "normalize_delivery_result r = (case r of None \<Rightarrow> delivery_success | Some x \<Rightarrow> x)"

section \<open>The keyed serial executor\<close>

text \<open>
  A drain of a key is either about to look at its queue (\<open>None\<close>) or runs a task (\<open>Some t\<close>). The
  multiset holds every drain that was handed to the thread pool and has not returned. The last
  three fields record what was submitted, started and finished.
\<close>

record 't executor =
  kx_queues :: "string \<Rightarrow> 't list"
  kx_drains :: "(string \<times> 't option) multiset"
  kx_submitted :: "(string \<times> 't) list"
  kx_started :: "(string \<times> 't) list"
  kx_finished :: "(string \<times> 't) list"

definition kx_init :: "'t executor" where
  "kx_init = \<lparr>kx_queues = \<lambda>_. [], kx_drains = {#}, kx_submitted = [], kx_started = [], kx_finished = []\<rparr>"

definition kx_submit :: "string \<Rightarrow> 't \<Rightarrow> 't executor \<Rightarrow> 't executor" where
  "kx_submit k t s = (let q = kx_queues s k @ [t] in
     s \<lparr>kx_queues := (kx_queues s)(k := q),
        kx_drains := (if length q = 1 then add_mset (k, None) (kx_drains s) else kx_drains s),
        kx_submitted := kx_submitted s @ [(k, t)]\<rparr>)"

text \<open>The first critical section of the loop: return on an empty queue, else take its head.\<close>

definition kx_take :: "string \<Rightarrow> 't executor \<Rightarrow> 't executor option" where
  "kx_take k s = (if (k, None) \<in># kx_drains s
     then Some (case kx_queues s k of
         [] \<Rightarrow> s \<lparr>kx_drains := kx_drains s - {#(k, None)#}\<rparr>
       | t # _ \<Rightarrow> s \<lparr>kx_drains := add_mset (k, Some t) (kx_drains s - {#(k, None)#}),
                     kx_started := kx_started s @ [(k, t)]\<rparr>)
     else None)"

text \<open>
  The second one, after the task returned or raised: drop the head, and return when the queue is
  empty. An absent queue leads back to the top of the loop.
\<close>

definition kx_finish :: "string \<Rightarrow> 't \<Rightarrow> 't executor \<Rightarrow> 't executor option" where
  "kx_finish k t s = (if (k, Some t) \<in># kx_drains s
     then Some (let D = kx_drains s - {#(k, Some t)#}; q = kx_queues s k in
       s \<lparr>kx_queues := (kx_queues s)(k := tl q),
          kx_drains := (if q \<noteq> [] \<and> tl q = [] then D else add_mset (k, None) D),
          kx_finished := kx_finished s @ [(k, t)]\<rparr>)
     else None)"

inductive kx_drain_step :: "'t executor \<Rightarrow> 't executor \<Rightarrow> bool" where
  take: "kx_take k s = Some s' \<Longrightarrow> kx_drain_step s s'"
| finish: "kx_finish k t s = Some s' \<Longrightarrow> kx_drain_step s s'"

inductive kx_step :: "'t executor \<Rightarrow> 't executor \<Rightarrow> bool" where
  submit: "kx_step s (kx_submit k t s)"
| drain: "kx_drain_step s s' \<Longrightarrow> kx_step s s'"

definition at_key :: "string \<Rightarrow> (string \<times> 'a) list \<Rightarrow> 'a list" where
  "at_key k xs = map snd (filter (\<lambda>x. fst x = k) xs)"

definition drains_of :: "string \<Rightarrow> 't executor \<Rightarrow> (string \<times> 't option) multiset" where
  "drains_of k s = filter_mset (\<lambda>d. fst d = k) (kx_drains s)"

text \<open>
  The invariant at a key: an empty queue has no drain; a queue with tasks has one, which either is
  about to take the head or runs it; and the records agree with that.
\<close>

definition kx_key_inv :: "'t executor \<Rightarrow> string \<Rightarrow> bool" where
  "kx_key_inv s k \<longleftrightarrow>
     at_key k (kx_submitted s) = at_key k (kx_finished s) @ kx_queues s k \<and>
     (case kx_queues s k of
        [] \<Rightarrow> drains_of k s = {#} \<and> at_key k (kx_started s) = at_key k (kx_finished s)
      | t # _ \<Rightarrow> drains_of k s = {#(k, None)#} \<and> at_key k (kx_started s) = at_key k (kx_finished s)
               \<or> drains_of k s = {#(k, Some t)#} \<and> at_key k (kx_started s) = at_key k (kx_finished s) @ [t])"

definition kx_inv :: "'t executor \<Rightarrow> bool" where
  "kx_inv s \<longleftrightarrow> (\<forall>k. kx_key_inv s k)"

lemma at_key_simps [simp]:
  "at_key k [] = []" "at_key k (xs @ ys) = at_key k xs @ at_key k ys"
  "at_key k (x # xs) = (if fst x = k then snd x # at_key k xs else at_key k xs)"
  by (simp_all add: at_key_def)

lemma drains_of_mem: "(k, p) \<in># kx_drains s \<longleftrightarrow> (k, p) \<in># drains_of k s"
  by (simp add: drains_of_def)

text \<open>What each step does at a key.\<close>

lemma kx_submit_at:
  "kx_queues (kx_submit k t s) j = (if j = k then kx_queues s k @ [t] else kx_queues s j)"
  "drains_of j (kx_submit k t s) =
     (if j = k \<and> kx_queues s k = [] then add_mset (k, None) (drains_of k s) else drains_of j s)"
  "at_key j (kx_submitted (kx_submit k t s)) = at_key j (kx_submitted s) @ (if j = k then [t] else [])"
  "kx_started (kx_submit k t s) = kx_started s" "kx_finished (kx_submit k t s) = kx_finished s"
  by (auto simp: kx_submit_def Let_def drains_of_def)

lemma kx_take_at:
  assumes "kx_take k s = Some s'"
  shows "(k, None) \<in># drains_of k s" "kx_queues s' = kx_queues s" "kx_submitted s' = kx_submitted s"
    "kx_finished s' = kx_finished s"
    "drains_of j s' = (if j \<noteq> k then drains_of j s else case kx_queues s k of
       [] \<Rightarrow> drains_of k s - {#(k, None)#} | t # _ \<Rightarrow> add_mset (k, Some t) (drains_of k s - {#(k, None)#}))"
    "at_key j (kx_started s') = at_key j (kx_started s) @ (if j = k then take 1 (kx_queues s k) else [])"
  using assms by (auto simp: kx_take_def drains_of_def filter_diff_mset split: if_splits list.splits)

lemma kx_finish_at:
  assumes "kx_finish k t s = Some s'"
  shows "(k, Some t) \<in># drains_of k s" "kx_submitted s' = kx_submitted s" "kx_started s' = kx_started s"
    "kx_queues s' j = (if j = k then tl (kx_queues s k) else kx_queues s j)"
    "drains_of j s' = (if j \<noteq> k then drains_of j s
       else if kx_queues s k \<noteq> [] \<and> tl (kx_queues s k) = [] then drains_of k s - {#(k, Some t)#}
       else add_mset (k, None) (drains_of k s - {#(k, Some t)#}))"
    "at_key j (kx_finished s') = at_key j (kx_finished s) @ (if j = k then [t] else [])"
  using assms by (auto simp: kx_finish_def drains_of_def filter_diff_mset Let_def split: if_splits)

lemma kx_submit_inv: "kx_key_inv s j \<Longrightarrow> kx_key_inv (kx_submit k t s) j"
  by (cases "kx_queues s j") (auto simp: kx_key_inv_def kx_submit_at)

lemma kx_take_inv: "kx_take k s = Some s' \<Longrightarrow> kx_key_inv s j \<Longrightarrow> kx_key_inv s' j"
  by (cases "kx_queues s j") (auto simp: kx_key_inv_def kx_take_at(2-6) dest: kx_take_at(1))

lemma kx_finish_inv: "kx_finish k t s = Some s' \<Longrightarrow> kx_key_inv s j \<Longrightarrow> kx_key_inv s' j"
  by (cases "kx_queues s j") (auto simp: kx_key_inv_def kx_finish_at(2-6) dest: kx_finish_at(1) split: list.splits)

lemma kx_drain_step_inv: "kx_drain_step s s' \<Longrightarrow> kx_key_inv s j \<Longrightarrow> kx_key_inv s' j"
  by (cases rule: kx_drain_step.cases) (auto intro: kx_take_inv kx_finish_inv)

interpretation kx: invariant_system "\<lambda>s. s = kx_init" kx_step kx_inv
proof
  fix s :: "'a executor"
  show "kx_inv s" if "s = kx_init"
    using that by (simp add: kx_inv_def kx_key_inv_def kx_init_def drains_of_def)
next
  fix s t :: "'a executor"
  assume "kx_inv s" "kx_step s t"
  then show "kx_inv t"
    by (auto simp: kx_inv_def elim!: kx_step.cases intro: kx_submit_inv kx_drain_step_inv)
qed

lemma count_at_key: "count (mset (at_key k xs)) t = count (mset xs) (k, t)"
  by (induction xs) auto

lemma kx_lengths:
  assumes "kx_inv s"
  shows "length (kx_started s) \<le> length (kx_submitted s)" "length (kx_finished s) \<le> length (kx_submitted s)"
proof -
  have le: "length xs \<le> length ys"
    if pre: "\<And>k. \<exists>zs. at_key k ys = at_key k xs @ zs" for xs ys :: "(string \<times> 'a) list"
  proof -
    have "mset xs \<subseteq># mset ys"
    proof (rule mset_subset_eqI)
      fix x :: "string \<times> 'a"
      obtain k t where x: "x = (k, t)" by force
      obtain zs where "at_key k ys = at_key k xs @ zs" using pre by blast
      then have "count (mset (at_key k xs)) t \<le> count (mset (at_key k ys)) t" by simp
      then show "count (mset xs) x \<le> count (mset ys) x" by (simp add: x count_at_key)
    qed
    then show ?thesis by (metis size_mset size_mset_mono)
  qed
  have key: "kx_key_inv s k" for k using assms by (simp add: kx_inv_def)
  show "length (kx_finished s) \<le> length (kx_submitted s)"
    by (rule le) (use key in \<open>auto simp: kx_key_inv_def\<close>)
  show "length (kx_started s) \<le> length (kx_submitted s)"
  proof (rule le)
    fix k
    show "\<exists>zs. at_key k (kx_submitted s) = at_key k (kx_started s) @ zs"
      using key [of k] by (cases "kx_queues s k") (auto simp: kx_key_inv_def)
  qed
qed

definition kx_work :: "'t executor \<Rightarrow> nat" where
  "kx_work s = 2 * length (kx_submitted s) - (length (kx_started s) + length (kx_finished s))"

lemma kx_drain_step_lengths:
  assumes "kx_inv s" "kx_drain_step s t"
  shows "kx_submitted t = kx_submitted s"
    "length (kx_started t) + length (kx_finished t) = Suc (length (kx_started s) + length (kx_finished s))"
proof -
  have key: "kx_key_inv s k" for k using assms(1) by (simp add: kx_inv_def)
  from assms(2) have "kx_submitted t = kx_submitted s
    \<and> length (kx_started t) + length (kx_finished t) = Suc (length (kx_started s) + length (kx_finished s))"
  proof cases
    case (take k)
    then have "kx_queues s k \<noteq> []" using key [of k] kx_take_at(1) [OF take] by (auto simp: kx_key_inv_def)
    then show ?thesis using take by (auto simp: kx_take_def neq_Nil_conv split: if_splits)
  next
    case (finish k x)
    then show ?thesis by (auto simp: kx_finish_def Let_def split: if_splits)
  qed
  then show "kx_submitted t = kx_submitted s"
    "length (kx_started t) + length (kx_finished t) = Suc (length (kx_started s) + length (kx_finished s))" by simp_all
qed

lemma kx_work_decreases:
  assumes "kx_inv s" "kx_drain_step s t"
  shows "kx_inv t \<and> kx_work s = Suc (kx_work t)"
proof -
  have t: "kx_inv t" using assms by (auto simp: kx_inv_def intro: kx_drain_step_inv)
  from kx_lengths [OF this] kx_drain_step_lengths [OF assms] t show ?thesis
    by (simp add: kx_work_def)
qed

lemma kx_drain_run:
  "(kx_drain_step ^^ n) s t \<Longrightarrow> kx_inv s \<Longrightarrow> kx_inv t \<and> kx_work s = n + kx_work t"
proof (induction n arbitrary: t)
  case (Suc n)
  from Suc.prems(1) obtain u where u: "(kx_drain_step ^^ n) s u" "kx_drain_step u t" by auto
  with Suc.IH [OF u(1) Suc.prems(2)] kx_work_decreases [of u t] show ?case by simp
qed simp

lemma kx_enabled:
  assumes "kx_inv s" "kx_queues s k \<noteq> []"
  shows "\<exists>t. kx_drain_step s t"
proof -
  obtain x q where q: "kx_queues s k = x # q" using assms(2) by (cases "kx_queues s k") auto
  have "kx_key_inv s k" using assms(1) by (simp add: kx_inv_def)
  then have "(k, None) \<in># kx_drains s \<or> (k, Some x) \<in># kx_drains s"
    unfolding drains_of_mem using q by (auto simp: kx_key_inv_def)
  then show ?thesis
  proof
    assume "(k, None) \<in># kx_drains s"
    then have "\<exists>t. kx_take k s = Some t" by (simp add: kx_take_def)
    then show ?thesis by (blast intro: kx_drain_step.take)
  next
    assume "(k, Some x) \<in># kx_drains s"
    then have "\<exists>t. kx_finish k x s = Some t" by (simp add: kx_finish_def)
    then show ?thesis by (blast intro: kx_drain_step.finish)
  qed
qed

section \<open>The stream worker\<close>

text \<open>
  \<^verbatim>\<open>StreamWorker\<close> of one stream and group. \<open>sw_dedupe\<close> maps a processed key to the second it
  expires, \<open>sw_pending\<close> a pending message to its delivery count, and \<open>sw_world\<close> is whatever the
  handler reads and changes. \<open>sw_handled\<close> records the outcome of every call of the handler.
\<close>

record 'w stream_worker =
  sw_dedupe :: "string \<rightharpoonup> int"
  sw_pending :: "string \<rightharpoonup> int"
  sw_acked :: "string list"
  sw_dead :: "copy_dead_letter list"
  sw_handled :: "(string \<times> delivery_disposition) list"
  sw_world :: 'w

record 'w worker_setup =
  ws_stream :: stream_name
  ws_group :: string
  ws_handler :: "copy_event \<Rightarrow> 'w \<Rightarrow> (exn + delivery_result option) \<times> 'w"
  ws_exhausted :: "copy_event \<Rightarrow> delivery_result \<Rightarrow> 'w \<Rightarrow> 'w"
  ws_owner :: "dict \<Rightarrow> 'w \<Rightarrow> uuid option result"
  ws_max_attempts :: int

text \<open>The class attribute; the provisioning worker replaces it.\<close>

definition max_attempts :: int where
  "max_attempts = 2"

definition dedupe_key :: "'w worker_setup \<Rightarrow> copy_event \<Rightarrow> string" where
  "dedupe_key st e = ''copy:processed:'' @ ws_group st @ '':'' @ ev_idempotency_key e"

definition is_processed :: "'w stream_worker \<Rightarrow> string \<Rightarrow> int \<Rightarrow> bool" where
  "is_processed s k now = (case sw_dedupe s k of None \<Rightarrow> False | Some expiry \<Rightarrow> now < expiry)"

definition ack :: "string \<Rightarrow> 'w stream_worker \<Rightarrow> 'w stream_worker" where
  "ack m s = s \<lparr>sw_acked := sw_acked s @ [m], sw_pending := (sw_pending s)(m := None)\<rparr>"

definition pending_attempts :: "'w stream_worker \<Rightarrow> string \<Rightarrow> int" where
  "pending_attempts s m = (case sw_pending s m of None \<Rightarrow> 1 | Some n \<Rightarrow> n)"

definition py_class_upper :: "exn \<Rightarrow> string" where
  "py_class_upper e = py_upper (exn_class e)"

text \<open>
  The owner of a dead letter: the user named in the payload, or the user of the source or intent it
  names. The identifiers are parsed, so a malformed one raises.
\<close>

definition payload_text :: "dict \<Rightarrow> string \<Rightarrow> string option" where
  "payload_text p k = (case dict_get p k of PStr s \<Rightarrow> if s = [] then None else Some s | _ \<Rightarrow> None)"

definition dead_letter_owner :: "db \<Rightarrow> dict \<Rightarrow> uuid option result" where
  "dead_letter_owner d p = (
     case payload_text p ''user_id'' of
       Some u \<Rightarrow> (case parse_uuid u of Inl e \<Rightarrow> Inl e | Inr x \<Rightarrow> Inr (Some x))
     | None \<Rightarrow>
       let by_source = (case payload_text p ''source_id'' of None \<Rightarrow> Inr None
             | Some t \<Rightarrow> (case parse_uuid t of Inl e \<Rightarrow> Inl e
                 | Inr k \<Rightarrow> Inr (map_option src_user_id (get_source d k)))) in
       case by_source of Inl e \<Rightarrow> Inl e | Inr (Some u) \<Rightarrow> Inr (Some u)
       | Inr None \<Rightarrow> (case payload_text p ''intent_id'' of None \<Rightarrow> Inr None
           | Some t \<Rightarrow> (case parse_uuid t of Inl e \<Rightarrow> Inl e
               | Inr k \<Rightarrow> Inr (map_option ti_user_id (get_intent d k)))))"

definition dead_letter_of ::
  "'w worker_setup \<Rightarrow> copy_event \<Rightarrow> string \<Rightarrow> int \<Rightarrow> delivery_result \<Rightarrow> uuid option \<Rightarrow> copy_dead_letter" where
  "dead_letter_of st e m attempts r user = \<lparr>dl_user_id = user, dl_source_stream = stream_value (ws_stream st),
     dl_consumer_group = ws_group st, dl_source_message_id = m, dl_event_type = ev_event_type e,
     dl_correlation_id = ev_correlation_id e, dl_idempotency_key = ev_idempotency_key e, dl_attempts = attempts,
     dl_error_code = (case dr_error_code r of None \<Rightarrow> ''DELIVERY_FAILED'' | Some c \<Rightarrow> if c = [] then ''DELIVERY_FAILED'' else c),
     dl_error_message = (case dr_message r of None \<Rightarrow> ''Event processing failed.''
       | Some c \<Rightarrow> if c = [] then ''Event processing failed.'' else c),
     dl_state = DL_pending\<rparr>"

text \<open>\<^verbatim>\<open>normalize_delivery_result\<close> around the handler, with the \<^verbatim>\<open>except Exception\<close> of the worker.\<close>

definition run_handler :: "'w worker_setup \<Rightarrow> copy_event \<Rightarrow> 'w \<Rightarrow> delivery_result \<times> 'w" where
  "run_handler st e w = (case ws_handler st e w of
       (Inl x, w') \<Rightarrow> (delivery_retry (py_class_upper x) (exn_message x), w')
     | (Inr r, w') \<Rightarrow> (normalize_delivery_result r, w'))"

text \<open>
  \<^verbatim>\<open>_process_message\<close>. \<open>parsed\<close> is the result of \<^verbatim>\<open>CopyEvent.from_fields\<close>, which stands outside the
  \<^verbatim>\<open>try\<close>: a malformed event raises before anything else happens.
\<close>

definition process_message ::
  "'w worker_setup \<Rightarrow> int \<Rightarrow> string \<Rightarrow> copy_event result \<Rightarrow> 'w stream_worker \<Rightarrow> exn option \<times> 'w stream_worker" where
  "process_message st now m parsed s = (case parsed of Inl e \<Rightarrow> (Some e, s)
   | Inr e \<Rightarrow>
     if is_processed s (dedupe_key st e) now then (None, ack m s)
     else
       let (r, w) = run_handler st e (sw_world s);
           s = s \<lparr>sw_world := w, sw_handled := sw_handled s @ [(ev_idempotency_key e, dr_disposition r)]\<rparr>;
           attempts = pending_attempts s m in
       if dr_disposition r = Disp_retry \<and> attempts < ws_max_attempts st then (None, s)
       else
         let s = (if dr_disposition r = Disp_retry then s \<lparr>sw_world := ws_exhausted st e r (sw_world s)\<rparr> else s) in
         if dr_disposition r = Disp_success
         then (None, ack m (s \<lparr>sw_dedupe := (sw_dedupe s)(dedupe_key st e \<mapsto> now + 604800)\<rparr>))
         else (case ws_owner st (ev_payload e) (sw_world s) of
             Inl x \<Rightarrow> (Some x, s)
           | Inr user \<Rightarrow> (None, ack m (s \<lparr>sw_dead := sw_dead s @ [dead_letter_of st e m attempts r user]\<rparr>))))"

text \<open>
  A message is handed out by the first read of the group or by a later claim; either way its
  delivery count grows by one before it is processed.
\<close>

definition deliver :: "string \<Rightarrow> 'w stream_worker \<Rightarrow> 'w stream_worker" where
  "deliver m s = s \<lparr>sw_pending := (sw_pending s)(m \<mapsto> (case sw_pending s m of None \<Rightarrow> 1 | Some n \<Rightarrow> n + 1))\<rparr>"

definition deliver_and_process ::
  "'w worker_setup \<Rightarrow> int \<Rightarrow> string \<Rightarrow> copy_event result \<Rightarrow> 'w stream_worker \<Rightarrow> 'w stream_worker" where
  "deliver_and_process st now m parsed s = snd (process_message st now m parsed (deliver m s))"

text \<open>The key of the executor a message is queued under; a malformed one gets a key of its own.\<close>

definition ordering_key :: "uuid \<Rightarrow> copy_event result \<Rightarrow> string" where
  "ordering_key u parsed = (case parsed of Inl _ \<Rightarrow> ''invalid:'' @ str_uuid u
   | Inr e \<Rightarrow> (case payload_text (ev_payload e) ''source_id'' of Some s \<Rightarrow> s | None \<Rightarrow>
      (case payload_text (ev_payload e) ''account_id'' of Some s \<Rightarrow> s | None \<Rightarrow>
      (case payload_text (ev_payload e) ''connection_id'' of Some s \<Rightarrow> s | None \<Rightarrow>
      (case payload_text (ev_payload e) ''intent_id'' of Some s \<Rightarrow> s | None \<Rightarrow> ev_idempotency_key e)))))"

section \<open>Properties of the executor\<close>

text \<open>
  Property C8. However submissions and worker threads interleave, the tasks of one key run one at a
  time and in the order of their submission: at most one drain of a key exists, the started tasks
  of a key are the finished ones and at most the next one, and the submitted tasks of a key are
  the finished ones followed by the queue, so none is lost or run twice.
\<close>

theorem executor_serial_per_key:
  assumes "kx_step\<^sup>*\<^sup>* kx_init s"
  shows "size (drains_of k s) \<le> 1
    \<and> at_key k (kx_submitted s) = at_key k (kx_finished s) @ kx_queues s k
    \<and> (\<exists>running. at_key k (kx_started s) = at_key k (kx_finished s) @ running
         \<and> (running = [] \<or> (\<exists>t q. kx_queues s k = t # q \<and> running = [t])))"
proof -
  have "kx_key_inv s k" using kx.reachable_inv [OF refl assms] by (simp add: kx_inv_def)
  then show ?thesis by (cases "kx_queues s k") (auto simp: kx_key_inv_def)
qed

theorem executor_serial_per_key_witness:
  "size (drains_of ''a'' (kx_submit ''a'' (2::nat) (kx_submit ''a'' 1 kx_init))) \<le> 1"
proof -
  have "kx_step\<^sup>*\<^sup>* kx_init (kx_submit ''a'' (2::nat) (kx_submit ''a'' 1 kx_init))"
    by (blast intro: kx_step.submit rtranclp.rtrancl_into_rtrancl)
  from executor_serial_per_key [OF this, of "''a''"] show ?thesis by blast
qed

text \<open>
  Property C16. Submitted work gets done: as long as a queue has a task some worker step is possible,
  every run of worker steps is bounded by twice the number of submitted tasks, and when no step
  is left every submitted task has finished.
\<close>

theorem executor_progress:
  assumes "kx_step\<^sup>*\<^sup>* kx_init s" "(kx_drain_step ^^ n) s t"
  shows "n \<le> 2 * length (kx_submitted s)
    \<and> (kx_queues t k \<noteq> [] \<longrightarrow> (\<exists>u. kx_drain_step t u))
    \<and> ((\<nexists>u. kx_drain_step t u) \<longrightarrow> at_key k (kx_finished t) = at_key k (kx_submitted t))"
proof -
  have run: "kx_inv t \<and> kx_work s = n + kx_work t"
    using kx_drain_run [OF assms(2) kx.reachable_inv [OF refl assms(1)]] .
  moreover have "kx_work s \<le> 2 * length (kx_submitted s)" by (simp add: kx_work_def)
  ultimately have "n \<le> 2 * length (kx_submitted s)" by linarith
  moreover have enabled: "kx_queues t k \<noteq> [] \<longrightarrow> (\<exists>u. kx_drain_step t u)"
    using kx_enabled run by blast
  moreover have "at_key k (kx_submitted t) = at_key k (kx_finished t) @ kx_queues t k"
    using run by (simp add: kx_inv_def kx_key_inv_def)
  ultimately show ?thesis by auto
qed

theorem executor_progress_witness:
  "\<exists>u. kx_drain_step (kx_submit ''a'' (1::nat) kx_init) u"
proof -
  have "kx_step\<^sup>*\<^sup>* kx_init (kx_submit ''a'' (1::nat) kx_init)" by (blast intro: kx_step.submit)
  moreover have "(kx_drain_step ^^ 0) (kx_submit ''a'' (1::nat) kx_init) (kx_submit ''a'' 1 kx_init)" by simp
  ultimately have "kx_queues (kx_submit ''a'' (1::nat) kx_init) ''a'' \<noteq> [] \<longrightarrow>
      (\<exists>u. kx_drain_step (kx_submit ''a'' (1::nat) kx_init) u)"
    using executor_progress [of "kx_submit ''a'' (1::nat) kx_init" 0] by blast
  then show ?thesis by (simp add: kx_submit_at)
qed

section \<open>Properties of the worker\<close>

type_synonym delivery = "int \<times> string \<times> copy_event result"

definition run_worker :: "'w worker_setup \<Rightarrow> delivery list \<Rightarrow> 'w stream_worker \<Rightarrow> 'w stream_worker" where
  "run_worker st ds s = fold (\<lambda>(now, m, p). deliver_and_process st now m p) ds s"

definition fresh_worker :: "'w \<Rightarrow> 'w stream_worker" where
  "fresh_worker w = \<lparr>sw_dedupe = Map.empty, sw_pending = Map.empty, sw_acked = [], sw_dead = [],
     sw_handled = [], sw_world = w\<rparr>"

lemma run_worker_snoc:
  "run_worker st (ds @ [(now, m, p)]) s = deliver_and_process st now m p (run_worker st ds s)"
  by (simp add: run_worker_def)

lemma dedupe_key_inj: "dedupe_key st e = dedupe_key st f \<longleftrightarrow> ev_idempotency_key e = ev_idempotency_key f"
  by (simp add: dedupe_key_def)

lemma deliver_simps [simp]:
  "sw_dedupe (deliver m s) = sw_dedupe s" "sw_acked (deliver m s) = sw_acked s" "sw_dead (deliver m s) = sw_dead s"
  "sw_handled (deliver m s) = sw_handled s" "sw_world (deliver m s) = sw_world s"
  "is_processed (deliver m s) k now = is_processed s k now"
  by (simp_all add: deliver_def is_processed_def)

lemma ack_simps [simp]:
  "sw_dedupe (ack m s) = sw_dedupe s" "sw_acked (ack m s) = sw_acked s @ [m]" "sw_dead (ack m s) = sw_dead s"
  "sw_handled (ack m s) = sw_handled s"
  by (simp_all add: ack_def)

text \<open>The four ways a well-formed message can go, and what each does.\<close>

lemma process_message_cases:
  obtains (duplicate) "is_processed s (dedupe_key st e) now" "snd (process_message st now m (Inr e) s) = ack m s"
  | (success) "\<not> is_processed s (dedupe_key st e) now"
      "sw_acked (snd (process_message st now m (Inr e) s)) = sw_acked s @ [m]"
      "sw_dead (snd (process_message st now m (Inr e) s)) = sw_dead s"
      "sw_dedupe (snd (process_message st now m (Inr e) s)) = (sw_dedupe s)(dedupe_key st e \<mapsto> now + 604800)"
      "sw_handled (snd (process_message st now m (Inr e) s)) = sw_handled s @ [(ev_idempotency_key e, Disp_success)]"
  | (dead) d r where "\<not> is_processed s (dedupe_key st e) now" "r \<noteq> Disp_success" "dl_source_message_id d = m"
      "sw_acked (snd (process_message st now m (Inr e) s)) = sw_acked s @ [m]"
      "sw_dead (snd (process_message st now m (Inr e) s)) = sw_dead s @ [d]"
      "sw_dedupe (snd (process_message st now m (Inr e) s)) = sw_dedupe s"
      "sw_handled (snd (process_message st now m (Inr e) s)) = sw_handled s @ [(ev_idempotency_key e, r)]"
  | (kept) r where "\<not> is_processed s (dedupe_key st e) now" "r \<noteq> Disp_success"
      "r = Disp_retry \<and> pending_attempts s m < ws_max_attempts st
       \<or> (\<exists>w x. ws_owner st (ev_payload e) w = Inl x)"
      "sw_acked (snd (process_message st now m (Inr e) s)) = sw_acked s"
      "sw_dead (snd (process_message st now m (Inr e) s)) = sw_dead s"
      "sw_dedupe (snd (process_message st now m (Inr e) s)) = sw_dedupe s"
      "sw_handled (snd (process_message st now m (Inr e) s)) = sw_handled s @ [(ev_idempotency_key e, r)]"
proof (cases "is_processed s (dedupe_key st e) now")
  case True
  then show thesis by (intro duplicate) (simp_all add: process_message_def)
next
  case fresh: False
  obtain r w where h: "run_handler st e (sw_world s) = (r, w)" by force
  define s1 where "s1 = s \<lparr>sw_world := w, sw_handled := sw_handled s @ [(ev_idempotency_key e, dr_disposition r)]\<rparr>"
  have att: "pending_attempts s1 m = pending_attempts s m" by (simp add: s1_def pending_attempts_def)
  define s2 where "s2 = (if dr_disposition r = Disp_retry then s1 \<lparr>sw_world := ws_exhausted st e r (sw_world s1)\<rparr> else s1)"
  have s2: "sw_acked s2 = sw_acked s" "sw_dead s2 = sw_dead s" "sw_dedupe s2 = sw_dedupe s"
    "sw_handled s2 = sw_handled s @ [(ev_idempotency_key e, dr_disposition r)]"
    by (simp_all add: s2_def s1_def)
  have unfold: "process_message st now m (Inr e) s =
      (if dr_disposition r = Disp_retry \<and> pending_attempts s m < ws_max_attempts st then (None, s1)
       else if dr_disposition r = Disp_success
       then (None, ack m (s2 \<lparr>sw_dedupe := (sw_dedupe s2)(dedupe_key st e \<mapsto> now + 604800)\<rparr>))
       else (case ws_owner st (ev_payload e) (sw_world s2) of
             Inl x \<Rightarrow> (Some x, s2)
           | Inr user \<Rightarrow> (None, ack m (s2 \<lparr>sw_dead := sw_dead s2 @ [dead_letter_of st e m (pending_attempts s m) r user]\<rparr>))))"
    using fresh by (simp only: process_message_def sum.case if_False Let_def h prod.case s1_def [symmetric] att
        s2_def [symmetric])
  show thesis
  proof (cases "dr_disposition r = Disp_retry \<and> pending_attempts s m < ws_max_attempts st")
    case True
    then show thesis using fresh by (intro kept [of "dr_disposition r"]) (simp_all add: unfold s1_def)
  next
    case past: False
    show thesis
    proof (cases "dr_disposition r = Disp_success")
      case True
      with past fresh s2 show thesis by (intro success) (simp_all add: unfold)
    next
      case failed: False
      show thesis
      proof (cases "ws_owner st (ev_payload e) (sw_world s2)")
        case (Inl x)
        with past failed fresh s2 show thesis
          by (intro kept [of "dr_disposition r"]) (auto simp: unfold)
      next
        case (Inr user)
        with past failed fresh s2 show thesis
          by (intro dead [of "dr_disposition r" "dead_letter_of st e m (pending_attempts s m) r user"])
            (auto simp: unfold dead_letter_of_def)
      qed
    qed
  qed
qed

definition sw_inv :: "'w worker_setup \<Rightarrow> delivery list \<Rightarrow> 'w stream_worker \<Rightarrow> bool" where
  "sw_inv st ds s \<longleftrightarrow>
     (\<forall>m \<in> set (sw_acked s). \<exists>now e. (now, m, Inr e) \<in> set ds
        \<and> ((ev_idempotency_key e, Disp_success) \<in> set (sw_handled s)
           \<or> (\<exists>d \<in> set (sw_dead s). dl_source_message_id d = m)))
     \<and> (\<forall>e x. sw_dedupe s (dedupe_key st e) = Some x \<longrightarrow> (ev_idempotency_key e, Disp_success) \<in> set (sw_handled s))"

lemma sw_inv_step:
  assumes inv: "sw_inv st ds s"
  shows "sw_inv st (ds @ [(now, m, p)]) (deliver_and_process st now m p s)"
proof (cases p)
  case (Inl x)
  with inv show ?thesis
    by (auto simp: deliver_and_process_def process_message_def sw_inv_def; meson)
next
  case (Inr e)
  show ?thesis
  proof (cases rule: process_message_cases [of "deliver m s" st e now m])
    case duplicate
    then have "(ev_idempotency_key e, Disp_success) \<in> set (sw_handled s)"
      using inv by (auto simp: sw_inv_def is_processed_def split: option.splits)
    with inv duplicate(2) show ?thesis unfolding Inr deliver_and_process_def sw_inv_def
      by simp blast
  next
    case success
    with inv show ?thesis unfolding Inr deliver_and_process_def sw_inv_def
      by (simp add: dedupe_key_inj) blast
  next
    case (dead d r)
    with inv show ?thesis unfolding Inr deliver_and_process_def sw_inv_def by simp blast
  next
    case (kept r)
    with inv show ?thesis unfolding Inr deliver_and_process_def sw_inv_def by simp blast
  qed
qed

lemma sw_inv_run: "sw_inv st ds (run_worker st ds (fresh_worker w))"
proof (induction ds rule: rev_induct)
  case Nil
  then show ?case by (simp add: run_worker_def sw_inv_def fresh_worker_def)
next
  case (snoc d ds)
  then show ?case by (cases d) (simp add: run_worker_snoc sw_inv_step)
qed

text \<open>
  Property C6. A message only leaves the stream when its event was handled successfully, under its
  idempotency key, or when it is kept as a dead letter: after any deliveries, in any order and
  with any handler, every acknowledged message has one of the two.
\<close>

theorem worker_loses_no_message:
  assumes "m \<in> set (sw_acked (run_worker st ds (fresh_worker w)))"
  shows "\<exists>now e. (now, m, Inr e) \<in> set ds
    \<and> ((ev_idempotency_key e, Disp_success) \<in> set (sw_handled (run_worker st ds (fresh_worker w)))
       \<or> (\<exists>d \<in> set (sw_dead (run_worker st ds (fresh_worker w))). dl_source_message_id d = m))"
  using sw_inv_run [of st ds w] assms unfolding sw_inv_def by blast

definition sample_setup :: "unit worker_setup" where
  "sample_setup = \<lparr>ws_stream = S_execution_intents, ws_group = ''copy-execution'',
     ws_handler = \<lambda>e w. (if ev_event_type e = ''bad'' then Inl (Exn ''ValueError'' ''x'') else Inr None, w),
     ws_exhausted = \<lambda>_ _ w. w, ws_owner = \<lambda>_ _. Inr None, ws_max_attempts = max_attempts\<rparr>"

definition sample_event :: "string \<Rightarrow> copy_event" where
  "sample_event ty = new_event 5 0 S_execution_intents ty ''c'' [] ''k''"

lemmas worker_eval = run_worker_def deliver_and_process_def process_message_def fresh_worker_def deliver_def
  is_processed_def run_handler_def sample_setup_def sample_event_def new_event_def normalize_delivery_result_def
  delivery_success_def delivery_retry_def ack_def pending_attempts_def max_attempts_def dedupe_key_def
  dead_letter_of_def

theorem worker_loses_no_message_witness:
  "''1-0'' \<in> set (sw_acked (run_worker sample_setup [(0, ''1-0'', Inr (sample_event ''ok''))] (fresh_worker ())))
   \<and> (\<exists>now e. (now, ''1-0'', Inr e) \<in> {(0, ''1-0'', Inr (sample_event ''ok'') :: copy_event result)})"
proof -
  have *: "''1-0'' \<in> set (sw_acked (run_worker sample_setup [(0, ''1-0'', Inr (sample_event ''ok''))] (fresh_worker ())))"
    by (simp add: worker_eval)
  from worker_loses_no_message [OF this] show ?thesis using * by auto
qed






text \<open>
  Property C17. Retries are bounded: the delivery of a well-formed message that reaches the number of
  attempts of the worker takes it off the stream whatever the handler does, handled or as a dead letter, and
  an earlier delivery keeps it pending only when the handler asks for a retry (or the dead letter's owner cannot be read).
\<close>

theorem worker_retries_bounded:
  assumes "\<And>w. is_ok (ws_owner st (ev_payload e) w)"
  shows "(sw_pending s m = Some n \<and> ws_max_attempts st \<le> n + 1 \<longrightarrow> m \<in> set (sw_acked (deliver_and_process st now m (Inr e) s)))
    \<and> (m \<in> set (sw_acked (deliver_and_process st now m (Inr e) s))
       \<or> last (sw_handled (deliver_and_process st now m (Inr e) s)) = (ev_idempotency_key e, Disp_retry))"
proof -
  have "pending_attempts (deliver m s) m \<ge> ws_max_attempts st" if "sw_pending s m = Some n" "ws_max_attempts st \<le> n + 1"
    using that by (simp add: pending_attempts_def deliver_def)
  note attempts = this
  have owner: "ws_owner st (ev_payload e) w \<noteq> Inl x" for w x
    using assms [of w] by (auto simp: is_ok_def)
  show ?thesis unfolding deliver_and_process_def
  proof (cases rule: process_message_cases [of "deliver m s" st e now m])
    case (kept r)
    with attempts owner show "(sw_pending s m = Some n \<and> ws_max_attempts st \<le> n + 1 \<longrightarrow>
          m \<in> set (sw_acked (snd (process_message st now m (Inr e) (deliver m s)))))
      \<and> (m \<in> set (sw_acked (snd (process_message st now m (Inr e) (deliver m s))))
         \<or> last (sw_handled (snd (process_message st now m (Inr e) (deliver m s)))) = (ev_idempotency_key e, Disp_retry))"
      by auto
  qed simp_all
qed

theorem worker_retries_bounded_witness:
  "''1-0'' \<in> set (sw_acked (run_worker sample_setup
     [(0, ''1-0'', Inr (sample_event ''bad'')), (9, ''1-0'', Inr (sample_event ''bad''))] (fresh_worker ())))"
proof -
  define s where "s = run_worker sample_setup [(0, ''1-0'', Inr (sample_event ''bad''))] (fresh_worker ())"
  have "sw_pending s ''1-0'' = Some 1" by (simp add: s_def worker_eval)
  moreover have "\<And>w. is_ok (ws_owner sample_setup (ev_payload (sample_event ''bad'')) w)"
    by (simp add: sample_setup_def)
  moreover have "ws_max_attempts sample_setup \<le> 1 + 1" by (simp add: sample_setup_def max_attempts_def)
  ultimately have "''1-0'' \<in> set (sw_acked (deliver_and_process sample_setup 9 ''1-0'' (Inr (sample_event ''bad'')) s))"
    using worker_retries_bounded [of sample_setup "sample_event ''bad''" s "''1-0''" 1 9] by simp
  then show ?thesis by (simp add: s_def run_worker_def)
qed

text \<open>
  A malformed message is never acknowledged: every delivery raises and leaves it pending, and as the
  claim of stale messages runs in the worker's own loop, the exception ends that loop.
\<close>

lemma malformed_message_raises:
  "process_message st now m (Inl x) s = (Some x, s)"
  "m \<notin> set (sw_acked s) \<Longrightarrow> m \<notin> set (sw_acked (deliver_and_process st now m (Inl x) s))"
  by (simp_all add: process_message_def deliver_and_process_def)

end
