(* ===== verification/Assembly.thy ===== *)
theory Assembly
  imports Engine
begin

text \<open>
  Conversation assembly, \<^verbatim>\<open>copy_trading/assembly.py\<close>: which conversation of a source a message
  belongs to, the deadline of a partial signal, and the merge of a message's fields into the
  context collected so far. The early returns of \<^verbatim>\<open>choose_conversation\<close> are stages that return a
  choice or pass on.
\<close>

section \<open>Data\<close>

record conversation_candidate =
  cand_id :: uuid
  cand_reply_root_message_id :: "int option"
  cand_last_message_id :: int
  cand_symbol :: "string option"
  cand_direction :: "string option"
  cand_updated_at :: int
  cand_opening_submitted :: bool
  cand_has_active_trade :: bool

record conversation_choice =
  choice_selected :: "conversation_candidate option"
  choice_ambiguous :: bool

definition conversation_choice_of :: "conversation_candidate option \<Rightarrow> bool \<Rightarrow> conversation_choice" where
  "conversation_choice_of c a = \<lparr>choice_selected = c, choice_ambiguous = a\<rparr>"

section \<open>Operations\<close>

definition asm_normalize_symbol :: "string option \<Rightarrow> string option" where
  "asm_normalize_symbol v = (case v of None \<Rightarrow> None
     | Some s \<Rightarrow> if s = [] then None else Some (filter is_alnum (py_upper s)))"

definition normalize_direction :: "string option \<Rightarrow> string option" where
  "normalize_direction v = (case v of None \<Rightarrow> None
     | Some s \<Rightarrow> if s = [] then None else Some (py_lower (py_strip s)))"

definition management_actions :: "string list" where
  "management_actions = [''modify_sl_tp'', ''break_even'', ''partial_close'', ''full_close'',
     ''cancel_pending'', ''additional_tp'']"

definition is_action :: "string option \<Rightarrow> string \<Rightarrow> bool" where
  "is_action a v \<longleftrightarrow> a = Some v"

definition is_management :: "string option \<Rightarrow> bool" where
  "is_management a \<longleftrightarrow> (\<exists>v \<in> set management_actions. a = Some v)"

definition is_opening :: "string option \<Rightarrow> bool" where
  "is_opening a \<longleftrightarrow> a = Some ''open_market'' \<or> a = Some ''place_pending''"

definition eligible_for :: "string option \<Rightarrow> conversation_candidate \<Rightarrow> bool" where
  "eligible_for action c \<longleftrightarrow>
     (if is_action action ''modify_sl_tp'' then \<not> cand_opening_submitted c \<or> cand_has_active_trade c
      else if is_management action then cand_has_active_trade c else True)"

definition matchable_for :: "string option \<Rightarrow> conversation_candidate \<Rightarrow> bool" where
  "matchable_for action c \<longleftrightarrow> (if is_opening action then \<not> cand_opening_submitted c else True)"

text \<open>The only element of a list, \<^verbatim>\<open>items[0] if len(items) == 1\<close>.\<close>

definition the_only :: "'a list \<Rightarrow> 'a option" where
  "the_only xs = (case xs of [x] \<Rightarrow> Some x | _ \<Rightarrow> None)"

text \<open>\<^verbatim>\<open>mid in {item.reply_root_message_id, item.last_message_id}\<close>\<close>

definition refers_to :: "int \<Rightarrow> conversation_candidate \<Rightarrow> bool" where
  "refers_to mid c \<longleftrightarrow> cand_reply_root_message_id c = Some mid \<or> cand_last_message_id c = mid"

definition direction_fits :: "string option \<Rightarrow> conversation_candidate \<Rightarrow> bool" where
  "direction_fits direction c \<longleftrightarrow>
     normalize_direction direction = None
     \<or> normalize_direction (cand_direction c) = normalize_direction direction"

text \<open>A stage that returns on one match and, when told so, gives up on several.\<close>

definition stage :: "bool \<Rightarrow> conversation_candidate list \<Rightarrow> conversation_choice option" where
  "stage strict matches = (case the_only matches of
       Some c \<Rightarrow> Some (conversation_choice_of (Some c) False)
     | None \<Rightarrow> if strict \<and> length matches > 1 then Some (conversation_choice_of None True) else None)"

definition or_else :: "'a option \<Rightarrow> 'a option \<Rightarrow> 'a option" where
  "or_else a b = (case a of None \<Rightarrow> b | Some x \<Rightarrow> Some x)"

text \<open>A standalone stop or target line that follows an incomplete opening belongs to it.\<close>

definition incomplete_opening_stage ::
  "string option \<Rightarrow> string option \<Rightarrow> int option \<Rightarrow> conversation_candidate list \<Rightarrow> conversation_choice option" where
  "incomplete_opening_stage symbol direction message_id eligible =
     or_else
       (case message_id of None \<Rightarrow> None
        | Some m \<Rightarrow> stage False (filter (\<lambda>c. \<not> cand_opening_submitted c \<and> cand_last_message_id c + 1 = m) eligible))
       (stage True (filter (\<lambda>c. \<not> cand_opening_submitted c
          \<and> (asm_normalize_symbol symbol = None
             \<or> asm_normalize_symbol (cand_symbol c) = asm_normalize_symbol symbol)
          \<and> direction_fits direction c) eligible))"

text \<open>The symbol stage, which always decides when the message names a symbol.\<close>

definition symbol_stage ::
  "string option \<Rightarrow> string option \<Rightarrow> string option \<Rightarrow> conversation_candidate list \<Rightarrow> conversation_choice" where
  "symbol_stage action symbol direction matchable = (
     let exact = filter (\<lambda>c. asm_normalize_symbol (cand_symbol c) = asm_normalize_symbol symbol
                             \<and> direction_fits direction c) matchable;
         unresolved = filter (\<lambda>c. asm_normalize_symbol (cand_symbol c) = None
            \<and> (normalize_direction direction = None
               \<or> normalize_direction (cand_direction c) \<in> {None, normalize_direction direction})) matchable in
     case the_only exact of Some c \<Rightarrow> conversation_choice_of (Some c) False
     | None \<Rightarrow>
       if length exact > 1
       then (if is_action action ''full_close'' then conversation_choice_of (Some (hd exact)) False
             else conversation_choice_of None True)
       else case stage True unresolved of Some r \<Rightarrow> r | None \<Rightarrow> conversation_choice_of None False)"

definition implicit_stage :: "string option \<Rightarrow> conversation_candidate list \<Rightarrow> conversation_choice" where
  "implicit_stage direction matchable = (case the_only matchable of
       Some c \<Rightarrow> (if normalize_direction direction \<notin> {None, Some []}
                    \<and> normalize_direction (cand_direction c) \<noteq> normalize_direction direction
                  then conversation_choice_of None False else conversation_choice_of (Some c) False)
     | None \<Rightarrow> conversation_choice_of None (length matchable > 1))"

definition choose_conversation ::
  "int option \<Rightarrow> string option \<Rightarrow> string option \<Rightarrow> conversation_candidate list \<Rightarrow> string option
     \<Rightarrow> int option \<Rightarrow> bool \<Rightarrow> conversation_choice" where
  "choose_conversation reply_to symbol direction candidates action message_id is_edit = (
     let ordered = sorted_by_desc cand_updated_at candidates;
         eligible = filter (eligible_for action) ordered;
         matchable = filter (matchable_for action) eligible;
         early =
           or_else (if is_action action ''modify_sl_tp''
                    then incomplete_opening_stage symbol direction message_id eligible else None)
          (or_else (case message_id of None \<Rightarrow> None
                    | Some m \<Rightarrow> if is_management action
                        then stage False (filter (\<lambda>c. cand_last_message_id c + 1 = m) eligible) else None)
          (or_else (case message_id of None \<Rightarrow> None
                    | Some m \<Rightarrow> if is_edit then stage True (filter (refers_to m) eligible) else None)
                   (case reply_to of None \<Rightarrow> None
                    | Some m \<Rightarrow> stage True (filter (refers_to m) eligible)))) in
     case early of Some r \<Rightarrow> r
     | None \<Rightarrow>
       if asm_normalize_symbol symbol \<notin> {None, Some []}
       then symbol_stage action symbol direction matchable
       else implicit_stage direction matchable)"

text \<open>The window defaults to 90 seconds, for a zero window too.\<close>

definition route_deadline :: "int \<Rightarrow> int option \<Rightarrow> int" where
  "route_deadline now window =
     now + 1000000 * (case window of None \<Rightarrow> 90 | Some w \<Rightarrow> if w = 0 then 90 else w)"

definition blank :: "pyval \<Rightarrow> bool" where
  "blank v \<longleftrightarrow> v = PNone \<or> v = PList [] \<or> v = PStr []"

definition merge_context :: "dict \<Rightarrow> dict \<Rightarrow> dict" where
  "merge_context current update =
     fold (\<lambda>(k, v) merged. if blank v then merged else dict_set k v merged) update current"

section \<open>Lemmas on choices\<close>




lemmas choice_simps [simp] = conversation_choice_of_def










section \<open>Lemmas on the order of candidates\<close>

lemma the_only_cong: "mset xs = mset ys \<Longrightarrow> the_only xs = the_only ys"
proof -
  assume eq: "mset xs = mset ys"
  show "the_only xs = the_only ys"
  proof (cases "length xs = 1")
    case True
    then obtain x where "xs = [x]" by (auto simp: length_Suc_conv)
    with eq show ?thesis by (auto simp: single_eq_add_mset)
  next
    case False
    moreover have "length ys \<noteq> 1" using False eq mset_eq_length by metis
    ultimately show ?thesis by (auto simp: the_only_def split: list.splits)
  qed
qed

lemma mset_filter_cong: "mset xs = mset ys \<Longrightarrow> mset (filter P xs) = mset (filter P ys)"
  by simp

lemma stage_cong: "mset xs = mset ys \<Longrightarrow> stage b xs = stage b ys"
  using the_only_cong [of xs ys] mset_eq_length [of xs ys] by (simp add: stage_def split: option.split)

lemma incomplete_opening_cong:
  "mset xs = mset ys \<Longrightarrow>
     incomplete_opening_stage symbol direction m xs = incomplete_opening_stage symbol direction m ys"
  unfolding incomplete_opening_stage_def
  by (intro arg_cong2 [where f = or_else] option.case_cong refl stage_cong mset_filter_cong) simp_all

lemma symbol_stage_cong:
  assumes "mset xs = mset ys" "\<not> is_action action ''full_close''"
  shows "symbol_stage action symbol direction xs = symbol_stage action symbol direction ys"
proof -
  have "the_only (filter P xs) = the_only (filter P ys)" "length (filter P xs) = length (filter P ys)"
    "stage b (filter P xs) = stage b (filter P ys)" for P b
    using assms(1) by (auto intro!: the_only_cong stage_cong mset_eq_length)
  then show ?thesis using assms(2) by (simp only: symbol_stage_def Let_def if_False)
qed

lemma implicit_stage_cong:
  "mset xs = mset ys \<Longrightarrow> implicit_stage direction xs = implicit_stage direction ys"
  using the_only_cong [of xs ys] mset_eq_length [of xs ys] by (simp add: implicit_stage_def split: option.split)

lemma sorted_candidates_cong:
  assumes "mset xs = mset ys" "distinct (map cand_updated_at xs)"
  shows "sorted_by_desc cand_updated_at xs = sorted_by_desc cand_updated_at ys"
  unfolding sorted_by_desc_def
proof (rule sort_key_inj_key_eq)
  show "mset xs = mset (sort_key (\<lambda>x. - cand_updated_at x) ys)" using assms(1) by simp
  show "inj_on (\<lambda>x. - cand_updated_at x) (set xs)"
    using assms(2) by (auto simp: distinct_map inj_on_def)
  show "sorted (map (\<lambda>x. - cand_updated_at x) (sort_key (\<lambda>x. - cand_updated_at x) ys))" by simp
qed

lemma choose_conversation_mset_cong:
  assumes eq: "mset xs = mset ys" and action: "\<not> is_action action ''full_close''"
  shows "choose_conversation reply_to symbol direction xs action mid is_edit
       = choose_conversation reply_to symbol direction ys action mid is_edit"
proof -
  let ?o = "sorted_by_desc cand_updated_at"
  have e: "mset (filter P (?o xs)) = mset (filter P (?o ys))" for P using eq by simp
  have "stage b (filter Q (filter P (?o xs))) = stage b (filter Q (filter P (?o ys)))" for b P Q
    by (intro stage_cong mset_filter_cong e)
  moreover have "incomplete_opening_stage symbol direction mid (filter P (?o xs))
      = incomplete_opening_stage symbol direction mid (filter P (?o ys))" for P
    by (intro incomplete_opening_cong e)
  moreover have "symbol_stage action symbol direction (filter Q (filter P (?o xs)))
      = symbol_stage action symbol direction (filter Q (filter P (?o ys)))" for P Q
    by (intro symbol_stage_cong mset_filter_cong e action)
  moreover have "implicit_stage direction (filter Q (filter P (?o xs)))
      = implicit_stage direction (filter Q (filter P (?o ys)))" for P Q
    by (intro implicit_stage_cong mset_filter_cong e)
  ultimately show ?thesis by (simp only: choose_conversation_def Let_def)
qed

section \<open>Lemmas on merging\<close>

lemma dict_get_merge:
  "distinct (map fst u) \<Longrightarrow>
     dict_get (merge_context c u) k = (if blank (dict_get u k) then dict_get c k else dict_get u k)"
proof (induction u arbitrary: c)
  case Nil
  then show ?case by (simp add: merge_context_def dict_get_def blank_def)
next
  case (Cons a u)
  obtain j v where a: "a = (j, v)" by (cases a)
  have step: "merge_context c (a # u) = merge_context (if blank v then c else dict_set j v c) u"
    by (simp add: merge_context_def a)
  show ?case
  proof (cases "k = j")
    case True
    then have "dict_get u k = PNone" using Cons.prems a
      by (intro dict_get_absent) (simp add: dict_has_def map_of_eq_None_iff)
    then show ?thesis using Cons True a unfolding step
      by (simp add: dict_get_set blank_def) (simp add: dict_get_def)
  next
    case False
    then show ?thesis using Cons a unfolding step by (simp add: dict_get_set) (simp add: dict_get_def)
  qed
qed

lemma distinct_merge: "distinct (map fst c) \<Longrightarrow> distinct (map fst (merge_context c u))"
proof (induction u arbitrary: c)
  case (Cons a u)
  then show ?case by (cases a) (simp add: merge_context_def)
qed (simp add: merge_context_def)

section \<open>Properties\<close>


definition sample_candidate :: "uuid \<Rightarrow> int \<Rightarrow> string \<Rightarrow> bool \<Rightarrow> conversation_candidate" where
  "sample_candidate i t sy live = \<lparr>cand_id = i, cand_reply_root_message_id = None, cand_last_message_id = t,
     cand_symbol = Some sy, cand_direction = Some ''buy'', cand_updated_at = t,
     cand_opening_submitted = live, cand_has_active_trade = live\<rparr>"


text \<open>
  The choice does not depend on the order in which the database returns the
  candidates, except that a full close of several matching conversations takes the most recently
  updated one, so there the update times have to differ.
\<close>

theorem choose_conversation_order_independent:
  assumes "mset xs = mset ys"
    and "action = Some ''full_close'' \<Longrightarrow> distinct (map cand_updated_at xs)"
  shows "choose_conversation reply_to symbol direction xs action message_id is_edit
       = choose_conversation reply_to symbol direction ys action message_id is_edit"
proof (cases "action = Some ''full_close''")
  case True
  then have "sorted_by_desc cand_updated_at xs = sorted_by_desc cand_updated_at ys"
    using assms by (intro sorted_candidates_cong) auto
  then show ?thesis by (simp only: choose_conversation_def)
next
  case False
  then show ?thesis using assms(1) by (intro choose_conversation_mset_cong) (simp_all add: is_action_def)
qed

theorem choose_conversation_order_independent_witness:
  "choose_conversation None (Some ''XAUUSD'') None
      [sample_candidate 1 10 ''XAUUSD'' True, sample_candidate 2 20 ''XAUUSD'' True] (Some ''full_close'') None False
   = choose_conversation None (Some ''XAUUSD'') None
      [sample_candidate 2 20 ''XAUUSD'' True, sample_candidate 1 10 ''XAUUSD'' True] (Some ''full_close'') None False"
  by (rule choose_conversation_order_independent) (simp_all add: sample_candidate_def)

text \<open>
  Merging a message into a context gives every field the message's value where the
  message has one that is not blank and keeps the collected value otherwise. A collected value is
  therefore never erased, only replaced; merging the same message again changes nothing; and
  merging two messages in turn is merging their merge.
\<close>

theorem merge_context_correct:
  assumes "distinct (map fst update)"
  shows "dict_get (merge_context current update) key
         = (if blank (dict_get update key) then dict_get current key else dict_get update key)
    \<and> (\<not> blank (dict_get current key) \<longrightarrow> \<not> blank (dict_get (merge_context current update) key))
    \<and> dict_get (merge_context (merge_context current update) update) key = dict_get (merge_context current update) key
    \<and> (\<forall>next. distinct (map fst next) \<longrightarrow>
        dict_get (merge_context (merge_context current update) next) key
        = dict_get (merge_context current (merge_context update next)) key)"
  using assms by (auto simp: dict_get_merge distinct_merge)

theorem merge_context_correct_witness:
  "dict_get (merge_context [(''symbol'', PStr ''XAUUSD''), (''direction'', PStr ''buy'')]
      [(''symbol'', PNone), (''stop_loss'', PDec (Dec 2640 0))]) ''symbol'' = PStr ''XAUUSD''"
  using merge_context_correct [of "[(''symbol'', PNone), (''stop_loss'', PDec (Dec 2640 0))]"
      "[(''symbol'', PStr ''XAUUSD''), (''direction'', PStr ''buy'')]" "''symbol''"]
  by (simp add: dict_get_def blank_def)

end
