(* ===== verification/Generations.thy ===== *)
theory Generations
  imports Assembly Models
begin

text \<open>
  Signal generations, \<^verbatim>\<open>copy_trading/generations.py\<close>: how a message is merged into the generation a
  route is assembling, what an edit of an already submitted opening may still do, and the marks
  that move a generation to its next state.
\<close>

section \<open>Operations\<close>

definition open_actions :: "string list" where
  "open_actions = [''open_market'', ''place_pending'']"

definition action_in :: "pyval \<Rightarrow> string list \<Rightarrow> bool" where
  "action_in v xs = (case v of PStr s \<Rightarrow> s \<in> set xs | _ \<Rightarrow> False)"

definition merge_generation_context :: "dict \<Rightarrow> dict \<Rightarrow> bool \<Rightarrow> dict" where
  "merge_generation_context current update opening_submitted = (
     let merged = merge_context current update;
         merged = (if \<not> opening_submitted \<and> truthy (dict_get update ''take_profits'')
                   then dict_set ''take_profits''
                     (PList (from_keys (list_val (dict_get current ''take_profits'')
                                        @ list_val (dict_get update ''take_profits'')))) merged
                   else merged) in
     if \<not> opening_submitted \<and> action_in (dict_get current ''action'') open_actions
        \<and> action_in (dict_get update ''action'') management_actions
     then dict_set ''action'' (dict_get current ''action'') merged else merged)"

definition corrective_action_for_submitted_edit :: "dict \<Rightarrow> dict \<Rightarrow> dict" where
  "corrective_action_for_submitted_edit current update = (
     let stop_loss_changed = dict_get update ''stop_loss'' \<noteq> PNone
           \<and> dict_get update ''stop_loss'' \<noteq> dict_get current ''stop_loss'';
         take_profits_changed = truthy (dict_get update ''take_profits'')
           \<and> dict_get update ''take_profits'' \<noteq> dict_get current ''take_profits'' in
     dict_set ''action''
       (PStr (if stop_loss_changed \<or> take_profits_changed then ''modify_sl_tp'' else ''status_only'')) update)"

definition mark_generation_submitted :: "route_signal_assembly \<Rightarrow> uuid \<Rightarrow> int \<Rightarrow> route_signal_assembly" where
  "mark_generation_submitted a intent_id now = a
     \<lparr>asm_state := Asm_executing,
      asm_opening_intent_id :=
        (case asm_opening_intent_id a of None \<Rightarrow> Some intent_id | Some i \<Rightarrow> Some i),
      asm_accepted_at := Some now, asm_completed_at := None, asm_terminal_reason := None\<rparr>"

definition mark_generation_completed :: "route_signal_assembly \<Rightarrow> int \<Rightarrow> route_signal_assembly" where
  "mark_generation_completed a now =
     a \<lparr>asm_state := Asm_completed, asm_completed_at := Some now, asm_terminal_reason := None\<rparr>"

definition mark_generation_failed :: "route_signal_assembly \<Rightarrow> string \<Rightarrow> int \<Rightarrow> route_signal_assembly" where
  "mark_generation_failed a reason now =
     a \<lparr>asm_state := Asm_failed, asm_completed_at := Some now, asm_terminal_reason := Some reason\<rparr>"

definition mark_generation_expired :: "route_signal_assembly \<Rightarrow> string \<Rightarrow> int \<Rightarrow> route_signal_assembly" where
  "mark_generation_expired a reason now =
     a \<lparr>asm_state := Asm_expired, asm_completed_at := Some now, asm_terminal_reason := Some reason\<rparr>"

section \<open>Lemmas\<close>

lemma dict_get_merge_generation:
  assumes "distinct (map fst update)"
  shows "dict_get (merge_generation_context current update submitted) k =
     (if k = ''action'' \<and> \<not> submitted \<and> action_in (dict_get current ''action'') open_actions
           \<and> action_in (dict_get update ''action'') management_actions then dict_get current ''action''
      else if k = ''take_profits'' \<and> \<not> submitted \<and> truthy (dict_get update ''take_profits'')
        then PList (from_keys (list_val (dict_get current ''take_profits'') @ list_val (dict_get update ''take_profits'')))
      else if blank (dict_get update k) then dict_get current k else dict_get update k)"
  using assms by (simp add: merge_generation_context_def Let_def dict_get_set dict_get_merge)

lemma distinct_merge_generation:
  "distinct (map fst current) \<Longrightarrow> distinct (map fst (merge_generation_context current update submitted))"
  by (simp add: merge_generation_context_def Let_def distinct_merge)

lemma corrective_action_value:
  "dict_get (corrective_action_for_submitted_edit current update) ''action'' \<in> {PStr ''modify_sl_tp'', PStr ''status_only''}"
  by (simp add: corrective_action_for_submitted_edit_def Let_def dict_get_set)

lemma mark_generation_ids [simp]:
  "asm_id (mark_generation_submitted a i n) = asm_id a" "asm_route_id (mark_generation_submitted a i n) = asm_route_id a"
  "asm_conversation_id (mark_generation_submitted a i n) = asm_conversation_id a"
  "asm_generation (mark_generation_submitted a i n) = asm_generation a"
  "asm_id (mark_generation_expired a r n) = asm_id a" "asm_route_id (mark_generation_expired a r n) = asm_route_id a"
  "asm_conversation_id (mark_generation_expired a r n) = asm_conversation_id a"
  "asm_generation (mark_generation_expired a r n) = asm_generation a"
  "asm_state (mark_generation_expired a r n) = Asm_expired"
  "asm_state (mark_generation_submitted a i n) = Asm_executing"
  by (simp_all add: mark_generation_submitted_def mark_generation_expired_def)

section \<open>Properties\<close>

text \<open>
  While the opening of a generation is not submitted, a stop, target or other
  management line never turns the opening into a management action, every take profit seen so far
  is kept, none is listed twice, and nothing else the generation knew is erased.
\<close>

theorem merge_generation_keeps_opening:
  assumes "distinct (map fst update)"
    and "action_in (dict_get current ''action'') open_actions"
    and "action_in (dict_get update ''action'') management_actions"
    and "dict_get update ''take_profits'' = PList new" "dict_get current ''take_profits'' = PList old" "distinct old"
  shows "dict_get (merge_generation_context current update False) ''action'' = dict_get current ''action''
    \<and> (\<exists>tps. dict_get (merge_generation_context current update False) ''take_profits'' = PList tps
         \<and> set tps = set old \<union> set new \<and> distinct tps)
    \<and> (\<forall>k. \<not> blank (dict_get current k) \<longrightarrow> \<not> blank (dict_get (merge_generation_context current update False) k))"
proof -
  have "(\<exists>tps. dict_get (merge_generation_context current update False) ''take_profits'' = PList tps
         \<and> set tps = set old \<union> set new \<and> distinct tps)"
    using assms by (auto simp: dict_get_merge_generation truthy_def list_val_def blank_def)
  moreover have "\<not> blank (PList (from_keys (old @ new)))" if "new \<noteq> []"
    using that by (simp add: blank_def)
  ultimately show ?thesis
    using assms by (auto simp: dict_get_merge_generation list_val_def truthy_def)
qed

theorem merge_generation_keeps_opening_witness:
  "dict_get (merge_generation_context
      [(''action'', PStr ''open_market''), (''symbol'', PStr ''XAUUSD''), (''take_profits'', PList [PDec (Dec 2660 0)])]
      [(''action'', PStr ''modify_sl_tp''), (''symbol'', PNone), (''take_profits'', PList [PDec (Dec 2660 0), PDec (Dec 2670 0)])]
      False) ''action'' = PStr ''open_market''"
  using merge_generation_keeps_opening
    [of "[(''action'', PStr ''modify_sl_tp''), (''symbol'', PNone), (''take_profits'', PList [PDec (Dec 2660 0), PDec (Dec 2670 0)])]"
        "[(''action'', PStr ''open_market''), (''symbol'', PStr ''XAUUSD''), (''take_profits'', PList [PDec (Dec 2660 0)])]"
        "[PDec (Dec 2660 0), PDec (Dec 2670 0)]" "[PDec (Dec 2660 0)]"]
  by (simp add: dict_get_def action_in_def open_actions_def management_actions_def)

end
