(* ===== verification/Reconciliation.thy ===== *)
theory Reconciliation
  imports Generations
begin

text \<open>
  Reconciliation with the broker, \<^verbatim>\<open>copy_trading/reconciliation.py\<close> and the acceptance test of
  \<^verbatim>\<open>workers.py\<close>: whether what the broker reports confirms an intent, and how a copied trade follows
  a snapshot of the account. A position or order the broker reports is a \<open>broker_item\<close>; its
  identifiers are compared as strings, so they are kept as the strings \<^verbatim>\<open>str\<close> gives.
\<close>

section \<open>Data\<close>

record broker_item =
  bi_id :: "string option"
  bi_ticket :: "string option"
  bi_volume :: pyval
  bi_stopLoss :: pyval
  bi_sl :: pyval
  bi_takeProfit :: pyval
  bi_tp :: pyval
  bi_clientId :: "string option"
  bi_client_id :: "string option"
  bi_comment :: string
  bi_times_msc :: "rat option list"
  bi_times :: "rat option list"

text \<open>
  \<open>bi_times_msc\<close> lists \<^verbatim>\<open>time_msc\<close>, \<^verbatim>\<open>time_setup_msc\<close> and \<^verbatim>\<open>time_done_msc\<close>, \<open>bi_times\<close> the same without
  milliseconds; a missing \<^verbatim>\<open>comment\<close> is the empty string, as \<^verbatim>\<open>item.get("comment", "")\<close> reads it.
\<close>

record broker_data =
  bd_client_order_id :: "string option"
  bd_positions :: "broker_item list"
  bd_orders :: "broker_item list"
  bd_history_orders :: "broker_item list"
  bd_deals :: "broker_item list"

section \<open>Operations\<close>

definition rec_open_actions :: "string list" where
  "rec_open_actions = [''open_market'', ''place_pending'', ''additional_tp'']"

definition str_opt :: "string option \<Rightarrow> string" where
  "str_opt v = (case v of None \<Rightarrow> ''None'' | Some s \<Rightarrow> s)"

definition or_empty :: "string option \<Rightarrow> string" where
  "or_empty v = (case v of None \<Rightarrow> [] | Some s \<Rightarrow> s)"

definition broker_id :: "broker_item \<Rightarrow> string option" where
  "broker_id i = (if bi_id i \<noteq> None then bi_id i else bi_ticket i)"

definition broker_value :: "pyval \<Rightarrow> pyval \<Rightarrow> pyval" where
  "broker_value v legacy = (if v \<noteq> PNone then v else legacy)"

definition safe_decimal :: "pyval \<Rightarrow> rat option" where
  "safe_decimal v = (case to_number v of Inl _ \<Rightarrow> None | Inr x \<Rightarrow> Some x)"

definition decimal_matches :: "pyval \<Rightarrow> pyval \<Rightarrow> bool" where
  "decimal_matches actual expected \<longleftrightarrow>
     safe_decimal actual \<noteq> None \<and> safe_decimal expected \<noteq> None \<and> safe_decimal actual = safe_decimal expected"

definition payload_action :: "trade_intent \<Rightarrow> string option" where
  "payload_action i = str_val (dict_get (ti_request_payload i) ''action'')"

definition expected_stop :: "trade_intent \<Rightarrow> pyval" where
  "expected_stop i = (let p = ti_request_payload i in
     if truthy (dict_get p ''stop_loss'') then dict_get p ''stop_loss''
     else if payload_action i = Some ''break_even'' then dict_get p ''entry'' else PNone)"

definition stops_match :: "pyval \<Rightarrow> pyval \<Rightarrow> trade_intent \<Rightarrow> bool" where
  "stops_match actual_sl actual_tp i \<longleftrightarrow>
     (expected_stop i = PNone \<or> decimal_matches actual_sl (expected_stop i))
     \<and> (dict_get (ti_request_payload i) ''take_profit'' = PNone
        \<or> decimal_matches actual_tp (dict_get (ti_request_payload i) ''take_profit''))"

definition broker_result_matches_intent :: "trade_intent \<Rightarrow> broker_data \<Rightarrow> copied_trade option \<Rightarrow> bool" where
  "broker_result_matches_intent i data copied = (
     if ti_client_order_id i \<notin> {None, Some []} \<and> bd_client_order_id data \<noteq> ti_client_order_id i then False
     else if (\<exists>a \<in> set rec_open_actions. payload_action i = Some a)
       then bd_positions data \<noteq> [] \<or> bd_orders data \<noteq> [] \<or> bd_history_orders data \<noteq> [] \<or> bd_deals data \<noteq> []
     else case copied of None \<Rightarrow> False
     | Some t \<Rightarrow>
       let position_id = or_empty (ct_broker_position_id t); order_id = or_empty (ct_broker_order_id t) in
       if payload_action i = Some ''modify_sl_tp'' \<or> payload_action i = Some ''break_even''
       then (case find (\<lambda>p. str_opt (broker_id p) = position_id) (bd_positions data) of
               None \<Rightarrow> False
             | Some p \<Rightarrow> stops_match (broker_value (bi_stopLoss p) (bi_sl p)) (broker_value (bi_takeProfit p) (bi_tp p)) i)
       else if payload_action i = Some ''full_close''
         then \<not> list_ex (\<lambda>p. str_opt (broker_id p) = position_id) (bd_positions data)
       else if payload_action i = Some ''cancel_pending''
         then \<not> list_ex (\<lambda>p. str_opt (broker_id p) = order_id) (bd_orders data)
       else if payload_action i = Some ''partial_close'' then bd_deals data \<noteq> []
       else False)"

text \<open>\<^verbatim>\<open>_broker_timestamp\<close> and \<^verbatim>\<open>_reconciliation_accepts\<close>, for intents without a client order id.\<close>

definition first_truthy :: "rat option list \<Rightarrow> rat option" where
  "first_truthy vs = (case find (\<lambda>v. v \<noteq> None \<and> v \<noteq> Some 0) vs of None \<Rightarrow> None | Some v \<Rightarrow> v)"

definition broker_timestamp :: "broker_item \<Rightarrow> rat option" where
  "broker_timestamp i = (case first_truthy (bi_times_msc i) of
       Some v \<Rightarrow> Some (v / 1000) | None \<Rightarrow> first_truthy (bi_times i))"

definition fresh_items :: "trade_intent \<Rightarrow> broker_item list \<Rightarrow> bool" where
  "fresh_items i xs = (case ti_submitted_at i of
       None \<Rightarrow> xs \<noteq> []
     | Some t \<Rightarrow> list_ex (\<lambda>x. case broker_timestamp x of None \<Rightarrow> False
                             | Some ts \<Rightarrow> ts \<ge> of_int t / 1000000 - 5) xs)"

definition reconciliation_accepts :: "trade_intent \<Rightarrow> broker_data \<Rightarrow> copied_trade option \<Rightarrow> bool" where
  "reconciliation_accepts i data copied = (
     if ti_client_order_id i \<notin> {None, Some []} then broker_result_matches_intent i data copied
     else if (\<exists>a \<in> set rec_open_actions. payload_action i = Some a)
       then fresh_items i (bd_positions data @ bd_orders data @ bd_history_orders data @ bd_deals data)
     else case copied of None \<Rightarrow> False
     | Some t \<Rightarrow>
       let position_id = or_empty (ct_broker_position_id t); order_id = or_empty (ct_broker_order_id t) in
       if payload_action i = Some ''modify_sl_tp'' \<or> payload_action i = Some ''break_even''
       then (case find (\<lambda>p. str_opt (bi_ticket p) = position_id) (bd_positions data) of
               None \<Rightarrow> False | Some p \<Rightarrow> stops_match (bi_sl p) (bi_tp p) i)
       else if payload_action i = Some ''full_close''
         then \<not> list_ex (\<lambda>p. str_opt (bi_ticket p) = position_id) (bd_positions data)
       else if payload_action i = Some ''cancel_pending''
         then \<not> list_ex (\<lambda>p. str_opt (bi_ticket p) = order_id) (bd_orders data)
       else if payload_action i = Some ''partial_close'' then fresh_items i (bd_deals data)
       else False)"

definition valid_volume :: "pyval \<Rightarrow> rat option" where
  "valid_volume v = (case safe_decimal v of None \<Rightarrow> None | Some x \<Rightarrow> if x \<ge> 0 then Some x else None)"

text \<open>Volume (when it is valid), stop and target of a position, written to a trade.\<close>

definition follow_position :: "broker_item \<Rightarrow> copied_trade \<Rightarrow> copied_trade" where
  "follow_position p t = t
     \<lparr>ct_current_volume := (case valid_volume (bi_volume p) of None \<Rightarrow> ct_current_volume t | Some x \<Rightarrow> Some x),
      ct_stop_loss := safe_decimal (broker_value (bi_stopLoss p) (bi_sl p)),
      ct_take_profit := safe_decimal (broker_value (bi_takeProfit p) (bi_tp p))\<rparr>"

definition activates :: "string option \<Rightarrow> broker_item \<Rightarrow> bool" where
  "activates client_order_id p = (case client_order_id of None \<Rightarrow> False
     | Some c \<Rightarrow> c \<noteq> [] \<and> (bi_clientId p = Some c \<or> bi_comment p = ''cpid:'' @ take 20 c))"

definition snapshot_step ::
  "copied_trade \<Rightarrow> broker_item list \<Rightarrow> broker_item list \<Rightarrow> string option \<Rightarrow> copied_trade \<times> bool" where
  "snapshot_step t positions orders client_order_id = (
     if ct_lifecycle_state t = ''open'' then
       (case find (\<lambda>p. str_opt (broker_id p) = str_opt (ct_broker_position_id t)) positions of
          None \<Rightarrow> (t \<lparr>ct_lifecycle_state := ''closed'', ct_current_volume := Some 0\<rparr>, True)
        | Some p \<Rightarrow> (follow_position p t, follow_position p t \<noteq> t))
     else if ct_lifecycle_state t = ''pending'' then
       (if list_ex (\<lambda>p. str_opt (broker_id p) = str_opt (ct_broker_order_id t)) orders then (t, False)
        else case find (activates client_order_id) positions of
          Some p \<Rightarrow> (follow_position p
             (t \<lparr>ct_lifecycle_state := ''open'', ct_broker_position_id := Some (str_opt (broker_id p))\<rparr>), True)
        | None \<Rightarrow> (t \<lparr>ct_lifecycle_state := ''cancelled''\<rparr>, True))
     else (t, False))"

definition apply_broker_snapshot ::
  "copied_trade \<Rightarrow> broker_item list \<Rightarrow> broker_item list \<Rightarrow> int \<Rightarrow> string option \<Rightarrow> copied_trade \<times> bool" where
  "apply_broker_snapshot t positions orders observed_at client_order_id = (
     let (t', changed) = snapshot_step t positions orders client_order_id in
     (t' \<lparr>ct_broker_synced_at := Some observed_at\<rparr>, changed))"

section \<open>Lemmas\<close>

lemma follow_position_simps [simp]:
  "ct_lifecycle_state (follow_position p t) = ct_lifecycle_state t"
  "ct_broker_position_id (follow_position p t) = ct_broker_position_id t"
  "ct_broker_order_id (follow_position p t) = ct_broker_order_id t"
  "ct_broker_synced_at (follow_position p t) = ct_broker_synced_at t"
  "ct_id (follow_position p t) = ct_id t" "ct_route_id (follow_position p t) = ct_route_id t"
  "ct_intent_id (follow_position p t) = ct_intent_id t"
  by (simp_all add: follow_position_def)

lemma follow_position_idem: "follow_position p (follow_position p t) = follow_position p t"
  by (cases "valid_volume (bi_volume p)") (simp_all add: follow_position_def)

lemma follow_position_synced:
  "follow_position p (t \<lparr>ct_broker_synced_at := x\<rparr>) = (follow_position p t) \<lparr>ct_broker_synced_at := x\<rparr>"
  by (cases "valid_volume (bi_volume p)") (simp_all add: follow_position_def)

text \<open>The lifecycle of a copied trade as the snapshots move it.\<close>

inductive trade_step :: "string \<Rightarrow> string \<Rightarrow> bool" where
  stay: "trade_step s s"
| close_open: "trade_step ''open'' ''closed''"
| activate: "trade_step ''pending'' ''open''"
| cancel: "trade_step ''pending'' ''cancelled''"

inductive_cases trade_step_closedE: "trade_step ''closed'' s"
inductive_cases trade_step_cancelledE: "trade_step ''cancelled'' s"

lemma snapshot_step_lifecycle:
  "trade_step (ct_lifecycle_state t) (ct_lifecycle_state (fst (snapshot_step t positions orders cid)))"
  by (auto simp: snapshot_step_def intro: trade_step.intros split: option.splits)

lemma synced_at_cancel:
  assumes "t' \<lparr>ct_broker_synced_at := x\<rparr> = t \<lparr>ct_broker_synced_at := x\<rparr>" "ct_broker_synced_at t' = ct_broker_synced_at t"
  shows "t' = (t :: copied_trade)"
  using assms by (cases t, cases t') simp

lemma lifecycle_differs: "ct_lifecycle_state x \<noteq> ct_lifecycle_state t \<Longrightarrow> x \<noteq> t"
  by auto

lemma snapshot_step_changed:
  "snd (snapshot_step t positions orders cid) \<longleftrightarrow> fst (snapshot_step t positions orders cid) \<noteq> t"
proof (cases "ct_lifecycle_state t = ''open'' \<or> ct_lifecycle_state t = ''pending''")
  case True
  then show ?thesis
    by (elim disjE; simp add: snapshot_step_def lifecycle_differs split: option.splits)
qed (simp add: snapshot_step_def)

lemma find_by_id:
  assumes "distinct (map (\<lambda>p. str_opt (broker_id p)) ps)" "p \<in> set ps"
  shows "find (\<lambda>q. str_opt (broker_id q) = str_opt (broker_id p)) ps = Some p"
  using assms by (induction ps) auto

section \<open>Properties\<close>

text \<open>
  A snapshot moves a copied trade only along its lifecycle: an open trade closes
  exactly when its position is gone, a pending one is cancelled or opened only when its order is
  gone, and a closed or cancelled trade never comes back. The flag it returns says exactly
  whether anything but the time of observation changed, and no identity of the trade changes.
\<close>

theorem apply_broker_snapshot_lifecycle:
  "trade_step (ct_lifecycle_state t) (ct_lifecycle_state (fst (apply_broker_snapshot t positions orders now cid)))
   \<and> (snd (apply_broker_snapshot t positions orders now cid)
      \<longleftrightarrow> fst (apply_broker_snapshot t positions orders now cid) \<noteq> t \<lparr>ct_broker_synced_at := Some now\<rparr>)
   \<and> (ct_lifecycle_state t \<notin> {''open'', ''pending''} \<longrightarrow>
        fst (apply_broker_snapshot t positions orders now cid) = t \<lparr>ct_broker_synced_at := Some now\<rparr>)
   \<and> (ct_lifecycle_state t = ''open'' \<longrightarrow>
        (ct_lifecycle_state (fst (apply_broker_snapshot t positions orders now cid)) = ''closed''
         \<longleftrightarrow> str_opt (ct_broker_position_id t) \<notin> (\<lambda>p. str_opt (broker_id p)) ` set positions))
   \<and> ct_id (fst (apply_broker_snapshot t positions orders now cid)) = ct_id t
   \<and> ct_intent_id (fst (apply_broker_snapshot t positions orders now cid)) = ct_intent_id t"
proof -
  obtain t' c where s: "snapshot_step t positions orders cid = (t', c)" by force
  have synced: "ct_broker_synced_at t' = ct_broker_synced_at t"
    using s by (auto simp: snapshot_step_def split: if_splits option.splits)
  have ids: "ct_id t' = ct_id t \<and> ct_intent_id t' = ct_intent_id t"
    using s by (auto simp: snapshot_step_def split: if_splits option.splits)
  have "c \<longleftrightarrow> t' \<noteq> t" using snapshot_step_changed [of t positions orders cid] s by simp
  also have "\<dots> \<longleftrightarrow> t' \<lparr>ct_broker_synced_at := Some now\<rparr> \<noteq> t \<lparr>ct_broker_synced_at := Some now\<rparr>"
    using synced synced_at_cancel by metis
  finally have changed: "c \<longleftrightarrow> t' \<lparr>ct_broker_synced_at := Some now\<rparr> \<noteq> t \<lparr>ct_broker_synced_at := Some now\<rparr>" .
  have closed: "ct_lifecycle_state t' = ''closed''
      \<longleftrightarrow> str_opt (ct_broker_position_id t) \<notin> (\<lambda>p. str_opt (broker_id p)) ` set positions"
    if "ct_lifecycle_state t = ''open''"
  proof (cases "find (\<lambda>p. str_opt (broker_id p) = str_opt (ct_broker_position_id t)) positions")
    case None
    then have "str_opt (ct_broker_position_id t) \<notin> (\<lambda>p. str_opt (broker_id p)) ` set positions"
      by (auto simp: find_None_iff)
    with None s that show ?thesis by (auto simp: snapshot_step_def)
  next
    case (Some p)
    then have "str_opt (ct_broker_position_id t) \<in> (\<lambda>p. str_opt (broker_id p)) ` set positions"
      by (auto simp: find_Some_iff intro!: rev_image_eqI [of p])
    with Some s that show ?thesis by (auto simp: snapshot_step_def)
  qed
  have gone: "t' = t" if "ct_lifecycle_state t \<notin> {''open'', ''pending''}"
    using that s by (simp add: snapshot_step_def)
  show ?thesis
    using snapshot_step_lifecycle [of t positions orders cid] changed closed ids gone
    unfolding apply_broker_snapshot_def s by simp
qed

definition sample_trade :: "string \<Rightarrow> copied_trade" where
  "sample_trade lifecycle = \<lparr>ct_id = 7, ct_route_id = 1, ct_thread_id = 2, ct_intent_id = 3, ct_connection_id = Some 4,
     ct_magic_number = 11, ct_route_comment = ''cp'', ct_signal_symbol = ''XAUUSD'', ct_broker_symbol = ''XAUUSD.m'',
     ct_broker_order_id = Some ''500'', ct_broker_deal_id = None, ct_broker_position_id = Some ''500'',
     ct_lifecycle_state = lifecycle, ct_original_volume = Some 1, ct_current_volume = Some 1,
     ct_stop_loss = None, ct_take_profit = None, ct_broker_synced_at = None, ct_created_at = 0\<rparr>"

definition sample_item :: "string \<Rightarrow> pyval \<Rightarrow> broker_item" where
  "sample_item i volume = \<lparr>bi_id = Some i, bi_ticket = None, bi_volume = volume, bi_stopLoss = PNum 2640, bi_sl = PNone,
     bi_takeProfit = PNone, bi_tp = PNone, bi_clientId = Some ''A_B_C'', bi_client_id = None, bi_comment = [],
     bi_times_msc = [], bi_times = []\<rparr>"

theorem apply_broker_snapshot_lifecycle_witness:
  "ct_lifecycle_state (fst (apply_broker_snapshot (sample_trade ''open'') [sample_item ''501'' (PNum 1)] [] 9 None)) = ''closed''
   \<and> apply_broker_snapshot (sample_trade ''closed'') [] [] 9 None
     = (sample_trade ''closed'' \<lparr>ct_broker_synced_at := Some 9\<rparr>, False)"
  using apply_broker_snapshot_lifecycle [of "sample_trade ''open''" "[sample_item ''501'' (PNum 1)]" "[]" 9 None]
    apply_broker_snapshot_lifecycle [of "sample_trade ''closed''" "[]" "[]" 9 None]
  by (simp add: sample_trade_def sample_item_def str_opt_def broker_id_def prod_eq_iff)

text \<open>
  A snapshot is a fixed point: when the positions have distinct identifiers, applying
  the same snapshot again changes nothing, and a position that is present gives the trade its stop,
  its target and, when it is a number that is not negative, its volume.
\<close>

theorem apply_broker_snapshot_idempotent:
  assumes "distinct (map (\<lambda>p. str_opt (broker_id p)) positions)"
  shows "apply_broker_snapshot (fst (apply_broker_snapshot t positions orders now cid)) positions orders now cid
       = (fst (apply_broker_snapshot t positions orders now cid), False)"
proof -
  obtain t' c where s: "snapshot_step t positions orders cid = (t', c)" by force
  have "snapshot_step t' positions orders cid = (t', False)"
  proof (cases "ct_lifecycle_state t = ''open''")
    case True
    with s show ?thesis
      by (auto simp: snapshot_step_def follow_position_idem split: option.splits)
  next
    case closed: False
    show ?thesis
    proof (cases "ct_lifecycle_state t = ''pending''")
      case True
      show ?thesis
      proof (cases "find (activates cid) positions")
        case None
        with True s show ?thesis by (auto simp: snapshot_step_def split: if_splits)
      next
        case (Some p)
        then have "find (\<lambda>q. str_opt (broker_id q) = str_opt (broker_id p)) positions = Some p"
          using assms find_by_id [of positions p] find_SomeD [OF Some] by blast
        moreover have "str_opt (Some (str_opt x)) = str_opt x" for x by (simp add: str_opt_def)
        ultimately show ?thesis using True s Some
          by (auto simp: snapshot_step_def follow_position_idem split: if_splits)
      qed
    next
      case False
      with s closed show ?thesis by (simp add: snapshot_step_def)
    qed
  qed
  then have "snapshot_step (t' \<lparr>ct_broker_synced_at := Some now\<rparr>) positions orders cid
      = (t' \<lparr>ct_broker_synced_at := Some now\<rparr>, False)"
    by (auto simp: snapshot_step_def follow_position_synced split: option.splits if_splits)
  then show ?thesis by (simp add: apply_broker_snapshot_def s)
qed

theorem apply_broker_snapshot_idempotent_witness:
  "apply_broker_snapshot (fst (apply_broker_snapshot (sample_trade ''pending'') [sample_item ''501'' (PNum (1 / 2))] [] 9 (Some ''A_B_C'')))
     [sample_item ''501'' (PNum (1 / 2))] [] 9 (Some ''A_B_C'')
   = (fst (apply_broker_snapshot (sample_trade ''pending'') [sample_item ''501'' (PNum (1 / 2))] [] 9 (Some ''A_B_C'')), False)"
  by (rule apply_broker_snapshot_idempotent) simp

text \<open>
  An intent is only taken as confirmed on evidence: a client order id has to agree, an
  action that is not an opening needs its copied trade, a full close needs the position gone, a
  cancellation the order gone, and a stop or target update a position whose stop and target have
  the requested values.
\<close>

theorem broker_result_evidence:
  assumes "broker_result_matches_intent i data copied"
  shows "(ti_client_order_id i \<in> {None, Some []} \<or> bd_client_order_id data = ti_client_order_id i)
    \<and> (payload_action i \<in> Some ` set rec_open_actions \<or> copied \<noteq> None)
    \<and> (payload_action i = Some ''full_close'' \<longrightarrow>
         or_empty (ct_broker_position_id (the copied)) \<notin> (\<lambda>p. str_opt (broker_id p)) ` set (bd_positions data))
    \<and> (payload_action i = Some ''cancel_pending'' \<longrightarrow>
         or_empty (ct_broker_order_id (the copied)) \<notin> (\<lambda>p. str_opt (broker_id p)) ` set (bd_orders data))
    \<and> (payload_action i \<in> {Some ''modify_sl_tp'', Some ''break_even''} \<longrightarrow>
         (\<exists>p \<in> set (bd_positions data). str_opt (broker_id p) = or_empty (ct_broker_position_id (the copied))
            \<and> (\<forall>x. safe_decimal (expected_stop i) = Some x \<longrightarrow>
                 safe_decimal (broker_value (bi_stopLoss p) (bi_sl p)) = Some x)
            \<and> (\<forall>x. safe_decimal (dict_get (ti_request_payload i) ''take_profit'') = Some x \<longrightarrow>
                 safe_decimal (broker_value (bi_takeProfit p) (bi_tp p)) = Some x)))"
proof -
  have "ti_client_order_id i \<in> {None, Some []} \<or> bd_client_order_id data = ti_client_order_id i"
    using assms by (auto simp: broker_result_matches_intent_def split: if_splits)
  moreover have "payload_action i \<in> Some ` set rec_open_actions \<or> copied \<noteq> None"
    using assms by (auto simp: broker_result_matches_intent_def split: if_splits option.splits)
  moreover have "or_empty (ct_broker_position_id (the copied)) \<notin> (\<lambda>p. str_opt (broker_id p)) ` set (bd_positions data)"
    if "payload_action i = Some ''full_close''"
    using assms that by (auto simp: broker_result_matches_intent_def rec_open_actions_def Let_def list_ex_iff
        split: if_splits option.splits)
  moreover have "or_empty (ct_broker_order_id (the copied)) \<notin> (\<lambda>p. str_opt (broker_id p)) ` set (bd_orders data)"
    if "payload_action i = Some ''cancel_pending''"
    using assms that by (auto simp: broker_result_matches_intent_def rec_open_actions_def Let_def list_ex_iff
        split: if_splits option.splits)
  moreover have "\<exists>p \<in> set (bd_positions data). str_opt (broker_id p) = or_empty (ct_broker_position_id (the copied))
      \<and> stops_match (broker_value (bi_stopLoss p) (bi_sl p)) (broker_value (bi_takeProfit p) (bi_tp p)) i"
    if "payload_action i \<in> {Some ''modify_sl_tp'', Some ''break_even''}"
    using assms that by (auto simp: broker_result_matches_intent_def rec_open_actions_def Let_def
        split: if_splits option.splits dest!: find_SomeD)
  moreover have "safe_decimal a = Some x" if "e = PNone \<or> decimal_matches a e" "safe_decimal e = Some x" for a e x
    using that by (auto simp: decimal_matches_def safe_decimal_def to_number_def)
  ultimately show ?thesis unfolding stops_match_def by blast
qed

definition sample_intent :: "string \<Rightarrow> trade_intent_state \<Rightarrow> trade_intent" where
  "sample_intent action s = \<lparr>ti_id = 3, ti_user_id = 5, ti_route_id = 1, ti_connection_id = Some 4, ti_parsed_action_id = 6,
     ti_idempotency_key = ''k'', ti_client_order_id = Some ''A_B_C'', ti_state = s,
     ti_request_payload = [(''action'', PStr action), (''symbol'', PStr ''XAUUSD''), (''direction'', PStr ''buy''),
       (''stop_loss'', PDec (Dec 2640 0)), (''volume'', PNum (1 / 10))],
     ti_broker_result = [], ti_attempt_count = 0, ti_last_error_code = None, ti_submitted_at = None,
     ti_resolved_at = None, ti_created_at = 0\<rparr>"

theorem broker_result_evidence_witness:
  "broker_result_matches_intent (sample_intent ''modify_sl_tp'' Intent_uncertain)
      \<lparr>bd_client_order_id = Some ''A_B_C'', bd_positions = [sample_item ''500'' (PNum 1)], bd_orders = [],
       bd_history_orders = [], bd_deals = []\<rparr> (Some (sample_trade ''open''))
   \<and> safe_decimal (expected_stop (sample_intent ''modify_sl_tp'' Intent_uncertain)) = Some 2640"
proof -
  have *: "broker_result_matches_intent (sample_intent ''modify_sl_tp'' Intent_uncertain)
      \<lparr>bd_client_order_id = Some ''A_B_C'', bd_positions = [sample_item ''500'' (PNum 1)], bd_orders = [],
       bd_history_orders = [], bd_deals = []\<rparr> (Some (sample_trade ''open''))"
    by code_simp
  moreover have "safe_decimal (expected_stop (sample_intent ''modify_sl_tp'' Intent_uncertain)) = Some 2640"
    by code_simp
  ultimately show ?thesis using broker_result_evidence [OF *] by simp
qed

end
