(* ===== verification/Signal_Handler.thy ===== *)
theory Signal_Handler
  imports Risk Delivery Reconciliation
begin

text \<open>
  The signal worker, \<^verbatim>\<open>copy_trading/workers.py\<close>: a Telegram message is parsed, attached to a
  conversation, merged into the generation every active route assembles, validated, and turned into
  trade intents that are published for execution. The session record holds the database of the
  open transaction, the events published and the Redis keys set so far and the number of random
  identifiers drawn; a raised exception rolls the database back and keeps the rest.

  Parameters, in \<open>signal_env\<close>: the settings, the supply of \<^verbatim>\<open>uuid4\<close> values, the deterministic parser
  and the language model behind \<^verbatim>\<open>_parse_message\<close>, the hash of a client-id segment and the
  hash of a semantic fingerprint. The clock is read once per event.
\<close>

section \<open>Messages and parsed actions\<close>

record ai_action =
  ai_action :: signal_action
  ai_symbol :: "string option"
  ai_direction :: "string option"
  ai_order_type :: "string option"
  ai_entry :: "decimal option"
  ai_entry_high :: "decimal option"
  ai_stop_loss :: "decimal option"
  ai_take_profits :: "decimal list"
  ai_close_fraction :: "decimal option"
  ai_explicit_reference :: "string option"
  ai_confidence :: rat

definition model_dump :: "ai_action \<Rightarrow> dict" where
  "model_dump a = [(''action'', PStr (action_value (ai_action a))), (''symbol'', opt_str (ai_symbol a)),
     (''direction'', opt_str (ai_direction a)), (''order_type'', opt_str (ai_order_type a)),
     (''entry'', opt_dec (ai_entry a)), (''entry_high'', opt_dec (ai_entry_high a)),
     (''stop_loss'', opt_dec (ai_stop_loss a)), (''take_profits'', PList (map PDec (ai_take_profits a))),
     (''close_fraction'', opt_dec (ai_close_fraction a)), (''explicit_reference'', opt_str (ai_explicit_reference a)),
     (''confidence'', PNum (ai_confidence a))]"

text \<open>
  The payload \<^verbatim>\<open>worker_runtime.py\<close> publishes for a message. It always has every field; one that is
  missing or of another type raises here, at the start.
\<close>

record telegram_message =
  tm_connection_id :: string
  tm_source_id :: uuid
  tm_chat_id :: int
  tm_message_id :: int
  tm_reply_to_message_id :: "int option"
  tm_sender_is_admin :: bool
  tm_text :: string
  tm_occurred_at :: pyval

definition message_of :: "dict \<Rightarrow> telegram_message result" where
  "message_of p = (
     case str_item p ''source_id'' of Inl e \<Rightarrow> Inl e | Inr source_text \<Rightarrow>
     case parse_uuid source_text of Inl e \<Rightarrow> Inl e | Inr source_id \<Rightarrow>
     case str_item p ''connection_id'' of Inl e \<Rightarrow> Inl e | Inr connection_id \<Rightarrow>
     case int_item p ''chat_id'' of Inl e \<Rightarrow> Inl e | Inr chat_id \<Rightarrow>
     case int_item p ''message_id'' of Inl e \<Rightarrow> Inl e | Inr message_id \<Rightarrow>
     case str_item p ''text'' of Inl e \<Rightarrow> Inl e | Inr text_value \<Rightarrow>
     case dict_item p ''occurred_at'' of Inl e \<Rightarrow> Inl e | Inr occurred_at \<Rightarrow>
     Inr \<lparr>tm_connection_id = connection_id, tm_source_id = source_id, tm_chat_id = chat_id,
          tm_message_id = message_id,
          tm_reply_to_message_id = (case dict_get p ''reply_to_message_id'' of PInt i \<Rightarrow> Some i | _ \<Rightarrow> None),
          tm_sender_is_admin = truthy (dict_get p ''sender_is_admin''), tm_text = text_value,
          tm_occurred_at = occurred_at\<rparr>)"

section \<open>Environment and session\<close>

record signal_env =
  se_global_paused :: bool
  se_confidence_threshold :: rat
  se_rnd :: "nat \<Rightarrow> uuid"
  se_deterministic_parse :: "string \<Rightarrow> ai_action option"
  se_ai :: "string \<Rightarrow> dict \<Rightarrow> ai_action result"
  se_segment :: "uuid list \<Rightarrow> string"
  se_sha256 :: "uuid \<Rightarrow> dict \<Rightarrow> string"

record session =
  ss_db :: db
  ss_events :: "copy_event list"
  ss_keys :: "string \<rightharpoonup> int"
  ss_draws :: nat

type_synonym 'a act = "session \<Rightarrow> 'a result \<times> session"

text \<open>Sequencing: an exception ends the run with the session it was raised in.\<close>

definition chain :: "'a result \<times> session \<Rightarrow> ('a \<Rightarrow> 'b act) \<Rightarrow> 'b result \<times> session" where
  "chain r f = (case r of (Inl e, s) \<Rightarrow> (Inl e, s) | (Inr x, s) \<Rightarrow> f x s)"

primrec each :: "('a \<Rightarrow> unit act) \<Rightarrow> 'a list \<Rightarrow> unit act" where
  "each f [] s = (Inr (), s)"
| "each f (x # xs) s = chain (f x s) (\<lambda>_. each f xs)"

definition on_db :: "(db \<Rightarrow> db) \<Rightarrow> session \<Rightarrow> session" where
  "on_db f s = s \<lparr>ss_db := f (ss_db s)\<rparr>"

definition draw :: "signal_env \<Rightarrow> session \<Rightarrow> uuid \<times> session" where
  "draw env s = (se_rnd env (ss_draws s), s \<lparr>ss_draws := Suc (ss_draws s)\<rparr>)"

section \<open>Parsing and small helpers\<close>

definition is_word :: "char \<Rightarrow> bool" where
  "is_word c \<longleftrightarrow> is_alnum c \<or> c = CHR ''_''"

definition word_end :: "string \<Rightarrow> bool" where
  "word_end rest \<longleftrightarrow> rest = [] \<or> \<not> is_word (hd rest)"

definition cue_words :: "string list" where
  "cue_words = [''BUY'', ''SELL'', ''LONG'', ''SHORT'', ''SL'', ''ENTRY'', ''LIMIT'', ''STOP'', ''CLOSE'', ''EXIT'',
     ''CANCEL'', ''DELETE'', ''BE'', ''BREAKEVEN'', ''BREAK EVEN'', ''BREAK-EVEN'', ''SECURE'',
     ''RISKFREE'', ''RISK FREE'', ''RISK-FREE'']"

text \<open>The cue expression at the start of a string: a cue word, or \<^verbatim>\<open>TP\<close> and digits, up to a word end.\<close>

definition cue_here :: "string \<Rightarrow> bool" where
  "cue_here s \<longleftrightarrow> list_ex (\<lambda>w. startswith (py_upper s) w \<and> word_end (drop (length w) s)) cue_words
     \<or> startswith (py_upper s) ''TP'' \<and> word_end (dropWhile is_digit (drop 2 s))"

fun cue_search :: "bool \<Rightarrow> string \<Rightarrow> bool" where
  "cue_search prev_word [] = False"
| "cue_search prev_word (c # cs) = ((\<not> prev_word \<and> cue_here (c # cs)) \<or> cue_search (is_word c) cs)"

definition status_only_action :: ai_action where
  "status_only_action = \<lparr>ai_action = Status_only, ai_symbol = None, ai_direction = None, ai_order_type = None,
     ai_entry = None, ai_entry_high = None, ai_stop_loss = None, ai_take_profits = [], ai_close_fraction = None,
     ai_explicit_reference = None, ai_confidence = 0\<rparr>"

definition parse_message :: "signal_env \<Rightarrow> string \<Rightarrow> dict \<Rightarrow> ai_action result" where
  "parse_message env msg context = (case se_deterministic_parse env msg of
       Some a \<Rightarrow> Inr a
     | None \<Rightarrow> if \<not> cue_search False msg \<and> \<not> (context \<noteq> [] \<and> list_ex is_digit msg)
               then Inr status_only_action else se_ai env msg context)"

definition is_user_visible_status :: "ai_action \<Rightarrow> bool" where
  "is_user_visible_status a \<longleftrightarrow> ai_action a = Status_only \<and> ai_confidence a \<ge> 1 \<and> ai_symbol a \<noteq> None"

definition safe_activity_title :: "string \<Rightarrow> string" where
  "safe_activity_title t = (if length t \<le> 200 then t else take 197 t @ ''...'')"

definition activity :: "copy_route \<Rightarrow> string \<Rightarrow> string \<Rightarrow> string \<Rightarrow> copy_activity_level \<Rightarrow> db \<Rightarrow> db" where
  "activity route correlation_id action title level d = d \<lparr>db_activities := db_activities d @
     [\<lparr>act_user_id = rt_user_id route, act_route_id = Some (rt_id route), act_source_id = Some (rt_source_id route),
       act_connection_id = rt_target_connection_id route, act_correlation_id = correlation_id,
       act_action = action, act_level = level, act_title = safe_activity_title title, act_body = None\<rparr>]\<rparr>"

definition route_accepts_message :: "copy_route \<Rightarrow> telegram_source \<Rightarrow> telegram_message \<Rightarrow> bool" where
  "route_accepts_message route source m \<longleftrightarrow>
     src_source_type source \<noteq> Src_group \<or> rt_process_all_group_authors route \<or> tm_sender_is_admin m"

definition fingerprint_keys :: "string list" where
  "fingerprint_keys = [''action'', ''symbol'', ''direction'', ''entry'', ''entry_high'', ''stop_loss'',
     ''take_profits'', ''close_fraction'']"

definition semantic_fingerprint :: "signal_env \<Rightarrow> copy_route \<Rightarrow> dict \<Rightarrow> string" where
  "semantic_fingerprint env route p =
     se_sha256 env (rt_id route) (map (\<lambda>k. (k, dict_get p k)) fingerprint_keys)"

definition metaapi_client_id :: "signal_env \<Rightarrow> uuid \<Rightarrow> uuid \<Rightarrow> string" where
  "metaapi_client_id env route_id intent_id =
     se_segment env [route_id] @ ''_'' @ se_segment env [route_id, intent_id] @ ''_'' @ se_segment env [intent_id]"

text \<open>\<^verbatim>\<open>_select_copied_trade\<close>, kept beside the handler that replaced its use.\<close>

definition symbols_related :: "string \<Rightarrow> string \<Rightarrow> bool" where
  "symbols_related a b \<longleftrightarrow> startswith (normalize_symbol a) (normalize_symbol b)
     \<or> startswith (normalize_symbol b) (normalize_symbol a)"

definition select_copied_trade :: "copied_trade list \<Rightarrow> string option \<Rightarrow> copied_trade option" where
  "select_copied_trade trades symbol = (let ordered = sorted_by_desc ct_created_at trades in
     case symbol of
       Some sy \<Rightarrow> if sy = [] then the_only ordered else find (\<lambda>t. symbols_related (ct_signal_symbol t) sy) ordered
     | None \<Rightarrow> the_only ordered)"

definition copied_trade_management_actions :: "signal_action list" where
  "copied_trade_management_actions = [Modify_sl_tp, Break_even, Partial_close, Full_close, Cancel_pending]"

definition management_intent_targets ::
  "signal_action \<Rightarrow> copied_trade list \<Rightarrow> uuid \<Rightarrow> uuid \<Rightarrow> string option \<Rightarrow> copied_trade option list" where
  "management_intent_targets action trades route_id thread_id symbol = (
     if action \<notin> set copied_trade_management_actions then [None]
     else let route_trades = filter (\<lambda>t. ct_route_id t = route_id) trades;
              selected = (if action = Full_close \<and> symbol \<notin> {None, Some []}
                then filter (\<lambda>t. symbols_related (ct_signal_symbol t) (the symbol)) route_trades
                else filter (\<lambda>t. ct_thread_id t = thread_id) route_trades) in
          map Some (sorted_by ct_created_at selected))"

section \<open>Resolving a generation\<close>

text \<open>\<^verbatim>\<open>_assembly_for_action\<close> and \<^verbatim>\<open>_resolve_opening_generation\<close>.\<close>

definition resolve_opening_generation ::
  "trade_intent \<Rightarrow> parsed_action option \<Rightarrow> string option \<Rightarrow> int \<Rightarrow> db \<Rightarrow> db" where
  "resolve_opening_generation i pa failure_reason now d = (case pa of None \<Rightarrow> d
   | Some a \<Rightarrow>
     if pa_action_type a \<notin> set open_actions then d
     else case get_assembly d (pa_assembly_id a) of None \<Rightarrow> d
     | Some asm \<Rightarrow>
       if failure_reason \<notin> {None, Some []} then put_assembly (mark_generation_failed asm (the failure_reason) now) d
       else let siblings = filter (\<lambda>x. ti_parsed_action_id x = ti_parsed_action_id i) (db_intents d);
                siblings = (if siblings = [] then [i] else siblings) in
            if list_all (\<lambda>x. ti_state x = Intent_confirmed) siblings
            then put_assembly (mark_generation_completed asm now) d else d)"

section \<open>Attaching a message to a conversation\<close>

definition active_routes :: "db \<Rightarrow> telegram_source \<Rightarrow> telegram_message \<Rightarrow> copy_route list" where
  "active_routes d source m = filter (\<lambda>r. route_accepts_message r source m)
     (filter (\<lambda>r. rt_source_id r = tm_source_id m \<and> rt_state r = Route_active) (db_routes d))"

definition active_conversations :: "db \<Rightarrow> uuid \<Rightarrow> signal_conversation list" where
  "active_conversations d source_id =
     filter (\<lambda>c. conv_source_id c = source_id \<and> conv_state c = Conv_active) (db_conversations d)"

definition submitted_conversation_ids :: "db \<Rightarrow> signal_conversation list \<Rightarrow> uuid list" where
  "submitted_conversation_ids d convs = map asm_conversation_id
     (filter (\<lambda>a. asm_conversation_id a \<in> set (map conv_id convs) \<and> asm_opening_intent_id a \<noteq> None) (db_assemblies d))"

definition active_thread_ids :: "db \<Rightarrow> copy_route list \<Rightarrow> uuid list" where
  "active_thread_ids d routes = map ct_thread_id
     (filter (\<lambda>t. ct_route_id t \<in> set (map rt_id routes) \<and> active_lifecycle (ct_lifecycle_state t)) (db_trades d))"

definition candidate_of :: "uuid list \<Rightarrow> uuid list \<Rightarrow> signal_conversation \<Rightarrow> conversation_candidate" where
  "candidate_of submitted threads c = \<lparr>cand_id = conv_id c,
     cand_reply_root_message_id = conv_reply_root_message_id c, cand_last_message_id = conv_last_message_id c,
     cand_symbol = conv_symbol c, cand_direction = conv_direction c, cand_updated_at = conv_updated_at c,
     cand_opening_submitted = (conv_id c \<in> set submitted), cand_has_active_trade = (conv_legacy_thread_id c \<in> set threads)\<rparr>"

definition initial_context :: "signal_conversation list \<Rightarrow> telegram_message \<Rightarrow> dict" where
  "initial_context convs m = (case convs of
     [c] \<Rightarrow> if tm_reply_to_message_id m \<in> {None, Some 0} then conv_context c else [] | _ \<Rightarrow> [])"

definition longest_window :: "copy_route list \<Rightarrow> int" where
  "longest_window routes = max_list_int
     (map (\<lambda>r. case rt_assembly_window_seconds r of None \<Rightarrow> 90 | Some w \<Rightarrow> if w = 0 then 90 else w) routes) 90"

text \<open>
  The thread and the conversation of a message that belongs to none. Both tables have a unique
  correlation id.
\<close>

definition create_conversation ::
  "signal_env \<Rightarrow> copy_event \<Rightarrow> telegram_message \<Rightarrow> ai_action \<Rightarrow> copy_route list \<Rightarrow> int \<Rightarrow> signal_conversation act" where
  "create_conversation env ev m parsed routes now s = (
     let (tid, s) = draw env s; (cid, s) = draw env s;
         legacy = \<lparr>th_id = tid, th_source_id = tm_source_id m, th_correlation_id = ev_correlation_id ev,
           th_state = Thread_assembling, th_symbol = None, th_direction = None, th_context = [],
           th_message_references = [], th_assembly_deadline = route_deadline now (Some (longest_window routes))\<rparr>;
         conv = \<lparr>conv_id = cid, conv_source_id = tm_source_id m, conv_legacy_thread_id = tid,
           conv_correlation_id = ev_correlation_id ev, conv_state = Conv_active,
           conv_reply_root_message_id = Some (tm_message_id m),
           conv_explicit_reference = ai_explicit_reference parsed, conv_symbol = ai_symbol parsed,
           conv_direction = ai_direction parsed, conv_context = [], conv_last_message_id = tm_message_id m,
           conv_last_message_revision = 1, conv_updated_at = now\<rparr> in
     if ev_correlation_id ev \<in> set (map th_correlation_id (db_threads (ss_db s)))
        \<or> ev_correlation_id ev \<in> set (map conv_correlation_id (db_conversations (ss_db s)))
     then (Inl (Exn ''IntegrityError'' ''correlation_id''), s)
     else (Inr conv, on_db (\<lambda>d. d \<lparr>db_threads := db_threads d @ [legacy],
                                 db_conversations := db_conversations d @ [conv]\<rparr>) s))"

definition reference_of :: "telegram_message \<Rightarrow> int \<Rightarrow> message_reference" where
  "reference_of m revision = \<lparr>ref_connection_id = tm_connection_id m, ref_chat_id = tm_chat_id m,
     ref_message_id = tm_message_id m, ref_revision = revision\<rparr>"

text \<open>The update a message stands for; an edit of a submitted opening may only correct it.\<close>

definition parsed_update_for ::
  "copy_event \<Rightarrow> bool \<Rightarrow> ai_action \<Rightarrow> signal_conversation \<Rightarrow> dict" where
  "parsed_update_for ev opening_submitted parsed conv = (
     if ev_event_type ev = ''message.edited'' \<and> opening_submitted
        \<and> action_value (ai_action parsed) \<in> set open_actions
     then corrective_action_for_submitted_edit (conv_context conv) (model_dump parsed)
     else model_dump parsed)"

text \<open>The conversation after the message; \<^verbatim>\<open>updated_at\<close> is set when the row is really written.\<close>

definition absorb_into_conversation ::
  "copy_event \<Rightarrow> telegram_message \<Rightarrow> dict \<Rightarrow> int \<Rightarrow> signal_conversation \<Rightarrow> signal_conversation" where
  "absorb_into_conversation ev m update now conv = (
     let context = merge_context (conv_context conv) update;
         conv' = conv \<lparr>conv_context := context, conv_symbol := str_val (dict_get context ''symbol''),
           conv_direction := str_val (dict_get context ''direction''), conv_last_message_id := tm_message_id m,
           conv_last_message_revision := (if ev_event_type ev = ''message.edited''
             then conv_last_message_revision conv + 1 else conv_last_message_revision conv)\<rparr> in
     if conv' = conv then conv else conv' \<lparr>conv_updated_at := now\<rparr>)"

definition absorb_into_thread :: "telegram_message \<Rightarrow> signal_conversation \<Rightarrow> db \<Rightarrow> db" where
  "absorb_into_thread m conv d = (case get_thread d (conv_legacy_thread_id conv) of None \<Rightarrow> d
   | Some t \<Rightarrow> put_thread (t \<lparr>th_context := conv_context conv, th_symbol := conv_symbol conv,
       th_direction := conv_direction conv,
       th_message_references := th_message_references t @ [reference_of m (conv_last_message_revision conv)]\<rparr>) d)"

section \<open>One route\<close>

text \<open>The generation the route is assembling in the conversation, or a new one.\<close>

definition find_assembly :: "db \<Rightarrow> uuid \<Rightarrow> uuid \<Rightarrow> route_signal_assembly option result" where
  "find_assembly d conv_id' route_id = scalar_one_or_none (filter (\<lambda>a. asm_conversation_id a = conv_id'
     \<and> asm_route_id a = route_id \<and> active_assembly_state (asm_state a)) (db_assemblies d))"

definition next_generation :: "db \<Rightarrow> uuid \<Rightarrow> uuid \<Rightarrow> int" where
  "next_generation d conv_id' route_id = max_list_int (map asm_generation
     (filter (\<lambda>a. asm_conversation_id a = conv_id' \<and> asm_route_id a = route_id) (db_assemblies d))) 0 + 1"

definition open_assembly ::
  "signal_env \<Rightarrow> signal_conversation \<Rightarrow> copy_route \<Rightarrow> int \<Rightarrow> route_signal_assembly act" where
  "open_assembly env conv route now s = (case find_assembly (ss_db s) (conv_id conv) (rt_id route) of
       Inl e \<Rightarrow> (Inl e, s)
     | Inr (Some a) \<Rightarrow> (Inr a, s)
     | Inr None \<Rightarrow>
         let (aid, s) = draw env s;
             a = \<lparr>asm_id = aid, asm_conversation_id = conv_id conv, asm_route_id = rt_id route,
               asm_state = Asm_assembling, asm_context = conv_context conv, asm_message_references = [],
               asm_generation = next_generation (ss_db s) (conv_id conv) (rt_id route),
               asm_opening_action = None, asm_opening_intent_id = None, asm_terminal_reason = None,
               asm_assembly_deadline = route_deadline now (rt_assembly_window_seconds route),
               asm_accepted_at = None, asm_completed_at = None\<rparr> in
         if aid \<in> set (map asm_id (db_assemblies (ss_db s))) then (Inl (Exn ''IntegrityError'' ''route_signal_assemblies''), s)
         else (Inr a, on_db (\<lambda>d. d \<lparr>db_assemblies := db_assemblies d @ [a]\<rparr>) s))"

definition message_revision :: "telegram_message \<Rightarrow> message_reference list \<Rightarrow> int" where
  "message_revision m refs = 1 + max_list_int
     (map ref_revision (filter (\<lambda>r. ref_message_id r = tm_message_id m) refs)) 0"

definition absorb_into_assembly :: "telegram_message \<Rightarrow> dict \<Rightarrow> route_signal_assembly \<Rightarrow> route_signal_assembly" where
  "absorb_into_assembly m update a = (
     let merged = merge_generation_context (asm_context a) update (asm_opening_intent_id a \<noteq> None) in
     a \<lparr>asm_context := merged,
        asm_opening_action := (if asm_opening_action a = None \<and> action_in (dict_get merged ''action'') open_actions
          then str_val (dict_get merged ''action'') else asm_opening_action a),
        asm_message_references := asm_message_references a
          @ [reference_of m (message_revision m (asm_message_references a))]\<rparr>)"

text \<open>\<^verbatim>\<open>Decimal(str(merged[key])) if merged.get(key) is not None else None\<close>, and a list of them.\<close>

definition decimal_entry :: "dict \<Rightarrow> string \<Rightarrow> decimal option result" where
  "decimal_entry p k = (case dict_get p k of PNone \<Rightarrow> Inr None
     | v \<Rightarrow> (case to_decimal v of Inl e \<Rightarrow> Inl e | Inr x \<Rightarrow> Inr (Some x)))"

primrec decimal_list :: "pyval list \<Rightarrow> decimal list result" where
  "decimal_list [] = Inr []"
| "decimal_list (v # vs) = (case to_decimal v of Inl e \<Rightarrow> Inl e
     | Inr x \<Rightarrow> (case decimal_list vs of Inl e \<Rightarrow> Inl e | Inr xs \<Rightarrow> Inr (x # xs)))"

definition signal_of_context :: "dict \<Rightarrow> rat result \<Rightarrow> rat \<Rightarrow> parsed_signal result" where
  "signal_of_context merged age_result confidence = (
     case str_item merged ''action'' of Inl e \<Rightarrow> Inl e | Inr action_text \<Rightarrow>
     case signal_action_of action_text of Inl e \<Rightarrow> Inl e | Inr action \<Rightarrow>
     case decimal_entry merged ''entry'' of Inl e \<Rightarrow> Inl e | Inr entry \<Rightarrow>
     case decimal_entry merged ''entry_high'' of Inl e \<Rightarrow> Inl e | Inr entry_high \<Rightarrow>
     case decimal_entry merged ''stop_loss'' of Inl e \<Rightarrow> Inl e | Inr stop_loss \<Rightarrow>
     case decimal_list (list_val (dict_get merged ''take_profits'')) of Inl e \<Rightarrow> Inl e | Inr take_profits \<Rightarrow>
     case decimal_entry merged ''close_fraction'' of Inl e \<Rightarrow> Inl e | Inr close_fraction \<Rightarrow>
     case age_result of Inl e \<Rightarrow> Inl e | Inr age \<Rightarrow>
     Inr \<lparr>ps_action = action, ps_symbol = str_val (dict_get merged ''symbol''),
          ps_direction = str_val (dict_get merged ''direction''), ps_entry = entry, ps_entry_high = entry_high,
          ps_stop_loss = stop_loss, ps_take_profits = take_profits, ps_close_fraction = close_fraction,
          ps_age_seconds = age, ps_confidence = confidence\<rparr>)"

definition execution_policy :: "signal_env \<Rightarrow> copy_route \<Rightarrow> copy_account_policy \<Rightarrow> route_execution_policy" where
  "execution_policy env route policy = \<lparr>pol_minimum_fields = rt_minimum_fields route,
     pol_confidence_threshold = se_confidence_threshold env,
     pol_market_freshness_seconds = of_int (cap_market_signal_max_age_seconds policy),
     pol_pending_orders_enabled = rt_pending_orders_enabled route,
     pol_allow_sl_tp_updates = rt_allow_sl_tp_updates route, pol_allow_break_even = rt_allow_break_even route,
     pol_allow_partial_close = rt_allow_partial_close route, pol_allow_full_close = rt_allow_full_close route,
     pol_allow_pending_cancel = rt_allow_pending_cancel route, pol_allow_additional_tp = rt_allow_additional_tp route\<rparr>"

text \<open>The parsed action of the message; the table is unique in thread, message, route, action and revision.\<close>

definition add_parsed_action ::
  "signal_env \<Rightarrow> signal_conversation \<Rightarrow> copy_route \<Rightarrow> telegram_message \<Rightarrow> route_signal_assembly \<Rightarrow> parsed_signal
     \<Rightarrow> int \<Rightarrow> validation_result \<Rightarrow> uuid act" where
  "add_parsed_action env conv route m a signal revision v s = (
     let (pid, s) = draw env s;
         row = \<lparr>pa_id = pid, pa_thread_id = conv_legacy_thread_id conv, pa_route_id = rt_id route,
           pa_telegram_message_id = tm_message_id m, pa_action_type = action_value (ps_action signal),
           pa_revision = revision, pa_confidence = ps_confidence signal, pa_payload = asm_context a,
           pa_accepted = vr_accepted v, pa_reason = vr_reason v, pa_advisory = vr_advisory v, pa_assembly_id = asm_id a\<rparr> in
     if list_ex (\<lambda>x. pa_id x = pid \<or> (pa_thread_id x = pa_thread_id row \<and> pa_telegram_message_id x = tm_message_id m
          \<and> pa_route_id x = rt_id route \<and> pa_action_type x = pa_action_type row \<and> pa_revision x = revision))
          (db_actions (ss_db s))
     then (Inl (Exn ''IntegrityError'' ''parsed_actions''), s)
     else (Inr pid, on_db (\<lambda>d. d \<lparr>db_actions := db_actions d @ [row]\<rparr>) s))"

definition signal_risk_input ::
  "copy_account_policy \<Rightarrow> copied_trade list \<Rightarrow> parsed_signal \<Rightarrow> rat \<Rightarrow> risk_input" where
  "signal_risk_input policy trades signal volume = \<lparr>
     ri_symbol = (case ps_symbol signal of None \<Rightarrow> [] | Some sy \<Rightarrow> sy), ri_signal_volume = volume,
     ri_current_exposure = exposure trades, ri_current_positions = length trades,
     ri_equity = None, ri_daily_equity_anchor = None, ri_peak_equity = None,
     ri_max_lot_per_trade = cap_max_lot_per_trade policy, ri_max_total_lot = cap_max_lot policy,
     ri_max_open_positions = cap_max_open_positions policy, ri_daily_loss_limit = None,
     ri_max_drawdown_percent = None, ri_allowed_symbols = cap_allowed_symbols policy,
     ri_blocked_symbols = cap_blocked_symbols policy\<rparr>"

definition set_assembly_state :: "uuid \<Rightarrow> route_assembly_state \<Rightarrow> db \<Rightarrow> db" where
  "set_assembly_state aid st d = (case get_assembly d aid of None \<Rightarrow> d
     | Some a \<Rightarrow> put_assembly (a \<lparr>asm_state := st\<rparr>) d)"

text \<open>\<^verbatim>\<open>client.set(key, ..., nx=True, ex=window)\<close>: whether the key was free, and the keys after.\<close>

definition set_nx :: "string \<Rightarrow> int \<Rightarrow> int \<Rightarrow> session \<Rightarrow> bool \<times> session" where
  "set_nx key window now s = (
     if (case ss_keys s key of None \<Rightarrow> False | Some expiry \<Rightarrow> now < expiry) then (False, s)
     else (True, s \<lparr>ss_keys := (ss_keys s)(key \<mapsto> now + 1000000 * window)\<rparr>))"

definition message_age :: "telegram_message \<Rightarrow> int \<Rightarrow> rat result" where
  "message_age m now = (case to_instant (tm_occurred_at m) of Inl e \<Rightarrow> Inl e
     | Inr t \<Rightarrow> Inr (max 0 (of_int (now - t) / 1000000)))"

subsection \<open>Intents\<close>

type_synonym intent_job = "nat \<times> take_profit_leg option \<times> nat \<times> copied_trade option"

definition intent_jobs :: "take_profit_leg option list \<Rightarrow> copied_trade option list \<Rightarrow> intent_job list" where
  "intent_jobs legs targets = concat (map (\<lambda>(index, leg). map (\<lambda>(target_index, target).
     (index, leg, target_index, target)) (enumerate 0 targets)) (enumerate 0 legs))"

definition str_uuid_opt :: "uuid option \<Rightarrow> string" where
  "str_uuid_opt u = (case u of None \<Rightarrow> ''None'' | Some x \<Rightarrow> str_uuid x)"

definition intent_payload ::
  "copy_event \<Rightarrow> telegram_message \<Rightarrow> signal_conversation \<Rightarrow> copy_route \<Rightarrow> dict \<Rightarrow> parsed_signal \<Rightarrow> int \<Rightarrow> intent_job \<Rightarrow> dict" where
  "intent_payload ev m conv route merged signal now job = (case job of (index, leg, target_index, target) \<Rightarrow>
     let p = dict_set ''volume'' (PNum (case leg of Some l \<Rightarrow> leg_lot l | None \<Rightarrow> rt_fixed_lot route)) merged;
         p = dict_set ''take_profit'' (case leg of Some l \<Rightarrow> PNum (leg_take_profit l)
           | None \<Rightarrow> if ps_take_profits signal \<noteq> [] then PNum (dval (last (ps_take_profits signal))) else PNone) p;
         p = dict_set ''conversation_id'' (PStr (str_uuid (conv_id conv))) p;
         p = (case target of None \<Rightarrow> p | Some t \<Rightarrow> dict_set ''copied_trade_id'' (PStr (str_uuid (ct_id t))) p) in
     dict_set ''_telemetry'' (PDict [(''correlation_id'', PStr (conv_correlation_id conv)),
       (''telegram_at'', tm_occurred_at m), (''ingested_at'', ev_occurred_at ev), (''validated_at'', PTime now)]) p)"

definition intent_key :: "telegram_message \<Rightarrow> int \<Rightarrow> uuid \<Rightarrow> signal_action \<Rightarrow> intent_job \<Rightarrow> string" where
  "intent_key m revision route_id action job = (case job of (index, leg, target_index, target) \<Rightarrow>
     tm_connection_id m @ '':'' @ show_int (tm_chat_id m) @ '':'' @ show_int (tm_message_id m) @ '':'' @ show_int revision
     @ '':'' @ str_uuid route_id @ '':'' @ action_value action @ '':'' @ show_nat index @ '':''
     @ (case target of Some t \<Rightarrow> str_uuid (ct_id t) | None \<Rightarrow> show_nat target_index))"

definition intent_conflict :: "trade_intent \<Rightarrow> db \<Rightarrow> bool" where
  "intent_conflict i d = list_ex (\<lambda>x. ti_id x = ti_id i \<or> ti_idempotency_key x = ti_idempotency_key i
     \<or> (ti_client_order_id x \<noteq> None \<and> ti_client_order_id x = ti_client_order_id i)) (db_intents d)"

definition execute_event :: "uuid \<Rightarrow> int \<Rightarrow> string \<Rightarrow> trade_intent \<Rightarrow> copy_event" where
  "execute_event u now correlation_id i = new_event u now S_execution_intents ''intent.execute'' correlation_id
     [(''intent_id'', PStr (str_uuid (ti_id i))), (''connection_id'', PStr (str_uuid_opt (ti_connection_id i)))]
     (ti_idempotency_key i)"

definition new_intent ::
  "signal_env \<Rightarrow> copy_event \<Rightarrow> telegram_message \<Rightarrow> signal_conversation \<Rightarrow> copy_route \<Rightarrow> dict \<Rightarrow> parsed_signal
     \<Rightarrow> int \<Rightarrow> uuid \<Rightarrow> int \<Rightarrow> intent_job \<Rightarrow> uuid \<Rightarrow> trade_intent" where
  "new_intent env ev m conv route merged signal revision action_id now job iid =
     \<lparr>ti_id = iid, ti_user_id = rt_user_id route, ti_route_id = rt_id route,
      ti_connection_id = rt_target_connection_id route, ti_parsed_action_id = action_id,
      ti_idempotency_key = intent_key m revision (rt_id route) (ps_action signal) job,
      ti_client_order_id = Some (metaapi_client_id env (rt_id route) iid), ti_state = Intent_created,
      ti_request_payload = intent_payload ev m conv route merged signal now job, ti_broker_result = [],
      ti_attempt_count = 0, ti_last_error_code = None, ti_submitted_at = None, ti_resolved_at = None,
      ti_created_at = now\<rparr>"

text \<open>
  One intent: a row that violates a unique constraint is skipped (\<^verbatim>\<open>begin_nested\<close> and
  \<^verbatim>\<open>except IntegrityError: continue\<close>); a stored one marks the generation of an opening as submitted
  and is published.
\<close>

definition create_intent ::
  "signal_env \<Rightarrow> copy_event \<Rightarrow> telegram_message \<Rightarrow> signal_conversation \<Rightarrow> copy_route \<Rightarrow> uuid \<Rightarrow> dict \<Rightarrow> parsed_signal
     \<Rightarrow> int \<Rightarrow> uuid \<Rightarrow> int \<Rightarrow> intent_job \<Rightarrow> unit act" where
  "create_intent env ev m conv route asm_id' merged signal revision action_id now job s = (
     let (iid, s) = draw env s;
         i = new_intent env ev m conv route merged signal revision action_id now job iid in
     if intent_conflict i (ss_db s) then (Inr (), s)
     else
       let s = on_db (\<lambda>d. d \<lparr>db_intents := db_intents d @ [i]\<rparr>) s;
           s = (if action_value (ps_action signal) \<in> set open_actions
                then on_db (\<lambda>d. case get_assembly d asm_id' of None \<Rightarrow> d
                     | Some a \<Rightarrow> put_assembly (mark_generation_submitted a iid now) d) s else s);
           (u, s) = draw env s in
       (Inr (), s \<lparr>ss_events := ss_events s @ [execute_event u now (conv_correlation_id conv) i]\<rparr>))"

subsection \<open>The decision\<close>

definition skip_assembly ::
  "copy_route \<Rightarrow> signal_conversation \<Rightarrow> uuid \<Rightarrow> string \<Rightarrow> string \<Rightarrow> copy_activity_level \<Rightarrow> session \<Rightarrow> unit result \<times> session" where
  "skip_assembly route conv aid action title level s =
     (Inr (), on_db (\<lambda>d. activity route (conv_correlation_id conv) action title level (set_assembly_state aid Asm_skipped d)) s)"

definition publish_intents ::
  "signal_env \<Rightarrow> copy_event \<Rightarrow> telegram_message \<Rightarrow> signal_conversation \<Rightarrow> copy_route \<Rightarrow> route_signal_assembly
     \<Rightarrow> parsed_signal \<Rightarrow> int \<Rightarrow> uuid \<Rightarrow> int \<Rightarrow> copied_trade list \<Rightarrow> unit act" where
  "publish_intents env ev m conv route a signal revision action_id now trades s = (
     let targets = management_intent_targets (ps_action signal) trades (rt_id route)
           (conv_legacy_thread_id conv) (ps_symbol signal) in
     if targets = [] then skip_assembly route conv (asm_id a) ''signal.skipped'' ''No matching copied trade is open'' Level_info s
     else
       let legs = intent_legs_for_action (ps_action signal) (rt_fixed_lot route) (map dval (ps_take_profits signal))
             (rt_take_profit_mode route) (rt_lot_distribution route) in
       chain (each (create_intent env ev m conv route (asm_id a) (asm_context a) signal revision action_id now)
                (intent_jobs legs targets) s)
         (\<lambda>_ s. (Inr (), on_db (activity route (conv_correlation_id conv) ''signal.validated'' ''Signal ready'' Level_info) s)))"

text \<open>The semantic duplicate window: whether this is the first such signal of the route in it.\<close>

definition claim_signal :: "signal_env \<Rightarrow> copy_route \<Rightarrow> dict \<Rightarrow> int \<Rightarrow> session \<Rightarrow> bool \<times> session" where
  "claim_signal env route merged now s = (let window = rt_semantic_duplicate_window_seconds route in
     if window > 0 then set_nx (''copy:semantic:'' @ semantic_fingerprint env route merged) window now s else (True, s))"

definition decide_route ::
  "signal_env \<Rightarrow> copy_event \<Rightarrow> telegram_message \<Rightarrow> signal_conversation \<Rightarrow> copy_route \<Rightarrow> copy_account_policy
     \<Rightarrow> route_signal_assembly \<Rightarrow> parsed_signal \<Rightarrow> validation_result \<Rightarrow> int \<Rightarrow> uuid \<Rightarrow> int \<Rightarrow> unit act" where
  "decide_route env ev m conv route policy a signal v revision action_id now s = (
     if \<not> vr_accepted v then
       let title = (case vr_reason v of None \<Rightarrow> ''Signal skipped'' | Some t \<Rightarrow> if t = [] then ''Signal skipped'' else t) in
       (Inr (), on_db (activity route (conv_correlation_id conv)
          (if py_in ''waiting'' (py_lower title) then ''signal.waiting'' else ''signal.skipped'') title Level_info) s)
     else
       let trades = active_trades_on (ss_db s) (rt_target_connection_id route);
           volume = signal_volume_for_action (ps_action signal) (rt_fixed_lot route) (length (ps_take_profits signal))
             (rt_take_profit_mode route) (rt_lot_distribution route);
           risk = (if volume > 0 then ensure_account_risk_within_limits (signal_risk_input policy trades signal volume) else Inr ()) in
       case risk of
         Inl e \<Rightarrow> skip_assembly route conv (asm_id a) ''signal.skipped'' (risk_message e) Level_warning s
       | Inr _ \<Rightarrow>
         let (free, s) = claim_signal env route (asm_context a) now s in
         if \<not> free then skip_assembly route conv (asm_id a) ''signal.duplicate'' ''Duplicate signal ignored'' Level_info s
         else publish_intents env ev m conv route a signal revision action_id now trades s)"

definition route_paused :: "db \<Rightarrow> copy_route \<Rightarrow> copy_account_policy option \<Rightarrow> bool" where
  "route_paused d route policy \<longleftrightarrow>
     (case get_settings d (rt_user_id route) of None \<Rightarrow> False | Some u \<Rightarrow> us_is_paused u)
     \<or> (case policy of None \<Rightarrow> False | Some p \<Rightarrow> cap_is_paused p)"

definition assemble_route ::
  "signal_env \<Rightarrow> copy_event \<Rightarrow> telegram_message \<Rightarrow> signal_conversation \<Rightarrow> ai_action \<Rightarrow> dict \<Rightarrow> int \<Rightarrow> copy_route
     \<Rightarrow> copy_account_policy option \<Rightarrow> route_signal_assembly \<Rightarrow> unit act" where
  "assemble_route env ev m conv parsed update now route policy_row a s = (
     let revision = message_revision m (asm_message_references a);
         a = absorb_into_assembly m update a;
         s = on_db (put_assembly a) s in
     case signal_of_context (asm_context a) (message_age m now) (ai_confidence parsed) of Inl e \<Rightarrow> (Inl e, s)
     | Inr signal \<Rightarrow>
       (case policy_row of
          None \<Rightarrow> (Inl (Exn ''AttributeError'' ''market_signal_max_age_seconds''), s)
        | Some policy \<Rightarrow>
          let v = validate_signal signal (execution_policy env route policy) in
          chain (add_parsed_action env conv route m a signal revision v s)
            (\<lambda>action_id. decide_route env ev m conv route policy a signal v revision action_id now)))"

definition process_route ::
  "signal_env \<Rightarrow> copy_event \<Rightarrow> telegram_message \<Rightarrow> signal_conversation \<Rightarrow> ai_action \<Rightarrow> dict \<Rightarrow> int \<Rightarrow> copy_route \<Rightarrow> unit act" where
  "process_route env ev m conv parsed update now route s = (
     case policy_for (ss_db s) (rt_target_connection_id route) of Inl e \<Rightarrow> (Inl e, s)
     | Inr policy_row \<Rightarrow>
       if route_paused (ss_db s) route policy_row then (Inr (), s)
       else chain (open_assembly env conv route now s)
         (assemble_route env ev m conv parsed update now route policy_row))"

section \<open>The handler\<close>

definition log_for_routes :: "copy_route list \<Rightarrow> string \<Rightarrow> string \<Rightarrow> string \<Rightarrow> db \<Rightarrow> db" where
  "log_for_routes routes correlation_id action title d =
     fold (\<lambda>r d. activity r correlation_id action title Level_info d) routes d"

definition choose_for_message ::
  "copy_event \<Rightarrow> telegram_message \<Rightarrow> ai_action \<Rightarrow> conversation_candidate list \<Rightarrow> conversation_choice" where
  "choose_for_message ev m parsed candidates =
     choose_conversation (tm_reply_to_message_id m) (ai_symbol parsed) (ai_direction parsed) candidates
       (Some (action_value (ai_action parsed))) (Some (tm_message_id m)) (ev_event_type ev = ''message.edited'')"

definition update_conversation ::
  "signal_env \<Rightarrow> copy_event \<Rightarrow> telegram_message \<Rightarrow> ai_action \<Rightarrow> copy_route list \<Rightarrow> bool \<Rightarrow> int \<Rightarrow> signal_conversation
     \<Rightarrow> delivery_result act" where
  "update_conversation env ev m parsed routes opening_submitted now conv s = (
     let update = parsed_update_for ev opening_submitted parsed conv;
         conv = absorb_into_conversation ev m update now conv;
         s = on_db (\<lambda>d. absorb_into_thread m conv (put_conversation conv d)) s in
     chain (each (process_route env ev m conv parsed update now) routes s) (\<lambda>_ s. (Inr delivery_success, s)))"

definition handle_message :: "signal_env \<Rightarrow> copy_event \<Rightarrow> telegram_message \<Rightarrow> int \<Rightarrow> delivery_result act" where
  "handle_message env ev m now s = (
     let d = ss_db s in
     case get_source d (tm_source_id m) of None \<Rightarrow> (Inr delivery_success, s)
     | Some source \<Rightarrow>
       if src_is_paused source then (Inr delivery_success, s) else
       let routes = active_routes d source m in
       if routes = [] then (Inr delivery_success, s) else
       let convs = active_conversations d (tm_source_id m);
           submitted = submitted_conversation_ids d convs;
           threads = active_thread_ids d routes in
       case parse_message env (tm_text m) (initial_context convs m) of
         Inl e \<Rightarrow> (Inr (delivery_retry (py_class_upper e) (exn_message e)), s)
       | Inr parsed \<Rightarrow>
         if ai_action parsed = Status_only then
           (Inr delivery_success, if is_user_visible_status parsed
              then on_db (log_for_routes routes (ev_correlation_id ev) ''signal.status'' ''Channel status update'') s else s)
         else case scalar_one_or_none (filter (\<lambda>c. conv_source_id c = tm_source_id m
                \<and> conv_correlation_id c = ev_correlation_id ev) (db_conversations d)) of
           Inl e \<Rightarrow> (Inl e, s)
         | Inr (Some c) \<Rightarrow>
             update_conversation env ev m parsed routes (conv_id c \<in> set submitted) now c s
         | Inr None \<Rightarrow>
             let choice = choose_for_message ev m parsed (map (candidate_of submitted threads) convs) in
             if choice_ambiguous choice then
               (Inr delivery_success,
                on_db (log_for_routes routes (ev_correlation_id ev) ''signal.skipped'' ''Unclear channel update skipped'') s)
             else
               let selected = choice_selected choice;
                   submitted_before = (case selected of None \<Rightarrow> False | Some c \<Rightarrow> cand_opening_submitted c) in
               (case (case selected of None \<Rightarrow> None | Some c \<Rightarrow> get_conversation d (cand_id c)) of
                  Some c \<Rightarrow> update_conversation env ev m parsed routes submitted_before now c s
                | None \<Rightarrow> chain (create_conversation env ev m parsed routes now s)
                    (update_conversation env ev m parsed routes submitted_before now)))"

definition deleted_step :: "signal_conversation \<Rightarrow> route_signal_assembly \<Rightarrow> int \<Rightarrow> db \<Rightarrow> db" where
  "deleted_step conv a message_id d = (
     if \<not> list_ex (\<lambda>r. ref_message_id r = message_id) (asm_message_references a) then d
     else case get_route d (asm_route_id a) of None \<Rightarrow> d
     | Some route \<Rightarrow>
       if asm_state a \<in> {Asm_assembling, Asm_ready}
       then activity route (conv_correlation_id conv) ''signal.deleted'' ''Signal removed before execution'' Level_warning
              (put_assembly (a \<lparr>asm_state := Asm_expired\<rparr>) d)
       else activity route (conv_correlation_id conv) ''signal.deleted_after_execution''
              ''Source deleted an executed signal'' Level_warning d)"

definition handle_deleted_message :: "dict \<Rightarrow> db \<Rightarrow> db result" where
  "handle_deleted_message p d = (
     case str_item p ''source_id'' of Inl e \<Rightarrow> Inl e | Inr t \<Rightarrow>
     case parse_uuid t of Inl e \<Rightarrow> Inl e | Inr source_id \<Rightarrow>
     case int_item p ''message_id'' of Inl e \<Rightarrow> Inl e | Inr message_id \<Rightarrow>
     Inr (fold (\<lambda>conv d. fold (\<lambda>a d. deleted_step conv a message_id d)
            (filter (\<lambda>a. asm_conversation_id a = conv_id conv) (db_assemblies d)) d)
          (filter (\<lambda>c. conv_source_id c = source_id) (db_conversations d)) d))"

text \<open>\<open>lock_free\<close>: whether the lock of the source was acquired within its timeout.\<close>

definition signal_handler :: "signal_env \<Rightarrow> bool \<Rightarrow> int \<Rightarrow> copy_event \<Rightarrow> delivery_result act" where
  "signal_handler env lock_free now ev s = (
     if ev_event_type ev = ''message.deleted''
     then (case handle_deleted_message (ev_payload ev) (ss_db s) of Inl e \<Rightarrow> (Inl e, s)
           | Inr d \<Rightarrow> (Inr delivery_success, s \<lparr>ss_db := d\<rparr>))
     else if ev_event_type ev \<notin> {''message.created'', ''message.edited''} then (Inr delivery_success, s)
     else if se_global_paused env then (Inr delivery_success, s)
     else case message_of (ev_payload ev) of Inl e \<Rightarrow> (Inl e, s)
     | Inr m \<Rightarrow>
       if \<not> lock_free then (Inr (delivery_retry ''SOURCE_BUSY'' ''Signal source is busy.''), s)
       else case handle_message env ev m now s of
         (Inl e, s') \<Rightarrow> (Inl e, s' \<lparr>ss_db := ss_db s\<rparr>)
       | (Inr r, s') \<Rightarrow> (Inr r, s'))"

section \<open>Expiry\<close>

definition expire_assembly :: "int \<Rightarrow> route_signal_assembly \<Rightarrow> db \<Rightarrow> db" where
  "expire_assembly now a d = (
     let d = (case (get_route d (asm_route_id a), get_conversation d (asm_conversation_id a)) of
         (Some route, Some conv) \<Rightarrow> activity route (conv_correlation_id conv) ''signal.expired'' ''Incomplete signal expired'' Level_info d
       | _ \<Rightarrow> d) in
     put_assembly (mark_generation_expired a ''REQUIRED_DETAILS_TIMEOUT'' now) d)"

text \<open>A row that is expired already is not written again, so its \<^verbatim>\<open>updated_at\<close> stays.\<close>

definition mark_conversation_expired :: "int \<Rightarrow> signal_conversation \<Rightarrow> signal_conversation" where
  "mark_conversation_expired now c =
     (if conv_state c = Conv_expired then c else c \<lparr>conv_state := Conv_expired, conv_updated_at := now\<rparr>)"

definition expire_conversation :: "int \<Rightarrow> uuid \<Rightarrow> db \<Rightarrow> db" where
  "expire_conversation now cid d = (
     if list_ex (\<lambda>a. asm_conversation_id a = cid \<and> active_assembly_state (asm_state a)) (db_assemblies d) then d
     else case get_conversation d cid of None \<Rightarrow> d
     | Some c \<Rightarrow>
       let d = put_conversation (mark_conversation_expired now c) d in
       (case get_thread d (conv_legacy_thread_id c) of None \<Rightarrow> d
        | Some t \<Rightarrow> put_thread (t \<lparr>th_state := Thread_expired\<rparr>) d))"

definition due_assemblies :: "int \<Rightarrow> db \<Rightarrow> route_signal_assembly list" where
  "due_assemblies now d = filter (\<lambda>a. asm_state a = Asm_assembling \<and> asm_assembly_deadline a \<le> now) (db_assemblies d)"

definition expire_signal_threads :: "int \<Rightarrow> db \<Rightarrow> db \<times> nat" where
  "expire_signal_threads now d = (
     let due = due_assemblies now d;
         d' = fold (expire_assembly now) due d;
         d'' = fold (expire_conversation now) (from_keys (map asm_conversation_id due)) d' in
     (d'', length due))"

end
