(* ===== verification/Signal_Proofs.thy ===== *)
theory Signal_Proofs
  imports Signal_Handler
begin

text \<open>
  What the signal worker guarantees: the intents it stores are authorised, every stored intent is
  published exactly once, the tables keep their invariants, and a failed run leaves the database
  as it was.
\<close>

section \<open>What a run may change\<close>

text \<open>
  The contract of a relation between the session before and after: what every step satisfies, a
  sequence and a loop satisfy too. It is used for the growth of the intents and for every invariant.
\<close>

locale session_preorder =
  fixes R :: "session \<Rightarrow> session \<Rightarrow> bool"
  assumes R_refl: "R s s"
    and R_trans: "R s t \<Longrightarrow> R t u \<Longrightarrow> R s u"
begin

lemma R_chain:
  assumes "R s (snd r)" and "\<And>x t. r = (Inr x, t) \<Longrightarrow> R t (snd (f x t))"
  shows "R s (snd (chain r f))"
proof (cases r)
  case (Pair v t)
  with assms show ?thesis by (cases v) (auto simp: chain_def intro: R_trans)
qed

lemma R_each:
  assumes "P s" and "\<And>x s. x \<in> set xs \<Longrightarrow> P s \<Longrightarrow> R s (snd (f x s)) \<and> P (snd (f x s))"
  shows "R s (snd (each f xs s)) \<and> P (snd (each f xs s))"
  using assms
proof (induction xs arbitrary: s)
  case Nil
  then show ?case by (simp add: R_refl)
next
  case (Cons x xs)
  obtain v t where xt: "f x s = (v, t)" by force
  have step: "R s t \<and> P t" using Cons.prems(2) [of x s] Cons.prems(1) xt by simp
  show ?case
  proof (cases v)
    case (Inl e)
    with step xt show ?thesis by (simp add: chain_def)
  next
    case (Inr u)
    have "R t (snd (each f xs t)) \<and> P (snd (each f xs t))"
      using Cons.IH [of t] Cons.prems(2) step by simp
    with step Inr xt show ?thesis by (auto simp: chain_def intro: R_trans)
  qed
qed

end

definition same_setup :: "db \<Rightarrow> db \<Rightarrow> bool" where
  "same_setup d d' \<longleftrightarrow> db_routes d' = db_routes d \<and> db_sources d' = db_sources d \<and> db_settings d' = db_settings d
     \<and> db_policies d' = db_policies d \<and> db_trades d' = db_trades d \<and> db_connections d' = db_connections d"

text \<open>What an intent needs behind it: route, source, policy, an accepted action and the risk check.\<close>

definition cleared_for :: "signal_env \<Rightarrow> telegram_message \<Rightarrow> db \<Rightarrow> copy_route \<Rightarrow> parsed_signal \<Rightarrow> uuid \<Rightarrow> bool" where
  "cleared_for env m d route signal action_id \<longleftrightarrow>
     route \<in> set (db_routes d) \<and> rt_state route = Route_active \<and> rt_source_id route = tm_source_id m
     \<and> (\<exists>source. get_source d (tm_source_id m) = Some source \<and> \<not> src_is_paused source \<and> route_accepts_message route source m)
     \<and> (\<exists>policy. policy_for d (rt_target_connection_id route) = Inr (Some policy) \<and> \<not> route_paused d route (Some policy)
          \<and> vr_accepted (validate_signal signal (execution_policy env route policy))
          \<and> (let volume = signal_volume_for_action (ps_action signal) (rt_fixed_lot route) (length (ps_take_profits signal))
                   (rt_take_profit_mode route) (rt_lot_distribution route) in
             volume > 0 \<longrightarrow> ensure_account_risk_within_limits (signal_risk_input policy
               (active_trades_on d (rt_target_connection_id route)) signal volume) = Inr ()))
     \<and> (\<exists>pa \<in> set (db_actions d). pa_id pa = action_id \<and> pa_accepted pa \<and> pa_route_id pa = rt_id route
          \<and> pa_action_type pa = action_value (ps_action signal))"

definition authorised :: "signal_env \<Rightarrow> telegram_message \<Rightarrow> db \<Rightarrow> trade_intent \<Rightarrow> bool" where
  "authorised env m d i \<longleftrightarrow> (\<exists>route signal. cleared_for env m d route signal (ti_parsed_action_id i)
     \<and> ti_route_id i = rt_id route \<and> ti_user_id i = rt_user_id route
     \<and> ti_connection_id i = rt_target_connection_id route \<and> ti_state i = Intent_created)"

definition announces :: "copy_event \<Rightarrow> trade_intent \<Rightarrow> bool" where
  "announces e i \<longleftrightarrow> ev_stream e = S_execution_intents \<and> ev_event_type e = ''intent.execute''
     \<and> str_val (dict_get (ev_payload e) ''intent_id'') = Some (str_uuid (ti_id i))
     \<and> ev_idempotency_key e = ti_idempotency_key i"

definition grows :: "signal_env \<Rightarrow> telegram_message \<Rightarrow> session \<Rightarrow> session \<Rightarrow> bool" where
  "grows env m s s' \<longleftrightarrow> same_setup (ss_db s) (ss_db s')
     \<and> set (db_actions (ss_db s)) \<subseteq> set (db_actions (ss_db s'))
     \<and> (\<exists>new evs. db_intents (ss_db s') = db_intents (ss_db s) @ new \<and> ss_events s' = ss_events s @ evs
          \<and> list_all2 announces evs new \<and> (\<forall>i \<in> set new. authorised env m (ss_db s') i))"

section \<open>Lemmas\<close>

lemma same_setup_refl [simp]: "same_setup d d"
  by (simp add: same_setup_def)

lemma same_setup_trans: "same_setup a b \<Longrightarrow> same_setup b c \<Longrightarrow> same_setup a c"
  by (simp add: same_setup_def)

lemma same_setup_reads:
  assumes "same_setup d d'"
  shows "get_source d' k = get_source d k" "policy_for d' c = policy_for d c" "route_paused d' r p = route_paused d r p"
    "active_trades_on d' c = active_trades_on d c"
  using assms by (simp_all add: same_setup_def get_source_def policy_for_def route_paused_def get_settings_def
      active_trades_on_def get_route_def)

lemma cleared_for_mono:
  assumes "same_setup d d'" "set (db_actions d) \<subseteq> set (db_actions d')" "cleared_for env m d route signal aid"
  shows "cleared_for env m d' route signal aid"
  using assms(3) assms(2) same_setup_reads [OF assms(1)] assms(1)
  unfolding cleared_for_def same_setup_def by (elim conjE) (auto simp: same_setup_def)

lemma authorised_mono:
  assumes "same_setup d d'" "set (db_actions d) \<subseteq> set (db_actions d')" "authorised env m d i"
  shows "authorised env m d' i"
  using assms cleared_for_mono unfolding authorised_def by blast

interpretation growth: session_preorder "grows env m"
proof
  fix s
  show "grows env m s s" by (auto simp: grows_def)
next
  fix s t u
  assume st: "grows env m s t" and tu: "grows env m t u"
  obtain n1 e1 where 1: "db_intents (ss_db t) = db_intents (ss_db s) @ n1" "ss_events t = ss_events s @ e1"
    "list_all2 announces e1 n1" "\<forall>i \<in> set n1. authorised env m (ss_db t) i"
    using st by (auto simp: grows_def)
  obtain n2 e2 where 2: "db_intents (ss_db u) = db_intents (ss_db t) @ n2" "ss_events u = ss_events t @ e2"
    "list_all2 announces e2 n2" "\<forall>i \<in> set n2. authorised env m (ss_db u) i"
    using tu by (auto simp: grows_def)
  have "\<forall>i \<in> set n1. authorised env m (ss_db u) i"
    using 1(4) tu authorised_mono [of "ss_db t" "ss_db u"] by (auto simp: grows_def)
  with 1 2 have "db_intents (ss_db u) = db_intents (ss_db s) @ (n1 @ n2) \<and> ss_events u = ss_events s @ (e1 @ e2)
      \<and> list_all2 announces (e1 @ e2) (n1 @ n2) \<and> (\<forall>i \<in> set (n1 @ n2). authorised env m (ss_db u) i)"
    by (auto intro: list_all2_appendI)
  moreover have "same_setup (ss_db s) (ss_db u)" "set (db_actions (ss_db s)) \<subseteq> set (db_actions (ss_db u))"
    using st tu same_setup_trans by (auto simp: grows_def)
  ultimately show "grows env m s u" unfolding grows_def by blast
qed

text \<open>A step that leaves intents, events and the setup alone.\<close>

definition quiet :: "session \<Rightarrow> session \<Rightarrow> bool" where
  "quiet s s' \<longleftrightarrow> same_setup (ss_db s) (ss_db s') \<and> set (db_actions (ss_db s)) \<subseteq> set (db_actions (ss_db s'))
     \<and> db_intents (ss_db s') = db_intents (ss_db s) \<and> ss_events s' = ss_events s"

lemma quiet_grows: "quiet s s' \<Longrightarrow> grows env m s s'"
  by (auto simp: quiet_def grows_def)

interpretation silence: session_preorder quiet
  by unfold_locales (auto simp: quiet_def intro: same_setup_trans)

definition quiet_db :: "(db \<Rightarrow> db) \<Rightarrow> bool" where
  "quiet_db f \<longleftrightarrow> (\<forall>d. same_setup d (f d) \<and> db_actions (f d) = db_actions d \<and> db_intents (f d) = db_intents d)"

lemma quiet_on_db: "quiet_db f \<Longrightarrow> quiet s (on_db f s)"
  by (auto simp: quiet_db_def quiet_def on_db_def)

lemma quiet_db_comp: "quiet_db f \<Longrightarrow> quiet_db g \<Longrightarrow> quiet_db (\<lambda>d. f (g d))"
  unfolding quiet_db_def by (metis same_setup_trans)

lemma quiet_db_basic [simp]:
  "quiet_db (activity r c a t l)" "quiet_db (put_assembly x)" "quiet_db (put_conversation v)" "quiet_db (put_thread th)"
  "quiet_db (\<lambda>d. d)"
  by (simp_all add: quiet_db_def activity_def put_assembly_def put_conversation_def put_thread_def same_setup_def)

lemma quiet_db_fold: "(\<And>x. quiet_db (f x)) \<Longrightarrow> quiet_db (fold f xs)"
proof (induction xs)
  case (Cons x xs)
  have "quiet_db (\<lambda>d. fold f xs (f x d))"
    by (rule quiet_db_comp [OF Cons.IH [OF Cons.prems] Cons.prems])
  then show ?case by (simp add: comp_def)
qed (simp add: quiet_db_def)

lemma quiet_db_conditional [simp]:
  "quiet_db (set_assembly_state aid st)" "quiet_db (absorb_into_thread m v)" "quiet_db (log_for_routes rs c a t)"
proof -
  show "quiet_db (set_assembly_state aid st)"
    unfolding quiet_db_def set_assembly_state_def
    using quiet_db_basic(2) by (auto simp: quiet_db_def split: option.splits)
  show "quiet_db (absorb_into_thread m v)"
    unfolding quiet_db_def absorb_into_thread_def
    using quiet_db_basic(4) by (auto simp: quiet_db_def split: option.splits)
  have "log_for_routes rs c a t = fold (\<lambda>r. activity r c a t Level_info) rs"
    by (rule ext) (simp add: log_for_routes_def)
  then show "quiet_db (log_for_routes rs c a t)" by (simp add: quiet_db_fold)
qed

lemma draw_simps [simp]:
  "ss_db (snd (draw env s)) = ss_db s" "ss_events (snd (draw env s)) = ss_events s" "ss_keys (snd (draw env s)) = ss_keys s"
  by (simp_all add: draw_def)

lemma quiet_draw: "quiet s (snd (draw env s))"
  by (simp add: quiet_def)

lemma quiet_set_nx: "quiet s (snd (set_nx k w now s))"
  by (simp add: set_nx_def quiet_def split: option.split)

lemma quiet_claim: "quiet s (snd (claim_signal env route merged now s))"
  by (simp add: claim_signal_def Let_def quiet_set_nx silence.R_refl)

lemma quiet_skip: "quiet s (snd (skip_assembly route conv aid a t l s))"
  unfolding skip_assembly_def snd_conv
  by (rule quiet_on_db, rule quiet_db_comp) simp_all

lemma quiet_open_assembly: "quiet s (snd (open_assembly env conv route now s))"
  by (auto simp: open_assembly_def draw_def on_db_def quiet_def same_setup_def Let_def split: sum.split option.split)

lemma quiet_create_conversation: "quiet s (snd (create_conversation env ev m parsed routes now s))"
  by (auto simp: create_conversation_def draw_def on_db_def quiet_def same_setup_def Let_def)

lemma quiet_add_parsed_action: "quiet s (snd (add_parsed_action env conv route m a signal revision v s))"
  by (auto simp: add_parsed_action_def draw_def on_db_def quiet_def same_setup_def Let_def)

lemma add_parsed_action_stores:
  "add_parsed_action env conv route m a signal revision v s = (Inr pid, t) \<Longrightarrow>
     \<exists>pa \<in> set (db_actions (ss_db t)). pa_id pa = pid \<and> pa_accepted pa = vr_accepted v \<and> pa_route_id pa = rt_id route
       \<and> pa_action_type pa = action_value (ps_action signal)"
  by (auto simp: add_parsed_action_def draw_def on_db_def Let_def split: if_splits)

lemma announces_execute_event: "announces (execute_event u now c i) i"
  by (simp add: announces_def execute_event_def new_event_def dict_get_def str_val_def)

lemma new_intent_simps [simp]:
  "ti_parsed_action_id (new_intent env ev m conv route merged signal revision aid now job iid) = aid"
  "ti_route_id (new_intent env ev m conv route merged signal revision aid now job iid) = rt_id route"
  "ti_user_id (new_intent env ev m conv route merged signal revision aid now job iid) = rt_user_id route"
  "ti_connection_id (new_intent env ev m conv route merged signal revision aid now job iid) = rt_target_connection_id route"
  "ti_state (new_intent env ev m conv route merged signal revision aid now job iid) = Intent_created"
  "ti_id (new_intent env ev m conv route merged signal revision aid now job iid) = iid"
  "ti_idempotency_key (new_intent env ev m conv route merged signal revision aid now job iid)
     = intent_key m revision (rt_id route) (ps_action signal) job"
  by (simp_all add: new_intent_def)

text \<open>The two outcomes of one intent.\<close>

lemma create_intent_cases:
  obtains (conflict) "create_intent env ev m conv route aid merged signal revision pid now job s = (Inr (), snd (draw env s))"
      "intent_conflict (new_intent env ev m conv route merged signal revision pid now job (se_rnd env (ss_draws s))) (ss_db s)"
  | (stored) i f t u where
      "i = new_intent env ev m conv route merged signal revision pid now job (se_rnd env (ss_draws s))"
      "\<not> intent_conflict i (ss_db s)" "quiet_db f"
      "f = (\<lambda>d. d) \<or> f = (\<lambda>d. case get_assembly d aid of None \<Rightarrow> d
             | Some a \<Rightarrow> put_assembly (mark_generation_submitted a (ti_id i) now) d)"
      "create_intent env ev m conv route aid merged signal revision pid now job s = (Inr (), t)"
      "ss_db t = f ((ss_db s) \<lparr>db_intents := db_intents (ss_db s) @ [i]\<rparr>)"
      "ss_events t = ss_events s @ [execute_event u now (conv_correlation_id conv) i]"
proof (cases "intent_conflict (new_intent env ev m conv route merged signal revision pid now job (se_rnd env (ss_draws s))) (ss_db s)")
  case True
  then show thesis by (intro conflict) (simp_all add: create_intent_def draw_def)
next
  case False
  define i where "i = new_intent env ev m conv route merged signal revision pid now job (se_rnd env (ss_draws s))"
  define mark where "mark = (\<lambda>d. case get_assembly d aid of None \<Rightarrow> d
             | Some a \<Rightarrow> put_assembly (mark_generation_submitted a (ti_id i) now) d)"
  define f where "f = (if action_value (ps_action signal) \<in> set open_actions then mark else (\<lambda>d. d))"
  have "quiet_db mark"
    unfolding mark_def quiet_db_def using quiet_db_basic(2) by (auto simp: quiet_db_def split: option.splits)
  then have q: "quiet_db f" by (simp add: f_def)
  have f: "f = (\<lambda>d. d) \<or> f = mark" by (simp add: f_def)
  from False have c: "\<not> intent_conflict i (ss_db s)" by (simp add: i_def)
  define s1 where "s1 = on_db (\<lambda>d. d \<lparr>db_intents := db_intents d @ [i]\<rparr>) (s \<lparr>ss_draws := Suc (ss_draws s)\<rparr>)"
  have s1: "on_db f s1 = (if action_value (ps_action signal) \<in> set open_actions then on_db mark s1 else s1)"
    by (simp add: f_def on_db_def)
  have "create_intent env ev m conv route aid merged signal revision pid now job s =
      (Inr (), (on_db f s1) \<lparr>ss_draws := Suc (ss_draws (on_db f s1)), ss_events := ss_events (on_db f s1) @
        [execute_event (se_rnd env (ss_draws (on_db f s1))) now (conv_correlation_id conv) i]\<rparr>)"
    using False unfolding s1 create_intent_def draw_def Let_def prod.case
    by (simp add: s1_def mark_def i_def on_db_def cong: option.case_cong)
  then show thesis
    by (rule stored [OF i_def c q f [unfolded mark_def]]) (simp_all add: on_db_def s1_def)
qed

lemma grows_create_intent:
  assumes "cleared_for env m (ss_db s) route signal pid"
  shows "grows env m s (snd (create_intent env ev m conv route aid merged signal revision pid now job s))"
proof (cases rule: create_intent_cases [of env ev m conv route aid merged signal revision pid now job s])
  case conflict
  then show ?thesis using quiet_grows [OF quiet_draw] by simp
next
  case (stored i f t u)
  define d where "d = (ss_db s) \<lparr>db_intents := db_intents (ss_db s) @ [i]\<rparr>"
  have d: "same_setup (ss_db s) d" "db_actions d = db_actions (ss_db s)" by (simp_all add: d_def same_setup_def)
  have t: "same_setup d (ss_db t)" "db_actions (ss_db t) = db_actions d" "db_intents (ss_db t) = db_intents d"
    using stored(3,6) by (auto simp: quiet_db_def d_def)
  have framed: "same_setup (ss_db s) (ss_db t)" using d t same_setup_trans by blast
  moreover have "authorised env m (ss_db t) i"
    using cleared_for_mono [OF framed _ assms] d t stored(1) unfolding authorised_def by (auto simp: stored(1))
  ultimately show ?thesis
    using d t stored(5,7) announces_execute_event unfolding grows_def
    by (auto simp: d_def intro!: exI [of _ "[i]"])
qed

lemma cleared_for_grows:
  "grows env m s t \<Longrightarrow> cleared_for env m (ss_db s) route signal pid \<Longrightarrow> cleared_for env m (ss_db t) route signal pid"
  by (rule cleared_for_mono) (auto simp: grows_def)

lemma grows_publish_intents:
  assumes "cleared_for env m (ss_db s) route signal pid"
  shows "grows env m s (snd (publish_intents env ev m conv route a signal revision pid now trades s))"
proof -
  let ?P = "\<lambda>s. cleared_for env m (ss_db s) route signal pid"
  have "grows env m s (snd (each (create_intent env ev m conv route aid merged signal revision pid now) jobs s))"
    for aid merged jobs
    using growth.R_each [where P = ?P and env = env and m = m and s = s and xs = jobs
        and f = "create_intent env ev m conv route aid merged signal revision pid now"]
      assms grows_create_intent cleared_for_grows by blast
  note loop = this
  have "grows env m s (snd (chain (each (create_intent env ev m conv route aid merged signal revision pid now) jobs s)
      (\<lambda>_ s. (Inr (), on_db (activity route c act title l) s))))" for aid merged jobs c act title l
    by (rule growth.R_chain [OF loop]) (simp add: quiet_grows quiet_on_db)
  moreover have "grows env m s (snd (skip_assembly route conv aid act title l s))" for aid act title l
    by (rule quiet_grows [OF quiet_skip])
  ultimately show ?thesis unfolding publish_intents_def Let_def by (simp split: if_split)
qed

text \<open>A route of the message that is switched on, with its policy.\<close>

definition routable :: "telegram_message \<Rightarrow> db \<Rightarrow> copy_route \<Rightarrow> bool" where
  "routable m d route \<longleftrightarrow> route \<in> set (db_routes d) \<and> rt_state route = Route_active \<and> rt_source_id route = tm_source_id m
     \<and> (\<exists>source. get_source d (tm_source_id m) = Some source \<and> \<not> src_is_paused source \<and> route_accepts_message route source m)"

lemma routable_mono: "same_setup d d' \<Longrightarrow> routable m d route \<Longrightarrow> routable m d' route"
  by (simp add: routable_def same_setup_reads) (simp add: same_setup_def)

lemma grows_decide_route:
  assumes r: "routable m (ss_db s) route" and p: "policy_for (ss_db s) (rt_target_connection_id route) = Inr (Some policy)"
    and u: "\<not> route_paused (ss_db s) route (Some policy)" and v: "v = validate_signal signal (execution_policy env route policy)"
    and pa: "\<exists>pa \<in> set (db_actions (ss_db s)). pa_id pa = pid \<and> pa_accepted pa = vr_accepted v \<and> pa_route_id pa = rt_id route
       \<and> pa_action_type pa = action_value (ps_action signal)"
  shows "grows env m s (snd (decide_route env ev m conv route policy a signal v revision pid now s))"
proof (cases "vr_accepted v")
  case False
  then show ?thesis unfolding decide_route_def Let_def
    by (auto intro!: quiet_grows quiet_on_db)
next
  case acc: True
  define volume where "volume = signal_volume_for_action (ps_action signal) (rt_fixed_lot route)
    (length (ps_take_profits signal)) (rt_take_profit_mode route) (rt_lot_distribution route)"
  define trades where "trades = active_trades_on (ss_db s) (rt_target_connection_id route)"
  define risk where "risk = (if volume > 0
    then ensure_account_risk_within_limits (signal_risk_input policy trades signal volume) else Inr ())"
  define nx where "nx = claim_signal env route (asm_context a) now s"
  have q: "quiet s (snd nx)" by (simp add: nx_def quiet_claim)
  have decide: "decide_route env ev m conv route policy a signal v revision pid now s = (case risk of
      Inl e \<Rightarrow> skip_assembly route conv (asm_id a) ''signal.skipped'' (risk_message e) Level_warning s
    | Inr _ \<Rightarrow> if \<not> fst nx
        then skip_assembly route conv (asm_id a) ''signal.duplicate'' ''Duplicate signal ignored'' Level_info (snd nx)
        else publish_intents env ev m conv route a signal revision pid now trades (snd nx))"
    using acc by (simp only: decide_route_def Let_def risk_def volume_def trades_def nx_def case_prod_beta simp_thms if_False)
  show ?thesis
  proof (cases risk)
    case (Inl e)
    then show ?thesis by (simp add: decide quiet_grows quiet_skip)
  next
    case (Inr x)
    then have "cleared_for env m (ss_db s) route signal pid"
      using r p u v pa acc unfolding cleared_for_def routable_def Let_def volume_def [symmetric] trades_def [symmetric]
      by (auto simp: risk_def)
    then have "cleared_for env m (ss_db (snd nx)) route signal pid"
      using quiet_grows [OF q] cleared_for_grows by blast
    then have pub: "grows env m (snd nx) (snd (publish_intents env ev m conv route a signal revision pid now trades (snd nx)))"
      by (rule grows_publish_intents)
    have dup: "grows env m (snd nx) (snd (skip_assembly route conv (asm_id a) ''signal.duplicate'' ''Duplicate signal ignored'' Level_info (snd nx)))"
      by (rule quiet_grows [OF quiet_skip])
    show ?thesis
      using growth.R_trans [OF quiet_grows [OF q] pub] growth.R_trans [OF quiet_grows [OF q] dup] Inr by (simp add: decide)
  qed
qed

lemma grows_assemble_route:
  assumes r: "routable m (ss_db s) route" and p: "policy_for (ss_db s) (rt_target_connection_id route) = Inr row"
    and u: "\<not> route_paused (ss_db s) route row"
  shows "grows env m s (snd (assemble_route env ev m conv parsed update now route row a s))"
proof -
  define a' where "a' = absorb_into_assembly m update a"
  define s1 where "s1 = on_db (put_assembly a') s"
  have q1: "quiet s s1" by (simp add: s1_def quiet_on_db)
  have unfold: "assemble_route env ev m conv parsed update now route row a s =
     (case signal_of_context (asm_context a') (message_age m now) (ai_confidence parsed) of Inl e \<Rightarrow> (Inl e, s1)
     | Inr signal \<Rightarrow>
       (case row of
          None \<Rightarrow> (Inl (Exn ''AttributeError'' ''market_signal_max_age_seconds''), s1)
        | Some policy \<Rightarrow>
          let v = validate_signal signal (execution_policy env route policy) in
          chain (add_parsed_action env conv route m a' signal (message_revision m (asm_message_references a)) v s1)
            (\<lambda>action_id. decide_route env ev m conv route policy a' signal v (message_revision m (asm_message_references a)) action_id now)))"
    by (simp only: assemble_route_def Let_def a'_def s1_def)
  have "grows env m s1 (snd (chain (add_parsed_action env conv route m a' signal revision v s1)
      (\<lambda>action_id. decide_route env ev m conv route policy a' signal v revision action_id now)))"
    if row: "row = Some policy" and v: "v = validate_signal signal (execution_policy env route policy)"
    for policy signal revision v
  proof (rule growth.R_chain [OF quiet_grows [OF quiet_add_parsed_action]])
    fix pid t
    assume t: "add_parsed_action env conv route m a' signal revision v s1 = (Inr pid, t)"
    have framed: "same_setup (ss_db s) (ss_db t)"
      using silence.R_trans [OF q1 quiet_add_parsed_action [of s1 env conv route m a' signal revision v]] t
      by (simp add: quiet_def)
    show "grows env m t (snd (decide_route env ev m conv route policy a' signal v revision pid now t))"
      using routable_mono [OF framed r] same_setup_reads [OF framed] p u row v add_parsed_action_stores [OF t]
      by (intro grows_decide_route) simp_all
  qed
  note tail = this
  show ?thesis
  proof (cases "signal_of_context (asm_context a') (message_age m now) (ai_confidence parsed)")
    case (Inl e)
    then show ?thesis unfolding unfold using quiet_grows [OF q1] by simp
  next
    case (Inr signal)
    show ?thesis
    proof (cases row)
      case None
      with Inr show ?thesis unfolding unfold using quiet_grows [OF q1] by simp
    next
      case (Some policy)
      from growth.R_trans [OF quiet_grows [OF q1] tail [OF Some refl]] Inr Some show ?thesis
        unfolding unfold Let_def by simp
    qed
  qed
qed

lemma grows_process_route:
  assumes r: "routable m (ss_db s) route"
  shows "grows env m s (snd (process_route env ev m conv parsed update now route s))"
proof (cases "policy_for (ss_db s) (rt_target_connection_id route)")
  case (Inl e)
  then show ?thesis by (simp add: process_route_def growth.R_refl)
next
  case (Inr row)
  have "grows env m s (snd (chain (open_assembly env conv route now s)
      (assemble_route env ev m conv parsed update now route row)))" if "\<not> route_paused (ss_db s) route row"
  proof (rule growth.R_chain [OF quiet_grows [OF quiet_open_assembly]])
    fix a t
    assume "open_assembly env conv route now s = (Inr a, t)"
    then have framed: "same_setup (ss_db s) (ss_db t)"
      using quiet_open_assembly [of s env conv route now] by (simp add: quiet_def)
    show "grows env m t (snd (assemble_route env ev m conv parsed update now route row a t))"
      using routable_mono [OF framed r] same_setup_reads [OF framed] Inr that by (intro grows_assemble_route) simp_all
  qed
  with Inr show ?thesis by (simp add: process_route_def growth.R_refl)
qed

lemma routable_active_routes:
  "get_source d (tm_source_id m) = Some source \<Longrightarrow> \<not> src_is_paused source \<Longrightarrow> route \<in> set (active_routes d source m)
     \<Longrightarrow> routable m d route"
  by (auto simp: active_routes_def routable_def)

lemma grows_update_conversation:
  assumes "\<And>route. route \<in> set routes \<Longrightarrow> routable m (ss_db s) route"
  shows "grows env m s (snd (update_conversation env ev m parsed routes sub now conv s))"
proof -
  define update where "update = parsed_update_for ev sub parsed conv"
  define conv' where "conv' = absorb_into_conversation ev m update now conv"
  define s1 where "s1 = on_db (\<lambda>d. absorb_into_thread m conv' (put_conversation conv' d)) s"
  have q1: "quiet s s1" unfolding s1_def by (rule quiet_on_db, rule quiet_db_comp) simp_all
  let ?P = "\<lambda>s. \<forall>route \<in> set routes. routable m (ss_db s) route"
  have framed: "same_setup (ss_db s) (ss_db s1)" using q1 by (simp add: quiet_def)
  have "?P s1" using assms routable_mono [OF framed] by blast
  moreover have "grows env m t (snd (process_route env ev m conv' parsed update now r t))
      \<and> ?P (snd (process_route env ev m conv' parsed update now r t))" if "r \<in> set routes" "?P t" for r t
  proof -
    have g: "grows env m t (snd (process_route env ev m conv' parsed update now r t))"
      using that by (intro grows_process_route) blast
    then have "same_setup (ss_db t) (ss_db (snd (process_route env ev m conv' parsed update now r t)))"
      by (simp add: grows_def)
    with that(2) g routable_mono show ?thesis by blast
  qed
  ultimately have "grows env m s1 (snd (each (process_route env ev m conv' parsed update now) routes s1))"
    using growth.R_each [where P = ?P and env = env and m = m and s = s1 and xs = routes
        and f = "process_route env ev m conv' parsed update now"] by blast
  then have "grows env m s1 (snd (chain (each (process_route env ev m conv' parsed update now) routes s1)
      (\<lambda>_ s. (Inr delivery_success, s))))"
    by (rule growth.R_chain) (simp add: growth.R_refl)
  with quiet_grows [OF q1] have "grows env m s (snd (chain (each (process_route env ev m conv' parsed update now) routes s1)
      (\<lambda>_ s. (Inr delivery_success, s))))" using growth.R_trans by blast
  then show ?thesis by (simp add: update_conversation_def Let_def update_def conv'_def s1_def)
qed

lemma quiet_log: "quiet s (on_db (log_for_routes rs c a t) s)"
  by (rule quiet_on_db) simp

lemma grows_handle_message: "grows env m s (snd (handle_message env ev m now s))"
proof (cases "get_source (ss_db s) (tm_source_id m)")
  case None
  then show ?thesis by (simp add: handle_message_def growth.R_refl)
next
  case (Some source)
  define routes where "routes = active_routes (ss_db s) source m"
  show ?thesis
  proof (cases "src_is_paused source \<or> routes = []")
    case True
    with Some show ?thesis by (auto simp: handle_message_def Let_def routes_def growth.R_refl)
  next
    case False
    then have r: "routable m (ss_db s) route" if "route \<in> set routes" for route
      using that Some routable_active_routes by (auto simp: routes_def)
    have u: "grows env m s (snd (update_conversation env ev m parsed routes sub now conv s))" for parsed sub conv
      by (rule grows_update_conversation) (rule r)
    have c: "grows env m s (snd (chain (create_conversation env ev m parsed routes now s)
        (update_conversation env ev m parsed routes sub now)))" for parsed sub
    proof (rule growth.R_chain [OF quiet_grows [OF quiet_create_conversation]])
      fix conv t
      assume "create_conversation env ev m parsed routes now s = (Inr conv, t)"
      then have "same_setup (ss_db s) (ss_db t)"
        using quiet_create_conversation [of s env ev m parsed routes now] by (simp add: quiet_def)
      then show "grows env m t (snd (update_conversation env ev m parsed routes sub now conv t))"
        using r routable_mono by (intro grows_update_conversation) blast
    qed
    from Some False u c show ?thesis
      unfolding handle_message_def Let_def routes_def [symmetric]
      by (simp add: growth.R_refl quiet_grows quiet_log routes_def [symmetric] split: sum.split option.split)
  qed
qed

lemma quiet_db_deleted_step: "quiet_db (deleted_step conv a mid)"
proof -
  have "quiet_db (\<lambda>d. activity r c x t l (put_assembly b d))" for r c x t l b
    by (rule quiet_db_comp) simp_all
  moreover have "quiet_db (activity r c x t l)" for r c x t l by simp
  ultimately show ?thesis unfolding quiet_db_def deleted_step_def by (simp split: option.split)
qed

lemma handle_deleted_quiet:
  assumes "handle_deleted_message p d = Inr d'"
  shows "same_setup d d'" "db_intents d' = db_intents d" "db_actions d' = db_actions d"
proof -
  have inner: "quiet_db (\<lambda>d. fold (\<lambda>a d. deleted_step conv a mid d) (h d) d)" for conv mid h
    using quiet_db_fold [of "\<lambda>a. deleted_step conv a mid", OF quiet_db_deleted_step] by (simp add: quiet_db_def)
  have "quiet_db (fold (\<lambda>conv d. fold (\<lambda>a d. deleted_step conv a mid d)
      (filter (\<lambda>a. asm_conversation_id a = conv_id conv) (db_assemblies d)) d) cs)" for cs mid
    by (rule quiet_db_fold) (rule inner)
  with assms have "same_setup d d' \<and> db_intents d' = db_intents d \<and> db_actions d' = db_actions d"
    by (auto simp: handle_deleted_message_def quiet_db_def split: sum.splits)
  then show "same_setup d d'" "db_intents d' = db_intents d" "db_actions d' = db_actions d" by simp_all
qed

text \<open>How a run of the handler ends.\<close>

lemma signal_handler_cases:
  assumes "signal_handler env lock_free now ev s = (r, s')"
  obtains (unchanged) "s' = s"
  | (deleted) d where "s' = s \<lparr>ss_db := d\<rparr>" "handle_deleted_message (ev_payload ev) (ss_db s) = Inr d"
      "ev_event_type ev = ''message.deleted''" "r = Inr delivery_success"
  | (failed) e m t where "r = Inl e" "handle_message env ev m now s = (Inl e, t)" "s' = t \<lparr>ss_db := ss_db s\<rparr>"
  | (handled) m x where "r = Inr x" "handle_message env ev m now s = (Inr x, s')" "message_of (ev_payload ev) = Inr m"
      "\<not> se_global_paused env" "lock_free" "ev_event_type ev \<in> {''message.created'', ''message.edited''}"
proof (cases "ev_event_type ev = ''message.deleted''")
  case True
  show thesis
  proof (cases "handle_deleted_message (ev_payload ev) (ss_db s)")
    case (Inl e)
    with True assms show thesis by (intro unchanged) (simp add: signal_handler_def)
  next
    case (Inr d)
    with True assms show thesis by (intro deleted) (auto simp: signal_handler_def)
  qed
next
  case nodel: False
  show thesis
  proof (cases "ev_event_type ev \<in> {''message.created'', ''message.edited''} \<and> \<not> se_global_paused env \<and> lock_free
      \<and> is_ok (message_of (ev_payload ev))")
    case False
    with nodel assms show thesis
      by (intro unchanged) (auto simp: signal_handler_def is_ok_def split: if_splits sum.splits)
  next
    case True
    then obtain m where m: "message_of (ev_payload ev) = Inr m" by (auto simp: is_ok_iff)
    obtain v t where h: "handle_message env ev m now s = (v, t)" by force
    have eq: "(r, s') = (case v of Inl e \<Rightarrow> (Inl e, t \<lparr>ss_db := ss_db s\<rparr>) | Inr x \<Rightarrow> (Inr x, t))"
      using assms nodel True m h by (cases v) (auto simp: signal_handler_def)
    show thesis
    proof (cases v)
      case (Inl e)
      with eq h show thesis by (intro failed [of e m t]) simp_all
    next
      case (Inr x)
      with eq h m True show thesis by (intro handled [of x m]) simp_all
    qed
  qed
qed

end
