(* ===== verification/Signal_Properties.thy ===== *)
theory Signal_Properties
  imports Signal_Proofs
begin

text \<open>
  The properties of the signal worker and a sample run: one channel, one active route and one
  message that opens a trade with two targets, followed through the handler step by step.
\<close>

section \<open>An opening on an empty table\<close>

lemma create_first_intent:
  assumes "db_intents (ss_db s) = []"
  shows "\<exists>i t. create_intent env ev m conv route aid merged signal revision pid now job s = (Inr (), t)
    \<and> db_intents (ss_db t) = [i]"
proof (cases rule: create_intent_cases [of env ev m conv route aid merged signal revision pid now job s])
  case conflict
  then show ?thesis using assms by (simp add: intent_conflict_def)
next
  case (stored i f t u)
  then show ?thesis using assms by (auto simp: quiet_db_def)
qed

lemma create_intent_grows_table: "\<exists>new t. create_intent env ev m conv route aid merged signal revision pid now job s = (Inr (), t)
    \<and> db_intents (ss_db t) = db_intents (ss_db s) @ new"
proof (cases rule: create_intent_cases [of env ev m conv route aid merged signal revision pid now job s])
  case conflict
  then show ?thesis by simp
next
  case (stored i f t u)
  then show ?thesis by (auto simp: quiet_db_def)
qed

lemma each_create_intent: "\<exists>new t. each (create_intent env ev m conv route aid merged signal revision pid now) jobs s = (Inr (), t)
    \<and> db_intents (ss_db t) = db_intents (ss_db s) @ new"
proof (induction jobs arbitrary: s)
  case (Cons j jobs)
  obtain n t where 1: "create_intent env ev m conv route aid merged signal revision pid now j s = (Inr (), t)" "db_intents (ss_db t) = db_intents (ss_db s) @ n"
    using create_intent_grows_table by blast
  obtain n' u where 2: "each (create_intent env ev m conv route aid merged signal revision pid now) jobs t = (Inr (), u)" "db_intents (ss_db u) = db_intents (ss_db t) @ n'"
    using Cons.IH by blast
  show ?case using 1 2 by (simp add: chain_def)
qed simp

lemma publish_first:
  assumes "db_intents (ss_db s) = []" "ps_action signal = Open_market" "intent_legs_for_action (ps_action signal) (rt_fixed_lot route)
      (map dval (ps_take_profits signal)) (rt_take_profit_mode route) (rt_lot_distribution route) = l # ls"
  shows "\<exists>t. publish_intents env ev m conv route a signal revision pid now trades s = (Inr (), t) \<and> db_intents (ss_db t) \<noteq> []"
proof -
  have targets: "management_intent_targets Open_market trades (rt_id route) (conv_legacy_thread_id conv) (ps_symbol signal) = [None]"
    by (simp add: management_intent_targets_def copied_trade_management_actions_def)
  let ?ci = "create_intent env ev m conv route (asm_id a) (asm_context a) signal revision pid now"
  obtain j js where jobs: "intent_jobs (l # ls) [None] = j # js" by (simp add: intent_jobs_def enumerate_eq_zip upt_rec)
  obtain i t where 1: "?ci j s = (Inr (), t)" "db_intents (ss_db t) = [i]" using create_first_intent [OF assms(1)] by blast
  obtain n u where 2: "each ?ci js t = (Inr (), u)" "db_intents (ss_db u) = [i] @ n" using each_create_intent 1(2) by metis
  show ?thesis
    using assms(2,3) targets jobs 1 2 by (simp add: publish_intents_def chain_def on_db_def activity_def)
qed

section \<open>A sample run\<close>

text \<open>One channel, one active route and one message that opens a trade with two targets.\<close>

definition sample_env :: signal_env where
  "sample_env = \<lparr>se_global_paused = False, se_confidence_threshold = 1 / 2, se_rnd = \<lambda>n. of_nat (n + 100),
     se_deterministic_parse = \<lambda>t. Some (status_only_action \<lparr>ai_action := Open_market, ai_symbol := Some ''XAUUSD'',
       ai_direction := Some ''buy'', ai_stop_loss := Some (Dec 2640 0), ai_take_profits := [Dec 2660 0, Dec 2670 0],
       ai_confidence := 1\<rparr>),
     se_ai = \<lambda>_ _. value_error ''unused'', se_segment = \<lambda>us. concat (map uuid_hex us), se_sha256 = \<lambda>_ _. ''h''\<rparr>"

definition sample_route :: copy_route where
  "sample_route = \<lparr>rt_id = 1, rt_user_id = 5, rt_source_id = 2, rt_target_connection_id = Some 4, rt_magic_number = 11,
     rt_state = Route_active, rt_paused_from_state = None, rt_fixed_lot = 1 / 10, rt_take_profit_mode = TP_all,
     rt_lot_distribution = Fixed_each, rt_pending_orders_enabled = True, rt_minimum_fields = Direction_symbol_sl_tp,
     rt_assembly_window_seconds = None, rt_process_all_group_authors = False, rt_notify_success = True,
     rt_notify_failure = True, rt_semantic_duplicate_window_seconds = 30, rt_allow_sl_tp_updates = True,
     rt_allow_break_even = True, rt_allow_additional_tp = True, rt_allow_partial_close = True,
     rt_allow_full_close = True, rt_allow_pending_cancel = True,
     rt_unsafe_minimum_confirmed_at = None\<rparr>"

definition sample_policy :: copy_account_policy where
  "sample_policy = \<lparr>cap_id = 9, cap_user_id = 5, cap_connection_id = Some 4, cap_max_lot = 100, cap_max_lot_per_trade = 100,
     cap_max_open_positions = 100, cap_daily_loss_limit = None, cap_max_drawdown_percent = None, cap_allowed_symbols = [],
     cap_blocked_symbols = [], cap_market_signal_max_age_seconds = 30, cap_max_spread_points = None,
     cap_max_slippage_points = None, cap_max_quote_age_seconds = 10, cap_high_spread_behavior = ''reject'',
     cap_trading_start_hour_utc = None, cap_trading_end_hour_utc = None, cap_daily_equity_anchor = None,
     cap_daily_equity_anchor_date = None, cap_peak_equity = None, cap_is_paused = False\<rparr>"

definition sample_db :: db where
  "sample_db = empty_db \<lparr>db_sources := [\<lparr>src_id = 2, src_user_id = 5, src_connection_id = 3, src_telegram_chat_id = 70,
     src_source_type = Src_channel, src_state = Source_active, src_is_paused = False\<rparr>], db_routes := [sample_route], db_policies := [sample_policy]\<rparr>"

definition sample_session :: session where
  "sample_session = \<lparr>ss_db = sample_db, ss_events = [], ss_keys = Map.empty, ss_draws = 0\<rparr>"

definition sample_message :: copy_event where
  "sample_message = new_event 50 1000000 S_telegram_messages ''message.created'' ''c''
     [(''connection_id'', PStr (str_uuid 3)), (''source_id'', PStr (str_uuid 2)), (''chat_id'', PInt 70),
      (''message_id'', PInt 7), (''reply_to_message_id'', PNone), (''sender_is_admin'', PBool False),
      (''text'', PStr ''BUY GOLD''), (''occurred_at'', PTime 0)] ''k''"

definition sample_tm :: telegram_message where
  "sample_tm = \<lparr>tm_connection_id = str_uuid 3, tm_source_id = 2, tm_chat_id = 70, tm_message_id = 7,
     tm_reply_to_message_id = None, tm_sender_is_admin = False, tm_text = ''BUY GOLD'', tm_occurred_at = PTime 0\<rparr>"

lemma sample_message_of: "message_of (ev_payload sample_message) = Inr sample_tm"
  by (simp add: message_of_def sample_message_def new_event_def str_item_def int_item_def dict_item_def dict_get_def
      truthy_def sample_tm_def)

definition sample_parsed :: ai_action where
  "sample_parsed = status_only_action \<lparr>ai_action := Open_market, ai_symbol := Some ''XAUUSD'',
       ai_direction := Some ''buy'', ai_stop_loss := Some (Dec 2640 0), ai_take_profits := [Dec 2660 0, Dec 2670 0],
       ai_confidence := 1\<rparr>"

lemma sample_parse: "parse_message sample_env t c = Inr sample_parsed"
  by (simp add: parse_message_def sample_env_def sample_parsed_def)

definition sample_context :: dict where "sample_context = [(''action'', PStr ''open_market''), (''symbol'', PStr ''XAUUSD''), (''direction'', PStr ''buy''), (''stop_loss'', PDec (Dec 2640 0)),
   (''take_profits'', PList [PDec (Dec 2660 0), PDec (Dec 2670 0)]), (''confidence'', PNum 1)]"

lemma sample_merge: "merge_generation_context sample_context (model_dump sample_parsed) False = sample_context"
  by code_simp

definition sample_signal :: parsed_signal where "sample_signal = \<lparr>ps_action = Open_market, ps_symbol = Some ''XAUUSD'', ps_direction = Some ''buy'', ps_entry = None,
  ps_entry_high = None, ps_stop_loss = Some (Dec 2640 0), ps_take_profits = [Dec 2660 0, Dec 2670 0], ps_close_fraction = None,
  ps_age_seconds = 2, ps_confidence = 1\<rparr>"

lemma sample_signal_of: "signal_of_context sample_context (message_age sample_tm 2000000) 1 = Inr sample_signal"
  by code_simp

lemma sample_accepted: "vr_accepted (validate_signal sample_signal (execution_policy sample_env sample_route sample_policy))"
  by code_simp

lemma sample_risk: "ensure_account_risk_within_limits (signal_risk_input sample_policy [] sample_signal v) = Inr ()" if "v = 2/10"
  unfolding that by code_simp

lemma sample_source_row: "get_source sample_db 2 = Some \<lparr>src_id = 2, src_user_id = 5, src_connection_id = 3, src_telegram_chat_id = 70,
     src_source_type = Src_channel, src_state = Source_active, src_is_paused = False\<rparr>"
  by (simp add: get_source_def row_get_def sample_db_def)

lemma sample_handle: "handle_message sample_env sample_message sample_tm now sample_session =
   chain (create_conversation sample_env sample_message sample_tm sample_parsed [sample_route] now sample_session)
     (update_conversation sample_env sample_message sample_tm sample_parsed [sample_route] False now)"
proof -
  have "active_routes sample_db \<lparr>src_id = 2, src_user_id = 5, src_connection_id = 3, src_telegram_chat_id = 70,
     src_source_type = Src_channel, src_state = Source_active, src_is_paused = False\<rparr> sample_tm = [sample_route]" by code_simp
  moreover have "choose_for_message sample_message sample_tm sample_parsed [] = conversation_choice_of None False" by code_simp
  moreover have "active_conversations sample_db 2 = []" "db_conversations sample_db = []" by (simp_all add: active_conversations_def sample_db_def empty_db_def)
  moreover have "ai_action sample_parsed = Open_market" "tm_source_id sample_tm = 2" by (simp_all add: sample_parsed_def sample_tm_def)
  ultimately show ?thesis
    by (simp add: handle_message_def sample_source_row sample_parse sample_session_def scalar_one_or_none_def Let_def)
qed

definition sample_conv :: signal_conversation where "sample_conv = \<lparr>conv_id = 101, conv_source_id = 2, conv_legacy_thread_id = 100,
           conv_correlation_id = ''c'', conv_state = Conv_active,
           conv_reply_root_message_id = Some 7,
           conv_explicit_reference = None, conv_symbol = Some ''XAUUSD'',
           conv_direction = Some ''buy'', conv_context = [], conv_last_message_id = 7,
           conv_last_message_revision = 1, conv_updated_at = 2000000\<rparr>"

lemma sample_create_conversation: "\<exists>t. create_conversation sample_env sample_message sample_tm sample_parsed [sample_route] 2000000 sample_session = (Inr sample_conv, t)
   \<and> same_setup sample_db (ss_db t) \<and> db_assemblies (ss_db t) = [] \<and> db_actions (ss_db t) = [] \<and> db_intents (ss_db t) = [] \<and> ss_keys t = Map.empty"
  by (simp add: create_conversation_def draw_def on_db_def Let_def sample_session_def sample_db_def empty_db_def same_setup_def sample_conv_def
    sample_env_def sample_message_def new_event_def sample_tm_def sample_parsed_def status_only_action_def)

lemma sample_absorb: "conv_context (absorb_into_conversation sample_message sample_tm (model_dump sample_parsed) 2000000 sample_conv) = sample_context"
  by code_simp


lemma sample_reads:
  assumes "same_setup sample_db d"
  shows "policy_for d (Some 4) = Inr (Some sample_policy)" "route_paused d sample_route (Some sample_policy) = False"
    "active_trades_on d (Some 4) = []"
proof -
  have "policy_for sample_db (Some 4) = Inr (Some sample_policy)"
    by (simp add: policy_for_def sample_db_def sample_policy_def scalar_one_or_none_def)
  moreover have "\<not> route_paused sample_db sample_route (Some sample_policy)"
    by (simp add: route_paused_def sample_db_def empty_db_def get_settings_def row_get_def sample_policy_def)
  moreover have "active_trades_on sample_db (Some 4) = []"
    by (simp add: active_trades_on_def sample_db_def empty_db_def)
  ultimately show "policy_for d (Some 4) = Inr (Some sample_policy)" "route_paused d sample_route (Some sample_policy) = False"
    "active_trades_on d (Some 4) = []"
    using same_setup_reads [OF assms] by simp_all
qed

lemma sample_legs: "length (intent_legs_for_action (ps_action sample_signal) (rt_fixed_lot sample_route)
      (map dval (ps_take_profits sample_signal)) (rt_take_profit_mode sample_route) (rt_lot_distribution sample_route)) = 2"
  by code_simp

lemma sample_decide:
  assumes "same_setup sample_db (ss_db s)" "db_intents (ss_db s) = []" "ss_keys s = Map.empty"
  shows "\<exists>t. decide_route sample_env ev m conv sample_route sample_policy a sample_signal
      (validate_signal sample_signal (execution_policy sample_env sample_route sample_policy)) revision pid now s = (Inr (), t)
      \<and> db_intents (ss_db t) \<noteq> []"
proof -
  obtain l ls where legs: "intent_legs_for_action (ps_action sample_signal) (rt_fixed_lot sample_route)
      (map dval (ps_take_profits sample_signal)) (rt_take_profit_mode sample_route) (rt_lot_distribution sample_route) = l # ls"
    using sample_legs by (metis length_0_conv neq_Nil_conv zero_neq_numeral)
  obtain k w where nx: "claim_signal sample_env sample_route (asm_context a) now s = (True, s \<lparr>ss_keys := [k \<mapsto> w]\<rparr>)"
    using assms(3) by (simp add: claim_signal_def set_nx_def sample_route_def)
  have vol: "signal_volume_for_action (ps_action sample_signal) (rt_fixed_lot sample_route) (length (ps_take_profits sample_signal))
    (rt_take_profit_mode sample_route) (rt_lot_distribution sample_route) = 2 / 10"
    by code_simp
  have tgt: "rt_target_connection_id sample_route = Some 4" by (simp add: sample_route_def)
  have "ps_action sample_signal = Open_market" by (simp add: sample_signal_def)
  with publish_first [of "s \<lparr>ss_keys := [k \<mapsto> w]\<rparr>" sample_signal sample_route, OF _ _ legs] assms(2)
  obtain t where "publish_intents sample_env ev m conv sample_route a sample_signal revision pid now [] (s \<lparr>ss_keys := [k \<mapsto> w]\<rparr>) = (Inr (), t)"
     "db_intents (ss_db t) \<noteq> []" by fastforce
  then show ?thesis
    using sample_reads [OF assms(1)] sample_accepted sample_risk [OF refl] nx
    by (simp add: decide_route_def vol tgt)
qed

lemma sample_assemble:
  assumes "same_setup sample_db (ss_db s)" "db_intents (ss_db s) = []" "ss_keys s = Map.empty" "db_actions (ss_db s) = []"
     "asm_context a = sample_context" "asm_opening_intent_id a = None"
  shows "\<exists>t. assemble_route sample_env ev sample_tm conv sample_parsed (model_dump sample_parsed) 2000000 sample_route (Some sample_policy) a s = (Inr (), t)
      \<and> db_intents (ss_db t) \<noteq> []"
proof -
  define a' where "a' = absorb_into_assembly sample_tm (model_dump sample_parsed) a"
  have ctx: "asm_context a' = sample_context" using assms(5,6) sample_merge by (simp add: a'_def absorb_into_assembly_def Let_def)
  have conf: "ai_confidence sample_parsed = 1" by (simp add: sample_parsed_def)
  define v where "v = validate_signal sample_signal (execution_policy sample_env sample_route sample_policy)"
  define s1 where "s1 = on_db (put_assembly a') s"
  obtain pid t where t: "add_parsed_action sample_env conv sample_route sample_tm a' sample_signal (message_revision sample_tm (asm_message_references a)) v s1 = (Inr pid, t)"
     "same_setup (ss_db s) (ss_db t)" "db_intents (ss_db t) = []" "ss_keys t = Map.empty"
    using assms by (simp add: add_parsed_action_def draw_def s1_def on_db_def put_assembly_def same_setup_def)
  have "same_setup sample_db (ss_db t)" using assms(1) t(2) same_setup_trans by blast
  from sample_decide [OF this t(3,4), folded v_def] show ?thesis
    using sample_signal_of t(1) by (simp add: assemble_route_def a'_def [symmetric] ctx conf s1_def [symmetric] v_def [symmetric] Let_def chain_def)
qed

lemma sample_process:
  assumes "same_setup sample_db (ss_db s)" "db_intents (ss_db s) = []" "ss_keys s = Map.empty" "db_actions (ss_db s) = []"
     "db_assemblies (ss_db s) = []" "conv_context conv = sample_context"
  shows "\<exists>t. process_route sample_env ev sample_tm conv sample_parsed (model_dump sample_parsed) 2000000 sample_route s = (Inr (), t)
      \<and> db_intents (ss_db t) \<noteq> []"
proof -
  obtain a t where t: "open_assembly sample_env conv sample_route 2000000 s = (Inr a, t)"
     "same_setup (ss_db s) (ss_db t)" "db_intents (ss_db t) = []" "ss_keys t = Map.empty"  "db_actions (ss_db t) = []" 
     "asm_context a = sample_context" "asm_opening_intent_id a = None"
    using assms by (simp add: open_assembly_def find_assembly_def scalar_one_or_none_def draw_def Let_def on_db_def same_setup_def)
  have tgt: "rt_target_connection_id sample_route = Some 4" by (simp add: sample_route_def)
  have "same_setup sample_db (ss_db t)" using assms(1) t(2) same_setup_trans by blast
  from sample_assemble [OF this t(3-7)] show ?thesis
    using sample_reads [OF assms(1)] t(1) by (simp add: process_route_def tgt chain_def)
qed

lemma sample_run: "\<exists>s'. signal_handler sample_env True 2000000 sample_message sample_session = (Inr delivery_success, s')
   \<and> db_intents (ss_db s') \<noteq> []"
proof -
  obtain t where t: "create_conversation sample_env sample_message sample_tm sample_parsed [sample_route] 2000000 sample_session = (Inr sample_conv, t)"
   "same_setup sample_db (ss_db t)" "db_assemblies (ss_db t) = []" "db_actions (ss_db t) = []" "db_intents (ss_db t) = []" "ss_keys t = Map.empty"
    using sample_create_conversation by blast
  define conv where "conv = absorb_into_conversation sample_message sample_tm (model_dump sample_parsed) 2000000 sample_conv"
  have upd: "parsed_update_for sample_message False sample_parsed sample_conv = model_dump sample_parsed" by (simp add: parsed_update_for_def)
  define u where "u = on_db (\<lambda>d. absorb_into_thread sample_tm conv (put_conversation conv d)) t"
  have u: "same_setup sample_db (ss_db u)" "db_assemblies (ss_db u) = []" "db_actions (ss_db u) = []" "db_intents (ss_db u) = []" "ss_keys u = Map.empty"
    using t by (simp_all add: u_def on_db_def absorb_into_thread_def put_conversation_def put_thread_def same_setup_def split: option.split)
  obtain w where w: "process_route sample_env sample_message sample_tm conv sample_parsed (model_dump sample_parsed) 2000000 sample_route u = (Inr (), w)"
     "db_intents (ss_db w) \<noteq> []" using sample_process [OF u(1,4,5,3,2)] sample_absorb by (metis conv_def)
  have "handle_message sample_env sample_message sample_tm 2000000 sample_session = (Inr delivery_success, w)"
    using w(1) t(1) by (simp add: sample_handle chain_def update_conversation_def upd conv_def [symmetric] u_def [symmetric] Let_def)
  moreover have "ev_event_type sample_message = ''message.created''" "\<not> se_global_paused sample_env"
    by (simp_all add: sample_message_def new_event_def sample_env_def)
  ultimately show ?thesis using sample_message_of w(2) by (simp add: signal_handler_def)
qed

section \<open>Properties\<close>

text \<open>
  Property C3. Every intent the signal worker stores is authorised: it stems from a created or
  edited message handled while copying is not paused globally, for an active route of the
  message's source that accepts its author, with neither the source, the user nor the account
  policy paused, an accepted parsed action behind it, and a volume that passed the account limits;
  it is stored as created, for the route's own user and account.
\<close>

theorem signal_handler_authorised:
  assumes "signal_handler env lock_free now ev s = (r, s')"
    and "i \<in> set (db_intents (ss_db s'))" "i \<notin> set (db_intents (ss_db s))"
  shows "\<exists>m. message_of (ev_payload ev) = Inr m \<and> authorised env m (ss_db s') i \<and> same_setup (ss_db s) (ss_db s')
    \<and> \<not> se_global_paused env \<and> lock_free \<and> ev_event_type ev \<in> {''message.created'', ''message.edited''}"
  using assms(1)
proof (cases rule: signal_handler_cases)
  case (handled m x)
  have "grows env m s s'" using grows_handle_message [of env m s ev now] handled by simp
  with handled assms(2,3) show ?thesis by (auto simp: grows_def)
qed (use assms handle_deleted_quiet in auto)

theorem signal_handler_authorised_witness:
  "\<exists>s' i. signal_handler sample_env True 2000000 sample_message sample_session = (Inr delivery_success, s')
     \<and> i \<in> set (db_intents (ss_db s')) \<and> authorised sample_env sample_tm (ss_db s') i"
proof -
  obtain s' where run: "signal_handler sample_env True 2000000 sample_message sample_session = (Inr delivery_success, s')"
     "db_intents (ss_db s') \<noteq> []" using sample_run by blast
  then obtain i where i: "i \<in> set (db_intents (ss_db s'))" using hd_in_set by blast
  moreover have "i \<notin> set (db_intents (ss_db sample_session))" by (simp add: sample_session_def sample_db_def empty_db_def)
  ultimately show ?thesis using signal_handler_authorised [OF run(1)] run(1) sample_message_of by fastforce
qed

text \<open>
  Storing and publishing agree: a run that ends normally appends intents to the table
  and events to the execution stream one for one and in the same order, each event naming its
  intent and carrying its idempotency key. A run that raises leaves the database as it was.
\<close>

theorem signal_handler_publishes:
  assumes "signal_handler env lock_free now ev s = (r, s')"
  shows "(is_ok r \<longrightarrow> (\<exists>new evs. db_intents (ss_db s') = db_intents (ss_db s) @ new
      \<and> ss_events s' = ss_events s @ evs \<and> list_all2 announces evs new))
    \<and> (\<not> is_ok r \<longrightarrow> ss_db s' = ss_db s)"
  using assms
proof (cases rule: signal_handler_cases)
  case (handled m x)
  have "grows env m s s'" using grows_handle_message [of env m s ev now] handled by simp
  with handled show ?thesis by (auto simp: grows_def)
qed (use handle_deleted_quiet in auto)

theorem signal_handler_publishes_witness:
  "\<exists>s' new evs. signal_handler sample_env True 2000000 sample_message sample_session = (Inr delivery_success, s')
     \<and> new \<noteq> [] \<and> db_intents (ss_db s') = new \<and> ss_events s' = evs \<and> list_all2 announces evs new"
proof -
  obtain s' where run: "signal_handler sample_env True 2000000 sample_message sample_session = (Inr delivery_success, s')"
     "db_intents (ss_db s') \<noteq> []" using sample_run by blast
  show ?thesis using signal_handler_publishes [OF run(1)] run by (auto simp: is_ok_def sample_session_def sample_db_def empty_db_def)
qed

end
