(* ===== verification/Signal_Invariant.thy ===== *)
theory Signal_Invariant
  imports Signal_Properties
begin

text \<open>
  The invariant of the signal worker's tables over any sequence of its steps: intents have their own
  identifier and idempotency key, generations their own number, and a route assembles at most one
  generation of a conversation at a time. The last part is the property of the expiry sweep.
\<close>

section \<open>Invariant and steps\<close>

definition generation_key :: "route_signal_assembly \<Rightarrow> uuid \<times> uuid \<times> int" where
  "generation_key a = (asm_conversation_id a, asm_route_id a, asm_generation a)"

definition same_slot :: "route_signal_assembly \<Rightarrow> route_signal_assembly \<Rightarrow> bool" where
  "same_slot a b \<longleftrightarrow> asm_conversation_id a = asm_conversation_id b \<and> asm_route_id a = asm_route_id b"

definition one_active :: "route_signal_assembly list \<Rightarrow> bool" where
  "one_active as \<longleftrightarrow> (\<forall>a \<in> set as. \<forall>b \<in> set as. active_assembly_state (asm_state a) \<longrightarrow>
     active_assembly_state (asm_state b) \<longrightarrow> same_slot a b \<longrightarrow> a = b)"

definition signal_tables_ok :: "db \<Rightarrow> bool" where
  "signal_tables_ok d \<longleftrightarrow> distinct (map ti_id (db_intents d)) \<and> distinct (map ti_idempotency_key (db_intents d))
     \<and> distinct (map asm_id (db_assemblies d)) \<and> distinct (map generation_key (db_assemblies d))
     \<and> one_active (db_assemblies d)"

text \<open>What the worker processes do to the tables: a delivered event, the expiry sweep, a resolved opening.\<close>

inductive worker_step :: "session \<Rightarrow> session \<Rightarrow> bool" where
  handle: "signal_handler env lock_free now ev s = (r, t) \<Longrightarrow> worker_step s t"
| expire: "worker_step s (s \<lparr>ss_db := fst (expire_signal_threads now (ss_db s))\<rparr>)"
| resolve: "worker_step s (on_db (resolve_opening_generation i pa failure now) s)"

inductive_cases worker_stepE: "worker_step s t"

section \<open>Lemmas\<close>

definition live :: "uuid \<Rightarrow> db \<Rightarrow> bool" where
  "live aid d \<longleftrightarrow> (\<exists>a. get_assembly d aid = Some a \<and> active_assembly_state (asm_state a))"

lemma put_assembly_ok:
  assumes ok: "signal_tables_ok d" and a: "get_assembly d (asm_id b) = Some a"
    and same: "generation_key b = generation_key a"
    and act: "active_assembly_state (asm_state b) \<Longrightarrow> active_assembly_state (asm_state a)"
  shows "signal_tables_ok (put_assembly b d)"
proof -
  have a_in: "a \<in> set (db_assemblies d)" "asm_id a = asm_id b" using assemblies.get_Some [OF a] by simp_all
  have only: "x = a" if "x \<in> set (db_assemblies d)" "asm_id x = asm_id b" for x
    using ok that a_in by (auto simp: signal_tables_ok_def distinct_map inj_on_def)
  have rows: "db_assemblies (put_assembly b d) = map (\<lambda>x. if asm_id x = asm_id b then b else x) (db_assemblies d)"
    by (simp add: put_assembly_def row_put_def)
  have "map generation_key (db_assemblies (put_assembly b d)) = map generation_key (db_assemblies d)"
    unfolding rows using only same by (auto simp: comp_def)
  moreover have "one_active (db_assemblies (put_assembly b d))"
    unfolding one_active_def
  proof (intro ballI impI)
    fix x y
    assume xy: "x \<in> set (db_assemblies (put_assembly b d))" "y \<in> set (db_assemblies (put_assembly b d))"
      and act': "active_assembly_state (asm_state x)" "active_assembly_state (asm_state y)" "same_slot x y"
    have origin: "\<exists>x0 \<in> set (db_assemblies d). x = (if asm_id x0 = asm_id b then b else x0)
        \<and> active_assembly_state (asm_state x0) \<and> same_slot x x0"
      if x: "x \<in> set (db_assemblies (put_assembly b d))" "active_assembly_state (asm_state x)" for x
    proof -
      obtain x0 where x0: "x0 \<in> set (db_assemblies d)" "x = (if asm_id x0 = asm_id b then b else x0)"
        using x(1) unfolding rows by auto
      show ?thesis
      proof (cases "asm_id x0 = asm_id b")
        case True
        with x0 only have "x0 = a" "x = b" by simp_all
        with x0 True act x(2) same show ?thesis
          by (intro bexI [of _ x0]) (simp_all add: same_slot_def generation_key_def)
      qed (use x0 x in \<open>auto simp: same_slot_def\<close>)
    qed
    obtain x0 y0 where o: "x0 \<in> set (db_assemblies d)" "x = (if asm_id x0 = asm_id b then b else x0)"
        "active_assembly_state (asm_state x0)" "same_slot x x0"
        "y0 \<in> set (db_assemblies d)" "y = (if asm_id y0 = asm_id b then b else y0)"
        "active_assembly_state (asm_state y0)" "same_slot y y0"
      using origin [OF xy(1) act'(1)] origin [OF xy(2) act'(2)] by blast
    moreover have "same_slot x0 y0" using o(4,8) act'(3) by (simp add: same_slot_def)
    ultimately have "x0 = y0" using ok by (auto simp: signal_tables_ok_def one_active_def)
    with o show "x = y" by simp
  qed
  ultimately show ?thesis
    using ok assemblies.keys_put [of b d] by (simp add: signal_tables_ok_def step_simps)
qed

lemma put_assembly_inactive_ok:
  assumes "signal_tables_ok d" "get_assembly d (asm_id b) = Some a" "generation_key b = generation_key a"
    "\<not> active_assembly_state (asm_state b)"
  shows "signal_tables_ok (put_assembly b d)"
  using put_assembly_ok [OF assms(1-3)] assms(4) by blast

text \<open>Database functions that touch neither intents nor assemblies.\<close>

definition apart :: "(db \<Rightarrow> db) \<Rightarrow> bool" where
  "apart f \<longleftrightarrow> (\<forall>d. db_intents (f d) = db_intents d \<and> db_assemblies (f d) = db_assemblies d)"

lemma apart_ok [simp]: "apart f \<Longrightarrow> signal_tables_ok (f d) = signal_tables_ok d"
  by (simp add: apart_def signal_tables_ok_def)

lemma apart_live [simp]: "apart f \<Longrightarrow> live aid (f d) = live aid d"
  by (simp add: apart_def live_def get_assembly_def)

lemma apart_basic [simp]:
  "apart (activity r c a t l)" "apart (put_conversation v)" "apart (put_thread th)" "apart (absorb_into_thread m v)"
  by (auto simp: apart_def activity_def put_conversation_def put_thread_def absorb_into_thread_def split: option.split)

lemma apart_comp: "apart f \<Longrightarrow> apart g \<Longrightarrow> apart (\<lambda>d. f (g d))"
  by (simp add: apart_def)

lemma apart_log [simp]: "apart (log_for_routes rs c a t)"
proof -
  have "apart (fold (\<lambda>r d. activity r c a t Level_info d) rs)"
    by (induction rs) (auto simp: apart_def activity_def)
  then show ?thesis by (simp add: apart_def log_for_routes_def)
qed

text \<open>The relation of a step that keeps the invariant.\<close>

definition keeps :: "session \<Rightarrow> session \<Rightarrow> bool" where
  "keeps s t \<longleftrightarrow> (signal_tables_ok (ss_db s) \<longrightarrow> signal_tables_ok (ss_db t))"

interpretation kept: session_preorder keeps
  by unfold_locales (auto simp: keeps_def)

lemma keeps_on_db: "apart f \<Longrightarrow> keeps s (on_db f s)"
  by (simp add: keeps_def on_db_def)

lemma set_assembly_state_ok:
  assumes "signal_tables_ok d" "\<not> active_assembly_state st"
  shows "signal_tables_ok (set_assembly_state aid st d)"
proof (cases "get_assembly d aid")
  case None
  with assms show ?thesis by (simp add: set_assembly_state_def)
next
  case (Some a)
  then have "asm_id a = aid" using assemblies.get_Some by blast
  with Some assms show ?thesis
    by (auto simp: set_assembly_state_def generation_key_def intro!: put_assembly_inactive_ok)
qed

lemma keeps_skip: "keeps s (snd (skip_assembly route conv aid a t l s))"
  by (auto simp: skip_assembly_def keeps_def on_db_def active_assembly_state_def intro: set_assembly_state_ok)

lemma keeps_create_intent:
  assumes "live aid (ss_db s)"
  shows "keeps s (snd (create_intent env ev m conv route aid merged signal revision pid now job s))
    \<and> live aid (ss_db (snd (create_intent env ev m conv route aid merged signal revision pid now job s)))"
proof (cases rule: create_intent_cases [of env ev m conv route aid merged signal revision pid now job s])
  case conflict
  then show ?thesis using assms by (simp add: keeps_def)
next
  case (stored i f t u)
  define d where "d = (ss_db s) \<lparr>db_intents := db_intents (ss_db s) @ [i]\<rparr>"
  have ok: "signal_tables_ok d" if "signal_tables_ok (ss_db s)"
    using that stored(2) by (auto simp: signal_tables_ok_def d_def intent_conflict_def list_ex_iff)
  obtain a where a: "get_assembly d aid = Some a" "active_assembly_state (asm_state a)"
    using assms by (auto simp: live_def d_def get_assembly_def)
  then have aid: "asm_id (mark_generation_submitted a (ti_id i) now) = aid"
    using assemblies.get_Some by (fastforce simp: mark_generation_submitted_def)
  let ?b = "mark_generation_submitted a (ti_id i) now"
  have "signal_tables_ok d \<Longrightarrow> signal_tables_ok (put_assembly ?b d)"
    using put_assembly_ok [of d ?b a] a aid by (simp add: generation_key_def mark_generation_submitted_def)
  moreover have "live aid (put_assembly ?b d)"
    using assemblies.get_put [of d aid ?b] a aid
    by (auto simp: live_def mark_generation_submitted_def active_assembly_state_def)
  moreover have "live aid d" using a by (auto simp: live_def)
  moreover have "ss_db t = d \<or> ss_db t = put_assembly ?b d" using stored(4,6) a(1) by (auto simp: d_def)
  ultimately show ?thesis using ok stored(5) by (auto simp: keeps_def)
qed

lemma keeps_publish_intents:
  assumes "live (asm_id a) (ss_db s)"
  shows "keeps s (snd (publish_intents env ev m conv route a signal revision pid now trades s))"
proof -
  let ?ci = "create_intent env ev m conv route (asm_id a) (asm_context a) signal revision pid now"
  have "keeps s (snd (each ?ci jobs s))" for jobs
    using kept.R_each [where P = "\<lambda>s. live (asm_id a) (ss_db s)" and s = s and xs = jobs and f = ?ci]
      assms keeps_create_intent by blast
  then have "keeps s (snd (chain (each ?ci jobs s) (\<lambda>_ s. (Inr (), on_db (activity route c act title l) s))))"
    for jobs c act title l
    by (rule kept.R_chain) (simp add: keeps_on_db)
  then show ?thesis unfolding publish_intents_def Let_def by (simp add: keeps_skip)
qed

lemma claim_signal_db [simp]: "ss_db (snd (claim_signal env route merged now s)) = ss_db s"
  by (simp add: claim_signal_def set_nx_def Let_def split: option.split)

lemma keeps_decide_route:
  assumes "live (asm_id a) (ss_db s)"
  shows "keeps s (snd (decide_route env ev m conv route policy a signal v revision pid now s))"
proof -
  obtain free t where nx: "claim_signal env route (asm_context a) now s = (free, t)" by force
  then have t: "ss_db t = ss_db s" using claim_signal_db [of env route "asm_context a" now s] by simp
  then have st: "keeps s t" by (simp add: keeps_def)
  have pub: "keeps s (snd (publish_intents env ev m conv route a signal revision pid now trades t))" for trades
    using kept.R_trans [OF st keeps_publish_intents] assms t by simp
  have skip: "keeps s (snd (skip_assembly route conv aid act title l t))" for aid act title l
    by (rule kept.R_trans [OF st keeps_skip])
  show ?thesis
    unfolding decide_route_def Let_def nx
    by (simp add: keeps_on_db keeps_skip pub skip split: sum.split if_split)
qed

lemma keeps_assemble_route:
  assumes a: "get_assembly (ss_db s) (asm_id a) = Some a" "active_assembly_state (asm_state a)"
  shows "keeps s (snd (assemble_route env ev m conv parsed update now route row a s))"
proof -
  define b where "b = absorb_into_assembly m update a"
  define s1 where "s1 = on_db (put_assembly b) s"
  have b: "asm_id b = asm_id a" "generation_key b = generation_key a" "asm_state b = asm_state a"
    by (simp_all add: b_def absorb_into_assembly_def generation_key_def Let_def)
  have s1: "keeps s s1"
    using put_assembly_ok [of "ss_db s" b a] a b by (auto simp: keeps_def s1_def on_db_def)
  have live1: "live (asm_id b) (ss_db s1)"
    using assemblies.get_put [of "ss_db s" "asm_id b" b] a b by (auto simp: live_def s1_def on_db_def)
  have "keeps s1 (snd (chain (add_parsed_action env conv route m b signal revision v s1)
      (\<lambda>action_id. decide_route env ev m conv route policy b signal v revision action_id now)))" for signal revision v policy
  proof (rule kept.R_chain)
    show "keeps s1 (snd (add_parsed_action env conv route m b signal revision v s1))"
      by (simp add: add_parsed_action_def draw_def on_db_def keeps_def signal_tables_ok_def Let_def)
    fix pid t
    assume "add_parsed_action env conv route m b signal revision v s1 = (Inr pid, t)"
    then have "live (asm_id b) (ss_db t)"
      using live1 by (auto simp: add_parsed_action_def draw_def on_db_def live_def get_assembly_def Let_def split: if_splits)
    then show "keeps t (snd (decide_route env ev m conv route policy b signal v revision pid now t))"
      by (rule keeps_decide_route)
  qed
  note tail = this
  show ?thesis
    unfolding assemble_route_def Let_def b_def [symmetric] s1_def [symmetric]
    using s1 kept.R_trans [OF s1 tail] by (simp split: sum.split option.split)
qed

lemma max_list_upper: "x \<in> set xs \<Longrightarrow> x \<le> max_list_int xs e"
  by (auto simp: max_list_int_def)

text \<open>The generation a route works on: the active one, or a new one when there is none.\<close>

lemma open_assembly_ok:
  assumes ok: "signal_tables_ok (ss_db s)" and o: "open_assembly env conv route now s = (Inr a, t)"
  shows "signal_tables_ok (ss_db t) \<and> get_assembly (ss_db t) (asm_id a) = Some a \<and> active_assembly_state (asm_state a)"
proof (cases "find_assembly (ss_db s) (conv_id conv) (rt_id route)")
  case (Inl e)
  with o show ?thesis by (simp add: open_assembly_def)
next
  case (Inr found)
  define slot where "slot = (\<lambda>x :: route_signal_assembly. asm_conversation_id x = conv_id conv \<and> asm_route_id x = rt_id route)"
  show ?thesis
  proof (cases found)
    case (Some x)
    then have x: "filter (\<lambda>y. asm_conversation_id y = conv_id conv \<and> asm_route_id y = rt_id route
        \<and> active_assembly_state (asm_state y)) (db_assemblies (ss_db s)) = [x]"
      using Inr by (auto simp: find_assembly_def scalar_one_or_none_def split: list.splits)
    then have "x \<in> set (db_assemblies (ss_db s))" "active_assembly_state (asm_state x)"
      using filter_eq_ConsD [OF x] by auto
    with o Some Inr ok show ?thesis
      using assemblies.get_unique by (auto simp: open_assembly_def signal_tables_ok_def)
  next
    case None
    then have none: "\<not> active_assembly_state (asm_state y)" if "y \<in> set (db_assemblies (ss_db s))" "slot y" for y
      using Inr that by (auto simp: find_assembly_def scalar_one_or_none_def slot_def filter_empty_conv split: list.splits)
    have gen: "asm_generation y < next_generation (ss_db s) (conv_id conv) (rt_id route)"
      if "y \<in> set (db_assemblies (ss_db s))" "slot y" for y
      using that by (auto simp: next_generation_def slot_def intro!: max_list_upper)
    have t: "t = on_db (\<lambda>d. d \<lparr>db_assemblies := db_assemblies d @ [a]\<rparr>) (snd (draw env s))"
      and a: "slot a" "asm_generation a = next_generation (ss_db s) (conv_id conv) (rt_id route)"
        "asm_state a = Asm_assembling" "asm_id a \<notin> set (map asm_id (db_assemblies (ss_db s)))"
      using o Inr None by (auto simp: open_assembly_def draw_def Let_def slot_def split: if_splits)
    have fresh: "generation_key a \<notin> set (map generation_key (db_assemblies (ss_db s)))"
      using gen a(1,2) by (fastforce simp: generation_key_def slot_def)
    have "one_active (db_assemblies (ss_db s) @ [a])"
      using ok none a(1) unfolding signal_tables_ok_def one_active_def
      by (auto simp: same_slot_def slot_def)
    then have "signal_tables_ok (ss_db t)"
      using ok fresh a(4) by (simp add: signal_tables_ok_def t on_db_def)
    moreover have "get_assembly (ss_db t) (asm_id a) = Some a"
      using assemblies.get_unique [of "ss_db t" a] calculation by (simp add: signal_tables_ok_def t on_db_def)
    ultimately show ?thesis using a(3) by (simp add: active_assembly_state_def)
  qed
qed

lemma keeps_open_assembly: "keeps s (snd (open_assembly env conv route now s))"
proof (cases "open_assembly env conv route now s")
  case (Pair r t)
  show ?thesis
  proof (cases r)
    case (Inl e)
    with Pair have "ss_db t = ss_db s"
      by (auto simp: open_assembly_def draw_def Let_def split: sum.splits option.splits if_splits)
    with Pair show ?thesis by (simp add: keeps_def)
  next
    case (Inr a)
    with Pair open_assembly_ok show ?thesis by (auto simp: keeps_def)
  qed
qed

lemma keeps_process_route: "keeps s (snd (process_route env ev m conv parsed update now route s))"
proof -
  have "keeps s (snd (chain (open_assembly env conv route now s)
      (assemble_route env ev m conv parsed update now route row)))" for row
  proof (cases "signal_tables_ok (ss_db s)")
    case True
    show ?thesis
    proof (rule kept.R_chain [OF keeps_open_assembly])
      fix a t
      assume "open_assembly env conv route now s = (Inr a, t)"
      from open_assembly_ok [OF True this]
      show "keeps t (snd (assemble_route env ev m conv parsed update now route row a t))"
        by (intro keeps_assemble_route) simp_all
    qed
  qed (simp add: keeps_def)
  then show ?thesis by (simp add: process_route_def kept.R_refl split: sum.split)
qed

lemma keeps_update_conversation: "keeps s (snd (update_conversation env ev m parsed routes sub now conv s))"
proof -
  have "keeps s (snd (each (process_route env ev m conv' parsed update now) routes s))" for conv' update s
    using kept.R_each [where P = "\<lambda>_. True" and s = s and xs = routes] keeps_process_route by blast
  then have "keeps s (snd (chain (each (process_route env ev m conv' parsed update now) routes s)
      (\<lambda>_ s. (Inr delivery_success, s))))" for conv' update s
    by (rule kept.R_chain) (simp add: kept.R_refl)
  note loop = this
  have "apart (\<lambda>d. absorb_into_thread m v (put_conversation v d))" for v
    by (rule apart_comp) simp_all
  then show ?thesis
    unfolding update_conversation_def Let_def by (rule kept.R_trans [OF keeps_on_db loop])
qed

lemma keeps_handle_message: "keeps s (snd (handle_message env ev m now s))"
proof -
  have "keeps s (snd (create_conversation env ev m parsed routes now s))" for parsed routes
    by (simp add: create_conversation_def draw_def on_db_def keeps_def signal_tables_ok_def Let_def)
  then have "keeps s (snd (chain (create_conversation env ev m parsed routes now s)
      (update_conversation env ev m parsed routes sub now)))" for parsed routes sub
    by (rule kept.R_chain) (rule keeps_update_conversation)
  then show ?thesis
    unfolding handle_message_def Let_def
    by (simp add: kept.R_refl keeps_on_db keeps_update_conversation split: sum.split option.split)
qed

text \<open>Rows read before a loop, while the loop rewrites the table: each still has its slot.\<close>

definition tracks :: "route_signal_assembly list \<Rightarrow> db \<Rightarrow> bool" where
  "tracks as d \<longleftrightarrow> (\<forall>a \<in> set as. \<exists>x. get_assembly d (asm_id a) = Some x \<and> generation_key x = generation_key a)"

lemma apart_tracks [simp]: "apart f \<Longrightarrow> tracks as (f d) = tracks as d"
  by (simp add: apart_def tracks_def get_assembly_def)

lemma tracks_put:
  assumes "signal_tables_ok d" "tracks as d" "a \<in> set as" "asm_id b = asm_id a" "generation_key b = generation_key a"
    "\<not> active_assembly_state (asm_state b)"
  shows "signal_tables_ok (put_assembly b d) \<and> tracks as (put_assembly b d)"
proof -
  obtain x where x: "get_assembly d (asm_id b) = Some x" "generation_key x = generation_key b"
    using assms(2-5) by (auto simp: tracks_def)
  have "signal_tables_ok (put_assembly b d)"
    using put_assembly_inactive_ok [OF assms(1) x(1)] x(2) assms(6) by simp
  moreover have "tracks as (put_assembly b d)"
    unfolding tracks_def
  proof
    fix c
    assume "c \<in> set as"
    then obtain y where y: "get_assembly d (asm_id c) = Some y" "generation_key y = generation_key c"
      using assms(2) by (auto simp: tracks_def)
    with x assemblies.get_put [of d "asm_id c" b]
    show "\<exists>x. get_assembly (put_assembly b d) (asm_id c) = Some x \<and> generation_key x = generation_key c" by auto
  qed
  ultimately show ?thesis ..
qed

lemma tracks_self: "signal_tables_ok d \<Longrightarrow> set as \<subseteq> set (db_assemblies d) \<Longrightarrow> tracks as d"
  using assemblies.get_unique by (fastforce simp: tracks_def signal_tables_ok_def)

lemma fold_tracks:
  assumes "\<And>a d. a \<in> set xs \<Longrightarrow> signal_tables_ok d \<Longrightarrow> tracks as d \<Longrightarrow> signal_tables_ok (f a d) \<and> tracks as (f a d)"
    and "signal_tables_ok d" "tracks as d"
  shows "signal_tables_ok (fold f xs d) \<and> tracks as (fold f xs d)"
  using assms by (induction xs arbitrary: d) auto

lemma deleted_step_ok:
  assumes "signal_tables_ok d" "tracks as d" "a \<in> set as"
  shows "signal_tables_ok (deleted_step conv a mid d) \<and> tracks as (deleted_step conv a mid d)"
proof -
  have "signal_tables_ok (put_assembly (a \<lparr>asm_state := Asm_expired\<rparr>) d) \<and> tracks as (put_assembly (a \<lparr>asm_state := Asm_expired\<rparr>) d)"
    by (rule tracks_put [OF assms]) (simp_all add: generation_key_def active_assembly_state_def)
  with assms(1,2) show ?thesis by (simp add: deleted_step_def split: option.split)
qed

lemma handle_deleted_ok:
  assumes "signal_tables_ok d" "handle_deleted_message p d = Inr d'"
  shows "signal_tables_ok d'"
proof -
  have inner: "signal_tables_ok (fold (\<lambda>a d. deleted_step conv a mid d)
      (filter (\<lambda>a. asm_conversation_id a = conv_id conv) (db_assemblies d)) d)" if "signal_tables_ok d" for conv mid d
    by (rule fold_tracks [THEN conjunct1], rule deleted_step_ok) (auto intro: that tracks_self)
  have "signal_tables_ok (fold (\<lambda>conv d. fold (\<lambda>a d. deleted_step conv a mid d)
      (filter (\<lambda>a. asm_conversation_id a = conv_id conv) (db_assemblies d)) d) cs d)" if "signal_tables_ok d" for mid cs d
    using that by (induction cs arbitrary: d) (auto intro: inner)
  with assms show ?thesis by (auto simp: handle_deleted_message_def split: sum.splits)
qed

lemma apart_expire_conversation: "apart (expire_conversation now cid)"
  by (auto simp: apart_def expire_conversation_def Let_def put_conversation_def put_thread_def split: option.split)

lemma apart_fold: "(\<And>x. apart (f x)) \<Longrightarrow> apart (fold f xs)"
  by (induction xs) (simp_all add: apart_def)

lemma expire_assembly_eq: "\<exists>f. apart f \<and> expire_assembly now a d
    = put_assembly (mark_generation_expired a ''REQUIRED_DETAILS_TIMEOUT'' now) (f d) \<and> db_conversations (f d) = db_conversations d"
proof -
  have id: "apart (\<lambda>d. d)" by (simp add: apart_def)
  show ?thesis
  proof (cases "\<exists>r c. get_route d (asm_route_id a) = Some r \<and> get_conversation d (asm_conversation_id a) = Some c")
    case True
    then obtain r c where rc: "get_route d (asm_route_id a) = Some r" "get_conversation d (asm_conversation_id a) = Some c" by blast
    show ?thesis
      by (rule exI [of _ "activity r (conv_correlation_id c) ''signal.expired'' ''Incomplete signal expired'' Level_info"])
        (simp add: expire_assembly_def rc, simp add: activity_def)
  next
    case False
    then show ?thesis
      by (intro exI [of _ "\<lambda>d. d"]) (auto simp: expire_assembly_def id split: option.split)
  qed
qed

lemma expire_assembly_ok:
  assumes "signal_tables_ok d" "tracks as d" "a \<in> set as"
  shows "signal_tables_ok (expire_assembly now a d) \<and> tracks as (expire_assembly now a d)"
proof -
  obtain f where f: "apart f" "expire_assembly now a d
      = put_assembly (mark_generation_expired a ''REQUIRED_DETAILS_TIMEOUT'' now) (f d)" using expire_assembly_eq by blast
  show ?thesis unfolding f(2)
    by (rule tracks_put [OF _ _ assms(3)])
      (use f(1) assms in \<open>simp_all add: mark_generation_expired_def generation_key_def active_assembly_state_def\<close>)
qed

lemma expire_ok: "signal_tables_ok d \<Longrightarrow> signal_tables_ok (fst (expire_signal_threads now d))"
proof -
  assume ok: "signal_tables_ok d"
  have "signal_tables_ok (fold (expire_assembly now) (due_assemblies now d) d)"
    using fold_tracks [of "due_assemblies now d" "due_assemblies now d" "expire_assembly now" d]
      expire_assembly_ok ok tracks_self [OF ok] by (auto simp: due_assemblies_def)
  moreover have "apart (fold (expire_conversation now) xs)" for xs
    by (rule apart_fold) (rule apart_expire_conversation)
  ultimately show ?thesis by (simp add: expire_signal_threads_def Let_def)
qed

lemma resolve_ok: "signal_tables_ok d \<Longrightarrow> signal_tables_ok (resolve_opening_generation i pa failure now d)"
proof -
  assume ok: "signal_tables_ok d"
  have put: "signal_tables_ok (put_assembly b d)"
    if "get_assembly d k = Some a" "asm_id b = asm_id a" "generation_key b = generation_key a" "\<not> active_assembly_state (asm_state b)"
    for a b k
    using put_assembly_inactive_ok [OF ok, of b a] that assemblies.get_Some by metis
  show ?thesis
    using ok by (auto simp: resolve_opening_generation_def Let_def mark_generation_failed_def mark_generation_completed_def
        generation_key_def active_assembly_state_def split: option.split intro!: put)
qed

lemma worker_step_ok: "signal_tables_ok (ss_db s) \<Longrightarrow> worker_step s t \<Longrightarrow> signal_tables_ok (ss_db t)"
proof (erule worker_stepE)
  fix env lock_free now ev r
  assume ok: "signal_tables_ok (ss_db s)" and h: "signal_handler env lock_free now ev s = (r, t)"
  from h show "signal_tables_ok (ss_db t)"
  proof (cases rule: signal_handler_cases)
    case (handled m x)
    with ok keeps_handle_message [of s env ev m now] show ?thesis by (simp add: keeps_def)
  qed (use ok handle_deleted_ok in auto)
qed (use expire_ok resolve_ok in \<open>auto simp: on_db_def\<close>)

interpretation worker: invariant_system "\<lambda>s. db_intents (ss_db s) = [] \<and> db_assemblies (ss_db s) = []" worker_step
  "\<lambda>s. signal_tables_ok (ss_db s)"
proof
  fix s
  assume "db_intents (ss_db s) = [] \<and> db_assemblies (ss_db s) = []"
  then show "signal_tables_ok (ss_db s)" by (simp add: signal_tables_ok_def one_active_def)
qed (rule worker_step_ok)

subsection \<open>The expiry sweep\<close>

lemma expire_assemblies_rows:
  assumes "\<And>x. x \<in> set xs \<Longrightarrow> get_assembly d (asm_id x) = Some x" "distinct (map asm_id xs)"
    "distinct (map asm_id (db_assemblies d))"
  shows "db_assemblies (fold (expire_assembly now) xs d) = map (\<lambda>a. if asm_id a \<in> asm_id ` set xs
      then mark_generation_expired a ''REQUIRED_DETAILS_TIMEOUT'' now else a) (db_assemblies d)
    \<and> db_conversations (fold (expire_assembly now) xs d) = db_conversations d"
  using assms
proof (induction xs arbitrary: d)
  case (Cons x xs)
  define b where "b = mark_generation_expired x ''REQUIRED_DETAILS_TIMEOUT'' now"
  have bid: "asm_id b = asm_id x" by (simp add: b_def mark_generation_expired_def)
  define d1 where "d1 = expire_assembly now x d"
  have d1: "db_assemblies d1 = row_put asm_id b (db_assemblies d)" "db_conversations d1 = db_conversations d"
    using expire_assembly_eq [of now x d] by (auto simp: d1_def b_def put_assembly_def apart_def)
  have row: "y = x" if "y \<in> set (db_assemblies d)" "asm_id y = asm_id x" for y
    using that Cons.prems(1) [of x] Cons.prems(3) assemblies.get_Some [of d "asm_id x" x]
    by (auto simp: distinct_map inj_on_def)
  have d1': "db_assemblies d1 = map (\<lambda>a. if asm_id a = asm_id x then b else a) (db_assemblies d)"
    by (simp add: d1 row_put_def bid)
  have "get_assembly d1 (asm_id y) = Some y" if "y \<in> set xs" for y
  proof -
    have "asm_id y \<noteq> asm_id b" using that Cons.prems(2) bid by (metis distinct.simps(2) image_eqI list.set_map list.simps(9))
    then have "get_assembly (put_assembly b d) (asm_id y) = get_assembly d (asm_id y)"
      by (rule assemblies.get_put_other)
    then show ?thesis using Cons.prems(1) that by (simp add: get_assembly_def d1 put_assembly_def)
  qed
  moreover have "map asm_id (db_assemblies d1) = map asm_id (db_assemblies d)"
    using bid by (simp add: d1')
  ultimately have IH: "db_assemblies (fold (expire_assembly now) xs d1) = map (\<lambda>a. if asm_id a \<in> asm_id ` set xs
      then mark_generation_expired a ''REQUIRED_DETAILS_TIMEOUT'' now else a) (db_assemblies d1)"
    "db_conversations (fold (expire_assembly now) xs d1) = db_conversations d1"
    using Cons.IH [of d1] Cons.prems(2,3) by simp_all
  have "asm_id x \<notin> asm_id ` set xs" using Cons.prems(2) by simp
  then have "map (\<lambda>a. if asm_id a \<in> asm_id ` set xs then mark_generation_expired a ''REQUIRED_DETAILS_TIMEOUT'' now else a)
      (db_assemblies d1) = map (\<lambda>a. if asm_id a \<in> asm_id ` set (x # xs)
      then mark_generation_expired a ''REQUIRED_DETAILS_TIMEOUT'' now else a) (db_assemblies d)"
    unfolding d1' using bid row by (auto simp: b_def)
  with IH d1(2) show ?case by (simp add: d1_def)
qed simp

lemma expire_conversation_row:
  "get_conversation (expire_conversation now k d) cid = (if cid = k
      \<and> \<not> list_ex (\<lambda>a. asm_conversation_id a = k \<and> active_assembly_state (asm_state a)) (db_assemblies d)
     then map_option (mark_conversation_expired now) (get_conversation d cid)
     else get_conversation d cid)"
proof (cases "get_conversation d k")
  case None
  then show ?thesis by (auto simp: expire_conversation_def)
next
  case (Some c)
  then have k: "conv_id (mark_conversation_expired now c) = k"
    using conversations.get_Some by (auto simp: mark_conversation_expired_def)
  have thr: "get_conversation (put_thread t x) j = get_conversation x j" for t x j
    by (simp add: get_conversation_def put_thread_def)
  show ?thesis
    using Some k conversations.get_put [of d k "mark_conversation_expired now c"]
      conversations.get_put_other [of cid "mark_conversation_expired now c" d]
    by (auto simp: expire_conversation_def Let_def thr split: option.split)
qed

lemma expire_conversations_rows:
  "distinct ks \<Longrightarrow> get_conversation (fold (expire_conversation now) ks d) cid = (if cid \<in> set ks
      \<and> \<not> list_ex (\<lambda>a. asm_conversation_id a = cid \<and> active_assembly_state (asm_state a)) (db_assemblies d)
     then map_option (mark_conversation_expired now) (get_conversation d cid)
     else get_conversation d cid)"
proof (induction ks arbitrary: d)
  case (Cons k ks)
  have "db_assemblies (expire_conversation now k d) = db_assemblies d"
    using apart_expire_conversation by (simp add: apart_def)
  with Cons show ?case by (auto simp: expire_conversation_row)
qed simp

section \<open>Properties\<close>

text \<open>
  Property C5. The tables stay consistent whatever the order in which messages are handled,
  incomplete signals expire and openings are resolved, from empty tables on: no two intents share an
  identifier or an idempotency key, no two generations of a conversation and route share a
  number, and at most one of them is being assembled or executed.
\<close>

theorem signal_tables_invariant:
  assumes "db_intents (ss_db s) = []" "db_assemblies (ss_db s) = []" "worker_step\<^sup>*\<^sup>* s t"
  shows "signal_tables_ok (ss_db t)"
  using worker.reachable_inv [of s t] assms by simp

text \<open>
  The expiry sweep: exactly the assembling generations whose deadline has passed are
  expired and counted, every other generation is untouched, none is due afterwards, and a conversation is expired
  exactly when it had a due generation and no generation of it is active any more.
\<close>

theorem expire_signal_threads_correct:
  assumes "distinct (map asm_id (db_assemblies d))" "expire_signal_threads now d = (d', n)"
  shows "n = length (due_assemblies now d) \<and> due_assemblies now d' = []
    \<and> db_assemblies d' = map (\<lambda>a. if asm_state a = Asm_assembling \<and> asm_assembly_deadline a \<le> now
        then mark_generation_expired a ''REQUIRED_DETAILS_TIMEOUT'' now else a) (db_assemblies d)
    \<and> get_conversation d' cid = (if cid \<in> asm_conversation_id ` set (due_assemblies now d)
        \<and> (\<forall>a \<in> set (db_assemblies d'). asm_conversation_id a = cid \<longrightarrow> \<not> active_assembly_state (asm_state a))
      then map_option (mark_conversation_expired now) (get_conversation d cid)
      else get_conversation d cid)"
proof -
  define due where "due = due_assemblies now d"
  define d1 where "d1 = fold (expire_assembly now) due d"
  have sub: "set due \<subseteq> set (db_assemblies d)" by (auto simp: due_def due_assemblies_def)
  have got: "get_assembly d (asm_id x) = Some x" if "x \<in> set due" for x
    using assemblies.get_unique [OF assms(1)] sub that by blast
  have dist: "distinct (map asm_id due)"
    using assms(1) by (simp add: due_def due_assemblies_def distinct_map_filter)
  have is_due: "asm_id a \<in> asm_id ` set due \<longleftrightarrow> asm_state a = Asm_assembling \<and> asm_assembly_deadline a \<le> now"
    if "a \<in> set (db_assemblies d)" for a
    using that assms(1) by (auto simp: due_def due_assemblies_def distinct_map inj_on_def)
  have rows: "db_assemblies d1 = map (\<lambda>a. if asm_state a = Asm_assembling \<and> asm_assembly_deadline a \<le> now
        then mark_generation_expired a ''REQUIRED_DETAILS_TIMEOUT'' now else a) (db_assemblies d)"
    "db_conversations d1 = db_conversations d"
    using expire_assemblies_rows [OF got dist assms(1)] is_due by (simp_all add: d1_def)
  have d': "d' = fold (expire_conversation now) (from_keys (map asm_conversation_id due)) d1" "n = length due"
    using assms(2) by (auto simp: expire_signal_threads_def Let_def due_def d1_def)
  have asm: "db_assemblies d' = db_assemblies d1"
    using apart_fold [of "expire_conversation now"] apart_expire_conversation by (simp add: d' apart_def)
  have empty: "due_assemblies now d' = []"
    by (auto simp: due_assemblies_def asm rows filter_empty_conv mark_generation_expired_def)
  have same: "get_conversation d1 cid = get_conversation d cid" by (simp add: get_conversation_def rows)
  have conv: "get_conversation d' cid = (if cid \<in> asm_conversation_id ` set due
        \<and> (\<forall>a \<in> set (db_assemblies d'). asm_conversation_id a = cid \<longrightarrow> \<not> active_assembly_state (asm_state a))
      then map_option (mark_conversation_expired now) (get_conversation d1 cid)
      else get_conversation d1 cid)"
    unfolding asm unfolding d' by (simp add: expire_conversations_rows list_ex_iff cong: conj_cong)
  show ?thesis
    unfolding due_def [symmetric]
    by (intro conjI d'(2) empty trans [OF asm rows(1)] conv [unfolded same])
qed

text \<open>An incomplete signal whose deadline has passed, beside one that is being executed.\<close>

definition sample_assembly :: "uuid \<Rightarrow> route_assembly_state \<Rightarrow> route_signal_assembly" where
  "sample_assembly k st = \<lparr>asm_id = k, asm_conversation_id = k + 100, asm_route_id = 1, asm_state = st, asm_context = [],
     asm_message_references = [], asm_generation = 1, asm_opening_action = None, asm_opening_intent_id = None,
     asm_terminal_reason = None, asm_assembly_deadline = 5, asm_accepted_at = None, asm_completed_at = None\<rparr>"

definition sample_due_db :: db where
  "sample_due_db = sample_db \<lparr>db_conversations := [sample_conv], db_assemblies :=
     [sample_assembly 1 Asm_assembling, sample_assembly 2 Asm_executing]\<rparr>"

theorem signal_tables_invariant_witness:
  "signal_tables_ok (ss_db (snd (signal_handler sample_env True 2000000 sample_message sample_session)))
   \<and> db_intents (ss_db (snd (signal_handler sample_env True 2000000 sample_message sample_session))) \<noteq> []"
proof -
  obtain t where t: "signal_handler sample_env True 2000000 sample_message sample_session = (Inr delivery_success, t)"
    "db_intents (ss_db t) \<noteq> []" using sample_run by blast
  have "worker_step\<^sup>*\<^sup>* sample_session t" using worker_step.handle [OF t(1)] by blast
  moreover have "db_intents (ss_db sample_session) = []" "db_assemblies (ss_db sample_session) = []"
    by (simp_all add: sample_session_def sample_db_def empty_db_def)
  ultimately show ?thesis using signal_tables_invariant t by simp
qed

theorem expire_signal_threads_correct_witness:
  "\<exists>d'. expire_signal_threads 6 sample_due_db = (d', 1) \<and> due_assemblies 6 d' = []
     \<and> map asm_state (db_assemblies d') = [Asm_expired, Asm_executing]
     \<and> get_conversation d' 101 = Some (sample_conv \<lparr>conv_state := Conv_expired, conv_updated_at := 6\<rparr>)"
proof -
  obtain d' n where run: "expire_signal_threads 6 sample_due_db = (d', n)" by force
  have "distinct (map asm_id (db_assemblies sample_due_db))"
    by (simp add: sample_due_db_def sample_assembly_def)
  note res = expire_signal_threads_correct [OF this run, of 101]
  have due: "due_assemblies 6 sample_due_db = [sample_assembly 1 Asm_assembling]"
    by (simp add: due_assemblies_def sample_due_db_def sample_assembly_def)
  have conv: "get_conversation sample_due_db 101 = Some sample_conv"
    by (simp add: get_conversation_def row_get_def sample_due_db_def sample_conv_def)
  show ?thesis
    using res run due conv
    by (auto simp: sample_due_db_def sample_assembly_def mark_generation_expired_def active_assembly_state_def
        mark_conversation_expired_def sample_conv_def)
qed

end
