(* ===== verification/Quality.thy ===== *)
theory Quality
  imports Symbols
begin

text \<open>
  Execution quality, \<^verbatim>\<open>copy_trading/quality.py\<close>: trading hours, quote freshness, spread and
  slippage, checked before an opening is sent. \<open>parse_iso\<close> stands for \<^verbatim>\<open>datetime.fromisoformat\<close>
  of the text with \<^verbatim>\<open>Z\<close> replaced by \<^verbatim>\<open>+00:00\<close>, followed by \<^verbatim>\<open>astimezone(utc)\<close>; \<open>None\<close> is its \<^verbatim>\<open>ValueError\<close>.
\<close>

section \<open>Data\<close>

record execution_quality =
  eq_spread_points :: rat
  eq_quote_age_seconds :: rat
  eq_slippage_points :: "rat option"

record quality_error =
  qe_code :: string
  qe_message :: string
  qe_retryable :: bool
  qe_user_action_required :: bool

datatype timestamp = TS_none | TS_text string | TS_instant int | TS_other

text \<open>
  A price: \<open>None\<close> for a bid or ask that \<^verbatim>\<open>Decimal(str(value))\<close> cannot read, which includes a
  missing one.
\<close>

record price_quote =
  pq_bid :: "decimal option"
  pq_ask :: "decimal option"
  pq_time :: timestamp
  pq_brokerTime :: timestamp

record quality_policy =
  qp_max_spread_points :: "int option"
  qp_max_slippage_points :: "int option"
  qp_max_quote_age_seconds :: int
  qp_high_spread_behavior :: string
  qp_trading_start_hour_utc :: "int option"
  qp_trading_end_hour_utc :: "int option"

section \<open>Operations\<close>

definition quote_unavailable :: quality_error where
  "quote_unavailable = \<lparr>qe_code = ''QUOTE_UNAVAILABLE'',
     qe_message = ''A live broker quote is not available yet.'',
     qe_retryable = True, qe_user_action_required = False\<rparr>"

definition quote_decimal :: "decimal option \<Rightarrow> quality_error + rat" where
  "quote_decimal v = (case v of None \<Rightarrow> Inl quote_unavailable
     | Some d \<Rightarrow> if is_finite_dec d then Inr (dval d) else Inl quote_unavailable)"

definition utc_hour :: "int \<Rightarrow> int" where
  "utc_hour now = now div 3600000000 mod 24"

definition within_trading_hours :: "int \<Rightarrow> int option \<Rightarrow> int option \<Rightarrow> bool" where
  "within_trading_hours now start stop = (case (start, stop) of
     (Some s, Some e) \<Rightarrow>
       (if s = e then True
        else let hour = utc_hour now in
          if s < e then s \<le> hour \<and> hour < e else hour \<ge> s \<or> hour < e)
   | _ \<Rightarrow> True)"

definition timestamp_or :: "timestamp \<Rightarrow> timestamp \<Rightarrow> timestamp" where
  "timestamp_or a b = (if a = TS_none \<or> a = TS_text [] then b else a)"

definition quote_instant :: "(string \<Rightarrow> int option) \<Rightarrow> price_quote \<Rightarrow> quality_error + int" where
  "quote_instant parse_iso price = (case timestamp_or (pq_time price) (pq_brokerTime price) of
       TS_text s \<Rightarrow> (case parse_iso s of None \<Rightarrow> Inl quote_unavailable | Some t \<Rightarrow> Inr t)
     | TS_instant t \<Rightarrow> Inr t
     | _ \<Rightarrow> Inl \<lparr>qe_code = ''QUOTE_TIME_MISSING'',
            qe_message = ''A live broker quote is not available yet.'',
            qe_retryable = True, qe_user_action_required = False\<rparr>)"

definition quote_age :: "int \<Rightarrow> int \<Rightarrow> rat" where
  "quote_age now quote_at = max 0 (of_int (now - quote_at) / 1000000)"

definition price_point :: "broker_symbol \<Rightarrow> rat" where
  "price_point sy = (if sym_point sy > 0 then sym_point sy else 1 / 100000)"

definition market_price :: "string \<Rightarrow> rat \<Rightarrow> rat \<Rightarrow> rat" where
  "market_price direction bid ask = (if py_lower direction = ''buy'' then ask else bid)"

definition check_execution_quality ::
  "(string \<Rightarrow> int option) \<Rightarrow> price_quote \<Rightarrow> broker_symbol \<Rightarrow> string \<Rightarrow> rat option \<Rightarrow> quality_policy \<Rightarrow> int
     \<Rightarrow> quality_error + execution_quality" where
  "check_execution_quality parse_iso price sy direction entry pol now = (
     if \<not> within_trading_hours now (qp_trading_start_hour_utc pol) (qp_trading_end_hour_utc pol)
     then Inl \<lparr>qe_code = ''OUTSIDE_TRADING_HOURS'',
       qe_message = ''This account is outside its allowed trading hours.'',
       qe_retryable = False, qe_user_action_required = True\<rparr>
     else case quote_decimal (pq_bid price) of Inl e \<Rightarrow> Inl e | Inr bid \<Rightarrow>
     case quote_decimal (pq_ask price) of Inl e \<Rightarrow> Inl e | Inr ask \<Rightarrow>
     case quote_instant parse_iso price of Inl e \<Rightarrow> Inl e | Inr quote_at \<Rightarrow>
     if quote_age now quote_at > of_int (qp_max_quote_age_seconds pol)
     then Inl \<lparr>qe_code = ''STALE_QUOTE'',
       qe_message = ''A fresh broker quote is not available yet.'',
       qe_retryable = True, qe_user_action_required = False\<rparr>
     else let spread = dec_div (ask - bid) (price_point sy) in
     if (case qp_max_spread_points pol of None \<Rightarrow> False | Some m \<Rightarrow> spread > of_int m)
     then Inl \<lparr>qe_code = ''SPREAD_TOO_WIDE'',
       qe_message = ''Current spread is '' @ show_fixed 1 spread @ '' points; limit is ''
         @ show_int (the (qp_max_spread_points pol)) @ ''.'',
       qe_retryable = (qp_high_spread_behavior pol = ''wait''), qe_user_action_required = True\<rparr>
     else let slippage = map_option
         (\<lambda>e. dec_div \<bar>market_price direction bid ask - e\<bar> (price_point sy)) entry in
     if (case (qp_max_slippage_points pol, slippage) of
           (Some m, Some sl) \<Rightarrow> sl > of_int m | _ \<Rightarrow> False)
     then Inl \<lparr>qe_code = ''SLIPPAGE_TOO_HIGH'',
       qe_message = ''Current price is '' @ show_fixed 1 (the slippage) @ '' points away from the signal entry.'',
       qe_retryable = False, qe_user_action_required = True\<rparr>
     else Inr \<lparr>eq_spread_points = spread, eq_quote_age_seconds = quote_age now quote_at,
               eq_slippage_points = slippage\<rparr>)"

text \<open>A quote and a policy for the examples.\<close>

definition sample_price :: price_quote where
  "sample_price = \<lparr>pq_bid = Some (Dec 265000 (-2)), pq_ask = Some (Dec 265012 (-2)),
     pq_time = TS_instant 97000000, pq_brokerTime = TS_none\<rparr>"

definition sample_quality_policy :: quality_policy where
  "sample_quality_policy = \<lparr>qp_max_spread_points = Some 20, qp_max_slippage_points = Some 30,
     qp_max_quote_age_seconds = 10, qp_high_spread_behavior = ''reject'',
     qp_trading_start_hour_utc = None, qp_trading_end_hour_utc = None\<rparr>"

section \<open>Lemmas\<close>

lemma utc_hour_range: "0 \<le> utc_hour now" "utc_hour now < 24"
  by (simp_all add: utc_hour_def)

lemma quote_decimal_Inl: "quote_decimal v = Inl e \<Longrightarrow> e = quote_unavailable"
  by (auto simp: quote_decimal_def split: option.splits if_splits)


lemma quote_instant_Inl:
  "quote_instant parse_iso p = Inl e \<Longrightarrow> qe_retryable e \<and> \<not> qe_user_action_required e
     \<and> qe_code e \<in> {''QUOTE_UNAVAILABLE'', ''QUOTE_TIME_MISSING''}"
  by (auto simp: quote_instant_def quote_unavailable_def split: timestamp.splits option.splits)

lemma quote_unavailable_simps [simp]:
  "qe_code quote_unavailable = ''QUOTE_UNAVAILABLE''"
  "qe_retryable quote_unavailable" "\<not> qe_user_action_required quote_unavailable"
  by (simp_all add: quote_unavailable_def)

lemma priced_error:
  assumes priced: "quote_decimal (pq_bid price) = Inr bid" "quote_decimal (pq_ask price) = Inr ask"
      "quote_instant parse_iso price = Inr t"
    and hours: "within_trading_hours now (qp_trading_start_hour_utc pol) (qp_trading_end_hour_utc pol)"
    and err: "check_execution_quality parse_iso price sy direction entry pol now = Inl e"
  shows "(qe_code e = ''STALE_QUOTE'' \<and> qe_retryable e \<and> \<not> qe_user_action_required e
      \<and> quote_age now t > of_int (qp_max_quote_age_seconds pol))
    \<or> (qe_code e = ''SPREAD_TOO_WIDE'' \<and> (qe_retryable e \<longleftrightarrow> qp_high_spread_behavior pol = ''wait'')
      \<and> (\<exists>m. qp_max_spread_points pol = Some m \<and> dec_div (ask - bid) (price_point sy) > of_int m))
    \<or> (qe_code e = ''SLIPPAGE_TOO_HIGH'' \<and> \<not> qe_retryable e \<and> qe_user_action_required e
      \<and> (\<exists>m x. qp_max_slippage_points pol = Some m \<and> entry = Some x))"
proof (cases "quote_age now t > of_int (qp_max_quote_age_seconds pol)")
  case True
  then show ?thesis using err hours priced by (clarsimp simp: check_execution_quality_def)
next
  case fresh: False
  show ?thesis
  proof (cases "\<exists>m. qp_max_spread_points pol = Some m \<and> dec_div (ask - bid) (price_point sy) > of_int m")
    case True
    then show ?thesis using err hours priced fresh
      by (clarsimp simp: check_execution_quality_def)
  next
    case narrow: False
    then show ?thesis using err hours priced fresh
      by (clarsimp simp: check_execution_quality_def Let_def split: option.splits if_splits)
  qed
qed

section \<open>Properties\<close>



text \<open>
  Every failed check names its cause: the error code tells which test failed, a spread
  error may be retried exactly when the policy says to wait, trading hours and slippage are final
  and need the user, and every other failure is a missing or old quote, which is retried without
  the user.
\<close>

theorem check_execution_quality_error:
  assumes "check_execution_quality parse_iso price sy direction entry pol now = Inl e"
  shows "(qe_code e = ''OUTSIDE_TRADING_HOURS'' \<and> \<not> qe_retryable e \<and> qe_user_action_required e
      \<and> \<not> within_trading_hours now (qp_trading_start_hour_utc pol) (qp_trading_end_hour_utc pol))
    \<or> (qe_code e \<in> {''QUOTE_UNAVAILABLE'', ''QUOTE_TIME_MISSING''} \<and> qe_retryable e \<and> \<not> qe_user_action_required e
      \<and> ((\<exists>x. quote_decimal (pq_bid price) = Inl x) \<or> (\<exists>x. quote_decimal (pq_ask price) = Inl x)
         \<or> (\<exists>x. quote_instant parse_iso price = Inl x)))
    \<or> (qe_code e = ''STALE_QUOTE'' \<and> qe_retryable e \<and> \<not> qe_user_action_required e
      \<and> (\<exists>t. quote_instant parse_iso price = Inr t \<and> quote_age now t > of_int (qp_max_quote_age_seconds pol)))
    \<or> (qe_code e = ''SPREAD_TOO_WIDE'' \<and> (qe_retryable e \<longleftrightarrow> qp_high_spread_behavior pol = ''wait'')
      \<and> (\<exists>bid ask m. quote_decimal (pq_bid price) = Inr bid \<and> quote_decimal (pq_ask price) = Inr ask
         \<and> qp_max_spread_points pol = Some m \<and> dec_div (ask - bid) (price_point sy) > of_int m))
    \<or> (qe_code e = ''SLIPPAGE_TOO_HIGH'' \<and> \<not> qe_retryable e \<and> qe_user_action_required e
      \<and> (\<exists>m x. qp_max_slippage_points pol = Some m \<and> entry = Some x))"
proof (cases "within_trading_hours now (qp_trading_start_hour_utc pol) (qp_trading_end_hour_utc pol)")
  case False
  then show ?thesis using assms by (clarsimp simp: check_execution_quality_def)
next
  case hours: True
  consider (quote) x where "quote_decimal (pq_bid price) = Inl x \<or> quote_decimal (pq_ask price) = Inl x
        \<or> quote_instant parse_iso price = Inl x"
    | (priced) bid ask t where "quote_decimal (pq_bid price) = Inr bid" "quote_decimal (pq_ask price) = Inr ask"
        "quote_instant parse_iso price = Inr t"
    by (metis sum.exhaust)
  then show ?thesis
  proof cases
    case quote
    then have "e = quote_unavailable \<or> quote_instant parse_iso price = Inl e"
      using assms hours by (auto simp: check_execution_quality_def dest: quote_decimal_Inl split: sum.splits)
    then have "qe_code e \<in> {''QUOTE_UNAVAILABLE'', ''QUOTE_TIME_MISSING''} \<and> qe_retryable e
        \<and> \<not> qe_user_action_required e"
      using quote_instant_Inl [of parse_iso price e] by (elim disjE) simp_all
    with quote show ?thesis by blast
  next
    case priced
    then show ?thesis using priced_error [OF priced hours assms] by blast
  qed
qed

theorem check_execution_quality_error_witness:
  "\<exists>e. check_execution_quality (\<lambda>_. None) sample_price (sample_symbol ''XAUUSD'') ''buy''
      None sample_quality_policy 200000000 = Inl e \<and> qe_code e = ''STALE_QUOTE'' \<and> qe_retryable e"
proof -
  have *: "check_execution_quality (\<lambda>_. None) sample_price (sample_symbol ''XAUUSD'') ''buy''
      None sample_quality_policy 200000000
      = Inl \<lparr>qe_code = ''STALE_QUOTE'', qe_message = ''A fresh broker quote is not available yet.'',
        qe_retryable = True, qe_user_action_required = False\<rparr>"
    by code_simp
  from check_execution_quality_error [OF this] * show ?thesis by simp
qed

text \<open>
  Trading hours that differ split the day: at every instant exactly one of the windows
  from \<open>s\<close> to \<open>e\<close> and from \<open>e\<close> to \<open>s\<close> is open, across midnight too.
\<close>

theorem trading_hours_partition:
  assumes "s \<noteq> e"
  shows "within_trading_hours now (Some s) (Some e) \<longleftrightarrow> \<not> within_trading_hours now (Some e) (Some s)"
  using assms by (auto simp: within_trading_hours_def Let_def)

theorem trading_hours_partition_witness:
  "within_trading_hours 0 (Some 22) (Some 6) \<longleftrightarrow> \<not> within_trading_hours 0 (Some 6) (Some 22)"
  by (rule trading_hours_partition) simp

end
