(* ===== verification/Health.thy ===== *)
theory Health
  imports Models
begin

text \<open>
  Runtime health, \<^verbatim>\<open>copy_trading/health.py\<close>: the heartbeats of the workers, the summary that is built
  from them, the MetaApi and Telegram components added to it, and the launch readiness that is
  derived from the summary and the age of open intents.
\<close>

section \<open>Data\<close>

definition required_worker_roles :: "string list" where
  "required_worker_roles = [''telegram-session'', ''copy-signal'', ''copy-execution'', ''copy-provisioning'']"

record health_component =
  hc_role :: string
  hc_status :: string
  hc_heartbeat_at :: "int option"
  hc_stream_lag :: int
  hc_pending_count :: int
  hc_last_error :: "string option"

record health_summary =
  hs_status :: string
  hs_ready :: bool
  hs_components :: "health_component list"
  hs_issues :: "string list"

record launch_readiness =
  lr_ready :: bool
  lr_blockers :: "string list"
  lr_warnings :: "string list"
  lr_components :: "health_component list"
  lr_stream_lag :: int
  lr_pending_events :: int
  lr_dead_letters :: int
  lr_oldest_uncertain_seconds :: int
  lr_oldest_active_intent_seconds :: int
  lr_global_paused :: bool

section \<open>Operations\<close>

definition static_component :: "string \<Rightarrow> string \<Rightarrow> string option \<Rightarrow> health_component" where
  "static_component role status err = \<lparr>hc_role = role, hc_status = status, hc_heartbeat_at = None,
     hc_stream_lag = 0, hc_pending_count = 0, hc_last_error = err\<rparr>"

text \<open>The component is added in every case; only a failing one touches status, readiness and issues.\<close>

definition with_component :: "health_summary \<Rightarrow> health_component \<Rightarrow> health_summary" where
  "with_component h c = h \<lparr>hs_components := hs_components h @ [c]\<rparr>"

definition with_issue :: "health_summary \<Rightarrow> health_component \<Rightarrow> string \<Rightarrow> string \<Rightarrow> health_summary" where
  "with_issue h c status issue = \<lparr>hs_status = status, hs_ready = False,
     hs_components = hs_components h @ [c], hs_issues = hs_issues h @ [issue]\<rparr>"

definition add_metaapi_health :: "health_summary \<Rightarrow> bool \<Rightarrow> bool \<Rightarrow> bool \<Rightarrow> health_summary" where
  "add_metaapi_health h copy_trading_enabled metaapi_enabled token_configured = (
     let configured = metaapi_enabled \<and> token_configured;
         status = (if configured then ''healthy'' else if copy_trading_enabled then ''missing'' else ''disabled'');
         c = static_component ''metaapi'' status
           (if configured then None else Some ''MetaApi copy execution is not configured.'') in
     if \<not> copy_trading_enabled \<or> configured then with_component h c
     else with_issue h c ''action_required'' ''MetaApi copy execution is not configured.'')"

definition add_telegram_connection_health :: "health_summary \<Rightarrow> telegram_connection_state list \<Rightarrow> health_summary" where
  "add_telegram_connection_health h states = (
     if states = [] then with_component h (static_component ''telegram-connection'' ''not_configured'' None)
     else
       let authorization_required = filter (\<lambda>s. s = TC_reauthentication_required) states;
           reconnecting = filter (\<lambda>s. s = TC_disconnected) states in
       if authorization_required = [] \<and> reconnecting = []
       then with_component h (static_component ''telegram-connection'' ''healthy'' None)
       else if reconnecting \<noteq> [] \<and> authorization_required = []
       then with_issue h (static_component ''telegram-connection'' ''reconnecting''
              (Some ''Telegram is reconnecting automatically.'')) ''degraded'' ''Telegram is reconnecting automatically.''
       else with_issue h (static_component ''telegram-connection'' ''reauthentication_required''
              (Some ''Reconnect Telegram to resume reading copy signals.'')) ''action_required''
              ''Reconnect Telegram to resume reading copy signals.'')"

definition build_launch_readiness ::
  "health_summary \<Rightarrow> int \<Rightarrow> int list \<Rightarrow> int list \<Rightarrow> int \<Rightarrow> int \<Rightarrow> bool \<Rightarrow> launch_readiness" where
  "build_launch_readiness h dead_letter_count uncertain_ages active_ages active_max uncertain_max global_paused = (
     let oldest_uncertain = max_list_int uncertain_ages 0;
         oldest_active = max_list_int active_ages 0;
         blockers = (if hs_ready h then [] else [''runtime_health''])
           @ (if oldest_uncertain > uncertain_max then [''uncertain_intents''] else [])
           @ (if oldest_active > active_max then [''active_intents''] else []);
         warnings = (if \<not> oldest_uncertain > uncertain_max \<and> uncertain_ages \<noteq> [] then [''broker_confirmation_pending''] else [])
           @ (if dead_letter_count \<noteq> 0 then [''dead_letters_need_review''] else [])
           @ (if \<not> oldest_active > active_max \<and> active_ages \<noteq> [] then [''broker_action_pending''] else [])
           @ (if global_paused then [''global_pause_enabled''] else []) in
     \<lparr>lr_ready = (blockers = []), lr_blockers = blockers, lr_warnings = warnings,
      lr_components = hs_components h,
      lr_stream_lag = sum_list (map hc_stream_lag (hs_components h)),
      lr_pending_events = sum_list (map hc_pending_count (hs_components h)),
      lr_dead_letters = dead_letter_count, lr_oldest_uncertain_seconds = oldest_uncertain,
      lr_oldest_active_intent_seconds = oldest_active, lr_global_paused = global_paused\<rparr>)"

text \<open>The dictionary \<^verbatim>\<open>latest\<close> of \<^verbatim>\<open>aggregate_health\<close>, read at one role.\<close>

definition latest_heartbeat :: "copy_worker_health list \<Rightarrow> string \<Rightarrow> copy_worker_health option" where
  "latest_heartbeat hs role = foldl (\<lambda>cur h. if wh_worker_role h \<noteq> role then cur
     else case cur of None \<Rightarrow> Some h | Some c \<Rightarrow> if wh_heartbeat_at h > wh_heartbeat_at c then Some h else cur) None hs"

definition worker_state_value :: "worker_health_state \<Rightarrow> string" where
  "worker_state_value s = (case s of Worker_healthy \<Rightarrow> ''healthy'' | Worker_degraded \<Rightarrow> ''degraded'' | Worker_failed \<Rightarrow> ''failed'')"

definition heartbeat_status :: "int \<Rightarrow> int \<Rightarrow> copy_worker_health \<Rightarrow> string" where
  "heartbeat_status now stale_after h =
     (if max 0 (of_int (now - wh_heartbeat_at h) / 1000000 :: rat) > of_int stale_after then ''stale''
      else worker_state_value (wh_state h))"

definition role_component :: "int \<Rightarrow> int \<Rightarrow> copy_worker_health list \<Rightarrow> string \<Rightarrow> health_component" where
  "role_component now stale_after hs role = (case latest_heartbeat hs role of
       None \<Rightarrow> static_component role ''missing'' None
     | Some h \<Rightarrow> \<lparr>hc_role = role, hc_status = heartbeat_status now stale_after h,
         hc_heartbeat_at = Some (wh_heartbeat_at h), hc_stream_lag = wh_stream_lag h,
         hc_pending_count = wh_pending_count h, hc_last_error = wh_last_error h\<rparr>)"

definition role_issues :: "int \<Rightarrow> int \<Rightarrow> copy_worker_health list \<Rightarrow> string \<Rightarrow> string list" where
  "role_issues now stale_after hs role = (case latest_heartbeat hs role of
       None \<Rightarrow> [role @ '' has not reported health.'']
     | Some h \<Rightarrow> if heartbeat_status now stale_after h \<noteq> ''healthy''
                 then [role @ '' is '' @ heartbeat_status now stale_after h @ ''.''] else [])"

definition aggregate_health :: "copy_worker_health list \<Rightarrow> int \<Rightarrow> int \<Rightarrow> health_summary" where
  "aggregate_health hs now stale_after = (
     let issues = concat (map (role_issues now stale_after hs) required_worker_roles);
         missing = list_ex (\<lambda>role. latest_heartbeat hs role = None) required_worker_roles;
         status = (if missing then ''action_required'' else if issues \<noteq> [] then ''degraded'' else ''ready'') in
     \<lparr>hs_status = status, hs_ready = (status = ''ready''),
      hs_components = map (role_component now stale_after hs) required_worker_roles, hs_issues = issues\<rparr>)"

text \<open>\<open>hs\<close> is the table of worker health; the row of a role and instance is created on its first report.\<close>

definition record_worker_health ::
  "string \<Rightarrow> string \<Rightarrow> int \<Rightarrow> int \<Rightarrow> string option \<Rightarrow> int \<Rightarrow> copy_worker_health list \<Rightarrow> copy_worker_health list" where
  "record_worker_health role inst lag pending err now hs = (
     let same = (\<lambda>h. wh_worker_role h = role \<and> wh_instance_id h = inst);
         row = \<lparr>wh_worker_role = role, wh_instance_id = inst,
           wh_state = (if err \<in> {None, Some []} then Worker_healthy else Worker_degraded), wh_heartbeat_at = now,
           wh_stream_lag = max 0 lag, wh_pending_count = max 0 pending, wh_last_error = err\<rparr> in
     if list_ex same hs then map (\<lambda>h. if same h then row else h) hs else hs @ [row])"

section \<open>Lemmas\<close>

lemma latest_heartbeat_snoc:
  "latest_heartbeat (hs @ [h]) role = (if wh_worker_role h \<noteq> role then latest_heartbeat hs role
     else case latest_heartbeat hs role of None \<Rightarrow> Some h
       | Some c \<Rightarrow> if wh_heartbeat_at h > wh_heartbeat_at c then Some h else Some c)"
  by (auto simp: latest_heartbeat_def split: option.splits)

lemma latest_heartbeat_None: "latest_heartbeat hs role = None \<longleftrightarrow> (\<forall>h \<in> set hs. wh_worker_role h \<noteq> role)"
proof (induction hs rule: rev_induct)
  case Nil
  then show ?case by (simp add: latest_heartbeat_def)
next
  case (snoc h hs)
  then show ?case by (auto simp: latest_heartbeat_snoc split: option.splits)
qed

lemma latest_heartbeat_Some:
  "latest_heartbeat hs role = Some h \<Longrightarrow> h \<in> set hs \<and> wh_worker_role h = role
     \<and> (\<forall>g \<in> set hs. wh_worker_role g = role \<longrightarrow> wh_heartbeat_at g \<le> wh_heartbeat_at h)"
proof (induction hs arbitrary: h rule: rev_induct)
  case Nil
  then show ?case by (simp add: latest_heartbeat_def)
next
  case (snoc g hs)
  show ?case
  proof (cases "wh_worker_role g = role")
    case False
    then show ?thesis using snoc by (simp add: latest_heartbeat_snoc)
  next
    case True
    show ?thesis
    proof (cases "latest_heartbeat hs role")
      case None
      then show ?thesis using snoc.prems True latest_heartbeat_None [of hs role]
        by (auto simp: latest_heartbeat_snoc)
    next
      case (Some c)
      from snoc.IH [OF this] show ?thesis using snoc.prems True Some
        by (auto simp: latest_heartbeat_snoc split: if_splits intro: order_trans)
    qed
  qed
qed

lemma aggregate_ready_iff:
  "hs_ready (aggregate_health hs now stale_after) \<longleftrightarrow>
     (\<forall>role \<in> set required_worker_roles. \<exists>h. latest_heartbeat hs role = Some h
        \<and> heartbeat_status now stale_after h = ''healthy'')"
proof -
  have "role_issues now stale_after hs role = [] \<longleftrightarrow> (\<exists>h. latest_heartbeat hs role = Some h
      \<and> heartbeat_status now stale_after h = ''healthy'')" for role
    by (simp add: role_issues_def split: option.splits)
  note roles = this
  have "hs_ready (aggregate_health hs now stale_after) \<longleftrightarrow>
      \<not> (\<exists>role \<in> set required_worker_roles. latest_heartbeat hs role = None)
      \<and> (\<forall>role \<in> set required_worker_roles. role_issues now stale_after hs role = [])"
    by (simp add: aggregate_health_def Let_def list_ex_iff)
  then show ?thesis unfolding roles by (metis option.distinct(1))
qed

lemma heartbeat_healthy:
  assumes "0 \<le> stale_after"
  shows "heartbeat_status now stale_after h = ''healthy'' \<longleftrightarrow>
     wh_state h = Worker_healthy \<and> now - wh_heartbeat_at h \<le> 1000000 * stale_after"
proof -
  have "(of_int (now - wh_heartbeat_at h) / 1000000 :: rat) \<le> of_int stale_after
      \<longleftrightarrow> (of_int (now - wh_heartbeat_at h) :: rat) \<le> of_int (1000000 * stale_after)"
    by (simp add: divide_le_eq mult.commute)
  also have "\<dots> \<longleftrightarrow> now - wh_heartbeat_at h \<le> 1000000 * stale_after" by (rule of_int_le_iff)
  finally show ?thesis using assms
    by (auto simp: heartbeat_status_def worker_state_value_def not_less max_def split: worker_health_state.splits)
qed

lemma ready_components [simp]:
  "hs_ready (add_metaapi_health h e m t) \<longleftrightarrow> hs_ready h \<and> (e \<longrightarrow> m \<and> t)"
  "hs_ready (add_telegram_connection_health h states) \<longleftrightarrow>
     hs_ready h \<and> TC_reauthentication_required \<notin> set states \<and> TC_disconnected \<notin> set states"
  by (auto simp: add_metaapi_health_def add_telegram_connection_health_def with_component_def with_issue_def
      Let_def filter_empty_conv)

lemma max_list_le: "0 \<le> m \<Longrightarrow> max_list_int xs 0 \<le> m \<longleftrightarrow> (\<forall>x \<in> set xs. x \<le> m)"
  by (auto simp: max_list_int_def)

section \<open>The readiness endpoint\<close>

text \<open>
  \<^verbatim>\<open>copy_launch_readiness\<close> of \<^verbatim>\<open>router.py\<close>: the workers, MetaApi, the user's Telegram connections that
  feed active routes, and the ages of the user's open intents.
\<close>

definition intent_age :: "int \<Rightarrow> trade_intent \<Rightarrow> int" where
  "intent_age now i = max 0 ((now - ti_created_at i) div 1000000)"

definition copy_launch_readiness ::
  "copy_worker_health list \<Rightarrow> bool \<Rightarrow> bool \<Rightarrow> bool \<Rightarrow> telegram_connection_state list \<Rightarrow> db \<Rightarrow> uuid \<Rightarrow> int \<Rightarrow> bool \<Rightarrow> int
     \<Rightarrow> launch_readiness" where
  "copy_launch_readiness heartbeats enabled metaapi_enabled token_configured states d user max_age global_paused now = (
     let h = add_telegram_connection_health
           (add_metaapi_health (aggregate_health heartbeats now 60) enabled metaapi_enabled token_configured) states;
         mine = filter (\<lambda>i. ti_user_id i = user) (db_intents d);
         uncertain = filter (\<lambda>i. ti_state i \<in> {Intent_uncertain, Intent_reconciling}) mine;
         active = filter (\<lambda>i. ti_state i \<in> {Intent_created, Intent_retryable, Intent_submitted}) mine in
     build_launch_readiness h 0 (map (intent_age now) uncertain) (map (intent_age now) active) max_age max_age global_paused)"

section \<open>Properties\<close>

text \<open>
  The system reports launch readiness exactly when every required worker role has
  reported and its latest heartbeat is healthy and at most sixty seconds old, MetaApi is configured
  if copy trading is enabled, no Telegram connection of the user is disconnected or needs a new
  login, and no intent of the user that is not yet resolved is older than allowed.
\<close>

theorem launch_readiness_correct:
  assumes "0 \<le> max_age"
  shows "lr_ready (copy_launch_readiness heartbeats enabled metaapi token states d user max_age paused now) \<longleftrightarrow>
      (\<forall>role \<in> set required_worker_roles. \<exists>h. latest_heartbeat heartbeats role = Some h
         \<and> wh_state h = Worker_healthy \<and> now - wh_heartbeat_at h \<le> 60000000)
    \<and> (enabled \<longrightarrow> metaapi \<and> token)
    \<and> TC_reauthentication_required \<notin> set states \<and> TC_disconnected \<notin> set states
    \<and> (\<forall>i \<in> set (db_intents d). ti_user_id i = user \<longrightarrow> ti_state i \<notin> {Intent_confirmed, Intent_failed} \<longrightarrow>
         intent_age now i \<le> max_age)"
proof -
  have st: "s \<notin> {Intent_confirmed, Intent_failed} \<longleftrightarrow> s \<in> {Intent_uncertain, Intent_reconciling}
      \<or> s \<in> {Intent_created, Intent_retryable, Intent_submitted}" for s
    by (cases s) auto
  have le: "\<not> max_list_int xs 0 > max_age \<longleftrightarrow> (\<forall>x \<in> set xs. x \<le> max_age)" for xs
    using max_list_le [OF assms] by (simp add: not_less)
  have "lr_ready (build_launch_readiness h 0 us as max_age max_age paused) \<longleftrightarrow>
      hs_ready h \<and> (\<forall>x \<in> set us. x \<le> max_age) \<and> (\<forall>x \<in> set as. x \<le> max_age)" for h us as
    unfolding le [symmetric] by (simp add: build_launch_readiness_def Let_def)
  moreover have "hs_ready (aggregate_health heartbeats now 60) \<longleftrightarrow>
      (\<forall>role \<in> set required_worker_roles. \<exists>h. latest_heartbeat heartbeats role = Some h
         \<and> wh_state h = Worker_healthy \<and> now - wh_heartbeat_at h \<le> 60000000)"
    by (simp add: aggregate_ready_iff heartbeat_healthy)
  ultimately show ?thesis
    unfolding copy_launch_readiness_def Let_def ready_components st by auto
qed

theorem launch_readiness_correct_witness:
  "lr_ready (copy_launch_readiness
      (map (\<lambda>r. \<lparr>wh_worker_role = r, wh_instance_id = ''i'', wh_state = Worker_healthy, wh_heartbeat_at = 0,
         wh_stream_lag = 0, wh_pending_count = 0, wh_last_error = None\<rparr>) required_worker_roles)
      True True True [TC_ready] empty_db 1 60 False 1000000)"
  by (subst launch_readiness_correct) (auto simp: required_worker_roles_def latest_heartbeat_def empty_db_def)

end
