(* ===== verification/Entitlements.thy ===== *)
theory Entitlements
  imports Tables
begin

text \<open>
  Subscription entitlements, \<^verbatim>\<open>billing/entitlements.py\<close> and the effective plan of
  \<^verbatim>\<open>billing/service.py\<close>: which plan a subscription grants now, when its access ends, and how many copy
  accounts it allows. An HTTP error is its status and its code.
\<close>

section \<open>Data\<close>

datatype billing_plan = Plan_journal | Plan_copy

datatype billing_status = Bill_active | Bill_past_due | Bill_unpaid | Bill_canceled

record billing_subscription =
  sub_user_id :: uuid
  sub_provider_customer_id :: "string option"
  sub_provider_subscription_id :: string
  sub_provider_product_id :: string
  sub_plan :: billing_plan
  sub_status :: billing_status
  sub_copy_account_limit :: int
  sub_currency :: string
  sub_amount :: string
  sub_current_period_start :: "int option"
  sub_current_period_end :: "int option"
  sub_grace_ends_at :: "int option"
  sub_cancel_at_period_end :: bool
  sub_canceled_at :: "int option"
  sub_pending_plan :: "billing_plan option"
  sub_pending_copy_account_limit :: "int option"
  sub_pending_effective_at :: "int option"

record effective_subscription =
  eff_plan :: billing_plan
  eff_status :: billing_status
  eff_copy_account_limit :: int
  eff_current_period_end :: "int option"
  eff_grace_ends_at :: "int option"

datatype http_error = Http (http_status: int) (http_code: string)

section \<open>Operations\<close>

definition effective_values :: "billing_subscription \<Rightarrow> int \<Rightarrow> billing_plan \<times> int" where
  "effective_values s now = (case (sub_pending_plan s, sub_pending_effective_at s) of
     (Some plan, Some due) \<Rightarrow> if due \<le> now
       then (plan, case sub_pending_copy_account_limit s of None \<Rightarrow> 0 | Some n \<Rightarrow> n)
       else (sub_plan s, sub_copy_account_limit s)
   | _ \<Rightarrow> (sub_plan s, sub_copy_account_limit s))"

definition effective_subscription :: "billing_subscription \<Rightarrow> int \<Rightarrow> effective_subscription" where
  "effective_subscription s now = (let (plan, limit) = effective_values s now in
     \<lparr>eff_plan = plan, eff_status = sub_status s, eff_copy_account_limit = limit,
      eff_current_period_end = sub_current_period_end s, eff_grace_ends_at = sub_grace_ends_at s\<rparr>)"

definition has_paid_access :: "effective_subscription option \<Rightarrow> int \<Rightarrow> bool" where
  "has_paid_access s now = (case s of None \<Rightarrow> False | Some e \<Rightarrow>
     (case eff_status e of
        Bill_active \<Rightarrow> (case eff_current_period_end e of None \<Rightarrow> True | Some t \<Rightarrow> t > now)
      | Bill_past_due \<Rightarrow> (case eff_grace_ends_at e of None \<Rightarrow> False | Some t \<Rightarrow> t > now)
      | _ \<Rightarrow> False))"

definition has_journal_access :: "effective_subscription option \<Rightarrow> int \<Rightarrow> bool" where
  "has_journal_access s now = has_paid_access s now"

definition has_copy_access :: "effective_subscription option \<Rightarrow> int \<Rightarrow> bool" where
  "has_copy_access s now = (case s of None \<Rightarrow> False | Some e \<Rightarrow>
     eff_plan e = Plan_copy \<and> eff_copy_account_limit e > 0 \<and> has_paid_access s now)"

definition require_copy_account_capacity ::
  "effective_subscription option \<Rightarrow> int \<Rightarrow> int \<Rightarrow> http_error + unit" where
  "require_copy_account_capacity s accounts now = (
     if \<not> has_copy_access s now then Inl (Http 402 ''subscription_required'')
     else case s of None \<Rightarrow> Inl (Http 402 ''subscription_required'')
     | Some e \<Rightarrow> if accounts \<ge> eff_copy_account_limit e then Inl (Http 403 ''copy_account_limit_reached'') else Inr ())"

text \<open>\<^verbatim>\<open>effective_subscription(subscription) if subscription else None\<close>.\<close>

definition current_entitlement :: "billing_subscription option \<Rightarrow> int \<Rightarrow> effective_subscription option" where
  "current_entitlement s now = map_option (\<lambda>x. effective_subscription x now) s"

section \<open>Properties\<close>

text \<open>When the copying entitlement ends, as one instant; \<open>None\<close> stands for never.\<close>

definition access_ends :: "billing_subscription \<Rightarrow> int option option" where
  "access_ends s = (case sub_status s of Bill_active \<Rightarrow> Some (sub_current_period_end s)
     | Bill_past_due \<Rightarrow> (case sub_grace_ends_at s of None \<Rightarrow> None | Some t \<Rightarrow> Some (Some t)) | _ \<Rightarrow> None)"

lemma has_paid_access_iff:
  "has_paid_access (current_entitlement (Some s) now) now \<longleftrightarrow>
     (\<exists>ends. access_ends s = Some ends \<and> (\<forall>t. ends = Some t \<longrightarrow> now < t))"
  by (cases "sub_status s") (auto simp: has_paid_access_def current_entitlement_def effective_subscription_def
      access_ends_def split: option.split prod.split)

text \<open>
  A further copy account is allowed exactly when a subscription exists whose effective
  plan is the copy plan, whose paid or grace period has not ended, and whose effective limit is above
  the number of accounts; otherwise the error is 402 without access and 403 at the limit. Access once
  ended does not come back while the subscription stays as it is and no plan change is pending.
\<close>

theorem copy_capacity_correct:
  "(require_copy_account_capacity (current_entitlement sub instant) accounts instant = Inr () \<longleftrightarrow>
     (\<exists>s. sub = Some s \<and> fst (effective_values s instant) = Plan_copy
        \<and> (\<exists>ends. access_ends s = Some ends \<and> (\<forall>t. ends = Some t \<longrightarrow> instant < t))
        \<and> 0 < snd (effective_values s instant) \<and> accounts < snd (effective_values s instant)))
   \<and> (require_copy_account_capacity (current_entitlement sub instant) accounts instant = Inl e \<longrightarrow>
        (e = Http 402 ''subscription_required'' \<and> \<not> has_copy_access (current_entitlement sub instant) instant)
        \<or> (e = Http 403 ''copy_account_limit_reached'' \<and> has_copy_access (current_entitlement sub instant) instant))
   \<and> (sub_pending_plan (the sub) = None \<and> instant \<le> later
        \<and> has_copy_access (current_entitlement sub later) later \<longrightarrow> has_copy_access (current_entitlement sub instant) instant)"
proof (cases sub)
  case None
  then show ?thesis by (auto simp: require_copy_account_capacity_def has_copy_access_def current_entitlement_def)
next
  case (Some s)
  have copy: "has_copy_access (current_entitlement sub t) t \<longleftrightarrow> fst (effective_values s t) = Plan_copy
      \<and> 0 < snd (effective_values s t) \<and> (\<exists>ends. access_ends s = Some ends \<and> (\<forall>x. ends = Some x \<longrightarrow> t < x))" for t
    using has_paid_access_iff [of s t] Some
    by (auto simp: has_copy_access_def current_entitlement_def effective_subscription_def split: prod.split)
  have req: "require_copy_account_capacity (current_entitlement sub instant) accounts instant =
      (if \<not> has_copy_access (current_entitlement sub instant) instant then Inl (Http 402 ''subscription_required'')
       else if accounts \<ge> snd (effective_values s instant) then Inl (Http 403 ''copy_account_limit_reached'') else Inr ())"
    using Some by (simp add: require_copy_account_capacity_def current_entitlement_def effective_subscription_def split: prod.split)
  have stable: "effective_values s instant = effective_values s later" if "sub_pending_plan s = None"
    using that by (simp add: effective_values_def)
  show ?thesis
    unfolding req copy using Some stable by (auto split: if_splits)
qed

text \<open>A copy subscription for two accounts whose period ends later.\<close>

definition sample_subscription :: billing_subscription where
  "sample_subscription = \<lparr>sub_user_id = 5, sub_provider_customer_id = None, sub_provider_subscription_id = ''sub-5'',
     sub_provider_product_id = ''copy-2'', sub_plan = Plan_copy, sub_status = Bill_active, sub_copy_account_limit = 2,
     sub_currency = ''USD'', sub_amount = ''30.00'', sub_current_period_start = None, sub_current_period_end = Some 9000000,
     sub_grace_ends_at = None, sub_cancel_at_period_end = False, sub_canceled_at = None, sub_pending_plan = None,
     sub_pending_copy_account_limit = None, sub_pending_effective_at = None\<rparr>"

theorem copy_capacity_correct_witness:
  "require_copy_account_capacity (current_entitlement (Some sample_subscription) 7) 1 7 = Inr ()
   \<and> has_copy_access (current_entitlement (Some sample_subscription) 7) 7
   \<and> require_copy_account_capacity (current_entitlement (Some sample_subscription) 7) 2 7 = Inl (Http 403 ''copy_account_limit_reached'')"
proof -
  note at7 = copy_capacity_correct [of "Some sample_subscription" 7 1 _ 8]
  have "effective_values sample_subscription 7 = (Plan_copy, 2)" "access_ends sample_subscription = Some (Some 9000000)"
    by (simp_all add: effective_values_def sample_subscription_def access_ends_def)
  moreover have "has_copy_access (current_entitlement (Some sample_subscription) 8) 8"
    "require_copy_account_capacity (current_entitlement (Some sample_subscription) 7) 2 7 = Inl (Http 403 ''copy_account_limit_reached'')"
    by code_simp+
  moreover have "sub_pending_plan sample_subscription = None" by (simp add: sample_subscription_def)
  ultimately show ?thesis using at7 by simp
qed

end
