(* ===== verification/Execution.thy ===== *)
theory Execution
  imports Quality Risk Reconciliation Streams Entitlements Signal_Handler
begin

text \<open>
  The execution worker, \<^verbatim>\<open>copy_trading/metaapi_execution.py\<close> with \<^verbatim>\<open>metaapi_broker.py\<close> and the route
  functions of \<^verbatim>\<open>repository.py\<close>: intents are checked, sent to the broker and settled, uncertain ones are
  reconciled, copied trades follow the account, emergencies close what is open.

  The MetaApi SDK is a parameter: \<open>exec_env\<close> says what \<^verbatim>\<open>runtime.acquire\<close> returns for an account,
  and the \<open>broker_session\<close> it returns holds the terminal state and what each call answers. The world
  record holds the database, the calls made, the events published and the number of random identifiers
  drawn. A raised exception takes the database back to the last commit and keeps the rest. The clock
  is read once per run; the e-mail queue and the JSON details of activities are left out, as
  is the telemetry written into the loaded payload, which is never stored.
\<close>

section \<open>The broker\<close>

text \<open>The calls of the SDK that change the account. Stops are what \<open>numeric_stop\<close> gives, volumes and prices numbers.\<close>

record trade_options =
  op_clientId :: "string option"
  op_magic :: int

datatype broker_call =
    Create_market_buy_order string rat pyval pyval trade_options
  | Create_market_sell_order string rat pyval pyval trade_options
  | Create_pending_order string string rat rat pyval pyval trade_options
  | Modify_position "string option" pyval pyval
  | Close_position_partially "string option" rat trade_options
  | Close_position "string option" trade_options
  | Cancel_order "string option"

record broker_response =
  resp_orderId :: "string option"
  resp_order :: "string option"
  resp_dealId :: "string option"
  resp_deal :: "string option"
  resp_positionId :: "string option"
  resp_position :: "string option"

record broker_result =
  res_order_id :: "string option"
  res_deal_id :: "string option"
  res_position_id :: "string option"

record broker_session =
  br_specifications :: "metaapi_specification list"
  br_positions :: "broker_item list"
  br_orders :: "broker_item list"
  br_deals :: "broker_item list"
  br_equity :: pyval
  br_price :: "string \<Rightarrow> price_quote"
  br_subscribe :: "string \<Rightarrow> unit result"
  br_price_after :: "string \<Rightarrow> price_quote"
  br_has_method :: "string \<Rightarrow> bool"
  br_answer :: "broker_call \<Rightarrow> broker_response option result"

text \<open>\<^verbatim>\<open>float(value)\<close>; a text that is a number is kept as the number.\<close>

definition float_of :: "pyval \<Rightarrow> rat result" where
  "float_of v = (case v of PNum x \<Rightarrow> Inr x | PInt i \<Rightarrow> Inr (of_int i) | PBool b \<Rightarrow> Inr (if b then 1 else 0)
     | PDec d \<Rightarrow> if is_finite_dec d then Inr (dval d) else value_error ''not finite''
     | PStr s \<Rightarrow> value_error (''could not convert string to float: '' @ s)
     | PTime _ \<Rightarrow> value_error ''could not convert string to float''
     | _ \<Rightarrow> Inl (Exn ''TypeError'' ''float() argument must be a string or a real number''))"

definition numeric_stop :: "pyval \<Rightarrow> pyval result" where
  "numeric_stop v = (case v of PNone \<Rightarrow> Inr v | PInt _ \<Rightarrow> Inr v | PBool _ \<Rightarrow> Inr v | PNum _ \<Rightarrow> Inr v | PDict _ \<Rightarrow> Inr v
     | PList _ \<Rightarrow> Inl (Exn ''TypeError'' ''Unsupported MetaApi stop value type: list'')
     | _ \<Rightarrow> (case float_of v of Inl e \<Rightarrow> Inl e | Inr x \<Rightarrow> Inr (PNum x)))"

definition or_str :: "string option \<Rightarrow> string option \<Rightarrow> string option" where
  "or_str a b = (if a = None \<or> a = Some [] then b else a)"

definition normalized_result :: "broker_response option \<Rightarrow> broker_result" where
  "normalized_result r = (case r of
     None \<Rightarrow> \<lparr>res_order_id = None, res_deal_id = None, res_position_id = None\<rparr>
   | Some v \<Rightarrow> \<lparr>res_order_id = or_str (resp_orderId v) (resp_order v), res_deal_id = or_str (resp_dealId v) (resp_deal v),
       res_position_id = or_str (resp_positionId v) (resp_position v)\<rparr>)"

definition broker_symbols :: "broker_session \<Rightarrow> broker_symbol list" where
  "broker_symbols br = map broker_symbol_from_metaapi (br_specifications br)"

definition ensure_price :: "broker_session \<Rightarrow> string \<Rightarrow> price_quote result" where
  "ensure_price br sy = (let price = br_price br sy in
     if pq_bid price \<noteq> None \<and> pq_ask price \<noteq> None then Inr price
     else case br_subscribe br sy of Inl e \<Rightarrow> Inl e | Inr _ \<Rightarrow> Inr (br_price_after br sy))"

text \<open>\<^verbatim>\<open>find_order\<close>, \<^verbatim>\<open>find_position\<close> and \<^verbatim>\<open>find_deal\<close> with a client id only, as they are called.\<close>

definition find_by_client :: "string option \<Rightarrow> broker_item list \<Rightarrow> broker_item option" where
  "find_by_client client_id items = find (\<lambda>i. bi_clientId i = client_id \<or> bi_client_id i = client_id) items"

definition market_call :: "string \<Rightarrow> string \<Rightarrow> rat \<Rightarrow> pyval \<Rightarrow> pyval \<Rightarrow> trade_options \<Rightarrow> broker_call result" where
  "market_call direction sy volume stop_loss take_profit options = (
     case numeric_stop stop_loss of Inl e \<Rightarrow> Inl e | Inr sl \<Rightarrow>
     case numeric_stop take_profit of Inl e \<Rightarrow> Inl e | Inr tp \<Rightarrow>
     Inr ((if py_lower direction = ''buy'' then Create_market_buy_order else Create_market_sell_order) sy volume sl tp options))"

definition pending_call ::
  "broker_session \<Rightarrow> string \<Rightarrow> string \<Rightarrow> string \<Rightarrow> rat \<Rightarrow> rat \<Rightarrow> pyval \<Rightarrow> pyval \<Rightarrow> trade_options \<Rightarrow> broker_call result" where
  "pending_call br direction order_type sy volume open_price stop_loss take_profit options = (
     let name = ''create_'' @ py_lower order_type @ ''_'' @ py_lower direction @ ''_order'' in
     if \<not> br_has_method br name then Inl (Exn ''AttributeError'' name) else
     case numeric_stop stop_loss of Inl e \<Rightarrow> Inl e | Inr sl \<Rightarrow>
     case numeric_stop take_profit of Inl e \<Rightarrow> Inl e | Inr tp \<Rightarrow>
     Inr (Create_pending_order name sy volume open_price sl tp options))"

definition modify_call :: "string option \<Rightarrow> pyval \<Rightarrow> pyval \<Rightarrow> broker_call result" where
  "modify_call position_id stop_loss take_profit = (
     case numeric_stop stop_loss of Inl e \<Rightarrow> Inl e | Inr sl \<Rightarrow>
     case numeric_stop take_profit of Inl e \<Rightarrow> Inl e | Inr tp \<Rightarrow> Inr (Modify_position position_id sl tp))"

section \<open>Environment and world\<close>

record exec_env =
  xe_global_paused :: bool
  xe_metaapi_enabled :: bool
  xe_billing_enforced :: bool
  xe_uncertain_max_age_seconds :: int
  xe_reconnect_backoff_seconds :: int
  xe_subscription :: "uuid \<Rightarrow> billing_subscription option"
  xe_rnd :: "nat \<Rightarrow> uuid"
  xe_fingerprint :: "metaapi_specification list \<Rightarrow> string"
  xe_parse_iso :: "string \<Rightarrow> int option"
  xe_bases :: "string \<Rightarrow> string list"
  xe_acquire :: "string \<Rightarrow> broker_session result"

text \<open>A call is logged with the intent it is made for; emergency calls have none.\<close>

record world =
  xw_db :: db
  xw_calls :: "(uuid option \<times> broker_call) list"
  xw_events :: "copy_event list"
  xw_draws :: nat

definition with_db :: "db \<Rightarrow> world \<Rightarrow> world" where
  "with_db d w = w \<lparr>xw_db := d\<rparr>"

definition exec_open_actions :: "string list" where
  "exec_open_actions = [''open_market'', ''place_pending'', ''additional_tp'']"

section \<open>Routes of an account\<close>

definition mark_routes_target_unavailable :: "uuid \<Rightarrow> db \<Rightarrow> db" where
  "mark_routes_target_unavailable cid d = d \<lparr>db_routes := map (\<lambda>r.
     if rt_target_connection_id r = Some cid \<and> rt_state r = Route_active
     then r \<lparr>rt_paused_from_state := Some (rt_state r), rt_state := Route_target_unavailable\<rparr> else r) (db_routes d)\<rparr>"

definition restore_routes_after_target_recovery :: "uuid \<Rightarrow> db \<Rightarrow> db" where
  "restore_routes_after_target_recovery cid d = d \<lparr>db_routes := map (\<lambda>r.
     if rt_target_connection_id r = Some cid \<and> rt_state r = Route_target_unavailable
     then r \<lparr>rt_state := (case rt_paused_from_state r of None \<Rightarrow> Route_ready | Some st \<Rightarrow> st), rt_paused_from_state := None\<rparr>
     else r) (db_routes d)\<rparr>"

definition reconnecting :: string where
  "reconnecting = ''The trading account is reconnecting to the broker automatically.''"

definition set_connection_ready :: "uuid \<Rightarrow> int \<Rightarrow> db \<Rightarrow> db" where
  "set_connection_ready cid now d = restore_routes_after_target_recovery cid (modify_connection cid
     (\<lambda>c. c \<lparr>cn_state := Conn_ready, cn_last_health_at := Some now, cn_last_error_code := None,
             cn_last_error_message := None\<rparr>) d)"

definition set_connection_disconnected :: "uuid \<Rightarrow> (copy_trading_connection \<Rightarrow> copy_trading_connection) \<Rightarrow> db \<Rightarrow> db" where
  "set_connection_disconnected cid f d = mark_routes_target_unavailable cid (modify_connection cid
     (\<lambda>c. f (c \<lparr>cn_state := Conn_broker_disconnected, cn_last_error_code := Some ''broker_connection_unavailable'',
             cn_last_error_message := Some reconnecting\<rparr>)) d)"

text \<open>\<^verbatim>\<open>warm_active_copy_connections\<close>: the accounts it reads, and one of them.\<close>

definition warm_candidates :: "exec_env \<Rightarrow> int \<Rightarrow> db \<Rightarrow> (uuid \<times> string) list" where
  "warm_candidates env now d = (let cutoff = now - 1000000 * xe_reconnect_backoff_seconds env in
     remdups (concat (map (\<lambda>c. case cn_metaapi_account_id c of None \<Rightarrow> [] | Some account \<Rightarrow>
       if list_ex (\<lambda>r. rt_target_connection_id r = Some (cn_id c) \<and> rt_state r \<in> {Route_active, Route_target_unavailable}) (db_routes d)
          \<and> (cn_state c = Conn_ready \<or> cn_state c = Conn_broker_disconnected
               \<and> (case cn_last_health_at c of None \<Rightarrow> True | Some t \<Rightarrow> t < cutoff))
       then [(cn_id c, account)] else []) (db_connections d))))"

definition warm_connection :: "exec_env \<Rightarrow> int \<Rightarrow> uuid \<times> string \<Rightarrow> db \<times> nat \<Rightarrow> db \<times> nat" where
  "warm_connection env now ca s = (case (ca, s) of ((cid, account), (d, warmed)) \<Rightarrow>
     (case xe_acquire env account of
        Inl e \<Rightarrow> (if get_connection d (Some cid) = None then d
                 else set_connection_disconnected cid (\<lambda>c. c \<lparr>cn_last_health_at := Some now\<rparr>) d, warmed)
      | Inr _ \<Rightarrow> (if get_connection d (Some cid) = None then d else set_connection_ready cid now d, warmed + 1)))"

definition warm_active_copy_connections :: "exec_env \<Rightarrow> int \<Rightarrow> db \<Rightarrow> db \<times> nat" where
  "warm_active_copy_connections env now d = (if \<not> xe_metaapi_enabled env then (d, 0)
     else fold (warm_connection env now) (warm_candidates env now d) (d, 0))"

section \<open>Errors and texts\<close>

definition isinstance :: "exec_env \<Rightarrow> exn \<Rightarrow> string \<Rightarrow> bool" where
  "isinstance env e cls \<longleftrightarrow> exn_class e = cls \<or> cls \<in> set (xe_bases env (exn_class e))"

definition is_permanent_metaapi_error :: "exec_env \<Rightarrow> exn \<Rightarrow> bool" where
  "is_permanent_metaapi_error env e = (
     if list_ex (isinstance env e) [''TimeoutError'', ''ConnectionError'', ''OSError''] then False
     else let name = py_lower (exn_class e) in
     if list_ex (\<lambda>w. py_in w name) [''timeout'', ''connection'', ''socket'', ''rate''] then False
     else isinstance env e ''ValueError''
       \<or> list_ex (\<lambda>w. py_in w name) [''validation'', ''trade'', ''forbidden'', ''unauthorized''])"

definition friendly_broker_error :: "exn \<Rightarrow> string" where
  "friendly_broker_error e = (
     let message = py_strip (exn_message e); lowered = py_lower message in
     if py_in ''market is closed'' lowered then ''The market is closed for this symbol. No trade was placed.''
     else if py_in ''invalid stops'' lowered \<or> py_in ''stop'' lowered \<and> py_in ''invalid'' lowered
     then ''The broker rejected the stop loss or take profit. Check the price distance.''
     else if py_in ''not enough money'' lowered \<or> py_in ''no money'' lowered \<or> py_in ''margin'' lowered
     then ''The account does not have enough free margin for this trade.''
     else if py_in ''volume'' lowered then ''The broker rejected the trade size for this symbol.''
     else if py_in ''timeout'' lowered \<or> py_in ''temporar'' lowered \<or> py_in ''connection'' lowered
     then ''The broker did not confirm the request yet. SignalSync is checking its status.''
     else if message = [] then ''The broker rejected the instruction.'' else take 500 message)"

definition activity_copy :: "dict \<Rightarrow> string \<times> string" where
  "activity_copy payload = (
     let sy = (case dict_get payload ''symbol'' of PStr s \<Rightarrow> if s = [] then ''Trade'' else s | _ \<Rightarrow> ''Trade'') in
     case map_of [
       (''open_market'', (sy @ '' trade opened'', ''The market order was accepted by the trading account.'')),
       (''place_pending'', (sy @ '' pending order placed'', ''The pending order is waiting for its entry price.'')),
       (''modify_sl_tp'', (sy @ '' protection updated'', ''The stop loss and take profit were updated.'')),
       (''break_even'', (sy @ '' moved to break even'', ''The stop loss was moved to the entry price.'')),
       (''partial_close'', (sy @ '' position reduced'', ''Part of the copied position was closed.'')),
       (''full_close'', (sy @ '' position closed'', ''The copied position was closed.'')),
       (''cancel_pending'', (sy @ '' pending order cancelled'', ''The copied pending order was cancelled.'')),
       (''additional_tp'', (sy @ '' take-profit instruction copied'', ''The additional take-profit instruction was accepted.''))]
       (case dict_get payload ''action'' of PStr a \<Rightarrow> a | _ \<Rightarrow> []) of
       Some t \<Rightarrow> t
     | None \<Rightarrow> (''Copy action completed'', ''The trading account accepted the instruction.''))"

definition exec_activity :: "copy_route \<Rightarrow> copy_event \<Rightarrow> string \<Rightarrow> string \<Rightarrow> copy_activity_level \<Rightarrow> string \<Rightarrow> db \<Rightarrow> db" where
  "exec_activity route ev action title level body d = d \<lparr>db_activities := db_activities d @
     [\<lparr>act_user_id = rt_user_id route, act_route_id = Some (rt_id route), act_source_id = Some (rt_source_id route),
       act_connection_id = rt_target_connection_id route, act_correlation_id = ev_correlation_id ev,
       act_action = action, act_level = level, act_title = take 200 title, act_body = Some body\<rparr>]\<rparr>"

definition notify_execution :: "copy_route \<Rightarrow> string \<Rightarrow> string \<Rightarrow> bool \<Rightarrow> db \<Rightarrow> db" where
  "notify_execution route title body success d = (
     if \<not> (if success then rt_notify_success route else rt_notify_failure route) then d
     else d \<lparr>db_notifications := db_notifications d @ [\<lparr>nt_user_id = rt_user_id route,
       nt_type = (if success then Notify_success else Notify_error), nt_title = title, nt_body = Some body,
       nt_link = Some ''/copy-trading/activity''\<rparr>]\<rparr>)"

definition reconcile_event :: "uuid \<Rightarrow> int \<Rightarrow> string \<Rightarrow> trade_intent \<Rightarrow> string \<Rightarrow> copy_event" where
  "reconcile_event u now correlation_id i key = new_event u now S_execution_intents ''intent.reconcile'' correlation_id
     [(''intent_id'', PStr (str_uuid (ti_id i))), (''connection_id'', PStr (str_uuid_opt (ti_connection_id i)))] key"

definition uncertain_intent_expired :: "exec_env \<Rightarrow> trade_intent \<Rightarrow> int \<Rightarrow> bool" where
  "uncertain_intent_expired env i now \<longleftrightarrow>
     max 0 (of_int (now - ti_created_at i) / 1000000 :: rat) \<ge> of_int (xe_uncertain_max_age_seconds env)"

text \<open>\<^verbatim>\<open>int(now.timestamp()) // bucket_seconds\<close>; \<^verbatim>\<open>int\<close> cuts towards zero.\<close>

definition whole_seconds :: "int \<Rightarrow> int" where
  "whole_seconds now = (if now \<ge> 0 then now div 1000000 else - ((- now) div 1000000))"

definition reconcile_sweep_bucket :: "exec_env \<Rightarrow> int \<Rightarrow> int" where
  "reconcile_sweep_bucket env now = whole_seconds now div (max 1 (min 30 (xe_uncertain_max_age_seconds env)))"

section \<open>Preparing an action\<close>

text \<open>\<^verbatim>\<open>_resolve_broker_symbol\<close>: the saved choice while the catalogue is the same, else a fresh one that is saved.\<close>

definition save_mapping :: "uuid \<Rightarrow> symbol_mapping option \<Rightarrow> copy_route \<Rightarrow> uuid \<Rightarrow> string \<Rightarrow> string \<Rightarrow> string \<Rightarrow> db \<Rightarrow> db" where
  "save_mapping new_id saved route cid normalized name version d = d \<lparr>db_mappings := (case saved of
     Some m \<Rightarrow> row_put sm_id (m \<lparr>sm_broker_symbol := name, sm_catalog_version := version\<rparr>) (db_mappings d)
   | None \<Rightarrow> db_mappings d @ [\<lparr>sm_id = new_id, sm_route_id = rt_id route, sm_connection_id = cid,
       sm_normalized_signal_symbol = normalized, sm_broker_symbol = name, sm_catalog_version = version\<rparr>])\<rparr>"

definition resolve_broker_symbol ::
  "exec_env \<Rightarrow> broker_session \<Rightarrow> int \<Rightarrow> copy_route \<Rightarrow> uuid \<Rightarrow> string \<Rightarrow> world \<Rightarrow> broker_symbol result \<times> world" where
  "resolve_broker_symbol env br now route cid requested w = (
     let version = xe_fingerprint env (br_specifications br);
         symbols = broker_symbols br;
         normalized = normalize_symbol requested;
         stamp = modify_connection cid (\<lambda>c. c \<lparr>cn_symbol_catalog_fingerprint := Some version,
           cn_symbol_catalog_refreshed_at := Some now\<rparr>) in
     case scalar_one_or_none (filter (\<lambda>m. sm_route_id m = rt_id route \<and> sm_connection_id m = cid
            \<and> sm_normalized_signal_symbol m = normalized) (db_mappings (xw_db w))) of
       Inl e \<Rightarrow> (Inl e, w)
     | Inr saved \<Rightarrow>
       (case (case saved of None \<Rightarrow> None | Some m \<Rightarrow> if sm_catalog_version m = version
                then find (\<lambda>sy. sym_name sy = sm_broker_symbol m) (rev symbols) else None) of
          Some sy \<Rightarrow> (Inr sy, with_db (stamp (xw_db w)) w)
        | None \<Rightarrow> (case resolve_symbol requested symbols of Inl e \<Rightarrow> (Inl e, w)
          | Inr sy \<Rightarrow> (Inr sy, (with_db (stamp (save_mapping (xe_rnd env (xw_draws w)) saved route cid normalized
              (sym_name sy) version (xw_db w))) w) \<lparr>xw_draws := Suc (xw_draws w)\<rparr>))))"

definition select_trade :: "copied_trade list \<Rightarrow> dict \<Rightarrow> copied_trade option" where
  "select_trade trades payload = (
     if truthy (dict_get payload ''copied_trade_id'')
     then find (\<lambda>t. dict_get payload ''copied_trade_id'' = PStr (str_uuid (ct_id t))) trades
     else case dict_get payload ''symbol'' of
       PStr sy \<Rightarrow> if sy = [] then the_only trades
         else find (\<lambda>t. startswith (normalize_symbol (ct_signal_symbol t)) (normalize_symbol sy)) trades
     | _ \<Rightarrow> the_only trades)"

definition payload_volume :: "dict \<Rightarrow> copy_route \<Rightarrow> rat result" where
  "payload_volume payload route =
     (if dict_has payload ''volume'' then to_number (dict_get payload ''volume'') else Inr (rt_fixed_lot route))"

definition quality_policy_of :: "copy_account_policy \<Rightarrow> quality_policy" where
  "quality_policy_of p = \<lparr>qp_max_spread_points = cap_max_spread_points p, qp_max_slippage_points = cap_max_slippage_points p,
     qp_max_quote_age_seconds = cap_max_quote_age_seconds p, qp_high_spread_behavior = cap_high_spread_behavior p,
     qp_trading_start_hour_utc = cap_trading_start_hour_utc p, qp_trading_end_hour_utc = cap_trading_end_hour_utc p\<rparr>"

definition quality_details ::
  "exec_env \<Rightarrow> broker_session \<Rightarrow> int \<Rightarrow> copy_account_policy option \<Rightarrow> broker_symbol \<Rightarrow> dict
     \<Rightarrow> (quality_error + execution_quality) result" where
  "quality_details env br now policy selected payload = (case ensure_price br (sym_name selected) of
       Inl _ \<Rightarrow> Inr (Inl quote_unavailable)
     | Inr price \<Rightarrow>
       (case (if dict_get payload ''entry'' = PNone then Inr None
              else case to_number (dict_get payload ''entry'') of Inl e \<Rightarrow> Inl e | Inr x \<Rightarrow> Inr (Some x)) of
          Inl e \<Rightarrow> Inl e
        | Inr entry \<Rightarrow> (case policy of None \<Rightarrow> Inl (Exn ''AttributeError'' ''max_spread_points'')
          | Some p \<Rightarrow> Inr (check_execution_quality (xe_parse_iso env) price selected
              (case dict_get payload ''direction'' of PStr s \<Rightarrow> if s = [] then ''buy'' else s | _ \<Rightarrow> ''buy'')
              entry (quality_policy_of p) now))))"

text \<open>The equity marks of a policy: the first equity of a day and the highest one seen.\<close>

definition mark_equity :: "int \<Rightarrow> rat option \<Rightarrow> copy_account_policy \<Rightarrow> copy_account_policy" where
  "mark_equity now equity p = (case equity of None \<Rightarrow> p | Some x \<Rightarrow>
     let today = now div 86400000000;
         p = (if cap_daily_equity_anchor_date p \<noteq> Some today
              then p \<lparr>cap_daily_equity_anchor_date := Some today, cap_daily_equity_anchor := Some x\<rparr> else p) in
     (case cap_peak_equity p of
        None \<Rightarrow> p \<lparr>cap_peak_equity := Some x\<rparr>
      | Some peak \<Rightarrow> if x > peak then p \<lparr>cap_peak_equity := Some x\<rparr> else p))"

definition live_risk_input :: "copy_account_policy \<Rightarrow> copied_trade list \<Rightarrow> dict \<Rightarrow> rat \<Rightarrow> rat option \<Rightarrow> risk_input" where
  "live_risk_input p trades payload volume equity = \<lparr>
     ri_symbol = (case dict_get payload ''symbol'' of PStr s \<Rightarrow> s | _ \<Rightarrow> []), ri_signal_volume = volume,
     ri_current_exposure = exposure trades, ri_current_positions = length trades,
     ri_equity = equity, ri_daily_equity_anchor = cap_daily_equity_anchor p, ri_peak_equity = cap_peak_equity p,
     ri_max_lot_per_trade = cap_max_lot_per_trade p, ri_max_total_lot = cap_max_lot p,
     ri_max_open_positions = cap_max_open_positions p, ri_daily_loss_limit = cap_daily_loss_limit p,
     ri_max_drawdown_percent = cap_max_drawdown_percent p, ri_allowed_symbols = cap_allowed_symbols p,
     ri_blocked_symbols = cap_blocked_symbols p\<rparr>"

definition enforce_live_account_risk ::
  "broker_session \<Rightarrow> int \<Rightarrow> copy_account_policy option \<Rightarrow> copy_route \<Rightarrow> dict \<Rightarrow> rat option \<Rightarrow> db
     \<Rightarrow> ((risk_error + unit) \<times> db) result" where
  "enforce_live_account_risk br now policy route payload volume d = (case volume of None \<Rightarrow> Inr (Inr (), d)
   | Some v \<Rightarrow>
     if v \<le> 0 then Inr (Inr (), d)
     else case (if br_equity br = PNone then Inr None
                else case to_number (br_equity br) of Inl e \<Rightarrow> Inl e | Inr x \<Rightarrow> Inr (Some x)) of
       Inl e \<Rightarrow> Inl e
     | Inr equity \<Rightarrow> (case policy of None \<Rightarrow> Inl (Exn ''AttributeError'' ''daily_equity_anchor'')
       | Some p \<Rightarrow>
         let p = mark_equity now equity p;
             d = modify_policy (cap_id p) (mark_equity now equity) d in
         Inr (ensure_account_risk_within_limits (live_risk_input p
           (active_trades_on d (rt_target_connection_id route)) payload v equity), d)))"

section \<open>Sending an action\<close>

definition trade_options_of :: "copy_route \<Rightarrow> trade_intent \<Rightarrow> trade_options" where
  "trade_options_of route i = \<lparr>op_clientId = ti_client_order_id i, op_magic = rt_magic_number route\<rparr>"

definition direction_of :: "dict \<Rightarrow> string result" where
  "direction_of payload = (case dict_item payload ''direction'' of Inl e \<Rightarrow> Inl e
     | Inr (PStr s) \<Rightarrow> Inr s | Inr _ \<Rightarrow> Inl (Exn ''AttributeError'' ''lower''))"

definition order_type_of :: "dict \<Rightarrow> string" where
  "order_type_of payload = rev (takeWhile (\<lambda>c. c \<noteq> CHR ''_'') (rev (py_lower
     (case dict_get payload ''order_type'' of PStr s \<Rightarrow> if s = [] then ''limit'' else s | _ \<Rightarrow> ''limit''))))"

definition sized_volume :: "dict \<Rightarrow> copy_route \<Rightarrow> broker_symbol option \<Rightarrow> rat result" where
  "sized_volume payload route selected = (case payload_volume payload route of Inl e \<Rightarrow> Inl e
     | Inr v \<Rightarrow> (case selected of None \<Rightarrow> Inl (Exn ''AttributeError'' ''min_volume'') | Some sy \<Rightarrow> normalize_volume v sy))"

definition close_volume :: "dict \<Rightarrow> copied_trade \<Rightarrow> rat result" where
  "close_volume payload t = (
     case (case ct_current_volume t of Some v \<Rightarrow> if v \<noteq> 0 then Some v else ct_original_volume t | None \<Rightarrow> ct_original_volume t) of
       None \<Rightarrow> Inl (Exn ''InvalidOperation'' ''conversion syntax'')
     | Some current \<Rightarrow>
       (case (if truthy (dict_get payload ''close_fraction'') then to_number (dict_get payload ''close_fraction'') else Inr (1 / 2)) of
          Inl e \<Rightarrow> Inl e | Inr fraction \<Rightarrow> Inr (current * fraction)))"

text \<open>\<^verbatim>\<open>_run_action\<close> up to the call: the call an intent stands for and the volume it is made with.\<close>

definition action_call ::
  "broker_session \<Rightarrow> copy_route \<Rightarrow> trade_intent \<Rightarrow> dict \<Rightarrow> copied_trade option \<Rightarrow> broker_symbol option
     \<Rightarrow> (broker_call \<times> rat option) result" where
  "action_call br route i payload copied selected = (
     case str_item payload ''action'' of Inl e \<Rightarrow> Inl e | Inr action \<Rightarrow>
     let options = trade_options_of route i; stop_loss = dict_get payload ''stop_loss''; take_profit = dict_get payload ''take_profit'' in
     if action = ''open_market'' \<or> action = ''additional_tp'' then
       (case sized_volume payload route selected of Inl e \<Rightarrow> Inl e | Inr v \<Rightarrow>
        case direction_of payload of Inl e \<Rightarrow> Inl e | Inr direction \<Rightarrow>
        case market_call direction (sym_name (the selected)) v stop_loss take_profit options of Inl e \<Rightarrow> Inl e
        | Inr c \<Rightarrow> Inr (c, Some v))
     else if action = ''place_pending'' then
       (case sized_volume payload route selected of Inl e \<Rightarrow> Inl e | Inr v \<Rightarrow>
        case direction_of payload of Inl e \<Rightarrow> Inl e | Inr direction \<Rightarrow>
        case (case dict_item payload ''entry'' of Inl e \<Rightarrow> Inl e | Inr p \<Rightarrow> float_of p) of Inl e \<Rightarrow> Inl e | Inr price \<Rightarrow>
        case pending_call br direction (order_type_of payload) (sym_name (the selected)) v price stop_loss take_profit options of
          Inl e \<Rightarrow> Inl e | Inr c \<Rightarrow> Inr (c, Some v))
     else case copied of
       None \<Rightarrow> value_error (''Management action '' @ action @ '' requires a matched copied trade.'')
     | Some t \<Rightarrow>
       if action = ''modify_sl_tp'' \<or> action = ''break_even'' then
         (case modify_call (ct_broker_position_id t) (or_value stop_loss (dict_get payload ''entry'')) take_profit of
            Inl e \<Rightarrow> Inl e | Inr c \<Rightarrow> Inr (c, None))
       else if action = ''partial_close'' then
         (case close_volume payload t of Inl e \<Rightarrow> Inl e
          | Inr v \<Rightarrow> Inr (Close_position_partially (ct_broker_position_id t) v options, Some v))
       else if action = ''full_close'' then Inr (Close_position (ct_broker_position_id t) options, None)
       else if action = ''cancel_pending'' then Inr (Cancel_order (ct_broker_order_id t), None)
       else value_error (''Unsupported copy action '' @ action @ ''.''))"

definition run_action ::
  "broker_session \<Rightarrow> copy_route \<Rightarrow> trade_intent \<Rightarrow> dict \<Rightarrow> copied_trade option \<Rightarrow> broker_symbol option \<Rightarrow> world
     \<Rightarrow> (broker_result \<times> rat option) result \<times> world" where
  "run_action br route i payload copied selected w = (case action_call br route i payload copied selected of
       Inl e \<Rightarrow> (Inl e, w)
     | Inr (c, v) \<Rightarrow>
       let w = w \<lparr>xw_calls := xw_calls w @ [(Some (ti_id i), c)]\<rparr> in
       (case br_answer br c of Inl e \<Rightarrow> (Inl e, w) | Inr r \<Rightarrow> (Inr (normalized_result r, v), w)))"

section \<open>Settling an intent\<close>

definition result_dict :: "broker_result \<Rightarrow> dict" where
  "result_dict r = [(''order_id'', opt_str (res_order_id r)), (''deal_id'', opt_str (res_deal_id r)),
     (''position_id'', opt_str (res_position_id r))]"

definition fail_intent :: "string \<Rightarrow> trade_intent \<Rightarrow> trade_intent" where
  "fail_intent code i = i \<lparr>ti_state := Intent_failed, ti_last_error_code := Some code\<rparr>"

definition with_message :: "string \<Rightarrow> trade_intent \<Rightarrow> trade_intent" where
  "with_message m i = i \<lparr>ti_broker_result := [(''message'', PStr m)]\<rparr>"

text \<open>An intent a setting of the account stops: failed, logged, measured and notified.\<close>

definition block_intent ::
  "copy_event \<Rightarrow> copy_route \<Rightarrow> int \<Rightarrow> trade_intent \<Rightarrow> string \<Rightarrow> string \<Rightarrow> string \<Rightarrow> string \<Rightarrow> db \<Rightarrow> db" where
  "block_intent ev route now i code message action title d = (
     let f = (\<lambda>x. with_message message (fail_intent code x));
         d = modify_intent (ti_id i) f d;
         d = exec_activity route ev action title Level_warning message d;
         d = fst (record_execution_metric d (f i) route ''blocked'' None now) in
     notify_execution route ''Copied trade blocked'' message False d)"

text \<open>The broker call raised: rejected for good, or to be confirmed later.\<close>

definition settle_raised :: "exec_env \<Rightarrow> copy_event \<Rightarrow> copy_route \<Rightarrow> int \<Rightarrow> trade_intent \<Rightarrow> exn \<Rightarrow> world \<Rightarrow> world" where
  "settle_raised env ev route now i e w = (
     let permanent = is_permanent_metaapi_error env e;
         f = (\<lambda>x. with_message (take 500 (exn_message e)) (x \<lparr>ti_state := (if permanent then Intent_failed else Intent_uncertain),
               ti_last_error_code := Some (exn_class e)\<rparr>));
         body = friendly_broker_error e;
         d = modify_intent (ti_id i) f (xw_db w);
         d = exec_activity route ev (if permanent then ''broker.failed'' else ''broker.uncertain'')
               (if permanent then ''Copy trade rejected'' else ''Confirming broker status'')
               (if permanent then Level_error else Level_warning) body d;
         d = fst (record_execution_metric d (f i) route (if permanent then ''failed'' else ''uncertain'') None now);
         d = notify_execution route (if permanent then ''Copy trade rejected'' else ''Broker confirmation delayed'') body False d;
         w = with_db d w in
     if permanent then w
     else w \<lparr>xw_events := xw_events w @ [reconcile_event (xe_rnd env (xw_draws w)) now (ev_correlation_id ev) i
              (''reconcile:'' @ str_uuid (ti_id i) @ '':'' @ show_int (ti_attempt_count i))], xw_draws := Suc (xw_draws w)\<rparr>)"

definition decimal_or_none :: "pyval \<Rightarrow> rat option result" where
  "decimal_or_none v = (if v = PNone then Inr None else case to_number v of Inl e \<Rightarrow> Inl e | Inr x \<Rightarrow> Inr (Some x))"

text \<open>The row of an opened trade, or the change of the trade a management action is about.\<close>

definition opened_trade ::
  "uuid \<Rightarrow> int \<Rightarrow> copy_route \<Rightarrow> uuid \<Rightarrow> trade_intent \<Rightarrow> uuid \<Rightarrow> string \<Rightarrow> dict \<Rightarrow> broker_symbol \<Rightarrow> broker_result \<Rightarrow> rat option
     \<Rightarrow> rat option \<Rightarrow> rat option \<Rightarrow> copied_trade" where
  "opened_trade tid now route thread i cid action payload selected r volume stop_loss take_profit = \<lparr>
     ct_id = tid, ct_route_id = rt_id route, ct_thread_id = thread, ct_intent_id = ti_id i, ct_connection_id = Some cid,
     ct_magic_number = rt_magic_number route, ct_route_comment = ''cp:'' @ take 8 (str_uuid (rt_id route)),
     ct_signal_symbol = (case dict_get payload ''symbol'' of PStr s \<Rightarrow> s | _ \<Rightarrow> ''None''), ct_broker_symbol = sym_name selected,
     ct_broker_order_id = res_order_id r, ct_broker_deal_id = res_deal_id r,
     ct_broker_position_id = or_str (res_position_id r) (res_order_id r),
     ct_lifecycle_state = (if action = ''place_pending'' then ''pending'' else ''open''),
     ct_original_volume = volume, ct_current_volume = volume, ct_stop_loss = stop_loss, ct_take_profit = take_profit,
     ct_broker_synced_at = Some now, ct_created_at = now\<rparr>"

definition mark_trade_terminal :: "string \<Rightarrow> copied_trade \<Rightarrow> copied_trade" where
  "mark_trade_terminal action t = t \<lparr>ct_lifecycle_state := (if action = ''full_close'' then ''closed'' else ''cancelled''),
     ct_current_volume := Some 0\<rparr>"

definition managed_trade :: "string \<Rightarrow> dict \<Rightarrow> rat option \<Rightarrow> copied_trade \<Rightarrow> copied_trade result" where
  "managed_trade action payload volume t = (
     if action = ''partial_close'' then
       (case (ct_current_volume t, volume) of
          (Some current, Some v) \<Rightarrow> Inr (t \<lparr>ct_current_volume := Some (max 0 (current - v))\<rparr>)
        | _ \<Rightarrow> Inl (Exn ''TypeError'' ''conversion from NoneType to Decimal is not supported''))
     else if action = ''modify_sl_tp'' \<or> action = ''break_even'' then
       (let stop_loss = dict_get payload ''stop_loss''; entry = dict_get payload ''entry''; take_profit = dict_get payload ''take_profit'' in
        case (if stop_loss \<noteq> PNone \<or> entry \<noteq> PNone
              then (case to_number (or_value stop_loss entry) of Inl e \<Rightarrow> Inl e | Inr x \<Rightarrow> Inr (t \<lparr>ct_stop_loss := Some x\<rparr>))
              else Inr t) of
          Inl e \<Rightarrow> Inl e
        | Inr t \<Rightarrow> if take_profit = PNone then Inr t
            else (case to_number take_profit of Inl e \<Rightarrow> Inl e | Inr x \<Rightarrow> Inr (t \<lparr>ct_take_profit := Some x\<rparr>)))
     else if action = ''full_close'' \<or> action = ''cancel_pending'' then Inr (mark_trade_terminal action t)
     else Inr t)"

definition apply_result ::
  "uuid \<Rightarrow> int \<Rightarrow> copy_route \<Rightarrow> parsed_action option \<Rightarrow> trade_intent \<Rightarrow> uuid \<Rightarrow> dict \<Rightarrow> copied_trade option
     \<Rightarrow> broker_symbol option \<Rightarrow> broker_result \<Rightarrow> rat option \<Rightarrow> db \<Rightarrow> db result" where
  "apply_result tid now route pa i cid payload copied selected r volume d = (
     case str_item payload ''action'' of Inl e \<Rightarrow> Inl e | Inr action \<Rightarrow>
     case (if action \<in> set exec_open_actions then
         (case pa of None \<Rightarrow> Inl (Exn ''AttributeError'' ''thread_id'')
          | Some a \<Rightarrow> case selected of None \<Rightarrow> Inl (Exn ''AttributeError'' ''name'')
          | Some sy \<Rightarrow> case decimal_or_none (dict_get payload ''stop_loss'') of Inl e \<Rightarrow> Inl e
          | Inr sl \<Rightarrow> case decimal_or_none (dict_get payload ''take_profit'') of Inl e \<Rightarrow> Inl e
          | Inr tp \<Rightarrow> Inr (d \<lparr>db_trades := db_trades d @
              [opened_trade tid now route (pa_thread_id a) i cid action payload sy r volume sl tp]\<rparr>))
       else case copied of None \<Rightarrow> Inr d
       | Some t \<Rightarrow> (case managed_trade action payload volume t of Inl e \<Rightarrow> Inl e | Inr t' \<Rightarrow> Inr (put_trade t' d))) of
       Inl e \<Rightarrow> Inl e
     | Inr d \<Rightarrow> (case copied of None \<Rightarrow> Inr d
         | Some t \<Rightarrow> Inr (modify_trade (ct_id t) (\<lambda>x. x \<lparr>ct_broker_synced_at := Some now\<rparr>) d)))"

definition settle_confirmed ::
  "exec_env \<Rightarrow> copy_event \<Rightarrow> copy_route \<Rightarrow> int \<Rightarrow> trade_intent \<Rightarrow> uuid \<Rightarrow> parsed_action option \<Rightarrow> dict
     \<Rightarrow> copied_trade option \<Rightarrow> broker_symbol option \<Rightarrow> broker_result \<Rightarrow> rat option \<Rightarrow> world \<Rightarrow> unit result \<times> world" where
  "settle_confirmed env ev route now i cid pa payload copied selected r volume w = (
     let f = (\<lambda>x. x \<lparr>ti_state := Intent_confirmed, ti_broker_result := result_dict r, ti_resolved_at := Some now\<rparr>);
         d = modify_intent (ti_id i) f (xw_db w) in
     case apply_result (xe_rnd env (xw_draws w)) now route pa i cid payload copied selected r volume d of
       Inl e \<Rightarrow> (Inl e, w \<lparr>xw_draws := Suc (xw_draws w)\<rparr>)
     | Inr d \<Rightarrow>
       let (title, body) = activity_copy payload;
           d = exec_activity route ev ''broker.confirmed'' title Level_success body d;
           (d, metric) = record_execution_metric d (f i) route ''confirmed'' None now;
           d = (case em_total_ms metric of None \<Rightarrow> d
                | Some ms \<Rightarrow> if ms > 2000 then exec_activity route ev ''latency.slow''
                    ''Copy execution exceeded the 2-second target'' Level_warning
                    (''End-to-end execution took '' @ show_fixed 2 (of_int ms / 1000) @ '' seconds.'') d else d);
           d = notify_execution route title body True d in
       (Inr (), with_db d w \<lparr>xw_draws := Suc (xw_draws w)\<rparr>))"

section \<open>The handler\<close>

text \<open>
  From the commit of the submission on. The loaded row has one more attempt; an exception after the call
  leaves the database at that commit.
\<close>

definition submit_intent ::
  "exec_env \<Rightarrow> broker_session \<Rightarrow> copy_event \<Rightarrow> copy_route \<Rightarrow> int \<Rightarrow> trade_intent \<Rightarrow> uuid \<Rightarrow> parsed_action option
     \<Rightarrow> copied_trade option \<Rightarrow> broker_symbol option \<Rightarrow> world \<Rightarrow> delivery_result result \<times> world" where
  "submit_intent env br ev route now i cid pa copied selected w = (
     let attempts = ti_attempt_count i + 1;
         f = (\<lambda>x. x \<lparr>ti_state := Intent_submitted, ti_submitted_at := Some now, ti_attempt_count := attempts\<rparr>);
         i = f i; payload = ti_request_payload i;
         w = with_db (modify_intent (ti_id i) f (xw_db w)) w in
     case run_action br route i payload copied selected w of
       (Inl e, w) \<Rightarrow> (Inr delivery_success, settle_raised env ev route now i e w)
     | (Inr (r, volume), w) \<Rightarrow>
       (case settle_confirmed env ev route now i cid pa payload copied selected r volume w of
          (Inl e, w) \<Rightarrow> (Inl e, w) | (Inr _, w) \<Rightarrow> (Inr delivery_success, w)))"

definition refuse_quality :: "copy_event \<Rightarrow> copy_route \<Rightarrow> int \<Rightarrow> trade_intent \<Rightarrow> quality_error \<Rightarrow> db \<Rightarrow> delivery_result \<times> db" where
  "refuse_quality ev route now i q d = (
     let attempts = ti_attempt_count i + 1;
         g = (\<lambda>x. x \<lparr>ti_attempt_count := attempts\<rparr>);
         d = modify_intent (ti_id i) g d in
     if qe_retryable q \<and> attempts \<le> 1
     then (delivery_retry (qe_code q) (qe_message q), modify_intent (ti_id i)
            (\<lambda>x. x \<lparr>ti_state := Intent_retryable, ti_last_error_code := Some (qe_code q)\<rparr>) d)
     else if \<not> qe_user_action_required q
     then let f = (\<lambda>x. with_message (qe_message q) (fail_intent (qe_code q) x)) in
       (delivery_success, fst (record_execution_metric (modify_intent (ti_id i) f d) (f (g i)) route ''failed'' None now))
     else (delivery_success, block_intent ev route now (g i) (qe_code q) (qe_message q) ''execution.blocked''
             ''Trade blocked by execution settings'' d))"

definition guard_risk ::
  "exec_env \<Rightarrow> broker_session \<Rightarrow> copy_event \<Rightarrow> copy_route \<Rightarrow> int \<Rightarrow> trade_intent \<Rightarrow> uuid \<Rightarrow> parsed_action option
     \<Rightarrow> copy_account_policy option \<Rightarrow> rat option \<Rightarrow> copied_trade option \<Rightarrow> broker_symbol option \<Rightarrow> db \<Rightarrow> world
     \<Rightarrow> delivery_result result \<times> world" where
  "guard_risk env br ev route now i cid pa policy volume copied selected committed w = (
     case enforce_live_account_risk br now policy route (ti_request_payload i) volume (xw_db w) of
       Inl e \<Rightarrow> (Inl e, with_db committed w)
     | Inr (Inl risk, d) \<Rightarrow> (Inr delivery_success, with_db (block_intent ev route now i ''RISK_LIMIT_REACHED'' (risk_message risk)
         ''risk.blocked'' ''Trade blocked by account safety settings'' d) w)
     | Inr (Inr _, d) \<Rightarrow> submit_intent env br ev route now i cid pa copied selected (with_db d w))"

definition route_trades :: "db \<Rightarrow> copy_route \<Rightarrow> copied_trade list" where
  "route_trades d route = sorted_by_desc ct_created_at
     (filter (\<lambda>t. ct_route_id t = rt_id route \<and> active_lifecycle (ct_lifecycle_state t)) (db_trades d))"

text \<open>An exception before the submission takes the database back to \<open>committed\<close>.\<close>

definition execute_on_broker ::
  "exec_env \<Rightarrow> broker_session \<Rightarrow> copy_event \<Rightarrow> copy_route \<Rightarrow> int \<Rightarrow> trade_intent \<Rightarrow> uuid \<Rightarrow> parsed_action option
     \<Rightarrow> copy_account_policy option \<Rightarrow> world \<Rightarrow> delivery_result result \<times> world" where
  "execute_on_broker env br ev route now i cid pa policy w = (
     let payload = ti_request_payload i; committed = xw_db w;
         w = with_db (set_connection_ready cid now committed) w in
     case (case dict_get payload ''symbol'' of
             PStr sy \<Rightarrow> if sy = [] then (Inr None, w)
               else (case resolve_broker_symbol env br now route cid sy w of (Inl e, w) \<Rightarrow> (Inl e, w) | (Inr s, w) \<Rightarrow> (Inr (Some s), w))
           | _ \<Rightarrow> (Inr None, w)) of
       (Inl e, w) \<Rightarrow> (Inl e, with_db committed w)
     | (Inr selected, w) \<Rightarrow>
       let copied = select_trade (route_trades (xw_db w) route) payload in
       (case str_item payload ''action'' of Inl e \<Rightarrow> (Inl e, with_db committed w)
        | Inr action \<Rightarrow>
          let opening = action \<in> set exec_open_actions in
          (case (if opening then (case payload_volume payload route of Inl e \<Rightarrow> Inl e | Inr v \<Rightarrow> Inr (Some v)) else Inr None) of
             Inl e \<Rightarrow> (Inl e, with_db committed w)
           | Inr volume \<Rightarrow>
             (case (if opening \<and> selected \<noteq> None
                    then (case quality_details env br now policy (the selected) payload of Inl e \<Rightarrow> Inl e
                          | Inr (Inl q) \<Rightarrow> Inr (Some q) | Inr (Inr _) \<Rightarrow> Inr None) else Inr None) of
                Inl e \<Rightarrow> (Inl e, with_db committed w)
              | Inr (Some q) \<Rightarrow> (let (r, d) = refuse_quality ev route now i q (xw_db w) in (Inr r, with_db d w))
              | Inr None \<Rightarrow> guard_risk env br ev route now i cid pa policy volume copied selected committed w))))"

text \<open>The rows read before the lock of the connection is taken.\<close>

record exec_rows =
  xr_intent :: trade_intent
  xr_route :: "copy_route option"
  xr_connection :: "copy_trading_connection option"
  xr_action :: "parsed_action option"

definition automation_paused ::
  "exec_env \<Rightarrow> copy_route option \<Rightarrow> copy_trading_connection option \<Rightarrow> copy_trading_user_settings option
     \<Rightarrow> copy_account_policy option \<Rightarrow> bool" where
  "automation_paused env route connection user policy \<longleftrightarrow>
     xe_global_paused env \<or> \<not> xe_metaapi_enabled env
     \<or> (case route of None \<Rightarrow> True | Some r \<Rightarrow> rt_state r \<noteq> Route_active)
     \<or> (case connection of None \<Rightarrow> True | Some c \<Rightarrow> cn_state c \<notin> {Conn_ready, Conn_broker_disconnected}
          \<or> cn_metaapi_account_id c \<in> {None, Some []})
     \<or> (case user of None \<Rightarrow> False | Some u \<Rightarrow> us_is_paused u)
     \<or> (case policy of None \<Rightarrow> False | Some p \<Rightarrow> cap_is_paused p)"

definition execution_locked ::
  "exec_env \<Rightarrow> copy_event \<Rightarrow> int \<Rightarrow> exec_rows \<Rightarrow> world \<Rightarrow> delivery_result result \<times> world" where
  "execution_locked env ev now rows w = (
     let i = xr_intent rows; d = xw_db w in
     case policy_for d (ti_connection_id i) of Inl e \<Rightarrow> (Inl e, w)
     | Inr policy \<Rightarrow>
       if (case xr_route rows of None \<Rightarrow> False | Some r \<Rightarrow> rt_state r = Route_target_unavailable)
       then (Inr (delivery_retry ''TARGET_UNAVAILABLE'' reconnecting), w)
       else if automation_paused env (xr_route rows) (xr_connection rows) (get_settings d (ti_user_id i)) policy
       then (Inr delivery_success, with_db (modify_intent (ti_id i) (fail_intent ''AUTOMATION_PAUSED'') d) w)
       else (case (xr_route rows, xr_connection rows) of
         (Some route, Some conn) \<Rightarrow>
           (case xe_acquire env (the (cn_metaapi_account_id conn)) of
              Inl e \<Rightarrow> (Inr (delivery_retry (py_class_upper e) (exn_message e)),
                       with_db (set_connection_disconnected (cn_id conn) (\<lambda>c. c) d) w)
            | Inr br \<Rightarrow> execute_on_broker env br ev route now i (cn_id conn) (xr_action rows) policy w)
       | _ \<Rightarrow> (Inl (Exn ''AttributeError'' ''state''), w)))"

text \<open>The part before the lock: an answer at once, or the rows.\<close>

definition execution_read ::
  "exec_env \<Rightarrow> copy_event \<Rightarrow> int \<Rightarrow> db \<Rightarrow> ((delivery_result \<times> db) + exec_rows) result" where
  "execution_read env ev now d = (
     case str_item (ev_payload ev) ''intent_id'' of Inl e \<Rightarrow> Inl e | Inr t \<Rightarrow>
     case parse_uuid t of Inl e \<Rightarrow> Inl e | Inr iid \<Rightarrow>
     case get_intent d iid of
       None \<Rightarrow> Inr (Inl (delivery_retry ''INTENT_NOT_VISIBLE'' ''Trade intent is not committed yet.'', d))
     | Some i \<Rightarrow>
       if ti_state i \<notin> {Intent_created, Intent_retryable} then Inr (Inl (delivery_success, d))
       else if xe_billing_enforced env \<and> \<not> has_copy_access (current_entitlement (xe_subscription env (ti_user_id i)) now) now
          \<and> (\<exists>a \<in> set exec_open_actions. dict_get (ti_request_payload i) ''action'' = PStr a)
       then Inr (Inl (delivery_success, modify_intent iid (fail_intent ''SUBSCRIPTION_INACTIVE'') d))
       else Inr (Inr \<lparr>xr_intent = i, xr_route = get_route d (ti_route_id i),
              xr_connection = get_connection d (ti_connection_id i), xr_action = get_action d (ti_parsed_action_id i)\<rparr>))"

definition execute_intent :: "exec_env \<Rightarrow> bool \<Rightarrow> copy_event \<Rightarrow> int \<Rightarrow> world \<Rightarrow> delivery_result result \<times> world" where
  "execute_intent env lock_free ev now w = (case execution_read env ev now (xw_db w) of
       Inl e \<Rightarrow> (Inl e, w)
     | Inr (Inl (r, d)) \<Rightarrow> (Inr r, with_db d w)
     | Inr (Inr rows) \<Rightarrow>
       if \<not> lock_free then (Inr (delivery_retry ''CONNECTION_BUSY'' ''The copy account is processing another action.''), w)
       else execution_locked env ev now rows w)"

section \<open>Emergencies\<close>

text \<open>The trades in the scope of an emergency with their route and account.\<close>

definition emergency_rows :: "uuid \<Rightarrow> (copy_route \<Rightarrow> bool) \<Rightarrow> db \<Rightarrow> (copied_trade \<times> copy_route \<times> copy_trading_connection) list" where
  "emergency_rows user in_scope d = concat (map (\<lambda>t. case get_route d (ct_route_id t) of None \<Rightarrow> []
     | Some r \<Rightarrow> (case get_connection d (rt_target_connection_id r) of None \<Rightarrow> []
       | Some c \<Rightarrow> if rt_user_id r = user \<and> active_lifecycle (ct_lifecycle_state t) \<and> in_scope r then [(t, r, c)] else []))
     (db_trades d))"

definition emergency_scope :: "dict \<Rightarrow> (copy_route \<Rightarrow> bool) result" where
  "emergency_scope p = (
     let scope_id = (case dict_get p ''scope_id'' of PStr t \<Rightarrow> parse_uuid t | _ \<Rightarrow> Inl (Exn ''TypeError'' ''scope_id'')) in
     if dict_get p ''scope'' = PStr ''account''
     then (case scope_id of Inl e \<Rightarrow> Inl e | Inr k \<Rightarrow> Inr (\<lambda>r. rt_target_connection_id r = Some k))
     else if dict_get p ''scope'' = PStr ''source''
     then (case scope_id of Inl e \<Rightarrow> Inl e | Inr k \<Rightarrow> Inr (\<lambda>r. rt_source_id r = k))
     else if dict_get p ''scope'' = PStr ''route''
     then (case scope_id of Inl e \<Rightarrow> Inl e | Inr k \<Rightarrow> Inr (\<lambda>r. rt_id r = k))
     else Inr (\<lambda>_. True))"

text \<open>What is done to one trade: the call and the lifecycle state after it.\<close>

definition emergency_call :: "string \<Rightarrow> copied_trade \<Rightarrow> copy_route \<Rightarrow> (broker_call \<times> string) option" where
  "emergency_call action t r = (
     if action \<in> {''close_positions'', ''both''} \<and> ct_lifecycle_state t = ''open''
     then Some (Close_position (ct_broker_position_id t) \<lparr>op_clientId = None, op_magic = rt_magic_number r\<rparr>, ''closed'')
     else if action \<in> {''cancel_pending'', ''both''} \<and> ct_lifecycle_state t = ''pending''
     then Some (Cancel_order (ct_broker_order_id t), ''cancelled'') else None)"

definition emergency_trade ::
  "exec_env \<Rightarrow> (uuid \<Rightarrow> bool) \<Rightarrow> dict \<Rightarrow> int \<Rightarrow> copied_trade \<times> copy_route \<times> copy_trading_connection \<Rightarrow> world
     \<Rightarrow> (delivery_result option) result \<times> world" where
  "emergency_trade env lock_free p now row w = (case row of (t, r, c) \<Rightarrow>
     if cn_metaapi_account_id c \<in> {None, Some []} then (Inr None, w)
     else if \<not> lock_free (cn_id c) then (Inr (Some (delivery_retry ''CONNECTION_BUSY'' ''A copy account is processing another action.'')), w)
     else case xe_acquire env (the (cn_metaapi_account_id c)) of Inl e \<Rightarrow> (Inl e, w)
     | Inr br \<Rightarrow> (case str_item p ''action'' of Inl e \<Rightarrow> (Inl e, w)
       | Inr action \<Rightarrow>
         let sync = (\<lambda>x :: copied_trade. x \<lparr>ct_broker_synced_at := Some now\<rparr>) in
         (case emergency_call action t r of
            None \<Rightarrow> (Inr None, with_db (modify_trade (ct_id t) sync (xw_db w)) w)
          | Some (call, st) \<Rightarrow>
            let w = w \<lparr>xw_calls := xw_calls w @ [(None, call)]\<rparr> in
            (case br_answer br call of Inl e \<Rightarrow> (Inl e, w)
             | Inr _ \<Rightarrow> (Inr None, with_db (modify_trade (ct_id t) (\<lambda>x. sync (x \<lparr>ct_lifecycle_state := st\<rparr>)) (xw_db w)) w)))))"

primrec emergency_loop ::
  "exec_env \<Rightarrow> (uuid \<Rightarrow> bool) \<Rightarrow> dict \<Rightarrow> int \<Rightarrow> (copied_trade \<times> copy_route \<times> copy_trading_connection) list \<Rightarrow> world
     \<Rightarrow> delivery_result result \<times> world" where
  "emergency_loop env lock_free p now [] w = (Inr delivery_success, w)"
| "emergency_loop env lock_free p now (row # rows) w = (case emergency_trade env lock_free p now row w of
       (Inl e, w) \<Rightarrow> (Inl e, w)
     | (Inr (Some r), w) \<Rightarrow> (Inr r, w)
     | (Inr None, w) \<Rightarrow> emergency_loop env lock_free p now rows w)"

definition execute_emergency :: "exec_env \<Rightarrow> (uuid \<Rightarrow> bool) \<Rightarrow> copy_event \<Rightarrow> int \<Rightarrow> world \<Rightarrow> delivery_result result \<times> world" where
  "execute_emergency env lock_free ev now w = (let p = ev_payload ev in
     case str_item p ''user_id'' of Inl e \<Rightarrow> (Inl e, w) | Inr t \<Rightarrow>
     case parse_uuid t of Inl e \<Rightarrow> (Inl e, w) | Inr user \<Rightarrow>
     case emergency_scope p of Inl e \<Rightarrow> (Inl e, w) | Inr in_scope \<Rightarrow>
     emergency_loop env lock_free p now (emergency_rows user in_scope (xw_db w)) w)"

section \<open>Reconciliation\<close>

definition item_val :: "broker_item option \<Rightarrow> pyval" where
  "item_val i = (case i of None \<Rightarrow> PNone | Some x \<Rightarrow> PDict [(''id'', opt_str (bi_id x)), (''clientId'', opt_str (bi_clientId x))])"

text \<open>The broker items that carry the client id of the intent, and the intent they leave.\<close>

definition reconciled_intent :: "exec_env \<Rightarrow> broker_session \<Rightarrow> int \<Rightarrow> trade_intent \<Rightarrow> trade_intent" where
  "reconciled_intent env br now i = (
     let order = find_by_client (ti_client_order_id i) (br_orders br);
         position = find_by_client (ti_client_order_id i) (br_positions br);
         deal = find_by_client (ti_client_order_id i) (br_deals br) in
     if order \<noteq> None \<or> position \<noteq> None \<or> deal \<noteq> None
     then i \<lparr>ti_state := Intent_confirmed, ti_broker_result := [(''order'', item_val order), (''position'', item_val position),
            (''deal'', item_val deal)], ti_resolved_at := Some now\<rparr>
     else if uncertain_intent_expired env i now
     then i \<lparr>ti_state := Intent_failed, ti_last_error_code := Some ''BROKER_CONFIRMATION_TIMEOUT'', ti_resolved_at := Some now\<rparr>
     else i \<lparr>ti_state := Intent_uncertain\<rparr>)"

definition reconcile_intent :: "exec_env \<Rightarrow> copy_event \<Rightarrow> int \<Rightarrow> world \<Rightarrow> delivery_result result \<times> world" where
  "reconcile_intent env ev now w = (let d = xw_db w in
     case str_item (ev_payload ev) ''intent_id'' of Inl e \<Rightarrow> (Inl e, w) | Inr t \<Rightarrow>
     case parse_uuid t of Inl e \<Rightarrow> (Inl e, w) | Inr iid \<Rightarrow>
     case get_intent d iid of None \<Rightarrow> (Inr delivery_success, w)
     | Some i \<Rightarrow>
       if ti_state i \<notin> {Intent_uncertain, Intent_reconciling} then (Inr delivery_success, w)
       else case get_connection d (ti_connection_id i) of
         None \<Rightarrow> (Inr (delivery_retry ''CONNECTION_UNAVAILABLE'' ''Copy account is unavailable.''), w)
       | Some c \<Rightarrow>
         if cn_metaapi_account_id c \<in> {None, Some []}
         then (Inr (delivery_retry ''CONNECTION_UNAVAILABLE'' ''Copy account is unavailable.''), w)
         else let w = with_db (modify_intent iid (\<lambda>x. x \<lparr>ti_state := Intent_reconciling\<rparr>) d) w in
           (case xe_acquire env (the (cn_metaapi_account_id c)) of Inl e \<Rightarrow> (Inl e, w)
            | Inr br \<Rightarrow> (Inr delivery_success, with_db (modify_intent iid (reconciled_intent env br now) (xw_db w)) w)))"

definition execution_handler ::
  "exec_env \<Rightarrow> (uuid option \<Rightarrow> bool) \<Rightarrow> int \<Rightarrow> copy_event \<Rightarrow> world \<Rightarrow> delivery_result result \<times> world" where
  "execution_handler env lock_free now ev w = (
     if ev_event_type ev = ''emergency.execute'' then execute_emergency env (\<lambda>c. lock_free (Some c)) ev now w
     else if ev_event_type ev = ''intent.reconcile'' then reconcile_intent env ev now w
     else if ev_event_type ev \<noteq> ''intent.execute'' then (Inr delivery_success, w)
     else execute_intent env (lock_free None) ev now w)"

subsection \<open>Sweeps\<close>

text \<open>
  \<^verbatim>\<open>reconcile_copied_trades\<close> reads every active trade with its account, intent and route, and commits once
  at the end.
\<close>

definition reconcile_rows :: "db \<Rightarrow> (copied_trade \<times> copy_trading_connection \<times> trade_intent \<times> copy_route) list" where
  "reconcile_rows d = concat (map (\<lambda>t. case get_route d (ct_route_id t) of None \<Rightarrow> [] | Some r \<Rightarrow>
     (case get_connection d (rt_target_connection_id r) of None \<Rightarrow> [] | Some c \<Rightarrow>
     (case get_intent d (ct_intent_id t) of None \<Rightarrow> [] | Some i \<Rightarrow>
       if active_lifecycle (ct_lifecycle_state t) then [(t, c, i, r)] else []))) (db_trades d))"

definition drift_activity :: "int \<Rightarrow> copied_trade \<Rightarrow> copied_trade \<Rightarrow> copy_route \<Rightarrow> copy_activity_event" where
  "drift_activity now before after r = (
     let moved = ct_lifecycle_state before \<noteq> ct_lifecycle_state after in
     \<lparr>act_user_id = rt_user_id r, act_route_id = Some (rt_id r), act_source_id = Some (rt_source_id r),
      act_connection_id = rt_target_connection_id r,
      act_correlation_id = ''reconcile:'' @ str_uuid (ct_id after) @ '':'' @ show_int (whole_seconds now),
      act_action = ''reconciliation.drift'', act_level = (if moved then Level_warning else Level_info),
      act_title = ct_broker_symbol after @ (if moved then (if ct_lifecycle_state after = ''closed''
        then '' position closed outside SignalSync'' else '' broker status changed'') else '' broker changes synchronized''),
      act_body = Some (if moved then ''The local copy record was updated to match the trading account.''
        else ''Trade size, stop loss, or take profit changed directly at the broker. SignalSync updated its local record.'')\<rparr>)"

primrec reconcile_loop ::
  "exec_env \<Rightarrow> int \<Rightarrow> (copied_trade \<times> copy_trading_connection \<times> trade_intent \<times> copy_route) list \<Rightarrow> db \<times> nat \<Rightarrow> (db \<times> nat) result" where
  "reconcile_loop env now [] s = Inr s"
| "reconcile_loop env now (row # rows) s = (case row of (t, c, i, r) \<Rightarrow>
     if cn_metaapi_account_id c \<in> {None, Some []} then reconcile_loop env now rows s
     else case xe_acquire env (the (cn_metaapi_account_id c)) of Inl e \<Rightarrow> Inl e
     | Inr br \<Rightarrow>
       let (t', changed) = apply_broker_snapshot t (br_positions br) (br_orders br) now (ti_client_order_id i);
           d = put_trade t' (fst s) in
       reconcile_loop env now rows (if changed
         then (d \<lparr>db_activities := db_activities d @ [drift_activity now t t' r]\<rparr>, snd s + 1) else (d, snd s)))"

definition reconcile_copied_trades :: "exec_env \<Rightarrow> int \<Rightarrow> db \<Rightarrow> nat result \<times> db" where
  "reconcile_copied_trades env now d = (case reconcile_loop env now (reconcile_rows d) (d, 0) of
     Inl e \<Rightarrow> (Inl e, d) | Inr (d', n) \<Rightarrow> (Inr n, d'))"

primrec publish_sweep :: "exec_env \<Rightarrow> int \<Rightarrow> trade_intent list \<Rightarrow> world \<Rightarrow> world" where
  "publish_sweep env now [] w = w"
| "publish_sweep env now (i # rest) w = publish_sweep env now rest (w \<lparr>
     xw_events := xw_events w @ [reconcile_event (xe_rnd env (Suc (xw_draws w))) now (str_uuid (xe_rnd env (xw_draws w))) i
       (''reconcile-sweep:'' @ str_uuid (ti_id i) @ '':'' @ show_int (reconcile_sweep_bucket env now))],
     xw_draws := xw_draws w + 2\<rparr>)"

definition publish_unresolved_intents :: "exec_env \<Rightarrow> int \<Rightarrow> world \<Rightarrow> world" where
  "publish_unresolved_intents env now w = publish_sweep env now
     (filter (\<lambda>i. ti_state i \<in> {Intent_uncertain, Intent_reconciling}) (db_intents (xw_db w))) w"

end
