(* ===== verification/Execution_Proofs.thy ===== *)
theory Execution_Proofs
  imports Execution
begin

text \<open>
  What a run of the execution worker may change: the one intent it is about, with at most one broker
  call, which settles it. The step relation collects everything that happens to the tables, with
  the invariant that an open intent has no call yet and no intent has two.
\<close>

section \<open>Effects\<close>

definition open_state :: "trade_intent_state \<Rightarrow> bool" where
  "open_state st \<longleftrightarrow> st = Intent_created \<or> st = Intent_retryable"

definition unresolved_state :: "trade_intent_state \<Rightarrow> bool" where
  "unresolved_state st \<longleftrightarrow> st = Intent_uncertain \<or> st = Intent_reconciling"

definition final_state :: "trade_intent_state \<Rightarrow> bool" where
  "final_state st \<longleftrightarrow> st = Intent_confirmed \<or> st = Intent_failed \<or> st = Intent_submitted"

text \<open>Where a run leaves an intent it stopped without a call, and one it made a call for.\<close>

definition stopped_state :: "trade_intent_state \<Rightarrow> bool" where
  "stopped_state st \<longleftrightarrow> st = Intent_retryable \<or> st = Intent_failed \<or> st = Intent_uncertain"

definition settled_state :: "trade_intent_state \<Rightarrow> bool" where
  "settled_state st \<longleftrightarrow> st = Intent_submitted \<or> st = Intent_confirmed \<or> st = Intent_failed \<or> st = Intent_uncertain"

text \<open>Only the row of one intent changes, with no call, or with one call that settles it.\<close>

definition touches :: "uuid \<Rightarrow> db \<Rightarrow> db \<Rightarrow> (trade_intent \<Rightarrow> trade_intent) \<Rightarrow> bool" where
  "touches iid d d' f \<longleftrightarrow> (\<forall>x. ti_id (f x) = ti_id x) \<and> db_intents d' = row_modify ti_id iid f (db_intents d)"

definition effect :: "uuid \<Rightarrow> world \<Rightarrow> world \<Rightarrow> bool" where
  "effect iid w w' \<longleftrightarrow> (\<exists>f. touches iid (xw_db w) (xw_db w') f
     \<and> (xw_calls w' = xw_calls w \<and> (\<forall>x. ti_state (f x) = ti_state x \<or> stopped_state (ti_state (f x)))
        \<or> (\<exists>c. xw_calls w' = xw_calls w @ [(Some iid, c)] \<and> (\<forall>x. settled_state (ti_state (f x))))))"

definition calls_for :: "uuid \<Rightarrow> world \<Rightarrow> nat" where
  "calls_for k w = length (filter (\<lambda>c. fst c = Some k) (xw_calls w))"

section \<open>Frames\<close>

lemma with_db_simps [simp]:
  "xw_db (with_db d w) = d" "xw_calls (with_db d w) = xw_calls w" "xw_events (with_db d w) = xw_events w"
  "xw_draws (with_db d w) = xw_draws w" "with_db d (with_db e w) = with_db d w"
  by (simp_all add: with_db_def)

lemma exec_frames [step_simps, simp]:
  "db_intents (set_connection_ready cid now d) = db_intents d"
  "db_intents (set_connection_disconnected cid g d) = db_intents d"
  "db_intents (exec_activity r ev a t l b d) = db_intents d"
  "db_intents (notify_execution r t b ok d) = db_intents d"
  "db_intents (modify_policy k h d) = db_intents d"
  "db_intents (modify_trade k h' d) = db_intents d"
  "db_intents (modify_connection k h'' d) = db_intents d"
  "db_intents (save_mapping u m r k n nm v d) = db_intents d"
  by (simp_all add: set_connection_ready_def set_connection_disconnected_def exec_activity_def notify_execution_def
      modify_policy_def modify_trade_def modify_connection_def save_mapping_def mark_routes_target_unavailable_def
      restore_routes_after_target_recovery_def)

lemma exec_trade_frames [step_simps, simp]:
  "db_trades (modify_intent k f d) = db_trades d" "db_trades (exec_activity r ev a t l b d) = db_trades d"
  "db_trades (notify_execution r t b ok d) = db_trades d"
  by (simp_all add: modify_intent_def exec_activity_def notify_execution_def)

lemma metric_intents [simp]: "db_intents (fst (record_execution_metric d i r s t now)) = db_intents d"
  by (simp add: record_metric_frame)

lemma resolve_broker_symbol_frame:
  assumes "resolve_broker_symbol env br now route cid sy w = (r, w')"
  shows "db_intents (xw_db w') = db_intents (xw_db w) \<and> xw_calls w' = xw_calls w \<and> xw_events w' = xw_events w"
  using assms by (auto simp: resolve_broker_symbol_def Let_def split: sum.splits option.splits)

lemma enforce_risk_frame:
  "enforce_live_account_risk br now policy route payload volume d = Inr (x, d') \<Longrightarrow> db_intents d' = db_intents d"
  by (auto simp: enforce_live_account_risk_def Let_def split: option.splits sum.splits if_splits)

lemma apply_result_intents:
  "apply_result tid now route pa i cid payload copied selected r volume d = Inr d' \<Longrightarrow> db_intents d' = db_intents d"
  by (auto simp: apply_result_def Let_def step_simps split: sum.splits option.splits if_splits)

section \<open>Composing effects\<close>

lemma touches_refl: "touches iid d d (\<lambda>x. x)"
  by (simp add: touches_def row_modify_def)

lemma touches_same: "db_intents d' = db_intents d \<Longrightarrow> touches iid d d' (\<lambda>x. x)"
  by (simp add: touches_def row_modify_def)

lemma touches_trans: "touches iid a b f \<Longrightarrow> touches iid b c g \<Longrightarrow> touches iid a c (\<lambda>x. g (f x))"
  by (auto simp: touches_def row_modify_def)

lemma touches_modify: "(\<And>x. ti_id (f x) = ti_id x) \<Longrightarrow> db_intents e = db_intents (modify_intent iid f d) \<Longrightarrow> touches iid d e f"
  by (simp add: touches_def intents.rows_modify)

lemma effect_silent:
  "touches iid (xw_db w) (xw_db w') f \<Longrightarrow> xw_calls w' = xw_calls w \<Longrightarrow>
     (\<And>x. ti_state (f x) = ti_state x \<or> stopped_state (ti_state (f x))) \<Longrightarrow> effect iid w w'"
  by (auto simp: effect_def)

lemma effect_same: "db_intents (xw_db w') = db_intents (xw_db w) \<Longrightarrow> xw_calls w' = xw_calls w \<Longrightarrow> effect iid w w'"
  by (rule effect_silent [OF touches_same]) simp_all

lemma effect_before:
  "db_intents (xw_db w1) = db_intents (xw_db w) \<Longrightarrow> xw_calls w1 = xw_calls w \<Longrightarrow> effect iid w1 w' \<Longrightarrow> effect iid w w'"
  by (simp add: effect_def touches_def)

lemma touches_get:
  "touches iid d d' f \<Longrightarrow> get_intent d' k = (if k = iid then map_option f (get_intent d k) else get_intent d k)"
proof -
  assume t: "touches iid d d' f"
  then have "get_intent d' k = get_intent (modify_intent iid f d) k"
    by (simp add: touches_def get_intent_def intents.rows_modify)
  with t intents.get_modify [of f] show ?thesis by (simp add: touches_def)
qed

lemma touches_ids: "touches iid d d' f \<Longrightarrow> map ti_id (db_intents d') = map ti_id (db_intents d)"
  by (auto simp: touches_def row_modify_def)

section \<open>The run of one intent\<close>

lemma intent_changes_keep_id [simp]:
  "ti_id (fail_intent c x) = ti_id x" "ti_id (with_message m x) = ti_id x"
  "ti_state (fail_intent c x) = Intent_failed" "ti_state (with_message m x) = ti_state x"
  by (simp_all add: fail_intent_def with_message_def)

lemma block_intent_touches:
  "touches (ti_id i) d (block_intent ev route now i code message action title d) (\<lambda>x. with_message message (fail_intent code x))"
  by (rule touches_modify) (simp_all add: block_intent_def Let_def)

lemma refuse_quality_touches:
  "refuse_quality ev route now i q d = (r, d') \<Longrightarrow> \<exists>f. touches (ti_id i) d d' f \<and> (\<forall>x. stopped_state (ti_state (f x)))"
proof -
  assume r: "refuse_quality ev route now i q d = (r, d')"
  define g where "g = (\<lambda>x. x \<lparr>ti_attempt_count := ti_attempt_count i + 1\<rparr> :: trade_intent)"
  define d1 where "d1 = modify_intent (ti_id i) g d"
  have g: "touches (ti_id i) d d1 g" by (rule touches_modify) (simp_all add: g_def d1_def)
  have id: "ti_id (g i) = ti_id i" by (simp add: g_def)
  have "\<exists>f. touches (ti_id i) d1 d' f \<and> (\<forall>x. stopped_state (ti_state (f x)))"
  proof (cases "qe_retryable q \<and> ti_attempt_count i + 1 \<le> 1")
    case True
    with r show ?thesis
      by (auto simp: refuse_quality_def Let_def d1_def g_def stopped_state_def
          intro!: exI [of _ "\<lambda>x. x \<lparr>ti_state := Intent_retryable, ti_last_error_code := Some (qe_code q)\<rparr>"] touches_modify)
  next
    case False
    then have "d' = (if \<not> qe_user_action_required q
        then fst (record_execution_metric (modify_intent (ti_id i) (\<lambda>x. with_message (qe_message q) (fail_intent (qe_code q) x)) d1)
               (with_message (qe_message q) (fail_intent (qe_code q) (g i))) route ''failed'' None now)
        else block_intent ev route now (g i) (qe_code q) (qe_message q) ''execution.blocked''
             ''Trade blocked by execution settings'' d1)"
      using r by (auto simp: refuse_quality_def Let_def d1_def g_def)
    moreover have "touches (ti_id i) d1 (block_intent ev route now (g i) (qe_code q) (qe_message q) ''execution.blocked''
             ''Trade blocked by execution settings'' d1) (\<lambda>x. with_message (qe_message q) (fail_intent (qe_code q) x))"
      using block_intent_touches [of "g i"] unfolding id .
    moreover have "touches (ti_id i) d1 (fst (record_execution_metric (modify_intent (ti_id i)
        (\<lambda>x. with_message (qe_message q) (fail_intent (qe_code q) x)) d1)
               (with_message (qe_message q) (fail_intent (qe_code q) (g i))) route ''failed'' None now))
        (\<lambda>x. with_message (qe_message q) (fail_intent (qe_code q) x))"
      by (rule touches_modify) simp_all
    ultimately show ?thesis
      by (intro exI [of _ "\<lambda>x. with_message (qe_message q) (fail_intent (qe_code q) x)"]) (simp add: stopped_state_def)
  qed
  with g show ?thesis using touches_trans by blast
qed

lemma settle_raised_effect:
  "touches (ti_id i) (xw_db w) (xw_db (settle_raised env ev route now i e w))
     (\<lambda>x. with_message (take 500 (exn_message e)) (x \<lparr>ti_state := (if is_permanent_metaapi_error env e then Intent_failed else Intent_uncertain),
        ti_last_error_code := Some (exn_class e)\<rparr>))
   \<and> xw_calls (settle_raised env ev route now i e w) = xw_calls w"
proof (rule conjI)
  show "xw_calls (settle_raised env ev route now i e w) = xw_calls w" by (simp add: settle_raised_def Let_def)
  show "touches (ti_id i) (xw_db w) (xw_db (settle_raised env ev route now i e w))
     (\<lambda>x. with_message (take 500 (exn_message e)) (x \<lparr>ti_state := (if is_permanent_metaapi_error env e then Intent_failed else Intent_uncertain),
        ti_last_error_code := Some (exn_class e)\<rparr>))"
    by (rule touches_modify) (simp_all add: settle_raised_def Let_def)
qed

lemma settle_confirmed_effect:
  assumes "settle_confirmed env ev route now i cid pa payload copied selected r volume w = (res, w')"
  shows "xw_calls w' = xw_calls w \<and> (case res of Inl _ \<Rightarrow> xw_db w' = xw_db w
    | Inr _ \<Rightarrow> touches (ti_id i) (xw_db w) (xw_db w')
        (\<lambda>x. x \<lparr>ti_state := Intent_confirmed, ti_broker_result := result_dict r, ti_resolved_at := Some now\<rparr>))"
proof -
  define f where "f = (\<lambda>x. x \<lparr>ti_state := Intent_confirmed, ti_broker_result := result_dict r, ti_resolved_at := Some now\<rparr> :: trade_intent)"
  define d where "d = modify_intent (ti_id i) f (xw_db w)"
  show ?thesis
  proof (cases "apply_result (xe_rnd env (xw_draws w)) now route pa i cid payload copied selected r volume d")
    case (Inl e)
    with assms show ?thesis by (auto simp: settle_confirmed_def Let_def f_def d_def)
  next
    case (Inr d1)
    obtain title body where t: "activity_copy payload = (title, body)" by force
    obtain d2 metric where m: "record_execution_metric (exec_activity route ev ''broker.confirmed'' title Level_success body d1)
        (f i) route ''confirmed'' None now = (d2, metric)" by force
    have "db_intents d2 = db_intents d"
      using m apply_result_intents [OF Inr] metric_intents by (metis exec_frames(3) fst_conv)
    moreover have "res = Inr ()" "xw_calls w' = xw_calls w" "db_intents (xw_db w') = db_intents d2"
      using assms Inr t m by (auto simp: settle_confirmed_def Let_def f_def d_def split: option.splits)
    moreover have "touches (ti_id i) (xw_db w) (xw_db w') f"
      by (rule touches_modify) (use calculation in \<open>simp_all add: f_def d_def\<close>)
    ultimately show ?thesis by (simp add: f_def)
  qed
qed

lemma run_action_effect:
  assumes "run_action br route i payload copied selected w = (r, w')"
  shows "xw_db w' = xw_db w \<and> xw_events w' = xw_events w \<and>
    (xw_calls w' = xw_calls w \<and> \<not> is_ok r \<or> (\<exists>c v. action_call br route i payload copied selected = Inr (c, v)
       \<and> xw_calls w' = xw_calls w @ [(Some (ti_id i), c)]))"
  using assms by (auto simp: run_action_def Let_def split: sum.splits prod.splits)

text \<open>After the submission is committed the intent is not open any more, whatever happens.\<close>

lemma submit_intent_effect:
  assumes "submit_intent env br ev route now i cid pa copied selected w = (r, w')"
  shows "\<exists>f. touches (ti_id i) (xw_db w) (xw_db w') f
    \<and> (xw_calls w' = xw_calls w \<and> (\<forall>x. stopped_state (ti_state (f x)))
      \<or> (\<forall>x. settled_state (ti_state (f x))) \<and> (\<exists>c v j. action_call br route j (ti_request_payload i) copied selected = Inr (c, v)
         \<and> j = i \<lparr>ti_state := Intent_submitted, ti_submitted_at := Some now, ti_attempt_count := ti_attempt_count i + 1\<rparr>
         \<and> xw_calls w' = xw_calls w @ [(Some (ti_id i), c)]))"
proof -
  define f where "f = (\<lambda>x. x \<lparr>ti_state := Intent_submitted, ti_submitted_at := Some now,
    ti_attempt_count := ti_attempt_count i + 1\<rparr> :: trade_intent)"
  define w1 where "w1 = with_db (modify_intent (ti_id i) f (xw_db w)) w"
  have t1: "touches (ti_id i) (xw_db w) (xw_db w1) f" by (rule touches_modify) (simp_all add: f_def w1_def)
  have fi: "ti_id (f i) = ti_id i" "ti_request_payload (f i) = ti_request_payload i" by (simp_all add: f_def)
  have sub: "settled_state (ti_state (f x))" for x by (simp add: f_def settled_state_def)
  obtain a w2 where run: "run_action br route (f i) (ti_request_payload i) copied selected w1 = (a, w2)" by force
  note ran = run_action_effect [OF run, unfolded fi]
  have t2: "touches (ti_id i) (xw_db w) (xw_db w2) f" using t1 ran by simp
  have body: "(r, w') = (case (a, w2) of (Inl e, w) \<Rightarrow> (Inr delivery_success, settle_raised env ev route now (f i) e w)
     | (Inr (res, volume), w) \<Rightarrow>
       (case settle_confirmed env ev route now (f i) cid pa (ti_request_payload i) copied selected res volume w of
          (Inl e, w) \<Rightarrow> (Inl e, w) | (Inr _, w) \<Rightarrow> (Inr delivery_success, w)))"
    using assms run unfolding submit_intent_def Let_def by (simp add: f_def w1_def cong: sum.case_cong)
  have calls: "xw_calls w2 = xw_calls w \<and> \<not> is_ok a \<or> (\<exists>c v j. action_call br route j (ti_request_payload i) copied selected = Inr (c, v)
       \<and> j = i \<lparr>ti_state := Intent_submitted, ti_submitted_at := Some now, ti_attempt_count := ti_attempt_count i + 1\<rparr>
       \<and> xw_calls w2 = xw_calls w @ [(Some (ti_id i), c)])"
    using ran by (auto simp: w1_def f_def)
  have finish: ?thesis if "touches (ti_id i) (xw_db w2) (xw_db w') g" "xw_calls w' = xw_calls w2"
    "\<And>x. settled_state (ti_state (g (f x)))" "is_ok a \<or> (\<forall>x. stopped_state (ti_state (g (f x))))" for g
    using touches_trans [OF t2 that(1)] calls that(2-4) unfolding that(2) by blast
  show ?thesis
  proof (cases a)
    case (Inl e)
    then have w': "w' = settle_raised env ev route now (f i) e w2" using body by simp
    note raised = settle_raised_effect [of "f i" w2 env ev route now e, unfolded fi, folded w']
    show ?thesis
      by (rule finish [OF raised [THEN conjunct1] raised [THEN conjunct2]]) (simp_all add: settled_state_def stopped_state_def)
  next
    case (Inr rv)
    obtain res volume where rv: "rv = (res, volume)" by force
    obtain b w3 where sc: "settle_confirmed env ev route now (f i) cid pa (ti_request_payload i) copied selected res volume w2 = (b, w3)"
      by force
    have w': "w' = w3" using body Inr rv sc by (cases b) simp_all
    show ?thesis
    proof (cases b)
      case (Inl e)
      with settle_confirmed_effect [OF sc] touches_refl sub show ?thesis
        by (intro finish [of "\<lambda>x. x"]) (simp_all add: w' \<open>a = Inr rv\<close>)
    next
      case (Inr u)
      with settle_confirmed_effect [OF sc] fi show ?thesis
        by (intro finish [of "\<lambda>x. x \<lparr>ti_state := Intent_confirmed, ti_broker_result := result_dict res, ti_resolved_at := Some now\<rparr>"])
          (simp_all add: w' settled_state_def \<open>a = Inr rv\<close>)
    qed
  qed
qed

lemma submit_intent_run:
  "submit_intent env br ev route now i cid pa copied selected w = (r, w') \<Longrightarrow> effect (ti_id i) w w'"
  using submit_intent_effect unfolding effect_def by metis

lemma guard_risk_run:
  assumes g: "guard_risk env br ev route now i cid pa policy volume copied selected committed w = (r, w')"
    and c: "db_intents committed = db_intents (xw_db w)"
  shows "effect (ti_id i) w w'"
proof (cases "enforce_live_account_risk br now policy route (ti_request_payload i) volume (xw_db w)")
  case (Inl e)
  with g c show ?thesis by (auto simp: guard_risk_def intro: effect_same)
next
  case (Inr xd)
  obtain x d where xd: "xd = (x, d)" by force
  have d: "db_intents d = db_intents (xw_db w)" using enforce_risk_frame Inr xd by blast
  show ?thesis
  proof (cases x)
    case (Inl risk)
    let ?b = "block_intent ev route now i ''RISK_LIMIT_REACHED'' (risk_message risk)
         ''risk.blocked'' ''Trade blocked by account safety settings'' d"
    from Inl Inr xd g have "w' = with_db ?b w" by (simp add: guard_risk_def)
    moreover have "touches (ti_id i) (xw_db w) ?b (\<lambda>x. with_message (risk_message risk) (fail_intent ''RISK_LIMIT_REACHED'' x))"
      using touches_trans [OF touches_same [OF d] block_intent_touches] by simp
    ultimately show ?thesis
      by (intro effect_silent [where f = "\<lambda>x. with_message (risk_message risk) (fail_intent ''RISK_LIMIT_REACHED'' x)"])
        (simp_all add: stopped_state_def)
  next
    case (Inr u)
    with \<open>enforce_live_account_risk br now policy route (ti_request_payload i) volume (xw_db w) = Inr xd\<close> xd g
    have "submit_intent env br ev route now i cid pa copied selected (with_db d w) = (r, w')" by (simp add: guard_risk_def)
    from submit_intent_run [OF this] show ?thesis by (rule effect_before [rotated 2]) (simp_all add: d)
  qed
qed

text \<open>The symbol an intent resolves to before it is executed.\<close>

definition chosen_symbol :: "exec_env \<Rightarrow> broker_session \<Rightarrow> int \<Rightarrow> copy_route \<Rightarrow> uuid \<Rightarrow> dict \<Rightarrow> world
    \<Rightarrow> broker_symbol option result \<times> world" where
  "chosen_symbol env br now route cid payload w = (case dict_get payload ''symbol'' of
       PStr sy \<Rightarrow> if sy = [] then (Inr None, w)
         else (case resolve_broker_symbol env br now route cid sy w of (Inl e, w) \<Rightarrow> (Inl e, w) | (Inr s, w) \<Rightarrow> (Inr (Some s), w))
     | _ \<Rightarrow> (Inr None, w))"

lemma chosen_symbol_frame:
  assumes "chosen_symbol env br now route cid payload w = (r, w')"
  shows "db_intents (xw_db w') = db_intents (xw_db w) \<and> xw_calls w' = xw_calls w \<and> xw_events w' = xw_events w"
proof (cases "\<exists>sy. dict_get payload ''symbol'' = PStr sy \<and> sy \<noteq> []")
  case False
  with assms show ?thesis by (auto simp: chosen_symbol_def split: pyval.splits if_splits)
next
  case True
  then obtain sy where sy: "dict_get payload ''symbol'' = PStr sy" "sy \<noteq> []" by blast
  obtain a v where a: "resolve_broker_symbol env br now route cid sy w = (a, v)" by force
  with assms sy have "w' = v" by (cases a) (simp_all add: chosen_symbol_def)
  with resolve_broker_symbol_frame [OF a] show ?thesis by simp
qed

text \<open>How a run on the broker ends: raised, refused for quality, or handed to the risk guard.\<close>

lemma execute_on_broker_cases:
  assumes "execute_on_broker env br ev route now i cid pa policy w = (r, w')"
  obtains (raised) e where "r = Inl e" "xw_db w' = xw_db w" "xw_calls w' = xw_calls w"
  | (refused) q d and w1 :: world where "refuse_quality ev route now i q (xw_db w1) = (d, xw_db w')" "xw_calls w' = xw_calls w"
      "db_intents (xw_db w1) = db_intents (xw_db w)" "r = Inr d"
  | (guarded) selected w1 action volume where
      "chosen_symbol env br now route cid (ti_request_payload i) (with_db (set_connection_ready cid now (xw_db w)) w) = (Inr selected, w1)"
      "str_item (ti_request_payload i) ''action'' = Inr action"
      "if action \<in> set exec_open_actions then (\<exists>v. volume = Some v \<and> payload_volume (ti_request_payload i) route = Inr v) else volume = None"
      "action \<in> set exec_open_actions \<and> selected \<noteq> None \<Longrightarrow>
         \<exists>q. quality_details env br now policy (the selected) (ti_request_payload i) = Inr (Inr q)"
      "guard_risk env br ev route now i cid pa policy volume (select_trade (route_trades (xw_db w1) route) (ti_request_payload i))
         selected (xw_db w) w1 = (r, w')"
proof -
  let ?p = "ti_request_payload i"
  define w0 where "w0 = with_db (set_connection_ready cid now (xw_db w)) w"
  obtain cs w1 where ch: "chosen_symbol env br now route cid ?p w0 = (cs, w1)" by force
  have fr: "db_intents (xw_db w1) = db_intents (xw_db w)" "xw_calls w1 = xw_calls w"
    using chosen_symbol_frame [OF ch] by (simp_all add: w0_def)
  note body = assms [unfolded execute_on_broker_def Let_def, folded w0_def, folded chosen_symbol_def, unfolded ch prod.case]
  show thesis
  proof (cases cs)
    case (Inl e)
    with body fr show thesis by (intro raised) auto
  next
    case sel: (Inr selected)
    show thesis
    proof (cases "str_item ?p ''action''")
      case (Inl e)
      with body sel fr show thesis by (intro raised) auto
    next
      case act: (Inr action)
      define vr where "vr = (if action \<in> set exec_open_actions
        then (case payload_volume ?p route of Inl e \<Rightarrow> Inl e | Inr v \<Rightarrow> Inr (Some v)) else Inr None)"
      define qr where "qr = (if action \<in> set exec_open_actions \<and> selected \<noteq> None
        then (case quality_details env br now policy (the selected) ?p of Inl e \<Rightarrow> Inl e
              | Inr (Inl q) \<Rightarrow> Inr (Some q) | Inr (Inr _) \<Rightarrow> Inr None) else Inr None)"
      note body' = body [unfolded sel act sum.case, folded vr_def qr_def]
      show thesis
      proof (cases "\<exists>volume. vr = Inr volume \<and> is_ok qr")
        case False
        then obtain e where "vr = Inl e \<or> (\<exists>volume. vr = Inr volume) \<and> qr = Inl e"
          by (cases vr; cases qr) auto
        with body' fr show thesis by (intro raised [of e]) auto
      next
        case True
        then obtain volume q where vq: "vr = Inr volume" "qr = Inr q" by (auto simp: is_ok_iff)
        show thesis
        proof (cases q)
          case (Some qe)
          with body' vq fr show thesis by (intro refused [of qe w1 "fst (refuse_quality ev route now i qe (xw_db w1))"])
              (auto split: prod.splits)
        next
          case None
          have "guard_risk env br ev route now i cid pa policy volume (select_trade (route_trades (xw_db w1) route) ?p)
              selected (xw_db w) w1 = (r, w')"
            using body' vq None by simp
          moreover have "if action \<in> set exec_open_actions then (\<exists>v. volume = Some v \<and> payload_volume ?p route = Inr v) else volume = None"
            using vq(1) by (auto simp: vr_def split: if_splits sum.splits)
          moreover have "\<exists>q. quality_details env br now policy (the selected) ?p = Inr (Inr q)"
            if "action \<in> set exec_open_actions \<and> selected \<noteq> None"
            using vq(2) None that by (auto simp: qr_def split: if_splits sum.splits)
          ultimately show thesis using guarded ch [unfolded w0_def] sel act by blast
        qed
      qed
    qed
  qed
qed

lemma execute_on_broker_run:
  assumes "execute_on_broker env br ev route now i cid pa policy w = (r, w')"
  shows "effect (ti_id i) w w'"
  using assms
proof (cases rule: execute_on_broker_cases)
  case (raised e)
  then show ?thesis by (intro effect_same) simp_all
next
  case (refused q d w1)
  then obtain f where "touches (ti_id i) (xw_db w1) (xw_db w') f" "\<And>x. stopped_state (ti_state (f x))"
    using refuse_quality_touches by blast
  with refused(2,3) show ?thesis by (intro effect_silent [of _ _ _ f]) (simp_all add: touches_def)
next
  case (guarded selected w1 action volume)
  have fr: "db_intents (xw_db w1) = db_intents (xw_db w)" "xw_calls w1 = xw_calls w"
    using chosen_symbol_frame [OF guarded(1)] by simp_all
  from guard_risk_run [OF guarded(5)] fr show ?thesis by (intro effect_before [of w1 w]) simp_all
qed

lemma execution_locked_run:
  assumes "execution_locked env ev now rows w = (r, w')"
  shows "effect (ti_id (xr_intent rows)) w w'"
proof (cases "policy_for (xw_db w) (ti_connection_id (xr_intent rows))")
  case (Inl e)
  with assms show ?thesis by (simp add: execution_locked_def effect_same)
next
  case (Inr policy)
  let ?i = "xr_intent rows" and ?d = "xw_db w"
  show ?thesis
  proof (cases "automation_paused env (xr_route rows) (xr_connection rows) (get_settings ?d (ti_user_id ?i)) policy")
    case True
    have "effect (ti_id ?i) w (with_db (modify_intent (ti_id ?i) (fail_intent c) ?d) w)" for c
      by (rule effect_silent [where f = "fail_intent c"], rule touches_modify) (simp_all add: stopped_state_def)
    with True Inr assms show ?thesis
      by (auto simp: execution_locked_def Let_def effect_same split: option.splits if_splits)
  next
    case False
    then obtain route conn where rc: "xr_route rows = Some route" "xr_connection rows = Some conn" "rt_state route = Route_active"
      by (auto simp: automation_paused_def split: option.splits)
    show ?thesis
    proof (cases "xe_acquire env (the (cn_metaapi_account_id conn))")
      case (Inl e)
      with assms Inr False rc show ?thesis by (auto simp: execution_locked_def intro!: effect_same)
    next
      case acq: (Inr br)
      with assms Inr False rc have "execute_on_broker env br ev route now ?i (cn_id conn) (xr_action rows) policy w = (r, w')"
        by (simp add: execution_locked_def)
      then show ?thesis by (rule execute_on_broker_run)
    qed
  qed
qed

text \<open>A run of an intent event: no intent, or one open intent with its effect.\<close>

lemma execute_intent_cases:
  assumes "execute_intent env lock_free ev now w = (r, w')"
  obtains (idle) "w' = w"
  | (opened) i where "get_intent (xw_db w) (ti_id i) = Some i" "open_state (ti_state i)" "effect (ti_id i) w w'"
proof (cases "execution_read env ev now (xw_db w)")
  case (Inl e)
  with assms show thesis by (intro idle) (simp add: execute_intent_def)
next
  case (Inr x)
  then obtain iid where iid: "\<exists>t. str_item (ev_payload ev) ''intent_id'' = Inr t \<and> parse_uuid t = Inr iid"
    by (auto simp: execution_read_def split: sum.splits)
  show thesis
  proof (cases "get_intent (xw_db w) iid")
    case None
    with assms iid show thesis by (intro idle) (auto simp: execute_intent_def execution_read_def with_db_def)
  next
    case (Some i)
    then have i: "get_intent (xw_db w) (ti_id i) = Some i" "ti_id i = iid" using intents.get_Some by fastforce+
    show thesis
    proof (cases "open_state (ti_state i)")
      case False
      with assms iid Some show thesis
        by (intro idle) (auto simp: execute_intent_def execution_read_def open_state_def with_db_def)
    next
      case op: True
      have fail: "effect (ti_id i) w (with_db (modify_intent iid (fail_intent c) (xw_db w)) w)" for c
        by (rule effect_silent [where f = "fail_intent c"], rule touches_modify) (simp_all add: i stopped_state_def)
      have "effect (ti_id i) w w'"
      proof (cases x)
        case (Inl rd)
        with Inr assms iid Some op fail show ?thesis
          by (auto simp: execute_intent_def execution_read_def open_state_def split: if_splits)
      next
        case (Inr rows)
        then have "xr_intent rows = i"
          using \<open>execution_read env ev now (xw_db w) = Inr x\<close> iid Some
          by (auto simp: execution_read_def split: if_splits)
        with Inr \<open>execution_read env ev now (xw_db w) = Inr x\<close> assms execution_locked_run [of env ev now rows w r w']
        show ?thesis by (auto simp: execute_intent_def effect_same split: if_splits)
      qed
      with i op show thesis by (intro opened) auto
    qed
  qed
qed

lemma reconcile_intent_cases:
  assumes "reconcile_intent env ev now w = (r, w')"
  obtains (idle) "w' = w"
  | (unresolved) i f where "get_intent (xw_db w) (ti_id i) = Some i" "unresolved_state (ti_state i)"
      "touches (ti_id i) (xw_db w) (xw_db w') f" "w' = with_db (xw_db w') w" "db_trades (xw_db w') = db_trades (xw_db w)"
      "f = (\<lambda>x. x \<lparr>ti_state := Intent_reconciling\<rparr>) \<and> \<not> is_ok r
       \<or> (\<exists>br. f = (\<lambda>x. reconciled_intent env br now (x \<lparr>ti_state := Intent_reconciling\<rparr>)) \<and> is_ok r
            \<and> (\<exists>c. get_connection (xw_db w) (ti_connection_id i) = Some c
                 \<and> xe_acquire env (the (cn_metaapi_account_id c)) = Inr br))"
proof (cases "\<exists>t iid i. str_item (ev_payload ev) ''intent_id'' = Inr t \<and> parse_uuid t = Inr iid \<and> get_intent (xw_db w) iid = Some i
    \<and> unresolved_state (ti_state i) \<and> (\<exists>c. get_connection (xw_db w) (ti_connection_id i) = Some c \<and> cn_metaapi_account_id c \<notin> {None, Some []})")
  case False
  with assms show thesis
    by (intro idle) (auto simp: reconcile_intent_def Let_def unresolved_state_def split: sum.splits option.splits if_splits)
next
  case True
  then obtain t iid i c where i: "str_item (ev_payload ev) ''intent_id'' = Inr t" "parse_uuid t = Inr iid" "get_intent (xw_db w) iid = Some i"
    "unresolved_state (ti_state i)" and c: "get_connection (xw_db w) (ti_connection_id i) = Some c" "cn_metaapi_account_id c \<notin> {None, Some []}"
    by blast
  have id: "ti_id i = iid" using intents.get_Some [OF i(3)] by simp
  define g where "g = (\<lambda>x. x \<lparr>ti_state := Intent_reconciling\<rparr> :: trade_intent)"
  define d where "d = modify_intent iid g (xw_db w)"
  have g: "touches iid (xw_db w) d g" by (rule touches_modify) (simp_all add: g_def d_def)
  have st: "ti_state i \<in> {Intent_uncertain, Intent_reconciling}" using i(4) by (simp add: unresolved_state_def)
  have d: "db_trades d = db_trades (xw_db w)" by (simp add: d_def)
  have gi: "get_intent (xw_db w) (ti_id i) = Some i" using i(3) id by simp
  show thesis
  proof (cases "xe_acquire env (the (cn_metaapi_account_id c))")
    case (Inl e)
    have w': "w' = with_db d w" "r = Inl e"
      using assms i c st Inl by (auto simp: reconcile_intent_def Let_def d_def g_def)
    show thesis
      by (rule unresolved [OF gi i(4), of g]) (use g w' id d in \<open>simp_all add: g_def\<close>)
  next
    case (Inr br)
    have w': "w' = with_db (modify_intent iid (reconciled_intent env br now) d) w" "r = Inr delivery_success"
      using assms i c st Inr by (auto simp: reconcile_intent_def Let_def d_def g_def)
    have "touches iid d (modify_intent iid (reconciled_intent env br now) d) (reconciled_intent env br now)"
      by (rule touches_modify) (simp_all add: reconciled_intent_def Let_def)
    from touches_trans [OF g this] w' show thesis
      by (intro unresolved [OF gi i(4), of "\<lambda>x. reconciled_intent env br now (g x)"])
        (use id d c Inr in \<open>auto simp: g_def\<close>)
  qed
qed

end
