(* ===== verification/Execution_Properties.thy ===== *)
theory Execution_Properties
  imports Execution_Proofs
begin

text \<open>
  The properties of the execution worker. An abstract machine describes the life of one intent: its
  state and the number of broker calls made for it. Every step of the worker refines it, and what
  holds of the machine holds of every run: at most one call per intent, and no change of a resolved one.
\<close>

section \<open>The life of an intent\<close>

inductive life_step :: "trade_intent_state \<times> nat \<Rightarrow> trade_intent_state \<times> nat \<Rightarrow> bool" where
  hold: "open_state st \<Longrightarrow> stopped_state st' \<Longrightarrow> life_step (st, n) (st', n)"
| call: "open_state st \<Longrightarrow> settled_state st' \<Longrightarrow> life_step (st, n) (st', Suc n)"
| check: "unresolved_state st \<Longrightarrow> st' \<in> {Intent_reconciling, Intent_uncertain, Intent_confirmed, Intent_failed} \<Longrightarrow>
    life_step (st, n) (st', n)"

inductive_cases life_stepE [elim!]: "life_step (st, n) (st', n')"

definition intent_life :: "world \<Rightarrow> uuid \<Rightarrow> (trade_intent_state \<times> nat) option" where
  "intent_life w k = map_option (\<lambda>i. (ti_state i, calls_for k w)) (get_intent (xw_db w) k)"

text \<open>
  The steps of the system as far as they touch intents: an event handled with any settings, locks, clock and
  broker, the sweeps, an intent stored by the signal worker under a fresh identifier, and any
  other change of the database that leaves the intents alone.
\<close>

inductive exec_step :: "world \<Rightarrow> world \<Rightarrow> bool" where
  handle: "execution_handler env lock_free now ev w = (r, w') \<Longrightarrow> exec_step w w'"
| sweep: "exec_step w (publish_unresolved_intents env now w)"
| follow: "exec_step w (with_db (snd (reconcile_copied_trades env now (xw_db w))) w)"
| warm: "exec_step w (with_db (fst (warm_active_copy_connections env now (xw_db w))) w)"
| store: "ti_state i = Intent_created \<Longrightarrow> get_intent (xw_db w) (ti_id i) = None \<Longrightarrow> calls_for (ti_id i) w = 0 \<Longrightarrow>
    exec_step w (with_db ((xw_db w) \<lparr>db_intents := db_intents (xw_db w) @ [i]\<rparr>) w)"
| outside: "db_intents d = db_intents (xw_db w) \<Longrightarrow> exec_step w (with_db d w)"

inductive_cases exec_stepE: "exec_step w w'"

section \<open>Lemmas\<close>

definition intents_kept :: "world \<Rightarrow> world \<Rightarrow> bool" where
  "intents_kept w w' \<longleftrightarrow> db_intents (xw_db w') = db_intents (xw_db w) \<and> (\<forall>k. calls_for k w' = calls_for k w)"

lemma emergency_trade_kept: "emergency_trade env lf p now row w = (r, w') \<Longrightarrow> intents_kept w w'"
  by (auto simp: emergency_trade_def Let_def intents_kept_def calls_for_def
      split: prod.splits if_splits sum.splits option.splits)

lemma emergency_loop_kept: "emergency_loop env lf p now rows w = (r, w') \<Longrightarrow> intents_kept w w'"
proof (induction rows arbitrary: w)
  case Nil
  then show ?case by (simp add: intents_kept_def)
next
  case (Cons row rows)
  obtain a v where a: "emergency_trade env lf p now row w = (a, v)" by force
  have k: "intents_kept w v" by (rule emergency_trade_kept [OF a])
  show ?case
  proof (cases "\<exists>x. a = Inr None")
    case True
    with Cons a have "intents_kept v w'" by simp
    with k show ?thesis by (simp add: intents_kept_def)
  next
    case False
    with Cons.prems a have "w' = v" by (auto split: sum.splits option.splits)
    with k show ?thesis by simp
  qed
qed

lemma execute_emergency_kept: "execute_emergency env lf ev now w = (r, w') \<Longrightarrow> intents_kept w w'"
  by (auto simp: execute_emergency_def Let_def intents_kept_def split: sum.splits
      dest!: emergency_loop_kept)

lemma publish_sweep_frame: "xw_db (publish_sweep env now is w) = xw_db w \<and> xw_calls (publish_sweep env now is w) = xw_calls w"
  by (induction "is" arbitrary: w) simp_all

lemma reconcile_loop_frame: "reconcile_loop env now rows s = Inr s' \<Longrightarrow> db_intents (fst s') = db_intents (fst s)"
proof (induction rows arbitrary: s)
  case (Cons row rows)
  obtain t c i r where row: "row = (t, c, i, r)" using prod_cases4 by blast
  show ?case
  proof (cases "cn_metaapi_account_id c \<in> {None, Some []}")
    case True
    with Cons row show ?thesis by simp
  next
    case False
    with Cons.prems row obtain br where "xe_acquire env (the (cn_metaapi_account_id c)) = Inr br" by (auto split: sum.splits)
    with False Cons row show ?thesis by (auto simp: Let_def step_simps split: prod.splits if_splits)
  qed
qed simp

lemma warm_frame: "db_intents (fst (fold (warm_connection env now) cs s)) = db_intents (fst s)"
proof (induction cs arbitrary: s)
  case (Cons c cs)
  have "db_intents (fst (warm_connection env now c s)) = db_intents (fst s)"
    by (simp add: warm_connection_def split: prod.split sum.split)
  with Cons show ?case by simp
qed simp

lemma reconciled_state: "ti_state (reconciled_intent env br now x) \<in> {Intent_uncertain, Intent_confirmed, Intent_failed}"
  by (simp add: reconciled_intent_def Let_def)

text \<open>A step either keeps all intents, stores one, or has an effect on one that is open or unresolved.\<close>

lemma exec_step_cases:
  assumes "exec_step w w'"
  obtains (kept) "intents_kept w w'"
  | (stored) i where "ti_state i = Intent_created" "get_intent (xw_db w) (ti_id i) = None" "calls_for (ti_id i) w = 0"
      "w' = with_db ((xw_db w) \<lparr>db_intents := db_intents (xw_db w) @ [i]\<rparr>) w"
  | (executed) i where "get_intent (xw_db w) (ti_id i) = Some i" "open_state (ti_state i)" "effect (ti_id i) w w'"
  | (checked) i f where "get_intent (xw_db w) (ti_id i) = Some i" "unresolved_state (ti_state i)"
      "touches (ti_id i) (xw_db w) (xw_db w') f" "xw_calls w' = xw_calls w"
      "\<And>x. ti_state (f x) \<in> {Intent_reconciling, Intent_uncertain, Intent_confirmed, Intent_failed}"
  using assms
proof (cases rule: exec_step.cases)
  case (handle env lock_free now ev r)
  consider (emergency) "execute_emergency env (\<lambda>c. lock_free (Some c)) ev now w = (r, w')"
    | (reconcile) "reconcile_intent env ev now w = (r, w')" | (other) "w' = w"
    | (execute) "execute_intent env (lock_free None) ev now w = (r, w')"
    using handle by (auto simp: execution_handler_def split: if_splits)
  then show thesis
  proof cases
    case emergency
    then show thesis by (intro kept execute_emergency_kept)
  next
    case reconcile
    then show thesis
    proof (cases rule: reconcile_intent_cases)
      case idle
      then show thesis by (intro kept) (simp add: intents_kept_def)
    next
      case (unresolved i f)
      have "ti_state (f x) \<in> {Intent_reconciling, Intent_uncertain, Intent_confirmed, Intent_failed}" for x
        using unresolved(6) reconciled_state by auto
      moreover have "xw_calls w' = xw_calls w" using unresolved(4) by (metis with_db_simps(2))
      ultimately show thesis using checked [OF unresolved(1-3)] by blast
    qed
  next
    case other
    then show thesis by (intro kept) (simp add: intents_kept_def)
  next
    case execute
    then show thesis
    proof (cases rule: execute_intent_cases)
      case idle
      then show thesis by (intro kept) (simp add: intents_kept_def)
    next
      case (opened i)
      then show thesis by (rule executed)
    qed
  qed
next
  case (sweep env now)
  then show thesis
    using publish_sweep_frame by (intro kept) (simp add: intents_kept_def publish_unresolved_intents_def calls_for_def)
next
  case (follow env now)
  then show thesis
    by (intro kept) (auto simp: intents_kept_def reconcile_copied_trades_def calls_for_def split: sum.splits prod.splits
        dest!: reconcile_loop_frame)
next
  case (warm env now)
  then show thesis
    by (intro kept) (simp add: intents_kept_def warm_active_copy_connections_def warm_frame calls_for_def)
next
  case (store i)
  then show thesis by (intro stored)
next
  case (outside d)
  then show thesis by (intro kept) (simp add: intents_kept_def calls_for_def)
qed

lemma calls_for_snoc [simp]:
  "xw_calls w' = xw_calls w @ [(Some j, c)] \<Longrightarrow> calls_for k w' = (if k = j then Suc (calls_for k w) else calls_for k w)"
  by (simp add: calls_for_def)

lemma get_intent_append:
  "get_intent (d \<lparr>db_intents := db_intents d @ [i]\<rparr>) k = (case get_intent d k of Some x \<Rightarrow> Some x
     | None \<Rightarrow> if ti_id i = k then Some i else None)"
proof -
  have "find P (xs @ [y]) = (case find P xs of Some x \<Rightarrow> Some x | None \<Rightarrow> if P y then Some y else None)" for P xs and y :: trade_intent
    by (induction xs) auto
  then show ?thesis by (simp add: get_intent_def row_get_def)
qed

definition life_next :: "(trade_intent_state \<times> nat) option \<Rightarrow> (trade_intent_state \<times> nat) option \<Rightarrow> bool" where
  "life_next a b \<longleftrightarrow> (case a of None \<Rightarrow> b = None \<or> b = Some (Intent_created, 0)
     | Some s \<Rightarrow> \<exists>t. b = Some t \<and> (t = s \<or> life_step s t))"

lemma exec_step_life:
  assumes "exec_step w w'"
  shows "life_next (intent_life w k) (intent_life w' k)"
  using assms
proof (cases rule: exec_step_cases)
  case kept
  then have "intent_life w' k = intent_life w k" by (simp add: intent_life_def intents_kept_def get_intent_def)
  then show ?thesis by (auto simp: life_next_def split: option.split)
next
  case (stored i)
  then have "calls_for k w' = calls_for k w" by (simp add: calls_for_def)
  with stored show ?thesis
    by (auto simp: life_next_def intent_life_def get_intent_append split: option.split)
next
  case (executed i)
  then obtain f where f: "touches (ti_id i) (xw_db w) (xw_db w') f"
    "xw_calls w' = xw_calls w \<and> (\<forall>x. ti_state (f x) = ti_state x \<or> stopped_state (ti_state (f x)))
     \<or> (\<exists>c. xw_calls w' = xw_calls w @ [(Some (ti_id i), c)] \<and> (\<forall>x. settled_state (ti_state (f x))))"
    by (auto simp: effect_def)
  show ?thesis
  proof (cases "k = ti_id i")
    case False
    with f(2) have "calls_for k w' = calls_for k w" by (auto simp: calls_for_def)
    with False touches_get [OF f(1), of k] have "intent_life w' k = intent_life w k" by (simp add: intent_life_def)
    then show ?thesis by (auto simp: life_next_def split: option.split)
  next
    case True
    have "intent_life w k = Some (ti_state i, calls_for k w)" "intent_life w' k = Some (ti_state (f i), calls_for k w')"
      using touches_get [OF f(1), of k] executed(1) True by (simp_all add: intent_life_def)
    moreover have "(ti_state (f i), calls_for k w') = (ti_state i, calls_for k w)
        \<or> life_step (ti_state i, calls_for k w) (ti_state (f i), calls_for k w')"
      using f(2)
    proof (elim disjE exE conjE)
      assume "xw_calls w' = xw_calls w" "\<forall>x. ti_state (f x) = ti_state x \<or> stopped_state (ti_state (f x))"
      moreover from this(1) have "calls_for k w' = calls_for k w" by (simp add: calls_for_def)
      ultimately show ?thesis using life_step.hold [OF executed(2)] by (metis)
    next
      fix c
      assume "xw_calls w' = xw_calls w @ [(Some (ti_id i), c)]" "\<forall>x. settled_state (ti_state (f x))"
      moreover from this(1) have "calls_for k w' = Suc (calls_for k w)" by (simp add: True)
      ultimately show ?thesis using life_step.call [OF executed(2)] by metis
    qed
    ultimately show ?thesis by (simp add: life_next_def)
  qed
next
  case (checked i f)
  have "calls_for k w' = calls_for k w" using checked(4) by (simp add: calls_for_def)
  with checked(1,2,5) touches_get [OF checked(3), of k] show ?thesis
    by (cases "k = ti_id i") (auto simp: life_next_def intent_life_def split: option.split intro: life_step.check)
qed

interpretation life: forward_simulation exec_step life_step "\<lambda>w s. intent_life w k = Some s"
proof
  fix w s w'
  assume "intent_life w k = Some s" "exec_step w w'"
  with exec_step_life [of w w' k] show "\<exists>t. life_step\<^sup>*\<^sup>* s t \<and> intent_life w' k = Some t"
    by (auto simp: life_next_def)
qed

text \<open>The invariant of the abstract machine, and of the worker.\<close>

definition life_ok :: "trade_intent_state \<times> nat \<Rightarrow> bool" where
  "life_ok s \<longleftrightarrow> snd s \<le> 1 \<and> (open_state (fst s) \<longrightarrow> snd s = 0)"

lemma life_step_ok: "life_ok s \<Longrightarrow> life_step s t \<Longrightarrow> life_ok t"
  by (cases s; cases t)
    (auto simp: life_ok_def open_state_def stopped_state_def settled_state_def unresolved_state_def)

definition calls_ok :: "world \<Rightarrow> bool" where
  "calls_ok w \<longleftrightarrow> (\<forall>k. case intent_life w k of None \<Rightarrow> calls_for k w = 0 | Some s \<Rightarrow> life_ok s)"

lemma exec_step_no_intent:
  assumes step: "exec_step w w'" and none: "get_intent (xw_db w') k = None"
  shows "calls_for k w' = calls_for k w"
  using step
proof (cases rule: exec_step_cases)
  case (executed i)
  from executed(3) obtain f where f: "touches (ti_id i) (xw_db w) (xw_db w') f"
     and c: "xw_calls w' = xw_calls w \<or> (\<exists>c. xw_calls w' = xw_calls w @ [(Some (ti_id i), c)])"
    by (auto simp: effect_def)
  have "k \<noteq> ti_id i" using touches_get [OF f, of k] executed(1) none by auto
  with c show ?thesis by (auto simp: calls_for_def)
qed (auto simp: intents_kept_def calls_for_def)

lemma exec_step_calls_ok:
  assumes ok: "calls_ok w" and step: "exec_step w w'"
  shows "calls_ok w'"
  unfolding calls_ok_def
proof
  fix k
  have next_life: "life_next (intent_life w k) (intent_life w' k)" by (rule exec_step_life [OF step])
  have old: "case intent_life w k of None \<Rightarrow> calls_for k w = 0 | Some s \<Rightarrow> life_ok s" using ok by (simp add: calls_ok_def)
  show "case intent_life w' k of None \<Rightarrow> calls_for k w' = 0 | Some s \<Rightarrow> life_ok s"
  proof (cases "intent_life w' k")
    case None
    then have "intent_life w k = None" "get_intent (xw_db w') k = None"
      using next_life by (auto simp: life_next_def intent_life_def split: option.splits)
    with None old exec_step_no_intent [OF step] show ?thesis by simp
  next
    case (Some t)
    have "life_ok t"
    proof (cases "intent_life w k")
      case None
      with next_life Some show ?thesis by (simp add: life_next_def life_ok_def)
    next
      case (Some s)
      then have "life_ok s" "t = s \<or> life_step s t"
        using old next_life \<open>intent_life w' k = Some t\<close> by (simp_all add: life_next_def)
      then show ?thesis using life_step_ok by blast
    qed
    with Some show ?thesis by simp
  qed
qed

interpretation exec: invariant_system "\<lambda>w. xw_calls w = []" exec_step calls_ok
proof
  fix w :: world
  assume "xw_calls w = []"
  then show "calls_ok w" by (simp add: calls_ok_def intent_life_def calls_for_def life_ok_def split: option.split)
qed (rule exec_step_calls_ok)

section \<open>What stands behind a call\<close>

lemma active_trades_same:
  assumes "db_trades d' = db_trades d"
    and "map (\<lambda>r. (rt_id r, rt_target_connection_id r)) (db_routes d') = map (\<lambda>r. (rt_id r, rt_target_connection_id r)) (db_routes d)"
  shows "active_trades_on d' c = active_trades_on d c"
proof -
  have "map_option rt_target_connection_id (find (\<lambda>r. rt_id r = k) rs) = map_of (map (\<lambda>r. (rt_id r, rt_target_connection_id r)) rs) k"
    for k and rs :: "copy_route list"
    by (induction rs) auto
  then have "map_option rt_target_connection_id (get_route d' k) = map_option rt_target_connection_id (get_route d k)" for k
    using assms(2) by (simp add: get_route_def row_get_def)
  then have "(case get_route d' k of None \<Rightarrow> False | Some r \<Rightarrow> c \<noteq> None \<and> rt_target_connection_id r = c)
      = (case get_route d k of None \<Rightarrow> False | Some r \<Rightarrow> c \<noteq> None \<and> rt_target_connection_id r = c)" for k
    by (cases "get_route d' k"; cases "get_route d k") (simp, metis option.distinct(1) option.map(1) option.map(2),
      metis option.distinct(1) option.map(1) option.map(2), metis option.case(2) option.inject option.map(2))
  then show ?thesis by (simp add: active_trades_on_def assms(1))
qed

lemma chosen_symbol_trades:
  assumes "chosen_symbol env br now route cid payload (with_db (set_connection_ready cid now (xw_db w)) w) = (r, w1)"
  shows "active_trades_on (modify_policy k h (xw_db w1)) c = active_trades_on (xw_db w) c"
proof -
  let ?key = "\<lambda>r. (rt_id r, rt_target_connection_id r)"
  have ready: "db_trades (set_connection_ready cid now d) = db_trades d"
    "map ?key (db_routes (set_connection_ready cid now d)) = map ?key (db_routes d)" for d
    by (simp_all add: set_connection_ready_def restore_routes_after_target_recovery_def modify_connection_def)
  have resolve: "db_trades (xw_db v') = db_trades (xw_db v) \<and> db_routes (xw_db v') = db_routes (xw_db v)"
    if "resolve_broker_symbol env br now route cid sy v = (a, v')" for sy v v' a
    using that by (auto simp: resolve_broker_symbol_def Let_def modify_connection_def save_mapping_def
        split: sum.splits option.splits)
  have "db_trades (xw_db w1) = db_trades (xw_db (with_db (set_connection_ready cid now (xw_db w)) w))
      \<and> db_routes (xw_db w1) = db_routes (xw_db (with_db (set_connection_ready cid now (xw_db w)) w))"
    using assms resolve by (auto simp: chosen_symbol_def split: pyval.splits if_splits prod.splits sum.splits)
  then show ?thesis by (intro active_trades_same) (simp_all add: modify_policy_def ready)
qed

lemma chosen_symbol_in_catalogue:
  assumes "chosen_symbol env br now route cid payload w = (Inr (Some sy), w1)"
  shows "sy \<in> set (broker_symbols br)"
proof -
  obtain name where r: "resolve_broker_symbol env br now route cid name w = (Inr sy, w1)"
    using assms by (auto simp: chosen_symbol_def split: pyval.splits if_splits prod.splits sum.splits)
  then consider P where "find P (rev (broker_symbols br)) = Some sy" | "resolve_symbol name (broker_symbols br) = Inr sy"
    by (auto simp: resolve_broker_symbol_def Let_def split: sum.splits option.splits if_splits)
  then show ?thesis
  proof cases
    case 1
    then show ?thesis by (metis find_SomeD set_rev)
  next
    case 2
    then show ?thesis using resolve_symbol_shortest [OF 2] by (auto simp: prefix_matches_def tradable_symbols_def)
  qed
qed

text \<open>The checks an opening has passed.\<close>

definition opening_intent :: "trade_intent \<Rightarrow> bool" where
  "opening_intent i \<longleftrightarrow> (\<exists>a \<in> set exec_open_actions. dict_get (ti_request_payload i) ''action'' = PStr a)"

definition risk_passed :: "int \<Rightarrow> copy_account_policy option \<Rightarrow> copy_route \<Rightarrow> trade_intent \<Rightarrow> db \<Rightarrow> bool" where
  "risk_passed now policy route i d \<longleftrightarrow> (\<exists>v. payload_volume (ti_request_payload i) route = Inr v \<and> (v > 0 \<longrightarrow>
     (\<exists>p equity. policy = Some p \<and> ensure_account_risk_within_limits (live_risk_input (mark_equity now equity p)
        (active_trades_on d (rt_target_connection_id route)) (ti_request_payload i) v equity) = Inr ())))"

definition quality_passed ::
  "exec_env \<Rightarrow> broker_session \<Rightarrow> int \<Rightarrow> copy_account_policy option \<Rightarrow> trade_intent \<Rightarrow> broker_symbol option \<Rightarrow> bool" where
  "quality_passed env br now policy i selected \<longleftrightarrow> (case selected of None \<Rightarrow> True
     | Some sy \<Rightarrow> \<exists>q. quality_details env br now policy sy (ti_request_payload i) = Inr (Inr q))"

lemma str_item_action: "str_item p k = Inr a \<longleftrightarrow> dict_get p k = PStr a"
  by (auto simp: str_item_def dict_item_def dict_get_def split: option.splits pyval.splits)

lemma execute_on_broker_call:
  assumes run: "execute_on_broker env br ev route now i cid pa policy w = (r, w')" and calls: "xw_calls w' \<noteq> xw_calls w"
  shows "\<exists>selected copied c v j. xw_calls w' = xw_calls w @ [(Some (ti_id i), c)]
     \<and> action_call br route j (ti_request_payload i) copied selected = Inr (c, v) \<and> ti_client_order_id j = ti_client_order_id i
     \<and> (\<forall>sy. selected = Some sy \<longrightarrow> sy \<in> set (broker_symbols br))
     \<and> (opening_intent i \<longrightarrow> risk_passed now policy route i (xw_db w) \<and> quality_passed env br now policy i selected)"
  using run
proof (cases rule: execute_on_broker_cases)
  case (guarded selected w1 action volume)
  let ?p = "ti_request_payload i" and ?copied = "select_trade (route_trades (xw_db w1) route) (ti_request_payload i)"
  have same: "xw_calls w1 = xw_calls w" using chosen_symbol_frame [OF guarded(1)] by simp
  obtain d where risk: "enforce_live_account_risk br now policy route ?p volume (xw_db w1) = Inr (Inr (), d)"
    and sub: "submit_intent env br ev route now i cid pa ?copied selected (with_db d w1) = (r, w')"
    using guarded(5) calls same by (auto simp: guard_risk_def split: sum.splits prod.splits)
  obtain c v j where call: "action_call br route j ?p ?copied selected = Inr (c, v)" "ti_client_order_id j = ti_client_order_id i"
      "xw_calls w' = xw_calls w @ [(Some (ti_id i), c)]"
    using submit_intent_effect [OF sub] calls same by auto
  have "\<forall>sy. selected = Some sy \<longrightarrow> sy \<in> set (broker_symbols br)"
    using chosen_symbol_in_catalogue guarded(1) by blast
  moreover have "risk_passed now policy route i (xw_db w) \<and> quality_passed env br now policy i selected" if "opening_intent i"
  proof -
    have op: "action \<in> set exec_open_actions" using that guarded(2) by (auto simp: opening_intent_def str_item_action)
    then obtain vol where vol: "volume = Some vol" "payload_volume ?p route = Inr vol" using guarded(3) by auto
    have "risk_passed now policy route i (xw_db w)"
      using risk vol chosen_symbol_trades [OF guarded(1)]
      by (auto simp: risk_passed_def enforce_live_account_risk_def Let_def split: option.splits sum.splits if_splits)
    moreover have "quality_passed env br now policy i selected"
      using guarded(4) op by (auto simp: quality_passed_def split: option.split)
    ultimately show ?thesis ..
  qed
  ultimately show ?thesis using call by blast
qed (use calls in auto)

text \<open>Only the execution of an intent makes a call for one.\<close>

lemma handler_call:
  assumes run: "execution_handler env lock_free now ev w = (r, w')" and call: "calls_for iid w' \<noteq> calls_for iid w"
  shows "execute_intent env (lock_free None) ev now w = (r, w') \<and> ev_event_type ev = ''intent.execute''"
proof -
  have "calls_for iid w' = calls_for iid w" if "reconcile_intent env ev now w = (r, w')"
    using that
  proof (cases rule: reconcile_intent_cases)
    case (unresolved i f)
    then have "xw_calls w' = xw_calls w" by (metis with_db_simps(2))
    then show ?thesis by (simp add: calls_for_def)
  qed simp
  moreover have "calls_for iid w' = calls_for iid w" if "execute_emergency env lf ev now w = (r, w')" for lf
    using execute_emergency_kept [OF that] by (simp add: intents_kept_def)
  ultimately show ?thesis using run call by (auto simp: execution_handler_def split: if_splits)
qed

lemma executed_rows:
  assumes run: "execute_intent env lock_free ev now w = (r, w')" and call: "calls_for iid w' \<noteq> calls_for iid w"
  obtains i where "get_intent (xw_db w) iid = Some i" "open_state (ti_state i)" "lock_free"
    "xe_billing_enforced env \<and> opening_intent i \<longrightarrow> has_copy_access (current_entitlement (xe_subscription env (ti_user_id i)) now) now"
    "execution_locked env ev now \<lparr>xr_intent = i, xr_route = get_route (xw_db w) (ti_route_id i),
       xr_connection = get_connection (xw_db w) (ti_connection_id i), xr_action = get_action (xw_db w) (ti_parsed_action_id i)\<rparr> w = (r, w')"
proof -
  have "xw_calls w' \<noteq> xw_calls w" using call by (auto simp: calls_for_def)
  then obtain rows where rows: "execution_read env ev now (xw_db w) = Inr (Inr rows)" "lock_free"
      "execution_locked env ev now rows w = (r, w')"
    using run by (auto simp: execute_intent_def split: sum.splits prod.splits if_splits)
  then obtain k i where i: "get_intent (xw_db w) k = Some i" "open_state (ti_state i)"
      "xe_billing_enforced env \<and> opening_intent i \<longrightarrow> has_copy_access (current_entitlement (xe_subscription env (ti_user_id i)) now) now"
      "rows = \<lparr>xr_intent = i, xr_route = get_route (xw_db w) (ti_route_id i),
         xr_connection = get_connection (xw_db w) (ti_connection_id i), xr_action = get_action (xw_db w) (ti_parsed_action_id i)\<rparr>"
    by (auto simp: execution_read_def opening_intent_def open_state_def split: sum.splits option.splits if_splits)
  have "effect (ti_id i) w w'" using execution_locked_run [OF rows(3)] i(4) by simp
  then have "iid = ti_id i" using call by (auto simp: effect_def calls_for_def split: if_splits)
  with i rows intents.get_Some [OF i(1)] show thesis by (intro that [of i]) auto
qed

text \<open>Everything that stands behind a new call.\<close>

lemma guarded_call:
  assumes "execution_handler env lock_free now ev w = (r, w')" and "calls_for iid w' \<noteq> calls_for iid w"
  obtains i route conn br policy selected copied c v j where
    "get_intent (xw_db w) iid = Some i" "open_state (ti_state i)" "lock_free None"
    "get_route (xw_db w) (ti_route_id i) = Some route" "get_connection (xw_db w) (ti_connection_id i) = Some conn"
    "policy_for (xw_db w) (ti_connection_id i) = Inr policy"
    "\<not> automation_paused env (Some route) (Some conn) (get_settings (xw_db w) (ti_user_id i)) policy"
    "xe_acquire env (the (cn_metaapi_account_id conn)) = Inr br"
    "opening_intent i \<longrightarrow> risk_passed now policy route i (xw_db w) \<and> quality_passed env br now policy i selected
         \<and> (xe_billing_enforced env \<longrightarrow> has_copy_access (current_entitlement (xe_subscription env (ti_user_id i)) now) now)"
    "\<forall>sy. selected = Some sy \<longrightarrow> sy \<in> set (broker_symbols br)"
    "action_call br route j (ti_request_payload i) copied selected = Inr (c, v)" "ti_client_order_id j = ti_client_order_id i"
    "xw_calls w' = xw_calls w @ [(Some iid, c)]"
proof -
  have run: "execute_intent env (lock_free None) ev now w = (r, w')" using handler_call [OF assms] by blast
  obtain i where i: "get_intent (xw_db w) iid = Some i" "open_state (ti_state i)" "lock_free None"
    and bill: "xe_billing_enforced env \<and> opening_intent i \<longrightarrow> has_copy_access (current_entitlement (xe_subscription env (ti_user_id i)) now) now"
    and locked: "execution_locked env ev now \<lparr>xr_intent = i, xr_route = get_route (xw_db w) (ti_route_id i),
       xr_connection = get_connection (xw_db w) (ti_connection_id i), xr_action = get_action (xw_db w) (ti_parsed_action_id i)\<rparr> w = (r, w')"
    by (rule executed_rows [OF run assms(2)])
  have id: "ti_id i = iid" using intents.get_Some [OF i(1)] by simp
  have calls: "xw_calls w' \<noteq> xw_calls w" using assms(2) by (auto simp: calls_for_def)
  obtain policy where pol: "policy_for (xw_db w) (ti_connection_id i) = Inr policy"
    using locked calls by (cases "policy_for (xw_db w) (ti_connection_id i)") (auto simp: execution_locked_def)
  have np: "\<not> automation_paused env (get_route (xw_db w) (ti_route_id i)) (get_connection (xw_db w) (ti_connection_id i))
      (get_settings (xw_db w) (ti_user_id i)) policy"
    using locked calls pol by (auto simp: execution_locked_def Let_def split: if_splits)
  then obtain route conn where rc: "get_route (xw_db w) (ti_route_id i) = Some route"
      "get_connection (xw_db w) (ti_connection_id i) = Some conn" "rt_state route = Route_active"
    by (auto simp: automation_paused_def split: option.splits)
  obtain br where br: "xe_acquire env (the (cn_metaapi_account_id conn)) = Inr br"
    and exe: "execute_on_broker env br ev route now i (cn_id conn) (get_action (xw_db w) (ti_parsed_action_id i)) policy w = (r, w')"
    using locked calls pol np rc by (cases "xe_acquire env (the (cn_metaapi_account_id conn))") (auto simp: execution_locked_def)
  from execute_on_broker_call [OF exe calls] obtain selected copied c v j where c:
      "xw_calls w' = xw_calls w @ [(Some iid, c)]" "action_call br route j (ti_request_payload i) copied selected = Inr (c, v)"
      "ti_client_order_id j = ti_client_order_id i" "\<forall>sy. selected = Some sy \<longrightarrow> sy \<in> set (broker_symbols br)"
      "opening_intent i \<longrightarrow> risk_passed now policy route i (xw_db w) \<and> quality_passed env br now policy i selected"
    unfolding id by blast
  show thesis
    by (rule that [OF i rc(1,2) pol np [unfolded rc] br _ c(4,2,3,1)]) (use c(5) bill in blast)
qed

section \<open>Properties\<close>

text \<open>
  Property C4. The execution worker refines the life of an intent: over any sequence of steps, an
  intent moves only as the abstract machine allows. An open one is stopped without a call or settled by
  exactly one, an unresolved one is only checked, and nothing else ever changes its state or its
  number of calls.
\<close>

theorem intent_life_refinement:
  assumes "exec_step\<^sup>*\<^sup>* w w'" and "intent_life w k = Some s"
  shows "\<exists>t. life_step\<^sup>*\<^sup>* s t \<and> intent_life w' k = Some t"
  using life.simulate_run [OF assms] .

text \<open>
  Property C1. At most one broker call is made for an intent, and none while it is open, whatever the
  order of deliveries, redeliveries, sweeps, emergencies and settings, as long as the runs do not overlap.
\<close>

theorem broker_call_at_most_once:
  assumes "xw_calls w = []" and "exec_step\<^sup>*\<^sup>* w w'"
  shows "calls_for k w' \<le> 1
    \<and> (\<forall>i. get_intent (xw_db w') k = Some i \<and> open_state (ti_state i) \<longrightarrow> calls_for k w' = 0)"
proof -
  have "case intent_life w' k of None \<Rightarrow> calls_for k w' = 0 | Some s \<Rightarrow> life_ok s"
    using exec.reachable_inv [OF assms] by (simp add: calls_ok_def)
  then show ?thesis by (auto simp: intent_life_def life_ok_def split: option.splits)
qed

text \<open>
  A confirmed, failed or submitted intent never changes again. For the first two that is what
  the states promise; a submitted intent whose settlement raised after the call is thereby stuck, as no
  sweep looks for it.
\<close>

theorem final_intents_never_change:
  assumes "exec_step\<^sup>*\<^sup>* w w'" and "get_intent (xw_db w) k = Some i" and "final_state (ti_state i)"
  shows "get_intent (xw_db w') k = Some i"
  using assms(1)
proof (induction rule: rtranclp_induct)
  case base
  show ?case by (rule assms(2))
next
  case (step v w')
  note fin = assms(3)
  from step.hyps(2) show ?case
  proof (cases rule: exec_step_cases)
    case kept
    with step.IH show ?thesis by (simp add: intents_kept_def get_intent_def)
  next
    case (stored j)
    with step.IH show ?thesis by (simp add: get_intent_append)
  next
    case (executed j)
    then have "k \<noteq> ti_id j" using step.IH fin by (auto simp: final_state_def open_state_def)
    with executed(3) step.IH show ?thesis using touches_get by (auto simp: effect_def)
  next
    case (checked j f)
    then have "k \<noteq> ti_id j" using step.IH fin by (auto simp: final_state_def unresolved_state_def)
    with touches_get [OF checked(3)] step.IH show ?thesis by simp
  qed
qed


definition order_of :: "broker_call \<Rightarrow> (string \<times> rat) option" where
  "order_of c = (case c of Create_market_buy_order sy v _ _ _ \<Rightarrow> Some (sy, v) | Create_market_sell_order sy v _ _ _ \<Rightarrow> Some (sy, v)
     | Create_pending_order _ sy v _ _ _ _ \<Rightarrow> Some (sy, v) | _ \<Rightarrow> None)"

lemma call_orders:
  "market_call direction sy v sl tp options = Inr c \<Longrightarrow> order_of c = Some (sy, v)"
  "pending_call br direction ty sy v price sl tp options = Inr c \<Longrightarrow> order_of c = Some (sy, v)"
  "modify_call position sl tp = Inr c \<Longrightarrow> order_of c = None"
  by (auto simp: market_call_def pending_call_def modify_call_def order_of_def Let_def split: sum.splits if_splits)

lemma sized_volume_limits:
  "sized_volume payload route selected = Inr v \<Longrightarrow> \<exists>sy u. selected = Some sy \<and> normalize_volume u sy = Inr v"
  by (auto simp: sized_volume_def split: sum.splits option.splits)

lemma action_call_order:
  assumes call: "action_call br route j payload copied selected = Inr (c, v)" and order: "order_of c = Some (name, volume)"
  shows "\<exists>sy u. selected = Some sy \<and> sym_name sy = name \<and> normalize_volume u sy = Inr volume"
proof -
  obtain action where act: "str_item payload ''action'' = Inr action"
    using call by (auto simp: action_call_def split: sum.splits)
  note call' = call [unfolded action_call_def act sum.case Let_def]
  consider (market) "action = ''open_market'' \<or> action = ''additional_tp''"
    | (pending) "\<not> (action = ''open_market'' \<or> action = ''additional_tp'')" "action = ''place_pending''"
    | (other) "\<not> (action = ''open_market'' \<or> action = ''additional_tp'')" "action \<noteq> ''place_pending''" by blast
  then show ?thesis
  proof cases
    case market
    then obtain u direction sl tp options where "sized_volume payload route selected = Inr u"
      "market_call direction (sym_name (the selected)) u sl tp options = Inr c"
      using call' by (auto split: sum.splits)
    with sized_volume_limits call_orders(1) order show ?thesis by fastforce
  next
    case pending
    then obtain u direction ty price sl tp options where "sized_volume payload route selected = Inr u"
      "pending_call br direction ty (sym_name (the selected)) u price sl tp options = Inr c"
      using call' by (auto split: sum.splits)
    with sized_volume_limits call_orders(2) order show ?thesis by fastforce
  next
    case other
    obtain t where t: "copied = Some t"
      using call' other by (cases copied) (auto simp: value_error_def)
    have "order_of c = None"
    proof (cases "action = ''modify_sl_tp'' \<or> action = ''break_even''")
      case True
      then obtain sl tp where "modify_call (ct_broker_position_id t) sl tp = Inr c"
        using call' other t by (auto split: sum.splits)
      then show ?thesis by (rule call_orders(3))
    next
      case False
      then show ?thesis
        using call' other t by (auto simp: order_of_def value_error_def split: sum.splits if_splits)
    qed
    with order show ?thesis by simp
  qed
qed

text \<open>
  Every market or pending order names a symbol of the account's catalogue and, where the limits of the
  symbol are in order, its volume lies within them.
\<close>

theorem order_volume_in_limits:
  assumes "execution_handler env lock_free now ev w = (r, w')" and "calls_for iid w' \<noteq> calls_for iid w"
    and "order_of (snd (last (xw_calls w'))) = Some (name, volume)"
  shows "\<exists>i conn br sy. get_intent (xw_db w) iid = Some i \<and> get_connection (xw_db w) (ti_connection_id i) = Some conn
    \<and> xe_acquire env (the (cn_metaapi_account_id conn)) = Inr br \<and> sy \<in> set (broker_symbols br) \<and> sym_name sy = name
    \<and> (sym_min_volume sy \<le> sym_max_volume sy \<longrightarrow> sym_min_volume sy \<le> volume \<and> volume \<le> sym_max_volume sy)"
proof (rule guarded_call [OF assms(1,2)])
  fix i route conn br policy selected copied c v j
  assume i: "get_intent (xw_db w) iid = Some i" "get_connection (xw_db w) (ti_connection_id i) = Some conn"
      "xe_acquire env (the (cn_metaapi_account_id conn)) = Inr br"
    and sel: "\<forall>sy. selected = Some sy \<longrightarrow> sy \<in> set (broker_symbols br)"
    and call: "action_call br route j (ti_request_payload i) copied selected = Inr (c, v)"
    and calls: "xw_calls w' = xw_calls w @ [(Some iid, c)]"
  have "order_of c = Some (name, volume)" using assms(3) calls by simp
  from action_call_order [OF call this] sel
  obtain sy u where "sy \<in> set (broker_symbols br)" "sym_name sy = name" "normalize_volume u sy = Inr volume" by blast
  with i normalize_volume_bounds show ?thesis by blast
qed

end
