(* ===== verification/Execution_Sweeps.thy ===== *)
theory Execution_Sweeps
  imports Execution_Properties
begin

text \<open>
  The properties of what runs beside the execution of intents: accounts that go away and come back,
  emergencies, the reconciliation of uncertain intents and of copied trades, and the sweep that asks for it.
\<close>

section \<open>Accounts and routes\<close>

text \<open>
  Losing an account and getting it back is a round trip for its routes: marking takes every
  active route of the account out of service and is idempotent, and the recovery restores
  the routes exactly, provided none was out of service before and active routes remember no earlier state.
\<close>

theorem route_recovery_roundtrip:
  assumes "\<forall>r \<in> set (db_routes d). rt_target_connection_id r = Some cid \<longrightarrow>
      rt_state r \<noteq> Route_target_unavailable \<and> (rt_state r = Route_active \<longrightarrow> rt_paused_from_state r = None)"
  shows "restore_routes_after_target_recovery cid (mark_routes_target_unavailable cid d) = d
    \<and> mark_routes_target_unavailable cid (mark_routes_target_unavailable cid d) = mark_routes_target_unavailable cid d
    \<and> (\<forall>r \<in> set (db_routes (mark_routes_target_unavailable cid d)). rt_target_connection_id r = Some cid \<longrightarrow> rt_state r \<noteq> Route_active)"
proof (intro conjI)
  have "map (\<lambda>r. if rt_target_connection_id r = Some cid \<and> rt_state r = Route_target_unavailable
     then r \<lparr>rt_state := (case rt_paused_from_state r of None \<Rightarrow> Route_ready | Some st \<Rightarrow> st), rt_paused_from_state := None\<rparr>
     else r) (db_routes (mark_routes_target_unavailable cid d)) = db_routes d"
    unfolding mark_routes_target_unavailable_def
    by (rule nth_equalityI) (use assms in \<open>auto simp: all_set_conv_all_nth intro!: copy_route.equality\<close>)
  then show "restore_routes_after_target_recovery cid (mark_routes_target_unavailable cid d) = d"
    unfolding restore_routes_after_target_recovery_def by (simp add: mark_routes_target_unavailable_def)
qed (auto simp: mark_routes_target_unavailable_def)

section \<open>Emergencies\<close>

definition has_account :: "copy_trading_connection \<Rightarrow> bool" where
  "has_account c \<longleftrightarrow> cn_metaapi_account_id c \<notin> {None, Some []}"











section \<open>Reconciliation of intents\<close>

definition evidence :: "broker_session \<Rightarrow> trade_intent \<Rightarrow> bool" where
  "evidence br i \<longleftrightarrow> (\<exists>x \<in> set (br_orders br @ br_positions br @ br_deals br).
     bi_clientId x = ti_client_order_id i \<or> bi_client_id x = ti_client_order_id i)"

lemma find_by_client_None: "find_by_client k xs = None \<longleftrightarrow> \<not> (\<exists>x \<in> set xs. bi_clientId x = k \<or> bi_client_id x = k)"
  by (auto simp: find_by_client_def find_None_iff)

lemma reconciled_intent_state:
  "ti_state (reconciled_intent env br now i) = (if evidence br i then Intent_confirmed
     else if uncertain_intent_expired env i now then Intent_failed else Intent_uncertain)
   \<and> (ti_state (reconciled_intent env br now i) \<noteq> Intent_uncertain \<longrightarrow> ti_resolved_at (reconciled_intent env br now i) = Some now)"
proof -
  have "find_by_client (ti_client_order_id i) (br_orders br) \<noteq> None \<or> find_by_client (ti_client_order_id i) (br_positions br) \<noteq> None
      \<or> find_by_client (ti_client_order_id i) (br_deals br) \<noteq> None \<longleftrightarrow> evidence br i"
    by (auto simp: find_by_client_None evidence_def)
  then show ?thesis unfolding reconciled_intent_def Let_def by simp
qed

text \<open>
  Property C12. Reconciliation decides: a reconciled intent is confirmed exactly when an order, a position or a deal
  carries its client order id, failed when none does and its age has reached the limit, and
  uncertain otherwise. It makes no broker call and records no copied trade, so an opening that
  is confirmed this way has none.
\<close>

theorem reconcile_intent_decides:
  assumes "reconcile_intent env ev now w = (Inr r, w')"
    and "dict_get (ev_payload ev) ''intent_id'' = PStr (str_uuid iid)"
    and "get_intent (xw_db w) iid = Some i" and "unresolved_state (ti_state i)"
    and "get_connection (xw_db w) (ti_connection_id i) = Some c" and "has_account c"
  shows "\<exists>br j. xe_acquire env (the (cn_metaapi_account_id c)) = Inr br \<and> get_intent (xw_db w') iid = Some j
    \<and> ti_state j = (if evidence br i then Intent_confirmed
        else if now - ti_created_at i \<ge> 1000000 * xe_uncertain_max_age_seconds env \<and> 0 \<le> now - ti_created_at i
             \<or> xe_uncertain_max_age_seconds env \<le> 0 then Intent_failed else Intent_uncertain)
    \<and> (ti_state j \<noteq> Intent_uncertain \<longrightarrow> ti_resolved_at j = Some now)
    \<and> db_trades (xw_db w') = db_trades (xw_db w) \<and> xw_calls w' = xw_calls w"
proof -
  have id: "str_item (ev_payload ev) ''intent_id'' = Inr (str_uuid iid)" using assms(2) by (simp add: str_item_action)
  have st: "ti_state i \<in> {Intent_uncertain, Intent_reconciling}" using assms(4) by (auto simp: unresolved_state_def)
  define g where "g = (\<lambda>x. x \<lparr>ti_state := Intent_reconciling\<rparr> :: trade_intent)"
  obtain br where br: "xe_acquire env (the (cn_metaapi_account_id c)) = Inr br"
    and w': "w' = with_db (modify_intent iid (reconciled_intent env br now) (modify_intent iid g (xw_db w))) w"
    using assms(1,3,5,6) id st by (auto simp: reconcile_intent_def Let_def has_account_def g_def split: sum.splits)
  have keep: "ti_id (reconciled_intent env br now x) = ti_id x" for x by (simp add: reconciled_intent_def Let_def)
  have "get_intent (xw_db w') iid = Some (reconciled_intent env br now (g i))"
    using intents.get_modify [of "reconciled_intent env br now"] intents.get_modify [of g] assms(3) keep
    by (simp add: w' g_def)
  moreover have "evidence br (g i) = evidence br i" by (simp add: evidence_def g_def)
  moreover have "uncertain_intent_expired env (g i) now \<longleftrightarrow> now - ti_created_at i \<ge> 1000000 * xe_uncertain_max_age_seconds env \<and> 0 \<le> now - ti_created_at i
             \<or> xe_uncertain_max_age_seconds env \<le> 0"
  proof -
    have "of_int (xe_uncertain_max_age_seconds env) \<le> (of_int (now - ti_created_at i) / 1000000 :: rat)
        \<longleftrightarrow> (of_int (1000000 * xe_uncertain_max_age_seconds env) :: rat) \<le> of_int (now - ti_created_at i)"
      by (simp add: field_simps)
    then have "of_int (xe_uncertain_max_age_seconds env) \<le> (of_int (now - ti_created_at i) / 1000000 :: rat)
        \<longleftrightarrow> 1000000 * xe_uncertain_max_age_seconds env \<le> now - ti_created_at i"
      unfolding of_int_le_iff .
    then show ?thesis by (auto simp: uncertain_intent_expired_def g_def le_max_iff_disj)
  qed
  ultimately show ?thesis
    using br reconciled_intent_state [of env br now "g i"] by (auto simp: w')
qed

section \<open>The sweep\<close>

lemma publish_sweep_events:
  "\<exists>evs. xw_events (publish_sweep env now is w) = xw_events w @ evs
     \<and> list_all2 (\<lambda>e i. ev_event_type e = ''intent.reconcile'' \<and> dict_get (ev_payload e) ''intent_id'' = PStr (str_uuid (ti_id i))
         \<and> ev_idempotency_key e = ''reconcile-sweep:'' @ str_uuid (ti_id i) @ '':'' @ show_int (reconcile_sweep_bucket env now)) evs is"
proof (induction "is" arbitrary: w)
  case (Cons i "is")
  define e where "e = reconcile_event (xe_rnd env (Suc (xw_draws w))) now (str_uuid (xe_rnd env (xw_draws w))) i
       (''reconcile-sweep:'' @ str_uuid (ti_id i) @ '':'' @ show_int (reconcile_sweep_bucket env now))"
  define v where "v = w \<lparr>xw_events := xw_events w @ [e], xw_draws := xw_draws w + 2\<rparr>"
  obtain evs where evs: "xw_events (publish_sweep env now is v) = xw_events v @ evs"
     "list_all2 (\<lambda>e i. ev_event_type e = ''intent.reconcile'' \<and> dict_get (ev_payload e) ''intent_id'' = PStr (str_uuid (ti_id i))
         \<and> ev_idempotency_key e = ''reconcile-sweep:'' @ str_uuid (ti_id i) @ '':'' @ show_int (reconcile_sweep_bucket env now)) evs is"
    using Cons.IH by blast
  have "publish_sweep env now (i # is) w = publish_sweep env now is v" by (simp add: v_def e_def)
  then have "xw_events (publish_sweep env now (i # is) w) = xw_events w @ (e # evs)" using evs(1) by (simp add: v_def)
  moreover have "ev_event_type e = ''intent.reconcile''" "dict_get (ev_payload e) ''intent_id'' = PStr (str_uuid (ti_id i))"
      "ev_idempotency_key e = ''reconcile-sweep:'' @ str_uuid (ti_id i) @ '':'' @ show_int (reconcile_sweep_bucket env now)"
    by (simp_all add: e_def reconcile_event_def new_event_def dict_get_def)
  ultimately show ?case using evs(2) by (intro exI [of _ "e # evs"]) simp
qed simp

lemma bucket_advances:
  assumes "0 \<le> now"
  shows "reconcile_sweep_bucket env now < reconcile_sweep_bucket env (now + 30000000)"
proof -
  define b where "b = max 1 (min 30 (xe_uncertain_max_age_seconds env))"
  have b: "1 \<le> b" "b \<le> 30" by (simp_all add: b_def)
  have "whole_seconds (now + 30000000) = whole_seconds now + 30" using assms by (simp add: whole_seconds_def)
  moreover have "(x + b) div b \<le> (x + 30) div b" for x using b by (intro zdiv_mono1) simp_all
  moreover have "(x + b) div b = x div b + 1" for x using b by simp
  ultimately show ?thesis
    unfolding reconcile_sweep_bucket_def b_def [symmetric] by (metis add1_zle_eq)
qed

text \<open>
  A sweep asks for the reconciliation of exactly the unresolved intents, once each and in their
  order. The keys it uses are the same for two sweeps of one time bucket, so that repeated sweeps are
  deduplicated, and new thirty seconds later, so that an intent is asked for again.
\<close>

theorem sweep_requests_unresolved:
  assumes "0 \<le> now"
  shows "\<exists>evs. xw_events (publish_unresolved_intents env now w) = xw_events w @ evs
      \<and> list_all2 (\<lambda>e i. ev_event_type e = ''intent.reconcile'' \<and> dict_get (ev_payload e) ''intent_id'' = PStr (str_uuid (ti_id i))
          \<and> ev_idempotency_key e = ''reconcile-sweep:'' @ str_uuid (ti_id i) @ '':'' @ show_int (reconcile_sweep_bucket env now))
          evs (filter (\<lambda>i. unresolved_state (ti_state i)) (db_intents (xw_db w)))
      \<and> xw_db (publish_unresolved_intents env now w) = xw_db w
      \<and> show_int (reconcile_sweep_bucket env now) \<noteq> show_int (reconcile_sweep_bucket env (now + 30000000))"
proof -
  have "publish_unresolved_intents env now w = publish_sweep env now (filter (\<lambda>i. unresolved_state (ti_state i)) (db_intents (xw_db w))) w"
    by (simp add: publish_unresolved_intents_def unresolved_state_def)
  moreover have "show_int (reconcile_sweep_bucket env now) \<noteq> show_int (reconcile_sweep_bucket env (now + 30000000))"
    using bucket_advances [OF assms, of env] by simp
  ultimately show ?thesis using publish_sweep_events publish_sweep_frame by simp
qed

section \<open>Copied trades follow their accounts\<close>

lemma apply_broker_snapshot_id:
  "apply_broker_snapshot t ps os now k = (t', changed) \<Longrightarrow> ct_id t' = ct_id t"
  by (auto simp: apply_broker_snapshot_def snapshot_step_def follow_position_def Let_def split: option.splits if_splits prod.splits)

definition reachable_row :: "exec_env \<Rightarrow> copied_trade \<times> copy_trading_connection \<times> trade_intent \<times> copy_route \<Rightarrow> bool" where
  "reachable_row env row = (case row of (t, c, i, r) \<Rightarrow> has_account c \<longrightarrow> is_ok (xe_acquire env (the (cn_metaapi_account_id c))))"

definition drifted_row :: "exec_env \<Rightarrow> int \<Rightarrow> copied_trade \<times> copy_trading_connection \<times> trade_intent \<times> copy_route \<Rightarrow> bool" where
  "drifted_row env now row = (case row of (t, c, i, r) \<Rightarrow> has_account c \<and> (case xe_acquire env (the (cn_metaapi_account_id c)) of
     Inl _ \<Rightarrow> False | Inr br \<Rightarrow> snd (apply_broker_snapshot t (br_positions br) (br_orders br) now (ti_client_order_id i))))"

lemma reconcile_loop_outcome:
  "if list_all (reachable_row env) rows
   then \<exists>d'. reconcile_loop env now rows (d, n) = Inr (d', n + length (filter (drifted_row env now) rows))
     \<and> length (db_activities d') = length (db_activities d) + length (filter (drifted_row env now) rows)
     \<and> map ct_id (db_trades d') = map ct_id (db_trades d)
     \<and> (\<forall>t \<in> set (db_trades d). ct_id t \<notin> ct_id ` fst ` set rows \<longrightarrow> t \<in> set (db_trades d'))
   else \<exists>e. reconcile_loop env now rows (d, n) = Inl e"
proof (induction rows arbitrary: d n)
  case (Cons row rows)
  obtain t c i r where row: "row = (t, c, i, r)" using prod_cases4 by blast
  show ?case
  proof (cases "has_account c")
    case False
    then have "reconcile_loop env now (row # rows) (d, n) = reconcile_loop env now rows (d, n)"
      by (simp add: row has_account_def)
    moreover have "reachable_row env row" "\<not> drifted_row env now row"
      using False by (simp_all add: row reachable_row_def drifted_row_def)
    ultimately show ?thesis using Cons.IH [of d n] by (auto split: if_splits)
  next
    case acc: True
    show ?thesis
    proof (cases "xe_acquire env (the (cn_metaapi_account_id c))")
      case (Inl e)
      then have "\<not> reachable_row env row"
        using acc by (simp add: row reachable_row_def)
      moreover have "reconcile_loop env now (row # rows) (d, n) = Inl e"
        using acc Inl by (auto simp: row has_account_def)
      ultimately show ?thesis by simp
    next
      case (Inr br)
      obtain t' changed where snap: "apply_broker_snapshot t (br_positions br) (br_orders br) now (ti_client_order_id i) = (t', changed)"
        by force
      have id: "ct_id t' = ct_id t" using snap by (simp add: apply_broker_snapshot_id)
      define d1 where "d1 = (if changed then (put_trade t' d) \<lparr>db_activities := db_activities d @ [drift_activity now t t' r]\<rparr> else put_trade t' d)"
      have loop: "reconcile_loop env now (row # rows) (d, n) = reconcile_loop env now rows (d1, if changed then n + 1 else n)"
        using acc Inr snap by (auto simp: row has_account_def d1_def put_trade_def)
      have drift: "drifted_row env now row \<longleftrightarrow> changed" "reachable_row env row"
        using acc Inr snap by (simp_all add: row drifted_row_def reachable_row_def)
      have acts: "length (db_activities d1) = length (db_activities d) + (if changed then 1 else 0)"
        by (simp add: d1_def put_trade_def)
      have trades: "db_trades d1 = row_put ct_id t' (db_trades d)" by (simp add: d1_def put_trade_def)
      have keys: "map ct_id (db_trades d1) = map ct_id (db_trades d)" by (simp add: trades row_put_def)
      have others: "x \<in> set (db_trades d1)" if "x \<in> set (db_trades d)" "ct_id x \<noteq> ct_id t" for x
        using that id by (auto simp: trades row_put_def image_iff)
      show ?thesis
      proof (cases "list_all (reachable_row env) rows")
        case False
        with Cons.IH [of d1 "if changed then n + 1 else n"] show ?thesis by (simp add: loop del: reconcile_loop.simps)
      next
        case True
        with Cons.IH [of d1 "if changed then n + 1 else n"] obtain d' where
          "reconcile_loop env now rows (d1, if changed then n + 1 else n) = Inr (d', (if changed then n + 1 else n) + length (filter (drifted_row env now) rows))"
          "length (db_activities d') = length (db_activities d1) + length (filter (drifted_row env now) rows)"
          "map ct_id (db_trades d') = map ct_id (db_trades d1)"
          "\<forall>t \<in> set (db_trades d1). ct_id t \<notin> ct_id ` fst ` set rows \<longrightarrow> t \<in> set (db_trades d')" by auto
        with True drift acts keys others show ?thesis
          unfolding loop by (auto simp: row)
      qed
    qed
  qed
qed simp

text \<open>
  Property C18. Following the accounts is all or nothing: it succeeds exactly when every provisioned account of an active trade
  can be reached, and then counts and logs exactly the trades that changed and leaves the others alone. One
  account that cannot be reached makes the whole run raise and leaves every trade of every account as it was.
\<close>

theorem reconcile_copied_trades_all_or_nothing:
  "(is_ok (fst (reconcile_copied_trades env now d)) \<longleftrightarrow> (\<forall>(t, c, i, r) \<in> set (reconcile_rows d).
       has_account c \<longrightarrow> is_ok (xe_acquire env (the (cn_metaapi_account_id c)))))
   \<and> (\<not> is_ok (fst (reconcile_copied_trades env now d)) \<longrightarrow> snd (reconcile_copied_trades env now d) = d)
   \<and> (fst (reconcile_copied_trades env now d) = Inr n \<longrightarrow> n = length (filter (drifted_row env now) (reconcile_rows d))
        \<and> length (db_activities (snd (reconcile_copied_trades env now d))) = length (db_activities d) + n
        \<and> map ct_id (db_trades (snd (reconcile_copied_trades env now d))) = map ct_id (db_trades d)
        \<and> (\<forall>t \<in> set (db_trades d). ct_id t \<notin> ct_id ` fst ` set (reconcile_rows d)
             \<longrightarrow> t \<in> set (db_trades (snd (reconcile_copied_trades env now d)))))"
proof -
  have all: "list_all (reachable_row env) (reconcile_rows d) \<longleftrightarrow> (\<forall>(t, c, i, r) \<in> set (reconcile_rows d).
       has_account c \<longrightarrow> is_ok (xe_acquire env (the (cn_metaapi_account_id c))))"
    by (auto simp: list_all_iff reachable_row_def)
  show ?thesis
  proof (cases "list_all (reachable_row env) (reconcile_rows d)")
    case True
    with reconcile_loop_outcome [of env "reconcile_rows d" now d 0] obtain d' where
      "reconcile_loop env now (reconcile_rows d) (d, 0) = Inr (d', length (filter (drifted_row env now) (reconcile_rows d)))"
      "length (db_activities d') = length (db_activities d) + length (filter (drifted_row env now) (reconcile_rows d))"
      "map ct_id (db_trades d') = map ct_id (db_trades d)"
      "\<forall>t \<in> set (db_trades d). ct_id t \<notin> ct_id ` fst ` set (reconcile_rows d) \<longrightarrow> t \<in> set (db_trades d')" by auto
    with True show ?thesis unfolding all [symmetric] by (simp add: reconcile_copied_trades_def)
  next
    case False
    with reconcile_loop_outcome [of env "reconcile_rows d" now d 0] obtain e where
      "reconcile_loop env now (reconcile_rows d) (d, 0) = Inl e" by auto
    with False show ?thesis unfolding all [symmetric] by (simp add: reconcile_copied_trades_def)
  qed
qed

end
