(* ===== verification/Execution_Examples.thy ===== *)
theory Execution_Examples
  imports Execution_Sweeps Signal_Properties
begin

text \<open>
  The execution worker on concrete data: a route with one account, an opening intent that is executed, an
  account without provisioning, and a broker that accepts everything. Every property of the worker is applied to
  these runs. The last section runs the worker twice on rows that were read before either run took
  the lock.
\<close>

section \<open>The data\<close>

definition sample_spec :: metaapi_specification where
  "sample_spec = \<lparr>spec_symbol = ''XAUUSD'', spec_contractSize = Some 100, spec_spread = Some 12,
     spec_tradeMode = Some (TM_str ''SYMBOL_TRADE_MODE_FULL''), spec_visible = None, spec_minVolume = Some (1 / 100),
     spec_maxVolume = Some 50, spec_volumeStep = Some (1 / 100), spec_fillingModes = None, spec_executionMode = None,
     spec_point = Some (1 / 100)\<rparr>"

definition sample_deal :: broker_item where
  "sample_deal = (sample_item ''d1'' (PNum (1 / 10))) \<lparr>bi_clientId := Some ''c22''\<rparr>"

definition sample_broker :: broker_session where
  "sample_broker = \<lparr>br_specifications = [sample_spec], br_positions = [], br_orders = [], br_deals = [sample_deal],
     br_equity = PNum 1000, br_price = \<lambda>_. sample_price, br_subscribe = \<lambda>_. Inr (), br_price_after = \<lambda>_. sample_price,
     br_has_method = \<lambda>_. True, br_answer = \<lambda>_. Inr (Some \<lparr>resp_orderId = Some ''o1'', resp_order = None, resp_dealId = None,
       resp_deal = None, resp_positionId = Some ''p1'', resp_position = None\<rparr>)\<rparr>"

definition sample_xenv :: exec_env where
  "sample_xenv = \<lparr>xe_global_paused = False, xe_metaapi_enabled = True, xe_billing_enforced = True,
     xe_uncertain_max_age_seconds = 60, xe_reconnect_backoff_seconds = 30,
     xe_subscription = \<lambda>_. Some (sample_subscription \<lparr>sub_current_period_end := Some 900000000\<rparr>),
     xe_rnd = \<lambda>n. of_nat (n + 100), xe_fingerprint = \<lambda>_. ''v1'', xe_parse_iso = \<lambda>_. None, xe_bases = \<lambda>_. [],
     xe_acquire = \<lambda>a. if a = ''acc'' then Inr sample_broker else Inl (Exn ''TimeoutError'' a)\<rparr>"

definition sample_connection :: "uuid \<Rightarrow> string option \<Rightarrow> copy_trading_connection" where
  "sample_connection k account = \<lparr>cn_id = k, cn_user_id = 5, cn_display_name = ''main'', cn_broker_login = ''1001'', cn_broker_server = ''Demo'',
     cn_platform = ''mt5'', cn_encrypted_trader_password = None, cn_provisioning_transaction_id = ''t1'', cn_metaapi_account_id = account, cn_state = Conn_ready,
     cn_last_error_code = None, cn_last_error_message = None, cn_symbol_catalog_fingerprint = None,
     cn_symbol_catalog_refreshed_at = None, cn_last_health_at = None, cn_is_paused = False\<rparr>"

definition sample_open_intent :: "uuid \<Rightarrow> string \<Rightarrow> trade_intent_state \<Rightarrow> trade_intent" where
  "sample_open_intent k client st = \<lparr>ti_id = k, ti_user_id = 5, ti_route_id = 1, ti_connection_id = Some 4, ti_parsed_action_id = 31,
     ti_idempotency_key = ''k'' @ client, ti_client_order_id = Some client, ti_state = st,
     ti_request_payload = [(''action'', PStr ''open_market''), (''symbol'', PStr ''XAUUSD''), (''direction'', PStr ''buy''),
       (''volume'', PNum (1 / 10))],
     ti_broker_result = [], ti_attempt_count = 0, ti_last_error_code = None, ti_submitted_at = None, ti_resolved_at = None,
     ti_created_at = 90000000\<rparr>"

definition sample_action :: parsed_action where
  "sample_action = \<lparr>pa_id = 31, pa_thread_id = 6, pa_route_id = 1, pa_telegram_message_id = 7, pa_action_type = ''open_market'',
     pa_revision = 1, pa_confidence = 1, pa_payload = [], pa_accepted = True, pa_reason = None, pa_advisory = None,
     pa_assembly_id = 0\<rparr>"

definition sample_world :: world where
  "sample_world = \<lparr>xw_db = sample_db \<lparr>db_connections := [sample_connection 4 (Some ''acc'')],
       db_intents := [sample_open_intent 21 ''c21'' Intent_created, sample_open_intent 22 ''c22'' Intent_uncertain],
       db_actions := [sample_action]\<rparr>,
     xw_calls = [], xw_events = [], xw_draws = 0\<rparr>"

definition sample_execute :: copy_event where
  "sample_execute = execute_event 60 99000000 ''c'' (sample_open_intent 21 ''c21'' Intent_created)"

definition sample_rows :: exec_rows where
  "sample_rows = \<lparr>xr_intent = sample_open_intent 21 ''c21'' Intent_created, xr_route = Some sample_route,
     xr_connection = Some (sample_connection 4 (Some ''acc'')), xr_action = Some sample_action\<rparr>"

definition sample_after :: world where
  "sample_after = snd (execution_locked sample_xenv sample_execute 100000000 sample_rows sample_world)"

section \<open>The run\<close>

lemma sample_read:
  "execution_read sample_xenv sample_execute 100000000 (xw_db sample_world) = Inr (Inr sample_rows)"
proof -
  have "str_item (ev_payload sample_execute) ''intent_id'' = Inr (str_uuid 21)"
    by (simp add: sample_execute_def execute_event_def new_event_def str_item_action dict_get_def sample_open_intent_def)
  moreover have "get_intent (xw_db sample_world) 21 = Some (sample_open_intent 21 ''c21'' Intent_created)" by code_simp
  moreover have "has_copy_access (current_entitlement (xe_subscription sample_xenv 5) 100000000) 100000000" by code_simp
  moreover have "get_route (xw_db sample_world) 1 = Some sample_route" "get_action (xw_db sample_world) 31 = Some sample_action"
    "get_connection (xw_db sample_world) (Some 4) = Some (sample_connection 4 (Some ''acc''))" by code_simp+
  ultimately show ?thesis
    by (simp add: execution_read_def sample_rows_def) (simp add: sample_open_intent_def)
qed

lemma sample_locked_ok:
  "fst (execution_locked sample_xenv sample_execute 100000000 sample_rows sample_world) = Inr delivery_success"
  by code_simp

lemma sample_executes:
  "execution_handler sample_xenv (\<lambda>_. True) 100000000 sample_execute sample_world = (Inr delivery_success, sample_after)"
proof -
  have "ev_event_type sample_execute = ''intent.execute''" by (simp add: sample_execute_def execute_event_def new_event_def)
  then show ?thesis
    using sample_read sample_locked_ok
    by (simp add: execution_handler_def execute_intent_def sample_after_def prod_eq_iff)
qed

lemma sample_calls:
  "xw_calls sample_world = []" "map fst (xw_calls sample_after) = [Some 21]"
  "map (order_of \<circ> snd) (xw_calls sample_after) = [Some (''XAUUSD'', 1 / 10)]"
  by code_simp+

lemma sample_calls_for: "calls_for 21 sample_world = 0" "calls_for 21 sample_after = 1"
  by code_simp+

lemma sample_intents:
  "get_intent (xw_db sample_world) 21 = Some (sample_open_intent 21 ''c21'' Intent_created)"
  "map_option ti_state (get_intent (xw_db sample_after) 21) = Some Intent_confirmed"
  by code_simp+

lemma sample_step: "exec_step sample_world sample_after"
  by (rule exec_step.handle [OF sample_executes])

section \<open>Executing\<close>

theorem intent_life_refinement_witness:
  "intent_life sample_world 21 = Some (Intent_created, 0)
   \<and> (\<exists>t. life_step\<^sup>*\<^sup>* (Intent_created, 0) t \<and> intent_life sample_after 21 = Some t)
   \<and> intent_life sample_after 21 = Some (Intent_confirmed, 1)"
proof -
  have "intent_life sample_world 21 = Some (Intent_created, 0)"
    using sample_intents(1) sample_calls_for(1) by (simp add: intent_life_def) (simp add: sample_open_intent_def)
  moreover have "intent_life sample_after 21 = Some (Intent_confirmed, 1)"
    using sample_intents(2) sample_calls_for(2) by (auto simp: intent_life_def)
  moreover have "exec_step\<^sup>*\<^sup>* sample_world sample_after" using sample_step by (rule r_into_rtranclp)
  ultimately show ?thesis using intent_life_refinement [of sample_world sample_after 21 "(Intent_created, 0)"] by simp
qed

theorem broker_call_at_most_once_witness:
  "exec_step\<^sup>*\<^sup>* sample_world sample_after \<and> calls_for 21 sample_after = 1 \<and> (\<forall>k. calls_for k sample_after \<le> 1)"
proof -
  have run: "exec_step\<^sup>*\<^sup>* sample_world sample_after" using sample_step by (rule r_into_rtranclp)
  with broker_call_at_most_once [OF sample_calls(1) run] sample_calls_for(2) show ?thesis by blast
qed

text \<open>The same event delivered again to the world after the run.\<close>

theorem final_intents_never_change_witness:
  "\<exists>i. get_intent (xw_db sample_after) 21 = Some i \<and> ti_state i = Intent_confirmed
     \<and> get_intent (xw_db (snd (execution_handler sample_xenv (\<lambda>_. True) 101000000 sample_execute sample_after))) 21 = Some i"
proof -
  obtain i where i: "get_intent (xw_db sample_after) 21 = Some i" "ti_state i = Intent_confirmed"
    using sample_intents(2) by auto
  obtain r w' where run: "execution_handler sample_xenv (\<lambda>_. True) 101000000 sample_execute sample_after = (r, w')" by force
  then have "exec_step\<^sup>*\<^sup>* sample_after w'" by (intro r_into_rtranclp exec_step.handle)
  from final_intents_never_change [OF this i(1)] i run show ?thesis by (simp add: final_state_def)
qed


theorem order_volume_in_limits_witness:
  "\<exists>sy. broker_symbols sample_broker = [sy] \<and> sym_name sy = ''XAUUSD''
     \<and> sym_min_volume sy \<le> 1 / 10 \<and> 1 / 10 \<le> sym_max_volume sy"
proof -
  have "order_of (snd (last (xw_calls sample_after))) = Some (''XAUUSD'', 1 / 10)"
    using sample_calls(3) by (cases "xw_calls sample_after") auto
  from order_volume_in_limits [OF sample_executes _ this, of 21] sample_calls_for
  obtain i conn br sy where f: "get_intent (xw_db sample_world) 21 = Some i"
    "get_connection (xw_db sample_world) (ti_connection_id i) = Some conn"
    "xe_acquire sample_xenv (the (cn_metaapi_account_id conn)) = Inr br" "sy \<in> set (broker_symbols br)" "sym_name sy = ''XAUUSD''"
    "sym_min_volume sy \<le> sym_max_volume sy \<longrightarrow> sym_min_volume sy \<le> 1 / 10 \<and> 1 / 10 \<le> sym_max_volume sy" by auto
  have "conn = sample_connection 4 (Some ''acc'')"
  proof -
    have "get_connection (xw_db sample_world) (Some 4) = Some (sample_connection 4 (Some ''acc''))" by code_simp
    moreover have "ti_connection_id i = Some 4" using f(1) sample_intents(1) by (auto simp: sample_open_intent_def)
    ultimately show ?thesis using f(2) by simp
  qed
  then have "br = sample_broker" using f(3) by (simp add: sample_connection_def sample_xenv_def)
  moreover have "broker_symbols sample_broker = [broker_symbol_from_metaapi sample_spec]" by (simp add: broker_symbols_def sample_broker_def)
  moreover have "sym_min_volume (broker_symbol_from_metaapi sample_spec) \<le> sym_max_volume (broker_symbol_from_metaapi sample_spec)"
    by code_simp
  ultimately show ?thesis using f(4-6) by simp
qed

section \<open>Accounts, emergencies and reconciliation\<close>

theorem route_recovery_roundtrip_witness:
  "restore_routes_after_target_recovery 4 (mark_routes_target_unavailable 4 sample_db) = sample_db
   \<and> map rt_state (db_routes (mark_routes_target_unavailable 4 sample_db)) = [Route_target_unavailable]"
proof -
  have "map rt_state (db_routes (mark_routes_target_unavailable 4 sample_db)) = [Route_target_unavailable]" by code_simp
  moreover have "\<forall>r \<in> set (db_routes sample_db). rt_target_connection_id r = Some 4 \<longrightarrow>
      rt_state r \<noteq> Route_target_unavailable \<and> (rt_state r = Route_active \<longrightarrow> rt_paused_from_state r = None)"
    by (simp add: sample_db_def sample_route_def)
  ultimately show ?thesis using route_recovery_roundtrip [of sample_db 4] by simp
qed


definition sample_trade_on :: "uuid \<Rightarrow> uuid \<Rightarrow> copied_trade" where
  "sample_trade_on k route = (sample_trade ''open'') \<lparr>ct_id := k, ct_route_id := route, ct_intent_id := 21\<rparr>"

definition sample_trading :: world where
  "sample_trading = with_db ((xw_db sample_world) \<lparr>db_routes := [sample_route, sample_route \<lparr>rt_id := 2, rt_target_connection_id := Some 8\<rparr>],
     db_connections := [sample_connection 4 (Some ''acc''), sample_connection 8 None],
     db_trades := [sample_trade_on 41 1, sample_trade_on 42 2]\<rparr>) sample_world"





theorem reconcile_intent_decides_witness:
  "\<exists>w' j. reconcile_intent sample_xenv (execute_event 62 0 ''c'' (sample_open_intent 22 ''c22'' Intent_uncertain)) 100000000 sample_world
       = (Inr delivery_success, w')
     \<and> get_intent (xw_db w') 22 = Some j \<and> ti_state j = Intent_confirmed \<and> db_trades (xw_db w') = []"
proof -
  let ?i = "sample_open_intent 22 ''c22'' Intent_uncertain"
  let ?ev = "execute_event 62 0 ''c'' ?i"
  have i: "get_intent (xw_db sample_world) 22 = Some ?i" "get_connection (xw_db sample_world) (Some 4) = Some (sample_connection 4 (Some ''acc''))"
    by code_simp+
  have c: "ti_connection_id ?i = Some 4" "ti_state ?i = Intent_uncertain" by (simp_all add: sample_open_intent_def)
  have acc: "has_account (sample_connection 4 (Some ''acc''))" "cn_metaapi_account_id (sample_connection 4 (Some ''acc'')) = Some ''acc''"
    "xe_acquire sample_xenv ''acc'' = Inr sample_broker" by (simp_all add: has_account_def sample_connection_def sample_xenv_def)
  have p: "dict_get (ev_payload ?ev) ''intent_id'' = PStr (str_uuid 22)"
    by (simp add: execute_event_def new_event_def dict_get_def sample_open_intent_def)
  then have "str_item (ev_payload ?ev) ''intent_id'' = Inr (str_uuid 22)" by (simp add: str_item_action)
  then obtain w' where run: "reconcile_intent sample_xenv ?ev 100000000 sample_world = (Inr delivery_success, w')"
    using i c acc by (simp add: reconcile_intent_def Let_def)
  have "evidence sample_broker ?i" by (simp add: evidence_def sample_broker_def sample_deal_def sample_open_intent_def)
  moreover have "db_trades (xw_db sample_world) = []" by (simp add: sample_world_def sample_db_def empty_db_def)
  ultimately show ?thesis
    using reconcile_intent_decides [OF run p i(1)] i(2) c acc run by (auto simp: unresolved_state_def)
qed

theorem sweep_requests_unresolved_witness:
  "\<exists>e. xw_events (publish_unresolved_intents sample_xenv 100000000 sample_world) = [e]
     \<and> ev_event_type e = ''intent.reconcile'' \<and> dict_get (ev_payload e) ''intent_id'' = PStr (str_uuid 22)"
proof -
  have "filter (\<lambda>i. unresolved_state (ti_state i)) (db_intents (xw_db sample_world)) = [sample_open_intent 22 ''c22'' Intent_uncertain]"
    "xw_events sample_world = []" by code_simp+
  moreover have "ti_id (sample_open_intent 22 ''c22'' Intent_uncertain) = 22" by (simp add: sample_open_intent_def)
  ultimately show ?thesis
    using sweep_requests_unresolved [of 100000000 sample_xenv sample_world] by (auto simp: list_all2_Cons2)
qed

text \<open>The same trades with a second account that does not answer, and with the one that does.\<close>

definition sample_dead :: db where
  "sample_dead = (xw_db sample_trading) \<lparr>db_connections := [sample_connection 4 (Some ''acc''), sample_connection 8 (Some ''dead'')]\<rparr>"

theorem reconcile_copied_trades_all_or_nothing_witness:
  "\<not> is_ok (fst (reconcile_copied_trades sample_xenv 100000000 sample_dead))
   \<and> snd (reconcile_copied_trades sample_xenv 100000000 sample_dead) = sample_dead
   \<and> is_ok (fst (reconcile_copied_trades sample_xenv 100000000 (xw_db sample_trading)))"
proof -
  have "\<not> is_ok (fst (reconcile_copied_trades sample_xenv 100000000 sample_dead))" by code_simp
  moreover have "\<forall>(t, c, i, r) \<in> set (reconcile_rows (xw_db sample_trading)).
       has_account c \<longrightarrow> is_ok (xe_acquire sample_xenv (the (cn_metaapi_account_id c)))" by code_simp
  ultimately show ?thesis
    using reconcile_copied_trades_all_or_nothing [of sample_xenv 100000000] by blast
qed

section \<open>Overlapping runs\<close>

definition sample_twice :: world where
  "sample_twice = snd (execution_locked sample_xenv sample_execute 101000000 sample_rows sample_after)"

text \<open>
  The state of an intent is checked before the lock of its account is taken and not again under it. When two
  deliveries of one event both read an open intent and then take the lock one after the other, both
  submit it: two orders go to the broker for one intent.
\<close>

theorem overlapping_runs_submit_twice:
  "execution_read sample_xenv sample_execute 100000000 (xw_db sample_world) = Inr (Inr sample_rows)
   \<and> execution_locked sample_xenv sample_execute 100000000 sample_rows sample_world = (Inr delivery_success, sample_after)
   \<and> execution_locked sample_xenv sample_execute 101000000 sample_rows sample_after = (Inr delivery_success, sample_twice)
   \<and> calls_for 21 sample_twice = 2"
proof (intro conjI)
  show "execution_locked sample_xenv sample_execute 101000000 sample_rows sample_after = (Inr delivery_success, sample_twice)"
    unfolding prod_eq_iff sample_twice_def fst_conv snd_conv by (rule conjI [OF _ refl]) code_simp
  show "calls_for 21 sample_twice = 2" by code_simp
qed (use sample_read sample_locked_ok in \<open>simp_all add: sample_after_def prod_eq_iff\<close>)

end
