(* ===== verification/Affiliates.thy ===== *)
theory Affiliates
  imports Entitlements
begin

text \<open>
  The affiliate programme, \<^verbatim>\<open>affiliates/models.py\<close>, \<^verbatim>\<open>repository.py\<close> and \<^verbatim>\<open>service.py\<close>: profiles with
  their codes, the attribution of new users, and the commissions that paid invoices create, time
  releases and refunds reverse. Money is a rational with two places; amounts are read by the decimal
  syntax of Python and rounded half up. A numeric column refuses what it cannot hold; texts longer
  than their column are left out. The random choices of a code are a parameter.
\<close>

section \<open>Data\<close>

datatype affiliate_status = Aff_active | Aff_suspended

datatype commission_status = Com_pending | Com_available | Com_paid | Com_reversed

record affiliate_setting =
  as_default_commission_rate :: rat
  as_commission_hold_days :: int
  as_recurring_months :: int
  as_minimum_payout :: rat
  as_updated_by_user_id :: "uuid option"

record affiliate_profile =
  ap_user_id :: uuid
  ap_code :: string
  ap_status :: affiliate_status
  ap_commission_rate_override :: "rat option"

record referral_attribution =
  ra_affiliate_user_id :: uuid
  ra_referred_user_id :: uuid
  ra_referral_code :: string
  ra_source :: "string option"
  ra_campaign :: "string option"

record affiliate_commission =
  co_affiliate_user_id :: uuid
  co_referred_user_id :: uuid
  co_provider_invoice_id :: string
  co_provider_payment_id :: "string option"
  co_provider_subscription_id :: string
  co_currency :: string
  co_commission_base :: rat
  co_commission_rate :: rat
  co_commission_amount :: rat
  co_reversed_amount :: rat
  co_status :: commission_status
  co_release_at :: int
  co_reversed_at :: "int option"
  co_reversal_reason :: "string option"
  co_created_at :: int

record admin_audit_event =
  au_actor_user_id :: uuid
  au_target_user_id :: "uuid option"
  au_action :: string
  au_reason :: "string option"

record affiliate_db =
  ad_settings :: "affiliate_setting option"
  ad_profiles :: "affiliate_profile list"
  ad_attributions :: "referral_attribution list"
  ad_commissions :: "affiliate_commission list"
  ad_audit :: "admin_audit_event list"

section \<open>Money\<close>

text \<open>\<^verbatim>\<open>Decimal(text)\<close>: blanks around and underscores are skipped, signs, fractions and exponents are read.\<close>

definition read_sign :: "string \<Rightarrow> int \<times> string" where
  "read_sign s = (case s of [] \<Rightarrow> (1, s)
     | c # r \<Rightarrow> if c = CHR ''-'' then (-1, r) else if c = CHR ''+'' then (1, r) else (1, s))"

definition read_exponent :: "string \<Rightarrow> int option" where
  "read_exponent s = (case s of [] \<Rightarrow> Some 0
     | c # r \<Rightarrow> (let (sign, t) = read_sign r in
         if (c = CHR ''e'' \<or> c = CHR ''E'') \<and> t \<noteq> [] \<and> list_all is_digit t then Some (sign * int (read_nat t)) else None))"

definition parse_decimal :: "string \<Rightarrow> decimal option" where
  "parse_decimal text = (
     let (sign, r) = read_sign (filter (\<lambda>c. c \<noteq> CHR ''_'') (py_strip text)); w = py_lower r in
     if w = ''inf'' \<or> w = ''infinity'' then Some (DInfinity (sign < 0))
     else if startswith w ''nan'' \<and> list_all is_digit (drop 3 w) then Some DNaN
     else
       let ip = takeWhile is_digit r; r1 = dropWhile is_digit r;
           point = (r1 \<noteq> [] \<and> hd r1 = CHR ''.'');
           fp = (if point then takeWhile is_digit (tl r1) else []);
           r2 = (if point then dropWhile is_digit (tl r1) else r1) in
       if ip = [] \<and> fp = [] then None
       else map_option (\<lambda>x. Dec (sign * int (read_nat (ip @ fp))) (x - int (length fp))) (read_exponent r2))"

definition round_half_up :: "rat \<Rightarrow> int" where
  "round_half_up x = (if x \<ge> 0 then \<lfloor>x + 1 / 2\<rfloor> else - \<lfloor>1 / 2 - x\<rfloor>)"

definition invalid_operation :: "rat result" where
  "invalid_operation = Inl (Exn ''InvalidOperation'' ''quantize result has too many digits'')"

definition quantize_money :: "rat \<Rightarrow> rat result" where
  "quantize_money x = (let n = round_half_up (x * 100) in
     if \<bar>n\<bar> \<ge> 10 ^ 28 then invalid_operation else Inr (of_int n / 100))"

text \<open>
  \<^verbatim>\<open>_money\<close>. A NaN passes \<^verbatim>\<open>quantize\<close> and raises at the comparison both callers make next, which is
  where it ends here.
\<close>

definition bad_money :: "rat result" where
  "bad_money = value_error ''Invalid monetary amount in billing event''"

definition money :: "pyval \<Rightarrow> rat result" where
  "money v = (
     let quantize = (\<lambda>x. case quantize_money x of Inl _ \<Rightarrow> bad_money | Inr m \<Rightarrow> Inr m) in
     case or_value v (PStr ''0'') of
       PInt i \<Rightarrow> quantize (of_int i)
     | PNum x \<Rightarrow> quantize x
     | PStr s \<Rightarrow> (case parse_decimal s of None \<Rightarrow> bad_money | Some (DInfinity _) \<Rightarrow> bad_money
         | Some DNaN \<Rightarrow> Inl (Exn ''InvalidOperation'' ''comparison involving NaN'') | Some (Dec c e) \<Rightarrow> quantize (dval (Dec c e)))
     | _ \<Rightarrow> bad_money)"

text \<open>A \<^verbatim>\<open>Numeric(14, 2)\<close> column.\<close>

definition fits_money :: "rat \<Rightarrow> bool" where
  "fits_money x \<longleftrightarrow> \<bar>x\<bar> < 10 ^ 12"

section \<open>Settings and profiles\<close>

definition default_setting :: affiliate_setting where
  "default_setting = \<lparr>as_default_commission_rate = 20, as_commission_hold_days = 30, as_recurring_months = 12,
     as_minimum_payout = 25, as_updated_by_user_id = None\<rparr>"

definition get_or_create_settings :: "affiliate_db \<Rightarrow> affiliate_setting \<times> affiliate_db" where
  "get_or_create_settings d = (case ad_settings d of Some c \<Rightarrow> (c, d)
     | None \<Rightarrow> (default_setting, d \<lparr>ad_settings := Some default_setting\<rparr>))"

definition code_alphabet :: string where
  "code_alphabet = ''23456789ABCDEFGHJKLMNPQRSTUVWXYZ''"

definition new_code :: "(nat \<Rightarrow> nat \<Rightarrow> nat) \<Rightarrow> nat \<Rightarrow> string" where
  "new_code choice k = map (\<lambda>i. code_alphabet ! (choice k i mod 32)) [0..<10]"

definition get_profile :: "affiliate_db \<Rightarrow> uuid \<Rightarrow> affiliate_profile option" where
  "get_profile d u = row_get ap_user_id u (ad_profiles d)"

definition put_profile :: "affiliate_profile \<Rightarrow> affiliate_db \<Rightarrow> affiliate_db" where
  "put_profile p = ad_profiles_update (row_put ap_user_id p)"

definition get_profile_by_code :: "affiliate_db \<Rightarrow> string \<Rightarrow> affiliate_profile option" where
  "get_profile_by_code d code = row_get ap_code (py_upper code) (ad_profiles d)"

definition code_exists :: "affiliate_db \<Rightarrow> string \<Rightarrow> bool" where
  "code_exists d code \<longleftrightarrow> list_ex (\<lambda>p. ap_code p = code) (ad_profiles d)"

definition ensure_profile ::
  "(nat \<Rightarrow> nat \<Rightarrow> nat) \<Rightarrow> uuid \<Rightarrow> affiliate_db \<Rightarrow> (affiliate_profile \<times> affiliate_db) result" where
  "ensure_profile choice u d = (case get_profile d u of Some p \<Rightarrow> Inr (p, d)
     | None \<Rightarrow> (case find (\<lambda>k. \<not> code_exists d (new_code choice k)) [0..<8] of
         None \<Rightarrow> Inl (Exn ''RuntimeError'' ''Could not generate a unique affiliate code'')
       | Some k \<Rightarrow>
         let p = \<lparr>ap_user_id = u, ap_code = new_code choice k, ap_status = Aff_active, ap_commission_rate_override = None\<rparr> in
         Inr (p, d \<lparr>ad_profiles := ad_profiles d @ [p]\<rparr>)))"

definition effective_rate :: "affiliate_profile \<Rightarrow> affiliate_setting \<Rightarrow> rat" where
  "effective_rate p c = (case ap_commission_rate_override p of Some r \<Rightarrow> r | None \<Rightarrow> as_default_commission_rate c)"

definition validate_code :: "affiliate_db \<Rightarrow> string option \<Rightarrow> bool" where
  "validate_code d code = (case code of None \<Rightarrow> False | Some s \<Rightarrow> s \<noteq> [] \<and>
     (case get_profile_by_code d (py_upper (py_strip s)) of None \<Rightarrow> False | Some p \<Rightarrow> ap_status p = Aff_active))"

definition get_attribution_for_user :: "affiliate_db \<Rightarrow> uuid \<Rightarrow> referral_attribution option" where
  "get_attribution_for_user d u = row_get ra_referred_user_id u (ad_attributions d)"

definition attribute_new_user ::
  "(nat \<Rightarrow> nat \<Rightarrow> nat) \<Rightarrow> uuid \<Rightarrow> string option \<Rightarrow> string option \<Rightarrow> string option \<Rightarrow> affiliate_db
     \<Rightarrow> (referral_attribution option \<times> affiliate_db) result" where
  "attribute_new_user choice u code source campaign d = (case ensure_profile choice u d of Inl e \<Rightarrow> Inl e
   | Inr (_, d) \<Rightarrow>
     if code \<in> {None, Some []} \<or> get_attribution_for_user d u \<noteq> None then Inr (None, d)
     else case get_profile_by_code d (py_upper (py_strip (the code))) of None \<Rightarrow> Inr (None, d)
     | Some p \<Rightarrow>
       if ap_status p \<noteq> Aff_active \<or> ap_user_id p = u then Inr (None, d)
       else let a = \<lparr>ra_affiliate_user_id = ap_user_id p, ra_referred_user_id = u, ra_referral_code = ap_code p,
              ra_source = source, ra_campaign = campaign\<rparr> in
         Inr (Some a, d \<lparr>ad_attributions := ad_attributions d @ [a]\<rparr>))"

section \<open>Commissions\<close>

definition optional_text :: "(pyval \<Rightarrow> string) \<Rightarrow> pyval \<Rightarrow> string option" where
  "optional_text other v = (if truthy v then Some (text_of other v) else None)"

definition nested :: "dict \<Rightarrow> string \<Rightarrow> dict" where
  "nested data k = (case dict_get data k of PDict d \<Rightarrow> d | _ \<Rightarrow> [])"

definition subscription_id_of :: "(pyval \<Rightarrow> string) \<Rightarrow> dict \<Rightarrow> string option" where
  "subscription_id_of other data = (let n = nested data ''subscription'' in
     optional_text other (or_value (or_value (dict_get data ''subscription_id'') (dict_get n ''subscription_id'')) (dict_get n ''id'')))"

definition payment_id_of :: "(pyval \<Rightarrow> string) \<Rightarrow> dict \<Rightarrow> string option" where
  "payment_id_of other data = (let n = nested data ''payment'' in
     optional_text other (or_value (or_value (or_value (dict_get data ''payment_id'') (dict_get data ''charge_id''))
       (dict_get n ''payment_id'')) (dict_get n ''id'')))"

definition get_commission_by_invoice :: "affiliate_db \<Rightarrow> string \<Rightarrow> affiliate_commission option" where
  "get_commission_by_invoice d k = row_get co_provider_invoice_id k (ad_commissions d)"

definition put_commission :: "affiliate_commission \<Rightarrow> affiliate_db \<Rightarrow> affiliate_db" where
  "put_commission c = ad_commissions_update (row_put co_provider_invoice_id c)"

definition qualifying :: "affiliate_db \<Rightarrow> uuid \<Rightarrow> affiliate_commission list" where
  "qualifying d u = filter (\<lambda>c. co_referred_user_id c = u \<and> co_status c \<noteq> Com_reversed) (ad_commissions d)"

definition paid_amount :: "dict \<Rightarrow> pyval" where
  "paid_amount data = or_value (or_value (or_value (dict_get data ''amount_collected'') (dict_get data ''amount_paid''))
     (dict_get data ''total_paid'')) (dict_get data ''amount'')"

definition commission_amount :: "rat \<Rightarrow> rat \<Rightarrow> rat result" where
  "commission_amount base rate = quantize_money (dec_div (dec_round (base * rate)) 100)"

definition new_commission ::
  "(pyval \<Rightarrow> string) \<Rightarrow> int \<Rightarrow> dict \<Rightarrow> string \<Rightarrow> billing_subscription \<Rightarrow> referral_attribution \<Rightarrow> string \<Rightarrow> affiliate_setting
     \<Rightarrow> rat \<Rightarrow> rat \<Rightarrow> rat \<Rightarrow> affiliate_commission" where
  "new_commission other now data invoice sub a sid config base rate amount = \<lparr>
     co_affiliate_user_id = ra_affiliate_user_id a, co_referred_user_id = sub_user_id sub, co_provider_invoice_id = invoice,
     co_provider_payment_id = payment_id_of other data, co_provider_subscription_id = sid,
     co_currency = py_upper (text_of other (or_value (dict_get data ''currency'') (PStr (if sub_currency sub = [] then ''USD'' else sub_currency sub)))),
     co_commission_base = base, co_commission_rate = rate, co_commission_amount = amount, co_reversed_amount = 0,
     co_status = Com_pending, co_release_at = now + 86400000000 * as_commission_hold_days config, co_reversed_at = None,
     co_reversal_reason = None, co_created_at = now\<rparr>"

text \<open>The subscription an identifier belongs to is looked up by \<open>sub_of\<close>.\<close>

definition create_commission_from_paid_invoice ::
  "(pyval \<Rightarrow> string) \<Rightarrow> (string \<Rightarrow> billing_subscription option) \<Rightarrow> int \<Rightarrow> dict \<Rightarrow> affiliate_db
     \<Rightarrow> (affiliate_commission option \<times> affiliate_db) result" where
  "create_commission_from_paid_invoice other sub_of now data d = (
     case (optional_text other (or_value (dict_get data ''invoice_id'') (dict_get data ''id'')), subscription_id_of other data) of
       (Some invoice, Some sid) \<Rightarrow>
         if get_commission_by_invoice d invoice \<noteq> None then Inr (None, d)
         else (case sub_of sid of None \<Rightarrow> Inr (None, d) | Some sub \<Rightarrow>
         case get_attribution_for_user d (sub_user_id sub) of None \<Rightarrow> Inr (None, d) | Some a \<Rightarrow>
         case get_profile d (ra_affiliate_user_id a) of None \<Rightarrow> Inr (None, d) | Some p \<Rightarrow>
         if ap_status p \<noteq> Aff_active then Inr (None, d)
         else let (config, d) = get_or_create_settings d in
           if int (length (qualifying d (sub_user_id sub))) \<ge> as_recurring_months config then Inr (None, d)
           else case money (paid_amount data) of Inl e \<Rightarrow> Inl e | Inr base \<Rightarrow>
           if base \<le> 0 then Inr (None, d)
           else let rate = effective_rate p config in
             case commission_amount base rate of Inl e \<Rightarrow> Inl e | Inr amount \<Rightarrow>
             if \<not> (fits_money base \<and> fits_money amount) then Inl (Exn ''DataError'' ''numeric field overflow'')
             else let c = new_commission other now data invoice sub a sid config base rate amount in
               Inr (Some c, d \<lparr>ad_commissions := ad_commissions d @ [c]\<rparr>))
     | _ \<Rightarrow> Inr (None, d))"

definition get_commission_for_reversal :: "affiliate_db \<Rightarrow> string option \<Rightarrow> string option \<Rightarrow> affiliate_commission option" where
  "get_commission_for_reversal d payment invoice = (
     case (case invoice of None \<Rightarrow> None | Some k \<Rightarrow> get_commission_by_invoice d k) of
       Some c \<Rightarrow> Some c
     | None \<Rightarrow> (case payment of None \<Rightarrow> None
         | Some k \<Rightarrow> (case sorted_by_desc co_created_at (filter (\<lambda>c. co_provider_payment_id c = Some k) (ad_commissions d)) of
             [] \<Rightarrow> None | c # _ \<Rightarrow> Some c)))"

definition reversed_part :: "affiliate_commission \<Rightarrow> rat \<Rightarrow> rat result" where
  "reversed_part c refund = (
     let ratio = (if co_commission_base c \<noteq> 0 then min 1 (dec_div refund (co_commission_base c)) else 1) in
     quantize_money (dec_round (co_commission_amount c * ratio)))"

definition reverse_to :: "int \<Rightarrow> string \<Rightarrow> rat \<Rightarrow> affiliate_commission \<Rightarrow> affiliate_commission" where
  "reverse_to now reason part c = (let total = max (co_reversed_amount c) part in
     c \<lparr>co_reversed_amount := total, co_status := (if total \<ge> co_commission_amount c then Com_reversed else co_status c),
        co_reversed_at := Some now, co_reversal_reason := Some reason\<rparr>)"

definition reverse_commission ::
  "(pyval \<Rightarrow> string) \<Rightarrow> int \<Rightarrow> dict \<Rightarrow> string \<Rightarrow> affiliate_db \<Rightarrow> (affiliate_commission option \<times> affiliate_db) result" where
  "reverse_commission other now data reason d = (
     case get_commission_for_reversal d (payment_id_of other data) (optional_text other (dict_get data ''invoice_id'')) of
       None \<Rightarrow> Inr (None, d)
     | Some c \<Rightarrow>
       if co_status c = Com_reversed \<or> co_status c = Com_paid then Inr (None, d)
       else case money (or_value (or_value (dict_get data ''amount'') (dict_get data ''refund_amount'')) (PNum (co_commission_base c))) of
         Inl e \<Rightarrow> Inl e
       | Inr refund \<Rightarrow> (case reversed_part c refund of Inl e \<Rightarrow> Inl e
         | Inr part \<Rightarrow> let c' = reverse_to now reason part c in
             Inr (Some c', put_commission c' d)))"

definition release_due_commissions :: "uuid \<Rightarrow> int \<Rightarrow> affiliate_db \<Rightarrow> affiliate_db" where
  "release_due_commissions u now d = d \<lparr>ad_commissions := map (\<lambda>c.
     if co_affiliate_user_id c = u \<and> co_status c = Com_pending \<and> co_release_at c \<le> now then c \<lparr>co_status := Com_available\<rparr> else c)
     (ad_commissions d)\<rparr>"

section \<open>Dashboard and administration\<close>

record affiliate_dashboard =
  da_code :: string
  da_status :: affiliate_status
  da_effective_commission_rate :: rat
  da_rate_source :: string
  da_referrals :: nat
  da_paid_referrals :: nat
  da_pending_balance :: rat
  da_available_balance :: rat
  da_paid_balance :: rat
  da_minimum_payout :: rat
  da_commissions :: "affiliate_commission list"

definition list_commissions :: "affiliate_db \<Rightarrow> uuid \<Rightarrow> affiliate_commission list" where
  "list_commissions d u = take 100 (sorted_by_desc co_created_at (filter (\<lambda>c. co_affiliate_user_id c = u) (ad_commissions d)))"

definition balance :: "commission_status \<Rightarrow> affiliate_commission list \<Rightarrow> rat" where
  "balance st items = sum_list (map (\<lambda>c. co_commission_amount c - co_reversed_amount c) (filter (\<lambda>c. co_status c = st) items))"

definition dashboard_counts :: "affiliate_db \<Rightarrow> uuid \<Rightarrow> nat \<times> nat" where
  "dashboard_counts d u = (length (filter (\<lambda>a. ra_affiliate_user_id a = u) (ad_attributions d)),
     length (remdups (map co_referred_user_id (filter (\<lambda>c. co_affiliate_user_id c = u \<and> co_status c \<noteq> Com_reversed) (ad_commissions d)))))"

definition dashboard ::
  "(nat \<Rightarrow> nat \<Rightarrow> nat) \<Rightarrow> uuid \<Rightarrow> int \<Rightarrow> affiliate_db \<Rightarrow> (affiliate_dashboard \<times> affiliate_db) result" where
  "dashboard choice u now d = (case ensure_profile choice u d of Inl e \<Rightarrow> Inl e
   | Inr (p, d) \<Rightarrow>
     let (config, d) = get_or_create_settings d;
         d = release_due_commissions u now d;
         items = list_commissions d u;
         (referrals, paid) = dashboard_counts d u in
     Inr (\<lparr>da_code = ap_code p, da_status = ap_status p, da_effective_commission_rate = effective_rate p config,
           da_rate_source = (if ap_commission_rate_override p \<noteq> None then ''individual'' else ''global''),
           da_referrals = referrals, da_paid_referrals = paid, da_pending_balance = balance Com_pending items,
           da_available_balance = balance Com_available items, da_paid_balance = balance Com_paid items,
           da_minimum_payout = as_minimum_payout config, da_commissions = items\<rparr>, d))"

record affiliate_settings_request =
  sr_default_commission_rate :: rat
  sr_commission_hold_days :: int
  sr_recurring_months :: int
  sr_minimum_payout :: rat
  sr_clear_individual_overrides :: bool
  sr_reason :: string

definition two_places :: "rat \<Rightarrow> bool" where
  "two_places x \<longleftrightarrow> of_int \<lfloor>x * 100\<rfloor> = x * 100"

text \<open>What the request schemas accept.\<close>

definition valid_rate :: "rat \<Rightarrow> bool" where
  "valid_rate r \<longleftrightarrow> 0 \<le> r \<and> r \<le> 50 \<and> two_places r"

definition valid_settings_request :: "affiliate_settings_request \<Rightarrow> bool" where
  "valid_settings_request q \<longleftrightarrow> valid_rate (sr_default_commission_rate q)
     \<and> 0 \<le> sr_commission_hold_days q \<and> sr_commission_hold_days q \<le> 180
     \<and> 1 \<le> sr_recurring_months q \<and> sr_recurring_months q \<le> 60
     \<and> 0 \<le> sr_minimum_payout q \<and> sr_minimum_payout q \<le> 10000 \<and> two_places (sr_minimum_payout q)
     \<and> 3 \<le> length (sr_reason q) \<and> length (sr_reason q) \<le> 500"

definition audit :: "uuid \<Rightarrow> uuid option \<Rightarrow> string \<Rightarrow> string option \<Rightarrow> affiliate_db \<Rightarrow> affiliate_db" where
  "audit actor target action reason d = d \<lparr>ad_audit := ad_audit d @
     [\<lparr>au_actor_user_id = actor, au_target_user_id = target, au_action = action, au_reason = reason\<rparr>]\<rparr>"

definition update_affiliate_settings :: "uuid \<Rightarrow> affiliate_settings_request \<Rightarrow> affiliate_db \<Rightarrow> affiliate_db" where
  "update_affiliate_settings actor q d = (
     let (config, d) = get_or_create_settings d;
         d = d \<lparr>ad_settings := Some \<lparr>as_default_commission_rate = sr_default_commission_rate q,
               as_commission_hold_days = sr_commission_hold_days q, as_recurring_months = sr_recurring_months q,
               as_minimum_payout = sr_minimum_payout q, as_updated_by_user_id = Some actor\<rparr>\<rparr>;
         d = (if sr_clear_individual_overrides q
              then d \<lparr>ad_profiles := map (\<lambda>p. p \<lparr>ap_commission_rate_override := None\<rparr>) (ad_profiles d)\<rparr> else d) in
     audit actor None ''affiliate.settings.updated'' (Some (sr_reason q)) d)"

definition update_user_rate ::
  "(nat \<Rightarrow> nat \<Rightarrow> nat) \<Rightarrow> (uuid \<Rightarrow> bool) \<Rightarrow> uuid \<Rightarrow> uuid \<Rightarrow> rat option \<Rightarrow> string \<Rightarrow> affiliate_db \<Rightarrow> affiliate_db result" where
  "update_user_rate choice user_exists actor u rate reason d = (
     if \<not> user_exists u then Inl (Exn ''HTTPException'' ''Affiliate user was not found.'')
     else case ensure_profile choice u d of Inl e \<Rightarrow> Inl e
     | Inr (p, d) \<Rightarrow> Inr (audit actor (Some u) ''affiliate.rate.updated'' (Some reason)
         (put_profile (p \<lparr>ap_commission_rate_override := rate\<rparr>) d)))"

end
