(* ===== verification/Billing.thy ===== *)
theory Billing
  imports Affiliates "HOL-Library.AList"
begin

text \<open>
  Billing, \<^verbatim>\<open>billing/catalog.py\<close>, \<^verbatim>\<open>webhooks.py\<close>, \<^verbatim>\<open>checkout_guard.py\<close>, \<^verbatim>\<open>repository.py\<close>, \<^verbatim>\<open>service.py\<close> and the
  webhook endpoint of \<^verbatim>\<open>router.py\<close>: the product catalogue, the webhooks of the provider, checkouts, plan
  changes and cancellations. The provider's answers, the keyed hash, the parsers of JSON and of ISO times
  and whether Redis answers are parameters. An exception of the web framework carries its status in its
  class; one that escapes an operation takes the database back.
\<close>

section \<open>Catalogue\<close>

record product_catalog =
  pc_journal_product_id :: string
  pc_copy_product_ids :: "(int \<times> string) list"

definition max_copy_accounts :: nat where
  "max_copy_accounts = 10"

text \<open>The second setting after \<^verbatim>\<open>json.loads\<close> and \<^verbatim>\<open>int\<close> of its keys; \<open>None\<close> when one of them raises.\<close>

definition catalog_from_settings :: "string \<Rightarrow> (int \<times> string) list option \<Rightarrow> product_catalog result" where
  "catalog_from_settings journal raw = (case raw of
       None \<Rightarrow> value_error ''BACHS_COPY_PRODUCT_IDS must be a JSON object''
     | Some items \<Rightarrow>
       let copies = fold (\<lambda>(k, v). AList.update k (py_strip v)) items []; j = py_strip journal in
       if j = [] then value_error ''BACHS_JOURNAL_PRODUCT_ID is required''
       else if set (map fst copies) \<noteq> set (map int [1..<max_copy_accounts + 1]) \<or> list_ex (\<lambda>(k, v). v = []) copies
       then value_error ''BACHS_COPY_PRODUCT_IDS must contain tiers 1 through 10''
       else if \<not> distinct (j # map snd copies) then value_error ''Every Bachs plan tier must use a unique product ID''
       else Inr \<lparr>pc_journal_product_id = j, pc_copy_product_ids = copies\<rparr>)"

definition product_for :: "product_catalog \<Rightarrow> billing_plan \<Rightarrow> int \<Rightarrow> string result" where
  "product_for c plan n = (case plan of Plan_journal \<Rightarrow> Inr (pc_journal_product_id c)
     | Plan_copy \<Rightarrow> (case map_of (pc_copy_product_ids c) n of Some p \<Rightarrow> Inr p
         | None \<Rightarrow> value_error ''Copy accounts must be between 1 and 10''))"

definition entitlement_for :: "product_catalog \<Rightarrow> string \<Rightarrow> (billing_plan \<times> int) result" where
  "entitlement_for c p = (if p = pc_journal_product_id c then Inr (Plan_journal, 0)
     else case find (\<lambda>(n, q). p = q) (pc_copy_product_ids c) of Some (n, q) \<Rightarrow> Inr (Plan_copy, n)
     | None \<Rightarrow> value_error ''Unknown Bachs product ID'')"

section \<open>State\<close>

record billing_env =
  be_journal_product_id :: string
  be_copy_product_ids :: "(int \<times> string) list option"
  be_grace_days :: int
  be_str :: "pyval \<Rightarrow> string"
  be_parse_iso :: "string \<Rightarrow> int option"
  be_create_checkout :: "string \<Rightarrow> uuid \<Rightarrow> dict result"
  be_change_plan :: "string \<Rightarrow> string \<Rightarrow> string \<Rightarrow> dict result"
  be_cancel_at_period_end :: "string \<Rightarrow> dict result"
  be_redis_acquire :: bool
  be_redis_store :: bool
  be_redis_release :: bool

definition catalog_of :: "billing_env \<Rightarrow> product_catalog result" where
  "catalog_of env = catalog_from_settings (be_journal_product_id env) (be_copy_product_ids env)"

record billing_user =
  bu_id :: uuid
  bu_email :: string
  bu_is_deleted :: bool

record billing_db =
  bd_users :: "billing_user list"
  bd_subscriptions :: "billing_subscription list"
  bd_webhook_events :: "(string \<times> string) list"
  bd_affiliates :: affiliate_db

datatype provider_call = Create_checkout uuid string | Change_plan string string string | Cancel_at_period_end string

record billing_world =
  bw_db :: billing_db
  bw_guard :: "uuid \<Rightarrow> (string \<times> int) option"
  bw_calls :: "provider_call list"

definition get_user :: "billing_db \<Rightarrow> uuid \<Rightarrow> billing_user option" where
  "get_user d u = find (\<lambda>x. bu_id x = u \<and> \<not> bu_is_deleted x) (bd_users d)"

definition get_user_by_email :: "billing_db \<Rightarrow> string \<Rightarrow> billing_user option" where
  "get_user_by_email d email = find (\<lambda>x. bu_email x = py_lower email \<and> \<not> bu_is_deleted x) (bd_users d)"

definition get_subscription :: "billing_db \<Rightarrow> uuid \<Rightarrow> billing_subscription option" where
  "get_subscription d u = row_get sub_user_id u (bd_subscriptions d)"

definition get_subscription_by_provider_id :: "billing_db \<Rightarrow> string \<Rightarrow> billing_subscription option" where
  "get_subscription_by_provider_id d k = row_get sub_provider_subscription_id k (bd_subscriptions d)"

definition put_subscription :: "billing_subscription \<Rightarrow> billing_db \<Rightarrow> billing_db" where
  "put_subscription s = bd_subscriptions_update (row_put sub_user_id s)"

text \<open>Writing a new or changed row back; the identifier of the provider is unique.\<close>

definition store_subscription :: "billing_subscription \<Rightarrow> billing_db \<Rightarrow> billing_db result" where
  "store_subscription s d = (
     if list_ex (\<lambda>x. sub_user_id x \<noteq> sub_user_id s \<and> sub_provider_subscription_id x = sub_provider_subscription_id s) (bd_subscriptions d)
     then Inl (Exn ''IntegrityError'' ''provider_subscription_id'')
     else if get_subscription d (sub_user_id s) = None then Inr (d \<lparr>bd_subscriptions := bd_subscriptions d @ [s]\<rparr>)
     else Inr (put_subscription s d))"

section \<open>Payloads\<close>

definition parse_datetime :: "billing_env \<Rightarrow> pyval \<Rightarrow> int option result" where
  "parse_datetime env v = (case v of
       PStr s \<Rightarrow> if s = [] then Inr None else (case be_parse_iso env (replace_z s) of
           None \<Rightarrow> value_error ''Invalid isoformat string'' | Some t \<Rightarrow> Inr (Some t))
     | _ \<Rightarrow> Inr None)"

definition billing_status_of :: "string \<Rightarrow> billing_status option" where
  "billing_status_of s = (if s = ''active'' then Some Bill_active else if s = ''past_due'' then Some Bill_past_due
     else if s = ''unpaid'' then Some Bill_unpaid else if s = ''canceled'' then Some Bill_canceled else None)"

definition status_of :: "billing_env \<Rightarrow> pyval \<Rightarrow> bool \<Rightarrow> billing_status result" where
  "status_of env v deleted = (if deleted then Inr Bill_canceled
     else case billing_status_of (text_of (be_str env) v) of Some st \<Rightarrow> Inr st
     | None \<Rightarrow> value_error ''Unsupported Bachs subscription status'')"

definition or_text :: "billing_env \<Rightarrow> pyval \<Rightarrow> string \<Rightarrow> string \<Rightarrow> string" where
  "or_text env v old fallback = (if truthy v then text_of (be_str env) v else if old \<noteq> [] then old else fallback)"

definition grace_after :: "billing_env \<Rightarrow> int \<Rightarrow> billing_status \<Rightarrow> int option \<Rightarrow> int option" where
  "grace_after env now st grace = (
     if st = Bill_past_due \<and> grace = None then Some (now + 86400000000 * be_grace_days env)
     else if st = Bill_active then None else grace)"

definition with_plan :: "int \<Rightarrow> billing_plan \<Rightarrow> int \<Rightarrow> billing_subscription \<Rightarrow> billing_subscription" where
  "with_plan now plan limit s = (
     if sub_pending_plan s = Some plan \<and> sub_pending_copy_account_limit s = Some limit
        \<and> (case sub_pending_effective_at s of None \<Rightarrow> False | Some t \<Rightarrow> t > now)
     then s
     else s \<lparr>sub_plan := plan, sub_copy_account_limit := limit, sub_pending_plan := None,
             sub_pending_copy_account_limit := None, sub_pending_effective_at := None\<rparr>)"

text \<open>\<^verbatim>\<open>apply_subscription_payload\<close>: the row it leaves.\<close>

definition apply_subscription_payload ::
  "billing_env \<Rightarrow> int \<Rightarrow> dict \<Rightarrow> product_catalog \<Rightarrow> billing_subscription option \<Rightarrow> bool \<Rightarrow> billing_db \<Rightarrow> billing_subscription result" where
  "apply_subscription_payload env now p catalog existing deleted d = (
     case (or_value (dict_get p ''subscription_id'') (dict_get p ''id''),
           or_value (dict_get p ''product_id'') (dict_get (nested p ''product'') ''id'')) of
       (PStr sid, PStr product) \<Rightarrow>
         (case entitlement_for catalog product of Inl e \<Rightarrow> Inl e | Inr (plan, limit) \<Rightarrow>
          case (case existing of Some s \<Rightarrow> Some s | None \<Rightarrow> get_subscription_by_provider_id d sid) of
            None \<Rightarrow> value_error ''Bachs subscription is not linked to a user''
          | Some s \<Rightarrow>
            case status_of env (dict_get p ''status'') deleted of Inl e \<Rightarrow> Inl e | Inr st \<Rightarrow>
            case parse_datetime env (dict_get p ''current_period_start'') of Inl e \<Rightarrow> Inl e | Inr starts \<Rightarrow>
            case parse_datetime env (dict_get p ''current_period_end'') of Inl e \<Rightarrow> Inl e | Inr ends \<Rightarrow>
            case parse_datetime env (dict_get p ''canceled_at'') of Inl e \<Rightarrow> Inl e | Inr canceled \<Rightarrow>
            let customer = dict_get (nested p ''customer'') ''customer_id'' in
            Inr ((with_plan now plan limit s) \<lparr>sub_provider_subscription_id := sid, sub_provider_product_id := product,
              sub_status := st,
              sub_provider_customer_id := (if truthy customer then Some (text_of (be_str env) customer) else sub_provider_customer_id s),
              sub_currency := or_text env (dict_get p ''currency'') (sub_currency s) ''USD'',
              sub_amount := or_text env (dict_get p ''amount'') (sub_amount s) ''0.00'',
              sub_current_period_start := starts, sub_current_period_end := ends,
              sub_cancel_at_period_end := truthy (dict_get p ''cancel_at_period_end''), sub_canceled_at := canceled,
              sub_grace_ends_at := grace_after env now st (sub_grace_ends_at s)\<rparr>))
     | _ \<Rightarrow> value_error ''Bachs subscription payload is missing identifiers'')"

section \<open>Webhooks\<close>

definition subscription_events :: "string list" where
  "subscription_events = [''customer.subscription.created'', ''customer.subscription.updated'', ''customer.subscription.deleted'']"

definition user_for_new_subscription :: "billing_env \<Rightarrow> dict \<Rightarrow> billing_db \<Rightarrow> billing_user option" where
  "user_for_new_subscription env data d = (
     let raw = dict_get (nested data ''metadata'') ''tradepartna_user_id'';
         by_id = (if truthy raw then (case parse_uuid (text_of (be_str env) raw) of Inl _ \<Rightarrow> None | Inr u \<Rightarrow> get_user d u) else None);
         email = dict_get (nested data ''customer'') ''email'' in
     case by_id of Some u \<Rightarrow> Some u
     | None \<Rightarrow> if truthy email then get_user_by_email d (py_lower (text_of (be_str env) email)) else None)"

definition closed_status :: "billing_status \<Rightarrow> bool" where
  "closed_status st \<longleftrightarrow> st = Bill_canceled \<or> st = Bill_unpaid"

definition first_subscription ::
  "billing_env \<Rightarrow> uuid \<Rightarrow> string \<Rightarrow> dict \<Rightarrow> product_catalog \<Rightarrow> billing_subscription result" where
  "first_subscription env u sid data catalog = (
     let product = text_of (be_str env) (dict_get data ''product_id'') in
     case entitlement_for catalog product of Inl e \<Rightarrow> Inl e
     | Inr (plan, limit) \<Rightarrow> Inr \<lparr>sub_user_id = u, sub_provider_customer_id = None, sub_provider_subscription_id = sid,
         sub_provider_product_id = product, sub_plan = plan, sub_status = Bill_active, sub_copy_account_limit = limit,
         sub_currency = or_text env (dict_get data ''currency'') [] ''USD'', sub_amount = or_text env (dict_get data ''amount'') [] ''0.00'',
         sub_current_period_start = None, sub_current_period_end = None, sub_grace_ends_at = None,
         sub_cancel_at_period_end = False, sub_canceled_at = None, sub_pending_plan = None,
         sub_pending_copy_account_limit = None, sub_pending_effective_at = None\<rparr>)"

definition apply_and_store ::
  "billing_env \<Rightarrow> int \<Rightarrow> dict \<Rightarrow> billing_subscription option \<Rightarrow> bool \<Rightarrow> billing_db \<Rightarrow> billing_db result" where
  "apply_and_store env now data existing deleted d = (case catalog_of env of Inl e \<Rightarrow> Inl e | Inr catalog \<Rightarrow>
     case apply_subscription_payload env now data catalog existing deleted d of Inl e \<Rightarrow> Inl e | Inr s \<Rightarrow> store_subscription s d)"

definition link_subscription :: "billing_env \<Rightarrow> int \<Rightarrow> string \<Rightarrow> dict \<Rightarrow> billing_db \<Rightarrow> billing_db result" where
  "link_subscription env now sid data d = (case user_for_new_subscription env data d of
       None \<Rightarrow> value_error ''Bachs subscription customer is not a SignalSync user''
     | Some user \<Rightarrow> (case get_subscription d (bu_id user) of
         Some s \<Rightarrow>
           if \<not> closed_status (sub_status s) \<and> sub_provider_subscription_id s \<noteq> sid then Inr d
           else apply_and_store env now data (Some s) False d
       | None \<Rightarrow> (case catalog_of env of Inl e \<Rightarrow> Inl e | Inr catalog \<Rightarrow>
           case first_subscription env (bu_id user) sid data catalog of Inl e \<Rightarrow> Inl e
           | Inr s \<Rightarrow> apply_and_store env now data (Some s) False d)))"

definition handle_subscription_event :: "billing_env \<Rightarrow> int \<Rightarrow> string \<Rightarrow> dict \<Rightarrow> billing_db \<Rightarrow> billing_db result" where
  "handle_subscription_event env now kind data d = (
     let v = or_value (dict_get data ''subscription_id'') (dict_get data ''id''); sid = text_of (be_str env) v;
         sub = (if truthy v then get_subscription_by_provider_id d sid else None) in
     case sub of
       Some s \<Rightarrow> apply_and_store env now data (Some s) (kind = ''customer.subscription.deleted'') d
     | None \<Rightarrow> if kind \<noteq> ''customer.subscription.created'' then Inr d else link_subscription env now sid data d)"

definition payment_failed :: "billing_env \<Rightarrow> int \<Rightarrow> dict \<Rightarrow> billing_db \<Rightarrow> billing_db result" where
  "payment_failed env now data d = (
     case get_subscription_by_provider_id d (text_of (be_str env) (dict_get (nested data ''subscription'') ''subscription_id'')) of
       None \<Rightarrow> Inr d
     | Some s \<Rightarrow> store_subscription (s \<lparr>sub_status := Bill_past_due,
         sub_grace_ends_at := grace_after env now Bill_past_due (sub_grace_ends_at s)\<rparr>) d)"

definition invoice_paid :: "billing_env \<Rightarrow> int \<Rightarrow> dict \<Rightarrow> billing_db \<Rightarrow> billing_db result" where
  "invoice_paid env now data d = (
     let n = nested data ''subscription'';
         v = or_value (or_value (dict_get data ''subscription_id'') (dict_get n ''subscription_id'')) (dict_get n ''id'') in
     case get_subscription_by_provider_id d (text_of (be_str env) v) of None \<Rightarrow> Inr d
     | Some s \<Rightarrow>
       if sub_status s = Bill_canceled then Inr d
       else case store_subscription (s \<lparr>sub_status := Bill_active, sub_grace_ends_at := None\<rparr>) d of Inl e \<Rightarrow> Inl e
       | Inr d \<Rightarrow> (case create_commission_from_paid_invoice (be_str env) (get_subscription_by_provider_id d) now data (bd_affiliates d) of
           Inl e \<Rightarrow> Inl e | Inr (_, a) \<Rightarrow> Inr (d \<lparr>bd_affiliates := a\<rparr>)))"

definition refunded :: "billing_env \<Rightarrow> int \<Rightarrow> dict \<Rightarrow> string \<Rightarrow> billing_db \<Rightarrow> billing_db result" where
  "refunded env now data reason d = (case reverse_commission (be_str env) now data reason (bd_affiliates d) of
     Inl e \<Rightarrow> Inl e | Inr (_, a) \<Rightarrow> Inr (d \<lparr>bd_affiliates := a\<rparr>))"

definition handle_event :: "billing_env \<Rightarrow> int \<Rightarrow> string \<Rightarrow> dict \<Rightarrow> billing_db \<Rightarrow> billing_db result" where
  "handle_event env now kind data d = (
     if kind \<in> set subscription_events then handle_subscription_event env now kind data d
     else if kind = ''invoice.payment_failed'' then payment_failed env now data d
     else if kind = ''invoice.paid'' then invoice_paid env now data d
     else if kind = ''refund.paid'' then refunded env now data ''refund'' d
     else if kind = ''dispute.created'' then refunded env now data ''dispute'' d
     else Inr d)"

definition claim_webhook_event :: "string \<Rightarrow> string \<Rightarrow> billing_db \<Rightarrow> billing_db option" where
  "claim_webhook_event k kind d = (if k \<in> fst ` set (bd_webhook_events d) then None
     else Some (d \<lparr>bd_webhook_events := bd_webhook_events d @ [(k, kind)]\<rparr>))"

definition process_webhook_event :: "billing_env \<Rightarrow> int \<Rightarrow> dict \<Rightarrow> billing_db \<Rightarrow> bool result \<times> billing_db" where
  "process_webhook_event env now event d = (
     case (dict_get event ''id'', dict_get event ''type'', dict_get event ''data'') of
       (PStr k, PStr kind, PDict data) \<Rightarrow> (case claim_webhook_event k kind d of
           None \<Rightarrow> (Inr False, d)
         | Some claimed \<Rightarrow> (case handle_event env now kind data claimed of
             Inl e \<Rightarrow> (Inl e, d) | Inr d' \<Rightarrow> (Inr True, d')))
     | _ \<Rightarrow> (value_error ''Invalid Bachs webhook envelope'', d))"

text \<open>The endpoint: the signature is checked before anything is read.\<close>

definition parse_int :: "string \<Rightarrow> int option" where
  "parse_int text = (let (sign, t) = read_sign (py_strip text) in
     if t \<noteq> [] \<and> list_all (\<lambda>c. is_digit c \<or> c = CHR ''_'') t \<and> hd t \<noteq> CHR ''_'' \<and> last t \<noteq> CHR ''_'' \<and> \<not> py_in ''__'' t
     then Some (sign * int (read_nat (filter is_digit t))) else None)"

definition verify_bachs_signature ::
  "(string \<Rightarrow> string \<Rightarrow> string) \<Rightarrow> int \<Rightarrow> string \<Rightarrow> string \<Rightarrow> string \<Rightarrow> string \<Rightarrow> bool" where
  "verify_bachs_signature hmac now body secret timestamp signature = (
     if secret = [] \<or> timestamp = [] \<or> signature = [] then False
     else case parse_int timestamp of None \<Rightarrow> False
     | Some t \<Rightarrow> if \<bar>now - 1000000 * t\<bar> > 300 * 1000000 then False else hmac secret (timestamp @ ''.'' @ body) = signature)"

definition receive_bachs_webhook ::
  "(string \<Rightarrow> string \<Rightarrow> string) \<Rightarrow> (string \<Rightarrow> pyval option) \<Rightarrow> string \<Rightarrow> billing_env \<Rightarrow> int \<Rightarrow> string \<Rightarrow> string \<Rightarrow> string
     \<Rightarrow> billing_db \<Rightarrow> bool result \<times> billing_db" where
  "receive_bachs_webhook hmac json_loads secret env now body timestamp signature d = (
     if \<not> verify_bachs_signature hmac now body secret timestamp signature then (http_raise 401 ''Invalid webhook signature.'', d)
     else case json_loads body of None \<Rightarrow> (http_raise 400 ''Invalid webhook payload.'', d)
     | Some (PDict event) \<Rightarrow> process_webhook_event env now event d
     | Some _ \<Rightarrow> (Inl (Exn ''AttributeError'' ''get''), d))"

section \<open>Checkout\<close>

definition creating :: string where
  "creating = ''creating''"

definition checkout_ttl :: int where
  "checkout_ttl = 3600 * 1000000"

definition guard_value :: "int \<Rightarrow> uuid \<Rightarrow> billing_world \<Rightarrow> string option" where
  "guard_value now u w = (case bw_guard w u of Some (v, until) \<Rightarrow> if now < until then Some v else None | None \<Rightarrow> None)"

definition guard_set :: "int \<Rightarrow> uuid \<Rightarrow> string \<Rightarrow> billing_world \<Rightarrow> billing_world" where
  "guard_set now u v w = w \<lparr>bw_guard := (bw_guard w)(u := Some (v, now + checkout_ttl))\<rparr>"

definition guard_unavailable :: "'a result" where
  "guard_unavailable = http_raise 503 ''Checkout protection is temporarily unavailable''"

definition guard_acquire :: "billing_env \<Rightarrow> int \<Rightarrow> uuid \<Rightarrow> billing_world \<Rightarrow> string option result \<times> billing_world" where
  "guard_acquire env now u w = (if \<not> be_redis_acquire env then (guard_unavailable, w)
     else case guard_value now u w of None \<Rightarrow> (Inr None, guard_set now u creating w)
     | Some v \<Rightarrow> (Inr (Some (if startswith v ''https://'' then v else creating)), w))"

definition guard_store :: "billing_env \<Rightarrow> int \<Rightarrow> uuid \<Rightarrow> string \<Rightarrow> billing_world \<Rightarrow> unit result \<times> billing_world" where
  "guard_store env now u url w = (if \<not> be_redis_store env then (guard_unavailable, w) else (Inr (), guard_set now u url w))"

definition guard_release :: "billing_env \<Rightarrow> uuid \<Rightarrow> billing_world \<Rightarrow> billing_world" where
  "guard_release env u w = (if be_redis_release env then w \<lparr>bw_guard := (bw_guard w)(u := None)\<rparr> else w)"

definition is_upgrade :: "billing_subscription \<Rightarrow> billing_plan \<Rightarrow> int \<Rightarrow> bool" where
  "is_upgrade s plan n \<longleftrightarrow> sub_plan s = Plan_journal \<and> plan = Plan_copy
     \<or> sub_plan s = Plan_copy \<and> plan = Plan_copy \<and> n > sub_copy_account_limit s"

type_synonym checkout_answer = "string \<times> string option"

definition open_checkout :: "billing_env \<Rightarrow> int \<Rightarrow> uuid \<Rightarrow> string \<Rightarrow> billing_world \<Rightarrow> checkout_answer result \<times> billing_world" where
  "open_checkout env now u product w = (case guard_acquire env now u w of
       (Inl e, w) \<Rightarrow> (Inl e, w)
     | (Inr (Some url), w) \<Rightarrow>
         if url = creating then (http_raise 409 ''A checkout is already being prepared. Please wait a moment.'', w)
         else (Inr (''checkout'', Some url), w)
     | (Inr None, w) \<Rightarrow>
         let w = w \<lparr>bw_calls := bw_calls w @ [Create_checkout u product]\<rparr> in
         (case be_create_checkout env product u of
            Inl e \<Rightarrow> (http_raise 502 (exn_message e), guard_release env u w)
          | Inr result \<Rightarrow> (case dict_get result ''checkout_url'' of
              PStr url \<Rightarrow>
                if \<not> startswith url ''https://''
                then (http_raise 502 ''The billing provider returned no checkout URL'', guard_release env u w)
                else (case guard_store env now u url w of (Inl e, w) \<Rightarrow> (Inl e, w) | (Inr _, w) \<Rightarrow> (Inr (''checkout'', Some url), w))
            | _ \<Rightarrow> (http_raise 502 ''The billing provider returned no checkout URL'', guard_release env u w))))"

definition change_plan ::
  "billing_env \<Rightarrow> int \<Rightarrow> product_catalog \<Rightarrow> billing_subscription \<Rightarrow> billing_plan \<Rightarrow> int \<Rightarrow> string \<Rightarrow> billing_world
     \<Rightarrow> checkout_answer result \<times> billing_world" where
  "change_plan env now catalog s plan n product w = (
     if sub_plan s = plan \<and> sub_copy_account_limit s = n then (http_raise 409 ''This subscription plan is already active.'', w)
     else
       let up = is_upgrade s plan n; behaviour = (if up then ''invoice_now'' else ''next_cycle'');
           w = w \<lparr>bw_calls := bw_calls w @ [Change_plan (sub_provider_subscription_id s) product behaviour]\<rparr> in
       case be_change_plan env (sub_provider_subscription_id s) product behaviour of
         Inl e \<Rightarrow> (http_raise 502 (exn_message e), w)
       | Inr result \<Rightarrow>
         if up then (case apply_subscription_payload env now result catalog (Some s) False (bw_db w) of
             Inl e \<Rightarrow> (Inl e, w)
           | Inr s' \<Rightarrow> (case store_subscription s' (bw_db w) of Inl e \<Rightarrow> (Inl e, w)
               | Inr d \<Rightarrow> (Inr (''updated'', None), w \<lparr>bw_db := d\<rparr>)))
         else (case store_subscription (s \<lparr>sub_provider_product_id := product, sub_pending_plan := Some plan,
               sub_pending_copy_account_limit := Some n, sub_pending_effective_at := sub_current_period_end s\<rparr>) (bw_db w) of
             Inl e \<Rightarrow> (Inl e, w)
           | Inr d \<Rightarrow> (Inr (''scheduled'', None), w \<lparr>bw_db := d\<rparr>)))"

definition start_checkout_or_change_plan ::
  "billing_env \<Rightarrow> int \<Rightarrow> uuid \<Rightarrow> billing_plan \<Rightarrow> int \<Rightarrow> billing_world \<Rightarrow> checkout_answer result \<times> billing_world" where
  "start_checkout_or_change_plan env now u plan accounts w = (
     case catalog_of env of Inl e \<Rightarrow> (Inl e, w) | Inr catalog \<Rightarrow>
     let n = (if plan = Plan_copy then accounts else 0) in
     case product_for catalog plan n of Inl e \<Rightarrow> (Inl e, w) | Inr product \<Rightarrow>
     case get_subscription (bw_db w) u of
       None \<Rightarrow> open_checkout env now u product w
     | Some s \<Rightarrow> if closed_status (sub_status s) then open_checkout env now u product w
                else change_plan env now catalog s plan n product w)"

definition cancel_subscription :: "billing_env \<Rightarrow> uuid \<Rightarrow> billing_world \<Rightarrow> billing_subscription result \<times> billing_world" where
  "cancel_subscription env u w = (case get_subscription (bw_db w) u of
       None \<Rightarrow> (http_raise 404 ''No active subscription was found.'', w)
     | Some s \<Rightarrow>
       if sub_status s = Bill_canceled then (http_raise 404 ''No active subscription was found.'', w)
       else if sub_cancel_at_period_end s then (http_raise 409 ''Cancellation is already scheduled.'', w)
       else
         let w = w \<lparr>bw_calls := bw_calls w @ [Cancel_at_period_end (sub_provider_subscription_id s)]\<rparr> in
         case be_cancel_at_period_end env (sub_provider_subscription_id s) of
           Inl e \<Rightarrow> (http_raise 502 (exn_message e), w)
         | Inr result \<Rightarrow> (case parse_datetime env (dict_get result ''current_period_end'') of Inl e \<Rightarrow> (Inl e, w)
             | Inr ends \<Rightarrow>
               let s' = s \<lparr>sub_cancel_at_period_end := (if dict_has result ''cancel_at_period_end''
                              then truthy (dict_get result ''cancel_at_period_end'') else True),
                           sub_current_period_end := (case ends of Some t \<Rightarrow> Some t | None \<Rightarrow> sub_current_period_end s)\<rparr> in
               (case store_subscription s' (bw_db w) of Inl e \<Rightarrow> (Inl e, w) | Inr d \<Rightarrow> (Inr s', w \<lparr>bw_db := d\<rparr>))))"

section \<open>What the user sees\<close>

record subscription_response =
  rs_plan :: "billing_plan option"
  rs_status :: "billing_status option"
  rs_has_journal_access :: bool
  rs_has_copy_access :: bool
  rs_copy_account_limit :: int
  rs_current_period_end :: "int option"
  rs_grace_ends_at :: "int option"
  rs_cancel_at_period_end :: bool
  rs_pending_plan :: "billing_plan option"
  rs_pending_copy_account_limit :: "int option"
  rs_pending_effective_at :: "int option"

definition subscription_response :: "billing_subscription option \<Rightarrow> int \<Rightarrow> subscription_response" where
  "subscription_response sub now = (case sub of
       None \<Rightarrow> \<lparr>rs_plan = None, rs_status = None, rs_has_journal_access = False, rs_has_copy_access = False,
         rs_copy_account_limit = 0, rs_current_period_end = None, rs_grace_ends_at = None, rs_cancel_at_period_end = False,
         rs_pending_plan = None, rs_pending_copy_account_limit = None, rs_pending_effective_at = None\<rparr>
     | Some s \<Rightarrow>
       let (plan, limit) = effective_values s now; effective = effective_subscription s now in
       \<lparr>rs_plan = Some plan, rs_status = Some (sub_status s), rs_has_journal_access = has_journal_access (Some effective) now,
        rs_has_copy_access = has_copy_access (Some effective) now, rs_copy_account_limit = limit,
        rs_current_period_end = sub_current_period_end s, rs_grace_ends_at = sub_grace_ends_at s,
        rs_cancel_at_period_end = sub_cancel_at_period_end s, rs_pending_plan = sub_pending_plan s,
        rs_pending_copy_account_limit = sub_pending_copy_account_limit s, rs_pending_effective_at = sub_pending_effective_at s\<rparr>)"

end
