(* ===== verification/Affiliate_Ledger.thy ===== *)
theory Affiliate_Ledger
  imports Affiliates
begin

text \<open>
  What the affiliate tables always satisfy: codes, attributions and invoices are unique, nobody refers
  himself, and every commission is its rate of its base rounded to the cent, of which never more than all
  is reversed.
\<close>

section \<open>Cents\<close>

lemma two_places_iff: "two_places x \<longleftrightarrow> (\<exists>n :: int. x = of_int n / 100)"
proof
  assume "two_places x"
  then have "of_int \<lfloor>x * 100\<rfloor> / 100 = x" unfolding two_places_def by linarith
  then show "\<exists>n :: int. x = of_int n / 100" by metis
next
  assume "\<exists>n :: int. x = of_int n / 100"
  then obtain n :: int where "x * 100 = of_int n" by auto
  then show "two_places x" unfolding two_places_def by simp
qed

lemma round_half_up_error: "\<bar>of_int (round_half_up x) - x\<bar> \<le> 1 / 2"
proof (cases "x \<ge> 0")
  case True
  have "of_int \<lfloor>x + 1 / 2\<rfloor> \<le> x + 1 / 2" "x + 1 / 2 < of_int \<lfloor>x + 1 / 2\<rfloor> + 1" by linarith+
  then have "\<bar>of_int \<lfloor>x + 1 / 2\<rfloor> - x\<bar> \<le> 1 / 2" by linarith
  with True show ?thesis by (simp add: round_half_up_def)
next
  case False
  have "of_int \<lfloor>1 / 2 - x\<rfloor> \<le> 1 / 2 - x" "1 / 2 - x < of_int \<lfloor>1 / 2 - x\<rfloor> + 1" by linarith+
  then have "\<bar>- of_int \<lfloor>1 / 2 - x\<rfloor> - x\<bar> \<le> 1 / 2" by linarith
  with False show ?thesis by (simp add: round_half_up_def)
qed

lemma round_half_up_nonneg: "0 \<le> x \<Longrightarrow> 0 \<le> round_half_up x"
  by (simp add: round_half_up_def)

lemma round_half_up_le: "x < of_int n + 1 / 2 \<Longrightarrow> round_half_up x \<le> n"
proof -
  assume x: "x < of_int n + 1 / 2"
  show ?thesis
  proof (cases "x \<ge> 0")
    case True
    have "x + 1 / 2 < of_int (n + 1)" using x by simp
    then have "\<lfloor>x + 1 / 2\<rfloor> < n + 1" by (simp only: floor_less_iff)
    with True show ?thesis by (simp add: round_half_up_def)
  next
    case False
    have "of_int (- n) \<le> 1 / 2 - x" using x by simp
    then have "- n \<le> \<lfloor>1 / 2 - x\<rfloor>" by (simp only: le_floor_iff)
    with False show ?thesis by (simp add: round_half_up_def)
  qed
qed

lemma quantize_money_Inr: "quantize_money x = Inr m \<Longrightarrow> m = of_int (round_half_up (x * 100)) / 100"
  by (auto simp: quantize_money_def Let_def invalid_operation_def split: if_splits)

lemma quantize_money_two_places: "quantize_money x = Inr m \<Longrightarrow> two_places m"
  using quantize_money_Inr two_places_iff by blast

lemma money_two_places: "money v = Inr m \<Longrightarrow> two_places m"
  by (auto simp: money_def Let_def bad_money_def split: pyval.splits option.splits decimal.splits sum.splits
      dest: quantize_money_two_places)

text \<open>Up to a billion and half the base, nothing is lost before the rounding to cents.\<close>

lemma commission_amount_exact:
  assumes "commission_amount base rate = Inr a" "two_places base" "fits_money base" "valid_rate rate" "0 \<le> base"
  shows "a = of_int (round_half_up (base * rate)) / 100"
proof -
  obtain m n :: int where mn: "base = of_int m / 100" "rate = of_int n / 100"
    using assms(2,4) by (auto simp: two_places_iff valid_rate_def)
  have "0 \<le> m" "of_int m < (10 ^ 14 :: rat)" using assms(3,5) mn(1) by (simp_all add: fits_money_def)
  then have m: "0 \<le> m" "m < 10 ^ 14" by (simp_all add: of_int_less_iff flip: of_int_power_less_of_int_cancel_iff)
  have "0 \<le> (of_int n :: rat)" "of_int n \<le> (5000 :: rat)" using assms(4) mn(2) by (simp_all add: valid_rate_def)
  then have n: "0 \<le> n" "n \<le> 5000" by simp_all
  have "m * n \<le> 10 ^ 14 * 5000" using m n by (intro mult_mono) simp_all
  then have c: "\<bar>m * n\<bar> < 10 ^ 28" using m n by simp
  have p: "(10 :: rat) powi (-4) = 1 / 10000" "(10 :: rat) powi (-6) = 1 / 1000000" by (simp_all add: power_int_def power_divide)
  have prod: "base * rate = of_int (m * n) / 10000" unfolding mn by simp
  then have "base * rate = of_int (m * n) * 10 powi (-4)" using p by simp
  then have "dec_round (base * rate) = base * rate" using dec_round_exact [OF c] by metis
  moreover have "base * rate / 100 = of_int (m * n) * 10 powi (-6)" using prod p by simp
  then have "dec_round (base * rate / 100) = base * rate / 100" using dec_round_exact [OF c] by metis
  ultimately show ?thesis
    using assms(1) quantize_money_Inr by (fastforce simp: commission_amount_def dec_div_def)
qed

section \<open>The invariant\<close>

definition commission_ok :: "affiliate_commission \<Rightarrow> bool" where
  "commission_ok c \<longleftrightarrow> 0 < co_commission_base c \<and> two_places (co_commission_base c) \<and> valid_rate (co_commission_rate c)
     \<and> fits_money (co_commission_amount c)
     \<and> co_commission_amount c = of_int (round_half_up (co_commission_base c * co_commission_rate c)) / 100
     \<and> 0 \<le> co_reversed_amount c \<and> co_reversed_amount c \<le> co_commission_amount c
     \<and> (co_status c = Com_reversed \<longrightarrow> co_reversed_amount c = co_commission_amount c)
     \<and> (0 < co_reversed_amount c \<and> co_reversed_amount c = co_commission_amount c \<longrightarrow> co_status c = Com_reversed)"

definition affiliates_ok :: "affiliate_db \<Rightarrow> bool" where
  "affiliates_ok d \<longleftrightarrow> (\<forall>c. ad_settings d = Some c \<longrightarrow> valid_rate (as_default_commission_rate c))
     \<and> distinct (map ap_user_id (ad_profiles d)) \<and> distinct (map ap_code (ad_profiles d))
     \<and> (\<forall>p \<in> set (ad_profiles d). \<forall>r. ap_commission_rate_override p = Some r \<longrightarrow> valid_rate r)
     \<and> distinct (map ra_referred_user_id (ad_attributions d))
     \<and> (\<forall>a \<in> set (ad_attributions d). ra_affiliate_user_id a \<noteq> ra_referred_user_id a)
     \<and> distinct (map co_provider_invoice_id (ad_commissions d)) \<and> (\<forall>c \<in> set (ad_commissions d). commission_ok c)"

lemma default_rate_valid: "valid_rate (as_default_commission_rate default_setting)"
  by (simp add: default_setting_def valid_rate_def two_places_def)

lemma ensure_profile_ok:
  assumes "ensure_profile choice u d = Inr (p, d')" "affiliates_ok d"
  shows "affiliates_ok d' \<and> get_profile d' u = Some p \<and> ad_commissions d' = ad_commissions d \<and> ad_attributions d' = ad_attributions d"
proof (cases "get_profile d u")
  case None
  then have u: "u \<notin> ap_user_id ` set (ad_profiles d)" by (simp add: get_profile_def row_get_None)
  obtain k where k: "\<not> code_exists d (new_code choice k)"
      and p: "p = \<lparr>ap_user_id = u, ap_code = new_code choice k, ap_status = Aff_active, ap_commission_rate_override = None\<rparr>"
      and d': "d' = d \<lparr>ad_profiles := ad_profiles d @ [p]\<rparr>"
    using assms(1) None by (auto simp: ensure_profile_def Let_def dest!: find_SomeD split: option.splits)
  have "new_code choice k \<notin> ap_code ` set (ad_profiles d)" using k by (auto simp: code_exists_def list_ex_iff)
  with u assms(2) have "affiliates_ok d'" unfolding d' affiliates_ok_def by (simp add: p)
  moreover have "get_profile d' u = Some p" using None unfolding d' by (simp add: get_profile_def p)
  ultimately show ?thesis by (simp add: d')
qed (use assms in \<open>auto simp: ensure_profile_def\<close>)

interpretation commissions:
  keyed_table co_provider_invoice_id ad_commissions ad_commissions_update get_commission_by_invoice put_commission
  by unfold_locales (simp_all add: get_commission_by_invoice_def put_commission_def)

interpretation profiles: keyed_table ap_user_id ad_profiles ad_profiles_update get_profile put_profile
  by unfold_locales (simp_all add: get_profile_def put_profile_def)

lemma get_or_create_settings_ok:
  assumes "get_or_create_settings d = (c, d')" "affiliates_ok d"
  shows "affiliates_ok d' \<and> valid_rate (as_default_commission_rate c) \<and> ad_commissions d' = ad_commissions d
    \<and> ad_profiles d' = ad_profiles d \<and> ad_attributions d' = ad_attributions d"
  using assms default_rate_valid by (auto simp: get_or_create_settings_def affiliates_ok_def split: option.splits)

lemma attribute_new_user_ok:
  assumes "attribute_new_user choice u code source campaign d = Inr (a, d')" "affiliates_ok d"
  shows "affiliates_ok d'"
proof -
  obtain p d1 where d1: "ensure_profile choice u d = Inr (p, d1)"
    using assms(1) by (auto simp: attribute_new_user_def split: sum.splits prod.splits)
  with assms(2) have ok: "affiliates_ok d1" using ensure_profile_ok by blast
  have "u \<notin> ra_referred_user_id ` set (ad_attributions d1)" if "get_attribution_for_user d1 u = None"
    using that by (auto simp: get_attribution_for_user_def row_get_def find_None_iff)
  with assms(1) d1 ok show ?thesis
    by (auto simp: attribute_new_user_def Let_def affiliates_ok_def split: if_splits option.splits)
qed

lemma effective_rate_valid:
  "affiliates_ok d \<Longrightarrow> p \<in> set (ad_profiles d) \<Longrightarrow> valid_rate (as_default_commission_rate c) \<Longrightarrow> valid_rate (effective_rate p c)"
  by (auto simp: effective_rate_def affiliates_ok_def split: option.split)

text \<open>What stands behind a new commission.\<close>

lemma create_commission_cases:
  assumes "create_commission_from_paid_invoice other sub_of now data d = Inr (r, d')"
  obtains (unchanged) "r = None" "d' = d \<or> d' = snd (get_or_create_settings d)"
  | (created) invoice sid sub a p config d1 base amount where
      "get_commission_by_invoice d invoice = None" "sub_of sid = Some sub"
      "get_attribution_for_user d (sub_user_id sub) = Some a" "get_profile d (ra_affiliate_user_id a) = Some p"
      "ap_status p = Aff_active" "get_or_create_settings d = (config, d1)"
      "int (length (qualifying d1 (sub_user_id sub))) < as_recurring_months config"
      "money (paid_amount data) = Inr base" "0 < base" "commission_amount base (effective_rate p config) = Inr amount"
      "fits_money base" "fits_money amount"
      "r = Some (new_commission other now data invoice sub a sid config base (effective_rate p config) amount)"
      "d' = d1 \<lparr>ad_commissions := ad_commissions d1 @ [the r]\<rparr>"
proof -
  show ?thesis
  proof (cases "r")
    case None
    then show ?thesis using assms unchanged
      by (auto simp: create_commission_from_paid_invoice_def Let_def split: option.splits if_splits sum.splits prod.splits)
  next
    case (Some c)
    obtain invoice sid where ids: "optional_text other (or_value (dict_get data ''invoice_id'') (dict_get data ''id'')) = Some invoice"
        "subscription_id_of other data = Some sid"
      using assms Some by (auto simp: create_commission_from_paid_invoice_def split: option.splits)
    obtain sub a p where rows: "get_commission_by_invoice d invoice = None" "sub_of sid = Some sub"
      "get_attribution_for_user d (sub_user_id sub) = Some a" "get_profile d (ra_affiliate_user_id a) = Some p" "ap_status p = Aff_active"
      using assms Some ids by (auto simp: create_commission_from_paid_invoice_def split: option.splits if_splits)
    obtain config d1 where cfg: "get_or_create_settings d = (config, d1)" by force
    show ?thesis
      using assms Some ids rows cfg created [OF rows cfg]
      by (auto simp: create_commission_from_paid_invoice_def Let_def split: if_splits sum.splits)
  qed
qed

lemma create_commission_ok:
  assumes "create_commission_from_paid_invoice other sub_of now data d = Inr (r, d')" and ok: "affiliates_ok d"
  shows "affiliates_ok d'"
  using assms(1)
proof (cases rule: create_commission_cases)
  case unchanged
  then show ?thesis using ok get_or_create_settings_ok [of d] by (metis prod.collapse)
next
  case (created invoice sid sub a p config d1 base amount)
  have d1: "affiliates_ok d1" "valid_rate (as_default_commission_rate config)" "ad_commissions d1 = ad_commissions d"
    "ad_profiles d1 = ad_profiles d"
    using get_or_create_settings_ok [OF created(6) ok] by auto
  have rate: "valid_rate (effective_rate p config)"
    using effective_rate_valid [OF ok _ d1(2)] profiles.get_Some [OF created(4)] by blast
  have base: "two_places base" using created(8) by (rule money_two_places)
  have amount: "amount = of_int (round_half_up (base * effective_rate p config)) / 100"
    using commission_amount_exact [OF created(10) base created(11) rate] created(9) by simp
  have "0 \<le> base * effective_rate p config" using rate created(9) by (simp add: valid_rate_def)
  then have "0 \<le> amount" unfolding amount using round_half_up_nonneg by (intro divide_nonneg_pos) simp_all
  with amount base rate created(9,12)
  have "commission_ok (new_commission other now data invoice sub a sid config base (effective_rate p config) amount)"
    by (simp add: commission_ok_def new_commission_def)
  moreover have "co_provider_invoice_id (new_commission other now data invoice sub a sid config base (effective_rate p config) amount)
      \<notin> co_provider_invoice_id ` set (ad_commissions d1)"
    using created(1) d1(3) commissions.get_None [of d invoice] by (simp add: new_commission_def)
  ultimately show ?thesis using d1(1) created(13,14) by (auto simp: affiliates_ok_def)
qed

section \<open>Reversals\<close>

lemma reversed_part_bounds:
  assumes "reversed_part c refund = Inr part" "commission_ok c"
  shows "part \<le> co_commission_amount c"
proof -
  let ?a = "co_commission_amount c"
  define ratio where "ratio = (if co_commission_base c \<noteq> 0 then min 1 (dec_div refund (co_commission_base c)) else 1)"
  define y where "y = ?a * ratio"
  obtain n :: int where n: "?a = of_int n / 100" using assms(2) by (auto simp: commission_ok_def)
  have a: "0 \<le> ?a" using assms(2) by (simp add: commission_ok_def)
  have top: "?a < 10 ^ 12" using assms(2) unfolding commission_ok_def fits_money_def by linarith
  have part: "part = of_int (round_half_up (dec_round y * 100)) / 100"
    using assms(1) quantize_money_Inr by (simp add: reversed_part_def Let_def ratio_def y_def)
  have "ratio \<le> 1" by (simp add: ratio_def)
  then have y: "y \<le> ?a" using a mult_left_mono [of ratio 1 ?a] by (simp add: y_def)
  have err: "dec_round y \<le> y + \<bar>y\<bar> / (2 * 10 ^ 27)" using dec_round_error [of y] by linarith
  have "dec_round y * 100 < of_int n + 1 / 2"
  proof (cases "0 \<le> y")
    case True
    have "\<bar>y\<bar> / (2 * 10 ^ 27) < 1 / 200" using True y top by (simp add: field_simps)
    with err y n show ?thesis by linarith
  next
    case False
    then have "y + \<bar>y\<bar> / (2 * 10 ^ 27) \<le> 0" by (simp add: field_simps)
    with err a n show ?thesis by (simp add: field_simps)
  qed
  then have "round_half_up (dec_round y * 100) \<le> n" by (rule round_half_up_le)
  then show ?thesis unfolding part n by (simp add: divide_right_mono)
qed

lemma reverse_to_ok:
  assumes "commission_ok c" "part \<le> co_commission_amount c" "co_status c \<noteq> Com_reversed"
  shows "commission_ok (reverse_to now reason part c) \<and> co_provider_invoice_id (reverse_to now reason part c) = co_provider_invoice_id c"
  using assms by (auto simp: commission_ok_def reverse_to_def Let_def)

lemma get_commission_for_reversal_in:
  "get_commission_for_reversal d payment invoice = Some c \<Longrightarrow> c \<in> set (ad_commissions d)"
proof -
  assume h: "get_commission_for_reversal d payment invoice = Some c"
  have "c \<in> set (sorted_by_desc co_created_at (filter (\<lambda>c. co_provider_payment_id c = Some k) (ad_commissions d)))"
    if "(case sorted_by_desc co_created_at (filter (\<lambda>c. co_provider_payment_id c = Some k) (ad_commissions d)) of
             [] \<Rightarrow> None | c # _ \<Rightarrow> Some c) = Some c" for k
    using that by (cases "sorted_by_desc co_created_at (filter (\<lambda>c. co_provider_payment_id c = Some k) (ad_commissions d))")
      (simp_all del: set_sorted_by)
  with h show ?thesis
    using commissions.get_Some by (fastforce simp: get_commission_for_reversal_def split: option.splits)
qed

lemma reverse_commission_cases:
  assumes "reverse_commission other now data reason d = Inr (r, d')"
  obtains (unchanged) "r = None" "d' = d"
  | (reversal) c refund part where "c \<in> set (ad_commissions d)" "co_status c \<noteq> Com_reversed" "co_status c \<noteq> Com_paid"
      "reversed_part c refund = Inr part" "r = Some (reverse_to now reason part c)" "d' = put_commission (reverse_to now reason part c) d"
  using assms get_commission_for_reversal_in
  by (fastforce simp: reverse_commission_def Let_def split: option.splits if_splits sum.splits)

lemma commissions_ok:
  assumes "affiliates_ok d" "map co_provider_invoice_id cs = map co_provider_invoice_id (ad_commissions d)" "\<forall>c \<in> set cs. commission_ok c"
  shows "affiliates_ok (d \<lparr>ad_commissions := cs\<rparr>)"
  using assms(1,3) by (simp add: affiliates_ok_def assms(2))

lemma put_commission_ok:
  assumes "affiliates_ok d" "commission_ok c"
  shows "affiliates_ok (put_commission c d)"
proof -
  have "\<forall>x \<in> set (ad_commissions (put_commission c d)). commission_ok x"
    using assms commissions.in_put [of _ c d] unfolding affiliates_ok_def by blast
  moreover have "put_commission c d = d \<lparr>ad_commissions := ad_commissions (put_commission c d)\<rparr>"
    by (cases d) (simp add: put_commission_def)
  ultimately show ?thesis using commissions_ok [OF assms(1) commissions.keys_put] by metis
qed

lemma reverse_commission_ok:
  assumes "reverse_commission other now data reason d = Inr (r, d')" "affiliates_ok d"
  shows "affiliates_ok d'"
  using assms(1)
proof (cases rule: reverse_commission_cases)
  case (reversal c refund part)
  have "commission_ok c" using assms(2) reversal(1) by (simp add: affiliates_ok_def)
  with reversal have "commission_ok (reverse_to now reason part c)" using reverse_to_ok reversed_part_bounds by blast
  with put_commission_ok assms(2) reversal show ?thesis by simp
qed (use assms(2) in simp)

lemma release_ok:
  assumes "affiliates_ok d" shows "affiliates_ok (release_due_commissions u now d)"
  unfolding release_due_commissions_def
proof (rule commissions_ok [OF assms])
  have "commission_ok (c \<lparr>co_status := Com_available\<rparr>)" if "commission_ok c" "co_status c = Com_pending" for c
    using that unfolding commission_ok_def by simp
  then show "\<forall>c \<in> set (map (\<lambda>c. if co_affiliate_user_id c = u \<and> co_status c = Com_pending \<and> co_release_at c \<le> now
      then c \<lparr>co_status := Com_available\<rparr> else c) (ad_commissions d)). commission_ok c"
    using assms by (auto simp: affiliates_ok_def)
qed simp

lemma dashboard_db:
  "dashboard choice u now d = Inr (r, d') \<Longrightarrow> \<exists>p d1. ensure_profile choice u d = Inr (p, d1)
     \<and> d' = release_due_commissions u now (snd (get_or_create_settings d1))"
  by (cases "ensure_profile choice u d") (auto simp: dashboard_def Let_def split: prod.splits)

lemma dashboard_ok: "dashboard choice u now d = Inr (r, d') \<Longrightarrow> affiliates_ok d \<Longrightarrow> affiliates_ok d'"
  using dashboard_db ensure_profile_ok get_or_create_settings_ok release_ok by (metis prod.collapse)

lemma update_affiliate_settings_ok:
  "valid_settings_request q \<Longrightarrow> affiliates_ok d \<Longrightarrow> affiliates_ok (update_affiliate_settings actor q d)"
proof -
  assume q: "valid_settings_request q" and ok: "affiliates_ok d"
  obtain c d1 where d1: "get_or_create_settings d = (c, d1)" by force
  have "affiliates_ok d1" using get_or_create_settings_ok [OF d1 ok] by blast
  then show ?thesis using q d1
    by (auto simp: update_affiliate_settings_def Let_def affiliates_ok_def audit_def valid_settings_request_def comp_def)
qed

lemma update_user_rate_ok:
  assumes "update_user_rate choice ex actor u rate reason d = Inr d'" "affiliates_ok d" "\<forall>r. rate = Some r \<longrightarrow> valid_rate r"
  shows "affiliates_ok d'"
proof -
  obtain p d1 where d1: "ensure_profile choice u d = Inr (p, d1)"
      and d': "d' = audit actor (Some u) ''affiliate.rate.updated'' (Some reason) (put_profile (p \<lparr>ap_commission_rate_override := rate\<rparr>) d1)"
    using assms(1) by (auto simp: update_user_rate_def split: if_splits sum.splits prod.splits)
  have ok: "affiliates_ok d1" and p: "get_profile d1 u = Some p" using ensure_profile_ok [OF d1 assms(2)] by auto
  have pin: "p \<in> set (ad_profiles d1)" "ap_user_id p = u" using profiles.get_Some [OF p] by auto
  let ?q = "p \<lparr>ap_commission_rate_override := rate\<rparr>"
  have "map ap_code (ad_profiles (put_profile ?q d1)) = map ap_code (ad_profiles d1)"
  proof -
    have "x = p" if "x \<in> set (ad_profiles d1)" "ap_user_id x = ap_user_id p" for x
      using that pin ok by (auto simp: affiliates_ok_def distinct_map inj_on_def)
    then show ?thesis by (auto simp: put_profile_def row_put_def)
  qed
  moreover have "\<forall>x \<in> set (ad_profiles (put_profile ?q d1)). \<forall>r. ap_commission_rate_override x = Some r \<longrightarrow> valid_rate r"
  proof (intro ballI allI impI)
    fix x r assume "x \<in> set (ad_profiles (put_profile ?q d1))" "ap_commission_rate_override x = Some r"
    then consider "x = ?q" | "x \<in> set (ad_profiles d1)" using profiles.in_put by blast
    then show "valid_rate r"
      using ok assms(3) \<open>ap_commission_rate_override x = Some r\<close> by cases (auto simp: affiliates_ok_def)
  qed
  ultimately have "affiliates_ok (put_profile ?q d1)"
    using ok profiles.keys_put [of ?q d1] unfolding affiliates_ok_def by (simp add: put_profile_def)
  then show ?thesis by (simp add: d' audit_def affiliates_ok_def)
qed

end
