(* ===== verification/Billing_Invariant.thy ===== *)
theory Billing_Invariant
  imports Billing Affiliate_Ledger
begin

text \<open>
  What the billing tables always satisfy, over any sequence of webhooks, checkouts, cancellations and affiliate
  operations: one subscription per user and per provider identifier, every event claimed once, tiers that fit
  their plan, a grace period exactly where one is due, and the affiliate ledger.
\<close>

section \<open>The invariant\<close>

definition valid_tier :: "billing_plan \<Rightarrow> int \<Rightarrow> bool" where
  "valid_tier plan n \<longleftrightarrow> (case plan of Plan_journal \<Rightarrow> n = 0 | Plan_copy \<Rightarrow> 1 \<le> n \<and> n \<le> 10)"

definition subscription_ok :: "billing_subscription \<Rightarrow> bool" where
  "subscription_ok s \<longleftrightarrow> valid_tier (sub_plan s) (sub_copy_account_limit s)
     \<and> (case (sub_pending_plan s, sub_pending_copy_account_limit s) of
          (None, None) \<Rightarrow> True | (Some plan, Some n) \<Rightarrow> valid_tier plan n | _ \<Rightarrow> False)
     \<and> (sub_status s = Bill_active \<longrightarrow> sub_grace_ends_at s = None)
     \<and> (sub_status s = Bill_past_due \<longrightarrow> sub_grace_ends_at s \<noteq> None)"

definition billing_ok :: "billing_db \<Rightarrow> bool" where
  "billing_ok d \<longleftrightarrow> distinct (map sub_user_id (bd_subscriptions d)) \<and> distinct (map sub_provider_subscription_id (bd_subscriptions d))
     \<and> (\<forall>s \<in> set (bd_subscriptions d). subscription_ok s) \<and> distinct (map fst (bd_webhook_events d)) \<and> affiliates_ok (bd_affiliates d)"

section \<open>Catalogue\<close>

definition catalog_ok :: "product_catalog \<Rightarrow> bool" where
  "catalog_ok c \<longleftrightarrow> distinct (map fst (pc_copy_product_ids c)) \<and> distinct (pc_journal_product_id c # map snd (pc_copy_product_ids c))
     \<and> fst ` set (pc_copy_product_ids c) = {1..10}"

lemma distinct_fold_update:
  "distinct (map fst acc) \<Longrightarrow> distinct (map fst (fold (\<lambda>(k, v). AList.update k (f v)) xs acc))"
  by (induction xs arbitrary: acc) (auto simp: distinct_update)

lemma tiers_upt: "set (map int [1..<max_copy_accounts + 1]) = {1..10}"
proof -
  have "{1..10 :: int} = int ` {1..10}" by (metis image_int_atLeastAtMost of_nat_1 of_nat_numeral)
  moreover have "set [1..<max_copy_accounts + 1] = {1..10 :: nat}" by (auto simp: max_copy_accounts_def)
  ultimately show ?thesis by (metis list.set_map)
qed

lemma catalog_from_settings_ok: "catalog_from_settings journal raw = Inr c \<Longrightarrow> catalog_ok c"
proof -
  assume h: "catalog_from_settings journal raw = Inr c"
  then obtain items where raw: "raw = Some items" by (auto simp: catalog_from_settings_def split: option.splits)
  define copies where "copies = fold (\<lambda>(k, v). AList.update k (py_strip v)) items []"
  have "distinct (map fst copies)" unfolding copies_def by (rule distinct_fold_update) simp
  moreover have "c = \<lparr>pc_journal_product_id = py_strip journal, pc_copy_product_ids = copies\<rparr>" "set (map fst copies) = {1..10}"
      "distinct (py_strip journal # map snd copies)"
    using h unfolding catalog_from_settings_def raw tiers_upt option.case Let_def copies_def [symmetric]
    by (simp_all split: if_splits)
  ultimately show ?thesis by (simp add: catalog_ok_def)
qed

lemma catalog_of_ok: "catalog_of env = Inr c \<Longrightarrow> catalog_ok c"
  by (simp add: catalog_of_def catalog_from_settings_ok)

lemma entitlement_for_tier:
  assumes "catalog_ok c" "entitlement_for c p = Inr (plan, n)"
  shows "valid_tier plan n"
proof (cases "p = pc_journal_product_id c")
  case True
  with assms(2) show ?thesis by (auto simp: entitlement_for_def valid_tier_def)
next
  case False
  then obtain q where "(n, q) \<in> set (pc_copy_product_ids c)" "plan = Plan_copy"
    using assms(2) by (auto simp: entitlement_for_def dest!: find_SomeD split: option.splits)
  then have "n \<in> {1..10}" using assms(1) unfolding catalog_ok_def by (metis fst_conv image_eqI)
  with \<open>plan = Plan_copy\<close> show ?thesis by (simp add: valid_tier_def)
qed

lemma product_for_tier:
  assumes "catalog_ok c" "product_for c plan n = Inr p" "plan = Plan_journal \<Longrightarrow> n = 0"
  shows "valid_tier plan n"
proof (cases plan)
  case Plan_journal
  with assms(3) show ?thesis by (simp add: valid_tier_def)
next
  case Plan_copy
  then have "n \<in> fst ` set (pc_copy_product_ids c)"
    using assms(2) by (auto simp: product_for_def image_iff dest!: map_of_SomeD split: option.splits intro!: bexI)
  with assms(1) Plan_copy show ?thesis by (simp add: catalog_ok_def valid_tier_def)
qed

section \<open>Subscriptions\<close>

interpretation subscriptions: keyed_table sub_user_id bd_subscriptions bd_subscriptions_update get_subscription put_subscription
  by unfold_locales (simp_all add: get_subscription_def put_subscription_def)

lemma get_by_provider_Some:
  "get_subscription_by_provider_id d k = Some s \<Longrightarrow> s \<in> set (bd_subscriptions d) \<and> sub_provider_subscription_id s = k"
  by (auto simp: get_subscription_by_provider_id_def row_get_def dest!: find_SomeD)

lemma distinct_put_provider:
  assumes "distinct (map sub_user_id xs)" "distinct (map sub_provider_subscription_id xs)"
    "\<And>x. x \<in> set xs \<Longrightarrow> sub_user_id x \<noteq> sub_user_id s \<Longrightarrow> sub_provider_subscription_id x \<noteq> sub_provider_subscription_id s"
  shows "distinct (map sub_provider_subscription_id (row_put sub_user_id s xs))"
  using assms
proof (induction xs)
  case (Cons x xs)
  have keep: "row_put sub_user_id s xs = xs" if "sub_user_id s = sub_user_id x"
  proof -
    have "sub_user_id y \<noteq> sub_user_id s" if "y \<in> set xs" for y
      using that \<open>sub_user_id s = sub_user_id x\<close> Cons.prems(1) by (metis distinct.simps(2) image_eqI list.set_map list.simps(9))
    then show ?thesis unfolding row_put_def by (intro map_idI) simp
  qed
  have other: "sub_provider_subscription_id y \<noteq> sub_provider_subscription_id x"
    if "y \<in> set (row_put sub_user_id s xs)" "sub_user_id x \<noteq> sub_user_id s" for y
  proof -
    from that(1) have "y = s \<or> y \<in> set xs" by (auto simp: row_put_def)
    then show ?thesis using Cons.prems(2,3) that(2) by (metis distinct.simps(2) image_eqI list.set_intros(1) list.set_map list.simps(9))
  qed
  have rest: "distinct (map sub_provider_subscription_id (row_put sub_user_id s xs))"
    using Cons by simp
  show ?case
  proof (cases "sub_user_id x = sub_user_id s")
    case True
    have "sub_user_id y \<noteq> sub_user_id s" if "y \<in> set xs" for y
      using that True Cons.prems(1) by (metis distinct.simps(2) image_eqI list.set_map list.simps(9))
    then have "sub_provider_subscription_id s \<notin> sub_provider_subscription_id ` set xs" using Cons.prems(3) by fastforce
    moreover have "row_put sub_user_id s (x # xs) = s # xs" using keep True by (simp add: row_put_def)
    ultimately show ?thesis using Cons.prems(2) by simp
  next
    case False
    have "row_put sub_user_id s (x # xs) = x # row_put sub_user_id s xs" using False by (simp add: row_put_def)
    with False other rest show ?thesis by force
  qed
qed (simp add: row_put_def)

lemma store_subscription_ok:
  assumes "store_subscription s d = Inr d'" "billing_ok d" "subscription_ok s"
  shows "billing_ok d' \<and> bd_webhook_events d' = bd_webhook_events d \<and> bd_affiliates d' = bd_affiliates d \<and> bd_users d' = bd_users d"
proof (cases "get_subscription d (sub_user_id s)")
  case None
  with assms show ?thesis
    using subscriptions.get_None [of d "sub_user_id s"]
    by (auto simp: store_subscription_def billing_ok_def list_ex_iff split: if_splits) (metis image_eqI)+
next
  case (Some x)
  then have d': "d' = put_subscription s d"
    and free: "\<And>x. x \<in> set (bd_subscriptions d) \<Longrightarrow> sub_user_id x \<noteq> sub_user_id s \<Longrightarrow> sub_provider_subscription_id x \<noteq> sub_provider_subscription_id s"
    using assms(1) by (auto simp: store_subscription_def list_ex_iff split: if_splits)
  have "distinct (map sub_provider_subscription_id (bd_subscriptions d'))"
    unfolding d' subscriptions.rows_put
    by (rule distinct_put_provider) (use assms(2) free in \<open>auto simp: billing_ok_def\<close>)
  moreover have "\<forall>y \<in> set (bd_subscriptions d'). subscription_ok y"
    using assms(2,3) subscriptions.in_put [of _ s d] unfolding d' billing_ok_def by blast
  moreover have "map sub_user_id (bd_subscriptions d') = map sub_user_id (bd_subscriptions d)"
    unfolding d' by (rule subscriptions.keys_put)
  moreover have "bd_webhook_events d' = bd_webhook_events d" "bd_affiliates d' = bd_affiliates d" "bd_users d' = bd_users d"
    by (simp_all add: d' put_subscription_def)
  ultimately show ?thesis using assms(2) unfolding billing_ok_def by (simp only:)
qed

lemma with_plan_frame [simp]:
  "sub_status (with_plan now plan n s) = sub_status s" "sub_user_id (with_plan now plan n s) = sub_user_id s"
  "sub_grace_ends_at (with_plan now plan n s) = sub_grace_ends_at s"
  by (simp_all add: with_plan_def)

lemma with_plan_tier:
  assumes "subscription_ok s" "valid_tier plan n"
  shows "valid_tier (sub_plan (with_plan now plan n s)) (sub_copy_account_limit (with_plan now plan n s))
    \<and> (case (sub_pending_plan (with_plan now plan n s), sub_pending_copy_account_limit (with_plan now plan n s)) of
          (None, None) \<Rightarrow> True | (Some p, Some m) \<Rightarrow> valid_tier p m | _ \<Rightarrow> False)"
  using assms by (simp add: with_plan_def subscription_ok_def)

lemma grace_after_ok:
  "grace_after env now Bill_active g = None" "grace_after env now Bill_past_due g \<noteq> None"
  by (simp_all add: grace_after_def)

lemma apply_subscription_payload_cases:
  assumes "apply_subscription_payload env now p catalog (Some s) deleted d = Inr s'"
  obtains sid product plan n st where "entitlement_for catalog product = Inr (plan, n)" "status_of env (dict_get p ''status'') deleted = Inr st"
    "sub_user_id s' = sub_user_id s" "sub_provider_subscription_id s' = sid"
    "sub_status s' = st" "sub_grace_ends_at s' = grace_after env now st (sub_grace_ends_at s)"
    "sub_plan s' = sub_plan (with_plan now plan n s)" "sub_copy_account_limit s' = sub_copy_account_limit (with_plan now plan n s)"
    "sub_pending_plan s' = sub_pending_plan (with_plan now plan n s)"
    "sub_pending_copy_account_limit s' = sub_pending_copy_account_limit (with_plan now plan n s)"
proof -
  obtain sid product where ids: "or_value (dict_get p ''subscription_id'') (dict_get p ''id'') = PStr sid"
      "or_value (dict_get p ''product_id'') (dict_get (nested p ''product'') ''id'') = PStr product"
    using assms by (auto simp: apply_subscription_payload_def split: pyval.splits)
  obtain plan n st starts ends canceled where parts: "entitlement_for catalog product = Inr (plan, n)"
      "status_of env (dict_get p ''status'') deleted = Inr st"
      "parse_datetime env (dict_get p ''current_period_start'') = Inr starts"
      "parse_datetime env (dict_get p ''current_period_end'') = Inr ends" "parse_datetime env (dict_get p ''canceled_at'') = Inr canceled"
    using assms by (auto simp: apply_subscription_payload_def ids split: sum.splits)
  show thesis
    by (rule that [OF parts(1,2)]) (use assms in \<open>auto simp: apply_subscription_payload_def ids parts Let_def\<close>)
qed

lemma apply_subscription_payload_ok:
  assumes "apply_subscription_payload env now p catalog (Some s) deleted d = Inr s'" "catalog_ok catalog" "subscription_ok s"
  shows "subscription_ok s' \<and> sub_user_id s' = sub_user_id s"
  using assms(1)
proof (rule apply_subscription_payload_cases)
  fix sid product plan n st
  assume h: "entitlement_for catalog product = Inr (plan, n)" "sub_user_id s' = sub_user_id s"
    "sub_status s' = st" "sub_grace_ends_at s' = grace_after env now st (sub_grace_ends_at s)"
    "sub_plan s' = sub_plan (with_plan now plan n s)" "sub_copy_account_limit s' = sub_copy_account_limit (with_plan now plan n s)"
    "sub_pending_plan s' = sub_pending_plan (with_plan now plan n s)"
    "sub_pending_copy_account_limit s' = sub_pending_copy_account_limit (with_plan now plan n s)"
  have "valid_tier plan n" using entitlement_for_tier [OF assms(2) h(1)] .
  from with_plan_tier [OF assms(3) this, of now] show ?thesis
    using h grace_after_ok by (auto simp: subscription_ok_def)
qed

section \<open>Webhooks\<close>

definition keeps :: "billing_db \<Rightarrow> billing_db \<Rightarrow> bool" where
  "keeps d d' \<longleftrightarrow> billing_ok d' \<and> bd_webhook_events d' = bd_webhook_events d"

lemma keeps_refl: "billing_ok d \<Longrightarrow> keeps d d"
  by (simp add: keeps_def)

lemma store_keeps: "store_subscription s d = Inr d' \<Longrightarrow> billing_ok d \<Longrightarrow> subscription_ok s \<Longrightarrow> keeps d d'"
  using store_subscription_ok by (simp add: keeps_def)

lemma apply_and_store_keeps:
  "apply_and_store env now data (Some s) deleted d = Inr d' \<Longrightarrow> billing_ok d \<Longrightarrow> subscription_ok s \<Longrightarrow> keeps d d'"
  using catalog_of_ok apply_subscription_payload_ok store_keeps
  by (fastforce simp: apply_and_store_def split: sum.splits)

lemma first_subscription_ok:
  "first_subscription env u sid data catalog = Inr s \<Longrightarrow> catalog_ok catalog \<Longrightarrow> subscription_ok s"
  using entitlement_for_tier by (auto simp: first_subscription_def subscription_ok_def Let_def split: sum.splits)

lemma link_subscription_keeps:
  assumes "link_subscription env now sid data d = Inr d'" "billing_ok d"
  shows "keeps d d'"
proof -
  obtain user where user: "user_for_new_subscription env data d = Some user"
    using assms(1) by (auto simp: link_subscription_def split: option.splits)
  show ?thesis
  proof (cases "get_subscription d (bu_id user)")
    case None
    with assms(1) user obtain catalog s where "catalog_of env = Inr catalog" "first_subscription env (bu_id user) sid data catalog = Inr s"
        "apply_and_store env now data (Some s) False d = Inr d'"
      by (auto simp: link_subscription_def split: sum.splits)
    with assms(2) show ?thesis using apply_and_store_keeps first_subscription_ok catalog_of_ok by blast
  next
    case (Some s)
    then have "subscription_ok s" using assms(2) subscriptions.get_Some by (auto simp: billing_ok_def)
    with Some assms user show ?thesis
      using apply_and_store_keeps keeps_refl by (auto simp: link_subscription_def split: if_splits)
  qed
qed

lemma by_provider_ok: "get_subscription_by_provider_id d k = Some s \<Longrightarrow> billing_ok d \<Longrightarrow> subscription_ok s"
  using get_by_provider_Some by (auto simp: billing_ok_def)

lemma handle_subscription_event_keeps:
  assumes "handle_subscription_event env now kind data d = Inr d'" "billing_ok d"
  shows "keeps d d'"
proof -
  define sub where "sub = (if truthy (or_value (dict_get data ''subscription_id'') (dict_get data ''id''))
    then get_subscription_by_provider_id d (text_of (be_str env) (or_value (dict_get data ''subscription_id'') (dict_get data ''id''))) else None)"
  show ?thesis
  proof (cases sub)
    case None
    with assms show ?thesis using link_subscription_keeps keeps_refl
      by (auto simp: handle_subscription_event_def Let_def sub_def split: if_splits)
  next
    case (Some s)
    then have "subscription_ok s" using by_provider_ok assms(2) by (auto simp: sub_def split: if_splits)
    with Some assms show ?thesis
      using apply_and_store_keeps by (auto simp: handle_subscription_event_def Let_def sub_def [symmetric])
  qed
qed

lemma payment_failed_keeps:
  assumes "payment_failed env now data d = Inr d'" "billing_ok d" shows "keeps d d'"
proof (cases "get_subscription_by_provider_id d (text_of (be_str env) (dict_get (nested data ''subscription'') ''subscription_id''))")
  case (Some s)
  then have "subscription_ok s" using by_provider_ok assms(2) by blast
  then have "subscription_ok (s \<lparr>sub_status := Bill_past_due, sub_grace_ends_at := grace_after env now Bill_past_due (sub_grace_ends_at s)\<rparr>)"
    using grace_after_ok by (simp add: subscription_ok_def)
  with Some assms store_keeps show ?thesis by (auto simp: payment_failed_def)
qed (use assms keeps_refl in \<open>auto simp: payment_failed_def\<close>)

lemma billing_ok_affiliates: "billing_ok d \<Longrightarrow> affiliates_ok a \<Longrightarrow> keeps d (d \<lparr>bd_affiliates := a\<rparr>)"
  by (simp add: billing_ok_def keeps_def)

lemma invoice_paid_keeps:
  assumes "invoice_paid env now data d = Inr d'" "billing_ok d" shows "keeps d d'"
proof -
  define v where "v = or_value (or_value (dict_get data ''subscription_id'') (dict_get (nested data ''subscription'') ''subscription_id''))
      (dict_get (nested data ''subscription'') ''id'')"
  show ?thesis
  proof (cases "get_subscription_by_provider_id d (text_of (be_str env) v)")
    case None
    with assms keeps_refl show ?thesis by (auto simp: invoice_paid_def Let_def v_def)
  next
    case (Some s)
    show ?thesis
    proof (cases "sub_status s = Bill_canceled")
      case True
      with Some assms keeps_refl show ?thesis by (auto simp: invoice_paid_def Let_def v_def)
    next
      case False
      let ?s = "s \<lparr>sub_status := Bill_active, sub_grace_ends_at := None\<rparr>"
      from False Some assms(1) obtain d1 r a where d1: "store_subscription ?s d = Inr d1"
        and a: "create_commission_from_paid_invoice (be_str env) (get_subscription_by_provider_id d1) now data (bd_affiliates d1) = Inr (r, a)"
        and d': "d' = d1 \<lparr>bd_affiliates := a\<rparr>"
        by (auto simp: invoice_paid_def Let_def v_def split: sum.splits)
      have "subscription_ok s" using by_provider_ok [OF Some assms(2)] .
      then have "subscription_ok ?s" by (simp add: subscription_ok_def)
      then have k: "keeps d d1" using store_keeps [OF d1 assms(2)] by blast
      then have "affiliates_ok (bd_affiliates d1)" by (simp add: keeps_def billing_ok_def)
      then have "affiliates_ok a" by (rule create_commission_ok [OF a])
      with k show ?thesis unfolding d' using billing_ok_affiliates [of d1 a] by (simp add: keeps_def)
    qed
  qed
qed

lemma refunded_keeps: "refunded env now data reason d = Inr d' \<Longrightarrow> billing_ok d \<Longrightarrow> keeps d d'"
  using reverse_commission_ok billing_ok_affiliates
  by (fastforce simp: refunded_def billing_ok_def split: sum.splits)

lemma handle_event_keeps: "handle_event env now kind data d = Inr d' \<Longrightarrow> billing_ok d \<Longrightarrow> keeps d d'"
  using handle_subscription_event_keeps payment_failed_keeps invoice_paid_keeps refunded_keeps keeps_refl
  by (auto simp: handle_event_def split: if_splits)

lemma process_webhook_cases:
  assumes "process_webhook_event env now event d = (r, d')"
  obtains (rejected) e where "r = Inl e" "d' = d"
  | (repeated) k where "dict_get event ''id'' = PStr k" "k \<in> fst ` set (bd_webhook_events d)" "r = Inr False" "d' = d"
  | (handled) k kind data where "dict_get event ''id'' = PStr k" "dict_get event ''type'' = PStr kind" "dict_get event ''data'' = PDict data"
      "k \<notin> fst ` set (bd_webhook_events d)" "r = Inr True"
      "handle_event env now kind data (d \<lparr>bd_webhook_events := bd_webhook_events d @ [(k, kind)]\<rparr>) = Inr d'"
proof (cases "\<exists>k kind data. dict_get event ''id'' = PStr k \<and> dict_get event ''type'' = PStr kind \<and> dict_get event ''data'' = PDict data")
  case False
  then have "process_webhook_event env now event d = (value_error ''Invalid Bachs webhook envelope'', d)"
    by (auto simp: process_webhook_event_def split: pyval.splits)
  with assms show ?thesis by (intro rejected) (auto simp: value_error_def)
next
  case True
  then obtain k kind data where ids: "dict_get event ''id'' = PStr k" "dict_get event ''type'' = PStr kind" "dict_get event ''data'' = PDict data"
    by blast
  show ?thesis
  proof (cases "k \<in> fst ` set (bd_webhook_events d)")
    case True
    with assms ids show ?thesis by (intro repeated [OF ids(1) True]) (simp_all add: process_webhook_event_def claim_webhook_event_def)
  next
    case False
    let ?d = "d \<lparr>bd_webhook_events := bd_webhook_events d @ [(k, kind)]\<rparr>"
    have run: "process_webhook_event env now event d =
        (case handle_event env now kind data ?d of Inl e \<Rightarrow> (Inl e, d) | Inr d' \<Rightarrow> (Inr True, d'))"
      using False ids by (simp add: process_webhook_event_def claim_webhook_event_def)
    show ?thesis
    proof (cases "handle_event env now kind data ?d")
      case (Inl e)
      with run assms show ?thesis by (intro rejected [of e]) simp_all
    next
      case (Inr x)
      with run assms show ?thesis by (intro handled [OF ids False]) simp_all
    qed
  qed
qed

lemma process_webhook_ok:
  assumes "process_webhook_event env now event d = (r, d')" "billing_ok d" shows "billing_ok d'"
  using assms(1)
proof (cases rule: process_webhook_cases)
  case (handled k kind data)
  have "billing_ok (d \<lparr>bd_webhook_events := bd_webhook_events d @ [(k, kind)]\<rparr>)"
    using assms(2) handled(4) by (simp add: billing_ok_def)
  with handle_event_keeps [OF handled(6)] show ?thesis by (simp add: keeps_def)
qed (use assms(2) in simp_all)

section \<open>Checkout and cancellation\<close>

lemma guard_frame [simp]: "bw_db (guard_set now u v w) = bw_db w" "bw_db (guard_release env u w) = bw_db w"
  by (simp_all add: guard_set_def guard_release_def)

lemma open_checkout_db: "bw_db (snd (open_checkout env now u product w)) = bw_db w"
  by (auto simp: open_checkout_def guard_acquire_def guard_store_def guard_unavailable_def http_raise_def Let_def
      split: option.split sum.split pyval.split)

lemma change_plan_ok:
  assumes "change_plan env now catalog s plan n product w = (r, w')" "billing_ok (bw_db w)" "subscription_ok s" "catalog_ok catalog" "valid_tier plan n"
  shows "billing_ok (bw_db w')"
proof (cases "bw_db w' = bw_db w")
  case False
  define sched where "sched = s \<lparr>sub_provider_product_id := product, sub_pending_plan := Some plan,
      sub_pending_copy_account_limit := Some n, sub_pending_effective_at := sub_current_period_end s\<rparr>"
  from False assms(1) obtain s' d where st: "store_subscription s' (bw_db w) = Inr d" "bw_db w' = d"
      and s': "s' = sched \<or> (\<exists>p. apply_subscription_payload env now p catalog (Some s) False (bw_db w) = Inr s')"
    by (auto simp: change_plan_def Let_def sched_def http_raise_def split: if_splits sum.splits) blast+
  have "subscription_ok sched" using assms(3,5) by (simp add: sched_def subscription_ok_def)
  then have "subscription_ok s'" using s' apply_subscription_payload_ok assms(3,4) by blast
  with st assms(2) store_keeps show ?thesis by (auto simp: keeps_def)
qed (use assms(2) in simp)

lemma start_checkout_ok:
  assumes "billing_ok (bw_db w)"
  shows "billing_ok (bw_db (snd (start_checkout_or_change_plan env now u plan accounts w)))"
proof -
  define n where "n = (if plan = Plan_copy then accounts else 0)"
  show ?thesis
  proof (cases "\<exists>catalog product s. catalog_of env = Inr catalog \<and> product_for catalog plan n = Inr product
      \<and> get_subscription (bw_db w) u = Some s \<and> \<not> closed_status (sub_status s)")
    case True
    then obtain catalog product s where h: "catalog_of env = Inr catalog" "product_for catalog plan n = Inr product"
        "get_subscription (bw_db w) u = Some s" "\<not> closed_status (sub_status s)" by blast
    have "subscription_ok s" using h(3) assms subscriptions.get_Some by (auto simp: billing_ok_def)
    moreover have "catalog_ok catalog" using h(1) by (rule catalog_of_ok)
    moreover have "valid_tier plan n" by (rule product_for_tier [OF \<open>catalog_ok catalog\<close> h(2)]) (simp add: n_def)
    ultimately have "billing_ok (bw_db (snd (change_plan env now catalog s plan n product w)))"
      using change_plan_ok [OF surjective_pairing assms] by blast
    with h show ?thesis by (simp add: start_checkout_or_change_plan_def n_def Let_def)
  next
    case False
    then have "bw_db (snd (start_checkout_or_change_plan env now u plan accounts w)) = bw_db w"
      using open_checkout_db unfolding start_checkout_or_change_plan_def Let_def n_def [symmetric]
      by (auto split: sum.splits option.splits)
    with assms show ?thesis by simp
  qed
qed

lemma cancel_subscription_ok:
  assumes "cancel_subscription env u w = (r, w')" "billing_ok (bw_db w)"
  shows "billing_ok (bw_db w')"
proof (cases "bw_db w' = bw_db w")
  case False
  obtain s where s: "get_subscription (bw_db w) u = Some s"
    using False assms(1) by (auto simp: cancel_subscription_def http_raise_def split: option.splits)
  have "subscription_ok s" using s assms(2) subscriptions.get_Some by (auto simp: billing_ok_def)
  then have "subscription_ok (s \<lparr>sub_cancel_at_period_end := b, sub_current_period_end := t\<rparr>)" for b t
    by (simp add: subscription_ok_def)
  then have st: "billing_ok d" if "store_subscription (s \<lparr>sub_cancel_at_period_end := b, sub_current_period_end := t\<rparr>) (bw_db w) = Inr d" for b t d
    using that store_keeps assms(2) by (auto simp: keeps_def)
  from False assms(1) s show ?thesis
    unfolding cancel_subscription_def Let_def http_raise_def by (simp split: if_splits sum.splits prod.splits) (use st in auto)
qed (use assms(2) in simp)

section \<open>Steps\<close>

definition on_affiliates :: "(affiliate_db \<Rightarrow> affiliate_db) \<Rightarrow> billing_world \<Rightarrow> billing_world" where
  "on_affiliates f w = w \<lparr>bw_db := (bw_db w) \<lparr>bd_affiliates := f (bd_affiliates (bw_db w))\<rparr>\<rparr>"

inductive billing_step :: "billing_world \<Rightarrow> billing_world \<Rightarrow> bool" where
  webhook: "process_webhook_event env now event (bw_db w) = (r, d) \<Longrightarrow> billing_step w (w \<lparr>bw_db := d\<rparr>)"
| checkout: "start_checkout_or_change_plan env now u plan accounts w = (r2, w') \<Longrightarrow> billing_step w w'"
| cancel: "cancel_subscription env u w = (r3, w') \<Longrightarrow> billing_step w w'"
| attribute: "attribute_new_user choice u code source campaign (bd_affiliates (bw_db w)) = Inr (x, a) \<Longrightarrow> billing_step w (on_affiliates (\<lambda>_. a) w)"
| look: "dashboard choice u now (bd_affiliates (bw_db w)) = Inr (y, a) \<Longrightarrow> billing_step w (on_affiliates (\<lambda>_. a) w)"
| configure: "valid_settings_request q \<Longrightarrow> billing_step w (on_affiliates (update_affiliate_settings actor q) w)"
| set_rate: "update_user_rate choice ex actor u rate reason (bd_affiliates (bw_db w)) = Inr a \<Longrightarrow> \<forall>x. rate = Some x \<longrightarrow> valid_rate x \<Longrightarrow>
    billing_step w (on_affiliates (\<lambda>_. a) w)"
| register: "billing_step w (w \<lparr>bw_db := (bw_db w) \<lparr>bd_users := us\<rparr>\<rparr>)"

lemma on_affiliates_ok:
  "billing_ok (bw_db w) \<Longrightarrow> (affiliates_ok (bd_affiliates (bw_db w)) \<Longrightarrow> affiliates_ok (f (bd_affiliates (bw_db w)))) \<Longrightarrow>
     billing_ok (bw_db (on_affiliates f w))"
  by (simp add: on_affiliates_def billing_ok_def)

lemma billing_step_ok:
  assumes "billing_step w w'" and ok: "billing_ok (bw_db w)"
  shows "billing_ok (bw_db w')"
  using assms(1)
proof (cases rule: billing_step.cases)
  case (webhook env now event r d)
  then show ?thesis using process_webhook_ok ok by simp
next
  case (checkout env now u plan accounts r)
  then show ?thesis using start_checkout_ok [OF ok] by (metis snd_conv)
next
  case (cancel env u r)
  then show ?thesis using cancel_subscription_ok ok by blast
next
  case (attribute choice u code source campaign x a)
  then show ?thesis using on_affiliates_ok [OF ok] attribute_new_user_ok by simp
next
  case (look choice u now y a)
  then show ?thesis using on_affiliates_ok [OF ok] dashboard_ok by simp
next
  case (configure q actor)
  then show ?thesis using on_affiliates_ok [OF ok] update_affiliate_settings_ok by simp
next
  case (set_rate choice ex actor u rate reason a)
  then show ?thesis using on_affiliates_ok [OF ok] update_user_rate_ok by simp
next
  case (register us)
  then show ?thesis using ok by (simp add: billing_ok_def)
qed

interpretation billing: invariant_system "\<lambda>w. billing_ok (bw_db w)" billing_step "\<lambda>w. billing_ok (bw_db w)"
  by unfold_locales (simp_all add: billing_step_ok)

end
