(* ===== verification/Billing_Properties.thy ===== *)
theory Billing_Properties
  imports Billing_Invariant "HOL-Library.Multiset"
begin

text \<open>
  The properties of billing and of the affiliate programme, with a sample world: a catalogue, a user who was
  referred, his subscription, and the events of the provider.
\<close>

section \<open>Samples\<close>

definition sample_catalog :: product_catalog where
  "sample_catalog = \<lparr>pc_journal_product_id = ''j'', pc_copy_product_ids = map (\<lambda>n. (int n, ''c'' @ show_nat n)) [1..<11]\<rparr>"

definition sample_billing_env :: billing_env where
  "sample_billing_env = \<lparr>be_journal_product_id = ''j'', be_copy_product_ids = Some (pc_copy_product_ids sample_catalog), be_grace_days = 3,
     be_str = \<lambda>_. [], be_parse_iso = \<lambda>_. Some 9000000, be_create_checkout = \<lambda>p u. Inr [(''checkout_url'', PStr (''https://pay/'' @ p))],
     be_change_plan = \<lambda>_ _ _. Inr [], be_cancel_at_period_end = \<lambda>_. Inr [], be_redis_acquire = True, be_redis_store = True,
     be_redis_release = True\<rparr>"

definition sample_affiliates :: affiliate_db where
  "sample_affiliates = \<lparr>ad_settings = None,
     ad_profiles = [\<lparr>ap_user_id = 6, ap_code = ''ABCDEFGH23'', ap_status = Aff_active, ap_commission_rate_override = None\<rparr>],
     ad_attributions = [\<lparr>ra_affiliate_user_id = 6, ra_referred_user_id = 5, ra_referral_code = ''ABCDEFGH23'', ra_source = None,
       ra_campaign = None\<rparr>], ad_commissions = [], ad_audit = []\<rparr>"

definition sample_billing_db :: billing_db where
  "sample_billing_db = \<lparr>bd_users = [\<lparr>bu_id = 5, bu_email = ''a@b'', bu_is_deleted = False\<rparr>], bd_subscriptions = [sample_subscription],
     bd_webhook_events = [], bd_affiliates = sample_affiliates\<rparr>"

definition sample_billing :: billing_world where
  "sample_billing = \<lparr>bw_db = sample_billing_db, bw_guard = \<lambda>_. None, bw_calls = []\<rparr>"

definition sample_invoice :: dict where
  "sample_invoice = [(''invoice_id'', PStr ''in-1''), (''subscription_id'', PStr ''sub-5''), (''amount_paid'', PStr ''29.99'')]"

definition sample_paid :: dict where
  "sample_paid = [(''id'', PStr ''evt-1''), (''type'', PStr ''invoice.paid''), (''data'', PDict sample_invoice)]"

lemma sample_affiliates_ok: "affiliates_ok sample_affiliates"
  by (simp add: affiliates_ok_def sample_affiliates_def)

lemma sample_billing_ok: "billing_ok sample_billing_db"
  using sample_affiliates_ok
  by (simp add: billing_ok_def sample_billing_db_def subscription_ok_def sample_subscription_def valid_tier_def)

lemma sample_catalog_valid: "catalog_of sample_billing_env = Inr sample_catalog"
  by code_simp

lemma sample_paid_run: "fst (process_webhook_event sample_billing_env 5 sample_paid sample_billing_db) = Inr True"
  by code_simp

section \<open>The tables\<close>

text \<open>
  Property C22. Over any sequence of webhooks, checkouts, plan changes, cancellations and affiliate operations the billing
  tables stay consistent: one subscription per user and per provider identifier, each with a tier that fits its
  plan, a grace period when it is past due and none when it is active; every provider event claimed at most once; and an
  affiliate ledger with unique codes, attributions and invoices, no self-referral, and commissions that are their
  rate of their base rounded to the cent with at most all of it reversed.
\<close>

theorem billing_invariant:
  assumes "billing_ok (bw_db w)" and "billing_step\<^sup>*\<^sup>* w w'"
  shows "billing_ok (bw_db w')"
  using billing.steps_inv [OF assms(2,1)] .

theorem billing_invariant_witness:
  "billing_ok (snd (process_webhook_event sample_billing_env 5 sample_paid sample_billing_db))
   \<and> map co_commission_amount (ad_commissions (bd_affiliates (snd (process_webhook_event sample_billing_env 5 sample_paid sample_billing_db)))) = [6]"
proof -
  let ?w = "sample_billing \<lparr>bw_db := snd (process_webhook_event sample_billing_env 5 sample_paid sample_billing_db)\<rparr>"
  have "billing_step sample_billing ?w"
    by (rule billing_step.webhook [of sample_billing_env 5 sample_paid _ "fst (process_webhook_event sample_billing_env 5 sample_paid sample_billing_db)"])
      (simp add: sample_billing_def)
  then have "billing_ok (bw_db ?w)"
    using billing_invariant [of sample_billing ?w] sample_billing_ok by (simp add: sample_billing_def r_into_rtranclp)
  moreover have "map co_commission_amount (ad_commissions (bd_affiliates (snd (process_webhook_event sample_billing_env 5 sample_paid sample_billing_db)))) = [6]"
    by code_simp
  ultimately show ?thesis by simp
qed

section \<open>Webhooks\<close>

text \<open>
  Property C23. An event of the provider takes effect at most once. A delivery that raises leaves the database as it was, so that
  it may be delivered again; after one that does not raise, the event is claimed, and every further delivery answers
  that nothing was processed and changes nothing, whatever the settings and the clock.
\<close>

theorem webhook_exactly_once:
  assumes "process_webhook_event env now event d = (r, d')" and "billing_ok d" and "dict_get event ''id'' = PStr k"
  shows "(\<not> is_ok r \<longrightarrow> d' = d) \<and> (is_ok r \<longrightarrow> k \<in> fst ` set (bd_webhook_events d')
    \<and> (\<forall>env' now'. process_webhook_event env' now' event d' = (Inr False, d')))"
  using assms(1)
proof (cases rule: process_webhook_cases)
  case (rejected e)
  then show ?thesis by simp
next
  case (repeated j)
  then have run: "process_webhook_event env now event d = (Inr False, d)" using assms(1) by simp
  then obtain kind data where "dict_get event ''type'' = PStr kind" "dict_get event ''data'' = PDict data"
    by (auto simp: process_webhook_event_def split: pyval.splits)
  with repeated assms(3) show ?thesis by (auto simp: process_webhook_event_def claim_webhook_event_def)
next
  case (handled j kind data)
  have "billing_ok (d \<lparr>bd_webhook_events := bd_webhook_events d @ [(j, kind)]\<rparr>)"
    using assms(2) handled(4) by (simp add: billing_ok_def)
  with handle_event_keeps [OF handled(6)] have "bd_webhook_events d' = bd_webhook_events d @ [(j, kind)]" by (simp add: keeps_def)
  with handled assms(3) show ?thesis by (auto simp: process_webhook_event_def claim_webhook_event_def)
qed

theorem webhook_exactly_once_witness:
  "process_webhook_event sample_billing_env 7 sample_paid (snd (process_webhook_event sample_billing_env 5 sample_paid sample_billing_db))
     = (Inr False, snd (process_webhook_event sample_billing_env 5 sample_paid sample_billing_db))"
proof -
  have "dict_get sample_paid ''id'' = PStr ''evt-1''" by (simp add: sample_paid_def dict_get_def)
  with webhook_exactly_once [OF surjective_pairing sample_billing_ok] sample_paid_run show ?thesis by simp
qed

text \<open>
  A request to the webhook endpoint changes the database only if its signature is the keyed hash of
  its time stamp and its body under the configured secret, and the time stamp is within five minutes of the clock.
\<close>

theorem webhook_authenticated:
  assumes "receive_bachs_webhook hmac json_loads secret env now body timestamp signature d = (r, d')" and "d' \<noteq> d"
  shows "secret \<noteq> [] \<and> signature = hmac secret (timestamp @ ''.'' @ body)
    \<and> (\<exists>t. parse_int timestamp = Some t \<and> \<bar>now - 1000000 * t\<bar> \<le> 300000000)
    \<and> (\<exists>event. json_loads body = Some (PDict event) \<and> process_webhook_event env now event d = (r, d'))"
  using assms
  by (auto simp: receive_bachs_webhook_def verify_bachs_signature_def http_raise_def split: if_splits option.splits pyval.splits)

theorem webhook_authenticated_witness:
  "\<exists>event. (\<lambda>_. Some (PDict sample_paid)) ''body'' = Some (PDict event)
     \<and> is_ok (fst (process_webhook_event sample_billing_env 5 event sample_billing_db))"
proof -
  let ?run = "receive_bachs_webhook (\<lambda>k m. ''sig'') (\<lambda>_. Some (PDict sample_paid)) ''s'' sample_billing_env 5 ''body'' ''0'' ''sig'' sample_billing_db"
  have run: "?run = process_webhook_event sample_billing_env 5 sample_paid sample_billing_db"
    by (simp add: receive_bachs_webhook_def verify_bachs_signature_def) code_simp
  have "length (bd_webhook_events (snd (process_webhook_event sample_billing_env 5 sample_paid sample_billing_db))) = 1" by code_simp
  then have "snd ?run \<noteq> sample_billing_db" unfolding run by (auto simp: sample_billing_db_def)
  from webhook_authenticated [OF surjective_pairing this] sample_paid_run show ?thesis by auto
qed

text \<open>
  A failed invoice opens a grace period and never prolongs one: the linked subscription becomes past due,
  and its access ends at the end of the running grace period, or the configured days from now if there is
  none. That holds whatever the status of the subscription was, so that a canceled one gets access again.
\<close>

theorem payment_failure_opens_grace:
  assumes "payment_failed env now data d = Inr d'" and "billing_ok d"
    and "get_subscription_by_provider_id d (text_of (be_str env) (dict_get (nested data ''subscription'') ''subscription_id'')) = Some s"
  shows "\<exists>s'. get_subscription d' (sub_user_id s) = Some s' \<and> sub_status s' = Bill_past_due
    \<and> access_ends s' = Some (Some (case sub_grace_ends_at s of Some t \<Rightarrow> t | None \<Rightarrow> now + 86400000000 * be_grace_days env))
    \<and> (\<forall>u. u \<noteq> sub_user_id s \<longrightarrow> get_subscription d' u = get_subscription d u)"
proof -
  let ?s = "s \<lparr>sub_status := Bill_past_due, sub_grace_ends_at := grace_after env now Bill_past_due (sub_grace_ends_at s)\<rparr>"
  have store: "store_subscription ?s d = Inr d'" using assms(1,3) by (simp add: payment_failed_def)
  have "s \<in> set (bd_subscriptions d)" using get_by_provider_Some [OF assms(3)] by blast
  then have row: "get_subscription d (sub_user_id s) \<noteq> None" using subscriptions.get_None by (metis image_eqI)
  then have d': "d' = put_subscription ?s d" using store by (auto simp: store_subscription_def split: if_splits)
  have "get_subscription d' (sub_user_id s) = Some ?s" unfolding d' using subscriptions.get_put [OF row, of ?s] by simp
  moreover have "get_subscription d' u = get_subscription d u" if "u \<noteq> sub_user_id s" for u
    unfolding d' using subscriptions.get_put_other [of u ?s d] that by simp
  ultimately show ?thesis by (auto simp: access_ends_def grace_after_def split: option.split)
qed

definition sample_canceled_db :: billing_db where
  "sample_canceled_db = sample_billing_db \<lparr>bd_subscriptions := [sample_subscription \<lparr>sub_status := Bill_canceled\<rparr>]\<rparr>"

theorem payment_failure_opens_grace_witness:
  "\<exists>d' s'. payment_failed sample_billing_env 10 [(''subscription'', PDict [(''subscription_id'', PStr ''sub-5'')])] sample_canceled_db = Inr d'
     \<and> get_subscription d' 5 = Some s' \<and> \<not> has_copy_access (current_entitlement (get_subscription sample_canceled_db 5) 10) 10
     \<and> access_ends s' = Some (Some (10 + 86400000000 * 3))"
proof -
  let ?data = "[(''subscription'', PDict [(''subscription_id'', PStr ''sub-5'')])]" and ?s = "sample_subscription \<lparr>sub_status := Bill_canceled\<rparr>"
  have ok: "billing_ok sample_canceled_db"
    using sample_affiliates_ok
    by (simp add: billing_ok_def sample_canceled_db_def sample_billing_db_def subscription_ok_def sample_subscription_def valid_tier_def)
  have s: "get_subscription_by_provider_id sample_canceled_db
      (text_of (be_str sample_billing_env) (dict_get (nested ?data ''subscription'') ''subscription_id'')) = Some ?s"
    by code_simp
  have "is_ok (payment_failed sample_billing_env 10 ?data sample_canceled_db)" by code_simp
  then obtain d' where run: "payment_failed sample_billing_env 10 ?data sample_canceled_db = Inr d'" by (auto simp: is_ok_iff)
  have "\<not> has_copy_access (current_entitlement (get_subscription sample_canceled_db 5) 10) 10" by code_simp
  moreover have "sub_user_id ?s = 5" "sub_grace_ends_at ?s = None" "be_grace_days sample_billing_env = 3"
    by (simp_all add: sample_subscription_def sample_billing_env_def)
  ultimately show ?thesis using payment_failure_opens_grace [OF run ok s] run by auto
qed

section \<open>Catalogue and checkout\<close>

text \<open>
  In every accepted catalogue products and tiers correspond one to one: the product of a tier entitles to that tier,
  and every product that entitles to a tier is the product of it.
\<close>

theorem catalog_roundtrip:
  assumes "catalog_from_settings journal raw = Inr c"
  shows "(product_for c plan n = Inr p \<and> (plan = Plan_journal \<longrightarrow> n = 0) \<longrightarrow> entitlement_for c p = Inr (plan, n))
    \<and> (entitlement_for c p = Inr (plan, n) \<longrightarrow> product_for c plan n = Inr p)
    \<and> (is_ok (product_for c Plan_copy n) \<longleftrightarrow> 1 \<le> n \<and> n \<le> 10)"
proof -
  have ok: "distinct (map fst (pc_copy_product_ids c))" "distinct (pc_journal_product_id c # map snd (pc_copy_product_ids c))"
    "fst ` set (pc_copy_product_ids c) = {1..10}" using catalog_from_settings_ok [OF assms] by (simp_all add: catalog_ok_def)
  have copy: "find (\<lambda>(m, q). p = q) (pc_copy_product_ids c) = Some (n, p) \<longleftrightarrow> (n, p) \<in> set (pc_copy_product_ids c)" for n p
  proof
    assume mem: "(n, p) \<in> set (pc_copy_product_ids c)"
    then obtain x where x: "find (\<lambda>(m, q). p = q) (pc_copy_product_ids c) = Some x"
      by (cases "find (\<lambda>(m, q). p = q) (pc_copy_product_ids c)") (auto simp: find_None_iff)
    then have "x \<in> set (pc_copy_product_ids c)" "snd x = p" by (auto dest!: find_SomeD)
    with mem ok(2) have "x = (n, p)" by (auto simp: distinct_map inj_on_def)
    with x show "find (\<lambda>(m, q). p = q) (pc_copy_product_ids c) = Some (n, p)" by simp
  qed (auto dest!: find_SomeD)
  have found: "find (\<lambda>(m, q). p = q) (pc_copy_product_ids c) = Some (m, q) \<Longrightarrow> q = p" for m q by (auto dest!: find_SomeD)
  have "entitlement_for c p = Inr (plan, n) \<longleftrightarrow> p = pc_journal_product_id c \<and> plan = Plan_journal \<and> n = 0
      \<or> (n, p) \<in> set (pc_copy_product_ids c) \<and> plan = Plan_copy"
    using ok(2) copy [of p n] found by (auto simp: entitlement_for_def image_iff split: option.split)
  moreover have "product_for c Plan_copy n = Inr p \<longleftrightarrow> (n, p) \<in> set (pc_copy_product_ids c)"
    using map_of_eq_Some_iff [OF ok(1), of n p] by (auto simp: product_for_def split: option.split)
  moreover have "is_ok (product_for c Plan_copy n) \<longleftrightarrow> n \<in> fst ` set (pc_copy_product_ids c)"
    using map_of_eq_None_iff [of "pc_copy_product_ids c" n] by (auto simp: product_for_def is_ok_iff split: option.split)
  ultimately show ?thesis using ok(3) by (cases plan) (auto simp: product_for_def)
qed

theorem catalog_roundtrip_witness:
  "product_for sample_catalog Plan_copy 3 = Inr ''c3'' \<and> entitlement_for sample_catalog ''c3'' = Inr (Plan_copy, 3)"
proof -
  have "product_for sample_catalog Plan_copy 3 = Inr ''c3''" by code_simp
  with catalog_roundtrip [of "be_journal_product_id sample_billing_env" "be_copy_product_ids sample_billing_env" sample_catalog Plan_copy 3 "''c3''"]
    sample_catalog_valid
  show ?thesis by (simp add: catalog_of_def)
qed

text \<open>
  For an hour after a checkout was opened at the provider, every further request of the user answers with the same address
  and opens no other checkout, also when it asks for a different product.
\<close>

theorem checkout_created_once:
  assumes "open_checkout env now u product w = (Inr a, w')" and "bw_calls w' \<noteq> bw_calls w"
    and "be_redis_acquire env'" and "later < now + 3600000000"
  shows "open_checkout env' later u other w' = (Inr a, w') \<and> (\<exists>url. a = (''checkout'', Some url) \<and> startswith url ''https://'')
    \<and> bw_calls w' = bw_calls w @ [Create_checkout u product]"
proof -
  have acq: "guard_acquire env now u w = (Inr None, guard_set now u creating w)"
    using assms(1,2)
    by (auto simp: open_checkout_def guard_acquire_def guard_unavailable_def http_raise_def split: if_splits option.splits)
  obtain url where url: "startswith url ''https://''" "a = (''checkout'', Some url)"
      "w' = guard_set now u url ((guard_set now u creating w) \<lparr>bw_calls := bw_calls w @ [Create_checkout u product]\<rparr>)"
    using assms(1) acq
    by (auto simp: open_checkout_def guard_store_def guard_unavailable_def http_raise_def Let_def guard_set_def
        split: sum.splits pyval.splits if_splits)
  have "url \<noteq> creating" using url(1) by (auto simp: creating_def startswith_def)
  then show ?thesis
    using url assms(3,4) by (auto simp: open_checkout_def guard_acquire_def guard_value_def guard_set_def checkout_ttl_def)
qed

theorem checkout_created_once_witness:
  "\<exists>w'. open_checkout sample_billing_env 0 5 ''c3'' sample_billing = (Inr (''checkout'', Some ''https://pay/c3''), w')
     \<and> open_checkout sample_billing_env 60000000 5 ''j'' w' = (Inr (''checkout'', Some ''https://pay/c3''), w')"
proof -
  define w' where "w' = snd (open_checkout sample_billing_env 0 5 ''c3'' sample_billing)"
  have "fst (open_checkout sample_billing_env 0 5 ''c3'' sample_billing) = Inr (''checkout'', Some ''https://pay/c3'')" by code_simp
  then have run: "open_checkout sample_billing_env 0 5 ''c3'' sample_billing = (Inr (''checkout'', Some ''https://pay/c3''), w')"
    unfolding w'_def by (simp add: prod_eq_iff)
  have "length (bw_calls w') = 1" unfolding w'_def by code_simp
  then have "bw_calls w' \<noteq> bw_calls sample_billing" by (auto simp: sample_billing_def)
  moreover have "be_redis_acquire sample_billing_env" by (simp add: sample_billing_env_def)
  ultimately have "open_checkout sample_billing_env 60000000 5 ''j'' w' = (Inr (''checkout'', Some ''https://pay/c3''), w')"
    using checkout_created_once [OF run] by simp
  with run show ?thesis by blast
qed

section \<open>Commissions\<close>

text \<open>
  A paid invoice creates at most one commission: for an invoice that had none, in favour of the active affiliate
  the payer was attributed to, never the payer himself, of the rate in force within half a cent and never more than half the
  amount paid rounded up to the cent, and only while fewer commissions than the configured number of months count for the payer.
\<close>

theorem commission_bounds:
  assumes "create_commission_from_paid_invoice other sub_of now data d = Inr (Some c, d')" and "affiliates_ok d"
  shows "get_commission_by_invoice d (co_provider_invoice_id c) = None
    \<and> ad_commissions d' = ad_commissions d @ [c] \<and> co_affiliate_user_id c \<noteq> co_referred_user_id c
    \<and> (\<exists>p. get_profile d (co_affiliate_user_id c) = Some p \<and> ap_status p = Aff_active)
    \<and> \<bar>co_commission_amount c - co_commission_base c * co_commission_rate c / 100\<bar> \<le> 1 / 200
    \<and> 0 \<le> co_commission_amount c \<and> co_commission_amount c \<le> co_commission_base c / 2 + 1 / 200
    \<and> (\<exists>config. ad_settings d' = Some config \<and> int (length (qualifying d' (co_referred_user_id c))) \<le> as_recurring_months config)"
  using assms(1)
proof (cases rule: create_commission_cases)
  case (created invoice sid sub a p config d1 base amount)
  have d1: "ad_commissions d1 = ad_commissions d" "ad_settings d1 = Some config"
    using created(6) by (auto simp: get_or_create_settings_def split: option.splits)
  have ok: "commission_ok c"
    using create_commission_ok [OF assms] created(13,14) by (simp add: affiliates_ok_def)
  have c: "co_provider_invoice_id c = invoice" "co_affiliate_user_id c = ra_affiliate_user_id a" "co_referred_user_id c = sub_user_id sub"
      "co_status c = Com_pending"
    using created(13) by (simp_all add: new_commission_def)
  have "a \<in> set (ad_attributions d)" "ra_referred_user_id a = sub_user_id sub"
    using created(3) by (auto simp: get_attribution_for_user_def row_get_def dest!: find_SomeD)
  then have self: "ra_affiliate_user_id a \<noteq> sub_user_id sub" using assms(2) by (auto simp: affiliates_ok_def)
  define x where "x = co_commission_base c * co_commission_rate c"
  have amount: "co_commission_amount c = of_int (round_half_up x) / 100" "0 \<le> co_commission_amount c"
    and rate: "0 < co_commission_base c" "0 \<le> co_commission_rate c" "co_commission_rate c \<le> 50"
    using ok by (auto simp: commission_ok_def x_def valid_rate_def)
  have err: "\<bar>co_commission_amount c - x / 100\<bar> \<le> 1 / 200"
    using round_half_up_error [of x] unfolding amount(1) by linarith
  have "x \<le> co_commission_base c * 50" unfolding x_def using rate by (intro mult_left_mono) simp_all
  with err have "co_commission_amount c \<le> co_commission_base c / 2 + 1 / 200" by linarith
  moreover have "length (qualifying d' (sub_user_id sub)) = length (qualifying d1 (sub_user_id sub)) + 1"
    using created(13,14) c(3,4) by (simp add: qualifying_def)
  then have "int (length (qualifying d' (sub_user_id sub))) \<le> as_recurring_months config" using created(7) by simp
  moreover have "ad_settings d' = Some config" "ad_commissions d' = ad_commissions d @ [c]" using created(13,14) d1 by simp_all
  ultimately show ?thesis using created(1,4,5) c self err amount(2) by (simp add: x_def)
qed simp

theorem commission_bounds_witness:
  "\<exists>c d'. create_commission_from_paid_invoice (be_str sample_billing_env) (get_subscription_by_provider_id sample_billing_db) 5 sample_invoice
       sample_affiliates = Inr (Some c, d')
     \<and> co_commission_amount c = 6 \<and> ad_commissions d' = ad_commissions sample_affiliates @ [c]"
proof -
  let ?run = "create_commission_from_paid_invoice (be_str sample_billing_env) (get_subscription_by_provider_id sample_billing_db) 5 sample_invoice
       sample_affiliates"
  have "(case ?run of Inr (Some c, d') \<Rightarrow> co_commission_amount c = 6 | _ \<Rightarrow> False)" by code_simp
  then obtain c d' where "?run = Inr (Some c, d')" "co_commission_amount c = 6" by (auto split: sum.splits option.splits)
  with commission_bounds [OF this(1) sample_affiliates_ok] show ?thesis by blast
qed

lemma balances_total:
  assumes "\<And>c. c \<in> set xs \<Longrightarrow> commission_ok c"
  shows "balance Com_pending xs + balance Com_available xs + balance Com_paid xs = sum_list (map (\<lambda>c. co_commission_amount c - co_reversed_amount c) xs)
    \<and> 0 \<le> balance st xs"
proof -
  have void: "co_commission_amount c - co_reversed_amount c = 0" if "c \<in> set xs" "co_status c = Com_reversed" for c
    using assms that unfolding commission_ok_def by (metis cancel_comm_monoid_add_class.diff_cancel)
  have pos: "0 \<le> co_commission_amount c - co_reversed_amount c" if "c \<in> set xs" for c
    using assms [OF that] unfolding commission_ok_def by linarith
  from void have "balance Com_pending xs + balance Com_available xs + balance Com_paid xs
      = sum_list (map (\<lambda>c. co_commission_amount c - co_reversed_amount c) xs)"
  proof (induction xs)
    case (Cons c cs)
    then show ?case by (cases "co_status c") (simp_all add: balance_def)
  qed (simp add: balance_def)
  moreover have "0 \<le> balance st xs" unfolding balance_def using pos by (intro sum_list_nonneg) auto
  ultimately show ?thesis by blast
qed

text \<open>
  The balances of the dashboard account for every cent as long as the affiliate has at most a hundred commissions: none is
  negative, pending, available and paid balances add up to all commissions less what was reversed, and a
  commission is pending only while its hold lasts. Beyond a hundred the older commissions are left out of the balances.
\<close>

theorem dashboard_balances:
  assumes "dashboard choice u now d = Inr (r, d')" and "affiliates_ok d"
    and "length (filter (\<lambda>c. co_affiliate_user_id c = u) (ad_commissions d)) \<le> 100"
  shows "da_pending_balance r + da_available_balance r + da_paid_balance r
      = sum_list (map (\<lambda>c. co_commission_amount c - co_reversed_amount c) (filter (\<lambda>c. co_affiliate_user_id c = u) (ad_commissions d)))
    \<and> 0 \<le> da_pending_balance r \<and> 0 \<le> da_available_balance r \<and> 0 \<le> da_paid_balance r
    \<and> (\<forall>c \<in> set (da_commissions r). co_status c = Com_pending \<longrightarrow> now < co_release_at c)"
proof -
  obtain p d1 where prof: "ensure_profile choice u d = Inr (p, d1)" and d': "d' = release_due_commissions u now (snd (get_or_create_settings d1))"
    using dashboard_db [OF assms(1)] by blast
  have d1: "ad_commissions (snd (get_or_create_settings d1)) = ad_commissions d" and ok: "affiliates_ok d'"
    using ensure_profile_ok [OF prof assms(2)] dashboard_ok [OF assms(1,2)]
    by (auto simp: get_or_create_settings_def split: option.splits)
  have r: "da_pending_balance r = balance Com_pending (list_commissions d' u)" "da_available_balance r = balance Com_available (list_commissions d' u)"
      "da_paid_balance r = balance Com_paid (list_commissions d' u)" "da_commissions r = list_commissions d' u"
    using assms(1) prof d' by (auto simp: dashboard_def Let_def split: prod.splits)
  define mine where "mine = filter (\<lambda>c. co_affiliate_user_id c = u) (ad_commissions d')"
  define g where "g = (\<lambda>c :: affiliate_commission. if co_affiliate_user_id c = u \<and> co_status c = Com_pending \<and> co_release_at c \<le> now
    then c \<lparr>co_status := Com_available\<rparr> else c)"
  have cs: "ad_commissions d' = map g (ad_commissions d)" unfolding d' release_due_commissions_def d1 g_def by simp
  have g: "co_affiliate_user_id (g c) = co_affiliate_user_id c" "co_commission_amount (g c) - co_reversed_amount (g c) = co_commission_amount c - co_reversed_amount c"
    for c by (simp_all add: g_def)
  have same: "map (\<lambda>c. co_commission_amount c - co_reversed_amount c) mine
      = map (\<lambda>c. co_commission_amount c - co_reversed_amount c) (filter (\<lambda>c. co_affiliate_user_id c = u) (ad_commissions d))"
    by (simp add: mine_def cs filter_map comp_def g)
  have "length mine \<le> 100" using assms(3) by (simp add: mine_def cs filter_map comp_def g)
  then have items: "mset (list_commissions d' u) = mset mine" unfolding list_commissions_def mine_def [symmetric] by simp
  have all: "commission_ok c" if "c \<in> set mine" for c using ok that by (simp add: affiliates_ok_def mine_def)
  then have "commission_ok c" if "c \<in> set (list_commissions d' u)" for c using that items by (metis set_mset_mset)
  note bal = balances_total [OF this]
  have "sum_list (map (\<lambda>c. co_commission_amount c - co_reversed_amount c) (list_commissions d' u))
      = sum_list (map (\<lambda>c. co_commission_amount c - co_reversed_amount c) mine)"
    by (simp only: mset_map items flip: sum_mset_sum_list)
  moreover have "now < co_release_at c" if "c \<in> set (list_commissions d' u)" "co_status c = Com_pending" for c
  proof -
    have "c \<in> set mine" using that(1) items by (metis set_mset_mset)
    then obtain x where x: "c = g x" "co_affiliate_user_id c = u" unfolding mine_def cs by auto
    then have "co_affiliate_user_id x = u" using g(1) by simp
    with x(1) that(2) show ?thesis unfolding g_def by (cases "co_status x = Com_pending \<and> co_release_at x \<le> now") auto
  qed
  ultimately show ?thesis unfolding r same [symmetric] using bal by (intro conjI) (simp_all)
qed

definition sample_earned :: affiliate_db where
  "sample_earned = bd_affiliates (snd (process_webhook_event sample_billing_env 5 sample_paid sample_billing_db))"

theorem dashboard_balances_witness:
  "\<exists>r d'. dashboard (\<lambda>_ _. 0) 6 7 sample_earned = Inr (r, d')
     \<and> da_pending_balance r + da_available_balance r + da_paid_balance r = 6"
proof -
  have ok: "affiliates_ok sample_earned"
    using process_webhook_ok [OF surjective_pairing sample_billing_ok] unfolding sample_earned_def billing_ok_def by blast
  have "is_ok (dashboard (\<lambda>_ _. 0) 6 7 sample_earned)" by code_simp
  then obtain r d' where run: "dashboard (\<lambda>_ _. 0) 6 7 sample_earned = Inr (r, d')" by (auto simp: is_ok_iff)
  have few: "length (filter (\<lambda>c. co_affiliate_user_id c = 6) (ad_commissions sample_earned)) \<le> 100"
      "sum_list (map (\<lambda>c. co_commission_amount c - co_reversed_amount c) (filter (\<lambda>c. co_affiliate_user_id c = 6) (ad_commissions sample_earned))) = 6"
    by code_simp+
  show ?thesis using dashboard_balances [OF run ok few(1)] run few(2) by simp
qed

end
