(* ===== verification/Routes.thy ===== *)
theory Routes
  imports Models Entitlements Symbols
begin

text \<open>
  The copy trading control plane: \<^verbatim>\<open>copy_trading/service.py\<close>, the queries of \<^verbatim>\<open>repository.py\<close> it calls and the
  request models of \<^verbatim>\<open>schemas.py\<close>. A user connects broker accounts, sets the policy of an account and
  creates, changes, pauses, resumes, activates and deletes copy routes.

  A request carries the user, the clock, the identifiers \<^verbatim>\<open>uuid4\<close> draws during it, one for each place that
  draws, the subscription of the user and the encryption of secrets, which is a parameter. Every operation is one
  transaction: it returns the row and the committed database, or the exception, and then nothing is
  stored. A violated constraint of a table is an \<^verbatim>\<open>IntegrityError\<close>.
\<close>

section \<open>Requests\<close>

record request =
  rq_user :: uuid
  rq_now :: int
  rq_rnd :: "nat \<Rightarrow> uuid"
  rq_billing_enforced :: bool
  rq_subscription :: "billing_subscription option"
  rq_encrypt :: "string \<Rightarrow> string"

text \<open>The fields of an update: not sent, sent as null, or sent with a value.\<close>

type_synonym 'a change = "'a option option"

definition pick :: "'a \<Rightarrow> 'a change \<Rightarrow> 'a" where
  "pick old ch = (case ch of Some (Some v) \<Rightarrow> v | _ \<Rightarrow> old)"

definition pick_opt :: "'a option \<Rightarrow> 'a change \<Rightarrow> 'a option" where
  "pick_opt old ch = (case ch of None \<Rightarrow> old | Some v \<Rightarrow> v)"

definition is_null :: "'a change \<Rightarrow> bool" where
  "is_null ch \<longleftrightarrow> (case ch of Some None \<Rightarrow> True | _ \<Rightarrow> False)"

definition sent_ok :: "('a \<Rightarrow> bool) \<Rightarrow> 'a change \<Rightarrow> bool" where
  "sent_ok P ch \<longleftrightarrow> (case ch of Some (Some v) \<Rightarrow> P v | _ \<Rightarrow> True)"

definition integrity_error :: "string \<Rightarrow> 'a result" where
  "integrity_error what = Inl (Exn ''IntegrityError'' what)"

definition decimal_field :: "int \<Rightarrow> int \<Rightarrow> rat \<Rightarrow> bool" where
  "decimal_field digits places x \<longleftrightarrow> of_int \<lfloor>x * 10 ^ nat places\<rfloor> = x * 10 ^ nat places
     \<and> \<bar>x\<bar> < 10 ^ nat (digits - places)"

definition int_between :: "int \<Rightarrow> int \<Rightarrow> int \<Rightarrow> bool" where
  "int_between lo hi n \<longleftrightarrow> lo \<le> n \<and> n \<le> hi"

section \<open>Accounts\<close>

record connection_create =
  cc_display_name :: string
  cc_broker_login :: string
  cc_broker_server :: string
  cc_trader_password :: string
  cc_platform :: string

definition valid_connection_create :: "connection_create \<Rightarrow> bool" where
  "valid_connection_create p \<longleftrightarrow>
     1 \<le> length (cc_display_name p) \<and> length (cc_display_name p) \<le> 120
   \<and> cc_broker_login p \<noteq> [] \<and> list_all is_digit (cc_broker_login p) \<and> length (cc_broker_login p) \<le> 64
   \<and> 1 \<le> length (cc_broker_server p) \<and> length (cc_broker_server p) \<le> 160
   \<and> 1 \<le> length (cc_trader_password p) \<and> length (cc_trader_password p) \<le> 256
   \<and> cc_platform p = ''mt5''"

definition get_copy_connection_for_user :: "db \<Rightarrow> uuid \<Rightarrow> uuid \<Rightarrow> copy_trading_connection option result" where
  "get_copy_connection_for_user d k u =
     scalar_one_or_none (filter (\<lambda>c. cn_id c = k \<and> cn_user_id c = u) (db_connections d))"

definition get_copy_connection_by_identity ::
  "db \<Rightarrow> uuid \<Rightarrow> string \<Rightarrow> string \<Rightarrow> copy_trading_connection option result" where
  "get_copy_connection_by_identity d u login server = scalar_one_or_none (filter (\<lambda>c.
     cn_user_id c = u \<and> cn_broker_login c = login \<and> py_lower (cn_broker_server c) = py_lower server) (db_connections d))"

definition owned_copy_connection :: "db \<Rightarrow> uuid \<Rightarrow> uuid \<Rightarrow> copy_trading_connection result" where
  "owned_copy_connection d u k = (case get_copy_connection_for_user d k u of Inl e \<Rightarrow> Inl e
     | Inr None \<Rightarrow> http_raise 404 ''Copy account connection not found.''
     | Inr (Some c) \<Rightarrow> Inr c)"

definition owned_ready_copy_connection :: "db \<Rightarrow> uuid \<Rightarrow> uuid \<Rightarrow> copy_trading_connection result" where
  "owned_ready_copy_connection d u k = (case owned_copy_connection d u k of Inl e \<Rightarrow> Inl e | Inr c \<Rightarrow>
     if cn_state c \<noteq> Conn_ready then http_raise 409 ''The copy account connection must be ready.'' else Inr c)"

text \<open>\<^verbatim>\<open>list_copy_connections_for_user\<close>, and the accounts that count towards the limit of the plan.\<close>

definition list_copy_connections_for_user :: "db \<Rightarrow> uuid \<Rightarrow> copy_trading_connection list" where
  "list_copy_connections_for_user d u = filter (\<lambda>c. cn_user_id c = u) (db_connections d)"

definition live_connections :: "db \<Rightarrow> uuid \<Rightarrow> copy_trading_connection list" where
  "live_connections d u = filter (\<lambda>c. cn_state c \<notin> {Conn_deleting, Conn_deleted}) (list_copy_connections_for_user d u)"

definition lift_http :: "http_error + 'a \<Rightarrow> 'a result" where
  "lift_http r = (case r of Inl e \<Rightarrow> http_raise (http_status e) (http_code e) | Inr v \<Rightarrow> Inr v)"

definition create_copy_connection ::
  "request \<Rightarrow> connection_create \<Rightarrow> db \<Rightarrow> (copy_trading_connection \<times> db) result" where
  "create_copy_connection rq p d = (
     let server = py_strip (cc_broker_server p) in
     case get_copy_connection_by_identity d (rq_user rq) (cc_broker_login p) server of Inl e \<Rightarrow> Inl e | Inr existing \<Rightarrow>
     if (case existing of None \<Rightarrow> False | Some c \<Rightarrow> cn_state c \<noteq> Conn_deleted)
     then http_raise 409 ''copy_account_already_connected'' else
     case (if rq_billing_enforced rq
           then lift_http (require_copy_account_capacity (current_entitlement (rq_subscription rq) (rq_now rq))
                  (int (length (live_connections d (rq_user rq)))) (rq_now rq))
           else Inr ()) of Inl e \<Rightarrow> Inl e | Inr _ \<Rightarrow>
     let encrypted = rq_encrypt rq (cc_trader_password p); transaction = uuid_hex (rq_rnd rq 0) in
     case existing of
       Some c \<Rightarrow>
         (let c' = c \<lparr>cn_display_name := py_strip (cc_display_name p), cn_broker_login := cc_broker_login p,
                cn_broker_server := server, cn_platform := cc_platform p, cn_encrypted_trader_password := Some encrypted,
                cn_metaapi_account_id := None, cn_provisioning_transaction_id := transaction,
                cn_state := Conn_submitted, cn_last_error_code := None, cn_last_error_message := None,
                cn_symbol_catalog_fingerprint := None, cn_symbol_catalog_refreshed_at := None,
                cn_last_health_at := None, cn_is_paused := False\<rparr> in
          if list_ex (\<lambda>x. cn_id x \<noteq> cn_id c \<and> cn_provisioning_transaction_id x = transaction) (db_connections d)
          then integrity_error ''provisioning_transaction_id''
          else Inr (c', put_connection c' d))
     | None \<Rightarrow>
         (let c = \<lparr>cn_id = rq_rnd rq 1, cn_user_id = rq_user rq, cn_display_name = py_strip (cc_display_name p),
                cn_broker_login = cc_broker_login p, cn_broker_server = server, cn_platform = cc_platform p,
                cn_encrypted_trader_password = Some encrypted, cn_provisioning_transaction_id = transaction,
                cn_metaapi_account_id = None, cn_state = Conn_submitted, cn_last_error_code = None,
                cn_last_error_message = None, cn_symbol_catalog_fingerprint = None, cn_symbol_catalog_refreshed_at = None,
                cn_last_health_at = None, cn_is_paused = False\<rparr> in
          if list_ex (\<lambda>x. cn_id x = cn_id c \<or> cn_provisioning_transaction_id x = transaction
               \<or> cn_user_id x = cn_user_id c \<and> cn_broker_login x = cn_broker_login c \<and> cn_broker_server x = server)
             (db_connections d)
          then http_raise 409 ''copy_account_already_connected''
          else Inr (c, d \<lparr>db_connections := db_connections d @ [c]\<rparr>)))"

definition retry_copy_connection :: "request \<Rightarrow> uuid \<Rightarrow> db \<Rightarrow> (copy_trading_connection \<times> db) result" where
  "retry_copy_connection rq k d = (case owned_copy_connection d (rq_user rq) k of Inl e \<Rightarrow> Inl e | Inr c \<Rightarrow>
     if cn_state c \<in> {Conn_deleting, Conn_deleted}
     then http_raise 409 ''Deleted copy account connections cannot be retried.''
     else let c' = c \<lparr>cn_last_error_code := None, cn_last_error_message := None, cn_state := Conn_provisioning\<rparr> in
       Inr (c', put_connection c' d))"

definition pause_row :: "copy_route \<Rightarrow> copy_route" where
  "pause_row r = (if rt_state r \<noteq> Route_paused
     then r \<lparr>rt_paused_from_state := Some (rt_state r), rt_state := Route_paused\<rparr> else r)"

definition pause_routes_for_connection :: "uuid \<Rightarrow> db \<Rightarrow> db" where
  "pause_routes_for_connection k d = d \<lparr>db_routes := map (\<lambda>r.
     if rt_target_connection_id r = Some k then pause_row r else r) (db_routes d)\<rparr>"

definition delete_copy_connection :: "request \<Rightarrow> uuid \<Rightarrow> db \<Rightarrow> (copy_trading_connection \<times> db) result" where
  "delete_copy_connection rq k d = (case owned_copy_connection d (rq_user rq) k of Inl e \<Rightarrow> Inl e | Inr c \<Rightarrow>
     if cn_state c = Conn_deleted then Inr (c, d)
     else let c' = c \<lparr>cn_state := Conn_deleting\<rparr> in
       Inr (c', put_connection c' (pause_routes_for_connection (cn_id c) d)))"

section \<open>Activity and settings\<close>

text \<open>\<^verbatim>\<open>record_activity\<close> with the arguments the control plane passes.\<close>

definition record_activity ::
  "uuid \<Rightarrow> string \<Rightarrow> string \<Rightarrow> copy_activity_level \<Rightarrow> string \<Rightarrow> uuid option \<Rightarrow> uuid option \<Rightarrow> uuid option \<Rightarrow> db \<Rightarrow> db" where
  "record_activity u action title level correlation route source connection d = d \<lparr>db_activities := db_activities d @
     [\<lparr>act_user_id = u, act_route_id = route, act_source_id = source, act_connection_id = connection,
       act_correlation_id = correlation, act_action = action, act_level = level, act_title = title, act_body = None\<rparr>]\<rparr>"

definition record_route_activity :: "request \<Rightarrow> nat \<Rightarrow> copy_route \<Rightarrow> string \<Rightarrow> string \<Rightarrow> copy_activity_level \<Rightarrow> db \<Rightarrow> db" where
  "record_route_activity rq draw r action title level = record_activity (rq_user rq) action title level
     (str_uuid (rq_rnd rq draw)) (Some (rt_id r)) (Some (rt_source_id r)) (rt_target_connection_id r)"

definition get_or_create_user_settings :: "uuid \<Rightarrow> db \<Rightarrow> copy_trading_user_settings \<times> db" where
  "get_or_create_user_settings u d = (case get_settings d u of Some s \<Rightarrow> (s, d)
     | None \<Rightarrow> let s = \<lparr>us_user_id = u, us_is_paused = False\<rparr> in (s, d \<lparr>db_settings := db_settings d @ [s]\<rparr>))"

definition update_user_settings :: "request \<Rightarrow> bool \<Rightarrow> db \<Rightarrow> copy_trading_user_settings \<times> db" where
  "update_user_settings rq paused d = (case get_or_create_user_settings (rq_user rq) d of (s, d1) \<Rightarrow>
     let s' = s \<lparr>us_is_paused := paused\<rparr> in
     (s', record_activity (rq_user rq) (if paused then ''automation.paused'' else ''automation.resumed'')
        (if paused then ''Copy trading paused'' else ''Copy trading resumed'')
        (if paused then Level_warning else Level_success) (str_uuid (rq_rnd rq 0)) None None None
        (d1 \<lparr>db_settings := row_put us_user_id s' (db_settings d1)\<rparr>)))"

section \<open>Account policies\<close>

definition get_account_policy :: "db \<Rightarrow> uuid option \<Rightarrow> uuid \<Rightarrow> copy_account_policy option result" where
  "get_account_policy d k u =
     scalar_one_or_none (filter (\<lambda>p. cap_connection_id p = k \<and> cap_user_id p = u) (db_policies d))"

text \<open>A new row with the defaults of the columns.\<close>

definition new_account_policy :: "uuid \<Rightarrow> uuid option \<Rightarrow> uuid \<Rightarrow> copy_account_policy" where
  "new_account_policy i k u = \<lparr>cap_id = i, cap_user_id = u, cap_connection_id = k, cap_max_lot = 100,
     cap_max_lot_per_trade = 100, cap_max_open_positions = 100, cap_daily_loss_limit = None,
     cap_max_drawdown_percent = None, cap_allowed_symbols = [], cap_blocked_symbols = [],
     cap_market_signal_max_age_seconds = 30, cap_max_spread_points = None, cap_max_slippage_points = None,
     cap_max_quote_age_seconds = 10, cap_high_spread_behavior = ''reject'', cap_trading_start_hour_utc = None,
     cap_trading_end_hour_utc = None, cap_daily_equity_anchor = None, cap_daily_equity_anchor_date = None,
     cap_peak_equity = None, cap_is_paused = False\<rparr>"

definition get_or_create_account_policy :: "uuid \<Rightarrow> uuid option \<Rightarrow> uuid \<Rightarrow> db \<Rightarrow> (copy_account_policy \<times> db) result" where
  "get_or_create_account_policy i k u d = (case get_account_policy d k u of Inl e \<Rightarrow> Inl e
     | Inr (Some p) \<Rightarrow> Inr (p, d)
     | Inr None \<Rightarrow> let p = new_account_policy i k u in
         if i \<in> set (map cap_id (db_policies d)) then integrity_error ''copy_account_policies''
         else Inr (p, d \<lparr>db_policies := db_policies d @ [p]\<rparr>))"

definition max_fixed_lot_for_connection :: "db \<Rightarrow> uuid \<Rightarrow> uuid \<Rightarrow> rat option" where
  "max_fixed_lot_for_connection d u k = (
     case map rt_fixed_lot (filter (\<lambda>r. rt_user_id r = u \<and> rt_target_connection_id r = Some k) (db_routes d)) of
       [] \<Rightarrow> None | x # xs \<Rightarrow> Some (fold max xs x))"

record policy_update =
  pu_max_lot :: "rat change"
  pu_max_lot_per_trade :: "rat change"
  pu_max_open_positions :: "int change"
  pu_daily_loss_limit :: "rat change"
  pu_max_drawdown_percent :: "rat change"
  pu_allowed_symbols :: "string list change"
  pu_blocked_symbols :: "string list change"
  pu_market_signal_max_age_seconds :: "int change"
  pu_max_spread_points :: "int change"
  pu_max_slippage_points :: "int change"
  pu_max_quote_age_seconds :: "int change"
  pu_high_spread_behavior :: "string change"
  pu_trading_start_hour_utc :: "int change"
  pu_trading_end_hour_utc :: "int change"
  pu_is_paused :: "bool change"

definition policy_fields_ok :: "policy_update \<Rightarrow> bool" where
  "policy_fields_ok u \<longleftrightarrow>
     sent_ok (\<lambda>x. 0 < x \<and> decimal_field 12 4 x) (pu_max_lot u)
   \<and> sent_ok (\<lambda>x. 0 < x \<and> decimal_field 12 4 x) (pu_max_lot_per_trade u)
   \<and> sent_ok (int_between 1 1000) (pu_max_open_positions u)
   \<and> sent_ok (\<lambda>x. 0 < x \<and> decimal_field 20 2 x) (pu_daily_loss_limit u)
   \<and> sent_ok (\<lambda>x. 0 < x \<and> x \<le> 100 \<and> decimal_field 6 2 x) (pu_max_drawdown_percent u)
   \<and> sent_ok (\<lambda>xs. length xs \<le> 200) (pu_allowed_symbols u)
   \<and> sent_ok (\<lambda>xs. length xs \<le> 200) (pu_blocked_symbols u)
   \<and> sent_ok (int_between 1 3600) (pu_market_signal_max_age_seconds u)
   \<and> sent_ok (int_between 0 100000) (pu_max_spread_points u)
   \<and> sent_ok (int_between 0 100000) (pu_max_slippage_points u)
   \<and> sent_ok (int_between 1 300) (pu_max_quote_age_seconds u)
   \<and> sent_ok (\<lambda>s. s \<in> {''reject'', ''wait''}) (pu_high_spread_behavior u)
   \<and> sent_ok (int_between 0 23) (pu_trading_start_hour_utc u)
   \<and> sent_ok (int_between 0 23) (pu_trading_end_hour_utc u)"

definition normalize_symbols :: "string list \<Rightarrow> string list" where
  "normalize_symbols xs = sort (remdups (map (\<lambda>s. py_upper (py_strip s)) (filter (\<lambda>s. py_strip s \<noteq> []) xs)))"

text \<open>The request model: field constraints, then the validator, which normalises both symbol lists.\<close>

definition parse_policy_update :: "policy_update \<Rightarrow> policy_update result" where
  "parse_policy_update u = (if \<not> policy_fields_ok u then http_raise 422 ''field constraints'' else
     let allowed = map_option (map_option normalize_symbols) (pu_allowed_symbols u);
         blocked = map_option (map_option normalize_symbols) (pu_blocked_symbols u) in
     if list_ex (\<lambda>s. s \<in> set (pick [] blocked)) (pick [] allowed)
     then http_raise 422 ''A symbol cannot be both allowed and blocked''
     else Inr (u \<lparr>pu_allowed_symbols := allowed, pu_blocked_symbols := blocked\<rparr>))"

definition cap_below_routes :: "rat change \<Rightarrow> rat option \<Rightarrow> bool" where
  "cap_below_routes cap largest \<longleftrightarrow> (case (cap, largest) of (Some (Some c), Some l) \<Rightarrow> c < l | _ \<Rightarrow> False)"

text \<open>
  The columns after \<^verbatim>\<open>setattr\<close>. A null in a column that may not be null fails at the commit; a null list is
  stored as a JSON null, which every check reads as an empty list.
\<close>

definition policy_null_violation :: "policy_update \<Rightarrow> bool" where
  "policy_null_violation u \<longleftrightarrow> is_null (pu_max_lot u) \<or> is_null (pu_max_lot_per_trade u)
     \<or> is_null (pu_max_open_positions u) \<or> is_null (pu_market_signal_max_age_seconds u)
     \<or> is_null (pu_max_quote_age_seconds u) \<or> is_null (pu_high_spread_behavior u) \<or> is_null (pu_is_paused u)"

definition pick_list :: "'a list \<Rightarrow> 'a list change \<Rightarrow> 'a list" where
  "pick_list old ch = (case ch of None \<Rightarrow> old | Some None \<Rightarrow> [] | Some (Some v) \<Rightarrow> v)"

definition apply_policy_update :: "policy_update \<Rightarrow> copy_account_policy \<Rightarrow> copy_account_policy" where
  "apply_policy_update u p = p \<lparr>cap_max_lot := pick (cap_max_lot p) (pu_max_lot u),
     cap_max_lot_per_trade := pick (cap_max_lot_per_trade p) (pu_max_lot_per_trade u),
     cap_max_open_positions := pick (cap_max_open_positions p) (pu_max_open_positions u),
     cap_daily_loss_limit := pick_opt (cap_daily_loss_limit p) (pu_daily_loss_limit u),
     cap_max_drawdown_percent := pick_opt (cap_max_drawdown_percent p) (pu_max_drawdown_percent u),
     cap_allowed_symbols := pick_list (cap_allowed_symbols p) (pu_allowed_symbols u),
     cap_blocked_symbols := pick_list (cap_blocked_symbols p) (pu_blocked_symbols u),
     cap_market_signal_max_age_seconds := pick (cap_market_signal_max_age_seconds p) (pu_market_signal_max_age_seconds u),
     cap_max_spread_points := pick_opt (cap_max_spread_points p) (pu_max_spread_points u),
     cap_max_slippage_points := pick_opt (cap_max_slippage_points p) (pu_max_slippage_points u),
     cap_max_quote_age_seconds := pick (cap_max_quote_age_seconds p) (pu_max_quote_age_seconds u),
     cap_high_spread_behavior := pick (cap_high_spread_behavior p) (pu_high_spread_behavior u),
     cap_trading_start_hour_utc := pick_opt (cap_trading_start_hour_utc p) (pu_trading_start_hour_utc u),
     cap_trading_end_hour_utc := pick_opt (cap_trading_end_hour_utc p) (pu_trading_end_hour_utc u),
     cap_is_paused := pick (cap_is_paused p) (pu_is_paused u),
     cap_daily_equity_anchor := (if pu_daily_loss_limit u = None then cap_daily_equity_anchor p else None),
     cap_daily_equity_anchor_date := (if pu_daily_loss_limit u = None then cap_daily_equity_anchor_date p else None),
     cap_peak_equity := (if pu_max_drawdown_percent u = None then cap_peak_equity p else None)\<rparr>"

definition update_account_policy :: "request \<Rightarrow> uuid \<Rightarrow> policy_update \<Rightarrow> db \<Rightarrow> (copy_account_policy \<times> db) result" where
  "update_account_policy rq k payload d = (
     case parse_policy_update payload of Inl e \<Rightarrow> Inl e | Inr u \<Rightarrow>
     case owned_ready_copy_connection d (rq_user rq) k of Inl e \<Rightarrow> Inl e | Inr _ \<Rightarrow>
     case get_or_create_account_policy (rq_rnd rq 0) (Some k) (rq_user rq) d of Inl e \<Rightarrow> Inl e | Inr (p, d1) \<Rightarrow>
     if (pick_opt (cap_trading_start_hour_utc p) (pu_trading_start_hour_utc u) = None)
        \<noteq> (pick_opt (cap_trading_end_hour_utc p) (pu_trading_end_hour_utc u) = None)
     then http_raise 422 ''Trading start and end hours must be set or cleared together.'' else
     let largest = max_fixed_lot_for_connection d1 (rq_user rq) k in
     if cap_below_routes (pu_max_lot u) largest
     then http_raise 409 ''The total exposure limit cannot be lower than the largest configured route lot'' else
     if cap_below_routes (pu_max_lot_per_trade u) largest
     then http_raise 409 ''The per-trade size limit cannot be lower than the largest configured route lot'' else
     if policy_null_violation u then integrity_error ''copy_account_policies'' else
     let p' = apply_policy_update u p in
     Inr (p', record_activity (rq_user rq) ''account_policy.updated'' ''Copy trading account settings updated'' Level_info
       (str_uuid (rq_rnd rq 1)) None None (Some k) (put_policy p' d1)))"

section \<open>Routes\<close>

text \<open>
  \<^verbatim>\<open>uuid.bytes[:4]\<close> are the upper 32 bits of the identifier; the top bit is masked so that the number is
  a positive 32-bit integer, as the broker requires.
\<close>

unbundle bit_operations_syntax

definition magic_number_for_route :: "uuid \<Rightarrow> int" where
  "magic_number_for_route i = (let n = uint (drop_bit 96 i AND 0x7FFFFFFF) in if n = 0 then 1 else n)"

definition unsafe_minimum_fields :: "minimum_fields \<Rightarrow> bool" where
  "unsafe_minimum_fields m \<longleftrightarrow> m \<in> {Direction_symbol, Direction_symbol_entry, Direction_symbol_sl, Direction_symbol_tp}"

record route_create =
  rc_source_id :: uuid
  rc_target_connection_id :: uuid
  rc_fixed_lot :: rat
  rc_take_profit_mode :: take_profit_mode
  rc_lot_distribution :: lot_distribution
  rc_pending_orders_enabled :: bool
  rc_minimum_fields :: minimum_fields
  rc_assembly_window_seconds :: "int option"
  rc_process_all_group_authors :: bool
  rc_notify_success :: bool
  rc_notify_failure :: bool
  rc_semantic_duplicate_window_seconds :: int
  rc_allow_sl_tp_updates :: bool
  rc_allow_break_even :: bool
  rc_allow_additional_tp :: bool
  rc_allow_partial_close :: bool
  rc_allow_full_close :: bool
  rc_allow_pending_cancel :: bool
  rc_unsafe_minimum_confirmed :: bool

definition valid_route_create :: "route_create \<Rightarrow> bool" where
  "valid_route_create s \<longleftrightarrow> 0 < rc_fixed_lot s \<and> decimal_field 12 4 (rc_fixed_lot s)
     \<and> (case rc_assembly_window_seconds s of None \<Rightarrow> True | Some n \<Rightarrow> int_between 1 600 n)
     \<and> int_between 0 3600 (rc_semantic_duplicate_window_seconds s)
     \<and> \<not> (rc_lot_distribution s = Split_total \<and> rc_take_profit_mode s \<noteq> TP_all)
     \<and> \<not> (unsafe_minimum_fields (rc_minimum_fields s) \<and> \<not> rc_unsafe_minimum_confirmed s)"

record route_update =
  ru_fixed_lot :: "rat change"
  ru_take_profit_mode :: "take_profit_mode change"
  ru_lot_distribution :: "lot_distribution change"
  ru_pending_orders_enabled :: "bool change"
  ru_minimum_fields :: "minimum_fields change"
  ru_assembly_window_seconds :: "int change"
  ru_process_all_group_authors :: "bool change"
  ru_notify_success :: "bool change"
  ru_notify_failure :: "bool change"
  ru_semantic_duplicate_window_seconds :: "int change"
  ru_allow_sl_tp_updates :: "bool change"
  ru_allow_break_even :: "bool change"
  ru_allow_additional_tp :: "bool change"
  ru_allow_partial_close :: "bool change"
  ru_allow_full_close :: "bool change"
  ru_allow_pending_cancel :: "bool change"
  ru_unsafe_minimum_confirmed :: "bool change"

definition valid_route_update :: "route_update \<Rightarrow> bool" where
  "valid_route_update u \<longleftrightarrow> sent_ok (\<lambda>x. 0 < x \<and> decimal_field 12 4 x) (ru_fixed_lot u)
     \<and> sent_ok (int_between 1 600) (ru_assembly_window_seconds u)
     \<and> sent_ok (int_between 0 3600) (ru_semantic_duplicate_window_seconds u)
     \<and> \<not> (ru_lot_distribution u = Some (Some Split_total) \<and> \<not> sent_ok (\<lambda>m. m = TP_all) (ru_take_profit_mode u))
     \<and> \<not> (\<not> sent_ok (\<lambda>m. \<not> unsafe_minimum_fields m) (ru_minimum_fields u) \<and> ru_unsafe_minimum_confirmed u \<noteq> Some (Some True))"

definition get_route_for_user :: "db \<Rightarrow> uuid \<Rightarrow> uuid \<Rightarrow> copy_route option result" where
  "get_route_for_user d k u = scalar_one_or_none (filter (\<lambda>r. rt_id r = k \<and> rt_user_id r = u) (db_routes d))"

definition get_source_for_user :: "db \<Rightarrow> uuid \<Rightarrow> uuid \<Rightarrow> telegram_source option result" where
  "get_source_for_user d k u = scalar_one_or_none (filter (\<lambda>s. src_id s = k \<and> src_user_id s = u) (db_sources d))"

definition get_route_by_source_and_connection :: "db \<Rightarrow> uuid \<Rightarrow> uuid \<Rightarrow> uuid \<Rightarrow> copy_route option result" where
  "get_route_by_source_and_connection d u source k = scalar_one_or_none (filter (\<lambda>r.
     rt_user_id r = u \<and> rt_source_id r = source \<and> rt_target_connection_id r = Some k) (db_routes d))"

definition owned_route :: "db \<Rightarrow> uuid \<Rightarrow> uuid \<Rightarrow> copy_route result" where
  "owned_route d u k = (case get_route_for_user d k u of Inl e \<Rightarrow> Inl e
     | Inr None \<Rightarrow> http_raise 404 ''Copy route not found.''
     | Inr (Some r) \<Rightarrow> Inr r)"

definition lot_exceeds :: "rat \<Rightarrow> copy_account_policy \<Rightarrow> bool" where
  "lot_exceeds lot p \<longleftrightarrow> lot > cap_max_lot p \<or> lot > cap_max_lot_per_trade p"

definition route_row :: "request \<Rightarrow> uuid \<Rightarrow> route_create \<Rightarrow> copy_route" where
  "route_row rq i s = \<lparr>rt_id = i, rt_user_id = rq_user rq, rt_source_id = rc_source_id s,
     rt_target_connection_id = Some (rc_target_connection_id s), rt_magic_number = magic_number_for_route i,
     rt_state = Route_ready, rt_paused_from_state = None, rt_fixed_lot = rc_fixed_lot s,
     rt_take_profit_mode = rc_take_profit_mode s, rt_lot_distribution = rc_lot_distribution s,
     rt_pending_orders_enabled = rc_pending_orders_enabled s, rt_minimum_fields = rc_minimum_fields s,
     rt_assembly_window_seconds = rc_assembly_window_seconds s,
     rt_process_all_group_authors = rc_process_all_group_authors s, rt_notify_success = rc_notify_success s,
     rt_notify_failure = rc_notify_failure s,
     rt_semantic_duplicate_window_seconds = rc_semantic_duplicate_window_seconds s,
     rt_allow_sl_tp_updates = rc_allow_sl_tp_updates s, rt_allow_break_even = rc_allow_break_even s,
     rt_allow_additional_tp = rc_allow_additional_tp s, rt_allow_partial_close = rc_allow_partial_close s,
     rt_allow_full_close = rc_allow_full_close s, rt_allow_pending_cancel = rc_allow_pending_cancel s,
     rt_unsafe_minimum_confirmed_at = (if unsafe_minimum_fields (rc_minimum_fields s) then Some (rq_now rq) else None)\<rparr>"

definition create_route :: "request \<Rightarrow> route_create \<Rightarrow> db \<Rightarrow> (copy_route \<times> db) result" where
  "create_route rq s d = (
     if \<not> valid_route_create s then http_raise 422 ''field constraints'' else
     case get_source_for_user d (rc_source_id s) (rq_user rq) of Inl e \<Rightarrow> Inl e
     | Inr None \<Rightarrow> http_raise 404 ''Telegram source not found.''
     | Inr (Some source) \<Rightarrow>
     case owned_ready_copy_connection d (rq_user rq) (rc_target_connection_id s) of Inl e \<Rightarrow> Inl e | Inr c \<Rightarrow>
     case get_route_by_source_and_connection d (rq_user rq) (src_id source) (cn_id c) of Inl e \<Rightarrow> Inl e
     | Inr (Some _) \<Rightarrow> http_raise 409 ''A copy route already exists for this source and account.''
     | Inr None \<Rightarrow>
     case get_or_create_account_policy (rq_rnd rq 0) (Some (cn_id c)) (rq_user rq) d of Inl e \<Rightarrow> Inl e | Inr (p, d1) \<Rightarrow>
     if lot_exceeds (rc_fixed_lot s) p
     then http_raise 422 ''Fixed lot exceeds this account's configured trade or exposure limit.'' else
     let r = route_row rq (rq_rnd rq 1) s in
     if list_ex (\<lambda>x. rt_id x = rt_id r \<or> rt_magic_number x = rt_magic_number r) (db_routes d1)
     then integrity_error ''copy_routes''
     else Inr (r, record_route_activity rq 2 r ''route.created'' ''Copy route created'' Level_success
       (d1 \<lparr>db_routes := db_routes d1 @ [r]\<rparr>)))"

text \<open>
  The merged settings are validated as a new route: a route without an account, a null in a field that is
  not optional and settings that do not fit together raise a \<^verbatim>\<open>ValidationError\<close>.
\<close>

definition route_update_nulls :: "route_update \<Rightarrow> bool" where
  "route_update_nulls u \<longleftrightarrow> is_null (ru_fixed_lot u) \<or> is_null (ru_take_profit_mode u) \<or> is_null (ru_lot_distribution u)
     \<or> is_null (ru_pending_orders_enabled u) \<or> is_null (ru_minimum_fields u) \<or> is_null (ru_process_all_group_authors u)
     \<or> is_null (ru_notify_success u) \<or> is_null (ru_notify_failure u) \<or> is_null (ru_semantic_duplicate_window_seconds u)
     \<or> is_null (ru_allow_sl_tp_updates u) \<or> is_null (ru_allow_break_even u) \<or> is_null (ru_allow_additional_tp u)
     \<or> is_null (ru_allow_partial_close u) \<or> is_null (ru_allow_full_close u) \<or> is_null (ru_allow_pending_cancel u)"

definition merged_settings :: "copy_route \<Rightarrow> uuid \<Rightarrow> route_update \<Rightarrow> route_create" where
  "merged_settings r k u = \<lparr>rc_source_id = rt_source_id r, rc_target_connection_id = k,
     rc_fixed_lot = pick (rt_fixed_lot r) (ru_fixed_lot u),
     rc_take_profit_mode = pick (rt_take_profit_mode r) (ru_take_profit_mode u),
     rc_lot_distribution = pick (rt_lot_distribution r) (ru_lot_distribution u),
     rc_pending_orders_enabled = pick (rt_pending_orders_enabled r) (ru_pending_orders_enabled u),
     rc_minimum_fields = pick (rt_minimum_fields r) (ru_minimum_fields u),
     rc_assembly_window_seconds = pick_opt (rt_assembly_window_seconds r) (ru_assembly_window_seconds u),
     rc_process_all_group_authors = pick (rt_process_all_group_authors r) (ru_process_all_group_authors u),
     rc_notify_success = pick (rt_notify_success r) (ru_notify_success u),
     rc_notify_failure = pick (rt_notify_failure r) (ru_notify_failure u),
     rc_semantic_duplicate_window_seconds =
       pick (rt_semantic_duplicate_window_seconds r) (ru_semantic_duplicate_window_seconds u),
     rc_allow_sl_tp_updates = pick (rt_allow_sl_tp_updates r) (ru_allow_sl_tp_updates u),
     rc_allow_break_even = pick (rt_allow_break_even r) (ru_allow_break_even u),
     rc_allow_additional_tp = pick (rt_allow_additional_tp r) (ru_allow_additional_tp u),
     rc_allow_partial_close = pick (rt_allow_partial_close r) (ru_allow_partial_close u),
     rc_allow_full_close = pick (rt_allow_full_close r) (ru_allow_full_close u),
     rc_allow_pending_cancel = pick (rt_allow_pending_cancel r) (ru_allow_pending_cancel u),
     rc_unsafe_minimum_confirmed = pick (rt_unsafe_minimum_confirmed_at r \<noteq> None) (ru_unsafe_minimum_confirmed u)\<rparr>"

definition validated_settings :: "copy_route \<Rightarrow> route_update \<Rightarrow> route_create result" where
  "validated_settings r u = (case rt_target_connection_id r of None \<Rightarrow> Inl (Exn ''ValidationError'' ''target_connection_id'')
     | Some k \<Rightarrow> if route_update_nulls u \<or> \<not> valid_route_create (merged_settings r k u)
         then Inl (Exn ''ValidationError'' ''CopyRouteCreate'') else Inr (merged_settings r k u))"

text \<open>Only the fields that were sent are assigned; a field that was not sent has its old value after merging.\<close>

definition apply_settings :: "request \<Rightarrow> route_update \<Rightarrow> route_create \<Rightarrow> copy_route \<Rightarrow> copy_route" where
  "apply_settings rq u s r = r \<lparr>rt_fixed_lot := rc_fixed_lot s, rt_take_profit_mode := rc_take_profit_mode s,
     rt_lot_distribution := rc_lot_distribution s, rt_pending_orders_enabled := rc_pending_orders_enabled s,
     rt_minimum_fields := rc_minimum_fields s, rt_assembly_window_seconds := rc_assembly_window_seconds s,
     rt_process_all_group_authors := rc_process_all_group_authors s, rt_notify_success := rc_notify_success s,
     rt_notify_failure := rc_notify_failure s,
     rt_semantic_duplicate_window_seconds := rc_semantic_duplicate_window_seconds s,
     rt_allow_sl_tp_updates := rc_allow_sl_tp_updates s, rt_allow_break_even := rc_allow_break_even s,
     rt_allow_additional_tp := rc_allow_additional_tp s, rt_allow_partial_close := rc_allow_partial_close s,
     rt_allow_full_close := rc_allow_full_close s, rt_allow_pending_cancel := rc_allow_pending_cancel s,
     rt_unsafe_minimum_confirmed_at :=
       (if ru_minimum_fields u \<noteq> None \<and> unsafe_minimum_fields (rc_minimum_fields s)
           \<and> ru_unsafe_minimum_confirmed u = Some (Some True) then Some (rq_now rq)
        else if \<not> unsafe_minimum_fields (rc_minimum_fields s) then None
        else rt_unsafe_minimum_confirmed_at r)\<rparr>"

definition update_route :: "request \<Rightarrow> uuid \<Rightarrow> route_update \<Rightarrow> db \<Rightarrow> (copy_route \<times> db) result" where
  "update_route rq k u d = (
     if \<not> valid_route_update u then http_raise 422 ''field constraints'' else
     case owned_route d (rq_user rq) k of Inl e \<Rightarrow> Inl e | Inr r \<Rightarrow>
     case validated_settings r u of Inl e \<Rightarrow> Inl e | Inr s \<Rightarrow>
     case get_or_create_account_policy (rq_rnd rq 0) (rt_target_connection_id r) (rq_user rq) d of Inl e \<Rightarrow> Inl e
     | Inr (p, d1) \<Rightarrow>
     if lot_exceeds (rc_fixed_lot s) p
     then http_raise 422 ''Fixed lot exceeds this account's configured trade or exposure limit.'' else
     let r' = apply_settings rq u s r in
     Inr (r', record_route_activity rq 1 r' ''route.updated'' ''Copy route settings updated'' Level_info (put_route r' d1)))"

definition pause_route :: "request \<Rightarrow> uuid \<Rightarrow> db \<Rightarrow> (copy_route \<times> db) result" where
  "pause_route rq k d = (case owned_route d (rq_user rq) k of Inl e \<Rightarrow> Inl e | Inr r \<Rightarrow>
     if rt_state r = Route_paused then Inr (r, d)
     else let r' = pause_row r in
       Inr (r', record_route_activity rq 0 r' ''route.paused'' ''Copying paused'' Level_warning (put_route r' d)))"

text \<open>A settings row created for a route that is not paused is not committed.\<close>

definition resume_route :: "request \<Rightarrow> uuid \<Rightarrow> db \<Rightarrow> (copy_route \<times> db) result" where
  "resume_route rq k d = (case owned_route d (rq_user rq) k of Inl e \<Rightarrow> Inl e | Inr r \<Rightarrow>
     case get_or_create_user_settings (rq_user rq) d of (user_settings, d1) \<Rightarrow>
     case get_account_policy d1 (rt_target_connection_id r) (rq_user rq) of Inl e \<Rightarrow> Inl e | Inr policy \<Rightarrow>
     if us_is_paused user_settings \<or> (case policy of None \<Rightarrow> False | Some p \<Rightarrow> cap_is_paused p)
     then http_raise 409 ''Resume the global and account copy-trading controls first.''
     else if rt_state r = Route_paused
     then let r' = r \<lparr>rt_state := (case rt_paused_from_state r of None \<Rightarrow> Route_ready | Some st \<Rightarrow> st),
                     rt_paused_from_state := None\<rparr> in
       Inr (r', record_route_activity rq 0 r' ''route.resumed'' ''Copying resumed'' Level_success (put_route r' d1))
     else Inr (r, d))"

definition activate_route :: "request \<Rightarrow> uuid \<Rightarrow> db \<Rightarrow> (copy_route \<times> db) result" where
  "activate_route rq k d = (case owned_route d (rq_user rq) k of Inl e \<Rightarrow> Inl e | Inr r \<Rightarrow>
     case get_source_for_user d (rt_source_id r) (rq_user rq) of Inl e \<Rightarrow> Inl e | Inr source \<Rightarrow>
     case rt_target_connection_id r of
       None \<Rightarrow> http_raise 409 ''Link a ready copy account before activating this route.''
     | Some cid \<Rightarrow>
     case owned_ready_copy_connection d (rq_user rq) cid of Inl e \<Rightarrow> Inl e | Inr _ \<Rightarrow>
     case source of None \<Rightarrow> http_raise 404 ''Telegram source not found.'' | Some src \<Rightarrow>
     let r' = r \<lparr>rt_state := Route_active\<rparr> in
     Inr (r', record_route_activity rq 0 r' ''route.activated'' ''Automatic copying started'' Level_success
       (put_route r' (d \<lparr>db_sources := row_put src_id (src \<lparr>src_state := Source_active\<rparr>) (db_sources d)\<rparr>))))"

text \<open>
  Deleting a row of \<^verbatim>\<open>copy_routes\<close> deletes what refers to it on cascade, and what refers to that; the
  activity of the route stays without its route, and an assembly loses its opening intent.
\<close>

definition delete_route_row :: "uuid \<Rightarrow> db \<Rightarrow> db" where
  "delete_route_row k d = (
     let gone_actions = map pa_id (filter (\<lambda>a. pa_route_id a = k) (db_actions d));
         gone = (\<lambda>i. ti_route_id i = k \<or> ti_parsed_action_id i \<in> set gone_actions);
         gone_intents = map ti_id (filter gone (db_intents d)) in
     d \<lparr>db_routes := filter (\<lambda>r. rt_id r \<noteq> k) (db_routes d),
        db_actions := filter (\<lambda>a. pa_route_id a \<noteq> k) (db_actions d),
        db_intents := filter (\<lambda>i. \<not> gone i) (db_intents d),
        db_assemblies := map (\<lambda>a. case asm_opening_intent_id a of None \<Rightarrow> a
            | Some i \<Rightarrow> if i \<in> set gone_intents then a \<lparr>asm_opening_intent_id := None\<rparr> else a)
          (filter (\<lambda>a. asm_route_id a \<noteq> k) (db_assemblies d)),
        db_trades := filter (\<lambda>t. ct_route_id t \<noteq> k \<and> ct_intent_id t \<notin> set gone_intents) (db_trades d),
        db_mappings := filter (\<lambda>m. sm_route_id m \<noteq> k) (db_mappings d),
        db_metrics := filter (\<lambda>m. em_route_id m \<noteq> k \<and> em_intent_id m \<notin> set gone_intents) (db_metrics d),
        db_activities := map (\<lambda>a. if act_route_id a = Some k then a \<lparr>act_route_id := None\<rparr> else a) (db_activities d)\<rparr>)"

definition delete_route :: "request \<Rightarrow> uuid \<Rightarrow> db \<Rightarrow> db result" where
  "delete_route rq k d = (case owned_route d (rq_user rq) k of Inl e \<Rightarrow> Inl e | Inr r \<Rightarrow>
     if rt_state r = Route_active then http_raise 409 ''Pause the route before deleting it.''
     else Inr (delete_route_row (rt_id r)
       (record_route_activity rq 0 r ''route.deleted'' ''Copy route deleted'' Level_warning d)))"

end
