(* ===== verification/Provisioning.thy ===== *)
theory Provisioning
  imports Routes Delivery
begin

text \<open>
  Provisioning of broker accounts: \<^verbatim>\<open>copy_trading/metaapi_jobs.py\<close>, \<^verbatim>\<open>metaapi_provisioning.py\<close>, the HTTP client of
  \<^verbatim>\<open>metaapi_client.py\<close> and the commands the endpoints of \<^verbatim>\<open>router.py\<close> publish for it.

  The provider is a parameter: what the HTTP endpoint answers, what the SDK returns for an account,
  and what the streaming runtime says of the terminal. An account is provisioned in several commits;
  the rows it commits are returned in order, so that a crash between two of them leaves a prefix.
  Whether the lock of the connection is free is a parameter too.
\<close>

section \<open>Errors\<close>

record provisioning_error =
  pe_code :: string
  pe_state :: copy_trading_connection_state
  pe_user_message :: string
  pe_retryable :: bool

text \<open>What a step of the provisioning raises: its own error or any other exception.\<close>

datatype provisioning_raise = Provisioning_error provisioning_error | Other_error exn

definition detail_code :: "(pyval \<Rightarrow> string) \<Rightarrow> pyval \<Rightarrow> string" where
  "detail_code other details = (case details of
     PDict m \<Rightarrow> if dict_has m ''code'' then text_of other (dict_get m ''code'') else []
   | _ \<Rightarrow> text_of other (or_value details (PStr [])))"

definition classify_provisioning_error :: "(pyval \<Rightarrow> string) \<Rightarrow> dict \<Rightarrow> int option \<Rightarrow> provisioning_error" where
  "classify_provisioning_error other payload status = (
     let details = py_upper (detail_code other (dict_get payload ''details''));
         message = py_upper (if dict_has payload ''message'' then text_of other (dict_get payload ''message'') else []);
         evidence = details @ '' '' @ message in
     if py_in ''E_SRV_NOT_FOUND'' evidence
     then \<lparr>pe_code = ''server_not_found'', pe_state = Conn_server_not_found,
       pe_user_message = ''The broker server was not found. Check the exact MT5 server name.'', pe_retryable = False\<rparr>
     else if py_in ''E_AUTH'' evidence \<or> py_in ''INVALID ACCOUNT'' evidence
     then \<lparr>pe_code = ''invalid_credentials'', pe_state = Conn_invalid_credentials,
       pe_user_message = ''The broker rejected the account login, server, or trader password.'', pe_retryable = False\<rparr>
     else if py_in ''E_TRADING_ACCOUNT_DISABLED'' evidence \<or> py_in ''ACCOUNT DISABLED'' evidence
     then \<lparr>pe_code = ''trading_disabled'', pe_state = Conn_trading_disabled,
       pe_user_message = ''The broker reports that trading is disabled for this account.'', pe_retryable = False\<rparr>
     else \<lparr>pe_code = ''provisioning_failed'', pe_state = Conn_provisioning_failed,
       pe_user_message = ''The copy account could not be provisioned. Please try again.'',
       pe_retryable = (case status of None \<Rightarrow> True | Some n \<Rightarrow> n \<ge> 500 \<or> n = 429)\<rparr>)"

definition classify_metaapi_sdk_error :: "(pyval \<Rightarrow> string) \<Rightarrow> exn \<Rightarrow> provisioning_error" where
  "classify_metaapi_sdk_error other e = (
     let evidence = py_upper (exn_class e @ '' '' @ exn_message e) in
     if py_in ''TOP UP'' evidence \<or> py_in ''ALLOW TRADING ACCOUNT DEPLOYMENT'' evidence
     then \<lparr>pe_code = ''metaapi_billing_required'', pe_state = Conn_provisioning_failed,
       pe_user_message = ''MetaApi rejected account deployment because the MetaApi account needs funding.'', pe_retryable = False\<rparr>
     else if py_in ''TIMED OUT WAITING'' evidence \<and> py_in ''CONNECT'' evidence
     then \<lparr>pe_code = ''broker_connection_timeout'', pe_state = Conn_broker_disconnected,
       pe_user_message = ''MetaApi deployed the account but could not connect to the broker in time.'', pe_retryable = True\<rparr>
     else classify_provisioning_error other [] None)"

section \<open>The provider\<close>

record account_payload =
  mp_login :: string
  mp_password :: string
  mp_name :: string
  mp_server :: string
  mp_platform :: string
  mp_type :: string
  mp_region :: string

text \<open>An account of the SDK: its state, and what each call on it does.\<close>

record provider_account =
  acc_state :: string
  acc_deploy :: "unit result"
  acc_wait_deployed :: "unit result"
  acc_wait_connected :: "unit result"
  acc_undeploy :: "unit result"
  acc_remove :: "unit result"

record provisioning_env =
  pv_token :: string
  pv_account_type :: string
  pv_region :: string
  pv_lock_free :: "uuid \<Rightarrow> bool"
  pv_str :: "pyval \<Rightarrow> string"
  pv_post :: "account_payload \<Rightarrow> string \<Rightarrow> (int \<times> dict) result"
  pv_get_account :: "string \<Rightarrow> provider_account result"
  pv_decrypt :: "string \<Rightarrow> string result"
  pv_close_account :: "string \<Rightarrow> unit result"
  pv_acquire :: "string \<Rightarrow> dict option result"

definition create_account ::
  "provisioning_env \<Rightarrow> account_payload \<Rightarrow> string \<Rightarrow> provisioning_raise + dict option" where
  "create_account env payload transaction = (case pv_post env payload transaction of
     Inl e \<Rightarrow> Inl (Other_error e)
   | Inr (status, body) \<Rightarrow>
       if status = 202 then Inr None
       else if status = 201 then Inr (Some body)
       else Inl (Provisioning_error (classify_provisioning_error (pv_str env) body (Some status))))"

section \<open>Provisioning an account\<close>

text \<open>
  The steps before an account identifier is known. The first component is the row as the code has it
  now, the second the rows committed so far.
\<close>

type_synonym progress = "copy_trading_connection \<times> copy_trading_connection list"

definition commit_row :: "(copy_trading_connection \<Rightarrow> copy_trading_connection) \<Rightarrow> progress \<Rightarrow> progress" where
  "commit_row f s = (f (fst s), snd s @ [f (fst s)])"

definition account_request :: "provisioning_env \<Rightarrow> copy_trading_connection \<Rightarrow> string \<Rightarrow> account_payload" where
  "account_request env c password = \<lparr>mp_login = cn_broker_login c, mp_password = password, mp_name = cn_display_name c,
     mp_server = cn_broker_server c, mp_platform = cn_platform c, mp_type = pv_account_type env, mp_region = pv_region env\<rparr>"

definition has_metaapi_account :: "copy_trading_connection \<Rightarrow> bool" where
  "has_metaapi_account c \<longleftrightarrow> (case cn_metaapi_account_id c of None \<Rightarrow> False | Some a \<Rightarrow> a \<noteq> [])"

text \<open>The answer says whether the account exists now; \<open>False\<close> stands for the early \<^verbatim>\<open>return False\<close>.\<close>

definition request_account ::
  "provisioning_env \<Rightarrow> string \<Rightarrow> progress \<Rightarrow> (provisioning_raise + bool) \<times> progress" where
  "request_account env password s = (if has_metaapi_account (fst s) then (Inr True, s) else
     let s = commit_row (\<lambda>c. c \<lparr>cn_state := Conn_provisioning, cn_last_error_code := None, cn_last_error_message := None\<rparr>) s in
     case create_account env (account_request env (fst s) password) (cn_provisioning_transaction_id (fst s)) of
       Inl e \<Rightarrow> (Inl e, s)
     | Inr None \<Rightarrow> (Inr False, s)
     | Inr (Some body) \<Rightarrow> (case dict_item body ''id'' of Inl e \<Rightarrow> (Inl (Other_error e), s)
         | Inr v \<Rightarrow> (Inr True, ((fst s) \<lparr>cn_metaapi_account_id := Some (text_of (pv_str env) v)\<rparr>, snd s))))"

definition account_key :: "copy_trading_connection \<Rightarrow> string" where
  "account_key c = (case cn_metaapi_account_id c of None \<Rightarrow> [] | Some a \<Rightarrow> a)"

definition deploy_account :: "provisioning_env \<Rightarrow> string \<Rightarrow> provider_account result" where
  "deploy_account env k = (case pv_get_account env k of Inl e \<Rightarrow> Inl e | Inr a \<Rightarrow>
     if py_upper (acc_state a) = ''DEPLOYED'' then Inr a
     else case acc_deploy a of Inl e \<Rightarrow> Inl e | Inr _ \<Rightarrow>
       case acc_wait_deployed a of Inl e \<Rightarrow> Inl e | Inr _ \<Rightarrow> Inr a)"

definition provision_steps ::
  "provisioning_env \<Rightarrow> string \<Rightarrow> progress \<Rightarrow> (provisioning_raise + bool) \<times> progress" where
  "provision_steps env password s = (case request_account env password s of
     (Inl e, s) \<Rightarrow> (Inl e, s)
   | (Inr False, s) \<Rightarrow> (Inr False, s)
   | (Inr True, s) \<Rightarrow>
     let s = commit_row (\<lambda>c. c \<lparr>cn_state := Conn_deploying\<rparr>) s in
     case deploy_account env (account_key (fst s)) of Inl e \<Rightarrow> (Inl (Other_error e), s) | Inr a \<Rightarrow>
     let s = commit_row (\<lambda>c. c \<lparr>cn_state := Conn_connecting\<rparr>) s in
     case acc_wait_connected a of Inl e \<Rightarrow> (Inl (Other_error e), s) | Inr _ \<Rightarrow>
     (Inr True, commit_row (\<lambda>c. c \<lparr>cn_state := Conn_synchronizing\<rparr>) s))"

definition fail_with :: "provisioning_error \<Rightarrow> copy_trading_connection \<Rightarrow> copy_trading_connection" where
  "fail_with e c = c \<lparr>cn_state := pe_state e, cn_last_error_code := Some (pe_code e),
     cn_last_error_message := Some (pe_user_message e)\<rparr>"

definition raised_error :: "provisioning_env \<Rightarrow> provisioning_raise \<Rightarrow> provisioning_error" where
  "raised_error env x = (case x of Provisioning_error e \<Rightarrow> e | Other_error e \<Rightarrow> classify_metaapi_sdk_error (pv_str env) e)"

definition provision ::
  "provisioning_env \<Rightarrow> string \<Rightarrow> copy_trading_connection \<Rightarrow> (provisioning_error + bool) \<times> progress" where
  "provision env password c = (case provision_steps env password (c, []) of
     (Inl x, s) \<Rightarrow> (Inl (raised_error env x), commit_row (fail_with (raised_error env x)) s)
   | (Inr b, s) \<Rightarrow> (Inr b, s))"

text \<open>\<^verbatim>\<open>cleanup\<close>: an exception of the SDK leaves the row as it was committed first.\<close>

definition remove_account :: "provisioning_env \<Rightarrow> string \<Rightarrow> unit result" where
  "remove_account env k = (case pv_get_account env k of Inl e \<Rightarrow> Inl e | Inr a \<Rightarrow>
     case (if py_upper (acc_state a) = ''UNDEPLOYED'' then Inr () else acc_undeploy a) of Inl e \<Rightarrow> Inl e | Inr _ \<Rightarrow> acc_remove a)"

definition cleanup :: "provisioning_env \<Rightarrow> copy_trading_connection \<Rightarrow> unit result \<times> progress" where
  "cleanup env c = (
     let s = commit_row (\<lambda>c. c \<lparr>cn_state := Conn_deleting\<rparr>) (c, []);
         finish = (\<lambda>s. (Inr (), commit_row (\<lambda>c. c \<lparr>cn_encrypted_trader_password := None, cn_state := Conn_deleted\<rparr>) s)) in
     if has_metaapi_account c then (case remove_account env (account_key c) of
         Inl e \<Rightarrow> (Inl e, s)
       | Inr _ \<Rightarrow> finish ((fst s) \<lparr>cn_metaapi_account_id := None\<rparr>, snd s))
     else finish s)"

section \<open>The handler\<close>

definition validate_terminal_account ::
  "(pyval \<Rightarrow> string) \<Rightarrow> copy_trading_connection \<Rightarrow> dict option \<Rightarrow> provisioning_error option" where
  "validate_terminal_account other c information = (case information of
     None \<Rightarrow> Some \<lparr>pe_code = ''account_information_missing'', pe_state = Conn_synchronization_failed,
       pe_user_message = ''The broker account did not finish synchronizing.'', pe_retryable = False\<rparr>
   | Some info \<Rightarrow>
     if info = [] then Some \<lparr>pe_code = ''account_information_missing'', pe_state = Conn_synchronization_failed,
       pe_user_message = ''The broker account did not finish synchronizing.'', pe_retryable = False\<rparr>
     else if text_of other (dict_get info ''login'') \<noteq> cn_broker_login c
       \<or> py_lower (if dict_has info ''server'' then text_of other (dict_get info ''server'') else []) \<noteq> py_lower (cn_broker_server c)
     then Some \<lparr>pe_code = ''account_identity_mismatch'', pe_state = Conn_synchronization_failed,
       pe_user_message = ''The synchronized broker account does not match the requested login and server.'', pe_retryable = False\<rparr>
     else if \<not> truthy (dict_get info ''tradeAllowed'') \<or> truthy (dict_get info ''investorMode'')
     then Some \<lparr>pe_code = ''trading_disabled'', pe_state = Conn_trading_disabled,
       pe_user_message = ''Trader access is required for copy trading.'', pe_retryable = False\<rparr>
     else None)"

text \<open>The rows of the job are committed one after the other; the last one is what the database keeps.\<close>

definition commit_all :: "copy_trading_connection list \<Rightarrow> db \<Rightarrow> db" where
  "commit_all rows d = fold put_connection rows d"

datatype job_result = Job_raised exn | Job_failed provisioning_error | Job_done bool

definition run_job :: "provisioning_env \<Rightarrow> bool \<Rightarrow> copy_trading_connection \<Rightarrow> job_result \<times> progress" where
  "run_job env delete c = (
     if delete then (case cleanup env c of (Inl e, s) \<Rightarrow> (Job_raised e, s) | (Inr _, s) \<Rightarrow> (Job_done True, s))
     else case cn_encrypted_trader_password c of None \<Rightarrow> (Job_done True, (c, []))
     | Some secret \<Rightarrow> if secret = [] then (Job_done True, (c, [])) else
       case pv_decrypt env secret of Inl e \<Rightarrow> (Job_raised e, (c, [])) | Inr password \<Rightarrow>
       case provision env password c of (Inl e, s) \<Rightarrow> (Job_failed e, s) | (Inr b, s) \<Rightarrow> (Job_done b, s))"

definition verify_terminal ::
  "provisioning_env \<Rightarrow> int \<Rightarrow> copy_trading_connection \<Rightarrow> db \<Rightarrow> delivery_result result \<times> db" where
  "verify_terminal env now c d = (case pv_acquire env (account_key c) of Inl e \<Rightarrow> (Inl e, d) | Inr information \<Rightarrow>
     case validate_terminal_account (pv_str env) c information of
       Some e \<Rightarrow> (Inr delivery_success, put_connection (fail_with e c) d)
     | None \<Rightarrow> (Inr delivery_success, put_connection (c \<lparr>cn_state := Conn_ready, cn_last_health_at := Some now,
         cn_last_error_code := None, cn_last_error_message := None\<rparr>) d))"

definition event_connection :: "copy_event \<Rightarrow> uuid result" where
  "event_connection e = (case str_item (ev_payload e) ''connection_id'' of Inl x \<Rightarrow> Inl x | Inr t \<Rightarrow> parse_uuid t)"

definition provisioning_handler ::
  "provisioning_env \<Rightarrow> int \<Rightarrow> copy_event \<Rightarrow> db \<Rightarrow> delivery_result result \<times> db" where
  "provisioning_handler env now e d = (
     if pv_token env = [] then (Inr (delivery_retry ''METAAPI_NOT_CONFIGURED'' ''MetaApi credentials are not configured.''), d) else
     case event_connection e of Inl x \<Rightarrow> (Inl x, d) | Inr k \<Rightarrow>
     if \<not> pv_lock_free env k
     then (Inr (delivery_retry ''PROVISIONING_IN_PROGRESS'' ''MetaApi account provisioning is already in progress.''), d) else
     case get_connection d (Some k) of None \<Rightarrow> (Inr delivery_success, d) | Some c \<Rightarrow>
     let delete = (ev_event_type e = ''connection.delete'') in
     case (if delete \<and> has_metaapi_account c then pv_close_account env (account_key c) else Inr ()) of Inl x \<Rightarrow> (Inl x, d) | Inr _ \<Rightarrow>
     case run_job env delete c of (outcome, (c', rows)) \<Rightarrow>
     let d' = commit_all rows d in
     case outcome of
       Job_raised x \<Rightarrow> (Inl x, d')
     | Job_failed x \<Rightarrow> (Inr (if pe_retryable x then delivery_retry (pe_code x) (pe_user_message x) else delivery_success), d')
     | Job_done False \<Rightarrow> (Inr (delivery_retry ''PROVISIONING_ACCEPTED'' ''MetaApi is still provisioning the account.''), d')
     | Job_done True \<Rightarrow> if \<not> delete \<and> has_metaapi_account c' then verify_terminal env now c' d' else (Inr delivery_success, d'))"

definition mark_provisioning_retry_exhausted :: "copy_event \<Rightarrow> db \<Rightarrow> db" where
  "mark_provisioning_retry_exhausted e d = (case event_connection e of Inl _ \<Rightarrow> d | Inr k \<Rightarrow>
     case get_connection d (Some k) of None \<Rightarrow> d | Some c \<Rightarrow>
     if cn_state c \<noteq> Conn_provisioning \<or> has_metaapi_account c then d
     else put_connection (c \<lparr>cn_state := Conn_provisioning_failed, cn_last_error_code := Some ''provisioning_timeout'',
       cn_last_error_message := Some ''The broker connection is taking longer than expected. Please try again.''\<rparr>) d)"

text \<open>
  The worker of the stream as \<^verbatim>\<open>run_process\<close> sets it up. An event whose \<^verbatim>\<open>connection_id\<close> does not parse raises
  from the exhausted handler too; the events published below all carry one.
\<close>

definition provisioning_worker :: "provisioning_env \<Rightarrow> int \<Rightarrow> int \<Rightarrow> db worker_setup" where
  "provisioning_worker env attempts now = \<lparr>ws_stream = S_metaapi_provisioning, ws_group = ''copy-provisioning'',
     ws_handler = \<lambda>e d. (case provisioning_handler env now e d of (Inl x, d') \<Rightarrow> (Inl x, d') | (Inr r, d') \<Rightarrow> (Inr (Some r), d')),
     ws_exhausted = \<lambda>e _ d. mark_provisioning_retry_exhausted e d, ws_owner = \<lambda>p d. dead_letter_owner d p,
     ws_max_attempts = max 2 attempts\<rparr>"

section \<open>The endpoints\<close>

text \<open>\<^verbatim>\<open>_publish_metaapi_command\<close>, and the three endpoints that call it; the last draw is the event's.\<close>

definition metaapi_command :: "request \<Rightarrow> copy_trading_connection \<Rightarrow> string \<Rightarrow> copy_event" where
  "metaapi_command rq c event_type = new_event (rq_rnd rq 2) (rq_now rq) S_metaapi_provisioning event_type (str_uuid (cn_id c))
     [(''connection_id'', PStr (str_uuid (cn_id c)))]
     (event_type @ '':'' @ str_uuid (cn_id c) @ '':'' @ cn_provisioning_transaction_id c)"

definition post_connection :: "request \<Rightarrow> connection_create \<Rightarrow> db \<Rightarrow> (copy_event list \<times> db) result" where
  "post_connection rq p d = (if \<not> valid_connection_create p then http_raise 422 ''field constraints'' else
     case create_copy_connection rq p d of Inl e \<Rightarrow> Inl e
     | Inr (c, d') \<Rightarrow> Inr ([metaapi_command rq c ''connection.provision''], d'))"

definition post_connection_retry :: "request \<Rightarrow> uuid \<Rightarrow> db \<Rightarrow> (copy_event list \<times> db) result" where
  "post_connection_retry rq k d = (case retry_copy_connection rq k d of Inl e \<Rightarrow> Inl e
     | Inr (c, d') \<Rightarrow> Inr ([metaapi_command rq c ''connection.provision''], d'))"

definition delete_connection :: "request \<Rightarrow> uuid \<Rightarrow> db \<Rightarrow> (copy_event list \<times> db) result" where
  "delete_connection rq k d = (case delete_copy_connection rq k d of Inl e \<Rightarrow> Inl e
     | Inr (c, d') \<Rightarrow> Inr (if cn_state c = Conn_deleted then [] else [metaapi_command rq c ''connection.delete''], d'))"

end
