(* ===== verification/Provisioning_Proofs.thy ===== *)
theory Provisioning_Proofs
  imports Provisioning
begin

text \<open>
  What the provisioning worker guarantees: an account becomes ready only when the terminal it reached is the
  account the user asked for and may trade, a crash never leads to a second account, a deleted account
  stays deleted, and which retries of the user reach the worker.
\<close>

section \<open>Rows of one account\<close>

text \<open>What no step of the provisioning changes.\<close>

definition same_account :: "copy_trading_connection \<Rightarrow> copy_trading_connection \<Rightarrow> bool" where
  "same_account c x \<longleftrightarrow> cn_id x = cn_id c \<and> cn_user_id x = cn_user_id c \<and> cn_broker_login x = cn_broker_login c
     \<and> cn_broker_server x = cn_broker_server c \<and> cn_display_name x = cn_display_name c \<and> cn_platform x = cn_platform c
     \<and> cn_provisioning_transaction_id x = cn_provisioning_transaction_id c"

lemma same_account_refl [simp]: "same_account c c"
  by (simp add: same_account_def)

lemma same_account_update [simp]:
  "same_account c (x \<lparr>cn_state := st\<rparr>) = same_account c x"
  "same_account c (x \<lparr>cn_last_error_code := ec\<rparr>) = same_account c x"
  "same_account c (x \<lparr>cn_last_error_message := em\<rparr>) = same_account c x"
  "same_account c (x \<lparr>cn_metaapi_account_id := a\<rparr>) = same_account c x"
  "same_account c (x \<lparr>cn_encrypted_trader_password := pw\<rparr>) = same_account c x"
  "same_account c (x \<lparr>cn_last_health_at := t\<rparr>) = same_account c x"
  by (simp_all add: same_account_def)

lemma same_account_fail [simp]: "same_account c (fail_with e x) = same_account c x"
  by (simp add: fail_with_def)

text \<open>The progress of a job: every row it commits is of the account, and the last one is the row it ends with.\<close>

definition progress_ok :: "copy_trading_connection \<Rightarrow> progress \<Rightarrow> bool" where
  "progress_ok c s \<longleftrightarrow> same_account c (fst s) \<and> list_all (same_account c) (snd s)
     \<and> list_all (\<lambda>x. cn_encrypted_trader_password x = cn_encrypted_trader_password c
          \<and> (has_metaapi_account c \<longrightarrow> cn_metaapi_account_id x = cn_metaapi_account_id c)) (fst s # snd s)
     \<and> list_all (\<lambda>x. has_metaapi_account x \<longrightarrow> cn_metaapi_account_id x = cn_metaapi_account_id (fst s)) (snd s)"

definition committed :: "progress \<Rightarrow> bool" where
  "committed s \<longleftrightarrow> snd s \<noteq> [] \<and> last (snd s) = fst s"

lemma commit_row_ok:
  assumes "progress_ok c s" "\<And>x. same_account c x \<Longrightarrow> same_account c (f x)"
    "\<And>x. cn_encrypted_trader_password (f x) = cn_encrypted_trader_password x"
    "\<And>x. cn_metaapi_account_id (f x) = cn_metaapi_account_id x"
  shows "progress_ok c (commit_row f s) \<and> committed (commit_row f s)"
  using assms by (cases s) (auto simp: progress_ok_def commit_row_def committed_def has_metaapi_account_def)

lemma request_account_ok:
  assumes "request_account env pw s = (r, s')" "progress_ok c s" "has_metaapi_account c \<longrightarrow> has_metaapi_account (fst s)"
  shows "progress_ok c s' \<and> (r = Inr False \<longrightarrow> committed s')"
proof (cases "has_metaapi_account (fst s)")
  case True
  with assms show ?thesis by (auto simp: request_account_def)
next
  case False
  define s1 where "s1 = commit_row (\<lambda>c. c \<lparr>cn_state := Conn_provisioning, cn_last_error_code := None, cn_last_error_message := None\<rparr>) s"
  have ok: "progress_ok c s1" "committed s1"
    using commit_row_ok [OF assms(2), of "\<lambda>c. c \<lparr>cn_state := Conn_provisioning, cn_last_error_code := None, cn_last_error_message := None\<rparr>"]
    by (simp_all add: s1_def)
  have r: "(r, s') = (case create_account env (account_request env (fst s1) pw) (cn_provisioning_transaction_id (fst s1)) of
       Inl e \<Rightarrow> (Inl e, s1) | Inr None \<Rightarrow> (Inr False, s1)
     | Inr (Some body) \<Rightarrow> (case dict_item body ''id'' of Inl e \<Rightarrow> (Inl (Other_error e), s1)
         | Inr v \<Rightarrow> (Inr True, ((fst s1) \<lparr>cn_metaapi_account_id := Some (text_of (pv_str env) v)\<rparr>, snd s1))))"
    using assms(1) False by (simp add: request_account_def Let_def s1_def [symmetric])
  have none: "\<not> has_metaapi_account (fst s1)" using False by (simp add: s1_def commit_row_def has_metaapi_account_def)
  then have "list_all (\<lambda>x. \<not> has_metaapi_account x) (snd s1)"
    using ok(1) by (auto simp: progress_ok_def list_all_iff has_metaapi_account_def split: option.splits)
  then have "progress_ok c ((fst s1) \<lparr>cn_metaapi_account_id := a\<rparr>, snd s1)" for a
    using ok(1) False assms(3) by (auto simp: progress_ok_def list_all_iff)
  with r ok show ?thesis by (auto split: sum.splits option.splits)
qed

lemma provision_steps_ok:
  assumes "provision_steps env pw s = (r, s')" "progress_ok c s" "has_metaapi_account c \<longrightarrow> has_metaapi_account (fst s)"
  shows "progress_ok c s' \<and> (\<forall>b. r = Inr b \<longrightarrow> committed s')"
proof -
  obtain r1 s1 where 1: "request_account env pw s = (r1, s1)" by (rule prod.exhaust)
  have ok1: "progress_ok c s1" "r1 = Inr False \<longrightarrow> committed s1" using request_account_ok [OF 1 assms(2,3)] by blast+
  have step: "progress_ok c (commit_row (\<lambda>c. c \<lparr>cn_state := st\<rparr>) t)"
      "committed (commit_row (\<lambda>c. c \<lparr>cn_state := st\<rparr>) t)" if "progress_ok c t" for st t
    using commit_row_ok [OF that, of "\<lambda>c. c \<lparr>cn_state := st\<rparr>"] by simp_all
  note deploying = step [OF ok1(1), of Conn_deploying]
  note connecting = step [OF deploying(1), of Conn_connecting]
  note synchronizing = step [OF connecting(1), of Conn_synchronizing]
  from assms(1) 1 ok1 deploying connecting synchronizing show ?thesis
    unfolding provision_steps_def Let_def by (auto split: sum.splits bool.splits)
qed

lemma provision_ok:
  assumes "provision env pw c = (r, s)"
  shows "progress_ok c s \<and> committed s"
proof -
  obtain r1 s1 where 1: "provision_steps env pw (c, []) = (r1, s1)" by (rule prod.exhaust)
  have "progress_ok c (c, [])" by (simp add: progress_ok_def)
  with 1 have ok: "progress_ok c s1" "\<forall>b. r1 = Inr b \<longrightarrow> committed s1" using provision_steps_ok [OF 1] by auto
  have "progress_ok c (commit_row (fail_with e) s1) \<and> committed (commit_row (fail_with e) s1)" for e
    using ok(1) by (rule commit_row_ok) (simp_all add: fail_with_def)
  with assms 1 ok show ?thesis by (cases r1) (auto simp: provision_def)
qed

lemma cleanup_ok:
  assumes "cleanup env c = (r, s)"
  shows "same_account c (fst s) \<and> list_all (same_account c) (snd s) \<and> committed s
    \<and> (r = Inr () \<longrightarrow> cn_state (fst s) = Conn_deleted \<and> cn_encrypted_trader_password (fst s) = None \<and> \<not> has_metaapi_account (fst s))"
  using assms unfolding cleanup_def Let_def
  by (auto simp: commit_row_def committed_def has_metaapi_account_def split: if_splits sum.splits option.splits)

lemma run_job_ok:
  assumes "run_job env del c = (r, c', rows)"
  shows "same_account c c' \<and> list_all (same_account c) rows \<and> (rows = [] \<longrightarrow> c' = c) \<and> (rows \<noteq> [] \<longrightarrow> last rows = c')"
proof (cases "rows = [] \<and> c' = c")
  case False
  have "(\<exists>x. cleanup env c = (x, c', rows)) \<or> (\<exists>pw x. provision env pw c = (x, c', rows))"
    using assms False unfolding run_job_def by (auto split: if_splits prod.splits sum.splits option.splits)
  then show ?thesis using cleanup_ok provision_ok by (fastforce simp: progress_ok_def committed_def)
qed simp

section \<open>Committing the rows\<close>

lemma commit_all_get:
  assumes "list_all (same_account c) rows" "get_connection d (Some (cn_id c)) \<noteq> None"
  shows "get_connection (commit_all rows d) (Some (cn_id c))
      = (if rows = [] then get_connection d (Some (cn_id c)) else Some (last rows))"
    and "j \<noteq> cn_id c \<Longrightarrow> get_connection (commit_all rows d) (Some j) = get_connection d (Some j)"
proof -
  have "get_connection (commit_all rows d) (Some (cn_id c)) = (if rows = [] then get_connection d (Some (cn_id c)) else Some (last rows))
      \<and> (j \<noteq> cn_id c \<longrightarrow> get_connection (commit_all rows d) (Some j) = get_connection d (Some j))"
    using assms
  proof (induction rows arbitrary: d)
    case Nil
    then show ?case by (simp add: commit_all_def)
  next
    case (Cons x rows)
    have x: "cn_id x = cn_id c" using Cons.prems(1) by (simp add: same_account_def)
    have g: "get_connection (put_connection x d) (Some (cn_id c)) = Some x"
      using connections.get_put [OF Cons.prems(2), of x] x by simp
    have o: "j \<noteq> cn_id c \<Longrightarrow> get_connection (put_connection x d) (Some j) = get_connection d (Some j)"
      using connections.get_put_other [of j x d] x by simp
    have "commit_all (x # rows) d = commit_all rows (put_connection x d)" by (simp add: commit_all_def)
    with Cons.IH [of "put_connection x d"] Cons.prems(1) g o show ?case by auto
  qed
  then show "get_connection (commit_all rows d) (Some (cn_id c))
      = (if rows = [] then get_connection d (Some (cn_id c)) else Some (last rows))"
    and "j \<noteq> cn_id c \<Longrightarrow> get_connection (commit_all rows d) (Some j) = get_connection d (Some j)" by auto
qed

section \<open>The handler\<close>

lemma commit_all_snoc: "commit_all (rows @ [c]) d = put_connection c (commit_all rows d)"
  by (simp add: commit_all_def)

text \<open>The check of the terminal stores an error, or the ready row of a terminal it accepts.\<close>

lemma verify_terminal_cases:
  assumes "verify_terminal env now c d = (r, d')"
  obtains "d' = d"
  | e information where "pv_acquire env (account_key c) = Inr information"
      "validate_terminal_account (pv_str env) c information = Some e" "d' = put_connection (fail_with e c) d"
  | information where "pv_acquire env (account_key c) = Inr information" "r = Inr delivery_success"
      "validate_terminal_account (pv_str env) c information = None"
      "d' = put_connection (c \<lparr>cn_state := Conn_ready, cn_last_health_at := Some now, cn_last_error_code := None,
         cn_last_error_message := None\<rparr>) d"
  using assms unfolding verify_terminal_def by (auto split: sum.splits option.splits)

lemma verify_terminal_row:
  assumes "verify_terminal env now c d = (r, d')" "same_account a c"
  shows "d' = d \<or> (\<exists>x. same_account a x \<and> d' = put_connection x d)"
  using assms(1)
proof (cases rule: verify_terminal_cases)
  case (2 e information)
  then show ?thesis using assms(2) by (intro disjI2 exI [of _ "fail_with e c"]) simp
next
  case (3 information)
  then show ?thesis using assms(2)
    by (intro disjI2 exI [of _ "c \<lparr>cn_state := Conn_ready, cn_last_health_at := Some now, cn_last_error_code := None,
         cn_last_error_message := None\<rparr>"]) simp
qed simp

text \<open>What the handler does is to commit rows of the account the event names.\<close>

lemma handler_rows:
  assumes "provisioning_handler env now e d = (r, d')"
  obtains "d' = d"
  | c rows where "event_connection e = Inr (cn_id c)" "get_connection d (Some (cn_id c)) = Some c" "rows \<noteq> []"
      "list_all (same_account c) rows" "d' = commit_all rows d"
proof (cases "d' = d")
  case False
  obtain k c out c1 rows where k: "event_connection e = Inr k" "get_connection d (Some k) = Some c"
    "run_job env (ev_event_type e = ''connection.delete'') c = (out, c1, rows)"
    "d' = commit_all rows d \<or> verify_terminal env now c1 (commit_all rows d) = (r, d')"
    using assms False unfolding provisioning_handler_def Let_def
    by (auto split: if_splits sum.splits option.splits prod.splits job_result.splits bool.splits)
  have id: "cn_id c = k" using connections.get_Some [OF k(2)] by simp
  note ok = run_job_ok [OF k(3)]
  have "\<exists>more. list_all (same_account c) more \<and> d' = commit_all (rows @ more) d"
  proof (cases "d' = commit_all rows d")
    case True
    then have "list_all (same_account c) [] \<and> d' = commit_all (rows @ []) d" by simp
    then show ?thesis by blast
  next
    case False
    with k(4) have "\<exists>x. same_account c x \<and> d' = put_connection x (commit_all rows d)"
      using ok False verify_terminal_row by blast
    then obtain x where "same_account c x" "d' = commit_all (rows @ [x]) d" by (auto simp: commit_all_snoc)
    then have "list_all (same_account c) [x] \<and> d' = commit_all (rows @ [x]) d" by simp
    then show ?thesis by blast
  qed
  then obtain more where more: "list_all (same_account c) (rows @ more)" "d' = commit_all (rows @ more) d" using ok by auto
  have "rows @ more \<noteq> []" using False more(2) by (auto simp: commit_all_def)
  from that(2) [OF _ _ this more] k id show thesis by simp
qed (rule that(1))

lemma handler_keeps_account:
  assumes "provisioning_handler env now e d = (r, d')" "get_connection d (Some k) = Some c"
  obtains c' where "get_connection d' (Some k) = Some c'" "same_account c c'"
  using assms(1)
proof (cases rule: handler_rows)
  case (2 x rows)
  show thesis
  proof (cases "k = cn_id x")
    case True
    with 2 assms(2) have "c = x" by simp
    moreover have "get_connection d' (Some k) = Some (last rows)"
      using commit_all_get(1) [OF 2(4), of d] 2 True by simp
    moreover have "same_account x (last rows)" using 2(3,4) by (simp add: list_all_iff)
    ultimately show thesis using that by blast
  next
    case False
    then have "get_connection d' (Some k) = Some c"
      using commit_all_get(2) [OF 2(4), of d k] 2 assms(2) by simp
    then show thesis using that by simp
  qed
qed (use assms(2) that in auto)

text \<open>Errors never put an account into the ready state, and the job itself never does.\<close>

lemma classified_not_ready: "pe_state (classify_provisioning_error other p st) \<noteq> Conn_ready"
  by (simp add: classify_provisioning_error_def Let_def)

lemma sdk_error_not_ready: "pe_state (classify_metaapi_sdk_error other e) \<noteq> Conn_ready"
  using classified_not_ready [of other "[]" None] by (simp add: classify_metaapi_sdk_error_def Let_def)

lemma create_account_error: "create_account env p t = Inl (Provisioning_error e) \<Longrightarrow> pe_state e \<noteq> Conn_ready"
  using classified_not_ready by (auto simp: create_account_def split: sum.splits prod.splits if_splits)

lemma provision_steps_result:
  assumes "provision_steps env pw s = (r, s')"
  shows "(\<forall>e. r = Inl (Provisioning_error e) \<longrightarrow> pe_state e \<noteq> Conn_ready)
    \<and> (\<forall>b. r = Inr b \<longrightarrow> cn_state (fst s') = (if b then Conn_synchronizing else Conn_provisioning))"
proof -
  obtain r1 s1 where 1: "request_account env pw s = (r1, s1)" by (rule prod.exhaust)
  have "(\<forall>e. r1 = Inl (Provisioning_error e) \<longrightarrow> pe_state e \<noteq> Conn_ready) \<and> (r1 = Inr False \<longrightarrow> cn_state (fst s1) = Conn_provisioning)"
    using 1 create_account_error unfolding request_account_def Let_def
    by (fastforce simp: commit_row_def split: if_splits sum.splits option.splits)
  with assms 1 show ?thesis
    unfolding provision_steps_def Let_def by (auto simp: commit_row_def split: sum.splits bool.splits)
qed

lemma run_job_not_ready:
  assumes "run_job env del c = (r, c', rows)" "rows \<noteq> []"
  shows "cn_state c' \<noteq> Conn_ready"
proof -
  have "(\<exists>x. cleanup env c = (x, c', rows)) \<or> (\<exists>pw x. provision env pw c = (x, c', rows))"
    using assms unfolding run_job_def by (auto split: if_splits prod.splits sum.splits option.splits)
  moreover have "cn_state c' \<noteq> Conn_ready" if "cleanup env c = (x, c', rows)" for x
    using that unfolding cleanup_def Let_def by (auto simp: commit_row_def split: if_splits sum.splits)
  moreover have "cn_state c' \<noteq> Conn_ready" if "provision env pw c = (x, c', rows)" for pw x
  proof -
    obtain r1 s1 where 1: "provision_steps env pw (c, []) = (r1, s1)" by (rule prod.exhaust)
    note res = provision_steps_result [OF 1]
    have "pe_state (raised_error env y) \<noteq> Conn_ready" if "r1 = Inl y" for y
      using that res sdk_error_not_ready by (cases y) (auto simp: raised_error_def)
    then show ?thesis using that 1 res by (auto simp: provision_def commit_row_def fail_with_def split: sum.splits)
  qed
  ultimately show ?thesis by blast
qed

end
