(* ===== verification/Desk.thy ===== *)
theory Desk
  imports Provisioning_Proofs Execution
begin

text \<open>
  The invariant of the control plane: whatever users request and whatever the provisioning worker and the
  warm-up of accounts do in between, every route trades on an account of its own user, within the
  limits of the policy of that account, under a magic number of its own.
\<close>

section \<open>The invariant\<close>

definition conn_identity :: "copy_trading_connection \<Rightarrow> uuid \<times> string \<times> string" where
  "conn_identity c = (cn_user_id c, cn_broker_login c, py_lower (cn_broker_server c))"

definition policy_key :: "copy_account_policy \<Rightarrow> uuid \<times> uuid option" where
  "policy_key p = (cap_user_id p, cap_connection_id p)"

definition route_key :: "copy_route \<Rightarrow> uuid \<times> uuid \<times> uuid option" where
  "route_key r = (rt_user_id r, rt_source_id r, rt_target_connection_id r)"

definition settings_ok :: "copy_route \<Rightarrow> bool" where
  "settings_ok r \<longleftrightarrow> 0 < rt_fixed_lot r \<and> (rt_lot_distribution r = Split_total \<longrightarrow> rt_take_profit_mode r = TP_all)
     \<and> (unsafe_minimum_fields (rt_minimum_fields r) \<longrightarrow> rt_unsafe_minimum_confirmed_at r \<noteq> None)"

definition on_account :: "copy_trading_connection list \<Rightarrow> copy_account_policy list \<Rightarrow> uuid \<Rightarrow> uuid \<Rightarrow> rat \<Rightarrow> bool" where
  "on_account cs ps u k lot \<longleftrightarrow> list_ex (\<lambda>c. cn_id c = k \<and> cn_user_id c = u) cs
     \<and> list_ex (\<lambda>p. policy_key p = (u, Some k) \<and> \<not> lot_exceeds lot p) ps"

definition route_ok :: "copy_trading_connection list \<Rightarrow> copy_account_policy list \<Rightarrow> copy_route \<Rightarrow> bool" where
  "route_ok cs ps r \<longleftrightarrow> settings_ok r \<and> rt_magic_number r = magic_number_for_route (rt_id r)
     \<and> (case rt_target_connection_id r of None \<Rightarrow> False | Some k \<Rightarrow> on_account cs ps (rt_user_id r) k (rt_fixed_lot r))"

definition accounts_ok :: "copy_trading_connection list \<Rightarrow> bool" where
  "accounts_ok cs \<longleftrightarrow> distinct (map cn_id cs) \<and> distinct (map conn_identity cs)"

definition policies_ok :: "copy_account_policy list \<Rightarrow> bool" where
  "policies_ok ps \<longleftrightarrow> distinct (map cap_id ps) \<and> distinct (map policy_key ps)"

definition routes_ok :: "copy_trading_connection list \<Rightarrow> copy_account_policy list \<Rightarrow> copy_route list \<Rightarrow> bool" where
  "routes_ok cs ps rs \<longleftrightarrow> distinct (map rt_id rs) \<and> distinct (map rt_magic_number rs) \<and> distinct (map route_key rs)
     \<and> list_all (route_ok cs ps) rs"

definition desk_ok :: "db \<Rightarrow> bool" where
  "desk_ok d \<longleftrightarrow> distinct (map src_id (db_sources d)) \<and> accounts_ok (db_connections d) \<and> policies_ok (db_policies d)
     \<and> routes_ok (db_connections d) (db_policies d) (db_routes d)"

section \<open>Lists of rows\<close>

lemma row_put_map: "(\<And>x. x \<in> set xs \<Longrightarrow> key x = key r \<Longrightarrow> g x = g r) \<Longrightarrow> map g (row_put key r xs) = map g xs"
  by (auto simp: row_put_def)

lemma row_put_unique:
  assumes "distinct (map key xs)" "x \<in> set xs" "key x = key r" "g x = g r"
  shows "map g (row_put key r xs) = map g xs"
proof (rule row_put_map)
  fix y
  assume "y \<in> set xs" "key y = key r"
  then have "y = x" using assms(1-3) by (metis distinct_map inj_onD)
  then show "g y = g r" using assms(4) by simp
qed

lemma row_put_filter:
  assumes "\<And>x. x \<in> set xs \<Longrightarrow> key x = key r \<Longrightarrow> \<not> P x" "\<not> P r"
  shows "filter P (row_put key r xs) = filter P xs"
  using assms by (induction xs) (auto simp: row_put_def)

lemma scalar_one_Some: "scalar_one_or_none xs = Inr (Some x) \<Longrightarrow> xs = [x]"
  by (auto simp: scalar_one_or_none_def split: list.splits)

lemma scalar_one_filter: "scalar_one_or_none (filter P xs) = Inr (Some x) \<Longrightarrow> x \<in> set xs \<and> P x"
  using scalar_one_Some [of "filter P xs" x] by (metis filter_eq_Cons_iff in_set_conv_decomp)

lemma scalar_one_None: "scalar_one_or_none (filter P xs) = Inr None \<Longrightarrow> x \<in> set xs \<Longrightarrow> \<not> P x"
  by (auto simp: scalar_one_or_none_def filter_empty_conv split: list.splits)

section \<open>What an operation finds\<close>

lemma owned_connection_Inr:
  "owned_copy_connection d u k = Inr c \<Longrightarrow> c \<in> set (db_connections d) \<and> cn_id c = k \<and> cn_user_id c = u"
  unfolding owned_copy_connection_def get_copy_connection_for_user_def http_raise_def
  by (auto dest!: scalar_one_filter split: sum.splits option.splits)

lemma owned_ready_Inr:
  "owned_ready_copy_connection d u k = Inr c \<Longrightarrow> c \<in> set (db_connections d) \<and> cn_id c = k \<and> cn_user_id c = u \<and> cn_state c = Conn_ready"
  unfolding owned_ready_copy_connection_def http_raise_def
  by (auto dest!: owned_connection_Inr split: sum.splits if_splits)

lemma owned_route_Inr:
  "owned_route d u k = Inr r \<Longrightarrow> r \<in> set (db_routes d) \<and> rt_id r = k \<and> rt_user_id r = u"
  unfolding owned_route_def get_route_for_user_def http_raise_def
  by (auto dest!: scalar_one_filter split: sum.splits option.splits)

lemma source_for_user_Inr:
  "get_source_for_user d k u = Inr (Some s) \<Longrightarrow> s \<in> set (db_sources d) \<and> src_id s = k \<and> src_user_id s = u"
  unfolding get_source_for_user_def by (auto dest!: scalar_one_filter)

section \<open>Changes of rows\<close>

text \<open>A route changes its state only, an account nothing of its identity.\<close>

definition route_core :: "copy_route \<Rightarrow> copy_route" where
  "route_core r = r \<lparr>rt_state := Route_draft, rt_paused_from_state := None\<rparr>"

definition conn_core :: "copy_trading_connection \<Rightarrow> uuid \<times> uuid \<times> string \<times> string" where
  "conn_core c = (cn_id c, cn_user_id c, cn_broker_login c, py_lower (cn_broker_server c))"

lemma route_core_fields:
  "route_ok cs ps (route_core r) = route_ok cs ps r" "rt_id (route_core r) = rt_id r"
  "rt_magic_number (route_core r) = rt_magic_number r" "route_key (route_core r) = route_key r"
  by (simp_all add: route_core_def route_ok_def settings_ok_def route_key_def split: option.split)

lemma routes_ok_core: "routes_ok cs ps rs = routes_ok cs ps (map route_core rs)"
  by (simp add: routes_ok_def comp_def route_core_fields list_all_iff)

lemma routes_ok_states: "map route_core rs' = map route_core rs \<Longrightarrow> routes_ok cs ps rs \<Longrightarrow> routes_ok cs ps rs'"
  using routes_ok_core by metis

lemma map_core_identity:
  assumes "map conn_core cs' = map conn_core cs"
  shows "map cn_id cs' = map cn_id cs" "map conn_identity cs' = map conn_identity cs"
    "set (map (\<lambda>c. (cn_id c, cn_user_id c)) cs') = set (map (\<lambda>c. (cn_id c, cn_user_id c)) cs)"
proof -
  have "map (f \<circ> conn_core) cs' = map (f \<circ> conn_core) cs" for f :: "uuid \<times> uuid \<times> string \<times> string \<Rightarrow> 'b"
    using assms by (metis map_map)
  note * = this
  show "map cn_id cs' = map cn_id cs"
    using * [of fst] by (simp add: comp_def conn_core_def)
  show "map conn_identity cs' = map conn_identity cs"
    using * [of "\<lambda>(i, u, l, s). (u, l, s)"] by (simp add: comp_def conn_core_def conn_identity_def [abs_def])
  show "set (map (\<lambda>c. (cn_id c, cn_user_id c)) cs') = set (map (\<lambda>c. (cn_id c, cn_user_id c)) cs)"
    using * [of "\<lambda>(i, u, l, s). (i, u)"] by (simp add: comp_def conn_core_def)
qed

lemma on_account_mono:
  assumes "on_account cs ps u k lot" "set (map (\<lambda>c. (cn_id c, cn_user_id c)) cs) \<subseteq> set (map (\<lambda>c. (cn_id c, cn_user_id c)) cs')"
    "\<And>p. p \<in> set ps \<Longrightarrow> policy_key p = (u, Some k) \<Longrightarrow> \<not> lot_exceeds lot p \<Longrightarrow>
       \<exists>p' \<in> set ps'. policy_key p' = (u, Some k) \<and> \<not> lot_exceeds lot p'"
  shows "on_account cs' ps' u k lot"
proof -
  have "(k, u) \<in> set (map (\<lambda>c. (cn_id c, cn_user_id c)) cs)" using assms(1) by (auto simp: on_account_def list_ex_iff)
  then have "(k, u) \<in> set (map (\<lambda>c. (cn_id c, cn_user_id c)) cs')" using assms(2) by blast
  then have "list_ex (\<lambda>c. cn_id c = k \<and> cn_user_id c = u) cs'" by (auto simp: list_ex_iff)
  with assms(1,3) show ?thesis by (auto simp: on_account_def list_ex_iff)
qed

lemma routes_ok_mono:
  assumes "routes_ok cs ps rs" "\<And>r k. r \<in> set rs \<Longrightarrow> rt_target_connection_id r = Some k \<Longrightarrow>
      on_account cs ps (rt_user_id r) k (rt_fixed_lot r) \<Longrightarrow> on_account cs' ps' (rt_user_id r) k (rt_fixed_lot r)"
  shows "routes_ok cs' ps' rs"
proof -
  have "route_ok cs' ps' r" if "r \<in> set rs" for r
  proof -
    have "route_ok cs ps r" using assms(1) that by (simp add: routes_ok_def list_all_iff)
    then show ?thesis using assms(2) [OF that] unfolding route_ok_def by (simp split: option.splits)
  qed
  then show ?thesis using assms(1) by (simp add: routes_ok_def list_all_iff)
qed

lemma desk_ok_change:
  assumes "desk_ok d" "map src_id (db_sources d') = map src_id (db_sources d)"
    "map conn_core (db_connections d') = map conn_core (db_connections d)" "db_policies d' = db_policies d"
    "map route_core (db_routes d') = map route_core (db_routes d)"
  shows "desk_ok d'"
proof -
  note ids = map_core_identity [OF assms(3)]
  have "routes_ok (db_connections d') (db_policies d) (db_routes d)"
  proof (rule routes_ok_mono)
    show "routes_ok (db_connections d) (db_policies d) (db_routes d)" using assms(1) by (simp add: desk_ok_def)
    show "on_account (db_connections d') (db_policies d) u k lot" if "on_account (db_connections d) (db_policies d) u k lot" for u k lot
      using that by (rule on_account_mono) (use ids(3) in auto)
  qed
  then have "routes_ok (db_connections d') (db_policies d) (db_routes d')"
    using routes_ok_states assms(5) by metis
  then show ?thesis using assms(1,2,4) ids(1,2) by (simp add: desk_ok_def accounts_ok_def)
qed

section \<open>Accounts\<close>

lemma put_connection_desk:
  assumes "desk_ok d" "c \<in> set (db_connections d)" "conn_core c' = conn_core c"
  shows "desk_ok (put_connection c' d)"
proof (rule desk_ok_change [OF assms(1)])
  have id: "cn_id c = cn_id c'" using assms(3) by (simp add: conn_core_def)
  have "distinct (map cn_id (db_connections d))" using assms(1) by (simp add: desk_ok_def accounts_ok_def)
  then show "map conn_core (db_connections (put_connection c' d)) = map conn_core (db_connections d)"
    using row_put_unique [where g = conn_core, OF _ assms(2) id] assms(3) by (simp add: connections.rows_put)
qed (simp_all add: put_connection_def)

lemma add_connection_desk:
  assumes "desk_ok d" "\<forall>x \<in> set (db_connections d). cn_id x \<noteq> cn_id c \<and> conn_identity x \<noteq> conn_identity c"
  shows "desk_ok (d \<lparr>db_connections := db_connections d @ [c]\<rparr>)"
proof -
  have "routes_ok (db_connections d @ [c]) (db_policies d) (db_routes d)"
  proof (rule routes_ok_mono)
    show "routes_ok (db_connections d) (db_policies d) (db_routes d)" using assms(1) by (simp add: desk_ok_def)
    show "on_account (db_connections d @ [c]) (db_policies d) u k lot" if "on_account (db_connections d) (db_policies d) u k lot" for u k lot
      using that by (rule on_account_mono) auto
  qed
  then show ?thesis using assms by (auto simp: desk_ok_def accounts_ok_def)
qed

lemma create_copy_connection_desk:
  assumes "create_copy_connection rq p d = Inr (c, d')" "desk_ok d"
  shows "desk_ok d'"
proof -
  define server where "server = py_strip (cc_broker_server p)"
  obtain existing where ex: "get_copy_connection_by_identity d (rq_user rq) (cc_broker_login p) server = Inr existing"
    using assms(1) unfolding create_copy_connection_def Let_def server_def by (auto split: sum.splits)
  show ?thesis
  proof (cases existing)
    case (Some x)
    have x: "x \<in> set (db_connections d)" "cn_user_id x = rq_user rq" "cn_broker_login x = cc_broker_login p"
      "py_lower (cn_broker_server x) = py_lower server"
      using ex Some unfolding get_copy_connection_by_identity_def by (auto dest!: scalar_one_filter)
    have "d' = put_connection c d" "conn_core c = conn_core x"
      using assms(1) ex Some x unfolding create_copy_connection_def Let_def server_def http_raise_def integrity_error_def
      by (auto simp: conn_core_def split: sum.splits if_splits)
    then show ?thesis using put_connection_desk [OF assms(2) x(1)] by simp
  next
    case None
    have new: "\<not> (cn_user_id x = rq_user rq \<and> cn_broker_login x = cc_broker_login p \<and> py_lower (cn_broker_server x) = py_lower server)"
      if "x \<in> set (db_connections d)" for x
      using ex None that unfolding get_copy_connection_by_identity_def by (auto dest: scalar_one_None)
    have "d' = d \<lparr>db_connections := db_connections d @ [c]\<rparr>" "conn_identity c = (rq_user rq, cc_broker_login p, py_lower server)"
      "\<forall>x \<in> set (db_connections d). cn_id x \<noteq> cn_id c"
      using assms(1) ex None unfolding create_copy_connection_def Let_def server_def http_raise_def
      by (auto simp: conn_identity_def list_ex_iff split: sum.splits if_splits)
    then show ?thesis using add_connection_desk [OF assms(2), of c] new by (auto simp: conn_identity_def)
  qed
qed

lemma retry_copy_connection_desk:
  assumes "retry_copy_connection rq k d = Inr (c, d')" "desk_ok d"
  shows "desk_ok d'"
  using assms unfolding retry_copy_connection_def http_raise_def Let_def
  by (auto dest!: owned_connection_Inr intro!: put_connection_desk simp: conn_core_def split: sum.splits if_splits)

lemma route_core_pause: "route_core (pause_row r) = route_core r"
  by (simp add: pause_row_def route_core_def)

lemma route_states_desk:
  assumes "desk_ok d" "\<And>r. route_core (f r) = route_core r"
  shows "desk_ok (d \<lparr>db_routes := map f (db_routes d)\<rparr>)"
  by (rule desk_ok_change [OF assms(1)]) (simp_all add: assms(2))

lemma delete_copy_connection_desk:
  assumes "delete_copy_connection rq k d = Inr (c, d')" "desk_ok d"
  shows "desk_ok d'"
proof -
  have "desk_ok (pause_routes_for_connection j d)" for j
    unfolding pause_routes_for_connection_def by (rule route_states_desk [OF assms(2)]) (simp add: route_core_pause)
  moreover have "db_connections (pause_routes_for_connection j d) = db_connections d" for j
    by (simp add: pause_routes_for_connection_def)
  ultimately show ?thesis using assms unfolding delete_copy_connection_def Let_def
    by (auto dest!: owned_connection_Inr intro!: put_connection_desk simp: conn_core_def split: sum.splits if_splits)
qed

lemma commit_all_desk: "list_all (same_account c) rows \<Longrightarrow> desk_ok d \<Longrightarrow> c \<in> set (db_connections d) \<Longrightarrow> desk_ok (commit_all rows d)"
proof (induction rows arbitrary: d c)
  case Nil
  then show ?case by (simp add: commit_all_def)
next
  case (Cons x rows)
  have core: "conn_core x = conn_core c" and id: "cn_id x = cn_id c"
    using Cons.prems(1) by (simp_all add: same_account_def conn_core_def)
  have "x \<in> set (db_connections (put_connection x d))"
    using Cons.prems(3) id by (auto simp: connections.rows_put row_put_def)
  moreover have "list_all (same_account x) rows" using Cons.prems(1) by (auto simp: same_account_def list_all_iff)
  moreover have "desk_ok (put_connection x d)" using put_connection_desk [OF Cons.prems(2,3) core] .
  ultimately show ?case using Cons.IH [of x "put_connection x d"] by (simp add: commit_all_def)
qed

lemma provisioning_desk:
  assumes "provisioning_handler env now e d = (r, d')" "desk_ok d"
  shows "desk_ok d'"
  using assms(1)
proof (cases rule: handler_rows)
  case (2 c rows)
  then show ?thesis using commit_all_desk [OF 2(4) assms(2)] connections.get_Some [OF 2(2)] by blast
qed (use assms(2) in simp)

lemma exhausted_desk: "desk_ok d \<Longrightarrow> desk_ok (mark_provisioning_retry_exhausted e d)"
  using connections.get_Some unfolding mark_provisioning_retry_exhausted_def
  by (auto intro!: put_connection_desk simp: conn_core_def split: sum.splits option.splits)

lemma modify_connection_desk:
  assumes "desk_ok d" "\<And>c. conn_core (f c) = conn_core c"
  shows "desk_ok (modify_connection k f d)"
  by (rule desk_ok_change [OF assms(1)]) (simp_all add: modify_connection_def row_modify_def assms(2) comp_def)

lemma warm_connection_desk: "desk_ok (fst s) \<Longrightarrow> desk_ok (fst (warm_connection env now ca s))"
proof -
  assume ok: "desk_ok (fst s)"
  have routes: "desk_ok (restore_routes_after_target_recovery k d)" "desk_ok (mark_routes_target_unavailable k d)" if "desk_ok d" for k d
    unfolding restore_routes_after_target_recovery_def mark_routes_target_unavailable_def
    using that by (auto intro!: route_states_desk simp: route_core_def)
  have "desk_ok (set_connection_ready k now d)"
    "desk_ok (set_connection_disconnected k (\<lambda>c. c \<lparr>cn_last_health_at := Some now\<rparr>) d)" if "desk_ok d" for k d
    unfolding set_connection_ready_def set_connection_disconnected_def
    using that by (simp_all add: routes modify_connection_desk conn_core_def)
  with ok show ?thesis by (cases ca; cases s) (simp add: warm_connection_def split: sum.split)
qed

lemma warm_active_desk: "desk_ok d \<Longrightarrow> desk_ok (fst (warm_active_copy_connections env now d))"
proof -
  have "desk_ok (fst s) \<Longrightarrow> desk_ok (fst (fold (warm_connection env now) cas s))" for cas s
    by (induction cas arbitrary: s) (simp_all add: warm_connection_desk)
  then show "desk_ok d \<Longrightarrow> desk_ok (fst (warm_active_copy_connections env now d))"
    by (simp add: warm_active_copy_connections_def)
qed

section \<open>Policies\<close>

lemma account_policy_Inr:
  "get_account_policy d k u = Inr (Some p) \<Longrightarrow> p \<in> set (db_policies d) \<and> policy_key p = (u, k)"
  unfolding get_account_policy_def policy_key_def by (auto dest!: scalar_one_filter)

lemma get_or_create_policy_desk:
  assumes "get_or_create_account_policy i k u d = Inr (p, d1)" "desk_ok d"
  shows "desk_ok d1 \<and> p \<in> set (db_policies d1) \<and> policy_key p = (u, k)
    \<and> d1 = d \<lparr>db_policies := db_policies d1\<rparr> \<and> filter (\<lambda>q. cap_user_id q \<noteq> u) (db_policies d1) = filter (\<lambda>q. cap_user_id q \<noteq> u) (db_policies d)"
proof (cases "get_account_policy d k u = Inr None")
  case False
  then have "d1 = d" "get_account_policy d k u = Inr (Some p)"
    using assms(1) unfolding get_or_create_account_policy_def by (auto split: sum.splits option.splits)
  then show ?thesis using account_policy_Inr assms(2) by simp
next
  case True
  then have p: "p = new_account_policy i k u" "d1 = d \<lparr>db_policies := db_policies d @ [p]\<rparr>" "i \<notin> set (map cap_id (db_policies d))"
    using assms(1) unfolding get_or_create_account_policy_def Let_def integrity_error_def by (auto split: if_splits)
  have key: "policy_key p = (u, k)" "cap_id p = i" "cap_user_id p = u" by (simp_all add: p(1) new_account_policy_def policy_key_def)
  have "policy_key q \<noteq> (u, k)" if "q \<in> set (db_policies d)" for q
    using True that unfolding get_account_policy_def policy_key_def by (auto dest: scalar_one_None)
  then have "(u, k) \<notin> set (map policy_key (db_policies d))" by (metis (no_types, lifting) imageE list.set_map)
  then have "policies_ok (db_policies d @ [p])"
    using assms(2) p(3) key by (simp add: desk_ok_def policies_ok_def)
  moreover have "routes_ok (db_connections d) (db_policies d @ [p]) (db_routes d)"
  proof (rule routes_ok_mono)
    show "routes_ok (db_connections d) (db_policies d) (db_routes d)" using assms(2) by (simp add: desk_ok_def)
    show "on_account (db_connections d) (db_policies d @ [p]) v j lot" if "on_account (db_connections d) (db_policies d) v j lot" for v j lot
      using that by (rule on_account_mono) auto
  qed
  ultimately show ?thesis using assms(2) p(2) key by (simp add: desk_ok_def)
qed

lemma max_fixed_lot_ge:
  assumes "r \<in> set (db_routes d)" "rt_user_id r = u" "rt_target_connection_id r = Some k"
  shows "\<exists>l. max_fixed_lot_for_connection d u k = Some l \<and> rt_fixed_lot r \<le> l"
proof -
  define lots where "lots = map rt_fixed_lot (filter (\<lambda>r. rt_user_id r = u \<and> rt_target_connection_id r = Some k) (db_routes d))"
  have mem: "rt_fixed_lot r \<in> set lots" using assms by (auto simp: lots_def)
  then obtain x xs where l: "lots = x # xs" by (cases lots) auto
  have "fold max xs x = Max (set (x # xs))" by (simp add: Max.set_eq_fold del: list.set)
  then have "rt_fixed_lot r \<le> fold max xs x" using mem l by (metis List.finite_set Max_ge)
  then show ?thesis using l by (simp add: max_fixed_lot_for_connection_def lots_def [symmetric])
qed

lemma put_policy_desk:
  assumes "desk_ok d" "p \<in> set (db_policies d)" "cap_id p' = cap_id p" "policy_key p' = policy_key p"
    "\<And>r. r \<in> set (db_routes d) \<Longrightarrow> policy_key p = (rt_user_id r, rt_target_connection_id r) \<Longrightarrow> \<not> lot_exceeds (rt_fixed_lot r) p \<Longrightarrow>
       \<not> lot_exceeds (rt_fixed_lot r) p'"
  shows "desk_ok (put_policy p' d)"
proof -
  have ids: "distinct (map cap_id (db_policies d))" using assms(1) by (simp add: desk_ok_def policies_ok_def)
  have keys: "map policy_key (row_put cap_id p' (db_policies d)) = map policy_key (db_policies d)"
    using row_put_unique [OF ids assms(2)] assms(3,4) by metis
  have ids': "map cap_id (row_put cap_id p' (db_policies d)) = map cap_id (db_policies d)" by (simp add: row_put_def)
  have mem: "p' \<in> set (row_put cap_id p' (db_policies d))" using assms(2,3) by (force simp: row_put_def)
  have "routes_ok (db_connections d) (row_put cap_id p' (db_policies d)) (db_routes d)"
  proof (rule routes_ok_mono)
    show "routes_ok (db_connections d) (db_policies d) (db_routes d)" using assms(1) by (simp add: desk_ok_def)
  next
    fix r k
    assume r: "r \<in> set (db_routes d)" "rt_target_connection_id r = Some k"
      and on: "on_account (db_connections d) (db_policies d) (rt_user_id r) k (rt_fixed_lot r)"
    from on show "on_account (db_connections d) (row_put cap_id p' (db_policies d)) (rt_user_id r) k (rt_fixed_lot r)"
    proof (rule on_account_mono)
      fix q
      assume q: "q \<in> set (db_policies d)" "policy_key q = (rt_user_id r, Some k)" "\<not> lot_exceeds (rt_fixed_lot r) q"
      show "\<exists>q' \<in> set (row_put cap_id p' (db_policies d)). policy_key q' = (rt_user_id r, Some k) \<and> \<not> lot_exceeds (rt_fixed_lot r) q'"
      proof (cases "cap_id q = cap_id p")
        case True
        then have "q = p" using ids q(1) assms(2) by (metis distinct_map inj_onD)
        then show ?thesis using mem q assms(4,5) r by (metis)
      next
        case False
        then have "q \<in> set (row_put cap_id p' (db_policies d))" using q(1) assms(3) by (force simp: row_put_def)
        then show ?thesis using q by blast
      qed
    qed simp
  qed
  then show ?thesis using assms(1) keys ids' by (simp add: desk_ok_def policies_ok_def put_policy_def)
qed

lemma record_activity_desk [simp]: "desk_ok (record_activity u action title level corr route source connection d) = desk_ok d"
  by (simp add: desk_ok_def record_activity_def)

lemma caps_kept:
  assumes "\<not> cap_below_routes cap (Some l)" "lot \<le> l" "lot \<le> old"
  shows "lot \<le> pick old cap"
  using assms by (auto simp: cap_below_routes_def pick_def split: option.splits)

lemma update_account_policy_desk:
  assumes "update_account_policy rq k payload d = Inr (p', d')" "desk_ok d"
  shows "desk_ok d'"
proof -
  obtain u p d1 where u: "get_or_create_account_policy (rq_rnd rq 0) (Some k) (rq_user rq) d = Inr (p, d1)"
    "\<not> cap_below_routes (pu_max_lot u) (max_fixed_lot_for_connection d1 (rq_user rq) k)"
    "\<not> cap_below_routes (pu_max_lot_per_trade u) (max_fixed_lot_for_connection d1 (rq_user rq) k)"
    "p' = apply_policy_update u p" "desk_ok d' = desk_ok (put_policy p' d1)"
    using assms(1) unfolding update_account_policy_def Let_def http_raise_def integrity_error_def
    by (auto split: sum.splits prod.splits if_splits)
  note pol = get_or_create_policy_desk [OF u(1) assms(2)]
  have "desk_ok (put_policy p' d1)"
  proof (rule put_policy_desk)
    fix r
    assume r: "r \<in> set (db_routes d1)" "policy_key p = (rt_user_id r, rt_target_connection_id r)" "\<not> lot_exceeds (rt_fixed_lot r) p"
    obtain l where l: "max_fixed_lot_for_connection d1 (rq_user rq) k = Some l" "rt_fixed_lot r \<le> l"
      using max_fixed_lot_ge [OF r(1), of "rq_user rq" k] r(2) pol by auto
    show "\<not> lot_exceeds (rt_fixed_lot r) p'"
      using caps_kept [OF _ l(2)] u(2,3) l(1) r(3) unfolding u(4) by (simp add: lot_exceeds_def apply_policy_update_def not_less)
  qed (use pol u(4) in \<open>simp_all add: apply_policy_update_def policy_key_def\<close>)
  then show ?thesis using u(5) by simp
qed

section \<open>Routes\<close>

lemma record_route_activity_desk [simp]: "desk_ok (record_route_activity rq n r action title level d) = desk_ok d"
  by (simp add: record_route_activity_def)

lemma put_route_desk:
  assumes "desk_ok d" "r \<in> set (db_routes d)" "rt_id r' = rt_id r" "rt_magic_number r' = rt_magic_number r" "route_key r' = route_key r"
    "route_ok (db_connections d) (db_policies d) r'"
  shows "desk_ok (put_route r' d)"
proof -
  have ids: "distinct (map rt_id (db_routes d))" using assms(1) by (simp add: desk_ok_def routes_ok_def)
  have keys: "map route_key (row_put rt_id r' (db_routes d)) = map route_key (db_routes d)"
    and magic: "map rt_magic_number (row_put rt_id r' (db_routes d)) = map rt_magic_number (db_routes d)"
    using row_put_unique [OF ids assms(2)] assms(3-5) by metis+
  have "map rt_id (row_put rt_id r' (db_routes d)) = map rt_id (db_routes d)" by (simp add: row_put_def)
  moreover have "list_all (route_ok (db_connections d) (db_policies d)) (row_put rt_id r' (db_routes d))"
    using assms(1,6) by (auto simp: desk_ok_def routes_ok_def list_all_iff row_put_def)
  ultimately show ?thesis using assms(1) keys magic by (simp add: desk_ok_def routes_ok_def put_route_def)
qed

lemma put_route_state_desk:
  assumes "desk_ok d" "r \<in> set (db_routes d)" "route_core r' = route_core r"
  shows "desk_ok (put_route r' d)"
proof (rule put_route_desk [OF assms(1,2)])
  show "rt_id r' = rt_id r" "rt_magic_number r' = rt_magic_number r" "route_key r' = route_key r"
    using assms(3) route_core_fields(2-4) by metis+
  have "route_ok (db_connections d) (db_policies d) r" using assms(1,2) by (simp add: desk_ok_def routes_ok_def list_all_iff)
  then show "route_ok (db_connections d) (db_policies d) r'" using assms(3) route_core_fields(1) by metis
qed

lemma create_route_desk:
  assumes "create_route rq s d = Inr (r, d')" "desk_ok d"
  shows "desk_ok d'"
proof -
  obtain source c p d1 where h: "valid_route_create s" "get_source_for_user d (rc_source_id s) (rq_user rq) = Inr (Some source)"
    "owned_ready_copy_connection d (rq_user rq) (rc_target_connection_id s) = Inr c"
    "get_route_by_source_and_connection d (rq_user rq) (src_id source) (cn_id c) = Inr None"
    "get_or_create_account_policy (rq_rnd rq 0) (Some (cn_id c)) (rq_user rq) d = Inr (p, d1)" "\<not> lot_exceeds (rc_fixed_lot s) p"
    "r = route_row rq (rq_rnd rq 1) s" "\<forall>x \<in> set (db_routes d1). rt_id x \<noteq> rt_id r \<and> rt_magic_number x \<noteq> rt_magic_number r"
    "desk_ok d' = desk_ok (d1 \<lparr>db_routes := db_routes d1 @ [r]\<rparr>)"
    using assms(1) unfolding create_route_def Let_def http_raise_def integrity_error_def
    by (auto simp: list_ex_iff split: sum.splits prod.splits option.splits if_splits)
  note pol = get_or_create_policy_desk [OF h(5) assms(2)] and conn = owned_ready_Inr [OF h(3)] and src = source_for_user_Inr [OF h(2)]
  have d1: "db_routes d1 = db_routes d" "db_connections d1 = db_connections d" using pol by (metis db.select_convs db.surjective db.update_convs(4))+
  have fields: "rt_user_id r = rq_user rq" "rt_target_connection_id r = Some (cn_id c)" "rt_fixed_lot r = rc_fixed_lot s"
    "route_key r = (rq_user rq, src_id source, Some (cn_id c))" "rt_magic_number r = magic_number_for_route (rt_id r)"
    using conn src by (simp_all add: h(7) route_row_def route_key_def)
  have "settings_ok r" using h(1) by (auto simp: h(7) route_row_def settings_ok_def valid_route_create_def)
  moreover have "on_account (db_connections d1) (db_policies d1) (rq_user rq) (cn_id c) (rc_fixed_lot s)"
    using conn pol h(6) d1(2) by (auto simp: on_account_def list_ex_iff)
  ultimately have "route_ok (db_connections d1) (db_policies d1) r" using fields by (simp add: route_ok_def)
  moreover have "route_key x \<noteq> route_key r" if "x \<in> set (db_routes d1)" for x
    using scalar_one_None [OF h(4) [unfolded get_route_by_source_and_connection_def], of x] that
    unfolding fields(4) d1(1) by (simp add: route_key_def)
  then have "route_key r \<notin> route_key ` set (db_routes d1)" by (metis imageE)
  moreover have "desk_ok d1" using pol by blast
  ultimately have "desk_ok (d1 \<lparr>db_routes := db_routes d1 @ [r]\<rparr>)" using h(8) by (auto simp: desk_ok_def routes_ok_def)
  then show ?thesis using h(9) by simp
qed

lemma applied_confirmation:
  assumes "unsafe_minimum_fields (rc_minimum_fields (merged_settings r k u))" "rc_unsafe_minimum_confirmed (merged_settings r k u)"
    "unsafe_minimum_fields (rt_minimum_fields r) \<longrightarrow> rt_unsafe_minimum_confirmed_at r \<noteq> None"
  shows "rt_unsafe_minimum_confirmed_at (apply_settings rq u (merged_settings r k u) r) \<noteq> None"
proof (cases "ru_minimum_fields u \<noteq> None \<and> ru_unsafe_minimum_confirmed u = Some (Some True)")
  case True
  then show ?thesis using assms(1) by (simp add: apply_settings_def)
next
  case False
  have "rt_unsafe_minimum_confirmed_at r \<noteq> None"
  proof (cases "ru_minimum_fields u")
    case None
    then show ?thesis using assms(1,3) by (simp add: merged_settings_def pick_def)
  next
    case (Some a)
    with False assms(2) show ?thesis by (simp add: merged_settings_def pick_def split: option.splits)
  qed
  with assms(1) show ?thesis by (simp add: apply_settings_def)
qed

lemma applied_settings_ok:
  assumes "valid_route_create (merged_settings r k u)" "settings_ok r"
  shows "settings_ok (apply_settings rq u (merged_settings r k u) r)"
proof -
  have "rt_fixed_lot (apply_settings rq u s r) = rc_fixed_lot s" "rt_lot_distribution (apply_settings rq u s r) = rc_lot_distribution s"
    "rt_take_profit_mode (apply_settings rq u s r) = rc_take_profit_mode s"
    "rt_minimum_fields (apply_settings rq u s r) = rc_minimum_fields s" for s
    by (simp_all add: apply_settings_def)
  then show ?thesis using assms applied_confirmation [of r k u rq] by (auto simp: settings_ok_def valid_route_create_def)
qed

lemma update_route_desk:
  assumes "update_route rq k u d = Inr (r', d')" "desk_ok d"
  shows "desk_ok d'"
proof -
  obtain r s p d1 where h: "valid_route_update u" "owned_route d (rq_user rq) k = Inr r" "validated_settings r u = Inr s"
    "get_or_create_account_policy (rq_rnd rq 0) (rt_target_connection_id r) (rq_user rq) d = Inr (p, d1)"
    "\<not> lot_exceeds (rc_fixed_lot s) p" "r' = apply_settings rq u s r" "desk_ok d' = desk_ok (put_route r' d1)"
    using assms(1) unfolding update_route_def Let_def http_raise_def by (auto split: sum.splits prod.splits if_splits)
  note pol = get_or_create_policy_desk [OF h(4) assms(2)] and own = owned_route_Inr [OF h(2)]
  have d1: "db_routes d1 = db_routes d" "db_connections d1 = db_connections d" using pol by (metis db.select_convs db.surjective db.update_convs(4))+
  obtain c where c: "rt_target_connection_id r = Some c" "s = merged_settings r c u" "valid_route_create s"
    using h(3) by (auto simp: validated_settings_def split: option.splits if_splits)
  have rok: "route_ok (db_connections d1) (db_policies d1) r" using pol own d1 by (simp add: desk_ok_def routes_ok_def list_all_iff)
  then have "settings_ok r'" using applied_settings_ok c h(1,6) by (simp add: route_ok_def)
  moreover have "on_account (db_connections d1) (db_policies d1) (rq_user rq) c (rc_fixed_lot s)"
    using rok pol h(5) own c(1) by (auto simp: on_account_def list_ex_iff route_ok_def)
  ultimately have "route_ok (db_connections d1) (db_policies d1) r'"
    using rok own c(1) by (simp add: route_ok_def h(6) apply_settings_def)
  then have "desk_ok (put_route r' d1)"
    using put_route_desk [of d1 r r'] pol own d1 by (simp add: h(6) apply_settings_def route_key_def)
  then show ?thesis using h(7) by simp
qed

lemma pause_route_desk:
  assumes "pause_route rq k d = Inr (r, d')" "desk_ok d"
  shows "desk_ok d'"
  using assms unfolding pause_route_def Let_def
  by (auto dest!: owned_route_Inr intro!: put_route_state_desk simp: route_core_pause split: sum.splits if_splits)

lemma settings_tables:
  assumes "get_or_create_user_settings u d = (s, d1)"
  shows "d1 = d \<lparr>db_settings := db_settings d1\<rparr>" "us_user_id s = u"
    "filter (\<lambda>x. us_user_id x \<noteq> u) (db_settings d1) = filter (\<lambda>x. us_user_id x \<noteq> u) (db_settings d)"
  using assms unfolding get_or_create_user_settings_def get_settings_def row_get_def Let_def
  by (auto dest: find_SomeD split: option.splits)

lemma settings_desk: "get_or_create_user_settings u d = (s, d1) \<Longrightarrow> desk_ok d1 = desk_ok d \<and> db_routes d1 = db_routes d"
  unfolding get_or_create_user_settings_def Let_def by (auto simp: desk_ok_def split: option.splits)

lemma resume_route_desk:
  assumes "resume_route rq k d = Inr (r, d')" "desk_ok d"
  shows "desk_ok d'"
proof -
  obtain s d1 where s: "get_or_create_user_settings (rq_user rq) d = (s, d1)" by force
  note d1 = settings_desk [OF s]
  show ?thesis using assms d1 s unfolding resume_route_def Let_def http_raise_def
    by (auto dest!: owned_route_Inr intro!: put_route_state_desk simp: route_core_def split: sum.splits if_splits)
qed

lemma activate_route_desk:
  assumes "activate_route rq k d = Inr (r, d')" "desk_ok d"
  shows "desk_ok d'"
proof -
  have "desk_ok (d \<lparr>db_sources := row_put src_id s (db_sources d)\<rparr>)" for s
    using assms(2) by (simp add: desk_ok_def row_put_def comp_def if_distrib cong: if_cong)
  then show ?thesis using assms(1) unfolding activate_route_def Let_def http_raise_def
    by (auto dest!: owned_route_Inr intro!: put_route_state_desk simp: route_core_def split: sum.splits option.splits)
qed

lemma distinct_filter_map: "distinct (map f xs) \<Longrightarrow> distinct (map f (filter P xs))"
  by (auto simp: distinct_map intro: inj_on_subset)

lemma delete_route_desk:
  assumes "delete_route rq k d = Inr d'" "desk_ok d"
  shows "desk_ok d'"
proof -
  obtain r where "d' = delete_route_row (rt_id r)
      (record_route_activity rq 0 r ''route.deleted'' ''Copy route deleted'' Level_warning d)"
    using assms(1) unfolding delete_route_def http_raise_def by (auto split: sum.splits if_splits)
  moreover have "desk_ok (record_route_activity rq 0 r ''route.deleted'' ''Copy route deleted'' Level_warning d)"
    using assms(2) by simp
  ultimately obtain d1 where "d' = delete_route_row (rt_id r) d1" "desk_ok d1" by blast
  then show ?thesis
    by (simp add: delete_route_row_def Let_def desk_ok_def routes_ok_def distinct_filter_map list_all_iff)
qed

end
