(* ===== verification/Desk_Properties.thy ===== *)
theory Desk_Properties
  imports Desk
begin

text \<open>
  The properties of the control plane: its invariant over all runs, isolation of the users from each other,
  the limit of accounts, pausing and resuming, and the magic numbers.
\<close>

section \<open>Steps\<close>

text \<open>The requests of a user that are answered without an error.\<close>

inductive user_op :: "request \<Rightarrow> db \<Rightarrow> db \<Rightarrow> bool" for rq d where
  connect: "post_connection rq p d = Inr (es, d') \<Longrightarrow> user_op rq d d'"
| retry: "post_connection_retry rq k d = Inr (es, d') \<Longrightarrow> user_op rq d d'"
| disconnect: "delete_connection rq k d = Inr (es, d') \<Longrightarrow> user_op rq d d'"
| switch: "update_user_settings rq paused d = (s, d') \<Longrightarrow> user_op rq d d'"
| policy: "update_account_policy rq k u d = Inr (p, d') \<Longrightarrow> user_op rq d d'"
| create: "create_route rq s d = Inr (r, d') \<Longrightarrow> user_op rq d d'"
| update: "update_route rq k ru d = Inr (r, d') \<Longrightarrow> user_op rq d d'"
| pause: "pause_route rq k d = Inr (r, d') \<Longrightarrow> user_op rq d d'"
| resume: "resume_route rq k d = Inr (r, d') \<Longrightarrow> user_op rq d d'"
| activate: "activate_route rq k d = Inr (r, d') \<Longrightarrow> user_op rq d d'"
| delete: "delete_route rq k d = Inr d' \<Longrightarrow> user_op rq d d'"

text \<open>A step is a request, an event of the provisioning worker or a round of the warm-up.\<close>

inductive desk_step :: "db \<Rightarrow> db \<Rightarrow> bool" where
  user: "user_op rq d d' \<Longrightarrow> desk_step d d'"
| provisioned: "provisioning_handler env now e d = (r, d') \<Longrightarrow> desk_step d d'"
| exhausted: "desk_step d (mark_provisioning_retry_exhausted e d)"
| warmed: "desk_step d (fst (warm_active_copy_connections xenv now d))"

lemma update_user_settings_desk: "update_user_settings rq paused d = (s, d') \<Longrightarrow> desk_ok d' = desk_ok d"
  using settings_desk [of "rq_user rq" d] unfolding update_user_settings_def Let_def
  by (auto simp: desk_ok_def record_activity_def split: prod.splits)

lemma user_op_desk: "user_op rq d d' \<Longrightarrow> desk_ok d \<Longrightarrow> desk_ok d'"
proof (induction rule: user_op.induct)
  case (connect p es d')
  then show ?case unfolding post_connection_def http_raise_def
    by (auto dest: create_copy_connection_desk split: sum.splits if_splits)
next
  case (retry k es d')
  then show ?case unfolding post_connection_retry_def by (auto dest: retry_copy_connection_desk split: sum.splits)
next
  case (disconnect k es d')
  then show ?case unfolding delete_connection_def by (auto dest: delete_copy_connection_desk split: sum.splits)
qed (simp_all add: update_user_settings_desk update_account_policy_desk create_route_desk update_route_desk pause_route_desk
    resume_route_desk activate_route_desk delete_route_desk)

lemma desk_step_ok: "desk_ok d \<Longrightarrow> desk_step d d' \<Longrightarrow> desk_ok d'"
  by (erule desk_step.cases) (auto dest: user_op_desk provisioning_desk exhausted_desk warm_active_desk)

text \<open>A new installation: sources may exist, but no account, policy or route does.\<close>

definition empty_desk :: "db \<Rightarrow> bool" where
  "empty_desk d \<longleftrightarrow> distinct (map src_id (db_sources d)) \<and> db_connections d = [] \<and> db_policies d = [] \<and> db_routes d = []"

lemma empty_desk_ok: "empty_desk d \<Longrightarrow> desk_ok d"
  by (simp add: empty_desk_def desk_ok_def accounts_ok_def policies_ok_def routes_ok_def)

interpretation desk: invariant_system empty_desk desk_step desk_ok
  by unfold_locales (rule empty_desk_ok, assumption, rule desk_step_ok)

section \<open>Magic numbers\<close>

lemma magic_number_range: "1 \<le> magic_number_for_route i \<and> magic_number_for_route i \<le> 2147483647"
proof -
  define n where "n = uint (drop_bit 96 i AND 0x7FFFFFFF)"
  have "n = uint (drop_bit 96 i) AND 0x7FFFFFFF" by (simp add: n_def uint_and)
  then have "0 \<le> n" "n \<le> 0x7FFFFFFF" by (simp_all add: AND_upper2)
  then show ?thesis unfolding magic_number_for_route_def n_def [symmetric] Let_def by auto
qed

section \<open>The invariant\<close>

text \<open>
  Property C19. In every state that requests of users, the provisioning worker and the warm-up of accounts can
  reach, every route trades on an account of its own user, its lot is positive and within both limits
  of the one policy of that account, its magic number is a positive 32-bit integer no other route has,
  a split lot goes with all take profits, and an unsafe choice of minimum fields has been confirmed.
\<close>

theorem route_invariant:
  assumes "empty_desk d0" "desk_step\<^sup>*\<^sup>* d0 d" "r \<in> set (db_routes d)"
  shows "\<exists>c \<in> set (db_connections d). \<exists>p \<in> set (db_policies d).
      rt_target_connection_id r = Some (cn_id c) \<and> cn_user_id c = rt_user_id r
    \<and> cap_user_id p = rt_user_id r \<and> cap_connection_id p = Some (cn_id c)
    \<and> (\<forall>q \<in> set (db_policies d). cap_user_id q = rt_user_id r \<and> cap_connection_id q = Some (cn_id c) \<longrightarrow> q = p)
    \<and> 0 < rt_fixed_lot r \<and> rt_fixed_lot r \<le> cap_max_lot p \<and> rt_fixed_lot r \<le> cap_max_lot_per_trade p
    \<and> 1 \<le> rt_magic_number r \<and> rt_magic_number r \<le> 2147483647
    \<and> (\<forall>x \<in> set (db_routes d). rt_magic_number x = rt_magic_number r \<longrightarrow> x = r)
    \<and> (rt_lot_distribution r = Split_total \<longrightarrow> rt_take_profit_mode r = TP_all)
    \<and> (unsafe_minimum_fields (rt_minimum_fields r) \<longrightarrow> rt_unsafe_minimum_confirmed_at r \<noteq> None)"
proof -
  have ok: "desk_ok d" using desk.reachable_inv [OF assms(1,2)] .
  then have rok: "route_ok (db_connections d) (db_policies d) r"
    using assms(3) by (simp add: desk_ok_def routes_ok_def list_all_iff)
  then obtain k where k: "rt_target_connection_id r = Some k" "on_account (db_connections d) (db_policies d) (rt_user_id r) k (rt_fixed_lot r)"
    by (auto simp: route_ok_def split: option.splits)
  then obtain c p where c: "c \<in> set (db_connections d)" "cn_id c = k" "cn_user_id c = rt_user_id r"
    and p: "p \<in> set (db_policies d)" "policy_key p = (rt_user_id r, Some k)" "\<not> lot_exceeds (rt_fixed_lot r) p"
    by (auto simp: on_account_def list_ex_iff)
  have unique: "q = p" if "q \<in> set (db_policies d)" "cap_user_id q = rt_user_id r" "cap_connection_id q = Some k" for q
    using ok that p(1,2) unfolding desk_ok_def policies_ok_def distinct_map inj_on_def by (auto simp: policy_key_def)
  have magic: "x = r" if "x \<in> set (db_routes d)" "rt_magic_number x = rt_magic_number r" for x
    using ok that assms(3) unfolding desk_ok_def routes_ok_def distinct_map inj_on_def by blast
  have set: "settings_ok r" "rt_magic_number r = magic_number_for_route (rt_id r)" using rok by (simp_all add: route_ok_def)
  have pol: "cap_user_id p = rt_user_id r" "cap_connection_id p = Some (cn_id c)" "rt_target_connection_id r = Some (cn_id c)"
    using p(2) c(2) k(1) by (simp_all add: policy_key_def)
  have uni: "\<forall>q \<in> set (db_policies d). cap_user_id q = rt_user_id r \<and> cap_connection_id q = Some (cn_id c) \<longrightarrow> q = p"
    using unique c(2) by blast
  have lots: "0 < rt_fixed_lot r \<and> rt_fixed_lot r \<le> cap_max_lot p \<and> rt_fixed_lot r \<le> cap_max_lot_per_trade p"
    using set(1) p(3) by (simp add: settings_ok_def lot_exceeds_def not_less)
  have choice: "(rt_lot_distribution r = Split_total \<longrightarrow> rt_take_profit_mode r = TP_all)
      \<and> (unsafe_minimum_fields (rt_minimum_fields r) \<longrightarrow> rt_unsafe_minimum_confirmed_at r \<noteq> None)"
    using set(1) unfolding settings_ok_def by blast
  have range: "1 \<le> rt_magic_number r \<and> rt_magic_number r \<le> 2147483647" using magic_number_range set(2) by simp
  have "\<forall>x \<in> set (db_routes d). rt_magic_number x = rt_magic_number r \<longrightarrow> x = r" using magic by blast
  with c(1,3) p(1) pol uni lots choice range show ?thesis by blast
qed

section \<open>Isolation of users\<close>

text \<open>The rows of one user in the tables of the control plane.\<close>

definition rows_of :: "uuid \<Rightarrow> db \<Rightarrow> copy_trading_connection list \<times> copy_account_policy list \<times> copy_route list \<times> telegram_source list
    \<times> copy_trading_user_settings list" where
  "rows_of u d = (filter (\<lambda>c. cn_user_id c = u) (db_connections d), filter (\<lambda>p. cap_user_id p = u) (db_policies d),
     filter (\<lambda>r. rt_user_id r = u) (db_routes d), filter (\<lambda>s. src_user_id s = u) (db_sources d),
     filter (\<lambda>s. us_user_id s = u) (db_settings d))"

lemma rows_of_activity [simp]: "rows_of u (record_activity v action title level corr route source connection d) = rows_of u d"
  by (simp add: rows_of_def record_activity_def)

lemma rows_of_route_activity [simp]: "rows_of u (record_route_activity rq n r action title level d) = rows_of u d"
  by (simp add: record_route_activity_def)

lemma row_put_filter_owned:
  assumes "distinct (map key xs)" "x \<in> set xs" "key x = key r" "\<not> P x" "\<not> P r"
  shows "filter P (row_put key r xs) = filter P xs"
proof (rule row_put_filter)
  fix y
  assume "y \<in> set xs" "key y = key r"
  then have "y = x" using assms(1-3) by (metis distinct_map inj_onD)
  then show "\<not> P y" using assms(4) by simp
qed (rule assms(5))

lemma rows_of_put_connection:
  assumes "desk_ok d" "c \<in> set (db_connections d)" "cn_id c' = cn_id c" "cn_user_id c' = cn_user_id c" "cn_user_id c \<noteq> u"
  shows "rows_of u (put_connection c' d) = rows_of u d"
  using row_put_filter_owned [of cn_id "db_connections d" c c' "\<lambda>c. cn_user_id c = u"] assms
  by (simp add: rows_of_def put_connection_def desk_ok_def accounts_ok_def)

lemma rows_of_put_route:
  assumes "desk_ok d" "r \<in> set (db_routes d)" "rt_id r' = rt_id r" "rt_user_id r' = rt_user_id r" "rt_user_id r \<noteq> u"
  shows "rows_of u (put_route r' d) = rows_of u d"
  using row_put_filter_owned [of rt_id "db_routes d" r r' "\<lambda>r. rt_user_id r = u"] assms
  by (simp add: rows_of_def put_route_def desk_ok_def routes_ok_def)

lemma rows_of_put_policy:
  assumes "desk_ok d" "p \<in> set (db_policies d)" "cap_id p' = cap_id p" "cap_user_id p' = cap_user_id p" "cap_user_id p \<noteq> u"
  shows "rows_of u (put_policy p' d) = rows_of u d"
  using row_put_filter_owned [of cap_id "db_policies d" p p' "\<lambda>p. cap_user_id p = u"] assms
  by (simp add: rows_of_def put_policy_def desk_ok_def policies_ok_def)

lemma filter_map_kept: "(\<And>x. x \<in> set xs \<Longrightarrow> P (f x) = P x \<and> (P x \<longrightarrow> f x = x)) \<Longrightarrow> filter P (map f xs) = filter P xs"
  by (induction xs) auto

lemma filter_neq_eq: "filter (\<lambda>x. f x \<noteq> v) xs = filter (\<lambda>x. f x \<noteq> v) ys \<Longrightarrow> u \<noteq> v \<Longrightarrow> filter (\<lambda>x. f x = u) xs = filter (\<lambda>x. f x = u) ys"
proof -
  assume "filter (\<lambda>x. f x \<noteq> v) xs = filter (\<lambda>x. f x \<noteq> v) ys" "u \<noteq> v"
  moreover have "filter (\<lambda>x. f x = u) zs = filter (\<lambda>x. f x = u) (filter (\<lambda>x. f x \<noteq> v) zs)" if "u \<noteq> v" for zs
    using that by (simp add: filter_filter) (rule filter_cong, auto)
  ultimately show ?thesis by metis
qed

lemma policy_created_rows:
  assumes "get_or_create_account_policy i k v d = Inr (p, d1)" "desk_ok d" "u \<noteq> v"
  shows "rows_of u d1 = rows_of u d" "desk_ok d1" "p \<in> set (db_policies d1)" "cap_user_id p = v" "db_routes d1 = db_routes d"
proof -
  note pol = get_or_create_policy_desk [OF assms(1,2)]
  then obtain ps where "d1 = d \<lparr>db_policies := ps\<rparr>" by metis
  with pol filter_neq_eq [of cap_user_id v "db_policies d1" "db_policies d" u] assms(3)
  show "rows_of u d1 = rows_of u d" "desk_ok d1" "p \<in> set (db_policies d1)" "cap_user_id p = v" "db_routes d1 = db_routes d"
    by (auto simp: rows_of_def policy_key_def)
qed

lemma post_connection_rows:
  assumes "post_connection rq p d = Inr (es, d')" "desk_ok d" "u \<noteq> rq_user rq"
  shows "rows_of u d' = rows_of u d"
proof -
  obtain c where c: "create_copy_connection rq p d = Inr (c, d')"
    using assms(1) unfolding post_connection_def http_raise_def by (auto split: sum.splits if_splits)
  show ?thesis
  proof (cases "\<exists>x. get_copy_connection_by_identity d (rq_user rq) (cc_broker_login p) (py_strip (cc_broker_server p)) = Inr (Some x)")
    case True
    then obtain x where x: "get_copy_connection_by_identity d (rq_user rq) (cc_broker_login p) (py_strip (cc_broker_server p)) = Inr (Some x)" ..
    then have mem: "x \<in> set (db_connections d)" "cn_user_id x = rq_user rq"
      unfolding get_copy_connection_by_identity_def by (auto dest!: scalar_one_filter)
    have "d' = put_connection c d" "cn_id c = cn_id x" "cn_user_id c = cn_user_id x"
      using c x unfolding create_copy_connection_def Let_def http_raise_def integrity_error_def by (auto split: sum.splits if_splits)
    then show ?thesis using rows_of_put_connection [OF assms(2) mem(1)] mem(2) assms(3) by simp
  next
    case False
    then have "d' = d \<lparr>db_connections := db_connections d @ [c]\<rparr>" "cn_user_id c = rq_user rq"
      using c unfolding create_copy_connection_def Let_def http_raise_def by (auto split: sum.splits option.splits if_splits)
    then show ?thesis using assms(3) by (simp add: rows_of_def)
  qed
qed

lemma retry_rows:
  assumes "post_connection_retry rq k d = Inr (es, d')" "desk_ok d" "u \<noteq> rq_user rq"
  shows "rows_of u d' = rows_of u d"
  using assms unfolding post_connection_retry_def retry_copy_connection_def http_raise_def Let_def
  by (auto dest!: owned_connection_Inr intro!: rows_of_put_connection split: sum.splits if_splits)

lemma route_user_of_account:
  assumes "desk_ok d" "r \<in> set (db_routes d)" "rt_target_connection_id r = Some (cn_id c)" "c \<in> set (db_connections d)"
  shows "rt_user_id r = cn_user_id c"
proof -
  have "route_ok (db_connections d) (db_policies d) r" using assms(1,2) by (simp add: desk_ok_def routes_ok_def list_all_iff)
  then obtain x where "x \<in> set (db_connections d)" "cn_id x = cn_id c" "cn_user_id x = rt_user_id r"
    using assms(3) by (auto simp: route_ok_def on_account_def list_ex_iff)
  moreover have "distinct (map cn_id (db_connections d))" using assms(1) by (simp add: desk_ok_def accounts_ok_def)
  ultimately show ?thesis using assms(4) by (metis distinct_map inj_onD)
qed

lemma disconnect_rows:
  assumes "delete_connection rq k d = Inr (es, d')" "desk_ok d" "u \<noteq> rq_user rq"
  shows "rows_of u d' = rows_of u d"
proof -
  obtain c where c: "owned_copy_connection d (rq_user rq) k = Inr c"
    and d': "d' = d \<or> d' = put_connection (c \<lparr>cn_state := Conn_deleting\<rparr>) (pause_routes_for_connection (cn_id c) d)"
    using assms(1) unfolding delete_connection_def delete_copy_connection_def Let_def by (auto split: sum.splits if_splits)
  note own = owned_connection_Inr [OF c]
  have "filter (\<lambda>r. rt_user_id r = u) (map (\<lambda>r. if rt_target_connection_id r = Some (cn_id c) then pause_row r else r) (db_routes d))
      = filter (\<lambda>r. rt_user_id r = u) (db_routes d)"
  proof (rule filter_map_kept)
    fix r
    assume r: "r \<in> set (db_routes d)"
    then show "(rt_user_id (if rt_target_connection_id r = Some (cn_id c) then pause_row r else r) = u) = (rt_user_id r = u)
      \<and> (rt_user_id r = u \<longrightarrow> (if rt_target_connection_id r = Some (cn_id c) then pause_row r else r) = r)"
      using route_user_of_account [OF assms(2) r] own assms(3) by (auto simp: pause_row_def)
  qed
  then have paused: "rows_of u (pause_routes_for_connection (cn_id c) d) = rows_of u d"
    by (simp add: rows_of_def pause_routes_for_connection_def)
  have "desk_ok (pause_routes_for_connection (cn_id c) d)"
    unfolding pause_routes_for_connection_def by (rule route_states_desk [OF assms(2)]) (simp add: route_core_pause)
  then have "rows_of u (put_connection (c \<lparr>cn_state := Conn_deleting\<rparr>) (pause_routes_for_connection (cn_id c) d)) = rows_of u d"
    using rows_of_put_connection [of "pause_routes_for_connection (cn_id c) d" c "c \<lparr>cn_state := Conn_deleting\<rparr>" u] own assms(3) paused
    by (simp add: pause_routes_for_connection_def)
  then show ?thesis using d' by auto
qed

lemma settings_rows:
  assumes "get_or_create_user_settings v d = (s, d1)" "u \<noteq> v"
  shows "rows_of u d1 = rows_of u d"
proof -
  obtain ss where "d1 = d \<lparr>db_settings := ss\<rparr>" using settings_tables(1) [OF assms(1)] by metis
  then show ?thesis
    using filter_neq_eq [OF settings_tables(3) [OF assms(1)] assms(2)] by (simp add: rows_of_def)
qed

lemma switch_rows:
  assumes "update_user_settings rq paused d = (s, d')" "u \<noteq> rq_user rq"
  shows "rows_of u d' = rows_of u d"
proof -
  obtain s0 d1 where s: "get_or_create_user_settings (rq_user rq) d = (s0, d1)" by force
  have "filter (\<lambda>x. us_user_id x = u) (row_put us_user_id (s0 \<lparr>us_is_paused := paused\<rparr>) (db_settings d1)) = filter (\<lambda>x. us_user_id x = u) (db_settings d1)"
    by (rule row_put_filter) (use settings_tables(2) [OF s] assms(2) in auto)
  then show ?thesis using settings_rows [OF s assms(2)] assms(1) s
    unfolding update_user_settings_def Let_def by (auto simp: rows_of_def record_activity_def)
qed

lemma policy_rows:
  assumes "update_account_policy rq k payload d = Inr (p', d')" "desk_ok d" "u \<noteq> rq_user rq"
  shows "rows_of u d' = rows_of u d"
proof -
  obtain pu p d1 where h: "get_or_create_account_policy (rq_rnd rq 0) (Some k) (rq_user rq) d = Inr (p, d1)"
    "p' = apply_policy_update pu p" "rows_of u d' = rows_of u (put_policy p' d1)"
    using assms(1) unfolding update_account_policy_def Let_def http_raise_def integrity_error_def
    by (auto split: sum.splits prod.splits if_splits)
  note pol = policy_created_rows [OF h(1) assms(2,3)]
  have "cap_id p' = cap_id p" "cap_user_id p' = cap_user_id p" by (simp_all add: h(2) apply_policy_update_def)
  then show ?thesis using rows_of_put_policy [OF pol(2,3)] pol(1,4) assms(3) h(3) by simp
qed

lemma create_route_rows:
  assumes "create_route rq s d = Inr (r, d')" "desk_ok d" "u \<noteq> rq_user rq"
  shows "rows_of u d' = rows_of u d"
proof -
  obtain p k d1 where h: "get_or_create_account_policy (rq_rnd rq 0) (Some k) (rq_user rq) d = Inr (p, d1)"
    "r = route_row rq (rq_rnd rq 1) s" "rows_of u d' = rows_of u (d1 \<lparr>db_routes := db_routes d1 @ [r]\<rparr>)"
    using assms(1) unfolding create_route_def Let_def http_raise_def integrity_error_def
    by (auto split: sum.splits prod.splits option.splits if_splits)
  have "rows_of u (d1 \<lparr>db_routes := db_routes d1 @ [r]\<rparr>) = rows_of u d1"
    using assms(3) by (simp add: rows_of_def h(2) route_row_def)
  then show ?thesis using policy_created_rows(1) [OF h(1) assms(2,3)] h(3) by simp
qed

lemma update_route_rows:
  assumes "update_route rq k ru d = Inr (r', d')" "desk_ok d" "u \<noteq> rq_user rq"
  shows "rows_of u d' = rows_of u d"
proof -
  obtain r s p t d1 where h: "owned_route d (rq_user rq) k = Inr r" "get_or_create_account_policy (rq_rnd rq 0) t (rq_user rq) d = Inr (p, d1)"
    "r' = apply_settings rq ru s r" "rows_of u d' = rows_of u (put_route r' d1)"
    using assms(1) unfolding update_route_def Let_def http_raise_def by (auto split: sum.splits prod.splits if_splits)
  note pol = policy_created_rows [OF h(2) assms(2,3)] and own = owned_route_Inr [OF h(1)]
  have "rt_id r' = rt_id r" "rt_user_id r' = rt_user_id r" by (simp_all add: h(3) apply_settings_def)
  then show ?thesis using rows_of_put_route [OF pol(2), of r r' u] own pol(1,5) assms(3) h(4) by simp
qed

lemma pause_rows:
  assumes "pause_route rq k d = Inr (r, d')" "desk_ok d" "u \<noteq> rq_user rq"
  shows "rows_of u d' = rows_of u d"
  using assms unfolding pause_route_def Let_def
  by (auto dest!: owned_route_Inr intro!: rows_of_put_route simp: pause_row_def split: sum.splits if_splits)

lemma resume_rows:
  assumes "resume_route rq k d = Inr (r, d')" "desk_ok d" "u \<noteq> rq_user rq"
  shows "rows_of u d' = rows_of u d"
proof -
  obtain s d1 where s: "get_or_create_user_settings (rq_user rq) d = (s, d1)" by force
  obtain x where x: "owned_route d (rq_user rq) k = Inr x"
    using assms(1) unfolding resume_route_def by (auto split: sum.splits)
  have d': "d' = d \<or> rows_of u d' = rows_of u (put_route r d1) \<and> rt_id r = rt_id x \<and> rt_user_id r = rt_user_id x"
    using assms(1) s x unfolding resume_route_def Let_def http_raise_def by (auto split: sum.splits if_splits)
  have "rows_of u (put_route r d1) = rows_of u d1" if "rt_id r = rt_id x" "rt_user_id r = rt_user_id x"
    using rows_of_put_route [of d1 x r u] settings_desk [OF s] owned_route_Inr [OF x] assms(2,3) that by simp
  then show ?thesis using d' settings_rows [OF s assms(3)] by auto
qed

lemma activate_rows:
  assumes "activate_route rq k d = Inr (r, d')" "desk_ok d" "u \<noteq> rq_user rq"
  shows "rows_of u d' = rows_of u d"
proof -
  obtain x src where h: "owned_route d (rq_user rq) k = Inr x" "get_source_for_user d (rt_source_id x) (rq_user rq) = Inr (Some src)"
    "rows_of u d' = rows_of u (put_route (x \<lparr>rt_state := Route_active\<rparr>)
       (d \<lparr>db_sources := row_put src_id (src \<lparr>src_state := Source_active\<rparr>) (db_sources d)\<rparr>))"
    using assms(1) unfolding activate_route_def Let_def http_raise_def by (auto split: sum.splits option.splits)
  define d1 where "d1 = d \<lparr>db_sources := row_put src_id (src \<lparr>src_state := Source_active\<rparr>) (db_sources d)\<rparr>"
  have "filter (\<lambda>s. src_user_id s = u) (row_put src_id (src \<lparr>src_state := Source_active\<rparr>) (db_sources d)) = filter (\<lambda>s. src_user_id s = u) (db_sources d)"
    by (rule row_put_filter_owned [of src_id "db_sources d" src]) (use assms(2,3) source_for_user_Inr [OF h(2)] in \<open>auto simp: desk_ok_def\<close>)
  then have d1: "rows_of u d1 = rows_of u d" by (simp add: d1_def rows_of_def)
  have "rows_of u (put_route (x \<lparr>rt_state := Route_active\<rparr>) d1) = rows_of u d1"
  proof (rule rows_of_put_route [of d1 x])
    show "desk_ok d1" using assms(2) by (simp add: d1_def desk_ok_def row_put_def comp_def if_distrib cong: if_cong)
  qed (use owned_route_Inr [OF h(1)] assms(3) in \<open>simp_all add: d1_def\<close>)
  then show ?thesis using h(3) d1 by (simp add: d1_def)
qed

lemma delete_route_rows:
  assumes "delete_route rq k d = Inr d'" "desk_ok d" "u \<noteq> rq_user rq"
  shows "rows_of u d' = rows_of u d"
proof -
  obtain r where r: "owned_route d (rq_user rq) k = Inr r"
    "d' = delete_route_row (rt_id r) (record_route_activity rq 0 r ''route.deleted'' ''Copy route deleted'' Level_warning d)"
    using assms(1) unfolding delete_route_def http_raise_def by (auto split: sum.splits if_splits)
  note own = owned_route_Inr [OF r(1)]
  have "rt_id x \<noteq> rt_id r" if "x \<in> set (db_routes d)" "rt_user_id x = u" for x
    using that own assms(2,3) unfolding desk_ok_def routes_ok_def by (metis distinct_map inj_onD)
  then have "filter (\<lambda>x. rt_id x \<noteq> rt_id r \<and> rt_user_id x = u) (db_routes d) = filter (\<lambda>x. rt_user_id x = u) (db_routes d)"
    by (intro filter_cong) auto
  then show ?thesis
    by (simp add: r(2) rows_of_def delete_route_row_def Let_def record_route_activity_def record_activity_def)
qed

text \<open>
  Property C20. Users are isolated from each other: in every reachable state, a request of one user leaves
  every account, policy, route, source and setting of every other user as it is, whatever identifiers
  the request names.
\<close>

theorem tenant_isolation:
  assumes "empty_desk d0" "desk_step\<^sup>*\<^sup>* d0 d" "user_op rq d d'" "u \<noteq> rq_user rq"
  shows "rows_of u d' = rows_of u d"
proof -
  have ok: "desk_ok d" using desk.reachable_inv [OF assms(1,2)] .
  from assms(3) show ?thesis
    by (cases rule: user_op.cases)
      (blast dest: post_connection_rows [OF _ ok assms(4)] retry_rows [OF _ ok assms(4)] disconnect_rows [OF _ ok assms(4)]
        switch_rows [OF _ assms(4)] policy_rows [OF _ ok assms(4)] create_route_rows [OF _ ok assms(4)]
        update_route_rows [OF _ ok assms(4)] pause_rows [OF _ ok assms(4)] resume_rows [OF _ ok assms(4)]
        activate_rows [OF _ ok assms(4)] delete_route_rows [OF _ ok assms(4)])+
qed

end
