(* ===== verification/Provisioning_Properties.thy ===== *)
theory Provisioning_Properties
  imports Provisioning_Proofs "HOL-Library.Sublist"
begin

text \<open>The properties of the provisioning worker, with the examples that instantiate them.\<close>

section \<open>Readiness\<close>





section \<open>Crashes and deletion\<close>

text \<open>
  Provisioning can be resumed after a crash at any point without buying a second account:
  whatever row was committed last, it is of the same account, keeps the encrypted password and any
  account identifier that was ever committed; if it has an identifier, running the job again asks
  the provider for no new account, and otherwise it sends the same request under the same transaction
  identifier, which the provider treats as one.
\<close>

theorem provisioning_resumable:
  assumes "provision env pw c = (r, s)" "prefix rows (snd s)"
  shows "same_account c (last (c # rows)) \<and> cn_encrypted_trader_password (last (c # rows)) = cn_encrypted_trader_password c
    \<and> (\<forall>x \<in> set (c # rows). has_metaapi_account x \<longrightarrow> cn_metaapi_account_id (fst s) = cn_metaapi_account_id x)
    \<and> (has_metaapi_account (last (c # rows)) \<longrightarrow> (\<forall>post. provision (env \<lparr>pv_post := post\<rparr>) pw (last (c # rows)) = provision env pw (last (c # rows))))
    \<and> account_request env (last (c # rows)) pw = account_request env c pw
    \<and> cn_provisioning_transaction_id (last (c # rows)) = cn_provisioning_transaction_id c"
proof -
  have ok: "progress_ok c s" using provision_ok [OF assms(1)] by blast
  have sub: "set rows \<subseteq> set (snd s)" using assms(2) by (simp add: set_mono_prefix)
  have "last (c # rows) \<in> set (c # snd s)" using sub last_in_set [of "c # rows"] by fastforce
  then have same: "same_account c (last (c # rows))"
    and pw: "cn_encrypted_trader_password (last (c # rows)) = cn_encrypted_trader_password c"
    using ok by (auto simp: progress_ok_def list_all_iff)
  have acc: "\<forall>x \<in> set (c # rows). has_metaapi_account x \<longrightarrow> cn_metaapi_account_id (fst s) = cn_metaapi_account_id x"
    using ok sub by (auto simp: progress_ok_def list_all_iff)
  have raised: "raised_error (env \<lparr>pv_post := post\<rparr>) = raised_error env"
    and deployed: "deploy_account (env \<lparr>pv_post := post\<rparr>) = deploy_account env" for post
    by (simp_all add: fun_eq_iff raised_error_def deploy_account_def split: provisioning_raise.split)
  have "provision (env \<lparr>pv_post := post\<rparr>) pw x = provision env pw x" if "has_metaapi_account x" for post x
  proof -
    have "request_account (env \<lparr>pv_post := post\<rparr>) pw (x, []) = request_account env pw (x, [])"
      using that by (simp add: request_account_def)
    then show ?thesis unfolding provision_def provision_steps_def raised deployed by simp
  qed
  with same pw acc show ?thesis by (auto simp: account_request_def same_account_def)
qed

text \<open>
  Deletion is final: when the event that deletes a connection is handled, the connection is
  deleted, its password is erased and it has no account; whatever provisioning events arrive later,
  in whatever order and whatever the provider answers, they leave the database as it is.
\<close>

theorem deleted_account_stays_deleted:
  assumes "provisioning_handler env now e d = (Inr delivery_success, d')" "event_connection e = Inr k"
    "ev_event_type e = ''connection.delete''" "get_connection d (Some k) = Some c"
  shows "\<exists>c'. get_connection d' (Some k) = Some c' \<and> same_account c c' \<and> cn_state c' = Conn_deleted
    \<and> cn_encrypted_trader_password c' = None \<and> \<not> has_metaapi_account c'
    \<and> (\<forall>env2 now2 e2. event_connection e2 = Inr k \<and> ev_event_type e2 \<noteq> ''connection.delete'' \<longrightarrow>
         snd (provisioning_handler env2 now2 e2 d') = d')"
proof -
  obtain out c1 rows where job: "run_job env True c = (out, c1, rows)" by (metis prod.exhaust)
  have done': "out = Job_done True \<and> d' = commit_all rows d"
    using assms job unfolding provisioning_handler_def Let_def
    by (auto simp: delivery_success_def delivery_retry_def run_job_def split: if_splits sum.splits prod.splits job_result.splits)
  then have "cleanup env c = (Inr (), c1, rows)"
    using job by (auto simp: run_job_def split: sum.splits prod.splits)
  then have fin: "cn_state c1 = Conn_deleted" "cn_encrypted_trader_password c1 = None" "\<not> has_metaapi_account c1" "rows \<noteq> []"
    using cleanup_ok [of env c "Inr ()" "(c1, rows)"] by (auto simp: committed_def)
  have id: "cn_id c = k" using connections.get_Some [OF assms(4)] by simp
  have row: "get_connection d' (Some k) = Some c1" "same_account c c1"
    using run_job_ok [OF job] commit_all_get(1) [of c rows d] fin(4) id assms(4) done' by auto
  have "snd (provisioning_handler env2 now2 e2 d') = d'"
    if "event_connection e2 = Inr k" "ev_event_type e2 \<noteq> ''connection.delete''" for env2 now2 e2
    using that row fin unfolding provisioning_handler_def Let_def
    by (auto simp: run_job_def commit_all_def split: if_splits)
  with row fin show ?thesis by blast
qed

section \<open>Retries of the user\<close>

lemma retry_owned:
  assumes "post_connection_retry rq k d = Inr (es, d')" "get_connection d (Some k) = Some c" "distinct (map cn_id (db_connections d))"
  shows "es = [metaapi_command rq c ''connection.provision'']
    \<and> get_connection d' (Some k) = Some (c \<lparr>cn_last_error_code := None, cn_last_error_message := None, cn_state := Conn_provisioning\<rparr>)"
proof -
  obtain x where x: "filter (\<lambda>c. cn_id c = k \<and> cn_user_id c = rq_user rq) (db_connections d) = [x]"
    and res: "es = [metaapi_command rq (x \<lparr>cn_last_error_code := None, cn_last_error_message := None, cn_state := Conn_provisioning\<rparr>) ''connection.provision'']"
      "d' = put_connection (x \<lparr>cn_last_error_code := None, cn_last_error_message := None, cn_state := Conn_provisioning\<rparr>) d"
    using assms(1) unfolding post_connection_retry_def retry_copy_connection_def owned_copy_connection_def
      get_copy_connection_for_user_def scalar_one_or_none_def http_raise_def Let_def
    by (auto split: list.splits if_splits sum.splits)
  have "x \<in> set (filter (\<lambda>c. cn_id c = k \<and> cn_user_id c = rq_user rq) (db_connections d))" using x by simp
  then have mem: "x \<in> set (db_connections d)" "cn_id x = k" by auto
  then have "x = c" using connections.get_unique [OF assms(3) mem(1)] assms(2) by simp
  moreover have "get_connection d' (Some k) = Some (x \<lparr>cn_last_error_code := None, cn_last_error_message := None, cn_state := Conn_provisioning\<rparr>)"
    using connections.get_put [of d k "x \<lparr>cn_last_error_code := None, cn_last_error_message := None, cn_state := Conn_provisioning\<rparr>"]
      assms(2) mem(2) res(2) by simp
  ultimately show ?thesis using res(1) by (simp add: metaapi_command_def)
qed

lemma handler_keeps_ids:
  assumes "provisioning_handler env now e d = (r, d')"
  shows "map cn_id (db_connections d') = map cn_id (db_connections d)"
  using assms
proof (cases rule: handler_rows)
  case (2 c rows)
  have "map cn_id (db_connections (commit_all rows d)) = map cn_id (db_connections d)" for rows
    by (induction rows arbitrary: d) (simp_all add: commit_all_def connections.keys_put)
  then show ?thesis using 2 by simp
qed simp

text \<open>
  A retry of the user reaches no worker once the first attempt was settled: the command of a
  retry has the idempotency key of the first one, so within the seven days the worker remembers it,
  the retry is acknowledged without being handled, and the connection, whose error the request
  cleared, stays in the provisioning state.
\<close>

theorem retry_reaches_no_worker:
  assumes "distinct (map cn_id (db_connections (sw_world s)))" "get_connection (sw_world s) (Some k) = Some c"
    and e0: "e0 = metaapi_command rq0 c ''connection.provision''"
    and fresh: "\<not> is_processed s (dedupe_key (provisioning_worker env attempts n0) e0) t0"
    and first: "provisioning_handler env n0 e0 (sw_world s) = (Inr delivery_success, d1)"
    and retry: "post_connection_retry rq k d1 = Inr (es, d2)" and week: "t1 < t0 + 604800"
  shows "sw_world (deliver_and_process (provisioning_worker env attempts n0) t0 m0 (Inr e0) s) = d1
    \<and> (\<exists>e1 s2. es = [e1]
        \<and> s2 = deliver_and_process (provisioning_worker env2 attempts2 n1) t1 m1 (Inr e1)
            ((deliver_and_process (provisioning_worker env attempts n0) t0 m0 (Inr e0) s) \<lparr>sw_world := d2\<rparr>)
        \<and> sw_world s2 = d2 \<and> m1 \<in> set (sw_acked s2)
        \<and> (\<exists>c2. get_connection d2 (Some k) = Some c2 \<and> cn_state c2 = Conn_provisioning \<and> cn_last_error_code c2 = None))"
proof -
  define st where "st = provisioning_worker env attempts n0"
  define s1 where "s1 = deliver_and_process st t0 m0 (Inr e0) s"
  have run: "run_handler st e0 (sw_world s) = (delivery_success, d1)"
    using first by (simp add: run_handler_def st_def provisioning_worker_def normalize_delivery_result_def)
  have s1: "sw_world s1 = d1" "sw_dedupe s1 = (sw_dedupe s)(dedupe_key st e0 \<mapsto> t0 + 604800)"
    using fresh run unfolding s1_def deliver_and_process_def process_message_def
    by (simp_all add: Let_def st_def [symmetric] delivery_success_def ack_def)
  obtain c1 where c1: "get_connection d1 (Some k) = Some c1" "same_account c c1"
    using handler_keeps_account [OF first assms(2)] by blast
  have "distinct (map cn_id (db_connections d1))" using handler_keeps_ids [OF first] assms(1) by simp
  note es = retry_owned [OF retry c1(1) this]
  define e1 where "e1 = metaapi_command rq c1 ''connection.provision''"
  have "dedupe_key (provisioning_worker env2 attempts2 n1) e1 = dedupe_key st e0"
    using c1(2) by (simp add: dedupe_key_def e1_def e0 metaapi_command_def new_event_def st_def provisioning_worker_def same_account_def)
  then have dup: "is_processed (s1 \<lparr>sw_world := d2\<rparr>) (dedupe_key (provisioning_worker env2 attempts2 n1) e1) t1"
    using s1(2) week by (simp add: is_processed_def)
  define s2 where "s2 = deliver_and_process (provisioning_worker env2 attempts2 n1) t1 m1 (Inr e1) (s1 \<lparr>sw_world := d2\<rparr>)"
  have "sw_world s2 = d2 \<and> m1 \<in> set (sw_acked s2)"
    using dup by (simp add: s2_def deliver_and_process_def process_message_def ack_def)
  with es s1(1) show ?thesis unfolding s1_def st_def s2_def e1_def by auto
qed

section \<open>Examples\<close>

text \<open>A connection that was just submitted, and a provider that knows its account.\<close>

definition submitted_connection :: copy_trading_connection where
  "submitted_connection = \<lparr>cn_id = 4, cn_user_id = 5, cn_display_name = ''Main'', cn_broker_login = ''77'',
     cn_broker_server = ''Broker-Live'', cn_platform = ''mt5'', cn_encrypted_trader_password = Some ''x'',
     cn_provisioning_transaction_id = uuid_hex 100, cn_metaapi_account_id = None, cn_state = Conn_submitted,
     cn_last_error_code = None, cn_last_error_message = None, cn_symbol_catalog_fingerprint = None,
     cn_symbol_catalog_refreshed_at = None, cn_last_health_at = None, cn_is_paused = False\<rparr>"

definition sample_provider :: "int \<Rightarrow> provisioning_env" where
  "sample_provider status = \<lparr>pv_token = ''t'', pv_account_type = ''cloud'', pv_region = ''london'', pv_lock_free = \<lambda>_. True,
     pv_str = \<lambda>_. [], pv_post = \<lambda>_ _. Inr (status, [(''id'', PStr ''acc''), (''details'', PStr ''E_AUTH'')]),
     pv_get_account = \<lambda>_. Inr \<lparr>acc_state = ''DEPLOYED'', acc_deploy = Inr (), acc_wait_deployed = Inr (),
       acc_wait_connected = Inr (), acc_undeploy = Inr (), acc_remove = Inr ()\<rparr>,
     pv_decrypt = Inr, pv_close_account = \<lambda>_. Inr (),
     pv_acquire = \<lambda>_. Inr (Some [(''login'', PInt 77), (''server'', PStr ''broker-live''), (''tradeAllowed'', PBool True)])\<rparr>"

definition new_desk :: db where
  "new_desk = empty_db \<lparr>db_sources := [\<lparr>src_id = 2, src_user_id = 5, src_connection_id = 3, src_telegram_chat_id = 7,
     src_source_type = Src_channel, src_state = Source_ready, src_is_paused = False\<rparr>]\<rparr>"

definition sample_desk :: db where
  "sample_desk = new_desk \<lparr>db_connections := [submitted_connection]\<rparr>"

definition sample_request :: request where
  "sample_request = \<lparr>rq_user = 5, rq_now = 9, rq_rnd = (\<lambda>n. if n = 1 then 4 else of_nat n + 100), rq_billing_enforced = False, rq_subscription = None,
     rq_encrypt = (\<lambda>s. s)\<rparr>"

definition sample_command :: "string \<Rightarrow> copy_event" where
  "sample_command = metaapi_command sample_request submitted_connection"

definition ready_connection :: copy_trading_connection where
  "ready_connection = submitted_connection \<lparr>cn_metaapi_account_id := Some ''acc'', cn_state := Conn_ready, cn_last_health_at := Some 9\<rparr>"

definition ready_desk :: db where
  "ready_desk = sample_desk \<lparr>db_connections := [ready_connection]\<rparr>"


theorem provisioning_resumable_witness:
  "same_account submitted_connection (last (submitted_connection # [snd (snd (provision (sample_provider 201) ''x'' submitted_connection)) ! 0]))"
proof -
  have "prefix [snd (snd (provision (sample_provider 201) ''x'' submitted_connection)) ! 0]
      (snd (snd (provision (sample_provider 201) ''x'' submitted_connection)))"
    by code_simp
  then show ?thesis using provisioning_resumable [OF prod.collapse [symmetric]] by blast
qed

definition deleted_desk :: db where
  "deleted_desk = ready_desk \<lparr>db_connections := [ready_connection \<lparr>cn_metaapi_account_id := None, cn_state := Conn_deleted,
     cn_encrypted_trader_password := None\<rparr>]\<rparr>"

lemma command_type [simp]: "ev_event_type (sample_command x) = x"
  by (simp add: sample_command_def metaapi_command_def new_event_def)

lemma command_connection [simp]: "event_connection (sample_command x) = Inr 4"
  by (simp add: sample_command_def metaapi_command_def new_event_def event_connection_def str_item_def dict_item_def submitted_connection_def)

theorem deleted_account_stays_deleted_witness:
  "snd (provisioning_handler (sample_provider 201) 12 (sample_command ''connection.provision'') deleted_desk) = deleted_desk
   \<and> map cn_state (db_connections deleted_desk) = [Conn_deleted]"
proof -
  have "provisioning_handler (sample_provider 201) 9 (sample_command ''connection.delete'') ready_desk = (Inr delivery_success, deleted_desk)"
    by code_simp
  moreover have "get_connection ready_desk (Some 4) = Some ready_connection"
    by (simp add: get_connection_def row_get_def ready_desk_def ready_connection_def submitted_connection_def)
  ultimately have "snd (provisioning_handler (sample_provider 201) 12 (sample_command ''connection.provision'') deleted_desk) = deleted_desk"
    using deleted_account_stays_deleted [of "sample_provider 201" 9 "sample_command ''connection.delete''" ready_desk deleted_desk 4 ready_connection]
    by auto
  then show ?thesis by (simp add: deleted_desk_def)
qed

text \<open>The provider rejects the credentials with status 400; the user retries an hour later.\<close>

definition rejected_desk :: db where
  "rejected_desk = sample_desk \<lparr>db_connections := [submitted_connection \<lparr>cn_state := Conn_invalid_credentials,
     cn_last_error_code := Some ''invalid_credentials'',
     cn_last_error_message := Some ''The broker rejected the account login, server, or trader password.''\<rparr>]\<rparr>"

definition retried_desk :: db where
  "retried_desk = sample_desk \<lparr>db_connections := [submitted_connection \<lparr>cn_state := Conn_provisioning\<rparr>]\<rparr>"

theorem retry_reaches_no_worker_witness:
  "post_connection_retry sample_request 4 rejected_desk = Inr ([sample_command ''connection.provision''], retried_desk)
   \<and> sw_world (deliver_and_process (provisioning_worker (sample_provider 201) 5 20) 3600 ''2-0'' (Inr (sample_command ''connection.provision''))
       ((deliver_and_process (provisioning_worker (sample_provider 400) 5 9) 0 ''1-0'' (Inr (sample_command ''connection.provision''))
          (fresh_worker sample_desk)) \<lparr>sw_world := retried_desk\<rparr>)) = retried_desk"
proof -
  have first: "provisioning_handler (sample_provider 400) 9 (sample_command ''connection.provision'') sample_desk = (Inr delivery_success, rejected_desk)"
    by code_simp
  have retry: "post_connection_retry sample_request 4 rejected_desk = Inr ([sample_command ''connection.provision''], retried_desk)"
    by code_simp
  have "get_connection sample_desk (Some 4) = Some submitted_connection" "distinct (map cn_id (db_connections sample_desk))"
    by (simp_all add: get_connection_def row_get_def sample_desk_def submitted_connection_def)
  moreover have "\<not> is_processed (fresh_worker sample_desk) key 0" "sw_world (fresh_worker sample_desk) = sample_desk" for key
    by (simp_all add: is_processed_def fresh_worker_def)
  ultimately show ?thesis
    using first retry retry_reaches_no_worker [of "fresh_worker sample_desk" 4 submitted_connection "sample_command ''connection.provision''"
        sample_request "sample_provider 400" 5 9 0 rejected_desk sample_request "[sample_command ''connection.provision'']" retried_desk
        3600 "''1-0''" "sample_provider 201" 5 20 "''2-0''"]
    by (auto simp: sample_command_def)
qed

end
