(* ===== verification/Desk_Examples.thy ===== *)
theory Desk_Examples
  imports Desk_Properties Provisioning_Properties
begin

text \<open>
  The limit of accounts, pausing and resuming of routes with and without an outage, the symbol lists of a
  policy, and a run of the control plane that instantiates its properties.
\<close>

section \<open>The limit of accounts\<close>

lemma row_put_count:
  assumes "distinct (map key xs)" "x \<in> set xs" "key x = key r" "\<not> P x" "P r"
  shows "length (filter P (row_put key r xs)) = Suc (length (filter P xs))"
  using assms
proof (induction xs)
  case (Cons y ys)
  have "\<forall>z \<in> set ys. key z \<noteq> key y" using Cons.prems(1) by (metis distinct.simps(2) image_eqI list.set_map list.simps(9))
  then have "row_put key r ys = ys" if "key y = key r"
    using that unfolding row_put_def by (intro map_idI) auto
  then show ?case using Cons by (cases "key y = key r") (auto simp: row_put_def)
qed simp

lemma capacity_granted:
  assumes "require_copy_account_capacity (current_entitlement sub t) n t = Inr ()"
  shows "\<exists>s. sub = Some s \<and> fst (effective_values s t) = Plan_copy \<and> n < snd (effective_values s t)"
  using assms by (cases sub) (auto simp: require_copy_account_capacity_def current_entitlement_def has_copy_access_def
      effective_subscription_def split: if_splits prod.splits)

lemma created_connection_counts:
  assumes "create_copy_connection rq p d = Inr (c, d')" "desk_ok d"
  shows "length (live_connections d' (rq_user rq)) = Suc (length (live_connections d (rq_user rq)))"
proof (cases "\<exists>x. get_copy_connection_by_identity d (rq_user rq) (cc_broker_login p) (py_strip (cc_broker_server p)) = Inr (Some x)")
  case True
  then obtain x where x: "get_copy_connection_by_identity d (rq_user rq) (cc_broker_login p) (py_strip (cc_broker_server p)) = Inr (Some x)" ..
  then have mem: "x \<in> set (db_connections d)" unfolding get_copy_connection_by_identity_def by (auto dest!: scalar_one_filter)
  have h: "d' = put_connection c d" "cn_id x = cn_id c" "cn_user_id c = rq_user rq" "cn_state x = Conn_deleted" "cn_state c = Conn_submitted"
    using assms(1) x unfolding create_copy_connection_def Let_def http_raise_def integrity_error_def get_copy_connection_by_identity_def
    by (auto dest!: scalar_one_filter split: sum.splits if_splits)
  have "distinct (map cn_id (db_connections d))" using assms(2) by (simp add: desk_ok_def accounts_ok_def)
  from row_put_count [OF this mem h(2), of "\<lambda>c. cn_state c \<notin> {Conn_deleting, Conn_deleted} \<and> cn_user_id c = rq_user rq"] h
  show ?thesis by (simp add: live_connections_def list_copy_connections_for_user_def filter_filter conj_commute put_connection_def)
next
  case False
  then have "d' = d \<lparr>db_connections := db_connections d @ [c]\<rparr>" "cn_user_id c = rq_user rq" "cn_state c = Conn_submitted"
    using assms(1) unfolding create_copy_connection_def Let_def http_raise_def by (auto split: sum.splits option.splits if_splits)
  then show ?thesis by (simp add: live_connections_def list_copy_connections_for_user_def)
qed

text \<open>
  With billing enforced, an account is connected only under a copy plan with room for it: the
  number of accounts of the user that are not deleted grows by one, an account connected again after its
  deletion included, and stays within the limit the subscription grants at that moment.
\<close>

theorem account_limit_respected:
  assumes "post_connection rq p d = Inr (es, d')" "desk_ok d" "rq_billing_enforced rq"
  shows "\<exists>s. rq_subscription rq = Some s \<and> fst (effective_values s (rq_now rq)) = Plan_copy
    \<and> length (live_connections d' (rq_user rq)) = Suc (length (live_connections d (rq_user rq)))
    \<and> int (length (live_connections d' (rq_user rq))) \<le> snd (effective_values s (rq_now rq))"
proof -
  obtain c where c: "create_copy_connection rq p d = Inr (c, d')"
    using assms(1) unfolding post_connection_def http_raise_def by (auto split: sum.splits if_splits)
  then have "require_copy_account_capacity (current_entitlement (rq_subscription rq) (rq_now rq))
      (int (length (live_connections d (rq_user rq)))) (rq_now rq) = Inr ()"
    using assms(3) unfolding create_copy_connection_def Let_def lift_http_def http_raise_def
    by (auto split: sum.splits if_splits)
  then obtain s where "rq_subscription rq = Some s" "fst (effective_values s (rq_now rq)) = Plan_copy"
    "int (length (live_connections d (rq_user rq))) < snd (effective_values s (rq_now rq))"
    using capacity_granted by blast
  then show ?thesis using created_connection_counts [OF c assms(2)] by auto
qed

section \<open>Pausing and resuming\<close>

lemma filter_by_key:
  "distinct (map f xs) \<Longrightarrow> r \<in> set xs \<Longrightarrow> P r \<Longrightarrow> filter (\<lambda>x. f x = f r \<and> P x) xs = [r]"
proof (induction xs)
  case (Cons x xs)
  have "\<forall>z \<in> set xs. f z \<noteq> f x" using Cons.prems(1) by (metis distinct.simps(2) image_eqI list.set_map list.simps(9))
  then have "filter (\<lambda>y. f y = f x \<and> P y) xs = []" by (auto simp: filter_empty_conv)
  moreover have "f x \<noteq> f r" if "r \<in> set xs" using Cons.prems(1) that by auto
  ultimately show ?case using Cons by auto
qed simp

lemma owned_route_eq:
  assumes "desk_ok d" "r \<in> set (db_routes d)" "rt_user_id r = u"
  shows "owned_route d u (rt_id r) = Inr r"
  using filter_by_key [of rt_id "db_routes d" r "\<lambda>x. rt_user_id x = u"] assms
  by (simp add: desk_ok_def routes_ok_def owned_route_def get_route_for_user_def scalar_one_or_none_def)

lemma account_policy_total:
  assumes "desk_ok d"
  obtains q where "get_account_policy d k u = Inr q" "\<And>p. q = Some p \<Longrightarrow> p \<in> set (db_policies d) \<and> policy_key p = (u, k)"
proof (cases "\<exists>p \<in> set (db_policies d). policy_key p = (u, k)")
  case True
  then obtain p where p: "p \<in> set (db_policies d)" "policy_key p = (u, k)" by blast
  then have "filter (\<lambda>x. policy_key x = policy_key p \<and> True) (db_policies d) = [p]"
    using assms by (intro filter_by_key) (simp_all add: desk_ok_def policies_ok_def)
  then have "get_account_policy d k u = Inr (Some p)"
    unfolding p(2) by (simp add: get_account_policy_def policy_key_def conj_commute scalar_one_or_none_def)
  with p that show thesis by blast
next
  case False
  then have "filter (\<lambda>p. cap_connection_id p = k \<and> cap_user_id p = u) (db_policies d) = []"
    by (auto simp: filter_empty_conv policy_key_def)
  then have "get_account_policy d k u = Inr None" by (simp add: get_account_policy_def scalar_one_or_none_def)
  with that show thesis by blast
qed

text \<open>No switch stops the route: neither the user's nor the one of its account.\<close>

definition controls_on :: "db \<Rightarrow> uuid \<Rightarrow> uuid option \<Rightarrow> bool" where
  "controls_on d u k \<longleftrightarrow> (case get_settings d u of None \<Rightarrow> True | Some s \<Rightarrow> \<not> us_is_paused s)
     \<and> list_all (\<lambda>p. policy_key p = (u, k) \<longrightarrow> \<not> cap_is_paused p) (db_policies d)"

definition resumed_row :: "copy_route \<Rightarrow> copy_route" where
  "resumed_row r = r \<lparr>rt_state := (case rt_paused_from_state r of None \<Rightarrow> Route_ready | Some st \<Rightarrow> st), rt_paused_from_state := None\<rparr>"

lemma pause_active:
  assumes "desk_ok d" "r \<in> set (db_routes d)" "rt_user_id r = rq_user rq" "rt_state r \<noteq> Route_paused"
  obtains d1 where "pause_route rq (rt_id r) d = Inr (pause_row r, d1)" "db_routes d1 = row_put rt_id (pause_row r) (db_routes d)"
    "desk_ok d1" "db_settings d1 = db_settings d" "db_policies d1 = db_policies d"
proof -
  define d1 where "d1 = record_route_activity rq 0 (pause_row r) ''route.paused'' ''Copying paused'' Level_warning (put_route (pause_row r) d)"
  have "pause_route rq (rt_id r) d = Inr (pause_row r, d1)"
    using owned_route_eq [OF assms(1-3)] assms(4) by (simp add: pause_route_def d1_def Let_def)
  moreover have "desk_ok d1" using put_route_state_desk [OF assms(1,2) route_core_pause] by (simp add: d1_def)
  ultimately show thesis by (intro that [of d1]) (simp_all add: d1_def put_route_def record_route_activity_def record_activity_def)
qed

lemma resume_paused:
  assumes "desk_ok d" "r \<in> set (db_routes d)" "rt_user_id r = rq_user rq" "rt_state r = Route_paused"
    "controls_on d (rq_user rq) (rt_target_connection_id r)"
  obtains d1 where "resume_route rq (rt_id r) d = Inr (resumed_row r, d1)" "db_routes d1 = row_put rt_id (resumed_row r) (db_routes d)"
proof -
  obtain s d0 where s: "get_or_create_user_settings (rq_user rq) d = (s, d0)" by force
  have d0: "desk_ok d0" "db_routes d0 = db_routes d" using settings_desk [OF s] assms(1) by simp_all
  have pol: "db_policies d0 = db_policies d" using s unfolding get_or_create_user_settings_def Let_def by (auto split: option.splits)
  have on: "\<not> us_is_paused s"
    using s assms(5) unfolding get_or_create_user_settings_def Let_def controls_on_def by (auto split: option.splits)
  obtain q where q: "get_account_policy d0 (rt_target_connection_id r) (rq_user rq) = Inr q"
    "\<And>p. q = Some p \<Longrightarrow> p \<in> set (db_policies d) \<and> policy_key p = (rq_user rq, rt_target_connection_id r)"
    using account_policy_total [OF d0(1)] pol by metis
  then have "\<not> (case q of None \<Rightarrow> False | Some p \<Rightarrow> cap_is_paused p)"
    using assms(5) by (auto simp: controls_on_def list_all_iff split: option.splits)
  then have "resume_route rq (rt_id r) d = Inr (resumed_row r,
      record_route_activity rq 0 (resumed_row r) ''route.resumed'' ''Copying resumed'' Level_success (put_route (resumed_row r) d0))"
    using owned_route_eq [OF assms(1-3)] assms(4) s q(1) on by (simp add: resume_route_def Let_def resumed_row_def)
  then show thesis by (rule that) (simp add: put_route_def record_route_activity_def record_activity_def d0(2))
qed

lemma row_put_again: "key r = key r' \<Longrightarrow> row_put key r (row_put key r' xs) = row_put key r xs"
  by (auto simp: row_put_def)

lemma row_put_same: "distinct (map key xs) \<Longrightarrow> r \<in> set xs \<Longrightarrow> row_put key r xs = xs"
  unfolding row_put_def by (rule map_idI) (metis distinct_map inj_onD)

lemma row_put_in: "x \<in> set xs \<Longrightarrow> key x = key r \<Longrightarrow> r \<in> set (row_put key r xs)"
  by (force simp: row_put_def)

lemma pause_row_id [simp]: "rt_id (pause_row r) = rt_id r" "rt_user_id (pause_row r) = rt_user_id r"
  "rt_target_connection_id (pause_row r) = rt_target_connection_id r" "rt_state (pause_row r) = Route_paused"
  by (simp_all add: pause_row_def)

lemma restored_row:
  "x \<in> set (db_routes d) \<Longrightarrow> rt_target_connection_id x = Some k \<Longrightarrow> rt_state x = Route_target_unavailable \<Longrightarrow>
     resumed_row x \<in> set (db_routes (restore_routes_after_target_recovery k d))"
  by (force simp: restore_routes_after_target_recovery_def resumed_row_def)

text \<open>
  Pausing a route and resuming it brings it back: unless a switch of the user or of the account
  stops the route, both requests succeed, the route is paused in between, and afterwards the table of
  routes is what it was.
\<close>

theorem pause_resume_roundtrip:
  assumes "desk_ok d" "r \<in> set (db_routes d)" "rt_user_id r = rq_user rq" "rt_state r \<noteq> Route_paused" "rt_paused_from_state r = None"
    "rq_user rq2 = rq_user rq" "controls_on d (rq_user rq) (rt_target_connection_id r)"
  shows "\<exists>r1 d1 d2. pause_route rq (rt_id r) d = Inr (r1, d1) \<and> rt_state r1 = Route_paused
    \<and> resume_route rq2 (rt_id r) d1 = Inr (r, d2) \<and> db_routes d2 = db_routes d"
proof -
  obtain d1 where d1: "pause_route rq (rt_id r) d = Inr (pause_row r, d1)" "db_routes d1 = row_put rt_id (pause_row r) (db_routes d)"
    "desk_ok d1" "db_settings d1 = db_settings d" "db_policies d1 = db_policies d"
    using pause_active assms(1-4) by blast
  have mem: "pause_row r \<in> set (db_routes d1)" using d1(2) row_put_in [OF assms(2), of rt_id] by simp
  have again: "resumed_row (pause_row r) = r" using assms(4,5) by (simp add: resumed_row_def pause_row_def)
  have "controls_on d1 (rq_user rq2) (rt_target_connection_id (pause_row r))"
    using assms(6,7) d1(4,5) by (simp add: controls_on_def get_settings_def)
  then obtain d2 where d2: "resume_route rq2 (rt_id (pause_row r)) d1 = Inr (r, d2)" "db_routes d2 = row_put rt_id r (db_routes d1)"
    using resume_paused [OF d1(3) mem, of rq2] assms(3,6) again by auto
  have "distinct (map rt_id (db_routes d))" using assms(1) by (simp add: desk_ok_def routes_ok_def)
  then have "db_routes d2 = db_routes d" using d1(2) d2(2) row_put_again row_put_same assms(2) by (metis pause_row_id(1))
  with d1(1) d2(1) assms(4) show ?thesis by (auto simp: pause_row_def)
qed

text \<open>
  A pause during an outage loses the activation of a route: an active route whose account is lost
  is restored as active when the account recovers, but if its user pauses it during the outage and resumes
  it after the recovery, it stays \<open>target_unavailable\<close> on a working account, and the next recovery only
  makes it ready, so that nothing is copied until it is activated again.
\<close>

theorem outage_pause_loses_activation:
  assumes "desk_ok d" "r \<in> set (db_routes d)" "rt_user_id r = rq_user rq" "rt_state r = Route_active" "rt_target_connection_id r = Some k"
    "rq_user rq2 = rq_user rq" "controls_on d (rq_user rq) (Some k)"
  shows "(\<exists>x \<in> set (db_routes (restore_routes_after_target_recovery k (mark_routes_target_unavailable k d))). rt_id x = rt_id r \<and> rt_state x = Route_active)
    \<and> (\<exists>r1 d1 r2 d2. pause_route rq (rt_id r) (mark_routes_target_unavailable k d) = Inr (r1, d1)
        \<and> resume_route rq2 (rt_id r) (restore_routes_after_target_recovery k d1) = Inr (r2, d2) \<and> rt_state r2 = Route_target_unavailable
        \<and> (\<exists>x \<in> set (db_routes (restore_routes_after_target_recovery k d2)). rt_id x = rt_id r \<and> rt_state x = Route_ready))"
proof -
  define lost where "lost = r \<lparr>rt_paused_from_state := Some Route_active, rt_state := Route_target_unavailable\<rparr>"
  define dm where "dm = mark_routes_target_unavailable k d"
  have lost: "lost \<in> set (db_routes dm)" using assms(2,4,5) by (force simp: lost_def dm_def mark_routes_target_unavailable_def)
  have dm: "desk_ok dm" "controls_on dm u t = controls_on d u t" for u t
    using route_states_desk [OF assms(1)] by (simp_all add: dm_def mark_routes_target_unavailable_def route_core_def controls_on_def get_settings_def)
  have r1: "rt_id lost = rt_id r" "rt_user_id lost = rq_user rq" "rt_state lost \<noteq> Route_paused" using assms(3) by (simp_all add: lost_def)
  obtain d1 where d1: "pause_route rq (rt_id r) dm = Inr (pause_row lost, d1)" "db_routes d1 = row_put rt_id (pause_row lost) (db_routes dm)"
    "desk_ok d1" "db_settings d1 = db_settings dm" "db_policies d1 = db_policies dm"
    using pause_active [OF dm(1) lost r1(2,3)] r1(1) by metis
  define dr where "dr = restore_routes_after_target_recovery k d1"
  have p: "rt_state (pause_row lost) = Route_paused" "rt_target_connection_id (pause_row lost) = Some k"
    using assms(5) by (simp_all add: pause_row_def lost_def)
  have "pause_row lost \<in> set (db_routes d1)" using d1(2) row_put_in [OF lost, of rt_id] by simp
  then have mem: "pause_row lost \<in> set (db_routes dr)" using p by (force simp: dr_def restore_routes_after_target_recovery_def)
  have dr: "desk_ok dr" "controls_on dr (rq_user rq2) (Some k)"
    using route_states_desk [OF d1(3)] d1(4,5) assms(6,7) dm(2)
    by (simp_all add: dr_def restore_routes_after_target_recovery_def route_core_def controls_on_def get_settings_def)
  obtain d2 where d2: "resume_route rq2 (rt_id r) dr = Inr (resumed_row (pause_row lost), d2)"
    "db_routes d2 = row_put rt_id (resumed_row (pause_row lost)) (db_routes dr)"
    using resume_paused [OF dr(1) mem, of rq2] p dr(2) r1(1,2) assms(6) by auto
  have again: "rt_state (resumed_row (pause_row lost)) = Route_target_unavailable" "rt_id (resumed_row (pause_row lost)) = rt_id r"
    "rt_paused_from_state (resumed_row (pause_row lost)) = None" "rt_target_connection_id (resumed_row (pause_row lost)) = Some k"
    using assms(5) by (simp_all add: resumed_row_def pause_row_def lost_def)
  have "resumed_row (pause_row lost) \<in> set (db_routes d2)" using row_put_in [OF mem, of rt_id] d2(2) by (simp add: resumed_row_def)
  from restored_row [OF this again(4,1)]
  have "\<exists>x \<in> set (db_routes (restore_routes_after_target_recovery k d2)). rt_id x = rt_id r \<and> rt_state x = Route_ready"
    using again by (intro bexI [of _ "resumed_row (resumed_row (pause_row lost))"]) (simp_all add: resumed_row_def)
  moreover have "\<exists>x \<in> set (db_routes (restore_routes_after_target_recovery k dm)). rt_id x = rt_id r \<and> rt_state x = Route_active"
    using restored_row [OF lost, of k] assms(5) by (intro bexI [of _ "resumed_row lost"]) (simp_all add: resumed_row_def lost_def)
  ultimately show ?thesis using d1(1) d2(1) again(1) unfolding dm_def [symmetric] dr_def by blast
qed

section \<open>Symbol lists of a policy\<close>

lemma normalize_symbols_set: "set (normalize_symbols xs) = {py_upper (py_strip s) |s. s \<in> set xs \<and> py_strip s \<noteq> []}"
  by (auto simp: normalize_symbols_def)

lemma normalize_symbols_sorted: "sorted (normalize_symbols xs) \<and> distinct (normalize_symbols xs) \<and> [] \<notin> set (normalize_symbols xs)"
  by (auto simp: normalize_symbols_def) (metis py_upper_Nil_iff)

text \<open>
  An accepted update of a policy stores symbol lists in their normal form: sorted, without
  repetition and without empty symbols, the symbols being those that were sent, stripped and in upper
  case. Symbols both allowed and blocked are refused when both lists are sent; a list that was not sent
  is kept, so that two updates in a row can leave one symbol on both lists.
\<close>

theorem policy_symbols_correct:
  assumes "update_account_policy rq k payload d = Inr (p, d')" "pu_allowed_symbols payload = Some (Some xs)"
  shows "sorted (cap_allowed_symbols p) \<and> distinct (cap_allowed_symbols p)
    \<and> set (cap_allowed_symbols p) = {py_upper (py_strip s) |s. s \<in> set xs \<and> py_strip s \<noteq> []}
    \<and> (pu_blocked_symbols payload \<noteq> None \<longrightarrow> set (cap_allowed_symbols p) \<inter> set (cap_blocked_symbols p) = {})
    \<and> (pu_blocked_symbols payload = None \<longrightarrow> (\<exists>p0 d1. get_or_create_account_policy (rq_rnd rq 0) (Some k) (rq_user rq) d = Inr (p0, d1)
         \<and> cap_blocked_symbols p = cap_blocked_symbols p0))"
proof -
  obtain u p0 d1 where u: "parse_policy_update payload = Inr u" "get_or_create_account_policy (rq_rnd rq 0) (Some k) (rq_user rq) d = Inr (p0, d1)"
    "p = apply_policy_update u p0"
    using assms(1) unfolding update_account_policy_def Let_def http_raise_def integrity_error_def
    by (auto split: sum.splits prod.splits if_splits)
  have lists: "pu_allowed_symbols u = Some (Some (normalize_symbols xs))"
    "pu_blocked_symbols u = map_option (map_option normalize_symbols) (pu_blocked_symbols payload)"
    and apart: "\<forall>s \<in> set (pick [] (pu_allowed_symbols u)). s \<notin> set (pick [] (pu_blocked_symbols u))"
    using u(1) assms(2) unfolding parse_policy_update_def http_raise_def Let_def
    by (auto simp: list_ex_iff split: if_splits)
  have allowed: "cap_allowed_symbols p = normalize_symbols xs" using lists(1) by (simp add: u(3) apply_policy_update_def pick_list_def)
  have "set (cap_allowed_symbols p) \<inter> set (cap_blocked_symbols p) = {}" if "pu_blocked_symbols payload \<noteq> None"
    using that apart lists allowed by (cases "pu_blocked_symbols u") (auto simp: u(3) apply_policy_update_def pick_list_def pick_def split: option.splits)
  moreover have "cap_blocked_symbols p = cap_blocked_symbols p0" if "pu_blocked_symbols payload = None"
    using that lists(2) by (simp add: u(3) apply_policy_update_def pick_list_def)
  ultimately show ?thesis using allowed normalize_symbols_set [of xs] normalize_symbols_sorted [of xs] u(2) by simp
qed

section \<open>A run\<close>

text \<open>
  A user connects an account under a plan for two, the worker provisions it, the user creates a route on
  it and activates it.
\<close>

definition account_form :: connection_create where
  "account_form = \<lparr>cc_display_name = ''Main'', cc_broker_login = ''77'', cc_broker_server = '' Broker-Live '',
     cc_trader_password = ''x'', cc_platform = ''mt5''\<rparr>"

definition paid_request :: request where
  "paid_request = sample_request \<lparr>rq_billing_enforced := True, rq_subscription := Some sample_subscription\<rparr>"

definition route_form :: route_create where
  "route_form = \<lparr>rc_source_id = 2, rc_target_connection_id = 4, rc_fixed_lot = 1 / 10, rc_take_profit_mode = TP_all,
     rc_lot_distribution = Split_total, rc_pending_orders_enabled = True, rc_minimum_fields = Direction_symbol_sl_tp,
     rc_assembly_window_seconds = None, rc_process_all_group_authors = False, rc_notify_success = True, rc_notify_failure = True,
     rc_semantic_duplicate_window_seconds = 30, rc_allow_sl_tp_updates = True, rc_allow_break_even = True,
     rc_allow_additional_tp = True, rc_allow_partial_close = True, rc_allow_full_close = True, rc_allow_pending_cancel = True,
     rc_unsafe_minimum_confirmed = False\<rparr>"

definition route_request :: request where
  "route_request = sample_request \<lparr>rq_rnd := (\<lambda>n. of_nat n + 200)\<rparr>"

definition new_route :: copy_route where
  "new_route = route_row route_request 201 route_form"

definition route_desk :: db where
  "route_desk = snd (projr (create_route route_request route_form ready_desk))"

lemma connect_account: "post_connection paid_request account_form new_desk = Inr ([metaapi_command paid_request submitted_connection ''connection.provision''], sample_desk)"
  by code_simp

lemma create_first_route: "create_route route_request route_form ready_desk = Inr (new_route, route_desk)"
proof -
  have "map_sum id fst (create_route route_request route_form ready_desk) = Inr new_route" by code_simp
  then show ?thesis unfolding route_desk_def by (cases "create_route route_request route_form ready_desk") auto
qed

lemma new_desk_empty: "empty_desk new_desk"
  by (simp add: empty_desk_def new_desk_def empty_db_def)

lemma ready_desk_reached: "desk_step\<^sup>*\<^sup>* new_desk ready_desk"
proof -
  have "provisioning_handler (sample_provider 201) 9 (sample_command ''connection.provision'') sample_desk = (Inr delivery_success, ready_desk)"
    by code_simp
  then have "desk_step sample_desk ready_desk" by (rule desk_step.provisioned)
  moreover have "desk_step new_desk sample_desk" using connect_account by (intro desk_step.user user_op.connect)
  ultimately show ?thesis by simp
qed

lemma route_desk_reached: "desk_step\<^sup>*\<^sup>* new_desk route_desk"
  using ready_desk_reached desk_step.user [OF user_op.create [OF create_first_route]] by simp

lemma route_desk_rows: "db_routes route_desk = [new_route]" "controls_on route_desk 5 (Some 4)"
  by code_simp+

theorem route_invariant_witness:
  "\<exists>p. p \<in> set (db_policies route_desk) \<and> rt_fixed_lot new_route \<le> cap_max_lot p \<and> 1 \<le> rt_magic_number new_route"
proof -
  have "new_route \<in> set (db_routes route_desk)" using route_desk_rows by simp
  from route_invariant [OF new_desk_empty route_desk_reached this] show ?thesis by blast
qed

theorem tenant_isolation_witness: "rows_of 6 route_desk = rows_of 6 ready_desk \<and> rows_of 5 route_desk \<noteq> rows_of 5 ready_desk"
proof -
  have "rq_user route_request = 5" by (simp add: route_request_def sample_request_def)
  then have "rows_of 6 route_desk = rows_of 6 ready_desk"
    using tenant_isolation [OF new_desk_empty ready_desk_reached user_op.create [OF create_first_route], of 6] by simp
  moreover have "rows_of 5 route_desk \<noteq> rows_of 5 ready_desk"
    using route_desk_rows(1) by (auto simp: rows_of_def ready_desk_def sample_desk_def new_desk_def empty_db_def new_route_def
        route_row_def route_request_def sample_request_def)
  ultimately show ?thesis by blast
qed

theorem account_limit_respected_witness:
  "\<exists>s. rq_subscription paid_request = Some s \<and> int (length (live_connections sample_desk 5)) \<le> snd (effective_values s 9)"
proof -
  have "desk_ok new_desk" using empty_desk_ok [OF new_desk_empty] .
  moreover have "rq_billing_enforced paid_request" "rq_user paid_request = 5" "rq_now paid_request = 9"
    by (simp_all add: paid_request_def sample_request_def)
  ultimately show ?thesis using account_limit_respected [OF connect_account] by metis
qed

theorem pause_resume_roundtrip_witness:
  "\<exists>r1 d1 d2. pause_route route_request 201 route_desk = Inr (r1, d1) \<and> resume_route route_request 201 d1 = Inr (new_route, d2)"
proof -
  have "desk_ok route_desk" using desk.reachable_inv [OF new_desk_empty route_desk_reached] .
  moreover have "new_route \<in> set (db_routes route_desk)" using route_desk_rows by simp
  moreover have "rt_user_id new_route = rq_user route_request" "rt_state new_route \<noteq> Route_paused" "rt_paused_from_state new_route = None"
    "rt_id new_route = 201" "rq_user route_request = 5" "rt_target_connection_id new_route = Some 4"
    by (simp_all add: new_route_def route_row_def route_request_def sample_request_def route_form_def)
  ultimately show ?thesis using pause_resume_roundtrip [of route_desk new_route route_request route_request] route_desk_rows(2) by auto
qed

definition active_desk :: db where
  "active_desk = snd (projr (activate_route route_request 201 route_desk))"

theorem outage_pause_loses_activation_witness:
  "\<exists>r1 d1 r2 d2. pause_route route_request 201 (mark_routes_target_unavailable 4 active_desk) = Inr (r1, d1)
     \<and> resume_route route_request 201 (restore_routes_after_target_recovery 4 d1) = Inr (r2, d2) \<and> rt_state r2 = Route_target_unavailable"
proof -
  have h: "map_sum id fst (activate_route route_request 201 route_desk) = Inr (new_route \<lparr>rt_state := Route_active\<rparr>)"
    "db_routes active_desk = [new_route \<lparr>rt_state := Route_active\<rparr>]" "controls_on active_desk 5 (Some 4)"
    by code_simp+
  then have "activate_route route_request 201 route_desk = Inr (new_route \<lparr>rt_state := Route_active\<rparr>, active_desk)"
    unfolding active_desk_def by (cases "activate_route route_request 201 route_desk") auto
  then have "desk_step route_desk active_desk" by (intro desk_step.user user_op.activate)
  then have "desk_ok active_desk" using desk.reachable_inv [OF new_desk_empty] rtranclp.rtrancl_into_rtrancl [OF route_desk_reached] by blast
  moreover have "rt_user_id (new_route \<lparr>rt_state := Route_active\<rparr>) = rq_user route_request" "rq_user route_request = 5"
    "rt_id (new_route \<lparr>rt_state := Route_active\<rparr>) = 201" "rt_target_connection_id (new_route \<lparr>rt_state := Route_active\<rparr>) = Some 4"
    by (simp_all add: new_route_def route_row_def route_request_def sample_request_def route_form_def)
  ultimately show ?thesis
    using outage_pause_loses_activation [of active_desk "new_route \<lparr>rt_state := Route_active\<rparr>" route_request 4 route_request] h(2,3) by auto
qed

definition symbols_form :: policy_update where
  "symbols_form = \<lparr>pu_max_lot = None, pu_max_lot_per_trade = None, pu_max_open_positions = None, pu_daily_loss_limit = None,
     pu_max_drawdown_percent = None, pu_allowed_symbols = Some (Some ['' xau'', ''EUR'', ''XAU '', '' '']), pu_blocked_symbols = None,
     pu_market_signal_max_age_seconds = None, pu_max_spread_points = None, pu_max_slippage_points = None,
     pu_max_quote_age_seconds = None, pu_high_spread_behavior = None, pu_trading_start_hour_utc = None,
     pu_trading_end_hour_utc = None, pu_is_paused = None\<rparr>"

theorem policy_symbols_correct_witness:
  "\<exists>p d'. update_account_policy route_request 4 symbols_form route_desk = Inr (p, d') \<and> sorted (cap_allowed_symbols p)
     \<and> cap_allowed_symbols p = [''EUR'', ''XAU'']"
proof -
  have h: "map_sum id (\<lambda>x. cap_allowed_symbols (fst x)) (update_account_policy route_request 4 symbols_form route_desk) = Inr [''EUR'', ''XAU'']"
    by code_simp
  then obtain p d' where u: "update_account_policy route_request 4 symbols_form route_desk = Inr (p, d')" "cap_allowed_symbols p = [''EUR'', ''XAU'']"
    by (cases "update_account_policy route_request 4 symbols_form route_desk") auto
  have "pu_allowed_symbols symbols_form = Some (Some ['' xau'', ''EUR'', ''XAU '', '' ''])" by (simp add: symbols_form_def)
  from policy_symbols_correct [OF u(1) this] u show ?thesis by blast
qed

end
