(* ===== verification/Auth.thy ===== *)
theory Auth
  imports Billing
begin

text \<open>
  Authentication: \<^verbatim>\<open>auth/models.py\<close>, \<^verbatim>\<open>auth/repository.py\<close>, \<^verbatim>\<open>auth/service.py\<close>, \<^verbatim>\<open>users/models.py\<close>,
  \<^verbatim>\<open>users/repository.py\<close>, \<^verbatim>\<open>core/security.py\<close>, \<^verbatim>\<open>shared/deps.py\<close>, the origin check of \<^verbatim>\<open>auth/router.py\<close>
  and the purge of \<^verbatim>\<open>tasks/auth_tasks.py\<close>. SHA-256, bcrypt, the signing of access tokens, Google's
  answer and the settings are the fields of \<open>auth_env\<close>; the clock, the drawn identifiers and whether the
  queue of mails answers are the fields of a request. An operation answers with a result, the committed
  database, the cookie it sets and the mails it queues; an exception leaves the last commit.
\<close>

section \<open>Data\<close>

datatype token_type = Tok_access | Tok_refresh | Tok_reset_password | Tok_verify_email

datatype auth_provider = Prov_email | Prov_google

datatype platform_role = Role_user | Role_admin | Role_technical_admin | Role_super_admin

record token =
  tk_id :: uuid
  tk_token :: string
  tk_type :: token_type
  tk_expires_at :: int
  tk_user_id :: "uuid option"
  tk_is_revoked :: bool
  tk_revoked_at :: "int option"
  tk_created_at :: int

record user =
  us_id :: uuid
  us_email :: string
  us_hashed_password :: string
  us_auth_provider :: auth_provider
  us_has_usable_password :: bool
  us_display_name :: "string option"
  us_bio :: "string option"
  us_avatar_url :: "string option"
  us_display_timezone :: "string option"
  us_is_email_verified :: bool
  us_platform_role :: platform_role
  us_is_suspended :: bool
  us_suspended_at :: "int option"
  us_suspension_reason :: "string option"
  us_onboarding_completed :: bool
  us_onboarding_completed_at :: "int option"
  us_trading_experience :: "string option"
  us_primary_goal :: "string option"
  us_referral_source :: "string option"
  us_is_deleted :: bool
  us_deleted_at :: "int option"
  us_last_active_at :: "int option"
  us_created_at :: int

record auth_db =
  adb_users :: "user list"
  adb_tokens :: "token list"
  adb_affiliates :: affiliate_db

datatype google_reply = Google_unreachable | Google_reply int dict

record auth_env =
  ae_hash_token :: "string \<Rightarrow> string"
  ae_hashpw :: "nat \<Rightarrow> string \<Rightarrow> string result"
  ae_checkpw :: "string \<Rightarrow> string \<Rightarrow> bool option"
  ae_dummy_hash :: string
  ae_jwt_encode :: "dict \<Rightarrow> string"
  ae_jwt_decode :: "int \<Rightarrow> string \<Rightarrow> dict option"
  ae_google :: "string \<Rightarrow> google_reply"
  ae_google_client_id :: string
  ae_access_minutes :: int
  ae_refresh_days :: int
  ae_reset_minutes :: int
  ae_verify_hours :: int
  ae_billing_enforced :: bool

text \<open>
  The demo account is seeded in the session of the sign-up, under a handler that swallows every
  exception. An exception of the database takes the transaction with it, and the next statement of the
  session raises.
\<close>

datatype seed_outcome = Seed_ok | Seed_raised | Seed_database_error

record auth_rq =
  aq_now :: int
  aq_token :: uuid
  aq_token_id :: uuid
  aq_refresh :: uuid
  aq_refresh_id :: uuid
  aq_user_id :: uuid
  aq_salt :: nat
  aq_password :: uuid
  aq_choice :: "nat \<Rightarrow> nat \<Rightarrow> nat"
  aq_seed :: seed_outcome
  aq_queue_answers :: bool

datatype mail = Verification_mail string string | Reset_mail string string

datatype cookie = Cookie_set string int | Cookie_cleared

record 'a auth_out =
  ao_result :: "'a result"
  ao_db :: auth_db
  ao_cookie :: "cookie option"
  ao_mail :: "mail list"

definition failed :: "exn \<Rightarrow> auth_db \<Rightarrow> 'a auth_out" where
  "failed e d = \<lparr>ao_result = Inl e, ao_db = d, ao_cookie = None, ao_mail = []\<rparr>"

definition http_failed :: "int \<Rightarrow> string \<Rightarrow> auth_db \<Rightarrow> 'a auth_out" where
  "http_failed status detail d = \<lparr>ao_result = http_raise status detail, ao_db = d, ao_cookie = None, ao_mail = []\<rparr>"

definition answered :: "'a \<Rightarrow> auth_db \<Rightarrow> 'a auth_out" where
  "answered x d = \<lparr>ao_result = Inr x, ao_db = d, ao_cookie = None, ao_mail = []\<rparr>"

section \<open>Security\<close>

definition verify_password :: "auth_env \<Rightarrow> string \<Rightarrow> string \<Rightarrow> bool" where
  "verify_password env plain hashed = (case ae_checkpw env plain hashed of None \<Rightarrow> False | Some b \<Rightarrow> b)"

definition minutes :: "int \<Rightarrow> int" where
  "minutes n = n * 60 * 10 ^ 6"

definition create_access_token :: "auth_env \<Rightarrow> int \<Rightarrow> string \<Rightarrow> string" where
  "create_access_token env now subject = ae_jwt_encode env
     [(''exp'', PTime (now + minutes (ae_access_minutes env))), (''sub'', PStr subject), (''typ'', PStr ''access'')]"

section \<open>Repositories\<close>

definition put_user :: "user \<Rightarrow> auth_db \<Rightarrow> auth_db" where
  "put_user u = adb_users_update (row_put us_id u)"

definition put_token :: "token \<Rightarrow> auth_db \<Rightarrow> auth_db" where
  "put_token t = adb_tokens_update (row_put tk_id t)"

definition get_by_id :: "auth_db \<Rightarrow> uuid \<Rightarrow> user option" where
  "get_by_id d k = find (\<lambda>u. us_id u = k \<and> \<not> us_is_deleted u) (adb_users d)"

definition get_by_email :: "auth_db \<Rightarrow> string \<Rightarrow> user option" where
  "get_by_email d email = find (\<lambda>u. us_email u = py_lower email \<and> \<not> us_is_deleted u) (adb_users d)"

text \<open>Identifiers and addresses are unique over all rows, deleted ones included.\<close>

definition add_user :: "user \<Rightarrow> auth_db \<Rightarrow> auth_db result" where
  "add_user u d = (if list_ex (\<lambda>x. us_id x = us_id u \<or> us_email x = us_email u) (adb_users d)
     then Inl (Exn ''IntegrityError'' ''users'') else Inr (d \<lparr>adb_users := adb_users d @ [u]\<rparr>))"

definition new_user :: "uuid \<Rightarrow> int \<Rightarrow> string \<Rightarrow> string \<Rightarrow> string option \<Rightarrow> auth_provider \<Rightarrow> bool \<Rightarrow> user" where
  "new_user k now email hashed name provider usable =
     \<lparr>us_id = k, us_email = py_lower email, us_hashed_password = hashed, us_auth_provider = provider,
      us_has_usable_password = usable, us_display_name = name, us_bio = None, us_avatar_url = None,
      us_display_timezone = None, us_is_email_verified = False, us_platform_role = Role_user, us_is_suspended = False,
      us_suspended_at = None, us_suspension_reason = None, us_onboarding_completed = False,
      us_onboarding_completed_at = None, us_trading_experience = None, us_primary_goal = None,
      us_referral_source = None, us_is_deleted = False, us_deleted_at = None, us_last_active_at = None,
      us_created_at = now\<rparr>"

definition create_token ::
  "uuid \<Rightarrow> int \<Rightarrow> uuid \<Rightarrow> string \<Rightarrow> token_type \<Rightarrow> int \<Rightarrow> auth_db \<Rightarrow> auth_db result" where
  "create_token k now u hashed type expires d =
     (if list_ex (\<lambda>t. tk_id t = k \<or> tk_token t = hashed) (adb_tokens d)
      then Inl (Exn ''IntegrityError'' ''tokens'')
      else Inr (d \<lparr>adb_tokens := adb_tokens d @ [\<lparr>tk_id = k, tk_token = hashed, tk_type = type, tk_expires_at = expires,
        tk_user_id = Some u, tk_is_revoked = False, tk_revoked_at = None, tk_created_at = now\<rparr>]\<rparr>))"

definition token_active :: "int \<Rightarrow> token_type \<Rightarrow> token \<Rightarrow> bool" where
  "token_active now type t \<longleftrightarrow> tk_type t = type \<and> \<not> tk_is_revoked t \<and> now < tk_expires_at t"

definition get_active :: "auth_db \<Rightarrow> int \<Rightarrow> string \<Rightarrow> token_type \<Rightarrow> token option" where
  "get_active d now hashed type = find (\<lambda>t. tk_token t = hashed \<and> token_active now type t) (adb_tokens d)"

definition revoked_row :: "int \<Rightarrow> token \<Rightarrow> token" where
  "revoked_row now t = t \<lparr>tk_is_revoked := True, tk_revoked_at := Some now\<rparr>"

definition revoke :: "int \<Rightarrow> token \<Rightarrow> auth_db \<Rightarrow> auth_db" where
  "revoke now t = put_token (revoked_row now t)"

definition revoke_all_by_user_and_type :: "int \<Rightarrow> uuid \<Rightarrow> token_type \<Rightarrow> auth_db \<Rightarrow> auth_db" where
  "revoke_all_by_user_and_type now u type = adb_tokens_update (map (\<lambda>t.
     if tk_user_id t = Some u \<and> tk_type t = type \<and> \<not> tk_is_revoked t then revoked_row now t else t))"

definition grace_seconds :: int where
  "grace_seconds = 30"

definition recently_revoked :: "int \<Rightarrow> token \<Rightarrow> bool" where
  "recently_revoked now t \<longleftrightarrow> tk_is_revoked t \<and>
     (case tk_revoked_at t of None \<Rightarrow> False | Some r \<Rightarrow> now - grace_seconds * 10 ^ 6 \<le> r)"

definition get_recently_revoked :: "auth_db \<Rightarrow> int \<Rightarrow> string \<Rightarrow> token_type \<Rightarrow> token option" where
  "get_recently_revoked d now hashed type =
     find (\<lambda>t. tk_token t = hashed \<and> tk_type t = type \<and> recently_revoked now t) (adb_tokens d)"

definition list_active_by_user_and_type :: "auth_db \<Rightarrow> int \<Rightarrow> uuid \<Rightarrow> token_type \<Rightarrow> token list" where
  "list_active_by_user_and_type d now u type = sorted_by_desc tk_created_at
     (filter (\<lambda>t. tk_user_id t = Some u \<and> token_active now type t) (adb_tokens d))"

definition get_active_by_id_for_user :: "auth_db \<Rightarrow> int \<Rightarrow> uuid \<Rightarrow> uuid \<Rightarrow> token_type \<Rightarrow> token option" where
  "get_active_by_id_for_user d now k u type =
     find (\<lambda>t. tk_id t = k \<and> tk_user_id t = Some u \<and> token_active now type t) (adb_tokens d)"

definition touch_last_active_at_if_stale :: "uuid \<Rightarrow> int \<Rightarrow> int \<Rightarrow> auth_db \<Rightarrow> bool \<times> auth_db" where
  "touch_last_active_at_if_stale k observed interval d = (
     let stale = (\<lambda>u. us_id u = k \<and> (case us_last_active_at u of None \<Rightarrow> True | Some t \<Rightarrow> t < observed - interval * 10 ^ 6)) in
     (list_ex stale (adb_users d),
      d \<lparr>adb_users := map (\<lambda>u. if stale u then u \<lparr>us_last_active_at := Some observed\<rparr> else u) (adb_users d)\<rparr>))"

definition purge_expired_tokens :: "int \<Rightarrow> auth_db \<Rightarrow> nat \<times> auth_db" where
  "purge_expired_tokens now d = (let old = (\<lambda>t. tk_expires_at t < now - minutes (30 * 24 * 60)) in
     (length (filter old (adb_tokens d)), d \<lparr>adb_tokens := filter (\<lambda>t. \<not> old t) (adb_tokens d)\<rparr>))"

section \<open>Requests\<close>

record user_response =
  ur_id :: uuid
  ur_email :: string
  ur_display_name :: "string option"
  ur_is_email_verified :: bool
  ur_platform_role :: platform_role
  ur_auth_provider :: auth_provider
  ur_has_usable_password :: bool
  ur_onboarding_completed :: bool

definition user_response_of :: "user \<Rightarrow> user_response" where
  "user_response_of u = \<lparr>ur_id = us_id u, ur_email = us_email u, ur_display_name = us_display_name u,
     ur_is_email_verified = us_is_email_verified u, ur_platform_role = us_platform_role u,
     ur_auth_provider = us_auth_provider u, ur_has_usable_password = us_has_usable_password u,
     ur_onboarding_completed = us_onboarding_completed u\<rparr>"

record register_request =
  rr_email :: string
  rr_display_name :: string
  rr_password :: string
  rr_referral_code :: "string option"
  rr_referral_source_detail :: "string option"
  rr_referral_campaign :: "string option"

definition strong_password :: "string \<Rightarrow> bool" where
  "strong_password s \<longleftrightarrow> 8 \<le> length s \<and> list_ex is_upper_letter s \<and> list_ex is_lower_letter s \<and> list_ex is_digit s"

record login_response =
  lr_access_token :: string
  lr_access_token_expiry_minutes :: int
  lr_user :: user_response

record refresh_response =
  fr_access_token :: string
  fr_access_token_expiry_minutes :: int

section \<open>Sign-up and sessions\<close>

definition pending_rollback :: exn where
  "pending_rollback = Exn ''PendingRollbackError'' ''transaction has been rolled back''"

text \<open>The affiliate profile and attribution of a new user, then the demo account.\<close>

definition welcome_user ::
  "auth_rq \<Rightarrow> user \<Rightarrow> string option \<Rightarrow> string option \<Rightarrow> string option \<Rightarrow> auth_db \<Rightarrow> auth_db result" where
  "welcome_user q u code source campaign d =
     (case attribute_new_user (aq_choice q) (us_id u) code source campaign (adb_affiliates d) of
        Inl e \<Rightarrow> Inl e
      | Inr (_, a) \<Rightarrow> (case aq_seed q of Seed_database_error \<Rightarrow> Inl pending_rollback
          | _ \<Rightarrow> Inr (d \<lparr>adb_affiliates := a\<rparr>)))"

definition register :: "auth_env \<Rightarrow> auth_rq \<Rightarrow> register_request \<Rightarrow> auth_db \<Rightarrow> user_response auth_out" where
  "register env q p d = (
     if get_by_email d (rr_email p) \<noteq> None then http_failed 409 ''An account with this email already exists.'' d
     else case ae_hashpw env (aq_salt q) (rr_password p) of Inl e \<Rightarrow> failed e d
     | Inr hashed \<Rightarrow>
       let u = new_user (aq_user_id q) (aq_now q) (rr_email p) hashed (Some (rr_display_name p)) Prov_email True;
           raw = str_uuid (aq_token q) in
       case add_user u d of Inl e \<Rightarrow> failed e d
       | Inr d1 \<Rightarrow> (case welcome_user q u (rr_referral_code p) (rr_referral_source_detail p) (rr_referral_campaign p) d1 of
           Inl e \<Rightarrow> failed e d
         | Inr d2 \<Rightarrow> (case create_token (aq_token_id q) (aq_now q) (us_id u) (ae_hash_token env raw) Tok_verify_email
             (aq_now q + minutes (60 * ae_verify_hours env)) d2 of
             Inl e \<Rightarrow> failed e d
           | Inr d3 \<Rightarrow> \<lparr>ao_result = Inr (user_response_of u), ao_db = d3, ao_cookie = None,
               ao_mail = (if aq_queue_answers q then [Verification_mail (us_email u) raw] else [])\<rparr>)))"

definition refresh_cookie :: "auth_env \<Rightarrow> string \<Rightarrow> cookie" where
  "refresh_cookie env raw = Cookie_set raw (60 * 60 * 24 * ae_refresh_days env)"

text \<open>Storing a new refresh token of a user; \<^verbatim>\<open>_rotate_refresh_cookie\<close> and the first half of \<^verbatim>\<open>_issue_session\<close>.\<close>

definition new_refresh_token :: "auth_env \<Rightarrow> auth_rq \<Rightarrow> uuid \<Rightarrow> auth_db \<Rightarrow> auth_db result" where
  "new_refresh_token env q u = create_token (aq_refresh_id q) (aq_now q) u
     (ae_hash_token env (str_uuid (aq_refresh q))) Tok_refresh (aq_now q + minutes (ae_refresh_days env * 24 * 60))"

definition issue_session :: "auth_env \<Rightarrow> auth_rq \<Rightarrow> user \<Rightarrow> auth_db \<Rightarrow> login_response auth_out" where
  "issue_session env q u d = (case new_refresh_token env q (us_id u) d of Inl e \<Rightarrow> failed e d
     | Inr d1 \<Rightarrow> \<lparr>ao_result = Inr \<lparr>lr_access_token = create_access_token env (aq_now q) (str_uuid (us_id u)),
           lr_access_token_expiry_minutes = ae_access_minutes env, lr_user = user_response_of u\<rparr>,
         ao_db = d1, ao_cookie = Some (refresh_cookie env (str_uuid (aq_refresh q))), ao_mail = []\<rparr>)"

definition verify_google_id_token :: "auth_env \<Rightarrow> string \<Rightarrow> dict result" where
  "verify_google_id_token env id_token = (
     if ae_google_client_id env = [] then http_raise 503 ''Google sign-in is not configured.''
     else case ae_google env id_token of
       Google_unreachable \<Rightarrow> http_raise 502 ''Could not reach Google to verify sign-in. Try again.''
     | Google_reply status claims \<Rightarrow>
       if status \<noteq> 200 then http_raise 401 ''Invalid Google sign-in token.''
       else if dict_get claims ''aud'' \<noteq> PStr (ae_google_client_id env) then http_raise 401 ''Invalid Google sign-in token.''
       else if dict_get claims ''email_verified'' \<notin> {PBool True, PInt 1, PStr ''true''} then
         http_raise 401 ''Your Google email is not verified.''
       else if \<not> truthy (dict_get claims ''email'') then http_raise 401 ''Google sign-in did not return an email.''
       else Inr claims)"

definition google_user :: "auth_rq \<Rightarrow> string \<Rightarrow> string \<Rightarrow> dict \<Rightarrow> user" where
  "google_user q email hashed claims = (
     let name = or_value (dict_get claims ''name'') (or_value (dict_get claims ''given_name'')
           (PStr (takeWhile (\<lambda>c. c \<noteq> CHR 0x40) email)));
         picture = dict_get claims ''picture'' in
     (new_user (aq_user_id q) (aq_now q) email hashed (str_val name) Prov_google False)
       \<lparr>us_avatar_url := (if truthy picture then str_val picture else None), us_is_email_verified := True\<rparr>)"

definition google_auth ::
  "auth_env \<Rightarrow> auth_rq \<Rightarrow> string \<Rightarrow> string option \<Rightarrow> string option \<Rightarrow> string option \<Rightarrow> auth_db \<Rightarrow> login_response auth_out" where
  "google_auth env q id_token code source campaign d = (
     case verify_google_id_token env id_token of Inl e \<Rightarrow> failed e d
     | Inr claims \<Rightarrow> (case dict_get claims ''email'' of PStr claimed \<Rightarrow>
         let email = py_lower claimed in
         (case get_by_email d email of
            None \<Rightarrow> (case ae_hashpw env (aq_salt q) (uuid_hex (aq_password q)) of Inl e \<Rightarrow> failed e d
              | Inr hashed \<Rightarrow> let u = google_user q email hashed claims in
                (case add_user u d of Inl e \<Rightarrow> failed e d
                 | Inr d1 \<Rightarrow> (case welcome_user q u code source campaign d1 of Inl e \<Rightarrow> failed e d
                     | Inr d2 \<Rightarrow> issue_session env q u d2)))
          | Some u \<Rightarrow>
            let u1 = (if us_is_email_verified u then u else u \<lparr>us_is_email_verified := True\<rparr>) in
            issue_session env q u1 (if us_is_email_verified u then d else put_user u1 d))
       | _ \<Rightarrow> failed (Exn ''AttributeError'' ''lower'') d))"

definition login :: "auth_env \<Rightarrow> auth_rq \<Rightarrow> string \<Rightarrow> string \<Rightarrow> auth_db \<Rightarrow> login_response auth_out" where
  "login env q email password d = (
     let user = get_by_email d email;
         password_ok = verify_password env password (case user of None \<Rightarrow> ae_dummy_hash env | Some u \<Rightarrow> us_hashed_password u) in
     case user of None \<Rightarrow> http_failed 401 ''Incorrect email or password.'' d
     | Some u \<Rightarrow>
       if \<not> password_ok then http_failed 401 ''Incorrect email or password.'' d
       else if \<not> us_is_email_verified u then http_failed 403 ''Please verify your email before logging in.'' d
       else if us_is_suspended u then http_failed 403 ''This account is suspended. Contact support for assistance.'' d
       else issue_session env q u d)"

section \<open>Verification of addresses\<close>

definition owner_of :: "auth_db \<Rightarrow> token \<Rightarrow> user option" where
  "owner_of d t = (case tk_user_id t of None \<Rightarrow> None | Some k \<Rightarrow> get_by_id d k)"

definition verify_email :: "auth_env \<Rightarrow> int \<Rightarrow> string \<Rightarrow> auth_db \<Rightarrow> string auth_out" where
  "verify_email env now raw d = (
     case find (\<lambda>t. tk_token t = ae_hash_token env raw \<and> tk_type t = Tok_verify_email) (adb_tokens d) of
       None \<Rightarrow> http_failed 400 ''Invalid or expired verification token.'' d
     | Some t \<Rightarrow> (case owner_of d t of None \<Rightarrow> http_failed 404 ''User not found.'' d
         | Some u \<Rightarrow>
           if us_is_email_verified u then answered ''Email is already verified.'' d
           else if tk_is_revoked t \<or> tk_expires_at t \<le> now then http_failed 400 ''Invalid or expired verification token.'' d
           else answered ''Email verified successfully.'' (revoke now t (put_user (u \<lparr>us_is_email_verified := True\<rparr>) d))))"

definition resend_message :: string where
  "resend_message = ''If that email is registered and unverified, a new link has been sent.''"

definition resend_verification :: "auth_env \<Rightarrow> auth_rq \<Rightarrow> string \<Rightarrow> auth_db \<Rightarrow> string auth_out" where
  "resend_verification env q email d = (case get_by_email d email of None \<Rightarrow> answered resend_message d
     | Some u \<Rightarrow>
       if us_is_email_verified u then answered resend_message d
       else
         let d1 = revoke_all_by_user_and_type (aq_now q) (us_id u) Tok_verify_email d; raw = str_uuid (aq_token q) in
         case create_token (aq_token_id q) (aq_now q) (us_id u) (ae_hash_token env raw) Tok_verify_email
             (aq_now q + minutes (60 * ae_verify_hours env)) d1 of
           Inl e \<Rightarrow> failed e d
         | Inr d2 \<Rightarrow> \<lparr>ao_result = Inr resend_message, ao_db = d2, ao_cookie = None,
             ao_mail = (if aq_queue_answers q then [Verification_mail (us_email u) raw] else [])\<rparr>)"

section \<open>Rotation, logout and password reset\<close>

text \<open>A new refresh token and access token for the owner, and the commit.\<close>

definition refreshed :: "auth_env \<Rightarrow> auth_rq \<Rightarrow> user \<Rightarrow> auth_db \<Rightarrow> auth_db \<Rightarrow> refresh_response auth_out" where
  "refreshed env q u before d = (case new_refresh_token env q (us_id u) d of Inl e \<Rightarrow> failed e before
     | Inr d1 \<Rightarrow> \<lparr>ao_result = Inr \<lparr>fr_access_token = create_access_token env (aq_now q) (str_uuid (us_id u)),
           fr_access_token_expiry_minutes = ae_access_minutes env\<rparr>,
         ao_db = d1, ao_cookie = Some (refresh_cookie env (str_uuid (aq_refresh q))), ao_mail = []\<rparr>)"

definition refresh_access_token :: "auth_env \<Rightarrow> auth_rq \<Rightarrow> string option \<Rightarrow> auth_db \<Rightarrow> refresh_response auth_out" where
  "refresh_access_token env q raw d = (
     if raw \<in> {None, Some []} then http_failed 401 ''Refresh token missing.'' d
     else let hashed = ae_hash_token env (the raw) in
     case get_active d (aq_now q) hashed Tok_refresh of
       None \<Rightarrow> (case get_recently_revoked d (aq_now q) hashed Tok_refresh of
           None \<Rightarrow> http_failed 401 ''Invalid or expired refresh token.'' d
         | Some t \<Rightarrow> (case owner_of d t of None \<Rightarrow> http_failed 401 ''User not found.'' d
             | Some u \<Rightarrow> refreshed env q u d d))
     | Some t \<Rightarrow> (case owner_of d t of None \<Rightarrow> http_failed 401 ''User not found.'' d
         | Some u \<Rightarrow> refreshed env q u d (revoke (aq_now q) t d)))"

definition logout :: "auth_env \<Rightarrow> int \<Rightarrow> string option \<Rightarrow> auth_db \<Rightarrow> string auth_out" where
  "logout env now raw d = (
     let found = (if raw \<in> {None, Some []} then None else get_active d now (ae_hash_token env (the raw)) Tok_refresh) in
     (answered ''Logged out successfully.'' (case found of None \<Rightarrow> d | Some t \<Rightarrow> revoke now t d))
       \<lparr>ao_cookie := Some Cookie_cleared\<rparr>)"

definition forgot_message :: string where
  "forgot_message = ''If that email is registered, a password reset link has been sent.''"

definition forgot_password :: "auth_env \<Rightarrow> auth_rq \<Rightarrow> string \<Rightarrow> auth_db \<Rightarrow> string auth_out" where
  "forgot_password env q email d = (case get_by_email d email of None \<Rightarrow> answered forgot_message d
     | Some u \<Rightarrow>
       if \<not> us_is_email_verified u \<or> us_is_deleted u then answered forgot_message d
       else
         let d1 = revoke_all_by_user_and_type (aq_now q) (us_id u) Tok_reset_password d; raw = str_uuid (aq_token q) in
         case create_token (aq_token_id q) (aq_now q) (us_id u) (ae_hash_token env raw) Tok_reset_password
             (aq_now q + minutes (ae_reset_minutes env)) d1 of
           Inl e \<Rightarrow> failed e d
         | Inr d2 \<Rightarrow> \<lparr>ao_result = Inr forgot_message, ao_db = d2, ao_cookie = None,
             ao_mail = (if aq_queue_answers q then [Reset_mail (us_email u) raw] else [])\<rparr>)"

definition reset_password :: "auth_env \<Rightarrow> auth_rq \<Rightarrow> string \<Rightarrow> string \<Rightarrow> auth_db \<Rightarrow> string auth_out" where
  "reset_password env q raw password d = (
     case get_active d (aq_now q) (ae_hash_token env raw) Tok_reset_password of
       None \<Rightarrow> http_failed 400 ''Invalid or expired reset token.'' d
     | Some t \<Rightarrow> (case owner_of d t of None \<Rightarrow> http_failed 400 ''User not found.'' d
         | Some u \<Rightarrow> (case ae_hashpw env (aq_salt q) password of Inl e \<Rightarrow> failed e d
             | Inr hashed \<Rightarrow> answered ''Password reset successfully. Please log in.''
                 (revoke_all_by_user_and_type (aq_now q) (us_id u) Tok_refresh (revoke (aq_now q) t
                   (put_user (u \<lparr>us_hashed_password := hashed, us_has_usable_password := True\<rparr>) d))))))"

section \<open>The user of a request\<close>

definition bad_credentials :: "'a result" where
  "bad_credentials = http_raise 401 ''Could not validate credentials.''"

definition resolve_current_user :: "auth_env \<Rightarrow> int \<Rightarrow> string \<Rightarrow> auth_db \<Rightarrow> user result" where
  "resolve_current_user env now access d = (case ae_jwt_decode env now access of None \<Rightarrow> bad_credentials
     | Some payload \<Rightarrow>
       if dict_get payload ''typ'' \<noteq> PStr ''access'' \<or> \<not> truthy (dict_get payload ''sub'') then bad_credentials
       else case dict_get payload ''sub'' of PStr s \<Rightarrow> (case parse_uuid s of Inl e \<Rightarrow> Inl (Exn ''DataError'' s)
           | Inr k \<Rightarrow> (case get_by_id d k of None \<Rightarrow> bad_credentials
             | Some u \<Rightarrow> if us_is_deleted u \<or> us_is_suspended u \<or> \<not> us_is_email_verified u then bad_credentials else Inr u))
         | _ \<Rightarrow> Inl (Exn ''DataError'' ''sub''))"

definition is_billing_admin :: "user \<Rightarrow> bool" where
  "is_billing_admin u \<longleftrightarrow> us_platform_role u \<in> {Role_admin, Role_technical_admin, Role_super_admin}"

definition endswith :: "string \<Rightarrow> string \<Rightarrow> bool" where
  "endswith s p = suffix p s"

definition subscription_required :: "string \<Rightarrow> 'a result" where
  "subscription_required plan = http_raise 402 (''An active '' @ plan @ '' subscription is required.'')"

definition require_journal_access :: "auth_env \<Rightarrow> int \<Rightarrow> string \<Rightarrow> string \<Rightarrow> billing_db \<Rightarrow> user \<Rightarrow> user result" where
  "require_journal_access env now meth path b u = (
     if \<not> ae_billing_enforced env \<or> is_billing_admin u then Inr u
     else if meth \<in> {''OPTIONS'', ''DELETE''} \<or> endswith path ''/disconnect'' then Inr u
     else if \<not> rs_has_journal_access (subscription_response (get_subscription b (us_id u)) now) then subscription_required ''journal''
     else Inr u)"

definition require_copy_access :: "auth_env \<Rightarrow> int \<Rightarrow> string \<Rightarrow> string \<Rightarrow> billing_db \<Rightarrow> user \<Rightarrow> user result" where
  "require_copy_access env now meth path b u = (
     if \<not> ae_billing_enforced env \<or> is_billing_admin u then Inr u
     else if meth \<in> {''OPTIONS'', ''DELETE''} \<or> endswith path ''/pause'' \<or> endswith path ''/emergency'' then Inr u
     else if \<not> rs_has_copy_access (subscription_response (get_subscription b (us_id u)) now) then subscription_required ''copy''
     else Inr u)"

end
