(* ===== verification/Users.thy ===== *)
theory Users
  imports Auth
begin

text \<open>
  What a signed-in user changes of the own account, \<^verbatim>\<open>users/service.py\<close> with the validators of
  \<^verbatim>\<open>users/schemas.py\<close>, and what administrators do to accounts, the changing half of \<^verbatim>\<open>admin/service.py\<close>
  with \<^verbatim>\<open>admin/deps.py\<close>. Every operation takes the row of the user that \<open>resolve_current_user\<close> found.
  The audit trail keeps the actor, the target, the action and the reason.
\<close>

section \<open>Splitting at a separator\<close>

fun split_on :: "char \<Rightarrow> string \<Rightarrow> string list" where
  "split_on c [] = [[]]"
| "split_on c (x # s) = (if x = c then [] # split_on c s else case split_on c s of [] \<Rightarrow> [[x]] | p # ps \<Rightarrow> (x # p) # ps)"

text \<open>\<^verbatim>\<open>[item.strip() for item in raw.split(",") if item.strip()]\<close>.\<close>

definition comma_items :: "string \<Rightarrow> string list" where
  "comma_items raw = filter (\<lambda>s. s \<noteq> []) (map py_strip (split_on CHR '','' raw))"

section \<open>Profile\<close>

text \<open>A field of a patch is absent, or present with a value that may be null.\<close>

type_synonym 'a patch = "'a option option"

definition update_profile :: "user \<Rightarrow> string patch \<Rightarrow> string patch \<Rightarrow> auth_db \<Rightarrow> user auth_out" where
  "update_profile u display_name bio d = (
     let name = (case display_name of Some (Some s) \<Rightarrow> py_strip s | _ \<Rightarrow> []) in
     if display_name \<noteq> None \<and> name = [] then http_failed 400 ''Display name cannot be empty.'' d
     else
       let u1 = (if display_name = None then u else u \<lparr>us_display_name := Some name\<rparr>);
           u2 = (case bio of None \<Rightarrow> u1 | Some b \<Rightarrow> u1 \<lparr>us_bio := (if b \<in> {None, Some []} then None else map_option py_strip b)\<rparr>) in
       answered u2 (put_user u2 d))"

definition update_preferences :: "user \<Rightarrow> string patch \<Rightarrow> auth_db \<Rightarrow> user auth_out" where
  "update_preferences u timezone d = (
     let u1 = (case timezone of None \<Rightarrow> u | Some z \<Rightarrow> u \<lparr>us_display_timezone := z\<rparr>) in answered u1 (put_user u1 d))"

definition onboarding_experience :: "string list" where
  "onboarding_experience = [''under_1y'', ''1_3y'', ''3_5y'', ''5y_plus'', ''no_answer'']"

definition onboarding_goal :: "string list" where
  "onboarding_goal = [''journal'', ''analyze'', ''ai_coaching'', ''backtest'', ''funded'']"

definition onboarding_referral :: "string list" where
  "onboarding_referral = [''google'', ''x'', ''youtube'', ''friend'', ''community'', ''other'']"

definition valid_choice :: "string list \<Rightarrow> string \<Rightarrow> string option \<Rightarrow> string option result" where
  "valid_choice choices message v = (case v of None \<Rightarrow> Inr v
     | Some s \<Rightarrow> if s \<noteq> [] \<and> s \<notin> set choices then value_error message else Inr v)"

fun join_with :: "string \<Rightarrow> string list \<Rightarrow> string" where
  "join_with sep [] = []"
| "join_with sep [s] = s"
| "join_with sep (s # t # ss) = s @ sep @ join_with sep (t # ss)"

definition valid_goal :: "string option \<Rightarrow> string option result" where
  "valid_goal v = (if v \<in> {None, Some []} then Inr v
     else let tokens = comma_items (the v) in
       if tokens = [] \<or> list_ex (\<lambda>t. t \<notin> set onboarding_goal) tokens then value_error ''Invalid primary_goal.''
       else Inr (Some (join_with '','' tokens)))"

definition complete_onboarding ::
  "int \<Rightarrow> user \<Rightarrow> string option \<Rightarrow> string option \<Rightarrow> string option \<Rightarrow> auth_db \<Rightarrow> user auth_out" where
  "complete_onboarding now u experience goal referral d = (
     case valid_choice onboarding_experience ''Invalid trading_experience.'' experience of Inl e \<Rightarrow> failed e d
     | Inr x \<Rightarrow> (case valid_goal goal of Inl e \<Rightarrow> failed e d
       | Inr g \<Rightarrow> (case valid_choice onboarding_referral ''Invalid referral_source.'' referral of Inl e \<Rightarrow> failed e d
         | Inr r \<Rightarrow>
           let u1 = u \<lparr>us_trading_experience := x, us_primary_goal := g, us_referral_source := r,
                 us_onboarding_completed := True, us_onboarding_completed_at := Some now\<rparr> in
           answered u1 (put_user u1 d))))"

text \<open>The address of the uploaded image, or the error of the upload, is an argument.\<close>

definition update_avatar :: "string result \<Rightarrow> user \<Rightarrow> auth_db \<Rightarrow> user auth_out" where
  "update_avatar uploaded u d = (case uploaded of Inl e \<Rightarrow> failed e d
     | Inr url \<Rightarrow> let u1 = u \<lparr>us_avatar_url := Some url\<rparr> in answered u1 (put_user u1 d))"

section \<open>Credentials\<close>

definition change_password :: "auth_env \<Rightarrow> auth_rq \<Rightarrow> user \<Rightarrow> string \<Rightarrow> string \<Rightarrow> auth_db \<Rightarrow> unit auth_out" where
  "change_password env q u current new d = (
     if \<not> us_has_usable_password u then http_failed 400 ''Your account has no password yet. Set one instead.'' d
     else if \<not> verify_password env current (us_hashed_password u) then http_failed 400 ''Current password is incorrect.'' d
     else if verify_password env new (us_hashed_password u) then
       http_failed 400 ''New password must be different from the current one.'' d
     else case ae_hashpw env (aq_salt q) new of Inl e \<Rightarrow> failed e d
     | Inr hashed \<Rightarrow> answered () (revoke_all_by_user_and_type (aq_now q) (us_id u) Tok_refresh
         (put_user (u \<lparr>us_hashed_password := hashed\<rparr>) d)))"

definition set_password :: "auth_env \<Rightarrow> auth_rq \<Rightarrow> user \<Rightarrow> string \<Rightarrow> auth_db \<Rightarrow> unit auth_out" where
  "set_password env q u new d = (
     if us_has_usable_password u then http_failed 400 ''Your account already has a password. Change it instead.'' d
     else case ae_hashpw env (aq_salt q) new of Inl e \<Rightarrow> failed e d
     | Inr hashed \<Rightarrow> answered () (put_user (u \<lparr>us_hashed_password := hashed, us_has_usable_password := True\<rparr>) d))"

definition email_of_another :: "user \<Rightarrow> string \<Rightarrow> auth_db \<Rightarrow> bool" where
  "email_of_another u email d \<longleftrightarrow> list_ex (\<lambda>x. us_id x \<noteq> us_id u \<and> us_email x = email) (adb_users d)"

definition change_email :: "auth_env \<Rightarrow> auth_rq \<Rightarrow> user \<Rightarrow> string \<Rightarrow> string \<Rightarrow> auth_db \<Rightarrow> unit auth_out" where
  "change_email env q u requested current d = (
     if us_auth_provider u = Prov_google then http_failed 400 ''Your email is managed by Google. To change it, update your email with that provider.'' d
     else if \<not> verify_password env current (us_hashed_password u) then http_failed 400 ''Current password is incorrect.'' d
     else
       let new_email = py_lower requested in
       if new_email = us_email u then http_failed 400 ''That is already your email address.'' d
       else if (case get_by_email d new_email of None \<Rightarrow> False | Some x \<Rightarrow> us_id x \<noteq> us_id u) then
         http_failed 409 ''An account with this email already exists.'' d
       else if email_of_another u new_email d then failed (Exn ''IntegrityError'' ''users'') d
       else
         let u1 = u \<lparr>us_email := new_email, us_is_email_verified := False\<rparr>; raw = str_uuid (aq_token q) in
         case create_token (aq_token_id q) (aq_now q) (us_id u) (ae_hash_token env raw) Tok_verify_email
             (aq_now q + minutes (60 * ae_verify_hours env)) (put_user u1 d) of
           Inl e \<Rightarrow> failed e d
         | Inr d1 \<Rightarrow> \<lparr>ao_result = Inr (), ao_db = revoke_all_by_user_and_type (aq_now q) (us_id u) Tok_refresh d1,
             ao_cookie = None, ao_mail = (if aq_queue_answers q then [Verification_mail new_email raw] else [])\<rparr>)"

section \<open>Sessions and deletion\<close>

record session_response =
  se_id :: uuid
  se_created_at :: int
  se_expires_at :: int
  se_is_current :: bool

definition list_sessions :: "auth_env \<Rightarrow> int \<Rightarrow> user \<Rightarrow> string option \<Rightarrow> auth_db \<Rightarrow> session_response list" where
  "list_sessions env now u cookie d = (
     let current = (if cookie \<in> {None, Some []} then None else map_option (ae_hash_token env) cookie) in
     map (\<lambda>t. \<lparr>se_id = tk_id t, se_created_at = tk_created_at t, se_expires_at = tk_expires_at t,
         se_is_current = (current \<noteq> None \<and> Some (tk_token t) = current)\<rparr>)
       (list_active_by_user_and_type d now (us_id u) Tok_refresh))"

definition revoke_session :: "int \<Rightarrow> user \<Rightarrow> uuid \<Rightarrow> auth_db \<Rightarrow> unit auth_out" where
  "revoke_session now u k d = (case get_active_by_id_for_user d now k (us_id u) Tok_refresh of
       None \<Rightarrow> http_failed 404 ''Session not found.'' d
     | Some t \<Rightarrow> answered () (revoke now t d))"

definition delete_account :: "auth_env \<Rightarrow> int \<Rightarrow> user \<Rightarrow> string option \<Rightarrow> auth_db \<Rightarrow> unit auth_out" where
  "delete_account env now u current d = (
     if us_has_usable_password u \<and>
        (current \<in> {None, Some []} \<or> \<not> verify_password env (the current) (us_hashed_password u))
     then http_failed 400 ''Current password is incorrect.'' d
     else (answered () (revoke_all_by_user_and_type now (us_id u) Tok_refresh
         (put_user (u \<lparr>us_is_deleted := True, us_deleted_at := Some now\<rparr>) d))) \<lparr>ao_cookie := Some Cookie_cleared\<rparr>)"

section \<open>Administration\<close>

definition require_roles :: "platform_role list \<Rightarrow> user \<Rightarrow> user result" where
  "require_roles allowed u = (if us_platform_role u \<notin> set allowed
     then http_raise 403 ''You do not have access to this area.'' else Inr u)"

definition require_admin :: "user \<Rightarrow> user result" where
  "require_admin = require_roles [Role_admin, Role_super_admin]"

definition assert_can_manage :: "user \<Rightarrow> user \<Rightarrow> unit result" where
  "assert_can_manage actor target = (
     if us_id actor = us_id target then http_raise 409 ''You cannot manage your own account.''
     else if us_platform_role target = Role_super_admin then http_raise 403 ''This account requires super administrator access.''
     else if us_platform_role actor = Role_admin \<and> us_platform_role target \<noteq> Role_user then
       http_raise 403 ''Administrators can only manage user accounts.''
     else Inr ())"

definition create_audit_event :: "uuid \<Rightarrow> uuid \<Rightarrow> string \<Rightarrow> string option \<Rightarrow> auth_db \<Rightarrow> auth_db" where
  "create_audit_event actor target action reason = adb_affiliates_update (audit actor (Some target) action reason)"

text \<open>The frame of the four operations: the target exists and the actor may manage it.\<close>

definition managed :: "user \<Rightarrow> uuid \<Rightarrow> (user \<Rightarrow> auth_db) \<Rightarrow> auth_db \<Rightarrow> unit auth_out" where
  "managed actor k change d = (case get_by_id d k of None \<Rightarrow> http_failed 404 ''User not found.'' d
     | Some u \<Rightarrow> (case assert_can_manage actor u of Inl e \<Rightarrow> failed e d | Inr _ \<Rightarrow> answered () (change u)))"

definition suspend_user :: "int \<Rightarrow> user \<Rightarrow> uuid \<Rightarrow> string \<Rightarrow> auth_db \<Rightarrow> unit auth_out" where
  "suspend_user now actor k reason d = managed actor k (\<lambda>u.
     create_audit_event (us_id actor) (us_id u) ''user.suspended'' (Some reason)
       (revoke_all_by_user_and_type now (us_id u) Tok_refresh
         (put_user (u \<lparr>us_is_suspended := True, us_suspended_at := Some now, us_suspension_reason := Some reason\<rparr>) d))) d"

definition restore_user :: "user \<Rightarrow> uuid \<Rightarrow> auth_db \<Rightarrow> unit auth_out" where
  "restore_user actor k d = managed actor k (\<lambda>u.
     create_audit_event (us_id actor) (us_id u) ''user.restored'' None
       (put_user (u \<lparr>us_is_suspended := False, us_suspended_at := None, us_suspension_reason := None\<rparr>) d)) d"

definition revoke_user_sessions :: "int \<Rightarrow> user \<Rightarrow> uuid \<Rightarrow> auth_db \<Rightarrow> unit auth_out" where
  "revoke_user_sessions now actor k d = managed actor k (\<lambda>u.
     create_audit_event (us_id actor) (us_id u) ''user.sessions_revoked'' None
       (revoke_all_by_user_and_type now (us_id u) Tok_refresh d)) d"

definition update_user_role :: "user \<Rightarrow> uuid \<Rightarrow> platform_role \<Rightarrow> string \<Rightarrow> auth_db \<Rightarrow> unit auth_out" where
  "update_user_role actor k role reason d = (
     if us_platform_role actor \<noteq> Role_super_admin then http_failed 403 ''Super administrator access required.'' d
     else managed actor k (\<lambda>u. create_audit_event (us_id actor) (us_id u) ''user.role_changed'' (Some reason)
       (put_user (u \<lparr>us_platform_role := role\<rparr>) d)) d)"

text \<open>Roles of the configuration, given when the application starts.\<close>

definition assign_role :: "platform_role \<Rightarrow> string \<Rightarrow> auth_db \<Rightarrow> auth_db" where
  "assign_role role email d = (case get_by_email d email of None \<Rightarrow> d
     | Some u \<Rightarrow> if us_platform_role u \<noteq> role then put_user (u \<lparr>us_platform_role := role\<rparr>) d else d)"

definition bootstrap_configured_roles :: "string \<Rightarrow> string \<Rightarrow> string \<Rightarrow> auth_db \<Rightarrow> auth_db" where
  "bootstrap_configured_roles admins technical super d =
     fold (\<lambda>(raw, role). fold (assign_role role) (map py_lower (comma_items raw)))
       [(admins, Role_admin), (technical, Role_technical_admin), (super, Role_super_admin)] d"

end
