(* ===== verification/Auth_Steps.thy ===== *)
theory Auth_Steps
  imports Users
begin

text \<open>
  The requests of the authentication, user and administration endpoints as one datatype, what each does
  to the database in the order of the dependencies of its endpoint, and the invariant of the users and
  their tokens.
\<close>

section \<open>Requests\<close>

datatype user_call =
    Update_profile "string patch" "string patch"
  | Update_preferences "string patch"
  | Complete_onboarding "string option" "string option" "string option"
  | Update_avatar "string result"
  | Change_password string string
  | Set_password string
  | Change_email string string
  | Revoke_session uuid
  | Delete_account "string option"

datatype admin_call =
    Suspend_user uuid string
  | Restore_user uuid
  | Revoke_user_sessions uuid
  | Update_user_role uuid platform_role string

datatype auth_call =
    Register register_request
  | Google_auth string "string option" "string option" "string option"
  | Login string string
  | Verify_email string
  | Resend_verification string
  | Refresh "string option"
  | Logout "string option"
  | Forgot_password string
  | Reset_password string string
  | As_user string user_call
  | As_admin string admin_call
  | Touch_last_active uuid int
  | Purge_expired_tokens

definition user_db :: "auth_env \<Rightarrow> auth_rq \<Rightarrow> user_call \<Rightarrow> user \<Rightarrow> auth_db \<Rightarrow> auth_db" where
  "user_db env q c u d = (case c of
       Update_profile n b \<Rightarrow> ao_db (update_profile u n b d)
     | Update_preferences z \<Rightarrow> ao_db (update_preferences u z d)
     | Complete_onboarding x g r \<Rightarrow> ao_db (complete_onboarding (aq_now q) u x g r d)
     | Update_avatar r \<Rightarrow> ao_db (update_avatar r u d)
     | Change_password a b \<Rightarrow> ao_db (change_password env q u a b d)
     | Set_password a \<Rightarrow> ao_db (set_password env q u a d)
     | Change_email e a \<Rightarrow> ao_db (change_email env q u e a d)
     | Revoke_session k \<Rightarrow> ao_db (revoke_session (aq_now q) u k d)
     | Delete_account a \<Rightarrow> ao_db (delete_account env (aq_now q) u a d))"

definition admin_db :: "auth_rq \<Rightarrow> admin_call \<Rightarrow> user \<Rightarrow> auth_db \<Rightarrow> auth_db" where
  "admin_db q c actor d = (case c of
       Suspend_user k r \<Rightarrow> ao_db (suspend_user (aq_now q) actor k r d)
     | Restore_user k \<Rightarrow> ao_db (restore_user actor k d)
     | Revoke_user_sessions k \<Rightarrow> ao_db (revoke_user_sessions (aq_now q) actor k d)
     | Update_user_role k role r \<Rightarrow> ao_db (update_user_role actor k role r d))"

definition auth_run :: "auth_env \<Rightarrow> auth_rq \<Rightarrow> auth_call \<Rightarrow> auth_db \<Rightarrow> auth_db" where
  "auth_run env q c d = (case c of
       Register p \<Rightarrow> ao_db (register env q p d)
     | Google_auth t r s m \<Rightarrow> ao_db (google_auth env q t r s m d)
     | Login e p \<Rightarrow> ao_db (login env q e p d)
     | Verify_email t \<Rightarrow> ao_db (verify_email env (aq_now q) t d)
     | Resend_verification e \<Rightarrow> ao_db (resend_verification env q e d)
     | Refresh t \<Rightarrow> ao_db (refresh_access_token env q t d)
     | Logout t \<Rightarrow> ao_db (logout env (aq_now q) t d)
     | Forgot_password e \<Rightarrow> ao_db (forgot_password env q e d)
     | Reset_password t p \<Rightarrow> ao_db (reset_password env q t p d)
     | As_user a c \<Rightarrow> (case resolve_current_user env (aq_now q) a d of Inl _ \<Rightarrow> d | Inr u \<Rightarrow> user_db env q c u d)
     | As_admin a c \<Rightarrow> (case resolve_current_user env (aq_now q) a d of Inl _ \<Rightarrow> d
         | Inr u \<Rightarrow> (case require_admin u of Inl _ \<Rightarrow> d | Inr actor \<Rightarrow> admin_db q c actor d))
     | Touch_last_active k n \<Rightarrow> snd (touch_last_active_at_if_stale k (aq_now q) n d)
     | Purge_expired_tokens \<Rightarrow> snd (purge_expired_tokens (aq_now q) d))"

definition auth_step :: "auth_env \<Rightarrow> auth_db \<Rightarrow> auth_db \<Rightarrow> bool" where
  "auth_step env d d' \<longleftrightarrow> (\<exists>q c. d' = auth_run env q c d)"

section \<open>The tables\<close>

interpretation users: keyed_table us_id adb_users adb_users_update "\<lambda>d k. row_get us_id k (adb_users d)" put_user
  by unfold_locales (simp_all add: put_user_def)

interpretation tokens: keyed_table tk_id adb_tokens adb_tokens_update "\<lambda>d k. row_get tk_id k (adb_tokens d)" put_token
  by unfold_locales (simp_all add: put_token_def)

named_theorems auth_frame \<open>what an update leaves unchanged\<close>

lemma put_user_frame [auth_frame, simp]:
  "adb_tokens (put_user u d) = adb_tokens d" "adb_affiliates (put_user u d) = adb_affiliates d"
  by (simp_all add: put_user_def)

lemma put_token_frame [auth_frame, simp]:
  "adb_users (put_token t d) = adb_users d" "adb_affiliates (put_token t d) = adb_affiliates d"
  by (simp_all add: put_token_def)

lemma revoke_frame [auth_frame, simp]: "adb_users (revoke now t d) = adb_users d"
  by (simp add: revoke_def)

lemma revoke_all_frame [auth_frame, simp]:
  "adb_users (revoke_all_by_user_and_type now u type d) = adb_users d"
  "adb_affiliates (revoke_all_by_user_and_type now u type d) = adb_affiliates d"
  by (simp_all add: revoke_all_by_user_and_type_def)

lemma create_audit_event_frame [auth_frame, simp]:
  "adb_users (create_audit_event a t x r d) = adb_users d" "adb_tokens (create_audit_event a t x r d) = adb_tokens d"
  by (simp_all add: create_audit_event_def)

lemma adb_users_put_user: "adb_users (put_user u d) = row_put us_id u (adb_users d)"
  by (rule users.rows_put)

lemma adb_tokens_revoke_all: "adb_tokens (revoke_all_by_user_and_type now u type d) =
    map (\<lambda>t. if tk_user_id t = Some u \<and> tk_type t = type \<and> \<not> tk_is_revoked t then revoked_row now t else t) (adb_tokens d)"
  by (simp add: revoke_all_by_user_and_type_def)

lemma adb_tokens_revoke: "adb_tokens (revoke now t d) = row_put tk_id (revoked_row now t) (adb_tokens d)"
  by (simp add: revoke_def tokens.rows_put)

lemma out_simps [simp]:
  "ao_db (failed e d) = d" "ao_db (http_failed s m d) = d" "ao_db (answered x d) = d"
  "ao_result (failed e d) = Inl e" "ao_result (answered x d) = Inr x" "ao_result (http_failed s m d) = http_raise s m"
  "ao_mail (failed e d) = []" "ao_mail (http_failed s m d) = []" "ao_mail (answered x d) = []"
  "ao_cookie (failed e d) = None" "ao_cookie (http_failed s m d) = None" "ao_cookie (answered x d) = None"
  by (simp_all add: failed_def http_failed_def answered_def)

lemma revoked_row_simps [simp]:
  "tk_id (revoked_row now t) = tk_id t" "tk_token (revoked_row now t) = tk_token t" "tk_type (revoked_row now t) = tk_type t"
  "tk_user_id (revoked_row now t) = tk_user_id t" "tk_is_revoked (revoked_row now t)"
  "tk_revoked_at (revoked_row now t) = Some now" "tk_expires_at (revoked_row now t) = tk_expires_at t"
  by (simp_all add: revoked_row_def)

lemma get_by_id_Some: "get_by_id d k = Some u \<Longrightarrow> u \<in> set (adb_users d) \<and> us_id u = k \<and> \<not> us_is_deleted u"
  by (auto simp: get_by_id_def find_Some_iff)

lemma get_by_email_Some:
  "get_by_email d e = Some u \<Longrightarrow> u \<in> set (adb_users d) \<and> us_email u = py_lower e \<and> \<not> us_is_deleted u"
  by (auto simp: get_by_email_def find_Some_iff)

lemma owner_of_Some:
  "owner_of d t = Some u \<Longrightarrow> u \<in> set (adb_users d) \<and> tk_user_id t = Some (us_id u) \<and> \<not> us_is_deleted u"
  by (auto simp: owner_of_def dest!: get_by_id_Some split: option.splits)

lemma get_active_Some:
  "get_active d now h type = Some t \<Longrightarrow> t \<in> set (adb_tokens d) \<and> tk_token t = h \<and> token_active now type t"
  by (auto simp: get_active_def find_Some_iff)

lemma get_recently_revoked_Some:
  "get_recently_revoked d now h type = Some t \<Longrightarrow>
     t \<in> set (adb_tokens d) \<and> tk_token t = h \<and> tk_type t = type \<and> recently_revoked now t"
  by (auto simp: get_recently_revoked_def find_Some_iff)

lemma resolve_Some: "resolve_current_user env now a d = Inr u \<Longrightarrow>
    u \<in> set (adb_users d) \<and> \<not> us_is_deleted u \<and> \<not> us_is_suspended u \<and> us_is_email_verified u"
  by (auto simp: resolve_current_user_def bad_credentials_def http_raise_def dest!: get_by_id_Some
      split: option.splits if_splits pyval.splits sum.splits)

lemma create_token_Inr: "create_token k now u h type expires d = Inr d' \<Longrightarrow>
    (\<forall>t\<in>set (adb_tokens d). tk_id t \<noteq> k \<and> tk_token t \<noteq> h) \<and>
    d' = d \<lparr>adb_tokens := adb_tokens d @ [\<lparr>tk_id = k, tk_token = h, tk_type = type, tk_expires_at = expires,
      tk_user_id = Some u, tk_is_revoked = False, tk_revoked_at = None, tk_created_at = now\<rparr>]\<rparr>"
  by (auto simp: create_token_def list_ex_iff split: if_splits)

lemma add_user_Inr: "add_user u d = Inr d' \<Longrightarrow>
    (\<forall>x\<in>set (adb_users d). us_id x \<noteq> us_id u \<and> us_email x \<noteq> us_email u) \<and> d' = d \<lparr>adb_users := adb_users d @ [u]\<rparr>"
  by (auto simp: add_user_def list_ex_iff split: if_splits)

lemma welcome_user_Inr: "welcome_user q u c s m d = Inr d' \<Longrightarrow> \<exists>a. d' = d \<lparr>adb_affiliates := a\<rparr>"
  by (auto simp: welcome_user_def split: sum.splits seed_outcome.splits)

end
