(* ===== verification/Auth_Invariant.thy ===== *)
theory Auth_Invariant
  imports Auth_Steps
begin

text \<open>
  What a request may do to users and tokens: every request of \<open>auth_run\<close> is a sequence of the ten
  elementary updates of \<open>update\<close>. The invariants of the database are then kept by every request because
  every elementary update keeps them.
\<close>

section \<open>Elementary updates\<close>

text \<open>What most updates of a user keep: the identity, the address, whether it is deleted, and the role.\<close>

definition user_key :: "user \<Rightarrow> uuid \<times> string \<times> bool \<times> platform_role" where
  "user_key u = (us_id u, us_email u, us_is_deleted u, us_platform_role u)"

definition edit_users :: "(user \<Rightarrow> user) \<Rightarrow> auth_db \<Rightarrow> auth_db" where
  "edit_users f d = d \<lparr>adb_users := map f (adb_users d)\<rparr>"

definition revoke_where :: "int \<Rightarrow> (token \<Rightarrow> bool) \<Rightarrow> auth_db \<Rightarrow> auth_db" where
  "revoke_where now P d =
     d \<lparr>adb_tokens := map (\<lambda>t. if P t \<and> \<not> tk_is_revoked t then revoked_row now t else t) (adb_tokens d)\<rparr>"

inductive update :: "auth_env \<Rightarrow> auth_rq \<Rightarrow> auth_db \<Rightarrow> auth_db \<Rightarrow> bool" for env :: auth_env and q :: auth_rq where
  edit: "(\<And>u. u \<in> set (adb_users d) \<Longrightarrow> user_key (f u) = user_key u \<and> us_is_suspended (f u) = us_is_suspended u) \<Longrightarrow>
     update env q d (edit_users f d)"
| moderate: "(\<And>u. u \<in> set (adb_users d) \<Longrightarrow> user_key (f u) = user_key u) \<Longrightarrow>
     (\<And>u. u \<in> set (adb_users d) \<Longrightarrow> us_platform_role u = Role_super_admin \<Longrightarrow> f u = u) \<Longrightarrow>
     update env q d (edit_users f d)"
| promote: "u \<in> set (adb_users d) \<Longrightarrow> us_platform_role u \<noteq> Role_super_admin \<Longrightarrow>
     \<exists>a\<in>set (adb_users d). us_platform_role a = Role_super_admin \<Longrightarrow>
     update env q d (put_user (u \<lparr>us_platform_role := r\<rparr>) d)"
| rename: "u \<in> set (adb_users d) \<Longrightarrow> \<not> us_is_deleted u \<Longrightarrow> py_lower e = e \<Longrightarrow> \<not> email_of_another u e d \<Longrightarrow>
     update env q d (put_user (u \<lparr>us_email := e, us_is_email_verified := False\<rparr>) d)"
| join: "add_user u d = Inr d' \<Longrightarrow> py_lower (us_email u) = us_email u \<Longrightarrow> \<not> us_is_deleted u \<Longrightarrow> \<not> us_is_suspended u \<Longrightarrow>
     us_platform_role u = Role_user \<Longrightarrow> update env q d d'"
| leave: "u \<in> set (adb_users d) \<Longrightarrow> update env q d (revoke_all_by_user_and_type (aq_now q) (us_id u) Tok_refresh
     (put_user (u \<lparr>us_is_deleted := True, us_deleted_at := Some (aq_now q)\<rparr>) d))"
| revoking: "update env q d (revoke_where (aq_now q) P d)"
| mint: "create_token k (aq_now q) (us_id u) h type expires d = Inr d' \<Longrightarrow> u \<in> set (adb_users d) \<Longrightarrow> \<not> us_is_deleted u \<Longrightarrow>
     h \<in> {ae_hash_token env (str_uuid (aq_token q)), ae_hash_token env (str_uuid (aq_refresh q))} \<Longrightarrow> update env q d d'"
| purge: "update env q d (d \<lparr>adb_tokens := filter P (adb_tokens d)\<rparr>)"
| affiliates: "update env q d (d \<lparr>adb_affiliates := a\<rparr>)"

section \<open>The invariant\<close>

definition users_ok :: "user list \<Rightarrow> bool" where
  "users_ok us \<longleftrightarrow> distinct (map us_id us) \<and> distinct (map us_email us) \<and> list_all (\<lambda>u. py_lower (us_email u) = us_email u) us"

text \<open>
  Every token is of a stored user, has a time of revocation exactly when it is revoked, and no unrevoked
  refresh token is of a deleted user.
\<close>

definition token_ok :: "user list \<Rightarrow> token \<Rightarrow> bool" where
  "token_ok us t \<longleftrightarrow> (tk_is_revoked t \<longleftrightarrow> tk_revoked_at t \<noteq> None)
     \<and> (\<exists>u\<in>set us. tk_user_id t = Some (us_id u) \<and> (tk_type t = Tok_refresh \<and> \<not> tk_is_revoked t \<longrightarrow> \<not> us_is_deleted u))"

definition tokens_ok :: "user list \<Rightarrow> token list \<Rightarrow> bool" where
  "tokens_ok us ts \<longleftrightarrow> distinct (map tk_id ts) \<and> distinct (map tk_token ts) \<and> list_all (token_ok us) ts"

definition auth_ok :: "auth_db \<Rightarrow> bool" where
  "auth_ok d \<longleftrightarrow> users_ok (adb_users d) \<and> tokens_ok (adb_users d) (adb_tokens d)"

lemma py_lower_idem [simp]: "py_lower (py_lower s) = py_lower s"
proof -
  have "lower_char (lower_char c) = lower_char c" for c
    by (auto simp: lower_char_def)
  then show ?thesis by (simp add: py_lower_def)
qed

lemma distinct_map_eq: "distinct (map f xs) \<Longrightarrow> x \<in> set xs \<Longrightarrow> y \<in> set xs \<Longrightarrow> f x = f y \<Longrightarrow> x = y"
  by (auto simp: distinct_map inj_on_def)

lemma auth_ok_ids: "auth_ok d \<Longrightarrow> distinct (map us_id (adb_users d))"
  by (simp add: auth_ok_def users_ok_def)

lemma same_id: "auth_ok d \<Longrightarrow> u \<in> set (adb_users d) \<Longrightarrow> x \<in> set (adb_users d) \<Longrightarrow> us_id x = us_id u \<Longrightarrow> x = u"
  using distinct_map_eq [OF auth_ok_ids] by blast

lemma same_token: "auth_ok d \<Longrightarrow> t \<in> set (adb_tokens d) \<Longrightarrow> x \<in> set (adb_tokens d) \<Longrightarrow> tk_id x = tk_id t \<Longrightarrow> x = t"
  using distinct_map_eq [of tk_id "adb_tokens d" x t] by (simp add: auth_ok_def tokens_ok_def)

text \<open>Writing back a changed row is an edit, revoking a row is a revocation.\<close>

lemma put_user_edit: "put_user u d = edit_users (\<lambda>x. if us_id x = us_id u then u else x) d"
  by (simp add: put_user_def edit_users_def row_put_def)

lemma update_put_user:
  assumes "auth_ok d" "u \<in> set (adb_users d)" "user_key u' = user_key u" "us_is_suspended u' = us_is_suspended u"
  shows "update env q d (put_user u' d)"
  unfolding put_user_edit
proof (rule update.edit)
  fix x
  assume "x \<in> set (adb_users d)"
  moreover have "us_id u' = us_id u" using assms(3) by (simp add: user_key_def)
  ultimately show "user_key (if us_id x = us_id u' then u' else x) = user_key x
      \<and> us_is_suspended (if us_id x = us_id u' then u' else x) = us_is_suspended x"
    using same_id [OF assms(1,2)] assms(3,4) by auto
qed

lemma update_moderate:
  assumes "auth_ok d" "u \<in> set (adb_users d)" "user_key u' = user_key u" "us_platform_role u \<noteq> Role_super_admin"
  shows "update env q d (put_user u' d)"
  unfolding put_user_edit
proof (rule update.moderate)
  fix x
  assume x: "x \<in> set (adb_users d)"
  have i: "us_id u' = us_id u" using assms(3) by (simp add: user_key_def)
  show "user_key (if us_id x = us_id u' then u' else x) = user_key x"
    using x i same_id [OF assms(1,2)] assms(3) by auto
  show "us_platform_role x = Role_super_admin \<Longrightarrow> (if us_id x = us_id u' then u' else x) = x"
    using x i same_id [OF assms(1,2)] assms(4) by auto
qed

lemma update_revoke:
  assumes "auth_ok d" "t \<in> set (adb_tokens d)" "\<not> tk_is_revoked t" "adb_tokens d' = adb_tokens d"
  shows "update env q d' (revoke (aq_now q) t d')"
proof -
  have "row_put tk_id (revoked_row (aq_now q) t) (adb_tokens d')
      = map (\<lambda>x. if tk_id x = tk_id t \<and> \<not> tk_is_revoked x then revoked_row (aq_now q) x else x) (adb_tokens d')"
    using same_token [OF assms(1,2)] assms(3) unfolding row_put_def assms(4) by (intro map_cong) auto
  then have "revoke (aq_now q) t d' = revoke_where (aq_now q) (\<lambda>x. tk_id x = tk_id t) d'"
    by (cases d') (simp add: revoke_def put_token_def revoke_where_def)
  then show ?thesis using update.revoking by metis
qed

lemma update_revoke_all: "update env q d (revoke_all_by_user_and_type (aq_now q) k type d)"
proof -
  have "revoke_all_by_user_and_type (aq_now q) k type d
      = revoke_where (aq_now q) (\<lambda>t. tk_user_id t = Some k \<and> tk_type t = type) d"
    by (simp add: revoke_all_by_user_and_type_def revoke_where_def conj_assoc)
  then show ?thesis using update.revoking by metis
qed

lemma update_audit: "update env q d (create_audit_event a t x r d)"
proof -
  have "create_audit_event a t x r d = d \<lparr>adb_affiliates := audit a (Some t) x r (adb_affiliates d)\<rparr>"
    by (simp add: create_audit_event_def)
  then show ?thesis using update.affiliates by metis
qed

section \<open>Every request is a sequence of updates\<close>

abbreviation updates :: "auth_env \<Rightarrow> auth_rq \<Rightarrow> auth_db \<Rightarrow> auth_db \<Rightarrow> bool" where
  "updates env q \<equiv> (update env q)\<^sup>*\<^sup>*"

lemma updates_one: "update env q d d' \<Longrightarrow> updates env q d d'"
  by blast

lemma updates_two: "update env q d d' \<Longrightarrow> update env q d' d'' \<Longrightarrow> updates env q d d''"
  by (meson converse_rtranclp_into_rtranclp r_into_rtranclp)

lemma updates_step: "updates env q d d' \<Longrightarrow> update env q d' d'' \<Longrightarrow> updates env q d d''"
  by (rule rtranclp.rtrancl_into_rtrancl)

lemma put_user_members:
  "u \<in> set (adb_users d) \<Longrightarrow> us_id u' = us_id u \<Longrightarrow> u' \<in> set (adb_users (put_user u' d))"
  by (force simp: adb_users_put_user row_put_def)

lemma update_new_refresh_token: "new_refresh_token env q (us_id u) d = Inr d' \<Longrightarrow> u \<in> set (adb_users d) \<Longrightarrow>
    \<not> us_is_deleted u \<Longrightarrow> update env q d d'"
  unfolding new_refresh_token_def by (erule update.mint) simp_all

lemma updates_issue_session:
  "u \<in> set (adb_users d) \<Longrightarrow> \<not> us_is_deleted u \<Longrightarrow> updates env q d (ao_db (issue_session env q u d))"
  by (auto simp: issue_session_def intro: update_new_refresh_token split: sum.splits)

lemma updates_register: "updates env q d (ao_db (register env q p d))"
proof -
  have "updates env q d d3"
    if u: "u = new_user (aq_user_id q) (aq_now q) (rr_email p) h n Prov_email True" and a: "add_user u d = Inr d1"
      and w: "welcome_user q u c s m d1 = Inr d2" and t: "create_token k (aq_now q) (us_id u) (ae_hash_token env (str_uuid (aq_token q))) ty x d2 = Inr d3"
    for u h n d1 d2 d3 c s m k ty x
  proof -
    have 1: "update env q d d1" using a by (rule update.join) (simp_all add: u new_user_def)
    obtain af where d2: "d2 = d1 \<lparr>adb_affiliates := af\<rparr>" using welcome_user_Inr [OF w] by blast
    have 2: "update env q d1 d2" unfolding d2 by (rule update.affiliates)
    have "u \<in> set (adb_users d2)" using add_user_Inr [OF a] by (simp add: d2)
    then have 3: "update env q d2 d3" using t by (auto intro!: update.mint [where u = u] simp: u new_user_def)
    show ?thesis using 1 2 3 by (meson updates_step updates_two)
  qed
  then show ?thesis
    by (auto simp: register_def Let_def split: sum.splits)
qed

lemma updates_google_auth:
  assumes ok: "auth_ok d"
  shows "updates env q d (ao_db (google_auth env q t c s m d))"
proof -
  have new: "updates env q d (ao_db (issue_session env q u d2))"
    if u: "u = google_user q (py_lower e) h claims" and a: "add_user u d = Inr d1" and w: "welcome_user q u c s m d1 = Inr d2"
    for u e h claims d1 d2
  proof -
    have 1: "update env q d d1" using a by (rule update.join) (simp_all add: u google_user_def new_user_def Let_def)
    obtain af where d2: "d2 = d1 \<lparr>adb_affiliates := af\<rparr>" using welcome_user_Inr [OF w] by blast
    have 2: "update env q d1 d2" unfolding d2 by (rule update.affiliates)
    have "u \<in> set (adb_users d2)" using add_user_Inr [OF a] by (simp add: d2)
    then have "updates env q d2 (ao_db (issue_session env q u d2))"
      by (rule updates_issue_session) (simp add: u google_user_def new_user_def Let_def)
    then show ?thesis using updates_two [OF 1 2] by (meson rtranclp_trans)
  qed
  have old: "updates env q d (ao_db (issue_session env q (u \<lparr>us_is_email_verified := True\<rparr>) (put_user (u \<lparr>us_is_email_verified := True\<rparr>) d)))"
    if u: "get_by_email d e = Some u" for u e
  proof -
    let ?u = "u \<lparr>us_is_email_verified := True\<rparr>"
    have m: "u \<in> set (adb_users d)" "\<not> us_is_deleted u" using get_by_email_Some [OF u] by simp_all
    have "update env q d (put_user ?u d)" by (rule update_put_user [OF ok m(1)]) (simp_all add: user_key_def)
    moreover have "updates env q (put_user ?u d) (ao_db (issue_session env q ?u (put_user ?u d)))"
      by (rule updates_issue_session) (use m put_user_members [OF m(1), of ?u] in simp_all)
    ultimately show ?thesis by (meson converse_rtranclp_into_rtranclp)
  qed
  have same: "updates env q d (ao_db (issue_session env q u d))" if "get_by_email d e = Some u" for u e
    using get_by_email_Some [OF that] by (intro updates_issue_session) simp_all
  show ?thesis
    unfolding google_auth_def Let_def using new old same
    by (auto split: sum.splits pyval.splits option.splits)
qed

lemma updates_login: "updates env q d (ao_db (login env q e p d))"
  by (auto simp: login_def Let_def split: option.splits intro: updates_issue_session dest: get_by_email_Some)

lemma updates_verify_email:
  assumes ok: "auth_ok d"
  shows "updates env q d (ao_db (verify_email env (aq_now q) raw d))"
proof -
  have "updates env q d (revoke (aq_now q) t (put_user (u \<lparr>us_is_email_verified := True\<rparr>) d))"
    if t: "t \<in> set (adb_tokens d)" "\<not> tk_is_revoked t" and u: "owner_of d t = Some u" for t u
  proof (rule updates_two)
    show "update env q d (put_user (u \<lparr>us_is_email_verified := True\<rparr>) d)"
      using owner_of_Some [OF u] by (intro update_put_user [OF ok]) (simp_all add: user_key_def)
    show "update env q (put_user (u \<lparr>us_is_email_verified := True\<rparr>) d)
        (revoke (aq_now q) t (put_user (u \<lparr>us_is_email_verified := True\<rparr>) d))"
      by (rule update_revoke [OF ok t]) simp
  qed
  then show ?thesis
    by (auto simp: verify_email_def find_Some_iff split: option.splits)
qed

text \<open>Retiring the links of a user and storing a new one.\<close>

lemma updates_new_link:
  assumes t: "create_token k (aq_now q) (us_id u) (ae_hash_token env (str_uuid (aq_token q))) type x
      (revoke_all_by_user_and_type (aq_now q) (us_id u) type' d) = Inr d2"
    and u: "get_by_email d e = Some u"
  shows "updates env q d d2"
proof (rule updates_two [OF update_revoke_all])
  show "update env q (revoke_all_by_user_and_type (aq_now q) (us_id u) type' d) d2"
    using t by (rule update.mint) (use get_by_email_Some [OF u] in simp_all)
qed

lemma updates_resend_verification: "updates env q d (ao_db (resend_verification env q e d))"
  by (auto simp: resend_verification_def Let_def intro: updates_new_link split: option.splits sum.splits)

lemma updates_forgot_password: "updates env q d (ao_db (forgot_password env q e d))"
  by (auto simp: forgot_password_def Let_def intro: updates_new_link split: option.splits sum.splits)

lemma updates_refresh:
  assumes ok: "auth_ok d"
  shows "updates env q d (ao_db (refresh_access_token env q raw d))"
proof -
  have grace: "updates env q d d1" if "owner_of d t = Some u" "new_refresh_token env q (us_id u) d = Inr d1" for t u d1
    using that owner_of_Some [OF that(1)] by (blast intro: update_new_refresh_token)
  have rotate: "updates env q d d1"
    if t: "get_active d (aq_now q) h Tok_refresh = Some t" and u: "owner_of d t = Some u"
      and n: "new_refresh_token env q (us_id u) (revoke (aq_now q) t d) = Inr d1" for h t u d1
  proof (rule updates_two)
    show "update env q d (revoke (aq_now q) t d)"
      using get_active_Some [OF t] by (intro update_revoke [OF ok]) (simp_all add: token_active_def)
    show "update env q (revoke (aq_now q) t d) d1"
      using n by (rule update_new_refresh_token) (use owner_of_Some [OF u] in simp_all)
  qed
  show ?thesis
    unfolding refresh_access_token_def Let_def using grace rotate
    by (auto simp: refreshed_def split: option.splits sum.splits)
qed

lemma updates_logout:
  assumes ok: "auth_ok d"
  shows "updates env q d (ao_db (logout env (aq_now q) raw d))"
proof -
  have "updates env q d (revoke (aq_now q) t d)" if "get_active d (aq_now q) h Tok_refresh = Some t" for h t
    using get_active_Some [OF that] by (intro updates_one update_revoke [OF ok]) (simp_all add: token_active_def)
  then show ?thesis by (auto simp: logout_def Let_def answered_def split: option.splits)
qed

lemma updates_reset_password:
  assumes ok: "auth_ok d"
  shows "updates env q d (ao_db (reset_password env q raw password d))"
proof -
  have "updates env q d (revoke_all_by_user_and_type (aq_now q) (us_id u) Tok_refresh (revoke (aq_now q) t
      (put_user (u \<lparr>us_hashed_password := h, us_has_usable_password := True\<rparr>) d)))"
    if t: "get_active d (aq_now q) x Tok_reset_password = Some t" and u: "owner_of d t = Some u" for x t u h
  proof (rule updates_step [OF updates_two update_revoke_all])
    let ?u = "u \<lparr>us_hashed_password := h, us_has_usable_password := True\<rparr>"
    show "update env q d (put_user ?u d)"
      using owner_of_Some [OF u] by (intro update_put_user [OF ok]) (simp_all add: user_key_def)
    show "update env q (put_user ?u d) (revoke (aq_now q) t (put_user ?u d))"
      using get_active_Some [OF t] by (intro update_revoke [OF ok]) (simp_all add: token_active_def)
  qed
  then show ?thesis by (auto simp: reset_password_def split: option.splits sum.splits)
qed

lemma updates_change_email:
  assumes ok: "auth_ok d" and u: "u \<in> set (adb_users d)" "\<not> us_is_deleted u"
  shows "updates env q d (ao_db (change_email env q u e a d))"
proof -
  let ?u = "u \<lparr>us_email := py_lower e, us_is_email_verified := False\<rparr>"
  have "updates env q d (revoke_all_by_user_and_type (aq_now q) (us_id u) Tok_refresh d1)"
    if "\<not> email_of_another u (py_lower e) d"
      and t: "create_token k (aq_now q) (us_id u) (ae_hash_token env (str_uuid (aq_token q))) ty x (put_user ?u d) = Inr d1" for k ty x d1
  proof (rule updates_step [OF updates_two update_revoke_all])
    show "update env q d (put_user ?u d)" by (rule update.rename) (use u that in simp_all)
    have "create_token k (aq_now q) (us_id ?u) (ae_hash_token env (str_uuid (aq_token q))) ty x (put_user ?u d) = Inr d1"
      using t by simp
    then show "update env q (put_user ?u d) d1"
      by (rule update.mint) (use u put_user_members [OF u(1), of ?u] in simp_all)
  qed
  then show ?thesis by (auto simp: change_email_def Let_def split: option.splits sum.splits)
qed

lemma updates_user_db:
  assumes ok: "auth_ok d" and u: "u \<in> set (adb_users d)" "\<not> us_is_deleted u"
  shows "updates env q d (user_db env q c u d)"
proof -
  have put: "updates env q d (put_user u' d)" if "user_key u' = user_key u" "us_is_suspended u' = us_is_suspended u" for u'
    by (rule updates_one) (rule update_put_user [OF ok u(1) that])
  have put_revoke: "updates env q d (revoke_all_by_user_and_type (aq_now q) (us_id u) Tok_refresh (put_user (u \<lparr>us_hashed_password := h\<rparr>) d))" for h
    by (rule updates_step [OF put update_revoke_all]) (simp_all add: user_key_def)
  have revoked: "updates env q d (revoke (aq_now q) t d)"
    if "get_active_by_id_for_user d (aq_now q) k (us_id u) Tok_refresh = Some t" for k t
    using that by (intro updates_one update_revoke [OF ok])
      (auto simp: get_active_by_id_for_user_def find_Some_iff token_active_def)
  have gone: "updates env q d (ao_db (delete_account env (aq_now q) u a d))" for a
    using update.leave [OF u(1)] by (auto simp: delete_account_def answered_def)
  show ?thesis
    using updates_change_email [OF ok u] gone put revoked put_revoke
    by (cases c) (auto simp: user_db_def update_profile_def update_preferences_def complete_onboarding_def update_avatar_def
        change_password_def set_password_def revoke_session_def user_key_def Let_def split: option.splits sum.splits)
qed

lemma updates_admin_db:
  assumes ok: "auth_ok d" and actor: "actor \<in> set (adb_users d)"
  shows "updates env q d (admin_db q c actor d)"
proof -
  have managed: "updates env q d (ao_db (managed actor k change d))"
    if "\<And>u. u \<in> set (adb_users d) \<Longrightarrow> us_platform_role u \<noteq> Role_super_admin \<Longrightarrow> updates env q d (change u)" for k change
  proof -
    have "us_platform_role u \<noteq> Role_super_admin" if "assert_can_manage actor u = Inr ()" for u
      using that by (auto simp: assert_can_manage_def http_raise_def split: if_splits)
    with that show ?thesis by (auto simp: managed_def split: option.splits sum.splits dest!: get_by_id_Some)
  qed
  show ?thesis
  proof (cases c)
    case (Suspend_user k r)
    then show ?thesis
      unfolding admin_db_def suspend_user_def
      by (auto intro!: managed updates_step [OF updates_two [OF update_moderate [OF ok] update_revoke_all] update_audit]
          simp: user_key_def)
  next
    case (Restore_user k)
    then show ?thesis
      unfolding admin_db_def restore_user_def
      by (auto intro!: managed updates_two [OF _ update_audit] update_moderate [OF ok] simp: user_key_def)
  next
    case (Revoke_user_sessions k)
    then show ?thesis
      unfolding admin_db_def revoke_user_sessions_def
      by (auto intro!: managed updates_two [OF _ update_audit] update_revoke_all)
  next
    case (Update_user_role k role r)
    then show ?thesis
      unfolding admin_db_def update_user_role_def using actor
      by (auto intro!: managed updates_two [OF _ update_audit] update.promote)
  qed
qed

theorem auth_run_updates:
  assumes ok: "auth_ok d"
  shows "updates env q d (auth_run env q c d)"
proof -
  have touch: "updates env q d (snd (touch_last_active_at_if_stale k now n d))" for k now n
    unfolding touch_last_active_at_if_stale_def Let_def snd_conv
    by (rule updates_one, rule update.edit [unfolded edit_users_def]) (simp add: user_key_def)
  have purge: "updates env q d (snd (purge_expired_tokens now d))" for now
    unfolding purge_expired_tokens_def Let_def snd_conv by (rule updates_one) (rule update.purge)
  have user: "updates env q d (user_db env q c u d)" if "resolve_current_user env now a d = Inr u" for now a u c
    using resolve_Some [OF that] by (intro updates_user_db [OF ok]) simp_all
  have admin: "updates env q d (admin_db q c u d)" if "resolve_current_user env now a d = Inr u" for now a u c
    using resolve_Some [OF that] by (intro updates_admin_db [OF ok]) simp_all
  have "u' = u" if "require_admin u = Inr u'" for u u'
    using that by (auto simp: require_admin_def require_roles_def http_raise_def split: if_splits)
  with admin have admin: "updates env q d (admin_db q c u' d)"
    if "resolve_current_user env now a d = Inr u" "require_admin u = Inr u'" for now a u u' c using that by blast
  show ?thesis
    using ok touch purge user admin
    by (cases c) (auto simp: auth_run_def intro: updates_register updates_google_auth updates_login updates_verify_email
        updates_resend_verification updates_refresh updates_logout updates_forgot_password updates_reset_password split: sum.splits)
qed

section \<open>The updates keep the invariant\<close>

lemma token_okI:
  assumes "tk_is_revoked t \<longleftrightarrow> tk_revoked_at t \<noteq> None" "u \<in> set us" "tk_user_id t = Some (us_id u)"
    "tk_type t = Tok_refresh \<Longrightarrow> \<not> tk_is_revoked t \<Longrightarrow> \<not> us_is_deleted u"
  shows "token_ok us t"
  using assms unfolding token_ok_def by blast

lemma token_ok_users:
  assumes "token_ok us t" "\<And>u. u \<in> set us \<Longrightarrow> \<exists>v\<in>set vs. us_id v = us_id u \<and> (us_is_deleted v \<longrightarrow> us_is_deleted u)"
  shows "token_ok vs t"
  using assms unfolding token_ok_def by metis

lemma tokens_ok_users:
  assumes "tokens_ok us ts" "\<And>u. u \<in> set us \<Longrightarrow> \<exists>v\<in>set vs. us_id v = us_id u \<and> (us_is_deleted v \<longrightarrow> us_is_deleted u)"
  shows "tokens_ok vs ts"
  using assms token_ok_users unfolding tokens_ok_def list_all_iff by blast

lemma token_ok_revoked: "token_ok us t \<Longrightarrow> token_ok us (revoked_row now t)"
  by (auto simp: token_ok_def)

lemma tokens_ok_revoke_where:
  "tokens_ok us (adb_tokens d) \<Longrightarrow> tokens_ok us (adb_tokens (revoke_where now P d))"
  by (auto simp: tokens_ok_def revoke_where_def list_all_iff token_ok_revoked comp_def if_distrib cong: if_cong)

lemma users_ok_map:
  assumes "users_ok us" "map us_id vs = map us_id us" "map us_email vs = map us_email us"
  shows "users_ok vs"
proof -
  have "users_ok ws \<longleftrightarrow> distinct (map us_id ws) \<and> distinct (map us_email ws) \<and> list_all (\<lambda>e. py_lower e = e) (map us_email ws)" for ws
    by (auto simp: users_ok_def list_all_iff)
  then show ?thesis using assms by (simp only:)
qed

lemma auth_ok_edit:
  assumes ok: "auth_ok d" and k: "\<And>u. u \<in> set (adb_users d) \<Longrightarrow> user_key (f u) = user_key u"
  shows "auth_ok (edit_users f d)"
proof -
  have "map us_id (map f (adb_users d)) = map us_id (adb_users d)" "map us_email (map f (adb_users d)) = map us_email (adb_users d)"
    using k by (auto simp: user_key_def)
  then have "users_ok (map f (adb_users d))"
    using ok unfolding auth_ok_def by (blast intro: users_ok_map)
  moreover have "tokens_ok (map f (adb_users d)) (adb_tokens d)"
    using ok k unfolding auth_ok_def by (auto intro!: tokens_ok_users [of "adb_users d"] simp: user_key_def)
  ultimately show ?thesis by (simp add: auth_ok_def edit_users_def)
qed

lemma auth_ok_put_user:
  assumes ok: "auth_ok d" and u: "u \<in> set (adb_users d)"
    and i: "us_id u' = us_id u" "us_is_deleted u' = us_is_deleted u" "py_lower (us_email u') = us_email u'"
    and e: "\<not> email_of_another u (us_email u') d"
  shows "auth_ok (put_user u' d)"
proof -
  let ?f = "\<lambda>x. if us_id x = us_id u' then u' else x"
  have us: "adb_users (put_user u' d) = map ?f (adb_users d)" by (simp add: adb_users_put_user row_put_def)
  have other: "us_email x \<noteq> us_email u'" if "x \<in> set (adb_users d)" "us_id x \<noteq> us_id u'" for x
    using e that i by (auto simp: email_of_another_def list_ex_iff)
  have same: "x = y" if "x \<in> set (adb_users d)" "y \<in> set (adb_users d)" "us_email x = us_email y" for x y
    using that ok by (auto simp: auth_ok_def users_ok_def distinct_map inj_on_def)
  have "inj_on (\<lambda>x. us_email (?f x)) (set (adb_users d))"
    by (rule inj_onI) (metis other same same_id [OF ok] i(1) u)
  moreover have "distinct (adb_users d)" using auth_ok_ids [OF ok] by (simp add: distinct_map)
  ultimately have "distinct (map (\<lambda>x. us_email (?f x)) (adb_users d))" by (simp only: distinct_map simp_thms)
  then have emails: "distinct (map us_email (map ?f (adb_users d)))" by (simp only: map_map comp_def)
  have ids: "map us_id (map ?f (adb_users d)) = map us_id (adb_users d)" by auto
  have lower: "list_all (\<lambda>x. py_lower (us_email x) = us_email x) (map ?f (adb_users d))"
    using ok i(3) by (auto simp: auth_ok_def users_ok_def list_all_iff)
  have "users_ok (map ?f (adb_users d))"
    unfolding users_ok_def ids using auth_ok_ids [OF ok] emails lower by blast
  then have "users_ok (adb_users (put_user u' d))" by (simp add: us)
  moreover have "tokens_ok (adb_users (put_user u' d)) (adb_tokens d)"
    unfolding us
  proof (rule tokens_ok_users)
    show "tokens_ok (adb_users d) (adb_tokens d)" using ok by (simp add: auth_ok_def)
    fix x
    assume x: "x \<in> set (adb_users d)"
    then have "?f x \<in> set (map ?f (adb_users d))" by simp
    moreover have "us_id (?f x) = us_id x \<and> (us_is_deleted (?f x) \<longrightarrow> us_is_deleted x)"
      using same_id [OF ok u x] i by (auto split: if_splits)
    ultimately show "\<exists>v\<in>set (map ?f (adb_users d)). us_id v = us_id x \<and> (us_is_deleted v \<longrightarrow> us_is_deleted x)" by blast
  qed
  ultimately show ?thesis by (simp add: auth_ok_def)
qed

lemma not_of_another: "auth_ok d \<Longrightarrow> u \<in> set (adb_users d) \<Longrightarrow> us_email u' = us_email u \<Longrightarrow> \<not> email_of_another u (us_email u') d"
  by (auto simp: email_of_another_def list_ex_iff auth_ok_def users_ok_def distinct_map inj_on_def)

lemma auth_ok_leave:
  assumes ok: "auth_ok d" and u: "u \<in> set (adb_users d)" and u': "us_id u' = us_id u" "us_email u' = us_email u"
  shows "auth_ok (revoke_all_by_user_and_type now (us_id u) Tok_refresh (put_user u' d))"
proof -
  let ?f = "\<lambda>x. if us_id x = us_id u' then u' else x"
  have us: "adb_users (put_user u' d) = map ?f (adb_users d)" by (simp add: adb_users_put_user row_put_def)
  have "map us_id (map ?f (adb_users d)) = map us_id (adb_users d)" "map us_email (map ?f (adb_users d)) = map us_email (adb_users d)"
    using same_id [OF ok u] u' by auto
  then have uo: "users_ok (map ?f (adb_users d))"
    using ok unfolding auth_ok_def by (blast intro: users_ok_map)
  have "token_ok (map ?f (adb_users d))
      (if tk_user_id t = Some (us_id u) \<and> tk_type t = Tok_refresh \<and> \<not> tk_is_revoked t then revoked_row now t else t)"
    if t: "token_ok (adb_users d) t" for t
  proof -
    obtain v where v: "v \<in> set (adb_users d)" "tk_user_id t = Some (us_id v)"
      "tk_type t = Tok_refresh \<and> \<not> tk_is_revoked t \<longrightarrow> \<not> us_is_deleted v" using t unfolding token_ok_def by blast
    have w: "?f v \<in> set (map ?f (adb_users d))" using v(1) by simp
    have r: "tk_is_revoked t \<longleftrightarrow> tk_revoked_at t \<noteq> None" using t unfolding token_ok_def by blast
    show ?thesis
    proof (cases "us_id v = us_id u")
      case True
      show ?thesis by (rule token_okI [OF _ w]) (use True r v u' in \<open>auto split: if_splits\<close>)
    next
      case False
      then have "?f v = v" using u' by simp
      with w have "v \<in> set (map ?f (adb_users d))" by simp
      then show ?thesis by (rule token_okI [rotated]) (use False r v in \<open>auto split: if_splits\<close>)
    qed
  qed
  then have "tokens_ok (map ?f (adb_users d)) (adb_tokens (revoke_all_by_user_and_type now (us_id u) Tok_refresh (put_user u' d)))"
    using ok by (auto simp: adb_tokens_revoke_all auth_ok_def tokens_ok_def list_all_iff comp_def if_distrib cong: if_cong)
  with uo show ?thesis by (simp add: auth_ok_def us)
qed

lemma auth_ok_mint:
  assumes ok: "auth_ok d" and c: "create_token k now (us_id u) h type x d = Inr d'"
    and u: "u \<in> set (adb_users d)" "\<not> us_is_deleted u"
  shows "auth_ok d'"
  using ok u create_token_Inr [OF c] by (auto simp: auth_ok_def tokens_ok_def token_ok_def)

lemma auth_ok_join:
  assumes ok: "auth_ok d" and a: "add_user u d = Inr d'" and l: "py_lower (us_email u) = us_email u"
  shows "auth_ok d'"
proof -
  have "tokens_ok (adb_users d @ [u]) (adb_tokens d)"
    using ok by (auto simp: auth_ok_def intro!: tokens_ok_users [of "adb_users d"])
  then show ?thesis using ok l add_user_Inr [OF a] by (auto simp: auth_ok_def users_ok_def)
qed

lemma update_auth_ok: "update env q d d' \<Longrightarrow> auth_ok d \<Longrightarrow> auth_ok d'"
proof (induction rule: update.induct)
  case (promote u d r)
  then show ?case by (intro auth_ok_put_user [of _ u] not_of_another) (auto simp: auth_ok_def users_ok_def list_all_iff)
next
  case (revoking d P)
  then show ?case using tokens_ok_revoke_where [of "adb_users d" d] by (simp add: auth_ok_def revoke_where_def)
next
  case (purge d P)
  then show ?case by (auto simp: auth_ok_def tokens_ok_def list_all_iff distinct_map_filter)
next
  case (affiliates d a)
  then show ?case by (simp add: auth_ok_def)
qed (auto intro: auth_ok_edit auth_ok_put_user auth_ok_join auth_ok_leave auth_ok_mint)

lemma updates_auth_ok: "updates env q d d' \<Longrightarrow> auth_ok d \<Longrightarrow> auth_ok d'"
  by (induction rule: rtranclp_induct) (auto intro: update_auth_ok)

definition no_accounts :: "affiliate_db \<Rightarrow> auth_db" where
  "no_accounts a = \<lparr>adb_users = [], adb_tokens = [], adb_affiliates = a\<rparr>"

lemma no_accounts_ok: "auth_ok (no_accounts a)"
  by (simp add: no_accounts_def auth_ok_def users_ok_def tokens_ok_def)

interpretation accounts: invariant_system "\<lambda>d. \<exists>a. d = no_accounts a" "auth_step env" auth_ok for env
  by unfold_locales (auto simp: no_accounts_ok auth_step_def intro: updates_auth_ok auth_run_updates)

end
