(* ===== verification/Auth_Properties.thy ===== *)
theory Auth_Properties
  imports Auth_Invariant
begin

text \<open>
  What holds of accounts and sessions over all sequences of requests, what each way of signing in demands,
  and what password resets, suspensions and changes of the address leave behind.
\<close>

section \<open>Tokens\<close>

lemma same_hash: "auth_ok d \<Longrightarrow> t \<in> set (adb_tokens d) \<Longrightarrow> x \<in> set (adb_tokens d) \<Longrightarrow> tk_token x = tk_token t \<Longrightarrow> x = t"
  using distinct_map_eq [of tk_token "adb_tokens d" x t] by (simp add: auth_ok_def tokens_ok_def)

lemma same_email: "auth_ok d \<Longrightarrow> u \<in> set (adb_users d) \<Longrightarrow> x \<in> set (adb_users d) \<Longrightarrow> us_email x = us_email u \<Longrightarrow> x = u"
  using distinct_map_eq [of us_email "adb_users d" x u] by (simp add: auth_ok_def users_ok_def)

lemma find_unique:
  assumes "x \<in> set xs" "P x" "\<And>y. y \<in> set xs \<Longrightarrow> P y \<Longrightarrow> y = x"
  shows "find P xs = Some x"
proof -
  obtain y where y: "find P xs = Some y" using assms(1,2) by (cases "find P xs") (auto simp: find_None_iff)
  then have "y \<in> set xs \<and> P y" by (auto simp: find_Some_iff)
  with assms(3) y show ?thesis by simp
qed

lemma get_active_iff:
  "auth_ok d \<Longrightarrow> get_active d now h type = Some t \<longleftrightarrow> t \<in> set (adb_tokens d) \<and> tk_token t = h \<and> token_active now type t"
  using same_hash get_active_Some unfolding get_active_def by (metis (mono_tags, lifting) find_unique)

lemma get_by_id_iff:
  "auth_ok d \<Longrightarrow> get_by_id d k = Some u \<longleftrightarrow> u \<in> set (adb_users d) \<and> us_id u = k \<and> \<not> us_is_deleted u"
  using same_id get_by_id_Some unfolding get_by_id_def by (metis (mono_tags, lifting) find_unique)

lemma get_by_email_iff:
  "auth_ok d \<Longrightarrow> get_by_email d e = Some u \<longleftrightarrow> u \<in> set (adb_users d) \<and> us_email u = py_lower e \<and> \<not> us_is_deleted u"
  using same_email get_by_email_Some unfolding get_by_email_def by (metis (mono_tags, lifting) find_unique)

text \<open>
  Property C24. No two accounts share an identifier or an address, no two tokens a hash; every token is of
  an account, and an account that was deleted holds no refresh token that is not revoked, whatever requests
  ran before.
\<close>

theorem accounts_and_tokens:
  assumes "(auth_step env)\<^sup>*\<^sup>* (no_accounts a) d"
  shows "distinct (map us_id (adb_users d)) \<and> distinct (map us_email (adb_users d)) \<and> distinct (map tk_token (adb_tokens d))
    \<and> (\<forall>t\<in>set (adb_tokens d). \<exists>u\<in>set (adb_users d). tk_user_id t = Some (us_id u)
        \<and> (us_is_deleted u \<and> tk_type t = Tok_refresh \<longrightarrow> tk_is_revoked t))"
proof -
  have "auth_ok d" using accounts.reachable_inv assms by blast
  then show ?thesis unfolding auth_ok_def users_ok_def tokens_ok_def list_all_iff token_ok_def by blast
qed

section \<open>A spent token stays spent\<close>

definition spent :: "string \<Rightarrow> int \<Rightarrow> auth_db \<Rightarrow> bool" where
  "spent h r d \<longleftrightarrow> list_all (\<lambda>t. tk_token t = h \<longrightarrow> tk_is_revoked t \<and> tk_revoked_at t = Some r) (adb_tokens d)"

text \<open>A request that does not happen to draw a token with this hash.\<close>

definition auth_step_without :: "auth_env \<Rightarrow> string \<Rightarrow> auth_db \<Rightarrow> auth_db \<Rightarrow> bool" where
  "auth_step_without env h d d' \<longleftrightarrow> (\<exists>q c. d' = auth_run env q c d
     \<and> h \<noteq> ae_hash_token env (str_uuid (aq_token q)) \<and> h \<noteq> ae_hash_token env (str_uuid (aq_refresh q)))"

lemma update_spent:
  assumes "update env q d d'" "spent h r d"
    "h \<noteq> ae_hash_token env (str_uuid (aq_token q))" "h \<noteq> ae_hash_token env (str_uuid (aq_refresh q))"
  shows "spent h r d'"
  using assms
proof (induction rule: update.induct)
  case (join u d d')
  then show ?case using add_user_Inr [OF join(1)] by (simp add: spent_def)
next
  case (mint k u ht type x d d')
  then show ?case using create_token_Inr [OF mint(1)] by (auto simp: spent_def)
qed (auto simp: spent_def edit_users_def revoke_where_def adb_tokens_revoke_all list_all_iff)

lemma updates_spent:
  assumes "updates env q d d'" "spent h r d"
    "h \<noteq> ae_hash_token env (str_uuid (aq_token q))" "h \<noteq> ae_hash_token env (str_uuid (aq_refresh q))"
  shows "spent h r d'"
  using assms by (induction rule: rtranclp_induct) (auto intro: update_spent)

interpretation spending: invariant_system "\<lambda>d. auth_ok d \<and> spent h r d" "auth_step_without env h" "\<lambda>d. auth_ok d \<and> spent h r d"
  for env h r
  by unfold_locales (auto simp: auth_step_without_def intro: updates_spent auth_run_updates updates_auth_ok)

lemma spent_refused:
  assumes "spent (ae_hash_token env raw) r d" "r + grace_seconds * 10 ^ 6 < aq_now q" "raw \<noteq> []"
  shows "refresh_access_token env q (Some raw) d = http_failed 401 ''Invalid or expired refresh token.'' d"
proof -
  have "get_active d (aq_now q) (ae_hash_token env raw) Tok_refresh = None"
    using assms(1) by (auto simp: get_active_def find_None_iff spent_def list_all_iff token_active_def)
  moreover have "get_recently_revoked d (aq_now q) (ae_hash_token env raw) Tok_refresh = None"
    using assms(1,2) by (auto simp: get_recently_revoked_def find_None_iff spent_def list_all_iff recently_revoked_def)
  ultimately show ?thesis using assms(3) by (simp add: refresh_access_token_def)
qed

text \<open>
  Property C25. A refresh token that was rotated, logged out or revoked at some instant is refused for
  ever once 30 seconds have passed, after any sequence of requests none of which draws a token with the
  same hash; the refusal changes nothing.
\<close>

theorem revoked_token_stays_dead:
  assumes "auth_ok d" "t \<in> set (adb_tokens d)" "tk_token t = ae_hash_token env raw" "tk_revoked_at t = Some r"
    and "(auth_step_without env (ae_hash_token env raw))\<^sup>*\<^sup>* d d'"
    and "r + grace_seconds * 10 ^ 6 < aq_now q" "raw \<noteq> []"
  shows "refresh_access_token env q (Some raw) d' = http_failed 401 ''Invalid or expired refresh token.'' d'"
proof -
  have "tk_is_revoked t" using assms(1,2,4) by (auto simp: auth_ok_def tokens_ok_def list_all_iff token_ok_def)
  moreover have "x = t" if "x \<in> set (adb_tokens d)" "tk_token x = ae_hash_token env raw" for x
    using that assms(3) same_hash [OF assms(1,2)] by simp
  ultimately have "spent (ae_hash_token env raw) r d"
    using assms(4) unfolding spent_def list_all_iff by blast
  then have "spent (ae_hash_token env raw) r d'"
    using spending.steps_inv [OF assms(5)] assms(1) by blast
  with assms(6,7) show ?thesis by (intro spent_refused)
qed

end
