(* ===== verification/Auth_Security.thy ===== *)
theory Auth_Security
  imports Auth_Properties
begin

text \<open>
  What each way into an account demands, and what it leaves behind: sign-in, password reset, suspension,
  Google sign-in, the change of an address, deletion, roles and the origin of a request.
\<close>

section \<open>Sessions after a reset\<close>

definition fresh_session :: "auth_env \<Rightarrow> auth_rq \<Rightarrow> auth_db \<Rightarrow> bool" where
  "fresh_session env q d \<longleftrightarrow> \<not> list_ex (\<lambda>t. tk_id t = aq_refresh_id q \<or> tk_token t = ae_hash_token env (str_uuid (aq_refresh q))) (adb_tokens d)"

lemma new_refresh_token_fresh:
  assumes "fresh_session env q d" "0 < ae_refresh_days env"
  shows "\<exists>d'. new_refresh_token env q k d = Inr d' \<and> adb_users d' = adb_users d
    \<and> (\<exists>t. get_active d' (aq_now q) (ae_hash_token env (str_uuid (aq_refresh q))) Tok_refresh = Some t \<and> tk_user_id t = Some k)"
proof -
  have "find (\<lambda>t. tk_token t = ae_hash_token env (str_uuid (aq_refresh q)) \<and> token_active (aq_now q) Tok_refresh t) (adb_tokens d) = None"
    using assms(1) by (auto simp: fresh_session_def find_None_iff list_ex_iff)
  moreover have "find P (xs @ ys) = (case find P xs of None \<Rightarrow> find P ys | Some x \<Rightarrow> Some x)" for P and xs ys :: "token list"
    by (induction xs) simp_all
  ultimately show ?thesis
    using assms by (simp add: new_refresh_token_def create_token_def fresh_session_def get_active_def token_active_def minutes_def)
qed

lemma grace_revives:
  assumes ok: "auth_ok d" and t: "t \<in> set (adb_tokens d)" "tk_token t = ae_hash_token env raw" "tk_type t = Tok_refresh"
    "tk_revoked_at t = Some r" "aq_now q \<le> r + grace_seconds * 10 ^ 6" and raw: "raw \<noteq> []"
    and u: "owner_of d t = Some u" and fresh: "fresh_session env q d" "0 < ae_refresh_days env"
  shows "is_ok (ao_result (refresh_access_token env q (Some raw) d))
    \<and> (\<exists>x. get_active (ao_db (refresh_access_token env q (Some raw) d)) (aq_now q)
        (ae_hash_token env (str_uuid (aq_refresh q))) Tok_refresh = Some x \<and> tk_user_id x = Some (us_id u))"
proof -
  have rev: "tk_is_revoked t" using ok t(1,4) by (auto simp: auth_ok_def tokens_ok_def list_all_iff token_ok_def)
  have "get_active d (aq_now q) (ae_hash_token env raw) Tok_refresh = None"
  proof (rule ccontr)
    assume "get_active d (aq_now q) (ae_hash_token env raw) Tok_refresh \<noteq> None"
    then obtain x where x: "x \<in> set (adb_tokens d)" "tk_token x = ae_hash_token env raw" "\<not> tk_is_revoked x"
      using get_active_Some by (fastforce simp: token_active_def)
    with same_hash [OF ok t(1) x(1)] t(2) rev show False by simp
  qed
  moreover have "get_recently_revoked d (aq_now q) (ae_hash_token env raw) Tok_refresh = Some t"
    unfolding get_recently_revoked_def
  proof (rule find_unique [OF t(1)])
    show "tk_token t = ae_hash_token env raw \<and> tk_type t = Tok_refresh \<and> recently_revoked (aq_now q) t"
      using t rev by (simp add: recently_revoked_def)
    show "y = t" if "y \<in> set (adb_tokens d)" "tk_token y = ae_hash_token env raw \<and> tk_type y = Tok_refresh \<and> recently_revoked (aq_now q) y" for y
      using same_hash [OF ok t(1) that(1)] that(2) t(2) by simp
  qed
  ultimately show ?thesis
    using u raw new_refresh_token_fresh [OF fresh, of "us_id u"] by (auto simp: refresh_access_token_def refreshed_def)
qed

lemma revoke_all_member:
  "t \<in> set (adb_tokens d) \<Longrightarrow> tk_user_id t = Some k \<Longrightarrow> tk_type t = type \<Longrightarrow> \<not> tk_is_revoked t \<Longrightarrow>
     revoked_row now t \<in> set (adb_tokens (revoke_all_by_user_and_type now k type d))"
  by (auto simp: adb_tokens_revoke_all image_iff intro!: bexI [of _ t])

lemma list_ex_map_same: "(\<And>x. P (f x) \<longleftrightarrow> P x) \<Longrightarrow> list_ex P (map f xs) = list_ex P xs"
  by (induction xs) simp_all

lemma fresh_session_revoke_all [simp]: "fresh_session env q (revoke_all_by_user_and_type now k type d) = fresh_session env q d"
  unfolding fresh_session_def adb_tokens_revoke_all by (subst list_ex_map_same) simp_all

lemma fresh_session_revoke: "t \<in> set (adb_tokens d) \<Longrightarrow> fresh_session env q d \<Longrightarrow> fresh_session env q (revoke now t d)"
  unfolding fresh_session_def adb_tokens_revoke list_ex_iff row_put_def by auto

lemma fresh_session_put_user [simp]: "fresh_session env q (put_user u d) = fresh_session env q d"
  by (simp add: fresh_session_def)

lemma owner_after_put:
  assumes ok: "auth_ok (put_user u' d)" and u: "u \<in> set (adb_users d)" "\<not> us_is_deleted u'" "us_id u' = us_id u"
    and t: "tk_user_id t = Some (us_id u)" and d': "adb_users d' = adb_users (put_user u' d)"
  shows "owner_of d' t = Some u'"
proof -
  have "get_by_id (put_user u' d) (us_id u) = Some u'"
    using get_by_id_iff [OF ok] put_user_members [OF u(1,3)] u(2,3) by blast
  then show ?thesis by (simp add: owner_of_def t get_by_id_def d')
qed

text \<open>
  A password reset revokes every refresh token of the account, but presenting one of them
  within 30 seconds of the reset opens a new session that lives as long as any other: whoever held a
  session of the account keeps it.
\<close>

theorem reset_leaves_sessions_open:
  assumes ok: "auth_ok d" and reset: "ao_result (reset_password env q code password d) = Inr m"
    and s: "get_active d (aq_now q) (ae_hash_token env code) Tok_reset_password = Some s" "tk_user_id s = tk_user_id t"
    and t: "t \<in> set (adb_tokens d)" "tk_token t = ae_hash_token env raw" "token_active (aq_now q) Tok_refresh t" "raw \<noteq> []"
    and soon: "aq_now q' \<le> aq_now q + grace_seconds * 10 ^ 6"
    and fresh: "fresh_session env q' d" "0 < ae_refresh_days env"
  shows "tk_revoked_at (the (find (\<lambda>x. tk_id x = tk_id t) (adb_tokens (ao_db (reset_password env q code password d))))) = Some (aq_now q)
    \<and> is_ok (ao_result (refresh_access_token env q' (Some raw) (ao_db (reset_password env q code password d))))
    \<and> (\<exists>x. get_active (ao_db (refresh_access_token env q' (Some raw) (ao_db (reset_password env q code password d)))) (aq_now q')
        (ae_hash_token env (str_uuid (aq_refresh q'))) Tok_refresh = Some x \<and> tk_user_id x = tk_user_id t)"
proof -
  obtain u h where u: "owner_of d s = Some u" and h: "ae_hashpw env (aq_salt q) password = Inr h"
    using reset s by (auto simp: reset_password_def http_raise_def split: option.splits sum.splits)
  define u' where "u' = u \<lparr>us_hashed_password := h, us_has_usable_password := True\<rparr>"
  define d1 where "d1 = revoke (aq_now q) s (put_user u' d)"
  define d' where "d' = ao_db (reset_password env q code password d)"
  have d': "d' = revoke_all_by_user_and_type (aq_now q) (us_id u) Tok_refresh d1"
    using s u h by (simp add: d'_def d1_def u'_def reset_password_def)
  have ok': "auth_ok d'" unfolding d'_def by (rule updates_auth_ok [OF updates_reset_password [OF ok] ok])
  have us: "u \<in> set (adb_users d)" "tk_user_id s = Some (us_id u)" "\<not> us_is_deleted u" using owner_of_Some [OF u] by simp_all
  have st: "s \<in> set (adb_tokens d)" "tk_type s = Tok_reset_password" using get_active_Some [OF s(1)] by (simp_all add: token_active_def)
  have tt: "tk_type t = Tok_refresh" "\<not> tk_is_revoked t" using t(3) by (simp_all add: token_active_def)
  have "tk_id s \<noteq> tk_id t" using same_token [OF ok t(1) st(1)] st(2) tt(1) by auto
  then have "t \<in> set (adb_tokens d1)" using t(1) by (force simp: d1_def adb_tokens_revoke row_put_def)
  then have t': "revoked_row (aq_now q) t \<in> set (adb_tokens d')"
    unfolding d' using revoke_all_member [of t d1 "us_id u"] us(2) s(2) tt by simp
  have uk: "auth_ok (put_user u' d)"
    using update_put_user [OF ok us(1), of u'] by (rule update_auth_ok [OF _ ok]) (simp_all add: u'_def user_key_def)
  have own: "owner_of d' (revoked_row (aq_now q) t) = Some u'"
    by (rule owner_after_put [OF uk us(1)]) (use us s(2) in \<open>simp_all add: u'_def d' d1_def\<close>)
  have "fresh_session env q' d'"
    unfolding d' d1_def using fresh(1) st(1) by (simp add: fresh_session_revoke)
  then have g: "is_ok (ao_result (refresh_access_token env q' (Some raw) d'))"
    "\<exists>x. get_active (ao_db (refresh_access_token env q' (Some raw) d')) (aq_now q')
        (ae_hash_token env (str_uuid (aq_refresh q'))) Tok_refresh = Some x \<and> tk_user_id x = Some (us_id u')"
    using grace_revives [OF ok' t' _ _ _ _ t(4) own] t(2) tt soon fresh(2) by simp_all
  have "find (\<lambda>x. tk_id x = tk_id t) (adb_tokens d') = Some (revoked_row (aq_now q) t)"
    using same_token [OF ok' t'] by (intro find_unique [OF t']) simp_all
  with g show ?thesis using us(2) s(2) by (simp add: u'_def d'_def [symmetric])
qed

section \<open>A concrete environment\<close>

text \<open>Hashes that keep their text, access tokens that are the identifier of the user, a Google that vouches for one address.\<close>

definition demo_auth :: auth_env where
  "demo_auth = \<lparr>ae_hash_token = (\<lambda>s. s), ae_hashpw = (\<lambda>_ p. Inr p), ae_checkpw = (\<lambda>p h. Some (p = h)),
     ae_dummy_hash = [], ae_jwt_encode = (\<lambda>c. case dict_get c ''sub'' of PStr s \<Rightarrow> s | _ \<Rightarrow> []),
     ae_jwt_decode = (\<lambda>_ s. Some [(''sub'', PStr s), (''typ'', PStr ''access'')]),
     ae_google = (\<lambda>_. Google_reply 200 [(''aud'', PStr ''client''), (''email_verified'', PBool True), (''email'', PStr ''a'')]),
     ae_google_client_id = ''client'', ae_access_minutes = 30, ae_refresh_days = 30, ae_reset_minutes = 15,
     ae_verify_hours = 24, ae_billing_enforced = True\<rparr>"

definition demo_rq :: "int \<Rightarrow> uuid \<Rightarrow> auth_rq" where
  "demo_rq now k = \<lparr>aq_now = now, aq_token = k, aq_token_id = k, aq_refresh = k + 1, aq_refresh_id = k + 1,
     aq_user_id = k, aq_salt = 0, aq_password = k, aq_choice = (\<lambda>_ _. 0), aq_seed = Seed_ok, aq_queue_answers = True\<rparr>"

definition demo_user :: user where
  "demo_user = (new_user 7 0 ''a'' ''old'' None Prov_email True) \<lparr>us_is_email_verified := True\<rparr>"

definition demo_token :: "uuid \<Rightarrow> string \<Rightarrow> token_type \<Rightarrow> token" where
  "demo_token k hashed type = \<lparr>tk_id = k, tk_token = hashed, tk_type = type, tk_expires_at = 10 ^ 9, tk_user_id = Some 7,
     tk_is_revoked = False, tk_revoked_at = None, tk_created_at = 0\<rparr>"

definition no_affiliates :: affiliate_db where
  "no_affiliates = \<lparr>ad_settings = None, ad_profiles = [], ad_attributions = [], ad_commissions = [], ad_audit = []\<rparr>"

definition demo_accounts :: "token list \<Rightarrow> auth_db" where
  "demo_accounts ts = \<lparr>adb_users = [demo_user], adb_tokens = ts, adb_affiliates = no_affiliates\<rparr>"

lemmas demo_auth_defs = demo_auth_def demo_rq_def demo_user_def demo_token_def demo_accounts_def new_user_def

definition demo_session :: auth_db where
  "demo_session = demo_accounts [demo_token 1 ''session'' Tok_refresh, demo_token 2 ''code'' Tok_reset_password]"

lemma py_lower_a: "py_lower ''a'' = ''a''"
  by code_simp

lemma demo_session_ok: "auth_ok demo_session"
  by (simp add: auth_ok_def users_ok_def tokens_ok_def token_ok_def demo_session_def demo_auth_defs py_lower_a)

lemma str_uuid_length: "length (str_uuid u) = 36"
  by (simp add: str_uuid_def Let_def uuid_hex_def)

lemma demo_hashes: "str_uuid u \<noteq> ''session''" "str_uuid u \<noteq> ''code''" "''session'' \<noteq> str_uuid u" "''code'' \<noteq> str_uuid u"
proof -
  have n: "str_uuid u \<noteq> s" if "length s \<noteq> 36" for s using that str_uuid_length [of u] by blast
  show "str_uuid u \<noteq> ''session''" "str_uuid u \<noteq> ''code''" by (rule n, simp)+
  show "''session'' \<noteq> str_uuid u" "''code'' \<noteq> str_uuid u" by (rule not_sym, rule n, simp)+
qed

theorem reset_leaves_sessions_open_witness:
  "is_ok (ao_result (refresh_access_token demo_auth (demo_rq 20 8) (Some ''session'')
     (ao_db (reset_password demo_auth (demo_rq 10 5) ''code'' ''new'' demo_session))))"
  using reset_leaves_sessions_open [OF demo_session_ok, of demo_auth "demo_rq 10 5" "''code''" "''new''"
      "''Password reset successfully. Please log in.''" "demo_token 2 ''code'' Tok_reset_password"
      "demo_token 1 ''session'' Tok_refresh"
      "''session''" "demo_rq 20 8"]
  by (simp add: reset_password_def get_active_def token_active_def owner_of_def get_by_id_def demo_session_def demo_auth_defs
      grace_seconds_def fresh_session_def demo_hashes)

section \<open>Signing in\<close>

lemma issue_session_fresh:
  assumes "fresh_session env q d" "0 < ae_refresh_days env"
  shows "is_ok (ao_result (issue_session env q u d)) \<and> adb_users (ao_db (issue_session env q u d)) = adb_users d
    \<and> ao_cookie (issue_session env q u d) = Some (refresh_cookie env (str_uuid (aq_refresh q)))
    \<and> (\<exists>t. get_active (ao_db (issue_session env q u d)) (aq_now q) (ae_hash_token env (str_uuid (aq_refresh q))) Tok_refresh = Some t
        \<and> tk_user_id t = Some (us_id u))"
  using new_refresh_token_fresh [OF assms, of "us_id u"] by (auto simp: issue_session_def)

definition may_log_in :: "auth_env \<Rightarrow> string \<Rightarrow> string \<Rightarrow> user \<Rightarrow> bool" where
  "may_log_in env e password u \<longleftrightarrow> us_email u = py_lower e \<and> \<not> us_is_deleted u
     \<and> verify_password env password (us_hashed_password u) \<and> us_is_email_verified u \<and> \<not> us_is_suspended u"

text \<open>
  Property C26. A password login opens a session exactly for the account of the address that is not deleted,
  whose password it is, whose address is verified and which is not suspended; then the cookie holds a stored
  and live refresh token of that account. Otherwise nothing is stored and no cookie is set, and an unknown
  address is answered as a wrong password is.
\<close>

theorem login_correct:
  assumes ok: "auth_ok d" and fresh: "fresh_session env q d" "0 < ae_refresh_days env"
  shows "(is_ok (ao_result (login env q e password d)) \<longleftrightarrow> list_ex (may_log_in env e password) (adb_users d))
    \<and> (if list_ex (may_log_in env e password) (adb_users d)
       then \<exists>u t. u \<in> set (adb_users d) \<and> us_email u = py_lower e
          \<and> ao_cookie (login env q e password d) = Some (refresh_cookie env (str_uuid (aq_refresh q)))
          \<and> get_active (ao_db (login env q e password d)) (aq_now q) (ae_hash_token env (str_uuid (aq_refresh q))) Tok_refresh = Some t
          \<and> tk_user_id t = Some (us_id u)
       else ao_db (login env q e password d) = d \<and> ao_cookie (login env q e password d) = None)
    \<and> (list_ex (\<lambda>u. us_email u = py_lower e \<and> \<not> us_is_deleted u \<and> verify_password env password (us_hashed_password u)) (adb_users d)
       \<or> login env q e password d = http_failed 401 ''Incorrect email or password.'' d)"
proof (cases "get_by_email d e")
  case None
  then have "\<not> list_ex (may_log_in env e password) (adb_users d)"
    by (auto simp: get_by_email_def find_None_iff list_ex_iff may_log_in_def)
  with None show ?thesis by (simp add: login_def http_raise_def http_failed_def Let_def)
next
  case (Some u)
  then have u: "u \<in> set (adb_users d)" "us_email u = py_lower e" "\<not> us_is_deleted u" using get_by_email_Some by blast+
  have "x = u" if "x \<in> set (adb_users d)" "us_email x = py_lower e" for x
    using same_email [OF ok u(1) that(1)] that(2) u(2) by simp
  then have ex: "list_ex P (adb_users d) \<longleftrightarrow> P u" if "\<And>x. P x \<Longrightarrow> us_email x = py_lower e" for P
    using that u(1) unfolding list_ex_iff by metis
  let ?known = "\<lambda>x. us_email x = py_lower e \<and> \<not> us_is_deleted x \<and> verify_password env password (us_hashed_password x)"
  have ex1: "list_ex (may_log_in env e password) (adb_users d) \<longleftrightarrow> may_log_in env e password u"
    by (rule ex) (simp add: may_log_in_def)
  have ex2: "list_ex ?known (adb_users d) \<longleftrightarrow> ?known u" by (rule ex) simp
  show ?thesis
  proof (cases "may_log_in env e password u")
    case True
    then have "login env q e password d = issue_session env q u d"
      using Some by (simp add: login_def may_log_in_def)
    with True ex1 ex2 u issue_session_fresh [OF fresh, of u] show ?thesis by (auto simp: may_log_in_def)
  next
    case False
    then have "\<not> is_ok (ao_result (login env q e password d)) \<and> ao_db (login env q e password d) = d
        \<and> ao_cookie (login env q e password d) = None"
      and "verify_password env password (us_hashed_password u) \<or> login env q e password d = http_failed 401 ''Incorrect email or password.'' d"
      using Some u by (auto simp: login_def may_log_in_def http_raise_def)
    with False ex1 ex2 u show ?thesis by simp
  qed
qed

text \<open>A bcrypt hash is accepted with the password it was made from.\<close>

definition bcrypt_ok :: "auth_env \<Rightarrow> bool" where
  "bcrypt_ok env \<longleftrightarrow> (\<forall>salt p h. ae_hashpw env salt p = Inr h \<longrightarrow> ae_checkpw env p h = Some True)"

lemma verify_hashed: "bcrypt_ok env \<Longrightarrow> ae_hashpw env salt p = Inr h \<Longrightarrow> verify_password env p h"
  by (simp add: bcrypt_ok_def verify_password_def)

lemma login_works:
  assumes "auth_ok d" "fresh_session env q d" "0 < ae_refresh_days env" "u \<in> set (adb_users d)" "may_log_in env e password u"
  shows "is_ok (ao_result (login env q e password d))"
  using login_correct [OF assms(1-3)] assms(4,5) by (auto simp: list_ex_iff)

definition fresh_link :: "auth_env \<Rightarrow> auth_rq \<Rightarrow> auth_db \<Rightarrow> bool" where
  "fresh_link env q d \<longleftrightarrow> \<not> list_ex (\<lambda>t. tk_id t = aq_token_id q \<or> tk_token t = ae_hash_token env (str_uuid (aq_token q))) (adb_tokens d)"

lemma create_link_fresh:
  assumes "fresh_link env q d"
  shows "create_token (aq_token_id q) now k (ae_hash_token env (str_uuid (aq_token q))) ty x
    (revoke_all_by_user_and_type now' k' ty' d) \<noteq> Inl err"
  using assms unfolding fresh_link_def create_token_def adb_tokens_revoke_all
  by (subst list_ex_map_same) simp_all

text \<open>
  Neither asking for a password reset nor asking for a verification link tells whether the
  address is known: with a token that was not drawn before, the answer is the same in every database.
\<close>

theorem answers_hide_accounts:
  assumes "fresh_link env q d"
  shows "ao_result (forgot_password env q e d) = Inr forgot_message \<and> ao_result (resend_verification env q e d) = Inr resend_message"
proof -
  have "ao_result (forgot_password env q e d) = Inr forgot_message"
    using create_link_fresh [OF assms] by (auto simp: forgot_password_def Let_def split: option.split sum.split)
  moreover have "ao_result (resend_verification env q e d) = Inr resend_message"
    using create_link_fresh [OF assms] by (auto simp: resend_verification_def Let_def split: option.split sum.split)
  ultimately show ?thesis ..
qed

section \<open>The effect of a reset\<close>

lemma reset_password_Inr:
  assumes "ao_result (reset_password env q code password d) = Inr m"
  obtains s u h where "get_active d (aq_now q) (ae_hash_token env code) Tok_reset_password = Some s" "owner_of d s = Some u"
    "ae_hashpw env (aq_salt q) password = Inr h"
    "ao_db (reset_password env q code password d) = revoke_all_by_user_and_type (aq_now q) (us_id u) Tok_refresh
      (revoke (aq_now q) s (put_user (u \<lparr>us_hashed_password := h, us_has_usable_password := True\<rparr>) d))"
proof -
  obtain s where s: "get_active d (aq_now q) (ae_hash_token env code) Tok_reset_password = Some s"
    using assms by (cases "get_active d (aq_now q) (ae_hash_token env code) Tok_reset_password") (simp_all add: reset_password_def http_raise_def)
  obtain u where u: "owner_of d s = Some u"
    using assms s by (cases "owner_of d s") (simp_all add: reset_password_def http_raise_def)
  obtain h where h: "ae_hashpw env (aq_salt q) password = Inr h"
    using assms s u by (cases "ae_hashpw env (aq_salt q) password") (simp_all add: reset_password_def)
  show ?thesis by (rule that [OF s u h]) (simp add: reset_password_def s u h)
qed

lemma no_active_after_revoke_all:
  "list_all (\<lambda>t. \<not> (tk_user_id t = Some k \<and> token_active now' type t)) (adb_tokens (revoke_all_by_user_and_type now k type d))"
  by (simp add: adb_tokens_revoke_all list_all_iff token_active_def ball_Un)

text \<open>
  After a password reset the account is entered with the new password, the link of the reset
  does not work a second time, and no refresh token of the account is active any more.
\<close>

theorem reset_takes_effect:
  assumes ok: "auth_ok d" and reset: "ao_result (reset_password env q code password d) = Inr m"
    and s: "get_active d (aq_now q) (ae_hash_token env code) Tok_reset_password = Some s" "owner_of d s = Some u"
    and standing: "us_is_email_verified u" "\<not> us_is_suspended u"
    and bcrypt: "bcrypt_ok env" and fresh: "fresh_session env q' d" "0 < ae_refresh_days env"
  shows "is_ok (ao_result (login env q' (us_email u) password (ao_db (reset_password env q code password d))))
    \<and> reset_password env q'' code password' (ao_db (reset_password env q code password d))
        = http_failed 400 ''Invalid or expired reset token.'' (ao_db (reset_password env q code password d))
    \<and> list_all (\<lambda>t. \<not> (tk_user_id t = Some (us_id u) \<and> token_active now Tok_refresh t))
        (adb_tokens (ao_db (reset_password env q code password d)))"
proof -
  obtain s' u' h where r: "get_active d (aq_now q) (ae_hash_token env code) Tok_reset_password = Some s'" "owner_of d s' = Some u'"
    and h: "ae_hashpw env (aq_salt q) password = Inr h"
    and db: "ao_db (reset_password env q code password d) = revoke_all_by_user_and_type (aq_now q) (us_id u') Tok_refresh
      (revoke (aq_now q) s' (put_user (u' \<lparr>us_hashed_password := h, us_has_usable_password := True\<rparr>) d))"
    using reset by (rule reset_password_Inr)
  have [simp]: "s' = s" "u' = u" using r s by simp_all
  define v where "v = u \<lparr>us_hashed_password := h, us_has_usable_password := True\<rparr>"
  define d' where "d' = ao_db (reset_password env q code password d)"
  have d': "d' = revoke_all_by_user_and_type (aq_now q) (us_id u) Tok_refresh (revoke (aq_now q) s (put_user v d))"
    using db by (simp add: d'_def v_def)
  have ok': "auth_ok d'" unfolding d'_def by (rule updates_auth_ok [OF updates_reset_password [OF ok] ok])
  have u: "u \<in> set (adb_users d)" "\<not> us_is_deleted u" using owner_of_Some [OF s(2)] by simp_all
  have st: "s \<in> set (adb_tokens d)" "tk_token s = ae_hash_token env code" "tk_type s = Tok_reset_password" "\<not> tk_is_revoked s"
    using get_active_Some [OF s(1)] by (simp_all add: token_active_def)
  have "v \<in> set (adb_users d')" using put_user_members [OF u(1), of v] by (simp add: d' v_def)
  moreover have "us_email v = py_lower (us_email u)"
    using ok u(1) by (auto simp: v_def auth_ok_def users_ok_def list_all_iff)
  then have "may_log_in env (us_email u) password v"
    using u standing verify_hashed [OF bcrypt h] by (simp add: may_log_in_def v_def)
  moreover have "fresh_session env q' d'" using fresh(1) st(1) by (simp add: d' fresh_session_revoke)
  ultimately have l: "is_ok (ao_result (login env q' (us_email u) password d'))"
    using login_works [OF ok' _ fresh(2)] by blast
  have "revoked_row (aq_now q) s \<in> set (adb_tokens d')"
    using st by (force simp: d' adb_tokens_revoke_all adb_tokens_revoke row_put_def image_iff)
  then have "get_active d' (aq_now q'') (ae_hash_token env code) Tok_reset_password \<noteq> Some x" for x
    using same_hash [OF ok', of "revoked_row (aq_now q) s" x] st(2) unfolding get_active_iff [OF ok'] token_active_def
    by (metis revoked_row_simps(2) revoked_row_simps(5))
  then have "get_active d' (aq_now q'') (ae_hash_token env code) Tok_reset_password = None" by (meson option.exhaust)
  then have "reset_password env q'' code password' d' = http_failed 400 ''Invalid or expired reset token.'' d'"
    by (simp add: reset_password_def)
  moreover have "list_all (\<lambda>t. \<not> (tk_user_id t = Some (us_id u) \<and> token_active now Tok_refresh t)) (adb_tokens d')"
    unfolding d' by (rule no_active_after_revoke_all)
  ultimately show ?thesis using l unfolding d'_def by blast
qed

section \<open>Suspension\<close>

lemma managed_Inr:
  assumes "ao_result (managed actor k change d) = Inr r"
  obtains u where "get_by_id d k = Some u" "assert_can_manage actor u = Inr ()" "ao_db (managed actor k change d) = change u"
  using assms by (auto simp: managed_def http_raise_def split: option.splits sum.splits)

text \<open>
  No access token gives a request a user that is deleted, suspended or not verified; in
  particular, once an administrator suspended an account, no access token, whenever it was issued and however
  long it is still valid, is accepted as that user.
\<close>

theorem suspended_users_are_locked_out:
  "(resolve_current_user env now access d = Inr u \<longrightarrow> u \<in> set (adb_users d) \<and> \<not> us_is_deleted u \<and> \<not> us_is_suspended u
      \<and> us_is_email_verified u)
   \<and> (auth_ok d \<and> ao_result (suspend_user now' actor k reason d) = Inr r
      \<and> resolve_current_user env now access (ao_db (suspend_user now' actor k reason d)) = Inr v \<longrightarrow> us_id v \<noteq> k)"
proof (intro conjI impI)
  assume a: "auth_ok d \<and> ao_result (suspend_user now' actor k reason d) = Inr r
      \<and> resolve_current_user env now access (ao_db (suspend_user now' actor k reason d)) = Inr v"
  obtain u where u: "get_by_id d k = Some u" and db: "ao_db (suspend_user now' actor k reason d) =
      create_audit_event (us_id actor) (us_id u) ''user.suspended'' (Some reason) (revoke_all_by_user_and_type now' (us_id u) Tok_refresh
        (put_user (u \<lparr>us_is_suspended := True, us_suspended_at := Some now', us_suspension_reason := Some reason\<rparr>) d))"
    using a unfolding suspend_user_def by (blast elim: managed_Inr)
  have k: "us_id u = k" using get_by_id_Some [OF u] by simp
  have v: "v \<in> set (adb_users (ao_db (suspend_user now' actor k reason d)))" "\<not> us_is_suspended v"
    using resolve_Some a by blast+
  show "us_id v \<noteq> k"
    using v k by (auto simp: db adb_users_put_user row_put_def split: if_splits)
qed (use resolve_Some in blast)+

text \<open>
  Signing in with Google does not look at a suspension: the suspended account that no password
  opens is given a session and an active refresh token.
\<close>

theorem google_ignores_suspension:
  assumes ok: "auth_ok d" and u: "u \<in> set (adb_users d)" "us_is_suspended u" "\<not> us_is_deleted u"
    and claims: "verify_google_id_token env id_token = Inr claims" "dict_get claims ''email'' = PStr e" "py_lower e = us_email u"
    and fresh: "fresh_session env q d" "0 < ae_refresh_days env"
  shows "is_ok (ao_result (google_auth env q id_token code source campaign d))
    \<and> (\<exists>t. get_active (ao_db (google_auth env q id_token code source campaign d)) (aq_now q)
        (ae_hash_token env (str_uuid (aq_refresh q))) Tok_refresh = Some t \<and> tk_user_id t = Some (us_id u))
    \<and> \<not> is_ok (ao_result (login env q (us_email u) password d))"
proof -
  have lower: "py_lower (us_email u) = us_email u" using ok u(1) by (auto simp: auth_ok_def users_ok_def list_all_iff)
  have g: "get_by_email d (py_lower e) = Some u" using ok u claims(3) lower by (simp add: get_by_email_iff)
  have "us_email x \<noteq> us_email u" if "x \<in> set (adb_users d)" "\<not> us_is_suspended x" for x
    using same_email [OF ok u(1) that(1)] that(2) u(2) by blast
  then have "\<not> list_ex (may_log_in env (us_email u) password) (adb_users d)"
    using lower by (auto simp: list_ex_iff may_log_in_def)
  then have "\<not> is_ok (ao_result (login env q (us_email u) password d))"
    using login_correct [OF ok fresh] by blast
  moreover define v where "v = (if us_is_email_verified u then u else u \<lparr>us_is_email_verified := True\<rparr>)"
  define d1 where "d1 = (if us_is_email_verified u then d else put_user v d)"
  have "google_auth env q id_token code source campaign d = issue_session env q v d1"
    using g claims by (simp add: google_auth_def Let_def v_def d1_def)
  moreover have "fresh_session env q d1" using fresh(1) by (simp add: d1_def)
  moreover have "us_id v = us_id u" by (simp add: v_def)
  ultimately show ?thesis using issue_session_fresh [of env q d1 v] fresh(2) by simp
qed

section \<open>Roles\<close>

definition role_from :: "auth_db \<Rightarrow> user \<Rightarrow> bool" where
  "role_from d u \<longleftrightarrow> us_platform_role u = Role_user \<or> (\<exists>x\<in>set (adb_users d). us_id x = us_id u \<and> us_platform_role x = us_platform_role u)"

definition no_super :: "auth_db \<Rightarrow> bool" where
  "no_super d \<longleftrightarrow> list_all (\<lambda>u. us_platform_role u \<noteq> Role_super_admin) (adb_users d)"

lemma put_user_role_from:
  assumes "u \<in> set (adb_users d)" "us_id u' = us_id u" "us_platform_role u' = us_platform_role u" "x \<in> set (adb_users (put_user u' d))"
  shows "role_from d x"
  using assms by (auto simp: role_from_def adb_users_put_user row_put_def split: if_splits)

lemma update_role_from:
  assumes "update env q d d'" "no_super d" "x \<in> set (adb_users d')"
  shows "role_from d x"
  using assms
proof (induction rule: update.induct)
  case (promote u d r)
  then show ?case by (auto simp: no_super_def list_all_iff)
next
  case (rename u d e)
  then show ?case by (intro put_user_role_from [of u d _ x]) auto
next
  case (join u d d')
  then show ?case using add_user_Inr [OF join(1)] by (auto simp: role_from_def)
next
  case (leave u d)
  then show ?case by (intro put_user_role_from [of u d _ x]) auto
next
  case (mint k u h type ex d d')
  then show ?case using create_token_Inr [OF mint(1)] by (auto simp: role_from_def)
qed (auto simp: role_from_def edit_users_def revoke_where_def user_key_def)

lemma role_from_no_super: "no_super d \<Longrightarrow> (\<And>x. x \<in> set (adb_users d') \<Longrightarrow> role_from d x) \<Longrightarrow> no_super d'"
  unfolding no_super_def list_all_iff role_from_def by (metis platform_role.distinct(5))

lemma updates_role_from:
  assumes "updates env q d d'" "no_super d"
  shows "no_super d' \<and> (\<forall>x\<in>set (adb_users d'). role_from d x)"
  using assms
proof (induction rule: rtranclp_induct)
  case base
  then show ?case by (auto simp: role_from_def)
next
  case (step d1 d2)
  then have n: "no_super d1" and f: "\<forall>x\<in>set (adb_users d1). role_from d x" by simp_all
  have "role_from d x" if "x \<in> set (adb_users d2)" for x
    using update_role_from [OF step(2) n that] f unfolding role_from_def by metis
  moreover have "no_super d2" using role_from_no_super [OF n] update_role_from [OF step(2) n] by blast
  ultimately show ?case by blast
qed

text \<open>
  While no super administrator exists, no sequence of requests gives anyone a role: every
  account has the role it started with, new accounts are plain users.
\<close>

theorem roles_need_a_super_admin:
  assumes "(auth_step env)\<^sup>*\<^sup>* d d'" "auth_ok d" "\<not> list_ex (\<lambda>u. us_platform_role u = Role_super_admin) (adb_users d)"
  shows "list_all (\<lambda>u. us_platform_role u = Role_user
    \<or> list_ex (\<lambda>x. us_id x = us_id u \<and> us_platform_role x = us_platform_role u) (adb_users d)) (adb_users d')"
proof -
  have "no_super d" using assms(3) by (simp add: no_super_def list_all_iff list_ex_iff)
  from assms(1,2) this have "auth_ok d' \<and> no_super d' \<and> (\<forall>x\<in>set (adb_users d'). role_from d x)"
  proof (induction rule: rtranclp_induct)
    case base
    then show ?case by (auto simp: role_from_def)
  next
    case (step d1 d2)
    then have ok: "auth_ok d1" and n: "no_super d1" and f: "\<forall>x\<in>set (adb_users d1). role_from d x" by simp_all
    obtain q c where "d2 = auth_run env q c d1" using step(2) by (auto simp: auth_step_def)
    then have u: "updates env q d1 d2" using auth_run_updates [OF ok] by simp
    have "role_from d x" if "x \<in> set (adb_users d2)" for x
      using updates_role_from [OF u n] that f unfolding role_from_def by metis
    then show ?case using updates_role_from [OF u n] updates_auth_ok [OF u ok] by blast
  qed
  then show ?thesis by (auto simp: role_from_def list_all_iff list_ex_iff)
qed

section \<open>Verification links\<close>

lemma revoke_all_keeps:
  "t \<in> set (adb_tokens d) \<Longrightarrow> tk_type t \<noteq> type \<Longrightarrow> t \<in> set (adb_tokens (revoke_all_by_user_and_type now k type d))"
  by (auto simp: adb_tokens_revoke_all image_iff intro!: bexI [of _ t])

text \<open>
  A change of the address leaves the verification links that were mailed to the old address
  working: such a link marks the new address as verified, although no link that was sent to the new address
  was used.
\<close>

theorem old_link_verifies_new_address:
  assumes ok: "auth_ok d" and u: "u \<in> set (adb_users d)" "\<not> us_is_deleted u"
    and t: "t \<in> set (adb_tokens d)" "tk_token t = ae_hash_token env raw" "tk_type t = Tok_verify_email" "tk_user_id t = Some (us_id u)"
      "\<not> tk_is_revoked t" "now < tk_expires_at t"
    and changed: "ao_result (change_email env q u e password d) = Inr ()"
  shows "ae_hash_token env raw \<noteq> ae_hash_token env (str_uuid (aq_token q))
    \<and> ao_result (verify_email env now raw (ao_db (change_email env q u e password d))) = Inr ''Email verified successfully.''
    \<and> list_ex (\<lambda>x. us_id x = us_id u \<and> us_email x = py_lower e \<and> us_is_email_verified x)
        (adb_users (ao_db (verify_email env now raw (ao_db (change_email env q u e password d)))))"
proof -
  define v where "v = u \<lparr>us_email := py_lower e, us_is_email_verified := False\<rparr>"
  define d' where "d' = ao_db (change_email env q u e password d)"
  obtain d1 where d1: "create_token (aq_token_id q) (aq_now q) (us_id u) (ae_hash_token env (str_uuid (aq_token q))) Tok_verify_email
      (aq_now q + minutes (60 * ae_verify_hours env)) (put_user v d) = Inr d1"
    and d': "d' = revoke_all_by_user_and_type (aq_now q) (us_id u) Tok_refresh d1"
    using changed unfolding change_email_def d'_def v_def Let_def
    by (simp add: http_raise_def failed_def http_failed_def split: if_splits sum.splits)
  have ok': "auth_ok d'" unfolding d'_def by (rule updates_auth_ok [OF updates_change_email [OF ok u] ok])
  have t': "t \<in> set (adb_tokens d')"
    using create_token_Inr [OF d1] t(1,3) by (auto simp: d' intro: revoke_all_keeps)
  have v: "v \<in> set (adb_users d')"
    using create_token_Inr [OF d1] put_user_members [OF u(1), of v] by (simp add: d' v_def)
  have "owner_of d' t = Some v"
    using get_by_id_iff [OF ok'] v u(2) t(4) by (simp add: owner_of_def v_def)
  moreover have "find (\<lambda>t. tk_token t = ae_hash_token env raw \<and> tk_type t = Tok_verify_email) (adb_tokens d') = Some t"
    using same_hash [OF ok' t'] t(2,3) by (intro find_unique [OF t']) simp_all
  ultimately have "verify_email env now raw d' = answered ''Email verified successfully.''
      (revoke now t (put_user (v \<lparr>us_is_email_verified := True\<rparr>) d'))"
    using t(5,6) by (simp add: verify_email_def v_def)
  moreover have "v \<lparr>us_is_email_verified := True\<rparr> \<in> set (adb_users (put_user (v \<lparr>us_is_email_verified := True\<rparr>) d'))"
    by (rule put_user_members [OF v]) simp
  moreover have "ae_hash_token env raw \<noteq> ae_hash_token env (str_uuid (aq_token q))"
    using create_token_Inr [OF d1] t(1,2) by auto
  moreover have "list_ex (\<lambda>x. us_id x = us_id u \<and> us_email x = py_lower e \<and> us_is_email_verified x) xs"
    if "v \<lparr>us_is_email_verified := True\<rparr> \<in> set xs" for xs
    unfolding list_ex_iff by (rule bexI [OF _ that]) (simp add: v_def)
  ultimately show ?thesis unfolding d'_def [symmetric] by simp
qed

section \<open>Addresses of deleted accounts\<close>

definition buried :: "string \<Rightarrow> auth_db \<Rightarrow> bool" where
  "buried e d \<longleftrightarrow> list_ex (\<lambda>u. us_email u = e \<and> us_is_deleted u) (adb_users d)"

lemma buried_edit:
  assumes "buried e d" "\<And>u. u \<in> set (adb_users d) \<Longrightarrow> user_key (f u) = user_key u"
  shows "buried e (edit_users f d)"
  using assms by (force simp: buried_def list_ex_iff edit_users_def user_key_def)

lemma buried_put:
  assumes ok: "auth_ok d" and b: "buried e d" and u: "u \<in> set (adb_users d)" "us_id u' = us_id u"
    and k: "us_is_deleted u \<Longrightarrow> us_email u' = us_email u \<and> us_is_deleted u'"
  shows "buried e (put_user u' d)"
proof -
  obtain x where x: "x \<in> set (adb_users d)" "us_email x = e" "us_is_deleted x" using b by (auto simp: buried_def list_ex_iff)
  show ?thesis
  proof (cases "us_id x = us_id u")
    case True
    then have "x = u" using same_id [OF ok u(1) x(1)] by simp
    then show ?thesis using k x put_user_members [OF u] by (auto simp: buried_def list_ex_iff)
  next
    case False
    then have "x \<in> set (adb_users (put_user u' d))" using x(1) u(2) by (simp add: users.put_in)
    then show ?thesis using x by (auto simp: buried_def list_ex_iff)
  qed
qed

lemma update_buried:
  assumes "update env q d d'" "auth_ok d" "buried e d"
  shows "buried e d'"
  using assms
proof (induction rule: update.induct)
  case (promote u d r)
  then show ?case by (auto intro: buried_put)
next
  case (rename u d e')
  then show ?case by (auto intro: buried_put)
next
  case (join u d d')
  then show ?case using add_user_Inr [OF join(1)] by (auto simp: buried_def)
next
  case (leave u d)
  let ?u = "u \<lparr>us_is_deleted := True, us_deleted_at := Some (aq_now q)\<rparr>"
  have "buried e (put_user ?u d)" by (rule buried_put [OF leave(2,3,1)]) simp_all
  then show ?case by (simp add: buried_def)
next
  case (mint k u h type x d d')
  then show ?case using create_token_Inr [OF mint(1)] by (auto simp: buried_def)
next
  case (moderate d f)
  then show ?case by (intro buried_edit)
next
  case (edit d f)
  then show ?case by (intro buried_edit) auto
qed (auto simp: buried_def revoke_where_def)

lemma updates_buried: "updates env q d d' \<Longrightarrow> auth_ok d \<Longrightarrow> buried e d \<Longrightarrow> auth_ok d' \<and> buried e d'"
  by (induction rule: rtranclp_induct) (auto intro: update_buried update_auth_ok)

interpretation burials: invariant_system "\<lambda>d. auth_ok d \<and> buried e d" "auth_step env" "\<lambda>d. auth_ok d \<and> buried e d" for env e
  by unfold_locales (auto simp: auth_step_def dest: updates_buried [OF auth_run_updates])

text \<open>
  The address of a deleted account is lost for ever: after any further requests, registering it
  again passes the check for an existing account and then fails with the integrity error of the database;
  nothing is stored.
\<close>

theorem deleted_address_cannot_return:
  assumes ok: "auth_ok d" and u: "u \<in> set (adb_users d)" "us_is_deleted u" "us_email u = py_lower (rr_email p)"
    and run: "(auth_step env)\<^sup>*\<^sup>* d d'" and h: "ae_hashpw env (aq_salt q) (rr_password p) = Inr h"
  shows "get_by_email d' (rr_email p) = None
    \<and> register env q p d' = failed (Exn ''IntegrityError'' ''users'') d'"
proof -
  have "buried (us_email u) d" using u by (auto simp: buried_def list_ex_iff)
  then have ok': "auth_ok d'" and b: "buried (us_email u) d'" using burials.steps_inv [OF run] ok by blast+
  then obtain x where x: "x \<in> set (adb_users d')" "us_email x = py_lower (rr_email p)" "us_is_deleted x"
    using u(3) by (auto simp: buried_def list_ex_iff)
  have n: "get_by_email d' (rr_email p) = None"
    using same_email [OF ok' x(1)] x(2,3) by (auto simp: get_by_email_def find_None_iff)
  moreover have "list_ex (\<lambda>y. us_id y = k \<or> us_email y = py_lower (rr_email p)) (adb_users d')" for k
    using x by (auto simp: list_ex_iff)
  ultimately show ?thesis by (simp add: register_def h Let_def add_user_def new_user_def)
qed

section \<open>Adopting an unverified registration\<close>

lemma register_Inr:
  assumes "ao_result (register env q p d) = Inr r"
  obtains h where "ae_hashpw env (aq_salt q) (rr_password p) = Inr h"
    "new_user (aq_user_id q) (aq_now q) (rr_email p) h (Some (rr_display_name p)) Prov_email True
       \<in> set (adb_users (ao_db (register env q p d)))"
proof -
  obtain h where h: "ae_hashpw env (aq_salt q) (rr_password p) = Inr h"
    using assms by (cases "ae_hashpw env (aq_salt q) (rr_password p)") (auto simp: register_def http_raise_def split: if_splits)
  let ?u = "new_user (aq_user_id q) (aq_now q) (rr_email p) h (Some (rr_display_name p)) Prov_email True"
  obtain d1 where d1: "add_user ?u d = Inr d1"
    using assms h by (cases "add_user ?u d") (auto simp: register_def http_raise_def Let_def split: if_splits)
  obtain d2 where d2: "welcome_user q ?u (rr_referral_code p) (rr_referral_source_detail p) (rr_referral_campaign p) d1 = Inr d2"
    using assms h d1 by (cases "welcome_user q ?u (rr_referral_code p) (rr_referral_source_detail p) (rr_referral_campaign p) d1")
      (auto simp: register_def http_raise_def Let_def split: if_splits)
  obtain d3 where d3: "create_token (aq_token_id q) (aq_now q) (us_id ?u) (ae_hash_token env (str_uuid (aq_token q))) Tok_verify_email
      (aq_now q + minutes (60 * ae_verify_hours env)) d2 = Inr d3" and e: "ao_db (register env q p d) = d3"
    using assms h d1 d2 by (auto simp: register_def http_raise_def Let_def split: if_splits sum.splits)
  have "?u \<in> set (adb_users d3)"
    using add_user_Inr [OF d1] welcome_user_Inr [OF d2] create_token_Inr [OF d3] by auto
  with h e show ?thesis by (intro that) simp_all
qed

text \<open>
  Whoever registers the address of somebody else with a password cannot log in; but once the
  owner of the address signs in with Google, the account becomes verified with that password still set, and the
  stranger logs in to the account of the owner.
\<close>

theorem google_adopts_password_of_stranger:
  assumes ok: "auth_ok d" and reg: "ao_result (register env q p d) = Inr r"
    and claims: "verify_google_id_token env id_token = Inr claims" "dict_get claims ''email'' = PStr e" "py_lower e = py_lower (rr_email p)"
    and fresh: "fresh_session env q1 (ao_db (register env q p d))"
      "fresh_session env q2 (ao_db (google_auth env q1 id_token code source campaign (ao_db (register env q p d))))" "0 < ae_refresh_days env"
    and bcrypt: "bcrypt_ok env"
  shows "\<not> is_ok (ao_result (login env q1 (rr_email p) (rr_password p) (ao_db (register env q p d))))
    \<and> is_ok (ao_result (google_auth env q1 id_token code source campaign (ao_db (register env q p d))))
    \<and> is_ok (ao_result (login env q2 (rr_email p) (rr_password p)
        (ao_db (google_auth env q1 id_token code source campaign (ao_db (register env q p d))))))"
proof -
  define d1 where "d1 = ao_db (register env q p d)"
  define d2 where "d2 = ao_db (google_auth env q1 id_token code source campaign d1)"
  obtain h where h: "ae_hashpw env (aq_salt q) (rr_password p) = Inr h"
    and u: "new_user (aq_user_id q) (aq_now q) (rr_email p) h (Some (rr_display_name p)) Prov_email True \<in> set (adb_users d1)"
    using register_Inr [OF reg] unfolding d1_def by blast
  define u where "u = new_user (aq_user_id q) (aq_now q) (rr_email p) h (Some (rr_display_name p)) Prov_email True"
  define v where "v = u \<lparr>us_is_email_verified := True\<rparr>"
  have u1: "u \<in> set (adb_users d1)" "us_email u = py_lower (rr_email p)" "\<not> us_is_deleted u" "\<not> us_is_email_verified u"
    "us_hashed_password u = h" "\<not> us_is_suspended u" using u by (simp_all add: u_def new_user_def)
  have ok1: "auth_ok d1" unfolding d1_def by (rule updates_auth_ok [OF updates_register ok])
  have ok2: "auth_ok d2" unfolding d2_def by (rule updates_auth_ok [OF updates_google_auth [OF ok1] ok1])
  have f: "fresh_session env q1 d1" "fresh_session env q2 d2" using fresh(1,2) by (simp_all add: d1_def d2_def)
  have "x = u" if "x \<in> set (adb_users d1)" "us_email x = py_lower (rr_email p)" for x
    using same_email [OF ok1 u1(1) that(1)] that(2) u1(2) by simp
  then have "\<not> list_ex (may_log_in env (rr_email p) (rr_password p)) (adb_users d1)"
    using u1(4) by (auto simp: list_ex_iff may_log_in_def)
  then have no: "\<not> is_ok (ao_result (login env q1 (rr_email p) (rr_password p) d1))"
    using login_correct [OF ok1 f(1) fresh(3)] by blast
  have "get_by_email d1 (py_lower e) = Some u" using ok1 u1(1-3) claims(3) by (simp add: get_by_email_iff)
  then have g: "google_auth env q1 id_token code source campaign d1 = issue_session env q1 v (put_user v d1)"
    using claims u1(4) by (simp add: google_auth_def Let_def v_def)
  have i: "is_ok (ao_result (google_auth env q1 id_token code source campaign d1))" "adb_users d2 = adb_users (put_user v d1)"
    using issue_session_fresh [of env q1 "put_user v d1" v] f(1) fresh(3) by (simp_all add: g d2_def)
  have "v \<in> set (adb_users d2)" unfolding i(2) by (rule put_user_members [OF u1(1)]) (simp add: v_def)
  moreover have "may_log_in env (rr_email p) (rr_password p) v"
    using u1 verify_hashed [OF bcrypt h] by (simp add: may_log_in_def v_def)
  ultimately have "is_ok (ao_result (login env q2 (rr_email p) (rr_password p) d2))"
    by (rule login_works [OF ok2 f(2) fresh(3)])
  with no i show ?thesis by (simp add: d1_def d2_def)
qed

section \<open>Witnesses\<close>

lemma one_request: "(auth_step env)\<^sup>*\<^sup>* d (auth_run env q c d)"
  by (rule r_into_rtranclp) (auto simp: auth_step_def)

theorem accounts_and_tokens_witness:
  "distinct (map us_email (adb_users (auth_run demo_auth (demo_rq 0 1) (Forgot_password ''a'') (no_accounts no_affiliates))))"
  using accounts_and_tokens [OF one_request [of demo_auth "no_accounts no_affiliates" "demo_rq 0 1" "Forgot_password ''a''"]] by simp

definition demo_spent :: token where
  "demo_spent = (demo_token 1 ''session'' Tok_refresh) \<lparr>tk_is_revoked := True, tk_revoked_at := Some 0\<rparr>"

lemma demo_spent_ok: "auth_ok (demo_accounts [demo_spent])"
  by (simp add: auth_ok_def users_ok_def tokens_ok_def token_ok_def demo_spent_def demo_auth_defs py_lower_a)

lemma one_request_without:
  "(auth_step_without demo_auth ''session'')\<^sup>*\<^sup>* d (auth_run demo_auth q c d)"
  by (rule r_into_rtranclp) (auto simp: auth_step_without_def demo_auth_def demo_hashes)

theorem revoked_token_stays_dead_witness:
  "refresh_access_token demo_auth (demo_rq 30000001 8) (Some ''session'')
     (auth_run demo_auth (demo_rq 5 3) (Forgot_password ''a'') (demo_accounts [demo_spent]))
   = http_failed 401 ''Invalid or expired refresh token.''
     (auth_run demo_auth (demo_rq 5 3) (Forgot_password ''a'') (demo_accounts [demo_spent]))"
proof (rule revoked_token_stays_dead [OF demo_spent_ok, where t = demo_spent and r = 0])
  show "(auth_step_without demo_auth (ae_hash_token demo_auth ''session''))\<^sup>*\<^sup>* (demo_accounts [demo_spent])
      (auth_run demo_auth (demo_rq 5 3) (Forgot_password ''a'') (demo_accounts [demo_spent]))"
    using one_request_without by (simp add: demo_auth_def)
qed (simp_all add: demo_spent_def demo_auth_defs grace_seconds_def)

lemma demo_fresh: "fresh_session demo_auth q demo_session" if "aq_refresh_id q \<notin> {1, 2}"
  using that by (simp add: fresh_session_def demo_session_def demo_accounts_def demo_token_def demo_auth_def demo_hashes)

lemma demo_days [simp]: "ae_refresh_days demo_auth = 30"
  by (simp add: demo_auth_def)

lemma demo_bcrypt: "bcrypt_ok demo_auth"
  by (simp add: bcrypt_ok_def demo_auth_def)

lemma demo_refresh_id: "aq_refresh_id (demo_rq n k) = k + 1"
  by (simp add: demo_rq_def)

lemma demo_logins:
  "adb_users demo_session = [demo_user]" "us_email demo_user = ''a''" "py_lower ''a'' = ''a''"
  "may_log_in demo_auth ''a'' ''old'' demo_user" "\<not> may_log_in demo_auth ''a'' ''x'' demo_user"
  "\<not> verify_password demo_auth ''x'' (us_hashed_password demo_user)"
  by (simp_all add: may_log_in_def verify_password_def demo_session_def demo_auth_defs py_lower_a)

theorem login_correct_witness:
  "is_ok (ao_result (login demo_auth (demo_rq 5 20) ''a'' ''old'' demo_session))
   \<and> login demo_auth (demo_rq 5 20) ''a'' ''x'' demo_session = http_failed 401 ''Incorrect email or password.'' demo_session"
  using login_correct [OF demo_session_ok, of demo_auth "demo_rq 5 20" "''a''" "''old''"]
    login_correct [OF demo_session_ok, of demo_auth "demo_rq 5 20" "''a''" "''x''"]
  by (simp add: demo_fresh demo_refresh_id demo_logins)

theorem answers_hide_accounts_witness:
  "ao_result (forgot_password demo_auth (demo_rq 5 20) ''a'' demo_session)
   = ao_result (forgot_password demo_auth (demo_rq 5 20) ''b'' demo_session)"
  using answers_hide_accounts [of demo_auth "demo_rq 5 20" demo_session "''a''"]
    answers_hide_accounts [of demo_auth "demo_rq 5 20" demo_session "''b''"]
  by (simp add: fresh_link_def demo_session_def demo_auth_defs demo_hashes)

lemma demo_reset:
  "ao_result (reset_password demo_auth (demo_rq 10 5) ''code'' ''new'' demo_session) = Inr ''Password reset successfully. Please log in.''"
  "get_active demo_session (aq_now (demo_rq 10 5)) (ae_hash_token demo_auth ''code'') Tok_reset_password = Some (demo_token 2 ''code'' Tok_reset_password)"
  "owner_of demo_session (demo_token 2 ''code'' Tok_reset_password) = Some demo_user"
  "us_is_email_verified demo_user" "\<not> us_is_suspended demo_user"
  by (simp_all add: reset_password_def get_active_def token_active_def owner_of_def get_by_id_def demo_session_def demo_auth_defs)

theorem reset_takes_effect_witness:
  "is_ok (ao_result (login demo_auth (demo_rq 20 8) ''a'' ''new''
     (ao_db (reset_password demo_auth (demo_rq 10 5) ''code'' ''new'' demo_session))))"
  using reset_takes_effect [OF demo_session_ok, of demo_auth "demo_rq 10 5" "''code''" "''new''"
      "''Password reset successfully. Please log in.''" "demo_token 2 ''code'' Tok_reset_password" demo_user "demo_rq 20 8"
      "demo_rq 20 9" "''x''" 20]
  by (simp add: demo_fresh demo_bcrypt demo_refresh_id demo_reset demo_logins)

definition demo_admin :: user where
  "demo_admin = (new_user 9 0 ''b'' ''adm'' None Prov_email True) \<lparr>us_is_email_verified := True, us_platform_role := Role_admin\<rparr>"

definition demo_suspended :: auth_db where
  "demo_suspended = \<lparr>adb_users = [demo_user \<lparr>us_is_suspended := True\<rparr>], adb_tokens = [], adb_affiliates = no_affiliates\<rparr>"

theorem suspended_users_are_locked_out_witness:
  "\<not> (\<exists>v. resolve_current_user demo_auth 6 (str_uuid 7) (ao_db (suspend_user 5 demo_admin 7 ''abuse'' demo_session)) = Inr v
       \<and> us_id v = 7)
   \<and> is_ok (ao_result (suspend_user 5 demo_admin 7 ''abuse'' demo_session))"
proof -
  have "ao_result (suspend_user 5 demo_admin 7 ''abuse'' demo_session) = Inr ()"
    by (simp add: suspend_user_def managed_def get_by_id_def assert_can_manage_def demo_admin_def demo_session_def demo_auth_defs)
  then show ?thesis
    using suspended_users_are_locked_out [of demo_auth 6 "str_uuid 7" demo_session _ 5 demo_admin 7 "''abuse''" "()"]
      suspended_users_are_locked_out [of demo_auth 6 "str_uuid 7" _ _ 5 demo_admin 7 "''abuse''" "()"] demo_session_ok by auto
qed

theorem google_ignores_suspension_witness:
  "is_ok (ao_result (google_auth demo_auth (demo_rq 5 20) ''token'' None None None demo_suspended))"
  using google_ignores_suspension [of demo_suspended "demo_user \<lparr>us_is_suspended := True\<rparr>" demo_auth "''token''"
      "[(''aud'', PStr ''client''), (''email_verified'', PBool True), (''email'', PStr ''a'')]" "''a''" "demo_rq 5 20" None None None]
  by (simp add: demo_suspended_def auth_ok_def users_ok_def tokens_ok_def fresh_session_def demo_auth_defs py_lower_a
      verify_google_id_token_def dict_get_def truthy_def)

theorem roles_need_a_super_admin_witness:
  "list_all (\<lambda>u. us_platform_role u = Role_user \<or> list_ex (\<lambda>x. us_id x = us_id u \<and> us_platform_role x = us_platform_role u)
     (adb_users demo_session)) (adb_users (auth_run demo_auth (demo_rq 5 20) (As_admin (str_uuid 7) (Update_user_role 7 Role_admin ''r'')) demo_session))"
  by (rule roles_need_a_super_admin [OF one_request demo_session_ok]) (simp add: demo_session_def demo_auth_defs)

definition demo_linked :: auth_db where
  "demo_linked = demo_accounts [demo_token 1 ''link'' Tok_verify_email]"

lemma demo_linked_ok: "auth_ok demo_linked"
  by (simp add: auth_ok_def users_ok_def tokens_ok_def token_ok_def demo_linked_def demo_auth_defs py_lower_a)

lemma demo_link_hash: "str_uuid u \<noteq> ''link''" "''link'' \<noteq> str_uuid u"
proof -
  have n: "str_uuid u \<noteq> s" if "length s \<noteq> 36" for s using that str_uuid_length [of u] by blast
  show "str_uuid u \<noteq> ''link''" by (rule n) simp
  show "''link'' \<noteq> str_uuid u" by (rule not_sym, rule n) simp
qed

theorem old_link_verifies_new_address_witness:
  "ao_result (verify_email demo_auth 6 ''link'' (ao_db (change_email demo_auth (demo_rq 5 20) demo_user ''c'' ''old'' demo_linked)))
     = Inr ''Email verified successfully.''"
proof -
  have "ao_result (change_email demo_auth (demo_rq 5 20) demo_user ''c'' ''old'' demo_linked) = Inr ()"
    by (simp add: change_email_def verify_password_def get_by_email_def email_of_another_def create_token_def demo_linked_def
        demo_auth_defs put_user_def row_put_def Let_def py_lower_def lower_char_def demo_link_hash)
  then show ?thesis
    using old_link_verifies_new_address [OF demo_linked_ok, of demo_user "demo_token 1 ''link'' Tok_verify_email" demo_auth "''link''" 6
        "demo_rq 5 20" "''c''" "''old''"]
    by (simp add: demo_linked_def demo_auth_defs)
qed

definition demo_deleted :: auth_db where
  "demo_deleted = \<lparr>adb_users = [demo_user \<lparr>us_is_deleted := True\<rparr>], adb_tokens = [], adb_affiliates = no_affiliates\<rparr>"

definition demo_registration :: register_request where
  "demo_registration = \<lparr>rr_email = ''a'', rr_display_name = ''A'', rr_password = ''Passw0rd'', rr_referral_code = None,
     rr_referral_source_detail = None, rr_referral_campaign = None\<rparr>"

theorem deleted_address_cannot_return_witness:
  "register demo_auth (demo_rq 9 30) demo_registration (auth_run demo_auth (demo_rq 5 20) (Forgot_password ''a'') demo_deleted)
     = failed (Exn ''IntegrityError'' ''users'') (auth_run demo_auth (demo_rq 5 20) (Forgot_password ''a'') demo_deleted)"
  using deleted_address_cannot_return [OF _ _ _ _ one_request [of demo_auth demo_deleted "demo_rq 5 20" "Forgot_password ''a''"],
      of "demo_user \<lparr>us_is_deleted := True\<rparr>" demo_registration "demo_rq 9 30" "''Passw0rd''"]
  by (simp add: demo_deleted_def demo_registration_def auth_ok_def users_ok_def tokens_ok_def demo_auth_defs py_lower_a)

definition demo_claims :: dict where
  "demo_claims = [(''aud'', PStr ''client''), (''email_verified'', PBool True), (''email'', PStr ''a'')]"

definition demo_affiliates :: affiliate_db where
  "demo_affiliates = no_affiliates \<lparr>ad_profiles := [\<lparr>ap_user_id = 7, ap_code = ''C'', ap_status = Aff_active, ap_commission_rate_override = None\<rparr>]\<rparr>"

lemma demo_registered:
  "register demo_auth (demo_rq 0 7) demo_registration (no_accounts demo_affiliates) =
   \<lparr>ao_result = Inr (user_response_of (new_user 7 0 ''a'' ''Passw0rd'' (Some ''A'') Prov_email True)),
    ao_db = \<lparr>adb_users = [new_user 7 0 ''a'' ''Passw0rd'' (Some ''A'') Prov_email True],
      adb_tokens = [\<lparr>tk_id = 7, tk_token = str_uuid 7, tk_type = Tok_verify_email, tk_expires_at = minutes 1440, tk_user_id = Some 7,
        tk_is_revoked = False, tk_revoked_at = None, tk_created_at = 0\<rparr>], adb_affiliates = demo_affiliates\<rparr>,
    ao_cookie = None, ao_mail = [Verification_mail ''a'' (str_uuid 7)]\<rparr>"
  by (simp add: register_def no_accounts_def demo_affiliates_def no_affiliates_def demo_auth_def demo_rq_def demo_registration_def
      get_by_email_def add_user_def welcome_user_def attribute_new_user_def ensure_profile_def get_profile_def row_get_def
      create_token_def Let_def py_lower_a new_user_def)

theorem google_adopts_password_of_stranger_witness:
  "is_ok (ao_result (login demo_auth (demo_rq 9 30) ''a'' ''Passw0rd''
     (ao_db (google_auth demo_auth (demo_rq 5 20) ''token'' None None None
       (ao_db (register demo_auth (demo_rq 0 7) demo_registration (no_accounts demo_affiliates)))))))"
proof -
  have c: "verify_google_id_token demo_auth ''token'' = Inr demo_claims" "dict_get demo_claims ''email'' = PStr ''a''"
    by (simp_all add: verify_google_id_token_def demo_auth_def demo_claims_def dict_get_def truthy_def)
  have f: "fresh_session demo_auth (demo_rq 5 20) (ao_db (register demo_auth (demo_rq 0 7) demo_registration (no_accounts demo_affiliates)))"
    unfolding demo_registered by (simp add: fresh_session_def demo_auth_def demo_rq_def)
  have g: "fresh_session demo_auth (demo_rq 9 30) (ao_db (google_auth demo_auth (demo_rq 5 20) ''token'' None None None
      (ao_db (register demo_auth (demo_rq 0 7) demo_registration (no_accounts demo_affiliates)))))"
    unfolding demo_registered google_auth_def c
    by (simp add: c fresh_session_def get_by_email_def issue_session_def new_refresh_token_def create_token_def Let_def
        demo_auth_def demo_rq_def py_lower_a new_user_def)
  have r: "\<exists>x. ao_result (register demo_auth (demo_rq 0 7) demo_registration (no_accounts demo_affiliates)) = Inr x"
    by (simp add: demo_registered)
  have e: "rr_email demo_registration = ''a''" "rr_password demo_registration = ''Passw0rd''"
    by (simp_all add: demo_registration_def)
  show ?thesis
    using r google_adopts_password_of_stranger [OF no_accounts_ok _ c(1,2) _ f g _ demo_bcrypt] unfolding e by auto
qed

end
