(* ===== verification/Origins.thy ===== *)
theory Origins
  imports Users
begin

text \<open>
  The check of the origin of cookie-authenticated requests, \<^verbatim>\<open>verify_origin\<close> of \<^verbatim>\<open>auth/router.py\<close>, over the
  origins of \<^verbatim>\<open>core/config.py\<close> and the parts of \<^verbatim>\<open>urllib.parse.urlparse\<close> it reads: the scheme, the host and
  the port. The value of \<^verbatim>\<open>json.loads\<close> is an argument; the validation of an address in brackets is left out.
\<close>

section \<open>Parsing an address\<close>

definition is_scheme_char :: "char \<Rightarrow> bool" where
  "is_scheme_char c \<longleftrightarrow> is_alnum c \<or> c \<in> {CHR ''+'', CHR ''-'', CHR ''.''}"

text \<open>Leading blanks and control characters go, tabs and line ends go everywhere.\<close>

definition clean_url :: "string \<Rightarrow> string" where
  "clean_url s = filter (\<lambda>c. of_char c \<notin> {9 :: nat, 10, 13}) (dropWhile (\<lambda>c. of_char c \<le> (32 :: nat)) s)"

definition split_scheme :: "string \<Rightarrow> string \<times> string" where
  "split_scheme url = (
     let s = takeWhile (\<lambda>c. c \<noteq> CHR '':'') url; rest = dropWhile (\<lambda>c. c \<noteq> CHR '':'') url in
     if rest \<noteq> [] \<and> s \<noteq> [] \<and> (is_upper_letter (hd s) \<or> is_lower_letter (hd s)) \<and> list_all is_scheme_char s
     then (py_lower s, tl rest) else ([], url))"

definition net_location :: "string \<Rightarrow> string" where
  "net_location rest = (if prefix ''//'' rest
     then takeWhile (\<lambda>c. c \<notin> {CHR ''/'', CHR 0x3F, CHR 0x23}) (drop 2 rest) else [])"

text \<open>\<^verbatim>\<open>partition\<close>, and the part of a text after its last separator.\<close>

definition before_char :: "char \<Rightarrow> string \<Rightarrow> string" where
  "before_char c s = takeWhile (\<lambda>x. x \<noteq> c) s"

definition after_char :: "char \<Rightarrow> string \<Rightarrow> string" where
  "after_char c s = tl (dropWhile (\<lambda>x. x \<noteq> c) s @ [c])"

definition after_last :: "char \<Rightarrow> string \<Rightarrow> string" where
  "after_last c s = rev (takeWhile (\<lambda>x. x \<noteq> c) (rev s))"

definition host_info :: "string \<Rightarrow> string \<times> string" where
  "host_info loc = (let h = after_last CHR 0x40 loc in
     if CHR 0x5B \<in> set h
     then let inside = after_char CHR 0x5B h in
       (before_char CHR 0x5D inside, drop 1 (dropWhile (\<lambda>x. x \<noteq> CHR '':'') (drop 1 (dropWhile (\<lambda>x. x \<noteq> CHR 0x5D) inside))))
     else (before_char CHR '':'' h, drop 1 (dropWhile (\<lambda>x. x \<noteq> CHR '':'') h)))"

definition read_port :: "string \<Rightarrow> nat option result" where
  "read_port s = (if s = [] then Inr None
     else if \<not> list_all is_digit s then value_error ''Port could not be cast to integer value''
     else if 65535 < read_nat s then value_error ''Port out of range 0-65535''
     else Inr (Some (read_nat s)))"

type_synonym site = "string \<times> string \<times> nat"

definition normalized_site :: "string \<Rightarrow> site option result" where
  "normalized_site value = (
     let (scheme, rest) = split_scheme (clean_url value); loc = net_location rest; (host, port) = host_info loc in
     if (CHR 0x5B \<in> set loc) \<noteq> (CHR 0x5D \<in> set loc) then value_error ''Invalid IPv6 URL''
     else if scheme \<notin> {''http'', ''https''} \<or> host = [] then Inr None
     else case read_port port of Inl e \<Rightarrow> Inl e
     | Inr p \<Rightarrow> Inr (Some (scheme, py_lower host,
         if p \<in> {None, Some 0} then (if scheme = ''https'' then 443 else 80) else the p)))"

section \<open>The configured origins\<close>

record origin_settings =
  og_cors_allowed_origins :: string
  og_frontend_url :: string

text \<open>The JSON value of a setting that starts with a bracket: not JSON, an array of the texts of its items, or anything else.\<close>

datatype json_list = Not_json | Json_array "string list" | Other_json

definition get_cors_allowed_origins :: "(string \<Rightarrow> json_list) \<Rightarrow> origin_settings \<Rightarrow> string list result" where
  "get_cors_allowed_origins loads g = (
     let raw = py_strip (og_cors_allowed_origins g); or_frontend = (\<lambda>xs. if xs = [] then [og_frontend_url g] else xs) in
     if raw = [] then Inr [og_frontend_url g]
     else if startswith raw ''['' then (case loads raw of
         Not_json \<Rightarrow> value_error ''CORS_ALLOWED_ORIGINS JSON is invalid''
       | Other_json \<Rightarrow> value_error ''CORS_ALLOWED_ORIGINS JSON must be an array''
       | Json_array items \<Rightarrow> Inr (or_frontend (filter (\<lambda>s. s \<noteq> []) (map py_strip items))))
     else Inr (or_frontend (comma_items raw)))"

section \<open>The check\<close>

definition verify_origin ::
  "(string \<Rightarrow> json_list) \<Rightarrow> origin_settings \<Rightarrow> string option \<Rightarrow> string option \<Rightarrow> unit result" where
  "verify_origin loads g origin referer = (
     case (if origin \<in> {None, Some []} then referer else origin) of None \<Rightarrow> Inr ()
     | Some value \<Rightarrow> (case get_cors_allowed_origins loads g of Inl e \<Rightarrow> Inl e
       | Inr origins \<Rightarrow> (case normalized_site value of Inl e \<Rightarrow> Inl e
         | Inr site \<Rightarrow> (case map_result normalized_site (origins @ [og_frontend_url g]) of Inl e \<Rightarrow> Inl e
           | Inr allowed \<Rightarrow> if site \<notin> set allowed then http_raise 403 ''Invalid origin.'' else Inr ()))))"

section \<open>What passes\<close>

lemma verify_origin_iff:
  assumes "get_cors_allowed_origins loads g = Inr origins" "list_all (\<lambda>x. is_ok (normalized_site x)) (origins @ [og_frontend_url g])" "v \<noteq> []"
  shows "verify_origin loads g (Some v) referer = Inr () \<longleftrightarrow>
    (\<exists>site. normalized_site v = Inr site \<and> list_ex (\<lambda>x. normalized_site x = Inr site) (origins @ [og_frontend_url g]))"
proof -
  obtain allowed where a: "map_result normalized_site (origins @ [og_frontend_url g]) = Inr allowed"
    using map_result_total [OF assms(2)] by blast
  have "verify_origin loads g (Some v) referer = Inr () \<longleftrightarrow> (\<exists>site. normalized_site v = Inr site \<and> site \<in> set allowed)"
    using assms(1,3) a by (cases "normalized_site v") (simp_all add: verify_origin_def http_raise_def)
  then show ?thesis unfolding map_result_Inr [OF a] by (simp add: list_ex_iff)
qed

text \<open>
  When every configured origin is an address with a scheme and a host, a cookie-authenticated
  request with an \<^verbatim>\<open>Origin\<close> header passes exactly when scheme, host and port of the header are those of a
  configured one.
\<close>

theorem origin_check_correct:
  assumes "get_cors_allowed_origins loads g = Inr origins" "v \<noteq> []"
    and "list_all (\<lambda>x. \<exists>site. normalized_site x = Inr (Some site)) (origins @ [og_frontend_url g])"
  shows "verify_origin loads g (Some v) referer = Inr () \<longleftrightarrow>
    (\<exists>site. normalized_site v = Inr (Some site) \<and> list_ex (\<lambda>x. normalized_site x = Inr (Some site)) (origins @ [og_frontend_url g]))"
proof -
  have "list_all (\<lambda>x. is_ok (normalized_site x)) (origins @ [og_frontend_url g])"
    using assms(3) by (auto simp: list_all_iff)
  moreover have "\<not> list_ex (\<lambda>x. normalized_site x = Inr None) (origins @ [og_frontend_url g])"
    using assms(3) by (fastforce simp: list_all_iff list_ex_iff)
  ultimately show ?thesis
    using verify_origin_iff [OF assms(1) _ assms(2)] by (metis not_None_eq)
qed

text \<open>
  One configured origin without a scheme, such as a wildcard or a bare host, opens the check to
  every header that is not an address at all, such as the \<^verbatim>\<open>null\<close> a browser sends for a sandboxed page.
\<close>

theorem malformed_setting_admits_null:
  assumes "get_cors_allowed_origins loads g = Inr origins" "v \<noteq> []" "normalized_site v = Inr None"
    and "list_all (\<lambda>x. is_ok (normalized_site x)) (origins @ [og_frontend_url g])"
    and "list_ex (\<lambda>x. normalized_site x = Inr None) (origins @ [og_frontend_url g])"
  shows "verify_origin loads g (Some v) referer = Inr ()"
  using assms verify_origin_iff [OF assms(1,4,2)] by blast

definition demo_origins :: "string \<Rightarrow> origin_settings" where
  "demo_origins cors = \<lparr>og_cors_allowed_origins = cors, og_frontend_url = ''http://localhost:3000''\<rparr>"

lemmas site_defs = normalized_site_def clean_url_def split_scheme_def net_location_def host_info_def before_char_def
  after_char_def after_last_def read_port_def is_scheme_char_def is_alnum_def is_upper_letter_def is_lower_letter_def
  is_digit_def py_lower_def lower_char_def read_nat_def digit_value_def char_of_eq_iff

lemma demo_origins_list:
  "get_cors_allowed_origins (\<lambda>_. Not_json) (demo_origins ''https://a.b, http://c'') = Inr [''https://a.b'', ''http://c'']"
  "get_cors_allowed_origins (\<lambda>_. Not_json) (demo_origins ''localhost:3000'') = Inr [''localhost:3000'']"
  by (simp_all add: get_cors_allowed_origins_def demo_origins_def comma_items_def py_strip_def is_space_def startswith_def)

lemma demo_sites:
  "normalized_site ''https://a.b'' = Inr (Some (''https'', ''a.b'', 443))" "normalized_site ''http://c'' = Inr (Some (''http'', ''c'', 80))"
  "normalized_site ''HTTPS://x@A.b:443/path'' = Inr (Some (''https'', ''a.b'', 443))" "normalized_site ''http://localhost:3000'' = Inr (Some (''http'', ''localhost'', 3000))"
  "normalized_site ''null'' = Inr None" "normalized_site ''localhost:3000'' = Inr None"
  by (simp_all add: site_defs)

theorem origin_check_correct_witness:
  "verify_origin (\<lambda>_. Not_json) (demo_origins ''https://a.b, http://c'') (Some ''HTTPS://x@A.b:443/path'') None = Inr ()
   \<and> verify_origin (\<lambda>_. Not_json) (demo_origins ''https://a.b, http://c'') (Some ''null'') None \<noteq> Inr ()"
  using origin_check_correct [OF demo_origins_list(1), of "''HTTPS://x@A.b:443/path''" None]
    origin_check_correct [OF demo_origins_list(1), of "''null''" None]
  by (simp add: demo_sites) (simp add: demo_origins_def demo_sites)

theorem malformed_setting_admits_null_witness:
  "verify_origin (\<lambda>_. Not_json) (demo_origins ''localhost:3000'') (Some ''null'') None = Inr ()"
  using malformed_setting_admits_null [OF demo_origins_list(2), of "''null''" None]
  by (simp add: demo_sites demo_origins_def)

end
