(* ===== verification/Connections.thy ===== *)
theory Connections
  imports Prelude
begin

text \<open>
  The warm streaming connections of \<^verbatim>\<open>copy_trading/metaapi_connections.py\<close>. The coroutines of the manager run
  on one event loop and are interrupted only where they await; none of them awaits while it holds the
  lock, so the code between two awaits is one step here. The state holds the two dictionaries, every task of
  \<open>_open\<close> with the point it has reached and whether it was asked to cancel, the connections the SDK handed
  out, and those a coroutine has taken out of the dictionary and not closed yet. What the SDK answers is
  part of an event.
\<close>

section \<open>State\<close>

record conn_entry =
  ce_connection :: nat
  ce_last_used_at :: int

text \<open>A connection is closed once its \<^verbatim>\<open>close()\<close> was called; the call itself is awaited.\<close>

datatype open_phase =
    Created
  | Fetching
  | Connecting nat
  | Synchronizing nat
  | Closing_failed nat
  | Opened nat
  | Open_failed

record open_task =
  ot_account :: string
  ot_phase :: open_phase
  ot_cancelled :: bool

record connection =
  co_account :: string
  co_closed :: bool

record conn_world =
  cw_entries :: "(string \<times> conn_entry) list"
  cw_opening :: "(string \<times> nat) list"
  cw_tasks :: "open_task list"
  cw_connections :: "connection list"
  cw_closing :: "nat list"

definition no_connections :: conn_world where
  "no_connections = \<lparr>cw_entries = [], cw_opening = [], cw_tasks = [], cw_connections = [], cw_closing = []\<rparr>"

section \<open>The operations\<close>

definition warm_count :: "conn_world \<Rightarrow> nat" where
  "warm_count w = length (cw_entries w)"

text \<open>The health report of the SDK: absent, or the two flags it may carry.\<close>

type_synonym health = "(bool option \<times> bool option) option"

definition healthy :: "health \<Rightarrow> bool" where
  "healthy h = (case h of None \<Rightarrow> True | Some (linked, synced) \<Rightarrow> linked \<noteq> Some False \<and> synced \<noteq> Some False)"

definition pop_entry :: "string \<Rightarrow> conn_world \<Rightarrow> conn_world" where
  "pop_entry a w = (case map_of (cw_entries w) a of None \<Rightarrow> w
     | Some e \<Rightarrow> w \<lparr>cw_entries := AList.delete a (cw_entries w), cw_closing := cw_closing w @ [ce_connection e]\<rparr>)"

definition new_task :: "string \<Rightarrow> conn_world \<Rightarrow> conn_world" where
  "new_task a w = w \<lparr>cw_opening := AList.update a (length (cw_tasks w)) (cw_opening w),
     cw_tasks := cw_tasks w @ [\<lparr>ot_account = a, ot_phase = Created, ot_cancelled = False\<rparr>]\<rparr>"

text \<open>
  \<open>acquire\<close> up to its first await. It answers with a connection, or with the task whose result it awaits.
\<close>

definition acquire :: "int \<Rightarrow> health \<Rightarrow> string \<Rightarrow> conn_world \<Rightarrow> (nat + nat) \<times> conn_world" where
  "acquire clock h a w = (case map_of (cw_entries w) a of
       Some e \<Rightarrow> if healthy h
         then (Inl (ce_connection e), w \<lparr>cw_entries := AList.update a (e \<lparr>ce_last_used_at := clock\<rparr>) (cw_entries w)\<rparr>)
         else let w = pop_entry a w in
           (case map_of (cw_opening w) a of Some t \<Rightarrow> (Inr t, w) | None \<Rightarrow> (Inr (length (cw_tasks w)), new_task a w))
     | None \<Rightarrow> (case map_of (cw_opening w) a of Some t \<Rightarrow> (Inr t, w) | None \<Rightarrow> (Inr (length (cw_tasks w)), new_task a w)))"

definition set_phase :: "nat \<Rightarrow> open_phase \<Rightarrow> conn_world \<Rightarrow> conn_world" where
  "set_phase t p w = w \<lparr>cw_tasks := (cw_tasks w)[t := (cw_tasks w ! t) \<lparr>ot_phase := p, ot_cancelled := False\<rparr>]\<rparr>"

definition close_connection :: "nat \<Rightarrow> conn_world \<Rightarrow> conn_world" where
  "close_connection c w = w \<lparr>cw_connections := (cw_connections w)[c := (cw_connections w ! c) \<lparr>co_closed := True\<rparr>]\<rparr>"

text \<open>The \<^verbatim>\<open>finally\<close> of \<open>_open\<close>: the task leaves the dictionary of openings under the key of its account.\<close>

definition leave_opening :: "nat \<Rightarrow> open_phase \<Rightarrow> conn_world \<Rightarrow> conn_world" where
  "leave_opening t p w = (set_phase t p w) \<lparr>cw_opening := AList.delete (ot_account (cw_tasks w ! t)) (cw_opening w)\<rparr>"

text \<open>
  One resumption of the task: \<open>answer\<close> is the state of the account or whether the awaited call returned.
  A task that is asked to cancel finds the cancellation where it would have found the answer; one that never
  started has no \<^verbatim>\<open>finally\<close> to run.
\<close>

definition open_resumes :: "int \<Rightarrow> nat \<Rightarrow> bool \<Rightarrow> conn_world \<Rightarrow> conn_world" where
  "open_resumes clock t answer w = (let task = cw_tasks w ! t; fine = (answer \<and> \<not> ot_cancelled task) in
     case ot_phase task of
       Created \<Rightarrow> if ot_cancelled task then set_phase t Open_failed w else set_phase t Fetching w
     | Fetching \<Rightarrow> if fine
         then (set_phase t (Connecting (length (cw_connections w))) w)
           \<lparr>cw_connections := cw_connections w @ [\<lparr>co_account = ot_account task, co_closed = False\<rparr>]\<rparr>
         else leave_opening t Open_failed w
     | Connecting c \<Rightarrow> if fine then set_phase t (Synchronizing c) w else set_phase t (Closing_failed c) (close_connection c w)
     | Synchronizing c \<Rightarrow> if fine
         then leave_opening t (Opened c) (w \<lparr>cw_entries := AList.update (ot_account task)
                \<lparr>ce_connection = c, ce_last_used_at = clock\<rparr> (cw_entries w)\<rparr>)
         else set_phase t (Closing_failed c) (close_connection c w)
     | Closing_failed c \<Rightarrow> leave_opening t Open_failed w
     | _ \<Rightarrow> w)"

definition finished :: "open_phase \<Rightarrow> bool" where
  "finished p \<longleftrightarrow> (case p of Opened c \<Rightarrow> True | Open_failed \<Rightarrow> True | _ \<Rightarrow> False)"

definition cancel :: "nat \<Rightarrow> conn_world \<Rightarrow> conn_world" where
  "cancel t w = (if finished (ot_phase (cw_tasks w ! t)) then w
     else w \<lparr>cw_tasks := (cw_tasks w)[t := (cw_tasks w ! t) \<lparr>ot_cancelled := True\<rparr>]\<rparr>)"

definition close_account :: "string \<Rightarrow> conn_world \<Rightarrow> conn_world" where
  "close_account a w = (
     let v = (pop_entry a w) \<lparr>cw_opening := AList.delete a (cw_opening w)\<rparr> in
     case map_of (cw_opening w) a of None \<Rightarrow> v | Some t \<Rightarrow> cancel t v)"

definition evict_idle :: "int \<Rightarrow> int \<Rightarrow> conn_world \<Rightarrow> nat \<times> conn_world" where
  "evict_idle clock idle w = (
     let cutoff = clock - idle; expired = filter (\<lambda>(a, e). ce_last_used_at e < cutoff) (cw_entries w) in
     (length expired, w \<lparr>cw_entries := filter (\<lambda>(a, e). \<not> ce_last_used_at e < cutoff) (cw_entries w),
        cw_closing := cw_closing w @ map (ce_connection \<circ> snd) expired\<rparr>))"

definition shutdown :: "conn_world \<Rightarrow> conn_world" where
  "shutdown w = fold cancel (map snd (cw_opening w))
     (w \<lparr>cw_entries := [], cw_opening := [], cw_closing := cw_closing w @ map (ce_connection \<circ> snd) (cw_entries w)\<rparr>)"

section \<open>Events\<close>

datatype conn_event =
    Acquire int health string
  | Resume int nat bool
  | Close_account string
  | Evict_idle int int
  | Shutdown
  | Closed nat

text \<open>An event happens when its coroutine exists: a task that is not finished, a connection that waits to be closed.\<close>

definition happens :: "conn_event \<Rightarrow> conn_world \<Rightarrow> conn_world option" where
  "happens ev w = (case ev of
       Acquire clock h a \<Rightarrow> Some (snd (acquire clock h a w))
     | Resume clock t answer \<Rightarrow> if t < length (cw_tasks w) \<and> \<not> finished (ot_phase (cw_tasks w ! t))
         then Some (open_resumes clock t answer w) else None
     | Close_account a \<Rightarrow> Some (close_account a w)
     | Evict_idle clock idle \<Rightarrow> Some (snd (evict_idle clock idle w))
     | Shutdown \<Rightarrow> Some (shutdown w)
     | Closed c \<Rightarrow> if c \<in> set (cw_closing w)
         then Some ((close_connection c w) \<lparr>cw_closing := remove1 c (cw_closing w)\<rparr>) else None)"

fun run_events :: "conn_event list \<Rightarrow> conn_world \<Rightarrow> conn_world option" where
  "run_events [] w = Some w"
| "run_events (ev # evs) w = (case happens ev w of None \<Rightarrow> None | Some v \<Rightarrow> run_events evs v)"

definition conn_step :: "conn_world \<Rightarrow> conn_world \<Rightarrow> bool" where
  "conn_step w v \<longleftrightarrow> (\<exists>ev. happens ev w = Some v)"

text \<open>The steps of a manager that nobody asks to close an account or to shut down.\<close>

definition calm :: "conn_event \<Rightarrow> bool" where
  "calm ev \<longleftrightarrow> (case ev of Close_account a \<Rightarrow> False | Shutdown \<Rightarrow> False | _ \<Rightarrow> True)"

definition calm_step :: "conn_world \<Rightarrow> conn_world \<Rightarrow> bool" where
  "calm_step w v \<longleftrightarrow> (\<exists>ev. calm ev \<and> happens ev w = Some v)"

end
