(* ===== verification/Connections_Properties.thy ===== *)
theory Connections_Properties
  imports Connections
begin

text \<open>
  What the connection manager keeps in every interleaving of its coroutines, what it keeps while no account
  is closed, and how closing an account during an opening loses a connection.
\<close>

section \<open>Dictionaries and lists as multisets\<close>

definition opt_mset :: "'a option \<Rightarrow> 'a multiset" where
  "opt_mset x = (case x of None \<Rightarrow> {#} | Some c \<Rightarrow> {#c#})"

lemma opt_mset_simps [simp]: "opt_mset None = {#}" "opt_mset (Some c) = {#c#}"
  by (simp_all add: opt_mset_def)

lemma delete_Cons: "AList.delete k (x # xs) = (if fst x = k then AList.delete k xs else x # AList.delete k xs)"
  by (cases x) (simp add: AList.delete_eq)

lemma delete_absent: "k \<notin> fst ` set xs \<Longrightarrow> AList.delete k xs = xs"
  by (induction xs) (auto simp: delete_Cons AList.delete_eq)

lemma mset_delete:
  "distinct (map fst xs) \<Longrightarrow> mset (map g (AList.delete k xs)) + opt_mset (map_option (\<lambda>v. g (k, v)) (map_of xs k)) = mset (map g xs)"
proof (induction xs)
  case (Cons x xs)
  show ?case
  proof (cases "fst x = k")
    case True
    then have "AList.delete k (x # xs) = xs" using Cons.prems delete_absent [of k xs] by (simp add: delete_Cons)
    with True show ?thesis by (cases x) simp
  next
    case False
    with Cons show ?thesis by (cases x) (simp add: delete_Cons)
  qed
qed (simp add: AList.delete_eq)

lemma mset_update: "distinct (map fst xs) \<Longrightarrow>
    mset (map g (AList.update k v xs)) = mset (map g (AList.delete k xs)) + {#g (k, v)#}"
proof (induction xs)
  case (Cons x xs)
  show ?case
  proof (cases "fst x = k")
    case True
    then have "AList.delete k (x # xs) = xs" using Cons.prems delete_absent [of k xs] by (simp add: delete_Cons)
    with True show ?thesis by (cases x) simp
  next
    case False
    with Cons show ?thesis by (cases x) (simp add: delete_Cons)
  qed
qed (simp add: AList.delete_eq)

lemma in_update: "distinct (map fst xs) \<Longrightarrow> x \<in> set (AList.update k v xs) \<Longrightarrow> x = (k, v) \<or> (x \<in> set xs \<and> fst x \<noteq> k)"
proof (induction xs)
  case (Cons y xs)
  then show ?case by (cases y) (auto split: if_splits simp: image_iff)
qed simp

lemma in_delete: "x \<in> set (AList.delete k xs) \<Longrightarrow> x \<in> set xs \<and> fst x \<noteq> k"
  by (auto simp: AList.delete_eq)

lemma map_of_mem: "map_of xs k = Some v \<Longrightarrow> (k, v) \<in> set xs"
  by (rule map_of_SomeD)

lemma update_absent: "k \<notin> fst ` set xs \<Longrightarrow> AList.update k v xs = xs @ [(k, v)]"
  by (induction xs) auto

lemma distinct_countI: "(\<And>c. count (mset xs) c \<le> 1) \<Longrightarrow> distinct xs"
proof (induction xs)
  case (Cons x xs)
  have "count (mset xs) c \<le> count (mset (x # xs)) c" for c by simp
  then have "count (mset xs) c \<le> 1" for c using Cons.prems le_trans by blast
  moreover have "count (mset xs) x = 0" using Cons.prems [of x] by simp
  ultimately show ?case using Cons.IH by (simp add: count_eq_zero_iff)
qed simp

definition sum_mset_list :: "('a \<Rightarrow> 'b multiset) \<Rightarrow> 'a list \<Rightarrow> 'b multiset" where
  "sum_mset_list f xs = sum_list (map f xs)"

lemma sum_mset_list_simps [simp]:
  "sum_mset_list f [] = {#}" "sum_mset_list f (x # xs) = f x + sum_mset_list f xs"
  "sum_mset_list f (xs @ ys) = sum_mset_list f xs + sum_mset_list f ys"
  by (simp_all add: sum_mset_list_def)

lemma sum_mset_list_update: "t < length xs \<Longrightarrow> sum_mset_list f (xs[t := x]) + f (xs ! t) = sum_mset_list f xs + f x"
proof (induction xs arbitrary: t)
  case (Cons y xs)
  then show ?case by (cases t) (auto simp: ac_simps)
qed simp

lemma in_sum_mset_list: "c \<in># sum_mset_list f xs \<longleftrightarrow> (\<exists>x\<in>set xs. c \<in># f x)"
  by (induction xs) auto

section \<open>The invariant of every run\<close>

text \<open>The connection an opening is working on.\<close>

definition phase_connection :: "open_phase \<Rightarrow> nat option" where
  "phase_connection p = (case p of Connecting c \<Rightarrow> Some c | Synchronizing c \<Rightarrow> Some c | _ \<Rightarrow> None)"

definition phase_account_ok :: "connection list \<Rightarrow> string \<Rightarrow> open_phase \<Rightarrow> bool" where
  "phase_account_ok cs a p = (case p of Connecting c \<Rightarrow> c < length cs \<and> co_account (cs ! c) = a
     | Synchronizing c \<Rightarrow> c < length cs \<and> co_account (cs ! c) = a
     | Opened c \<Rightarrow> c < length cs \<and> co_account (cs ! c) = a
     | _ \<Rightarrow> True)"

definition task_connection :: "open_task \<Rightarrow> nat multiset" where
  "task_connection t = opt_mset (phase_connection (ot_phase t))"

text \<open>The places a connection may be at: in the dictionary, waiting to be closed, in the hands of an opening.\<close>

definition held :: "conn_world \<Rightarrow> nat multiset" where
  "held w = mset (map (ce_connection \<circ> snd) (cw_entries w)) + mset (cw_closing w) + sum_mset_list task_connection (cw_tasks w)"

definition held_ok :: "connection list \<Rightarrow> nat multiset \<Rightarrow> bool" where
  "held_ok cs H \<longleftrightarrow> (\<forall>c. count H c \<le> 1) \<and> (\<forall>c\<in>#H. c < length cs \<and> \<not> co_closed (cs ! c))"

definition entry_ok :: "connection list \<Rightarrow> string \<times> conn_entry \<Rightarrow> bool" where
  "entry_ok cs x \<longleftrightarrow> ce_connection (snd x) < length cs \<and> co_account (cs ! ce_connection (snd x)) = fst x"

definition opening_ok :: "open_task list \<Rightarrow> string \<times> nat \<Rightarrow> bool" where
  "opening_ok ts x \<longleftrightarrow> snd x < length ts \<and> ot_account (ts ! snd x) = fst x"

definition task_ok :: "connection list \<Rightarrow> open_task \<Rightarrow> bool" where
  "task_ok cs t \<longleftrightarrow> phase_account_ok cs (ot_account t) (ot_phase t)"

definition conn_ok :: "conn_world \<Rightarrow> bool" where
  "conn_ok w \<longleftrightarrow> distinct (map fst (cw_entries w)) \<and> distinct (map fst (cw_opening w))
     \<and> list_all (entry_ok (cw_connections w)) (cw_entries w) \<and> list_all (opening_ok (cw_tasks w)) (cw_opening w)
     \<and> list_all (task_ok (cw_connections w)) (cw_tasks w) \<and> held_ok (cw_connections w) (held w)"

lemma no_connections_ok: "conn_ok no_connections"
  by (simp add: conn_ok_def no_connections_def held_def held_ok_def)

lemma held_ok_less: "held_ok cs H \<Longrightarrow> G \<subseteq># H \<Longrightarrow> held_ok cs G"
  unfolding held_ok_def by (meson le_trans mset_subset_eqD mset_subset_eq_count)

text \<open>Closing a connection that is taken out of its place.\<close>

definition closed_at :: "nat \<Rightarrow> connection list \<Rightarrow> connection list" where
  "closed_at c cs = cs[c := (cs ! c) \<lparr>co_closed := True\<rparr>]"

lemma co_account_closed_at [simp]: "co_account (closed_at c cs ! k) = co_account (cs ! k)"
  by (cases "k = c"; cases "c < length cs") (simp_all add: closed_at_def list_update_beyond)

lemma length_closed_at [simp]: "length (closed_at c cs) = length cs"
  by (simp add: closed_at_def)

lemma held_ok_close: "held_ok cs (H + {#c#}) \<Longrightarrow> held_ok (closed_at c cs) H"
proof -
  assume ok: "held_ok cs (H + {#c#})"
  have n: "count H k + count {#c#} k \<le> 1" for k using ok unfolding held_ok_def count_union by blast
  have "count H c = 0" using n [of c] by simp
  then have c: "c \<notin># H" by (simp add: count_eq_zero_iff)
  have m: "count H k \<le> 1" for k using n [of k] by linarith
  have "k < length cs \<and> \<not> co_closed (closed_at c cs ! k)" if "k \<in># H" for k
  proof -
    have "k \<noteq> c" using that c by blast
    then have "closed_at c cs ! k = cs ! k" by (simp add: closed_at_def)
    with ok that show ?thesis by (simp add: held_ok_def)
  qed
  with m show ?thesis by (simp add: held_ok_def)
qed

lemma phase_account_ok_mono:
  assumes "phase_account_ok cs a p" "length cs \<le> length cs'" "\<And>k. k < length cs \<Longrightarrow> co_account (cs' ! k) = co_account (cs ! k)"
  shows "phase_account_ok cs' a p"
  using assms by (auto simp: phase_account_ok_def split: open_phase.splits)

section \<open>Every event keeps it\<close>

lemma held_pop_entry: "distinct (map fst (cw_entries w)) \<Longrightarrow> held (pop_entry a w) = held w"
  using mset_delete [of "cw_entries w" "ce_connection \<circ> snd" a]
  by (auto simp: pop_entry_def held_def ac_simps split: option.splits)

lemma pop_entry_simps [simp]:
  "cw_opening (pop_entry a w) = cw_opening w" "cw_tasks (pop_entry a w) = cw_tasks w"
  "cw_connections (pop_entry a w) = cw_connections w" "cw_entries (pop_entry a w) = AList.delete a (cw_entries w)"
proof -
  show "cw_entries (pop_entry a w) = AList.delete a (cw_entries w)"
  proof (cases "map_of (cw_entries w) a")
    case None
    then have "a \<notin> fst ` set (cw_entries w)" by (simp add: map_of_eq_None_iff)
    then show ?thesis by (simp add: pop_entry_def None delete_absent)
  qed (simp add: pop_entry_def)
qed (simp_all add: pop_entry_def split: option.splits)

lemma list_all_delete: "list_all P xs \<Longrightarrow> list_all P (AList.delete k xs)"
  by (auto simp: list_all_iff dest: in_delete)

lemma list_all_update: "distinct (map fst xs) \<Longrightarrow> list_all P xs \<Longrightarrow> P (k, v) \<Longrightarrow> list_all P (AList.update k v xs)"
  using in_update [of xs] by (fastforce simp: list_all_iff)

lemma pop_entry_ok: "conn_ok w \<Longrightarrow> conn_ok (pop_entry a w)"
  by (auto simp: conn_ok_def held_pop_entry AList.distinct_delete list_all_delete)

lemma new_task_ok: "conn_ok w \<Longrightarrow> conn_ok (new_task a w)"
proof -
  assume ok: "conn_ok w"
  have "opening_ok (cw_tasks w @ [t]) x" if "opening_ok (cw_tasks w) x" for t x
    using that by (auto simp: opening_ok_def nth_append)
  then have "list_all (opening_ok (cw_tasks (new_task a w))) (cw_opening (new_task a w))"
    using ok by (auto simp: conn_ok_def new_task_def list_all_iff opening_ok_def dest!: in_update)
  moreover have "held (new_task a w) = held w"
    by (simp add: held_def new_task_def task_connection_def phase_connection_def)
  ultimately show ?thesis
    using ok by (auto simp: conn_ok_def new_task_def AList.distinct_update task_ok_def phase_account_ok_def)
qed

lemma acquire_ok: "conn_ok w \<Longrightarrow> conn_ok (snd (acquire clock h a w))"
proof -
  assume ok: "conn_ok w"
  have hit: "conn_ok (w \<lparr>cw_entries := AList.update a (e \<lparr>ce_last_used_at := clock\<rparr>) (cw_entries w)\<rparr>)"
    if e: "map_of (cw_entries w) a = Some e" for e
  proof -
    have d: "distinct (map fst (cw_entries w))" using ok by (simp add: conn_ok_def)
    have "mset (map (ce_connection \<circ> snd) (AList.update a (e \<lparr>ce_last_used_at := clock\<rparr>) (cw_entries w)))
        = mset (map (ce_connection \<circ> snd) (cw_entries w))"
      using mset_update [OF d, of "ce_connection \<circ> snd"] mset_delete [OF d, of "ce_connection \<circ> snd" a] e by simp
    then have "held (w \<lparr>cw_entries := AList.update a (e \<lparr>ce_last_used_at := clock\<rparr>) (cw_entries w)\<rparr>) = held w"
      by (simp add: held_def)
    moreover have "entry_ok (cw_connections w) (a, e \<lparr>ce_last_used_at := clock\<rparr>)"
      using ok map_of_mem [OF e] by (auto simp: conn_ok_def list_all_iff entry_ok_def)
    ultimately show ?thesis using ok d by (auto simp: conn_ok_def AList.distinct_update intro: list_all_update)
  qed
  show ?thesis
    using ok hit pop_entry_ok [OF ok, of a] new_task_ok [OF ok, of a] new_task_ok [OF pop_entry_ok [OF ok, of a], of a]
    by (auto simp: acquire_def Let_def split: option.split)
qed

lemma task_at: "conn_ok w \<Longrightarrow> t < length (cw_tasks w) \<Longrightarrow> task_ok (cw_connections w) (cw_tasks w ! t)"
  by (simp add: conn_ok_def list_all_length)

lemma opening_ok_update: "opening_ok ts x \<Longrightarrow> ot_account y = ot_account (ts ! t) \<Longrightarrow> opening_ok (ts[t := y]) x"
  by (cases "t = snd x") (auto simp: opening_ok_def nth_list_update)

lemma held_set_phase: "t < length (cw_tasks w) \<Longrightarrow>
    held (set_phase t p w) + opt_mset (phase_connection (ot_phase (cw_tasks w ! t))) = held w + opt_mset (phase_connection p)"
  using sum_mset_list_update [of t "cw_tasks w" task_connection "(cw_tasks w ! t) \<lparr>ot_phase := p, ot_cancelled := False\<rparr>"]
  by (simp add: held_def set_phase_def task_connection_def ac_simps)

lemma set_phase_ok:
  assumes ok: "conn_ok w" and t: "t < length (cw_tasks w)" and p: "phase_account_ok (cw_connections w) (ot_account (cw_tasks w ! t)) p"
    and h: "held_ok (cw_connections w) (held (set_phase t p w))"
  shows "conn_ok (set_phase t p w)"
proof -
  have "list_all (task_ok (cw_connections w)) (cw_tasks (set_phase t p w))"
    using ok t p by (auto simp: conn_ok_def set_phase_def list_all_length task_ok_def nth_list_update)
  moreover have "list_all (opening_ok (cw_tasks (set_phase t p w))) (cw_opening w)"
    using ok by (auto simp: conn_ok_def set_phase_def list_all_iff intro: opening_ok_update)
  ultimately show ?thesis using ok h by (simp add: conn_ok_def set_phase_def)
qed

lemma held_frame [simp]: "held (w \<lparr>cw_opening := x\<rparr>) = held w" "held (w \<lparr>cw_connections := y\<rparr>) = held w"
  by (simp_all add: held_def)

lemma drop_opening_ok: "conn_ok w \<Longrightarrow> conn_ok (w \<lparr>cw_opening := AList.delete a (cw_opening w)\<rparr>)"
  by (auto simp: conn_ok_def AList.distinct_delete list_all_delete)

lemma leave_opening_eq: "leave_opening t p w =
    (set_phase t p w) \<lparr>cw_opening := AList.delete (ot_account (cw_tasks w ! t)) (cw_opening (set_phase t p w))\<rparr>"
  by (simp add: leave_opening_def set_phase_def)

lemma leave_opening_ok:
  assumes "conn_ok w" "t < length (cw_tasks w)" "phase_account_ok (cw_connections w) (ot_account (cw_tasks w ! t)) p"
    "held_ok (cw_connections w) (held (set_phase t p w))"
  shows "conn_ok (leave_opening t p w)"
  unfolding leave_opening_eq by (rule drop_opening_ok [OF set_phase_ok [OF assms]])

lemma conn_ok_connections:
  assumes ok: "conn_ok w" and l: "length (cw_connections w) \<le> length cs" and a: "\<And>k. k < length (cw_connections w) \<Longrightarrow> co_account (cs ! k) = co_account (cw_connections w ! k)"
    and h: "held_ok cs (held w)"
  shows "conn_ok (w \<lparr>cw_connections := cs\<rparr>)"
proof -
  have "list_all (entry_ok cs) (cw_entries w)"
    using ok l a by (fastforce simp: conn_ok_def list_all_iff entry_ok_def)
  moreover have "list_all (task_ok cs) (cw_tasks w)"
    using ok l a phase_account_ok_mono [of "cw_connections w"] by (auto simp: conn_ok_def list_all_iff task_ok_def)
  ultimately show ?thesis using ok h by (simp add: conn_ok_def)
qed

lemma close_connection_eq: "close_connection c w = w \<lparr>cw_connections := closed_at c (cw_connections w)\<rparr>"
  by (simp add: close_connection_def closed_at_def)

text \<open>An opening that loses its connection \<open>c\<close> by closing it.\<close>

lemma give_up_ok:
  assumes ok: "conn_ok w" and t: "t < length (cw_tasks w)" and c: "phase_connection (ot_phase (cw_tasks w ! t)) = Some c"
  shows "conn_ok (set_phase t (Closing_failed c) (close_connection c w))"
proof -
  have "held w = held (set_phase t (Closing_failed c) w) + {#c#}"
    using held_set_phase [OF t, of "Closing_failed c"] c by (simp add: phase_connection_def)
  then have 1: "held_ok (cw_connections w) (held (set_phase t (Closing_failed c) w) + {#c#})" using ok by (simp add: conn_ok_def)
  then have "held_ok (cw_connections w) (held (set_phase t (Closing_failed c) w))" by (rule held_ok_less) simp
  then have "conn_ok (set_phase t (Closing_failed c) w)"
    by (rule set_phase_ok [OF ok t, rotated]) (simp add: phase_account_ok_def)
  then have "conn_ok ((set_phase t (Closing_failed c) w) \<lparr>cw_connections := closed_at c (cw_connections w)\<rparr>)"
    by (rule conn_ok_connections) (use held_ok_close [OF 1] in \<open>simp_all add: set_phase_def\<close>)
  moreover have "set_phase t (Closing_failed c) (close_connection c w)
      = (set_phase t (Closing_failed c) w) \<lparr>cw_connections := closed_at c (cw_connections w)\<rparr>"
    by (simp add: set_phase_def close_connection_eq)
  ultimately show ?thesis by simp
qed

lemma connect_ok:
  assumes ok: "conn_ok w" and t: "t < length (cw_tasks w)" "ot_phase (cw_tasks w ! t) = Fetching"
  shows "conn_ok ((set_phase t (Connecting (length (cw_connections w))) w)
    \<lparr>cw_connections := cw_connections w @ [\<lparr>co_account = ot_account (cw_tasks w ! t), co_closed = False\<rparr>]\<rparr>)"
proof -
  let ?c = "length (cw_connections w)" and ?cs = "cw_connections w @ [\<lparr>co_account = ot_account (cw_tasks w ! t), co_closed = False\<rparr>]"
  have h: "held (set_phase t (Connecting ?c) w) = held w + {#?c#}"
    using held_set_phase [OF t(1), of "Connecting ?c"] t(2) by (simp add: phase_connection_def)
  have ok0: "held_ok (cw_connections w) (held w)" using ok by (simp add: conn_ok_def)
  then have "?c \<notin># held w" by (auto simp: held_ok_def)
  then have n: "count (held w) ?c = 0" by (simp add: count_eq_zero_iff)
  have "count (held w + {#?c#}) k \<le> 1" for k using ok0 n by (cases "k = ?c") (simp_all add: held_ok_def)
  then have "held_ok ?cs (held w + {#?c#})"
    using ok0 by (auto simp: held_ok_def nth_append)
  moreover have 1: "conn_ok (w \<lparr>cw_connections := ?cs\<rparr>)"
    by (rule conn_ok_connections [OF ok]) (use ok0 in \<open>auto simp: held_ok_def nth_append\<close>)
  ultimately have "conn_ok (set_phase t (Connecting ?c) (w \<lparr>cw_connections := ?cs\<rparr>))"
    using t(1) h by (intro set_phase_ok) (simp_all add: phase_account_ok_def set_phase_def held_def)
  then show ?thesis by (cases w) (simp add: set_phase_def)
qed

lemma store_ok:
  assumes ok: "conn_ok w" and t: "t < length (cw_tasks w)" and p: "ot_phase (cw_tasks w ! t) = Synchronizing c"
  shows "conn_ok (leave_opening t (Opened c) (w \<lparr>cw_entries := AList.update (ot_account (cw_tasks w ! t))
    \<lparr>ce_connection = c, ce_last_used_at = clock\<rparr> (cw_entries w)\<rparr>))" (is "conn_ok (leave_opening t _ (w \<lparr>cw_entries := AList.update ?a ?e _\<rparr>))")
proof -
  let ?v = "set_phase t (Opened c) w"
  have d: "distinct (map fst (cw_entries w))" using ok by (simp add: conn_ok_def)
  have pa: "phase_account_ok (cw_connections w) ?a (Opened c)"
    using task_at [OF ok t] p by (simp add: task_ok_def phase_account_ok_def)
  have h: "held ?v + {#c#} = held w" using held_set_phase [OF t, of "Opened c"] p by (simp add: phase_connection_def)
  have "held ?v \<subseteq># held w" unfolding h [symmetric] by simp
  then have okv: "conn_ok ?v"
    using set_phase_ok [OF ok t pa] held_ok_less [of "cw_connections w" "held w"] ok by (simp add: conn_ok_def)
  let ?u = "?v \<lparr>cw_entries := AList.update ?a ?e (cw_entries w)\<rparr>"
  have "held ?u + opt_mset (map_option ce_connection (map_of (cw_entries w) ?a)) = held ?v + {#c#}"
    using mset_update [OF d, of "ce_connection \<circ> snd" ?a ?e] mset_delete [OF d, of "ce_connection \<circ> snd" ?a]
    by (auto simp: held_def set_phase_def ac_simps comp_def)
  then have "held ?u \<subseteq># held w" using h by (metis mset_subset_eq_add_left)
  then have hu: "held_ok (cw_connections w) (held ?u)" using ok held_ok_less by (auto simp: conn_ok_def)
  have "entry_ok (cw_connections w) (?a, ?e)" using pa by (simp add: entry_ok_def phase_account_ok_def)
  then have "list_all (entry_ok (cw_connections w)) (AList.update ?a ?e (cw_entries w))"
    using ok d by (auto simp: conn_ok_def intro: list_all_update)
  then have "conn_ok ?u" using okv hu d by (auto simp: conn_ok_def set_phase_def AList.distinct_update)
  then have "conn_ok (?u \<lparr>cw_opening := AList.delete ?a (cw_opening ?u)\<rparr>)" by (rule drop_opening_ok)
  moreover have "leave_opening t (Opened c) (w \<lparr>cw_entries := AList.update ?a ?e (cw_entries w)\<rparr>) = ?u \<lparr>cw_opening := AList.delete ?a (cw_opening ?u)\<rparr>"
    by (cases w) (simp add: leave_opening_def set_phase_def)
  ultimately show ?thesis by simp
qed

lemma quiet_phase_ok:
  assumes ok: "conn_ok w" and t: "t < length (cw_tasks w)" and p: "phase_account_ok (cw_connections w) (ot_account (cw_tasks w ! t)) p"
    and c: "phase_connection p = phase_connection (ot_phase (cw_tasks w ! t))"
  shows "conn_ok (set_phase t p w)" "conn_ok (leave_opening t p w)"
proof -
  have "held (set_phase t p w) = held w" using held_set_phase [OF t, of p] c by simp
  then have "held_ok (cw_connections w) (held (set_phase t p w))" using ok by (simp add: conn_ok_def)
  then show "conn_ok (set_phase t p w)" "conn_ok (leave_opening t p w)"
    using set_phase_ok [OF ok t p] leave_opening_ok [OF ok t p] by blast+
qed

lemma open_resumes_ok:
  assumes ok: "conn_ok w" and t: "t < length (cw_tasks w)"
  shows "conn_ok (open_resumes clock t answer w)"
proof (cases "ot_phase (cw_tasks w ! t)")
  case Created
  then show ?thesis using quiet_phase_ok [OF ok t] by (auto simp: open_resumes_def phase_account_ok_def phase_connection_def)
next
  case Fetching
  then show ?thesis
    using quiet_phase_ok [OF ok t] connect_ok [OF ok t] by (auto simp: open_resumes_def Let_def phase_account_ok_def phase_connection_def)
next
  case (Connecting c)
  then show ?thesis
    using quiet_phase_ok [OF ok t, of "Synchronizing c"] give_up_ok [OF ok t, of c] task_at [OF ok t]
    by (auto simp: open_resumes_def Let_def phase_account_ok_def phase_connection_def task_ok_def)
next
  case (Synchronizing c)
  then show ?thesis
    using store_ok [OF ok t] give_up_ok [OF ok t, of c] by (auto simp: open_resumes_def Let_def phase_connection_def)
next
  case (Closing_failed c)
  then show ?thesis using quiet_phase_ok [OF ok t] by (auto simp: open_resumes_def phase_account_ok_def phase_connection_def)
qed (simp_all add: open_resumes_def ok)

lemma cancel_ok: "conn_ok w \<Longrightarrow> t < length (cw_tasks w) \<Longrightarrow> conn_ok (cancel t w)"
proof -
  assume ok: "conn_ok w" and t: "t < length (cw_tasks w)"
  let ?x = "(cw_tasks w ! t) \<lparr>ot_cancelled := True\<rparr>"
  have "sum_mset_list task_connection ((cw_tasks w)[t := ?x]) = sum_mset_list task_connection (cw_tasks w)"
    using sum_mset_list_update [OF t, of task_connection ?x] by (simp add: task_connection_def)
  then have "held (w \<lparr>cw_tasks := (cw_tasks w)[t := ?x]\<rparr>) = held w" by (simp add: held_def)
  moreover have "list_all (task_ok (cw_connections w)) ((cw_tasks w)[t := ?x])"
    using ok t by (auto simp: conn_ok_def list_all_length task_ok_def nth_list_update)
  moreover have "list_all (opening_ok ((cw_tasks w)[t := ?x])) (cw_opening w)"
    using ok by (auto simp: conn_ok_def list_all_iff intro: opening_ok_update)
  ultimately show ?thesis using ok by (simp add: cancel_def conn_ok_def)
qed

lemma length_cancel [simp]: "length (cw_tasks (cancel t w)) = length (cw_tasks w)"
  by (simp add: cancel_def)

lemma fold_cancel_ok: "conn_ok w \<Longrightarrow> list_all (\<lambda>t. t < length (cw_tasks w)) ts \<Longrightarrow> conn_ok (fold cancel ts w)"
  by (induction ts arbitrary: w) (auto simp: cancel_ok)

lemma close_account_ok: "conn_ok w \<Longrightarrow> conn_ok (close_account a w)"
proof -
  assume ok: "conn_ok w"
  have "conn_ok ((pop_entry a w) \<lparr>cw_opening := AList.delete a (cw_opening w)\<rparr>)"
    using drop_opening_ok [OF pop_entry_ok [OF ok, of a], of a] by simp
  moreover have "t < length (cw_tasks w)" if "map_of (cw_opening w) a = Some t" for t
    using ok map_of_mem [OF that] by (auto simp: conn_ok_def list_all_iff opening_ok_def)
  ultimately show ?thesis by (auto simp: close_account_def Let_def split: option.split intro: cancel_ok)
qed

lemma held_partition:
  "mset (map g (filter P xs)) + mset (map g (filter (\<lambda>x. \<not> P x) xs)) = mset (map g xs)"
  by (induction xs) auto

lemma evict_idle_ok: "conn_ok w \<Longrightarrow> conn_ok (snd (evict_idle clock idle w))"
proof -
  assume ok: "conn_ok w"
  have "held (snd (evict_idle clock idle w)) = held w"
    using held_partition [of "ce_connection \<circ> snd" "\<lambda>(a, e). ce_last_used_at e < clock - idle" "cw_entries w"]
    by (simp add: evict_idle_def Let_def held_def case_prod_beta' ac_simps)
  then show ?thesis
    using ok by (auto simp: conn_ok_def evict_idle_def Let_def list_all_iff distinct_map_filter)
qed

lemma shutdown_ok: "conn_ok w \<Longrightarrow> conn_ok (shutdown w)"
proof -
  assume ok: "conn_ok w"
  have "conn_ok (w \<lparr>cw_entries := [], cw_opening := [], cw_closing := cw_closing w @ map (ce_connection \<circ> snd) (cw_entries w)\<rparr>)"
    using ok by (simp add: conn_ok_def held_def ac_simps)
  then show ?thesis
    unfolding shutdown_def by (rule fold_cancel_ok) (use ok in \<open>auto simp: conn_ok_def list_all_iff opening_ok_def\<close>)
qed

lemma closed_ok: "conn_ok w \<Longrightarrow> c \<in> set (cw_closing w) \<Longrightarrow> conn_ok ((close_connection c w) \<lparr>cw_closing := remove1 c (cw_closing w)\<rparr>)"
proof -
  assume ok: "conn_ok w" and c: "c \<in> set (cw_closing w)"
  let ?v = "w \<lparr>cw_closing := remove1 c (cw_closing w)\<rparr>"
  have h: "held w = held ?v + {#c#}" using c by (simp add: held_def)
  then have 1: "held_ok (cw_connections w) (held ?v + {#c#})" using ok by (simp add: conn_ok_def)
  then have "held_ok (cw_connections w) (held ?v)" by (rule held_ok_less) simp
  then have "conn_ok ?v" using ok by (simp add: conn_ok_def)
  then have "conn_ok (?v \<lparr>cw_connections := closed_at c (cw_connections w)\<rparr>)"
    by (rule conn_ok_connections) (use held_ok_close [OF 1] in simp_all)
  then show ?thesis by (cases w) (simp add: close_connection_eq)
qed

lemma conn_step_ok: "conn_ok w \<Longrightarrow> conn_step w v \<Longrightarrow> conn_ok v"
proof -
  assume ok: "conn_ok w" and "conn_step w v"
  then obtain ev where "happens ev w = Some v" by (auto simp: conn_step_def)
  with ok show ?thesis
    by (cases ev) (auto simp: happens_def split: if_splits
        intro: acquire_ok open_resumes_ok close_account_ok evict_idle_ok shutdown_ok closed_ok)
qed

interpretation manager: invariant_system "\<lambda>w. w = no_connections" conn_step conn_ok
  by unfold_locales (auto simp: no_connections_ok intro: conn_step_ok)

text \<open>
  Property C27. In every interleaving of requests for connections, of openings that succeed, fail or are
  cancelled, of evictions and of closings, a connection that is kept for an account, and the connection an
  opening for an account ends with, is one that was opened for that account; a kept connection has never been
  closed, and no connection is kept twice.
\<close>

theorem connections_stay_with_their_account:
  assumes "conn_step\<^sup>*\<^sup>* no_connections w"
  shows "list_all (\<lambda>(a, e). co_account (cw_connections w ! ce_connection e) = a \<and> \<not> co_closed (cw_connections w ! ce_connection e)) (cw_entries w)
    \<and> list_all (\<lambda>t. \<forall>c. ot_phase t = Opened c \<longrightarrow> co_account (cw_connections w ! c) = ot_account t) (cw_tasks w)
    \<and> distinct (map (ce_connection \<circ> snd) (cw_entries w))"
proof -
  have ok: "conn_ok w" using manager.reachable_inv assms by blast
  have "c \<in># held w" if "(a, e) \<in> set (cw_entries w)" "c = ce_connection e" for a e c
    using that by (force simp: held_def)
  then have "list_all (\<lambda>(a, e). co_account (cw_connections w ! ce_connection e) = a \<and> \<not> co_closed (cw_connections w ! ce_connection e)) (cw_entries w)"
    using ok by (fastforce simp: conn_ok_def list_all_iff entry_ok_def held_ok_def)
  moreover have "list_all (\<lambda>t. \<forall>c. ot_phase t = Opened c \<longrightarrow> co_account (cw_connections w ! c) = ot_account t) (cw_tasks w)"
    using ok by (auto simp: conn_ok_def list_all_iff task_ok_def phase_account_ok_def)
  moreover have "distinct (map (ce_connection \<circ> snd) (cw_entries w))"
  proof -
    have "count (mset (map (ce_connection \<circ> snd) (cw_entries w))) c \<le> 1" for c
    proof -
      have "count (mset (map (ce_connection \<circ> snd) (cw_entries w))) c \<le> count (held w) c" by (simp add: held_def)
      also have "\<dots> \<le> 1" using ok by (simp add: conn_ok_def held_ok_def)
      finally show ?thesis .
    qed
    then show ?thesis by (rule distinct_countI)
  qed
  ultimately show ?thesis by blast
qed

section \<open>One opening per account\<close>

definition opening_live :: "open_task list \<Rightarrow> string set \<Rightarrow> string \<times> nat \<Rightarrow> bool" where
  "opening_live ts kept x \<longleftrightarrow> \<not> finished (ot_phase (ts ! snd x)) \<and> \<not> ot_cancelled (ts ! snd x) \<and> fst x \<notin> kept"

definition flight_ok :: "conn_world \<Rightarrow> bool" where
  "flight_ok w \<longleftrightarrow> (\<forall>t<length (cw_tasks w). \<not> finished (ot_phase (cw_tasks w ! t)) \<longrightarrow> (ot_account (cw_tasks w ! t), t) \<in> set (cw_opening w))
     \<and> (\<forall>x\<in>set (cw_opening w). opening_live (cw_tasks w) (fst ` set (cw_entries w)) x)"

definition no_leak :: "conn_world \<Rightarrow> bool" where
  "no_leak w \<longleftrightarrow> (\<forall>c<length (cw_connections w). co_closed (cw_connections w ! c) \<or> c \<in># held w)"

lemma opening_live_less: "opening_live ts kept x \<Longrightarrow> kept' \<subseteq> kept \<Longrightarrow> opening_live ts kept' x"
  by (auto simp: opening_live_def)

lemma flight_entries:
  assumes "flight_ok w" "cw_tasks v = cw_tasks w" "cw_opening v = cw_opening w" "fst ` set (cw_entries v) \<subseteq> fst ` set (cw_entries w)"
  shows "flight_ok v"
  using assms opening_live_less [OF _ assms(4)] unfolding flight_ok_def by simp

lemma flight_pop_entry: "flight_ok w \<Longrightarrow> flight_ok (pop_entry a w)"
  by (erule flight_entries) (auto dest: in_delete)

lemma opening_index: "conn_ok w \<Longrightarrow> x \<in> set (cw_opening w) \<Longrightarrow> snd x < length (cw_tasks w) \<and> ot_account (cw_tasks w ! snd x) = fst x"
  by (auto simp: conn_ok_def list_all_iff opening_ok_def)

lemma flight_new_task:
  assumes ok: "conn_ok w" and f: "flight_ok w" and a: "map_of (cw_opening w) a = None" "a \<notin> fst ` set (cw_entries w)"
  shows "flight_ok (new_task a w)"
proof -
  let ?x = "\<lparr>ot_account = a, ot_phase = Created, ot_cancelled = False\<rparr>" and ?n = "length (cw_tasks w)"
  have "a \<notin> fst ` set (cw_opening w)" using a(1) by (simp add: map_of_eq_None_iff)
  then have u: "cw_opening (new_task a w) = cw_opening w @ [(a, ?n)]" by (simp add: new_task_def update_absent)
  have "opening_live (cw_tasks w @ [?x]) (fst ` set (cw_entries w)) x" if "x \<in> set (cw_opening w)" for x
    using f that opening_index [OF ok that] by (simp add: flight_ok_def opening_live_def nth_append)
  moreover have "opening_live (cw_tasks w @ [?x]) (fst ` set (cw_entries w)) (a, ?n)"
    using a(2) by (simp add: opening_live_def finished_def)
  ultimately show ?thesis
    using f unfolding flight_ok_def u by (auto simp: new_task_def nth_append less_Suc_eq)
qed

lemma flight_acquire: "conn_ok w \<Longrightarrow> flight_ok w \<Longrightarrow> flight_ok (snd (acquire clock h a w))"
proof -
  assume ok: "conn_ok w" and f: "flight_ok w"
  have hit: "flight_ok (w \<lparr>cw_entries := AList.update a e (cw_entries w)\<rparr>)" if "map_of (cw_entries w) a = Some e'" for e e'
    by (rule flight_entries [OF f]) (use that map_of_mem [OF that] in \<open>auto simp: AList.update_conv' image_iff dom_map_of_conv_image_fst [symmetric] in_update\<close>)
  have gone: "a \<notin> fst ` set (cw_entries (pop_entry a w))" by (auto dest: in_delete)
  show ?thesis
    using f hit flight_pop_entry [OF f, of a] flight_new_task [OF ok f, of a] flight_new_task [OF pop_entry_ok [OF ok, of a] flight_pop_entry [OF f], of a] gone
    by (auto simp: acquire_def Let_def map_of_eq_None_iff split: option.split)
qed

lemma set_phase_simps [simp]:
  "cw_opening (set_phase t p w) = cw_opening w" "cw_entries (set_phase t p w) = cw_entries w"
  "cw_connections (set_phase t p w) = cw_connections w" "length (cw_tasks (set_phase t p w)) = length (cw_tasks w)"
  "cw_tasks (set_phase t p w) = (cw_tasks w)[t := (cw_tasks w ! t) \<lparr>ot_phase := p, ot_cancelled := False\<rparr>]"
  by (simp_all add: set_phase_def)

lemma flight_set_phase:
  assumes f: "flight_ok w" and t: "t < length (cw_tasks w)" "\<not> finished (ot_phase (cw_tasks w ! t))" and p: "\<not> finished p"
  shows "flight_ok (set_phase t p w)"
proof -
  let ?ts = "(cw_tasks w)[t := (cw_tasks w ! t) \<lparr>ot_phase := p, ot_cancelled := False\<rparr>]"
  have "opening_live ?ts kept x" if "opening_live (cw_tasks w) kept x" for x kept
    using that t p by (cases "t = snd x") (simp_all add: opening_live_def)
  then show ?thesis using f t p by (auto simp: flight_ok_def nth_list_update)
qed

lemma flight_leave:
  assumes ok: "conn_ok w" and f: "flight_ok w" and t: "t < length (cw_tasks w)" "\<not> finished (ot_phase (cw_tasks w ! t))" and p: "finished p"
    and e: "fst ` set es \<subseteq> insert (ot_account (cw_tasks w ! t)) (fst ` set (cw_entries w))"
  shows "flight_ok (leave_opening t p (w \<lparr>cw_entries := es\<rparr>))"
proof -
  let ?a = "ot_account (cw_tasks w ! t)" and ?ts = "(cw_tasks w)[t := (cw_tasks w ! t) \<lparr>ot_phase := p, ot_cancelled := False\<rparr>]"
  have m: "(?a, t) \<in> set (cw_opening w)" using f t by (simp add: flight_ok_def)
  have d: "distinct (map fst (cw_opening w))" using ok by (simp add: conn_ok_def)
  have other: "fst x \<noteq> ?a \<and> snd x \<noteq> t" if "x \<in> set (AList.delete ?a (cw_opening w))" for x
    using in_delete [OF that] opening_index [OF ok, of x] by auto
  have "opening_live ?ts (fst ` set es) x" if "x \<in> set (AList.delete ?a (cw_opening w))" for x
  proof -
    have "opening_live (cw_tasks w) (fst ` set (cw_entries w)) x" using f in_delete [OF that] by (simp add: flight_ok_def)
    then show ?thesis using other [OF that] e by (auto simp: opening_live_def)
  qed
  moreover have "(ot_account (cw_tasks w ! u), u) \<in> set (AList.delete ?a (cw_opening w))"
    if u: "u < length (cw_tasks w)" "\<not> finished (ot_phase (cw_tasks w ! u))" "u \<noteq> t" for u
  proof -
    have "(ot_account (cw_tasks w ! u), u) \<in> set (cw_opening w)" using f u by (simp add: flight_ok_def)
    moreover from this m d have "ot_account (cw_tasks w ! u) \<noteq> ?a"
      using u(3) by (metis eq_key_imp_eq_value)
    ultimately show ?thesis by (simp add: AList.delete_eq)
  qed
  ultimately show ?thesis
    using p t unfolding flight_ok_def leave_opening_def
    by (simp add: set_phase_def nth_list_update)
qed

lemma flight_resumes:
  assumes ok: "conn_ok w" and f: "flight_ok w" and t: "t < length (cw_tasks w)" "\<not> finished (ot_phase (cw_tasks w ! t))"
  shows "flight_ok (open_resumes clock t answer w)"
proof -
  have m: "(ot_account (cw_tasks w ! t), t) \<in> set (cw_opening w)" using f t by (simp add: flight_ok_def)
  then have nc: "\<not> ot_cancelled (cw_tasks w ! t)" using f by (auto simp: flight_ok_def opening_live_def)
  have conns: "flight_ok (v \<lparr>cw_connections := cs\<rparr>)" if "flight_ok v" for v cs using that by (simp add: flight_ok_def)
  have "w \<lparr>cw_entries := cw_entries w\<rparr> = w" by simp
  then have leave: "flight_ok (leave_opening t p w)" if "finished p" for p
    using flight_leave [OF ok f t that, of "cw_entries w"] by auto
  have give: "flight_ok (set_phase t (Closing_failed c) (close_connection c w))" for c
    using flight_set_phase [of "close_connection c w" t "Closing_failed c"] conns [OF f] t
    by (simp add: close_connection_eq finished_def)
  have keys: "fst ` set (AList.update k v xs) \<subseteq> insert k (fst ` set xs)" for k v and xs :: "(string \<times> conn_entry) list"
    by (simp add: dom_map_of_conv_image_fst [symmetric] AList.update_conv' subset_insertI2)
  show ?thesis
    using nc t(2) flight_set_phase [OF f t] leave give flight_leave [OF ok f t _ keys] conns
    by (cases "ot_phase (cw_tasks w ! t)") (auto simp: open_resumes_def Let_def finished_def)
qed

lemma calm_flight:
  assumes "conn_ok w" "flight_ok w" "calm ev" "happens ev w = Some v"
  shows "flight_ok v"
  using assms
proof (cases ev)
  case (Evict_idle clock idle)
  have "flight_ok (snd (evict_idle clock idle w))"
    by (rule flight_entries [OF assms(2)]) (auto simp: evict_idle_def Let_def)
  with Evict_idle assms(4) show ?thesis by (simp add: happens_def)
next
  case (Closed c)
  have "flight_ok ((close_connection c w) \<lparr>cw_closing := remove1 c (cw_closing w)\<rparr>)"
    by (rule flight_entries [OF assms(2)]) (simp_all add: close_connection_eq)
  with Closed assms(4) show ?thesis by (simp add: happens_def split: if_splits)
qed (use assms flight_acquire flight_resumes in \<open>auto simp: happens_def calm_def split: if_splits\<close>)

section \<open>No connection is lost while no account is closed\<close>

lemma no_leak_same: "no_leak w \<Longrightarrow> cw_connections v = cw_connections w \<Longrightarrow> held v = held w \<Longrightarrow> no_leak v"
  by (simp add: no_leak_def)

lemma no_leak_closed:
  assumes "no_leak w" "cw_connections v = closed_at c (cw_connections w)" "held w = held v + {#c#}"
  shows "no_leak v"
  unfolding no_leak_def
proof (intro allI impI)
  fix k
  assume k: "k < length (cw_connections v)"
  show "co_closed (cw_connections v ! k) \<or> k \<in># held v"
  proof (cases "k = c")
    case False
    then show ?thesis using assms k by (auto simp: no_leak_def closed_at_def)
  qed (use k assms(2) in \<open>simp add: closed_at_def\<close>)
qed

lemma held_new_task: "held (new_task a w) = held w"
  by (simp add: held_def new_task_def task_connection_def phase_connection_def)

lemma held_hit:
  assumes d: "distinct (map fst (cw_entries w))" and e: "map_of (cw_entries w) a = Some e"
  shows "held (w \<lparr>cw_entries := AList.update a (e \<lparr>ce_last_used_at := clock\<rparr>) (cw_entries w)\<rparr>) = held w"
  using mset_update [OF d, of "ce_connection \<circ> snd"] mset_delete [OF d, of "ce_connection \<circ> snd" a] e by (simp add: held_def)

lemma held_evict_idle: "held (snd (evict_idle clock idle w)) = held w"
  using held_partition [of "ce_connection \<circ> snd" "\<lambda>(a, e). ce_last_used_at e < clock - idle" "cw_entries w"]
  by (simp add: evict_idle_def Let_def held_def case_prod_beta' ac_simps)

lemma acquire_frame: "distinct (map fst (cw_entries w)) \<Longrightarrow>
    held (snd (acquire clock h a w)) = held w \<and> cw_connections (snd (acquire clock h a w)) = cw_connections w"
  by (auto simp: acquire_def Let_def held_new_task held_pop_entry held_hit split: option.split) (simp_all add: new_task_def)

lemma held_leave [simp]: "held (leave_opening t p w) = held (set_phase t p w)"
  by (simp add: leave_opening_eq)

lemma cw_connections_leave [simp]: "cw_connections (leave_opening t p w) = cw_connections w"
  by (simp add: leave_opening_def)

lemma leak_quiet:
  assumes "no_leak w" "t < length (cw_tasks w)" "phase_connection p = phase_connection (ot_phase (cw_tasks w ! t))"
  shows "no_leak (set_phase t p w)" "no_leak (leave_opening t p w)"
  using no_leak_same [OF assms(1)] held_set_phase [OF assms(2), of p] assms(3) by simp_all

lemma leak_give_up:
  assumes "no_leak w" "t < length (cw_tasks w)" "phase_connection (ot_phase (cw_tasks w ! t)) = Some c"
  shows "no_leak (set_phase t (Closing_failed c) (close_connection c w))"
proof (rule no_leak_closed [OF assms(1)])
  show "held w = held (set_phase t (Closing_failed c) (close_connection c w)) + {#c#}"
    using held_set_phase [of t "close_connection c w" "Closing_failed c"] assms by (simp add: close_connection_eq phase_connection_def)
qed (simp add: close_connection_eq)

lemma leak_connect:
  assumes "no_leak w" "t < length (cw_tasks w)" "ot_phase (cw_tasks w ! t) = Fetching"
  shows "no_leak ((set_phase t (Connecting (length (cw_connections w))) w) \<lparr>cw_connections := cw_connections w @ [x]\<rparr>)"
  using assms held_set_phase [OF assms(2), of "Connecting (length (cw_connections w))"]
  by (auto simp: no_leak_def phase_connection_def nth_append less_Suc_eq)

lemma leak_store:
  assumes l: "no_leak w" and d: "distinct (map fst (cw_entries w))" and t: "t < length (cw_tasks w)" "ot_phase (cw_tasks w ! t) = Synchronizing c"
    and a: "map_of (cw_entries w) a = None"
  shows "no_leak (leave_opening t (Opened c) (w \<lparr>cw_entries := AList.update a \<lparr>ce_connection = c, ce_last_used_at = clock\<rparr> (cw_entries w)\<rparr>))"
    (is "no_leak (leave_opening t _ ?u)")
proof (rule no_leak_same [OF l])
  have "held ?u = held w + {#c#}"
    using mset_update [OF d, of "ce_connection \<circ> snd" a] mset_delete [OF d, of "ce_connection \<circ> snd" a] a
    by (simp add: held_def ac_simps)
  moreover have "held (set_phase t (Opened c) ?u) + {#c#} = held ?u"
    using held_set_phase [of t ?u "Opened c"] t by (simp add: phase_connection_def)
  ultimately show "held (leave_opening t (Opened c) ?u) = held w" by simp
qed simp

lemma leak_resumes:
  assumes ok: "conn_ok w" and f: "flight_ok w" and l: "no_leak w" and t: "t < length (cw_tasks w)"
  shows "no_leak (open_resumes clock t answer w)"
proof (cases "ot_phase (cw_tasks w ! t)")
  case (Synchronizing c)
  have "(ot_account (cw_tasks w ! t), t) \<in> set (cw_opening w)" using f t Synchronizing by (simp add: flight_ok_def finished_def)
  then have "opening_live (cw_tasks w) (fst ` set (cw_entries w)) (ot_account (cw_tasks w ! t), t)" using f by (simp add: flight_ok_def)
  then have "ot_account (cw_tasks w ! t) \<notin> fst ` set (cw_entries w)" by (simp add: opening_live_def)
  then have "map_of (cw_entries w) (ot_account (cw_tasks w ! t)) = None" by (simp add: map_of_eq_None_iff)
  then show ?thesis
    using Synchronizing leak_store [OF l _ t Synchronizing] leak_give_up [OF l t, of c] ok
    by (auto simp: open_resumes_def Let_def phase_connection_def conn_ok_def)
next
  case (Connecting c)
  then show ?thesis
    using leak_quiet [OF l t, of "Synchronizing c"] leak_give_up [OF l t, of c]
    by (auto simp: open_resumes_def Let_def phase_connection_def)
qed (use leak_quiet [OF l t] leak_connect [OF l t] l in \<open>auto simp: open_resumes_def Let_def phase_connection_def\<close>)

lemma calm_leak:
  assumes "conn_ok w" "flight_ok w" "no_leak w" "calm ev" "happens ev w = Some v"
  shows "no_leak v"
proof (cases ev)
  case (Acquire clock h a)
  have d: "distinct (map fst (cw_entries w))" using assms(1) by (simp add: conn_ok_def)
  have "no_leak (snd (acquire clock h a w))"
    using acquire_frame [OF d, of clock h a] by (intro no_leak_same [OF assms(3)]) simp_all
  with Acquire assms(5) show ?thesis by (simp add: happens_def)
next
  case (Evict_idle clock idle)
  have "no_leak (snd (evict_idle clock idle w))"
    by (rule no_leak_same [OF assms(3) _ held_evict_idle]) (simp add: evict_idle_def Let_def)
  with Evict_idle assms(5) show ?thesis by (simp add: happens_def)
next
  case (Closed c)
  then have c: "c \<in> set (cw_closing w)" and v: "v = (close_connection c w) \<lparr>cw_closing := remove1 c (cw_closing w)\<rparr>"
    using assms(5) by (auto simp: happens_def split: if_splits)
  have "held w = held v + {#c#}" using c by (simp add: v held_def close_connection_eq)
  then show ?thesis by (rule no_leak_closed [OF assms(3), rotated]) (simp add: v close_connection_eq)
qed (use assms leak_resumes in \<open>auto simp: happens_def calm_def split: if_splits\<close>)

definition calm_ok :: "conn_world \<Rightarrow> bool" where
  "calm_ok w \<longleftrightarrow> conn_ok w \<and> flight_ok w \<and> no_leak w"

lemma no_connections_calm: "calm_ok no_connections"
  unfolding calm_ok_def by (simp add: no_connections_ok) (simp add: no_connections_def flight_ok_def no_leak_def)

lemma calm_step_ok: "calm_ok w \<Longrightarrow> calm_step w v \<Longrightarrow> calm_ok v"
  unfolding calm_ok_def calm_step_def conn_step_def [abs_def]
  using calm_flight calm_leak conn_step_ok [unfolded conn_step_def] by blast

interpretation calm_manager: invariant_system "\<lambda>w. w = no_connections" calm_step calm_ok
  by unfold_locales (auto simp: no_connections_calm intro: calm_step_ok)

text \<open>
  Property C28. As long as no account is closed and the manager is not shut down, in every interleaving of
  requests, openings, evictions and closings: at most one opening per account is under way, none is under way
  for an account that has a warm connection, and every connection the SDK handed out is closed, warm, waiting
  to be closed or in the hands of exactly one opening, so none is lost.
\<close>

theorem single_flight:
  assumes "calm_step\<^sup>*\<^sup>* no_connections w"
  shows "(\<forall>t u. t < length (cw_tasks w) \<and> u < length (cw_tasks w) \<and> \<not> finished (ot_phase (cw_tasks w ! t)) \<and> \<not> finished (ot_phase (cw_tasks w ! u))
      \<and> ot_account (cw_tasks w ! t) = ot_account (cw_tasks w ! u) \<longrightarrow> t = u)
    \<and> (\<forall>t. t < length (cw_tasks w) \<and> \<not> finished (ot_phase (cw_tasks w ! t)) \<longrightarrow> map_of (cw_entries w) (ot_account (cw_tasks w ! t)) = None)
    \<and> (\<forall>c. c < length (cw_connections w) \<and> \<not> co_closed (cw_connections w ! c) \<longrightarrow> count (held w) c = 1)"
proof -
  have ok: "conn_ok w" and f: "flight_ok w" and l: "no_leak w"
    using calm_manager.reachable_inv assms by (auto simp: calm_ok_def)
  have m: "(ot_account (cw_tasks w ! t), t) \<in> set (cw_opening w)" if "t < length (cw_tasks w)" "\<not> finished (ot_phase (cw_tasks w ! t))" for t
    using f that by (simp add: flight_ok_def)
  have d: "distinct (map fst (cw_opening w))" using ok by (simp add: conn_ok_def)
  have "t = u" if "t < length (cw_tasks w)" "u < length (cw_tasks w)" "\<not> finished (ot_phase (cw_tasks w ! t))" "\<not> finished (ot_phase (cw_tasks w ! u))"
      "ot_account (cw_tasks w ! t) = ot_account (cw_tasks w ! u)" for t u
    using m [OF that(1,3)] m [OF that(2,4)] that(5) eq_key_imp_eq_value [OF d] by metis
  moreover have "map_of (cw_entries w) (ot_account (cw_tasks w ! t)) = None"
    if "t < length (cw_tasks w)" "\<not> finished (ot_phase (cw_tasks w ! t))" for t
    using m [OF that] f unfolding flight_ok_def opening_live_def map_of_eq_None_iff by (metis fst_conv)
  moreover have "count (held w) c = 1" if "c < length (cw_connections w)" "\<not> co_closed (cw_connections w ! c)" for c
  proof -
    have "c \<in># held w" using l that by (auto simp: no_leak_def)
    moreover have "count (held w) c \<le> 1" using ok by (simp add: conn_ok_def held_ok_def)
    ultimately show ?thesis by (simp add: le_antisym Suc_leI)
  qed
  ultimately show ?thesis by blast
qed

section \<open>Runs\<close>

lemma calm_runs: "run_events evs w = Some v \<Longrightarrow> list_all calm evs \<Longrightarrow> calm_step\<^sup>*\<^sup>* w v"
proof (induction evs arbitrary: w)
  case (Cons ev evs)
  then obtain u where "happens ev w = Some u" "run_events evs u = Some v" by (auto split: option.splits)
  with Cons show ?case by (auto simp: calm_step_def intro: converse_rtranclp_into_rtranclp)
qed simp

lemma steps_run: "run_events evs w = Some v \<Longrightarrow> conn_step\<^sup>*\<^sup>* w v"
proof (induction evs arbitrary: w)
  case (Cons ev evs)
  then obtain u where "happens ev w = Some u" "run_events evs u = Some v" by (auto split: option.splits)
  with Cons show ?case by (auto simp: conn_step_def intro: converse_rtranclp_into_rtranclp)
qed simp

lemmas run_defs = happens_def acquire_def pop_entry_def new_task_def open_resumes_def set_phase_def leave_opening_def
  close_connection_def close_account_def cancel_def shutdown_def evict_idle_def finished_def no_connections_def healthy_def Let_def

text \<open>
  Two accounts are opened at the same time, one of them is served from the warm connection and later found
  unhealthy, and the other is evicted.
\<close>

definition busy_run :: "conn_event list" where
  "busy_run = [Acquire 1 None ''a'', Acquire 1 None ''b'', Resume 2 0 True, Resume 2 1 True, Resume 3 1 True, Resume 3 0 True, Acquire 4 None ''a'',
     Resume 4 0 True, Resume 5 1 True, Resume 5 0 True, Resume 6 1 True, Acquire 7 None ''a'', Evict_idle 9 2, Closed 0, Acquire 10 (Some (Some False, None)) ''a'',
     Resume 11 2 True]"

definition busy_world :: conn_world where
  "busy_world = \<lparr>cw_entries = [], cw_opening = [(''a'', 2)],
     cw_tasks = [\<lparr>ot_account = ''a'', ot_phase = Opened 1, ot_cancelled = False\<rparr>, \<lparr>ot_account = ''b'', ot_phase = Opened 0, ot_cancelled = False\<rparr>,
       \<lparr>ot_account = ''a'', ot_phase = Fetching, ot_cancelled = False\<rparr>],
     cw_connections = [\<lparr>co_account = ''b'', co_closed = True\<rparr>, \<lparr>co_account = ''a'', co_closed = False\<rparr>], cw_closing = [1]\<rparr>"

lemma busy_run_ends: "run_events busy_run no_connections = Some busy_world"
  by (simp add: busy_run_def busy_world_def run_defs)

lemma busy_calm: "list_all calm busy_run"
  by (simp add: busy_run_def calm_def)

lemma busy_reached: "conn_step\<^sup>*\<^sup>* no_connections busy_world" "calm_step\<^sup>*\<^sup>* no_connections busy_world"
  by (rule steps_run [OF busy_run_ends]) (rule calm_runs [OF busy_run_ends busy_calm])

theorem connections_stay_with_their_account_witness:
  "conn_step\<^sup>*\<^sup>* no_connections busy_world
    \<and> list_all (\<lambda>(a, e). co_account (cw_connections busy_world ! ce_connection e) = a \<and> \<not> co_closed (cw_connections busy_world ! ce_connection e)) (cw_entries busy_world)
    \<and> ot_phase (cw_tasks busy_world ! 0) = Opened 1 \<and> co_account (cw_connections busy_world ! 1) = ''a''"
  using connections_stay_with_their_account [OF busy_reached(1)] busy_reached(1) by (simp add: busy_world_def)

theorem single_flight_witness:
  "calm_step\<^sup>*\<^sup>* no_connections busy_world \<and> map_of (cw_entries busy_world) ''a'' = None \<and> count (held busy_world) 1 = 1"
  using single_flight [OF busy_reached(2)] busy_reached(2) by (simp add: busy_world_def finished_def)

section \<open>Closing an account while it is being opened\<close>

definition leak_run :: "string \<Rightarrow> conn_event list" where
  "leak_run a = [Acquire 1 None a, Resume 2 0 True, Resume 3 0 True, Close_account a,
     Acquire 4 None a, Resume 5 0 True, Resume 6 0 True,
     Acquire 7 None a, Resume 8 1 True, Resume 9 1 True, Resume 10 1 True, Resume 11 1 True,
     Resume 12 2 True, Resume 13 2 True, Resume 14 2 True, Resume 15 2 True,
     Close_account a, Closed 2]"

definition no_work :: "conn_world \<Rightarrow> bool" where
  "no_work w \<longleftrightarrow> cw_entries w = [] \<and> cw_opening w = [] \<and> cw_closing w = [] \<and> list_all (\<lambda>t. finished (ot_phase t)) (cw_tasks w)"

text \<open>
  Closing an account while it is being opened breaks that: the cancelled opening, when it ends,
  removes the entry of the opening that replaced it, so the next request starts a second opening beside it; the
  connection that is stored last replaces the other one in the dictionary without closing it. There is a
  sequence of requests and closings for every account at whose end the manager holds nothing and nothing is
  under way, all that it took out was closed, and yet a connection it opened was never closed and never will be.
\<close>

theorem close_during_opening_leaks:
  "\<exists>w. run_events (leak_run a) no_connections = Some w \<and> no_work w
     \<and> map co_closed (cw_connections w) = [True, False, True] \<and> map co_account (cw_connections w) = [a, a, a]
     \<and> (\<exists>v. run_events (take 8 (leak_run a)) no_connections = Some v \<and> length (filter (\<lambda>t. \<not> finished (ot_phase t) \<and> ot_account t = a) (cw_tasks v)) = 2)"
  by (simp add: leak_run_def no_work_def run_defs)

end
