(* ===== verification/Trading_Accounts.thy ===== *)
theory Trading_Accounts
  imports Tables
begin

text \<open>
  The broker accounts of the journal: \<^verbatim>\<open>accounts/models.py\<close>, the queries of \<^verbatim>\<open>accounts/repository.py\<close>,
  \<^verbatim>\<open>accounts/status.py\<close>, \<^verbatim>\<open>accounts/service.py\<close>, the endpoints of \<^verbatim>\<open>accounts/router.py\<close> and the time zone
  functions of \<^verbatim>\<open>shared/utils/timezone.py\<close>. A date is the number of its day. The data base of time zones,
  the encryption of passwords, the ISO parser and the MT5 service are the fields of \<open>acc_env\<close> or arguments;
  the lengths of texts other than the identifier of an account, and overflowing numbers, are not modelled.
\<close>

section \<open>Data\<close>

datatype account_status = Acc_pending_sync | Acc_synced | Acc_error

datatype import_method = Import_auto_sync | Import_csv_upload | Import_manual

datatype connection_state =
    Link_pending_verification | Link_verification_failed | Link_bootstrapping | Link_ready | Link_bootstrap_failed

datatype account_type = Account_demo | Account_live

datatype trading_platform = Platform_mt4 | Platform_mt5 | Platform_matchtrader | Platform_ctrader

record trading_account =
  ta_id :: uuid
  ta_user_id :: uuid
  ta_meta_account_id :: string
  ta_broker_name :: string
  ta_broker_login :: string
  ta_broker_server :: string
  ta_encrypted_investor_password :: string
  ta_encrypted_trader_password :: "string option"
  ta_account_type :: account_type
  ta_platform :: trading_platform
  ta_currency :: string
  ta_timezone :: string
  ta_broker_utc_offset :: int
  ta_display_name :: "string option"
  ta_status :: account_status
  ta_last_synced_at :: "int option"
  ta_sync_error_message :: "string option"
  ta_import_method :: import_method
  ta_connection_state :: connection_state
  ta_is_data_ready_for_stats :: bool
  ta_last_bootstrap_synced_at :: "int option"
  ta_bootstrap_error_message :: "string option"
  ta_last_sync_attempted_at :: "int option"
  ta_next_sync_not_before :: "int option"
  ta_last_sync_outcome :: "string option"
  ta_consecutive_sync_failures :: int
  ta_is_archived :: bool
  ta_created_at :: int

record bootstrap_dispatch =
  jd_account_id :: uuid
  jd_attempt_count :: nat
  jd_available_at :: int
  jd_dispatched_at :: "int option"
  jd_last_error :: "string option"

record account_snapshot =
  sn_account_id :: uuid
  sn_balance :: rat
  sn_equity :: rat
  sn_floating_pnl :: rat
  sn_date :: int

datatype trade_direction = Direction_buy | Direction_sell

datatype trade_source = Source_personal | Source_copied

datatype trade_session = Session_asian | Session_london | Session_new_york | Session_london_ny_overlap | Session_off_hours

record trade =
  tr_id :: uuid
  tr_account_id :: uuid
  tr_broker_trade_id :: string
  tr_symbol :: string
  tr_direction :: trade_direction
  tr_open_price :: rat
  tr_close_price :: rat
  tr_volume :: rat
  tr_profit :: rat
  tr_commission :: rat
  tr_swap :: rat
  tr_net_profit :: rat
  tr_duration_seconds :: int
  tr_session :: trade_session
  tr_opened_at :: int
  tr_closed_at :: int
  tr_sl :: "rat option"
  tr_tp :: "rat option"
  tr_magic_number :: "int option"
  tr_position_id :: "string option"
  tr_trade_source :: "trade_source option"
  tr_mfe :: "rat option"
  tr_mae :: "rat option"
  tr_setup :: "string option"
  tr_created_at :: int

record mt5_server =
  sv_canonical_server_name :: string
  sv_normalized_server_key :: string
  sv_active :: bool

record accounts_db =
  kd_accounts :: "trading_account list"
  kd_trades :: "trade list"
  kd_snapshots :: "account_snapshot list"
  kd_dispatches :: "bootstrap_dispatch list"
  kd_servers :: "mt5_server list"

text \<open>A datetime with a time zone is an instant, one without is what a clock on the wall shows.\<close>

datatype stamp = Aware int | Naive int

record acc_env =
  ve_iso :: "string \<Rightarrow> stamp option"
  ve_local_date :: "string \<Rightarrow> int \<Rightarrow> int"
  ve_zone_known :: "string \<Rightarrow> bool"
  ve_encrypt :: "string \<Rightarrow> string result"
  ve_decrypt :: "string \<Rightarrow> string result"
  ve_lookback_days :: int
  ve_sync_cooldown_seconds :: int
  ve_burst_window_seconds :: int
  ve_burst_max_attempts :: nat

definition seconds :: "int \<Rightarrow> int" where
  "seconds n = n * 10 ^ 6"

section \<open>Time zones\<close>

definition validate_timezone_name :: "acc_env \<Rightarrow> string \<Rightarrow> string result" where
  "validate_timezone_name env z = (if ve_zone_known env z then Inr z else value_error (''Invalid timezone: '' @ z))"

definition normalize_broker_datetime_to_utc :: "stamp \<Rightarrow> int \<Rightarrow> int" where
  "normalize_broker_datetime_to_utc v offset = (case v of Aware t \<Rightarrow> t | Naive t \<Rightarrow> t - seconds (60 * offset))"

definition to_account_local_date :: "acc_env \<Rightarrow> int \<Rightarrow> string \<Rightarrow> int" where
  "to_account_local_date env t zone = ve_local_date env zone t"

definition hour_of :: "int \<Rightarrow> int" where
  "hour_of t = (t div seconds 3600) mod 24"

definition classify_session :: "int \<Rightarrow> trade_session" where
  "classify_session t = (let h = hour_of t in
     if 13 \<le> h \<and> h < 16 then Session_london_ny_overlap
     else if 16 \<le> h \<and> h < 21 then Session_new_york
     else if 8 \<le> h \<and> h < 16 then Session_london
     else if 0 \<le> h \<and> h < 8 then Session_asian
     else Session_off_hours)"

section \<open>The repository\<close>

definition put_account :: "trading_account \<Rightarrow> accounts_db \<Rightarrow> accounts_db" where
  "put_account a = kd_accounts_update (row_put ta_id a)"

definition get_account_by_id :: "accounts_db \<Rightarrow> uuid \<Rightarrow> trading_account option" where
  "get_account_by_id d k = row_get ta_id k (kd_accounts d)"

definition get_account_by_id_for_user :: "accounts_db \<Rightarrow> uuid \<Rightarrow> uuid \<Rightarrow> trading_account option" where
  "get_account_by_id_for_user d k u = find (\<lambda>a. ta_id a = k \<and> ta_user_id a = u) (kd_accounts d)"

definition get_account_by_user_and_meta_id :: "accounts_db \<Rightarrow> uuid \<Rightarrow> string \<Rightarrow> trading_account option" where
  "get_account_by_user_and_meta_id d u m = find (\<lambda>a. ta_user_id a = u \<and> ta_meta_account_id a = m) (kd_accounts d)"

definition meta_id_fits :: "string \<Rightarrow> unit result" where
  "meta_id_fits m = (if length m \<le> 64 then Inr () else Inl (Exn ''DataError'' ''value too long for type character varying(64)''))"

definition add_account :: "trading_account \<Rightarrow> accounts_db \<Rightarrow> accounts_db result" where
  "add_account a d = (case meta_id_fits (ta_meta_account_id a) of Inl e \<Rightarrow> Inl e
     | Inr _ \<Rightarrow> if list_ex (\<lambda>x. ta_id x = ta_id a \<or> (ta_user_id x = ta_user_id a \<and> ta_meta_account_id x = ta_meta_account_id a)) (kd_accounts d)
         then Inl (Exn ''IntegrityError'' ''trading_accounts'') else Inr (d \<lparr>kd_accounts := kd_accounts d @ [a]\<rparr>))"

definition list_accounts_for_user :: "accounts_db \<Rightarrow> uuid \<Rightarrow> trading_account list" where
  "list_accounts_for_user d u = sorted_by_desc ta_created_at (filter (\<lambda>a. ta_user_id a = u) (kd_accounts d))"

definition count_closed_trades :: "accounts_db \<Rightarrow> uuid \<Rightarrow> nat" where
  "count_closed_trades d k = length (filter (\<lambda>t. tr_account_id t = k) (kd_trades d))"

definition get_latest_closed_trade_at :: "accounts_db \<Rightarrow> uuid \<Rightarrow> int option" where
  "get_latest_closed_trade_at d k = (case map tr_closed_at (filter (\<lambda>t. tr_account_id t = k) (kd_trades d)) of
     [] \<Rightarrow> None | t # ts \<Rightarrow> Some (fold max ts t))"

text \<open>The newest snapshot of an account; there is one for a day.\<close>

definition get_latest_account_snapshot :: "accounts_db \<Rightarrow> uuid \<Rightarrow> account_snapshot option" where
  "get_latest_account_snapshot d k = (case sorted_by_desc sn_date (filter (\<lambda>s. sn_account_id s = k) (kd_snapshots d)) of
     [] \<Rightarrow> None | s # _ \<Rightarrow> Some s)"

definition upsert_account_snapshot_for_date :: "uuid \<Rightarrow> int \<Rightarrow> rat \<Rightarrow> rat \<Rightarrow> rat \<Rightarrow> accounts_db \<Rightarrow> accounts_db" where
  "upsert_account_snapshot_for_date k day balance equity pnl d = (
     let row = \<lparr>sn_account_id = k, sn_balance = balance, sn_equity = equity, sn_floating_pnl = pnl, sn_date = day\<rparr> in
     if list_ex (\<lambda>s. sn_account_id s = k \<and> sn_date s = day) (kd_snapshots d)
     then d \<lparr>kd_snapshots := map (\<lambda>s. if sn_account_id s = k \<and> sn_date s = day then row else s) (kd_snapshots d)\<rparr>
     else d \<lparr>kd_snapshots := kd_snapshots d @ [row]\<rparr>)"

definition schedule_bootstrap_dispatch :: "int \<Rightarrow> uuid \<Rightarrow> accounts_db \<Rightarrow> accounts_db" where
  "schedule_bootstrap_dispatch now k d = (
     if list_ex (\<lambda>j. jd_account_id j = k) (kd_dispatches d)
     then d \<lparr>kd_dispatches := map (\<lambda>j. if jd_account_id j = k
         then j \<lparr>jd_available_at := now, jd_dispatched_at := None, jd_last_error := None\<rparr> else j) (kd_dispatches d)\<rparr>
     else d \<lparr>kd_dispatches := kd_dispatches d @
       [\<lparr>jd_account_id = k, jd_attempt_count = 0, jd_available_at = now, jd_dispatched_at = None, jd_last_error = None\<rparr>]\<rparr>)"

definition claimable :: "int \<Rightarrow> bootstrap_dispatch \<Rightarrow> bool" where
  "claimable now j \<longleftrightarrow> jd_dispatched_at j = None \<and> jd_available_at j \<le> now"

definition claim_bootstrap_dispatches :: "int \<Rightarrow> nat \<Rightarrow> uuid option \<Rightarrow> accounts_db \<Rightarrow> bootstrap_dispatch list" where
  "claim_bootstrap_dispatches now limit k d = take limit (sorted_by jd_available_at
     (filter (\<lambda>j. claimable now j \<and> (case k of None \<Rightarrow> True | Some i \<Rightarrow> jd_account_id j = i)) (kd_dispatches d)))"

subsection \<open>Marking an account\<close>

definition set_account_last_synced_at :: "int \<Rightarrow> trading_account \<Rightarrow> trading_account" where
  "set_account_last_synced_at t a = a \<lparr>ta_last_synced_at := Some t, ta_status := Acc_synced, ta_sync_error_message := None\<rparr>"

definition set_sync_attempt_started :: "int \<Rightarrow> trading_account \<Rightarrow> trading_account" where
  "set_sync_attempt_started t a = a \<lparr>ta_last_sync_attempted_at := Some t\<rparr>"

definition mark_sync_success :: "int \<Rightarrow> int option \<Rightarrow> string \<Rightarrow> trading_account \<Rightarrow> trading_account" where
  "mark_sync_success t not_before outcome a = a \<lparr>ta_last_synced_at := Some t, ta_last_sync_attempted_at := Some t,
     ta_next_sync_not_before := not_before, ta_last_sync_outcome := Some outcome, ta_consecutive_sync_failures := 0,
     ta_status := Acc_synced, ta_sync_error_message := None\<rparr>"

definition mark_sync_retryable :: "string \<Rightarrow> string \<Rightarrow> int option \<Rightarrow> int \<Rightarrow> trading_account \<Rightarrow> trading_account" where
  "mark_sync_retryable outcome message retry_after t a = a \<lparr>ta_last_sync_attempted_at := Some t,
     ta_last_sync_outcome := Some outcome, ta_consecutive_sync_failures := ta_consecutive_sync_failures a + 1,
     ta_next_sync_not_before := Some (t + seconds (case retry_after of None \<Rightarrow> 60 | Some n \<Rightarrow> n)),
     ta_sync_error_message := Some message\<rparr>"

definition mark_sync_attention_required :: "string \<Rightarrow> string \<Rightarrow> int \<Rightarrow> trading_account \<Rightarrow> trading_account" where
  "mark_sync_attention_required outcome message t a = a \<lparr>ta_last_sync_attempted_at := Some t,
     ta_last_sync_outcome := Some outcome, ta_sync_error_message := Some message\<rparr>"

definition set_account_sync_error :: "string \<Rightarrow> trading_account \<Rightarrow> trading_account" where
  "set_account_sync_error message a = a \<lparr>ta_status := Acc_error, ta_sync_error_message := Some message\<rparr>"

definition mark_account_bootstrapping :: "trading_account \<Rightarrow> trading_account" where
  "mark_account_bootstrapping a = a \<lparr>ta_connection_state := Link_bootstrapping, ta_is_data_ready_for_stats := False,
     ta_bootstrap_error_message := None\<rparr>"

definition mark_account_ready_for_stats :: "int \<Rightarrow> string \<Rightarrow> trading_account \<Rightarrow> trading_account" where
  "mark_account_ready_for_stats t outcome a = a \<lparr>ta_connection_state := Link_ready, ta_is_data_ready_for_stats := True,
     ta_last_synced_at := Some t, ta_last_sync_attempted_at := Some t, ta_last_sync_outcome := Some outcome,
     ta_consecutive_sync_failures := 0, ta_next_sync_not_before := None, ta_sync_error_message := None,
     ta_last_bootstrap_synced_at := Some t, ta_bootstrap_error_message := None\<rparr>"

definition mark_account_verification_failed :: "string \<Rightarrow> trading_account \<Rightarrow> trading_account" where
  "mark_account_verification_failed message a = a \<lparr>ta_status := Acc_error, ta_connection_state := Link_verification_failed,
     ta_is_data_ready_for_stats := False, ta_sync_error_message := Some message, ta_bootstrap_error_message := None\<rparr>"

definition mark_account_bootstrap_failed :: "string \<Rightarrow> trading_account \<Rightarrow> trading_account" where
  "mark_account_bootstrap_failed message a = a \<lparr>ta_connection_state := Link_bootstrap_failed,
     ta_is_data_ready_for_stats := False, ta_bootstrap_error_message := Some message\<rparr>"

definition archive_account :: "trading_account \<Rightarrow> trading_account" where
  "archive_account a = a \<lparr>ta_is_archived := True\<rparr>"

definition unarchived :: "trading_account \<Rightarrow> trading_account" where
  "unarchived a = a \<lparr>ta_is_archived := False\<rparr>"

definition hard_delete_account :: "uuid \<Rightarrow> accounts_db \<Rightarrow> accounts_db" where
  "hard_delete_account k d = d \<lparr>kd_accounts := filter (\<lambda>a. ta_id a \<noteq> k) (kd_accounts d),
     kd_trades := filter (\<lambda>t. tr_account_id t \<noteq> k) (kd_trades d),
     kd_snapshots := filter (\<lambda>s. sn_account_id s \<noteq> k) (kd_snapshots d),
     kd_dispatches := filter (\<lambda>j. jd_account_id j \<noteq> k) (kd_dispatches d)\<rparr>"

definition list_recent_sync_attempts_for_user :: "accounts_db \<Rightarrow> uuid \<Rightarrow> int \<Rightarrow> int list" where
  "list_recent_sync_attempts_for_user d u since = sort (concat (map (\<lambda>a. case ta_last_sync_attempted_at a of
       Some t \<Rightarrow> if ta_user_id a = u \<and> since \<le> t then [t] else [] | None \<Rightarrow> []) (kd_accounts d)))"

section \<open>Names of servers\<close>

definition normalize_mt5_server_key :: "string \<Rightarrow> string" where
  "normalize_mt5_server_key value = filter (\<lambda>c. is_lower_letter c \<or> is_digit c) (py_lower (py_strip value))"

definition resolve_mt5_server_name :: "accounts_db \<Rightarrow> string \<Rightarrow> string result" where
  "resolve_mt5_server_name d name = (let trimmed = py_strip name in
     if trimmed = [] then Inr trimmed
     else case scalar_one_or_none (filter (\<lambda>s. sv_active s \<and> py_lower (sv_canonical_server_name s) = py_lower trimmed) (kd_servers d)) of
       Inl e \<Rightarrow> Inl e
     | Inr (Some s) \<Rightarrow> Inr (sv_canonical_server_name s)
     | Inr None \<Rightarrow> (let key = normalize_mt5_server_key trimmed in
         if key = [] then Inr trimmed
         else case filter (\<lambda>s. sv_active s \<and> sv_normalized_server_key s = key) (kd_servers d) of
           [s] \<Rightarrow> Inr (sv_canonical_server_name s) | _ \<Rightarrow> Inr trimmed))"

section \<open>What a user is told\<close>

record sync_status =
  ss_code :: string
  ss_severity :: string
  ss_headline :: string
  ss_detail :: string
  ss_action :: "string option"

definition or_string :: "string option \<Rightarrow> string \<Rightarrow> string" where
  "or_string x y = (case x of None \<Rightarrow> y | Some s \<Rightarrow> if s = [] then y else s)"

definition describe_account_sync_status ::
  "connection_state \<Rightarrow> import_method \<Rightarrow> string option \<Rightarrow> nat \<Rightarrow> string option \<Rightarrow> string option \<Rightarrow> sync_status" where
  "describe_account_sync_status state method outcome ntrades sync_error bootstrap_error = (
     if method = Import_csv_upload then \<lparr>ss_code = ''imported'', ss_severity = ''success'', ss_headline = ''Imported'',
       ss_detail = ''Trade history was imported from a file.'', ss_action = None\<rparr>
     else case state of
       Link_pending_verification \<Rightarrow> \<lparr>ss_code = ''pending_verification'', ss_severity = ''pending'', ss_headline = ''Verifying credentials'',
         ss_detail = ''We are checking the MT5 account credentials.'', ss_action = None\<rparr>
     | Link_bootstrapping \<Rightarrow> \<lparr>ss_code = ''bootstrapping'', ss_severity = ''pending'', ss_headline = ''Syncing history'',
         ss_detail = ''Initial trade history import is running.'', ss_action = None\<rparr>
     | Link_verification_failed \<Rightarrow> \<lparr>ss_code = ''verification_failed'', ss_severity = ''error'', ss_headline = ''Account authorization failed'',
         ss_detail = or_string sync_error ''Check the account number, broker server, and investor password.'',
         ss_action = Some ''Update the credentials, then reconnect the account.''\<rparr>
     | Link_bootstrap_failed \<Rightarrow> \<lparr>ss_code = ''bootstrap_failed'', ss_severity = ''warning'', ss_headline = ''Connected with sync warning'',
         ss_detail = or_string bootstrap_error (or_string sync_error ''History sync did not complete.''),
         ss_action = Some ''Try resyncing the account.''\<rparr>
     | Link_ready \<Rightarrow> if outcome = Some ''success_empty'' \<and> ntrades = 0
         then \<lparr>ss_code = ''ready_empty'', ss_severity = ''info'', ss_headline = ''Connected'', ss_detail = ''No closed trades found yet.'',
           ss_action = Some ''Close a trade in MT5, then resync.''\<rparr>
         else \<lparr>ss_code = ''ready'', ss_severity = ''success'', ss_headline = ''Connected'', ss_detail = ''Account is connected and ready.'', ss_action = None\<rparr>)"

end
