(* ===== verification/Account_Sync.thy ===== *)
theory Account_Sync
  imports Trading_Accounts
begin

text \<open>
  The synchronisation of an account with the history the MT5 service returns: \<^verbatim>\<open>accounts/sync.py\<close> and the
  statements of \<^verbatim>\<open>accounts/repository.py\<close> that store trades. A deal is a dictionary as the JSON of the
  service has it. Everything here happens in one transaction, which the caller commits, so that an
  operation returns the new database or an exception.
\<close>

section \<open>Values of a deal\<close>

text \<open>\<open>J_float x\<close> is the finite float that prints as the decimal \<open>x\<close>.\<close>

datatype jval = J_none | J_bool bool | J_int int | J_float decimal | J_str string | J_time stamp

type_synonym deal = "(string \<times> jval) list"

definition deal_get :: "deal \<Rightarrow> string \<Rightarrow> jval" where
  "deal_get d k = (case map_of d k of None \<Rightarrow> J_none | Some v \<Rightarrow> v)"

definition jtrue :: "jval \<Rightarrow> bool" where
  "jtrue v = (case v of J_none \<Rightarrow> False | J_bool b \<Rightarrow> b | J_int i \<Rightarrow> i \<noteq> 0 | J_float x \<Rightarrow> dval x \<noteq> 0 | J_str s \<Rightarrow> s \<noteq> [] | J_time t \<Rightarrow> True)"

definition jor :: "jval \<Rightarrow> jval \<Rightarrow> jval" where
  "jor a b = (if jtrue a then a else b)"

text \<open>\<^verbatim>\<open>str(value)\<close>; what Python prints for floats and datetimes is a parameter.\<close>

definition jstr :: "(jval \<Rightarrow> string) \<Rightarrow> jval \<Rightarrow> string" where
  "jstr prints v = (case v of J_none \<Rightarrow> ''None'' | J_bool b \<Rightarrow> (if b then ''True'' else ''False'') | J_int i \<Rightarrow> show_int i
     | J_str s \<Rightarrow> s | _ \<Rightarrow> prints v)"

text \<open>\<^verbatim>\<open>str(value or "")\<close>.\<close>

definition jtext :: "(jval \<Rightarrow> string) \<Rightarrow> jval \<Rightarrow> string" where
  "jtext prints v = jstr prints (jor v (J_str []))"

definition split_sign :: "string \<Rightarrow> int \<times> string" where
  "split_sign s = (case s of [] \<Rightarrow> (1, []) | c # r \<Rightarrow> if c = CHR ''-'' then (- 1, r) else if c = CHR ''+'' then (1, r) else (1, s))"

definition all_digits :: "string \<Rightarrow> bool" where
  "all_digits s \<longleftrightarrow> list_all is_digit s"

definition read_int :: "string \<Rightarrow> int option" where
  "read_int s = (let (sign, r) = split_sign s in if r \<noteq> [] \<and> all_digits r then Some (sign * int (read_nat r)) else None)"

text \<open>\<^verbatim>\<open>Decimal(text)\<close> for finite numbers.\<close>

definition read_decimal :: "string \<Rightarrow> rat option" where
  "read_decimal text = (
     let (sign, s) = split_sign (filter (\<lambda>c. c \<noteq> CHR ''_'') (py_strip text));
         mantissa = takeWhile (\<lambda>c. c \<noteq> CHR ''e'' \<and> c \<noteq> CHR ''E'') s;
         rest = drop (length mantissa) s;
         whole = takeWhile (\<lambda>c. c \<noteq> CHR ''.'') mantissa;
         fraction = drop (Suc (length whole)) mantissa;
         exponent = (if rest = [] then Some 0 else read_int (tl rest)) in
     if whole @ fraction \<noteq> [] \<and> all_digits (whole @ fraction)
     then map_option (\<lambda>e. of_int (sign * int (read_nat (whole @ fraction))) * 10 powi (e - int (length fraction))) exponent
     else None)"

definition conversion_syntax :: "'a result" where
  "conversion_syntax = Inl (Exn ''InvalidOperation'' ''ConversionSyntax'')"

definition as_decimal :: "jval \<Rightarrow> rat result" where
  "as_decimal v = (case v of J_none \<Rightarrow> Inr 0 | J_int i \<Rightarrow> Inr (of_int i) | J_float x \<Rightarrow> Inr (dval x)
     | J_str s \<Rightarrow> (case read_decimal s of None \<Rightarrow> conversion_syntax | Some x \<Rightarrow> Inr x)
     | _ \<Rightarrow> conversion_syntax)"

text \<open>\<^verbatim>\<open>int(value)\<close> cuts the fraction off.\<close>

definition cut_off :: "rat \<Rightarrow> int" where
  "cut_off x = (if 0 \<le> x then \<lfloor>x\<rfloor> else \<lceil>x\<rceil>)"

definition as_int :: "jval \<Rightarrow> int result" where
  "as_int v = (case v of J_none \<Rightarrow> Inr 0 | J_bool b \<Rightarrow> Inr (if b then 1 else 0) | J_int i \<Rightarrow> Inr i | J_float x \<Rightarrow> Inr (cut_off (dval x))
     | J_str s \<Rightarrow> (case read_int (filter (\<lambda>c. c \<noteq> CHR ''_'') (py_strip s)) of None \<Rightarrow> value_error ''invalid literal for int()'' | Some i \<Rightarrow> Inr i)
     | J_time t \<Rightarrow> Inl (Exn ''TypeError'' ''int()''))"

section \<open>Timestamps\<close>

definition open_timestamp_keys :: "string list" where
  "open_timestamp_keys = [''opened_at'', ''openedAt'', ''openedTime'', ''openTime'', ''open_time_msc'', ''openTimeMsc'', ''open_time'',
     ''positionOpenTime'', ''positionOpenDate'', ''positionTime'', ''entryTime'', ''entry_time'', ''position_open_time'']"

definition close_timestamp_keys :: "string list" where
  "close_timestamp_keys = [''closed_at'', ''closeTime'', ''close_time'', ''doneTime'', ''time'']"

text \<open>What a loop over keys finds first: a datetime, a text that is parsed, or nothing it can use.\<close>

fun first_stamp :: "acc_env \<Rightarrow> jval list \<Rightarrow> stamp option" where
  "first_stamp env [] = None"
| "first_stamp env (v # vs) = (if \<not> jtrue v then first_stamp env vs
     else case v of J_time t \<Rightarrow> Some t | J_str s \<Rightarrow> ve_iso env (replace_z s) | _ \<Rightarrow> first_stamp env vs)"

definition pick_timestamp :: "acc_env \<Rightarrow> deal \<Rightarrow> string list \<Rightarrow> stamp option" where
  "pick_timestamp env d keys = first_stamp env (map (deal_get d) keys)"

definition normalized_key :: "string \<Rightarrow> string" where
  "normalized_key k = filter is_alnum (py_lower k)"

text \<open>The last key with a given normal form is the one the dictionary of normal forms keeps.\<close>

definition actual_key :: "deal \<Rightarrow> string \<Rightarrow> string option" where
  "actual_key d desired = find (\<lambda>k. normalized_key k = normalized_key desired) (rev (map fst d))"

text \<open>None stands for the \<^verbatim>\<open>ValueError\<close> the callers catch.\<close>

definition extract_timestamp :: "acc_env \<Rightarrow> deal \<Rightarrow> string list \<Rightarrow> stamp option" where
  "extract_timestamp env d keys = (case pick_timestamp env d keys of Some t \<Rightarrow> Some t
     | None \<Rightarrow> first_stamp env (map (\<lambda>k. case actual_key d k of None \<Rightarrow> J_none | Some a \<Rightarrow> deal_get d a) keys))"

section \<open>Reading a deal\<close>

definition is_trade_deal :: "(jval \<Rightarrow> string) \<Rightarrow> deal \<Rightarrow> bool" where
  "is_trade_deal prints d = (
     let kind = py_upper (jstr prints (jor (jor (deal_get d ''type'') (deal_get d ''dealType'')) (J_str [])));
         entry = py_upper (jstr prints (jor (jor (deal_get d ''entryType'') (deal_get d ''entry'')) (J_str []))) in
     kind \<in> {''BUY'', ''SELL'', ''DEAL_TYPE_BUY'', ''DEAL_TYPE_SELL''} \<and>
     entry \<in> {''DEAL_ENTRY_OUT'', ''DEAL_ENTRY_OUT_BY'', ''DEAL_ENTRY_INOUT'', ''OUT'', ''OUT_BY'', ''INOUT''})"

definition extract_broker_trade_id :: "(jval \<Rightarrow> string) \<Rightarrow> deal \<Rightarrow> string" where
  "extract_broker_trade_id prints d =
     py_strip (jtext prints (jor (jor (deal_get d ''broker_trade_id'') (deal_get d ''id'')) (deal_get d ''ticket'')))"

fun pick_price :: "deal \<Rightarrow> string list \<Rightarrow> rat result" where
  "pick_price d [] = Inr 0"
| "pick_price d (k # ks) = (if deal_get d k \<noteq> J_none then as_decimal (deal_get d k) else pick_price d ks)"

definition extract_direction :: "(jval \<Rightarrow> string) \<Rightarrow> deal \<Rightarrow> trade_direction" where
  "extract_direction prints d = (let raw = py_lower (jtext prints (jor (deal_get d ''direction'') (deal_get d ''type''))) in
     if py_in ''sell'' raw then Direction_sell else Direction_buy)"

record enrichment =
  en_sl :: "rat option"
  en_tp :: "rat option"
  en_magic_number :: "int option"
  en_position_id :: "string option"
  en_trade_source :: "trade_source option"
  en_mfe :: "rat option"
  en_mae :: "rat option"

definition no_enrichment :: enrichment where
  "no_enrichment = \<lparr>en_sl = None, en_tp = None, en_magic_number = None, en_position_id = None, en_trade_source = None, en_mfe = None, en_mae = None\<rparr>"

definition nullable :: "(jval \<Rightarrow> 'a result) \<Rightarrow> jval \<Rightarrow> 'a option result" where
  "nullable f v = (if v = J_none then Inr None else map_Inr Some (f v))"

definition extract_mt5_enrichment :: "(jval \<Rightarrow> string) \<Rightarrow> deal \<Rightarrow> enrichment result" where
  "extract_mt5_enrichment prints d = (
     let source = (if deal_get d ''trade_source'' = J_str ''personal'' then Some Source_personal
                   else if deal_get d ''trade_source'' = J_str ''copied'' then Some Source_copied else None);
         position = jtext prints (deal_get d ''position_id'') in
     bind_Inr (nullable as_decimal (deal_get d ''sl'')) (\<lambda>sl.
     bind_Inr (nullable as_decimal (deal_get d ''tp'')) (\<lambda>tp.
     bind_Inr (nullable as_int (deal_get d ''magic_number'')) (\<lambda>magic.
     bind_Inr (nullable as_decimal (deal_get d ''mfe'')) (\<lambda>mfe.
     bind_Inr (nullable as_decimal (deal_get d ''mae'')) (\<lambda>mae.
       Inr \<lparr>en_sl = sl, en_tp = tp, en_magic_number = magic, en_position_id = (if position = [] then None else Some position),
         en_trade_source = source, en_mfe = mfe, en_mae = mae\<rparr>))))))"

text \<open>A column of so many decimals rounds what is stored, half away from zero.\<close>

definition numeric :: "nat \<Rightarrow> rat \<Rightarrow> rat" where
  "numeric k x = (let y = \<bar>x\<bar> * 10 ^ k in (if x < 0 then - 1 else 1) * of_int \<lfloor>y + 1 / 2\<rfloor> / 10 ^ k)"

definition to_utc :: "bool \<Rightarrow> int \<Rightarrow> stamp \<Rightarrow> int" where
  "to_utc enriched offset v = (if enriched then (case v of Aware t \<Rightarrow> t | Naive t \<Rightarrow> t) else normalize_broker_datetime_to_utc v offset)"

definition nonempty_or :: "string \<Rightarrow> string \<Rightarrow> string" where
  "nonempty_or s t = (if s = [] then t else s)"

definition stored_trade :: "uuid \<Rightarrow> int \<Rightarrow> uuid \<Rightarrow> string \<Rightarrow> string \<Rightarrow> trade_direction \<Rightarrow> rat \<times> rat \<times> rat \<Rightarrow> rat \<times> rat \<times> rat \<Rightarrow> int \<times> int \<Rightarrow> enrichment \<Rightarrow> trade" where
  "stored_trade k now account broker_id symbol direction prices money instants en = (
     let (open_price, close_price, volume) = prices; (profit, commission, swap) = money; (opened, closed) = instants in
     \<lparr>tr_id = k, tr_account_id = account, tr_broker_trade_id = broker_id, tr_symbol = symbol, tr_direction = direction,
      tr_open_price = numeric 5 open_price, tr_close_price = numeric 5 close_price, tr_volume = numeric 2 volume,
      tr_profit = numeric 2 profit, tr_commission = numeric 2 commission, tr_swap = numeric 2 swap,
      tr_net_profit = numeric 2 (profit + commission + swap), tr_duration_seconds = max 0 ((closed - opened) div seconds 1),
      tr_session = classify_session opened, tr_opened_at = opened, tr_closed_at = closed,
      tr_sl = map_option (numeric 5) (en_sl en), tr_tp = map_option (numeric 5) (en_tp en), tr_magic_number = en_magic_number en,
      tr_position_id = en_position_id en, tr_trade_source = en_trade_source en, tr_mfe = map_option (numeric 5) (en_mfe en),
      tr_mae = map_option (numeric 5) (en_mae en), tr_setup = None, tr_created_at = now\<rparr>)"

text \<open>The row of one deal, or nothing when the loop skips it.\<close>

definition deal_row :: "acc_env \<Rightarrow> (jval \<Rightarrow> string) \<Rightarrow> uuid \<Rightarrow> int \<Rightarrow> trading_account \<Rightarrow> bool \<Rightarrow> deal \<Rightarrow> trade option result" where
  "deal_row env prints k now a enriched d = (
     let broker_id = extract_broker_trade_id prints d in
     if \<not> is_trade_deal prints d \<or> broker_id = [] then Inr None
     else case extract_timestamp env d close_timestamp_keys of None \<Rightarrow> Inr None
     | Some closed_raw \<Rightarrow> (case extract_timestamp env d open_timestamp_keys of None \<Rightarrow> Inr None
       | Some opened_raw \<Rightarrow>
         let opened = to_utc enriched (ta_broker_utc_offset a) opened_raw; closed = to_utc enriched (ta_broker_utc_offset a) closed_raw in
         bind_Inr (as_decimal (deal_get d ''profit'')) (\<lambda>profit.
         bind_Inr (as_decimal (deal_get d ''commission'')) (\<lambda>commission.
         bind_Inr (as_decimal (deal_get d ''swap'')) (\<lambda>swap.
         bind_Inr (pick_price d [''close_price'', ''closePrice'', ''price'']) (\<lambda>close_price.
         bind_Inr (pick_price d [''open_price'', ''openPrice'']) (\<lambda>open_price.
         bind_Inr (pick_price d [''volume'', ''lots'']) (\<lambda>volume.
         bind_Inr (if enriched then extract_mt5_enrichment prints d else Inr no_enrichment) (\<lambda>en.
           Inr (Some (stored_trade k now (ta_id a) broker_id (nonempty_or (py_strip (jtext prints (deal_get d ''symbol''))) ''UNKNOWN'')
             (extract_direction prints d) (if open_price = 0 then close_price else open_price, close_price, volume)
             (profit, commission, swap) (opened, closed) en)))))))))))"

section \<open>Storing trades\<close>

definition same_trade :: "trade \<Rightarrow> trade \<Rightarrow> bool" where
  "same_trade t r \<longleftrightarrow> tr_account_id t = tr_account_id r \<and> tr_broker_trade_id t = tr_broker_trade_id r"

definition coalesce :: "'a option \<Rightarrow> 'a option \<Rightarrow> 'a option" where
  "coalesce x y = (case x of None \<Rightarrow> y | Some v \<Rightarrow> Some v)"

text \<open>The columns an update on conflict sets from the proposed row.\<close>

definition overwrite :: "trade \<Rightarrow> trade \<Rightarrow> trade" where
  "overwrite r t = r \<lparr>tr_id := tr_id t, tr_created_at := tr_created_at t, tr_setup := tr_setup t,
     tr_sl := coalesce (tr_sl r) (tr_sl t), tr_tp := coalesce (tr_tp r) (tr_tp t),
     tr_magic_number := coalesce (tr_magic_number r) (tr_magic_number t), tr_position_id := coalesce (tr_position_id r) (tr_position_id t),
     tr_trade_source := coalesce (tr_trade_source r) (tr_trade_source t), tr_mfe := coalesce (tr_mfe r) (tr_mfe t),
     tr_mae := coalesce (tr_mae r) (tr_mae t)\<rparr>"

definition upsert_trade :: "trade \<Rightarrow> trade list \<Rightarrow> trade list" where
  "upsert_trade r ts = (if list_ex (\<lambda>t. same_trade t r) ts then map (\<lambda>t. if same_trade t r then overwrite r t else t) ts else ts @ [r])"

text \<open>
  One statement inserts or updates up to 500 rows. It fails when two of its rows have the same key, and when a
  new row has an identifier that is taken.
\<close>

definition upsert_statement :: "trade list \<Rightarrow> trade list \<Rightarrow> (nat \<times> nat \<times> trade list) result" where
  "upsert_statement rows ts = (
     if \<not> distinct (map (\<lambda>r. (tr_account_id r, tr_broker_trade_id r)) rows)
     then Inl (Exn ''CardinalityViolation'' ''ON CONFLICT DO UPDATE command cannot affect row a second time'')
     else let fresh = filter (\<lambda>r. \<not> list_ex (\<lambda>t. same_trade t r) ts) rows in
       if \<not> distinct (map tr_id (ts @ fresh)) then Inl (Exn ''IntegrityError'' ''trades_pkey'')
       else Inr (length fresh, length rows - length fresh, fold upsert_trade rows ts))"

fun chunks :: "'a list \<Rightarrow> 'a list list" where
  "chunks [] = []"
| "chunks (x # xs) = take 500 (x # xs) # chunks (drop 500 (x # xs))"

fun upsert_statements :: "trade list list \<Rightarrow> trade list \<Rightarrow> (nat \<times> nat \<times> trade list) result" where
  "upsert_statements [] ts = Inr (0, 0, ts)"
| "upsert_statements (rows # rest) ts = (case upsert_statement rows ts of Inl e \<Rightarrow> Inl e
     | Inr (i, u, ts1) \<Rightarrow> (case upsert_statements rest ts1 of Inl e \<Rightarrow> Inl e
         | Inr (j, v, ts2) \<Rightarrow> Inr (i + j, u + v, ts2)))"

definition bulk_upsert_closed_trades :: "trade list \<Rightarrow> accounts_db \<Rightarrow> ((nat \<times> nat \<times> int list) \<times> accounts_db) result" where
  "bulk_upsert_closed_trades rows d = (case upsert_statements (chunks rows) (kd_trades d) of Inl e \<Rightarrow> Inl e
     | Inr (i, u, ts) \<Rightarrow> Inr ((i, u, map tr_closed_at rows), d \<lparr>kd_trades := ts\<rparr>))"

definition delete_trades_outside :: "acc_env \<Rightarrow> uuid \<Rightarrow> int option \<Rightarrow> int option \<Rightarrow> string \<Rightarrow> string set \<Rightarrow> accounts_db \<Rightarrow> (nat \<times> int list) \<times> accounts_db" where
  "delete_trades_outside env k from until zone valid d = (
     let gone = (\<lambda>t. tr_account_id t = k \<and> (case from of None \<Rightarrow> True | Some f \<Rightarrow> f \<le> tr_closed_at t)
           \<and> (case until of None \<Rightarrow> True | Some b \<Rightarrow> tr_closed_at t < b) \<and> (valid = {} \<or> tr_broker_trade_id t \<notin> valid));
         rows = filter gone (kd_trades d) in
     ((length rows, remdups (map (\<lambda>t. ve_local_date env zone (tr_closed_at t)) rows)),
      d \<lparr>kd_trades := filter (\<lambda>t. \<not> gone t) (kd_trades d)\<rparr>))"

section \<open>Ingestion\<close>

record sync_result =
  sr_inserted_trades :: nat
  sr_updated_trades :: nat
  sr_deleted_trades :: nat
  sr_touched_trading_dates :: nat

definition changed_trades :: "sync_result \<Rightarrow> nat" where
  "changed_trades r = sr_inserted_trades r + sr_updated_trades r + sr_deleted_trades r"

definition ingest_closed_deals :: "acc_env \<Rightarrow> (jval \<Rightarrow> string) \<Rightarrow> (nat \<Rightarrow> uuid) \<Rightarrow> int \<Rightarrow> trading_account \<Rightarrow> deal list \<Rightarrow> int list \<Rightarrow> bool \<Rightarrow> accounts_db \<Rightarrow>
    (sync_result \<times> accounts_db) result" where
  "ingest_closed_deals env prints draw now a deals extra enriched d =
     bind_Inr (map_result (\<lambda>(i, x). deal_row env prints (draw i) now a enriched x) (enumerate 0 deals)) (\<lambda>rows.
     bind_Inr (bulk_upsert_closed_trades (List.map_filter id rows) d) (\<lambda>((inserted, updated, closed), d1).
       Inr (\<lparr>sr_inserted_trades = inserted, sr_updated_trades = updated, sr_deleted_trades = 0,
           sr_touched_trading_dates = length (remdups (extra @ map (\<lambda>t. to_account_local_date env t (ta_timezone a)) closed))\<rparr>,
         put_account (set_account_last_synced_at now a) d1)))"

definition mt5_deal :: "(jval \<Rightarrow> string) \<Rightarrow> deal \<Rightarrow> deal" where
  "mt5_deal prints d = [
     (''broker_trade_id'', J_str (jtext prints (deal_get d ''ticket''))),
     (''symbol'', J_str (jstr prints (jor (deal_get d ''symbol'') (J_str ''UNKNOWN'')))),
     (''direction'', J_str (py_lower (jstr prints (jor (deal_get d ''direction'') (J_str ''buy''))))),
     (''open_price'', deal_get d ''price_in''),
     (''close_price'', jor (deal_get d ''price_out'') (deal_get d ''price'')),
     (''volume'', deal_get d ''volume''),
     (''profit'', jor (deal_get d ''gross_profit'') (deal_get d ''profit'')),
     (''commission'', deal_get d ''commission''),
     (''swap'', deal_get d ''swap''),
     (''opened_at'', jor (deal_get d ''time_setup'') (deal_get d ''opened_at'')),
     (''time'', jor (deal_get d ''time_closed'') (deal_get d ''closed_at'')),
     (''position_id'', J_str (jtext prints (deal_get d ''position_id''))),
     (''sl'', deal_get d ''sl''), (''tp'', deal_get d ''tp''),
     (''magic_number'', deal_get d ''magic_number''), (''trade_source'', deal_get d ''trade_source''),
     (''mfe'', deal_get d ''mfe''), (''mae'', deal_get d ''mae''),
     (''type'', J_str (if py_lower (jtext prints (deal_get d ''direction'')) = ''sell'' then ''SELL'' else ''BUY'')),
     (''entryType'', J_str ''DEAL_ENTRY_OUT'')]"

definition ingest_mt5_deals :: "acc_env \<Rightarrow> (jval \<Rightarrow> string) \<Rightarrow> (nat \<Rightarrow> uuid) \<Rightarrow> int \<Rightarrow> trading_account \<Rightarrow> deal list \<Rightarrow> int list \<Rightarrow> accounts_db \<Rightarrow>
    (sync_result \<times> accounts_db) result" where
  "ingest_mt5_deals env prints draw now a deals extra = ingest_closed_deals env prints draw now a (map (mt5_deal prints) deals) extra True"

text \<open>The instant a snapshot was taken: None when it is skipped.\<close>

definition captured_at :: "acc_env \<Rightarrow> jval \<Rightarrow> int option result" where
  "captured_at env v = (if \<not> jtrue v then Inr None else case v of
       J_str s \<Rightarrow> (case ve_iso env (replace_z s) of None \<Rightarrow> value_error ''Invalid isoformat string''
         | Some x \<Rightarrow> Inr (Some (case x of Aware t \<Rightarrow> t | Naive t \<Rightarrow> t)))
     | J_time x \<Rightarrow> Inr (Some (case x of Aware t \<Rightarrow> t | Naive t \<Rightarrow> t))
     | _ \<Rightarrow> Inr None)"

definition ingest_snapshot :: "acc_env \<Rightarrow> trading_account \<Rightarrow> deal \<Rightarrow> accounts_db \<Rightarrow> accounts_db result" where
  "ingest_snapshot env a s d = bind_Inr (captured_at env (deal_get s ''captured_at'')) (\<lambda>when. case when of None \<Rightarrow> Inr d
     | Some t \<Rightarrow>
       bind_Inr (as_decimal (deal_get s ''balance'')) (\<lambda>balance.
       bind_Inr (as_decimal (deal_get s ''equity'')) (\<lambda>equity.
       bind_Inr (as_decimal (deal_get s ''floating_pnl'')) (\<lambda>pnl.
         Inr (upsert_account_snapshot_for_date (ta_id a) (to_account_local_date env t (ta_timezone a))
           (numeric 2 balance) (numeric 2 equity) (numeric 2 pnl) d)))))"

fun ingest_mt5_snapshots :: "acc_env \<Rightarrow> trading_account \<Rightarrow> deal list \<Rightarrow> accounts_db \<Rightarrow> accounts_db result" where
  "ingest_mt5_snapshots env a [] d = Inr d"
| "ingest_mt5_snapshots env a (s # ss) d = bind_Inr (ingest_snapshot env a s d) (ingest_mt5_snapshots env a ss)"

record history =
  hs_deals :: "deal list"
  hs_snapshot :: "deal option"
  hs_broker_offset_seconds :: jval

definition ticket_of :: "(jval \<Rightarrow> string) \<Rightarrow> deal \<Rightarrow> string" where
  "ticket_of prints d = py_strip (jtext prints (deal_get d ''ticket''))"

definition valid_tickets :: "(jval \<Rightarrow> string) \<Rightarrow> deal list \<Rightarrow> string set" where
  "valid_tickets prints deals = set (filter (\<lambda>s. s \<noteq> []) (map (ticket_of prints) deals))"

definition with_snapshot :: "acc_env \<Rightarrow> trading_account \<Rightarrow> deal option \<Rightarrow> accounts_db \<Rightarrow> accounts_db result" where
  "with_snapshot env a snap d = (case snap of None \<Rightarrow> Inr d | Some s \<Rightarrow> if s = [] then Inr d else ingest_mt5_snapshots env a [s] d)"

definition cleaned :: "acc_env \<Rightarrow> (jval \<Rightarrow> string) \<Rightarrow> trading_account \<Rightarrow> deal list \<Rightarrow> int option \<Rightarrow> int option \<Rightarrow> bool \<Rightarrow> accounts_db \<Rightarrow> (nat \<times> int list) \<times> accounts_db" where
  "cleaned env prints a deals from until authoritative d = (
     if authoritative \<and> valid_tickets prints deals \<noteq> {}
     then delete_trades_outside env (ta_id a) from until (ta_timezone a) (valid_tickets prints deals) d
     else ((0, []), d))"

definition ingest_mt5_core_history_result :: "acc_env \<Rightarrow> (jval \<Rightarrow> string) \<Rightarrow> (nat \<Rightarrow> uuid) \<Rightarrow> int \<Rightarrow> trading_account \<Rightarrow> history \<Rightarrow> int option \<Rightarrow> int option \<Rightarrow> bool \<Rightarrow> accounts_db \<Rightarrow>
    (sync_result \<times> accounts_db) result" where
  "ingest_mt5_core_history_result env prints draw now a h from until authoritative d =
     bind_Inr (as_int (jor (hs_broker_offset_seconds h) (J_int 0))) (\<lambda>offset.
     let a1 = a \<lparr>ta_broker_utc_offset := offset\<rparr> in
     bind_Inr (with_snapshot env a1 (hs_snapshot h) (put_account a1 d)) (\<lambda>d1.
     let ((deleted, dates), d2) = cleaned env prints a1 (hs_deals h) from until authoritative d1 in
     map_Inr (\<lambda>(r, d3). (r \<lparr>sr_deleted_trades := deleted\<rparr>, d3)) (ingest_mt5_deals env prints draw now a1 (hs_deals h) dates d2)))"

section \<open>Synchronisation\<close>

text \<open>What a call of the MT5 service ends with.\<close>

datatype mt5_failure =
    Mt5_error string
  | Mt5_timeout string
  | Mt5_worker_unavailable string
  | Mt5_job_failed string
  | Mt5_transient_job_failed string
  | Mt5_http_error string
  | Mt5_rate_limited string "int option"
  | Mt5_backpressure string "int option"

datatype sync_failure = Sync_raised exn | Sync_mt5 mt5_failure

definition sync_from :: "acc_env \<Rightarrow> int \<Rightarrow> int option \<Rightarrow> trading_account \<Rightarrow> int" where
  "sync_from env now lookback a = (
     let days = (case lookback of None \<Rightarrow> ve_lookback_days env | Some n \<Rightarrow> if n = 0 then ve_lookback_days env else n);
         floor = now - seconds (days * 86400) in
     case ta_last_synced_at a of None \<Rightarrow> floor | Some t \<Rightarrow> min t floor)"

definition sync_account_deals_mt5 :: "acc_env \<Rightarrow> (jval \<Rightarrow> string) \<Rightarrow> (nat \<Rightarrow> uuid) \<Rightarrow> int \<Rightarrow> bool \<Rightarrow> (mt5_failure + history) \<Rightarrow> int option \<Rightarrow> trading_account \<Rightarrow> accounts_db \<Rightarrow>
    sync_failure + (sync_result \<times> accounts_db)" where
  "sync_account_deals_mt5 env prints draw now locked answer lookback a d = (
     if locked then Inl (Sync_raised (Exn ''HTTPException 409'' ''Sync already in progress for this account.''))
     else case ve_decrypt env (ta_encrypted_investor_password a) of
       Inl _ \<Rightarrow> Inl (Sync_raised (Exn ''HTTPException 500'' ''Failed to decrypt account credentials.''))
     | Inr _ \<Rightarrow> (case answer of Inl f \<Rightarrow> Inl (Sync_mt5 f)
       | Inr h \<Rightarrow> (case ingest_mt5_core_history_result env prints draw now a h (Some (sync_from env now lookback a)) None True d of
           Inl e \<Rightarrow> Inl (Sync_raised e) | Inr x \<Rightarrow> Inr x)))"

end
