(* ===== verification/Account_Service.thy ===== *)
theory Account_Service
  imports Account_Sync
begin

text \<open>
  What users and workers do to the accounts of the journal: \<^verbatim>\<open>accounts/service.py\<close> and the endpoints of
  \<^verbatim>\<open>accounts/router.py\<close>, \<^verbatim>\<open>accounts/sync_orchestrator.py\<close> and the tasks of \<^verbatim>\<open>tasks/journal_sync_tasks.py\<close>
  with the queue they go through. The answers of the MT5 service, the clock, drawn identifiers and whether
  somebody else holds an advisory lock are arguments; the service is asked once in a run, and the version
  counter in Redis is left out.
\<close>

section \<open>Connecting an account\<close>

record connect_request =
  cr_broker_name :: "string option"
  cr_broker_login :: string
  cr_broker_server :: string
  cr_investor_password :: string
  cr_trader_password :: "string option"
  cr_account_type :: account_type
  cr_currency :: string
  cr_timezone :: string
  cr_broker_utc_offset :: int
  cr_display_name :: "string option"

definition pseudo_meta_account_id :: "string \<Rightarrow> string \<Rightarrow> string \<Rightarrow> string" where
  "pseudo_meta_account_id login server platform = platform @ '':'' @ py_strip server @ '':'' @ py_strip login"

definition new_account :: "uuid \<Rightarrow> int \<Rightarrow> uuid \<Rightarrow> string \<Rightarrow> string \<Rightarrow> string \<Rightarrow> string \<Rightarrow> string option \<Rightarrow> connect_request \<Rightarrow> trading_account" where
  "new_account k now u meta broker server investor trader p =
     \<lparr>ta_id = k, ta_user_id = u, ta_meta_account_id = meta, ta_broker_name = broker, ta_broker_login = cr_broker_login p,
      ta_broker_server = server, ta_encrypted_investor_password = investor, ta_encrypted_trader_password = trader,
      ta_account_type = cr_account_type p, ta_platform = Platform_mt5, ta_currency = cr_currency p, ta_timezone = cr_timezone p,
      ta_broker_utc_offset = cr_broker_utc_offset p, ta_display_name = cr_display_name p, ta_status = Acc_pending_sync,
      ta_last_synced_at = None, ta_sync_error_message = None, ta_import_method = Import_auto_sync,
      ta_connection_state = Link_pending_verification, ta_is_data_ready_for_stats = False, ta_last_bootstrap_synced_at = None,
      ta_bootstrap_error_message = None, ta_last_sync_attempted_at = None, ta_next_sync_not_before = None,
      ta_last_sync_outcome = None, ta_consecutive_sync_failures = 0, ta_is_archived = False, ta_created_at = now\<rparr>"

text \<open>Reactivation leaves the dates, outcomes and counters of earlier synchronisations in place.\<close>

definition reactivate_account :: "string \<Rightarrow> string \<Rightarrow> string \<Rightarrow> string \<Rightarrow> string option \<Rightarrow> connect_request \<Rightarrow> trading_account \<Rightarrow> trading_account" where
  "reactivate_account meta broker server investor trader p a = a
     \<lparr>ta_meta_account_id := meta, ta_broker_name := broker, ta_broker_login := cr_broker_login p, ta_broker_server := server,
      ta_encrypted_investor_password := investor, ta_encrypted_trader_password := trader, ta_account_type := cr_account_type p,
      ta_platform := Platform_mt5, ta_currency := cr_currency p, ta_timezone := cr_timezone p,
      ta_broker_utc_offset := cr_broker_utc_offset p, ta_display_name := cr_display_name p, ta_is_archived := False,
      ta_status := Acc_pending_sync, ta_connection_state := Link_pending_verification, ta_is_data_ready_for_stats := False,
      ta_sync_error_message := None, ta_last_bootstrap_synced_at := None, ta_bootstrap_error_message := None,
      ta_import_method := Import_auto_sync\<rparr>"

definition encryption_error :: "exn \<Rightarrow> exn" where
  "encryption_error e = (if exn_class e = ''ValueError''
     then Exn ''HTTPException 503'' (if py_in ''Fernet key must be 32 url-safe base64-encoded bytes'' (exn_message e)
       then ''Server encryption key format is invalid. Regenerate ENCRYPTION_KEY using Fernet.generate_key().''
       else ''Server encryption key is not configured.'')
     else e)"

definition encrypt_passwords :: "acc_env \<Rightarrow> connect_request \<Rightarrow> (string \<times> string option) result" where
  "encrypt_passwords env p = (case ve_encrypt env (cr_investor_password p) of Inl e \<Rightarrow> Inl (encryption_error e)
     | Inr investor \<Rightarrow> (case cr_trader_password p of None \<Rightarrow> Inr (investor, None)
         | Some t \<Rightarrow> if t = [] then Inr (investor, None)
           else (case ve_encrypt env t of Inl e \<Rightarrow> Inl (encryption_error e) | Inr trader \<Rightarrow> Inr (investor, Some trader))))"

definition broker_name_of :: "connect_request \<Rightarrow> string \<Rightarrow> string" where
  "broker_name_of p server = nonempty_or (py_strip (case cr_broker_name p of None \<Rightarrow> [] | Some s \<Rightarrow> s)) server"

definition connect_account :: "acc_env \<Rightarrow> uuid \<Rightarrow> int \<Rightarrow> uuid \<Rightarrow> connect_request \<Rightarrow> accounts_db \<Rightarrow> (trading_account \<times> accounts_db) result" where
  "connect_account env k now u p d =
     bind_Inr (validate_timezone_name env (cr_timezone p)) (\<lambda>_.
     bind_Inr (resolve_mt5_server_name d (cr_broker_server p)) (\<lambda>server.
     let broker = broker_name_of p server; meta = pseudo_meta_account_id (cr_broker_login p) server ''MT5'';
         old = get_account_by_user_and_meta_id d u meta in
     if (case old of None \<Rightarrow> False | Some a \<Rightarrow> \<not> ta_is_archived a) then http_raise 409 ''Account already connected.''
     else bind_Inr (encrypt_passwords env p) (\<lambda>(investor, trader).
       case old of
         Some a \<Rightarrow> (let b = reactivate_account meta broker server investor trader p a in
           Inr (b, schedule_bootstrap_dispatch now (ta_id b) (put_account b d)))
       | None \<Rightarrow> (let b = new_account k now u meta broker server investor trader p in
           map_Inr (\<lambda>d1. (b, schedule_bootstrap_dispatch now k d1)) (add_account b d)))))"

section \<open>Managing an account\<close>

definition get_account :: "accounts_db \<Rightarrow> uuid \<Rightarrow> uuid \<Rightarrow> trading_account result" where
  "get_account d u k = (case get_account_by_id_for_user d k u of None \<Rightarrow> http_raise 404 ''Trading account not found.'' | Some a \<Rightarrow> Inr a)"

record account_summary =
  as_latest_balance :: "rat option"
  as_latest_equity :: "rat option"
  as_closed_trade_count :: nat

definition account_summary_of :: "accounts_db \<Rightarrow> trading_account \<Rightarrow> account_summary" where
  "account_summary_of d a = (let s = get_latest_account_snapshot d (ta_id a) in
     \<lparr>as_latest_balance = map_option sn_balance s, as_latest_equity = map_option sn_equity s, as_closed_trade_count = count_closed_trades d (ta_id a)\<rparr>)"

definition list_accounts :: "accounts_db \<Rightarrow> uuid \<Rightarrow> (trading_account \<times> account_summary) list" where
  "list_accounts d u = map (\<lambda>a. (a, account_summary_of d a)) (list_accounts_for_user d u)"

definition get_account_balance :: "accounts_db \<Rightarrow> uuid \<Rightarrow> uuid \<Rightarrow> (rat \<times> rat \<times> rat \<times> int) option result" where
  "get_account_balance d u k = map_Inr (\<lambda>_. map_option (\<lambda>s. (sn_balance s, sn_equity s, sn_floating_pnl s, sn_date s))
     (get_latest_account_snapshot d k)) (get_account d u k)"

definition disconnect_account :: "uuid \<Rightarrow> uuid \<Rightarrow> accounts_db \<Rightarrow> accounts_db result" where
  "disconnect_account u k d = map_Inr (\<lambda>a. put_account (archive_account a) d) (get_account d u k)"

definition unarchive_account :: "uuid \<Rightarrow> uuid \<Rightarrow> accounts_db \<Rightarrow> (trading_account \<times> accounts_db) result" where
  "unarchive_account u k d = map_Inr (\<lambda>a. if ta_is_archived a then (unarchived a, put_account (unarchived a) d) else (a, d)) (get_account d u k)"

definition delete_trading_account :: "uuid \<Rightarrow> uuid \<Rightarrow> accounts_db \<Rightarrow> accounts_db result" where
  "delete_trading_account u k d = map_Inr (\<lambda>a. hard_delete_account (ta_id a) d) (get_account d u k)"

definition update_account :: "uuid \<Rightarrow> uuid \<Rightarrow> string \<Rightarrow> accounts_db \<Rightarrow> (trading_account \<times> accounts_db) result" where
  "update_account u k name d = bind_Inr (get_account d u k) (\<lambda>a. let n = py_strip name in
     if n = [] then http_raise 400 ''Display name cannot be empty.''
     else let b = a \<lparr>ta_display_name := Some n\<rparr> in Inr (b, put_account b d))"

definition is_valid_mt5_verification_result :: "(jval \<Rightarrow> string) \<Rightarrow> deal \<Rightarrow> string \<Rightarrow> string \<Rightarrow> bool" where
  "is_valid_mt5_verification_result prints r login server \<longleftrightarrow> jtrue (deal_get r ''verified'')
     \<and> py_strip (jstr prints (jor (deal_get r ''login'') (J_str login))) = py_strip login
     \<and> py_lower (py_strip (jstr prints (jor (deal_get r ''server'') (J_str server)))) = py_lower (py_strip server)"

definition trader_access_error :: "mt5_failure \<Rightarrow> 'a result" where
  "trader_access_error f = (case f of
       Mt5_job_failed _ \<Rightarrow> http_raise 400 ''MT5 rejected this password. Enter the full trading password, not the investor password.''
     | Mt5_timeout _ \<Rightarrow> http_raise 504 ''MT5 verification did not finish in time. Please try again.''
     | _ \<Rightarrow> http_raise 503 ''MT5 verification is temporarily unavailable.'')"

definition enable_trader_access :: "acc_env \<Rightarrow> (jval \<Rightarrow> string) \<Rightarrow> mt5_failure + deal \<Rightarrow> uuid \<Rightarrow> uuid \<Rightarrow> string \<Rightarrow> accounts_db \<Rightarrow> (trading_account \<times> accounts_db) result" where
  "enable_trader_access env prints answer u k password d = bind_Inr (get_account d u k) (\<lambda>a.
     if ta_is_archived a \<or> ta_import_method a \<noteq> Import_auto_sync
     then http_raise 409 ''Only an active broker-connected MT5 account can enable full access.''
     else case answer of Inl f \<Rightarrow> trader_access_error f
     | Inr r \<Rightarrow>
       if \<not> is_valid_mt5_verification_result prints r (ta_broker_login a) (ta_broker_server a) \<or> \<not> jtrue (deal_get r ''trade_allowed'')
       then http_raise 400 ''This credential does not provide full trading access. Enter the full trading password.''
       else bind_Inr (ve_encrypt env password) (\<lambda>c. let b = a \<lparr>ta_encrypted_trader_password := Some c\<rparr> in Inr (b, put_account b d)))"

section \<open>Admission and orchestration of a synchronisation\<close>

record sync_execution =
  se_outcome :: string
  se_inserted :: nat
  se_updated :: nat
  se_deleted :: nat
  se_touched :: nat
  se_retry_after :: "int option"
  se_message :: "string option"

definition guarded_result :: "string \<Rightarrow> int option \<Rightarrow> string \<Rightarrow> sync_execution" where
  "guarded_result outcome retry message = \<lparr>se_outcome = outcome, se_inserted = 0, se_updated = 0, se_deleted = 0, se_touched = 0,
     se_retry_after = retry, se_message = Some message\<rparr>"

text \<open>\<^verbatim>\<open>max(1, int(seconds + 0.999))\<close>.\<close>

definition seconds_until :: "int \<Rightarrow> int \<Rightarrow> int" where
  "seconds_until target now = max 1 (cut_off (of_int (target - now) / 10 ^ 6 + 999 / 1000))"

text \<open>The limit of attempts in the settings is positive.\<close>

definition check_manual_sync_admission :: "acc_env \<Rightarrow> bool \<Rightarrow> trading_account \<Rightarrow> int \<Rightarrow> accounts_db \<Rightarrow> sync_execution option" where
  "check_manual_sync_admission env locked a now d = (
     if locked then Some (guarded_result ''in_progress'' (Some 10) ''Sync already in progress for this account.'')
     else case (case ta_next_sync_not_before a of Some t \<Rightarrow> if now < t then Some t else None | None \<Rightarrow> None) of
       Some t \<Rightarrow> Some (guarded_result ''cooldown'' (Some (seconds_until t now)) ''Manual sync is on cooldown for this account.'')
     | None \<Rightarrow>
       let recent = list_recent_sync_attempts_for_user d (ta_user_id a) (now - seconds (ve_burst_window_seconds env)) in
       if ve_burst_max_attempts env \<le> length recent
       then Some (guarded_result ''rate_limited'' (Some (seconds_until (hd recent + seconds (ve_burst_window_seconds env)) now))
         ''You have reached the manual sync limit for now. Please retry shortly.'')
       else None)"

definition invalid_credentials_message :: string where
  "invalid_credentials_message = ''MT5 authorization failed. Check the account number, broker server, and investor password.''"

definition failure_message :: "mt5_failure \<Rightarrow> string" where
  "failure_message f = (case f of Mt5_error m \<Rightarrow> m | Mt5_timeout m \<Rightarrow> m | Mt5_worker_unavailable m \<Rightarrow> m | Mt5_job_failed m \<Rightarrow> m
     | Mt5_transient_job_failed m \<Rightarrow> m | Mt5_http_error m \<Rightarrow> m | Mt5_rate_limited m _ \<Rightarrow> m | Mt5_backpressure m _ \<Rightarrow> m)"

text \<open>What is stored, and answered, when the service fails: the order of the \<^verbatim>\<open>except\<close> clauses.\<close>

definition sync_failed :: "mt5_failure \<Rightarrow> int \<Rightarrow> trading_account \<Rightarrow> sync_execution \<times> trading_account" where
  "sync_failed f now a = (case f of
       Mt5_rate_limited m r \<Rightarrow> (guarded_result ''rate_limited'' r m, mark_sync_retryable ''rate_limited'' m r now a)
     | Mt5_backpressure m r \<Rightarrow> (guarded_result ''backpressure'' r m, mark_sync_retryable ''backpressure'' m r now a)
     | Mt5_timeout m \<Rightarrow> (guarded_result ''timeout'' None m, mark_sync_retryable ''timeout'' m None now a)
     | Mt5_job_failed m \<Rightarrow> (guarded_result ''invalid_credentials'' None invalid_credentials_message,
         mark_sync_attention_required ''invalid_credentials'' invalid_credentials_message now
           (mark_account_verification_failed invalid_credentials_message a))
     | _ \<Rightarrow> (guarded_result ''transient_error'' None (failure_message f),
         mark_sync_retryable ''transient_error'' (failure_message f) None now a))"

datatype sync_trigger = Trigger_bootstrap | Trigger_manual | Trigger_recurring

text \<open>The account as it is stored in a database; the same row the session holds.\<close>

definition account_in :: "accounts_db \<Rightarrow> trading_account \<Rightarrow> trading_account" where
  "account_in d a = (case get_account_by_id d (ta_id a) of None \<Rightarrow> a | Some b \<Rightarrow> b)"

definition orchestrate_mt5_sync :: "acc_env \<Rightarrow> (jval \<Rightarrow> string) \<Rightarrow> (nat \<Rightarrow> uuid) \<Rightarrow> int \<Rightarrow> bool \<Rightarrow> (mt5_failure + history) \<Rightarrow> sync_trigger \<Rightarrow> int option \<Rightarrow> bool \<Rightarrow>
    trading_account \<Rightarrow> accounts_db \<Rightarrow> sync_execution result \<times> accounts_db" where
  "orchestrate_mt5_sync env prints draw now locked answer trigger lookback enforce a d = (
     case (if enforce \<and> trigger = Trigger_manual then check_manual_sync_admission env locked a now d else None) of
       Some g \<Rightarrow> (Inr g, d)
     | None \<Rightarrow>
       let a1 = (if enforce then set_sync_attempt_started now a else a); d1 = put_account a1 d in
       (case sync_account_deals_mt5 env prints draw now locked answer lookback a1 d1 of
          Inl (Sync_raised e) \<Rightarrow>
            if exn_class e = ''HTTPException 409'' then (Inr (guarded_result ''in_progress'' (Some 10) (exn_message e)), d) else (Inl e, d)
        | Inl (Sync_mt5 f) \<Rightarrow> (Inr (fst (sync_failed f now a1)), put_account (snd (sync_failed f now a1)) d1)
        | Inr (r, d2) \<Rightarrow>
            (Inr \<lparr>se_outcome = ''success'', se_inserted = sr_inserted_trades r, se_updated = sr_updated_trades r, se_deleted = sr_deleted_trades r,
                se_touched = sr_touched_trading_dates r, se_retry_after = None, se_message = None\<rparr>,
             put_account (mark_sync_success now (if trigger = Trigger_manual then Some (now + seconds (ve_sync_cooldown_seconds env)) else None)
               ''success'' (account_in d2 a1)) d2)))"

datatype sync_answer = Sync_noop | Sync_guarded sync_execution | Sync_queued

definition manual_sync :: "acc_env \<Rightarrow> bool \<Rightarrow> int \<Rightarrow> uuid \<Rightarrow> uuid \<Rightarrow> accounts_db \<Rightarrow> (sync_answer \<times> accounts_db) result" where
  "manual_sync env locked now u k d = bind_Inr (get_account d u k) (\<lambda>a.
     if ta_account_type a = Account_demo then Inr (Sync_noop, d)
     else if ta_import_method a \<noteq> Import_auto_sync then http_raise 400 ''This account does not support broker sync.''
     else case check_manual_sync_admission env locked a now d of
       Some g \<Rightarrow> Inr (Sync_guarded g, d)
     | None \<Rightarrow> Inr (Sync_queued, put_account (set_sync_attempt_started now a) d))"

section \<open>Tasks\<close>

datatype account_task = Bootstrap_task uuid nat | Sync_task uuid

definition redispatch :: "int \<Rightarrow> string \<Rightarrow> bootstrap_dispatch \<Rightarrow> bootstrap_dispatch" where
  "redispatch now e j = (let n = jd_attempt_count j + 1 in
     j \<lparr>jd_attempt_count := n, jd_last_error := Some (take 500 e), jd_available_at := now + seconds (min 60 (2 ^ min n 6))\<rparr>)"

definition dispatched :: "int \<Rightarrow> bootstrap_dispatch \<Rightarrow> bootstrap_dispatch" where
  "dispatched now j = j \<lparr>jd_attempt_count := jd_attempt_count j + 1, jd_dispatched_at := Some now, jd_last_error := None\<rparr>"

definition put_dispatch :: "bootstrap_dispatch \<Rightarrow> accounts_db \<Rightarrow> accounts_db" where
  "put_dispatch j = kd_dispatches_update (row_put jd_account_id j)"

text \<open>\<open>broken\<close> is the error of the queue, when it does not take the task.\<close>

definition dispatch_bootstrap_account :: "int \<Rightarrow> string option \<Rightarrow> uuid \<Rightarrow> accounts_db \<Rightarrow> account_task list \<times> accounts_db" where
  "dispatch_bootstrap_account now broken k d = (case claim_bootstrap_dispatches now 1 (Some k) d of
       [] \<Rightarrow> ([], d)
     | j # _ \<Rightarrow> (case broken of
         Some e \<Rightarrow> ([], put_dispatch (redispatch now e j) d)
       | None \<Rightarrow> ([Bootstrap_task (jd_account_id j) 0], put_dispatch (dispatched now j) d)))"

fun dispatch_all :: "int \<Rightarrow> (uuid \<Rightarrow> string option) \<Rightarrow> uuid list \<Rightarrow> accounts_db \<Rightarrow> account_task list \<times> accounts_db" where
  "dispatch_all now broken [] d = ([], d)"
| "dispatch_all now broken (k # ks) d = (let (ts, d1) = dispatch_bootstrap_account now (broken k) k d;
     (us, d2) = dispatch_all now broken ks d1 in (ts @ us, d2))"

definition dispatch_pending_bootstraps :: "int \<Rightarrow> (uuid \<Rightarrow> string option) \<Rightarrow> accounts_db \<Rightarrow> account_task list \<times> accounts_db" where
  "dispatch_pending_bootstraps now broken d = dispatch_all now broken (map jd_account_id (claim_bootstrap_dispatches now 100 None d)) d"

text \<open>How a task ends: with its result, by asking for a retry, or with an exception nobody handles.\<close>

datatype task_end = Task_done string | Task_retry | Task_raised exn

definition verification_snapshot :: "int \<Rightarrow> deal \<Rightarrow> deal" where
  "verification_snapshot now r = [(''captured_at'', J_time (Aware now)), (''balance'', deal_get r ''balance''), (''equity'', deal_get r ''equity''),
     (''floating_pnl'', J_int 0)]"

text \<open>The verification of a pending account: the end of the task, or the database it goes on with.\<close>

definition bootstrap_verify :: "acc_env \<Rightarrow> (jval \<Rightarrow> string) \<Rightarrow> int \<Rightarrow> nat \<Rightarrow> (mt5_failure + deal) \<Rightarrow> trading_account \<Rightarrow> accounts_db \<Rightarrow> task_end option \<times> accounts_db" where
  "bootstrap_verify env prints now retries answer a d = (
     let failed = put_account (mark_account_verification_failed invalid_credentials_message a) d in
     case answer of
       Inr r \<Rightarrow> if \<not> is_valid_mt5_verification_result prints r (ta_broker_login a) (ta_broker_server a)
         then (Some (Task_done ''verification_failed''), failed)
         else (case ingest_mt5_snapshots env a [verification_snapshot now r] d of Inl e \<Rightarrow> (Some (Task_raised e), d)
           | Inr d1 \<Rightarrow> (None, put_account (mark_account_bootstrapping a) d1))
     | Inl (Mt5_job_failed _) \<Rightarrow> (Some (Task_done ''verification_failed''), failed)
     | Inl _ \<Rightarrow> if retries < 1 then (Some Task_retry, d)
         else (let m = ''Service Error: MT5 verification is temporarily unavailable. Please retry.'' in
           (Some (Task_done ''service_unavailable''), put_account (set_account_sync_error m (mark_account_bootstrap_failed m a)) d)))"

definition bootstrap_import :: "acc_env \<Rightarrow> (jval \<Rightarrow> string) \<Rightarrow> (nat \<Rightarrow> uuid) \<Rightarrow> int \<Rightarrow> bool \<Rightarrow> (mt5_failure + history) \<Rightarrow> trading_account \<Rightarrow> accounts_db \<Rightarrow> task_end \<times> accounts_db" where
  "bootstrap_import env prints draw now locked answer a d = (
     case sync_account_deals_mt5 env prints draw now locked answer (Some (ve_lookback_days env)) a d of
       Inr (r, d1) \<Rightarrow> (Task_done ''ready'',
         put_account (mark_account_ready_for_stats now (if changed_trades r > 0 then ''success'' else ''success_empty'') (account_in d1 a)) d1)
     | Inl (Sync_raised e) \<Rightarrow> (Task_raised e, d)
     | Inl (Sync_mt5 (Mt5_job_failed _)) \<Rightarrow> (Task_done ''verification_failed'',
         put_account (mark_account_verification_failed invalid_credentials_message a) d)
     | Inl (Sync_mt5 f) \<Rightarrow> (Task_done ''bootstrap_failed'',
         put_account (set_account_sync_error (''Initial sync failed: '' @ take 450 (failure_message f))
           (mark_account_bootstrap_failed (take 500 (failure_message f)) a)) d))"

record task_rq =
  tq_now :: int
  tq_draw :: "nat \<Rightarrow> uuid"
  tq_verification :: "mt5_failure + deal"
  tq_history :: "mt5_failure + history"
  tq_bootstrap_locked :: bool
  tq_sync_locked :: bool

definition bootstrap_account :: "acc_env \<Rightarrow> (jval \<Rightarrow> string) \<Rightarrow> task_rq \<Rightarrow> nat \<Rightarrow> string \<Rightarrow> accounts_db \<Rightarrow> task_end \<times> accounts_db" where
  "bootstrap_account env prints q retries account_id d = (
     case parse_uuid account_id of Inl _ \<Rightarrow> (Task_done ''skipped'', d)
     | Inr k \<Rightarrow> (case get_account_by_id d k of None \<Rightarrow> (Task_done ''skipped'', d)
       | Some a \<Rightarrow>
         if ta_is_archived a \<or> tq_bootstrap_locked q then (Task_done ''skipped'', d)
         else case ve_decrypt env (ta_encrypted_investor_password a) of
           Inl _ \<Rightarrow> (Task_done ''verification_failed'',
             put_account (mark_account_verification_failed ''Stored account credentials could not be decrypted.'' a) d)
         | Inr _ \<Rightarrow>
           let (end, d1) = (if ta_connection_state a = Link_pending_verification
             then bootstrap_verify env prints (tq_now q) retries (tq_verification q) a d else (None, d)) in
           case end of Some e \<Rightarrow> (e, d1)
           | None \<Rightarrow> bootstrap_import env prints (tq_draw q) (tq_now q) (tq_sync_locked q) (tq_history q) (account_in d1 a) d1))"

definition sync_account :: "acc_env \<Rightarrow> (jval \<Rightarrow> string) \<Rightarrow> task_rq \<Rightarrow> string \<Rightarrow> accounts_db \<Rightarrow> task_end \<times> accounts_db" where
  "sync_account env prints q account_id d = (
     case parse_uuid account_id of Inl _ \<Rightarrow> (Task_done ''skipped'', d)
     | Inr k \<Rightarrow> (case get_account_by_id d k of None \<Rightarrow> (Task_done ''skipped'', d)
       | Some a \<Rightarrow>
         if ta_is_archived a then (Task_done ''skipped'', d)
         else (case orchestrate_mt5_sync env prints (tq_draw q) (tq_now q) (tq_sync_locked q) (tq_history q) Trigger_manual None False a d of
             (Inl e, d1) \<Rightarrow> (Task_raised e, d1) | (Inr r, d1) \<Rightarrow> (Task_done (se_outcome r), d1))))"

end
