(* ===== verification/Account_Import.thy ===== *)
theory Account_Import
  imports Account_Service
begin

text \<open>
  The import of MT5 reports: the parser of \<^verbatim>\<open>csv_import/parsers/mt5_report.py\<close> over the rows openpyxl reads,
  and \<^verbatim>\<open>csv_import/service.py\<close>, which shows a preview and stores the trades. A cell is a \<open>jval\<close>; reading the
  workbook, \<^verbatim>\<open>strptime\<close> and the change from a clock on the wall to UTC are parameters; the datetimes of a
  workbook have no time zone.
\<close>

section \<open>Parsed reports\<close>

record parsed_trade =
  pt_broker_trade_id :: string
  pt_symbol :: string
  pt_direction :: trade_direction
  pt_volume :: rat
  pt_open_price :: rat
  pt_close_price :: rat
  pt_opened_at :: int
  pt_closed_at :: int
  pt_profit :: rat
  pt_commission :: rat
  pt_swap :: rat
  pt_sl :: "rat option"
  pt_tp :: "rat option"

record parsed_meta =
  pm_account_number :: "string option"
  pm_currency :: "string option"
  pm_broker_server :: "string option"
  pm_account_type :: "string option"
  pm_broker_name :: "string option"
  pm_starting_balance :: "rat option"
  pm_current_balance :: "rat option"

record parse_error =
  pe_row_number :: nat
  pe_column :: "string option"
  pe_message :: string
  pe_severity :: string

record parse_result =
  pr_trades :: "parsed_trade list"
  pr_account_meta :: parsed_meta
  pr_daily_balances :: "(int \<times> rat) list"
  pr_errors :: "parse_error list"
  pr_warnings :: "string list"
  pr_raw_row_count :: nat
  pr_parsed_trade_count :: nat

definition no_meta :: parsed_meta where
  "no_meta = \<lparr>pm_account_number = None, pm_currency = None, pm_broker_server = None, pm_account_type = None,
     pm_broker_name = None, pm_starting_balance = None, pm_current_balance = None\<rparr>"

definition empty_parse :: parse_result where
  "empty_parse = \<lparr>pr_trades = [], pr_account_meta = no_meta, pr_daily_balances = [], pr_errors = [], pr_warnings = [],
     pr_raw_row_count = 0, pr_parsed_trade_count = 0\<rparr>"

definition parse_error_at :: "nat \<Rightarrow> string option \<Rightarrow> string \<Rightarrow> parse_error" where
  "parse_error_at row column message = \<lparr>pe_row_number = row, pe_column = column, pe_message = message, pe_severity = ''error''\<rparr>"

type_synonym row = "jval list"

record import_env =
  vi_prints :: "jval \<Rightarrow> string"
  vi_strptime :: "string \<Rightarrow> int option"
  vi_zone_to_utc :: "string \<Rightarrow> int \<Rightarrow> int"

section \<open>The parser\<close>

definition cell_decimal :: "jval \<Rightarrow> rat result" where
  "cell_decimal v = (if v = J_none then conversion_syntax else as_decimal v)"

definition parse_optional_decimal :: "import_env \<Rightarrow> jval \<Rightarrow> rat option result" where
  "parse_optional_decimal ie v = (if v = J_none then Inr None
     else if py_strip (jstr (vi_prints ie) v) \<in> {[], ''0'', ''0.0''} then Inr None else map_Inr Some (cell_decimal v))"

definition parse_date :: "import_env \<Rightarrow> string \<Rightarrow> jval \<Rightarrow> int result" where
  "parse_date ie zone v = (case v of
       J_time (Naive t) \<Rightarrow> Inr (vi_zone_to_utc ie zone t)
     | _ \<Rightarrow> (case vi_strptime ie (py_strip (jstr (vi_prints ie) v)) of
         None \<Rightarrow> value_error ''time data does not match format'' | Some t \<Rightarrow> Inr (vi_zone_to_utc ie zone t)))"

fun split_char :: "char \<Rightarrow> string \<Rightarrow> string list" where
  "split_char c [] = [[]]"
| "split_char c (x # s) = (if x = c then [] # split_char c s
     else case split_char c s of [] \<Rightarrow> [[x]] | p # ps \<Rightarrow> (x # p) # ps)"

definition parse_account_number :: "string \<Rightarrow> string option" where
  "parse_account_number v = (let n = takeWhile is_digit v in if n = [] then None else Some n)"

text \<open>\<^verbatim>\<open>re.search(r"\(([^,]+)", val)\<close>: the first parenthesis with something other than a comma behind it.\<close>

fun after_parenthesis :: "string \<Rightarrow> string option" where
  "after_parenthesis [] = None"
| "after_parenthesis (c # s) = (if c = CHR ''('' \<and> takeWhile (\<lambda>x. x \<noteq> CHR '','') s \<noteq> [] then Some (takeWhile (\<lambda>x. x \<noteq> CHR '','') s)
     else after_parenthesis s)"

definition parse_currency :: "string \<Rightarrow> string option" where
  "parse_currency v = (case after_parenthesis v of None \<Rightarrow> Some ''USD'' | Some s \<Rightarrow> Some (py_strip s))"

definition parse_broker_server :: "string \<Rightarrow> string option" where
  "parse_broker_server v = (case split_char (CHR '','') v of _ # p # _ \<Rightarrow> Some (py_strip p) | _ \<Rightarrow> None)"

definition parse_account_type :: "string \<Rightarrow> string" where
  "parse_account_type v = (case split_char (CHR '','') v of _ # _ # p # _ \<Rightarrow> (let t = py_lower (py_strip p) in
       if py_in ''real'' t \<or> py_in ''live'' t then ''live'' else ''demo'') | _ \<Rightarrow> ''demo'')"

record sections =
  sx_positions :: "nat option"
  sx_deals :: "nat option"
  sx_balance :: "nat option"

definition starts_row :: "row \<Rightarrow> bool" where
  "starts_row r \<longleftrightarrow> r \<noteq> [] \<and> hd r \<noteq> J_none"

definition scan_row :: "import_env \<Rightarrow> nat \<times> row \<Rightarrow> parsed_meta \<times> sections \<Rightarrow> parsed_meta \<times> sections" where
  "scan_row ie ir ms = (let (i, r) = ir; (m, s) = ms in
     if \<not> starts_row r then ms
     else let first = py_strip (jstr (vi_prints ie) (hd r));
            v = (if 3 < length r then r ! 3 else J_none); text = jstr (vi_prints ie) v; key = py_lower first;
            m1 = (if i < 15 \<and> key = ''account:'' \<and> jtrue v
                  then m \<lparr>pm_account_number := parse_account_number text, pm_currency := parse_currency text,
                    pm_broker_server := parse_broker_server text, pm_account_type := Some (parse_account_type text)\<rparr>
                  else if i < 15 \<and> key = ''company:'' \<and> jtrue v then m \<lparr>pm_broker_name := Some (py_strip text)\<rparr> else m) in
       (m1, if first = ''Positions'' then s \<lparr>sx_positions := Some i\<rparr>
            else if first = ''Deals'' then s \<lparr>sx_deals := Some i\<rparr>
            else if first = ''Balance:'' \<and> sx_balance s = None then s \<lparr>sx_balance := Some i\<rparr> else s))"

definition scan_rows :: "import_env \<Rightarrow> row list \<Rightarrow> parsed_meta \<times> sections" where
  "scan_rows ie rows = (
     let (m, s) = fold (scan_row ie) (enumerate 0 rows) (no_meta, \<lparr>sx_positions = None, sx_deals = None, sx_balance = None\<rparr>) in
     (case sx_balance s of None \<Rightarrow> m
      | Some b \<Rightarrow> if 3 < length (rows ! b) then (case cell_decimal (rows ! b ! 3) of Inl _ \<Rightarrow> m | Inr x \<Rightarrow> m \<lparr>pm_current_balance := Some x\<rparr>) else m,
      s))"

text \<open>The rows of a block: from two rows below its title to the first empty or closing row.\<close>

definition block_rows :: "import_env \<Rightarrow> string set \<Rightarrow> nat \<Rightarrow> row list \<Rightarrow> (nat \<times> row) list" where
  "block_rows ie ends title rows = takeWhile (\<lambda>(i, r). starts_row r \<and> py_strip (jstr (vi_prints ie) (hd r)) \<notin> ends)
     (drop (title + 2) (enumerate 0 rows))"

definition cell_or_zero :: "jval \<Rightarrow> jval" where
  "cell_or_zero v = jor v (J_int 0)"

definition parse_position :: "import_env \<Rightarrow> string \<Rightarrow> row \<Rightarrow> parsed_trade option result" where
  "parse_position ie zone r = (
     if length r < 13 then value_error ''not enough values to unpack''
     else if \<not> jtrue (r ! 1) \<or> \<not> jtrue (r ! 2) \<or> \<not> jtrue (r ! 0) \<or> \<not> jtrue (r ! 8) then Inr None
     else
       bind_Inr (cell_decimal (r ! 4)) (\<lambda>volume.
       bind_Inr (cell_decimal (r ! 5)) (\<lambda>open_price.
       bind_Inr (cell_decimal (r ! 9)) (\<lambda>close_price.
       bind_Inr (parse_date ie zone (r ! 0)) (\<lambda>opened.
       bind_Inr (parse_date ie zone (r ! 8)) (\<lambda>closed.
       bind_Inr (cell_decimal (cell_or_zero (r ! 12))) (\<lambda>profit.
       bind_Inr (cell_decimal (cell_or_zero (r ! 10))) (\<lambda>commission.
       bind_Inr (cell_decimal (cell_or_zero (r ! 11))) (\<lambda>swap.
       bind_Inr (parse_optional_decimal ie (r ! 6)) (\<lambda>sl.
       bind_Inr (parse_optional_decimal ie (r ! 7)) (\<lambda>tp.
         Inr (Some \<lparr>pt_broker_trade_id = py_strip (jstr (vi_prints ie) (r ! 1)),
           pt_symbol = hd (split_char (CHR ''.'') (py_strip (jstr (vi_prints ie) (r ! 2)))),
           pt_direction = (if py_in ''sell'' (py_lower (py_strip (jstr (vi_prints ie) (r ! 3)))) then Direction_sell else Direction_buy),
           pt_volume = volume, pt_open_price = open_price, pt_close_price = close_price, pt_opened_at = opened, pt_closed_at = closed,
           pt_profit = profit, pt_commission = commission, pt_swap = swap, pt_sl = sl, pt_tp = tp\<rparr>))))))))))))"

text \<open>A suffix is noticed before the rest of the row is read.\<close>

definition has_suffix :: "import_env \<Rightarrow> row \<Rightarrow> bool" where
  "has_suffix ie r \<longleftrightarrow> 13 \<le> length r \<and> jtrue (r ! 1) \<and> jtrue (r ! 2) \<and> jtrue (r ! 0) \<and> jtrue (r ! 8)
     \<and> CHR ''.'' \<in> set (jstr (vi_prints ie) (r ! 2))"

definition row_error :: "nat \<Rightarrow> exn \<Rightarrow> parse_error" where
  "row_error i e = parse_error_at (i + 1) None (''Failed to parse row '' @ show_nat (i + 1) @ '': '' @ exn_message e)"

definition parse_positions :: "import_env \<Rightarrow> string \<Rightarrow> nat \<Rightarrow> row list \<Rightarrow> parsed_trade list \<times> parse_error list \<times> bool" where
  "parse_positions ie zone title rows = (
     let block = block_rows ie {''Orders'', ''Deals'', ''Working Orders'', ''Summary''} title rows in
     (concat (map (\<lambda>(i, r). case parse_position ie zone r of Inr (Some t) \<Rightarrow> [t] | _ \<Rightarrow> []) block),
      concat (map (\<lambda>(i, r). case parse_position ie zone r of Inl e \<Rightarrow> [row_error i e] | _ \<Rightarrow> []) block),
      list_ex (\<lambda>(i, r). has_suffix ie r) block))"

definition deal_balance :: "row \<Rightarrow> rat result" where
  "deal_balance r = (if 12 < length r \<and> r ! 12 \<noteq> J_none then cell_decimal (r ! 12)
     else if 11 < length r then cell_decimal (r ! 11) else Inl (Exn ''IndexError'' ''tuple index out of range''))"

text \<open>One row of the deals: the first balance operation is the starting balance, the last balance of a day is kept.\<close>

definition deal_step :: "acc_env \<Rightarrow> import_env \<Rightarrow> string \<Rightarrow> row \<Rightarrow> rat option \<times> (int \<times> rat) list \<Rightarrow> rat option \<times> (int \<times> rat) list" where
  "deal_step env ie zone r acc = (let (start, days) = acc in
     case deal_balance r of Inl _ \<Rightarrow> acc
     | Inr balance \<Rightarrow> if length r \<le> 3 then acc
       else let start1 = (if py_lower (py_strip (jstr (vi_prints ie) (r ! 3))) = ''balance'' \<and> start = None then Some balance else start) in
       case parse_date ie zone (hd r) of Inl _ \<Rightarrow> (start1, days)
       | Inr t \<Rightarrow> (start1, AList.update (ve_local_date env zone t) balance days))"

definition parse_deals :: "acc_env \<Rightarrow> import_env \<Rightarrow> string \<Rightarrow> nat \<Rightarrow> row list \<Rightarrow> rat option \<Rightarrow> rat option \<times> (int \<times> rat) list" where
  "parse_deals env ie zone title rows start =
     fold (deal_step env ie zone) (map snd (block_rows ie {''Summary'', ''Balance:'', ''Working Orders''} title rows)) (start, [])"

text \<open>\<open>loaded\<close> is what opening the workbook gives: its rows or the message of the error.\<close>

definition parse_report :: "acc_env \<Rightarrow> import_env \<Rightarrow> string \<Rightarrow> (string + row list) \<Rightarrow> parse_result" where
  "parse_report env ie zone loaded = (
     if \<not> ve_zone_known env zone then empty_parse \<lparr>pr_errors := [parse_error_at 0 (Some ''timezone'')
       (''Invalid timezone name: '' @ zone @ ''. Please choose a valid timezone.'')]\<rparr>
     else case loaded of
       Inl e \<Rightarrow> empty_parse \<lparr>pr_errors := [parse_error_at 0 None
         (''Failed to open Excel file. Make sure it is a valid MT5 XLSX export. Error: '' @ e)]\<rparr>
     | Inr rows \<Rightarrow>
       let (m, s) = scan_rows ie rows; base = empty_parse \<lparr>pr_raw_row_count := length rows, pr_account_meta := m\<rparr> in
       (case sx_positions s of
          None \<Rightarrow> base \<lparr>pr_errors := [parse_error_at 1 None
            (''Could not find '' @ [CHR 0x27] @ ''Positions'' @ [CHR 0x27] @ '' section in the report history. Please ensure this is a standard MT5 Trade History Report.'')]\<rparr>
        | Some p \<Rightarrow>
          let (trades, errors, suffix) = parse_positions ie zone p rows;
              (start, days) = (case sx_deals s of None \<Rightarrow> (pm_starting_balance m, []) | Some t \<Rightarrow> parse_deals env ie zone t rows (pm_starting_balance m)) in
          base \<lparr>pr_trades := trades, pr_errors := errors, pr_parsed_trade_count := length trades, pr_daily_balances := days,
            pr_account_meta := m \<lparr>pm_starting_balance := Some (case start of Some x \<Rightarrow> x | None \<Rightarrow> (case pm_current_balance m of Some x \<Rightarrow> x | None \<Rightarrow> 0))\<rparr>,
            pr_warnings := (if suffix then [''Symbol suffixes stripped (e.g., AUDUSD.x -> AUDUSD) for compatibility.''] else [])\<rparr>))"

section \<open>Preview\<close>

record preview =
  pv_trades :: "parsed_trade list"
  pv_trade_count :: nat
  pv_date_range :: "(int \<times> int) option"
  pv_total_profit :: rat
  pv_symbols :: "string list"

definition platform_parser :: "string \<Rightarrow> unit result" where
  "platform_parser platform = (if py_lower platform = ''mt5'' then Inr () else value_error (''Unsupported trading platform: '' @ platform))"

definition utc_day :: "int \<Rightarrow> int" where
  "utc_day t = t div seconds 86400"

definition preview_import :: "acc_env \<Rightarrow> import_env \<Rightarrow> string \<Rightarrow> (string + row list) \<Rightarrow> preview result" where
  "preview_import env ie platform loaded = map_Inr (\<lambda>_.
     let ts = pr_trades (parse_report env ie ''Europe/Riga'' loaded); by_close = sorted_by pt_closed_at ts in
     \<lparr>pv_trades = take 50 ts, pv_trade_count = length ts,
      pv_date_range = (if ts = [] then None else Some (utc_day (pt_closed_at (hd by_close)), utc_day (pt_closed_at (last by_close)))),
      pv_total_profit = sum_list (map (\<lambda>t. pt_profit t + pt_commission t + pt_swap t) ts),
      pv_symbols = remdups (map pt_symbol ts)\<rparr>) (platform_parser platform)"

section \<open>Storing an import\<close>

definition csv_meta_id :: "string \<Rightarrow> string \<Rightarrow> string" where
  "csv_meta_id server number = ''csv:MT5:'' @ server @ '':'' @ number"

definition account_type_of :: "string option \<Rightarrow> account_type" where
  "account_type_of s = (if s = Some ''demo'' then Account_demo else Account_live)"

definition csv_ready :: "trading_account \<Rightarrow> trading_account" where
  "csv_ready a = a \<lparr>ta_status := Acc_synced, ta_connection_state := Link_ready, ta_is_data_ready_for_stats := True\<rparr>"

definition create_csv_account :: "uuid \<Rightarrow> int \<Rightarrow> uuid \<Rightarrow> string \<Rightarrow> string \<Rightarrow> string \<Rightarrow> string \<Rightarrow> string \<Rightarrow> string option \<Rightarrow> account_type \<Rightarrow> accounts_db \<Rightarrow>
    (trading_account \<times> accounts_db) result" where
  "create_csv_account k now u number broker server currency zone name type d = (
     case get_account_by_user_and_meta_id d u (csv_meta_id server number) of
       Some a \<Rightarrow> (let b = csv_ready (a \<lparr>ta_is_archived := False, ta_display_name := (case name of None \<Rightarrow> ta_display_name a | Some n \<Rightarrow> if n = [] then ta_display_name a else Some n),
           ta_broker_name := broker, ta_broker_server := server, ta_account_type := type, ta_platform := Platform_mt5,
           ta_currency := currency, ta_timezone := zone\<rparr>) in Inr (b, put_account b d))
     | None \<Rightarrow> (let b = \<lparr>ta_id = k, ta_user_id = u, ta_meta_account_id = csv_meta_id server number, ta_broker_name = broker, ta_broker_login = number,
           ta_broker_server = server, ta_encrypted_investor_password = ''csv_import_no_password'', ta_encrypted_trader_password = None,
           ta_account_type = type, ta_platform = Platform_mt5, ta_currency = currency, ta_timezone = zone, ta_broker_utc_offset = 0,
           ta_display_name = name, ta_status = Acc_synced, ta_last_synced_at = None, ta_sync_error_message = None,
           ta_import_method = Import_csv_upload, ta_connection_state = Link_ready, ta_is_data_ready_for_stats = True,
           ta_last_bootstrap_synced_at = None, ta_bootstrap_error_message = None, ta_last_sync_attempted_at = None,
           ta_next_sync_not_before = None, ta_last_sync_outcome = None, ta_consecutive_sync_failures = 0, ta_is_archived = False,
           ta_created_at = now\<rparr> in map_Inr (\<lambda>d1. (b, d1)) (add_account b d)))"

definition import_account :: "uuid \<Rightarrow> int \<Rightarrow> uuid \<Rightarrow> string \<Rightarrow> string \<Rightarrow> uuid option \<Rightarrow> parsed_meta \<Rightarrow> accounts_db \<Rightarrow> (trading_account \<times> accounts_db) result" where
  "import_account k now u zone name target m d = (case target of
       Some i \<Rightarrow> bind_Inr (get_account d u i) (\<lambda>a.
         if ta_import_method a \<noteq> Import_csv_upload
         then http_raise 400 ''This account was connected via API. You cannot import CSV files directly into it.''
         else let b = (if py_strip name = [] then a else a \<lparr>ta_display_name := Some (py_strip name)\<rparr>) in Inr (b, put_account b d))
     | None \<Rightarrow> create_csv_account k now u (or_string (pm_account_number m) ''Imported'') (or_string (pm_broker_name m) ''MetaTrader 5'')
         (or_string (pm_broker_server m) ''CSVServer'') (or_string (pm_currency m) ''USD'') zone
         (if name = [] then None else Some (py_strip name)) (account_type_of (pm_account_type m)) d)"

text \<open>\<^verbatim>\<open>upsert_closed_trade\<close> leaves a trade that is stored alone.\<close>

definition upsert_closed_trade :: "trade \<Rightarrow> accounts_db \<Rightarrow> (bool \<times> accounts_db) result" where
  "upsert_closed_trade r d = (if list_ex (\<lambda>t. same_trade t r) (kd_trades d) then Inr (False, d)
     else if list_ex (\<lambda>t. tr_id t = tr_id r) (kd_trades d) then Inl (Exn ''IntegrityError'' ''trades_pkey'')
     else Inr (True, d \<lparr>kd_trades := kd_trades d @ [r]\<rparr>))"

definition imported_trade :: "uuid \<Rightarrow> int \<Rightarrow> trading_account \<Rightarrow> parsed_trade \<Rightarrow> trade" where
  "imported_trade k now a t = stored_trade k now (ta_id a) (pt_broker_trade_id t) (pt_symbol t) (pt_direction t)
     (pt_open_price t, pt_close_price t, pt_volume t) (pt_profit t, pt_commission t, pt_swap t) (pt_opened_at t, pt_closed_at t)
     (no_enrichment \<lparr>en_sl := pt_sl t, en_tp := pt_tp t, en_position_id := Some (pt_broker_trade_id t)\<rparr>)"

definition zone_date :: "acc_env \<Rightarrow> string \<Rightarrow> int \<Rightarrow> int result" where
  "zone_date env zone t = (if ve_zone_known env zone then Inr (to_account_local_date env t zone) else Inl (Exn ''ZoneInfoNotFoundError'' zone))"

fun import_trades :: "acc_env \<Rightarrow> (nat \<Rightarrow> uuid) \<Rightarrow> int \<Rightarrow> trading_account \<Rightarrow> (nat \<times> parsed_trade) list \<Rightarrow> accounts_db \<Rightarrow> (int list \<times> accounts_db) result" where
  "import_trades env draw now a [] d = Inr ([], d)"
| "import_trades env draw now a ((i, t) # ts) d = bind_Inr (upsert_closed_trade (imported_trade (draw i) now a t) d) (\<lambda>(inserted, d1).
     bind_Inr (if inserted then map_Inr (\<lambda>x. [x]) (zone_date env (ta_timezone a) (pt_closed_at t)) else Inr []) (\<lambda>day.
       map_Inr (\<lambda>(days, d2). (day @ days, d2)) (import_trades env draw now a ts d1)))"

definition balance_snapshot :: "uuid \<Rightarrow> int \<Rightarrow> rat \<Rightarrow> accounts_db \<Rightarrow> accounts_db" where
  "balance_snapshot k day balance = upsert_account_snapshot_for_date k day (numeric 2 balance) (numeric 2 balance) 0"

text \<open>\<^verbatim>\<open>min(trades, key=closed_at)\<close>.\<close>

definition earliest_close :: "parsed_trade list \<Rightarrow> int option" where
  "earliest_close ts = (case map pt_closed_at ts of [] \<Rightarrow> None | t # rest \<Rightarrow> Some (fold min rest t))"

definition import_snapshots :: "acc_env \<Rightarrow> int \<Rightarrow> trading_account \<Rightarrow> parse_result \<Rightarrow> accounts_db \<Rightarrow> accounts_db result" where
  "import_snapshots env now a p d = (
     let d1 = fold (\<lambda>(day, b). balance_snapshot (ta_id a) day b) (pr_daily_balances p) d; m = pr_account_meta p in
     bind_Inr (case pm_starting_balance m of None \<Rightarrow> Inr d1 | Some b \<Rightarrow>
       map_Inr (\<lambda>day. balance_snapshot (ta_id a) (day - 1) b d1)
         (zone_date env (ta_timezone a) (case earliest_close (pr_trades p) of None \<Rightarrow> now | Some t \<Rightarrow> t))) (\<lambda>d2.
     case pm_current_balance m of None \<Rightarrow> Inr d2 | Some b \<Rightarrow>
       map_Inr (\<lambda>day. balance_snapshot (ta_id a) day b d2) (zone_date env (ta_timezone a) now)))"

record import_result =
  ir_account :: trading_account
  ir_inserted :: nat
  ir_skipped :: nat
  ir_touched_dates :: nat

record import_rq =
  iq_now :: int
  iq_account :: uuid
  iq_draw :: "nat \<Rightarrow> uuid"
  iq_user :: uuid

definition confirm_import :: "acc_env \<Rightarrow> import_env \<Rightarrow> import_rq \<Rightarrow> string \<Rightarrow> string \<Rightarrow> string \<Rightarrow> uuid option \<Rightarrow> (string + row list) \<Rightarrow> accounts_db \<Rightarrow>
    (import_result \<times> accounts_db) result" where
  "confirm_import env ie q platform zone name target loaded d =
     bind_Inr (platform_parser platform) (\<lambda>_.
     let p = parse_report env ie ''Europe/Riga'' loaded in
     case filter (\<lambda>e. pe_severity e = ''error'') (pr_errors p) of
       e # _ \<Rightarrow> http_raise 400 (''Cannot import file due to parsing errors: '' @ pe_message e)
     | [] \<Rightarrow>
       bind_Inr (import_account (iq_account q) (iq_now q) (iq_user q) zone name target (pr_account_meta p) d) (\<lambda>(a, d1).
       bind_Inr (import_trades env (iq_draw q) (iq_now q) a (enumerate 0 (pr_trades p)) d1) (\<lambda>(days, d2).
       bind_Inr (import_snapshots env (iq_now q) a p d2) (\<lambda>d3.
         let b = (csv_ready a) \<lparr>ta_last_synced_at := Some (iq_now q)\<rparr> in
         Inr (\<lparr>ir_account = b, ir_inserted = length days, ir_skipped = length (pr_trades p) - length days,
             ir_touched_dates = length (remdups days)\<rparr>, put_account b d3)))))"

text \<open>The endpoint: the name of the file and the text of the account.\<close>

definition target_of :: "string option \<Rightarrow> uuid option result" where
  "target_of v = (case v of None \<Rightarrow> Inr None | Some s \<Rightarrow>
     if py_strip s = [] \<or> s \<in> {''null'', ''undefined''} then Inr None
     else (case parse_uuid (py_strip s) of Inl _ \<Rightarrow> http_raise 400 ''Invalid account_id format.'' | Inr k \<Rightarrow> Inr (Some k)))"

definition confirm_csv_import :: "acc_env \<Rightarrow> import_env \<Rightarrow> import_rq \<Rightarrow> string \<Rightarrow> string \<Rightarrow> string \<Rightarrow> string \<Rightarrow> string option \<Rightarrow> (string + row list) \<Rightarrow> accounts_db \<Rightarrow>
    (import_result \<times> accounts_db) result" where
  "confirm_csv_import env ie q file platform zone name target loaded d = (
     if \<not> suffix ''.xlsx'' file then http_raise 400 ''Unsupported file format. Please upload a valid MetaTrader 5 report file (.xlsx).''
     else bind_Inr (target_of target) (\<lambda>t. confirm_import env ie q platform zone name t loaded d))"

end
