(* ===== verification/Account_Steps.thy ===== *)
theory Account_Steps
  imports Account_Import
begin

text \<open>
  The requests, dispatches and tasks on the accounts of the journal as one datatype, what each does to the
  database and the queue, the small updates every one of them is made of, and the invariant these keep.
\<close>

section \<open>Calls\<close>

record acc_world =
  aw_db :: accounts_db
  aw_queue :: "account_task list"

record account_rq =
  kq_now :: int
  kq_user :: uuid
  kq_id :: uuid
  kq_draw :: "nat \<Rightarrow> uuid"
  kq_sync_locked :: bool
  kq_bootstrap_locked :: bool
  kq_verification :: "mt5_failure + deal"
  kq_history :: "mt5_failure + history"
  kq_broken :: "uuid \<Rightarrow> string option"

datatype account_call =
    Connect_account connect_request
  | Disconnect_account uuid
  | Unarchive_account uuid
  | Purge_account uuid
  | Rename_account uuid string
  | Trader_access uuid string
  | Request_sync uuid
  | Import_report string string string string "string option" "string + row list"
  | Dispatch_pending
  | Run_task nat

definition task_rq_of :: "account_rq \<Rightarrow> task_rq" where
  "task_rq_of q = \<lparr>tq_now = kq_now q, tq_draw = kq_draw q, tq_verification = kq_verification q, tq_history = kq_history q,
     tq_bootstrap_locked = kq_bootstrap_locked q, tq_sync_locked = kq_sync_locked q\<rparr>"

definition import_rq_of :: "account_rq \<Rightarrow> import_rq" where
  "import_rq_of q = \<lparr>iq_now = kq_now q, iq_account = kq_id q, iq_draw = kq_draw q, iq_user = kq_user q\<rparr>"

definition or_same :: "acc_world \<Rightarrow> accounts_db result \<Rightarrow> acc_world" where
  "or_same w r = (case r of Inl _ \<Rightarrow> w | Inr d \<Rightarrow> w \<lparr>aw_db := d\<rparr>)"

definition run_task :: "acc_env \<Rightarrow> import_env \<Rightarrow> account_rq \<Rightarrow> account_task \<Rightarrow> accounts_db \<Rightarrow> account_task list \<times> accounts_db" where
  "run_task env ie q t d = (case t of
       Bootstrap_task k n \<Rightarrow> (case bootstrap_account env (vi_prints ie) (task_rq_of q) n (str_uuid k) d of
           (Task_retry, d1) \<Rightarrow> ([Bootstrap_task k (n + 1)], d1) | (_, d1) \<Rightarrow> ([], d1))
     | Sync_task k \<Rightarrow> ([], snd (sync_account env (vi_prints ie) (task_rq_of q) (str_uuid k) d)))"

definition account_run :: "acc_env \<Rightarrow> import_env \<Rightarrow> account_rq \<Rightarrow> account_call \<Rightarrow> acc_world \<Rightarrow> acc_world" where
  "account_run env ie q c w = (let d = aw_db w; u = kq_user q in case c of
       Connect_account p \<Rightarrow> (case connect_account env (kq_id q) (kq_now q) u p d of Inl _ \<Rightarrow> w
         | Inr (a, d1) \<Rightarrow> (let (ts, d2) = dispatch_bootstrap_account (kq_now q) (kq_broken q (ta_id a)) (ta_id a) d1 in
             \<lparr>aw_db = d2, aw_queue = aw_queue w @ ts\<rparr>))
     | Disconnect_account k \<Rightarrow> or_same w (disconnect_account u k d)
     | Unarchive_account k \<Rightarrow> or_same w (map_Inr snd (unarchive_account u k d))
     | Purge_account k \<Rightarrow> or_same w (delete_trading_account u k d)
     | Rename_account k n \<Rightarrow> or_same w (map_Inr snd (update_account u k n d))
     | Trader_access k s \<Rightarrow> or_same w (map_Inr snd (enable_trader_access env (vi_prints ie) (kq_verification q) u k s d))
     | Request_sync k \<Rightarrow> (case manual_sync env (kq_sync_locked q) (kq_now q) u k d of
         Inr (Sync_queued, d1) \<Rightarrow> \<lparr>aw_db = d1, aw_queue = aw_queue w @ [Sync_task k]\<rparr> | _ \<Rightarrow> w)
     | Import_report f p z n t l \<Rightarrow> or_same w (map_Inr snd (confirm_csv_import env ie (import_rq_of q) f p z n t l d))
     | Dispatch_pending \<Rightarrow> (let (ts, d1) = dispatch_pending_bootstraps (kq_now q) (kq_broken q) d in \<lparr>aw_db = d1, aw_queue = aw_queue w @ ts\<rparr>)
     | Run_task i \<Rightarrow> if i < length (aw_queue w)
         then (let (ts, d1) = run_task env ie q (aw_queue w ! i) d in
           \<lparr>aw_db = d1, aw_queue = take i (aw_queue w) @ drop (Suc i) (aw_queue w) @ ts\<rparr>)
         else w)"

definition account_step :: "acc_env \<Rightarrow> import_env \<Rightarrow> acc_world \<Rightarrow> acc_world \<Rightarrow> bool" where
  "account_step env ie w w' \<longleftrightarrow> (\<exists>q c. w' = account_run env ie q c w)"

section \<open>The invariant\<close>

definition trade_key :: "trade \<Rightarrow> uuid \<times> string" where
  "trade_key t = (tr_account_id t, tr_broker_trade_id t)"

text \<open>The identifier at the broker tells how the trades of an account come in.\<close>

definition meta_ok :: "import_method \<Rightarrow> string \<Rightarrow> bool" where
  "meta_ok m meta \<longleftrightarrow> length meta \<le> 64 \<and> (case m of Import_auto_sync \<Rightarrow> prefix ''MT5:'' meta
     | Import_csv_upload \<Rightarrow> prefix ''csv:'' meta | Import_manual \<Rightarrow> False)"

definition account_ok :: "trading_account \<Rightarrow> bool" where
  "account_ok a \<longleftrightarrow> (ta_is_data_ready_for_stats a \<longleftrightarrow> ta_connection_state a = Link_ready)
     \<and> 0 \<le> ta_consecutive_sync_failures a \<and> meta_ok (ta_import_method a) (ta_meta_account_id a)"

definition account_rows_ok :: "trading_account list \<Rightarrow> bool" where
  "account_rows_ok as \<longleftrightarrow> distinct (map ta_id as) \<and> distinct (map (\<lambda>a. (ta_user_id a, ta_meta_account_id a)) as) \<and> list_all account_ok as"

definition account_ids :: "accounts_db \<Rightarrow> uuid set" where
  "account_ids d = ta_id ` set (kd_accounts d)"

text \<open>What the columns of a trade hold: decimals of so many places and a duration that is not negative.\<close>

definition scaled :: "nat \<Rightarrow> rat \<Rightarrow> bool" where
  "scaled k x \<longleftrightarrow> of_int \<lfloor>x * 10 ^ k\<rfloor> = x * 10 ^ k"

definition trade_typed :: "trade \<Rightarrow> bool" where
  "trade_typed t \<longleftrightarrow> list_all (scaled 5) [tr_open_price t, tr_close_price t]
     \<and> list_all (scaled 2) [tr_volume t, tr_profit t, tr_commission t, tr_swap t, tr_net_profit t]
     \<and> list_all (pred_option (scaled 5)) [tr_sl t, tr_tp t, tr_mfe t, tr_mae t] \<and> 0 \<le> tr_duration_seconds t"

definition trade_fits :: "uuid set \<Rightarrow> trade \<Rightarrow> bool" where
  "trade_fits ids t \<longleftrightarrow> tr_account_id t \<in> ids \<and> trade_typed t"

definition trades_ok :: "uuid set \<Rightarrow> trade list \<Rightarrow> bool" where
  "trades_ok ids ts \<longleftrightarrow> distinct (map tr_id ts) \<and> distinct (map trade_key ts) \<and> list_all (trade_fits ids) ts"

definition snapshots_ok :: "uuid set \<Rightarrow> account_snapshot list \<Rightarrow> bool" where
  "snapshots_ok ids ss \<longleftrightarrow> distinct (map (\<lambda>s. (sn_account_id s, sn_date s)) ss) \<and> list_all (\<lambda>s. sn_account_id s \<in> ids) ss"

definition dispatches_ok :: "uuid set \<Rightarrow> bootstrap_dispatch list \<Rightarrow> bool" where
  "dispatches_ok ids js \<longleftrightarrow> distinct (map jd_account_id js) \<and> list_all (\<lambda>j. jd_account_id j \<in> ids) js"

definition acc_ok :: "accounts_db \<Rightarrow> bool" where
  "acc_ok d \<longleftrightarrow> account_rows_ok (kd_accounts d) \<and> trades_ok (account_ids d) (kd_trades d)
     \<and> snapshots_ok (account_ids d) (kd_snapshots d) \<and> dispatches_ok (account_ids d) (kd_dispatches d)"

section \<open>Small updates\<close>

text \<open>A change of an account that keeps its identity, and one that does not make its data ready.\<close>

definition kept :: "trading_account \<Rightarrow> trading_account \<Rightarrow> bool" where
  "kept a b \<longleftrightarrow> ta_id b = ta_id a \<and> ta_user_id b = ta_user_id a \<and> ta_meta_account_id b = ta_meta_account_id a \<and> ta_import_method b = ta_import_method a"

definition not_readying :: "trading_account \<Rightarrow> trading_account \<Rightarrow> bool" where
  "not_readying a b \<longleftrightarrow> ta_import_method a = Import_csv_upload \<or> (ta_is_data_ready_for_stats b \<longrightarrow> ta_is_data_ready_for_stats a)"

text \<open>\<open>K\<close> holds the accounts whose first import may be scheduled and run, \<open>k\<close> is the identifier a new account is given.\<close>

inductive acc_update :: "uuid \<Rightarrow> uuid set \<Rightarrow> accounts_db \<Rightarrow> accounts_db \<Rightarrow> bool" for k K where
  change: "a \<in> set (kd_accounts d) \<Longrightarrow> kept a b \<Longrightarrow> account_ok b \<Longrightarrow> ta_id a \<in> K \<or> not_readying a b \<Longrightarrow> acc_update k K d (put_account b d)"
| enter: "ta_id b = k \<Longrightarrow> account_ok b \<Longrightarrow> add_account b d = Inr d' \<Longrightarrow> acc_update k K d d'"
| leave: "acc_update k K d (hard_delete_account i d)"
| trades: "trades_ok (account_ids d) ts \<Longrightarrow> acc_update k K d (d \<lparr>kd_trades := ts\<rparr>)"
| snapshot: "i \<in> account_ids d \<Longrightarrow> acc_update k K d (upsert_account_snapshot_for_date i day x y z d)"
| schedule: "i \<in> account_ids d \<Longrightarrow> i \<in> K \<Longrightarrow> acc_update k K d (schedule_bootstrap_dispatch now i d)"
| dispatch: "j \<in> set (kd_dispatches d) \<Longrightarrow> jd_dispatched_at j = None \<Longrightarrow> jd_account_id i = jd_account_id j \<Longrightarrow> acc_update k K d (put_dispatch i d)"

abbreviation acc_updates :: "uuid \<Rightarrow> uuid set \<Rightarrow> accounts_db \<Rightarrow> accounts_db \<Rightarrow> bool" where
  "acc_updates k K \<equiv> (acc_update k K)\<^sup>*\<^sup>*"

interpretation trading_accounts: keyed_table ta_id kd_accounts kd_accounts_update "\<lambda>d k. row_get ta_id k (kd_accounts d)" put_account
  by unfold_locales (simp_all add: put_account_def)

interpretation bootstrap_dispatches: keyed_table jd_account_id kd_dispatches kd_dispatches_update "\<lambda>d k. row_get jd_account_id k (kd_dispatches d)" put_dispatch
  by unfold_locales (simp_all add: put_dispatch_def)

lemma put_account_frame [simp]:
  "kd_trades (put_account b d) = kd_trades d" "kd_snapshots (put_account b d) = kd_snapshots d"
  "kd_dispatches (put_account b d) = kd_dispatches d" "kd_servers (put_account b d) = kd_servers d"
  by (simp_all add: put_account_def)

lemma put_dispatch_frame [simp]:
  "kd_accounts (put_dispatch j d) = kd_accounts d" "kd_trades (put_dispatch j d) = kd_trades d" "kd_snapshots (put_dispatch j d) = kd_snapshots d"
  by (simp_all add: put_dispatch_def)

lemma account_ids_put [simp]: "account_ids (put_account b d) = account_ids d"
  using arg_cong [OF trading_accounts.keys_put [of b d], of set] by (simp add: account_ids_def)

lemma account_rows_ok_put:
  assumes "account_rows_ok as" "a \<in> set as" "kept a b" "account_ok b"
  shows "account_rows_ok (row_put ta_id b as)"
proof -
  have same: "map (\<lambda>a. (ta_user_id a, ta_meta_account_id a)) (row_put ta_id b as) = map (\<lambda>a. (ta_user_id a, ta_meta_account_id a)) as"
  proof -
    have "x = a" if "x \<in> set as" "ta_id x = ta_id b" for x
      using assms that by (auto simp: account_rows_ok_def kept_def distinct_map inj_on_def)
    then show ?thesis using assms(3) by (auto simp: row_put_def kept_def)
  qed
  have ids: "map ta_id (row_put ta_id b as) = map ta_id as" by (simp add: row_put_def)
  have "list_all account_ok (row_put ta_id b as)" using assms(1,4) by (auto simp: account_rows_ok_def list_all_iff row_put_def)
  then show ?thesis using assms(1) unfolding account_rows_ok_def same ids by simp
qed

lemma list_all_mono_set: "list_all P xs \<Longrightarrow> (\<And>x. P x \<Longrightarrow> Q x) \<Longrightarrow> list_all Q xs"
  by (auto simp: list_all_iff)

lemma acc_ok_delete: "acc_ok d \<Longrightarrow> acc_ok (hard_delete_account i d)"
  unfolding acc_ok_def account_rows_ok_def trades_ok_def snapshots_ok_def dispatches_ok_def account_ids_def hard_delete_account_def trade_fits_def
  by (auto simp: distinct_map_filter list_all_iff image_iff)

lemma acc_ok_snapshot: "acc_ok d \<Longrightarrow> i \<in> account_ids d \<Longrightarrow> acc_ok (upsert_account_snapshot_for_date i day x y z d)"
proof -
  assume ok: "acc_ok d" and i: "i \<in> account_ids d"
  let ?s = "\<lparr>sn_account_id = i, sn_balance = x, sn_equity = y, sn_floating_pnl = z, sn_date = day\<rparr>"
  have same: "map (\<lambda>s. (sn_account_id s, sn_date s)) (map (\<lambda>s. if sn_account_id s = i \<and> sn_date s = day then ?s else s) ss)
      = map (\<lambda>s. (sn_account_id s, sn_date s)) ss" for ss by auto
  have "snapshots_ok (account_ids d) (map (\<lambda>s. if sn_account_id s = i \<and> sn_date s = day then ?s else s) (kd_snapshots d))"
    using ok i unfolding snapshots_ok_def acc_ok_def same by (auto simp: list_all_iff)
  moreover have "snapshots_ok (account_ids d) (kd_snapshots d @ [?s])" if "\<not> list_ex (\<lambda>s. sn_account_id s = i \<and> sn_date s = day) (kd_snapshots d)"
    using ok i that by (auto simp: snapshots_ok_def acc_ok_def list_ex_iff)
  ultimately show ?thesis
    using ok by (auto simp: upsert_account_snapshot_for_date_def Let_def acc_ok_def account_ids_def)
qed

lemma acc_ok_schedule: "acc_ok d \<Longrightarrow> i \<in> account_ids d \<Longrightarrow> acc_ok (schedule_bootstrap_dispatch now i d)"
proof -
  assume ok: "acc_ok d" and i: "i \<in> account_ids d"
  let ?f = "\<lambda>j. if jd_account_id j = i then j \<lparr>jd_available_at := now, jd_dispatched_at := None, jd_last_error := None\<rparr> else j"
  let ?j = "\<lparr>jd_account_id = i, jd_attempt_count = 0, jd_available_at = now, jd_dispatched_at = None, jd_last_error = None\<rparr>"
  have same: "map jd_account_id (map ?f js) = map jd_account_id js" for js by auto
  have "dispatches_ok (account_ids d) (map ?f (kd_dispatches d))"
    using ok unfolding dispatches_ok_def acc_ok_def same by (auto simp: list_all_iff)
  moreover have "dispatches_ok (account_ids d) (kd_dispatches d @ [?j])" if "\<not> list_ex (\<lambda>j. jd_account_id j = i) (kd_dispatches d)"
    using ok i that by (auto simp: dispatches_ok_def acc_ok_def list_ex_iff)
  ultimately show ?thesis using ok by (auto simp: schedule_bootstrap_dispatch_def Let_def acc_ok_def account_ids_def)
qed

lemma acc_ok_enter:
  assumes ok: "acc_ok d" and b: "account_ok b" "add_account b d = Inr d'"
  shows "acc_ok d'"
proof -
  have d': "d' = d \<lparr>kd_accounts := kd_accounts d @ [b]\<rparr>" and n: "\<not> list_ex (\<lambda>x. ta_id x = ta_id b \<or> (ta_user_id x = ta_user_id b \<and> ta_meta_account_id x = ta_meta_account_id b)) (kd_accounts d)"
    using b(2) by (auto simp: add_account_def split: sum.splits if_splits)
  have "ta_id b \<notin> ta_id ` set (kd_accounts d)" "(ta_user_id b, ta_meta_account_id b) \<notin> (\<lambda>a. (ta_user_id a, ta_meta_account_id a)) ` set (kd_accounts d)"
    using n unfolding list_ex_iff by (auto simp: eq_commute)
  then have "account_rows_ok (kd_accounts d @ [b])" using ok b(1) by (simp add: account_rows_ok_def acc_ok_def)
  moreover have "trades_ok (account_ids d') (kd_trades d)" "snapshots_ok (account_ids d') (kd_snapshots d)" "dispatches_ok (account_ids d') (kd_dispatches d)"
    using ok by (auto simp: acc_ok_def trades_ok_def snapshots_ok_def dispatches_ok_def account_ids_def trade_fits_def d' list_all_iff)
  ultimately show ?thesis by (simp add: acc_ok_def d')
qed

lemma acc_update_ok: "acc_update k K d d' \<Longrightarrow> acc_ok d \<Longrightarrow> acc_ok d'"
proof (induction rule: acc_update.induct)
  case (change a d b)
  then have "account_rows_ok (kd_accounts (put_account b d))" by (simp add: trading_accounts.rows_put account_rows_ok_put acc_ok_def)
  then show ?case using change by (simp add: acc_ok_def)
next
  case (enter b d d')
  then show ?case by (blast intro: acc_ok_enter)
next
  case (dispatch j d i)
  have "map jd_account_id (kd_dispatches (put_dispatch i d)) = map jd_account_id (kd_dispatches d)" by (rule bootstrap_dispatches.keys_put)
  moreover have "list_all (\<lambda>x. jd_account_id x \<in> account_ids d) (kd_dispatches (put_dispatch i d))"
    using dispatch by (auto simp: acc_ok_def dispatches_ok_def list_all_iff dest!: bootstrap_dispatches.in_put)
  ultimately show ?case using dispatch by (simp add: acc_ok_def dispatches_ok_def account_ids_def)
next
  case (trades d ts)
  then show ?case by (simp add: acc_ok_def account_ids_def)
qed (simp_all add: acc_ok_delete acc_ok_snapshot acc_ok_schedule)

lemma acc_updates_ok: "acc_updates k K d d' \<Longrightarrow> acc_ok d \<Longrightarrow> acc_ok d'"
  by (induction rule: rtranclp_induct) (auto intro: acc_update_ok)

end
