(* ===== verification/Account_Invariant.thy ===== *)
theory Account_Invariant
  imports Account_Steps
begin

text \<open>
  Every request, dispatch and task on the accounts of the journal is a sequence of small updates, so that the
  invariant of the accounts, their trades, snapshots and dispatches holds in every reachable state.
\<close>

section \<open>Storing trades keeps their keys unique\<close>

lemma same_trade_key: "same_trade t r \<longleftrightarrow> trade_key t = trade_key r"
  by (auto simp: same_trade_def trade_key_def)

lemma list_ex_same: "list_ex (\<lambda>t. same_trade t r) ts \<longleftrightarrow> trade_key r \<in> trade_key ` set ts"
  by (metis list_ex_iff same_trade_key image_iff)

lemma overwrite_simps [simp]: "tr_id (overwrite r t) = tr_id t" "trade_key (overwrite r t) = trade_key r"
  by (simp_all add: overwrite_def trade_key_def)

definition new_rows :: "trade list \<Rightarrow> trade list \<Rightarrow> trade list" where
  "new_rows rows ts = filter (\<lambda>r. trade_key r \<notin> trade_key ` set ts) rows"

lemma map_upsert_old:
  assumes "\<And>r t. trade_key t = trade_key r \<Longrightarrow> f (overwrite r t) = f t" "trade_key r \<in> trade_key ` set ts"
  shows "map f (upsert_trade r ts) = map f ts"
proof -
  have "list_ex (\<lambda>t. same_trade t r) ts" using assms(2) by (simp add: list_ex_same)
  then show ?thesis using assms(1) by (simp add: upsert_trade_def same_trade_key)
qed

lemma upsert_trade_map: "upsert_trade r ts = map (\<lambda>t. if trade_key t = trade_key r then overwrite r t else t) ts @ new_rows [r] ts"
proof (cases "trade_key r \<in> trade_key ` set ts")
  case False
  then have "trade_key t \<noteq> trade_key r" if "t \<in> set ts" for t using that by (metis image_eqI)
  then have "map (\<lambda>t. if trade_key t = trade_key r then overwrite r t else t) ts = ts" by (intro map_idI) simp
  then show ?thesis using False by (simp add: upsert_trade_def list_ex_same new_rows_def)
qed (simp add: upsert_trade_def list_ex_same same_trade_key new_rows_def del: list_ex_iff flip: list_ex_same)

text \<open>A property of trades that storing a row keeps holds after storing all of them.\<close>

lemma fold_upsert_all:
  assumes "\<And>r. r \<in> set rows \<Longrightarrow> P r" "\<And>r t. r \<in> set rows \<Longrightarrow> trade_key t = trade_key r \<Longrightarrow> P (overwrite r t)"
  shows "list_all P ts \<Longrightarrow> list_all P (fold upsert_trade rows ts)"
  using assms
proof (induction rows arbitrary: ts)
  case (Cons r rows)
  have "list_all P (upsert_trade r ts)" using Cons.prems by (auto simp: upsert_trade_map new_rows_def list_all_iff)
  then show ?case using Cons by simp
qed simp

lemma fold_upsert_map:
  assumes f: "\<And>r t. trade_key t = trade_key r \<Longrightarrow> f (overwrite r t) = f t"
  shows "distinct (map trade_key rows) \<Longrightarrow> map f (fold upsert_trade rows ts) = map f (ts @ new_rows rows ts)"
proof (induction rows arbitrary: ts)
  case (Cons r rows)
  show ?case
  proof (cases "trade_key r \<in> trade_key ` set ts")
    case True
    have "map trade_key (upsert_trade r ts) = map trade_key ts" by (rule map_upsert_old [OF _ True]) simp
    then have "trade_key ` set (upsert_trade r ts) = trade_key ` set ts" by (metis image_set)
    then have "new_rows rows (upsert_trade r ts) = new_rows (r # rows) ts" using True by (simp add: new_rows_def)
    moreover have "map f (upsert_trade r ts) = map f ts" by (rule map_upsert_old [OF f True])
    ultimately show ?thesis using Cons by simp
  next
    case False
    then have u: "upsert_trade r ts = ts @ [r]" by (simp add: upsert_trade_def list_ex_same)
    have "new_rows rows (ts @ [r]) = new_rows rows ts"
      unfolding new_rows_def using Cons.prems by (intro filter_cong) (simp_all add: image_iff, metis)
    then show ?thesis using Cons False by (simp add: u new_rows_def)
  qed
qed (simp add: new_rows_def)

lemmas fold_upsert_keys = fold_upsert_map [of trade_key, simplified]
lemmas fold_upsert_ids = fold_upsert_map [of tr_id, simplified]

lemma upsert_statement_Inr:
  assumes "upsert_statement rows ts = Inr (i, u, ts')"
  shows "distinct (map trade_key rows) \<and> i = length (new_rows rows ts) \<and> u = length rows - i \<and> ts' = fold upsert_trade rows ts
    \<and> distinct (map tr_id (ts @ new_rows rows ts))"
  using assms by (auto simp: upsert_statement_def Let_def new_rows_def list_ex_same trade_key_def [abs_def] split: if_splits)

lemma distinct_new_rows: "distinct (map trade_key rows) \<Longrightarrow> distinct (map trade_key ts) \<Longrightarrow> distinct (map trade_key (ts @ new_rows rows ts))"
  by (auto simp: new_rows_def distinct_map_filter)

lemma scaled_numeric: "scaled k (numeric k x)"
proof -
  have "numeric k x * 10 ^ k = of_int ((if x < 0 then - 1 else 1) * \<lfloor>\<bar>x\<bar> * 10 ^ k + 1 / 2\<rfloor>)" by (simp add: numeric_def Let_def)
  then show ?thesis by (simp only: scaled_def floor_of_int)
qed

lemma scaled_option: "pred_option (scaled k) (map_option (numeric k) v)"
  by (cases v) (simp_all add: scaled_numeric)

lemma stored_trade_typed [simp]: "trade_typed (stored_trade k now a b c e f g h i)"
  by (cases f; cases g; cases h) (simp add: stored_trade_def trade_typed_def scaled_numeric scaled_option)

lemma coalesce_pred: "pred_option P v \<Longrightarrow> pred_option P w \<Longrightarrow> pred_option P (coalesce v w)"
  by (cases v) (simp_all add: coalesce_def)

lemma overwrite_typed: "trade_typed r \<Longrightarrow> trade_typed t \<Longrightarrow> trade_typed (overwrite r t)"
  by (simp add: trade_typed_def overwrite_def coalesce_pred)

lemma fold_upsert_fits:
  assumes "list_all (trade_fits ids) rows" "list_all (trade_fits ids) ts"
  shows "list_all (trade_fits ids) (fold upsert_trade rows ts)"
  using assms
proof (induction rows arbitrary: ts)
  case (Cons r rows)
  have "list_all (trade_fits ids) (upsert_trade r ts)"
    using Cons.prems by (auto simp: upsert_trade_map new_rows_def list_all_iff trade_fits_def overwrite_typed) (simp_all add: overwrite_def)
  then show ?case using Cons by simp
qed simp

lemma upsert_statement_ok:
  assumes "upsert_statement rows ts = Inr (i, u, ts')" "trades_ok ids ts" "list_all (trade_fits ids) rows"
  shows "trades_ok ids ts'"
proof -
  have d: "distinct (map trade_key rows)" and ts': "ts' = fold upsert_trade rows ts" and n: "distinct (map tr_id (ts @ new_rows rows ts))"
    using upsert_statement_Inr [OF assms(1)] by blast+
  have keys: "map trade_key ts' = map trade_key (ts @ new_rows rows ts)" unfolding ts' by (rule fold_upsert_map [OF _ d]) simp
  have ids: "map tr_id ts' = map tr_id (ts @ new_rows rows ts)" unfolding ts' by (rule fold_upsert_map [OF _ d]) simp
  have "list_all (trade_fits ids) ts'" unfolding ts' by (rule fold_upsert_fits) (use assms(2,3) in \<open>auto simp: trades_ok_def\<close>)
  then show ?thesis
    unfolding trades_ok_def keys ids using n distinct_new_rows [OF d] assms(2) by (simp add: trades_ok_def)
qed

lemma upsert_statements_ok:
  "upsert_statements chs ts = Inr (i, u, ts') \<Longrightarrow> trades_ok ids ts \<Longrightarrow> list_all (list_all (trade_fits ids)) chs \<Longrightarrow> trades_ok ids ts'"
proof (induction chs arbitrary: ts i u)
  case (Cons rows chs)
  then obtain j v ts1 where 1: "upsert_statement rows ts = Inr (j, v, ts1)" by (auto split: sum.splits)
  with Cons.prems obtain k x where "upsert_statements chs ts1 = Inr (k, x, ts')" by (auto split: sum.splits)
  with Cons 1 show ?case using upsert_statement_ok [OF 1] by auto
qed simp

lemma concat_chunks: "concat (chunks xs) = xs"
proof (induction xs rule: chunks.induct)
  case (2 x xs)
  then have "concat (chunks (x # xs)) = take 500 (x # xs) @ drop 500 (x # xs)" by (simp only: chunks.simps concat.simps)
  then show ?case by (simp only: append_take_drop_id)
qed simp

lemma list_all_chunks: "list_all P xs \<Longrightarrow> list_all (list_all P) (chunks xs)"
  by (subst (asm) concat_chunks [symmetric]) (auto simp: list_all_iff)

lemma bulk_upsert_ok:
  assumes "bulk_upsert_closed_trades rows d = Inr (x, d')" "trades_ok ids (kd_trades d)" "list_all (trade_fits ids) rows"
  shows "\<exists>ts. trades_ok ids ts \<and> d' = d \<lparr>kd_trades := ts\<rparr>"
  using assms upsert_statements_ok [OF _ assms(2) list_all_chunks [OF assms(3)]]
  by (auto simp: bulk_upsert_closed_trades_def split: sum.splits)

section \<open>Single updates\<close>

lemma acc_updates_one: "acc_update k K d d' \<Longrightarrow> acc_updates k K d d'"
  by (rule r_into_rtranclp)

lemma updates_change:
  "a \<in> set (kd_accounts d) \<Longrightarrow> kept a b \<Longrightarrow> account_ok b \<Longrightarrow> ta_id a \<in> K \<or> not_readying a b \<Longrightarrow> acc_updates k K d (put_account b d)"
  by (rule acc_updates_one) (rule change)

lemma account_of_db: "acc_ok d \<Longrightarrow> a \<in> set (kd_accounts d) \<Longrightarrow> account_ok a"
  by (simp add: acc_ok_def account_rows_ok_def list_all_iff)

lemma account_in_ids: "a \<in> set (kd_accounts d) \<Longrightarrow> ta_id a \<in> account_ids d"
  by (simp add: account_ids_def)

lemma get_account_Inr: "get_account d u i = Inr a \<Longrightarrow> a \<in> set (kd_accounts d) \<and> ta_id a = i \<and> ta_user_id a = u"
  by (auto simp: get_account_def get_account_by_id_for_user_def http_raise_def find_Some_iff split: option.splits)

lemma get_account_by_id_Some: "get_account_by_id d i = Some a \<Longrightarrow> a \<in> set (kd_accounts d) \<and> ta_id a = i"
  by (auto simp: get_account_by_id_def row_get_def find_Some_iff)

lemma account_in_mem: "ta_id a \<in> account_ids d \<Longrightarrow> account_in d a \<in> set (kd_accounts d) \<and> ta_id (account_in d a) = ta_id a"
  by (auto simp: account_in_def account_ids_def dest!: get_account_by_id_Some split: option.splits)
     (auto simp: get_account_by_id_def row_get_def find_None_iff)

lemma in_put_account: "a \<in> set (kd_accounts d) \<Longrightarrow> ta_id b = ta_id a \<Longrightarrow> b \<in> set (kd_accounts (put_account b d))"
  by (force simp: trading_accounts.rows_put row_put_def)

lemma kept_trans: "kept a b \<Longrightarrow> kept b c \<Longrightarrow> kept a c" and kept_refl: "kept a a"
  by (simp_all add: kept_def)

section \<open>A synchronisation\<close>

lemma stored_trade_simps [simp]:
  "tr_account_id (stored_trade k now a b c e f g h i) = a" "tr_id (stored_trade k now a b c e f g h i) = k"
  "tr_broker_trade_id (stored_trade k now a b c e f g h i) = b"
  by (simp_all add: stored_trade_def split: prod.split)

lemma ifD: "(if b then x else y) = z \<Longrightarrow> (b \<Longrightarrow> x = z \<Longrightarrow> P) \<Longrightarrow> (\<not> b \<Longrightarrow> y = z \<Longrightarrow> P) \<Longrightarrow> P"
  by (cases b) simp_all

lemma optionD: "(case v of None \<Rightarrow> x | Some w \<Rightarrow> f w) = z \<Longrightarrow> (v = None \<Longrightarrow> x = z \<Longrightarrow> P) \<Longrightarrow> (\<And>w. v = Some w \<Longrightarrow> f w = z \<Longrightarrow> P) \<Longrightarrow> P"
  by (cases v) simp_all

lemma bindD: "bind_Inr r f = Inr y \<Longrightarrow> (\<And>x. r = Inr x \<Longrightarrow> f x = Inr y \<Longrightarrow> P) \<Longrightarrow> P"
  by (cases r) simp_all

lemma deal_row_Some: "deal_row env prints k now a e d = Inr (Some r) \<Longrightarrow>
    tr_account_id r = ta_id a \<and> tr_id r = k \<and> tr_broker_trade_id r = extract_broker_trade_id prints d \<and> trade_typed r"
  unfolding deal_row_def Let_def
  by (elim ifD optionD bindD; clarsimp)

lemma deal_rows:
  assumes "map_result (\<lambda>(i, x). deal_row env prints (draw i) now a e x) xs = Inr rows" "r \<in> set (List.map_filter id rows)"
  shows "tr_account_id r = ta_id a \<and> trade_typed r"
proof -
  have "Some r \<in> set rows" using assms(2) by (auto simp: List.map_filter_def)
  then show ?thesis using map_result_Inr [OF assms(1)] deal_row_Some by fastforce
qed

lemma updates_ingest:
  assumes ok: "acc_ok d" and a: "a \<in> set (kd_accounts d)"
    and r: "ingest_closed_deals env prints draw now a deals extra e d = Inr (x, d')"
  shows "acc_updates k K d d' \<and> account_ids d' = account_ids d"
proof -
  obtain rows y d1 where rows: "map_result (\<lambda>(i, x). deal_row env prints (draw i) now a e x) (enumerate 0 deals) = Inr rows"
    and b: "bulk_upsert_closed_trades (List.map_filter id rows) d = Inr (y, d1)" and d': "d' = put_account (set_account_last_synced_at now a) d1"
    using r by (auto simp: ingest_closed_deals_def bind_Inr_eq)
  have "list_all (trade_fits (account_ids d)) (List.map_filter id rows)"
    using deal_rows [OF rows] account_in_ids [OF a] by (auto simp: list_all_iff trade_fits_def)
  then obtain ts where ts: "trades_ok (account_ids d) ts" "d1 = d \<lparr>kd_trades := ts\<rparr>"
    using bulk_upsert_ok [OF b] ok by (auto simp: acc_ok_def)
  then have "acc_update k K d d1" by (simp add: acc_update.trades)
  moreover have "acc_update k K d1 d'"
    unfolding d' by (rule acc_update.change [of a])
      (use a ts account_of_db [OF ok a] in \<open>auto simp: kept_def not_readying_def set_account_last_synced_at_def account_ok_def\<close>)
  ultimately have "acc_updates k K d d'" by (meson rtranclp.rtrancl_into_rtrancl acc_updates_one)
  moreover have "account_ids d' = account_ids d" by (simp add: d') (simp add: ts account_ids_def)
  ultimately show ?thesis ..
qed

lemma account_ok_kept: "account_ok a \<Longrightarrow> kept a b \<Longrightarrow> (ta_is_data_ready_for_stats b \<longleftrightarrow> ta_connection_state b = Link_ready) \<Longrightarrow>
    0 \<le> ta_consecutive_sync_failures b \<Longrightarrow> account_ok b"
  by (simp add: account_ok_def kept_def)

lemmas mark_defs = set_account_last_synced_at_def set_sync_attempt_started_def mark_sync_success_def mark_sync_retryable_def
  mark_sync_attention_required_def set_account_sync_error_def mark_account_bootstrapping_def mark_account_ready_for_stats_def
  mark_account_verification_failed_def mark_account_bootstrap_failed_def archive_account_def unarchived_def

text \<open>What marking an account does to its identity and its flags.\<close>

lemma marks_keep:
  "kept a (set_account_last_synced_at t a)" "kept a (set_sync_attempt_started t a)" "kept a (mark_sync_success t n c a)"
  "kept a (mark_sync_retryable c m r t a)" "kept a (mark_sync_attention_required c m t a)" "kept a (set_account_sync_error m a)"
  "kept a (mark_account_bootstrapping a)" "kept a (mark_account_ready_for_stats t c a)" "kept a (mark_account_verification_failed m a)"
  "kept a (mark_account_bootstrap_failed m a)" "kept a (archive_account a)" "kept a (unarchived a)"
  by (simp_all add: kept_def mark_defs)

lemma marks_ok:
  assumes "account_ok a"
  shows "account_ok (set_account_last_synced_at t a)" "account_ok (set_sync_attempt_started t a)" "account_ok (mark_sync_success t n c a)"
    "account_ok (mark_sync_retryable c m r t a)" "account_ok (mark_sync_attention_required c m t a)" "account_ok (set_account_sync_error m a)"
    "account_ok (mark_account_bootstrapping a)" "account_ok (mark_account_ready_for_stats t c a)" "account_ok (mark_account_verification_failed m a)"
    "account_ok (mark_account_bootstrap_failed m a)" "account_ok (archive_account a)" "account_ok (unarchived a)"
  using assms by (simp_all add: account_ok_def mark_defs)

lemma marks_quiet:
  "not_readying a (set_account_last_synced_at t a)" "not_readying a (set_sync_attempt_started t a)" "not_readying a (mark_sync_success t n c a)"
  "not_readying a (mark_sync_retryable c m r t a)" "not_readying a (mark_sync_attention_required c m t a)" "not_readying a (set_account_sync_error m a)"
  "not_readying a (mark_account_verification_failed m a)" "not_readying a (mark_account_bootstrap_failed m a)" "not_readying a (archive_account a)" "not_readying a (unarchived a)"
  by (simp_all add: not_readying_def mark_defs)

lemma not_readying_trans: "kept a b \<Longrightarrow> not_readying a b \<Longrightarrow> not_readying b c \<Longrightarrow> not_readying a c"
  by (auto simp: not_readying_def kept_def)

lemma updates_snapshot:
  assumes "ingest_snapshot env a s d = Inr d'" "ta_id a \<in> account_ids d"
  shows "acc_updates k K d d' \<and> account_ids d' = account_ids d \<and> kd_accounts d' = kd_accounts d \<and> kd_trades d' = kd_trades d"
proof -
  have "d' = d \<or> (\<exists>day x y z. d' = upsert_account_snapshot_for_date (ta_id a) day x y z d)"
    using assms(1) unfolding ingest_snapshot_def by (elim bindD optionD) auto
  then show ?thesis
  proof
    assume "\<exists>day x y z. d' = upsert_account_snapshot_for_date (ta_id a) day x y z d"
    then obtain day x y z where d': "d' = upsert_account_snapshot_for_date (ta_id a) day x y z d" by blast
    have "kd_accounts d' = kd_accounts d" "kd_trades d' = kd_trades d" by (simp_all add: d' upsert_account_snapshot_for_date_def Let_def)
    moreover have "acc_updates k K d d'" unfolding d' by (rule acc_updates_one [OF snapshot [OF assms(2)]])
    ultimately show ?thesis by (simp add: account_ids_def)
  qed simp
qed

lemma updates_with_snapshot:
  assumes "with_snapshot env a snap d = Inr d'" "ta_id a \<in> account_ids d"
  shows "acc_updates k K d d' \<and> account_ids d' = account_ids d \<and> kd_accounts d' = kd_accounts d \<and> kd_trades d' = kd_trades d"
  using assms updates_snapshot [OF _ assms(2)] unfolding with_snapshot_def
  by (cases snap) (auto simp: bind_Inr_eq split: if_splits)

lemma cleaned_db: "\<exists>P. snd (cleaned env prints a deals from until auth d) = d \<lparr>kd_trades := filter P (kd_trades d)\<rparr>"
proof -
  have 1: "d = d \<lparr>kd_trades := filter (\<lambda>_. True) (kd_trades d)\<rparr>" by simp
  show ?thesis
  proof (cases "auth \<and> valid_tickets prints deals \<noteq> {}")
    case True
    then show ?thesis by (auto simp: cleaned_def delete_trades_outside_def Let_def)
  next
    case False
    then have "snd (cleaned env prints a deals from until auth d) = d" by (auto simp: cleaned_def)
    with 1 show ?thesis by metis
  qed
qed

lemma trades_ok_filter: "trades_ok ids ts \<Longrightarrow> trades_ok ids (filter P ts)"
  by (auto simp: trades_ok_def distinct_map_filter list_all_iff)

lemma updates_cleaned:
  assumes "acc_ok d" "snd (cleaned env prints a deals from until auth d) = d'"
  shows "acc_updates k K d d' \<and> account_ids d' = account_ids d \<and> kd_accounts d' = kd_accounts d"
proof -
  obtain P where d': "d' = d \<lparr>kd_trades := filter P (kd_trades d)\<rparr>" using cleaned_db assms(2) by metis
  have "trades_ok (account_ids d) (filter P (kd_trades d))" using assms(1) trades_ok_filter by (auto simp: acc_ok_def)
  then have "acc_updates k K d d'" unfolding d' by (rule acc_updates_one [OF acc_update.trades])
  then show ?thesis by (simp add: d' account_ids_def)
qed

lemma updates_trans: "acc_updates k K c d \<Longrightarrow> acc_updates k K d e \<Longrightarrow> acc_updates k K c e"
  by (rule rtranclp_trans)

lemma updates_history:
  assumes ok: "acc_ok d" and a: "a \<in> set (kd_accounts d)"
    and r: "ingest_mt5_core_history_result env prints draw now a h from until auth d = Inr (x, d')"
  shows "acc_updates k K d d' \<and> account_ids d' = account_ids d"
proof -
  obtain offset d1 y where 1: "with_snapshot env (a \<lparr>ta_broker_utc_offset := offset\<rparr>) (hs_snapshot h) (put_account (a \<lparr>ta_broker_utc_offset := offset\<rparr>) d) = Inr d1"
    and 3: "map_Inr (\<lambda>(r, d3). (r \<lparr>sr_deleted_trades := fst (fst (cleaned env prints (a \<lparr>ta_broker_utc_offset := offset\<rparr>) (hs_deals h) from until auth d1))\<rparr>, d3))
      (ingest_mt5_deals env prints draw now (a \<lparr>ta_broker_utc_offset := offset\<rparr>) (hs_deals h)
        (snd (fst (cleaned env prints (a \<lparr>ta_broker_utc_offset := offset\<rparr>) (hs_deals h) from until auth d1)))
        (snd (cleaned env prints (a \<lparr>ta_broker_utc_offset := offset\<rparr>) (hs_deals h) from until auth d1))) = Inr (x, d')"
    using r unfolding ingest_mt5_core_history_result_def Let_def
    by (elim bindD) (simp add: case_prod_beta')
  define a1 where "a1 = a \<lparr>ta_broker_utc_offset := offset\<rparr>"
  define n where "n = cleaned env prints a1 (hs_deals h) from until auth d1"
  obtain y where 3: "ingest_mt5_deals env prints draw now a1 (hs_deals h) (snd (fst n)) (snd n) = Inr (y, d')"
    using 3 [folded a1_def, folded n_def] by (auto simp: map_Inr_eq)
  have k: "kept a a1" "not_readying a a1" "account_ok a1" using account_of_db [OF ok a] by (simp_all add: a1_def kept_def not_readying_def account_ok_def)
  have u0: "acc_updates k K d (put_account a1 d)" by (rule updates_change [OF a k(1,3)]) (simp add: k)
  have m: "a1 \<in> set (kd_accounts (put_account a1 d))" using in_put_account [OF a] k(1) by (simp add: kept_def)
  have u1: "acc_updates k K (put_account a1 d) d1" "kd_accounts d1 = kd_accounts (put_account a1 d)" "account_ids d1 = account_ids d"
    using updates_with_snapshot [OF 1 [folded a1_def]] account_in_ids [OF m] by auto
  have ok1: "acc_ok d1" using acc_updates_ok [OF updates_trans [OF u0 u1(1)] ok] .
  have "snd (cleaned env prints a1 (hs_deals h) from until auth d1) = snd n" by (simp add: n_def)
  from updates_cleaned [OF ok1 this] have u2: "acc_updates k K d1 (snd n)" "kd_accounts (snd n) = kd_accounts d1" "account_ids (snd n) = account_ids d1"
    by blast+
  have ok2: "acc_ok (snd n)" using acc_updates_ok [OF u2(1) ok1] .
  have "acc_updates k K (snd n) d' \<and> account_ids d' = account_ids (snd n)"
    using updates_ingest [OF ok2 _ 3 [unfolded ingest_mt5_deals_def]] m u1(2) u2(2) by simp
  then show ?thesis using updates_trans [OF u0 updates_trans [OF u1(1) updates_trans [OF u2(1)]]] u1(3) u2(3) by simp
qed

lemma updates_sync:
  assumes ok: "acc_ok d" and a: "a \<in> set (kd_accounts d)"
    and r: "sync_account_deals_mt5 env prints draw now locked answer lookback a d = Inr (x, d')"
  shows "acc_updates k K d d' \<and> account_ids d' = account_ids d"
  using r updates_history [OF ok a] by (auto simp: sync_account_deals_mt5_def split: if_splits sum.splits)

section \<open>Tasks\<close>

lemma account_in_self: "acc_ok d \<Longrightarrow> a \<in> set (kd_accounts d) \<Longrightarrow> account_in d a = a"
proof -
  assume ok: "acc_ok d" and a: "a \<in> set (kd_accounts d)"
  then have "get_account_by_id d (ta_id a) = Some a"
    unfolding get_account_by_id_def by (intro trading_accounts.get_unique) (auto simp: acc_ok_def account_rows_ok_def)
  then show ?thesis by (simp add: account_in_def)
qed

lemma updates_mark:
  assumes ok: "acc_ok d" and i: "ta_id a \<in> account_ids d"
    and f: "\<And>x. kept x (f x)" "\<And>x. account_ok x \<Longrightarrow> account_ok (f x)" "\<And>x. not_readying x (f x) \<or> ta_id a \<in> K"
  shows "acc_updates k K d (put_account (f (account_in d a)) d)"
proof -
  have m: "account_in d a \<in> set (kd_accounts d)" "ta_id (account_in d a) = ta_id a" using account_in_mem [OF i] by simp_all
  show ?thesis using f(3) m by (intro updates_change [OF m(1) f(1)] f(2) account_of_db [OF ok m(1)]) auto
qed

lemma sync_failed_mark:
  "kept a (snd (sync_failed f now a)) \<and> not_readying a (snd (sync_failed f now a)) \<and> (account_ok a \<longrightarrow> account_ok (snd (sync_failed f now a)))"
  by (cases f) (auto simp: sync_failed_def kept_def not_readying_def account_ok_def mark_defs)

lemma updates_orchestrate:
  assumes ok: "acc_ok d" and a: "a \<in> set (kd_accounts d)"
  shows "acc_updates k K d (snd (orchestrate_mt5_sync env prints draw now locked answer trigger lookback enforce a d))"
proof -
  define a1 where "a1 = (if enforce then set_sync_attempt_started now a else a)"
  define d1 where "d1 = put_account a1 d"
  have ka: "kept a a1" "not_readying a a1" "account_ok a1"
    using account_of_db [OF ok a] marks_keep(2) marks_ok(2) marks_quiet(2) by (simp_all add: a1_def kept_refl) (simp add: not_readying_def)
  have u1: "acc_updates k K d d1" unfolding d1_def by (rule updates_change [OF a ka(1,3)]) (simp add: ka)
  have ok1: "acc_ok d1" by (rule acc_updates_ok [OF u1 ok])
  have m: "a1 \<in> set (kd_accounts d1)" unfolding d1_def using in_put_account [OF a] ka(1) by (simp add: kept_def)
  have fail: "acc_updates k K d (put_account (snd (sync_failed f now a1)) d1)" for f
    by (rule updates_trans [OF u1 updates_change [OF m]]) (use sync_failed_mark [of a1 f now] ka(3) in blast)+
  have success: "acc_updates k K d (put_account (mark_sync_success now n c (account_in d2 a1)) d2)"
    if r: "sync_account_deals_mt5 env prints draw now locked answer lookback a1 d1 = Inr (x, d2)" for x d2 n c
  proof -
    have u2: "acc_updates k K d1 d2" "account_ids d2 = account_ids d1" using updates_sync [OF ok1 m r] by simp_all
    have "ta_id a1 \<in> account_ids d2" using account_in_ids [OF m] u2(2) by simp
    then have "acc_updates k K d2 (put_account (mark_sync_success now n c (account_in d2 a1)) d2)"
      by (intro updates_mark [OF acc_updates_ok [OF u2(1) ok1]] marks_keep marks_ok) (simp_all add: marks_quiet)
    then show ?thesis using updates_trans [OF u1 updates_trans [OF u2(1)]] by blast
  qed
  show ?thesis
    unfolding orchestrate_mt5_sync_def a1_def [symmetric] d1_def [symmetric] Let_def
    by (auto simp: fail success split: option.split sum.split sync_failure.split)
qed

lemma updates_bootstrap_verify:
  assumes ok: "acc_ok d" and a: "a \<in> set (kd_accounts d)" and r: "bootstrap_verify env prints now n answer a d = (e, d')"
  shows "acc_updates k K d d' \<and> account_ids d' = account_ids d"
proof -
  have mark: "acc_updates k K d (put_account (f a) d)" if "kept a (f a)" "account_ok (f a)" "not_readying a (f a)" for f
    by (rule updates_change [OF a]) (simp_all add: that)
  have oka: "account_ok a" by (rule account_of_db [OF ok a])
  have verified: "acc_updates k K d (put_account (mark_account_bootstrapping a) d1) \<and> account_ids d1 = account_ids d"
    if "ingest_mt5_snapshots env a [verification_snapshot now x] d = Inr d1" for x d1
  proof -
    have "ingest_snapshot env a (verification_snapshot now x) d = Inr d1" using that by (auto simp: bind_Inr_eq)
    from updates_snapshot [OF this account_in_ids [OF a]] have u: "acc_updates k K d d1" "account_ids d1 = account_ids d" "kd_accounts d1 = kd_accounts d" by auto
    have "acc_updates k K d1 (put_account (mark_account_bootstrapping a) d1)"
      by (rule updates_change [of a]) (use a u(3) marks_keep(7) marks_ok(7) [OF oka] in \<open>auto simp: not_readying_def mark_defs\<close>)
    then show ?thesis using updates_trans [OF u(1)] u(2) by blast
  qed
  have failed: "acc_updates k K d (put_account (mark_account_verification_failed m a) d)"
    "acc_updates k K d (put_account (set_account_sync_error m (mark_account_bootstrap_failed m a)) d)" for m
    using mark [of "mark_account_verification_failed m"] mark [of "\<lambda>x. set_account_sync_error m (mark_account_bootstrap_failed m x)"] oka
    by (simp_all add: marks_keep marks_ok marks_quiet kept_trans [OF marks_keep(10) marks_keep(6)])
       (simp add: not_readying_def mark_defs)
  show ?thesis
    using r verified failed unfolding bootstrap_verify_def Let_def
    by (cases answer) (auto split: if_splits sum.splits mt5_failure.splits)
qed

lemma updates_bootstrap_import:
  assumes ok: "acc_ok d" and a: "a \<in> set (kd_accounts d)"
  shows "acc_updates k {ta_id a} d (snd (bootstrap_import env prints draw now locked answer a d))"
proof -
  have oka: "account_ok a" by (rule account_of_db [OF ok a])
  have failed: "acc_updates k {ta_id a} d (put_account (mark_account_verification_failed m a) d)"
    "acc_updates k {ta_id a} d (put_account (set_account_sync_error m (mark_account_bootstrap_failed m' a)) d)" for m m'
    by (rule updates_change [OF a]; simp add: marks_keep marks_ok oka kept_trans [OF marks_keep(10) marks_keep(6)])+
  have ready: "acc_updates k {ta_id a} d (put_account (mark_account_ready_for_stats now c (account_in d1 a)) d1)"
    if r: "sync_account_deals_mt5 env prints draw now locked answer lookback a d = Inr (x, d1)" for x d1 c lookback
  proof -
    have u: "acc_updates k {ta_id a} d d1" "account_ids d1 = account_ids d" using updates_sync [OF ok a r] by simp_all
    have "acc_updates k {ta_id a} d1 (put_account (mark_account_ready_for_stats now c (account_in d1 a)) d1)"
      using account_in_ids [OF a] u(2) by (intro updates_mark [OF acc_updates_ok [OF u(1) ok]] marks_keep marks_ok) simp_all
    then show ?thesis by (rule updates_trans [OF u(1)])
  qed
  show ?thesis
    unfolding bootstrap_import_def
    by (auto simp: failed ready split: sum.split sync_failure.split mt5_failure.split)
qed

lemma updates_bootstrap:
  assumes ok: "acc_ok d"
  shows "acc_updates k {i} d (snd (bootstrap_account env prints q n (str_uuid i) d))"
proof (cases "get_account_by_id d i")
  case (Some a)
  then have a: "a \<in> set (kd_accounts d)" "ta_id a = i" using get_account_by_id_Some by auto
  have oka: "account_ok a" by (rule account_of_db [OF ok a(1)])
  have failed: "acc_updates k {i} d (put_account (mark_account_verification_failed m a) d)" for m
    by (rule updates_change [OF a(1)]) (simp_all add: marks_keep marks_ok oka a)
  have go: "acc_updates k {i} d (snd (bootstrap_import env prints draw now locked answer (account_in d1 a) d1))"
    if u: "acc_updates k {i} d d1" "account_ids d1 = account_ids d" for d1 draw now locked answer
  proof -
    have m: "account_in d1 a \<in> set (kd_accounts d1)" "ta_id (account_in d1 a) = i"
      using account_in_mem [of a d1] account_in_ids [OF a(1)] u(2) a(2) by simp_all
    show ?thesis
      using updates_trans [OF u(1)] updates_bootstrap_import [OF acc_updates_ok [OF u(1) ok] m(1), of k] m(2) by simp
  qed
  show ?thesis
    unfolding bootstrap_account_def Let_def
    using failed go [of d] go updates_bootstrap_verify [OF ok a(1)]
    by (auto simp: Some split: sum.split prod.split option.split)
qed (simp add: bootstrap_account_def)

lemma updates_sync_task: "acc_ok d \<Longrightarrow> acc_updates k K d (snd (sync_account env prints q (str_uuid i) d))"
proof (cases "get_account_by_id d i")
  case (Some a)
  assume ok: "acc_ok d"
  have "a \<in> set (kd_accounts d)" using Some get_account_by_id_Some by auto
  from updates_orchestrate [OF ok this, of k K env prints "tq_draw q" "tq_now q" "tq_sync_locked q" "tq_history q" Trigger_manual None False]
  show ?thesis by (auto simp: sync_account_def Some split: prod.split sum.split)
qed (simp add: sync_account_def)

section \<open>Dispatches and requests\<close>

lemma claimed: "j \<in> set (claim_bootstrap_dispatches now n i d) \<Longrightarrow> j \<in> set (kd_dispatches d) \<and> jd_dispatched_at j = None"
  by (auto simp: claim_bootstrap_dispatches_def claimable_def dest: in_set_takeD)

lemma updates_dispatch:
  assumes "dispatch_bootstrap_account now broken i d = (ts, d')"
  shows "acc_updates k K d d'"
proof (cases "claim_bootstrap_dispatches now 1 (Some i) d")
  case (Cons j js)
  then have "j \<in> set (kd_dispatches d) \<and> jd_dispatched_at j = None" using claimed [of j now 1 "Some i" d] by simp
  then show ?thesis
    using assms Cons by (auto simp: dispatch_bootstrap_account_def redispatch_def dispatched_def Let_def
      intro!: acc_updates_one acc_update.dispatch split: option.splits)
qed (use assms in \<open>simp add: dispatch_bootstrap_account_def\<close>)

definition pending :: "accounts_db \<Rightarrow> uuid set" where
  "pending d = jd_account_id ` {j \<in> set (kd_dispatches d). jd_dispatched_at j = None}"

lemma dispatch_bootstrap_pending:
  assumes "dispatch_bootstrap_account now broken i d = (ts, d')"
  shows "pending d' \<subseteq> pending d \<and> set ts \<subseteq> (\<lambda>j. Bootstrap_task j 0) ` pending d"
proof (cases "claim_bootstrap_dispatches now 1 (Some i) d")
  case (Cons j js)
  then have j: "j \<in> set (kd_dispatches d)" "jd_dispatched_at j = None" using claimed [of j now 1 "Some i" d] by simp_all
  then have p: "jd_account_id j \<in> pending d" by (auto simp: pending_def)
  have sub: "pending (put_dispatch x d) \<subseteq> pending d" if "jd_account_id x = jd_account_id j" for x
    using j that by (force simp: pending_def dest!: bootstrap_dispatches.in_put)
  show ?thesis
  proof (cases "broken")
    case None
    then have "ts = [Bootstrap_task (jd_account_id j) 0]" "d' = put_dispatch (dispatched now j) d"
      using assms Cons by (simp_all add: dispatch_bootstrap_account_def)
    then show ?thesis using sub [of "dispatched now j"] p by (simp add: dispatched_def)
  next
    case (Some e)
    then have "ts = []" "d' = put_dispatch (redispatch now e j) d"
      using assms Cons by (simp_all add: dispatch_bootstrap_account_def)
    then show ?thesis using sub [of "redispatch now e j"] by (simp add: redispatch_def)
  qed
qed (use assms in \<open>simp add: dispatch_bootstrap_account_def\<close>)

lemma updates_dispatch_all:
  "dispatch_all now broken ks d = (ts, d') \<Longrightarrow> acc_updates k K d d' \<and> pending d' \<subseteq> pending d \<and> set ts \<subseteq> (\<lambda>j. Bootstrap_task j 0) ` pending d"
proof (induction ks arbitrary: d ts d')
  case (Cons i ks)
  obtain ts1 d1 where 1: "dispatch_bootstrap_account now (broken i) i d = (ts1, d1)" by (metis surj_pair)
  obtain ts2 d2 where 2: "dispatch_all now broken ks d1 = (ts2, d2)" by (metis surj_pair)
  have "acc_updates k K d d1" using updates_dispatch [OF 1] by blast
  then have "acc_updates k K d d2" using Cons.IH [OF 2] updates_trans by blast
  then show ?case using Cons.prems 1 2 Cons.IH [OF 2] dispatch_bootstrap_pending [OF 1] by fastforce
qed simp

lemma encrypted_MT5: "prefix ''MT5:'' (pseudo_meta_account_id l s ''MT5'')"
  by (simp add: pseudo_meta_account_id_def)

lemma reactivated:
  assumes "account_ok a" "ta_meta_account_id a = pseudo_meta_account_id l s ''MT5''"
  shows "kept a (reactivate_account (pseudo_meta_account_id l s ''MT5'') b v i t p a)
    \<and> account_ok (reactivate_account (pseudo_meta_account_id l s ''MT5'') b v i t p a)"
proof -
  have "ta_import_method a = Import_auto_sync"
    using assms by (cases "ta_import_method a") (auto simp: account_ok_def meta_ok_def pseudo_meta_account_id_def prefix_def)
  with assms show ?thesis by (auto simp: kept_def reactivate_account_def account_ok_def)
qed

lemma updates_connect:
  assumes ok: "acc_ok d" and r: "connect_account env k now u p d = Inr (b, d')"
  shows "acc_updates k {ta_id b} d d'"
proof -
  obtain server investor trader where c: "(case get_account_by_user_and_meta_id d u (pseudo_meta_account_id (cr_broker_login p) server ''MT5'') of
       Some a \<Rightarrow> (let b = reactivate_account (pseudo_meta_account_id (cr_broker_login p) server ''MT5'') (broker_name_of p server) server investor trader p a in
           Inr (b, schedule_bootstrap_dispatch now (ta_id b) (put_account b d)))
       | None \<Rightarrow> (let b = new_account k now u (pseudo_meta_account_id (cr_broker_login p) server ''MT5'') (broker_name_of p server) server investor trader p in
           map_Inr (\<lambda>d1. (b, schedule_bootstrap_dispatch now k d1)) (add_account b d))) = Inr (b, d')"
    using r unfolding connect_account_def Let_def by (elim bindD ifD) (auto simp: http_raise_def)
  define meta where "meta = pseudo_meta_account_id (cr_broker_login p) server ''MT5''"
  show ?thesis
  proof (cases "get_account_by_user_and_meta_id d u meta")
    case (Some a)
    then have a: "a \<in> set (kd_accounts d)" "ta_meta_account_id a = meta" by (auto simp: get_account_by_user_and_meta_id_def find_Some_iff)
    define x where "x = reactivate_account meta (broker_name_of p server) server investor trader p a"
    have x: "kept a x" "account_ok x" using reactivated [OF account_of_db [OF ok a(1)]] a(2) by (simp_all add: x_def meta_def)
    have b: "b = x" using c Some unfolding x_def meta_def by (auto simp: Let_def)
    have u: "acc_updates k {ta_id b} d (put_account x d)" by (rule updates_change [OF a(1) x]) (use b x(1) in \<open>simp add: kept_def\<close>)
    have "ta_id x \<in> account_ids (put_account x d)" using x(1) account_in_ids [OF a(1)] by (simp add: kept_def)
    then have "acc_update k {ta_id b} (put_account x d) (schedule_bootstrap_dispatch now (ta_id x) (put_account x d))" by (rule schedule) (simp add: b)
    moreover have "d' = schedule_bootstrap_dispatch now (ta_id x) (put_account x d)"
      using c Some unfolding x_def meta_def by (auto simp: Let_def)
    ultimately show ?thesis using u by (meson rtranclp.rtrancl_into_rtrancl)
  next
    case None
    define x where "x = new_account k now u meta (broker_name_of p server) server investor trader p"
    obtain d1 where d1: "add_account x d = Inr d1" "d' = schedule_bootstrap_dispatch now k d1" "b = x"
      using c None by (auto simp: x_def meta_def Let_def map_Inr_eq)
    have "length meta \<le> 64" using d1(1) by (auto simp: add_account_def meta_id_fits_def x_def new_account_def split: if_splits)
    then have "account_ok x" using encrypted_MT5 by (simp add: x_def new_account_def account_ok_def meta_ok_def meta_def)
    then have u: "acc_update k {ta_id b} d d1" by (intro enter [OF _ _ d1(1)]) (simp_all add: x_def new_account_def)
    have "k \<in> account_ids d1"
      using d1(1) by (auto simp: add_account_def account_ids_def x_def new_account_def split: sum.splits if_splits)
    then have "acc_update k {ta_id b} d1 d'" unfolding d1(2) by (rule schedule) (simp add: d1(3) x_def new_account_def)
    with u show ?thesis by (meson rtranclp.rtrancl_into_rtrancl acc_updates_one)
  qed
qed

lemma updates_get_account:
  assumes ok: "acc_ok d" and r: "get_account d u i = Inr a"
    and f: "kept a (f a)" "account_ok a \<Longrightarrow> account_ok (f a)" "not_readying a (f a)"
  shows "acc_updates k K d (put_account (f a) d)"
proof -
  have a: "a \<in> set (kd_accounts d)" using get_account_Inr [OF r] by simp
  show ?thesis by (rule updates_change [OF a f(1) f(2) [OF account_of_db [OF ok a]]]) (simp add: f)
qed

section \<open>Imports\<close>

lemma csv_ready_ok: "account_ok a \<Longrightarrow> kept a b \<Longrightarrow> ta_consecutive_sync_failures b = ta_consecutive_sync_failures a \<Longrightarrow>
    kept a (csv_ready b) \<and> account_ok (csv_ready b)"
  by (auto simp: csv_ready_def kept_def account_ok_def)

lemma updates_import_account:
  assumes ok: "acc_ok d" and r: "import_account k now u zone name target m d = Inr (a, d')"
  shows "acc_updates k K d d' \<and> a \<in> set (kd_accounts d') \<and> ta_import_method a = Import_csv_upload"
proof (cases target)
  case (Some i)
  then obtain b where b: "get_account d u i = Inr b" "ta_import_method b = Import_csv_upload"
      and a: "a = (if py_strip name = [] then b else b \<lparr>ta_display_name := Some (py_strip name)\<rparr>)" "d' = put_account a d"
    using r by (auto simp: import_account_def bind_Inr_eq Let_def http_raise_def split: if_splits)
  have m: "b \<in> set (kd_accounts d)" using get_account_Inr [OF b(1)] by simp
  have "kept b a" "not_readying b a" "account_ok a" using account_of_db [OF ok m] b(2) by (auto simp: a(1) kept_def not_readying_def account_ok_def)
  then show ?thesis using updates_change [OF m] in_put_account [OF m] a(2) b(2) by (auto simp: kept_def)
next
  case None
  define meta where "meta = csv_meta_id (or_string (pm_broker_server m) ''CSVServer'') (or_string (pm_account_number m) ''Imported'')"
  have pre: "prefix ''csv:'' meta" by (simp add: meta_def csv_meta_id_def)
  show ?thesis
  proof (cases "get_account_by_user_and_meta_id d u meta")
    case (Some b)
    then have b: "b \<in> set (kd_accounts d)" "ta_meta_account_id b = meta" by (auto simp: get_account_by_user_and_meta_id_def find_Some_iff)
    have okb: "account_ok b" by (rule account_of_db [OF ok b(1)])
    then have csv: "ta_import_method b = Import_csv_upload"
      using b(2) pre by (cases "ta_import_method b") (auto simp: account_ok_def meta_ok_def prefix_def)
    obtain x where "a = csv_ready x" "d' = put_account a d" "kept b x" "ta_consecutive_sync_failures x = ta_consecutive_sync_failures b"
      using r None Some by (auto simp: import_account_def create_csv_account_def meta_def [symmetric] Let_def kept_def)
    then show ?thesis using csv_ready_ok [OF okb] updates_change [OF b(1), of a] in_put_account [OF b(1), of a] csv
      by (auto simp: kept_def not_readying_def)
  next
    case None': None
    obtain x where x: "add_account a d = Inr d'" "ta_id a = k" "account_ok a \<or> \<not> length (ta_meta_account_id a) \<le> 64" "ta_import_method a = Import_csv_upload"
      using r None None' pre by (auto simp: import_account_def create_csv_account_def meta_def [symmetric] Let_def map_Inr_eq account_ok_def meta_ok_def)
    have "length (ta_meta_account_id a) \<le> 64" using x(1) by (auto simp: add_account_def meta_id_fits_def split: if_splits)
    then have "acc_update k K d d'" using x by (intro enter [of a]) auto
    moreover have "a \<in> set (kd_accounts d')" using x(1) by (auto simp: add_account_def split: sum.splits if_splits)
    ultimately show ?thesis using x(4) by (auto intro: acc_updates_one)
  qed
qed

lemma updates_import_trades:
  "acc_ok d \<Longrightarrow> a \<in> set (kd_accounts d) \<Longrightarrow> import_trades env draw now a ts d = Inr (days, d') \<Longrightarrow>
     acc_updates k K d d' \<and> kd_accounts d' = kd_accounts d"
proof (induction ts arbitrary: d days)
  case (Cons x ts)
  obtain i t where x: "x = (i, t)" by (metis surj_pair)
  obtain ins d1 days1 where 1: "upsert_closed_trade (imported_trade (draw i) now a t) d = Inr (ins, d1)"
    and 2: "import_trades env draw now a ts d1 = Inr (days1, d')"
    using Cons.prems(3) unfolding x import_trades.simps by (elim bindD) (auto simp: map_Inr_eq elim!: bindD)
  let ?r = "imported_trade (draw i) now a t"
  have "d1 = d \<or> (d1 = d \<lparr>kd_trades := kd_trades d @ [?r]\<rparr> \<and> trade_key ?r \<notin> trade_key ` set (kd_trades d) \<and> tr_id ?r \<notin> tr_id ` set (kd_trades d))"
    using 1 by (auto simp: upsert_closed_trade_def list_ex_same list_ex_iff image_iff split: if_splits)
  then have u: "acc_updates k K d d1 \<and> kd_accounts d1 = kd_accounts d"
  proof
    assume new: "d1 = d \<lparr>kd_trades := kd_trades d @ [?r]\<rparr> \<and> trade_key ?r \<notin> trade_key ` set (kd_trades d) \<and> tr_id ?r \<notin> tr_id ` set (kd_trades d)"
    have "tr_account_id ?r \<in> account_ids d" using account_in_ids [OF Cons.prems(2)] by (simp add: imported_trade_def)
    then have "trades_ok (account_ids d) (kd_trades d @ [?r])" using new Cons.prems(1) by (simp add: acc_ok_def trades_ok_def trade_fits_def imported_trade_def)
    then have "acc_update k K d (d \<lparr>kd_trades := kd_trades d @ [?r]\<rparr>)" by (rule acc_update.trades)
    then show ?thesis using new by (simp add: acc_updates_one)
  qed simp
  have "acc_updates k K d1 d' \<and> kd_accounts d' = kd_accounts d1"
    by (rule Cons.IH [OF _ _ 2]) (use u Cons.prems acc_updates_ok in \<open>auto\<close>)
  with u show ?case using updates_trans by auto
qed simp

lemma updates_balance:
  assumes "i \<in> account_ids d"
  shows "acc_updates k K d (balance_snapshot i day b d) \<and> kd_accounts (balance_snapshot i day b d) = kd_accounts d \<and> kd_trades (balance_snapshot i day b d) = kd_trades d"
  using acc_updates_one [OF acc_update.snapshot [OF assms]] by (auto simp: balance_snapshot_def upsert_account_snapshot_for_date_def Let_def)

lemma updates_balances:
  "i \<in> account_ids d \<Longrightarrow> acc_updates k K d (fold (\<lambda>(day, b). balance_snapshot i day b) xs d) \<and>
     kd_accounts (fold (\<lambda>(day, b). balance_snapshot i day b) xs d) = kd_accounts d \<and> kd_trades (fold (\<lambda>(day, b). balance_snapshot i day b) xs d) = kd_trades d"
proof (induction xs arbitrary: d)
  case (Cons x xs)
  obtain day b where x: "x = (day, b)" by (metis surj_pair)
  have 1: "acc_updates k K d (balance_snapshot i day b d)" "kd_accounts (balance_snapshot i day b d) = kd_accounts d"
      "kd_trades (balance_snapshot i day b d) = kd_trades d"
    using updates_balance [OF Cons.prems] by auto
  then have "i \<in> account_ids (balance_snapshot i day b d)" using Cons.prems by (simp add: account_ids_def)
  from Cons.IH [OF this] show ?case using 1 updates_trans [OF 1(1)] by (simp add: x)
qed simp

lemma updates_import_snapshots:
  assumes i: "ta_id a \<in> account_ids d" and r: "import_snapshots env now a p d = Inr d'"
  shows "acc_updates k K d d' \<and> kd_accounts d' = kd_accounts d \<and> kd_trades d' = kd_trades d"
proof -
  define d1 where "d1 = fold (\<lambda>(day, b). balance_snapshot (ta_id a) day b) (pr_daily_balances p) d"
  have u1: "acc_updates k K d d1" "kd_accounts d1 = kd_accounts d" "kd_trades d1 = kd_trades d" using updates_balances [OF i] by (simp_all add: d1_def)
  have one: "acc_updates k K d e \<and> kd_accounts e = kd_accounts d \<and> kd_trades e = kd_trades d"
    if "acc_updates k K d c" "kd_accounts c = kd_accounts d" "kd_trades c = kd_trades d" "e = c \<or> (\<exists>day b. e = balance_snapshot (ta_id a) day b c)" for c e
    using that updates_balance [of "ta_id a" c k K] i updates_trans [OF that(1)] by (auto simp: account_ids_def)
  obtain d2 where 2: "d2 = d1 \<or> (\<exists>day b. d2 = balance_snapshot (ta_id a) day b d1)"
    and 3: "d' = d2 \<or> (\<exists>day b. d' = balance_snapshot (ta_id a) day b d2)"
    using r unfolding import_snapshots_def Let_def d1_def [symmetric]
    by (elim bindD) (auto simp: map_Inr_eq split: option.splits)
  show ?thesis using one [OF _ _ _ 3] one [OF u1 2] by blast
qed

lemma updates_import:
  assumes ok: "acc_ok d" and r: "confirm_csv_import env ie q f p z n t l d = Inr (x, d')"
  shows "acc_updates (iq_account q) K d d'"
proof -
  define pr where "pr = parse_report env ie ''Europe/Riga'' l"
  obtain target a d1 days d2 d3 where 1: "import_account (iq_account q) (iq_now q) (iq_user q) z n target (pr_account_meta pr) d = Inr (a, d1)"
    and 2: "import_trades env (iq_draw q) (iq_now q) a (enumerate 0 (pr_trades pr)) d1 = Inr (days, d2)"
    and 3: "import_snapshots env (iq_now q) a pr d2 = Inr d3"
    and d': "d' = put_account ((csv_ready a) \<lparr>ta_last_synced_at := Some (iq_now q)\<rparr>) d3"
    using r unfolding confirm_csv_import_def confirm_import_def Let_def pr_def [symmetric]
    by (elim bindD ifD) (auto simp: http_raise_def Let_def split: list.splits elim!: bindD)
  have u1: "acc_updates (iq_account q) K d d1" "a \<in> set (kd_accounts d1)" "ta_import_method a = Import_csv_upload"
    using updates_import_account [OF ok 1] by auto
  have ok1: "acc_ok d1" by (rule acc_updates_ok [OF u1(1) ok])
  have u2: "acc_updates (iq_account q) K d1 d2" "kd_accounts d2 = kd_accounts d1" using updates_import_trades [OF ok1 u1(2) 2] by auto
  have "ta_id a \<in> account_ids d2" using account_in_ids [OF u1(2)] u2(2) by (simp add: account_ids_def)
  from updates_import_snapshots [OF this 3] have u3: "acc_updates (iq_account q) K d2 d3" "kd_accounts d3 = kd_accounts d2" by auto
  have "acc_updates (iq_account q) K d3 d'"
    unfolding d' by (rule updates_change [of a]) (use u1 u2 u3 account_of_db [OF ok1 u1(2)] in \<open>auto simp: kept_def not_readying_def account_ok_def csv_ready_def\<close>)
  then show ?thesis using updates_trans [OF u1(1) updates_trans [OF u2(1) updates_trans [OF u3(1)]]] by blast
qed

section \<open>Every call\<close>

text \<open>The accounts whose first import a call may schedule or run: one connected again, and the one of a bootstrap task.\<close>

definition loud_accounts :: "acc_env \<Rightarrow> account_rq \<Rightarrow> acc_world \<Rightarrow> account_call \<Rightarrow> uuid set" where
  "loud_accounts env q w c = (case c of
       Connect_account p \<Rightarrow> (case connect_account env (kq_id q) (kq_now q) (kq_user q) p (aw_db w) of Inl _ \<Rightarrow> {} | Inr (a, _) \<Rightarrow> {ta_id a})
     | Run_task i \<Rightarrow> (if i < length (aw_queue w) then (case aw_queue w ! i of Bootstrap_task k n \<Rightarrow> {k} | _ \<Rightarrow> {}) else {}) | _ \<Rightarrow> {})"

lemma updates_run_task:
  assumes ok: "acc_ok d" shows "acc_updates k (case t of Bootstrap_task j n \<Rightarrow> {j} | Sync_task j \<Rightarrow> {}) d (snd (run_task env ie q t d))"
proof (cases t)
  case (Bootstrap_task j n)
  have "acc_updates k {j} d (snd (bootstrap_account env (vi_prints ie) (task_rq_of q) n (str_uuid j) d))" by (rule updates_bootstrap [OF ok])
  then show ?thesis by (auto simp: Bootstrap_task run_task_def split: prod.splits task_end.splits)
next
  case (Sync_task j)
  then show ?thesis using updates_sync_task [OF ok] by (simp add: run_task_def)
qed

lemma account_run_updates:
  assumes ok: "acc_ok (aw_db w)"
  shows "acc_updates (kq_id q) (loud_accounts env q w c) (aw_db w) (aw_db (account_run env ie q c w))"
proof -
  let ?U = "\<lambda>K d. acc_updates (kq_id q) K (aw_db w) d"
  have same: "?U K (aw_db (or_same w r))" if "\<And>d. r = Inr d \<Longrightarrow> ?U K d" for K r
    using that by (cases r) (simp_all add: or_same_def)
  show ?thesis
  proof (cases c)
    case (Connect_account p)
    show ?thesis
    proof (cases "connect_account env (kq_id q) (kq_now q) (kq_user q) p (aw_db w)")
      case (Inr x)
      obtain a d1 where x: "x = (a, d1)" by (metis surj_pair)
      obtain ts d2 where 2: "dispatch_bootstrap_account (kq_now q) (kq_broken q (ta_id a)) (ta_id a) d1 = (ts, d2)" by (metis surj_pair)
      have "?U {ta_id a} d1" by (rule updates_connect [OF ok Inr [unfolded x]])
      moreover have "acc_updates (kq_id q) {ta_id a} d1 d2" using updates_dispatch [OF 2] by blast
      ultimately show ?thesis using Inr x 2 updates_trans by (simp add: Connect_account account_run_def loud_accounts_def)
    qed (simp add: Connect_account account_run_def loud_accounts_def)
  next
    case (Request_sync i)
    have "?U {} d1" if "manual_sync env l n u i (aw_db w) = Inr (x, d1)" for l n u x d1
      using that unfolding manual_sync_def
      by (elim bindD ifD) (auto simp: http_raise_def marks_keep marks_ok marks_quiet intro: updates_get_account [OF ok] split: option.splits)
    then show ?thesis by (auto simp: Request_sync account_run_def loud_accounts_def split: sum.split sync_answer.split)
  next
    case Dispatch_pending
    obtain ts d1 where d: "dispatch_pending_bootstraps (kq_now q) (kq_broken q) (aw_db w) = (ts, d1)" by (metis surj_pair)
    have "acc_updates (kq_id q) {} (aw_db w) d1" using d updates_dispatch_all by (simp add: dispatch_pending_bootstraps_def)
    then show ?thesis by (simp add: Dispatch_pending d account_run_def Let_def loud_accounts_def)
  next
    case (Run_task i)
    then show ?thesis
      using updates_run_task [OF ok, of "kq_id q" "aw_queue w ! i" env ie q]
      by (auto simp: account_run_def loud_accounts_def split: prod.split account_task.splits)
  next
    case (Import_report f p z n t l)
    have "iq_account (import_rq_of q) = kq_id q" by (simp add: import_rq_of_def)
    then have "?U {} (aw_db (or_same w (map_Inr snd (confirm_csv_import env ie (import_rq_of q) f p z n t l (aw_db w)))))"
      using updates_import [OF ok, of env ie "import_rq_of q"] by (intro same) (auto simp: map_Inr_eq)
    then show ?thesis by (simp add: Import_report account_run_def loud_accounts_def)
  next
    case (Purge_account i)
    have "?U {} (aw_db (or_same w (delete_trading_account (kq_user q) i (aw_db w))))"
      by (rule same) (auto simp: delete_trading_account_def map_Inr_eq intro: acc_updates_one acc_update.leave)
    then show ?thesis by (simp add: Purge_account account_run_def loud_accounts_def)
  next
    case (Disconnect_account i)
    have "?U {} (aw_db (or_same w (disconnect_account (kq_user q) i (aw_db w))))"
      by (rule same) (auto simp: disconnect_account_def map_Inr_eq marks_keep marks_ok marks_quiet intro: updates_get_account [OF ok])
    then show ?thesis by (simp add: Disconnect_account account_run_def loud_accounts_def)
  next
    case (Unarchive_account i)
    have "?U {} (aw_db (or_same w (map_Inr snd (unarchive_account (kq_user q) i (aw_db w)))))"
      by (rule same) (auto simp: unarchive_account_def map_Inr_eq marks_keep marks_ok marks_quiet intro: updates_get_account [OF ok] split: if_splits)
    then show ?thesis by (simp add: Unarchive_account account_run_def loud_accounts_def)
  next
    case (Rename_account i n)
    have "?U {} (aw_db (or_same w (map_Inr snd (update_account (kq_user q) i n (aw_db w)))))"
      by (rule same) (auto simp: update_account_def map_Inr_eq Let_def http_raise_def kept_def not_readying_def account_ok_def
        intro!: updates_get_account [OF ok, of _ _ _ "\<lambda>a. a \<lparr>ta_display_name := Some (py_strip n)\<rparr>"] elim!: bindD split: if_splits)
    then show ?thesis by (simp add: Rename_account account_run_def loud_accounts_def)
  next
    case (Trader_access i n)
    have "?U {} d" if r: "enable_trader_access env (vi_prints ie) (kq_verification q) (kq_user q) i n (aw_db w) = Inr (b, d)" for b d
    proof -
      obtain a s where a: "get_account (aw_db w) (kq_user q) i = Inr a" "d = put_account (a \<lparr>ta_encrypted_trader_password := Some s\<rparr>) (aw_db w)"
        using r unfolding enable_trader_access_def
        by (elim bindD ifD) (auto simp: http_raise_def trader_access_error_def Let_def split: sum.splits mt5_failure.splits if_splits elim!: bindD)
      have "?U {} (put_account (a \<lparr>ta_encrypted_trader_password := Some s\<rparr>) (aw_db w))"
        by (rule updates_get_account [OF ok a(1)]) (simp_all add: kept_def not_readying_def account_ok_def)
      then show ?thesis by (simp add: a(2))
    qed
    then have "?U {} (aw_db (or_same w (map_Inr snd (enable_trader_access env (vi_prints ie) (kq_verification q) (kq_user q) i n (aw_db w)))))"
      by (intro same) (auto simp: map_Inr_eq)
    then show ?thesis by (simp add: Trader_access account_run_def loud_accounts_def)
  qed
qed

definition no_trading_accounts :: "mt5_server list \<Rightarrow> acc_world" where
  "no_trading_accounts servers = \<lparr>aw_db = \<lparr>kd_accounts = [], kd_trades = [], kd_snapshots = [], kd_dispatches = [], kd_servers = servers\<rparr>, aw_queue = []\<rparr>"

lemma no_trading_accounts_ok: "acc_ok (aw_db (no_trading_accounts servers))"
  by (simp add: no_trading_accounts_def acc_ok_def account_rows_ok_def trades_ok_def snapshots_ok_def dispatches_ok_def)

interpretation journal_accounts: invariant_system "\<lambda>w. \<exists>servers. w = no_trading_accounts servers" "account_step env ie" "\<lambda>w. acc_ok (aw_db w)" for env ie
  by unfold_locales (auto simp: no_trading_accounts_ok account_step_def intro: acc_updates_ok [OF account_run_updates])

end
