(* ===== verification/Account_Mirror.thy ===== *)
theory Account_Mirror
  imports Account_Invariant
begin

text \<open>
  What a synchronisation does to the trades of a database: it stores the deals of the history, takes out the
  trades the history no longer has, touches no other account, and changes nothing when it is repeated.
\<close>

section \<open>Storing rows\<close>

definition stored_as :: "trade list \<Rightarrow> trade \<Rightarrow> trade" where
  "stored_as rows t = (case find (\<lambda>r. trade_key r = trade_key t) rows of None \<Rightarrow> t | Some r \<Rightarrow> overwrite r t)"

lemma keys_upsert_trade: "trade_key ` set (upsert_trade r ts) = insert (trade_key r) (trade_key ` set ts)"
proof (cases "trade_key r \<in> trade_key ` set ts")
  case True
  then have "map trade_key (upsert_trade r ts) = map trade_key ts" by (rule map_upsert_old [rotated]) simp
  then have "trade_key ` set (upsert_trade r ts) = trade_key ` set ts" by (metis image_set)
  then show ?thesis using True by auto
qed (simp add: upsert_trade_def list_ex_same)

lemma fold_upsert_stored: "distinct (map trade_key rows) \<Longrightarrow> fold upsert_trade rows ts = map (stored_as rows) ts @ new_rows rows ts"
proof (induction rows arbitrary: ts)
  case Nil
  show ?case by (simp add: stored_as_def new_rows_def)
next
  case (Cons r rows)
  have neq: "trade_key x \<noteq> trade_key r" if "x \<in> set rows" for x using Cons.prems that by (metis distinct.simps(2) image_eqI list.set_map list.simps(9))
  have none: "find (\<lambda>x. trade_key x = trade_key r) rows = None" using neq by (simp add: find_None_iff)
  have one: "stored_as rows (if trade_key t = trade_key r then overwrite r t else t) = stored_as (r # rows) t" for t
  proof (cases "trade_key t = trade_key r")
    case True
    then show ?thesis using none by (simp add: stored_as_def)
  qed (auto simp: stored_as_def)
  have new: "new_rows rows (upsert_trade r ts) = new_rows rows ts"
    using Cons.prems unfolding new_rows_def keys_upsert_trade by (intro filter_cong) (auto dest: neq)
  have "map (stored_as rows) (new_rows [r] ts) = new_rows [r] ts" using none by (simp add: new_rows_def stored_as_def)
  then have "map (stored_as rows) (upsert_trade r ts) = map (stored_as (r # rows)) ts @ new_rows [r] ts"
    by (simp add: upsert_trade_map one comp_def)
  then show ?case using Cons new by (simp add: new_rows_def)
qed

lemma upsert_statements_fold:
  "upsert_statements chs ts = Inr (i, u, ts') \<Longrightarrow> ts' = fold upsert_trade (concat chs) ts \<and> i + u = length (concat chs) \<and> length ts' = length ts + i"
proof (induction chs arbitrary: ts i u)
  case (Cons rows chs)
  then obtain j v ts1 where 1: "upsert_statement rows ts = Inr (j, v, ts1)" by (auto split: sum.splits)
  obtain k x where 2: "upsert_statements chs ts1 = Inr (k, x, ts')" and i: "i = j + k" "u = v + x"
    using Cons.prems 1 by (auto split: sum.splits)
  have s: "distinct (map trade_key rows)" "j = length (new_rows rows ts)" "v = length rows - j" "ts1 = fold upsert_trade rows ts"
    using upsert_statement_Inr [OF 1] by auto
  have "length ts1 = length ts + j" "j \<le> length rows" unfolding s(2,4) fold_upsert_stored [OF s(1)] by (simp_all add: new_rows_def)
  then show ?case using Cons.IH [OF 2] i s by auto
qed simp

lemma bulk_upsert_fold:
  assumes "bulk_upsert_closed_trades rows d = Inr ((i, u, ds), d')"
  shows "d' = d \<lparr>kd_trades := fold upsert_trade rows (kd_trades d)\<rparr> \<and> i + u = length rows \<and> length (kd_trades d') = length (kd_trades d) + i"
proof -
  obtain ts where u: "upsert_statements (chunks rows) (kd_trades d) = Inr (i, u, ts)" and d': "d' = d \<lparr>kd_trades := ts\<rparr>"
    using assms by (auto simp: bulk_upsert_closed_trades_def split: sum.splits)
  show ?thesis using upsert_statements_fold [OF u] by (simp add: d' concat_chunks del: fold_simps) metis
qed

lemma fold_upsert_keeps: "t \<in> set ts \<Longrightarrow> (\<And>r. r \<in> set rows \<Longrightarrow> trade_key r \<noteq> trade_key t) \<Longrightarrow> t \<in> set (fold upsert_trade rows ts)"
proof (induction rows arbitrary: ts)
  case (Cons r rows)
  have "t \<in> set (upsert_trade r ts)" using Cons.prems by (force simp: upsert_trade_map)
  then show ?case using Cons by simp
qed simp

lemma fold_upsert_others:
  "list_all (\<lambda>r. tr_account_id r = i) rows \<Longrightarrow>
    filter (\<lambda>t. tr_account_id t \<noteq> i) (fold upsert_trade rows ts) = filter (\<lambda>t. tr_account_id t \<noteq> i) ts"
proof (induction rows arbitrary: ts)
  case (Cons r rows)
  have "filter (\<lambda>t. tr_account_id t \<noteq> i) (upsert_trade r ts) = filter (\<lambda>t. tr_account_id t \<noteq> i) ts"
    using Cons.prems by (induction ts) (auto simp: upsert_trade_map new_rows_def trade_key_def overwrite_def)
  then show ?case using Cons by simp
qed simp

section \<open>Rows of a history\<close>

definition history_rows :: "acc_env \<Rightarrow> (jval \<Rightarrow> string) \<Rightarrow> (nat \<Rightarrow> uuid) \<Rightarrow> int \<Rightarrow> trading_account \<Rightarrow> deal list \<Rightarrow> trade option list result" where
  "history_rows env prints draw now a deals = map_result (\<lambda>(i, x). deal_row env prints (draw i) now a True x) (enumerate 0 (map (mt5_deal prints) deals))"

lemma mt5_deal_id: "extract_broker_trade_id prints (mt5_deal prints x) = ticket_of prints x"
proof -
  have "map_of (mt5_deal prints x) ''broker_trade_id'' = Some (J_str (jtext prints (deal_get x ''ticket'')))"
    "map_of (mt5_deal prints x) ''id'' = None" "map_of (mt5_deal prints x) ''ticket'' = None"
    by (simp_all add: mt5_deal_def char_of_eq_iff)
  then show ?thesis by (simp add: extract_broker_trade_id_def ticket_of_def deal_get_def jor_def jtrue_def jtext_def jstr_def)
qed

text \<open>A row of an enriched deal depends on the account only by its identifier.\<close>

lemma deal_row_account: "ta_id a = ta_id b \<Longrightarrow> deal_row env prints k now a True x = deal_row env prints k now b True x"
  by (simp add: deal_row_def to_utc_def Let_def cong: if_cong option.case_cong)


text \<open>Another draw and another instant change the identifier and the creation of a row, nothing else.\<close>

definition same_content :: "trade \<Rightarrow> trade \<Rightarrow> bool" where
  "same_content r s \<longleftrightarrow> s = r \<lparr>tr_id := tr_id s, tr_created_at := tr_created_at s\<rparr>"

lemma stored_trade_again: "same_content (stored_trade k now a b c e f g h i) (stored_trade k' now' a b c e f g h i)"
  by (simp add: same_content_def stored_trade_def split: prod.split)

lemma same_content_key: "same_content r s \<Longrightarrow> trade_key s = trade_key r"
  unfolding same_content_def by (cases r; cases s) (simp add: trade_key_def)

lemma same_content_overwrite: "same_content r s \<Longrightarrow> overwrite s t = overwrite r t"
  unfolding same_content_def by (cases r; cases s; cases t) (simp add: overwrite_def)

lemma deal_row_again:
  assumes "deal_row env prints k now a e x = Inr v"
  shows "\<exists>w. deal_row env prints k' now' a e x = Inr w \<and> rel_option same_content v w"
proof (cases v)
  case None
  then have "deal_row env prints k' now' a e x = Inr None"
    using assms unfolding deal_row_def Let_def by (elim ifD optionD bindD) (simp_all add: bind_Inr_eq)
  then show ?thesis using None by simp
next
  case (Some r)
  have "\<exists>w. deal_row env prints k' now' a e x = Inr (Some w) \<and> same_content r w"
    using assms unfolding deal_row_def Let_def Some
    by (elim ifD optionD bindD) (auto simp: stored_trade_again)
  then show ?thesis using Some by auto
qed

lemma map_result_again:
  assumes "map_result f xs = Inr vs" "\<And>x v. x \<in> set xs \<Longrightarrow> f x = Inr v \<Longrightarrow> \<exists>w. g x = Inr w \<and> R v w"
  shows "\<exists>ws. map_result g xs = Inr ws \<and> list_all2 R vs ws"
  using assms
proof (induction xs arbitrary: vs)
  case (Cons x xs)
  obtain v us where 1: "f x = Inr v" "map_result f xs = Inr us" "vs = v # us"
    using Cons.prems(1) by (auto split: sum.splits)
  obtain w ws where "g x = Inr w" "R v w" "map_result g xs = Inr ws" "list_all2 R us ws"
    using Cons.IH [OF 1(2)] Cons.prems(2) 1(1) by (metis list.set_intros)
  then show ?case using 1(3) by simp
qed simp

lemma map_result_all: "map_result f xs = Inr vs \<Longrightarrow> x \<in> set xs \<Longrightarrow> \<exists>v\<in>set vs. f x = Inr v"
  by (induction xs arbitrary: vs) (fastforce split: sum.splits)+

lemma map_result_enumerate:
  "map_result (\<lambda>(i, x). f (draw i) x) (enumerate n xs) = Inr vs \<Longrightarrow> (\<And>k k' x v. f k x = Inr v \<Longrightarrow> \<exists>w. g k' x = Inr w \<and> R v w) \<Longrightarrow>
    \<exists>ws. map_result (\<lambda>(i, x). g (draw' i) x) (enumerate n xs) = Inr ws \<and> list_all2 R vs ws"
  by (erule map_result_again) auto

lemma history_rows_again:
  assumes "history_rows env prints draw now a deals = Inr vs" "ta_id b = ta_id a"
  shows "\<exists>ws. history_rows env prints draw' now' b deals = Inr ws \<and> list_all2 (rel_option same_content) vs ws"
proof -
  have "deal_row env prints k' now' b True x = deal_row env prints k' now' a True x" for k' x by (rule deal_row_account [OF assms(2)])
  then show ?thesis
    using assms(1) deal_row_again unfolding history_rows_def by (intro map_result_enumerate) simp_all
qed

lemma somes_again: "list_all2 (rel_option R) vs ws \<Longrightarrow> list_all2 R (List.map_filter id vs) (List.map_filter id ws)"
  by (induction rule: list_all2_induct) (auto simp: List.map_filter_def elim!: option.rel_cases)

lemma same_content_keys: "list_all2 same_content rs ss \<Longrightarrow> map trade_key ss = map trade_key rs"
  by (induction rule: list_all2_induct) (auto simp: same_content_key)


section \<open>Ingesting a history\<close>

text \<open>The trades that are left once those the history does not have are taken out.\<close>

definition gone_trade :: "(jval \<Rightarrow> string) \<Rightarrow> uuid \<Rightarrow> deal list \<Rightarrow> int option \<Rightarrow> int option \<Rightarrow> trade \<Rightarrow> bool" where
  "gone_trade prints k deals from until t \<longleftrightarrow> tr_account_id t = k \<and> (case from of None \<Rightarrow> True | Some f \<Rightarrow> f \<le> tr_closed_at t)
     \<and> (case until of None \<Rightarrow> True | Some b \<Rightarrow> tr_closed_at t < b) \<and> tr_broker_trade_id t \<notin> valid_tickets prints deals"

definition left_trades :: "(jval \<Rightarrow> string) \<Rightarrow> uuid \<Rightarrow> deal list \<Rightarrow> int option \<Rightarrow> int option \<Rightarrow> bool \<Rightarrow> trade list \<Rightarrow> trade list" where
  "left_trades prints k deals from until auth ts = (if auth \<and> valid_tickets prints deals \<noteq> {}
     then filter (\<lambda>t. \<not> gone_trade prints k deals from until t) ts else ts)"

lemma cleaned_left:
  "snd (cleaned env prints a deals from until auth d) = d \<lparr>kd_trades := left_trades prints (ta_id a) deals from until auth (kd_trades d)\<rparr>"
  by (auto simp: cleaned_def left_trades_def delete_trades_outside_def gone_trade_def Let_def)

lemma cleaned_count:
  "length (left_trades prints (ta_id a) deals from until auth (kd_trades d)) + fst (fst (cleaned env prints a deals from until auth d)) = length (kd_trades d)"
proof (cases "auth \<and> valid_tickets prints deals \<noteq> {}")
  case True
  then have "fst (fst (cleaned env prints a deals from until auth d)) = length (filter (gone_trade prints (ta_id a) deals from until) (kd_trades d))"
    by (simp add: cleaned_def delete_trades_outside_def gone_trade_def [abs_def] Let_def)
  then show ?thesis
    using True sum_length_filter_compl [of "gone_trade prints (ta_id a) deals from until" "kd_trades d"]
    by (simp add: left_trades_def)
qed (auto simp: cleaned_def left_trades_def)

lemma with_snapshot_trades: "with_snapshot env a snap d = Inr e \<Longrightarrow> kd_trades e = kd_trades d"
  unfolding with_snapshot_def ingest_mt5_snapshots.simps ingest_snapshot_def
  by (elim optionD ifD bindD) (auto simp: upsert_account_snapshot_for_date_def Let_def bind_Inr_eq split: option.splits)

lemma history_Inr:
  assumes "ingest_mt5_core_history_result env prints draw now a h from until auth d = Inr (r, d')"
  obtains rows off e where "history_rows env prints draw now a (hs_deals h) = Inr rows"
    "kd_trades d' = fold upsert_trade (List.map_filter id rows) (left_trades prints (ta_id a) (hs_deals h) from until auth (kd_trades d))"
    "sr_inserted_trades r + sr_updated_trades r = length (List.map_filter id rows)"
    "length (kd_trades d') + sr_deleted_trades r = length (kd_trades d) + sr_inserted_trades r"
    "as_int (jor (hs_broker_offset_seconds h) (J_int 0)) = Inr off"
    "with_snapshot env (a \<lparr>ta_broker_utc_offset := off\<rparr>) (hs_snapshot h) (put_account (a \<lparr>ta_broker_utc_offset := off\<rparr>) d) = Inr e"
proof -
  obtain off e where o: "as_int (jor (hs_broker_offset_seconds h) (J_int 0)) = Inr off"
    and e: "with_snapshot env (a \<lparr>ta_broker_utc_offset := off\<rparr>) (hs_snapshot h) (put_account (a \<lparr>ta_broker_utc_offset := off\<rparr>) d) = Inr e"
    and r: "map_Inr (\<lambda>(r, d3). (r \<lparr>sr_deleted_trades := fst (fst (cleaned env prints (a \<lparr>ta_broker_utc_offset := off\<rparr>) (hs_deals h) from until auth e))\<rparr>, d3))
      (ingest_mt5_deals env prints draw now (a \<lparr>ta_broker_utc_offset := off\<rparr>) (hs_deals h)
        (snd (fst (cleaned env prints (a \<lparr>ta_broker_utc_offset := off\<rparr>) (hs_deals h) from until auth e)))
        (snd (cleaned env prints (a \<lparr>ta_broker_utc_offset := off\<rparr>) (hs_deals h) from until auth e))) = Inr (r, d')"
    using assms unfolding ingest_mt5_core_history_result_def Let_def by (elim bindD) (simp add: case_prod_beta')
  define a1 where "a1 = a \<lparr>ta_broker_utc_offset := off\<rparr>"
  define c where "c = cleaned env prints a1 (hs_deals h) from until auth e"
  have trades: "kd_trades e = kd_trades d" using with_snapshot_trades [OF e] by simp
  have left: "snd c = e \<lparr>kd_trades := left_trades prints (ta_id a) (hs_deals h) from until auth (kd_trades d)\<rparr>"
    unfolding c_def cleaned_left by (simp add: a1_def trades)
  have n: "length (left_trades prints (ta_id a) (hs_deals h) from until auth (kd_trades d)) + fst (fst c) = length (kd_trades d)"
    using cleaned_count [of prints a1 "hs_deals h" "from" until auth e env] by (simp add: c_def a1_def trades)
  obtain x where x: "ingest_mt5_deals env prints draw now a1 (hs_deals h) (snd (fst c)) (snd c) = Inr (x, d')" and r: "r = x \<lparr>sr_deleted_trades := fst (fst c)\<rparr>"
    using r [folded a1_def, folded c_def] by (auto simp: map_Inr_eq)
  obtain rows i u ds d1 where rows: "map_result (\<lambda>(i, x). deal_row env prints (draw i) now a1 True x) (enumerate 0 (map (mt5_deal prints) (hs_deals h))) = Inr rows"
    and b: "bulk_upsert_closed_trades (List.map_filter id rows) (snd c) = Inr ((i, u, ds), d1)"
    and d': "d' = put_account (set_account_last_synced_at now a1) d1" and iu: "sr_inserted_trades x = i" "sr_updated_trades x = u"
    using x by (auto simp: ingest_mt5_deals_def ingest_closed_deals_def bind_Inr_eq)
  have acc: "deal_row env prints k now a1 True x = deal_row env prints k now a True x" for k x by (rule deal_row_account) (simp add: a1_def)
  note f = bulk_upsert_fold [OF b]
  show ?thesis
  proof (rule that)
    show "history_rows env prints draw now a (hs_deals h) = Inr rows" using rows by (simp add: history_rows_def acc)
    show "kd_trades d' = fold upsert_trade (List.map_filter id rows) (left_trades prints (ta_id a) (hs_deals h) from until auth (kd_trades d))"
      using f by (simp add: d' left)
    show "sr_inserted_trades r + sr_updated_trades r = length (List.map_filter id rows)" using f by (simp add: r iu)
    show "length (kd_trades d') + sr_deleted_trades r = length (kd_trades d) + sr_inserted_trades r" using f [THEN conjunct2, THEN conjunct2] n by (simp add: r iu d' left)
  qed (use o e in auto)
qed


text \<open>What a synchronisation leaves of the trades.\<close>

lemma history_row_facts:
  assumes "history_rows env prints draw now a deals = Inr rows" "r \<in> set (List.map_filter id rows)"
  shows "tr_account_id r = ta_id a \<and> tr_broker_trade_id r \<in> valid_tickets prints deals"
proof -
  obtain k x where x: "x \<in> set deals" "deal_row env prints k now a True (mt5_deal prints x) = Inr (Some r)"
  proof -
    have "Some r \<in> set rows" using assms(2) by (auto simp: List.map_filter_def)
    then obtain p where p: "p \<in> set (enumerate 0 (map (mt5_deal prints) deals))" "(\<lambda>(i, x). deal_row env prints (draw i) now a True x) p = Inr (Some r)"
      using map_result_Inr [OF assms(1) [unfolded history_rows_def]] by fastforce
    then have "snd p \<in> set (map (mt5_deal prints) deals)" by (metis (no_types) enumerate_eq_zip in_set_zipE prod.collapse)
    then show ?thesis using p(2) that by (auto split: prod.splits)
  qed
  have "ticket_of prints x \<noteq> []" using x(2) unfolding deal_row_def mt5_deal_id Let_def by (elim ifD) auto
  then show ?thesis using deal_row_Some [OF x(2)] x(1) by (auto simp: mt5_deal_id valid_tickets_def)
qed

lemma history_row_of:
  assumes rows: "history_rows env prints draw now a deals = Inr rows"
    and x: "x \<in> set deals" "deal_row env prints k t a True (mt5_deal prints x) = Inr (Some row)"
  shows "\<exists>r. r \<in> set (List.map_filter id rows) \<and> same_content r row"
proof -
  have "mt5_deal prints x \<in> snd ` set (enumerate 0 (map (mt5_deal prints) deals))"
    using x(1) by (metis image_eqI list.set_map map_snd_enumerate)
  then obtain i where i: "(i, mt5_deal prints x) \<in> set (enumerate 0 (map (mt5_deal prints) deals))" by auto
  obtain v where v: "v \<in> set rows" "deal_row env prints (draw i) now a True (mt5_deal prints x) = Inr v"
    using map_result_all [OF rows [unfolded history_rows_def] i] by auto
  obtain r where "v = Some r" "same_content r row"
    using deal_row_again [OF v(2), of k t] x(2) by (auto elim: option.rel_cases)
  then show ?thesis using v(1) by (force simp: List.map_filter_def)
qed

lemma no_tickets_no_rows:
  assumes "history_rows env prints draw now a deals = Inr rows" "valid_tickets prints deals = {}"
  shows "List.map_filter id rows = []"
  using history_row_facts [OF assms(1)] assms(2) by (cases "List.map_filter id rows") auto


text \<open>Deals with distinct tickets make rows with distinct keys.\<close>

lemma somes_simps [simp]: "List.map_filter id [] = []" "List.map_filter id (None # vs) = List.map_filter id vs"
  "List.map_filter id (Some v # vs) = v # List.map_filter id vs"
  by (simp_all add: List.map_filter_def)

lemma map_result_distinct:
  assumes "map_result f xs = Inr vs" "\<And>x r. f x = Inr (Some r) \<Longrightarrow> key r = g x" "distinct (map g xs)"
  shows "distinct (map key (List.map_filter id vs)) \<and> key ` set (List.map_filter id vs) \<subseteq> g ` set xs"
  using assms
proof (induction xs arbitrary: vs)
  case (Cons x xs)
  obtain v us where 1: "f x = Inr v" "map_result f xs = Inr us" "vs = v # us" using Cons.prems(1) by (auto split: sum.splits)
  define rs where "rs = List.map_filter id us"
  have rs: "distinct (map key rs)" "key ` set rs \<subseteq> g ` set xs"
    using Cons.IH [OF 1(2)] Cons.prems(2,3) unfolding rs_def by (metis distinct.simps(2) list.simps(9))+
  have e: "List.map_filter id vs = (case v of None \<Rightarrow> rs | Some r \<Rightarrow> r # rs)" unfolding 1(3) rs_def by (simp split: option.split)
  have v: "key r = g x" if "v = Some r" for r by (rule Cons.prems(2)) (simp add: 1(1) that)
  show ?case using rs Cons.prems(3) v unfolding e by (auto split: option.split)
qed simp

lemma history_keys_distinct:
  assumes "history_rows env prints draw now a deals = Inr rows" "distinct (map (ticket_of prints) deals)"
  shows "distinct (map trade_key (List.map_filter id rows))"
proof -
  let ?g = "\<lambda>p. (ta_id a, extract_broker_trade_id prints (snd p))"
  have "trade_key r = ?g p" if "(\<lambda>(i, x). deal_row env prints (draw i) now a True x) p = Inr (Some r)" for p r
    using that deal_row_Some by (cases p) (auto simp: trade_key_def)
  moreover have "map ?g (enumerate 0 (map (mt5_deal prints) deals)) = map (\<lambda>x. (ta_id a, ticket_of prints x)) deals"
  proof -
    have "map ?g ps = map (\<lambda>x. (ta_id a, extract_broker_trade_id prints x)) (map snd ps)" for ps :: "(nat \<times> deal) list" by simp
    from this [of "enumerate 0 (map (mt5_deal prints) deals)"] show ?thesis
      by (simp only: map_snd_enumerate map_map comp_def mt5_deal_id)
  qed
  moreover have "distinct (map (\<lambda>x. (ta_id a, ticket_of prints x)) deals)" using assms(2) by (simp add: distinct_map inj_on_def)
  ultimately show ?thesis using map_result_distinct [OF assms(1) [unfolded history_rows_def], of trade_key ?g] by simp
qed

section \<open>Storing rows again\<close>

definition settled :: "trade list \<Rightarrow> trade \<Rightarrow> bool" where
  "settled ts r \<longleftrightarrow> trade_key r \<in> trade_key ` set ts \<and> list_all (\<lambda>t. trade_key t = trade_key r \<longrightarrow> overwrite r t = t) ts"

lemma overwrite_again [simp]: "overwrite r (overwrite r t) = overwrite r t" "overwrite r r = r"
  by (simp_all add: overwrite_def coalesce_def split: option.split)

lemma settled_after:
  assumes "distinct (map trade_key rows)" "r \<in> set rows"
  shows "settled (fold upsert_trade rows ts) r"
proof -
  have the_row: "s = r" if "s \<in> set rows" "trade_key s = trade_key r" for s
    using assms that by (auto simp: distinct_map inj_on_def)
  have "overwrite r t = t" if t: "t \<in> set (fold upsert_trade rows ts)" "trade_key t = trade_key r" for t
  proof -
    consider u where "t = stored_as rows u" | "t \<in> set rows"
      using t(1) unfolding fold_upsert_stored [OF assms(1)] by (auto simp: new_rows_def)
    then show ?thesis
    proof cases
      case 1
      show ?thesis
      proof (cases "find (\<lambda>s. trade_key s = trade_key u) rows")
        case None
        then have "t = u" "\<not> (\<exists>s. s \<in> set rows \<and> trade_key s = trade_key u)" using 1 by (simp add: stored_as_def) (use None in \<open>simp add: find_None_iff\<close>)
        then show ?thesis using assms(2) t(2) by metis
      next
        case (Some s)
        then have o: "t = overwrite s u" using 1 by (simp add: stored_as_def)
        have "s \<in> set rows" using Some by (auto simp: find_Some_iff)
        then have "s = r" using the_row o t(2) by simp
        then show ?thesis using o by simp
      qed
    next
      case 2
      show ?thesis using the_row [OF 2 t(2)] by simp
    qed
  qed
  moreover have "trade_key r \<in> set (map trade_key (fold upsert_trade rows ts))"
    unfolding fold_upsert_keys [OF assms(1)] using assms(2) by (auto simp: new_rows_def)
  ultimately show ?thesis by (simp add: settled_def list_all_iff)
qed

lemma upsert_settled: "settled ts r \<Longrightarrow> upsert_trade r ts = ts"
  unfolding settled_def upsert_trade_map by (auto simp: new_rows_def list_all_iff intro: map_idI)

lemma fold_upsert_settled: "list_all (settled ts) rows \<Longrightarrow> fold upsert_trade rows ts = ts"
  by (induction rows) (simp_all add: upsert_settled)

lemma upsert_statements_again:
  "list_all (settled ts) (concat chs) \<Longrightarrow> distinct (map trade_key (concat chs)) \<Longrightarrow> distinct (map tr_id ts) \<Longrightarrow>
    upsert_statements chs ts = Inr (0, length (concat chs), ts)"
proof (induction chs)
  case (Cons rows chs)
  have "filter (\<lambda>r. \<not> list_ex (\<lambda>t. same_trade t r) ts) rows = []"
    using Cons.prems(1) by (auto simp: filter_empty_conv list_ex_same list_all_iff settled_def)
  moreover have "distinct (map (\<lambda>r. (tr_account_id r, tr_broker_trade_id r)) rows)" using Cons.prems(2) by (simp add: trade_key_def [abs_def])
  ultimately have "upsert_statement rows ts = Inr (0, length rows, ts)"
    using Cons.prems by (simp add: upsert_statement_def Let_def fold_upsert_settled)
  then show ?case using Cons by simp
qed simp

lemma settled_same_content: "same_content r s \<Longrightarrow> settled ts r \<Longrightarrow> settled ts s"
  by (simp add: settled_def same_content_key same_content_overwrite)

lemma all_settled_again: "list_all2 same_content rs ss \<Longrightarrow> list_all (settled ts) rs \<Longrightarrow> list_all (settled ts) ss"
  by (induction rule: list_all2_induct) (auto intro: settled_same_content)


section \<open>Ingesting a history again\<close>

lemma with_snapshot_total: "with_snapshot env a snap d = Inr e \<Longrightarrow> \<exists>f. with_snapshot env b snap c = Inr f"
  unfolding with_snapshot_def ingest_mt5_snapshots.simps ingest_snapshot_def
  by (elim optionD ifD bindD) (auto simp: bind_Inr_eq split: option.splits)

lemma history_left:
  assumes "ingest_mt5_core_history_result env prints draw now a h from until True d = Inr (r, d')"
  shows "left_trades prints (ta_id a) (hs_deals h) from until True (kd_trades d') = kd_trades d'"
proof -
  obtain rows where rows: "history_rows env prints draw now a (hs_deals h) = Inr rows"
    and d': "kd_trades d' = fold upsert_trade (List.map_filter id rows) (left_trades prints (ta_id a) (hs_deals h) from until True (kd_trades d))"
    using assms by (rule history_Inr)
  have "list_all (\<lambda>t. \<not> gone_trade prints (ta_id a) (hs_deals h) from until t) (kd_trades d')" if "valid_tickets prints (hs_deals h) \<noteq> {}"
    unfolding d'
  proof (rule fold_upsert_all)
    show "list_all (\<lambda>t. \<not> gone_trade prints (ta_id a) (hs_deals h) from until t) (left_trades prints (ta_id a) (hs_deals h) from until True (kd_trades d))"
      using that by (simp add: left_trades_def list_all_iff)
  qed (use history_row_facts [OF rows] in \<open>auto simp: gone_trade_def overwrite_def\<close>)
  then show ?thesis by (auto simp: left_trades_def list_all_iff intro: filter_True)
qed

lemma history_forward:
  assumes o: "as_int (jor (hs_broker_offset_seconds h) (J_int 0)) = Inr off"
    and e: "with_snapshot env (a \<lparr>ta_broker_utc_offset := off\<rparr>) (hs_snapshot h) (put_account (a \<lparr>ta_broker_utc_offset := off\<rparr>) d) = Inr e"
    and rows: "history_rows env prints draw now a (hs_deals h) = Inr rows"
    and u: "upsert_statements (chunks (List.map_filter id rows)) (left_trades prints (ta_id a) (hs_deals h) from until auth (kd_trades d)) = Inr (i, u, ts)"
  shows "\<exists>r d'. ingest_mt5_core_history_result env prints draw now a h from until auth d = Inr (r, d') \<and> sr_inserted_trades r = i
    \<and> kd_trades d' = ts \<and> length (left_trades prints (ta_id a) (hs_deals h) from until auth (kd_trades d)) + sr_deleted_trades r = length (kd_trades d)"
proof -
  define a1 where "a1 = a \<lparr>ta_broker_utc_offset := off\<rparr>"
  define c where "c = cleaned env prints a1 (hs_deals h) from until auth e"
  have trades: "kd_trades e = kd_trades d" using with_snapshot_trades [OF e] by simp
  have left: "snd c = e \<lparr>kd_trades := left_trades prints (ta_id a) (hs_deals h) from until auth (kd_trades d)\<rparr>"
    unfolding c_def cleaned_left by (simp add: a1_def trades)
  have n: "length (left_trades prints (ta_id a) (hs_deals h) from until auth (kd_trades d)) + fst (fst c) = length (kd_trades d)"
    using cleaned_count [of prints a1 "hs_deals h" "from" until auth e env] by (simp add: c_def a1_def trades)
  have acc: "deal_row env prints k now a1 True x = deal_row env prints k now a True x" for k x by (rule deal_row_account) (simp add: a1_def)
  have b: "\<exists>ds. bulk_upsert_closed_trades (List.map_filter id rows) (snd c) = Inr ((i, u, ds), (snd c) \<lparr>kd_trades := ts\<rparr>)"
    using u by (simp add: bulk_upsert_closed_trades_def left)
  then obtain ds where b: "bulk_upsert_closed_trades (List.map_filter id rows) (snd c) = Inr ((i, u, ds), (snd c) \<lparr>kd_trades := ts\<rparr>)" ..
  have "\<exists>x. ingest_mt5_deals env prints draw now a1 (hs_deals h) (snd (fst c)) (snd c)
      = Inr (x, put_account (set_account_last_synced_at now a1) ((snd c) \<lparr>kd_trades := ts\<rparr>)) \<and> sr_inserted_trades x = i"
    using rows b by (simp add: ingest_mt5_deals_def ingest_closed_deals_def history_rows_def acc)
  then obtain x where x: "ingest_mt5_deals env prints draw now a1 (hs_deals h) (snd (fst c)) (snd c)
      = Inr (x, put_account (set_account_last_synced_at now a1) ((snd c) \<lparr>kd_trades := ts\<rparr>))" "sr_inserted_trades x = i" by blast
  have "ingest_mt5_core_history_result env prints draw now a h from until auth d
      = Inr (x \<lparr>sr_deleted_trades := fst (fst c)\<rparr>, put_account (set_account_last_synced_at now a1) ((snd c) \<lparr>kd_trades := ts\<rparr>))"
    using x by (simp add: ingest_mt5_core_history_result_def o Let_def e case_prod_beta' flip: a1_def c_def) (simp add: a1_def c_def e x case_prod_beta')
  then show ?thesis using x(2) n by simp
qed

lemma history_again:
  assumes ok: "acc_ok d1" and distinct: "distinct (map (ticket_of prints) (hs_deals h))" and b: "ta_id b = ta_id a"
    and r: "ingest_mt5_core_history_result env prints draw now a h from until True d = Inr (r, d1)"
  shows "\<exists>q d2. ingest_mt5_core_history_result env prints draw' now' b h from until True d1 = Inr (q, d2)
    \<and> sr_inserted_trades q = 0 \<and> sr_deleted_trades q = 0 \<and> kd_trades d2 = kd_trades d1"
proof -
  obtain rows off e where rows: "history_rows env prints draw now a (hs_deals h) = Inr rows"
    and d1: "kd_trades d1 = fold upsert_trade (List.map_filter id rows) (left_trades prints (ta_id a) (hs_deals h) from until True (kd_trades d))"
    and o: "as_int (jor (hs_broker_offset_seconds h) (J_int 0)) = Inr off"
    and e: "with_snapshot env (a \<lparr>ta_broker_utc_offset := off\<rparr>) (hs_snapshot h) (put_account (a \<lparr>ta_broker_utc_offset := off\<rparr>) d) = Inr e"
    using r by (rule history_Inr)
  define rs where "rs = List.map_filter id rows"
  have keys: "distinct (map trade_key rs)" using history_keys_distinct [OF rows distinct] by (simp add: rs_def)
  have all: "list_all (settled (kd_trades d1)) rs"
    unfolding d1 rs_def [symmetric] by (auto simp: list_all_iff intro: settled_after [OF keys])
  obtain ws where ws: "history_rows env prints draw' now' b (hs_deals h) = Inr ws" "list_all2 (rel_option same_content) rows ws"
    using history_rows_again [OF rows b] by blast
  have same: "list_all2 same_content rs (List.map_filter id ws)" unfolding rs_def by (rule somes_again [OF ws(2)])
  have left: "left_trades prints (ta_id b) (hs_deals h) from until True (kd_trades d1) = kd_trades d1" using history_left [OF r] b by simp
  have "upsert_statements (chunks (List.map_filter id ws)) (kd_trades d1) = Inr (0, length (List.map_filter id ws), kd_trades d1)"
    using upsert_statements_again [of "kd_trades d1" "chunks (List.map_filter id ws)"] all_settled_again [OF same all] keys same_content_keys [OF same] ok
    by (simp add: concat_chunks acc_ok_def trades_ok_def)
  moreover obtain f where f: "with_snapshot env (b \<lparr>ta_broker_utc_offset := off\<rparr>) (hs_snapshot h) (put_account (b \<lparr>ta_broker_utc_offset := off\<rparr>) d1) = Inr f"
    using with_snapshot_total [OF e] by blast
  moreover note history_forward [OF o f ws(1), of "from" until True, unfolded left]
  ultimately obtain q d2 where "ingest_mt5_core_history_result env prints draw' now' b h from until True d1 = Inr (q, d2)" "sr_inserted_trades q = 0"
      "kd_trades d2 = kd_trades d1" "length (kd_trades d1) + sr_deleted_trades q = length (kd_trades d1)"
    by blast
  then show ?thesis by simp
qed


section \<open>An account that is not made ready\<close>

text \<open>An automatic account without its data ready, and without a first import that waits to be sent.\<close>

definition stuck_db :: "uuid \<Rightarrow> accounts_db \<Rightarrow> bool" where
  "stuck_db k d \<longleftrightarrow> list_all (\<lambda>a. ta_id a = k \<longrightarrow> ta_import_method a = Import_auto_sync \<and> \<not> ta_is_data_ready_for_stats a) (kd_accounts d)
     \<and> k \<notin> pending d"

lemma acc_update_stuck: "acc_update i K d d' \<Longrightarrow> i \<noteq> k \<Longrightarrow> k \<notin> K \<Longrightarrow> stuck_db k d \<Longrightarrow> stuck_db k d'"
proof (induction rule: acc_update.induct)
  case (change a d b)
  then have "list_all (\<lambda>x. ta_id x = k \<longrightarrow> ta_import_method x = Import_auto_sync \<and> \<not> ta_is_data_ready_for_stats x) (kd_accounts (put_account b d))"
    by (auto simp: stuck_db_def list_all_iff kept_def not_readying_def dest!: trading_accounts.in_put)
  then show ?case using change by (simp add: stuck_db_def pending_def)
next
  case (enter b d d')
  then show ?case by (auto simp: stuck_db_def pending_def add_account_def split: sum.splits if_splits)
next
  case (leave d j)
  then show ?case by (auto simp: stuck_db_def pending_def hard_delete_account_def list_all_iff)
next
  case (schedule j d now)
  then show ?case by (auto simp: stuck_db_def pending_def schedule_bootstrap_dispatch_def Let_def list_all_iff split: if_splits)
next
  case (dispatch j d i)
  then have "pending (put_dispatch i d) \<subseteq> pending d" by (force simp: pending_def dest!: bootstrap_dispatches.in_put)
  then show ?case using dispatch by (auto simp: stuck_db_def)
qed (simp_all add: stuck_db_def pending_def upsert_account_snapshot_for_date_def Let_def)

lemma acc_updates_stuck: "acc_updates i K d d' \<Longrightarrow> i \<noteq> k \<Longrightarrow> k \<notin> K \<Longrightarrow> stuck_db k d \<Longrightarrow> stuck_db k d'"
  by (induction rule: rtranclp_induct) (auto intro: acc_update_stuck)

definition for_another :: "uuid \<Rightarrow> account_task \<Rightarrow> bool" where
  "for_another k t = (case t of Bootstrap_task j n \<Rightarrow> j \<noteq> k | Sync_task j \<Rightarrow> True)"

definition stuck :: "uuid \<Rightarrow> acc_world \<Rightarrow> bool" where
  "stuck k w \<longleftrightarrow> stuck_db k (aw_db w) \<and> list_all (for_another k) (aw_queue w)"

text \<open>A step that neither creates the account nor connects it again.\<close>

definition no_reconnect :: "acc_env \<Rightarrow> import_env \<Rightarrow> uuid \<Rightarrow> acc_world \<Rightarrow> acc_world \<Rightarrow> bool" where
  "no_reconnect env ie k w w' \<longleftrightarrow> (\<exists>q c. w' = account_run env ie q c w \<and> kq_id q \<noteq> k
     \<and> (case c of Connect_account p \<Rightarrow> k \<notin> loud_accounts env q w c | _ \<Rightarrow> True))"

lemma stuck_not_loud: "stuck k w \<Longrightarrow> (case c of Connect_account p \<Rightarrow> k \<notin> loud_accounts env q w c | _ \<Rightarrow> True) \<Longrightarrow> k \<notin> loud_accounts env q w c"
  by (cases c) (auto simp: loud_accounts_def stuck_def list_all_length for_another_def split: account_task.splits)

lemma tasks_for_another: "set ts \<subseteq> (\<lambda>j. Bootstrap_task j 0) ` pending d \<Longrightarrow> stuck_db k d \<Longrightarrow> list_all (for_another k) ts"
  by (auto simp: list_all_iff for_another_def stuck_db_def)

lemma run_task_queue: "for_another k t \<Longrightarrow> list_all (for_another k) (fst (run_task env ie q t d))"
  by (auto simp: run_task_def for_another_def split: account_task.splits prod.splits task_end.splits)

lemma stuck_queue:
  assumes ok: "acc_ok (aw_db w)" and s: "stuck k w" and q: "kq_id q \<noteq> k" "k \<notin> loud_accounts env q w c"
  shows "list_all (for_another k) (aw_queue (account_run env ie q c w))"
proof -
  have old: "list_all (for_another k) (aw_queue w)" "stuck_db k (aw_db w)" using s by (simp_all add: stuck_def)
  have same: "aw_queue (or_same w r) = aw_queue w" for r by (simp add: or_same_def split: sum.split)
  show ?thesis
  proof (cases c)
    case (Connect_account p)
    show ?thesis
    proof (cases "connect_account env (kq_id q) (kq_now q) (kq_user q) p (aw_db w)")
      case (Inr x)
      obtain a d1 where x: "x = (a, d1)" by (metis surj_pair)
      obtain ts d2 where 2: "dispatch_bootstrap_account (kq_now q) (kq_broken q (ta_id a)) (ta_id a) d1 = (ts, d2)" by (metis surj_pair)
      have "k \<notin> {ta_id a}" using q(2) Inr x by (simp add: Connect_account loud_accounts_def)
      then have "stuck_db k d1" using acc_updates_stuck [OF updates_connect [OF ok Inr [unfolded x]] q(1)] old(2) by blast
      then have "list_all (for_another k) ts" using dispatch_bootstrap_pending [OF 2] tasks_for_another by blast
      then show ?thesis using old Inr x 2 by (simp add: Connect_account account_run_def)
    qed (simp add: Connect_account account_run_def old)
  next
    case Dispatch_pending
    obtain ts d1 where d: "dispatch_pending_bootstraps (kq_now q) (kq_broken q) (aw_db w) = (ts, d1)" by (metis surj_pair)
    have "set ts \<subseteq> (\<lambda>j. Bootstrap_task j 0) ` pending (aw_db w)" using d updates_dispatch_all by (simp add: dispatch_pending_bootstraps_def)
    then show ?thesis using tasks_for_another [OF _ old(2)] old by (simp add: Dispatch_pending d account_run_def Let_def)
  next
    case (Run_task i)
    have "list_all (for_another k) (take i (aw_queue w) @ drop (Suc i) (aw_queue w))" "i < length (aw_queue w) \<Longrightarrow> for_another k (aw_queue w ! i)"
      using old by (auto simp: list_all_iff dest: in_set_takeD in_set_dropD)
    then show ?thesis using run_task_queue [of k "aw_queue w ! i" env ie q "aw_db w"] old
      by (auto simp: Run_task account_run_def Let_def split: prod.split)
  next
    case (Request_sync i)
    then show ?thesis using old by (auto simp: account_run_def for_another_def split: sum.split sync_answer.split)
  qed (simp_all add: account_run_def Let_def same old)
qed

lemma stuck_step:
  assumes "acc_ok (aw_db w)" "stuck k w" "no_reconnect env ie k w w'"
  shows "acc_ok (aw_db w') \<and> stuck k w'"
proof -
  obtain q c where w': "w' = account_run env ie q c w" and q: "kq_id q \<noteq> k" "k \<notin> loud_accounts env q w c"
    using assms(3) stuck_not_loud [OF assms(2)] unfolding no_reconnect_def by blast
  have u: "acc_updates (kq_id q) (loud_accounts env q w c) (aw_db w) (aw_db w')" unfolding w' by (rule account_run_updates [OF assms(1)])
  then have "stuck_db k (aw_db w')" using acc_updates_stuck q assms(2) by (auto simp: stuck_def)
  then show ?thesis using acc_updates_ok [OF u assms(1)] stuck_queue [OF assms(1,2) q] by (simp add: stuck_def w')
qed

interpretation stuck_accounts: invariant_system "\<lambda>w. acc_ok (aw_db w) \<and> stuck k w" "no_reconnect env ie k" "\<lambda>w. acc_ok (aw_db w) \<and> stuck k w" for env ie k
  by unfold_locales (use stuck_step in blast)+


section \<open>Imports\<close>

lemma upsert_closed_trade_Inr:
  assumes "upsert_closed_trade r d = Inr (b, d')"
  shows "d' = d \<lparr>kd_trades := kd_trades d @ (if b then [r] else [])\<rparr> \<and> trade_key r \<in> trade_key ` set (kd_trades d')"
  using assms by (auto simp: upsert_closed_trade_def list_ex_same split: if_splits)

lemma imported_key: "trade_key (imported_trade k now a t) = (ta_id a, pt_broker_trade_id t)"
  by (simp add: imported_trade_def trade_key_def)

lemma import_trades_Inr:
  "import_trades env draw now a ts d = Inr (days, d') \<Longrightarrow> \<exists>rows. d' = d \<lparr>kd_trades := kd_trades d @ rows\<rparr> \<and> length rows = length days
    \<and> (\<lambda>p. (ta_id a, pt_broker_trade_id (snd p))) ` set ts \<subseteq> trade_key ` set (kd_trades d')"
proof (induction ts arbitrary: d days)
  case (Cons p ts)
  obtain i t where p: "p = (i, t)" by (metis surj_pair)
  obtain b d1 days1 where 1: "upsert_closed_trade (imported_trade (draw i) now a t) d = Inr (b, d1)"
    and 2: "import_trades env draw now a ts d1 = Inr (days1, d')" and day: "length days = (if b then Suc (length days1) else length days1)"
    using Cons.prems unfolding p import_trades.simps
    by (elim bindD) (auto simp: bind_Inr_eq map_Inr_eq split: if_splits)
  obtain rows where "d' = d1 \<lparr>kd_trades := kd_trades d1 @ rows\<rparr>" "length rows = length days1"
      "(\<lambda>p. (ta_id a, pt_broker_trade_id (snd p))) ` set ts \<subseteq> trade_key ` set (kd_trades d')" using Cons.IH [OF 2] by blast
  then show ?case using upsert_closed_trade_Inr [OF 1] day
    by (intro exI [of _ "(if b then [imported_trade (draw i) now a t] else []) @ rows"]) (auto simp: p imported_key)
qed simp

lemma import_trades_again:
  "(\<lambda>p. (ta_id a, pt_broker_trade_id (snd p))) ` set ts \<subseteq> trade_key ` set (kd_trades d) \<Longrightarrow> import_trades env draw now a ts d = Inr ([], d)"
proof (induction ts)
  case (Cons p ts)
  then have "upsert_closed_trade (imported_trade (draw i) now a (snd p)) d = Inr (False, d)" for i
    by (simp add: upsert_closed_trade_def list_ex_same imported_key)
  then show ?case using Cons by (cases p) simp
qed simp

lemma balance_snapshot_frame [simp]: "kd_trades (balance_snapshot k day b d) = kd_trades d" "kd_accounts (balance_snapshot k day b d) = kd_accounts d"
  by (simp_all add: balance_snapshot_def upsert_account_snapshot_for_date_def Let_def)

lemma fold_balance_frame: "kd_trades (fold (\<lambda>(day, b). balance_snapshot k day b) xs d) = kd_trades d
    \<and> kd_accounts (fold (\<lambda>(day, b). balance_snapshot k day b) xs d) = kd_accounts d"
  by (induction xs arbitrary: d) auto

lemma import_snapshots_frame: "import_snapshots env now a p d = Inr d' \<Longrightarrow> kd_trades d' = kd_trades d \<and> kd_accounts d' = kd_accounts d"
  unfolding import_snapshots_def Let_def
  by (elim bindD) (auto simp: fold_balance_frame map_Inr_eq split: option.splits)

text \<open>The account an import is for, and that importing again finds it.\<close>

definition import_target :: "uuid \<Rightarrow> uuid option \<Rightarrow> parsed_meta \<Rightarrow> trading_account \<Rightarrow> bool" where
  "import_target u target m a \<longleftrightarrow> ta_user_id a = u \<and> (case target of Some i \<Rightarrow> ta_id a = i
     | None \<Rightarrow> ta_meta_account_id a = csv_meta_id (or_string (pm_broker_server m) ''CSVServer'') (or_string (pm_account_number m) ''Imported''))"

lemma get_account_by_user_and_meta_id_Some:
  "get_account_by_user_and_meta_id d u x = Some a \<Longrightarrow> a \<in> set (kd_accounts d) \<and> ta_user_id a = u \<and> ta_meta_account_id a = x"
  by (auto simp: get_account_by_user_and_meta_id_def find_Some_iff)

lemma import_account_target:
  assumes "import_account k now u zone name target m d = Inr (a, d')"
  shows "import_target u target m a \<and> a \<in> set (kd_accounts d') \<and> kd_trades d' = kd_trades d"
proof (cases target)
  case (Some i)
  then obtain b where "get_account d u i = Inr b" "a = (if py_strip name = [] then b else b \<lparr>ta_display_name := Some (py_strip name)\<rparr>)" "d' = put_account a d"
    using assms by (auto simp: import_account_def bind_Inr_eq Let_def http_raise_def split: if_splits)
  then show ?thesis using get_account_Inr [of d u i b] Some by (auto simp: import_target_def intro: in_put_account)
next
  case None
  define x where "x = csv_meta_id (or_string (pm_broker_server m) ''CSVServer'') (or_string (pm_account_number m) ''Imported'')"
  show ?thesis
  proof (cases "get_account_by_user_and_meta_id d u x")
    case None
    then show ?thesis using assms \<open>target = None\<close>
      by (auto simp: import_account_def create_csv_account_def import_target_def Let_def map_Inr_eq add_account_def simp flip: x_def split: sum.splits if_splits)
  next
    case (Some b)
    have b: "b \<in> set (kd_accounts d)" "ta_user_id b = u" "ta_meta_account_id b = x" using get_account_by_user_and_meta_id_Some [OF Some] by simp_all
    have "ta_id a = ta_id b \<and> ta_user_id a = u \<and> ta_meta_account_id a = x \<and> d' = put_account a d"
      using assms Some b \<open>target = None\<close> by (auto simp: import_account_def create_csv_account_def csv_ready_def Let_def simp flip: x_def)
    then show ?thesis using in_put_account [OF b(1)] \<open>target = None\<close> by (simp add: import_target_def x_def)
  qed
qed

lemma import_target_unique:
  assumes "acc_ok d" "a \<in> set (kd_accounts d)" "b \<in> set (kd_accounts d)" "import_target u target m a" "import_target u target m b"
  shows "ta_id b = ta_id a"
proof (cases target)
  case None
  then have "(ta_user_id b, ta_meta_account_id b) = (ta_user_id a, ta_meta_account_id a)" using assms(4,5) by (simp add: import_target_def)
  then have "b = a" using assms(1-3) unfolding acc_ok_def account_rows_ok_def by (metis (no_types, lifting) distinct_map inj_onD)
  then show ?thesis by simp
qed (use assms(4,5) in \<open>simp add: import_target_def\<close>)

lemma confirm_Inr:
  assumes "confirm_csv_import env ie q f p z n t l d = Inr (r, d')"
  obtains a d1 days d2 d3 target where "target_of t = Inr target"
    "import_account (iq_account q) (iq_now q) (iq_user q) z n target (pr_account_meta (parse_report env ie ''Europe/Riga'' l)) d = Inr (a, d1)"
    "import_trades env (iq_draw q) (iq_now q) a (enumerate 0 (pr_trades (parse_report env ie ''Europe/Riga'' l))) d1 = Inr (days, d2)"
    "import_snapshots env (iq_now q) a (parse_report env ie ''Europe/Riga'' l) d2 = Inr d3"
    "ir_inserted r = length days" "d' = put_account ((csv_ready a) \<lparr>ta_last_synced_at := Some (iq_now q)\<rparr>) d3"
  using assms unfolding confirm_csv_import_def confirm_import_def Let_def
  by (elim ifD bindD) (auto simp: http_raise_def bind_Inr_eq split: list.splits)


lemma import_again_target:
  assumes ok: "acc_ok d" and c: "confirm_csv_import env ie q f p z n t l d = Inr (r, d')"
    and 1: "import_account k now u z n target m d = Inr (a, d1)" and d': "d' = put_account ((csv_ready a) \<lparr>ta_last_synced_at := s\<rparr>) d3"
    and d3: "kd_accounts d3 = kd_accounts d1" and 2: "import_account k' now' u z' n' target m d' = Inr (b, e1)"
  shows "ta_id b = ta_id a"
proof -
  let ?a = "(csv_ready a) \<lparr>ta_last_synced_at := s\<rparr>"
  have ok': "acc_ok d'" using acc_updates_ok [OF updates_import [OF ok c] ok] .
  have a: "import_target u target m a" "a \<in> set (kd_accounts d1)" using import_account_target [OF 1] by simp_all
  then have a': "?a \<in> set (kd_accounts d')" "import_target u target m ?a" "ta_id ?a = ta_id a"
    unfolding d' using in_put_account [of a d3 ?a] d3 by (auto simp: import_target_def csv_ready_def split: option.splits)
  show ?thesis
  proof (cases target)
    case (Some i)
    then show ?thesis using import_account_target [OF 2] a(1) by (simp add: import_target_def)
  next
    case None
    define x where "x = csv_meta_id (or_string (pm_broker_server m) ''CSVServer'') (or_string (pm_account_number m) ''Imported'')"
    have "ta_user_id ?a = u \<and> ta_meta_account_id ?a = x" using a'(2) None by (simp add: import_target_def x_def)
    then have "get_account_by_user_and_meta_id d' u x \<noteq> None"
      using a'(1) unfolding get_account_by_user_and_meta_id_def find_None_iff by blast
    then obtain y where y: "get_account_by_user_and_meta_id d' u x = Some y" by blast
    have "y \<in> set (kd_accounts d')" "import_target u target m y"
      using get_account_by_user_and_meta_id_Some [OF y] None by (simp_all add: import_target_def x_def)
    then have "ta_id y = ta_id a" using import_target_unique [OF ok' a'(1) _ a'(2)] a'(3) by metis
    moreover have "ta_id b = ta_id y"
      using 2 y None by (auto simp: import_account_def create_csv_account_def csv_ready_def Let_def simp flip: x_def)
    ultimately show ?thesis by simp
  qed
qed

end
