(* ===== verification/Account_Properties.thy ===== *)
theory Account_Properties
  imports Account_Mirror
begin

text \<open>The properties of the accounts of the journal: their invariant, synchronisations, imports and the repair of an account.\<close>

section \<open>A small journal\<close>

definition journal_env :: acc_env where
  "journal_env = \<lparr>ve_iso = (\<lambda>_. None), ve_local_date = (\<lambda>_ t. t div seconds 86400), ve_zone_known = (\<lambda>_. True), ve_encrypt = Inr, ve_decrypt = Inr,
     ve_lookback_days = 30, ve_sync_cooldown_seconds = 60, ve_burst_window_seconds = 600, ve_burst_max_attempts = 1\<rparr>"

definition journal_account :: "uuid \<Rightarrow> trading_account" where
  "journal_account k = new_account k 0 7 ''MT5:Demo:5'' ''Broker'' ''Demo'' ''secret'' None
     \<lparr>cr_broker_name = None, cr_broker_login = ''5'', cr_broker_server = ''Demo'', cr_investor_password = ''secret'', cr_trader_password = None,
      cr_account_type = Account_live, cr_currency = ''USD'', cr_timezone = ''UTC'', cr_broker_utc_offset = 0, cr_display_name = None\<rparr>"

definition journal_deal :: "string \<Rightarrow> deal" where
  "journal_deal ticket = [(''ticket'', J_str ticket), (''symbol'', J_str ''EURUSD''), (''direction'', J_str ''sell''),
     (''price_in'', J_int 2), (''price_out'', J_int 1), (''volume'', J_int 1), (''gross_profit'', J_int 10),
     (''time_setup'', J_time (Aware (seconds 100))), (''time_closed'', J_time (Aware (seconds 200)))]"

definition journal_history :: history where
  "journal_history = \<lparr>hs_deals = [journal_deal ''12'', journal_deal ''13''], hs_snapshot = None, hs_broker_offset_seconds = J_none\<rparr>"

definition books_db :: "trade list \<Rightarrow> accounts_db" where
  "books_db ts = \<lparr>kd_accounts = [journal_account 1], kd_trades = ts, kd_snapshots = [], kd_dispatches = [], kd_servers = []\<rparr>"

definition journal_row :: "uuid \<Rightarrow> string \<Rightarrow> trade" where
  "journal_row k ticket = stored_trade k 0 1 ticket ''EURUSD'' Direction_sell (2, 1, 1) (10, 0, 0) (seconds 100, seconds 200) no_enrichment"

definition journal_sync :: "accounts_db \<Rightarrow> (sync_result \<times> accounts_db) result" where
  "journal_sync = ingest_mt5_core_history_result journal_env (\<lambda>_. []) of_nat 0 (journal_account 1) journal_history (Some 0) None True"

definition tickets_in :: "accounts_db \<Rightarrow> string list" where
  "tickets_in d = map tr_broker_trade_id (kd_trades d)"

definition journal_import_env :: import_env where
  "journal_import_env = \<lparr>vi_prints = (\<lambda>_. []), vi_strptime = (\<lambda>_. None), vi_zone_to_utc = (\<lambda>_ t. t)\<rparr>"

definition journal_rq :: account_rq where
  "journal_rq = \<lparr>kq_now = seconds 86400, kq_user = 7, kq_id = 2, kq_draw = of_nat, kq_sync_locked = False, kq_bootstrap_locked = False,
     kq_verification = Inl (Mt5_error []), kq_history = Inr journal_history, kq_broken = (\<lambda>_. None)\<rparr>"

definition journal_connect :: connect_request where
  "journal_connect = \<lparr>cr_broker_name = None, cr_broker_login = ''6'', cr_broker_server = ''Demo'', cr_investor_password = ''secret'', cr_trader_password = None,
      cr_account_type = Account_live, cr_currency = ''USD'', cr_timezone = ''UTC'', cr_broker_utc_offset = 0, cr_display_name = None\<rparr>"

text \<open>The account after its first import failed: its task is dispatched and gone.\<close>

definition failed_world :: acc_world where
  "failed_world = \<lparr>aw_db = \<lparr>kd_accounts = [mark_account_bootstrap_failed ''down'' (journal_account 1)], kd_trades = [], kd_snapshots = [],
     kd_dispatches = [dispatched 0 \<lparr>jd_account_id = 1, jd_attempt_count = 0, jd_available_at = 0, jd_dispatched_at = None, jd_last_error = None\<rparr>],
     kd_servers = []\<rparr>, aw_queue = []\<rparr>"

definition resynced_world :: acc_world where
  "resynced_world = account_run journal_env journal_import_env journal_rq (Run_task 0)
     (account_run journal_env journal_import_env journal_rq (Request_sync 1) failed_world)"

definition journal_report :: "string + row list" where
  "journal_report = Inr [[J_str ''Positions''], [J_str ''Time''],
     [J_time (Naive (seconds 100)), J_str ''12'', J_str ''EURUSD'', J_str ''buy'', J_int 1, J_int 2, J_none, J_none,
      J_time (Naive (seconds 200)), J_int 3, J_none, J_none, J_int 10]]"

definition journal_import_rq :: "uuid \<Rightarrow> import_rq" where
  "journal_import_rq k = \<lparr>iq_now = seconds 86400, iq_account = k, iq_draw = of_nat, iq_user = 7\<rparr>"

definition journal_import :: "uuid \<Rightarrow> string \<Rightarrow> accounts_db \<Rightarrow> (import_result \<times> accounts_db) result" where
  "journal_import k name = confirm_csv_import journal_env journal_import_env (journal_import_rq k) ''report.xlsx'' ''mt5'' ''UTC'' name None journal_report"

section \<open>Reachable states\<close>

text \<open>Property C29. Over any requests, dispatches, tasks and imports, whatever the MT5 service, the queue and the files bring: accounts
  keep distinct identifiers and distinct pairs of a user and a broker identifier, a trade is stored once per account and broker
  ticket, a day has one snapshot per account, all three belong to an account that exists, and the statistics of an account are
  released exactly when its connection is ready.\<close>

theorem accounts_stay_consistent:
  assumes "(account_step env ie)\<^sup>*\<^sup>* (no_trading_accounts servers) w"
  shows "distinct (map ta_id (kd_accounts (aw_db w)))
    \<and> distinct (map (\<lambda>a. (ta_user_id a, ta_meta_account_id a)) (kd_accounts (aw_db w)))
    \<and> distinct (map (\<lambda>t. (tr_account_id t, tr_broker_trade_id t)) (kd_trades (aw_db w)))
    \<and> distinct (map (\<lambda>s. (sn_account_id s, sn_date s)) (kd_snapshots (aw_db w)))
    \<and> tr_account_id ` set (kd_trades (aw_db w)) \<union> sn_account_id ` set (kd_snapshots (aw_db w)) \<union> jd_account_id ` set (kd_dispatches (aw_db w))
      \<subseteq> ta_id ` set (kd_accounts (aw_db w))
    \<and> list_all (\<lambda>a. ta_is_data_ready_for_stats a = (ta_connection_state a = Link_ready)) (kd_accounts (aw_db w))"
proof -
  have "acc_ok (aw_db w)" using journal_accounts.reachable_inv [OF _ assms] by blast
  then show ?thesis
    by (auto simp: acc_ok_def account_rows_ok_def trades_ok_def snapshots_ok_def dispatches_ok_def account_ids_def trade_key_def [abs_def]
        trade_fits_def list_all_iff account_ok_def)
qed

theorem accounts_stay_consistent_witness:
  "map ta_meta_account_id (kd_accounts (aw_db (account_run journal_env journal_import_env journal_rq (Connect_account journal_connect) (no_trading_accounts [])))) = [''MT5:Demo:6'']
    \<and> list_all (\<lambda>a. ta_is_data_ready_for_stats a = (ta_connection_state a = Link_ready))
      (kd_accounts (aw_db (account_run journal_env journal_import_env journal_rq (Connect_account journal_connect) (no_trading_accounts []))))"
proof -
  have "account_step journal_env journal_import_env (no_trading_accounts [])
      (account_run journal_env journal_import_env journal_rq (Connect_account journal_connect) (no_trading_accounts []))"
    by (auto simp: account_step_def)
  then have "(account_step journal_env journal_import_env)\<^sup>*\<^sup>* (no_trading_accounts [])
      (account_run journal_env journal_import_env journal_rq (Connect_account journal_connect) (no_trading_accounts []))" by (rule r_into_rtranclp)
  from accounts_stay_consistent [OF this] show ?thesis by (intro conjI) (code_simp, blast)
qed



section \<open>Synchronisations\<close>

text \<open>Property C31. A synchronisation of the trades since \<open>t0\<close> with the history of the broker leaves the trades of other accounts and
  the earlier trades the history does not name as they are. With no ticket in the history no trade changes; otherwise
  every trade of the account since \<open>t0\<close> that is left has a ticket of the history. The counts it reports add up.\<close>

theorem sync_mirrors_the_broker:
  assumes "ingest_mt5_core_history_result env prints draw now a h (Some t0) None True d = Inr (r, d')"
  shows "filter (\<lambda>t. tr_account_id t \<noteq> ta_id a) (kd_trades d') = filter (\<lambda>t. tr_account_id t \<noteq> ta_id a) (kd_trades d)
    \<and> (\<forall>t\<in>set (kd_trades d). tr_closed_at t < t0 \<longrightarrow> tr_broker_trade_id t \<notin> valid_tickets prints (hs_deals h) \<longrightarrow> t \<in> set (kd_trades d'))
    \<and> (if valid_tickets prints (hs_deals h) = {} then kd_trades d' = kd_trades d
       else \<forall>t\<in>set (kd_trades d'). tr_account_id t = ta_id a \<longrightarrow> t0 \<le> tr_closed_at t \<longrightarrow> tr_broker_trade_id t \<in> valid_tickets prints (hs_deals h))
    \<and> length (kd_trades d') + sr_deleted_trades r = length (kd_trades d) + sr_inserted_trades r"
proof -
  let ?V = "valid_tickets prints (hs_deals h)"
  obtain rows where rows: "history_rows env prints draw now a (hs_deals h) = Inr rows"
    and d': "kd_trades d' = fold upsert_trade (List.map_filter id rows) (left_trades prints (ta_id a) (hs_deals h) (Some t0) None True (kd_trades d))"
    and n: "length (kd_trades d') + sr_deleted_trades r = length (kd_trades d) + sr_inserted_trades r"
    using assms by (rule history_Inr)
  define rs where "rs = List.map_filter id rows"
  note d' = d' [folded rs_def]
  have rs: "tr_account_id x = ta_id a \<and> tr_broker_trade_id x \<in> ?V" if "x \<in> set rs" for x
    using history_row_facts [OF rows] that by (simp add: rs_def)
  have others: "filter (\<lambda>t. tr_account_id t \<noteq> ta_id a) (kd_trades d') = filter (\<lambda>t. tr_account_id t \<noteq> ta_id a) (kd_trades d)"
  proof -
    have "filter (\<lambda>t. tr_account_id t \<noteq> ta_id a) (kd_trades d')
        = filter (\<lambda>t. tr_account_id t \<noteq> ta_id a) (left_trades prints (ta_id a) (hs_deals h) (Some t0) None True (kd_trades d))"
      unfolding d' by (rule fold_upsert_others) (use rs in \<open>auto simp: list_all_iff\<close>)
    also have "\<dots> = filter (\<lambda>t. tr_account_id t \<noteq> ta_id a) (kd_trades d)"
      by (auto simp: left_trades_def gone_trade_def intro: filter_cong)
    finally show ?thesis .
  qed
  have older: "t \<in> set (kd_trades d')" if t: "t \<in> set (kd_trades d)" "tr_closed_at t < t0" "tr_broker_trade_id t \<notin> ?V" for t
    unfolding d' by (rule fold_upsert_keeps) (use t in \<open>auto simp: left_trades_def gone_trade_def trade_key_def dest: rs\<close>)
  have none: "kd_trades d' = kd_trades d" if "?V = {}"
    using no_tickets_no_rows [OF rows that] that by (simp add: d' rs_def left_trades_def)
  have some: "list_all (\<lambda>t. tr_account_id t = ta_id a \<longrightarrow> t0 \<le> tr_closed_at t \<longrightarrow> tr_broker_trade_id t \<in> ?V) (kd_trades d')" if "?V \<noteq> {}"
    unfolding d' by (rule fold_upsert_all) (use rs that in \<open>auto simp: left_trades_def gone_trade_def list_all_iff overwrite_def\<close>)
  show ?thesis using others older none some n by (auto simp: list_all_iff)
qed

lemma journal_sync_runs: "case journal_sync (books_db [journal_row 8 ''11'', journal_row 9 ''12'']) of Inl _ \<Rightarrow> False
    | Inr (r, d) \<Rightarrow> tickets_in d = [''12'', ''13''] \<and> sr_inserted_trades r = 1"
  by code_simp

theorem sync_mirrors_the_broker_witness:
  "\<exists>r d'. journal_sync (books_db [journal_row 8 ''11'', journal_row 9 ''12'']) = Inr (r, d') \<and> tickets_in d' = [''12'', ''13''] \<and> sr_deleted_trades r = 1"
proof -
  obtain r d' where s: "journal_sync (books_db [journal_row 8 ''11'', journal_row 9 ''12'']) = Inr (r, d')" "tickets_in d' = [''12'', ''13'']" "sr_inserted_trades r = 1"
    using journal_sync_runs by (auto split: sum.splits)
  have "length (kd_trades d') = 2" using arg_cong [OF s(2), of length] by (simp add: tickets_in_def)
  then show ?thesis using sync_mirrors_the_broker [OF s(1) [unfolded journal_sync_def]] s by (simp add: books_db_def)
qed




text \<open>Property C33. An account whose first import failed, so that its data is not ready and no bootstrap task of it waits to be sent or run,
  is never made ready by any later requests, dispatches and tasks, successful synchronisations included, until it is connected
  again; yet its status asks the user to try resyncing it.\<close>

theorem resync_never_repairs:
  assumes "acc_ok (aw_db w)" "stuck k w" "(no_reconnect env ie k)\<^sup>*\<^sup>* w w'"
  shows "list_all (\<lambda>a. ta_id a = k \<longrightarrow> \<not> ta_is_data_ready_for_stats a \<and> ta_connection_state a \<noteq> Link_ready) (kd_accounts (aw_db w'))
    \<and> ss_action (describe_account_sync_status Link_bootstrap_failed Import_auto_sync outcome n e b) = Some ''Try resyncing the account.''"
proof -
  have "acc_ok (aw_db w') \<and> stuck k w'" using stuck_accounts.reachable_inv [OF _ assms(3)] assms(1,2) by blast
  then show ?thesis by (auto simp: describe_account_sync_status_def stuck_def stuck_db_def acc_ok_def account_rows_ok_def account_ok_def list_all_iff)
qed

theorem resync_never_repairs_witness:
  "map (\<lambda>a. (ta_last_sync_outcome a, ta_connection_state a)) (kd_accounts (aw_db resynced_world)) = [(Some ''success'', Link_bootstrap_failed)]
    \<and> \<not> ta_is_data_ready_for_stats (hd (kd_accounts (aw_db resynced_world)))"
proof -
  have step: "no_reconnect journal_env journal_import_env 1 w (account_run journal_env journal_import_env journal_rq (Request_sync 1) w)"
    "no_reconnect journal_env journal_import_env 1 w (account_run journal_env journal_import_env journal_rq (Run_task 0) w)" for w
    unfolding no_reconnect_def
    by (rule exI [of _ journal_rq], rule exI [of _ "Request_sync 1"], simp add: journal_rq_def)
      (rule exI [of _ journal_rq], rule exI [of _ "Run_task 0"], simp add: journal_rq_def)
  have run: "(no_reconnect journal_env journal_import_env 1)\<^sup>*\<^sup>* failed_world resynced_world"
    unfolding resynced_world_def
    by (rule rtranclp.rtrancl_into_rtrancl, rule rtranclp.rtrancl_into_rtrancl, rule rtranclp.rtrancl_refl, rule step(1), rule step(2))
  have ok: "acc_ok (aw_db failed_world)" by code_simp
  have out: "map (\<lambda>a. (ta_id a, ta_last_sync_outcome a, ta_connection_state a)) (kd_accounts (aw_db resynced_world)) = [(1, Some ''success'', Link_bootstrap_failed)]" by code_simp
  have "stuck 1 failed_world"
    by (auto simp: stuck_def stuck_db_def failed_world_def pending_def dispatched_def mark_account_bootstrap_failed_def journal_account_def new_account_def)
  from resync_never_repairs [OF ok this run] show ?thesis using out by (auto simp: map_eq_Cons_conv)
qed


section \<open>Imports\<close>

text \<open>An import appends as many trades as it reports and changes no stored trade; importing the same file for the same target
  again, whenever and whatever the account was renamed to in between, inserts nothing.\<close>

theorem import_adds_once:
  assumes "acc_ok d" "confirm_csv_import env ie q f p z n t l d = Inr (r, d')"
    and "iq_user q' = iq_user q" "confirm_csv_import env ie q' f' p' z' n' t l d' = Inr (r', d'')"
  shows "(\<exists>rows. kd_trades d' = kd_trades d @ rows \<and> length rows = ir_inserted r) \<and> ir_inserted r' = 0 \<and> kd_trades d'' = kd_trades d'"
proof -
  define rep where "rep = parse_report env ie ''Europe/Riga'' l"
  obtain a d1 days d2 d3 target where t: "target_of t = Inr target"
    and 1: "import_account (iq_account q) (iq_now q) (iq_user q) z n target (pr_account_meta rep) d = Inr (a, d1)"
    and 2: "import_trades env (iq_draw q) (iq_now q) a (enumerate 0 (pr_trades rep)) d1 = Inr (days, d2)"
    and 3: "import_snapshots env (iq_now q) a rep d2 = Inr d3"
    and r: "ir_inserted r = length days" and d': "d' = put_account ((csv_ready a) \<lparr>ta_last_synced_at := Some (iq_now q)\<rparr>) d3"
    using assms(2) unfolding rep_def by (rule confirm_Inr)
  obtain b e1 days' e2 e3 where
    b1: "import_account (iq_account q') (iq_now q') (iq_user q) z' n' target (pr_account_meta rep) d' = Inr (b, e1)"
    and b2: "import_trades env (iq_draw q') (iq_now q') b (enumerate 0 (pr_trades rep)) e1 = Inr (days', e2)"
    and b3: "import_snapshots env (iq_now q') b rep e2 = Inr e3"
    and r': "ir_inserted r' = length days'" and d'': "d'' = put_account ((csv_ready b) \<lparr>ta_last_synced_at := Some (iq_now q')\<rparr>) e3"
    using confirm_Inr [OF assms(4), of thesis] t assms(3) unfolding rep_def by (metis sum.inject(2))
  obtain rows where rows: "d2 = d1 \<lparr>kd_trades := kd_trades d1 @ rows\<rparr>" "length rows = length days"
      "(\<lambda>p. (ta_id a, pt_broker_trade_id (snd p))) ` set (enumerate 0 (pr_trades rep)) \<subseteq> trade_key ` set (kd_trades d2)"
    using import_trades_Inr [OF 2] by blast
  have a: "import_target (iq_user q) target (pr_account_meta rep) a" "a \<in> set (kd_accounts d1)" "kd_trades d1 = kd_trades d"
    using import_account_target [OF 1] by simp_all
  have f3: "kd_trades d3 = kd_trades d2" "kd_accounts d3 = kd_accounts d1" using import_snapshots_frame [OF 3] rows(1) by simp_all
  have "ta_id b = ta_id a" by (rule import_again_target [OF assms(1,2) 1 d' f3(2) b1])
  moreover have "kd_trades e1 = kd_trades d'" using import_account_target [OF b1] by simp
  ultimately have "days' = [] \<and> e2 = e1"
    using import_trades_again [of b "enumerate 0 (pr_trades rep)" e1 env "iq_draw q'" "iq_now q'"] b2 rows(3) f3(1) d' by simp
  then show ?thesis using rows a(3) f3(1) d' d'' r r' import_snapshots_frame [OF b3] \<open>kd_trades e1 = kd_trades d'\<close> by auto
qed

lemma journal_import_runs: "case journal_import 2 ''first'' (books_db []) of Inl _ \<Rightarrow> False | Inr (r, d) \<Rightarrow> tickets_in d = [''12''] \<and> ir_inserted r = 1"
  "case journal_import 2 ''first'' (books_db []) of Inl _ \<Rightarrow> False | Inr (r, d) \<Rightarrow> is_ok (journal_import 3 ''second'' d)"
  by code_simp+

theorem import_adds_once_witness:
  "\<exists>r d r' d'. journal_import 2 ''first'' (books_db []) = Inr (r, d) \<and> ir_inserted r = 1 \<and> tickets_in d = [''12'']
    \<and> journal_import 3 ''second'' d = Inr (r', d') \<and> ir_inserted r' = 0 \<and> kd_trades d' = kd_trades d"
proof -
  obtain r d where 1: "journal_import 2 ''first'' (books_db []) = Inr (r, d)" "ir_inserted r = 1" "tickets_in d = [''12'']"
    using journal_import_runs(1) by (auto split: sum.splits)
  obtain r' d' where 2: "journal_import 3 ''second'' d = Inr (r', d')" using journal_import_runs(2) 1(1) by (auto simp: is_ok_iff)
  have "acc_ok (books_db [])" by code_simp
  from import_adds_once [OF this 1(1) [unfolded journal_import_def] _ 2 [unfolded journal_import_def]] 1 2 show ?thesis
    by (simp add: journal_import_rq_def)
qed

section \<open>Admission\<close>

text \<open>The limit of manual synchronisations per window counts the last attempt of each account, not the attempts: a user with
  fewer accounts than the limit is never told that it is reached.\<close>

theorem burst_limit_counts_accounts:
  assumes "check_manual_sync_admission env locked a now d = Some g" "se_outcome g = ''rate_limited''"
  shows "ve_burst_max_attempts env \<le> length (filter (\<lambda>x. ta_user_id x = ta_user_id a) (kd_accounts d))"
proof -
  have "length (list_recent_sync_attempts_for_user d u since) \<le> length (filter (\<lambda>x. ta_user_id x = u) (kd_accounts d))" for u since
  proof -
    have "length (concat (map (\<lambda>a. case ta_last_sync_attempted_at a of Some t \<Rightarrow> if ta_user_id a = u \<and> since \<le> t then [t] else [] | None \<Rightarrow> []) as))
        \<le> length (filter (\<lambda>x. ta_user_id x = u) as)" for as :: "trading_account list"
      by (induction as) (auto split: option.split)
    then show ?thesis by (simp add: list_recent_sync_attempts_for_user_def)
  qed
  moreover have "ve_burst_max_attempts env \<le> length (list_recent_sync_attempts_for_user d (ta_user_id a) (now - seconds (ve_burst_window_seconds env)))"
    using assms by (auto simp: check_manual_sync_admission_def guarded_result_def Let_def split: if_splits option.splits)
  ultimately show ?thesis by (meson le_trans)
qed

theorem burst_limit_counts_accounts_witness:
  "map_option se_outcome (check_manual_sync_admission journal_env False (journal_account 1) 5 (books_db [] \<lparr>kd_accounts := [journal_account 1 \<lparr>ta_last_sync_attempted_at := Some 0\<rparr>]\<rparr>))
      = Some ''rate_limited''
    \<and> ve_burst_max_attempts journal_env \<le> length (filter (\<lambda>x. ta_user_id x = 7) (kd_accounts (books_db [] \<lparr>kd_accounts := [journal_account 1 \<lparr>ta_last_sync_attempted_at := Some 0\<rparr>]\<rparr>)))"
proof -
  have out: "map_option se_outcome (check_manual_sync_admission journal_env False (journal_account 1) 5 (books_db [] \<lparr>kd_accounts := [journal_account 1 \<lparr>ta_last_sync_attempted_at := Some 0\<rparr>]\<rparr>))
      = Some ''rate_limited''" by code_simp
  have "ta_user_id (journal_account 1) = 7" by (simp add: journal_account_def new_account_def)
  moreover obtain g where "check_manual_sync_admission journal_env False (journal_account 1) 5 (books_db [] \<lparr>kd_accounts := [journal_account 1 \<lparr>ta_last_sync_attempted_at := Some 0\<rparr>]\<rparr>) = Some g"
      "se_outcome g = ''rate_limited''" using out by (auto simp: map_option_eq_Some)
  ultimately show ?thesis using out burst_limit_counts_accounts by metis
qed

end
