(* ===== verification/Uploads.thy ===== *)
theory Uploads
  imports Account_Import
begin

text \<open>
  Files a user sends: \<^verbatim>\<open>shared/utils/uploads.py\<close> and \<^verbatim>\<open>shared/utils/storage.py\<close>. A file is accepted by the type it
  declares and the first bytes it holds, and is stored under a key of its owner. The object store is the fields
  of \<open>storage_env\<close>: whether there is one, what storing answers, and the signed address of a key.
\<close>

record upload_file =
  uf_content_type :: "string option"
  uf_filename :: "string option"
  uf_size :: "nat option"
  uf_bytes :: string

record storage_env =
  sg_enabled :: bool
  sg_put :: "string \<Rightarrow> string \<Rightarrow> unit result"
  sg_presign :: "string \<Rightarrow> int \<Rightarrow> string result"

section \<open>The first bytes\<close>

definition bytes :: "nat list \<Rightarrow> string" where
  "bytes ns = map char_of ns"

definition image_signatures :: "string list" where
  "image_signatures = [bytes [0xff, 0xd8, 0xff], bytes [0x89] @ ''PNG'' @ bytes [13, 10, 0x1a, 10], ''GIF87a'', ''GIF89a'', ''RIFF'']"

definition audio_signatures :: "string list" where
  "audio_signatures = [''ID3'', bytes [0xff, 0xfb], bytes [0xff, 0xf3], bytes [0xff, 0xf2], ''OggS'',
     bytes [0x1a, 0x45, 0xdf, 0xa3], ''RIFF'', ''fLaC'']"

definition matches_any :: "string \<Rightarrow> string list \<Rightarrow> bool" where
  "matches_any s sigs = list_ex (\<lambda>g. take (length g) s = g) sigs"

definition between :: "nat \<Rightarrow> nat \<Rightarrow> string \<Rightarrow> string" where
  "between i j s = drop i (take j s)"

definition validate_image_magic_bytes :: "string \<Rightarrow> unit result" where
  "validate_image_magic_bytes s = (
     if \<not> matches_any s image_signatures
     then http_raise 415 ''Uploaded file does not appear to be a supported image (JPEG, PNG, GIF, WebP).''
     else if take 4 s = ''RIFF'' \<and> between 8 12 s \<noteq> ''WEBP'' then http_raise 415 ''RIFF file is not a WebP image.''
     else Inr ())"

definition validate_audio_magic_bytes :: "string \<Rightarrow> unit result" where
  "validate_audio_magic_bytes s = (
     if matches_any s audio_signatures
     then if take 4 s = ''RIFF'' \<and> between 8 12 s \<noteq> ''WAVE'' then http_raise 415 ''RIFF file is not a WAV audio file.'' else Inr ()
     else if 8 \<le> length s \<and> between 4 8 s = ''ftyp'' then Inr ()
     else http_raise 415 ''Uploaded file does not appear to be a supported audio format.'')"

section \<open>Reading within a limit\<close>

text \<open>
  \<^verbatim>\<open>read_upload_within_limit\<close>: the declared size first, then chunks of a megabyte until the file ends or what is read
  exceeds the limit. The list of chunks read so far is in reverse order.
\<close>

definition chunk_size :: nat where
  "chunk_size = 1024 * 1024"

definition upload_too_large :: "nat \<Rightarrow> 'a result" where
  "upload_too_large limit = http_raise 413 (''File exceeds the maximum allowed size of '' @ show_nat (limit div chunk_size) @ '' MB.'')"

function read_chunks :: "nat \<Rightarrow> string \<Rightarrow> nat \<Rightarrow> string list \<Rightarrow> string result" where
  "read_chunks limit left seen got = (let piece = take chunk_size left in
     if piece = [] then Inr (concat (rev got))
     else if limit < seen + length piece then upload_too_large limit
     else read_chunks limit (drop chunk_size left) (seen + length piece) (piece # got))"
  by auto
termination
  by (relation "measure (\<lambda>(_, left, _, _). length left)") (auto simp: chunk_size_def)

declare read_chunks.simps [simp del]

definition read_upload_within_limit :: "nat \<Rightarrow> upload_file \<Rightarrow> string result" where
  "read_upload_within_limit limit f = (
     if (case uf_size f of None \<Rightarrow> False | Some n \<Rightarrow> limit < n) then upload_too_large limit
     else read_chunks limit (uf_bytes f) 0 [])"

section \<open>Storing\<close>

datatype media_type = Media_image | Media_video | Media_document

definition media_type_value :: "media_type \<Rightarrow> string" where
  "media_type_value m = (case m of Media_image \<Rightarrow> ''image'' | Media_video \<Rightarrow> ''video'' | Media_document \<Rightarrow> ''document'')"

definition media_mime_map :: "(string \<times> string \<times> media_type) list" where
  "media_mime_map = [(''image/jpeg'', ''jpg'', Media_image), (''image/png'', ''png'', Media_image),
     (''image/webp'', ''webp'', Media_image), (''image/gif'', ''gif'', Media_image), (''video/mp4'', ''mp4'', Media_video),
     (''video/quicktime'', ''mov'', Media_video), (''video/webm'', ''webm'', Media_video), (''application/pdf'', ''pdf'', Media_document)]"

definition mime_to_ext :: "(string \<times> string) list" where
  "mime_to_ext = [(''image/jpeg'', ''jpg''), (''image/png'', ''png''), (''image/webp'', ''webp''), (''image/gif'', ''gif'')]"

definition journal_voice_allowed_mime_types :: "string list" where
  "journal_voice_allowed_mime_types = [''audio/mpeg'', ''audio/mp3'', ''audio/mp4'', ''audio/m4a'', ''audio/wav'',
     ''audio/x-wav'', ''audio/webm'', ''audio/ogg'']"

definition require_storage :: "storage_env \<Rightarrow> unit result" where
  "require_storage sg = (if sg_enabled sg then Inr () else http_raise 503 ''Object storage is not configured.'')"

fun comma_list :: "string list \<Rightarrow> string" where
  "comma_list [] = []"
| "comma_list [s] = s"
| "comma_list (s # t # ts) = s @ '', '' @ comma_list (t # ts)"

definition declared_type :: "upload_file \<Rightarrow> string" where
  "declared_type f = (case uf_content_type f of None \<Rightarrow> [] | Some t \<Rightarrow> t)"

definition object_key :: "string \<Rightarrow> uuid \<Rightarrow> string \<Rightarrow> string" where
  "object_key owner k ext = owner @ ''/'' @ str_uuid k @ ''.'' @ ext"

definition quoted_text :: "string \<Rightarrow> string" where
  "quoted_text s = [CHR 0x27] @ s @ [CHR 0x27]"

text \<open>The header is what the 16 bytes at the beginning of the file hold.\<close>

definition upload_image :: "storage_env \<Rightarrow> uuid \<Rightarrow> string \<Rightarrow> upload_file \<Rightarrow> string result" where
  "upload_image sg k owner f = bind_Inr (require_storage sg) (\<lambda>_. let ct = declared_type f in
     if \<not> list_ex (\<lambda>p. startswith ct p) (map fst mime_to_ext)
     then http_raise 422 (''Invalid file type '' @ quoted_text ct @ ''. Allowed: JPEG, PNG, WebP, GIF.'')
     else bind_Inr (validate_image_magic_bytes (take 16 (uf_bytes f))) (\<lambda>_.
       let key = object_key owner k (case map_of mime_to_ext ct of None \<Rightarrow> ''jpg'' | Some e \<Rightarrow> e) in
       map_Inr (\<lambda>_. key) (sg_put sg key ct)))"

definition upload_media :: "storage_env \<Rightarrow> uuid \<Rightarrow> string \<Rightarrow> upload_file \<Rightarrow> (string \<times> media_type \<times> string) result" where
  "upload_media sg k owner f = bind_Inr (require_storage sg) (\<lambda>_. let ct = declared_type f in
     case map_of media_mime_map ct of
       None \<Rightarrow> http_raise 422 (''Unsupported media type '' @ quoted_text ct @ ''. Allowed: '' @ comma_list (map fst media_mime_map) @ ''.'')
     | Some (ext, m) \<Rightarrow>
         bind_Inr (if m = Media_image then validate_image_magic_bytes (take 16 (uf_bytes f)) else Inr ()) (\<lambda>_.
           let key = object_key owner k ext in map_Inr (\<lambda>_. (key, m, ct)) (sg_put sg key ct)))"

fun drop_x_marks :: "string \<Rightarrow> string" where
  "drop_x_marks [] = []"
| "drop_x_marks [c] = [c]"
| "drop_x_marks (c # b # s) = (if c = CHR ''x'' \<and> b = CHR ''-'' then drop_x_marks s else c # drop_x_marks (b # s))"

definition voice_extension :: "string \<Rightarrow> string" where
  "voice_extension ct = (if CHR ''/'' \<in> set ct then drop_x_marks (split_char (CHR ''/'') ct ! 1) else ''bin'')"

definition upload_journal_voice_note :: "storage_env \<Rightarrow> uuid \<Rightarrow> string \<Rightarrow> upload_file \<Rightarrow> (string \<times> string) result" where
  "upload_journal_voice_note sg k owner f = bind_Inr (require_storage sg) (\<lambda>_. let ct = py_lower (declared_type f) in
     if ct \<notin> set journal_voice_allowed_mime_types then http_raise 422 ''Unsupported audio format for voice message.''
     else bind_Inr (validate_audio_magic_bytes (take 16 (uf_bytes f))) (\<lambda>_.
       let key = object_key owner k (voice_extension ct) in map_Inr (\<lambda>_. (key, ct)) (sg_put sg key ct)))"

text \<open>The address of a key, and when it stops working: a second later at least.\<close>

definition generate_signed_url :: "storage_env \<Rightarrow> int \<Rightarrow> string \<Rightarrow> int \<Rightarrow> (string \<times> int) result" where
  "generate_signed_url sg now path ttl = bind_Inr (require_storage sg) (\<lambda>_.
     map_Inr (\<lambda>url. (url, now + seconds (max 1 ttl))) (sg_presign sg path ttl))"

section \<open>What a stored file is\<close>

text \<open>Reading ends within the limit with the whole file, or is refused.\<close>

lemma read_chunks_eq:
  "read_chunks limit left seen got = (if left = [] \<or> seen + length left \<le> limit then Inr (concat (rev got) @ left)
     else upload_too_large limit)"
proof (induction limit left seen got rule: read_chunks.induct)
  case (1 limit left seen got)
  have pos: "0 < chunk_size" by (simp add: chunk_size_def)
  define piece where "piece = take chunk_size left"
  define rest where "rest = drop chunk_size left"
  have split: "left = piece @ rest" by (simp add: piece_def rest_def)
  have empty: "piece = [] \<longleftrightarrow> left = []" using pos by (simp add: piece_def)
  have step: "read_chunks limit left seen got = (if piece = [] then Inr (concat (rev got))
      else if limit < seen + length piece then upload_too_large limit
      else read_chunks limit rest (seen + length piece) (piece # got))"
    by (subst read_chunks.simps) (simp only: Let_def piece_def rest_def)
  have more: "piece \<noteq> [] \<Longrightarrow> \<not> limit < seen + length piece \<Longrightarrow> read_chunks limit rest (seen + length piece) (piece # got)
      = (if rest = [] \<or> seen + length piece + length rest \<le> limit then Inr (concat (rev (piece # got)) @ rest) else upload_too_large limit)"
    using 1 [OF refl] unfolding piece_def rest_def by blast
  show ?case
    unfolding step using empty more by (auto simp: split)
qed

lemma read_upload_within_limit_eq:
  "read_upload_within_limit limit f = (
     if (case uf_size f of None \<Rightarrow> True | Some n \<Rightarrow> n \<le> limit) \<and> (uf_bytes f = [] \<or> length (uf_bytes f) \<le> limit)
     then Inr (uf_bytes f) else upload_too_large limit)"
  by (auto simp: read_upload_within_limit_def read_chunks_eq split: option.splits)

text \<open>A key of an owner tells the owner and the identifier it was made with.\<close>

lemma object_key_inj: "object_key (str_uuid u) k e = object_key (str_uuid v) j f \<Longrightarrow> u = v \<and> k = j"
proof -
  assume "object_key (str_uuid u) k e = object_key (str_uuid v) j f"
  then have eq: "str_uuid u @ (''/'' @ str_uuid k @ ''.'' @ e) = str_uuid v @ (''/'' @ str_uuid j @ ''.'' @ f)"
    by (simp add: object_key_def)
  have len: "length (str_uuid w) = 36" for w
    by (simp add: str_uuid_def uuid_hex_def Let_def)
  from eq len have uv: "str_uuid u = str_uuid v" and "''/'' @ str_uuid k @ ''.'' @ e = ''/'' @ str_uuid j @ ''.'' @ f"
    by (metis append_eq_append_conv)+
  then have "str_uuid k @ (''.'' @ e) = str_uuid j @ (''.'' @ f)" by simp
  then have "str_uuid k = str_uuid j" using len by (metis append_eq_append_conv)
  with uv show ?thesis by simp
qed

end
