(* ===== verification/Journal_Tables.thy ===== *)
theory Journal_Tables
  imports Account_Steps Uploads
begin

text \<open>
  The tables of the trading journal, \<^verbatim>\<open>journal/models.py\<close>, beside those of the accounts, and the queries of
  \<^verbatim>\<open>journal/repository.py\<close> that keep journals, messages, templates, tags and setups. A row is deleted with what
  refers to it, as the foreign keys say. New identifiers and the clock are arguments; PostgreSQL compares
  identifiers as numbers, and texts by the collation of \<open>jn_env\<close>. The rows of other users are never locked: every
  operation is one transaction.
\<close>

section \<open>Data\<close>

record daily_journal =
  dj_id :: uuid
  dj_account_id :: uuid
  dj_trading_date :: int
  dj_created_at :: int
  dj_reviewed_at :: "int option"
  dj_note_html :: "string option"
  dj_note_updated_at :: "int option"

record trade_journal =
  tj_id :: uuid
  tj_trade_id :: uuid
  tj_daily_journal_id :: "uuid option"
  tj_created_at :: int
  tj_reviewed_at :: "int option"
  tj_rating :: "int option"
  tj_execution_quality :: "int option"
  tj_setup_quality :: "int option"
  tj_discipline_score :: "int option"
  tj_note_html :: "string option"
  tj_note_updated_at :: "int option"

datatype journal_message_type =
    Message_text | Message_voice | Message_image | Message_system | Message_prompt | Message_ai_response

record journal_message =
  jm_id :: uuid
  jm_daily_journal_id :: "uuid option"
  jm_trade_journal_id :: "uuid option"
  jm_author_id :: "uuid option"
  jm_message_type :: journal_message_type
  jm_content :: "string option"
  jm_tags :: "string list"
  jm_system_data :: "dict option"
  jm_audio_storage_path :: "string option"
  jm_audio_duration_seconds :: "int option"
  jm_is_edited :: bool
  jm_edited_at :: "int option"
  jm_created_at :: int

record journal_attachment =
  ja_id :: uuid
  ja_message_id :: uuid
  ja_storage_path :: string
  ja_media_type :: string
  ja_mime_type :: string
  ja_original_filename :: "string option"
  ja_caption :: "string option"
  ja_created_at :: int

datatype journal_template_type = Template_daily | Template_trade

record journal_template =
  jt_id :: uuid
  jt_name :: string
  jt_template_type :: journal_template_type
  jt_is_system :: bool
  jt_owner_id :: "uuid option"
  jt_questions :: "(int \<times> int \<times> string) list"
  jt_created_at :: int

record tag_group =
  tg_id :: uuid
  tg_user_id :: "uuid option"
  tg_name :: string
  tg_color :: "string option"
  tg_position :: int
  tg_is_system :: bool
  tg_created_at :: int

record tag =
  tag_id :: uuid
  tag_group_id :: uuid
  tag_user_id :: "uuid option"
  tag_name :: string
  tag_position :: int
  tag_is_system :: bool
  tag_created_at :: int

record playbook_setup =
  st_id :: uuid
  st_user_id :: uuid
  st_name :: string
  st_position :: int
  st_created_at :: int

text \<open>The tables, with those of the accounts and their trades; \<open>hd_trade_tags\<close> pairs a trade and a tag.\<close>

record journal_db =
  hd_core :: accounts_db
  hd_days :: "daily_journal list"
  hd_entries :: "trade_journal list"
  hd_messages :: "journal_message list"
  hd_attachments :: "journal_attachment list"
  hd_templates :: "journal_template list"
  hd_groups :: "tag_group list"
  hd_tags :: "tag list"
  hd_trade_tags :: "(uuid \<times> uuid) list"
  hd_setups :: "playbook_setup list"

text \<open>
  What a clock on the wall of a time zone shows at an instant, the instant a local day starts at, and the rank
  of a text in the collation of the database.
\<close>

record jn_env =
  ne_acc :: acc_env
  ne_wall :: "string \<Rightarrow> int \<Rightarrow> int"
  ne_midnight :: "string \<Rightarrow> int \<Rightarrow> int"
  ne_collate :: "string \<Rightarrow> rat"
  ne_storage :: storage_env
  ne_voice_url_ttl :: int
  ne_image_url_ttl :: int

definition taken :: "string \<Rightarrow> 'a result" where
  "taken table = Inl (Exn ''IntegrityError'' table)"

definition newest_first :: "('r \<Rightarrow> int) \<Rightarrow> ('r \<Rightarrow> uuid) \<Rightarrow> 'r list \<Rightarrow> 'r list" where
  "newest_first moment key rows = sorted_by_desc moment (sorted_by_desc (uint \<circ> key) rows)"

definition oldest_first :: "('r \<Rightarrow> int) \<Rightarrow> ('r \<Rightarrow> uuid) \<Rightarrow> 'r list \<Rightarrow> 'r list" where
  "oldest_first moment key rows = sorted_by moment (sorted_by (uint \<circ> key) rows)"

text \<open>The rows after the one a cursor names, for an order with the newest first.\<close>

definition after_cursor :: "('r \<Rightarrow> int) \<Rightarrow> ('r \<Rightarrow> uuid) \<Rightarrow> (int \<times> uuid) option \<Rightarrow> 'r \<Rightarrow> bool" where
  "after_cursor moment key c r = (case c of None \<Rightarrow> True
     | Some (t, k) \<Rightarrow> moment r < t \<or> (moment r = t \<and> uint (key r) < uint k))"

section \<open>Journals of days and trades\<close>

definition get_daily_journal_by_id :: "journal_db \<Rightarrow> uuid \<Rightarrow> daily_journal option" where
  "get_daily_journal_by_id d k = row_get dj_id k (hd_days d)"

definition put_day :: "daily_journal \<Rightarrow> journal_db \<Rightarrow> journal_db" where
  "put_day j = hd_days_update (row_put dj_id j)"

definition get_daily_journal_by_account_and_date :: "journal_db \<Rightarrow> uuid \<Rightarrow> int \<Rightarrow> daily_journal option" where
  "get_daily_journal_by_account_and_date d a day = find (\<lambda>j. dj_account_id j = a \<and> dj_trading_date j = day) (hd_days d)"

definition repo_get_or_create_daily_journal :: "uuid \<Rightarrow> int \<Rightarrow> uuid \<Rightarrow> int \<Rightarrow> journal_db \<Rightarrow> (daily_journal \<times> journal_db) result" where
  "repo_get_or_create_daily_journal k now a day d = (case get_daily_journal_by_account_and_date d a day of
       Some j \<Rightarrow> Inr (j, d)
     | None \<Rightarrow> if get_daily_journal_by_id d k \<noteq> None then taken ''daily_journals''
         else let j = \<lparr>dj_id = k, dj_account_id = a, dj_trading_date = day, dj_created_at = now, dj_reviewed_at = None,
                dj_note_html = None, dj_note_updated_at = None\<rparr> in Inr (j, d \<lparr>hd_days := hd_days d @ [j]\<rparr>))"

definition repo_list_daily_journal_feed :: "journal_db \<Rightarrow> uuid \<Rightarrow> nat \<Rightarrow> uuid option \<Rightarrow> daily_journal list" where
  "repo_list_daily_journal_feed d a limit cursor = (
     let c = (case cursor of None \<Rightarrow> None
       | Some k \<Rightarrow> map_option (\<lambda>j. (dj_trading_date j, dj_id j)) (find (\<lambda>j. dj_id j = k \<and> dj_account_id j = a) (hd_days d))) in
     take limit (newest_first dj_trading_date dj_id
       (filter (\<lambda>j. dj_account_id j = a \<and> after_cursor dj_trading_date dj_id c j) (hd_days d))))"

definition get_trade_journal_by_trade_id :: "journal_db \<Rightarrow> uuid \<Rightarrow> trade_journal option" where
  "get_trade_journal_by_trade_id d t = row_get tj_trade_id t (hd_entries d)"

definition put_entry :: "trade_journal \<Rightarrow> journal_db \<Rightarrow> journal_db" where
  "put_entry j = hd_entries_update (row_put tj_id j)"

text \<open>Whether the journal of the trade is new is the second part of the answer.\<close>

definition get_or_create_trade_journal_by_trade_id ::
  "uuid \<Rightarrow> int \<Rightarrow> uuid \<Rightarrow> uuid option \<Rightarrow> journal_db \<Rightarrow> ((trade_journal \<times> bool) \<times> journal_db) result" where
  "get_or_create_trade_journal_by_trade_id k now t day d = (case get_trade_journal_by_trade_id d t of
       Some j \<Rightarrow> Inr ((j, False), d)
     | None \<Rightarrow> if row_get tj_id k (hd_entries d) \<noteq> None then taken ''trade_journals''
         else let j = \<lparr>tj_id = k, tj_trade_id = t, tj_daily_journal_id = day, tj_created_at = now, tj_reviewed_at = None,
                tj_rating = None, tj_execution_quality = None, tj_setup_quality = None, tj_discipline_score = None,
                tj_note_html = None, tj_note_updated_at = None\<rparr> in Inr ((j, True), d \<lparr>hd_entries := hd_entries d @ [j]\<rparr>))"

definition entries_of :: "journal_db \<Rightarrow> uuid list \<Rightarrow> trade_journal list" where
  "entries_of d ts = filter (\<lambda>j. tj_trade_id j \<in> set ts) (hd_entries d)"

definition map_trade_reviewed_at_by_trade_ids :: "journal_db \<Rightarrow> uuid list \<Rightarrow> (uuid \<times> int option) list" where
  "map_trade_reviewed_at_by_trade_ids d ts = map (\<lambda>j. (tj_trade_id j, tj_reviewed_at j)) (entries_of d ts)"

definition map_trade_journal_ratings_by_trade_ids :: "journal_db \<Rightarrow> uuid list \<Rightarrow> (uuid \<times> int option) list" where
  "map_trade_journal_ratings_by_trade_ids d ts = map (\<lambda>j. (tj_trade_id j, tj_rating j)) (entries_of d ts)"

record assessment =
  as_execution_quality :: "int option"
  as_setup_quality :: "int option"
  as_discipline_score :: "int option"

definition assessment_of :: "trade_journal \<Rightarrow> assessment" where
  "assessment_of j = \<lparr>as_execution_quality = tj_execution_quality j, as_setup_quality = tj_setup_quality j,
     as_discipline_score = tj_discipline_score j\<rparr>"

definition map_trade_journal_assessments_by_trade_ids :: "journal_db \<Rightarrow> uuid list \<Rightarrow> (uuid \<times> assessment) list" where
  "map_trade_journal_assessments_by_trade_ids d ts = map (\<lambda>j. (tj_trade_id j, assessment_of j)) (entries_of d ts)"

text \<open>The nearest local days before and after one on which the account closed a trade.\<close>

definition adjacent_traded_local_dates :: "jn_env \<Rightarrow> journal_db \<Rightarrow> uuid \<Rightarrow> string \<Rightarrow> int \<Rightarrow> int option \<times> int option" where
  "adjacent_traded_local_dates env d a zone day = (
     let days = map (\<lambda>t. ve_local_date (ne_acc env) zone (tr_closed_at t)) (filter (\<lambda>t. tr_account_id t = a) (kd_trades (hd_core d)));
         earlier = filter (\<lambda>x. x < day) days; later = filter (\<lambda>x. day < x) days in
     (case earlier of [] \<Rightarrow> None | x # xs \<Rightarrow> Some (fold max xs x), case later of [] \<Rightarrow> None | x # xs \<Rightarrow> Some (fold min xs x)))"

definition get_trade_journal_message_counts :: "journal_db \<Rightarrow> uuid list \<Rightarrow> (uuid \<times> nat) list" where
  "get_trade_journal_message_counts d ts = map (\<lambda>j. (tj_trade_id j,
     length (filter (\<lambda>m. jm_trade_journal_id m = Some (tj_id j)) (hd_messages d)))) (entries_of d ts)"

section \<open>Messages and attachments\<close>

definition get_message_by_id :: "journal_db \<Rightarrow> uuid \<Rightarrow> journal_message option" where
  "get_message_by_id d k = row_get jm_id k (hd_messages d)"

definition put_message :: "journal_message \<Rightarrow> journal_db \<Rightarrow> journal_db" where
  "put_message m = hd_messages_update (row_put jm_id m)"

definition one_context :: "journal_message \<Rightarrow> bool" where
  "one_context m \<longleftrightarrow> (jm_daily_journal_id m \<noteq> None) \<noteq> (jm_trade_journal_id m \<noteq> None)"

definition new_message :: "uuid \<Rightarrow> int \<Rightarrow> uuid option \<Rightarrow> uuid option \<Rightarrow> uuid option \<Rightarrow> journal_message_type \<Rightarrow> string option \<Rightarrow>
    string list \<Rightarrow> dict option \<Rightarrow> string option \<Rightarrow> journal_message" where
  "new_message k now day entry author type content tags data audio = \<lparr>jm_id = k, jm_daily_journal_id = day,
     jm_trade_journal_id = entry, jm_author_id = author, jm_message_type = type, jm_content = content, jm_tags = tags,
     jm_system_data = data, jm_audio_storage_path = audio, jm_audio_duration_seconds = None, jm_is_edited = False,
     jm_edited_at = None, jm_created_at = now\<rparr>"

definition create_message :: "journal_message \<Rightarrow> journal_db \<Rightarrow> journal_db result" where
  "create_message m d = (if get_message_by_id d (jm_id m) \<noteq> None then taken ''journal_messages''
     else if \<not> one_context m then taken ''ck_journal_messages_exactly_one_context''
     else Inr (d \<lparr>hd_messages := hd_messages d @ [m]\<rparr>))"

definition list_messages_by_trade_journal :: "journal_db \<Rightarrow> uuid \<Rightarrow> journal_message list" where
  "list_messages_by_trade_journal d k = oldest_first jm_created_at jm_id
     (filter (\<lambda>m. jm_trade_journal_id m = Some k) (hd_messages d))"

definition list_messages_by_daily_journal :: "journal_db \<Rightarrow> uuid \<Rightarrow> journal_message list" where
  "list_messages_by_daily_journal d k = oldest_first jm_created_at jm_id
     (filter (\<lambda>m. jm_daily_journal_id m = Some k) (hd_messages d))"

definition update_message_content :: "int \<Rightarrow> string option \<Rightarrow> string list \<Rightarrow> journal_message \<Rightarrow> journal_message" where
  "update_message_content now content tags m = m \<lparr>jm_content := content, jm_tags := tags, jm_is_edited := True, jm_edited_at := Some now\<rparr>"

definition repo_delete_message :: "uuid \<Rightarrow> journal_db \<Rightarrow> journal_db" where
  "repo_delete_message k d = d \<lparr>hd_messages := filter (\<lambda>m. jm_id m \<noteq> k) (hd_messages d),
     hd_attachments := filter (\<lambda>x. ja_message_id x \<noteq> k) (hd_attachments d)\<rparr>"

definition too_long :: "nat \<Rightarrow> 'a result" where
  "too_long n = Inl (Exn ''DataError'' (''value too long for type character varying('' @ show_nat n @ '')''))"

definition create_attachment :: "journal_attachment \<Rightarrow> journal_db \<Rightarrow> journal_db result" where
  "create_attachment x d = (if length (ja_media_type x) > 20 then too_long 20
     else if length (ja_mime_type x) > 100 then too_long 100
     else if (case ja_original_filename x of None \<Rightarrow> False | Some n \<Rightarrow> length n > 255) then too_long 255
     else if row_get ja_id (ja_id x) (hd_attachments d) \<noteq> None then taken ''journal_attachments''
     else Inr (d \<lparr>hd_attachments := hd_attachments d @ [x]\<rparr>))"

definition list_attachments_by_message :: "journal_db \<Rightarrow> uuid \<Rightarrow> journal_attachment list" where
  "list_attachments_by_message d k = oldest_first ja_created_at ja_id (filter (\<lambda>x. ja_message_id x = k) (hd_attachments d))"

section \<open>Templates\<close>

definition add_template :: "journal_template \<Rightarrow> journal_db \<Rightarrow> journal_db result" where
  "add_template t d = (if row_get jt_id (jt_id t) (hd_templates d) \<noteq> None then taken ''journal_templates''
     else Inr (d \<lparr>hd_templates := hd_templates d @ [t]\<rparr>))"

definition template_visible :: "uuid \<Rightarrow> journal_template \<Rightarrow> bool" where
  "template_visible u t \<longleftrightarrow> jt_is_system t \<or> jt_owner_id t = Some u"

definition get_template_visible_to_user :: "journal_db \<Rightarrow> uuid \<Rightarrow> uuid \<Rightarrow> journal_template option" where
  "get_template_visible_to_user d k u = find (\<lambda>t. jt_id t = k \<and> template_visible u t) (hd_templates d)"

definition list_templates_visible_to_user :: "journal_db \<Rightarrow> uuid \<Rightarrow> journal_template_type option \<Rightarrow> journal_template list" where
  "list_templates_visible_to_user d u type = sorted_by_desc (\<lambda>t. if jt_is_system t then 1 else 0) (sorted_by jt_created_at
     (filter (\<lambda>t. template_visible u t \<and> (case type of None \<Rightarrow> True | Some x \<Rightarrow> jt_template_type t = x)) (hd_templates d)))"

definition delete_user_template :: "uuid \<Rightarrow> journal_template \<Rightarrow> journal_db \<Rightarrow> bool \<times> journal_db" where
  "delete_user_template u t d = (if jt_is_system t \<or> jt_owner_id t \<noteq> Some u then (False, d)
     else (True, d \<lparr>hd_templates := filter (\<lambda>x. jt_id x \<noteq> jt_id t) (hd_templates d)\<rparr>))"

definition daily_reflection_template_id :: uuid where
  "daily_reflection_template_id = 0xee5ad00f0de24ce9a8f3f89a0a8f1f3a"

definition post_trade_review_template_id :: uuid where
  "post_trade_review_template_id = 0x228eb5ba30a04b3695b27e82ff931f91"

definition numbered :: "string list \<Rightarrow> (int \<times> int \<times> string) list" where
  "numbered qs = map (\<lambda>(i, q). (int i, int i, q)) (enumerate 1 qs)"

definition system_templates :: "int \<Rightarrow> journal_template list" where
  "system_templates now = [
     \<lparr>jt_id = daily_reflection_template_id, jt_name = ''Daily reflection'', jt_template_type = Template_daily,
      jt_is_system = True, jt_owner_id = None, jt_questions = numbered [
        ''How did you feel going into today'' @ [CHR 0x27] @ ''s session?'', ''Did you stick to your trading plan today?'',
        ''What was your best decision today?'', ''What would you do differently tomorrow?'',
        ''Rate your discipline today from 1-10.''], jt_created_at = now\<rparr>,
     \<lparr>jt_id = post_trade_review_template_id, jt_name = ''Post-trade review'', jt_template_type = Template_trade,
      jt_is_system = True, jt_owner_id = None, jt_questions = numbered [
        ''What was your entry reason for this trade?'', ''Did you follow your entry rules exactly?'',
        ''How did you manage the trade (SL, TP, partials)?'', ''What would you have done differently?'',
        ''Rate this trade: A (followed plan perfectly) / B (minor deviation) / C (broke rules)''], jt_created_at = now\<rparr>]"

definition seed_system_templates :: "int \<Rightarrow> journal_db \<Rightarrow> (nat \<times> nat) \<times> journal_db" where
  "seed_system_templates now d = (
     let fresh = filter (\<lambda>t. row_get jt_id (jt_id t) (hd_templates d) = None) (system_templates now) in
     ((length fresh, 2 - length fresh), d \<lparr>hd_templates := hd_templates d @ fresh\<rparr>))"

section \<open>Tags\<close>

definition get_group_by_id :: "journal_db \<Rightarrow> uuid \<Rightarrow> tag_group option" where
  "get_group_by_id d k = row_get tg_id k (hd_groups d)"

definition put_group :: "tag_group \<Rightarrow> journal_db \<Rightarrow> journal_db" where
  "put_group g = hd_groups_update (row_put tg_id g)"

definition next_position :: "int list \<Rightarrow> int" where
  "next_position ps = (case ps of [] \<Rightarrow> 0 | p # qs \<Rightarrow> fold max qs p + 1)"

definition add_group :: "tag_group \<Rightarrow> journal_db \<Rightarrow> journal_db result" where
  "add_group g d = (if get_group_by_id d (tg_id g) \<noteq> None then taken ''tag_groups'' else Inr (d \<lparr>hd_groups := hd_groups d @ [g]\<rparr>))"

definition create_group :: "uuid \<Rightarrow> int \<Rightarrow> uuid \<Rightarrow> string \<Rightarrow> string option \<Rightarrow> journal_db \<Rightarrow> (tag_group \<times> journal_db) result" where
  "create_group k now u name color d = (
     let g = \<lparr>tg_id = k, tg_user_id = Some u, tg_name = name, tg_color = color,
        tg_position = next_position (map tg_position (filter (\<lambda>g. tg_user_id g = Some u) (hd_groups d))),
        tg_is_system = False, tg_created_at = now\<rparr> in map_Inr (Pair g) (add_group g d))"

definition update_group :: "string option \<Rightarrow> string option \<Rightarrow> tag_group \<Rightarrow> tag_group" where
  "update_group name color g = g \<lparr>tg_name := (case name of None \<Rightarrow> tg_name g | Some n \<Rightarrow> n),
     tg_color := (case color of None \<Rightarrow> tg_color g | Some c \<Rightarrow> Some c)\<rparr>"

definition drop_tags :: "(tag \<Rightarrow> bool) \<Rightarrow> journal_db \<Rightarrow> journal_db" where
  "drop_tags P d = d \<lparr>hd_tags := filter (\<lambda>t. \<not> P t) (hd_tags d),
     hd_trade_tags := filter (\<lambda>(t, x). \<not> list_ex (\<lambda>g. tag_id g = x \<and> P g) (hd_tags d)) (hd_trade_tags d)\<rparr>"

definition delete_group :: "uuid \<Rightarrow> uuid \<Rightarrow> journal_db \<Rightarrow> journal_db" where
  "delete_group u k d = (if list_ex (\<lambda>g. tg_id g = k \<and> tg_user_id g = Some u) (hd_groups d)
     then drop_tags (\<lambda>t. tag_group_id t = k) (d \<lparr>hd_groups := filter (\<lambda>g. tg_id g \<noteq> k) (hd_groups d)\<rparr>) else d)"

text \<open>One update for every identifier of the list, which gives the rows of the user their places.\<close>

definition reorder :: "('r \<Rightarrow> uuid) \<Rightarrow> ('r \<Rightarrow> bool) \<Rightarrow> (int \<Rightarrow> 'r \<Rightarrow> 'r) \<Rightarrow> uuid list \<Rightarrow> 'r list \<Rightarrow> 'r list" where
  "reorder key mine place ids rows = fold (\<lambda>(p, k). map (\<lambda>r. if key r = k \<and> mine r then place (int p) r else r)) (enumerate 0 ids) rows"

definition reorder_groups :: "uuid \<Rightarrow> uuid list \<Rightarrow> journal_db \<Rightarrow> journal_db" where
  "reorder_groups u ids = hd_groups_update (reorder tg_id (\<lambda>g. tg_user_id g = Some u) (\<lambda>p g. g \<lparr>tg_position := p\<rparr>) ids)"

definition get_tag_by_id :: "journal_db \<Rightarrow> uuid \<Rightarrow> tag option" where
  "get_tag_by_id d k = row_get tag_id k (hd_tags d)"

definition put_tag :: "tag \<Rightarrow> journal_db \<Rightarrow> journal_db" where
  "put_tag t = hd_tags_update (row_put tag_id t)"

definition add_tag :: "tag \<Rightarrow> journal_db \<Rightarrow> journal_db result" where
  "add_tag t d = (if get_tag_by_id d (tag_id t) \<noteq> None then taken ''tags'' else Inr (d \<lparr>hd_tags := hd_tags d @ [t]\<rparr>))"

definition repo_create_tag :: "uuid \<Rightarrow> int \<Rightarrow> uuid \<Rightarrow> uuid \<Rightarrow> string \<Rightarrow> journal_db \<Rightarrow> (tag \<times> journal_db) result" where
  "repo_create_tag k now u g name d = (
     let t = \<lparr>tag_id = k, tag_group_id = g, tag_user_id = Some u, tag_name = name,
        tag_position = next_position (map tag_position (filter (\<lambda>t. tag_group_id t = g) (hd_tags d))),
        tag_is_system = False, tag_created_at = now\<rparr> in map_Inr (Pair t) (add_tag t d))"

definition repo_delete_tag :: "uuid \<Rightarrow> uuid \<Rightarrow> journal_db \<Rightarrow> journal_db" where
  "repo_delete_tag u k d = (if list_ex (\<lambda>t. tag_id t = k \<and> tag_user_id t = Some u) (hd_tags d)
     then drop_tags (\<lambda>t. tag_id t = k) d else d)"

definition repo_reorder_tags :: "uuid \<Rightarrow> uuid list \<Rightarrow> journal_db \<Rightarrow> journal_db" where
  "repo_reorder_tags u ids = hd_tags_update (reorder tag_id (\<lambda>t. tag_user_id t = Some u) (\<lambda>p t. t \<lparr>tag_position := p\<rparr>) ids)"

definition list_groups_with_tags :: "journal_db \<Rightarrow> uuid \<Rightarrow> (tag_group \<times> tag list) list" where
  "list_groups_with_tags d u = (
     let tags = sorted_by tag_position (sorted_by tag_created_at
       (filter (\<lambda>t. tag_user_id t = None \<or> tag_user_id t = Some u) (hd_tags d))) in
     map (\<lambda>g. (g, filter (\<lambda>t. tag_group_id t = tg_id g) tags))
       (sorted_by tg_position (sorted_by tg_created_at (filter (\<lambda>g. tg_is_system g \<or> tg_user_id g = Some u) (hd_groups d)))))"

definition repo_get_trade_tags :: "jn_env \<Rightarrow> journal_db \<Rightarrow> uuid \<Rightarrow> tag list" where
  "repo_get_trade_tags env d t = sorted_by tag_position (sort_key (ne_collate env \<circ> tag_name)
     (filter (\<lambda>g. (t, tag_id g) \<in> set (hd_trade_tags d)) (hd_tags d)))"

text \<open>The tags of a trade are replaced; two rows for one tag break the primary key.\<close>

definition repo_update_trade_tags :: "uuid \<Rightarrow> uuid list \<Rightarrow> journal_db \<Rightarrow> journal_db result" where
  "repo_update_trade_tags t ids d = (if \<not> distinct ids then taken ''trade_tags''
     else Inr (d \<lparr>hd_trade_tags := filter (\<lambda>(x, _). x \<noteq> t) (hd_trade_tags d) @ map (Pair t) ids\<rparr>))"

definition system_tag_defaults :: "(string \<times> string \<times> string list) list" where
  "system_tag_defaults = [
     (''Timeframe'', ''#3b82f6'', [''Daily'', ''4H'', ''1H'', ''30 min'', ''15 min'']),
     (''Confluence'', ''#10b981'', [''Trend'', ''Support / Resistance'', ''Liquidity'', ''Volume'', ''News'']),
     (''Pattern'', ''#8b5cf6'', [''Head and Shoulders'', ''Flag'', ''Wedge'', ''Range'', ''Triangle'', ''No Pattern'']),
     (''Preparation'', ''#f59e0b'', [''Well Prepared'', ''Feel Rushed'', ''No Preparation'']),
     (''Mental'', ''#ec4899'', [''Good Mood'', ''Stressed'', ''Slept Bad'', ''Hectic'', ''Did Exercise'']),
     (''Indicator'', ''#0ea5e9'', [''RSI OB'', ''RSI OS'', ''Above 50 EMA'', ''Below 50 EMA''])]"

definition seed_tag :: "(nat \<Rightarrow> uuid) \<Rightarrow> int \<Rightarrow> uuid \<Rightarrow> nat \<times> string \<Rightarrow> (nat \<times> nat) \<times> journal_db \<Rightarrow> ((nat \<times> nat) \<times> journal_db) result" where
  "seed_tag draw now g p s = (let (pos, name) = p; ((groups, tags), d) = s in
     bind_Inr (scalar_one_or_none (filter (\<lambda>t. tag_group_id t = g \<and> tag_name t = name \<and> tag_user_id t = None) (hd_tags d))) (\<lambda>old.
       case old of Some _ \<Rightarrow> Inr s
       | None \<Rightarrow> map_Inr (Pair (groups, tags + 1)) (add_tag \<lparr>tag_id = draw (groups + tags), tag_group_id = g, tag_user_id = None,
           tag_name = name, tag_position = int pos, tag_is_system = True, tag_created_at = now\<rparr> d)))"

fun seed_tags :: "(nat \<Rightarrow> uuid) \<Rightarrow> int \<Rightarrow> uuid \<Rightarrow> (nat \<times> string) list \<Rightarrow> (nat \<times> nat) \<times> journal_db \<Rightarrow> ((nat \<times> nat) \<times> journal_db) result" where
  "seed_tags draw now g [] s = Inr s"
| "seed_tags draw now g (p # ps) s = bind_Inr (seed_tag draw now g p s) (seed_tags draw now g ps)"

fun seed_groups :: "(nat \<Rightarrow> uuid) \<Rightarrow> int \<Rightarrow> (nat \<times> string \<times> string \<times> string list) list \<Rightarrow> (nat \<times> nat) \<times> journal_db \<Rightarrow> ((nat \<times> nat) \<times> journal_db) result" where
  "seed_groups draw now [] s = Inr s"
| "seed_groups draw now ((pos, name, color, tags) # gs) ((m, n), d) =
     bind_Inr (scalar_one_or_none (filter (\<lambda>g. tg_name g = name \<and> tg_is_system g) (hd_groups d))) (\<lambda>old.
     bind_Inr (case old of Some g \<Rightarrow> Inr (tg_id g, (m, n), d)
       | None \<Rightarrow> map_Inr (\<lambda>d1. (draw (m + n), (m + 1, n), d1)) (add_group \<lparr>tg_id = draw (m + n), tg_user_id = None, tg_name = name,
           tg_color = Some color, tg_position = int pos, tg_is_system = True, tg_created_at = now\<rparr> d)) (\<lambda>(g, s).
     bind_Inr (seed_tags draw now g (enumerate 0 tags) s) (seed_groups draw now gs)))"

definition seed_system_tags :: "(nat \<Rightarrow> uuid) \<Rightarrow> int \<Rightarrow> journal_db \<Rightarrow> ((nat \<times> nat) \<times> journal_db) result" where
  "seed_system_tags draw now d = seed_groups draw now (enumerate 0 system_tag_defaults) ((0, 0), d)"

section \<open>Setups\<close>

definition list_user_setups :: "journal_db \<Rightarrow> uuid \<Rightarrow> playbook_setup list" where
  "list_user_setups d u = sorted_by st_position (sorted_by st_created_at (filter (\<lambda>s. st_user_id s = u) (hd_setups d)))"

definition get_setup_by_name :: "journal_db \<Rightarrow> uuid \<Rightarrow> string \<Rightarrow> playbook_setup option" where
  "get_setup_by_name d u n = find (\<lambda>s. st_user_id s = u \<and> st_name s = n) (hd_setups d)"

definition get_setup_by_id :: "journal_db \<Rightarrow> uuid \<Rightarrow> playbook_setup option" where
  "get_setup_by_id d k = row_get st_id k (hd_setups d)"

definition repo_create_setup :: "uuid \<Rightarrow> int \<Rightarrow> uuid \<Rightarrow> string \<Rightarrow> journal_db \<Rightarrow> (playbook_setup \<times> journal_db) result" where
  "repo_create_setup k now u name d = (if get_setup_by_id d k \<noteq> None \<or> get_setup_by_name d u name \<noteq> None then taken ''setups''
     else let s = \<lparr>st_id = k, st_user_id = u, st_name = name,
         st_position = next_position (map st_position (filter (\<lambda>s. st_user_id s = u) (hd_setups d))), st_created_at = now\<rparr>
       in Inr (s, d \<lparr>hd_setups := hd_setups d @ [s]\<rparr>))"

definition repo_delete_setup :: "uuid \<Rightarrow> uuid \<Rightarrow> journal_db \<Rightarrow> journal_db" where
  "repo_delete_setup u k d = d \<lparr>hd_setups := filter (\<lambda>s. \<not> (st_id s = k \<and> st_user_id s = u)) (hd_setups d)\<rparr>"

definition repo_reorder_setups :: "uuid \<Rightarrow> uuid list \<Rightarrow> journal_db \<Rightarrow> journal_db" where
  "repo_reorder_setups u ids = hd_setups_update (reorder st_id (\<lambda>s. st_user_id s = u) (\<lambda>p s. s \<lparr>st_position := p\<rparr>) ids)"

definition get_trade_by_id :: "journal_db \<Rightarrow> uuid \<Rightarrow> trade option" where
  "get_trade_by_id d k = row_get tr_id k (kd_trades (hd_core d))"

definition set_trade_setup :: "uuid \<Rightarrow> string option \<Rightarrow> journal_db \<Rightarrow> journal_db" where
  "set_trade_setup k name = hd_core_update (kd_trades_update (row_modify tr_id k (\<lambda>t. t \<lparr>tr_setup := name\<rparr>)))"

section \<open>What goes with a trade or an account\<close>

text \<open>
  Deleting an account or a trade deletes what refers to it: the journals of the account's days, the journals and
  tags of the trade, their messages and attachments. A journal of a trade outlives that of its day.
\<close>

definition purged :: "journal_db \<Rightarrow> journal_db" where
  "purged d = (
     let accounts = map ta_id (kd_accounts (hd_core d)); trades = map tr_id (kd_trades (hd_core d));
         days = filter (\<lambda>j. dj_account_id j \<in> set accounts) (hd_days d);
         entries = map (\<lambda>j. case tj_daily_journal_id j of None \<Rightarrow> j
             | Some k \<Rightarrow> if k \<in> dj_id ` set days then j else j \<lparr>tj_daily_journal_id := None\<rparr>)
           (filter (\<lambda>j. tj_trade_id j \<in> set trades) (hd_entries d));
         messages = filter (\<lambda>m. (case jm_daily_journal_id m of None \<Rightarrow> True | Some k \<Rightarrow> k \<in> dj_id ` set days)
             \<and> (case jm_trade_journal_id m of None \<Rightarrow> True | Some k \<Rightarrow> k \<in> tj_id ` set entries)) (hd_messages d) in
     d \<lparr>hd_days := days, hd_entries := entries, hd_messages := messages,
        hd_attachments := filter (\<lambda>x. ja_message_id x \<in> jm_id ` set messages) (hd_attachments d),
        hd_trade_tags := filter (\<lambda>(t, _). t \<in> set trades) (hd_trade_tags d)\<rparr>)"

end
