(* ===== verification/Journal_Service.thy ===== *)
theory Journal_Service
  imports Journal_Tables
begin

text \<open>
  What a user does to the journal: \<^verbatim>\<open>journal/service/_journals.py\<close>, \<^verbatim>\<open>_templates.py\<close>, \<^verbatim>\<open>_tags.py\<close>, \<^verbatim>\<open>_setups.py\<close>,
  \<^verbatim>\<open>_assessment.py\<close> and the helpers of \<^verbatim>\<open>_helpers.py\<close> they use. An operation answers with its result and the database it
  commits, or raises. Where an operation has committed before it raises, it answers with both. The new identifiers
  of a request are drawn from \<open>jq_draw\<close>, in the order they are needed.
\<close>

record jn_rq =
  jq_now :: int
  jq_user :: uuid
  jq_draw :: "nat \<Rightarrow> uuid"
  jq_file :: "upload_file option"

section \<open>Texts\<close>

text \<open>\<^verbatim>\<open>re.findall(r"#([A-Za-z][A-Za-z0-9_-]*)", content)\<close>.\<close>

definition tag_char :: "char \<Rightarrow> bool" where
  "tag_char c \<longleftrightarrow> is_alnum c \<or> c = CHR ''_'' \<or> c = CHR ''-''"

definition tag_start :: "char \<Rightarrow> bool" where
  "tag_start c \<longleftrightarrow> is_upper_letter c \<or> is_lower_letter c"

function hashtags :: "string \<Rightarrow> string list" where
  "hashtags [] = []"
| "hashtags (c # s) = (if c = CHR ''#'' then (case s of [] \<Rightarrow> []
     | x # t \<Rightarrow> if tag_start x then (x # takeWhile tag_char t) # hashtags (dropWhile tag_char t) else hashtags s) else hashtags s)"
  by pat_completeness auto
termination
  by (relation "measure length") (auto simp: less_Suc_eq_le le_SucI length_dropWhile_le)

definition extract_tags :: "string option \<Rightarrow> string list" where
  "extract_tags content = (case content of None \<Rightarrow> [] | Some s \<Rightarrow> map py_lower (hashtags s))"

text \<open>A note that is blank is none.\<close>

definition blank_to_none :: "string option \<Rightarrow> string option" where
  "blank_to_none note = (case note of None \<Rightarrow> None | Some s \<Rightarrow> if py_strip s = [] then None else Some (py_strip s))"

section \<open>Ownership\<close>

definition get_account_or_404 :: "journal_db \<Rightarrow> uuid \<Rightarrow> uuid \<Rightarrow> trading_account result" where
  "get_account_or_404 d a u = (case get_account_by_id_for_user (hd_core d) a u of
     None \<Rightarrow> http_raise 404 ''Trading account not found.'' | Some x \<Rightarrow> Inr x)"

definition get_trade_owned_by_user :: "journal_db \<Rightarrow> uuid \<Rightarrow> uuid \<Rightarrow> (trade \<times> trading_account) result" where
  "get_trade_owned_by_user d t u = (case get_trade_by_id d t of None \<Rightarrow> http_raise 404 ''Trade not found.''
     | Some tr \<Rightarrow> (case get_account_by_id_for_user (hd_core d) (tr_account_id tr) u of
         None \<Rightarrow> http_raise 404 ''Trade not found.'' | Some a \<Rightarrow> Inr (tr, a)))"

definition get_daily_journal_owned_by_user :: "journal_db \<Rightarrow> uuid \<Rightarrow> uuid \<Rightarrow> (daily_journal \<times> trading_account) result" where
  "get_daily_journal_owned_by_user d k u = (case get_daily_journal_by_id d k of None \<Rightarrow> http_raise 404 ''Daily journal not found.''
     | Some j \<Rightarrow> (case get_account_by_id_for_user (hd_core d) (dj_account_id j) u of
         None \<Rightarrow> http_raise 404 ''Daily journal not found.'' | Some a \<Rightarrow> Inr (j, a)))"

text \<open>The other check of a trade tells a trade of somebody else from one that is not there.\<close>

definition validate_trade_ownership :: "journal_db \<Rightarrow> uuid \<Rightarrow> uuid \<Rightarrow> trade result" where
  "validate_trade_ownership d u t = (case get_trade_by_id d t of None \<Rightarrow> http_raise 404 ''Trade not found.''
     | Some tr \<Rightarrow> if map_option ta_user_id (get_account_by_id (hd_core d) (tr_account_id tr)) = Some u then Inr tr
         else http_raise 403 ''You do not have permission to access this trade.'')"

section \<open>Answers\<close>

record attachment_response =
  ar_attachment :: journal_attachment
  ar_signed_url :: string
  ar_signed_url_expires_at :: int

record message_response =
  mr_message :: journal_message
  mr_audio_url :: "string option"
  mr_audio_url_expires_at :: "int option"
  mr_attachments :: "attachment_response list"

definition serialize_attachment :: "jn_env \<Rightarrow> int \<Rightarrow> journal_attachment \<Rightarrow> attachment_response result" where
  "serialize_attachment env now x = map_Inr (\<lambda>(url, expires). \<lparr>ar_attachment = x, ar_signed_url = url, ar_signed_url_expires_at = expires\<rparr>)
     (generate_signed_url (ne_storage env) now (ja_storage_path x) (ne_image_url_ttl env))"

definition audio_link :: "jn_env \<Rightarrow> int \<Rightarrow> journal_message \<Rightarrow> (string \<times> int) option result" where
  "audio_link env now m = (case jm_audio_storage_path m of None \<Rightarrow> Inr None
     | Some p \<Rightarrow> if p = [] then Inr None else map_Inr Some (generate_signed_url (ne_storage env) now p (ne_voice_url_ttl env)))"

definition serialize_message :: "jn_env \<Rightarrow> int \<Rightarrow> journal_db \<Rightarrow> journal_message \<Rightarrow> message_response result" where
  "serialize_message env now d m = bind_Inr (audio_link env now m) (\<lambda>audio.
     map_Inr (\<lambda>xs. \<lparr>mr_message = m, mr_audio_url = map_option fst audio, mr_audio_url_expires_at = map_option snd audio,
         mr_attachments = xs\<rparr>)
       (map_result (serialize_attachment env now) (list_attachments_by_message d (jm_id m))))"

definition serialize_messages :: "jn_env \<Rightarrow> int \<Rightarrow> journal_db \<Rightarrow> journal_message list \<Rightarrow> message_response list result" where
  "serialize_messages env now d = map_result (serialize_message env now d)"

section \<open>The journal of a trade\<close>

definition direction_value :: "trade_direction \<Rightarrow> string" where
  "direction_value x = (case x of Direction_buy \<Rightarrow> ''buy'' | Direction_sell \<Rightarrow> ''sell'')"

definition session_value :: "trade_session \<Rightarrow> string" where
  "session_value x = (case x of Session_asian \<Rightarrow> ''asian'' | Session_london \<Rightarrow> ''london'' | Session_new_york \<Rightarrow> ''new_york''
     | Session_london_ny_overlap \<Rightarrow> ''london_ny_overlap'' | Session_off_hours \<Rightarrow> ''off_hours'')"

definition system_data_of :: "trade \<Rightarrow> dict" where
  "system_data_of t = [(''symbol'', PStr (tr_symbol t)), (''direction'', PStr (direction_value (tr_direction t))),
     (''net_profit'', PStr (show_fixed 2 (tr_net_profit t))), (''open_price'', PStr (show_fixed 5 (tr_open_price t))),
     (''close_price'', PStr (show_fixed 5 (tr_close_price t))), (''volume'', PStr (show_fixed 2 (tr_volume t))),
     (''duration_seconds'', PInt (tr_duration_seconds t)), (''session'', PStr (session_value (tr_session t))),
     (''opened_at'', PTime (tr_opened_at t)), (''closed_at'', PTime (tr_closed_at t))]"

text \<open>
  What the session holds when the journal of the trade is open, and whether it is new: only then has the
  transaction been committed.
\<close>

definition open_trade_journal :: "jn_env \<Rightarrow> jn_rq \<Rightarrow> uuid \<Rightarrow> journal_db \<Rightarrow> ((trade_journal \<times> bool) \<times> journal_db) result" where
  "open_trade_journal env q t d =
     bind_Inr (get_trade_owned_by_user d t (jq_user q)) (\<lambda>(tr, a).
     bind_Inr (repo_get_or_create_daily_journal (jq_draw q 0) (jq_now q) (ta_id a)
         (to_account_local_date (ne_acc env) (tr_closed_at tr) (ta_timezone a)) d) (\<lambda>(day, d1).
     bind_Inr (get_or_create_trade_journal_by_trade_id (jq_draw q 1) (jq_now q) (tr_id tr) (Some (dj_id day)) d1) (\<lambda>((j, new), d2).
       if new then map_Inr (Pair (j, True)) (create_message (new_message (jq_draw q 2) (jq_now q) None (Some (tj_id j)) None
           Message_system None [] (Some (system_data_of tr)) None) d2)
       else Inr ((j, False), d2))))"

definition trade_journal_messages :: "jn_env \<Rightarrow> jn_rq \<Rightarrow> trade_journal \<Rightarrow> journal_db \<Rightarrow> message_response list result" where
  "trade_journal_messages env q j d = serialize_messages env (jq_now q) d (list_messages_by_trade_journal d (tj_id j))"

text \<open>What is committed when the endpoint ends: a journal that was there already leaves nothing behind.\<close>

definition service_get_or_create_trade_journal :: "jn_env \<Rightarrow> jn_rq \<Rightarrow> uuid \<Rightarrow> journal_db \<Rightarrow> message_response list result \<times> journal_db" where
  "service_get_or_create_trade_journal env q t d = (case open_trade_journal env q t d of Inl e \<Rightarrow> (Inl e, d)
     | Inr ((j, new), d1) \<Rightarrow> (trade_journal_messages env q j d1, if new then d1 else d))"

section \<open>Writing messages\<close>

definition unsupported_type :: "journal_message_type \<Rightarrow> bool" where
  "unsupported_type type \<longleftrightarrow> type = Message_system \<or> type = Message_prompt \<or> type = Message_ai_response"

definition nonempty_name :: "string option \<Rightarrow> string option" where
  "nonempty_name n = (case n of None \<Rightarrow> None | Some s \<Rightarrow> if s = [] then None else Some s)"

text \<open>The key of a recording, or the key, the type and the name of a picture.\<close>

definition posted_media :: "jn_env \<Rightarrow> jn_rq \<Rightarrow> uuid \<Rightarrow> journal_message_type \<Rightarrow> string option \<Rightarrow>
    (string option \<times> (string \<times> string \<times> string option) option) result" where
  "posted_media env q k type content = (
     if type = Message_voice then (case jq_file q of None \<Rightarrow> http_raise 422 ''Voice message file is required.''
       | Some f \<Rightarrow> map_Inr (\<lambda>(path, _). (Some path, None)) (upload_journal_voice_note (ne_storage env) k (str_uuid (jq_user q)) f))
     else if type = Message_image then (case jq_file q of None \<Rightarrow> http_raise 422 ''Image file is required.''
       | Some f \<Rightarrow> bind_Inr (upload_media (ne_storage env) k (str_uuid (jq_user q)) f) (\<lambda>(path, media, mime).
           if media_type_value media \<noteq> ''image'' then http_raise 422 ''Only image files are allowed for image messages.''
           else Inr (None, Some (path, mime, nonempty_name (uf_filename f)))))
     else if type = Message_text \<and> (content = None \<or> content = Some []) then http_raise 422 ''Text message content is required.''
     else Inr (None, None))"

definition post_message :: "jn_rq \<Rightarrow> uuid \<Rightarrow> uuid \<Rightarrow> uuid option \<Rightarrow> uuid option \<Rightarrow> journal_message_type \<Rightarrow> string option \<Rightarrow>
    string option \<times> (string \<times> string \<times> string option) option \<Rightarrow> journal_db \<Rightarrow> (journal_message \<times> journal_db) result" where
  "post_message q k ka day entry type content media d = (
     let m = new_message k (jq_now q) day entry (Some (jq_user q)) type content (extract_tags content) None (fst media) in
     bind_Inr (create_message m d) (\<lambda>d1. map_Inr (Pair m) (case snd media of None \<Rightarrow> Inr d1
       | Some (path, mime, name) \<Rightarrow> create_attachment \<lparr>ja_id = ka, ja_message_id = k, ja_storage_path = path,
           ja_media_type = ''image'', ja_mime_type = mime, ja_original_filename = name, ja_caption = content, ja_created_at = jq_now q\<rparr> d1)))"

definition first_reviewed :: "int \<Rightarrow> int option \<Rightarrow> int option" where
  "first_reviewed now moment = (case moment of None \<Rightarrow> Some now | Some t \<Rightarrow> Some t)"

definition review_entry :: "int option \<Rightarrow> trade_journal \<Rightarrow> trade_journal" where
  "review_entry moment j = j \<lparr>tj_reviewed_at := moment\<rparr>"

definition review_day :: "int option \<Rightarrow> daily_journal \<Rightarrow> daily_journal" where
  "review_day moment j = j \<lparr>dj_reviewed_at := moment\<rparr>"

definition create_trade_journal_message :: "jn_env \<Rightarrow> jn_rq \<Rightarrow> uuid \<Rightarrow> journal_message_type \<Rightarrow> string option \<Rightarrow> journal_db \<Rightarrow>
    message_response result \<times> journal_db" where
  "create_trade_journal_message env q t type content d = (
     if unsupported_type type then (http_raise 422 ''Unsupported message type.'', d)
     else case open_trade_journal env q t d of Inl e \<Rightarrow> (Inl e, d)
     | Inr ((j, new), d1) \<Rightarrow> (let left = (if new then d1 else d) in
         case bind_Inr (trade_journal_messages env q j d1) (\<lambda>_. bind_Inr (posted_media env q (jq_draw q 3) type content) (\<lambda>media.
             post_message q (jq_draw q 4) (jq_draw q 5) None (Some (tj_id j)) type content media d1)) of
           Inl e \<Rightarrow> (Inl e, left)
         | Inr (m, d2) \<Rightarrow> (let d3 = put_entry (review_entry (first_reviewed (jq_now q) (tj_reviewed_at j)) j) d2 in
             (serialize_message env (jq_now q) d3 m, d3))))"

definition create_daily_journal_message :: "jn_env \<Rightarrow> jn_rq \<Rightarrow> uuid \<Rightarrow> journal_message_type \<Rightarrow> string option \<Rightarrow> journal_db \<Rightarrow>
    message_response result \<times> journal_db" where
  "create_daily_journal_message env q k type content d = (
     if unsupported_type type then (http_raise 422 ''Unsupported message type.'', d)
     else case bind_Inr (get_daily_journal_owned_by_user d k (jq_user q)) (\<lambda>(j, a).
         bind_Inr (posted_media env q (jq_draw q 3) type content) (\<lambda>media.
         map_Inr (Pair j) (post_message q (jq_draw q 4) (jq_draw q 5) (Some (dj_id j)) None type content media d))) of
       Inl e \<Rightarrow> (Inl e, d)
     | Inr (j, m, d2) \<Rightarrow> (let d3 = put_day (review_day (first_reviewed (jq_now q) (dj_reviewed_at j)) j) d2 in
         (serialize_message env (jq_now q) d3 m, d3)))"

definition own_message :: "journal_db \<Rightarrow> uuid \<Rightarrow> uuid \<Rightarrow> string \<Rightarrow> journal_message result" where
  "own_message d k u refusal = (case get_message_by_id d k of None \<Rightarrow> http_raise 404 ''Message not found.''
     | Some m \<Rightarrow> if jm_author_id m \<noteq> Some u then http_raise 403 ''Not allowed.''
         else if jm_message_type m = Message_system \<or> jm_message_type m = Message_prompt then http_raise 403 refusal else Inr m)"

definition update_message :: "jn_env \<Rightarrow> jn_rq \<Rightarrow> uuid \<Rightarrow> string option \<Rightarrow> journal_db \<Rightarrow> message_response result \<times> journal_db" where
  "update_message env q k content d = (case own_message d k (jq_user q) ''Message cannot be edited.'' of Inl e \<Rightarrow> (Inl e, d)
     | Inr m \<Rightarrow> (let m1 = update_message_content (jq_now q) content (extract_tags content) m; d1 = put_message m1 d in
         (serialize_message env (jq_now q) d1 m1, d1)))"

definition delete_message :: "uuid \<Rightarrow> uuid \<Rightarrow> journal_db \<Rightarrow> journal_db result" where
  "delete_message u k d = map_Inr (\<lambda>m. repo_delete_message (jm_id m) d) (own_message d k u ''Message cannot be deleted.'')"

section \<open>Days\<close>

text \<open>The journal of a day is made when it is first read.\<close>

definition open_day :: "jn_rq \<Rightarrow> uuid \<Rightarrow> int \<Rightarrow> journal_db \<Rightarrow> ((trading_account \<times> daily_journal) \<times> journal_db) result" where
  "open_day q a day d = bind_Inr (get_account_or_404 d a (jq_user q)) (\<lambda>x.
     map_Inr (\<lambda>(j, d1). ((x, j), d1)) (repo_get_or_create_daily_journal (jq_draw q 0) (jq_now q) a day d))"

record day_note =
  nt_trading_date :: int
  nt_note_html :: "string option"
  nt_note_updated_at :: "int option"

definition day_note_of :: "daily_journal \<Rightarrow> day_note" where
  "day_note_of j = \<lparr>nt_trading_date = dj_trading_date j, nt_note_html = dj_note_html j, nt_note_updated_at = dj_note_updated_at j\<rparr>"

definition get_day_note :: "jn_rq \<Rightarrow> uuid \<Rightarrow> int \<Rightarrow> journal_db \<Rightarrow> (day_note \<times> journal_db) result" where
  "get_day_note q a day d = map_Inr (\<lambda>((_, j), d1). (day_note_of j, d1)) (open_day q a day d)"

definition note_day :: "int \<Rightarrow> string option \<Rightarrow> daily_journal \<Rightarrow> daily_journal" where
  "note_day now note j = j \<lparr>dj_note_html := blank_to_none note, dj_note_updated_at := Some now\<rparr>"

definition save_day_note :: "jn_rq \<Rightarrow> uuid \<Rightarrow> int \<Rightarrow> string option \<Rightarrow> journal_db \<Rightarrow> (day_note \<times> journal_db) result" where
  "save_day_note q a day note d = map_Inr (\<lambda>((_, j), d1). let j1 = note_day (jq_now q) note j in (day_note_of j1, put_day j1 d1))
     (open_day q a day d)"

definition get_adjacent_traded_dates :: "jn_env \<Rightarrow> journal_db \<Rightarrow> uuid \<Rightarrow> uuid \<Rightarrow> int \<Rightarrow> (int option \<times> int option) result" where
  "get_adjacent_traded_dates env d u a day = map_Inr (\<lambda>x. adjacent_traded_local_dates env d a (ta_timezone x) day) (get_account_or_404 d a u)"

definition list_daily_journal_feed :: "journal_db \<Rightarrow> uuid \<Rightarrow> uuid \<Rightarrow> nat \<Rightarrow> uuid option \<Rightarrow> daily_journal list result" where
  "list_daily_journal_feed d u a limit cursor = map_Inr (\<lambda>_. repo_list_daily_journal_feed d a limit cursor) (get_account_or_404 d a u)"

text \<open>The endpoint asks for a row more than the page holds, which tells whether there is a next page.\<close>

definition daily_feed :: "journal_db \<Rightarrow> uuid \<Rightarrow> uuid \<Rightarrow> nat \<Rightarrow> uuid option \<Rightarrow> ((uuid \<times> int) list \<times> uuid option) result" where
  "daily_feed d u a limit cursor = map_Inr (\<lambda>items. let page = take limit items in
       (map (\<lambda>j. (dj_id j, dj_trading_date j)) page, if limit < length items then Some (dj_id (last page)) else None))
     (list_daily_journal_feed d u a (limit + 1) cursor)"

definition mark_daily_journal_reviewed :: "jn_rq \<Rightarrow> uuid \<Rightarrow> journal_db \<Rightarrow> (int \<times> journal_db) result" where
  "mark_daily_journal_reviewed q k d = map_Inr (\<lambda>(j, _). (jq_now q, put_day (review_day (Some (jq_now q)) j) d))
     (get_daily_journal_owned_by_user d k (jq_user q))"

definition mark_trade_journal_reviewed :: "jn_env \<Rightarrow> jn_rq \<Rightarrow> uuid \<Rightarrow> journal_db \<Rightarrow> int result \<times> journal_db" where
  "mark_trade_journal_reviewed env q t d = (case open_trade_journal env q t d of Inl e \<Rightarrow> (Inl e, d)
     | Inr ((j, new), d1) \<Rightarrow> (case trade_journal_messages env q j d1 of Inl e \<Rightarrow> (Inl e, if new then d1 else d)
         | Inr _ \<Rightarrow> (Inr (jq_now q), put_entry (review_entry (Some (jq_now q)) j) d1)))"

section \<open>Rating, assessing and annotating a trade\<close>

text \<open>These open the journal of a trade without the journal of its day.\<close>

definition bare_entry :: "jn_rq \<Rightarrow> uuid \<Rightarrow> journal_db \<Rightarrow> (trade_journal \<times> journal_db) result" where
  "bare_entry q t d = bind_Inr (validate_trade_ownership d (jq_user q) t) (\<lambda>_.
     map_Inr (\<lambda>((j, _), d1). (j, d1)) (get_or_create_trade_journal_by_trade_id (jq_draw q 0) (jq_now q) t None d))"

definition assign_entry :: "(trade_journal \<Rightarrow> trade_journal) \<Rightarrow> trade_journal \<times> journal_db \<Rightarrow> trade_journal \<times> journal_db" where
  "assign_entry f p = (let j = f (fst p) in (j, put_entry j (snd p)))"

definition rated :: "int \<Rightarrow> trade_journal \<Rightarrow> trade_journal" where
  "rated rating j = j \<lparr>tj_rating := Some rating\<rparr>"

definition update_trade_rating :: "jn_rq \<Rightarrow> uuid \<Rightarrow> int \<Rightarrow> journal_db \<Rightarrow> (int \<times> journal_db) result" where
  "update_trade_rating q t rating d = map_Inr (\<lambda>p. (rating, snd (assign_entry (rated rating) p))) (bare_entry q t d)"

definition assessed :: "int option \<Rightarrow> int option \<Rightarrow> int option \<Rightarrow> trade_journal \<Rightarrow> trade_journal" where
  "assessed ex su di j = j \<lparr>tj_execution_quality := coalesce ex (tj_execution_quality j),
     tj_setup_quality := coalesce su (tj_setup_quality j), tj_discipline_score := coalesce di (tj_discipline_score j)\<rparr>"

definition update_trade_assessment :: "jn_rq \<Rightarrow> uuid \<Rightarrow> int option \<Rightarrow> int option \<Rightarrow> int option \<Rightarrow> journal_db \<Rightarrow> (assessment \<times> journal_db) result" where
  "update_trade_assessment q t ex su di d = map_Inr (\<lambda>p. let (j, d1) = assign_entry (assessed ex su di) p in (assessment_of j, d1)) (bare_entry q t d)"

definition trade_note_of :: "uuid \<Rightarrow> trade_journal \<Rightarrow> uuid \<times> string option \<times> int option" where
  "trade_note_of t j = (t, tj_note_html j, tj_note_updated_at j)"

definition get_trade_note :: "jn_rq \<Rightarrow> uuid \<Rightarrow> journal_db \<Rightarrow> ((uuid \<times> string option \<times> int option) \<times> journal_db) result" where
  "get_trade_note q t d = map_Inr (\<lambda>(j, d1). (trade_note_of t j, d1)) (bare_entry q t d)"

definition noted :: "int \<Rightarrow> string option \<Rightarrow> trade_journal \<Rightarrow> trade_journal" where
  "noted now note j = j \<lparr>tj_note_html := blank_to_none note, tj_note_updated_at := Some now\<rparr>"

definition save_trade_note :: "jn_rq \<Rightarrow> uuid \<Rightarrow> string option \<Rightarrow> journal_db \<Rightarrow> ((uuid \<times> string option \<times> int option) \<times> journal_db) result" where
  "save_trade_note q t note d = map_Inr (\<lambda>p. let (j, d1) = assign_entry (noted (jq_now q) note) p in (trade_note_of t j, d1)) (bare_entry q t d)"

section \<open>Templates\<close>

definition create_template :: "jn_rq \<Rightarrow> string \<Rightarrow> journal_template_type \<Rightarrow> (int \<times> int \<times> string) list \<Rightarrow> journal_db \<Rightarrow>
    (journal_template \<times> journal_db) result" where
  "create_template q name type questions d = (let t = \<lparr>jt_id = jq_draw q 0, jt_name = name, jt_template_type = type, jt_is_system = False,
     jt_owner_id = Some (jq_user q), jt_questions = questions, jt_created_at = jq_now q\<rparr> in map_Inr (Pair t) (add_template t d))"

definition delete_template :: "uuid \<Rightarrow> uuid \<Rightarrow> journal_db \<Rightarrow> journal_db result" where
  "delete_template u k d = (case get_template_visible_to_user d k u of None \<Rightarrow> http_raise 404 ''Template not found.''
     | Some t \<Rightarrow> (let (deleted, d1) = delete_user_template u t d in
         if deleted then Inr d1 else http_raise 403 ''Cannot delete this template.''))"

section \<open>Tags\<close>

definition checked_name :: "string \<Rightarrow> nat \<Rightarrow> string \<Rightarrow> string result" where
  "checked_name what limit name = (let n = py_strip name in
     if n = [] then http_raise 400 (what @ '' name cannot be empty.'')
     else if limit < length n then http_raise 400 (what @ '' name cannot exceed '' @ show_nat limit @ '' characters.'') else Inr n)"

definition normalize_color :: "string option \<Rightarrow> string option result" where
  "normalize_color color = (case color of None \<Rightarrow> Inr None | Some c \<Rightarrow> (let s = py_strip c in
     if s = [] then Inr None
     else if \<not> startswith s ''#'' \<or> length s \<noteq> 7 then http_raise 400 ''Color must be a valid 7-character hex code (e.g. #3b82f6).''
     else Inr (Some s)))"

definition create_tag_group :: "jn_rq \<Rightarrow> string \<Rightarrow> string option \<Rightarrow> journal_db \<Rightarrow> (tag_group \<times> journal_db) result" where
  "create_tag_group q name color d = bind_Inr (checked_name ''Group'' 100 name) (\<lambda>n. bind_Inr (normalize_color color) (\<lambda>c.
     create_group (jq_draw q 0) (jq_now q) (jq_user q) n c d))"

definition own_group :: "journal_db \<Rightarrow> uuid \<Rightarrow> uuid \<Rightarrow> string \<Rightarrow> tag_group result" where
  "own_group d u k verb = (case get_group_by_id d k of None \<Rightarrow> http_raise 404 ''Group not found.''
     | Some g \<Rightarrow> if tg_is_system g \<or> tg_user_id g \<noteq> Some u then http_raise 403 (''You do not have permission to '' @ verb @ '' this group.'')
         else Inr g)"

definition update_tag_group :: "uuid \<Rightarrow> uuid \<Rightarrow> string option \<Rightarrow> string option \<Rightarrow> journal_db \<Rightarrow> (tag_group \<times> journal_db) result" where
  "update_tag_group u k name color d = bind_Inr (own_group d u k ''edit'') (\<lambda>g.
     bind_Inr (case name of None \<Rightarrow> Inr None | Some n \<Rightarrow> map_Inr Some (checked_name ''Group'' 100 n)) (\<lambda>n.
     bind_Inr (normalize_color color) (\<lambda>c. let g1 = update_group n c g in Inr (g1, put_group g1 d))))"

definition delete_tag_group :: "uuid \<Rightarrow> uuid \<Rightarrow> journal_db \<Rightarrow> journal_db result" where
  "delete_tag_group u k d = map_Inr (\<lambda>_. delete_group u k d) (own_group d u k ''delete'')"

definition create_tag :: "jn_rq \<Rightarrow> uuid \<Rightarrow> string \<Rightarrow> journal_db \<Rightarrow> (tag \<times> journal_db) result" where
  "create_tag q g name d = (case get_group_by_id d g of None \<Rightarrow> http_raise 404 ''Group not found.''
     | Some x \<Rightarrow> if \<not> tg_is_system x \<and> tg_user_id x \<noteq> Some (jq_user q)
         then http_raise 403 ''You do not have permission to add tags to this group.''
         else bind_Inr (checked_name ''Tag'' 100 name) (\<lambda>n. repo_create_tag (jq_draw q 0) (jq_now q) (jq_user q) g n d))"

definition own_tag :: "journal_db \<Rightarrow> uuid \<Rightarrow> uuid \<Rightarrow> string \<Rightarrow> tag result" where
  "own_tag d u k verb = (case get_tag_by_id d k of None \<Rightarrow> http_raise 404 ''Tag not found.''
     | Some t \<Rightarrow> if tag_user_id t \<noteq> Some u then http_raise 403 (''You do not have permission to '' @ verb @ '' this tag.'') else Inr t)"

definition update_tag :: "uuid \<Rightarrow> uuid \<Rightarrow> string \<Rightarrow> journal_db \<Rightarrow> (tag \<times> journal_db) result" where
  "update_tag u k name d = bind_Inr (own_tag d u k ''edit'') (\<lambda>t. map_Inr (\<lambda>n. let t1 = t \<lparr>tag_name := n\<rparr> in (t1, put_tag t1 d))
     (checked_name ''Tag'' 100 name))"

definition delete_tag :: "uuid \<Rightarrow> uuid \<Rightarrow> journal_db \<Rightarrow> journal_db result" where
  "delete_tag u k d = map_Inr (\<lambda>_. repo_delete_tag u k d) (own_tag d u k ''delete'')"

definition get_trade_tags :: "jn_env \<Rightarrow> journal_db \<Rightarrow> uuid \<Rightarrow> uuid \<Rightarrow> tag list result" where
  "get_trade_tags env d u t = map_Inr (\<lambda>_. repo_get_trade_tags env d t) (validate_trade_ownership d u t)"

definition usable_tag :: "journal_db \<Rightarrow> uuid \<Rightarrow> uuid \<Rightarrow> unit result" where
  "usable_tag d u k = (case get_tag_by_id d k of None \<Rightarrow> http_raise 404 (''Tag '' @ str_uuid k @ '' not found.'')
     | Some t \<Rightarrow> if tag_user_id t \<noteq> None \<and> tag_user_id t \<noteq> Some u
         then http_raise 403 (''You do not have permission to use tag '' @ tag_name t @ ''.'') else Inr ())"

definition update_trade_tags :: "jn_env \<Rightarrow> uuid \<Rightarrow> uuid \<Rightarrow> uuid list \<Rightarrow> journal_db \<Rightarrow> (tag list \<times> journal_db) result" where
  "update_trade_tags env u t ids d = bind_Inr (validate_trade_ownership d u t) (\<lambda>_. bind_Inr (map_result (usable_tag d u) ids) (\<lambda>_.
     map_Inr (\<lambda>d1. (repo_get_trade_tags env d1 t, d1)) (repo_update_trade_tags t ids d)))"

section \<open>Setups\<close>

definition ensure_setup :: "uuid \<Rightarrow> int \<Rightarrow> uuid \<Rightarrow> string \<Rightarrow> journal_db \<Rightarrow> (playbook_setup \<times> journal_db) result" where
  "ensure_setup k now u name d = (case get_setup_by_name d u name of Some s \<Rightarrow> Inr (s, d) | None \<Rightarrow> repo_create_setup k now u name d)"

definition create_setup :: "jn_rq \<Rightarrow> string \<Rightarrow> journal_db \<Rightarrow> (playbook_setup \<times> journal_db) result" where
  "create_setup q name d = bind_Inr (checked_name ''Setup'' 64 name) (\<lambda>n. ensure_setup (jq_draw q 0) (jq_now q) (jq_user q) n d)"

definition delete_setup :: "uuid \<Rightarrow> uuid \<Rightarrow> journal_db \<Rightarrow> journal_db result" where
  "delete_setup u k d = (case get_setup_by_id d k of None \<Rightarrow> http_raise 404 ''Setup not found.''
     | Some s \<Rightarrow> if st_user_id s \<noteq> u then http_raise 403 ''You do not have permission to delete this setup.'' else Inr (repo_delete_setup u k d))"

definition update_trade_setup :: "jn_rq \<Rightarrow> uuid \<Rightarrow> string option \<Rightarrow> journal_db \<Rightarrow> (string option \<times> journal_db) result" where
  "update_trade_setup q t name d = bind_Inr (validate_trade_ownership d (jq_user q) t) (\<lambda>tr. (case blank_to_none name of
       None \<Rightarrow> Inr (None, set_trade_setup (tr_id tr) None d)
     | Some n \<Rightarrow> if 64 < length n then http_raise 400 ''Setup name cannot exceed 64 characters.''
         else map_Inr (\<lambda>(_, d1). (Some n, set_trade_setup (tr_id tr) (Some n) d1)) (ensure_setup (jq_draw q 0) (jq_now q) (jq_user q) n d)))"

end
