(* ===== verification/Journal_Steps.thy ===== *)
theory Journal_Steps
  imports Journal_Service Account_Invariant
begin

text \<open>
  The requests on the journal as one datatype, what each leaves in the database, the steps of the journal beside
  those of the accounts, the invariant of the journal's tables, and the small updates every request is made of.
\<close>

section \<open>Requests\<close>

datatype journal_call =
    Open_trade_journal uuid
  | Post_trade_message uuid journal_message_type "string option"
  | Review_trade uuid
  | Open_day uuid int
  | Save_day_note uuid int "string option"
  | Post_day_message uuid journal_message_type "string option"
  | Review_day uuid
  | Edit_message uuid "string option"
  | Delete_message uuid
  | Rate_trade uuid int
  | Assess_trade uuid "int option" "int option" "int option"
  | Open_trade_note uuid
  | Save_trade_note uuid "string option"
  | Create_template string journal_template_type "(int \<times> int \<times> string) list"
  | Delete_template uuid
  | Create_tag_group string "string option"
  | Update_tag_group uuid "string option" "string option"
  | Delete_tag_group uuid
  | Reorder_tag_groups "uuid list"
  | Create_tag uuid string
  | Update_tag uuid string
  | Delete_tag uuid
  | Reorder_tags "uuid list"
  | Tag_trade uuid "uuid list"
  | Create_setup string
  | Delete_setup uuid
  | Reorder_setups "uuid list"
  | Set_trade_setup uuid "string option"

text \<open>What the schemas of the requests ask, \<^verbatim>\<open>journal/schemas.py\<close>: another body is refused with 422.\<close>

definition sized :: "nat \<Rightarrow> nat \<Rightarrow> string \<Rightarrow> bool" where
  "sized m n s \<longleftrightarrow> m \<le> length s \<and> length s \<le> n"

definition hex_letter :: "char \<Rightarrow> bool" where
  "hex_letter c \<longleftrightarrow> is_digit c \<or> c \<in> set ''abcdefABCDEF''"

definition hex_color :: "string \<Rightarrow> bool" where
  "hex_color s \<longleftrightarrow> length s = 7 \<and> hd s = CHR ''#'' \<and> list_all hex_letter (tl s)"

definition in_range :: "int \<Rightarrow> int \<Rightarrow> int \<Rightarrow> bool" where
  "in_range a b x \<longleftrightarrow> a \<le> x \<and> x \<le> b"

definition valid_body :: "journal_call \<Rightarrow> bool" where
  "valid_body c = (case c of
       Edit_message _ content \<Rightarrow> pred_option (sized 0 5000) content
     | Rate_trade _ n \<Rightarrow> in_range 1 5 n
     | Assess_trade _ ex su di \<Rightarrow> list_all (pred_option (in_range 0 10)) [ex, su, di]
     | Create_template name _ qs \<Rightarrow> sized 1 120 name \<and> qs \<noteq> [] \<and> list_all (\<lambda>(_, _, text). sized 1 500 text) qs
     | Create_tag_group name color \<Rightarrow> sized 1 100 name \<and> pred_option hex_color color
     | Update_tag_group _ name color \<Rightarrow> pred_option (sized 1 100) name \<and> pred_option hex_color color
     | Create_tag _ name \<Rightarrow> sized 1 100 name
     | Update_tag _ name \<Rightarrow> sized 1 100 name
     | Create_setup name \<Rightarrow> sized 1 64 name
     | Set_trade_setup _ name \<Rightarrow> pred_option (sized 0 64) name
     | _ \<Rightarrow> True)"

text \<open>The database after a request: that of the last commit.\<close>

definition or_db :: "journal_db \<Rightarrow> journal_db result \<Rightarrow> journal_db" where
  "or_db d r = (case r of Inl _ \<Rightarrow> d | Inr d1 \<Rightarrow> d1)"

definition journal_handle :: "jn_env \<Rightarrow> jn_rq \<Rightarrow> journal_call \<Rightarrow> journal_db \<Rightarrow> journal_db" where
  "journal_handle env q c d = (let u = jq_user q in case c of
       Open_trade_journal t \<Rightarrow> snd (service_get_or_create_trade_journal env q t d)
     | Post_trade_message t ty s \<Rightarrow> snd (create_trade_journal_message env q t ty s d)
     | Review_trade t \<Rightarrow> snd (mark_trade_journal_reviewed env q t d)
     | Open_day a day \<Rightarrow> or_db d (map_Inr snd (open_day q a day d))
     | Save_day_note a day note \<Rightarrow> or_db d (map_Inr snd (save_day_note q a day note d))
     | Post_day_message k ty s \<Rightarrow> snd (create_daily_journal_message env q k ty s d)
     | Review_day k \<Rightarrow> or_db d (map_Inr snd (mark_daily_journal_reviewed q k d))
     | Edit_message k s \<Rightarrow> snd (update_message env q k s d)
     | Delete_message k \<Rightarrow> or_db d (delete_message u k d)
     | Rate_trade t n \<Rightarrow> or_db d (map_Inr snd (update_trade_rating q t n d))
     | Assess_trade t ex su di \<Rightarrow> or_db d (map_Inr snd (update_trade_assessment q t ex su di d))
     | Open_trade_note t \<Rightarrow> or_db d (map_Inr snd (get_trade_note q t d))
     | Save_trade_note t note \<Rightarrow> or_db d (map_Inr snd (save_trade_note q t note d))
     | Create_template n ty qs \<Rightarrow> or_db d (map_Inr snd (create_template q n ty qs d))
     | Delete_template k \<Rightarrow> or_db d (delete_template u k d)
     | Create_tag_group n c \<Rightarrow> or_db d (map_Inr snd (create_tag_group q n c d))
     | Update_tag_group k n c \<Rightarrow> or_db d (map_Inr snd (update_tag_group u k n c d))
     | Delete_tag_group k \<Rightarrow> or_db d (delete_tag_group u k d)
     | Reorder_tag_groups ids \<Rightarrow> reorder_groups u ids d
     | Create_tag g n \<Rightarrow> or_db d (map_Inr snd (create_tag q g n d))
     | Update_tag k n \<Rightarrow> or_db d (map_Inr snd (update_tag u k n d))
     | Delete_tag k \<Rightarrow> or_db d (delete_tag u k d)
     | Reorder_tags ids \<Rightarrow> repo_reorder_tags u ids d
     | Tag_trade t ids \<Rightarrow> or_db d (map_Inr snd (update_trade_tags env u t ids d))
     | Create_setup n \<Rightarrow> or_db d (map_Inr snd (create_setup q n d))
     | Delete_setup k \<Rightarrow> or_db d (delete_setup u k d)
     | Reorder_setups ids \<Rightarrow> repo_reorder_setups u ids d
     | Set_trade_setup t n \<Rightarrow> or_db d (map_Inr snd (update_trade_setup q t n d)))"

definition journal_run :: "jn_env \<Rightarrow> jn_rq \<Rightarrow> journal_call \<Rightarrow> journal_db \<Rightarrow> journal_db" where
  "journal_run env q c d = (if valid_body c then journal_handle env q c d else d)"

section \<open>Steps\<close>

text \<open>
  Beside the requests, the rows of the system are seeded, and the accounts change as \<open>account_run\<close> says, with what
  that deletes. The identifiers drawn for new rows are those of no account and no trade there was before.
\<close>

record journal_world =
  jw_db :: journal_db
  jw_queue :: "account_task list"

definition identities_kept :: "accounts_db \<Rightarrow> accounts_db \<Rightarrow> bool" where
  "identities_kept d e \<longleftrightarrow>
     (\<forall>a\<in>set (kd_accounts d). \<forall>b\<in>set (kd_accounts e). ta_id b = ta_id a \<longrightarrow> ta_user_id b = ta_user_id a)
     \<and> (\<forall>t\<in>set (kd_trades d). \<forall>s\<in>set (kd_trades e). tr_id s = tr_id t \<longrightarrow> tr_account_id s = tr_account_id t)"

definition account_effect :: "jn_env \<Rightarrow> import_env \<Rightarrow> account_rq \<Rightarrow> account_call \<Rightarrow> journal_world \<Rightarrow> journal_world" where
  "account_effect env ie q c w = (
     let a = account_run (ne_acc env) ie q c \<lparr>aw_db = hd_core (jw_db w), aw_queue = jw_queue w\<rparr> in
     \<lparr>jw_db = purged ((jw_db w) \<lparr>hd_core := aw_db a\<rparr>), jw_queue = aw_queue a\<rparr>)"

inductive journal_step :: "jn_env \<Rightarrow> import_env \<Rightarrow> journal_world \<Rightarrow> journal_world \<Rightarrow> bool" for env ie where
  request: "journal_step env ie w (w \<lparr>jw_db := journal_run env q c (jw_db w)\<rparr>)"
| templates: "journal_step env ie w (w \<lparr>jw_db := snd (seed_system_templates now (jw_db w))\<rparr>)"
| tags: "seed_system_tags draw now (jw_db w) = Inr (n, d) \<Longrightarrow> journal_step env ie w (w \<lparr>jw_db := d\<rparr>)"
| accounts: "identities_kept (hd_core (jw_db w)) (hd_core (jw_db (account_effect env ie q c w))) \<Longrightarrow>
    journal_step env ie w (account_effect env ie q c w)"

section \<open>Whose a row is\<close>

definition account_user :: "journal_db \<Rightarrow> uuid \<Rightarrow> uuid option" where
  "account_user d a = map_option ta_user_id (row_get ta_id a (kd_accounts (hd_core d)))"

definition trade_account :: "journal_db \<Rightarrow> uuid \<Rightarrow> uuid option" where
  "trade_account d t = map_option tr_account_id (row_get tr_id t (kd_trades (hd_core d)))"

definition day_account :: "journal_db \<Rightarrow> uuid \<Rightarrow> uuid option" where
  "day_account d k = map_option dj_account_id (row_get dj_id k (hd_days d))"

definition entry_account :: "journal_db \<Rightarrow> uuid \<Rightarrow> uuid option" where
  "entry_account d k = Option.bind (map_option tj_trade_id (row_get tj_id k (hd_entries d))) (trade_account d)"

definition message_account :: "journal_db \<Rightarrow> journal_message \<Rightarrow> uuid option" where
  "message_account d m = (case jm_daily_journal_id m of Some k \<Rightarrow> day_account d k
     | None \<Rightarrow> Option.bind (jm_trade_journal_id m) (entry_account d))"

definition trade_user :: "journal_db \<Rightarrow> uuid \<Rightarrow> uuid option" where
  "trade_user d t = Option.bind (trade_account d t) (account_user d)"

definition message_user :: "journal_db \<Rightarrow> journal_message \<Rightarrow> uuid option" where
  "message_user d m = Option.bind (message_account d m) (account_user d)"

text \<open>The rows of one user.\<close>

definition user_messages :: "uuid \<Rightarrow> journal_db \<Rightarrow> journal_message list" where
  "user_messages v d = filter (\<lambda>m. message_user d m = Some v) (hd_messages d)"

record user_rows =
  ur_trades :: "trade list"
  ur_days :: "daily_journal list"
  ur_entries :: "trade_journal list"
  ur_messages :: "journal_message list"
  ur_attachments :: "journal_attachment list"
  ur_templates :: "journal_template list"
  ur_groups :: "tag_group list"
  ur_tags :: "tag list"
  ur_trade_tags :: "(uuid \<times> uuid) list"
  ur_setups :: "playbook_setup list"

definition journal_rows :: "uuid \<Rightarrow> journal_db \<Rightarrow> user_rows" where
  "journal_rows v d = \<lparr>ur_trades = filter (\<lambda>t. account_user d (tr_account_id t) = Some v) (kd_trades (hd_core d)),
     ur_days = filter (\<lambda>j. account_user d (dj_account_id j) = Some v) (hd_days d),
     ur_entries = filter (\<lambda>j. trade_user d (tj_trade_id j) = Some v) (hd_entries d),
     ur_messages = user_messages v d,
     ur_attachments = filter (\<lambda>x. ja_message_id x \<in> jm_id ` set (user_messages v d)) (hd_attachments d),
     ur_templates = filter (\<lambda>t. jt_owner_id t = Some v) (hd_templates d),
     ur_groups = filter (\<lambda>g. tg_user_id g = Some v) (hd_groups d),
     ur_tags = filter (\<lambda>t. tag_user_id t = Some v) (hd_tags d),
     ur_trade_tags = filter (\<lambda>p. trade_user d (fst p) = Some v) (hd_trade_tags d),
     ur_setups = filter (\<lambda>s. st_user_id s = v) (hd_setups d)\<rparr>"

section \<open>The invariant\<close>

definition days_ok :: "journal_db \<Rightarrow> bool" where
  "days_ok d \<longleftrightarrow> distinct (map dj_id (hd_days d)) \<and> distinct (map (\<lambda>j. (dj_account_id j, dj_trading_date j)) (hd_days d))
     \<and> list_all (\<lambda>j. account_user d (dj_account_id j) \<noteq> None) (hd_days d)"

definition scores_ok :: "trade_journal \<Rightarrow> bool" where
  "scores_ok j \<longleftrightarrow> pred_option (in_range 1 5) (tj_rating j)
     \<and> list_all (pred_option (in_range 0 10)) [tj_execution_quality j, tj_setup_quality j, tj_discipline_score j]"

definition entry_fits :: "journal_db \<Rightarrow> trade_journal \<Rightarrow> bool" where
  "entry_fits d j \<longleftrightarrow> trade_account d (tj_trade_id j) \<noteq> None \<and> scores_ok j
     \<and> (case tj_daily_journal_id j of None \<Rightarrow> True | Some k \<Rightarrow> day_account d k = trade_account d (tj_trade_id j))"

definition entries_ok :: "journal_db \<Rightarrow> bool" where
  "entries_ok d \<longleftrightarrow> distinct (map tj_id (hd_entries d)) \<and> distinct (map tj_trade_id (hd_entries d)) \<and> list_all (entry_fits d) (hd_entries d)"

text \<open>A message of the system has no author, and any other is by the user whose journal it is in.\<close>

definition message_fits :: "journal_db \<Rightarrow> journal_message \<Rightarrow> bool" where
  "message_fits d m \<longleftrightarrow> one_context m \<and> message_account d m \<noteq> None
     \<and> (if jm_message_type m = Message_system then jm_author_id m = None else jm_author_id m = message_user d m)"

definition messages_ok :: "journal_db \<Rightarrow> bool" where
  "messages_ok d \<longleftrightarrow> distinct (map jm_id (hd_messages d)) \<and> list_all (message_fits d) (hd_messages d)"

definition attachments_ok :: "journal_db \<Rightarrow> bool" where
  "attachments_ok d \<longleftrightarrow> distinct (map ja_id (hd_attachments d)) \<and> list_all (\<lambda>x. ja_message_id x \<in> jm_id ` set (hd_messages d)) (hd_attachments d)"

definition templates_ok :: "journal_db \<Rightarrow> bool" where
  "templates_ok d \<longleftrightarrow> distinct (map jt_id (hd_templates d)) \<and> list_all (\<lambda>t. jt_is_system t \<longleftrightarrow> jt_owner_id t = None) (hd_templates d)"

definition groups_ok :: "journal_db \<Rightarrow> bool" where
  "groups_ok d \<longleftrightarrow> distinct (map tg_id (hd_groups d)) \<and> list_all (\<lambda>g. tg_is_system g \<longleftrightarrow> tg_user_id g = None) (hd_groups d)"

text \<open>A group of a user holds the tags of that user only.\<close>

definition tag_fits :: "journal_db \<Rightarrow> tag \<Rightarrow> bool" where
  "tag_fits d t \<longleftrightarrow> (tag_is_system t \<longleftrightarrow> tag_user_id t = None)
     \<and> (case get_group_by_id d (tag_group_id t) of None \<Rightarrow> False | Some g \<Rightarrow> tg_user_id g = None \<or> tg_user_id g = tag_user_id t)"

definition tags_ok :: "journal_db \<Rightarrow> bool" where
  "tags_ok d \<longleftrightarrow> distinct (map tag_id (hd_tags d)) \<and> list_all (tag_fits d) (hd_tags d)"

text \<open>A trade carries tags of the system and of its own user.\<close>

definition trade_tag_fits :: "journal_db \<Rightarrow> uuid \<times> uuid \<Rightarrow> bool" where
  "trade_tag_fits d p \<longleftrightarrow> trade_user d (fst p) \<noteq> None
     \<and> (case get_tag_by_id d (snd p) of None \<Rightarrow> False | Some g \<Rightarrow> tag_user_id g = None \<or> tag_user_id g = trade_user d (fst p))"

definition trade_tags_ok :: "journal_db \<Rightarrow> bool" where
  "trade_tags_ok d \<longleftrightarrow> distinct (hd_trade_tags d) \<and> list_all (trade_tag_fits d) (hd_trade_tags d)"

definition name_ok :: "nat \<Rightarrow> string \<Rightarrow> bool" where
  "name_ok n s \<longleftrightarrow> sized 1 n s \<and> py_strip s = s"

definition setups_ok :: "journal_db \<Rightarrow> bool" where
  "setups_ok d \<longleftrightarrow> distinct (map st_id (hd_setups d)) \<and> distinct (map (\<lambda>s. (st_user_id s, st_name s)) (hd_setups d))
     \<and> list_all (\<lambda>s. name_ok 64 (st_name s)) (hd_setups d)"

definition journal_ok :: "journal_db \<Rightarrow> bool" where
  "journal_ok d \<longleftrightarrow> acc_ok (hd_core d) \<and> days_ok d \<and> entries_ok d \<and> messages_ok d \<and> attachments_ok d \<and> templates_ok d
     \<and> groups_ok d \<and> tags_ok d \<and> trade_tags_ok d \<and> setups_ok d"

section \<open>Small updates\<close>

definition same_day :: "daily_journal \<Rightarrow> daily_journal \<Rightarrow> bool" where
  "same_day j k \<longleftrightarrow> dj_id k = dj_id j \<and> dj_account_id k = dj_account_id j \<and> dj_trading_date k = dj_trading_date j"

definition same_entry :: "trade_journal \<Rightarrow> trade_journal \<Rightarrow> bool" where
  "same_entry j k \<longleftrightarrow> tj_id k = tj_id j \<and> tj_trade_id k = tj_trade_id j \<and> tj_daily_journal_id k = tj_daily_journal_id j"

definition same_message :: "journal_message \<Rightarrow> journal_message \<Rightarrow> bool" where
  "same_message m n \<longleftrightarrow> jm_id n = jm_id m \<and> jm_daily_journal_id n = jm_daily_journal_id m \<and> jm_trade_journal_id n = jm_trade_journal_id m
     \<and> jm_author_id n = jm_author_id m \<and> jm_message_type n = jm_message_type m"

definition same_group :: "tag_group \<Rightarrow> tag_group \<Rightarrow> bool" where
  "same_group g h \<longleftrightarrow> tg_id h = tg_id g \<and> tg_user_id h = tg_user_id g \<and> tg_is_system h = tg_is_system g"

definition same_tag :: "tag \<Rightarrow> tag \<Rightarrow> bool" where
  "same_tag t s \<longleftrightarrow> tag_id s = tag_id t \<and> tag_group_id s = tag_group_id t \<and> tag_user_id s = tag_user_id t \<and> tag_is_system s = tag_is_system t"

inductive jn_update :: "uuid \<Rightarrow> journal_db \<Rightarrow> journal_db \<Rightarrow> bool" for u where
  add_day: "account_user d a = Some u \<Longrightarrow> get_daily_journal_by_id d (dj_id j) = None \<Longrightarrow> dj_account_id j = a \<Longrightarrow>
    get_daily_journal_by_account_and_date d a (dj_trading_date j) = None \<Longrightarrow> jn_update u d (d \<lparr>hd_days := hd_days d @ [j]\<rparr>)"
| put_day: "j \<in> set (hd_days d) \<Longrightarrow> account_user d (dj_account_id j) = Some u \<Longrightarrow> same_day j k \<Longrightarrow> jn_update u d (put_day k d)"
| add_entry: "trade_user d (tj_trade_id j) = Some u \<Longrightarrow> row_get tj_id (tj_id j) (hd_entries d) = None \<Longrightarrow>
    get_trade_journal_by_trade_id d (tj_trade_id j) = None \<Longrightarrow> entry_fits d j \<Longrightarrow> jn_update u d (d \<lparr>hd_entries := hd_entries d @ [j]\<rparr>)"
| put_entry: "j \<in> set (hd_entries d) \<Longrightarrow> trade_user d (tj_trade_id j) = Some u \<Longrightarrow> same_entry j k \<Longrightarrow> scores_ok k \<Longrightarrow> jn_update u d (put_entry k d)"
| add_message: "message_user d m = Some u \<Longrightarrow> get_message_by_id d (jm_id m) = None \<Longrightarrow> message_fits d m \<Longrightarrow>
    jn_update u d (d \<lparr>hd_messages := hd_messages d @ [m]\<rparr>)"
| put_message: "m \<in> set (hd_messages d) \<Longrightarrow> jm_author_id m = Some u \<Longrightarrow> same_message m n \<Longrightarrow> jn_update u d (put_message n d)"
| drop_message: "m \<in> set (hd_messages d) \<Longrightarrow> jm_author_id m = Some u \<Longrightarrow> jn_update u d (repo_delete_message (jm_id m) d)"
| add_attachment: "m \<in> set (hd_messages d) \<Longrightarrow> message_user d m = Some u \<Longrightarrow> ja_message_id x = jm_id m \<Longrightarrow>
    row_get ja_id (ja_id x) (hd_attachments d) = None \<Longrightarrow> jn_update u d (d \<lparr>hd_attachments := hd_attachments d @ [x]\<rparr>)"
| add_template: "jt_owner_id t = Some u \<Longrightarrow> \<not> jt_is_system t \<Longrightarrow> row_get jt_id (jt_id t) (hd_templates d) = None \<Longrightarrow>
    jn_update u d (d \<lparr>hd_templates := hd_templates d @ [t]\<rparr>)"
| drop_template: "t \<in> set (hd_templates d) \<Longrightarrow> jt_owner_id t = Some u \<Longrightarrow>
    jn_update u d (d \<lparr>hd_templates := filter (\<lambda>x. jt_id x \<noteq> jt_id t) (hd_templates d)\<rparr>)"
| add_group: "tg_user_id g = Some u \<Longrightarrow> \<not> tg_is_system g \<Longrightarrow> get_group_by_id d (tg_id g) = None \<Longrightarrow>
    jn_update u d (d \<lparr>hd_groups := hd_groups d @ [g]\<rparr>)"
| put_group: "g \<in> set (hd_groups d) \<Longrightarrow> tg_user_id g = Some u \<Longrightarrow> same_group g h \<Longrightarrow> jn_update u d (put_group h d)"
| drop_group: "jn_update u d (delete_group u k d)"
| order_groups: "jn_update u d (reorder_groups u ids d)"
| add_tag: "tag_user_id t = Some u \<Longrightarrow> \<not> tag_is_system t \<Longrightarrow> get_tag_by_id d (tag_id t) = None \<Longrightarrow>
    get_group_by_id d (tag_group_id t) = Some g \<Longrightarrow> tg_user_id g = None \<or> tg_user_id g = Some u \<Longrightarrow>
    jn_update u d (d \<lparr>hd_tags := hd_tags d @ [t]\<rparr>)"
| put_tag: "t \<in> set (hd_tags d) \<Longrightarrow> tag_user_id t = Some u \<Longrightarrow> same_tag t s \<Longrightarrow> jn_update u d (put_tag s d)"
| drop_tag: "jn_update u d (repo_delete_tag u k d)"
| order_tags: "jn_update u d (repo_reorder_tags u ids d)"
| tag_trade: "trade_user d t = Some u \<Longrightarrow> distinct ids \<Longrightarrow> list_all (\<lambda>k. trade_tag_fits d (t, k)) ids \<Longrightarrow>
    jn_update u d (d \<lparr>hd_trade_tags := filter (\<lambda>(x, _). x \<noteq> t) (hd_trade_tags d) @ map (Pair t) ids\<rparr>)"
| add_setup: "st_user_id s = u \<Longrightarrow> get_setup_by_id d (st_id s) = None \<Longrightarrow> get_setup_by_name d u (st_name s) = None \<Longrightarrow>
    name_ok 64 (st_name s) \<Longrightarrow> jn_update u d (d \<lparr>hd_setups := hd_setups d @ [s]\<rparr>)"
| drop_setup: "jn_update u d (repo_delete_setup u k d)"
| order_setups: "jn_update u d (repo_reorder_setups u ids d)"
| set_setup: "trade_user d t = Some u \<Longrightarrow> jn_update u d (set_trade_setup t n d)"

abbreviation jn_updates :: "uuid \<Rightarrow> journal_db \<Rightarrow> journal_db \<Rightarrow> bool" where
  "jn_updates u \<equiv> (jn_update u)\<^sup>*\<^sup>*"

end
