(* ===== verification/Journal_Updates.thy ===== *)
theory Journal_Updates
  imports Journal_Steps
begin

text \<open>
  Each small update of the journal keeps the invariant of its tables, and none moves a trade, a day or a journal
  to another account.
\<close>

section \<open>What an update leaves unchanged\<close>

lemma owners_frame [simp]:
  "account_user (hd_days_update f d) = account_user d" "account_user (hd_entries_update g d) = account_user d"
  "account_user (hd_messages_update h d) = account_user d" "account_user (hd_attachments_update i d) = account_user d"
  "account_user (hd_templates_update j d) = account_user d" "account_user (hd_groups_update k d) = account_user d"
  "account_user (hd_tags_update l d) = account_user d" "account_user (hd_trade_tags_update m d) = account_user d"
  "account_user (hd_setups_update n d) = account_user d"
  by (simp_all add: account_user_def fun_eq_iff)

lemma trades_frame [simp]:
  "trade_account (hd_days_update f d) = trade_account d" "trade_account (hd_entries_update g d) = trade_account d"
  "trade_account (hd_messages_update h d) = trade_account d" "trade_account (hd_attachments_update i d) = trade_account d"
  "trade_account (hd_templates_update j d) = trade_account d" "trade_account (hd_groups_update k d) = trade_account d"
  "trade_account (hd_tags_update l d) = trade_account d" "trade_account (hd_trade_tags_update m d) = trade_account d"
  "trade_account (hd_setups_update n d) = trade_account d"
  by (simp_all add: trade_account_def fun_eq_iff)

lemma days_frame [simp]:
  "day_account (hd_core_update f d) = day_account d" "day_account (hd_entries_update g d) = day_account d"
  "day_account (hd_messages_update h d) = day_account d" "day_account (hd_attachments_update i d) = day_account d"
  "day_account (hd_templates_update j d) = day_account d" "day_account (hd_groups_update k d) = day_account d"
  "day_account (hd_tags_update l d) = day_account d" "day_account (hd_trade_tags_update m d) = day_account d"
  "day_account (hd_setups_update n d) = day_account d"
  by (simp_all add: day_account_def fun_eq_iff)

lemma entries_frame [simp]:
  "entry_account (hd_days_update g d) = entry_account d"
  "entry_account (hd_messages_update h d) = entry_account d" "entry_account (hd_attachments_update i d) = entry_account d"
  "entry_account (hd_templates_update j d) = entry_account d" "entry_account (hd_groups_update k d) = entry_account d"
  "entry_account (hd_tags_update l d) = entry_account d" "entry_account (hd_trade_tags_update m d) = entry_account d"
  "entry_account (hd_setups_update n d) = entry_account d"
  by (simp_all add: entry_account_def fun_eq_iff)

lemma groups_frame [simp]:
  "get_group_by_id (hd_core_update a d) = get_group_by_id d" "get_group_by_id (hd_days_update b d) = get_group_by_id d"
  "get_group_by_id (hd_entries_update c d) = get_group_by_id d" "get_group_by_id (hd_messages_update f d) = get_group_by_id d"
  "get_group_by_id (hd_attachments_update g d) = get_group_by_id d" "get_group_by_id (hd_templates_update h d) = get_group_by_id d"
  "get_group_by_id (hd_tags_update i d) = get_group_by_id d" "get_group_by_id (hd_trade_tags_update j d) = get_group_by_id d"
  "get_group_by_id (hd_setups_update k d) = get_group_by_id d"
  by (simp_all add: get_group_by_id_def fun_eq_iff)

lemma tags_frame [simp]:
  "get_tag_by_id (hd_core_update a d) = get_tag_by_id d" "get_tag_by_id (hd_days_update b d) = get_tag_by_id d"
  "get_tag_by_id (hd_entries_update c d) = get_tag_by_id d" "get_tag_by_id (hd_messages_update f d) = get_tag_by_id d"
  "get_tag_by_id (hd_attachments_update g d) = get_tag_by_id d" "get_tag_by_id (hd_templates_update h d) = get_tag_by_id d"
  "get_tag_by_id (hd_groups_update i d) = get_tag_by_id d" "get_tag_by_id (hd_trade_tags_update j d) = get_tag_by_id d"
  "get_tag_by_id (hd_setups_update k d) = get_tag_by_id d"
  by (simp_all add: get_tag_by_id_def fun_eq_iff)

lemma users_frame:
  "account_user e = account_user d \<Longrightarrow> trade_account e = trade_account d \<Longrightarrow> trade_user e = trade_user d"
  by (rule ext) (simp add: trade_user_def)

text \<open>The small updates, written as changes of one table.\<close>

lemmas table_writes = put_day_def put_entry_def put_message_def repo_delete_message_def put_group_def delete_group_def drop_tags_def
  reorder_groups_def put_tag_def repo_delete_tag_def repo_reorder_tags_def repo_delete_setup_def repo_reorder_setups_def set_trade_setup_def

lemma row_get_put_map: "(\<And>x. x \<in> set xs \<Longrightarrow> key x = key r \<Longrightarrow> f r = f x) \<Longrightarrow> map_option f (row_get key k (row_put key r xs)) = map_option f (row_get key k xs)"
  by (induction xs) (auto simp: row_get_def row_put_def)

lemma row_get_map_same: "(\<And>x. x \<in> set xs \<Longrightarrow> key (g x) = key x \<and> f (g x) = f x) \<Longrightarrow> map_option f (row_get key k (map g xs)) = map_option f (row_get key k xs)"
  by (induction xs) (auto simp: row_get_def)

lemma row_get_in: "distinct (map key xs) \<Longrightarrow> x \<in> set xs \<Longrightarrow> row_get key (key x) xs = Some x"
  by (induction xs) (auto simp: row_get_def image_iff)

lemma row_get_mem: "row_get key k xs = Some x \<Longrightarrow> x \<in> set xs \<and> key x = k"
  by (auto simp: row_get_def find_Some_iff)

lemma row_put_other: "distinct (map key xs) \<Longrightarrow> x \<in> set xs \<Longrightarrow> key x = key r \<Longrightarrow> y \<in> set xs \<Longrightarrow> key y = key r \<Longrightarrow> y = x"
  by (auto simp: distinct_map inj_on_def)

text \<open>Reordering maps the rows, changes those of the user only, and changes nothing but their places.\<close>

lemma reorder_map:
  assumes "\<And>p r. rest (place p r) = rest r"
  obtains g where "reorder key mine place ids rows = map g rows" "\<And>r. \<not> mine r \<Longrightarrow> g r = r" "\<And>r. rest (g r) = rest r"
proof -
  have "\<exists>g. fold (\<lambda>(p, k). map (\<lambda>r. if key r = k \<and> mine r then place (int p) r else r)) ps rows = map g rows
      \<and> (\<forall>r. \<not> mine r \<longrightarrow> g r = r) \<and> (\<forall>r. rest (g r) = rest r)" for ps
  proof (induction ps arbitrary: rows)
    case Nil
    show ?case by (rule exI [of _ id]) simp
  next
    case (Cons x ps)
    obtain p k where x: "x = (p, k)" by (cases x)
    let ?h = "\<lambda>r. if key r = k \<and> mine r then place (int p) r else r"
    obtain g where g: "fold (\<lambda>(p, k). map (\<lambda>r. if key r = k \<and> mine r then place (int p) r else r)) ps (map ?h rows) = map g (map ?h rows)"
        "\<forall>r. \<not> mine r \<longrightarrow> g r = r" "\<forall>r. rest (g r) = rest r"
      using Cons.IH by blast
    show ?case using g assms by (intro exI [of _ "g \<circ> ?h"]) (auto simp: x)
  qed
  then show ?thesis using that unfolding reorder_def by blast
qed

lemma reorder_groups_map:
  obtains g where "hd_groups (reorder_groups u ids d) = map g (hd_groups d)" "\<And>r. tg_user_id r \<noteq> Some u \<Longrightarrow> g r = r" "\<And>r. same_group r (g r)"
proof (rule reorder_map [where rest = "\<lambda>r. (tg_id r, tg_is_system r, tg_user_id r)" and place = "\<lambda>p g. g \<lparr>tg_position := p\<rparr>"
    and key = tg_id and mine = "\<lambda>g. tg_user_id g = Some u" and ids = ids and rows = "hd_groups d"])
  fix g assume "reorder tg_id (\<lambda>g. tg_user_id g = Some u) (\<lambda>p g. g \<lparr>tg_position := p\<rparr>) ids (hd_groups d) = map g (hd_groups d)"
    "\<And>r. tg_user_id r \<noteq> Some u \<Longrightarrow> g r = r" "\<And>r. (tg_id (g r), tg_is_system (g r), tg_user_id (g r)) = (tg_id r, tg_is_system r, tg_user_id r)"
  then show thesis by (intro that [of g]) (simp_all add: reorder_groups_def same_group_def)
qed simp

lemma reorder_tags_map:
  obtains g where "hd_tags (repo_reorder_tags u ids d) = map g (hd_tags d)" "\<And>r. tag_user_id r \<noteq> Some u \<Longrightarrow> g r = r" "\<And>r. same_tag r (g r)"
proof (rule reorder_map [where rest = "\<lambda>r. (tag_id r, tag_group_id r, tag_is_system r, tag_user_id r)" and place = "\<lambda>p t. t \<lparr>tag_position := p\<rparr>"
    and key = tag_id and mine = "\<lambda>t. tag_user_id t = Some u" and ids = ids and rows = "hd_tags d"])
  fix g assume "reorder tag_id (\<lambda>t. tag_user_id t = Some u) (\<lambda>p t. t \<lparr>tag_position := p\<rparr>) ids (hd_tags d) = map g (hd_tags d)"
    "\<And>r. tag_user_id r \<noteq> Some u \<Longrightarrow> g r = r"
    "\<And>r. (tag_id (g r), tag_group_id (g r), tag_is_system (g r), tag_user_id (g r)) = (tag_id r, tag_group_id r, tag_is_system r, tag_user_id r)"
  then show thesis by (intro that [of g]) (simp_all add: repo_reorder_tags_def same_tag_def)
qed simp

definition same_setup_row :: "playbook_setup \<Rightarrow> playbook_setup \<Rightarrow> bool" where
  "same_setup_row r s \<longleftrightarrow> st_id s = st_id r \<and> st_user_id s = st_user_id r \<and> st_name s = st_name r"

lemma reorder_setups_map:
  obtains g where "hd_setups (repo_reorder_setups u ids d) = map g (hd_setups d)" "\<And>r. st_user_id r \<noteq> u \<Longrightarrow> g r = r" "\<And>r. same_setup_row r (g r)"
proof (rule reorder_map [where rest = "\<lambda>r. (st_id r, st_user_id r, st_name r)" and place = "\<lambda>p s. s \<lparr>st_position := p\<rparr>"
    and key = st_id and mine = "\<lambda>s. st_user_id s = u" and ids = ids and rows = "hd_setups d"])
  fix g assume "reorder st_id (\<lambda>s. st_user_id s = u) (\<lambda>p s. s \<lparr>st_position := p\<rparr>) ids (hd_setups d) = map g (hd_setups d)"
    "\<And>r. st_user_id r \<noteq> u \<Longrightarrow> g r = r" "\<And>r. (st_id (g r), st_user_id (g r), st_name (g r)) = (st_id r, st_user_id r, st_name r)"
  then show thesis by (intro that [of g]) (simp_all add: repo_reorder_setups_def same_setup_row_def)
qed simp

text \<open>No small update moves a trade, a day or a journal to another account, or an account to another user.\<close>

definition extends :: "journal_db \<Rightarrow> journal_db \<Rightarrow> bool" where
  "extends d e \<longleftrightarrow> account_user e = account_user d \<and> trade_account e = trade_account d
     \<and> day_account d \<subseteq>\<^sub>m day_account e \<and> entry_account d \<subseteq>\<^sub>m entry_account e"

lemma extends_refl [simp]: "extends d d"
  by (simp add: extends_def)

lemma day_account_put:
  assumes "distinct (map dj_id (hd_days d))" "j \<in> set (hd_days d)" "same_day j k"
  shows "day_account (put_day k d) = day_account d"
proof
  fix i
  have "dj_account_id k = dj_account_id x" if "x \<in> set (hd_days d)" "dj_id x = dj_id k" for x
    using assms that by (auto simp: same_day_def distinct_map inj_on_def)
  then show "day_account (put_day k d) i = day_account d i" by (simp add: day_account_def put_day_def row_get_put_map)
qed

lemma entry_account_put:
  assumes "distinct (map tj_id (hd_entries d))" "j \<in> set (hd_entries d)" "same_entry j k"
  shows "entry_account (put_entry k d) = entry_account d"
proof
  fix i
  have "tj_trade_id k = tj_trade_id x" if "x \<in> set (hd_entries d)" "tj_id x = tj_id k" for x
    using assms that by (auto simp: same_entry_def distinct_map inj_on_def)
  then show "entry_account (put_entry k d) i = entry_account d i"
    by (simp add: entry_account_def put_entry_def row_get_put_map)
qed

lemma core_setup [simp]: "account_user (set_trade_setup t n d) = account_user d" "trade_account (set_trade_setup t n d) = trade_account d"
  "entry_account (set_trade_setup t n d) = entry_account d"
proof -
  show a: "account_user (set_trade_setup t n d) = account_user d" by (simp add: account_user_def set_trade_setup_def fun_eq_iff)
  show b: "trade_account (set_trade_setup t n d) = trade_account d"
    by (rule ext) (simp add: trade_account_def set_trade_setup_def row_modify_def row_get_map_same)
  show "entry_account (set_trade_setup t n d) = entry_account d"
    by (rule ext) (unfold entry_account_def b, simp add: set_trade_setup_def)
qed

lemma update_extends: "jn_update u d e \<Longrightarrow> days_ok d \<Longrightarrow> entries_ok d \<Longrightarrow> extends d e"
proof (induction rule: jn_update.induct)
  case (add_day d a j)
  then show ?case by (auto simp: extends_def map_le_def day_account_def split: option.splits)
next
  case (put_day j d k)
  then have "day_account (put_day k d) = day_account d" by (intro day_account_put) (auto simp: days_ok_def)
  then show ?case by (simp add: extends_def) (simp add: put_day_def)
next
  case (add_entry d j)
  then show ?case by (auto simp: extends_def map_le_def entry_account_def split: option.splits)
next
  case (put_entry j d k)
  then have "entry_account (put_entry k d) = entry_account d" by (intro entry_account_put) (auto simp: entries_ok_def)
  then show ?case by (simp add: extends_def) (simp add: put_entry_def)
next
  case (set_setup d t n)
  then show ?case by (simp add: extends_def) (simp add: set_trade_setup_def)
qed (auto simp: extends_def put_message_def repo_delete_message_def put_group_def delete_group_def drop_tags_def
  reorder_groups_def put_tag_def repo_delete_tag_def repo_reorder_tags_def repo_delete_setup_def repo_reorder_setups_def)

lemma extends_users: "extends d e \<Longrightarrow> trade_user e = trade_user d"
  by (rule users_frame) (simp_all add: extends_def)

lemma extends_message: "extends d e \<Longrightarrow> message_account d m = Some a \<Longrightarrow> message_account e m = Some a"
  by (auto simp: extends_def message_account_def map_le_def bind_eq_Some_conv split: option.splits) (metis domI)+

lemma extends_message_user: "extends d e \<Longrightarrow> message_account d m \<noteq> None \<Longrightarrow> message_user e m = message_user d m"
  using extends_message [of d e m] by (auto simp: message_user_def extends_def)

lemma extends_entry: "extends d e \<Longrightarrow> entry_fits d j \<Longrightarrow> entry_fits e j"
  by (auto simp: extends_def entry_fits_def map_le_def split: option.splits) (metis domI)+

lemma extends_fits: "extends d e \<Longrightarrow> message_fits d m \<Longrightarrow> message_fits e m"
  using extends_message [of d e m] extends_message_user [of d e m] by (auto simp: message_fits_def)

section \<open>Each update keeps the invariant\<close>

lemma setup_tables [simp]:
  "hd_days (set_trade_setup t n d) = hd_days d" "hd_entries (set_trade_setup t n d) = hd_entries d"
  "hd_messages (set_trade_setup t n d) = hd_messages d" "hd_attachments (set_trade_setup t n d) = hd_attachments d"
  "hd_templates (set_trade_setup t n d) = hd_templates d" "hd_groups (set_trade_setup t n d) = hd_groups d"
  "hd_tags (set_trade_setup t n d) = hd_tags d" "hd_trade_tags (set_trade_setup t n d) = hd_trade_tags d"
  "hd_setups (set_trade_setup t n d) = hd_setups d"
  by (simp_all add: set_trade_setup_def)

lemma row_put_keys [simp]: "map key (row_put key r xs) = map key xs"
  by (simp add: row_put_def)

lemma map_row_put:
  assumes "distinct (map key xs)" "x \<in> set xs" "key r = key x" "f r = f x"
  shows "map f (row_put key r xs) = map f xs"
proof -
  have "f r = f y" if "y \<in> set xs" "key y = key r" for y
    using assms that by (metis row_put_other)
  then show ?thesis by (auto simp: row_put_def)
qed

lemma list_all_row_put: "list_all P xs \<Longrightarrow> P r \<Longrightarrow> list_all P (row_put key r xs)"
  by (auto simp: list_all_iff row_put_def)

lemma row_put_ids: "distinct (map key xs) \<Longrightarrow> x \<in> set xs \<Longrightarrow> key r = key x \<Longrightarrow> f r = f x \<Longrightarrow> f ` set (row_put key r xs) = f ` set xs"
  using map_row_put [of key xs x r f] by (metis set_map)

lemma update_days: "jn_update u d e \<Longrightarrow> days_ok d \<Longrightarrow> days_ok e"
proof (induction rule: jn_update.induct)
  case (add_day d a j)
  then show ?case
    by (auto simp: days_ok_def get_daily_journal_by_id_def row_get_None get_daily_journal_by_account_and_date_def find_None_iff)
next
  case (put_day j d k)
  then have "map (\<lambda>j. (dj_account_id j, dj_trading_date j)) (row_put dj_id k (hd_days d)) = map (\<lambda>j. (dj_account_id j, dj_trading_date j)) (hd_days d)"
    by (intro map_row_put [of _ _ j]) (auto simp: days_ok_def same_day_def)
  with put_day show ?case by (auto simp: days_ok_def put_day_def same_day_def intro!: list_all_row_put)
qed (simp_all add: days_ok_def, simp_all add: table_writes)

lemma entries_ok_mono: "extends d e \<Longrightarrow> hd_entries e = hd_entries d \<Longrightarrow> entries_ok d \<Longrightarrow> entries_ok e"
  by (auto simp: entries_ok_def list_all_iff extends_entry)

lemma entry_fits_score: "entry_fits d j \<Longrightarrow> same_entry j k \<Longrightarrow> scores_ok k \<Longrightarrow> entry_fits d k"
  by (auto simp: entry_fits_def same_entry_def split: option.splits)

lemma update_entries:
  assumes "jn_update u d e" "days_ok d" "entries_ok d"
  shows "entries_ok e"
proof -
  have ext: "extends d e" using assms by (rule update_extends)
  note same = entries_ok_mono [OF ext _ assms(3)]
  show ?thesis using assms(1)
  proof cases
    case (add_entry j)
    then show ?thesis using assms ext extends_entry [OF ext]
      by (auto simp: entries_ok_def get_trade_journal_by_trade_id_def row_get_None list_all_iff)
  next
    case (put_entry j k)
    have "map tj_trade_id (row_put tj_id k (hd_entries d)) = map tj_trade_id (hd_entries d)"
      using put_entry assms(3) by (intro map_row_put [of _ _ j]) (auto simp: entries_ok_def same_entry_def)
    moreover have "entry_fits d k" using put_entry assms(3) by (auto simp: entries_ok_def list_all_iff intro: entry_fits_score)
    ultimately have "list_all (entry_fits e) (row_put tj_id k (hd_entries d))" using assms(3) extends_entry [OF ext]
      by (intro list_all_row_put) (auto simp: entries_ok_def list_all_iff)
    moreover have "hd_entries e = row_put tj_id k (hd_entries d)" using put_entry by (simp add: put_entry_def)
    ultimately show ?thesis using assms(3) \<open>map tj_trade_id _ = _\<close> by (simp add: entries_ok_def)
  qed (rule same, simp add: table_writes)+
qed

lemma messages_ok_mono: "extends d e \<Longrightarrow> hd_messages e = filter P (hd_messages d) \<Longrightarrow> messages_ok d \<Longrightarrow> messages_ok e"
  by (auto simp: messages_ok_def list_all_iff extends_fits distinct_map_filter)

lemma message_fits_same: "message_fits d m \<Longrightarrow> same_message m n \<Longrightarrow> message_fits d n"
proof -
  assume fits: "message_fits d m" and same: "same_message m n"
  from same have "message_account d n = message_account d m"
    by (simp add: message_account_def same_message_def cong: option.case_cong)
  with fits same show ?thesis by (simp add: message_fits_def same_message_def one_context_def message_user_def)
qed

lemma update_messages:
  assumes "jn_update u d e" "days_ok d" "entries_ok d" "messages_ok d"
  shows "messages_ok e"
proof -
  have ext: "extends d e" using assms(1-3) by (rule update_extends)
  note same = messages_ok_mono [OF ext _ assms(4), of "\<lambda>_. True"]
  show ?thesis using assms(1)
  proof cases
    case (add_message m)
    then show ?thesis using assms(4) ext extends_fits [OF ext]
      by (auto simp: messages_ok_def get_message_by_id_def row_get_None list_all_iff)
  next
    case (put_message m n)
    have "message_fits d n" using put_message assms(4) by (auto simp: messages_ok_def list_all_iff intro: message_fits_same)
    then have "list_all (message_fits e) (row_put jm_id n (hd_messages d))" using assms(4) extends_fits [OF ext]
      by (intro list_all_row_put) (auto simp: messages_ok_def list_all_iff)
    moreover have "hd_messages e = row_put jm_id n (hd_messages d)" using put_message by (simp add: put_message_def)
    ultimately show ?thesis using assms(4) by (simp add: messages_ok_def)
  next
    case (drop_message m)
    then show ?thesis by (intro messages_ok_mono [OF ext _ assms(4)]) (auto simp: repo_delete_message_def)
  qed (rule same, simp add: table_writes)+
qed

lemma update_attachments:
  assumes "jn_update u d e" "attachments_ok d" "messages_ok d"
  shows "attachments_ok e"
proof -
  have same: "hd_attachments e = hd_attachments d \<Longrightarrow> jm_id ` set (hd_messages d) \<subseteq> jm_id ` set (hd_messages e) \<Longrightarrow> attachments_ok e"
    using assms(2) by (auto simp: attachments_ok_def list_all_iff)
  show ?thesis using assms(1)
  proof cases
    case (put_message m n)
    then have "jm_id ` set (row_put jm_id n (hd_messages d)) = jm_id ` set (hd_messages d)"
      using assms(3) by (intro row_put_ids [of _ _ m]) (auto simp: messages_ok_def same_message_def)
    with put_message show ?thesis by (intro same) (simp_all add: put_message_def)
  next
    case (drop_message m)
    then show ?thesis using assms(2) by (auto simp: attachments_ok_def repo_delete_message_def list_all_iff distinct_map_filter)
  next
    case (add_attachment m x)
    then show ?thesis using assms(2) by (auto simp: attachments_ok_def row_get_None list_all_iff)
  qed (rule same; auto simp: table_writes)+
qed

lemma update_templates: "jn_update u d e \<Longrightarrow> templates_ok d \<Longrightarrow> templates_ok e"
proof (induction rule: jn_update.induct)
  case (add_template t d)
  then show ?case by (auto simp: templates_ok_def row_get_None)
next
  case (drop_template t d)
  then show ?case by (auto simp: templates_ok_def list_all_iff distinct_map_filter)
qed (simp_all add: templates_ok_def table_writes)

lemma update_groups: "jn_update u d e \<Longrightarrow> groups_ok d \<Longrightarrow> groups_ok e"
proof (induction rule: jn_update.induct)
  case (add_group g d)
  then show ?case by (auto simp: groups_ok_def get_group_by_id_def row_get_None)
next
  case (put_group g d h)
  then have "list_all (\<lambda>g. tg_is_system g \<longleftrightarrow> tg_user_id g = None) (row_put tg_id h (hd_groups d))"
    by (intro list_all_row_put) (auto simp: groups_ok_def same_group_def list_all_iff)
  with put_group show ?case by (simp add: groups_ok_def put_group_def)
next
  case (drop_group d k)
  then show ?case by (auto simp: groups_ok_def delete_group_def drop_tags_def list_all_iff distinct_map_filter)
next
  case (order_groups d ids)
  obtain g where g: "hd_groups (reorder_groups u ids d) = map g (hd_groups d)"
      "\<And>r. tg_user_id r \<noteq> Some u \<Longrightarrow> g r = r" "\<And>r. same_group r (g r)" by (rule reorder_groups_map [where u = u and ids = ids and d = d], rule that)
  have "map tg_id (map g (hd_groups d)) = map tg_id (hd_groups d)" using g(3) by (simp add: same_group_def)
  with order_groups g show ?case by (auto simp: groups_ok_def same_group_def list_all_iff simp del: map_map)
qed (simp_all add: groups_ok_def table_writes)

lemma update_setups: "jn_update u d e \<Longrightarrow> setups_ok d \<Longrightarrow> setups_ok e"
proof (induction rule: jn_update.induct)
  case (add_setup s d)
  then show ?case by (auto simp: setups_ok_def get_setup_by_id_def row_get_None get_setup_by_name_def find_None_iff)
next
  case (drop_setup d k)
  then show ?case by (auto simp: setups_ok_def repo_delete_setup_def list_all_iff distinct_map_filter)
next
  case (order_setups d ids)
  obtain g where g: "hd_setups (repo_reorder_setups u ids d) = map g (hd_setups d)"
      "\<And>r. st_user_id r \<noteq> u \<Longrightarrow> g r = r" "\<And>r. same_setup_row r (g r)" by (rule reorder_setups_map [where u = u and ids = ids and d = d], rule that)
  have "map st_id (map g (hd_setups d)) = map st_id (hd_setups d)"
    "map (\<lambda>s. (st_user_id s, st_name s)) (map g (hd_setups d)) = map (\<lambda>s. (st_user_id s, st_name s)) (hd_setups d)"
    using g(3) by (simp_all add: same_setup_row_def)
  with order_setups g show ?case by (auto simp: setups_ok_def same_setup_row_def list_all_iff simp del: map_map)
qed (simp_all add: setups_ok_def table_writes)

text \<open>What a group and a tag mean for others is the user they belong to.\<close>

definition group_user :: "journal_db \<Rightarrow> uuid \<Rightarrow> uuid option option" where
  "group_user d k = map_option tg_user_id (get_group_by_id d k)"

definition tag_user :: "journal_db \<Rightarrow> uuid \<Rightarrow> uuid option option" where
  "tag_user d k = map_option tag_user_id (get_tag_by_id d k)"

lemma tag_fits_alt: "tag_fits d t \<longleftrightarrow> (tag_is_system t \<longleftrightarrow> tag_user_id t = None) \<and> group_user d (tag_group_id t) \<in> {Some None, Some (tag_user_id t)}"
  by (auto simp: tag_fits_def group_user_def split: option.splits)

lemma trade_tag_fits_alt: "trade_tag_fits d p \<longleftrightarrow> trade_user d (fst p) \<noteq> None \<and> tag_user d (snd p) \<in> {Some None, Some (trade_user d (fst p))}"
  by (auto simp: trade_tag_fits_def tag_user_def split: option.splits)

lemma row_get_filter: "row_get key k (filter P xs) = Some x \<Longrightarrow> distinct (map key xs) \<Longrightarrow> row_get key k xs = Some x"
  using row_get_in [of key xs x] by (auto dest!: row_get_mem)

lemma row_get_filtered: "row_get key k xs = Some x \<Longrightarrow> P x \<Longrightarrow> distinct (map key xs) \<Longrightarrow> row_get key k (filter P xs) = Some x"
  using row_get_in [of key "filter P xs" x] by (auto dest!: row_get_mem simp: distinct_map_filter)

lemma row_get_filter_other: "(\<And>x. key x = k \<Longrightarrow> P x) \<Longrightarrow> row_get key k (filter P xs) = row_get key k xs"
  by (induction xs) (auto simp: row_get_def)

lemma group_user_append: "group_user d k = Some w \<Longrightarrow> group_user (d \<lparr>hd_groups := hd_groups d @ [g]\<rparr>) k = Some w"
  by (auto simp: group_user_def get_group_by_id_def split: option.splits)

lemma tag_user_append: "tag_user d k = Some w \<Longrightarrow> tag_user (d \<lparr>hd_tags := hd_tags d @ [t]\<rparr>) k = Some w"
  by (auto simp: tag_user_def get_tag_by_id_def split: option.splits)

lemma group_user_put:
  assumes "groups_ok d" "g \<in> set (hd_groups d)" "same_group g h"
  shows "group_user (put_group h d) = group_user d"
proof
  fix k
  have "tg_user_id h = tg_user_id x" if "x \<in> set (hd_groups d)" "tg_id x = tg_id h" for x
    using assms that by (auto simp: groups_ok_def same_group_def distinct_map inj_on_def)
  then show "group_user (put_group h d) k = group_user d k" by (simp add: group_user_def get_group_by_id_def put_group_def row_get_put_map)
qed

lemma tag_user_put:
  assumes "tags_ok d" "t \<in> set (hd_tags d)" "same_tag t s"
  shows "tag_user (put_tag s d) = tag_user d"
proof
  fix k
  have "tag_user_id s = tag_user_id x" if "x \<in> set (hd_tags d)" "tag_id x = tag_id s" for x
    using assms that by (auto simp: tags_ok_def same_tag_def distinct_map inj_on_def)
  then show "tag_user (put_tag s d) k = tag_user d k" by (simp add: tag_user_def get_tag_by_id_def put_tag_def row_get_put_map)
qed

lemma group_user_reorder [simp]: "group_user (reorder_groups u ids d) = group_user d"
proof
  fix k
  obtain g where g: "hd_groups (reorder_groups u ids d) = map g (hd_groups d)"
      "\<And>r. tg_user_id r \<noteq> Some u \<Longrightarrow> g r = r" "\<And>r. same_group r (g r)" by (rule reorder_groups_map [where u = u and ids = ids and d = d], rule that)
  show "group_user (reorder_groups u ids d) k = group_user d k"
    unfolding group_user_def get_group_by_id_def g(1) using g(3) by (intro row_get_map_same) (simp add: same_group_def)
qed

lemma tag_user_reorder [simp]: "tag_user (repo_reorder_tags u ids d) = tag_user d"
proof
  fix k
  obtain g where g: "hd_tags (repo_reorder_tags u ids d) = map g (hd_tags d)"
      "\<And>r. tag_user_id r \<noteq> Some u \<Longrightarrow> g r = r" "\<And>r. same_tag r (g r)" by (rule reorder_tags_map [where u = u and ids = ids and d = d], rule that)
  show "tag_user (repo_reorder_tags u ids d) k = tag_user d k"
    unfolding tag_user_def get_tag_by_id_def g(1) using g(3) by (intro row_get_map_same) (simp add: same_tag_def)
qed

lemma tags_ok_mono: "hd_tags e = filter P (hd_tags d) \<Longrightarrow> (\<And>t. t \<in> set (hd_tags e) \<Longrightarrow> group_user e (tag_group_id t) = group_user d (tag_group_id t)) \<Longrightarrow> tags_ok d \<Longrightarrow> tags_ok e"
  by (auto simp: tags_ok_def list_all_iff tag_fits_alt distinct_map_filter)

lemma group_user_same: "hd_groups e = hd_groups d \<Longrightarrow> group_user e = group_user d"
  by (simp add: group_user_def get_group_by_id_def fun_eq_iff)

lemma tag_user_same: "hd_tags e = hd_tags d \<Longrightarrow> tag_user e = tag_user d"
  by (simp add: tag_user_def get_tag_by_id_def fun_eq_iff)

lemma update_tags:
  assumes "jn_update u d e" "groups_ok d" "tags_ok d"
  shows "tags_ok e"
proof -
  have same: "hd_groups e = hd_groups d \<Longrightarrow> hd_tags e = hd_tags d \<Longrightarrow> tags_ok e"
    using assms(3) group_user_same [of e d] by (auto intro: tags_ok_mono [where P = "\<lambda>_. True" and d = d])
  show ?thesis using assms(1)
  proof cases
    case (add_group g)
    then show ?thesis using assms(3) group_user_append by (auto simp: tags_ok_def list_all_iff tag_fits_alt)
  next
    case (put_group g h)
    then have "group_user e = group_user d" using assms group_user_put by simp
    with put_group show ?thesis by (intro tags_ok_mono [OF _ _ assms(3), where P = "\<lambda>_. True"]) (auto simp: put_group_def)
  next
    case (drop_group k)
    show ?thesis
    proof (cases "list_ex (\<lambda>g. tg_id g = k \<and> tg_user_id g = Some u) (hd_groups d)")
      case True
      with drop_group have e: "hd_tags e = filter (\<lambda>t. tag_group_id t \<noteq> k) (hd_tags d)" "hd_groups e = filter (\<lambda>g. tg_id g \<noteq> k) (hd_groups d)"
        by (simp_all add: delete_group_def drop_tags_def)
      then show ?thesis by (intro tags_ok_mono [OF e(1) _ assms(3)]) (auto simp: group_user_def get_group_by_id_def row_get_filter_other)
    qed (use drop_group assms(3) in \<open>simp add: delete_group_def\<close>)
  next
    case (order_groups ids)
    then have "group_user e = group_user d" "hd_tags e = filter (\<lambda>_. True) (hd_tags d)" by simp (simp add: order_groups reorder_groups_def)
    then show ?thesis by (intro tags_ok_mono [OF _ _ assms(3), where P = "\<lambda>_. True"]) simp_all
  next
    case (add_tag t g)
    then have "tag_fits d t" by (auto simp: tag_fits_def)
    then have "list_all (tag_fits d) (hd_tags d @ [t])" using assms(3) by (simp add: tags_ok_def)
    then show ?thesis using assms(3) add_tag by (auto simp: tags_ok_def get_tag_by_id_def row_get_None list_all_iff tag_fits_def)
  next
    case (put_tag t s)
    have "tag_fits d s" using put_tag assms(3) by (auto simp: tags_ok_def list_all_iff tag_fits_alt same_tag_def)
    then have "list_all (tag_fits d) (row_put tag_id s (hd_tags d))" using assms(3) by (intro list_all_row_put) (simp_all add: tags_ok_def)
    moreover have "tag_fits e = tag_fits d" using put_tag by (simp add: fun_eq_iff tag_fits_def put_tag_def)
    ultimately show ?thesis using assms(3) put_tag by (simp add: tags_ok_def put_tag_def)
  next
    case (drop_tag k)
    then show ?thesis by (intro tags_ok_mono [OF _ _ assms(3), where P = "\<lambda>t. list_ex (\<lambda>t. tag_id t = k \<and> tag_user_id t = Some u) (hd_tags d) \<longrightarrow> tag_id t \<noteq> k"])
      (auto simp: repo_delete_tag_def drop_tags_def group_user_def)
  next
    case (order_tags ids)
    obtain g where g: "hd_tags (repo_reorder_tags u ids d) = map g (hd_tags d)"
      "\<And>r. tag_user_id r \<noteq> Some u \<Longrightarrow> g r = r" "\<And>r. same_tag r (g r)" by (rule reorder_tags_map [where u = u and ids = ids and d = d], rule that)
    have "map tag_id (map g (hd_tags d)) = map tag_id (hd_tags d)" using g(3) by (simp add: same_tag_def)
    moreover have "group_user e = group_user d" using order_tags by (intro group_user_same) (simp add: repo_reorder_tags_def)
    ultimately show ?thesis using assms(3) g order_tags by (auto simp: tags_ok_def list_all_iff tag_fits_alt same_tag_def simp del: map_map)
  qed (rule same; simp add: table_writes)+
qed

lemma trade_tags_ok_mono:
  "trade_user e = trade_user d \<Longrightarrow> hd_trade_tags e = filter P (hd_trade_tags d) \<Longrightarrow>
    (\<And>p. p \<in> set (hd_trade_tags e) \<Longrightarrow> tag_user d (snd p) \<noteq> None \<Longrightarrow> tag_user e (snd p) = tag_user d (snd p)) \<Longrightarrow> trade_tags_ok d \<Longrightarrow> trade_tags_ok e"
  by (auto simp: trade_tags_ok_def list_all_iff trade_tag_fits_alt)

lemma tag_user_kept:
  assumes "tags_ok d" "p \<in> set (hd_trade_tags (drop_tags P d))" "tag_user d (snd p) \<noteq> None"
  shows "tag_user (drop_tags P d) (snd p) = tag_user d (snd p)"
proof -
  obtain t where t: "get_tag_by_id d (snd p) = Some t" using assms(3) by (auto simp: tag_user_def)
  then have "t \<in> set (hd_tags d)" "tag_id t = snd p" by (auto simp: get_tag_by_id_def dest: row_get_mem)
  then have "\<not> P t" using assms(2) by (auto simp: drop_tags_def list_ex_iff)
  then have "get_tag_by_id (drop_tags P d) (snd p) = Some t"
    using t assms(1) by (auto simp: get_tag_by_id_def drop_tags_def tags_ok_def intro: row_get_filtered)
  with t show ?thesis by (simp add: tag_user_def)
qed

lemma drop_trade_tags: "hd_trade_tags (drop_tags P d) = filter (\<lambda>(t, x). \<not> list_ex (\<lambda>g. tag_id g = x \<and> P g) (hd_tags d)) (hd_trade_tags d)"
  by (simp add: drop_tags_def)

lemma update_trade_tags:
  assumes "jn_update u d e" "days_ok d" "entries_ok d" "tags_ok d" "trade_tags_ok d"
  shows "trade_tags_ok e"
proof -
  have users: "trade_user e = trade_user d" using assms(1-3) by (blast intro: extends_users update_extends)
  note mono = trade_tags_ok_mono [OF users _ _ assms(5)]
  have same: "hd_tags e = hd_tags d \<Longrightarrow> hd_trade_tags e = hd_trade_tags d \<Longrightarrow> trade_tags_ok e"
    using tag_user_same [of e d] by (intro mono [where P = "\<lambda>_. True"]) simp_all
  show ?thesis using assms(1)
  proof cases
    case (drop_group k)
    show ?thesis
    proof (cases "list_ex (\<lambda>g. tg_id g = k \<and> tg_user_id g = Some u) (hd_groups d)")
      case True
      let ?d = "d \<lparr>hd_groups := filter (\<lambda>g. tg_id g \<noteq> k) (hd_groups d)\<rparr>"
      have e: "e = drop_tags (\<lambda>t. tag_group_id t = k) ?d" using True drop_group by (simp add: delete_group_def)
      have kept: "tag_user e (snd p) = tag_user d (snd p)" if "p \<in> set (hd_trade_tags e)" "tag_user d (snd p) \<noteq> None" for p
      proof -
        have eq: "hd_trade_tags e = hd_trade_tags (drop_tags (\<lambda>t. tag_group_id t = k) d)" "tag_user e = tag_user (drop_tags (\<lambda>t. tag_group_id t = k) d)"
          unfolding e by (simp_all add: drop_tags_def tag_user_def get_tag_by_id_def fun_eq_iff)
        show ?thesis using tag_user_kept [OF assms(4), of p "\<lambda>t. tag_group_id t = k"] that unfolding eq by blast
      qed
      show ?thesis by (rule mono [OF _ kept]) (simp_all add: e drop_trade_tags)
    qed (use drop_group assms(5) in \<open>simp add: delete_group_def\<close>)
  next
    case (add_tag t g)
    have "tag_user e k = tag_user d k" if "tag_user d k \<noteq> None" for k
      using that tag_user_append [of d k _ t] add_tag by auto
    then show ?thesis by (intro mono [where P = "\<lambda>_. True"]) (simp_all add: add_tag)
  next
    case (put_tag t s)
    have "tag_user e = tag_user d" using put_tag assms(4) tag_user_put by simp
    then show ?thesis by (intro mono [where P = "\<lambda>_. True"]) (simp_all add: put_tag put_tag_def)
  next
    case (drop_tag k)
    show ?thesis
    proof (cases "list_ex (\<lambda>t. tag_id t = k \<and> tag_user_id t = Some u) (hd_tags d)")
      case True
      have e: "e = drop_tags (\<lambda>t. tag_id t = k) d" using True drop_tag by (simp add: repo_delete_tag_def)
      have kept: "tag_user e (snd p) = tag_user d (snd p)" if "p \<in> set (hd_trade_tags e)" "tag_user d (snd p) \<noteq> None" for p
        using tag_user_kept [OF assms(4)] that unfolding e by blast
      show ?thesis by (rule mono [OF _ kept]) (simp_all add: e drop_trade_tags)
    qed (use drop_tag assms(5) in \<open>simp add: repo_delete_tag_def\<close>)
  next
    case (order_tags ids)
    then have "tag_user e = tag_user d" by simp
    then show ?thesis by (intro mono [where P = "\<lambda>_. True"]) (simp_all add: order_tags repo_reorder_tags_def)
  next
    case (tag_trade t ids)
    have "trade_tag_fits e p = trade_tag_fits d p" for p
      unfolding trade_tag_fits_def users by (simp add: tag_trade)
    then show ?thesis using tag_trade assms(5) by (auto simp: trade_tags_ok_def list_all_iff distinct_map inj_on_def)
  qed (rule same; simp add: table_writes)+
qed

lemma update_core: "jn_update u d e \<Longrightarrow> acc_ok (hd_core d) \<Longrightarrow> acc_ok (hd_core e)"
proof (induction rule: jn_update.induct)
  case (set_setup d t n)
  let ?f = "\<lambda>x. if tr_id x = t then x \<lparr>tr_setup := n\<rparr> else x"
  have "trades_ok ids ts \<Longrightarrow> trades_ok ids (map ?f ts)" for ids ts
  proof -
    assume ok: "trades_ok ids ts"
    have "map tr_id (map ?f ts) = map tr_id ts" "map trade_key (map ?f ts) = map trade_key ts" by (simp_all add: trade_key_def)
    moreover have "list_all (trade_fits ids) (map ?f ts)" using ok by (auto simp: trades_ok_def list_all_iff trade_fits_def trade_typed_def)
    ultimately show ?thesis using ok unfolding trades_ok_def by metis
  qed
  with set_setup show ?case by (simp add: acc_ok_def set_trade_setup_def row_modify_def account_ids_def)
qed (simp_all add: table_writes)

lemma update_ok: "jn_update u d e \<Longrightarrow> journal_ok d \<Longrightarrow> journal_ok e"
  unfolding journal_ok_def
  using update_core [of u d e] update_days [of u d e] update_entries [of u d e] update_messages [of u d e]
    update_attachments [of u d e] update_templates [of u d e] update_groups [of u d e] update_tags [of u d e]
    update_trade_tags [of u d e] update_setups [of u d e] by simp

lemma updates_ok: "jn_updates u d e \<Longrightarrow> journal_ok d \<Longrightarrow> journal_ok e"
  by (induction rule: rtranclp_induct) (auto intro: update_ok)

end
