(* ===== verification/Journal_Isolation.thy ===== *)
theory Journal_Isolation
  imports Journal_Updates
begin

text \<open>
  A small update of one user leaves the rows of every other user as they are.
\<close>

section \<open>The rows of the others\<close>

lemma filter_row_put: "(\<And>x. x \<in> set xs \<Longrightarrow> key x = key r \<Longrightarrow> \<not> P x) \<Longrightarrow> \<not> P r \<Longrightarrow> filter P (row_put key r xs) = filter P xs"
  by (induction xs) (auto simp: row_put_def)

lemma filter_map_same: "(\<And>x. x \<in> set xs \<Longrightarrow> P (g x) = P x) \<Longrightarrow> (\<And>x. x \<in> set xs \<Longrightarrow> P x \<Longrightarrow> g x = x) \<Longrightarrow> filter P (map g xs) = filter P xs"
  by (induction xs) auto

lemma author_user: "messages_ok d \<Longrightarrow> m \<in> set (hd_messages d) \<Longrightarrow> jm_author_id m = Some u \<Longrightarrow> message_user d m = Some u"
  by (auto simp: messages_ok_def list_all_iff message_fits_def split: if_splits)

lemma frame_days: "jn_update u d e \<Longrightarrow> days_ok d \<Longrightarrow> entries_ok d \<Longrightarrow> v \<noteq> u \<Longrightarrow> ur_days (journal_rows v e) = ur_days (journal_rows v d)"
proof -
  assume up: "jn_update u d e" and ok: "days_ok d" "entries_ok d" and v: "v \<noteq> u"
  have users: "account_user e = account_user d" using update_extends [OF up ok] by (simp add: extends_def)
  show ?thesis using up
  proof cases
    case (put_day j k)
    have "filter (\<lambda>j. account_user d (dj_account_id j) = Some v) (row_put dj_id k (hd_days d)) = filter (\<lambda>j. account_user d (dj_account_id j) = Some v) (hd_days d)"
    proof (rule filter_row_put)
      fix x assume "x \<in> set (hd_days d)" "dj_id x = dj_id k"
      then have "x = j" using put_day ok by (auto simp: days_ok_def same_day_def distinct_map inj_on_def)
      then show "\<not> account_user d (dj_account_id x) = Some v" using put_day v by simp
    qed (use put_day v in \<open>simp add: same_day_def\<close>)
    then show ?thesis using users put_day by (simp add: journal_rows_def put_day_def)
  qed (use users v in \<open>simp_all add: journal_rows_def table_writes\<close>)
qed

lemma frame_entries: "jn_update u d e \<Longrightarrow> days_ok d \<Longrightarrow> entries_ok d \<Longrightarrow> v \<noteq> u \<Longrightarrow> ur_entries (journal_rows v e) = ur_entries (journal_rows v d)"
proof -
  assume up: "jn_update u d e" and ok: "days_ok d" "entries_ok d" and v: "v \<noteq> u"
  have users: "trade_user e = trade_user d" by (rule extends_users [OF update_extends [OF up ok]])
  show ?thesis using up
  proof cases
    case (put_entry j k)
    have "filter (\<lambda>j. trade_user d (tj_trade_id j) = Some v) (row_put tj_id k (hd_entries d)) = filter (\<lambda>j. trade_user d (tj_trade_id j) = Some v) (hd_entries d)"
    proof (rule filter_row_put)
      fix x assume "x \<in> set (hd_entries d)" "tj_id x = tj_id k"
      then have "x = j" using put_entry ok by (auto simp: entries_ok_def same_entry_def distinct_map inj_on_def)
      then show "\<not> trade_user d (tj_trade_id x) = Some v" using put_entry v by simp
    qed (use put_entry v in \<open>simp add: same_entry_def\<close>)
    then show ?thesis using users put_entry by (simp add: journal_rows_def put_entry_def)
  qed (use users v in \<open>simp_all add: journal_rows_def table_writes\<close>)
qed

lemma frame_messages:
  assumes up: "jn_update u d e" and ok: "days_ok d" "entries_ok d" "messages_ok d" and v: "v \<noteq> u"
  shows "user_messages v e = user_messages v d"
proof -
  have users: "message_user e m = message_user d m" if "message_account d m \<noteq> None" for m
    using extends_message_user [OF update_extends [OF up ok(1,2)]] that .
  have known: "message_account d m \<noteq> None" if "m \<in> set (hd_messages d)" for m
    using ok(3) that by (auto simp: messages_ok_def list_all_iff message_fits_def)
  have old: "filter (\<lambda>m. message_user e m = Some v) (hd_messages d) = user_messages v d"
    unfolding user_messages_def using users known by (intro filter_cong) simp_all
  have same: "hd_messages e = hd_messages d \<Longrightarrow> ?thesis" using old by (simp add: user_messages_def)
  show ?thesis using up
  proof cases
    case (add_message m)
    then have "message_user e m = Some u" using users [of m] by (auto simp: message_fits_def)
    then show ?thesis using old v add_message by (simp add: user_messages_def)
  next
    case (put_message m n)
    have m: "message_user d m = Some u" using put_message ok(3) author_user by blast
    have "message_account d n = message_account d m" using put_message by (simp add: same_message_def message_account_def cong: option.case_cong)
    then have n: "message_user e n = Some u" "message_user e m = Some u"
      using m users [of m] users [of n] known [of m] put_message by (auto simp: message_user_def)
    have "filter (\<lambda>m. message_user e m = Some v) (row_put jm_id n (hd_messages d)) = filter (\<lambda>m. message_user e m = Some v) (hd_messages d)"
    proof (rule filter_row_put)
      fix x assume "x \<in> set (hd_messages d)" "jm_id x = jm_id n"
      then have "x = m" using put_message ok by (auto simp: messages_ok_def same_message_def distinct_map inj_on_def)
      then show "\<not> message_user e x = Some v" using n v by simp
    qed (use n v in simp)
    with old show ?thesis using put_message by (simp add: user_messages_def put_message_def)
  next
    case (drop_message m)
    have "filter (\<lambda>x. message_user e x = Some v \<and> jm_id x \<noteq> jm_id m) (hd_messages d) = filter (\<lambda>x. message_user e x = Some v) (hd_messages d)"
    proof (rule filter_cong [OF refl])
      fix x assume x: "x \<in> set (hd_messages d)"
      have "jm_id x = jm_id m \<Longrightarrow> x = m" using x drop_message ok(3) by (auto simp: messages_ok_def distinct_map inj_on_def)
      moreover have "message_user e m = Some u" using drop_message ok(3) author_user users known by metis
      ultimately show "(message_user e x = Some v \<and> jm_id x \<noteq> jm_id m) = (message_user e x = Some v)" using v by auto
    qed
    with old show ?thesis using drop_message by (simp add: user_messages_def repo_delete_message_def conj_commute)
  qed (rule same; simp add: table_writes)+
qed

lemma frame_attachments:
  assumes up: "jn_update u d e" and ok: "days_ok d" "entries_ok d" "messages_ok d" and v: "v \<noteq> u"
  shows "ur_attachments (journal_rows v e) = ur_attachments (journal_rows v d)"
proof -
  have msgs: "user_messages v e = user_messages v d" by (rule frame_messages [OF assms])
  have other: "jm_id m \<notin> jm_id ` set (user_messages v d)" if "m \<in> set (hd_messages d)" "message_user d m = Some u" for m
  proof
    assume "jm_id m \<in> jm_id ` set (user_messages v d)"
    then obtain x where "x \<in> set (hd_messages d)" "message_user d x = Some v" "jm_id x = jm_id m" by (auto simp: user_messages_def)
    then have "x = m" using that ok(3) by (auto simp: messages_ok_def distinct_map inj_on_def)
    then show False using that \<open>message_user d x = Some v\<close> v by simp
  qed
  show ?thesis using up
  proof cases
    case (drop_message m)
    then have "jm_id m \<notin> jm_id ` set (user_messages v d)" using other ok(3) author_user by blast
    then have "filter (\<lambda>x. ja_message_id x \<in> jm_id ` set (user_messages v d) \<and> ja_message_id x \<noteq> jm_id m) (hd_attachments d)
        = filter (\<lambda>x. ja_message_id x \<in> jm_id ` set (user_messages v d)) (hd_attachments d)"
      by (intro filter_cong) auto
    then show ?thesis using msgs drop_message by (simp add: journal_rows_def repo_delete_message_def conj_commute)
  next
    case (add_attachment m x)
    then show ?thesis using msgs other [of m] by (simp add: journal_rows_def)
  qed (use msgs in \<open>simp_all add: journal_rows_def table_writes\<close>)
qed

lemma frame_templates: "jn_update u d e \<Longrightarrow> templates_ok d \<Longrightarrow> v \<noteq> u \<Longrightarrow> ur_templates (journal_rows v e) = ur_templates (journal_rows v d)"
proof (induction rule: jn_update.induct)
  case (drop_template t d)
  then have "filter (\<lambda>x. jt_owner_id x = Some v \<and> jt_id x \<noteq> jt_id t) (hd_templates d) = filter (\<lambda>x. jt_owner_id x = Some v) (hd_templates d)"
    by (intro filter_cong) (auto simp: templates_ok_def distinct_map inj_on_def)
  then show ?case by (simp add: journal_rows_def conj_commute)
qed (simp_all add: journal_rows_def table_writes)

lemma frame_groups: "jn_update u d e \<Longrightarrow> groups_ok d \<Longrightarrow> v \<noteq> u \<Longrightarrow> ur_groups (journal_rows v e) = ur_groups (journal_rows v d)"
proof (induction rule: jn_update.induct)
  case (put_group g d h)
  have "filter (\<lambda>g. tg_user_id g = Some v) (row_put tg_id h (hd_groups d)) = filter (\<lambda>g. tg_user_id g = Some v) (hd_groups d)"
  proof (rule filter_row_put)
    fix x assume "x \<in> set (hd_groups d)" "tg_id x = tg_id h"
    then have "x = g" using put_group by (auto simp: groups_ok_def same_group_def distinct_map inj_on_def)
    then show "\<not> tg_user_id x = Some v" using put_group by simp
  qed (use put_group in \<open>simp add: same_group_def\<close>)
  then show ?case by (simp add: journal_rows_def put_group_def)
next
  case (drop_group d k)
  show ?case
  proof (cases "list_ex (\<lambda>g. tg_id g = k \<and> tg_user_id g = Some u) (hd_groups d)")
    case True
    then obtain g where g: "g \<in> set (hd_groups d)" "tg_id g = k" "tg_user_id g = Some u" by (auto simp: list_ex_iff)
    have "filter (\<lambda>x. tg_user_id x = Some v \<and> tg_id x \<noteq> k) (hd_groups d) = filter (\<lambda>x. tg_user_id x = Some v) (hd_groups d)"
    proof (rule filter_cong [OF refl])
      fix x assume x: "x \<in> set (hd_groups d)"
      have "tg_id x = k \<Longrightarrow> x = g" using x g drop_group(1) by (auto simp: groups_ok_def distinct_map inj_on_def)
      then show "(tg_user_id x = Some v \<and> tg_id x \<noteq> k) = (tg_user_id x = Some v)" using g drop_group(2) by auto
    qed
    with True show ?thesis by (simp add: journal_rows_def delete_group_def drop_tags_def conj_commute)
  qed (simp add: journal_rows_def delete_group_def)
next
  case (order_groups d ids)
  obtain g where g: "hd_groups (reorder_groups u ids d) = map g (hd_groups d)"
      "\<And>r. tg_user_id r \<noteq> Some u \<Longrightarrow> g r = r" "\<And>r. same_group r (g r)" by (rule reorder_groups_map [where u = u and ids = ids and d = d], rule that)
  have "filter (\<lambda>g. tg_user_id g = Some v) (map g (hd_groups d)) = filter (\<lambda>g. tg_user_id g = Some v) (hd_groups d)"
    using g order_groups by (intro filter_map_same) (simp_all add: same_group_def)
  then show ?case by (simp add: journal_rows_def g(1))
qed (simp_all add: journal_rows_def table_writes)

lemma group_tags:
  assumes "groups_ok d" "tags_ok d" "g \<in> set (hd_groups d)" "tg_user_id g = Some u" "t \<in> set (hd_tags d)" "tag_group_id t = tg_id g"
  shows "tag_user_id t = Some u"
proof -
  have "get_group_by_id d (tag_group_id t) = Some g" using assms by (simp add: get_group_by_id_def groups_ok_def row_get_in)
  moreover have "tag_fits d t" using assms by (simp add: tags_ok_def list_all_iff)
  ultimately show ?thesis using assms by (simp add: tag_fits_def)
qed

lemma frame_tags:
  assumes up: "jn_update u d e" and ok: "groups_ok d" "tags_ok d" and v: "v \<noteq> u"
  shows "ur_tags (journal_rows v e) = ur_tags (journal_rows v d)"
  using up
proof cases
  case (drop_group k)
  show ?thesis
  proof (cases "list_ex (\<lambda>g. tg_id g = k \<and> tg_user_id g = Some u) (hd_groups d)")
    case True
    then obtain g where g: "g \<in> set (hd_groups d)" "tg_id g = k" "tg_user_id g = Some u" by (auto simp: list_ex_iff)
    have "filter (\<lambda>t. tag_user_id t = Some v \<and> tag_group_id t \<noteq> k) (hd_tags d) = filter (\<lambda>t. tag_user_id t = Some v) (hd_tags d)"
      using group_tags [OF ok g(1,3)] g(2) v by (intro filter_cong) auto
    with True drop_group show ?thesis by (simp add: journal_rows_def delete_group_def drop_tags_def conj_commute)
  qed (use drop_group in \<open>simp add: journal_rows_def delete_group_def\<close>)
next
  case (put_tag t s)
  have "filter (\<lambda>t. tag_user_id t = Some v) (row_put tag_id s (hd_tags d)) = filter (\<lambda>t. tag_user_id t = Some v) (hd_tags d)"
  proof (rule filter_row_put)
    fix x assume "x \<in> set (hd_tags d)" "tag_id x = tag_id s"
    then have "x = t" using put_tag ok by (auto simp: tags_ok_def same_tag_def distinct_map inj_on_def)
    then show "\<not> tag_user_id x = Some v" using put_tag v by simp
  qed (use put_tag v in \<open>simp add: same_tag_def\<close>)
  with put_tag show ?thesis by (simp add: journal_rows_def put_tag_def)
next
  case (drop_tag k)
  show ?thesis
  proof (cases "list_ex (\<lambda>t. tag_id t = k \<and> tag_user_id t = Some u) (hd_tags d)")
    case True
    then obtain t where t: "t \<in> set (hd_tags d)" "tag_id t = k" "tag_user_id t = Some u" by (auto simp: list_ex_iff)
    have "filter (\<lambda>x. tag_user_id x = Some v \<and> tag_id x \<noteq> k) (hd_tags d) = filter (\<lambda>x. tag_user_id x = Some v) (hd_tags d)"
    proof (rule filter_cong [OF refl])
      fix x assume x: "x \<in> set (hd_tags d)"
      have "tag_id x = k \<Longrightarrow> x = t" using x t ok(2) by (auto simp: tags_ok_def distinct_map inj_on_def)
      then show "(tag_user_id x = Some v \<and> tag_id x \<noteq> k) = (tag_user_id x = Some v)" using t v by auto
    qed
    with True drop_tag show ?thesis by (simp add: journal_rows_def repo_delete_tag_def drop_tags_def conj_commute)
  qed (use drop_tag in \<open>simp add: journal_rows_def repo_delete_tag_def\<close>)
next
  case (order_tags ids)
  obtain g where g: "hd_tags (repo_reorder_tags u ids d) = map g (hd_tags d)"
      "\<And>r. tag_user_id r \<noteq> Some u \<Longrightarrow> g r = r" "\<And>r. same_tag r (g r)" by (rule reorder_tags_map [where u = u and ids = ids and d = d], rule that)
  have "filter (\<lambda>t. tag_user_id t = Some v) (map g (hd_tags d)) = filter (\<lambda>t. tag_user_id t = Some v) (hd_tags d)"
    using g v by (intro filter_map_same) (simp_all add: same_tag_def)
  then show ?thesis by (simp add: journal_rows_def g(1) order_tags)
qed (use v in \<open>simp_all add: journal_rows_def table_writes\<close>)

lemma others_trade_tag:
  assumes "tags_ok d" "trade_tags_ok d" "p \<in> set (hd_trade_tags d)" "trade_user d (fst p) = Some v" "v \<noteq> u"
    "t \<in> set (hd_tags d)" "tag_id t = snd p"
  shows "tag_user_id t \<noteq> Some u"
proof -
  have "get_tag_by_id d (snd p) = Some t" using row_get_in [of tag_id "hd_tags d" t] assms by (simp add: get_tag_by_id_def tags_ok_def)
  moreover have "trade_tag_fits d p" using assms by (simp add: trade_tags_ok_def list_all_iff)
  ultimately show ?thesis using assms by (auto simp: trade_tag_fits_def)
qed

lemma frame_trade_tags:
  assumes up: "jn_update u d e" and ok: "days_ok d" "entries_ok d" "groups_ok d" "tags_ok d" "trade_tags_ok d" and v: "v \<noteq> u"
  shows "ur_trade_tags (journal_rows v e) = ur_trade_tags (journal_rows v d)"
proof -
  have users: "trade_user e = trade_user d" by (rule extends_users [OF update_extends [OF up ok(1,2)]])
  have kept: "filter (\<lambda>p. trade_user d (fst p) = Some v \<and> \<not> list_ex (\<lambda>g. tag_id g = snd p \<and> P g) (hd_tags d)) (hd_trade_tags d)
      = filter (\<lambda>p. trade_user d (fst p) = Some v) (hd_trade_tags d)" if P: "\<And>t. t \<in> set (hd_tags d) \<Longrightarrow> P t \<Longrightarrow> tag_user_id t = Some u" for P
  proof (rule filter_cong [OF refl])
    fix p assume p: "p \<in> set (hd_trade_tags d)"
    show "(trade_user d (fst p) = Some v \<and> \<not> list_ex (\<lambda>g. tag_id g = snd p \<and> P g) (hd_tags d)) = (trade_user d (fst p) = Some v)"
      using others_trade_tag [OF ok(4,5) p _ v] P by (auto simp: list_ex_iff)
  qed
  show ?thesis using up
  proof cases
    case (drop_group k)
    show ?thesis
    proof (cases "list_ex (\<lambda>g. tg_id g = k \<and> tg_user_id g = Some u) (hd_groups d)")
      case True
      then obtain g where g: "g \<in> set (hd_groups d)" "tg_id g = k" "tg_user_id g = Some u" by (auto simp: list_ex_iff)
      have "hd_trade_tags e = filter (\<lambda>p. \<not> list_ex (\<lambda>g. tag_id g = snd p \<and> tag_group_id g = k) (hd_tags d)) (hd_trade_tags d)"
        using True drop_group by (simp add: delete_group_def drop_tags_def case_prod_beta')
      then show ?thesis using users kept [of "\<lambda>t. tag_group_id t = k"] group_tags [OF ok(3,4) g(1,3)] g(2) by (simp add: journal_rows_def conj_commute)
    qed (use drop_group in \<open>simp add: journal_rows_def delete_group_def\<close>)
  next
    case (drop_tag k)
    show ?thesis
    proof (cases "list_ex (\<lambda>t. tag_id t = k \<and> tag_user_id t = Some u) (hd_tags d)")
      case True
      then obtain t where t: "t \<in> set (hd_tags d)" "tag_id t = k" "tag_user_id t = Some u" by (auto simp: list_ex_iff)
      have "hd_trade_tags e = filter (\<lambda>p. \<not> list_ex (\<lambda>g. tag_id g = snd p \<and> tag_id g = k) (hd_tags d)) (hd_trade_tags d)"
        using True drop_tag by (simp add: repo_delete_tag_def drop_tags_def case_prod_beta')
      moreover have "tag_user_id x = Some u" if "x \<in> set (hd_tags d)" "tag_id x = k" for x
        using that t ok(4) by (auto simp: tags_ok_def distinct_map inj_on_def)
      ultimately show ?thesis using users kept [of "\<lambda>t. tag_id t = k"] by (simp add: journal_rows_def conj_commute)
    qed (use drop_tag in \<open>simp add: journal_rows_def repo_delete_tag_def\<close>)
  next
    case (tag_trade t ids)
    have "filter (\<lambda>p. trade_user d (fst p) = Some v) (map (Pair t) ids) = []" using tag_trade v by (simp add: filter_empty_conv)
    moreover have "filter (\<lambda>p. trade_user d (fst p) = Some v \<and> fst p \<noteq> t) (hd_trade_tags d) = filter (\<lambda>p. trade_user d (fst p) = Some v) (hd_trade_tags d)"
      using tag_trade v by (intro filter_cong) auto
    ultimately show ?thesis using users tag_trade by (simp add: journal_rows_def case_prod_beta' conj_commute)
  qed (use users in \<open>simp_all add: journal_rows_def table_writes\<close>)
qed

lemma frame_setups: "jn_update u d e \<Longrightarrow> v \<noteq> u \<Longrightarrow> ur_setups (journal_rows v e) = ur_setups (journal_rows v d)"
proof (induction rule: jn_update.induct)
  case (drop_setup d k)
  then have "filter (\<lambda>s. st_user_id s = v \<and> \<not> (st_id s = k \<and> st_user_id s = u)) (hd_setups d) = filter (\<lambda>s. st_user_id s = v) (hd_setups d)"
    by (intro filter_cong) auto
  then show ?case by (simp add: journal_rows_def repo_delete_setup_def conj_commute)
next
  case (order_setups d ids)
  obtain g where g: "hd_setups (repo_reorder_setups u ids d) = map g (hd_setups d)"
      "\<And>r. st_user_id r \<noteq> u \<Longrightarrow> g r = r" "\<And>r. same_setup_row r (g r)" by (rule reorder_setups_map [where u = u and ids = ids and d = d], rule that)
  have "filter (\<lambda>s. st_user_id s = v) (map g (hd_setups d)) = filter (\<lambda>s. st_user_id s = v) (hd_setups d)"
    using g order_setups by (intro filter_map_same) (simp_all add: same_setup_row_def)
  then show ?case by (simp add: journal_rows_def g(1))
qed (simp_all add: journal_rows_def table_writes)

lemma frame_trades:
  assumes up: "jn_update u d e" and ok: "acc_ok (hd_core d)" "days_ok d" "entries_ok d" and v: "v \<noteq> u"
  shows "ur_trades (journal_rows v e) = ur_trades (journal_rows v d)"
proof -
  have users: "account_user e = account_user d" using update_extends [OF up ok(2,3)] by (simp add: extends_def)
  show ?thesis using up
  proof cases
    case (set_setup t n)
    have other: "account_user d (tr_account_id x) = Some u" if "x \<in> set (kd_trades (hd_core d))" "tr_id x = t" for x
    proof -
      have "row_get tr_id t (kd_trades (hd_core d)) = Some x" using ok(1) that row_get_in [of tr_id "kd_trades (hd_core d)" x] by (auto simp: acc_ok_def trades_ok_def)
      then show ?thesis using set_setup by (simp add: trade_user_def trade_account_def)
    qed
    have "filter (\<lambda>x. account_user d (tr_account_id x) = Some v) (map (\<lambda>x. if tr_id x = t then x \<lparr>tr_setup := n\<rparr> else x) (kd_trades (hd_core d)))
        = filter (\<lambda>x. account_user d (tr_account_id x) = Some v) (kd_trades (hd_core d))"
      using other v by (intro filter_map_same) auto
    then show ?thesis using set_setup by (simp add: journal_rows_def) (simp add: set_trade_setup_def row_modify_def)
  qed (use users in \<open>simp_all add: journal_rows_def table_writes\<close>)
qed

lemma update_frame: "jn_update u d e \<Longrightarrow> journal_ok d \<Longrightarrow> v \<noteq> u \<Longrightarrow> journal_rows v e = journal_rows v d"
proof -
  assume up: "jn_update u d e" and ok: "journal_ok d" and v: "v \<noteq> u"
  have ms: "ur_messages (journal_rows v e) = ur_messages (journal_rows v d)"
    using frame_messages [OF up _ _ _ v] ok by (simp add: journal_rows_def journal_ok_def)
  show ?thesis
    using ok v ms frame_trades [OF up _ _ _ v] frame_days [OF up _ _ v] frame_entries [OF up _ _ v] frame_attachments [OF up _ _ _ v]
      frame_templates [OF up _ v] frame_groups [OF up _ v] frame_tags [OF up _ _ v] frame_trade_tags [OF up _ _ _ _ _ v] frame_setups [OF up v]
    by (intro user_rows.equality) (simp_all add: journal_ok_def)
qed

lemma updates_frame: "jn_updates u d e \<Longrightarrow> journal_ok d \<Longrightarrow> v \<noteq> u \<Longrightarrow> journal_rows v e = journal_rows v d"
  by (induction rule: rtranclp_induct) (auto dest: update_frame updates_ok)

end
