(* ===== verification/Journal_Requests.thy ===== *)
theory Journal_Requests
  imports Journal_Isolation
begin

text \<open>
  Every request on the journal is made of small updates of the user who sends it.
\<close>

section \<open>Requests are made of updates\<close>

lemma jn_updates_one: "jn_update u d e \<Longrightarrow> jn_updates u d e"
  by (rule r_into_rtranclp)

lemma updates_join: "jn_updates u c d \<Longrightarrow> jn_updates u d e \<Longrightarrow> jn_updates u c e"
  by (rule rtranclp_trans)

lemma account_for_user: "acc_ok (hd_core d) \<Longrightarrow> get_account_by_id_for_user (hd_core d) a u = Some x \<Longrightarrow> ta_id x = a \<and> account_user d a = Some u"
  using row_get_in [of ta_id "kd_accounts (hd_core d)" x]
  by (auto simp: get_account_by_id_for_user_def find_Some_iff account_user_def acc_ok_def account_rows_ok_def)

lemma owned_account: "acc_ok (hd_core d) \<Longrightarrow> get_account_or_404 d a u = Inr x \<Longrightarrow> ta_id x = a \<and> account_user d a = Some u"
  by (auto simp: get_account_or_404_def http_raise_def split: option.splits dest: account_for_user)

lemma owned_trade: "acc_ok (hd_core d) \<Longrightarrow> get_trade_owned_by_user d t u = Inr (tr, x) \<Longrightarrow>
    tr_id tr = t \<and> ta_id x = tr_account_id tr \<and> trade_account d t = Some (ta_id x) \<and> account_user d (ta_id x) = Some u"
  by (auto simp: get_trade_owned_by_user_def http_raise_def get_trade_by_id_def trade_account_def split: option.splits dest: account_for_user row_get_mem)

lemma validated_trade: "validate_trade_ownership d u t = Inr tr \<Longrightarrow> tr_id tr = t \<and> trade_user d t = Some u"
  by (auto simp: validate_trade_ownership_def http_raise_def get_trade_by_id_def trade_user_def trade_account_def account_user_def get_account_by_id_def
      split: option.splits if_splits dest: row_get_mem)

lemma owned_day: "acc_ok (hd_core d) \<Longrightarrow> get_daily_journal_owned_by_user d k u = Inr (j, x) \<Longrightarrow>
    j \<in> set (hd_days d) \<and> dj_id j = k \<and> account_user d (dj_account_id j) = Some u"
  by (auto simp: get_daily_journal_owned_by_user_def http_raise_def get_daily_journal_by_id_def split: option.splits dest: account_for_user row_get_mem)

lemma core_owners:
  assumes "hd_core e = hd_core d"
  shows "account_user e = account_user d" "trade_account e = trade_account d" "trade_user e = trade_user d"
proof -
  show a: "account_user e = account_user d" "trade_account e = trade_account d"
    using assms by (simp_all add: account_user_def trade_account_def fun_eq_iff)
  show "trade_user e = trade_user d" by (rule users_frame [OF a])
qed

lemma updates_new_day:
  assumes "repo_get_or_create_daily_journal k now a day d = Inr (j, e)" "account_user d a = Some u"
  shows "jn_updates u d e" "j \<in> set (hd_days e)" "dj_account_id j = a" "hd_core e = hd_core d" "hd_entries e = hd_entries d"
proof -
  consider "e = d" "j \<in> set (hd_days d)" "dj_account_id j = a" | "get_daily_journal_by_account_and_date d a day = None" "get_daily_journal_by_id d k = None"
      "dj_id j = k" "dj_account_id j = a" "dj_trading_date j = day" "e = d \<lparr>hd_days := hd_days d @ [j]\<rparr>"
    using assms(1) by (auto simp: repo_get_or_create_daily_journal_def Let_def taken_def get_daily_journal_by_account_and_date_def
        split: option.splits if_splits dest: find_SomeD)
  then show "jn_updates u d e" "j \<in> set (hd_days e)" "dj_account_id j = a" "hd_core e = hd_core d" "hd_entries e = hd_entries d"
    by (cases; use assms(2) in \<open>auto intro!: jn_updates_one jn_update.add_day\<close>)+
qed

lemma updates_new_entry:
  assumes "get_or_create_trade_journal_by_trade_id k now t day d = Inr ((j, new), e)" "trade_user d t = Some u"
    "case day of None \<Rightarrow> True | Some i \<Rightarrow> day_account d i = trade_account d t"
  shows "jn_updates u d e" "j \<in> set (hd_entries e)" "tj_trade_id j = t" "hd_core e = hd_core d"
proof -
  have known: "\<exists>a. trade_account d t = Some a" using assms(2) by (auto simp: trade_user_def bind_eq_Some_conv)
  consider "e = d" "j \<in> set (hd_entries d)" "tj_trade_id j = t" | "get_trade_journal_by_trade_id d t = None" "row_get tj_id k (hd_entries d) = None"
      "tj_id j = k" "tj_trade_id j = t" "entry_fits d j" "e = d \<lparr>hd_entries := hd_entries d @ [j]\<rparr>"
    using assms(1,3) known by (auto simp: get_or_create_trade_journal_by_trade_id_def Let_def taken_def get_trade_journal_by_trade_id_def entry_fits_def
        scores_ok_def split: option.splits if_splits dest: row_get_mem)
  then show "jn_updates u d e" "j \<in> set (hd_entries e)" "tj_trade_id j = t" "hd_core e = hd_core d"
    by (cases; use assms(2) in \<open>auto intro!: jn_updates_one jn_update.add_entry\<close>)+
qed

lemma entry_message:
  assumes "entries_ok d" "j \<in> set (hd_entries d)" "trade_user d (tj_trade_id j) = Some u" "jm_daily_journal_id m = None" "jm_trade_journal_id m = Some (tj_id j)"
  shows "message_user d m = Some u" "message_account d m \<noteq> None"
proof -
  have "entry_account d (tj_id j) = trade_account d (tj_trade_id j)" using assms(1,2) by (simp add: entry_account_def entries_ok_def row_get_in)
  then have "message_account d m = trade_account d (tj_trade_id j)" using assms(4,5) by (simp add: message_account_def)
  with assms(3) show "message_user d m = Some u" "message_account d m \<noteq> None" by (auto simp: message_user_def trade_user_def bind_eq_Some_conv)
qed

lemma day_message:
  assumes "days_ok d" "j \<in> set (hd_days d)" "account_user d (dj_account_id j) = Some u" "jm_daily_journal_id m = Some (dj_id j)"
  shows "message_user d m = Some u" "message_account d m \<noteq> None"
  using assms by (simp_all add: message_user_def message_account_def day_account_def days_ok_def row_get_in)

lemma updates_message: "create_message m d = Inr e \<Longrightarrow> message_user d m = Some u \<Longrightarrow> message_account d m \<noteq> None \<Longrightarrow>
    jm_author_id m = (if jm_message_type m = Message_system then None else Some u) \<Longrightarrow> jn_updates u d e \<and> e = d \<lparr>hd_messages := hd_messages d @ [m]\<rparr>"
  by (auto simp: create_message_def taken_def message_fits_def split: if_splits intro!: jn_updates_one jn_update.add_message)

lemma updates_open:
  assumes "open_trade_journal env q t d = Inr ((j, new), e)" "journal_ok d"
  shows "jn_updates (jq_user q) d e" "j \<in> set (hd_entries e)" "trade_user e (tj_trade_id j) = Some (jq_user q)"
proof -
  let ?u = "jq_user q"
  obtain tr a day d1 d2 where tr: "get_trade_owned_by_user d t ?u = Inr (tr, a)"
      and day: "repo_get_or_create_daily_journal (jq_draw q 0) (jq_now q) (ta_id a) (to_account_local_date (ne_acc env) (tr_closed_at tr) (ta_timezone a)) d = Inr (day, d1)"
      and entry: "get_or_create_trade_journal_by_trade_id (jq_draw q 1) (jq_now q) (tr_id tr) (Some (dj_id day)) d1 = Inr ((j, new), d2)"
      and msg: "e = d2 \<or> create_message (new_message (jq_draw q 2) (jq_now q) None (Some (tj_id j)) None Message_system None [] (Some (system_data_of tr)) None) d2 = Inr e"
    using assms(1) by (auto simp: open_trade_journal_def bind_Inr_eq map_Inr_eq split: if_splits)
  have own: "tr_id tr = t" "trade_account d t = Some (ta_id a)" "account_user d (ta_id a) = Some ?u"
    using owned_trade [OF _ tr] assms(2) by (auto simp: journal_ok_def)
  note d1 = updates_new_day [OF day own(3)]
  have ok1: "journal_ok d1" using updates_ok [OF d1(1) assms(2)] .
  note same1 = core_owners [OF d1(4)]
  have "day_account d1 (dj_id day) = Some (ta_id a)" using d1(2,3) ok1 by (simp add: day_account_def journal_ok_def days_ok_def row_get_in)
  then have "jn_updates ?u d1 d2 \<and> j \<in> set (hd_entries d2) \<and> tj_trade_id j = t \<and> hd_core d2 = hd_core d1"
    using updates_new_entry [OF entry, of ?u] own same1 by (auto simp: trade_user_def)
  then have d2: "jn_updates ?u d1 d2" "j \<in> set (hd_entries d2)" "tj_trade_id j = t" "hd_core d2 = hd_core d1" by simp_all
  have ok2: "journal_ok d2" using updates_ok [OF d2(1) ok1] .
  have owner: "trade_user d2 (tj_trade_id j) = Some ?u"
    using core_owners [OF d2(4)] same1 d2(3) own by (simp add: trade_user_def)
  have "jn_updates ?u d2 e \<and> (e = d2 \<or> (\<exists>m. e = d2 \<lparr>hd_messages := hd_messages d2 @ [m]\<rparr>))"
    using msg
  proof
    assume c: "create_message (new_message (jq_draw q 2) (jq_now q) None (Some (tj_id j)) None Message_system None [] (Some (system_data_of tr)) None) d2 = Inr e"
    show ?thesis
      using updates_message [OF c, of ?u] entry_message [OF _ d2(2) owner] ok2 by (auto simp: new_message_def journal_ok_def)
  qed simp
  then show "jn_updates ?u d e" "j \<in> set (hd_entries e)" "trade_user e (tj_trade_id j) = Some ?u"
    using d1(1) d2(1,2) owner by (auto intro: updates_join simp: trade_user_def)
qed

lemma updates_post:
  assumes "post_message q k ka day entry type content media d = Inr (m, e)" "\<not> unsupported_type type"
    and "\<And>m. jm_daily_journal_id m = day \<Longrightarrow> jm_trade_journal_id m = entry \<Longrightarrow> message_user d m = Some (jq_user q) \<and> message_account d m \<noteq> None"
  shows "jn_updates (jq_user q) d e" "hd_core e = hd_core d" "hd_days e = hd_days d" "hd_entries e = hd_entries d"
proof -
  define n where "n = new_message k (jq_now q) day entry (Some (jq_user q)) type content (extract_tags content) None (fst media)"
  obtain d1 where d1: "create_message n d = Inr d1" and rest: "case snd media of None \<Rightarrow> e = d1
      | Some (path, mime, name) \<Rightarrow> create_attachment \<lparr>ja_id = ka, ja_message_id = k, ja_storage_path = path,
           ja_media_type = ''image'', ja_mime_type = mime, ja_original_filename = name, ja_caption = content, ja_created_at = jq_now q\<rparr> d1 = Inr e"
    using assms(1) by (auto simp: post_message_def bind_Inr_eq map_Inr_eq Let_def n_def split: option.splits prod.splits)
  have who: "message_user d n = Some (jq_user q)" "message_account d n \<noteq> None" using assms(3) [of n] by (simp_all add: n_def new_message_def)
  have "jm_author_id n = (if jm_message_type n = Message_system then None else Some (jq_user q))"
    using assms(2) by (simp add: n_def new_message_def unsupported_type_def)
  then have up: "jn_updates (jq_user q) d d1" "d1 = d \<lparr>hd_messages := hd_messages d @ [n]\<rparr>"
    using updates_message [OF d1 who] by blast+
  have who1: "message_user d1 n = Some (jq_user q)" using who up(2) by (simp add: message_user_def message_account_def cong: option.case_cong)
  have "jn_updates (jq_user q) d1 e \<and> (\<exists>xs. e = d1 \<lparr>hd_attachments := xs\<rparr>)"
  proof (cases "snd media")
    case None
    with rest show ?thesis by (auto intro: exI [of _ "hd_attachments d1"])
  next
    case (Some x)
    obtain path mime name where x: "x = (path, mime, name)" by (cases x) auto
    let ?x = "\<lparr>ja_id = ka, ja_message_id = k, ja_storage_path = path, ja_media_type = ''image'', ja_mime_type = mime,
        ja_original_filename = name, ja_caption = content, ja_created_at = jq_now q\<rparr>"
    have e: "row_get ja_id ka (hd_attachments d1) = None" "e = d1 \<lparr>hd_attachments := hd_attachments d1 @ [?x]\<rparr>"
      using rest Some x by (auto simp: create_attachment_def too_long_def taken_def split: if_splits)
    have "jn_update (jq_user q) d1 (d1 \<lparr>hd_attachments := hd_attachments d1 @ [?x]\<rparr>)"
      by (rule jn_update.add_attachment [of n]) (use who1 up(2) e in \<open>simp_all add: n_def new_message_def\<close>)
    then show ?thesis using e by (auto intro: jn_updates_one)
  qed
  then show "jn_updates (jq_user q) d e" "hd_core e = hd_core d" "hd_days e = hd_days d" "hd_entries e = hd_entries d"
    using up by (auto intro: updates_join)
qed

lemma updates_trade_message: "journal_ok d \<Longrightarrow> jn_updates (jq_user q) d (snd (create_trade_journal_message env q t type content d))"
proof -
  assume ok: "journal_ok d"
  show ?thesis
  proof (cases "unsupported_type type \<or> (\<exists>e. open_trade_journal env q t d = Inl e)")
    case True
    then show ?thesis by (auto simp: create_trade_journal_message_def)
  next
    case False
    then obtain j new d1 where o: "open_trade_journal env q t d = Inr ((j, new), d1)" and ty: "\<not> unsupported_type type"
      by (cases "open_trade_journal env q t d") auto
    note d1 = updates_open [OF o ok]
    have ok1: "journal_ok d1" using updates_ok [OF d1(1) ok] .
    define r where "r = bind_Inr (trade_journal_messages env q j d1) (\<lambda>_. bind_Inr (posted_media env q (jq_draw q 3) type content) (\<lambda>media.
             post_message q (jq_draw q 4) (jq_draw q 5) None (Some (tj_id j)) type content media d1))"
    show ?thesis
    proof (cases r)
      case (Inl x)
      then show ?thesis using o ty d1(1) by (auto simp: create_trade_journal_message_def Let_def r_def)
    next
      case (Inr p)
      obtain m d2 where p: "p = (m, d2)" by (cases p)
      obtain media where post: "post_message q (jq_draw q 4) (jq_draw q 5) None (Some (tj_id j)) type content media d1 = Inr (m, d2)"
        using Inr p by (auto simp: r_def bind_Inr_eq)
      have who: "message_user d1 n = Some (jq_user q) \<and> message_account d1 n \<noteq> None"
        if "jm_daily_journal_id n = None" "jm_trade_journal_id n = Some (tj_id j)" for n
        using entry_message [OF _ d1(2,3) that] ok1 by (simp add: journal_ok_def)
      note d2 = updates_post [OF post ty who]
      have sc: "scores_ok j" using ok1 d1(2) by (auto simp: journal_ok_def entries_ok_def list_all_iff entry_fits_def)
      have "jn_update (jq_user q) d2 (put_entry (review_entry (first_reviewed (jq_now q) (tj_reviewed_at j)) j) d2)"
        using d1(2,3) d2(4) core_owners(3) [OF d2(2)] sc
        by (intro jn_update.put_entry [of j]) (simp_all add: review_entry_def same_entry_def scores_ok_def)
      then show ?thesis using Inr p o ty d1(1) d2(1)
        by (auto simp: create_trade_journal_message_def Let_def r_def [symmetric] intro: updates_join rtranclp.rtrancl_into_rtrancl)
    qed
  qed
qed

lemma updates_day_message: "journal_ok d \<Longrightarrow> jn_updates (jq_user q) d (snd (create_daily_journal_message env q k type content d))"
proof -
  assume ok: "journal_ok d"
  define r where "r = bind_Inr (get_daily_journal_owned_by_user d k (jq_user q)) (\<lambda>(j, a).
         bind_Inr (posted_media env q (jq_draw q 3) type content) (\<lambda>media.
         map_Inr (Pair j) (post_message q (jq_draw q 4) (jq_draw q 5) (Some (dj_id j)) None type content media d)))"
  show ?thesis
  proof (cases "unsupported_type type \<or> (\<exists>e. r = Inl e)")
    case True
    then show ?thesis by (auto simp: create_daily_journal_message_def r_def)
  next
    case False
    then obtain j m d2 where r: "r = Inr (j, m, d2)" and ty: "\<not> unsupported_type type" by (cases r) auto
    then obtain a media where own: "get_daily_journal_owned_by_user d k (jq_user q) = Inr (j, a)"
        and post: "post_message q (jq_draw q 4) (jq_draw q 5) (Some (dj_id j)) None type content media d = Inr (m, d2)"
      by (auto simp: r_def bind_Inr_eq map_Inr_eq)
    have j: "j \<in> set (hd_days d)" "account_user d (dj_account_id j) = Some (jq_user q)" using owned_day [OF _ own] ok by (auto simp: journal_ok_def)
    have who: "message_user d n = Some (jq_user q) \<and> message_account d n \<noteq> None"
      if "jm_daily_journal_id n = Some (dj_id j)" "jm_trade_journal_id n = None" for n
      using day_message [OF _ j that(1)] ok by (simp add: journal_ok_def)
    note d2 = updates_post [OF post ty who]
    have "jn_update (jq_user q) d2 (put_day (review_day (first_reviewed (jq_now q) (dj_reviewed_at j)) j) d2)"
      using j d2(3) core_owners(1) [OF d2(2)] by (intro jn_update.put_day [of j]) (simp_all add: review_day_def same_day_def)
    then show ?thesis using r ty d2(1)
      by (auto simp: create_daily_journal_message_def Let_def r_def [symmetric] intro: rtranclp.rtrancl_into_rtrancl)
  qed
qed

lemma updates_then: "jn_updates u c d \<Longrightarrow> jn_update u d e \<Longrightarrow> jn_updates u c e"
  by (rule rtranclp.rtrancl_into_rtrancl)

lemma or_db_cases: "(\<And>e. r = Inr e \<Longrightarrow> jn_updates u d e) \<Longrightarrow> jn_updates u d (or_db d r)"
  by (cases r) (simp_all add: or_db_def)

lemma updates_open_request: "journal_ok d \<Longrightarrow> jn_updates (jq_user q) d (snd (service_get_or_create_trade_journal env q t d))"
  by (auto simp: service_get_or_create_trade_journal_def split: sum.splits prod.splits dest: updates_open)

lemma updates_review: "journal_ok d \<Longrightarrow> jn_updates (jq_user q) d (snd (mark_trade_journal_reviewed env q t d))"
proof -
  assume ok: "journal_ok d"
  show ?thesis
  proof (cases "open_trade_journal env q t d")
    case (Inr p)
    obtain j new d1 where p: "p = ((j, new), d1)" by (cases p) auto
    note d1 = updates_open [OF Inr [unfolded p] ok]
    have sc: "scores_ok j" using updates_ok [OF d1(1) ok] d1(2) by (auto simp: journal_ok_def entries_ok_def list_all_iff entry_fits_def)
    have "jn_update (jq_user q) d1 (put_entry (review_entry (Some (jq_now q)) j) d1)"
      using d1(2,3) sc by (intro jn_update.put_entry [of j]) (simp_all add: review_entry_def same_entry_def scores_ok_def)
    then have "jn_updates (jq_user q) d (put_entry (review_entry (Some (jq_now q)) j) d1)" using d1(1) by (rule updates_then [rotated])
    then show ?thesis using Inr p d1(1) by (simp add: mark_trade_journal_reviewed_def split: sum.splits)
  qed (simp add: mark_trade_journal_reviewed_def)
qed

lemma updates_open_day:
  assumes "open_day q a day d = Inr ((x, j), e)" "journal_ok d"
  shows "jn_updates (jq_user q) d e" "j \<in> set (hd_days e)" "account_user e (dj_account_id j) = Some (jq_user q)"
proof -
  have r: "repo_get_or_create_daily_journal (jq_draw q 0) (jq_now q) a day d = Inr (j, e)" and x: "get_account_or_404 d a (jq_user q) = Inr x"
    using assms(1) by (auto simp: open_day_def bind_Inr_eq map_Inr_eq)
  have u: "account_user d a = Some (jq_user q)" using owned_account [OF _ x] assms(2) by (simp add: journal_ok_def)
  note d1 = updates_new_day [OF r u]
  show "jn_updates (jq_user q) d e" "j \<in> set (hd_days e)" "account_user e (dj_account_id j) = Some (jq_user q)"
    using d1 u core_owners(1) [OF d1(4)] by simp_all
qed

lemma updates_day_note: "save_day_note q a day note d = Inr (n, e) \<Longrightarrow> journal_ok d \<Longrightarrow> jn_updates (jq_user q) d e"
proof -
  assume s: "save_day_note q a day note d = Inr (n, e)" and ok: "journal_ok d"
  obtain x j d1 where o: "open_day q a day d = Inr ((x, j), d1)" and e: "e = put_day (note_day (jq_now q) note j) d1"
    using s by (auto simp: save_day_note_def map_Inr_eq Let_def)
  note d1 = updates_open_day [OF o ok]
  have "jn_update (jq_user q) d1 e" unfolding e using d1(2,3) by (intro jn_update.put_day [of j]) (simp_all add: note_day_def same_day_def)
  with d1(1) show ?thesis by (rule updates_then)
qed

lemma updates_review_day: "mark_daily_journal_reviewed q k d = Inr (n, e) \<Longrightarrow> journal_ok d \<Longrightarrow> jn_updates (jq_user q) d e"
proof -
  assume s: "mark_daily_journal_reviewed q k d = Inr (n, e)" and ok: "journal_ok d"
  obtain j x where o: "get_daily_journal_owned_by_user d k (jq_user q) = Inr (j, x)" and e: "e = put_day (review_day (Some (jq_now q)) j) d"
    using s by (auto simp: mark_daily_journal_reviewed_def map_Inr_eq)
  have j: "j \<in> set (hd_days d)" "account_user d (dj_account_id j) = Some (jq_user q)" using owned_day [OF _ o] ok by (auto simp: journal_ok_def)
  have "jn_update (jq_user q) d e" unfolding e using j by (intro jn_update.put_day [of j]) (simp_all add: review_day_def same_day_def)
  then show ?thesis by (rule jn_updates_one)
qed

lemma own_message_Inr: "own_message d k u s = Inr m \<Longrightarrow> m \<in> set (hd_messages d) \<and> jm_id m = k \<and> jm_author_id m = Some u"
  by (auto simp: own_message_def http_raise_def get_message_by_id_def split: option.splits if_splits dest: row_get_mem)

lemma updates_edit: "jn_updates (jq_user q) d (snd (update_message env q k s d))"
proof (cases "own_message d k (jq_user q) ''Message cannot be edited.''")
  case (Inr m)
  have "jn_update (jq_user q) d (put_message (update_message_content (jq_now q) s (extract_tags s) m) d)"
    using own_message_Inr [OF Inr] by (intro jn_update.put_message [of m]) (simp_all add: update_message_content_def same_message_def)
  then show ?thesis using Inr by (simp add: update_message_def Let_def jn_updates_one)
qed (simp add: update_message_def)

lemma updates_delete_message: "delete_message u k d = Inr e \<Longrightarrow> jn_updates u d e"
  by (auto simp: delete_message_def map_Inr_eq dest!: own_message_Inr intro!: jn_updates_one jn_update.drop_message)

lemma updates_bare_entry:
  assumes "bare_entry q t d = Inr (j, e)" "journal_ok d"
  shows "jn_updates (jq_user q) d e" "j \<in> set (hd_entries e)" "trade_user e (tj_trade_id j) = Some (jq_user q)" "scores_ok j"
proof -
  obtain tr new where v: "validate_trade_ownership d (jq_user q) t = Inr tr"
      and g: "get_or_create_trade_journal_by_trade_id (jq_draw q 0) (jq_now q) t None d = Inr ((j, new), e)"
    using assms(1) by (auto simp: bare_entry_def bind_Inr_eq map_Inr_eq)
  have u: "trade_user d t = Some (jq_user q)" using validated_trade [OF v] by simp
  have e: "jn_updates (jq_user q) d e" "j \<in> set (hd_entries e)" "tj_trade_id j = t" "hd_core e = hd_core d"
    using updates_new_entry [OF g u] by simp_all
  show "jn_updates (jq_user q) d e" "j \<in> set (hd_entries e)" "trade_user e (tj_trade_id j) = Some (jq_user q)" "scores_ok j"
    using e u core_owners(3) [OF e(4)] updates_ok [OF e(1) assms(2)] by (auto simp: journal_ok_def entries_ok_def list_all_iff entry_fits_def)
qed

lemma updates_assign:
  assumes "bare_entry q t d = Inr p" "journal_ok d" "\<And>j. scores_ok j \<Longrightarrow> scores_ok (f j) \<and> same_entry j (f j)"
  shows "jn_updates (jq_user q) d (snd (assign_entry f p))"
proof -
  obtain j d1 where p: "p = (j, d1)" by (cases p)
  note d1 = updates_bare_entry [OF assms(1) [unfolded p] assms(2)]
  have "jn_update (jq_user q) d1 (put_entry (f j) d1)" using d1(2-4) assms(3) by (intro jn_update.put_entry [of j]) simp_all
  with d1(1) show ?thesis by (simp add: assign_entry_def Let_def p updates_then)
qed

lemma coalesce_within: "pred_option P x \<Longrightarrow> pred_option P y \<Longrightarrow> pred_option P (coalesce x y)"
  by (cases x) (simp_all add: coalesce_def)

lemma updates_entry_requests:
  assumes "journal_ok d"
  shows "in_range 1 5 n \<Longrightarrow> update_trade_rating q t n d = Inr (x, e) \<Longrightarrow> jn_updates (jq_user q) d e"
    and "list_all (pred_option (in_range 0 10)) [ex, su, di] \<Longrightarrow> update_trade_assessment q t ex su di d = Inr (y, e) \<Longrightarrow> jn_updates (jq_user q) d e"
    and "save_trade_note q t note d = Inr (z, e) \<Longrightarrow> jn_updates (jq_user q) d e"
    and "get_trade_note q t d = Inr (w, e) \<Longrightarrow> jn_updates (jq_user q) d e"
proof -
  show "jn_updates (jq_user q) d e" if "in_range 1 5 n" "update_trade_rating q t n d = Inr (x, e)"
    using that assms updates_assign [of q t d _ "rated n"] by (auto simp: update_trade_rating_def map_Inr_eq rated_def scores_ok_def same_entry_def)
  show "jn_updates (jq_user q) d e" if "list_all (pred_option (in_range 0 10)) [ex, su, di]" "update_trade_assessment q t ex su di d = Inr (y, e)"
    using that assms updates_assign [of q t d _ "assessed ex su di"]
    by (auto simp: update_trade_assessment_def map_Inr_eq assessed_def scores_ok_def same_entry_def coalesce_within case_prod_beta' Let_def)
  show "jn_updates (jq_user q) d e" if "save_trade_note q t note d = Inr (z, e)"
    using that assms updates_assign [of q t d _ "noted (jq_now q) note"] by (auto simp: save_trade_note_def map_Inr_eq noted_def scores_ok_def same_entry_def case_prod_beta' Let_def)
  show "jn_updates (jq_user q) d e" if "get_trade_note q t d = Inr (w, e)"
    using that assms updates_bare_entry by (auto simp: get_trade_note_def map_Inr_eq)
qed

text \<open>Stripping a text twice is stripping it once.\<close>

lemma py_strip_idem [simp]: "py_strip (py_strip s) = py_strip s"
proof -
  define t where "t = dropWhile is_space s"
  define r where "r = dropWhile is_space (rev t)"
  have s: "py_strip s = rev r" by (simp add: py_strip_def r_def t_def)
  have "dropWhile is_space (rev r) = rev r"
  proof (cases "r = []")
    case False
    obtain z where z: "rev t = z @ r" unfolding r_def by (metis takeWhile_dropWhile_id)
    then have "t = rev r @ rev z" by (metis rev_append rev_rev_ident)
    then have "hd (rev r) = hd t" "t \<noteq> []" using False by auto
    then have "\<not> is_space (hd (rev r))" unfolding t_def by (simp add: hd_dropWhile)
    then show ?thesis using False by (cases "rev r") simp_all
  qed simp
  moreover have "dropWhile is_space r = r" unfolding r_def by (rule dropWhile_idem)
  ultimately show ?thesis unfolding s by (simp add: py_strip_def)
qed

lemma checked_name_ok: "checked_name w n s = Inr m \<Longrightarrow> name_ok n m"
  by (auto simp: checked_name_def http_raise_def Let_def name_ok_def sized_def Suc_le_eq split: if_splits)

lemma updates_templates:
  "create_template q n ty qs d = Inr (x, e) \<Longrightarrow> jn_updates (jq_user q) d e"
  "delete_template u k d = Inr e' \<Longrightarrow> jn_updates u d e'"
proof -
  show "create_template q n ty qs d = Inr (x, e) \<Longrightarrow> jn_updates (jq_user q) d e"
    by (auto simp: create_template_def add_template_def taken_def map_Inr_eq Let_def split: if_splits intro!: jn_updates_one jn_update.add_template)
  show "delete_template u k d = Inr e' \<Longrightarrow> jn_updates u d e'"
    by (auto simp: delete_template_def delete_user_template_def http_raise_def get_template_visible_to_user_def Let_def
        split: option.splits if_splits dest!: find_SomeD intro!: jn_updates_one jn_update.drop_template)
qed

lemma own_group_Inr: "own_group d u k s = Inr g \<Longrightarrow> g \<in> set (hd_groups d) \<and> tg_id g = k \<and> tg_user_id g = Some u"
  by (auto simp: own_group_def http_raise_def get_group_by_id_def split: option.splits if_splits dest: row_get_mem)

lemma own_tag_Inr: "own_tag d u k s = Inr t \<Longrightarrow> t \<in> set (hd_tags d) \<and> tag_id t = k \<and> tag_user_id t = Some u"
  by (auto simp: own_tag_def http_raise_def get_tag_by_id_def split: option.splits if_splits dest: row_get_mem)

lemma updates_groups:
  "create_tag_group q n c d = Inr (x, e) \<Longrightarrow> jn_updates (jq_user q) d e"
  "update_tag_group u k n' c d = Inr (y, e') \<Longrightarrow> jn_updates u d e'"
  "delete_tag_group u k d = Inr f \<Longrightarrow> jn_updates u d f"
proof -
  show "create_tag_group q n c d = Inr (x, e) \<Longrightarrow> jn_updates (jq_user q) d e"
    by (auto simp: create_tag_group_def create_group_def add_group_def taken_def bind_Inr_eq map_Inr_eq Let_def
        split: if_splits intro!: jn_updates_one jn_update.add_group)
  show "update_tag_group u k n' c d = Inr (y, e') \<Longrightarrow> jn_updates u d e'"
    by (auto simp: update_tag_group_def bind_Inr_eq Let_def update_group_def same_group_def dest!: own_group_Inr
        intro!: jn_updates_one jn_update.put_group)
  show "delete_tag_group u k d = Inr f \<Longrightarrow> jn_updates u d f"
    by (auto simp: delete_tag_group_def map_Inr_eq intro!: jn_updates_one jn_update.drop_group)
qed

lemma updates_tags:
  assumes "journal_ok d"
  shows "create_tag q g n d = Inr (x, e) \<Longrightarrow> jn_updates (jq_user q) d e"
    and "update_tag u k n d = Inr (y, e') \<Longrightarrow> jn_updates u d e'"
    and "delete_tag u k d = Inr f \<Longrightarrow> jn_updates u d f"
proof -
  show "jn_updates (jq_user q) d e" if r: "create_tag q g n d = Inr (x, e)"
  proof -
    obtain gr m where g: "get_group_by_id d g = Some gr" "tg_is_system gr \<or> tg_user_id gr = Some (jq_user q)"
        and c: "repo_create_tag (jq_draw q 0) (jq_now q) (jq_user q) g m d = Inr (x, e)"
      using r by (auto simp: create_tag_def http_raise_def bind_Inr_eq split: option.splits if_splits)
    have "tg_user_id gr = None \<or> tg_user_id gr = Some (jq_user q)"
      using g assms row_get_mem [of tg_id g "hd_groups d" gr] by (auto simp: journal_ok_def groups_ok_def list_all_iff get_group_by_id_def)
    with g(1) c show ?thesis
      by (auto simp: repo_create_tag_def add_tag_def taken_def map_Inr_eq Let_def split: if_splits intro!: jn_updates_one jn_update.add_tag)
  qed
  show "update_tag u k n d = Inr (y, e') \<Longrightarrow> jn_updates u d e'"
    by (auto simp: update_tag_def bind_Inr_eq map_Inr_eq Let_def same_tag_def dest!: own_tag_Inr intro!: jn_updates_one jn_update.put_tag)
  show "delete_tag u k d = Inr f \<Longrightarrow> jn_updates u d f"
    by (auto simp: delete_tag_def map_Inr_eq intro!: jn_updates_one jn_update.drop_tag)
qed

lemma updates_tag_trade: "update_trade_tags env u t ids d = Inr (x, e) \<Longrightarrow> jn_updates u d e"
proof -
  assume r: "update_trade_tags env u t ids d = Inr (x, e)"
  obtain tr us where v: "validate_trade_ownership d u t = Inr tr" and us: "map_result (usable_tag d u) ids = Inr us"
      and rep: "repo_update_trade_tags t ids d = Inr e"
    using r by (auto simp: update_trade_tags_def bind_Inr_eq map_Inr_eq)
  have "trade_tag_fits d (t, k)" if "k \<in> set ids" for k
  proof -
    have "\<exists>v. usable_tag d u k = Inr v" using us that by (induction ids arbitrary: us) (auto simp: bind_Inr_eq map_Inr_eq split: sum.splits)
    then show ?thesis using validated_trade [OF v] by (auto simp: usable_tag_def http_raise_def trade_tag_fits_def split: option.splits if_splits)
  qed
  with rep show ?thesis using validated_trade [OF v]
    by (auto simp: repo_update_trade_tags_def taken_def list_all_iff split: if_splits intro!: jn_updates_one jn_update.tag_trade)
qed

lemma updates_ensure_setup: "ensure_setup k now u n d = Inr (s, e) \<Longrightarrow> name_ok 64 n \<Longrightarrow> jn_updates u d e \<and> hd_core e = hd_core d"
  by (auto simp: ensure_setup_def repo_create_setup_def taken_def Let_def split: option.splits if_splits intro!: jn_updates_one jn_update.add_setup)

lemma updates_setups:
  "create_setup q n d = Inr (x, e) \<Longrightarrow> jn_updates (jq_user q) d e"
  "delete_setup u k d = Inr f \<Longrightarrow> jn_updates u d f"
  "update_trade_setup q t n' d = Inr (y, e') \<Longrightarrow> jn_updates (jq_user q) d e'"
proof -
  show "create_setup q n d = Inr (x, e) \<Longrightarrow> jn_updates (jq_user q) d e"
    by (auto simp: create_setup_def bind_Inr_eq dest!: checked_name_ok dest: updates_ensure_setup)
  show "delete_setup u k d = Inr f \<Longrightarrow> jn_updates u d f"
    by (auto simp: delete_setup_def http_raise_def split: option.splits if_splits intro!: jn_updates_one jn_update.drop_setup)
  assume r: "update_trade_setup q t n' d = Inr (y, e')"
  obtain tr where v: "validate_trade_ownership d (jq_user q) t = Inr tr" using r by (auto simp: update_trade_setup_def bind_Inr_eq)
  have tr: "tr_id tr = t" "trade_user d t = Some (jq_user q)" using validated_trade [OF v] by simp_all
  show "jn_updates (jq_user q) d e'"
  proof (cases "blank_to_none n'")
    case None
    then show ?thesis using r v tr by (auto simp: update_trade_setup_def intro!: jn_updates_one jn_update.set_setup)
  next
    case (Some m)
    then have m: "py_strip m = m" "m \<noteq> []" by (auto simp: blank_to_none_def split: option.splits if_splits)
    obtain s d1 where en: "ensure_setup (jq_draw q 0) (jq_now q) (jq_user q) m d = Inr (s, d1)" and e: "e' = set_trade_setup t (Some m) d1"
        and len: "length m \<le> 64"
      using r v tr Some by (auto simp: update_trade_setup_def map_Inr_eq http_raise_def split: if_splits)
    have "name_ok 64 m" using m len by (simp add: name_ok_def sized_def Suc_le_eq)
    then have d1: "jn_updates (jq_user q) d d1" "hd_core d1 = hd_core d" using updates_ensure_setup [OF en] by simp_all
    have "jn_update (jq_user q) d1 e'" unfolding e using tr core_owners(3) [OF d1(2)] by (intro jn_update.set_setup) simp
    with d1(1) show ?thesis by (rule updates_then)
  qed
qed

text \<open>Every request is made of small updates of the user who sends it.\<close>

lemma journal_run_updates: "journal_ok d \<Longrightarrow> jn_updates (jq_user q) d (journal_run env q c d)"
proof (cases "valid_body c")
  case False
  then show ?thesis by (simp add: journal_run_def)
next
  case True
  assume ok: "journal_ok d"
  have "jn_updates (jq_user q) d (journal_handle env q c d)"
  proof (cases c)
    case (Open_trade_journal t)
    then show ?thesis using ok by (simp add: journal_handle_def updates_open_request)
  next
    case (Post_trade_message t ty s)
    then show ?thesis using ok by (simp add: journal_handle_def updates_trade_message)
  next
    case (Review_trade t)
    then show ?thesis using ok by (simp add: journal_handle_def updates_review)
  next
    case (Open_day a day)
    then show ?thesis using ok by (auto simp: journal_handle_def map_Inr_eq intro!: or_db_cases dest: updates_open_day(1))
  next
    case (Save_day_note a day n)
    then show ?thesis using ok by (auto simp: journal_handle_def map_Inr_eq intro!: or_db_cases dest: updates_day_note)
  next
    case (Post_day_message k ty s)
    then show ?thesis using ok by (simp add: journal_handle_def updates_day_message)
  next
    case (Review_day k)
    then show ?thesis using ok by (auto simp: journal_handle_def map_Inr_eq intro!: or_db_cases dest: updates_review_day)
  next
    case (Edit_message k s)
    then show ?thesis by (simp add: journal_handle_def updates_edit)
  next
    case (Delete_message k)
    then show ?thesis by (auto simp: journal_handle_def intro!: or_db_cases dest: updates_delete_message)
  next
    case (Rate_trade t n)
    then show ?thesis using ok True by (auto simp: journal_handle_def valid_body_def map_Inr_eq intro!: or_db_cases dest: updates_entry_requests(1))
  next
    case (Assess_trade t ex su di)
    then show ?thesis using True by (auto simp: journal_handle_def valid_body_def map_Inr_eq intro!: or_db_cases elim!: updates_entry_requests(2) [OF ok, rotated])
  next
    case (Open_trade_note t)
    then show ?thesis by (auto simp: journal_handle_def map_Inr_eq intro!: or_db_cases dest: updates_entry_requests(4) [OF ok])
  next
    case (Save_trade_note t n)
    then show ?thesis by (auto simp: journal_handle_def map_Inr_eq intro!: or_db_cases dest: updates_entry_requests(3) [OF ok])
  next
    case (Tag_trade t ids)
    then show ?thesis by (auto simp: journal_handle_def map_Inr_eq intro!: or_db_cases dest: updates_tag_trade)
  qed (auto simp: journal_handle_def map_Inr_eq intro!: or_db_cases jn_update.order_groups [THEN jn_updates_one] jn_update.order_tags [THEN jn_updates_one]
      jn_update.order_setups [THEN jn_updates_one] dest: updates_templates updates_groups updates_tags [OF ok] updates_setups)
  with True show ?thesis by (simp add: journal_run_def)
qed

end
