(* ===== verification/Journal_Invariant.thy ===== *)
theory Journal_Invariant
  imports Journal_Requests
begin

text \<open>
  Every step of the journal keeps the invariant of its tables: a request by the small updates it is made of, the
  seeding of the rows of the system, and a change of the accounts with the deletion of what belongs to an account
  or a trade that is gone.
\<close>

section \<open>Seeding\<close>

text \<open>The rows of the system belong to no user.\<close>

inductive system_update :: "journal_db \<Rightarrow> journal_db \<Rightarrow> bool" where
  template: "jt_is_system t \<Longrightarrow> jt_owner_id t = None \<Longrightarrow> row_get jt_id (jt_id t) (hd_templates d) = None \<Longrightarrow>
    system_update d (d \<lparr>hd_templates := hd_templates d @ [t]\<rparr>)"
| group: "tg_is_system g \<Longrightarrow> tg_user_id g = None \<Longrightarrow> get_group_by_id d (tg_id g) = None \<Longrightarrow> system_update d (d \<lparr>hd_groups := hd_groups d @ [g]\<rparr>)"
| tag: "tag_is_system t \<Longrightarrow> tag_user_id t = None \<Longrightarrow> get_tag_by_id d (tag_id t) = None \<Longrightarrow> group_user d (tag_group_id t) = Some None \<Longrightarrow>
    system_update d (d \<lparr>hd_tags := hd_tags d @ [t]\<rparr>)"

lemma other_tables [simp]:
  "days_ok (hd_templates_update f d) = days_ok d" "entries_ok (hd_templates_update f d) = entries_ok d"
  "messages_ok (hd_templates_update f d) = messages_ok d" "days_ok (hd_groups_update f' d) = days_ok d"
  "entries_ok (hd_groups_update f' d) = entries_ok d" "messages_ok (hd_groups_update f' d) = messages_ok d"
  "days_ok (hd_tags_update f'' d) = days_ok d" "entries_ok (hd_tags_update f'' d) = entries_ok d"
  "messages_ok (hd_tags_update f'' d) = messages_ok d"
  by (simp_all add: days_ok_def entries_ok_def messages_ok_def list_all_iff entry_fits_def message_fits_def message_user_def message_account_def
      cong: option.case_cong)

lemma user_frame [simp]:
  "trade_user (hd_templates_update f d) = trade_user d" "trade_user (hd_groups_update g d) = trade_user d" "trade_user (hd_tags_update h d) = trade_user d"
  by (rule users_frame; simp)+

lemma message_user_frame [simp]:
  "message_user (hd_templates_update f d) = message_user d" "message_user (hd_groups_update g d) = message_user d" "message_user (hd_tags_update h d) = message_user d"
  by (rule ext, simp add: message_user_def message_account_def cong: option.case_cong)+

lemma system_update_ok: "system_update d e \<Longrightarrow> journal_ok d \<Longrightarrow> journal_ok e"
proof (induction rule: system_update.induct)
  case (template t d)
  then show ?case
    by (auto simp: journal_ok_def templates_ok_def row_get_None attachments_ok_def groups_ok_def tags_ok_def trade_tags_ok_def setups_ok_def
        list_all_iff tag_fits_def trade_tag_fits_def cong: option.case_cong)
next
  case (group g d)
  let ?e = "d \<lparr>hd_groups := hd_groups d @ [g]\<rparr>"
  have "tags_ok ?e" using group(4) group_user_append [of d _ _ g] by (auto simp: journal_ok_def tags_ok_def list_all_iff tag_fits_alt)
  with group show ?case
    by (auto simp: journal_ok_def templates_ok_def groups_ok_def row_get_None get_group_by_id_def attachments_ok_def trade_tags_ok_def setups_ok_def
        list_all_iff trade_tag_fits_def cong: option.case_cong)
next
  case (tag t d)
  let ?e = "d \<lparr>hd_tags := hd_tags d @ [t]\<rparr>"
  have "group_user ?e = group_user d" by (rule group_user_same) simp
  then have "tags_ok ?e" using tag by (auto simp: journal_ok_def tags_ok_def list_all_iff tag_fits_alt get_tag_by_id_def row_get_None)
  moreover have "trade_tags_ok ?e" using tag(5) tag_user_append [of d _ _ t] by (auto simp: journal_ok_def trade_tags_ok_def list_all_iff trade_tag_fits_alt)
  ultimately show ?case using tag
    by (auto simp: journal_ok_def templates_ok_def groups_ok_def attachments_ok_def setups_ok_def list_all_iff)
qed

lemma system_updates_ok: "system_update\<^sup>*\<^sup>* d e \<Longrightarrow> journal_ok d \<Longrightarrow> journal_ok e"
  by (induction rule: rtranclp_induct) (auto intro: system_update_ok)

lemma seed_templates_updates: "system_update\<^sup>*\<^sup>* d (snd (seed_system_templates now d))"
proof -
  have add: "system_update\<^sup>*\<^sup>* d (d \<lparr>hd_templates := hd_templates d @ ts\<rparr>)"
    if "list_all (\<lambda>t. jt_is_system t \<and> jt_owner_id t = None \<and> row_get jt_id (jt_id t) (hd_templates d) = None) ts" "distinct (map jt_id ts)" for ts
    using that
  proof (induction ts rule: rev_induct)
    case (snoc t ts)
    let ?e = "d \<lparr>hd_templates := hd_templates d @ ts\<rparr>"
    have "system_update ?e (?e \<lparr>hd_templates := hd_templates ?e @ [t]\<rparr>)"
      using snoc.prems by (intro system_update.template) (auto simp: row_get_None)
    with snoc show ?case by (auto intro: rtranclp.rtrancl_into_rtrancl)
  qed simp
  have "list_all (\<lambda>t. jt_is_system t \<and> jt_owner_id t = None) (system_templates now)" by (simp add: system_templates_def)
  moreover have "distinct (map jt_id (system_templates now))"
    by (simp add: system_templates_def daily_reflection_template_id_def post_trade_review_template_id_def)
  ultimately show ?thesis by (auto simp: seed_system_templates_def Let_def list_all_iff distinct_map_filter intro!: add)
qed

lemma seed_tag_updates:
  assumes "seed_tag draw now g p ((m, n), d) = Inr (x, e)" "group_user d g = Some None"
  shows "system_update\<^sup>*\<^sup>* d e" "group_user e g = Some None"
proof -
  obtain pos name where p: "p = (pos, name)" by (cases p)
  let ?t = "\<lparr>tag_id = draw (m + n), tag_group_id = g, tag_user_id = None, tag_name = name, tag_position = int pos,
    tag_is_system = True, tag_created_at = now\<rparr>"
  have "e = d \<or> add_tag ?t d = Inr e"
    using assms(1) by (auto simp: seed_tag_def p Let_def bind_Inr_eq map_Inr_eq split: option.splits)
  then have "e = d \<or> (\<exists>t. tag_is_system t \<and> tag_user_id t = None \<and> tag_group_id t = g \<and> add_tag t d = Inr e)"
    by (rule disj_forward) (auto intro!: exI [of _ ?t])
  then have r: "e = d \<or> (\<exists>t. tag_is_system t \<and> tag_user_id t = None \<and> tag_group_id t = g \<and> get_tag_by_id d (tag_id t) = None
      \<and> e = d \<lparr>hd_tags := hd_tags d @ [t]\<rparr>)"
    by (auto simp: add_tag_def taken_def split: if_splits)
  then show "system_update\<^sup>*\<^sup>* d e" using assms(2) by (elim disjE) (auto intro!: r_into_rtranclp [of system_update] system_update.tag)
  have "group_user e = group_user d" using r by (intro group_user_same) auto
  with assms(2) show "group_user e g = Some None" by simp
qed

lemma seed_tags_updates: "seed_tags draw now g ps ((m, n), d) = Inr (x, e) \<Longrightarrow> group_user d g = Some None \<Longrightarrow> system_update\<^sup>*\<^sup>* d e"
proof (induction ps arbitrary: m n d)
  case (Cons p ps)
  obtain m' n' d' where t: "seed_tag draw now g p ((m, n), d) = Inr ((m', n'), d')" and r: "seed_tags draw now g ps ((m', n'), d') = Inr (x, e)"
    using Cons.prems(1) by (auto simp: bind_Inr_eq)
  note s = seed_tag_updates [OF t Cons.prems(2)]
  show ?case using s(1) Cons.IH [OF r s(2)] by (rule rtranclp_trans)
qed simp

lemma seed_groups_updates: "seed_groups draw now gs ((m, n), d) = Inr (x, e) \<Longrightarrow> journal_ok d \<Longrightarrow> system_update\<^sup>*\<^sup>* d e"
proof (induction gs arbitrary: m n d)
  case (Cons a gs)
  obtain pos name color tags where a: "a = (pos, name, color, tags)" by (cases a)
  obtain old g m1 n1 d1 m2 n2 d2
    where old: "scalar_one_or_none (filter (\<lambda>g. tg_name g = name \<and> tg_is_system g) (hd_groups d)) = Inr old"
      and g: "(case old of Some g \<Rightarrow> Inr (tg_id g, (m, n), d)
       | None \<Rightarrow> map_Inr (\<lambda>d1. (draw (m + n), (m + 1, n), d1)) (add_group \<lparr>tg_id = draw (m + n), tg_user_id = None, tg_name = name,
           tg_color = Some color, tg_position = int pos, tg_is_system = True, tg_created_at = now\<rparr> d)) = Inr (g, (m1, n1), d1)"
      and ts: "seed_tags draw now g (enumerate 0 tags) ((m1, n1), d1) = Inr ((m2, n2), d2)"
      and rest: "seed_groups draw now gs ((m2, n2), d2) = Inr (x, e)"
    using Cons.prems(1) by (auto simp: a bind_Inr_eq)
  have d1: "system_update\<^sup>*\<^sup>* d d1 \<and> group_user d1 g = Some None"
  proof (cases old)
    case (Some h)
    then have h: "h \<in> set (hd_groups d)" "tg_is_system h" using old
      by (auto simp: scalar_one_or_none_def split: list.splits dest!: arg_cong [where f = set])
    then have "get_group_by_id d (tg_id h) = Some h" "tg_user_id h = None"
      using Cons.prems(2) by (auto simp: journal_ok_def groups_ok_def get_group_by_id_def row_get_in list_all_iff)
    then show ?thesis using g Some by (auto simp: group_user_def)
  next
    case None
    let ?g = "\<lparr>tg_id = draw (m + n), tg_user_id = None, tg_name = name, tg_color = Some color, tg_position = int pos, tg_is_system = True, tg_created_at = now\<rparr>"
    have gd: "get_group_by_id d g = None" "g = draw (m + n)" "d1 = d \<lparr>hd_groups := hd_groups d @ [?g]\<rparr>"
      using g None by (auto simp: map_Inr_eq add_group_def taken_def split: if_splits)
    have "system_update d (d \<lparr>hd_groups := hd_groups d @ [?g]\<rparr>)" using gd(1,2) by (intro system_update.group) simp_all
    moreover have "group_user d1 g = Some None" using gd by (simp add: group_user_def get_group_by_id_def)
    ultimately show ?thesis using gd(3) by auto
  qed
  have d2: "system_update\<^sup>*\<^sup>* d1 d2" using seed_tags_updates [OF ts] d1 by blast
  have "system_update\<^sup>*\<^sup>* d d2" using d1 d2 by (blast intro: rtranclp_trans)
  with Cons.IH [OF rest] Cons.prems(2) show ?case by (blast intro: rtranclp_trans system_updates_ok)
qed simp

lemma seed_system_tags_updates: "seed_system_tags draw now d = Inr (x, e) \<Longrightarrow> journal_ok d \<Longrightarrow> system_update\<^sup>*\<^sup>* d e"
  unfolding seed_system_tags_def by (rule seed_groups_updates)

section \<open>What goes with an account or a trade\<close>

lemma trade_known:
  assumes "acc_ok (hd_core d)" "trade_account d t = Some a"
  shows "\<exists>v. account_user d a = Some v"
proof -
  obtain x where "x \<in> set (kd_trades (hd_core d))" "tr_account_id x = a"
    using assms(2) by (auto simp: trade_account_def dest: row_get_mem)
  then have "a \<in> account_ids (hd_core d)" using assms(1) by (auto simp: acc_ok_def trades_ok_def list_all_iff trade_fits_def)
  then obtain y where "y \<in> set (kd_accounts (hd_core d))" "ta_id y = a" by (auto simp: account_ids_def)
  then show ?thesis using row_get_in [of ta_id "kd_accounts (hd_core d)" y] assms(1)
    by (auto simp: account_user_def acc_ok_def account_rows_ok_def)
qed

lemma identities:
  assumes "identities_kept (hd_core d) (hd_core e)"
  shows "account_user d a = Some u \<Longrightarrow> account_user e a = Some v \<Longrightarrow> v = u"
    and "trade_account d t = Some a \<Longrightarrow> trade_account e t = Some b \<Longrightarrow> b = a"
  using assms by (auto simp: identities_kept_def account_user_def trade_account_def dest!: row_get_mem)

lemma purged_core [simp]: "hd_core (purged d) = hd_core d" "hd_templates (purged d) = hd_templates d" "hd_groups (purged d) = hd_groups d"
  "hd_tags (purged d) = hd_tags d" "hd_setups (purged d) = hd_setups d"
  by (simp_all add: purged_def Let_def)

lemma purged_tables:
  "hd_days (purged d) = filter (\<lambda>j. dj_account_id j \<in> account_ids (hd_core d)) (hd_days d)"
  "hd_entries (purged d) = map (\<lambda>j. case tj_daily_journal_id j of None \<Rightarrow> j
     | Some k \<Rightarrow> if k \<in> dj_id ` set (hd_days (purged d)) then j else j \<lparr>tj_daily_journal_id := None\<rparr>)
       (filter (\<lambda>j. tj_trade_id j \<in> tr_id ` set (kd_trades (hd_core d))) (hd_entries d))"
  "hd_messages (purged d) = filter (\<lambda>m. (case jm_daily_journal_id m of None \<Rightarrow> True | Some k \<Rightarrow> k \<in> dj_id ` set (hd_days (purged d)))
     \<and> (case jm_trade_journal_id m of None \<Rightarrow> True | Some k \<Rightarrow> k \<in> tj_id ` set (hd_entries (purged d)))) (hd_messages d)"
  "hd_attachments (purged d) = filter (\<lambda>x. ja_message_id x \<in> jm_id ` set (hd_messages (purged d))) (hd_attachments d)"
  "hd_trade_tags (purged d) = filter (\<lambda>p. fst p \<in> tr_id ` set (kd_trades (hd_core d))) (hd_trade_tags d)"
  by (simp_all add: purged_def Let_def account_ids_def case_prod_beta' cong: option.case_cong)

lemma known_user: "a \<in> account_ids (hd_core e) \<Longrightarrow> \<exists>v. account_user e a = Some v"
proof -
  assume "a \<in> account_ids (hd_core e)"
  then have "row_get ta_id a (kd_accounts (hd_core e)) \<noteq> None" by (auto simp: account_ids_def row_get_None)
  then show ?thesis by (auto simp: account_user_def)
qed

lemma known_trade: "t \<in> tr_id ` set (kd_trades (hd_core e)) \<Longrightarrow> \<exists>a. trade_account e t = Some a"
proof -
  assume "t \<in> tr_id ` set (kd_trades (hd_core e))"
  then have "row_get tr_id t (kd_trades (hd_core e)) \<noteq> None" by (auto simp: row_get_None)
  then show ?thesis by (auto simp: trade_account_def)
qed

text \<open>Deleting what belongs to accounts and trades that are gone keeps the invariant.\<close>

lemma purged_ok:
  assumes ok: "journal_ok d" and core: "acc_ok c" and kept: "identities_kept (hd_core d) c"
  shows "journal_ok (purged (d \<lparr>hd_core := c\<rparr>))"
proof -
  define e where "e = d \<lparr>hd_core := c\<rparr>"
  define p where "p = purged e"
  have e: "hd_core e = c" "hd_days e = hd_days d" "hd_entries e = hd_entries d" "hd_messages e = hd_messages d"
    "hd_attachments e = hd_attachments d" "hd_trade_tags e = hd_trade_tags d" by (simp_all add: e_def)
  have pc: "hd_core p = c" by (simp add: p_def e)
  note same = identities [of d p, unfolded pc, OF kept]
  note tables = purged_tables [of e, folded p_def, unfolded e]
  have days: "days_ok p"
    using ok known_user [of _ p] by (auto simp: journal_ok_def days_ok_def tables(1) pc distinct_map_filter list_all_iff)
  have day: "day_account p k = Some a" if k: "k \<in> dj_id ` set (hd_days p)" and a: "day_account d k = Some a" for k a
  proof -
    obtain j where j: "j \<in> set (hd_days p)" "dj_id j = k" using k by auto
    then have "row_get dj_id k (hd_days p) = Some j" "row_get dj_id k (hd_days d) = Some j"
      using days ok row_get_in [of dj_id "hd_days p" j] row_get_in [of dj_id "hd_days d" j] by (auto simp: days_ok_def journal_ok_def tables(1))
    with a show ?thesis by (simp add: day_account_def)
  qed
  have ids: "map tj_id (hd_entries p) = map tj_id (filter (\<lambda>j. tj_trade_id j \<in> tr_id ` set (kd_trades c)) (hd_entries d))"
    "map tj_trade_id (hd_entries p) = map tj_trade_id (filter (\<lambda>j. tj_trade_id j \<in> tr_id ` set (kd_trades c)) (hd_entries d))"
    unfolding tables(2) by (simp_all split: option.split)
  have entries: "entries_ok p"
    unfolding entries_ok_def ids list_all_iff
  proof (intro conjI ballI)
    fix i assume "i \<in> set (hd_entries p)"
    then obtain j where j: "j \<in> set (hd_entries d)" "tj_trade_id j \<in> tr_id ` set (kd_trades c)"
        and i: "i = (case tj_daily_journal_id j of None \<Rightarrow> j
          | Some k \<Rightarrow> if k \<in> dj_id ` set (hd_days p) then j else j \<lparr>tj_daily_journal_id := None\<rparr>)" unfolding tables(2) by auto
    obtain a where a: "trade_account p (tj_trade_id j) = Some a" using known_trade [of _ p, unfolded pc] j(2) by blast
    have fits: "entry_fits d j" using ok j(1) by (simp add: journal_ok_def entries_ok_def list_all_iff)
    then obtain b where b: "trade_account d (tj_trade_id j) = Some b" by (auto simp: entry_fits_def)
    have ab: "a = b" using same(2) [OF b a] .
    have "day_account p k = Some a" if "tj_daily_journal_id j = Some k" "k \<in> dj_id ` set (hd_days p)" for k
      using day [OF that(2)] fits that b ab by (auto simp: entry_fits_def)
    then show "entry_fits p i" using fits a by (auto simp: i entry_fits_def scores_ok_def split: option.split)
  qed (use ok in \<open>simp_all add: journal_ok_def entries_ok_def distinct_map_filter\<close>)
  have entry: "entry_account p k = entry_account d k \<and> entry_account d k \<noteq> None" if k: "k \<in> tj_id ` set (hd_entries p)" for k
  proof -
    obtain i where i: "i \<in> set (hd_entries p)" "tj_id i = k" using k by auto
    then obtain j where j: "j \<in> set (hd_entries d)" "tj_id j = k" "tj_trade_id j = tj_trade_id i" unfolding tables(2) by (auto split: option.splits if_splits)
    have "entry_account p k = trade_account p (tj_trade_id i)" using entries i by (auto simp: entry_account_def entries_ok_def row_get_in)
    moreover have "entry_account d k = trade_account d (tj_trade_id j)"
      using ok j row_get_in [of tj_id "hd_entries d" j] by (auto simp: entry_account_def entries_ok_def journal_ok_def)
    moreover obtain a where a: "trade_account p (tj_trade_id i) = Some a" using entries i(1) by (auto simp: entries_ok_def list_all_iff entry_fits_def)
    moreover obtain b where b: "trade_account d (tj_trade_id j) = Some b" using ok j(1) by (auto simp: journal_ok_def entries_ok_def list_all_iff entry_fits_def)
    ultimately show ?thesis using same(2) [of "tj_trade_id i" b a] j(3) by simp
  qed
  have users: "account_user p a = account_user d a" if "\<exists>v. account_user p a = Some v" "\<exists>u. account_user d a = Some u" for a
    using that same(1) by fastforce
  have msgs: "messages_ok p"
    unfolding messages_ok_def list_all_iff
  proof (intro conjI ballI)
    show "distinct (map jm_id (hd_messages p))" using ok by (simp add: tables(3) journal_ok_def messages_ok_def distinct_map_filter)
    fix m assume m: "m \<in> set (hd_messages p)"
    then have fits: "message_fits d m" using ok by (auto simp: tables(3) journal_ok_def messages_ok_def list_all_iff)
    then obtain a where a: "message_account d m = Some a" by (auto simp: message_fits_def)
    have "message_account p m = Some a \<and> (\<exists>v. account_user p a = Some v)"
    proof (cases "jm_daily_journal_id m")
      case (Some k)
      then have k: "k \<in> dj_id ` set (hd_days p)" using m by (simp add: tables(3))
      then have "day_account p k = Some a" using day a Some by (simp add: message_account_def)
      moreover have "a \<in> account_ids c" using \<open>day_account p k = Some a\<close> by (auto simp: day_account_def tables(1) dest: row_get_mem)
      ultimately show ?thesis using Some known_user [of a p] pc by (simp add: message_account_def)
    next
      case None
      then obtain k where jm: "jm_trade_journal_id m = Some k" using fits by (auto simp: message_fits_def one_context_def)
      then have "k \<in> tj_id ` set (hd_entries p)" using m by (simp add: tables(3))
      then have "entry_account p k = Some a" using entry a None jm by (simp add: message_account_def)
      moreover from this obtain t where "trade_account p t = Some a" by (auto simp: entry_account_def bind_eq_Some_conv)
      ultimately show ?thesis using None jm trade_known [of p] core pc by (auto simp: message_account_def)
    qed
    moreover have "\<exists>u. account_user d a = Some u"
    proof (cases "jm_daily_journal_id m")
      case (Some k)
      then obtain j where "j \<in> set (hd_days d)" "dj_account_id j = a" using a by (auto simp: message_account_def day_account_def dest: row_get_mem)
      then show ?thesis using ok by (auto simp: journal_ok_def days_ok_def list_all_iff)
    next
      case None
      then obtain t where "trade_account d t = Some a" using a by (auto simp: message_account_def entry_account_def bind_eq_Some_conv)
      then show ?thesis using trade_known [of d] ok by (auto simp: journal_ok_def)
    qed
    ultimately have "message_account p m = Some a" "account_user p a = account_user d a" using users by blast+
    with fits a show "message_fits p m" by (simp add: message_fits_def message_user_def)
  qed
  have tu: "tag_user p = tag_user d" by (rule tag_user_same) (simp add: p_def e_def)
  have gu: "group_user p = group_user d" by (rule group_user_same) (simp add: p_def e_def)
  have tt: "trade_tags_ok p"
    unfolding trade_tags_ok_def list_all_iff
  proof (intro conjI ballI)
    fix x assume "x \<in> set (hd_trade_tags p)"
    then have x: "x \<in> set (hd_trade_tags d)" "fst x \<in> tr_id ` set (kd_trades c)" by (auto simp: tables(5))
    then have fits: "trade_tag_fits d x" using ok by (auto simp: journal_ok_def trade_tags_ok_def list_all_iff)
    then obtain b where b: "trade_account d (fst x) = Some b" "\<exists>u. account_user d b = Some u" by (auto simp: trade_tag_fits_def trade_user_def bind_eq_Some_conv)
    obtain a where a: "trade_account p (fst x) = Some a" using known_trade [of _ p, unfolded pc] x(2) by blast
    have "a = b" using same(2) [OF b(1) a] .
    moreover have "\<exists>v. account_user p a = Some v" using trade_known [OF _ a] core pc by simp
    ultimately have "trade_user p (fst x) = trade_user d (fst x)" using a b users by (simp add: trade_user_def)
    with fits show "trade_tag_fits p x" by (simp add: trade_tag_fits_alt tu)
  qed (use ok in \<open>simp add: tables(5) journal_ok_def trade_tags_ok_def\<close>)
  have "hd_tags p = hd_tags d" "hd_groups p = hd_groups d" "hd_templates p = hd_templates d" "hd_setups p = hd_setups d" by (simp_all add: p_def e_def)
  moreover have "attachments_ok p" using ok by (auto simp: journal_ok_def attachments_ok_def tables(4) distinct_map_filter list_all_iff)
  ultimately have "journal_ok p" using ok core pc days entries msgs tt gu
    by (simp add: journal_ok_def templates_ok_def groups_ok_def tags_ok_def setups_ok_def list_all_iff tag_fits_alt)
  then show ?thesis by (simp add: p_def e_def)
qed

section \<open>Every step keeps the invariant\<close>

lemma journal_step_ok: "journal_step env ie w w' \<Longrightarrow> journal_ok (jw_db w) \<Longrightarrow> journal_ok (jw_db w')"
proof (induction rule: journal_step.induct)
  case (request w q c)
  then show ?case using updates_ok [OF journal_run_updates] by simp
next
  case (templates w now)
  then show ?case using system_updates_ok [OF seed_templates_updates] by simp
next
  case (tags draw now w n d)
  then show ?case using system_updates_ok [OF seed_system_tags_updates] by simp
next
  case (accounts w q c)
  define a where "a = account_run (ne_acc env) ie q c \<lparr>aw_db = hd_core (jw_db w), aw_queue = jw_queue w\<rparr>"
  have "acc_ok (aw_db a)" unfolding a_def using accounts(2)
    by (intro acc_updates_ok [OF account_run_updates]) (simp_all add: journal_ok_def)
  moreover have "identities_kept (hd_core (jw_db w)) (aw_db a)"
    using accounts(1) by (simp add: account_effect_def Let_def a_def)
  ultimately show ?case using purged_ok [OF accounts(2)] by (simp add: account_effect_def Let_def a_def)
qed

interpretation journals: invariant_system "\<lambda>w. journal_ok (jw_db w)" "journal_step env ie" "\<lambda>w. journal_ok (jw_db w)"
  for env ie by unfold_locales (auto intro: journal_step_ok)

end
