(* ===== verification/Floats.thy ===== *)
theory Floats
  imports Prelude
begin

text \<open>
  The numbers Python's \<^verbatim>\<open>float\<close> holds: rationals of 53 significant binary digits, and its division, product and sum,
  each the nearest such number to the exact result, ties to the even. Overflow to infinity and the loss of digits
  next to zero are not modelled, so a float here is a rational. \<^verbatim>\<open>Decimal\<close> arithmetic rounds to 28 decimal digits.
\<close>

section \<open>Rounding to a float\<close>

text \<open>The exponent of the leading binary digit, from the digits of the numerator and the denominator.\<close>

definition float_lead :: "rat \<Rightarrow> int" where
  "float_lead x =
     (let (p, q) = quotient_of \<bar>x\<bar>; k = int (floorlog 2 (nat p)) - int (floorlog 2 (nat q)) in
      if \<bar>x\<bar> \<ge> 2 powi k then k else k - 1)"

definition to_float :: "rat \<Rightarrow> rat" where
  "to_float x = (if x = 0 then 0 else let u = 2 powi (float_lead x - 52) in of_int (round_half_even (x / u)) * u)"

definition float_add :: "rat \<Rightarrow> rat \<Rightarrow> rat" where
  "float_add x y = to_float (x + y)"

definition float_mul :: "rat \<Rightarrow> rat \<Rightarrow> rat" where
  "float_mul x y = to_float (x * y)"

definition float_div :: "rat \<Rightarrow> rat \<Rightarrow> rat" where
  "float_div x y = to_float (x / y)"

text \<open>\<^verbatim>\<open>m / n\<close> on integers is the float nearest to the quotient.\<close>

definition int_div :: "int \<Rightarrow> int \<Rightarrow> rat" where
  "int_div m n = to_float (of_int m / of_int n)"

text \<open>\<^verbatim>\<open>a / b * 100\<close> on counts.\<close>

definition percent_of :: "nat \<Rightarrow> nat \<Rightarrow> rat" where
  "percent_of a b = float_mul (int_div (int a) (int b)) 100"

lemma to_float_0 [simp]: "to_float 0 = 0"
  by (simp add: to_float_def)

section \<open>Decimals\<close>

definition dec_add :: "rat \<Rightarrow> rat \<Rightarrow> rat" where
  "dec_add x y = dec_round (x + y)"

definition dec_sub :: "rat \<Rightarrow> rat \<Rightarrow> rat" where
  "dec_sub x y = dec_round (x - y)"

definition dec_mul :: "rat \<Rightarrow> rat \<Rightarrow> rat" where
  "dec_mul x y = dec_round (x * y)"

text \<open>\<^verbatim>\<open>sum(xs, Decimal("0"))\<close>.\<close>

definition dec_sum :: "rat list \<Rightarrow> rat" where
  "dec_sum xs = fold (\<lambda>x s. dec_add s x) xs 0"

end
