(* ===== verification/Journal_Views.thy ===== *)
theory Journal_Views
  imports Journal_Service Floats
begin

text \<open>
  What the journal shows of trades and days: the windows of \<^verbatim>\<open>journal/service/_helpers.py\<close>, the queries of
  \<^verbatim>\<open>accounts/repository.py\<close> and \<^verbatim>\<open>journal/repository.py\<close> on trades and snapshots, the list of trades of \<^verbatim>\<open>_trades.py\<close>,
  and the page of a day of \<^verbatim>\<open>_journals.py\<close>. A local datetime is what the clock on the wall shows; a sum the data
  base computes is exact, one Python computes rounds at every step.
\<close>

section \<open>Windows\<close>

definition to_account_local_datetime :: "jn_env \<Rightarrow> int \<Rightarrow> string \<Rightarrow> int" where
  "to_account_local_datetime env t zone = ne_wall env zone t"

definition local_date_to_utc_range :: "jn_env \<Rightarrow> int \<Rightarrow> string \<Rightarrow> int \<times> int" where
  "local_date_to_utc_range env day zone = (ne_midnight env zone day, ne_midnight env zone (day + 1))"

definition resolve_date_window :: "jn_env \<Rightarrow> int option \<Rightarrow> int option \<Rightarrow> string \<Rightarrow> int option \<times> int option" where
  "resolve_date_window env from until zone = (map_option (\<lambda>d. fst (local_date_to_utc_range env d zone)) from,
     map_option (\<lambda>d. snd (local_date_to_utc_range env d zone)) until)"

definition resolve_multi_account_date_window :: "int option \<Rightarrow> int option \<Rightarrow> int option \<times> int option" where
  "resolve_multi_account_date_window from until = (map_option (\<lambda>d. seconds (86400 * d)) from, map_option (\<lambda>d. seconds (86400 * (d + 1))) until)"

definition in_window :: "int option \<times> int option \<Rightarrow> trade \<Rightarrow> bool" where
  "in_window w t \<longleftrightarrow> (case fst w of None \<Rightarrow> True | Some s \<Rightarrow> s \<le> tr_closed_at t) \<and> (case snd w of None \<Rightarrow> True | Some e \<Rightarrow> tr_closed_at t < e)"

section \<open>Queries\<close>

definition list_trade_rows_for_analytics :: "journal_db \<Rightarrow> uuid list \<Rightarrow> int option \<times> int option \<Rightarrow> trade list" where
  "list_trade_rows_for_analytics d ids w = oldest_first tr_closed_at tr_id
     (filter (\<lambda>t. tr_account_id t \<in> set ids \<and> in_window w t) (kd_trades (hd_core d)))"

definition list_recent_trades_for_dashboard :: "journal_db \<Rightarrow> uuid list \<Rightarrow> int option \<times> int option \<Rightarrow> nat \<Rightarrow> trade list" where
  "list_recent_trades_for_dashboard d ids w limit = take limit (newest_first tr_closed_at tr_id
     (filter (\<lambda>t. tr_account_id t \<in> set ids \<and> in_window w t) (kd_trades (hd_core d))))"

record trade_filter =
  tf_symbol :: "string option"
  tf_direction :: "trade_direction option"
  tf_session :: "trade_session option"

definition asked :: "trade_filter \<Rightarrow> trade \<Rightarrow> bool" where
  "asked f t \<longleftrightarrow> (case tf_symbol f of None \<Rightarrow> True | Some s \<Rightarrow> s = [] \<or> tr_symbol t = s)
     \<and> (case tf_direction f of None \<Rightarrow> True | Some x \<Rightarrow> tr_direction t = x)
     \<and> (case tf_session f of None \<Rightarrow> True | Some x \<Rightarrow> tr_session t = x)"

definition list_trades_by_account :: "journal_db \<Rightarrow> uuid \<Rightarrow> int option \<times> int option \<Rightarrow> trade_filter \<Rightarrow> nat \<Rightarrow> uuid option \<Rightarrow> trade list" where
  "list_trades_by_account d a w f limit cursor = (
     let c = (case cursor of None \<Rightarrow> None
       | Some k \<Rightarrow> map_option (\<lambda>t. (tr_closed_at t, tr_id t)) (find (\<lambda>t. tr_id t = k \<and> tr_account_id t = a) (kd_trades (hd_core d)))) in
     take limit (newest_first tr_closed_at tr_id
       (filter (\<lambda>t. tr_account_id t = a \<and> in_window w t \<and> asked f t \<and> after_cursor tr_closed_at tr_id c t) (kd_trades (hd_core d)))))"

definition list_trades_by_account_local_date :: "jn_env \<Rightarrow> journal_db \<Rightarrow> uuid \<Rightarrow> int \<Rightarrow> string \<Rightarrow> trade list" where
  "list_trades_by_account_local_date env d a day zone = oldest_first tr_closed_at tr_id
     (filter (\<lambda>t. tr_account_id t = a \<and> ve_local_date (ne_acc env) zone (tr_closed_at t) = day) (kd_trades (hd_core d)))"

definition sum_trade_net_profit :: "journal_db \<Rightarrow> uuid \<Rightarrow> int option \<Rightarrow> rat" where
  "sum_trade_net_profit d a until = sum_list (map tr_net_profit
     (filter (\<lambda>t. tr_account_id t = a \<and> in_window (None, until) t) (kd_trades (hd_core d))))"

definition get_latest_snapshot_on_or_before_date :: "journal_db \<Rightarrow> uuid \<Rightarrow> int \<Rightarrow> account_snapshot option" where
  "get_latest_snapshot_on_or_before_date d a day = (
     case sorted_by_desc sn_date (filter (\<lambda>s. sn_account_id s = a \<and> sn_date s \<le> day) (kd_snapshots (hd_core d))) of
       [] \<Rightarrow> None | s # _ \<Rightarrow> Some s)"

definition get_earliest_snapshot :: "journal_db \<Rightarrow> uuid \<Rightarrow> account_snapshot option" where
  "get_earliest_snapshot d a = (case sorted_by sn_date (filter (\<lambda>s. sn_account_id s = a) (kd_snapshots (hd_core d))) of
     [] \<Rightarrow> None | s # _ \<Rightarrow> Some s)"

text \<open>The balance the account had before any trade that is recorded.\<close>

definition estimate_starting_balance :: "journal_db \<Rightarrow> trading_account \<Rightarrow> rat" where
  "estimate_starting_balance d a = (
     if ta_import_method a = Import_csv_upload
     then (case get_earliest_snapshot d (ta_id a) of None \<Rightarrow> 0 | Some s \<Rightarrow> sn_balance s)
     else case get_latest_account_snapshot (hd_core d) (ta_id a) of None \<Rightarrow> 0
     | Some s \<Rightarrow> dec_sub (sn_balance s) (sum_trade_net_profit d (ta_id a) None))"

definition resolve_day_balances :: "journal_db \<Rightarrow> uuid \<Rightarrow> int \<Rightarrow> rat option \<times> rat option" where
  "resolve_day_balances d a day = (map_option sn_balance (get_latest_snapshot_on_or_before_date d a (day - 1)),
     map_option sn_balance (get_latest_snapshot_on_or_before_date d a day))"

definition get_ready_accounts_for_user :: "journal_db \<Rightarrow> uuid \<Rightarrow> trading_account list" where
  "get_ready_accounts_for_user d u = filter (\<lambda>a. ta_is_data_ready_for_stats a \<and> ta_connection_state a = Link_ready)
     (list_accounts_for_user (hd_core d) u)"

section \<open>A trade\<close>

record trade_response =
  to_trade :: trade
  to_trading_date :: int
  to_r_multiple :: "rat option"
  to_balance_before_trade :: "rat option"
  to_net_roi_percent :: "rat option"
  to_trade_reviewed_at :: "int option"
  to_rating :: "int option"
  to_assessment :: assessment

definition no_assessment :: assessment where
  "no_assessment = \<lparr>as_execution_quality = None, as_setup_quality = None, as_discipline_score = None\<rparr>"

text \<open>Profit in units of the risk to the stop loss, \<^verbatim>\<open>_enrich_trade_response\<close>.\<close>

definition r_multiple :: "trade \<Rightarrow> rat option" where
  "r_multiple t = (case tr_sl t of None \<Rightarrow> None | Some sl \<Rightarrow> if sl = 0 then None
     else let risk = \<bar>to_float (to_float (tr_open_price t) - to_float sl)\<bar> in
       if 0 < risk then Some (float_div (to_float (tr_net_profit t)) risk) else None)"

definition build_trade_response :: "jn_env \<Rightarrow> string \<Rightarrow> trade \<Rightarrow> trade_response" where
  "build_trade_response env zone t = \<lparr>to_trade = t, to_trading_date = to_account_local_date (ne_acc env) (tr_closed_at t) zone,
     to_r_multiple = r_multiple t, to_balance_before_trade = None, to_net_roi_percent = None, to_trade_reviewed_at = None,
     to_rating = None, to_assessment = no_assessment\<rparr>"

definition or_none :: "'a option option \<Rightarrow> 'a option" where
  "or_none x = (case x of None \<Rightarrow> None | Some y \<Rightarrow> y)"

definition with_journal :: "journal_db \<Rightarrow> uuid list \<Rightarrow> trade_response \<Rightarrow> trade_response" where
  "with_journal d ids r = (let k = tr_id (to_trade r) in r \<lparr>
     to_trade_reviewed_at := or_none (map_of (map_trade_reviewed_at_by_trade_ids d ids) k),
     to_rating := or_none (map_of (map_trade_journal_ratings_by_trade_ids d ids) k),
     to_assessment := (case map_of (map_trade_journal_assessments_by_trade_ids d ids) k of None \<Rightarrow> no_assessment | Some x \<Rightarrow> x)\<rparr>)"

definition percent_roi :: "rat \<Rightarrow> rat \<Rightarrow> rat" where
  "percent_roi net balance = dec_mul (dec_div net balance) 100"

text \<open>The balance before each trade and its return on it, in the order given.\<close>

fun roi_rows :: "rat \<Rightarrow> trade list \<Rightarrow> (uuid \<times> rat \<times> rat) list" where
  "roi_rows balance [] = []"
| "roi_rows balance (t # ts) = (tr_id t, balance, if balance \<noteq> 0 then percent_roi (tr_net_profit t) balance else 0)
     # roi_rows (dec_add balance (tr_net_profit t)) ts"

definition list_account_trades :: "jn_env \<Rightarrow> journal_db \<Rightarrow> uuid \<Rightarrow> uuid \<Rightarrow> int option \<Rightarrow> int option \<Rightarrow> trade_filter \<Rightarrow> nat \<Rightarrow> uuid option \<Rightarrow>
    trade_response list result" where
  "list_account_trades env d u a from until f limit cursor = map_Inr (\<lambda>x.
     let zone = ta_timezone x; w = resolve_date_window env from until zone;
         trades = list_trades_by_account d a w f limit cursor;
         models = map (\<lambda>t. with_journal d (map tr_id trades) (build_trade_response env zone t)) trades in
     case fst w of None \<Rightarrow> models
     | Some start \<Rightarrow>
         let opening = dec_add (estimate_starting_balance d x) (sum_trade_net_profit d a (Some start));
             roi = roi_rows opening (oldest_first tr_closed_at tr_id trades) in
         map (\<lambda>m. let r = map_of roi (tr_id (to_trade m)) in
           m \<lparr>to_balance_before_trade := map_option fst r, to_net_roi_percent := map_option snd r\<rparr>) models)
     (get_account_or_404 d a u)"

text \<open>The endpoint asks for one trade more than the page.\<close>

definition list_journal_trades :: "jn_env \<Rightarrow> journal_db \<Rightarrow> uuid \<Rightarrow> uuid \<Rightarrow> int option \<Rightarrow> int option \<Rightarrow> trade_filter \<Rightarrow> nat \<Rightarrow> uuid option \<Rightarrow>
    (trade_response list \<times> uuid option) result" where
  "list_journal_trades env d u a from until f limit cursor = map_Inr (\<lambda>items. let page = take limit items in
       (page, if limit < length items then Some (tr_id (to_trade (last page))) else None))
     (list_account_trades env d u a from until f (limit + 1) cursor)"

section \<open>The page of a day\<close>

record trade_chip =
  ch_trade_id :: uuid
  ch_symbol :: string
  ch_direction :: string
  ch_net_profit :: rat
  ch_outcome :: string
  ch_journal_message_count :: nat

definition outcome_of :: "rat \<Rightarrow> string" where
  "outcome_of x = (if 0 < x then ''win'' else if x < 0 then ''loss'' else ''breakeven'')"

definition trade_chip_of :: "(uuid \<times> nat) list \<Rightarrow> trade \<Rightarrow> trade_chip" where
  "trade_chip_of counts t = \<lparr>ch_trade_id = tr_id t, ch_symbol = tr_symbol t, ch_direction = direction_value (tr_direction t),
     ch_net_profit = tr_net_profit t, ch_outcome = outcome_of (tr_net_profit t),
     ch_journal_message_count = (case map_of counts (tr_id t) of None \<Rightarrow> 0 | Some n \<Rightarrow> n)\<rparr>"

record day_page =
  pg_day :: daily_journal
  pg_account_timezone :: string
  pg_account_currency :: string
  pg_day_start_balance :: "rat option"
  pg_day_end_balance :: "rat option"
  pg_trade_chips :: "trade_chip list"
  pg_trades :: "trade_response list"
  pg_messages :: "message_response list"

text \<open>The balance before each trade of the day, and the return on it or on the balance of the day.\<close>

fun day_rows :: "rat option \<Rightarrow> rat option \<Rightarrow> trade_response list \<Rightarrow> rat option \<times> trade_response list" where
  "day_rows start balance [] = (balance, [])"
| "day_rows start balance (m # ms) = (
     let net = tr_net_profit (to_trade m);
         roi = (case balance of Some b \<Rightarrow> if b \<noteq> 0 then Some (percent_roi net b)
               else (case start of Some s \<Rightarrow> if 0 < s then Some (percent_roi net s) else None | None \<Rightarrow> None)
           | None \<Rightarrow> (case start of Some s \<Rightarrow> if 0 < s then Some (percent_roi net s) else None | None \<Rightarrow> None));
         (final, rows) = day_rows start (map_option (\<lambda>b. dec_add b net) balance) ms in
     (final, m \<lparr>to_balance_before_trade := balance, to_net_roi_percent := roi\<rparr> # rows))"

definition fill_end :: "rat \<Rightarrow> rat option \<Rightarrow> rat option \<Rightarrow> rat option" where
  "fill_end gross start end' = (case end' of Some e \<Rightarrow> Some e | None \<Rightarrow> map_option (\<lambda>s. dec_add s gross) start)"

definition fill_start :: "rat \<Rightarrow> rat option \<Rightarrow> rat option \<Rightarrow> rat option" where
  "fill_start gross start end' = (case start of Some s \<Rightarrow> Some s | None \<Rightarrow> map_option (\<lambda>e. dec_sub e gross) end')"

text \<open>What the page shows once the journal of the day is there.\<close>

definition day_page_of :: "jn_env \<Rightarrow> int \<Rightarrow> bool \<Rightarrow> trading_account \<Rightarrow> daily_journal \<Rightarrow> journal_db \<Rightarrow> day_page result" where
  "day_page_of env now include_messages x j d = (
     let day = dj_trading_date j; zone = ta_timezone x;
         trades = list_trades_by_account_local_date env d (ta_id x) day zone; ids = map tr_id trades;
         gross = dec_sum (map tr_net_profit trades);
         (start0, end0) = resolve_day_balances d (ta_id x) day;
         end1 = fill_end gross start0 end0; start1 = fill_start gross start0 end1;
         estimate = dec_add (estimate_starting_balance d x)
           (sum_trade_net_profit d (ta_id x) (Some (fst (local_date_to_utc_range env day zone))));
         opening = (if start1 = None \<and> trades \<noteq> [] then Some estimate else start1);
         (final, rows) = day_rows opening opening (map (\<lambda>t. with_journal d ids (build_trade_response env zone t)) trades) in
     map_Inr (\<lambda>ms. \<lparr>pg_day = j, pg_account_timezone = zone, pg_account_currency = ta_currency x, pg_day_start_balance = opening,
         pg_day_end_balance = (if end1 = None \<and> trades \<noteq> [] then final else end1),
         pg_trade_chips = map (trade_chip_of (get_trade_journal_message_counts d ids)) trades, pg_trades = rows, pg_messages = ms\<rparr>)
       (if include_messages then serialize_messages env now d (list_messages_by_daily_journal d (dj_id j)) else Inr []))"

definition service_get_or_create_daily_journal :: "jn_env \<Rightarrow> jn_rq \<Rightarrow> uuid \<Rightarrow> int \<Rightarrow> bool \<Rightarrow> journal_db \<Rightarrow> day_page result \<times> journal_db" where
  "service_get_or_create_daily_journal env q a day include_messages d = (case open_day q a day d of Inl e \<Rightarrow> (Inl e, d)
     | Inr ((x, j), d1) \<Rightarrow> (day_page_of env (jq_now q) include_messages x j d1, d1))"

end
