(* ===== verification/Journal_Analytics.thy ===== *)
theory Journal_Analytics
  imports Journal_Views "HOL-Library.AList"
begin

text \<open>
  The statistics of the journal, \<^verbatim>\<open>journal/service/_analytics.py\<close>: the summary, the performance by hour and weekday, the
  curves by day and within a day, the evaluation and the dashboard, from the closed trades of a window. A
  dictionary is an association list in the order its keys were first written.
\<close>

section \<open>Sums of a list of trades\<close>

definition nets :: "trade list \<Rightarrow> rat list" where
  "nets ts = map tr_net_profit ts"

definition net_sum :: "trade list \<Rightarrow> rat" where
  "net_sum ts = dec_sum (nets ts)"

definition winners :: "trade list \<Rightarrow> trade list" where
  "winners ts = filter (\<lambda>t. 0 < tr_net_profit t) ts"

definition losers :: "trade list \<Rightarrow> trade list" where
  "losers ts = filter (\<lambda>t. tr_net_profit t < 0) ts"

text \<open>The running sum, its highest value so far from zero, and the deepest fall below that.\<close>

definition drawdown_step :: "rat \<Rightarrow> rat \<times> rat \<times> rat \<Rightarrow> rat \<times> rat \<times> rat" where
  "drawdown_step x s = (let (cumulative, peak, deepest) = s; c = dec_add cumulative x; p = max peak c in (c, p, max deepest (dec_sub p c)))"

definition drawdown :: "rat list \<Rightarrow> rat \<times> rat \<times> rat" where
  "drawdown xs = fold drawdown_step xs (0, 0, 0)"

definition max_drawdown :: "rat list \<Rightarrow> rat" where
  "max_drawdown xs = snd (snd (drawdown xs))"

text \<open>\<^verbatim>\<open>by_day[key] += net\<close> on a dictionary whose default is zero, and \<^verbatim>\<open>groups[key].append(t)\<close> on one of lists.\<close>

definition add_pnl :: "('t \<Rightarrow> 'k) \<Rightarrow> ('t \<Rightarrow> rat) \<Rightarrow> 't \<Rightarrow> ('k \<times> rat) list \<Rightarrow> ('k \<times> rat) list" where
  "add_pnl key val t m = AList.update (key t) (dec_add (case map_of m (key t) of None \<Rightarrow> 0 | Some v \<Rightarrow> v) (val t)) m"

definition pnl_by :: "(trade \<Rightarrow> 'k) \<Rightarrow> trade list \<Rightarrow> ('k \<times> rat) list" where
  "pnl_by key ts = fold (add_pnl key tr_net_profit) ts []"

definition put_in_group :: "('t \<Rightarrow> 'k) \<Rightarrow> 't \<Rightarrow> ('k \<times> 't list) list \<Rightarrow> ('k \<times> 't list) list" where
  "put_in_group key t m = AList.update (key t) ((case map_of m (key t) of None \<Rightarrow> [] | Some g \<Rightarrow> g) @ [t]) m"

definition group_by :: "('t \<Rightarrow> 'k) \<Rightarrow> 't list \<Rightarrow> ('k \<times> 't list) list" where
  "group_by key ts = fold (put_in_group key) ts []"

definition group_of :: "('k \<times> 't list) list \<Rightarrow> 'k \<Rightarrow> 't list" where
  "group_of m k = (case map_of m k of None \<Rightarrow> [] | Some g \<Rightarrow> g)"

text \<open>\<^verbatim>\<open>max(items, key=...)\<close> and \<^verbatim>\<open>min\<close> take the first of equals.\<close>

fun best_item :: "('k \<times> rat) \<Rightarrow> ('k \<times> rat) list \<Rightarrow> 'k \<times> rat" where
  "best_item b [] = b"
| "best_item b (x # xs) = best_item (if snd b < snd x then x else b) xs"

fun worst_item :: "('k \<times> rat) \<Rightarrow> ('k \<times> rat) list \<Rightarrow> 'k \<times> rat" where
  "worst_item b [] = b"
| "worst_item b (x # xs) = worst_item (if snd x < snd b then x else b) xs"

definition day_of_utc :: "int \<Rightarrow> int" where
  "day_of_utc t = t div seconds 86400"

definition local_day :: "jn_env \<Rightarrow> string \<Rightarrow> trade \<Rightarrow> int" where
  "local_day env zone t = to_account_local_date (ne_acc env) (tr_closed_at t) zone"

section \<open>The summary\<close>

record analytics_summary =
  sm_total_trades :: nat
  sm_win_rate :: rat
  sm_profit_factor :: "rat option"
  sm_avg_win :: rat
  sm_avg_loss :: rat
  sm_avg_trade_duration_seconds :: rat
  sm_total_net_pnl :: rat
  sm_starting_balance :: rat
  sm_max_drawdown :: rat
  sm_best_day :: "(int \<times> rat) option"
  sm_worst_day :: "(int \<times> rat) option"

definition percent_or_zero :: "nat \<Rightarrow> nat \<Rightarrow> rat" where
  "percent_or_zero a b = (if b = 0 then 0 else percent_of a b)"

definition mean_or_zero :: "rat \<Rightarrow> nat \<Rightarrow> rat" where
  "mean_or_zero x n = (if n = 0 then 0 else to_float (dec_div x (of_nat n)))"

definition compute_summary :: "trade list \<Rightarrow> rat \<Rightarrow> analytics_summary" where
  "compute_summary ts starting = (
     let wins = winners ts; losses = losers ts; gross_win = net_sum wins; gross_loss = \<bar>net_sum losses\<bar>;
         days = pnl_by (\<lambda>t. day_of_utc (tr_closed_at t)) ts in
     \<lparr>sm_total_trades = length ts, sm_win_rate = percent_or_zero (length wins) (length ts),
      sm_profit_factor = (if gross_loss \<noteq> 0 then Some (to_float (dec_div gross_win gross_loss)) else None),
      sm_avg_win = mean_or_zero gross_win (length wins), sm_avg_loss = mean_or_zero (net_sum losses) (length losses),
      sm_avg_trade_duration_seconds = (if ts = [] then 0 else int_div (sum_list (map tr_duration_seconds ts)) (int (length ts))),
      sm_total_net_pnl = to_float (net_sum ts), sm_starting_balance = to_float starting,
      sm_max_drawdown = to_float (max_drawdown (nets ts)),
      sm_best_day = (case days of [] \<Rightarrow> None | x # xs \<Rightarrow> Some (best_item x xs)),
      sm_worst_day = (case days of [] \<Rightarrow> None | x # xs \<Rightarrow> Some (worst_item x xs))\<rparr>)"

definition analytics_trades :: "jn_env \<Rightarrow> journal_db \<Rightarrow> trading_account \<Rightarrow> int option \<Rightarrow> int option \<Rightarrow> trade list" where
  "analytics_trades env d a from until = list_trade_rows_for_analytics d [ta_id a] (resolve_date_window env from until (ta_timezone a))"

definition get_analytics_summary :: "jn_env \<Rightarrow> journal_db \<Rightarrow> uuid \<Rightarrow> uuid \<Rightarrow> int option \<Rightarrow> int option \<Rightarrow> analytics_summary result" where
  "get_analytics_summary env d a u from until = map_Inr (\<lambda>x. compute_summary (analytics_trades env d x from until)
     (estimate_starting_balance d x)) (get_account_or_404 d a u)"

section \<open>Performance by hour and weekday\<close>

record time_point =
  tp_bucket :: string
  tp_trade_count :: nat
  tp_total_pnl :: rat
  tp_win_rate :: rat
  tp_avg_pnl :: rat

definition two_digits :: "nat \<Rightarrow> string" where
  "two_digits n = pad_left 2 (show_nat n)"

definition weekday_order :: "string list" where
  "weekday_order = [''Mon'', ''Tue'', ''Wed'', ''Thu'', ''Fri'', ''Sat'', ''Sun'']"

definition hour_bucket :: "int \<Rightarrow> string" where
  "hour_bucket wall = two_digits (nat (hour_of wall))"

definition weekday_bucket :: "int \<Rightarrow> string" where
  "weekday_bucket wall = weekday_order ! nat ((day_of_utc wall + 3) mod 7)"

definition build_point :: "string \<Rightarrow> trade list \<Rightarrow> time_point" where
  "build_point bucket ts = \<lparr>tp_bucket = bucket, tp_trade_count = length ts, tp_total_pnl = to_float (net_sum ts),
     tp_win_rate = percent_or_zero (length (winners ts)) (length ts), tp_avg_pnl = mean_or_zero (net_sum ts) (length ts)\<rparr>"

definition basis_wall :: "jn_env \<Rightarrow> string \<Rightarrow> bool \<Rightarrow> trade \<Rightarrow> int" where
  "basis_wall env zone by_open t = ne_wall env zone (if by_open then tr_opened_at t else tr_closed_at t)"

definition compute_time_performance :: "jn_env \<Rightarrow> string \<Rightarrow> bool \<Rightarrow> trade list \<Rightarrow> time_point list \<times> time_point list" where
  "compute_time_performance env zone by_open ts = (
     let hours = group_by (hour_bucket \<circ> basis_wall env zone by_open) ts;
         weekdays = group_by (weekday_bucket \<circ> basis_wall env zone by_open) ts in
     (map (\<lambda>h. build_point (two_digits h) (group_of hours (two_digits h))) [0..<24],
      map (\<lambda>w. build_point w (group_of weekdays w)) weekday_order))"

definition get_analytics_time_performance ::
  "jn_env \<Rightarrow> journal_db \<Rightarrow> uuid \<Rightarrow> uuid \<Rightarrow> int option \<Rightarrow> int option \<Rightarrow> bool \<Rightarrow> (time_point list \<times> time_point list) result" where
  "get_analytics_time_performance env d a u from until by_open = map_Inr (\<lambda>x. compute_time_performance env (ta_timezone x) by_open
     (analytics_trades env d x from until)) (get_account_or_404 d a u)"

section \<open>Curves\<close>

text \<open>Day, cumulative profit, profit of the day.\<close>

fun curve_points :: "rat \<Rightarrow> (int \<times> rat) list \<Rightarrow> (int \<times> rat \<times> rat) list" where
  "curve_points running [] = []"
| "curve_points running ((day, v) # m) = (let r = dec_add running v in (day, to_float r, to_float v) # curve_points r m)"

definition equity_points :: "jn_env \<Rightarrow> string \<Rightarrow> trade list \<Rightarrow> (int \<times> rat \<times> rat) list" where
  "equity_points env zone ts = curve_points 0 (sort_key fst (pnl_by (local_day env zone) ts))"

definition get_analytics_equity_curve :: "jn_env \<Rightarrow> journal_db \<Rightarrow> uuid \<Rightarrow> uuid \<Rightarrow> int option \<Rightarrow> int option \<Rightarrow> (int \<times> rat \<times> rat) list result" where
  "get_analytics_equity_curve env d a u from until = map_Inr (\<lambda>x. equity_points env (ta_timezone x) (analytics_trades env d x from until))
     (get_account_or_404 d a u)"

text \<open>The texts of identifiers have one length and digits in the order of their codes, so they order as the numbers.\<close>

fun running_points :: "jn_env \<Rightarrow> string \<Rightarrow> rat \<Rightarrow> trade list \<Rightarrow> (int \<times> rat) list \<times> rat" where
  "running_points env zone running [] = ([], running)"
| "running_points env zone running (t # ts) = (let r = dec_add running (tr_net_profit t); (ps, final) = running_points env zone r ts in
     ((to_account_local_datetime env (tr_closed_at t) zone, to_float r) # ps, final))"

definition intraday_curve_day :: "jn_env \<Rightarrow> string \<Rightarrow> int \<times> trade list \<Rightarrow> int \<times> rat \<times> (int \<times> rat) list" where
  "intraday_curve_day env zone g = (let (ps, final) = running_points env zone 0 (oldest_first tr_closed_at tr_id (snd g)) in
     (fst g, to_float final, ps))"

definition get_analytics_intraday_curves ::
  "jn_env \<Rightarrow> journal_db \<Rightarrow> uuid \<Rightarrow> uuid \<Rightarrow> int option \<Rightarrow> int option \<Rightarrow> (int \<times> rat \<times> (int \<times> rat) list) list result" where
  "get_analytics_intraday_curves env d a u from until = map_Inr (\<lambda>x. map (intraday_curve_day env (ta_timezone x))
     (sort_key fst (group_by (local_day env (ta_timezone x)) (analytics_trades env d x from until)))) (get_account_or_404 d a u)"

subsection \<open>The curve with both granularities\<close>

text \<open>
  \<^verbatim>\<open>broker_trade_id ~ '^[0-9]+$'\<close> guards the cast to \<^verbatim>\<open>bigint\<close>, which a longer number does not fit: the statement fails.
\<close>

definition numeric_ticket :: "trade \<Rightarrow> nat option" where
  "numeric_ticket t = (let s = tr_broker_trade_id t in if s \<noteq> [] \<and> list_all is_digit s then Some (read_nat s) else None)"

definition ticket_overflows :: "trade \<Rightarrow> bool" where
  "ticket_overflows t = (case numeric_ticket t of None \<Rightarrow> False | Some n \<Rightarrow> 2 ^ 63 \<le> n)"

definition ticket_order :: "jn_env \<Rightarrow> trade list \<Rightarrow> trade list" where
  "ticket_order env ts = sorted_by tr_closed_at (sorted_by (\<lambda>t. if numeric_ticket t = None then 1 else 0)
     (sorted_by (\<lambda>t. case numeric_ticket t of None \<Rightarrow> 0 | Some n \<Rightarrow> int n)
       (sort_key (ne_collate env \<circ> tr_broker_trade_id) (sorted_by (uint \<circ> tr_id) ts))))"

record daily_point =
  dp_date :: int
  dp_daily_pnl :: "rat option"
  dp_cumulative_pnl :: rat
  dp_is_baseline :: bool

definition build_daily_curve :: "jn_env \<Rightarrow> string \<Rightarrow> trade list \<Rightarrow> daily_point list" where
  "build_daily_curve env zone ts = (
     let points = map (\<lambda>(day, cumulative, pnl). \<lparr>dp_date = day, dp_daily_pnl = Some pnl, dp_cumulative_pnl = cumulative, dp_is_baseline = False\<rparr>)
       (equity_points env zone ts) in
     case points of [] \<Rightarrow> []
     | p # _ \<Rightarrow> \<lparr>dp_date = dp_date p - 1, dp_daily_pnl = None, dp_cumulative_pnl = 0, dp_is_baseline = True\<rparr> # points)"

record intraday_point =
  ip_i :: nat
  ip_t :: int
  ip_symbol :: "string option"
  ip_cumulative_pnl :: rat

record intraday_day =
  id_date :: int
  id_net_pnl :: rat
  id_trades_count :: nat
  id_gross_pnl :: rat
  id_win_count :: nat
  id_loss_count :: nat
  id_commissions :: rat
  id_win_rate :: rat
  id_volume :: rat
  id_profit_factor :: "rat option"
  id_points :: "intraday_point list"

fun sequence_points :: "jn_env \<Rightarrow> string \<Rightarrow> nat \<Rightarrow> rat \<Rightarrow> trade list \<Rightarrow> intraday_point list" where
  "sequence_points env zone i running [] = []"
| "sequence_points env zone i running (t # ts) = (let r = dec_add running (tr_net_profit t) in
     \<lparr>ip_i = i, ip_t = to_account_local_datetime env (tr_closed_at t) zone, ip_symbol = Some (tr_symbol t), ip_cumulative_pnl = to_float r\<rparr>
     # sequence_points env zone (i + 1) r ts)"

definition baseline_time :: "int \<Rightarrow> int" where
  "baseline_time first_local = max (first_local - seconds 3600) (first_local - first_local mod seconds 86400)"

definition build_intraday_day :: "jn_env \<Rightarrow> string \<Rightarrow> int \<times> trade list \<Rightarrow> intraday_day" where
  "build_intraday_day env zone g = (
     let ts = snd g; wins = winners ts; losses = losers ts; gross_win = net_sum wins; gross_loss = dec_sum (map (\<lambda>t. - tr_net_profit t) losses);
         first_local = to_account_local_datetime env (tr_closed_at (hd ts)) zone in
     \<lparr>id_date = fst g, id_net_pnl = to_float (net_sum ts), id_trades_count = length ts,
      id_gross_pnl = to_float (dec_sum (map tr_profit ts)), id_win_count = length wins, id_loss_count = length losses,
      id_commissions = to_float (dec_sum (map tr_commission ts)), id_win_rate = percent_or_zero (length wins) (length ts),
      id_volume = to_float (dec_sum (map tr_volume ts)),
      id_profit_factor = (if 0 < gross_loss then Some (to_float (dec_div gross_win gross_loss)) else None),
      id_points = \<lparr>ip_i = 0, ip_t = baseline_time first_local, ip_symbol = None, ip_cumulative_pnl = 0\<rparr> # sequence_points env zone 1 0 ts\<rparr>)"

definition build_intraday_curve :: "jn_env \<Rightarrow> string \<Rightarrow> trade list \<Rightarrow> intraday_day list" where
  "build_intraday_curve env zone ts = map (build_intraday_day env zone) (sort_key fst (group_by (local_day env zone) ts))"

definition get_analytics_curve :: "jn_env \<Rightarrow> journal_db \<Rightarrow> uuid \<Rightarrow> uuid \<Rightarrow> int option \<Rightarrow> int option \<Rightarrow> string \<Rightarrow>
    (daily_point list + intraday_day list) result" where
  "get_analytics_curve env d a u from until granularity = bind_Inr (get_account_or_404 d a u) (\<lambda>x.
     let zone = ta_timezone x; w = resolve_date_window env from until zone;
         rows = filter (\<lambda>t. tr_account_id t = a \<and> in_window w t) (kd_trades (hd_core d)) in
     if list_ex ticket_overflows rows then Inl (Exn ''DataError'' ''value out of range for type bigint'')
     else if granularity = ''daily'' then Inr (Inl (build_daily_curve env zone (ticket_order env rows)))
     else if granularity = ''intraday'' then Inr (Inr (build_intraday_curve env zone (ticket_order env rows)))
     else value_error (''Invalid granularity: '' @ granularity))"

text \<open>\<^verbatim>\<open>_downsample_points\<close>, which no endpoint calls.\<close>

definition downsample_points :: "'p list \<Rightarrow> nat \<Rightarrow> 'p list" where
  "downsample_points points n = (if length points \<le> n then points
     else let step = int_div (int (length points - 1)) (int (n - 1)) in
       hd points # map (\<lambda>i. points ! nat \<lfloor>float_mul (of_nat i) step\<rfloor>) [1..<n - 1] @ [last points])"

section \<open>The evaluation\<close>

record analytics_evaluation =
  el_total_trades :: nat
  el_avg_profit_per_trading_day :: rat
  el_biggest_winner :: rat
  el_biggest_loser :: rat
  el_total_fees :: rat
  el_avg_hold_seconds :: rat
  el_winrate_wo_be :: rat
  el_roi :: rat
  el_max_drawdown_pct :: rat
  el_winning_days :: nat
  el_losing_days :: nat
  el_trades_per_day :: rat
  el_trades_per_week :: rat
  el_recent_streak :: "string list"

definition no_evaluation :: analytics_evaluation where
  "no_evaluation = \<lparr>el_total_trades = 0, el_avg_profit_per_trading_day = 0, el_biggest_winner = 0, el_biggest_loser = 0,
     el_total_fees = 0, el_avg_hold_seconds = 0, el_winrate_wo_be = 0, el_roi = 0, el_max_drawdown_pct = 0, el_winning_days = 0,
     el_losing_days = 0, el_trades_per_day = 0, el_trades_per_week = 0, el_recent_streak = []\<rparr>"

definition streak_letter :: "trade \<Rightarrow> string" where
  "streak_letter t = (if 0 < tr_net_profit t then ''W'' else if tr_net_profit t < 0 then ''L'' else ''B'')"

definition last_five :: "'t list \<Rightarrow> 't list" where
  "last_five ts = drop (length ts - 5) ts"

definition list_max :: "rat list \<Rightarrow> rat" where
  "list_max xs = (case xs of [] \<Rightarrow> 0 | x # ys \<Rightarrow> fold max ys x)"

definition list_min :: "rat list \<Rightarrow> rat" where
  "list_min xs = (case xs of [] \<Rightarrow> 0 | x # ys \<Rightarrow> fold min ys x)"

definition span_days :: "int list \<Rightarrow> int" where
  "span_days days = (case sort days of [] \<Rightarrow> 0 | x # xs \<Rightarrow> last (x # xs) - x + 1)"

definition percent_dec :: "rat \<Rightarrow> rat \<Rightarrow> rat" where
  "percent_dec x y = to_float (dec_mul (dec_div x y) 100)"

definition compute_evaluation :: "jn_env \<Rightarrow> string \<Rightarrow> trade list \<Rightarrow> rat \<Rightarrow> analytics_evaluation" where
  "compute_evaluation env zone ts starting = (if ts = [] then no_evaluation
     else let pnl = net_sum ts; wins = length (winners ts); losses = length (losers ts); days = pnl_by (local_day env zone) ts;
         (_, peak, deepest) = drawdown (nets ts); basis = (if 0 < starting then starting else peak);
         weeks = max 1 (int_div (span_days (map fst days)) 7) in
     \<lparr>el_total_trades = length ts, el_avg_profit_per_trading_day = float_div (to_float pnl) (of_nat (length days)),
      el_biggest_winner = to_float (list_max (nets ts)), el_biggest_loser = to_float (list_min (nets ts)),
      el_total_fees = to_float (dec_sum (map (\<lambda>t. dec_add (tr_commission t) (tr_swap t)) ts)),
      el_avg_hold_seconds = int_div (sum_list (map tr_duration_seconds ts)) (int (length ts)),
      el_winrate_wo_be = percent_or_zero wins (wins + losses),
      el_roi = (if starting \<noteq> 0 then percent_dec pnl starting else 0),
      el_max_drawdown_pct = (if 0 < basis then percent_dec deepest basis else 0),
      el_winning_days = length (filter (\<lambda>p. 0 < snd p) days), el_losing_days = length (filter (\<lambda>p. snd p < 0) days),
      el_trades_per_day = int_div (int (length ts)) (int (length days)),
      el_trades_per_week = float_div (of_nat (length ts)) weeks,
      el_recent_streak = map streak_letter (last_five ts)\<rparr>)"

definition get_analytics_evaluation :: "jn_env \<Rightarrow> journal_db \<Rightarrow> uuid \<Rightarrow> uuid \<Rightarrow> int option \<Rightarrow> int option \<Rightarrow> analytics_evaluation result" where
  "get_analytics_evaluation env d a u from until = map_Inr (\<lambda>x. compute_evaluation env (ta_timezone x) (analytics_trades env d x from until)
     (estimate_starting_balance d x)) (get_account_or_404 d a u)"

section \<open>The dashboard\<close>

record calendar_day =
  cd_date :: int
  cd_trade_count :: nat
  cd_total_pnl :: rat
  cd_win_count :: nat
  cd_loss_count :: nat
  cd_outcome :: string
  cd_has_journal_activity :: bool

type_synonym day_bucket = "nat \<times> rat \<times> nat \<times> nat"

definition count_trade :: "(trade \<Rightarrow> int) \<Rightarrow> trade \<Rightarrow> (int \<times> day_bucket) list \<Rightarrow> (int \<times> day_bucket) list" where
  "count_trade key t m = (let (n, pnl, wins, losses) = (case map_of m (key t) of None \<Rightarrow> (0, 0, 0, 0) | Some b \<Rightarrow> b); x = tr_net_profit t in
     AList.update (key t) (n + 1, dec_add pnl x, wins + (if 0 < x then 1 else 0), losses + (if x < 0 then 1 else 0)) m)"

definition calendar_map :: "(trade \<Rightarrow> int) \<Rightarrow> trade list \<Rightarrow> (int \<times> day_bucket) list" where
  "calendar_map key ts = fold (count_trade key) ts []"

definition calendar_day_of :: "int list \<Rightarrow> int \<times> day_bucket \<Rightarrow> calendar_day" where
  "calendar_day_of active r = (let (day, n, pnl, wins, losses) = r in
     \<lparr>cd_date = day, cd_trade_count = n, cd_total_pnl = to_float pnl, cd_win_count = wins, cd_loss_count = losses,
      cd_outcome = outcome_of (to_float pnl), cd_has_journal_activity = (day \<in> set active)\<rparr>)"

text \<open>The local days with a message somebody wrote, or a review, in the journal of the day or of one of its trades.\<close>

definition written :: "journal_message \<Rightarrow> bool" where
  "written m \<longleftrightarrow> jm_message_type m \<noteq> Message_system"

definition list_trading_dates_with_journal_activity :: "jn_env \<Rightarrow> journal_db \<Rightarrow> uuid \<Rightarrow> string \<Rightarrow> int \<Rightarrow> int \<Rightarrow> int list" where
  "list_trading_dates_with_journal_activity env d a zone from until = (
     let days = filter (\<lambda>j. dj_account_id j = a \<and> (dj_reviewed_at j \<noteq> None
           \<or> list_ex (\<lambda>m. jm_daily_journal_id m = Some (dj_id j) \<and> written m) (hd_messages d))) (hd_days d);
         trades = filter (\<lambda>t. tr_account_id t = a \<and> list_ex (\<lambda>j. tj_trade_id j = tr_id t \<and> (tj_reviewed_at j \<noteq> None
           \<or> list_ex (\<lambda>m. jm_trade_journal_id m = Some (tj_id j) \<and> written m) (hd_messages d))) (hd_entries d)) (kd_trades (hd_core d)) in
     filter (\<lambda>x. from \<le> x \<and> x \<le> until) (remdups (map dj_trading_date days @ map (local_day env zone) trades)))"

record instrument_item =
  in_symbol :: string
  in_trade_count :: nat
  in_total_pnl :: rat
  in_win_rate :: rat
  in_avg_pnl :: rat
  in_avg_mfe :: "rat option"
  in_avg_mae :: "rat option"

definition float_mean :: "rat list \<Rightarrow> rat option" where
  "float_mean xs = (if xs = [] then None else Some (float_div (fold (\<lambda>x s. float_add s x) xs 0) (of_nat (length xs))))"

definition known_floats :: "rat option list \<Rightarrow> rat list" where
  "known_floats xs = map to_float (List.map_filter id xs)"

definition instrument_of :: "string \<times> trade list \<Rightarrow> instrument_item" where
  "instrument_of g = (let ts = snd g in \<lparr>in_symbol = fst g, in_trade_count = length ts, in_total_pnl = to_float (net_sum ts),
     in_win_rate = percent_or_zero (length (winners ts)) (length ts), in_avg_pnl = mean_or_zero (net_sum ts) (length ts),
     in_avg_mfe = float_mean (known_floats (map tr_mfe ts)), in_avg_mae = float_mean (known_floats (map tr_mae ts))\<rparr>)"

definition instruments_of :: "trade list \<Rightarrow> instrument_item list" where
  "instruments_of ts = sort_key (\<lambda>x. - in_total_pnl x) (map instrument_of (group_by tr_symbol ts))"

text \<open>\<^verbatim>\<open>strftime("%Y-%m")\<close> of the day with a number, in the Gregorian calendar.\<close>

definition year_month :: "int \<Rightarrow> string" where
  "year_month day = (
     let z = day + 719468; era = z div 146097; doe = z mod 146097;
         yoe = (doe - doe div 1460 + doe div 36524 - doe div 146096) div 365;
         doy = doe - (365 * yoe + yoe div 4 - yoe div 100); mp = (5 * doy + 2) div 153;
         m = (if mp < 10 then mp + 3 else mp - 9) in
     show_int (yoe + era * 400 + (if m \<le> 2 then 1 else 0)) @ ''-'' @ two_digits (nat m))"

record analytics_dashboard =
  db_summary :: analytics_summary
  db_month :: string
  db_calendar :: "calendar_day list"
  db_instruments :: "instrument_item list"
  db_time_performance :: "time_point list \<times> time_point list"
  db_recent_trades :: "trade_response list"

definition dashboard_of :: "jn_env \<Rightarrow> journal_db \<Rightarrow> string \<Rightarrow> (trade \<Rightarrow> int) \<Rightarrow> uuid option \<Rightarrow> trade list \<Rightarrow> rat \<Rightarrow> trade list \<Rightarrow> int option \<Rightarrow> bool \<Rightarrow> analytics_dashboard" where
  "dashboard_of env d zone key single ts starting recent from by_open = (
     let rows = sort_key fst (calendar_map key ts);
         active = (case single of None \<Rightarrow> [] | Some a \<Rightarrow> (case rows of [] \<Rightarrow> []
           | r # _ \<Rightarrow> list_trading_dates_with_journal_activity env d a zone (fst r) (fst (last rows)))) in
     \<lparr>db_summary = compute_summary ts starting, db_month = (case from of None \<Rightarrow> ''all'' | Some x \<Rightarrow> year_month x),
      db_calendar = map (calendar_day_of active) rows, db_instruments = instruments_of ts,
      db_time_performance = compute_time_performance env zone by_open ts,
      db_recent_trades = map (build_trade_response env zone) recent\<rparr>)"

definition get_analytics_dashboard :: "jn_env \<Rightarrow> journal_db \<Rightarrow> uuid option \<Rightarrow> uuid \<Rightarrow> int option \<Rightarrow> int option \<Rightarrow> nat \<Rightarrow> bool \<Rightarrow> analytics_dashboard result" where
  "get_analytics_dashboard env d a u from until limit by_open = (case a of
       Some k \<Rightarrow> map_Inr (\<lambda>x. let zone = ta_timezone x; w = resolve_date_window env from until zone in
           dashboard_of env d zone (local_day env zone) a (list_trade_rows_for_analytics d [k] w) (estimate_starting_balance d x)
             (list_recent_trades_for_dashboard d [k] w limit) from by_open) (get_account_or_404 d k u)
     | None \<Rightarrow> (let accounts = get_ready_accounts_for_user d u; ids = map ta_id accounts; w = resolve_multi_account_date_window from until;
         zone_of = (\<lambda>t. case row_get ta_id (tr_account_id t) accounts of None \<Rightarrow> ''UTC'' | Some x \<Rightarrow> ta_timezone x) in
         Inr (dashboard_of env d ''UTC'' (\<lambda>t. local_day env (zone_of t) t) None (list_trade_rows_for_analytics d ids w)
           (dec_sum (map (estimate_starting_balance d) accounts)) (list_recent_trades_for_dashboard d ids w limit) from by_open)))"

end
