(* ===== verification/Journal_Totals.thy ===== *)
theory Journal_Totals
  imports Journal_Analytics Account_Steps
begin

text \<open>
  Facts about the statistics: when the amounts are in cents and small enough that 28 digits hold their sums, Python's
  \<^verbatim>\<open>Decimal\<close> adds exactly; a dictionary of sums is that of the groups; the groups part the trades.
\<close>

section \<open>Exact sums\<close>

definition exact :: "rat list \<Rightarrow> bool" where
  "exact xs \<longleftrightarrow> list_all (scaled 2) xs \<and> sum_list (map abs xs) < 10 ^ 26"

lemma scaled_2: "scaled 2 x \<longleftrightarrow> (\<exists>n. x = of_int n / 100)"
proof
  assume "scaled 2 x"
  then have "of_int \<lfloor>x * 10 ^ 2\<rfloor> / 100 = x * 10 ^ 2 / 100" by (simp only: scaled_def)
  moreover have "x * 10 ^ 2 / 100 = x" by simp
  ultimately show "\<exists>n. x = of_int n / 100" by metis
next
  assume "\<exists>n. x = of_int n / 100"
  then obtain n where "x = of_int n / 100" ..
  then have "x * 10 ^ 2 = of_int n" by simp
  then show "scaled 2 x" unfolding scaled_def by (simp only: floor_of_int)
qed

lemma scaled_add: "scaled 2 x \<Longrightarrow> scaled 2 y \<Longrightarrow> scaled 2 (x + y)"
  unfolding scaled_2 by (metis add_divide_distrib of_int_add)

lemma scaled_minus: "scaled 2 x \<Longrightarrow> scaled 2 (- x)"
  unfolding scaled_2 by (metis minus_divide_left of_int_minus)

lemma scaled_0 [simp]: "scaled 2 0"
  by (simp add: scaled_def)

lemma dec_round_scaled: "scaled 2 x \<Longrightarrow> \<bar>x\<bar> < 10 ^ 26 \<Longrightarrow> dec_round x = x"
proof -
  assume s: "scaled 2 x" "\<bar>x\<bar> < 10 ^ 26"
  then obtain n where n: "x = of_int n / 100" by (auto simp: scaled_2)
  with s(2) have "\<bar>of_int n :: rat\<bar> < of_int (10 ^ 28)" by simp
  then have "\<bar>n\<bar> < 10 ^ 28" by (simp only: of_int_abs [symmetric] of_int_less_iff)
  from dec_round_exact [OF this, of "-2"] show ?thesis by (simp add: n power_int_minus field_simps)
qed

lemma sum_abs_nonneg: "0 \<le> sum_list (map abs xs)" for xs :: "rat list"
  by (induction xs) auto

lemma fold_dec_add: "list_all (scaled 2) xs \<Longrightarrow> scaled 2 a \<Longrightarrow> \<bar>a\<bar> + sum_list (map abs xs) < 10 ^ 26 \<Longrightarrow>
  fold (\<lambda>x s. dec_add s x) xs a = a + sum_list xs"
proof (induction xs arbitrary: a)
  case (Cons x xs)
  have le: "0 \<le> sum_list (map abs xs)" by (rule sum_abs_nonneg)
  have "dec_add a x = a + x" using Cons.prems le by (auto simp: dec_add_def intro!: dec_round_scaled scaled_add)
  moreover have "fold (\<lambda>x s. dec_add s x) xs (a + x) = a + x + sum_list xs"
    using Cons.prems by (intro Cons.IH) (auto intro: scaled_add)
  ultimately show ?case by (simp add: add.assoc)
qed simp

lemma dec_sum_exact: "exact xs \<Longrightarrow> dec_sum xs = sum_list xs"
  using fold_dec_add [of xs 0] by (simp add: dec_sum_def exact_def)

lemma abs_sum_list: "\<bar>sum_list xs\<bar> \<le> sum_list (map abs xs)" for xs :: "rat list"
  by (induction xs) (auto intro: order.trans [OF abs_triangle_ineq])

lemma scaled_sum_list: "list_all (scaled 2) xs \<Longrightarrow> scaled 2 (sum_list xs)"
  by (induction xs) (auto intro: scaled_add)

lemma exact_mset: "mset xs = mset ys \<Longrightarrow> exact xs = exact ys"
proof -
  assume m: "mset xs = mset ys"
  have "sum_mset (mset (map abs xs)) = sum_mset (mset (map abs ys))" by (simp only: mset_map m)
  then have "sum_list (map abs xs) = sum_list (map abs ys)" by (simp only: sum_mset_sum_list)
  moreover have "list_all (scaled 2) xs = list_all (scaled 2) ys" unfolding list_all_iff by (simp only: mset_eq_setD [OF m])
  ultimately show ?thesis by (simp add: exact_def)
qed

lemma sum_abs_filter: "sum_list (map abs (map f (filter P ts))) \<le> sum_list (map abs (map f ts))" for f :: "'t \<Rightarrow> rat"
  by (induction ts) auto

lemma exact_filter: "exact (map f ts) \<Longrightarrow> exact (map f (filter P ts))"
  unfolding exact_def using order.strict_trans1 [OF sum_abs_filter [of f P ts]] by (simp add: list_all_iff)

lemma exact_take: "exact xs \<Longrightarrow> exact (take n xs)"
proof -
  assume e: "exact xs"
  have "sum_list (map abs xs) = sum_list (map abs (take n xs)) + sum_list (map abs (drop n xs))"
    by (metis append_take_drop_id map_append sum_list.append)
  moreover have "0 \<le> sum_list (map abs (drop n xs))" by (rule sum_abs_nonneg)
  ultimately show ?thesis using e by (auto simp: exact_def list_all_iff dest: in_set_takeD)
qed

section \<open>Groups\<close>

lemma update_values: "map (\<lambda>(k, v). (k, f v)) (AList.update k v m) = AList.update k (f v) (map (\<lambda>(k, v). (k, f v)) m)"
  by (induction m) auto

lemma map_of_values: "map_of (map (\<lambda>(k, v). (k, f v)) m) k = map_option f (map_of m k)"
  by (induction m) auto

definition group_fold :: "('g \<Rightarrow> 't \<Rightarrow> 'g) \<Rightarrow> 'g \<Rightarrow> ('t \<Rightarrow> 'k) \<Rightarrow> 't list \<Rightarrow> ('k \<times> 'g) list \<Rightarrow> ('k \<times> 'g) list" where
  "group_fold f g0 key = fold (\<lambda>t m. AList.update (key t) (f (case map_of m (key t) of None \<Rightarrow> g0 | Some g \<Rightarrow> g) t) m)"

lemma group_by_fold: "group_by key ts = group_fold (\<lambda>g t. g @ [t]) [] key ts []"
  unfolding group_by_def group_fold_def by (simp add: put_in_group_def [abs_def])

text \<open>What is kept for a key depends on its trades only, in their order.\<close>

lemma group_fold_values: "group_fold f g0 key ts (map (\<lambda>(k, g). (k, foldl f g0 g)) m)
    = map (\<lambda>(k, g). (k, foldl f g0 g)) (group_fold (\<lambda>g t. g @ [t]) [] key ts m)"
proof (induction ts arbitrary: m)
  case (Cons t ts)
  let ?h = "\<lambda>(k, g). (k, foldl f g0 g)"
  have "AList.update (key t) (f (case map_of (map ?h m) (key t) of None \<Rightarrow> g0 | Some g \<Rightarrow> g) t) (map ?h m)
      = map ?h (AList.update (key t) ((case map_of m (key t) of None \<Rightarrow> [] | Some g \<Rightarrow> g) @ [t]) m)"
    by (simp add: map_of_values update_values split: option.split)
  then show ?case using Cons by (simp add: group_fold_def)
qed (simp add: group_fold_def)

lemma group_fold_groups: "group_fold f g0 key ts [] = map (\<lambda>(k, g). (k, foldl f g0 g)) (group_by key ts)"
  using group_fold_values [of f g0 key ts "[]"] by (simp add: group_by_fold)

lemma pnl_by_groups: "pnl_by key ts = map (\<lambda>(k, g). (k, net_sum g)) (group_by key ts)"
proof -
  have "pnl_by key ts = group_fold (\<lambda>s t. dec_add s (tr_net_profit t)) 0 key ts []"
    unfolding pnl_by_def group_fold_def by (simp add: add_pnl_def [abs_def])
  moreover have "foldl (\<lambda>s t. dec_add s (tr_net_profit t)) 0 g = net_sum g" for g
    by (simp add: net_sum_def dec_sum_def nets_def fold_map foldl_conv_fold comp_def)
  ultimately show ?thesis by (simp add: group_fold_groups)
qed

lemma group_by_snoc: "group_by key (ts @ [t]) = put_in_group key t (group_by key ts)"
  by (simp add: group_by_def)

lemma group_by_map_of: "map_of (group_by key ts) k = (if k \<in> key ` set ts then Some (filter (\<lambda>t. key t = k) ts) else None)"
proof (induction ts arbitrary: k rule: rev_induct)
  case (snoc t ts)
  let ?g = "case map_of (group_by key ts) (key t) of None \<Rightarrow> [] | Some g \<Rightarrow> g"
  have g: "?g = filter (\<lambda>s. key s = key t) ts" by (auto simp: snoc.IH [of "key t"] empty_filter_conv image_iff)
  have "map_of (group_by key (ts @ [t])) k = (if key t = k then Some (?g @ [t]) else map_of (group_by key ts) k)"
    by (simp add: group_by_snoc put_in_group_def update_conv)
  then show ?case unfolding g by (auto simp: snoc.IH [of k])
qed (simp add: group_by_def)

lemma group_by_distinct: "distinct (map fst (group_by key ts))"
proof (induction ts rule: rev_induct)
  case (snoc t ts)
  then show ?case unfolding group_by_snoc put_in_group_def by (rule distinct_update)
qed (simp add: group_by_def)

lemma group_by_keys: "fst ` set (group_by key ts) = key ` set ts"
proof -
  have "dom (map_of (group_by key ts)) = key ` set ts" by (simp add: dom_def group_by_map_of)
  then show ?thesis by (simp only: dom_map_of_conv_image_fst)
qed

lemma group_by_mem: "(k, g) \<in> set (group_by key ts) \<Longrightarrow> g = filter (\<lambda>t. key t = k) ts \<and> k \<in> key ` set ts"
  using map_of_is_SomeI [OF group_by_distinct, of k g key ts] by (simp add: group_by_map_of split: if_splits)

lemma group_of_group_by: "group_of (group_by key ts) k = filter (\<lambda>t. key t = k) ts"
  by (auto simp: group_of_def group_by_map_of empty_filter_conv)

lemma sum_update: "distinct (map fst m) \<Longrightarrow> sum_list (map (F \<circ> snd) (AList.update k v m)) + (case map_of m k of None \<Rightarrow> 0 | Some w \<Rightarrow> F w)
    = sum_list (map (F \<circ> snd) m) + F v" for F :: "_ \<Rightarrow> _::comm_monoid_add"
proof (induction m)
  case (Cons p m)
  show ?case
  proof (cases "fst p = k")
    case True
    then have "map_of m k = None" using Cons.prems by (auto simp: map_of_eq_None_iff)
    with True show ?thesis by (cases p) (simp add: ac_simps)
  next
    case False
    then show ?thesis using Cons by (cases p) (simp add: ac_simps add.assoc)
  qed
qed simp

text \<open>Adding up over the groups is adding up over the trades.\<close>

lemma sum_groups: "sum_list (map (\<lambda>(k, g). sum_list (map f g)) (group_by key ts)) = sum_list (map f ts)" for f :: "'t \<Rightarrow> 'a::cancel_comm_monoid_add"
proof (induction ts rule: rev_induct)
  case (snoc t ts)
  let ?m = "group_by key ts" and ?F = "\<lambda>g. sum_list (map f g)"
  let ?g = "case map_of ?m (key t) of None \<Rightarrow> [] | Some g \<Rightarrow> g"
  have s: "sum_list (map (\<lambda>(k, g). ?F g) m) = sum_list (map (?F \<circ> snd) m)" for m :: "('k \<times> 't list) list"
    by (simp add: case_prod_unfold comp_def)
  let ?A = "sum_list (map (?F \<circ> snd) (AList.update (key t) (?g @ [t]) ?m))" and ?B = "sum_list (map (?F \<circ> snd) ?m)"
  have "?A + ?F ?g = ?B + ?F (?g @ [t])"
    using sum_update [OF group_by_distinct, of ?F "key t" "?g @ [t]" key ts] by (cases "map_of ?m (key t)") simp_all
  then have "?A + ?F ?g = (?B + f t) + ?F ?g" by (simp add: ac_simps)
  then have "?A = ?B + f t" by (rule add_right_imp_eq)
  then show ?case using snoc by (simp add: s group_by_snoc put_in_group_def)
qed (simp add: group_by_def)

section \<open>Days in order\<close>

lemma sorted_groups: "sort_key fst (group_by key ts) = map (\<lambda>k. (k, filter (\<lambda>t. key t = k) ts)) (sorted_list_of_set (key ` set ts))"
  for key :: "'t \<Rightarrow> 'k::linorder"
proof -
  let ?m = "sort_key fst (group_by key ts)"
  have set: "set (map fst ?m) = key ` set ts" by (simp add: group_by_keys)
  have "distinct (map fst ?m)" using group_by_distinct [of key ts] by (metis distinct_map mset_eq_imp_distinct_iff mset_map mset_sort)
  moreover have "sorted (map fst ?m)" by (rule sorted_sort_key)
  ultimately have keys: "map fst ?m = sorted_list_of_set (key ` set ts)"
    using set by (intro sorted_distinct_set_unique) simp_all
  have "?m = map (\<lambda>k. (k, filter (\<lambda>t. key t = k) ts)) (map fst ?m)"
    by (rule sym, simp, rule map_idI) (auto dest: group_by_mem)
  then show ?thesis by (simp only: keys)
qed

lemma map_insort: "(\<And>x. fst (h x) = fst x) \<Longrightarrow> map h (insort_key fst x xs) = insort_key fst (h x) (map h xs)"
  by (induction xs) simp_all

lemma map_sort_key: "(\<And>x. fst (h x) = fst x) \<Longrightarrow> map h (sort_key fst xs) = sort_key fst (map h xs)"
  by (induction xs) (simp_all add: map_insort)

lemma sorted_pnl: "sort_key fst (pnl_by key ts)
    = map (\<lambda>k. (k, net_sum (filter (\<lambda>t. key t = k) ts))) (sorted_list_of_set (key ` set ts))"
proof -
  have "sort_key fst (pnl_by key ts) = map (\<lambda>(k, g). (k, net_sum g)) (sort_key fst (group_by key ts))"
    unfolding pnl_by_groups by (rule map_sort_key [symmetric]) (simp add: case_prod_unfold)
  then show ?thesis by (simp add: sorted_groups)
qed

section \<open>Sums over the days\<close>

lemma exact_nets_filter: "exact (nets ts) \<Longrightarrow> exact (nets (filter P ts))"
  unfolding nets_def by (rule exact_filter)

lemma net_sum_exact: "exact (nets ts) \<Longrightarrow> net_sum ts = sum_list (nets ts)"
  unfolding net_sum_def by (rule dec_sum_exact)

lemma pnl_values: "exact (nets ts) \<Longrightarrow> map snd (pnl_by key ts) = map (\<lambda>(k, g). sum_list (map tr_net_profit g)) (group_by key ts)"
  unfolding pnl_by_groups by (auto dest!: group_by_mem simp: net_sum_exact exact_nets_filter simp flip: nets_def)

lemma exact_pnl: assumes "exact (nets ts)" shows "exact (map snd (pnl_by key ts))" "sum_list (map snd (pnl_by key ts)) = sum_list (nets ts)"
proof -
  show "sum_list (map snd (pnl_by key ts)) = sum_list (nets ts)" unfolding pnl_values [OF assms] sum_groups nets_def ..
  have "sum_list (map abs (map snd (pnl_by key ts))) \<le> sum_list (map (\<lambda>(k, g). sum_list (map (\<lambda>t. \<bar>tr_net_profit t\<bar>) g)) (group_by key ts))"
    unfolding pnl_values [OF assms] map_map
    by (rule sum_list_mono) (auto simp: case_prod_unfold comp_def intro: order.trans [OF abs_sum_list])
  also have "\<dots> = sum_list (map abs (nets ts))" by (simp add: sum_groups nets_def comp_def)
  finally have "sum_list (map abs (map snd (pnl_by key ts))) < 10 ^ 26" using assms by (simp add: exact_def)
  moreover have "list_all (scaled 2) (map snd (pnl_by key ts))"
    using assms by (auto simp: pnl_values list_all_iff exact_def nets_def dest!: group_by_mem intro!: scaled_sum_list [unfolded list_all_iff, rule_format])
  ultimately show "exact (map snd (pnl_by key ts))" by (simp add: exact_def)
qed

lemma curve_days: "map (\<lambda>(day, c, v). (day, v)) (curve_points r m) = map (\<lambda>(day, v). (day, to_float v)) m"
  by (induction r m rule: curve_points.induct) (simp_all add: Let_def)

lemma curve_last: "m \<noteq> [] \<Longrightarrow> fst (snd (last (curve_points r m))) = to_float (fold (\<lambda>x s. dec_add s x) (map snd m) r)"
proof (induction r m rule: curve_points.induct)
  case (2 r day v m)
  have "curve_points x m = [] \<longleftrightarrow> m = []" for x by (cases m) (auto simp: Let_def)
  with 2 show ?case by (cases "m = []") (simp_all add: Let_def)
qed simp

lemma equity_end: assumes "exact (nets ts)" "ts \<noteq> []" shows "fst (snd (last (equity_points env zone ts))) = to_float (net_sum ts)"
proof -
  let ?m = "sort_key fst (pnl_by (local_day env zone) ts)"
  have "?m \<noteq> []" using assms(2) by (simp add: sorted_pnl)
  then have "fst (snd (last (equity_points env zone ts))) = to_float (dec_sum (map snd ?m))"
    by (simp add: equity_points_def curve_last dec_sum_def)
  moreover have m: "mset (map snd ?m) = mset (map snd (pnl_by (local_day env zone) ts))" by simp
  have "dec_sum (map snd ?m) = sum_list (map snd ?m)"
    by (rule dec_sum_exact) (simp only: exact_mset [OF m] exact_pnl(1) [OF assms(1)])
  moreover have "sum_list (map snd ?m) = sum_list (nets ts)"
    by (simp only: sum_mset_sum_list [symmetric] m) (simp only: sum_mset_sum_list exact_pnl(2) [OF assms(1)])
  ultimately show ?thesis using assms(1) by (simp add: net_sum_exact)
qed

section \<open>The deepest fall\<close>

definition cum :: "rat list \<Rightarrow> nat \<Rightarrow> rat" where
  "cum xs i = sum_list (take i xs)"

text \<open>The largest difference between a running sum and a later one.\<close>

definition deepest_fall :: "rat list \<Rightarrow> rat" where
  "deepest_fall xs = Max ((\<lambda>(i, j). cum xs i - cum xs j) ` {(i, j). i \<le> j \<and> j \<le> length xs})"

lemma cum_snoc: "i \<le> length xs \<Longrightarrow> cum (xs @ [x]) i = cum xs i"
  by (simp add: cum_def)

lemma cum_bound: "exact xs \<Longrightarrow> i \<le> j \<Longrightarrow> scaled 2 (cum xs i - cum xs j) \<and> \<bar>cum xs i - cum xs j\<bar> < 10 ^ 26"
proof -
  assume e: "exact xs" and le: "i \<le> j"
  have "sum_list (take j xs) = sum_list (take i (take j xs)) + sum_list (drop i (take j xs))"
    by (metis append_take_drop_id sum_list.append)
  then have d: "cum xs i - cum xs j = - sum_list (drop i (take j xs))" using le by (simp add: cum_def min_def)
  have "sum_list (map abs (take j xs)) = sum_list (map abs (take i (take j xs))) + sum_list (map abs (drop i (take j xs)))"
    by (metis append_take_drop_id map_append sum_list.append)
  moreover have "0 \<le> sum_list (map abs (take i (take j xs)))" by (rule sum_abs_nonneg)
  moreover note abs_sum_list [of "drop i (take j xs)"] exact_take [OF e, of j]
  ultimately have "\<bar>cum xs i - cum xs j\<bar> < 10 ^ 26" unfolding d exact_def by simp
  moreover have "list_all (scaled 2) (drop i (take j xs))" using e by (auto simp: exact_def list_all_iff dest: in_set_dropD in_set_takeD)
  ultimately show ?thesis unfolding d by (simp add: scaled_minus scaled_sum_list)
qed

lemma falls_snoc: "deepest_fall (xs @ [x]) = max (deepest_fall xs) (Max (cum (xs @ [x]) ` {..Suc (length xs)}) - cum (xs @ [x]) (Suc (length xs)))"
proof -
  let ?n = "length xs" and ?ys = "xs @ [x]"
  let ?f = "\<lambda>zs (i, j). cum zs i - cum zs j" and ?P = "\<lambda>n. {(i, j). i \<le> j \<and> j \<le> (n :: nat)}"
  let ?c = "cum ?ys (Suc ?n)"
  have fin: "finite (?P n)" for n by (rule finite_subset [of _ "{..n} \<times> {..n}"]) auto
  have parts: "?P (Suc ?n) = ?P ?n \<union> (\<lambda>i. (i, Suc ?n)) ` {..Suc ?n}" by auto
  have "?f ?ys ` ?P ?n = ?f xs ` ?P ?n" by (rule image_cong) (auto simp: cum_snoc)
  moreover have "?f ?ys ` (\<lambda>i. (i, Suc ?n)) ` {..Suc ?n} = (\<lambda>y. y - ?c) ` cum ?ys ` {..Suc ?n}" by (simp add: image_image)
  ultimately have "?f ?ys ` ?P (Suc ?n) = ?f xs ` ?P ?n \<union> (\<lambda>y. y - ?c) ` cum ?ys ` {..Suc ?n}"
    unfolding parts image_Un by (simp only:)
  then have "deepest_fall ?ys = max (Max (?f xs ` ?P ?n)) (Max ((\<lambda>y. y - ?c) ` cum ?ys ` {..Suc ?n}))"
    unfolding deepest_fall_def using fin [of ?n] by (simp add: Max_Un) (subst Max_Un; auto)
  moreover have "Max ((\<lambda>y. y - ?c) ` cum ?ys ` {..Suc ?n}) = Max (cum ?ys ` {..Suc ?n}) - ?c"
    by (rule mono_Max_commute [symmetric]) (auto intro: monoI)
  ultimately show ?thesis by (simp add: deepest_fall_def)
qed

lemma peak_snoc: "Max (cum (xs @ [x]) ` {..Suc (length xs)}) = max (Max (cum xs ` {..length xs})) (sum_list (xs @ [x]))"
proof -
  have "cum (xs @ [x]) ` {..length xs} = cum xs ` {..length xs}" by (rule image_cong) (auto simp: cum_snoc)
  then have "cum (xs @ [x]) ` {..Suc (length xs)} = insert (sum_list (xs @ [x])) (cum xs ` {..length xs})"
    unfolding atMost_Suc image_insert by (simp add: cum_def)
  then show ?thesis by (simp add: max.commute)
qed

lemma drawdown_exact: "exact xs \<Longrightarrow> drawdown xs = (sum_list xs, Max (cum xs ` {..length xs}), deepest_fall xs)"
proof (induction xs rule: rev_induct)
  case Nil
  have "{(i, j). i \<le> j \<and> j \<le> (0 :: nat)} = {(0, 0)}" by auto
  then show ?case by (simp add: drawdown_def deepest_fall_def cum_def)
next
  case (snoc x xs)
  let ?ys = "xs @ [x]" and ?n = "length xs"
  let ?p = "Max (cum ?ys ` {..Suc ?n})" and ?c = "sum_list ?ys"
  have c: "cum ?ys (Suc ?n) = ?c" by (simp add: cum_def)
  have "?p \<in> cum ?ys ` {..Suc ?n}" by (rule Max_in) auto
  then obtain i where i: "?p = cum ?ys i" "i \<in> {..Suc ?n}" by (rule imageE)
  have p: "dec_sub ?p ?c = ?p - ?c" unfolding dec_sub_def i(1) c [symmetric]
    by (intro dec_round_scaled) (use cum_bound [OF snoc.prems, of i "Suc ?n"] i(2) in auto)
  have "drawdown xs = (sum_list xs, Max (cum xs ` {..?n}), deepest_fall xs)"
    using snoc exact_take [OF snoc.prems, of ?n] by simp
  moreover have "dec_add (sum_list xs) x = ?c"
    using dec_round_scaled [of ?c] scaled_sum_list [of ?ys] abs_sum_list [of ?ys] snoc.prems by (simp add: dec_add_def exact_def)
  ultimately have "drawdown ?ys = (?c, ?p, max (deepest_fall xs) (dec_sub ?p ?c))"
    unfolding peak_snoc by (simp add: drawdown_def drawdown_step_def Let_def)
  then show ?case by (simp only: p falls_snoc c length_append_singleton)
qed

section \<open>The calendar\<close>

lemma net_sum_snoc: "net_sum (g @ [t]) = dec_add (net_sum g) (tr_net_profit t)"
  by (simp add: net_sum_def nets_def dec_sum_def)

lemma net_sum_Nil [simp]: "net_sum [] = 0"
  by (simp add: net_sum_def nets_def dec_sum_def)

definition bucket_of :: "trade list \<Rightarrow> day_bucket" where
  "bucket_of g = (length g, net_sum g, length (winners g), length (losers g))"

definition bucket_step :: "day_bucket \<Rightarrow> trade \<Rightarrow> day_bucket" where
  "bucket_step b t = (let (n, pnl, wins, losses) = b; x = tr_net_profit t in
     (n + 1, dec_add pnl x, wins + (if 0 < x then 1 else 0), losses + (if x < 0 then 1 else 0)))"

lemma bucket_fold: "foldl bucket_step (0, 0, 0, 0) g = bucket_of g"
  by (induction g rule: rev_induct) (simp_all add: bucket_of_def bucket_step_def net_sum_snoc winners_def losers_def)

lemma calendar_groups: "calendar_map key ts = map (\<lambda>(k, g). (k, bucket_of g)) (group_by key ts)"
proof -
  have "count_trade key t m = AList.update (key t) (bucket_step (case map_of m (key t) of None \<Rightarrow> (0, 0, 0, 0) | Some g \<Rightarrow> g) t) m" for t m
    by (simp add: count_trade_def bucket_step_def Let_def case_prod_unfold)
  then have "calendar_map key ts = group_fold bucket_step (0, 0, 0, 0) key ts []"
    unfolding calendar_map_def group_fold_def by presburger
  then show ?thesis by (simp add: group_fold_groups bucket_fold)
qed

lemma sorted_calendar: "sort_key fst (calendar_map key ts)
    = map (\<lambda>k. (k, bucket_of (filter (\<lambda>t. key t = k) ts))) (sorted_list_of_set (key ` set ts))"
proof -
  have "sort_key fst (calendar_map key ts) = map (\<lambda>(k, g). (k, bucket_of g)) (sort_key fst (group_by key ts))"
    unfolding calendar_groups by (rule map_sort_key [symmetric]) (simp add: case_prod_unfold)
  then show ?thesis by (simp add: sorted_groups)
qed

text \<open>Every trade is in one group.\<close>

lemma filter_counts: "finite K \<Longrightarrow> key ` set ts \<subseteq> K \<Longrightarrow> (\<Sum>k\<in>K. length (filter (\<lambda>t. key t = k) ts)) = length ts"
proof (induction ts)
  case (Cons t ts)
  have "(\<Sum>k\<in>K. length (filter (\<lambda>s. key s = k) (t # ts))) = (\<Sum>k\<in>K. (if key t = k then 1 else 0) + length (filter (\<lambda>s. key s = k) ts))"
    by (rule sum.cong) auto
  also have "\<dots> = 1 + length ts" using Cons by (simp add: sum.distrib)
  finally show ?case by simp
qed simp

lemma filter_counts_list: "distinct ks \<Longrightarrow> key ` set ts \<subseteq> set ks \<Longrightarrow> sum_list (map (\<lambda>k. length (filter (\<lambda>t. key t = k) ts)) ks) = length ts"
  using filter_counts [of "set ks" key ts] by (simp add: sum_list_distinct_conv_sum_set)

section \<open>Curves within a day\<close>

lemma running_final: "snd (running_points env zone r ts) = fold (\<lambda>x s. dec_add s x) (nets ts) r"
  by (induction ts arbitrary: r) (simp_all add: nets_def Let_def case_prod_unfold)

lemma oldest_first_perm: "mset (oldest_first f k xs) = mset xs"
  by (simp add: oldest_first_def sorted_by_def)

lemma intraday_net: "exact (nets g) \<Longrightarrow> intraday_curve_day env zone (k, g)
    = (k, to_float (net_sum g), fst (running_points env zone 0 (oldest_first tr_closed_at tr_id g)))"
proof -
  assume e: "exact (nets g)"
  let ?s = "oldest_first tr_closed_at tr_id g"
  have m: "mset (nets ?s) = mset (nets g)" by (simp add: nets_def oldest_first_perm)
  have "snd (running_points env zone 0 ?s) = dec_sum (nets ?s)" by (simp add: running_final dec_sum_def)
  also have "\<dots> = sum_list (nets ?s)" by (rule dec_sum_exact) (simp only: exact_mset [OF m] e)
  also have "\<dots> = sum_list (nets g)" by (simp only: sum_mset_sum_list [symmetric] m)
  finally show ?thesis by (simp add: intraday_curve_day_def case_prod_unfold net_sum_exact [OF e])
qed

end
