(* ===== verification/Journal_Properties.thy ===== *)
theory Journal_Properties
  imports Journal_Invariant Journal_Totals
begin

text \<open>The properties of the trading journal: its invariant, its privacy, its notes, and the figures it shows.\<close>

section \<open>A small journal\<close>

definition books_env :: jn_env where
  "books_env = \<lparr>ne_acc = \<lparr>ve_iso = (\<lambda>_. None), ve_local_date = (\<lambda>_ t. t div seconds 86400), ve_zone_known = (\<lambda>_. True),
       ve_encrypt = Inr, ve_decrypt = Inr, ve_lookback_days = 30, ve_sync_cooldown_seconds = 60, ve_burst_window_seconds = 600,
       ve_burst_max_attempts = 1\<rparr>,
     ne_wall = (\<lambda>_ t. t), ne_midnight = (\<lambda>_ day. seconds (86400 * day)), ne_collate = (\<lambda>s. of_nat (length s)),
     ne_storage = \<lparr>sg_enabled = True, sg_put = (\<lambda>_ _. Inr ()), sg_presign = (\<lambda>s _. Inr s)\<rparr>, ne_voice_url_ttl = 60, ne_image_url_ttl = 60\<rparr>"

definition books_account :: "uuid \<Rightarrow> uuid \<Rightarrow> trading_account" where
  "books_account k u = new_account k 0 u ''MT5:Demo:5'' ''Broker'' ''Demo'' ''secret'' None
     \<lparr>cr_broker_name = None, cr_broker_login = ''5'', cr_broker_server = ''Demo'', cr_investor_password = ''secret'', cr_trader_password = None,
      cr_account_type = Account_live, cr_currency = ''USD'', cr_timezone = ''UTC'', cr_broker_utc_offset = 0, cr_display_name = None\<rparr>"

text \<open>A trade closed some hours after the beginning of the day 1, with a profit in cents.\<close>

definition books_trade :: "uuid \<Rightarrow> uuid \<Rightarrow> string \<Rightarrow> int \<Rightarrow> int \<Rightarrow> trade" where
  "books_trade k a ticket hour cents = stored_trade k 0 a ticket ''EURUSD'' Direction_sell (2, 1, 1) (of_int cents / 100, 0, 0)
     (seconds 86400, seconds (86400 + 3600 * hour)) no_enrichment"

text \<open>The accounts of the users 7 and 8 with two trades, on two days, and one.\<close>

definition books :: journal_db where
  "books = \<lparr>hd_core = \<lparr>kd_accounts = [books_account 1 7, books_account 2 8], kd_trades = [books_trade 5 1 ''9'' 9 1250, books_trade 6 2 ''9'' 9 400, books_trade 7 1 ''10'' 33 (- 2000)],
       kd_snapshots = [], kd_dispatches = [], kd_servers = []\<rparr>, hd_days = [], hd_entries = [], hd_messages = [], hd_attachments = [],
     hd_templates = [], hd_groups = [], hd_tags = [], hd_trade_tags = [], hd_setups = []\<rparr>"

definition books_rq :: "uuid \<Rightarrow> uuid \<Rightarrow> jn_rq" where
  "books_rq base u = \<lparr>jq_now = seconds 200000, jq_user = u, jq_draw = (\<lambda>n. base + of_nat n), jq_file = None\<rparr>"

definition books_imports :: import_env where
  "books_imports = \<lparr>vi_prints = (\<lambda>_. []), vi_strptime = (\<lambda>_. None), vi_zone_to_utc = (\<lambda>_ t. t)\<rparr>"

lemma books_ok: "journal_ok books"
proof -
  have "acc_ok (hd_core books)"
    by (simp add: books_def acc_ok_def account_rows_ok_def books_account_def new_account_def account_ok_def meta_ok_def prefix_def
        trades_ok_def trade_fits_def snapshots_ok_def dispatches_ok_def account_ids_def books_trade_def) (simp add: stored_trade_def trade_key_def)
  then show ?thesis
    by (simp add: journal_ok_def days_ok_def entries_ok_def messages_ok_def attachments_ok_def templates_ok_def groups_ok_def tags_ok_def
        trade_tags_ok_def setups_ok_def) (simp add: books_def)
qed

section \<open>The tables\<close>

text \<open>
  Property C34. Whatever sequence of requests, seedings and changes of the accounts the journal goes through, its
  tables keep their keys unique and refer to rows that are there: a message is in one journal and by the user whose
  journal it is in, or by the system; the entry of a trade is in the day of the account of that trade, with its
  scores in range; a group holds the tags of its own user, and a trade carries the tags of its own user or of the system.
\<close>

theorem journal_stays_consistent:
  assumes "(journal_step env ie)\<^sup>*\<^sup>* w w'" "journal_ok (jw_db w)"
  shows "journal_ok (jw_db w')"
  by (rule journals.reachable_inv [OF assms(2,1)])

definition rated_books :: journal_db where
  "rated_books = journal_run books_env (books_rq 20 7) (Rate_trade 5 4) books"

lemma run_rate: "journal_run env q (Rate_trade t n) d = (if in_range 1 5 n then or_db d (map_Inr snd (update_trade_rating q t n d)) else d)"
  by (simp add: journal_run_def valid_body_def journal_handle_def)

lemma rated_books_facts: "map (\<lambda>j. (tj_trade_id j, tj_rating j)) (hd_entries rated_books) = [(5, Some 4)]"
  unfolding rated_books_def run_rate by code_simp

theorem journal_stays_consistent_witness:
  "journal_ok rated_books \<and> map (\<lambda>j. (tj_trade_id j, tj_rating j)) (hd_entries rated_books) = [(5, Some 4)]"
proof -
  let ?w = "\<lparr>jw_db = books, jw_queue = []\<rparr>"
  have "(journal_step books_env books_imports)\<^sup>*\<^sup>* ?w (?w \<lparr>jw_db := rated_books\<rparr>)"
    using journal_step.request [of books_env books_imports ?w "books_rq 20 7" "Rate_trade 5 4"] by (auto simp: rated_books_def)
  from journal_stays_consistent [OF this] show ?thesis using rated_books_facts by (simp add: books_ok)
qed

text \<open>
  Property C35. A request of one user changes no row of another: their trades, days, entries, messages, attachments,
  templates, groups, tags, tags of trades and setups are as before, whether the request succeeds, is refused, or
  fails half way.
\<close>

theorem journals_are_private:
  assumes "journal_ok d" "v \<noteq> jq_user q"
  shows "journal_rows v (journal_run env q c d) = journal_rows v d"
  by (rule updates_frame [OF journal_run_updates [OF assms(1)] assms])

theorem journals_are_private_witness:
  "journal_rows 8 rated_books = journal_rows 8 books \<and> map tr_id (ur_trades (journal_rows 8 books)) = [6] \<and> hd_entries rated_books \<noteq> hd_entries books"
proof -
  have "map tr_id (ur_trades (journal_rows 8 books)) = [6]" by code_simp
  moreover have "hd_entries rated_books \<noteq> hd_entries books" using rated_books_facts by (auto simp: books_def)
  ultimately show ?thesis using journals_are_private [OF books_ok, of 8 "books_rq 20 7" books_env "Rate_trade 5 4"]
    by (auto simp: rated_books_def books_rq_def)
qed

section \<open>Notes\<close>

lemma day_found: "days_ok d \<Longrightarrow> j \<in> set (hd_days d) \<Longrightarrow> dj_account_id j = a \<Longrightarrow> dj_trading_date j = day \<Longrightarrow>
  get_daily_journal_by_account_and_date d a day = Some j"
  using row_get_in [of "\<lambda>j. (dj_account_id j, dj_trading_date j)" "hd_days d" j]
  by (simp add: get_daily_journal_by_account_and_date_def days_ok_def row_get_def)

lemma entry_found: "entries_ok d \<Longrightarrow> j \<in> set (hd_entries d) \<Longrightarrow> tj_trade_id j = t \<Longrightarrow> get_trade_journal_by_trade_id d t = Some j"
  using row_get_in [of tj_trade_id "hd_entries d" j] by (simp add: get_trade_journal_by_trade_id_def entries_ok_def)

lemma in_row_put: "x \<in> set xs \<Longrightarrow> key x = key r \<Longrightarrow> r \<in> set (row_put key r xs)"
  by (force simp: row_put_def)

lemma bare_entry_facts:
  assumes "bare_entry q t d = Inr (j, e)"
  shows "j \<in> set (hd_entries e)" "tj_trade_id j = t" "hd_core e = hd_core d" "hd_messages e = hd_messages d"
    "get_trade_journal_by_trade_id d t = None \<Longrightarrow> tj_daily_journal_id j = None \<and> tj_id j \<notin> tj_id ` set (hd_entries d)"
proof -
  obtain tr new where "get_or_create_trade_journal_by_trade_id (jq_draw q 0) (jq_now q) t None d = Inr ((j, new), e)"
    using assms by (auto simp: bare_entry_def bind_Inr_eq map_Inr_eq)
  then show "j \<in> set (hd_entries e)" "tj_trade_id j = t" "hd_core e = hd_core d" "hd_messages e = hd_messages d"
    "get_trade_journal_by_trade_id d t = None \<Longrightarrow> tj_daily_journal_id j = None \<and> tj_id j \<notin> tj_id ` set (hd_entries d)"
    by (auto simp: get_or_create_trade_journal_by_trade_id_def Let_def taken_def get_trade_journal_by_trade_id_def row_get_None
        split: option.splits if_splits dest: row_get_mem)
qed

text \<open>What an assignment of the entry of a trade leaves.\<close>

lemma assigned_entry:
  assumes "bare_entry q t d = Inr (j, e)" "same_entry j (f j)" "journal_ok (put_entry (f j) e)"
  shows "get_trade_journal_by_trade_id (put_entry (f j) e) t = Some (f j)"
proof (rule entry_found)
  note facts = bare_entry_facts [OF assms(1)]
  show "f j \<in> set (hd_entries (put_entry (f j) e))" "tj_trade_id (f j) = t"
    using facts(1,2) assms(2) by (auto simp: put_entry_def same_entry_def intro: in_row_put)
  show "entries_ok (put_entry (f j) e)" using assms(3) by (simp add: journal_ok_def)
qed

lemma validated_core: "hd_core e = hd_core d \<Longrightarrow> validate_trade_ownership e u t = validate_trade_ownership d u t"
  by (simp add: validate_trade_ownership_def get_trade_by_id_def cong: option.case_cong)

lemma bare_entry_valid: "bare_entry q t d = Inr p \<Longrightarrow> \<exists>tr. validate_trade_ownership d (jq_user q) t = Inr tr"
  by (auto simp: bare_entry_def bind_Inr_eq)

lemma trade_note_saved:
  assumes "save_trade_note q t note d = Inr (r, e)" "journal_ok d"
  shows "\<exists>j. get_trade_journal_by_trade_id e t = Some j \<and> trade_note_of t j = (t, blank_to_none note, Some (jq_now q))"
    "hd_core e = hd_core d" "\<exists>tr. validate_trade_ownership d (jq_user q) t = Inr tr"
proof -
  obtain j d1 where b: "bare_entry q t d = Inr (j, d1)" and e: "e = put_entry (noted (jq_now q) note j) d1"
    using assms(1) by (auto simp: save_trade_note_def map_Inr_eq assign_entry_def Let_def)
  have "journal_ok e" by (rule updates_ok [OF updates_entry_requests(3) [OF assms(2,1)] assms(2)])
  then show "\<exists>j. get_trade_journal_by_trade_id e t = Some j \<and> trade_note_of t j = (t, blank_to_none note, Some (jq_now q))"
    using assigned_entry [OF b, of "noted (jq_now q) note"] by (simp add: e same_entry_def noted_def trade_note_of_def)
  show "hd_core e = hd_core d" "\<exists>tr. validate_trade_ownership d (jq_user q) t = Inr tr"
    using bare_entry_facts(3) [OF b] bare_entry_valid [OF b] by (simp_all add: e put_entry_def)
qed

lemma day_note_saved:
  assumes "save_day_note q a day note d = Inr (r, e)" "journal_ok d"
  shows "\<exists>j. get_daily_journal_by_account_and_date e a day = Some j
      \<and> day_note_of j = \<lparr>nt_trading_date = day, nt_note_html = blank_to_none note, nt_note_updated_at = Some (jq_now q)\<rparr>"
    "hd_core e = hd_core d" "hd_entries e = hd_entries d" "\<exists>x. get_account_or_404 d a (jq_user q) = Inr x"
proof -
  obtain x j d1 where o: "open_day q a day d = Inr ((x, j), d1)" and e: "e = put_day (note_day (jq_now q) note j) d1"
    using assms(1) by (auto simp: save_day_note_def map_Inr_eq Let_def)
  then have g: "repo_get_or_create_daily_journal (jq_draw q 0) (jq_now q) a day d = Inr (j, d1)" "get_account_or_404 d a (jq_user q) = Inr x"
    by (auto simp: open_day_def bind_Inr_eq map_Inr_eq)
  then have d1: "j \<in> set (hd_days d1)" "dj_account_id j = a" "dj_trading_date j = day" "hd_core d1 = hd_core d" "hd_entries d1 = hd_entries d"
    by (auto simp: repo_get_or_create_daily_journal_def Let_def taken_def get_daily_journal_by_account_and_date_def split: option.splits if_splits
        dest: find_SomeD)
  let ?k = "note_day (jq_now q) note j"
  have "days_ok e" using updates_ok [OF updates_day_note [OF assms] assms(2)] by (simp add: journal_ok_def)
  moreover have "?k \<in> set (hd_days e)" unfolding e put_day_def using in_row_put [OF d1(1), of dj_id ?k] by (simp add: note_day_def)
  ultimately have "get_daily_journal_by_account_and_date e a day = Some ?k" using d1 by (intro day_found) (simp_all add: note_day_def)
  then show "\<exists>j. get_daily_journal_by_account_and_date e a day = Some j
      \<and> day_note_of j = \<lparr>nt_trading_date = day, nt_note_html = blank_to_none note, nt_note_updated_at = Some (jq_now q)\<rparr>"
    using d1(3) by (simp add: day_note_of_def note_day_def)
  show "hd_core e = hd_core d" "hd_entries e = hd_entries d" "\<exists>x. get_account_or_404 d a (jq_user q) = Inr x" using d1 g by (simp_all add: e put_day_def)
qed

text \<open>
  Property C36. A note that is saved is what its author reads later, stripped of outer white space and none if that
  leaves nothing: the note of a trade, which a note of a day saved afterwards does not touch, and the note of a day.
  Reading changes nothing.
\<close>

theorem notes_round_trip:
  assumes "journal_ok d" "jq_user q' = jq_user q" "save_trade_note q t note d = Inr (r, d1)" "save_day_note q a day html d1 = Inr (s, d2)"
  shows "get_trade_note q' t d2 = Inr ((t, blank_to_none note, Some (jq_now q)), d2)
    \<and> get_day_note q' a day d2 = Inr (\<lparr>nt_trading_date = day, nt_note_html = blank_to_none html, nt_note_updated_at = Some (jq_now q)\<rparr>, d2)"
proof -
  have ok: "journal_ok d1" by (rule updates_ok [OF updates_entry_requests(3) [OF assms(1,3)] assms(1)])
  note t = trade_note_saved [OF assms(3,1)] and day = day_note_saved [OF assms(4) ok]
  obtain j where j: "get_trade_journal_by_trade_id d1 t = Some j" "trade_note_of t j = (t, blank_to_none note, Some (jq_now q))" using t(1) by blast
  obtain tr where "validate_trade_ownership d (jq_user q) t = Inr tr" using t(3) by blast
  then have "validate_trade_ownership d2 (jq_user q') t = Inr tr" using validated_core [of d2 d] day(2) t(2) assms(2) by simp
  moreover have "get_trade_journal_by_trade_id d2 t = Some j" using j(1) day(3) by (simp add: get_trade_journal_by_trade_id_def)
  ultimately have "get_trade_note q' t d2 = Inr (trade_note_of t j, d2)"
    by (simp add: get_trade_note_def bare_entry_def get_or_create_trade_journal_by_trade_id_def)
  moreover obtain k where k: "get_daily_journal_by_account_and_date d2 a day = Some k"
      "day_note_of k = \<lparr>nt_trading_date = day, nt_note_html = blank_to_none html, nt_note_updated_at = Some (jq_now q)\<rparr>" using day(1) by blast
  obtain x where "get_account_or_404 d1 a (jq_user q) = Inr x" using day(4) by blast
  then have "get_account_or_404 d2 a (jq_user q') = Inr x" using day(2) assms(2) by (simp add: get_account_or_404_def)
  then have "get_day_note q' a day d2 = Inr (day_note_of k, d2)"
    using k(1) by (simp add: get_day_note_def open_day_def repo_get_or_create_daily_journal_def)
  ultimately show ?thesis using j(2) k(2) by simp
qed

definition books_saved :: "((uuid \<times> string option \<times> int option) \<times> journal_db) result" where
  "books_saved = save_trade_note (books_rq 20 7) 5 (Some '' good '') books"

definition books_day_saved :: "(day_note \<times> journal_db) result" where
  "books_day_saved = bind_Inr books_saved (\<lambda>(_, d). save_day_note (books_rq 20 7) 1 1 (Some ''  '') d)"

lemma books_day_saved_Inr: "is_ok books_day_saved"
  by code_simp

theorem notes_round_trip_witness:
  "\<exists>r d1 s d2. save_trade_note (books_rq 20 7) 5 (Some '' good '') books = Inr (r, d1)
    \<and> save_day_note (books_rq 20 7) 1 1 (Some ''  '') d1 = Inr (s, d2)
    \<and> get_trade_note (books_rq 40 7) 5 d2 = Inr ((5, Some ''good'', Some (seconds 200000)), d2)
    \<and> get_day_note (books_rq 40 7) 1 1 d2 = Inr (\<lparr>nt_trading_date = 1, nt_note_html = None, nt_note_updated_at = Some (seconds 200000)\<rparr>, d2)"
proof -
  obtain r d1 s d2 where saved: "save_trade_note (books_rq 20 7) 5 (Some '' good '') books = Inr (r, d1)"
      "save_day_note (books_rq 20 7) 1 1 (Some ''  '') d1 = Inr (s, d2)"
    using books_day_saved_Inr unfolding books_day_saved_def books_saved_def
    by (cases "save_trade_note (books_rq 20 7) 5 (Some '' good '') books") (auto simp: is_ok_def split: sum.splits)
  have "blank_to_none (Some '' good '') = Some ''good''" "blank_to_none (Some ''  '') = None" by code_simp+
  then have "get_trade_note (books_rq 40 7) 5 d2 = Inr ((5, Some ''good'', Some (seconds 200000)), d2)
      \<and> get_day_note (books_rq 40 7) 1 1 d2 = Inr (\<lparr>nt_trading_date = 1, nt_note_html = None, nt_note_updated_at = Some (seconds 200000)\<rparr>, d2)"
    using notes_round_trip [OF books_ok _ saved, of "books_rq 40 7"] by (simp add: books_rq_def)
  with saved show ?thesis by blast
qed

section \<open>A trade rated before its journal is opened\<close>

lemma row_get_assoc: "map (\<lambda>r. (key r, f r)) xs = map (\<lambda>r. (key r, f r)) ys \<Longrightarrow> map_option f (row_get key k xs) = map_option f (row_get key k ys)"
proof (induction xs arbitrary: ys)
  case (Cons x xs)
  then obtain y zs where "ys = y # zs" "key x = key y" "f x = f y" "map (\<lambda>r. (key r, f r)) xs = map (\<lambda>r. (key r, f r)) zs" by (cases ys) auto
  with Cons.IH [of zs] show ?case by (simp add: row_get_def)
qed simp

text \<open>The link of an entry to the journal of its day is what it was when the entry was made.\<close>

lemma link_kept: "jn_update u d e \<Longrightarrow> entries_ok d \<Longrightarrow> get_trade_journal_by_trade_id d t = Some j \<Longrightarrow>
  \<exists>k. get_trade_journal_by_trade_id e t = Some k \<and> tj_id k = tj_id j \<and> tj_daily_journal_id k = tj_daily_journal_id j"
proof (induction rule: jn_update.induct)
  case (put_entry x d k)
  let ?f = "\<lambda>r. (tj_id r, tj_daily_journal_id r)"
  have keys: "tj_trade_id k = tj_trade_id x" "?f k = ?f x" using put_entry(3) by (auto simp: same_entry_def)
  have "map (\<lambda>r. (tj_trade_id r, ?f r)) (row_put tj_id k (hd_entries d)) = map (\<lambda>r. (tj_trade_id r, ?f r)) (hd_entries d)"
    using put_entry(1,3,5) keys by (intro map_row_put [of tj_id _ x]) (auto simp: entries_ok_def same_entry_def)
  then have "map_option ?f (row_get tj_trade_id t (row_put tj_id k (hd_entries d))) = map_option ?f (row_get tj_trade_id t (hd_entries d))"
    by (rule row_get_assoc)
  then have "map_option ?f (get_trade_journal_by_trade_id (Journal_Tables.put_entry k d) t) = Some (?f j)"
    using put_entry(6) by (simp add: get_trade_journal_by_trade_id_def put_entry_def)
  then show ?case by (cases "get_trade_journal_by_trade_id (Journal_Tables.put_entry k d) t") auto
qed (simp_all add: get_trade_journal_by_trade_id_def put_day_def put_message_def repo_delete_message_def put_group_def delete_group_def
    reorder_groups_def put_tag_def repo_delete_tag_def drop_tags_def repo_reorder_tags_def repo_delete_setup_def repo_reorder_setups_def set_trade_setup_def)

lemma links_kept: "jn_updates u d e \<Longrightarrow> journal_ok d \<Longrightarrow> get_trade_journal_by_trade_id d t = Some j \<Longrightarrow>
  \<exists>k. get_trade_journal_by_trade_id e t = Some k \<and> tj_id k = tj_id j \<and> tj_daily_journal_id k = tj_daily_journal_id j"
proof (induction rule: rtranclp_induct)
  case (step e f)
  then obtain k where k: "get_trade_journal_by_trade_id e t = Some k" "tj_id k = tj_id j" "tj_daily_journal_id k = tj_daily_journal_id j" by blast
  have "entries_ok e" using updates_ok [OF step(1,4)] by (simp add: journal_ok_def)
  from link_kept [OF step(2) this k(1)] k(2,3) show ?case by simp
qed simp

lemma requests_keep_links:
  assumes "(\<lambda>d e. \<exists>q c. e = journal_run env q c d)\<^sup>*\<^sup>* d e" "journal_ok d" "get_trade_journal_by_trade_id d t = Some j"
  shows "journal_ok e \<and> (\<exists>k. get_trade_journal_by_trade_id e t = Some k \<and> tj_id k = tj_id j \<and> tj_daily_journal_id k = tj_daily_journal_id j)"
  using assms
proof (induction rule: rtranclp_induct)
  case (step e f)
  then obtain q c where f: "f = journal_run env q c e" by blast
  from step obtain k where k: "journal_ok e" "get_trade_journal_by_trade_id e t = Some k" "tj_id k = tj_id j" "tj_daily_journal_id k = tj_daily_journal_id j"
    by blast
  note u = journal_run_updates [OF k(1), of q env c, folded f]
  from links_kept [OF u k(1,2)] updates_ok [OF u k(1)] k(3,4) show ?case by simp
qed simp

text \<open>Messages are in journals that are there.\<close>

lemma no_messages:
  assumes "messages_ok d" "k \<notin> tj_id ` set (hd_entries d)"
  shows "list_messages_by_trade_journal d k = []"
proof -
  have "jm_trade_journal_id m \<noteq> Some k" if "m \<in> set (hd_messages d)" for m
  proof
    assume k: "jm_trade_journal_id m = Some k"
    have fits: "one_context m" "message_account d m \<noteq> None" using that assms(1) by (auto simp: messages_ok_def list_all_iff message_fits_def)
    have "row_get tj_id k (hd_entries d) = None" using assms(2) by (simp add: row_get_None)
    then show False using fits k by (auto simp: one_context_def message_account_def entry_account_def split: option.splits)
  qed
  then show ?thesis by (simp add: list_messages_by_trade_journal_def oldest_first_def sorted_by_def filter_False)
qed

text \<open>
  Property C37. A trade that is rated before its journal is first opened never enters the journal of its day: whatever
  is asked of the journal later, by anybody, the entry of the trade has no day; and opening the journal of the trade
  afterwards adds nothing, so that it starts without the message of the system which every other one starts with.
\<close>

theorem rated_first_stays_outside:
  assumes "journal_ok d" "get_trade_journal_by_trade_id d t = None" "in_range 1 5 n" "update_trade_rating q t n d = Inr (r, d1)"
    "(\<lambda>d e. \<exists>q c. e = journal_run env q c d)\<^sup>*\<^sup>* d1 e"
  shows "map_option tj_daily_journal_id (get_trade_journal_by_trade_id e t) = Some None
    \<and> map_option (\<lambda>j. list_messages_by_trade_journal d1 (tj_id j)) (get_trade_journal_by_trade_id d1 t) = Some []
    \<and> snd (service_get_or_create_trade_journal env q' t d1) = d1"
proof -
  obtain j d0 where b: "bare_entry q t d = Inr (j, d0)" and d1: "d1 = put_entry (rated n j) d0"
    using assms(4) by (auto simp: update_trade_rating_def map_Inr_eq assign_entry_def Let_def)
  have ok: "journal_ok d1" by (rule updates_ok [OF updates_entry_requests(1) [OF assms(1,3,4)] assms(1)])
  have g: "get_trade_journal_by_trade_id d1 t = Some (rated n j)"
    using assigned_entry [OF b, of "rated n"] ok by (simp add: d1 rated_def same_entry_def)
  note facts = bare_entry_facts [OF b]
  have link: "tj_daily_journal_id (rated n j) = None" "tj_id (rated n j) = tj_id j" "tj_id j \<notin> tj_id ` set (hd_entries d)"
    using facts(5) assms(2) by (simp_all add: rated_def)
  have "list_messages_by_trade_journal d1 (tj_id j) = list_messages_by_trade_journal d (tj_id j)"
    using facts(4) by (simp add: list_messages_by_trade_journal_def d1 put_entry_def)
  also have "\<dots> = []" using no_messages link(3) assms(1) by (simp add: journal_ok_def)
  finally have none: "list_messages_by_trade_journal d1 (tj_id j) = []" .
  have "\<not> new" if opened: "open_trade_journal env q' t d1 = Inr ((k, new), f)" for k new f
  proof -
    obtain tr a day d2 y where o: "get_trade_owned_by_user d1 t (jq_user q') = Inr (tr, a)"
        "repo_get_or_create_daily_journal (jq_draw q' 0) (jq_now q') (ta_id a) (to_account_local_date (ne_acc env) (tr_closed_at tr) (ta_timezone a)) d1 = Inr (day, d2)"
        "get_or_create_trade_journal_by_trade_id (jq_draw q' 1) (jq_now q') (tr_id tr) (Some (dj_id day)) d2 = Inr ((k, new), y)"
      using opened by (auto simp: open_trade_journal_def bind_Inr_eq map_Inr_eq split: if_splits)
    have "tr_id tr = t" using owned_trade [OF _ o(1)] ok by (simp add: journal_ok_def)
    moreover have "hd_entries d2 = hd_entries d1" using o(2)
      by (auto simp: repo_get_or_create_daily_journal_def Let_def taken_def split: option.splits if_splits)
    ultimately have "get_trade_journal_by_trade_id d2 (tr_id tr) = Some (rated n j)" using g by (simp add: get_trade_journal_by_trade_id_def)
    with o(3) show ?thesis by (simp add: get_or_create_trade_journal_by_trade_id_def)
  qed
  then have "snd (service_get_or_create_trade_journal env q' t d1) = d1"
    by (auto simp: service_get_or_create_trade_journal_def split: sum.splits prod.splits)
  moreover have "map_option tj_daily_journal_id (get_trade_journal_by_trade_id e t) = Some None"
    using requests_keep_links [OF assms(5) ok g] link(1) by auto
  ultimately show ?thesis using g link none by simp
qed

theorem rated_first_stays_outside_witness:
  "\<exists>r d1. update_trade_rating (books_rq 20 7) 5 4 books = Inr (r, d1)
    \<and> map_option tj_daily_journal_id (get_trade_journal_by_trade_id (journal_run books_env (books_rq 60 7) (Open_trade_journal 5) d1) 5) = Some None
    \<and> snd (service_get_or_create_trade_journal books_env (books_rq 60 7) 5 d1) = d1"
proof -
  have "is_ok (update_trade_rating (books_rq 20 7) 5 4 books)" by code_simp
  then obtain r d1 where r: "update_trade_rating (books_rq 20 7) 5 4 books = Inr (r, d1)"
    by (cases "update_trade_rating (books_rq 20 7) 5 4 books") auto
  have "get_trade_journal_by_trade_id books 5 = None" "in_range 1 5 4" by (simp_all add: books_def get_trade_journal_by_trade_id_def row_get_def in_range_def)
  moreover have "(\<lambda>d e. \<exists>q c. e = journal_run books_env q c d)\<^sup>*\<^sup>* d1 (journal_run books_env (books_rq 60 7) (Open_trade_journal 5) d1)"
    by (rule r_into_rtranclp) blast
  ultimately show ?thesis using rated_first_stays_outside [OF books_ok _ _ r] r by blast
qed

end
