(* ===== verification/Journal_Figures.thy ===== *)
theory Journal_Figures
  imports Journal_Properties
begin

text \<open>The properties of the statistics: the figures of the endpoints agree, and each is what its name says.\<close>

section \<open>The trades of a window\<close>

lemma account_id_404: "get_account_or_404 d a u = Inr x \<Longrightarrow> ta_id x = a"
  by (auto simp: get_account_or_404_def http_raise_def get_account_by_id_for_user_def split: option.splits dest: find_SomeD)

definition amounts :: "journal_db \<Rightarrow> rat" where
  "amounts d = sum_list (map (\<lambda>t. \<bar>tr_net_profit t\<bar>) (kd_trades (hd_core d)))"

lemma exact_window: "journal_ok d \<Longrightarrow> amounts d < 10 ^ 26 \<Longrightarrow> exact (nets (filter P (kd_trades (hd_core d))))"
  by (rule exact_nets_filter)
    (auto simp: exact_def nets_def amounts_def comp_def journal_ok_def acc_ok_def trades_ok_def trade_fits_def trade_typed_def list_all_iff)

lemma exact_perm: "mset ts = mset us \<Longrightarrow> exact (nets ts) = exact (nets us)"
  by (rule exact_mset) (simp add: nets_def)

lemma exact_analytics: "journal_ok d \<Longrightarrow> amounts d < 10 ^ 26 \<Longrightarrow> exact (nets (analytics_trades env d x from until))"
  unfolding analytics_trades_def list_trade_rows_for_analytics_def exact_perm [OF oldest_first_perm] by (rule exact_window)

lemma pnl_perm: "mset ts = mset us \<Longrightarrow> exact (nets ts) \<Longrightarrow> sort_key fst (pnl_by key ts) = sort_key fst (pnl_by key us)"
  for key :: "trade \<Rightarrow> int"
proof -
  assume m: "mset ts = mset us" and e: "exact (nets ts)"
  have eu: "exact (nets us)" using e exact_perm [OF m] by simp
  have "net_sum (filter P ts) = net_sum (filter P us)" for P
  proof -
    have "mset (nets (filter P ts)) = mset (nets (filter P us))" by (simp add: nets_def mset_filter m)
    then have "sum_mset (mset (nets (filter P ts))) = sum_mset (mset (nets (filter P us)))" by (rule arg_cong)
    then show ?thesis by (simp only: sum_mset_sum_list net_sum_exact [OF exact_nets_filter [OF e]] net_sum_exact [OF exact_nets_filter [OF eu]])
  qed
  moreover have "set ts = set us" by (rule mset_eq_setD [OF m])
  ultimately show ?thesis by (simp add: sorted_pnl)
qed

lemma equity_days: "map (\<lambda>(day, c, v). (day, v)) (equity_points env zone ts)
    = map (\<lambda>k. (k, to_float (net_sum (filter (\<lambda>t. local_day env zone t = k) ts)))) (sorted_list_of_set (local_day env zone ` set ts))"
  by (simp add: equity_points_def curve_days sorted_pnl)

lemma calendar_days: "map (\<lambda>c. (cd_date c, cd_total_pnl c)) (map (calendar_day_of active) (sort_key fst (calendar_map (local_day env zone) ts)))
    = map (\<lambda>(day, c, v). (day, v)) (equity_points env zone ts)"
  by (simp add: equity_days sorted_calendar calendar_day_of_def bucket_of_def)

lemma calendar_counts: "sum_list (map cd_trade_count (map (calendar_day_of active) (sort_key fst (calendar_map key ts)))) = length ts"
  by (simp add: sorted_calendar calendar_day_of_def bucket_of_def comp_def filter_counts_list)

lemma intraday_days: "exact (nets ts) \<Longrightarrow>
    map (\<lambda>(day, net, ps). (day, net)) (map (intraday_curve_day env zone) (sort_key fst (group_by (local_day env zone) ts)))
    = map (\<lambda>(day, c, v). (day, v)) (equity_points env zone ts)"
  by (simp add: equity_days sorted_groups comp_def intraday_net exact_nets_filter)

lemma dashboard_calendar:
  "\<exists>active. db_calendar (dashboard_of env d zone key single ts st recent from by_open) = map (calendar_day_of active) (sort_key fst (calendar_map key ts))"
  unfolding dashboard_of_def Let_def by (simp only: analytics_dashboard.simps) (rule exI, rule refl)

lemma dashboard_summary: "db_summary (dashboard_of env d zone key single ts st recent from by_open) = compute_summary ts st"
  by (simp add: dashboard_of_def Let_def)

section \<open>The figures agree\<close>

text \<open>
  Property C38. The endpoints of the statistics tell the same story of a window: the equity curve ends at the total
  profit of the summary, the calendar of the dashboard and the curves within the days give every day the profit the
  equity curve gives it, on the same days, and the calendar counts every trade once. The amounts are in cents, as
  the columns hold them, and add up to less than 10^26, so that Python's decimals are exact.
\<close>

theorem figures_agree:
  assumes "journal_ok d" "amounts d < 10 ^ 26"
    and "get_analytics_summary env d a u from until = Inr s" "get_analytics_equity_curve env d a u from until = Inr points"
    and "get_analytics_dashboard env d (Some a) u from until limit by_open = Inr b" "get_analytics_intraday_curves env d a u from until = Inr days"
  shows "db_summary b = s \<and> (points = [] \<or> fst (snd (last points)) = sm_total_net_pnl s)
    \<and> map (\<lambda>c. (cd_date c, cd_total_pnl c)) (db_calendar b) = map (\<lambda>(day, c, v). (day, v)) points
    \<and> map (\<lambda>(day, net, ps). (day, net)) days = map (\<lambda>(day, c, v). (day, v)) points
    \<and> sum_list (map cd_trade_count (db_calendar b)) = sm_total_trades s"
proof -
  obtain x where x: "get_account_or_404 d a u = Inr x" using assms(3) by (auto simp: get_analytics_summary_def map_Inr_eq)
  define ts where "ts = analytics_trades env d x from until"
  have e: "exact (nets ts)" unfolding ts_def by (rule exact_analytics [OF assms(1,2)])
  have s: "s = compute_summary ts (estimate_starting_balance d x)" using assms(3) x by (simp add: get_analytics_summary_def ts_def)
  have p: "points = equity_points env (ta_timezone x) ts" using assms(4) x by (simp add: get_analytics_equity_curve_def ts_def)
  have days: "days = map (intraday_curve_day env (ta_timezone x)) (sort_key fst (group_by (local_day env (ta_timezone x)) ts))"
    using assms(6) x by (simp add: get_analytics_intraday_curves_def ts_def)
  have "list_trade_rows_for_analytics d [a] (resolve_date_window env from until (ta_timezone x)) = ts"
    using account_id_404 [OF x] by (simp add: ts_def analytics_trades_def)
  then have dash: "b = dashboard_of env d (ta_timezone x) (local_day env (ta_timezone x)) (Some a) ts (estimate_starting_balance d x)
      (list_recent_trades_for_dashboard d [a] (resolve_date_window env from until (ta_timezone x)) limit) from by_open"
    using assms(5) x by (simp add: get_analytics_dashboard_def Let_def)
  obtain active where b: "db_summary b = s" "db_calendar b = map (calendar_day_of active) (sort_key fst (calendar_map (local_day env (ta_timezone x)) ts))"
    using dashboard_calendar unfolding dash s dashboard_summary by blast
  have "points = [] \<or> fst (snd (last points)) = sm_total_net_pnl s"
    using equity_end [OF e, of env "ta_timezone x"] by (cases "ts = []") (auto simp: p s compute_summary_def Let_def equity_points_def pnl_by_def)
  then show ?thesis
    unfolding b calendar_counts calendar_days days intraday_days [OF e] p by (simp add: s compute_summary_def Let_def)
qed

lemma books_amounts: "amounts books < 10 ^ 26"
  by code_simp

lemma books_404: "get_account_or_404 books 1 7 = Inr (books_account 1 7)"
  by (simp add: get_account_or_404_def get_account_by_id_for_user_def books_def books_account_def new_account_def)

lemma books_trades: "set (analytics_trades books_env books (books_account 1 7) None None) = {books_trade 5 1 ''9'' 9 1250, books_trade 7 1 ''10'' 33 (- 2000)}"
proof -
  have "set (analytics_trades books_env books (books_account 1 7) None None) = set (filter (\<lambda>t. tr_account_id t = 1) (kd_trades (hd_core books)))"
    by (simp add: analytics_trades_def list_trade_rows_for_analytics_def oldest_first_def in_window_def resolve_date_window_def books_account_def new_account_def)
  then show ?thesis by (auto simp: books_def books_trade_def stored_trade_def)
qed

theorem figures_agree_witness:
  "\<exists>s points. get_analytics_summary books_env books 1 7 None None = Inr s \<and> get_analytics_equity_curve books_env books 1 7 None None = Inr points
    \<and> map fst points = [1, 2] \<and> fst (snd (last points)) = sm_total_net_pnl s"
proof -
  let ?x = "books_account 1 7" and ?ts = "analytics_trades books_env books (books_account 1 7) None None"
  obtain s where s: "get_analytics_summary books_env books 1 7 None None = Inr s" by (simp add: get_analytics_summary_def books_404)
  obtain points where p: "get_analytics_equity_curve books_env books 1 7 None None = Inr points" "points = equity_points books_env (ta_timezone ?x) ?ts"
    by (simp add: get_analytics_equity_curve_def books_404)
  obtain b where b: "get_analytics_dashboard books_env books (Some 1) 7 None None 5 False = Inr b"
    by (simp add: get_analytics_dashboard_def books_404 Let_def)
  obtain days where days: "get_analytics_intraday_curves books_env books 1 7 None None = Inr days"
    by (simp add: get_analytics_intraday_curves_def books_404)
  have "map fst points = map fst (map (\<lambda>(day, c, v). (day, v)) points)" by (simp add: case_prod_unfold comp_def)
  also have "\<dots> = sorted_list_of_set (local_day books_env (ta_timezone ?x) ` {books_trade 5 1 ''9'' 9 1250, books_trade 7 1 ''10'' 33 (- 2000)})"
    unfolding p(2) equity_days by (simp add: comp_def books_trades)
  also have "\<dots> = [1, 2]"
    by (simp add: local_day_def to_account_local_date_def books_env_def books_trade_def stored_trade_def seconds_def)
  finally have "map fst points = [1, 2]" .
  moreover from this have "points \<noteq> []" by auto
  ultimately show ?thesis using figures_agree [OF books_ok books_amounts s p(1) b days] s p(1) by auto
qed

section \<open>Drawdown\<close>

text \<open>
  Property C39. The maximal drawdown of the summary, which one pass keeps as the fall below the highest running sum so
  far, is the deepest fall there is: the largest difference between the profit added up to one trade and that added
  up to a later one.
\<close>

theorem drawdown_is_deepest_fall:
  assumes "journal_ok d" "amounts d < 10 ^ 26" "get_account_or_404 d a u = Inr x"
  shows "map_Inr sm_max_drawdown (get_analytics_summary env d a u from until)
    = Inr (to_float (deepest_fall (nets (analytics_trades env d x from until))))"
  using drawdown_exact [OF exact_analytics [OF assms(1,2)]] assms(3)
  by (simp add: get_analytics_summary_def compute_summary_def Let_def max_drawdown_def)

theorem drawdown_is_deepest_fall_witness:
  "map_Inr sm_max_drawdown (get_analytics_summary books_env books 1 7 None None)
    = Inr (to_float (deepest_fall (nets (analytics_trades books_env books (books_account 1 7) None None))))"
  by (rule drawdown_is_deepest_fall [OF books_ok books_amounts books_404])

section \<open>Hours and weekdays\<close>

lemma two_digits_inj: "distinct (map two_digits [0..<24])"
  by code_simp

lemma hour_range: "0 \<le> hour_of w \<and> hour_of w < 24"
  by (simp add: hour_of_def)

lemma hour_bucket_iff: "h < 24 \<Longrightarrow> hour_bucket w = two_digits h \<longleftrightarrow> hour_of w = int h"
proof -
  assume "h < 24"
  moreover have "nat (hour_of w) < 24" using hour_range [of w] by linarith
  ultimately have "two_digits (nat (hour_of w)) = two_digits h \<longrightarrow> nat (hour_of w) = h" using two_digits_inj \<open>h < 24\<close> unfolding distinct_map inj_on_def by simp
  then show ?thesis using hour_range [of w] by (auto simp: hour_bucket_def)
qed

lemma weekday_in: "weekday_bucket w \<in> set weekday_order"
proof -
  have "nat ((day_of_utc w + 3) mod 7) < length weekday_order"
    using pos_mod_bound [of 7 "day_of_utc w + 3"] by (simp add: weekday_order_def nat_less_iff)
  then show ?thesis unfolding weekday_bucket_def by (rule nth_mem)
qed

text \<open>
  Property C40. The performance by hour has a bucket for each hour of the day, made of the trades that opened, or
  closed, in that hour of the account's clock and of no other; every trade is counted in one hour and in one weekday.
\<close>

theorem time_performance_parts:
  assumes "get_analytics_time_performance env d a u from until by_open = Inr (hours, days)" "get_account_or_404 d a u = Inr x"
    "ts = analytics_trades env d x from until"
  shows "hours = map (\<lambda>h. build_point (two_digits h) (filter (\<lambda>t. hour_of (basis_wall env (ta_timezone x) by_open t) = int h) ts)) [0..<24]
    \<and> sum_list (map tp_trade_count hours) = length ts \<and> sum_list (map tp_trade_count days) = length ts"
proof -
  let ?w = "basis_wall env (ta_timezone x) by_open"
  have h: "hours = map (\<lambda>h. build_point (two_digits h) (filter (\<lambda>t. hour_bucket (?w t) = two_digits h) ts)) [0..<24]"
    and days: "days = map (\<lambda>w. build_point w (filter (\<lambda>t. weekday_bucket (?w t) = w) ts)) weekday_order"
    using assms by (simp_all add: get_analytics_time_performance_def compute_time_performance_def Let_def group_of_group_by)
  have hours: "hours = map (\<lambda>h. build_point (two_digits h) (filter (\<lambda>t. hour_of (?w t) = int h) ts)) [0..<24]"
    unfolding h by (simp add: hour_bucket_iff)
  have "sum_list (map tp_trade_count hours) = sum_list (map (\<lambda>k. length (filter (\<lambda>t. nat (hour_of (?w t)) = k) ts)) [0..<24])"
    unfolding hours map_map by (rule arg_cong [where f = sum_list], rule map_cong, rule refl)
      (use hour_range in \<open>auto simp: build_point_def intro!: arg_cong [where f = length] filter_cong\<close>)
  also have "\<dots> = length ts" using hour_range by (intro filter_counts_list) (auto simp: nat_less_iff)
  finally have "sum_list (map tp_trade_count hours) = length ts" .
  moreover have "sum_list (map tp_trade_count days) = length ts"
    using filter_counts_list [of weekday_order "\<lambda>t. weekday_bucket (?w t)" ts] weekday_in
    by (simp add: days build_point_def comp_def) (auto simp: weekday_order_def)
  ultimately show ?thesis using hours by blast
qed

theorem time_performance_parts_witness:
  "\<exists>hours days. get_analytics_time_performance books_env books 1 7 None None False = Inr (hours, days)
    \<and> sum_list (map tp_trade_count hours) = 2 \<and> sum_list (map tp_trade_count days) = 2"
proof -
  obtain hours days where r: "get_analytics_time_performance books_env books 1 7 None None False = Inr (hours, days)"
    by (cases "get_analytics_time_performance books_env books 1 7 None None False")
      (auto simp: get_analytics_time_performance_def books_404)
  have "length (analytics_trades books_env books (books_account 1 7) None None) = 2" by code_simp
  with time_performance_parts [OF r books_404 refl] r show ?thesis by auto
qed

section \<open>The curve with both granularities\<close>

lemma ticket_order_perm: "mset (ticket_order env ts) = mset ts"
  by (simp add: ticket_order_def sorted_by_def)

text \<open>
  The daily curve of the newer endpoint, which orders the trades by ticket and not by identifier, is that
  of the older one behind a point for the day before, which stands at zero.
\<close>

theorem daily_curves_agree:
  assumes "journal_ok d" "amounts d < 10 ^ 26"
    and "get_analytics_curve env d a u from until ''daily'' = Inr (Inl ps)" "get_analytics_equity_curve env d a u from until = Inr points"
  shows "map (\<lambda>p. (dp_date p, dp_cumulative_pnl p, dp_daily_pnl p)) (filter (\<lambda>p. \<not> dp_is_baseline p) ps) = map (\<lambda>(day, c, v). (day, c, Some v)) points
    \<and> map (\<lambda>p. (dp_date p, dp_cumulative_pnl p, dp_daily_pnl p)) (filter dp_is_baseline ps)
      = (case points of [] \<Rightarrow> [] | p # _ \<Rightarrow> [(fst p - 1, 0, None)])"
proof -
  obtain x where x: "get_account_or_404 d a u = Inr x" using assms(4) by (auto simp: get_analytics_equity_curve_def map_Inr_eq)
  let ?zone = "ta_timezone x"
  define rows where "rows = filter (\<lambda>t. tr_account_id t = a \<and> in_window (resolve_date_window env from until ?zone) t) (kd_trades (hd_core d))"
  have e: "exact (nets rows)" unfolding rows_def by (rule exact_window [OF assms(1,2)])
  have "mset (analytics_trades env d x from until) = mset (ticket_order env rows)"
    using account_id_404 [OF x] by (simp add: analytics_trades_def list_trade_rows_for_analytics_def oldest_first_perm ticket_order_perm rows_def)
  then have "sort_key fst (pnl_by (local_day env ?zone) (analytics_trades env d x from until)) = sort_key fst (pnl_by (local_day env ?zone) (ticket_order env rows))"
    using exact_analytics [OF assms(1,2)] by (rule pnl_perm)
  then have p: "points = equity_points env ?zone (ticket_order env rows)"
    using assms(4) x by (simp add: get_analytics_equity_curve_def equity_points_def)
  have "ps = build_daily_curve env ?zone (ticket_order env rows)"
    using assms(3) x by (auto simp: get_analytics_curve_def rows_def Let_def split: if_splits)
  then show ?thesis unfolding p
    by (cases "equity_points env ?zone (ticket_order env rows)")
      (auto simp: build_daily_curve_def Let_def case_prod_unfold comp_def filter_empty_conv)
qed

theorem daily_curves_agree_witness:
  "\<exists>ps points. get_analytics_curve books_env books 1 7 None None ''daily'' = Inr (Inl ps) \<and> get_analytics_equity_curve books_env books 1 7 None None = Inr points
    \<and> map (\<lambda>p. (dp_date p, dp_cumulative_pnl p, dp_daily_pnl p)) (filter (\<lambda>p. \<not> dp_is_baseline p) ps) = map (\<lambda>(day, c, v). (day, c, Some v)) points"
proof -
  obtain points where p: "get_analytics_equity_curve books_env books 1 7 None None = Inr points" by (simp add: get_analytics_equity_curve_def books_404)
  have "\<not> list_ex ticket_overflows (filter (\<lambda>t. tr_account_id t = 1 \<and> in_window w t) (kd_trades (hd_core books)))" for w
    by (auto simp: list_ex_iff books_def books_trade_def stored_trade_def ticket_overflows_def numeric_ticket_def is_digit_def read_nat_def digit_value_def)
  then obtain ps where "get_analytics_curve books_env books 1 7 None None ''daily'' = Inr (Inl ps)"
    by (simp add: get_analytics_curve_def books_404 Let_def)
  with daily_curves_agree [OF books_ok books_amounts this p] p show ?thesis by blast
qed

end
