(* ===== verification/Spec2Isabelle.thy ===== *)
theory Spec2Isabelle
  imports Signal_Invariant Quality Risk Reconciliation Health Delivery Execution_Examples Billing_Properties Desk_Examples
    Auth_Security Origins Connections_Properties Account_Properties Journal_Figures
begin

text \<open>
  SignalSync copies trades from Telegram channels to the broker accounts of its users, and keeps a journal
  of the trades on them. This development models its copy-trading core
  (\<^verbatim>\<open>src/src/app/domains/copy_trading\<close>), the users with their sessions (\<^verbatim>\<open>auth\<close>, \<^verbatim>\<open>users\<close>, \<^verbatim>\<open>admin\<close>), the
  subscriptions that pay for it (\<^verbatim>\<open>billing\<close>), the affiliate programme (\<^verbatim>\<open>affiliates\<close>), the accounts of the
  journal with their synchronisation and imports (\<^verbatim>\<open>accounts\<close>, \<^verbatim>\<open>csv_import\<close>) and the journal with its statistics
  (\<^verbatim>\<open>journal\<close>), and proves what makes them correct.

  The program. Users connect broker accounts and create routes from a Telegram source to an account
  (\<^verbatim>\<open>service.py\<close>, \<^verbatim>\<open>repository.py\<close>, \<^verbatim>\<open>schemas.py\<close>); a worker provisions the accounts at the provider MetaApi
  (\<^verbatim>\<open>metaapi_jobs.py\<close>, \<^verbatim>\<open>metaapi_provisioning.py\<close>). Messages arrive on a Redis stream (\<^verbatim>\<open>streams.py\<close>,
  \<^verbatim>\<open>delivery.py\<close>, \<^verbatim>\<open>worker_runtime.py\<close>). The signal worker (\<^verbatim>\<open>workers.py\<close>) attaches a message to a conversation
  (\<^verbatim>\<open>assembly.py\<close>), merges it into a generation per route (\<^verbatim>\<open>generations.py\<close>), validates it (\<^verbatim>\<open>engine.py\<close>), sizes
  it and checks the limits of the account (\<^verbatim>\<open>execution.py\<close>), stores trade intents and publishes them. The
  execution worker (\<^verbatim>\<open>metaapi_execution.py\<close>, \<^verbatim>\<open>metaapi_broker.py\<close>) checks an intent again, against the quote
  (\<^verbatim>\<open>quality.py\<close>) and the symbols (\<^verbatim>\<open>symbols.py\<close>) of the broker, submits it, reconciles uncertain ones
  (\<^verbatim>\<open>reconciliation.py\<close>) and closes trades in emergencies. Health and telemetry (\<^verbatim>\<open>health.py\<close>,
  \<^verbatim>\<open>telemetry.py\<close>) report on all of it. The connections to MetaApi are kept open between runs
  (\<^verbatim>\<open>metaapi_connections.py\<close>).

  A request carries an access token and a refresh cookie, which \<^verbatim>\<open>auth/service.py\<close> issues, rotates and
  revokes and \<^verbatim>\<open>shared/deps.py\<close> checks; \<^verbatim>\<open>auth/router.py\<close> checks the origin of a browser. For the journal a user
  connects an MT5 account (\<^verbatim>\<open>accounts/service.py\<close>); the worker (\<^verbatim>\<open>tasks/journal_sync_tasks.py\<close>) verifies it,
  imports its history and releases its statistics; later synchronisations (\<^verbatim>\<open>accounts/sync.py\<close>,
  \<^verbatim>\<open>accounts/sync_orchestrator.py\<close>) follow the history of the broker, and reports of MetaTrader are imported
  from files (\<^verbatim>\<open>csv_import\<close>). On these trades the user writes messages and notes, rates, tags and reviews them
  (\<^verbatim>\<open>journal/service\<close>, \<^verbatim>\<open>journal/repository.py\<close>, with files through \<^verbatim>\<open>shared/utils/storage.py\<close>), and reads figures and
  curves computed from them (\<^verbatim>\<open>journal/service/_analytics.py\<close>).

  The theories.
  \<^item> \<open>Prelude\<close>: Python values and dictionaries, strings, decimal arithmetic, identifiers, exceptions as the
    left side of a sum, and the locales \<open>invariant_system\<close> and \<open>forward_simulation\<close>. \<open>Tables\<close>: rows of a table
    and the locales \<open>keyed_table\<close> and \<open>modified_table\<close>; \<open>Models\<close>: the tables of \<^verbatim>\<open>models.py\<close> and the database.
  \<^item> \<open>Engine\<close>, \<open>Symbols\<close>, \<open>Risk\<close>, \<open>Quality\<close>, \<open>Assembly\<close>, \<open>Generations\<close>, \<open>Reconciliation\<close>, \<open>Health\<close>: the pure
    components of the files above, one theory each (\<open>Risk\<close> is \<^verbatim>\<open>execution.py\<close>).
  \<^item> \<open>Streams\<close> and \<open>Delivery\<close>: events and their fields, the executor that serialises work per key, and
    the stream worker with its deduplication, attempts and dead letters.
  \<^item> \<open>Signal_Handler\<close>: the signal worker; \<open>Signal_Proofs\<close>, \<open>Signal_Properties\<close> and \<open>Signal_Invariant\<close>: what it
    stores and publishes, under which checks, and the invariant of its tables.
  \<^item> \<open>Execution\<close>: the execution worker; \<open>Execution_Proofs\<close>, \<open>Execution_Properties\<close>, \<open>Execution_Sweeps\<close> and
    \<open>Execution_Examples\<close>: the life of an intent as an abstract machine the worker refines, at most one
    broker call for an intent, the checks in front of a call, emergencies and reconciliation.
  \<^item> \<open>Entitlements\<close>, \<open>Billing\<close>, \<open>Billing_Invariant\<close>, \<open>Billing_Properties\<close>: plans, the catalogue, webhooks,
    checkouts and plan changes. \<open>Affiliates\<close> and \<open>Affiliate_Ledger\<close>: referrals and commissions.
  \<^item> \<open>Routes\<close>: the requests of the control plane; \<open>Provisioning\<close>, \<open>Provisioning_Proofs\<close> and
    \<open>Provisioning_Properties\<close>: the provisioning worker; \<open>Desk\<close>, \<open>Desk_Properties\<close> and \<open>Desk_Examples\<close>: the
    invariant of accounts, policies and routes over all requests and worker steps, isolation of users,
    the limit of accounts, pausing and resuming.
  \<^item> \<open>Connections\<close> and \<open>Connections_Properties\<close>: the manager of streaming connections under every
    interleaving of its coroutines.
  \<^item> \<open>Auth\<close>, \<open>Users\<close> and \<open>Auth_Steps\<close>: the users, their tokens, profiles and administration as operations and
    one step relation; \<open>Auth_Invariant\<close>, \<open>Auth_Properties\<close> and \<open>Auth_Security\<close>: their invariant and what
    tokens, passwords and roles allow. \<open>Origins\<close>: allowed origins, down to the splitting of URLs.
  \<^item> \<open>Trading_Accounts\<close>, \<open>Account_Sync\<close>, \<open>Account_Service\<close> and \<open>Account_Import\<close>: the tables of the journal, the
    reading of deals, the requests and tasks, and the import of reports; \<open>Account_Steps\<close> and
    \<open>Account_Invariant\<close>: all of them as one step relation, the small updates they are made of and the
    invariant these keep; \<open>Account_Mirror\<close> and \<open>Account_Properties\<close>: what a synchronisation and an import do to
    the trades, and which accounts are never made ready.
  \<^item> \<open>Uploads\<close>: the files a user sends; \<open>Journal_Tables\<close> and \<open>Journal_Service\<close>: the tables of the journal with their
    queries, and what a user does to them; \<open>Journal_Steps\<close>: all requests as one datatype, the step relation of the
    journal beside the accounts, whose a row is, the invariant, and the small updates requests are made of;
    \<open>Journal_Updates\<close>, \<open>Journal_Isolation\<close>, \<open>Journal_Requests\<close> and \<open>Journal_Invariant\<close>: these keep the invariant and the
    rows of other users, and every request consists of them. \<open>Floats\<close>: Python's floats and the rounding of decimals;
    \<open>Journal_Views\<close> and \<open>Journal_Analytics\<close>: lists of trades, the page of a day and the statistics; \<open>Journal_Totals\<close>: sums
    of cents are exact, and groups part the trades; \<open>Journal_Properties\<close> and \<open>Journal_Figures\<close>: the invariant, privacy,
    notes, and the agreement of the figures.

  Correspondence. A mapped class is a record of its columns, a session a record holding the database, a
  transaction a function that returns the committed database or an exception and then nothing stored.
  A \<^verbatim>\<open>datetime\<close> is a number of microseconds, a \<^verbatim>\<open>Decimal\<close> a rational or a coefficient with its exponent,
  a \<^verbatim>\<open>uuid\<close> a 128-bit word. Clocks, random identifiers, the MetaApi SDK, the billing provider, the
  language model, hashes, encryption and parsers of third parties are arguments; hypotheses about them are
  stated where they are used. A clock is read once per run of a handler. Handlers run one after the other
  except where a property says otherwise: the executor is modelled with every interleaving of its threads,
  and the theorem \<open>overlapping_runs_submit_twice\<close> runs the execution worker twice at a time. Loops recurse
  over the lists they walk, so that there is no fuel; the attempts of a worker, the seven days a key is
  remembered and the limits of schemas are the constants of the code.

  What the lemmas show. Safety of trading: the properties of \<open>Execution_Properties\<close>, \<open>Signal_Properties\<close> and
  \<open>Execution_Sweeps\<close>. Delivery: nothing is lost or handled twice, and work is done (\<open>Delivery\<close>). Data: the
  invariants of the signal tables, of billing, of the control plane, of users and tokens, of connections and
  of the accounts and the tables of the journal, each an interpretation of \<open>invariant_system\<close> on its step relation. Pure components: equivalence with a specification, bounds, round
  trips and error behaviour. Some theorems state what the code does where it does not do what it means
  to: \<open>overlapping_runs_submit_twice\<close>, \<open>final_intents_never_change\<close>, \<open>reconcile_copied_trades_all_or_nothing\<close>,
  \<open>retry_reaches_no_worker\<close>, \<open>outage_pause_loses_activation\<close>, \<open>payment_failure_opens_grace\<close>,
  \<open>policy_symbols_correct\<close>, \<open>checkout_created_once\<close>, \<open>dashboard_balances\<close>, \<open>reset_leaves_sessions_open\<close>,
  \<open>close_during_opening_leaks\<close>, \<open>resync_never_repairs\<close>, \<open>burst_limit_counts_accounts\<close> and
  \<open>rated_first_stays_outside\<close>. That figures agree is proved for amounts in cents that add up to less than 10^26, the
  bound under which 28 decimal digits hold every sum; floats are rationals of 53 binary digits without infinities.

  Not modelled. The Telegram sessions and their runtime, the parser of texts and the prompts (a parsed
  message is a parameter of the signal worker), the thread that runs the event loop of the connections, the
  client of the MT5 service (its answers are parameters of the tasks), the endpoints that only list or count
  rows, signal reviews, operator tools, notifications beyond the rows stored, the open positions the journal shows,
  and the other domains: the assistant and demonstration data. The deletion of a user with all the rows is not a step
  of the journal, and a new identifier is assumed never to have been in use. Display columns and JSON
  details are left out of the tables, as are the e-mails that are queued and the counters in Redis. Errors of
  the database other than violated constraints are left out.
\<close>

end
